(* ===== verification/Prelude.thy ===== *)
theory Prelude
  imports Complex_Main "HOL-Library.Product_Lexorder" "HOL-Library.Option_ord"
begin

text \<open>
  Shared vocabulary of the development.  It holds the error monad in which the lifecycle
  transactions are written, the list-backed tables that stand for the SQLAlchemy tables, the
  row selection used for \<^verbatim>\<open>ORDER BY ... LIMIT 1\<close> queries, the string operations of Python that
  the code uses, and the collections of rewrite rules the component proofs are built on.

  Strings are Isabelle strings, that is lists of 8-bit characters; a string of the model is a
  Python string over the first 256 code points and the character classes below are exact on them.
\<close>

named_theorems result_simps \<open>rules that take a successful run of the error monad apart\<close>
named_theorems table_simps \<open>lookups after inserts and updates of the catalog tables\<close>
named_theorems keep_simps \<open>what a catalog update leaves unchanged\<close>

type_synonym uuid = nat
type_synonym timestamp = int

section \<open>Results\<close>

definition rbind :: "'e + 'a \<Rightarrow> ('a \<Rightarrow> 'e + 'b) \<Rightarrow> 'e + 'b" where
  "rbind m f = (case m of Inl e \<Rightarrow> Inl e | Inr x \<Rightarrow> f x)"

lemma rbind_Inl [simp]: "rbind (Inl e) f = Inl e"
  by (simp add: rbind_def)

lemma rbind_Inr [simp]: "rbind (Inr x) f = f x"
  by (simp add: rbind_def)

lemma rbind_eq_Inr [result_simps]:
  "rbind m f = Inr y \<longleftrightarrow> (\<exists>x. m = Inr x \<and> f x = Inr y)"
  by (cases m) auto

lemma rbind_eq_Inl:
  "rbind m f = Inl e \<longleftrightarrow> m = Inl e \<or> (\<exists>x. m = Inr x \<and> f x = Inl e)"
  by (cases m) auto

lemma if_Inl_eq_Inr [result_simps]:
  "(if b then Inl e else m) = Inr y \<longleftrightarrow> \<not> b \<and> m = Inr y"
  by auto

lemma if_Inr_else_Inl_eq_Inr [result_simps]:
  "(if b then m else Inl e) = Inr y \<longleftrightarrow> b \<and> m = Inr y"
  by auto

lemma option_Inl_eq_Inr [result_simps]:
  "(case x of None \<Rightarrow> Inl e | Some a \<Rightarrow> f a) = Inr y \<longleftrightarrow> (\<exists>a. x = Some a \<and> f a = Inr y)"
  by (cases x) auto

section \<open>Effects\<close>

text \<open>
  A computation that changes a state and may raise.  Unlike a transaction, an exception leaves the
  effects that came before it in place.
\<close>

type_synonym ('s, 'e, 'a) io = "'s \<Rightarrow> ('e + 'a) \<times> 's"

definition iret :: "'a \<Rightarrow> ('s, 'e, 'a) io" where
  "iret x s = (Inr x, s)"

definition iraise :: "'e \<Rightarrow> ('s, 'e, 'a) io" where
  "iraise e s = (Inl e, s)"

definition ibind :: "('s, 'e, 'a) io \<Rightarrow> ('a \<Rightarrow> ('s, 'e, 'b) io) \<Rightarrow> ('s, 'e, 'b) io" where
  "ibind m f s = (case m s of (Inl e, s') \<Rightarrow> (Inl e, s') | (Inr x, s') \<Rightarrow> f x s')"

lemma ibind_eq_Inr [result_simps]:
  "ibind m f s = (Inr y, t) \<longleftrightarrow> (\<exists>x s'. m s = (Inr x, s') \<and> f x s' = (Inr y, t))"
  by (auto simp: ibind_def split: prod.splits sum.splits)

lemma iret_eq_Inr [result_simps]: "iret x s = (Inr y, t) \<longleftrightarrow> y = x \<and> t = s"
  by (auto simp: iret_def)

lemma iraise_eq_Inr [result_simps]: "iraise e s = (Inr y, t) \<longleftrightarrow> False"
  by (simp add: iraise_def)

text \<open>
  What holds before a computation and is kept by each of its parts holds after it, whether it
  returned or raised.
\<close>

definition keeps :: "('s \<Rightarrow> bool) \<Rightarrow> ('s, 'e, 'a) io \<Rightarrow> bool" where
  "keeps P m \<longleftrightarrow> (\<forall>s. P s \<longrightarrow> P (snd (m s)))"

lemma keepsD: "keeps P m \<Longrightarrow> P s \<Longrightarrow> P (snd (m s))"
  by (simp add: keeps_def)

lemma keeps_iret [intro]: "keeps P (iret x)"
  by (simp add: keeps_def iret_def)

lemma keeps_iraise [intro]: "keeps P (iraise e)"
  by (simp add: keeps_def iraise_def)

lemma keeps_ibind [intro]:
  assumes "keeps P m" and "\<And>x. keeps P (f x)"
  shows "keeps P (ibind m f)"
  unfolding keeps_def
proof (intro allI impI)
  fix s assume "P s"
  then have "P (snd (m s))"
    by (rule keepsD [OF assms(1)])
  then show "P (snd (ibind m f s))"
    using keepsD [OF assms(2)] by (cases "m s") (auto simp: ibind_def split: sum.splits)
qed

lemma keeps_if [intro]: "keeps P m \<Longrightarrow> keeps P m' \<Longrightarrow> keeps P (if b then m else m')"
  by simp

section \<open>Tables\<close>

text \<open>
  A table is the list of its rows in insertion order.  \<open>tget\<close> is \<^verbatim>\<open>session.get\<close> or a query on a
  unique column, \<open>tupd\<close> assigns to attributes of the row with the given key, \<open>tadd\<close> is
  \<^verbatim>\<open>session.add\<close>.
\<close>

definition tget :: "('r \<Rightarrow> 'k) \<Rightarrow> 'k \<Rightarrow> 'r list \<Rightarrow> 'r option" where
  "tget key k t = find (\<lambda>r. key r = k) t"

definition tupd :: "('r \<Rightarrow> 'k) \<Rightarrow> 'k \<Rightarrow> ('r \<Rightarrow> 'r) \<Rightarrow> 'r list \<Rightarrow> 'r list" where
  "tupd key k f t = map (\<lambda>r. if key r = k then f r else r) t"

definition tadd :: "'r \<Rightarrow> 'r list \<Rightarrow> 'r list" where
  "tadd r t = t @ [r]"

lemma tget_Some_key: "tget key k t = Some r \<Longrightarrow> key r = k"
  by (auto simp: tget_def find_Some_iff)

lemma tget_Some_mem: "tget key k t = Some r \<Longrightarrow> r \<in> set t"
  by (auto simp: tget_def find_Some_iff in_set_conv_nth)

lemma tget_None_iff: "tget key k t = None \<longleftrightarrow> k \<notin> key ` set t"
  by (auto simp: tget_def find_None_iff)

lemma tget_mem:
  assumes "distinct (map key t)" and "r \<in> set t"
  shows "tget key (key r) t = Some r"
  using assms by (induction t) (auto simp: tget_def)

lemma tget_tupd [table_simps]:
  assumes "\<And>r. key (f r) = key r"
  shows "tget key k (tupd key k' f t) =
     (if k = k' then map_option f (tget key k t) else tget key k t)"
  using assms by (induction t) (auto simp: tget_def tupd_def)

lemma tget_tadd [table_simps]:
  "tget key k (tadd r t) =
     (case tget key k t of Some x \<Rightarrow> Some x | None \<Rightarrow> if key r = k then Some r else None)"
  by (induction t) (auto simp: tget_def tadd_def)

lemma tget_Nil [simp]: "tget key k [] = None"
  by (simp add: tget_def)

lemma map_key_tupd:
  "(\<And>r. key' (f r) = key' r) \<Longrightarrow> map key' (tupd key k f t) = map key' t"
  by (induction t) (auto simp: tupd_def)

lemma set_tadd [simp]: "set (tadd r t) = insert r (set t)"
  by (auto simp: tadd_def)

lemma set_tupd: "set (tupd key k f t) = (\<lambda>r. if key r = k then f r else r) ` set t"
  by (simp add: tupd_def)

lemma ball_tupd:
  assumes "\<And>r. r \<in> set t \<Longrightarrow> key r = k \<Longrightarrow> P (f r)"
    and "\<And>r. r \<in> set t \<Longrightarrow> key r \<noteq> k \<Longrightarrow> P r"
  shows "\<forall>r\<in>set (tupd key k f t). P r"
  using assms by (auto simp: set_tupd)

lemma filter_tupd:
  assumes "\<And>r. P (f r) = P r"
  shows "filter P (tupd key k f t) = tupd key k f (filter P t)"
  using assms by (induction t) (auto simp: tupd_def)

section \<open>Row selection\<close>

text \<open>The row an \<^verbatim>\<open>ORDER BY key DESC\<close> query returns first, and the \<^verbatim>\<open>ASC\<close> one.\<close>

fun max_by :: "('r \<Rightarrow> 'o::linorder) \<Rightarrow> 'r list \<Rightarrow> 'r option" where
  "max_by key [] = None"
| "max_by key (x # xs) =
     (case max_by key xs of None \<Rightarrow> Some x | Some y \<Rightarrow> if key x < key y then Some y else Some x)"

fun min_by :: "('r \<Rightarrow> 'o::linorder) \<Rightarrow> 'r list \<Rightarrow> 'r option" where
  "min_by key [] = None"
| "min_by key (x # xs) =
     (case min_by key xs of None \<Rightarrow> Some x | Some y \<Rightarrow> if key y < key x then Some y else Some x)"

lemma max_by_mem: "max_by key xs = Some x \<Longrightarrow> x \<in> set xs"
  by (induction xs arbitrary: x) (auto split: option.splits if_splits)

lemma min_by_mem: "min_by key xs = Some x \<Longrightarrow> x \<in> set xs"
  by (induction xs arbitrary: x) (auto split: option.splits if_splits)

lemma max_by_None_iff [simp]: "max_by key xs = None \<longleftrightarrow> xs = []"
  by (cases xs) (auto split: option.splits)

lemma min_by_None_iff [simp]: "min_by key xs = None \<longleftrightarrow> xs = []"
  by (cases xs) (auto split: option.splits)

lemma max_by_greatest: "max_by key xs = Some x \<Longrightarrow> y \<in> set xs \<Longrightarrow> key y \<le> key x"
  by (induction xs arbitrary: x y) (fastforce split: option.splits if_splits)+

lemma min_by_least: "min_by key xs = Some x \<Longrightarrow> y \<in> set xs \<Longrightarrow> key x \<le> key y"
  by (induction xs arbitrary: x y) (fastforce split: option.splits if_splits)+

section \<open>UUIDs\<close>

text \<open>
  A UUID is its 128-bit integer value; \<^verbatim>\<open>str(value)\<close> is its 32 hexadecimal digits in groups of
  8, 4, 4, 4 and 12.  UUIDs compare like their values, and so do their texts.
\<close>

definition hex_digit :: "nat \<Rightarrow> char" where
  "hex_digit n = ''0123456789abcdef'' ! n"

fun hex_digits :: "nat \<Rightarrow> nat \<Rightarrow> string" where
  "hex_digits 0 n = []"
| "hex_digits (Suc k) n = hex_digits k (n div 16) @ [hex_digit (n mod 16)]"

definition uuid_str :: "uuid \<Rightarrow> string" where
  "uuid_str u = (let h = hex_digits 32 u in
     take 8 h @ ''-'' @ take 4 (drop 8 h) @ ''-'' @ take 4 (drop 12 h) @ ''-''
       @ take 4 (drop 16 h) @ ''-'' @ drop 20 h)"

lemma hex_digit_inj:
  assumes "hex_digit a = hex_digit b" and "a < 16" and "b < 16"
  shows "a = b"
proof -
  have "distinct ''0123456789abcdef''"
    by simp
  then show ?thesis
    using assms nth_eq_iff_index_eq [of "''0123456789abcdef''" a b] by (simp add: hex_digit_def)
qed

lemma length_hex_digits [simp]: "length (hex_digits k n) = k"
  by (induction k arbitrary: n) auto

lemma hex_digits_inj:
  assumes "hex_digits k a = hex_digits k b" and "a < 16 ^ k" and "b < 16 ^ k"
  shows "a = b"
  using assms
proof (induction k arbitrary: a b)
  case (Suc k)
  have "a div 16 = b div 16"
    using Suc.IH [of "a div 16" "b div 16"] Suc.prems by (simp add: less_mult_imp_div_less mult.commute)
  moreover have "a mod 16 = b mod 16"
    using Suc.prems(1) by (intro hex_digit_inj) auto
  ultimately show ?case
    by (metis div_mult_mod_eq)
qed simp

lemma uuid_str_inj:
  assumes "uuid_str a = uuid_str b" and "a < 2 ^ 128" and "b < 2 ^ 128"
  shows "a = b"
proof -
  let ?h = "hex_digits 32 a" and ?g = "hex_digits 32 b"
  have parts: "take 8 ?h = take 8 ?g" "take 4 (drop 8 ?h) = take 4 (drop 8 ?g)"
    "take 4 (drop 12 ?h) = take 4 (drop 12 ?g)" "take 4 (drop 16 ?h) = take 4 (drop 16 ?g)"
    "drop 20 ?h = drop 20 ?g"
    using assms(1) by (auto simp: uuid_str_def Let_def append_eq_append_conv simp del: hex_digits.simps)
  have glue: "h = take 8 h @ take 4 (drop 8 h) @ take 4 (drop 12 h) @ take 4 (drop 16 h) @ drop 20 h"
    for h :: string
  proof -
    have step: "drop n h = take 4 (drop n h) @ drop (n + 4) h" for n
      by (metis append_take_drop_id drop_drop add.commute)
    show ?thesis
      using step [of 8] step [of 12] step [of 16] append_take_drop_id [of 8 h] by simp
  qed
  have "?h = ?g"
    by (subst glue, subst (2) glue) (simp only: parts)
  then show ?thesis
    using assms(2,3) by (intro hex_digits_inj [of 32]) auto
qed

section \<open>Python strings\<close>

text \<open>\<^verbatim>\<open>str.isspace\<close> and \<^verbatim>\<open>str.isprintable\<close> on one character of the first 256 code points.\<close>

definition char_code :: "char \<Rightarrow> nat" where
  "char_code c = of_char c"

definition py_isspace :: "char \<Rightarrow> bool" where
  "py_isspace c = (let n = char_code c in
     (9 \<le> n \<and> n \<le> 13) \<or> (28 \<le> n \<and> n \<le> 32) \<or> n = 133 \<or> n = 160)"

definition py_isprintable :: "char \<Rightarrow> bool" where
  "py_isprintable c = (let n = char_code c in
     (32 \<le> n \<and> n \<le> 126) \<or> (161 \<le> n \<and> n \<noteq> 173))"

text \<open>\<^verbatim>\<open>str.split()\<close>: the maximal runs of non-whitespace characters.\<close>

fun py_split_acc :: "string \<Rightarrow> string \<Rightarrow> string list" where
  "py_split_acc acc [] = (if acc = [] then [] else [acc])"
| "py_split_acc acc (c # cs) =
     (if py_isspace c then (if acc = [] then [] else [acc]) @ py_split_acc [] cs
      else py_split_acc (acc @ [c]) cs)"

definition py_split :: "string \<Rightarrow> string list" where
  "py_split s = py_split_acc [] s"

fun py_join :: "string \<Rightarrow> string list \<Rightarrow> string" where
  "py_join sep [] = []"
| "py_join sep [x] = x"
| "py_join sep (x # y # ys) = x @ sep @ py_join sep (y # ys)"

definition py_lower :: "string \<Rightarrow> string" where
  "py_lower s = map (\<lambda>c. let n = char_code c in
     if (65 \<le> n \<and> n \<le> 90) \<or> (192 \<le> n \<and> n \<le> 222 \<and> n \<noteq> 215) then char_of (n + 32) else c) s"

text \<open>\<^verbatim>\<open>str.casefold\<close> on the first 256 code points: the sharp s grows.  The micro sign, whose fold lies
  outside that range, is kept.\<close>

definition casefold :: "string \<Rightarrow> string" where
  "casefold s = concat (map (\<lambda>ch. if char_code ch = 223 then ''ss'' else py_lower [ch]) s)"

text \<open>\<^verbatim>\<open>str.strip()\<close> and the collapse of whitespace runs to one space.\<close>

definition py_strip :: "string \<Rightarrow> string" where
  "py_strip s = rev (dropWhile py_isspace (rev (dropWhile py_isspace s)))"

fun collapse_from :: "bool \<Rightarrow> string \<Rightarrow> string" where
  "collapse_from in_space [] = []"
| "collapse_from in_space (c # cs) =
     (if py_isspace c then (if in_space then [] else '' '') @ collapse_from True cs
      else c # collapse_from False cs)"

definition collapse_whitespace :: "string \<Rightarrow> string" where
  "collapse_whitespace s = collapse_from False s"

end
