(* ===== verification/Json.thy ===== *)
theory Json
  imports Prelude "HOL-Library.Char_ord" "HOL-Library.List_Lexorder"
begin

text \<open>
  The part of Python's \<^verbatim>\<open>json\<close> module the code relies on: JSON values, where a float is given by
  its \<^verbatim>\<open>repr\<close>, and the
  canonical serialisation \<^verbatim>\<open>json.dumps(..., sort_keys=True, separators=(",", ":"),
  ensure_ascii=False, allow_nan=False)\<close>, which request fingerprints and profile identities hash.
\<close>

datatype json =
  JNull
| JBool bool
| JInt int
| JFloat string
| JStr string
| JArr "json list"
| JObj "(string \<times> json) list"

fun nat_digits :: "nat \<Rightarrow> string" where
  "nat_digits n =
     (if n < 10 then [char_of (48 + n)] else nat_digits (n div 10) @ [char_of (48 + n mod 10)])"

declare nat_digits.simps [simp del]

definition int_str :: "int \<Rightarrow> string" where
  "int_str i = (if i < 0 then CHR ''-'' # nat_digits (nat (- i)) else nat_digits (nat i))"

text \<open>The escapes of the C encoder with \<^verbatim>\<open>ensure_ascii=False\<close>.\<close>

definition escape_char :: "char \<Rightarrow> string" where
  "escape_char c =
     (let n = char_code c in
      if n = 34 then [char_of (92::nat), char_of (34::nat)]
      else if n = 92 then [char_of (92::nat), char_of (92::nat)]
      else if n = 8 then char_of (92::nat) # ''b''
      else if n = 12 then char_of (92::nat) # ''f''
      else if n = 10 then char_of (92::nat) # ''n''
      else if n = 13 then char_of (92::nat) # ''r''
      else if n = 9 then char_of (92::nat) # ''t''
      else if n < 32 then char_of (92::nat) # ''u00'' @ [hex_digit (n div 16), hex_digit (n mod 16)]
      else [c])"

definition json_str :: "string \<Rightarrow> string" where
  "json_str s = [char_of (34::nat)] @ concat (map escape_char s) @ [char_of (34::nat)]"

fun dumps :: "json \<Rightarrow> string" where
  "dumps JNull = ''null''"
| "dumps (JBool b) = (if b then ''true'' else ''false'')"
| "dumps (JInt i) = int_str i"
| "dumps (JFloat s) = s"
| "dumps (JStr s) = json_str s"
| "dumps (JArr xs) = ''['' @ py_join '','' (map dumps xs) @ '']''"
| "dumps (JObj kvs) =
     ''{'' @ py_join '','' (map (\<lambda>(k, v). json_str k @ '':'' @ v)
        (sort_key fst (map (\<lambda>(k, v). (k, dumps v)) kvs))) @ ''}''"

text \<open>
  The serialisation does not depend on the order in which an object's members are written, as
  long as its keys are distinct (which they are in a Python dict).
\<close>

lemma sort_key_fst_unique:
  assumes "distinct (map fst xs)" and "set xs = set ys" and "distinct (map fst ys)"
  shows "sort_key fst xs = sort_key (fst :: 'a::linorder \<times> 'b \<Rightarrow> 'a) ys"
proof (rule map_sorted_distinct_set_unique [where f = fst])
  show "inj_on fst (set (sort_key fst xs) \<union> set (sort_key fst ys))"
    using assms by (simp add: distinct_map)
qed (use assms in \<open>auto simp: distinct_map\<close>)

lemma dumps_obj_order:
  assumes "distinct (map fst kvs)" and "distinct (map fst kvs')" and "set kvs = set kvs'"
  shows "dumps (JObj kvs) = dumps (JObj kvs')"
proof -
  let ?f = "\<lambda>(k, v). (k :: string, dumps v)"
  have fst_f: "fst \<circ> ?f = fst"
    by auto
  have "sort_key fst (map ?f kvs) = sort_key fst (map ?f kvs')"
    using assms by (intro sort_key_fst_unique) (simp_all add: fst_f)
  then show ?thesis
    by simp
qed

text \<open>What a successful match on one JSON constructor gives.\<close>

lemma case_JArr_Inr [result_simps]:
  "(case j of JArr xs \<Rightarrow> f xs | _ \<Rightarrow> Inl e) = Inr y \<longleftrightarrow> (\<exists>xs. j = JArr xs \<and> f xs = Inr y)"
  by (cases j) auto

lemma case_JObj_Inr [result_simps]:
  "(case j of JObj kvs \<Rightarrow> f kvs | _ \<Rightarrow> Inl e) = Inr y \<longleftrightarrow> (\<exists>kvs. j = JObj kvs \<and> f kvs = Inr y)"
  by (cases j) auto

lemma case_JStr_Inr [result_simps]:
  "(case j of JStr s \<Rightarrow> f s | _ \<Rightarrow> Inl e) = Inr y \<longleftrightarrow> (\<exists>s. j = JStr s \<and> f s = Inr y)"
  by (cases j) auto

lemma case_JInt_Inr [result_simps]:
  "(case j of JInt i \<Rightarrow> f i | _ \<Rightarrow> Inl e) = Inr y \<longleftrightarrow> (\<exists>i. j = JInt i \<and> f i = Inr y)"
  by (cases j) auto

end
