(* ===== verification/Catalog.thy ===== *)
theory Catalog
  imports Json
begin

text \<open>
  The catalog of \<^verbatim>\<open>pdf_bridge/persistence/models.py\<close>: its enumerations, one record per table, the
  catalog state that holds all tables, the queries and row updates the lifecycle code issues, the
  unique constraints an insert is checked against, the CHECK constraints of the schema as
  executable predicates, and the event listeners that make sealed and verified rows immutable.

  The bookkeeping column \<^verbatim>\<open>updated_at\<close> (rewritten by every UPDATE and read by no lifecycle code)
  and the foreign keys are left out.  Random UUIDs are drawn from \<open>uuid_supply\<close>, an arbitrary
  sequence, so nothing depends on their order.  Timestamps are UTC instants.
\<close>

section \<open>Enumerations\<close>

datatype document_state =
  PREFLIGHTING | PREFLIGHT_FAILED | REVIEW_REQUIRED | PUBLISHING | PUBLISH_FAILED | READY
| DELETING | DELETE_FAILED | REJECTED | CANCELLED | DELETED

datatype terminal_disposition = TD_CANCELLED | TD_REJECTED | TD_DELETED

definition TERMINAL_DOCUMENT_STATES :: "document_state list" where
  "TERMINAL_DOCUMENT_STATES = [REJECTED, CANCELLED, DELETED]"

definition CONTENT_BLOCKED_DOCUMENT_STATES :: "document_state list" where
  "CONTENT_BLOCKED_DOCUMENT_STATES = [DELETING, DELETE_FAILED] @ TERMINAL_DOCUMENT_STATES"

definition RETRYABLE_DOCUMENT_STATES :: "document_state list" where
  "RETRYABLE_DOCUMENT_STATES = [PREFLIGHT_FAILED, PUBLISH_FAILED, DELETE_FAILED]"

text \<open>\<^verbatim>\<open>DocumentState(disposition.value)\<close>\<close>

fun state_of_disposition :: "terminal_disposition \<Rightarrow> document_state" where
  "state_of_disposition TD_CANCELLED = CANCELLED"
| "state_of_disposition TD_REJECTED = REJECTED"
| "state_of_disposition TD_DELETED = DELETED"

datatype scan_state = SCAN_PENDING | SCAN_CLEAN | SCAN_INFECTED | SCAN_ERROR

datatype operation_type = PREFLIGHT | PUBLISH | DELETE

datatype operation_priority = HIGH | REPLACEMENT | PRIO_PUBLISH | NORMAL

fun priority_int :: "operation_priority \<Rightarrow> int" where
  "priority_int HIGH = 0"
| "priority_int REPLACEMENT = 10"
| "priority_int PRIO_PUBLISH = 20"
| "priority_int NORMAL = 30"

text \<open>\<^verbatim>\<open>OperationPriority(value)\<close>, which raises ValueError outside the four values.\<close>

definition priority_of_int :: "int \<Rightarrow> operation_priority option" where
  "priority_of_int n =
     (if n = 0 then Some HIGH else if n = 10 then Some REPLACEMENT
      else if n = 20 then Some PRIO_PUBLISH else if n = 30 then Some NORMAL else None)"

text \<open>\<open>None\<close> is the ValueError of a replacement deletion outside a publish operation.\<close>

definition priority_for_operation :: "operation_type \<Rightarrow> bool \<Rightarrow> operation_priority option" where
  "priority_for_operation operation_type replacement_delete =
     (if replacement_delete then
        (if operation_type \<noteq> PUBLISH then None else Some REPLACEMENT)
      else if operation_type = DELETE then Some HIGH
      else if operation_type = PUBLISH then Some PRIO_PUBLISH
      else Some NORMAL)"

datatype operation_state = OP_QUEUED | OP_RUNNING | OP_SUCCEEDED | OP_FAILED | OP_CANCELLED

datatype operation_phase =
  QUEUED
| EXTRACTING | CHECKING_ELIGIBILITY | PACKING_FORMATTER_BATCHES | FORMATTING_MARKDOWN
| VALIDATING_MARKDOWN | CHUNKING_MARKDOWN | EMBEDDING_DENSE | EMBEDDING_SPARSE
| UPSERTING_SCREENING_POINTS | DISCOVERING_CANDIDATES | CLASSIFYING_CANDIDATES
| SEALING_REVISION | AWAITING_DECISION
| UPSERT_ACTIVE_POINTS | VERIFY_ACTIVE_POINTS | REMOVE_SCREENING_POINTS
| VERIFY_SCREENING_REMOVAL
| DELETE_ACTIVE_POINTS | VERIFY_ACTIVE_ZERO | DELETE_SCREENING_POINTS | VERIFY_SCREENING_ZERO
| PURGE_STORAGE | COMMIT_TOMBSTONE
| COMPLETE

datatype revision_status = REV_PREPARING | REV_SEALED | REV_FAILED

datatype formatter_batch_status = FB_PENDING | FB_RUNNING | FB_VALID | FB_FAILED

datatype candidate_source = SRC_ACTIVE | SRC_SCREENING

datatype evidence_kind = DETERMINISTIC | CLASSIFIER | VERIFIER | INCOMPLETE

datatype decision_action = KEEP | REPLACE | CANCEL

datatype publication_status = PUB_PENDING | PUB_UPSERTED | PUB_VERIFIED | PUB_FAILED

datatype deletion_phase =
  DP_DELETE_ACTIVE_POINTS | DP_VERIFY_ACTIVE_ZERO | DP_DELETE_SCREENING_POINTS
| DP_VERIFY_SCREENING_ZERO | DP_PURGE_STORAGE | DP_COMMIT_TOMBSTONE

text \<open>\<^verbatim>\<open>OperationPhase(phase.value)\<close>\<close>

fun operation_phase_of :: "deletion_phase \<Rightarrow> operation_phase" where
  "operation_phase_of DP_DELETE_ACTIVE_POINTS = DELETE_ACTIVE_POINTS"
| "operation_phase_of DP_VERIFY_ACTIVE_ZERO = VERIFY_ACTIVE_ZERO"
| "operation_phase_of DP_DELETE_SCREENING_POINTS = DELETE_SCREENING_POINTS"
| "operation_phase_of DP_VERIFY_SCREENING_ZERO = VERIFY_SCREENING_ZERO"
| "operation_phase_of DP_PURGE_STORAGE = PURGE_STORAGE"
| "operation_phase_of DP_COMMIT_TOMBSTONE = COMMIT_TOMBSTONE"

datatype index_target = IT_ACTIVE | IT_SCREENING

datatype index_action = IA_UPSERT | IA_PUBLISH | IA_DELETE

datatype outbox_state = OB_PENDING | OB_APPLIED | OB_SUPERSEDED

section \<open>Tables\<close>

record document =
  doc_id :: uuid
  doc_collection_key :: string
  doc_original_filename :: string
  doc_normalized_filename :: string
  doc_content_type :: string
  doc_size_bytes :: int
  doc_sha256 :: string
  doc_storage_key :: "string option"
  doc_state :: document_state
  doc_terminal_disposition :: "terminal_disposition option"
  doc_scan_state :: scan_state
  doc_scan_engine :: "string option"
  doc_scan_signature :: "string option"
  doc_scanned_at :: "timestamp option"
  doc_created_by :: string
  doc_created_at :: timestamp
  doc_ready_at :: "timestamp option"
  doc_rejected_at :: "timestamp option"
  doc_cancelled_at :: "timestamp option"
  doc_deleted_at :: "timestamp option"
  doc_failure_code :: "string option"
  doc_failure_message :: "string option"
  doc_failure_retryable :: bool
  doc_replaced_by :: "uuid option"

record prepared_revision =
  rev_id :: uuid
  rev_document_id :: uuid
  rev_number :: int
  rev_status :: revision_status
  rev_active_collection :: string
  rev_content_profile_id :: string
  rev_index_profile_id :: string
  rev_preflight_policy_id :: string
  rev_formatter_model_id :: string
  rev_dense_model_id :: string
  rev_dense_dimension :: int
  rev_sparse_model_id :: string
  rev_language_code :: "string option"
  rev_native_text_eligible :: bool
  rev_formatter_complete :: bool
  rev_vector_complete :: bool
  rev_candidate_discovery_complete :: bool
  rev_advisory_complete :: bool
  rev_clear_for_publication :: bool
  rev_incomplete_reasons :: "string list"
  rev_page_count :: "int option"
  rev_chunk_count :: "int option"
  rev_expected_point_count :: "int option"
  rev_extraction_sha256 :: "string option"
  rev_markdown_sha256 :: "string option"
  rev_vector_manifest_sha256 :: "string option"
  rev_evidence_manifest_sha256 :: "string option"
  rev_manifest_sha256 :: "string option"
  rev_failure_code :: "string option"
  rev_failure_message :: "string option"
  rev_created_at :: timestamp
  rev_completed_at :: "timestamp option"
  rev_sealed_at :: "timestamp option"

record revision_artifact =
  art_id :: uuid
  art_revision_id :: uuid
  art_kind :: string
  art_sequence :: int
  art_storage_key :: string
  art_sha256 :: string
  art_size_bytes :: int

record extracted_page =
  xp_revision_id :: uuid
  xp_page_number :: int
  xp_layout_text :: string
  xp_character_count :: int
  xp_text_sha256 :: string

record formatter_batch =
  fb_revision_id :: uuid
  fb_batch_index :: int
  fb_attempt :: int
  fb_status :: formatter_batch_status
  fb_page_slices :: json
  fb_source_manifest_sha256 :: string
  fb_request_sha256 :: string
  fb_response_sha256 :: "string option"
  fb_finish_reason :: "string option"
  fb_validation_errors :: "string list"
  fb_started_at :: "timestamp option"
  fb_completed_at :: "timestamp option"

record prepared_page =
  pp_revision_id :: uuid
  pp_page_number :: int
  pp_slices :: json
  pp_markdown :: string
  pp_markdown_sha256 :: string
  pp_source_projection_sha256 :: string
  pp_markdown_projection_sha256 :: string

record prepared_chunk =
  chk_id :: uuid
  chk_revision_id :: uuid
  chk_index :: int
  chk_page_start :: int
  chk_page_end :: int
  chk_heading_path :: "string list"
  chk_token_count :: int
  chk_text_sha256 :: string
  chk_markdown :: string

record prepared_chunk_vector =
  vec_chunk_id :: uuid
  vec_revision_id :: uuid
  vec_dense_dimension :: int
  vec_dense :: "rat list"
  vec_sparse_indices :: "int list"
  vec_sparse_values :: "rat list"
  vec_dense_normalized :: bool
  vec_document_encoded :: bool
  vec_dense_sha256 :: string
  vec_sparse_sha256 :: string

record prepared_candidate =
  cand_id :: uuid
  cand_revision_id :: uuid
  cand_matched_document_id :: uuid
  cand_source :: candidate_source
  cand_rank :: int
  cand_reasons :: "string list"
  cand_max_cosine :: rat
  cand_bm25_score :: rat
  cand_fused_score :: rat
  cand_matched_chunk_pairs :: "(int \<times> uuid) list"
  cand_document_snapshot :: json

record candidate_evidence =
  ev_revision_id :: uuid
  ev_candidate_id :: uuid
  ev_kind :: evidence_kind
  ev_model_id :: "string option"
  ev_valid :: bool
  ev_label :: "string option"
  ev_summary :: "string option"
  ev_evidence :: "json list"
  ev_failure_code :: "string option"
  ev_sha256 :: string

record idempotency_record =
  idem_id :: uuid
  idem_key :: string
  idem_action :: string
  idem_request_sha256 :: string
  idem_actor_id :: string
  idem_resource_type :: "string option"
  idem_resource_id :: "uuid option"
  idem_response_status :: "int option"
  idem_response_body :: "string option"
  idem_created_at :: timestamp
  idem_completed_at :: "timestamp option"

record decision =
  dec_id :: uuid
  dec_document_id :: uuid
  dec_revision_id :: uuid
  dec_manifest_sha256 :: string
  dec_action :: decision_action
  dec_target_document_id :: "uuid option"
  dec_idempotency_id :: uuid
  dec_actor_type :: string
  dec_actor_id :: string

record publication_record =
  pub_id :: uuid
  pub_document_id :: uuid
  pub_revision_id :: uuid
  pub_active_collection :: string
  pub_status :: publication_status
  pub_expected_points :: int
  pub_verified_points :: "int option"
  pub_payload_revision_verified :: bool
  pub_vector_schema_verified :: bool
  pub_screening_zero_verified :: bool
  pub_failure_code :: "string option"
  pub_created_at :: timestamp
  pub_verified_at :: "timestamp option"

record deletion_progress =
  del_id :: uuid
  del_document_id :: uuid
  del_revision_id :: "uuid option"
  del_publication_id :: "uuid option"
  del_disposition :: terminal_disposition
  del_active_collection :: string
  del_screening_collection :: string
  del_phase :: deletion_phase
  del_active_zero_at :: "timestamp option"
  del_screening_zero_at :: "timestamp option"
  del_storage_purged_at :: "timestamp option"
  del_tombstoned_at :: "timestamp option"
  del_failure_code :: "string option"
  del_attempts :: int

record work_operation =
  op_id :: uuid
  op_document_id :: uuid
  op_revision_id :: "uuid option"
  op_replacement_target :: "uuid option"
  op_idempotency_id :: "uuid option"
  op_type :: operation_type
  op_priority :: int
  op_state :: operation_state
  op_phase :: operation_phase
  op_phase_started_at :: timestamp
  op_attempt :: int
  op_worker_id :: "string option"
  op_lease_expires_at :: "timestamp option"
  op_heartbeat_at :: "timestamp option"
  op_failure_code :: "string option"
  op_failure_message :: "string option"
  op_retryable :: bool
  op_created_at :: timestamp
  op_started_at :: "timestamp option"
  op_completed_at :: "timestamp option"

record outbox_entry =
  ob_id :: int
  ob_document_id :: uuid
  ob_revision_id :: uuid
  ob_target :: index_target
  ob_action :: index_action
  ob_collection :: string
  ob_expected_points :: int
  ob_state :: outbox_state
  ob_attempts :: int
  ob_failure_code :: "string option"
  ob_failure_message :: "string option"
  ob_applied_at :: "timestamp option"

record tombstone =
  tomb_id :: uuid
  tomb_document_id :: uuid
  tomb_collection_key :: string
  tomb_disposition :: terminal_disposition
  tomb_source_sha256 :: string
  tomb_manifest_sha256 :: "string option"
  tomb_reason_code :: "string option"
  tomb_actor_type :: string
  tomb_actor_id :: string
  tomb_occurred_at :: timestamp

datatype audit_value = AText string | ANum int | AFlag bool | AUuid uuid | ANull

record audit_event =
  aud_document_id :: "uuid option"
  aud_operation_id :: "uuid option"
  aud_event_type :: string
  aud_actor_type :: string
  aud_actor_id :: string
  aud_details :: "(string \<times> audit_value) list"

section \<open>The catalog\<close>

record catalog =
  documents :: "document list"
  revisions :: "prepared_revision list"
  artifacts :: "revision_artifact list"
  extracted_pages :: "extracted_page list"
  formatter_batches :: "formatter_batch list"
  prepared_pages :: "prepared_page list"
  chunks :: "prepared_chunk list"
  chunk_vectors :: "prepared_chunk_vector list"
  candidates :: "prepared_candidate list"
  evidence_rows :: "candidate_evidence list"
  idempotency_records :: "idempotency_record list"
  decisions :: "decision list"
  publications :: "publication_record list"
  deletions :: "deletion_progress list"
  operations :: "work_operation list"
  outbox :: "outbox_entry list"
  tombstones :: "tombstone list"
  audit_events :: "audit_event list"
  uuid_supply :: "nat \<Rightarrow> uuid"
  uuid_drawn :: nat

definition empty_catalog :: "(nat \<Rightarrow> uuid) \<Rightarrow> catalog" where
  "empty_catalog supply =
     \<lparr>documents = [], revisions = [], artifacts = [], extracted_pages = [],
      formatter_batches = [], prepared_pages = [], chunks = [], chunk_vectors = [],
      candidates = [], evidence_rows = [], idempotency_records = [], decisions = [],
      publications = [], deletions = [], operations = [], outbox = [], tombstones = [],
      audit_events = [], uuid_supply = supply, uuid_drawn = 0\<rparr>"

text \<open>\<^verbatim>\<open>uuid.uuid4()\<close>\<close>

definition uuid4 :: "catalog \<Rightarrow> uuid \<times> catalog" where
  "uuid4 c = (uuid_supply c (uuid_drawn c), c\<lparr>uuid_drawn := Suc (uuid_drawn c)\<rparr>)"

text \<open>
  The exceptions a lifecycle transaction can end with: a deliberate \<^verbatim>\<open>LifecycleError\<close> (code, HTTP
  status, retryable), a violated unique constraint, and the RuntimeError and ValueError of
  programming guards.  An exception rolls the transaction back, so no state comes with it.
\<close>

datatype lifecycle_error =
  LifecycleError (le_code: string) (le_status: nat) (le_retryable: bool)
| IntegrityError
| RuntimeError string
| ValueError string

section \<open>Queries and row updates\<close>

abbreviation get_document :: "catalog \<Rightarrow> uuid \<Rightarrow> document option" where
  "get_document c k \<equiv> tget doc_id k (documents c)"

abbreviation get_revision :: "catalog \<Rightarrow> uuid \<Rightarrow> prepared_revision option" where
  "get_revision c k \<equiv> tget rev_id k (revisions c)"

abbreviation get_operation :: "catalog \<Rightarrow> uuid \<Rightarrow> work_operation option" where
  "get_operation c k \<equiv> tget op_id k (operations c)"

abbreviation get_publication :: "catalog \<Rightarrow> uuid \<Rightarrow> publication_record option" where
  "get_publication c k \<equiv> tget pub_id k (publications c)"

abbreviation get_outbox :: "catalog \<Rightarrow> int \<Rightarrow> outbox_entry option" where
  "get_outbox c k \<equiv> tget ob_id k (outbox c)"

text \<open>The one-to-one relationships \<^verbatim>\<open>document.deletion_progress\<close>, \<^verbatim>\<open>document.tombstone\<close> and
  \<^verbatim>\<open>revision.decision\<close>, and the publication of a revision.\<close>

abbreviation deletion_of :: "catalog \<Rightarrow> uuid \<Rightarrow> deletion_progress option" where
  "deletion_of c d \<equiv> tget del_document_id d (deletions c)"

abbreviation tombstone_of :: "catalog \<Rightarrow> uuid \<Rightarrow> tombstone option" where
  "tombstone_of c d \<equiv> tget tomb_document_id d (tombstones c)"

abbreviation decision_of :: "catalog \<Rightarrow> uuid \<Rightarrow> decision option" where
  "decision_of c r \<equiv> tget dec_revision_id r (decisions c)"

abbreviation publication_of :: "catalog \<Rightarrow> uuid \<Rightarrow> publication_record option" where
  "publication_of c r \<equiv> tget pub_revision_id r (publications c)"

definition upd_document :: "uuid \<Rightarrow> (document \<Rightarrow> document) \<Rightarrow> catalog \<Rightarrow> catalog" where
  "upd_document k f c = c\<lparr>documents := tupd doc_id k f (documents c)\<rparr>"

definition upd_operation :: "uuid \<Rightarrow> (work_operation \<Rightarrow> work_operation) \<Rightarrow> catalog \<Rightarrow> catalog" where
  "upd_operation k f c = c\<lparr>operations := tupd op_id k f (operations c)\<rparr>"

definition upd_deletion ::
  "uuid \<Rightarrow> (deletion_progress \<Rightarrow> deletion_progress) \<Rightarrow> catalog \<Rightarrow> catalog" where
  "upd_deletion d f c = c\<lparr>deletions := tupd del_document_id d f (deletions c)\<rparr>"

definition upd_outbox :: "int \<Rightarrow> (outbox_entry \<Rightarrow> outbox_entry) \<Rightarrow> catalog \<Rightarrow> catalog" where
  "upd_outbox k f c = c\<lparr>outbox := tupd ob_id k f (outbox c)\<rparr>"

section \<open>Immutability listeners\<close>

text \<open>
  The \<^verbatim>\<open>before_update\<close>, \<^verbatim>\<open>before_delete\<close> and \<^verbatim>\<open>before_insert\<close> listeners.  Audit events, decisions and
  tombstones accept neither; a revision header cannot change once its stored status is sealed, nor
  can content be added to it; a verified publication cannot change.
\<close>

definition prevent_update :: "string \<Rightarrow> 'r \<Rightarrow> 'r \<Rightarrow> lifecycle_error + 'r" where
  "prevent_update name old new =
     (if new \<noteq> old then Inl (RuntimeError (name @ '' records are immutable'')) else Inr new)"

definition prevent_delete :: "string \<Rightarrow> lifecycle_error + unit" where
  "prevent_delete name = Inl (RuntimeError (name @ '' records are immutable''))"

definition stored_revision_status :: "catalog \<Rightarrow> uuid \<Rightarrow> revision_status option" where
  "stored_revision_status c r = map_option rev_status (get_revision c r)"

definition upd_revision ::
  "uuid \<Rightarrow> (prepared_revision \<Rightarrow> prepared_revision) \<Rightarrow> catalog \<Rightarrow> lifecycle_error + catalog" where
  "upd_revision k f c =
     (case get_revision c k of
        None \<Rightarrow> Inr c
      | Some r \<Rightarrow>
          if f r \<noteq> r \<and> stored_revision_status c k = Some REV_SEALED
          then Inl (RuntimeError ''sealed prepared revisions are immutable'')
          else Inr (c\<lparr>revisions := tupd rev_id k f (revisions c)\<rparr>))"

definition prevent_sealed_child_insert :: "catalog \<Rightarrow> uuid \<Rightarrow> lifecycle_error + unit" where
  "prevent_sealed_child_insert c r =
     (if stored_revision_status c r = Some REV_SEALED
      then Inl (RuntimeError ''content belonging to a sealed prepared revision is immutable'')
      else Inr ())"

definition prevent_sealed_child_update :: "catalog \<Rightarrow> uuid \<Rightarrow> 'r \<Rightarrow> 'r \<Rightarrow> lifecycle_error + 'r" where
  "prevent_sealed_child_update c r old new =
     (if new \<noteq> old \<and> stored_revision_status c r = Some REV_SEALED
      then Inl (RuntimeError ''content belonging to a sealed prepared revision is immutable'')
      else Inr new)"

definition upd_publication ::
  "uuid \<Rightarrow> (publication_record \<Rightarrow> publication_record) \<Rightarrow> catalog \<Rightarrow> lifecycle_error + catalog" where
  "upd_publication k f c =
     (case get_publication c k of
        None \<Rightarrow> Inr c
      | Some p \<Rightarrow>
          if f p \<noteq> p \<and> pub_status p = PUB_VERIFIED
          then Inl (RuntimeError ''verified publication records are immutable'')
          else Inr (c\<lparr>publications := tupd pub_id k f (publications c)\<rparr>))"

section \<open>Inserts and unique constraints\<close>

text \<open>
  A violated constraint of any kind makes the flush raise \<^verbatim>\<open>IntegrityError\<close>.
\<close>

definition add_operation :: "work_operation \<Rightarrow> catalog \<Rightarrow> lifecycle_error + catalog" where
  "add_operation r c =
     (if list_ex (\<lambda>x. op_id x = op_id r
          \<or> (op_document_id x = op_document_id r \<and> op_type x = op_type r \<and> op_attempt x = op_attempt r)
          \<or> (op_idempotency_id r \<noteq> None \<and> op_idempotency_id x = op_idempotency_id r)) (operations c)
      then Inl IntegrityError else Inr (c\<lparr>operations := tadd r (operations c)\<rparr>))"

definition add_publication :: "publication_record \<Rightarrow> catalog \<Rightarrow> lifecycle_error + catalog" where
  "add_publication r c =
     (if list_ex (\<lambda>x. pub_id x = pub_id r \<or> pub_revision_id x = pub_revision_id r) (publications c)
      then Inl IntegrityError else Inr (c\<lparr>publications := tadd r (publications c)\<rparr>))"

definition add_deletion :: "deletion_progress \<Rightarrow> catalog \<Rightarrow> lifecycle_error + catalog" where
  "add_deletion r c =
     (if list_ex (\<lambda>x. del_id x = del_id r \<or> del_document_id x = del_document_id r) (deletions c)
      then Inl IntegrityError else Inr (c\<lparr>deletions := tadd r (deletions c)\<rparr>))"

definition add_decision :: "decision \<Rightarrow> catalog \<Rightarrow> lifecycle_error + catalog" where
  "add_decision r c =
     (if list_ex (\<lambda>x. dec_id x = dec_id r \<or> dec_revision_id x = dec_revision_id r
          \<or> dec_idempotency_id x = dec_idempotency_id r) (decisions c)
      then Inl IntegrityError else Inr (c\<lparr>decisions := tadd r (decisions c)\<rparr>))"

definition add_tombstone :: "tombstone \<Rightarrow> catalog \<Rightarrow> lifecycle_error + catalog" where
  "add_tombstone r c =
     (if list_ex (\<lambda>x. tomb_id x = tomb_id r \<or> tomb_document_id x = tomb_document_id r) (tombstones c)
      then Inl IntegrityError else Inr (c\<lparr>tombstones := tadd r (tombstones c)\<rparr>))"

definition add_idempotency :: "idempotency_record \<Rightarrow> catalog \<Rightarrow> lifecycle_error + catalog" where
  "add_idempotency r c =
     (if list_ex (\<lambda>x. idem_id x = idem_id r \<or> idem_key x = idem_key r) (idempotency_records c)
      then Inl IntegrityError else Inr (c\<lparr>idempotency_records := tadd r (idempotency_records c)\<rparr>))"

text \<open>Outbox entries carry an autoincremented integer key.\<close>

definition next_outbox_id :: "catalog \<Rightarrow> int" where
  "next_outbox_id c = fold (\<lambda>e m. max m (ob_id e)) (outbox c) 0 + 1"

definition add_outbox :: "outbox_entry \<Rightarrow> catalog \<Rightarrow> lifecycle_error + catalog" where
  "add_outbox r c =
     (if list_ex (\<lambda>x. ob_id x = ob_id r
          \<or> (ob_revision_id x = ob_revision_id r \<and> ob_target x = ob_target r
             \<and> ob_action x = ob_action r \<and> ob_collection x = ob_collection r)) (outbox c)
      then Inl IntegrityError else Inr (c\<lparr>outbox := tadd r (outbox c)\<rparr>))"

section \<open>Table interfaces\<close>

text \<open>A table whose rows are assigned to by key.\<close>

locale updatable_table =
  fixes rows :: "'c \<Rightarrow> 'r list"
    and key :: "'r \<Rightarrow> 'k"
    and upd :: "'k \<Rightarrow> ('r \<Rightarrow> 'r) \<Rightarrow> 'c \<Rightarrow> 'c"
  assumes rows_upd: "rows (upd k f c) = tupd key k f (rows c)"
begin

lemma get_upd:
  assumes "\<And>r. key (f r) = key r"
  shows "tget key k (rows (upd k' f c)) =
    (if k = k' then map_option f (tget key k (rows c)) else tget key k (rows c))"
  using assms by (simp add: rows_upd tget_tupd)

lemma keys_upd:
  assumes "\<And>r. key (f r) = key r"
  shows "map key (rows (upd k f c)) = map key (rows c)"
  using assms by (simp add: rows_upd map_key_tupd)

lemma upd_mem:
  assumes "r \<in> set (rows (upd k f c))"
  obtains x where "x \<in> set (rows c)" and "r = (if key x = k then f x else x)"
  using assms by (auto simp: rows_upd set_tupd)

lemma upd_all:
  assumes "\<forall>r\<in>set (rows c). P r" and "\<And>r. r \<in> set (rows c) \<Longrightarrow> key r = k \<Longrightarrow> P (f r)"
  shows "\<forall>r\<in>set (rows (upd k f c)). P r"
  using assms by (auto elim!: upd_mem)

end

text \<open>A table whose inserts are checked against the unique constraint on a key.\<close>

locale inserting_table =
  fixes rows :: "'c \<Rightarrow> 'r list"
    and key :: "'r \<Rightarrow> 'k"
    and add :: "'r \<Rightarrow> 'c \<Rightarrow> 'e + 'c"
  assumes add_rows: "add r c = Inr c' \<Longrightarrow> rows c' = tadd r (rows c)"
    and add_fresh: "add r c = Inr c' \<Longrightarrow> key r \<notin> key ` set (rows c)"
begin

lemma add_distinct:
  assumes "add r c = Inr c'" and "distinct (map key (rows c))"
  shows "distinct (map key (rows c'))"
  using assms add_rows [OF assms(1)] add_fresh [OF assms(1)] by (simp add: tadd_def)

lemma get_add:
  assumes "add r c = Inr c'"
  shows "tget key k (rows c') = (if k = key r then Some r else tget key k (rows c))"
proof -
  have "tget key (key r) (rows c) = None"
    using add_fresh [OF assms] by (simp add: tget_None_iff)
  then show ?thesis
    by (auto simp: add_rows [OF assms] tget_tadd split: option.splits)
qed

end

interpretation document_rows: updatable_table documents doc_id upd_document
  by unfold_locales (simp add: upd_document_def)

interpretation operation_rows: updatable_table operations op_id upd_operation
  by unfold_locales (simp add: upd_operation_def)

interpretation deletion_rows: updatable_table deletions del_document_id upd_deletion
  by unfold_locales (simp add: upd_deletion_def)

interpretation outbox_rows: updatable_table outbox ob_id upd_outbox
  by unfold_locales (simp add: upd_outbox_def)

interpretation operation_inserts: inserting_table operations op_id add_operation
  by unfold_locales (auto simp: add_operation_def list_ex_iff split: if_splits)

interpretation publication_inserts: inserting_table publications pub_id add_publication
  by unfold_locales (auto simp: add_publication_def list_ex_iff split: if_splits)

interpretation publication_by_revision: inserting_table publications pub_revision_id add_publication
  by unfold_locales (auto simp: add_publication_def list_ex_iff split: if_splits)

interpretation deletion_inserts: inserting_table deletions del_document_id add_deletion
  by unfold_locales (auto simp: add_deletion_def list_ex_iff split: if_splits)

interpretation decision_inserts: inserting_table decisions dec_revision_id add_decision
  by unfold_locales (auto simp: add_decision_def list_ex_iff split: if_splits)

interpretation tombstone_inserts: inserting_table tombstones tomb_document_id add_tombstone
  by unfold_locales (auto simp: add_tombstone_def list_ex_iff split: if_splits)

interpretation idempotency_inserts: inserting_table idempotency_records idem_key add_idempotency
  by unfold_locales (auto simp: add_idempotency_def list_ex_iff split: if_splits)

interpretation outbox_inserts: inserting_table outbox ob_id add_outbox
  by unfold_locales (auto simp: add_outbox_def list_ex_iff split: if_splits)

text \<open>Each update leaves every other table alone.\<close>

lemma upd_document_keeps [simp]:
  "revisions (upd_document k f c) = revisions c"
  "artifacts (upd_document k f c) = artifacts c"
  "chunks (upd_document k f c) = chunks c"
  "chunk_vectors (upd_document k f c) = chunk_vectors c"
  "candidates (upd_document k f c) = candidates c"
  "evidence_rows (upd_document k f c) = evidence_rows c"
  "extracted_pages (upd_document k f c) = extracted_pages c"
  "formatter_batches (upd_document k f c) = formatter_batches c"
  "prepared_pages (upd_document k f c) = prepared_pages c"
  "idempotency_records (upd_document k f c) = idempotency_records c"
  "decisions (upd_document k f c) = decisions c"
  "publications (upd_document k f c) = publications c"
  "deletions (upd_document k f c) = deletions c"
  "operations (upd_document k f c) = operations c"
  "outbox (upd_document k f c) = outbox c"
  "tombstones (upd_document k f c) = tombstones c"
  "audit_events (upd_document k f c) = audit_events c"
  "uuid_supply (upd_document k f c) = uuid_supply c"
  "uuid_drawn (upd_document k f c) = uuid_drawn c"
  by (simp_all add: upd_document_def)

lemma upd_operation_keeps [simp]:
  "documents (upd_operation k f c) = documents c"
  "revisions (upd_operation k f c) = revisions c"
  "artifacts (upd_operation k f c) = artifacts c"
  "chunks (upd_operation k f c) = chunks c"
  "chunk_vectors (upd_operation k f c) = chunk_vectors c"
  "candidates (upd_operation k f c) = candidates c"
  "evidence_rows (upd_operation k f c) = evidence_rows c"
  "extracted_pages (upd_operation k f c) = extracted_pages c"
  "formatter_batches (upd_operation k f c) = formatter_batches c"
  "prepared_pages (upd_operation k f c) = prepared_pages c"
  "idempotency_records (upd_operation k f c) = idempotency_records c"
  "decisions (upd_operation k f c) = decisions c"
  "publications (upd_operation k f c) = publications c"
  "deletions (upd_operation k f c) = deletions c"
  "outbox (upd_operation k f c) = outbox c"
  "tombstones (upd_operation k f c) = tombstones c"
  "audit_events (upd_operation k f c) = audit_events c"
  "uuid_supply (upd_operation k f c) = uuid_supply c"
  "uuid_drawn (upd_operation k f c) = uuid_drawn c"
  by (simp_all add: upd_operation_def)

lemma upd_deletion_keeps [simp]:
  "documents (upd_deletion k f c) = documents c"
  "revisions (upd_deletion k f c) = revisions c"
  "artifacts (upd_deletion k f c) = artifacts c"
  "chunks (upd_deletion k f c) = chunks c"
  "chunk_vectors (upd_deletion k f c) = chunk_vectors c"
  "candidates (upd_deletion k f c) = candidates c"
  "evidence_rows (upd_deletion k f c) = evidence_rows c"
  "extracted_pages (upd_deletion k f c) = extracted_pages c"
  "formatter_batches (upd_deletion k f c) = formatter_batches c"
  "prepared_pages (upd_deletion k f c) = prepared_pages c"
  "idempotency_records (upd_deletion k f c) = idempotency_records c"
  "decisions (upd_deletion k f c) = decisions c"
  "publications (upd_deletion k f c) = publications c"
  "operations (upd_deletion k f c) = operations c"
  "outbox (upd_deletion k f c) = outbox c"
  "tombstones (upd_deletion k f c) = tombstones c"
  "audit_events (upd_deletion k f c) = audit_events c"
  "uuid_supply (upd_deletion k f c) = uuid_supply c"
  "uuid_drawn (upd_deletion k f c) = uuid_drawn c"
  by (simp_all add: upd_deletion_def)

lemma upd_outbox_keeps [simp]:
  "documents (upd_outbox k f c) = documents c"
  "revisions (upd_outbox k f c) = revisions c"
  "artifacts (upd_outbox k f c) = artifacts c"
  "chunks (upd_outbox k f c) = chunks c"
  "chunk_vectors (upd_outbox k f c) = chunk_vectors c"
  "candidates (upd_outbox k f c) = candidates c"
  "evidence_rows (upd_outbox k f c) = evidence_rows c"
  "extracted_pages (upd_outbox k f c) = extracted_pages c"
  "formatter_batches (upd_outbox k f c) = formatter_batches c"
  "prepared_pages (upd_outbox k f c) = prepared_pages c"
  "idempotency_records (upd_outbox k f c) = idempotency_records c"
  "decisions (upd_outbox k f c) = decisions c"
  "publications (upd_outbox k f c) = publications c"
  "deletions (upd_outbox k f c) = deletions c"
  "operations (upd_outbox k f c) = operations c"
  "tombstones (upd_outbox k f c) = tombstones c"
  "audit_events (upd_outbox k f c) = audit_events c"
  "uuid_supply (upd_outbox k f c) = uuid_supply c"
  "uuid_drawn (upd_outbox k f c) = uuid_drawn c"
  by (simp_all add: upd_outbox_def)

lemmas table_defs = upd_document_def upd_operation_def upd_deletion_def upd_outbox_def

lemmas insert_defs = add_operation_def add_publication_def add_deletion_def add_decision_def
  add_tombstone_def add_idempotency_def add_outbox_def

section \<open>CHECK constraints\<close>

definition terminal_disposition_matches_state :: "document \<Rightarrow> bool" where
  "terminal_disposition_matches_state d \<longleftrightarrow>
     (doc_state d \<in> {DELETING, DELETE_FAILED} \<and> doc_terminal_disposition d \<noteq> None)
   \<or> (doc_state d \<in> {REJECTED, CANCELLED, DELETED}
      \<and> map_option state_of_disposition (doc_terminal_disposition d) = Some (doc_state d))
   \<or> (doc_state d \<notin> {DELETING, DELETE_FAILED, REJECTED, CANCELLED, DELETED}
      \<and> doc_terminal_disposition d = None)"

definition document_check :: "document \<Rightarrow> bool" where
  "document_check d \<longleftrightarrow>
     doc_size_bytes d > 0 \<and> length (doc_sha256 d) = 64
     \<and> terminal_disposition_matches_state d
     \<and> (doc_state d \<notin> {REJECTED, CANCELLED, DELETED} \<or> doc_storage_key d = None)"

definition revision_check :: "prepared_revision \<Rightarrow> bool" where
  "revision_check r \<longleftrightarrow>
     rev_number r \<ge> 1
     \<and> (case rev_page_count r of None \<Rightarrow> True | Some n \<Rightarrow> n \<ge> 0)
     \<and> (case rev_chunk_count r of None \<Rightarrow> True | Some n \<Rightarrow> n \<ge> 0)
     \<and> (case rev_expected_point_count r of None \<Rightarrow> True | Some n \<Rightarrow> n \<ge> 0)
     \<and> rev_dense_dimension r = 768
     \<and> (rev_status r \<noteq> REV_SEALED \<or> rev_manifest_sha256 r \<noteq> None \<and> rev_sealed_at r \<noteq> None
        \<and> rev_page_count r \<noteq> None \<and> rev_chunk_count r \<noteq> None
        \<and> rev_expected_point_count r = rev_chunk_count r)"

definition chunk_check :: "prepared_chunk \<Rightarrow> bool" where
  "chunk_check k \<longleftrightarrow>
     chk_index k \<ge> 0 \<and> chk_page_start k \<ge> 1 \<and> chk_page_end k \<ge> chk_page_start k
     \<and> chk_token_count k > 0 \<and> chk_token_count k \<le> 384 \<and> length (chk_text_sha256 k) = 64"

definition decision_check :: "decision \<Rightarrow> bool" where
  "decision_check d \<longleftrightarrow>
     (dec_action d = REPLACE \<and> dec_target_document_id d \<noteq> None
      \<or> dec_action d \<in> {KEEP, CANCEL} \<and> dec_target_document_id d = None)
     \<and> length (dec_manifest_sha256 d) = 64"

definition publication_check :: "publication_record \<Rightarrow> bool" where
  "publication_check p \<longleftrightarrow>
     pub_expected_points p \<ge> 0
     \<and> (case pub_verified_points p of None \<Rightarrow> True | Some n \<Rightarrow> n \<ge> 0)
     \<and> (pub_status p \<noteq> PUB_VERIFIED
        \<or> pub_verified_points p = Some (pub_expected_points p) \<and> pub_payload_revision_verified p
          \<and> pub_vector_schema_verified p \<and> pub_screening_zero_verified p
          \<and> pub_verified_at p \<noteq> None)"

definition deletion_check :: "deletion_progress \<Rightarrow> bool" where
  "deletion_check p \<longleftrightarrow> del_active_collection p \<noteq> del_screening_collection p"

definition add_document :: "document \<Rightarrow> catalog \<Rightarrow> lifecycle_error + catalog" where
  "add_document r c =
     (if list_ex (\<lambda>x. doc_id x = doc_id r
          \<or> (doc_storage_key r \<noteq> None \<and> doc_storage_key x = doc_storage_key r)) (documents c)
         \<or> \<not> document_check r
      then Inl IntegrityError else Inr (c\<lparr>documents := tadd r (documents c)\<rparr>))"

interpretation document_inserts: inserting_table documents doc_id add_document
  by unfold_locales (auto simp: add_document_def list_ex_iff split: if_splits)

definition operation_check :: "work_operation \<Rightarrow> bool" where
  "operation_check w \<longleftrightarrow>
     op_attempt w \<ge> 1 \<and> op_priority w \<ge> 0 \<and> op_phase_started_at w \<ge> op_created_at w
     \<and> (op_type w \<noteq> DELETE \<or> op_priority w = 0)"

definition outbox_check :: "outbox_entry \<Rightarrow> bool" where
  "outbox_check e \<longleftrightarrow> ob_expected_points e \<ge> 0"

end
