(* ===== verification/Intake.thy ===== *)
theory Intake
  imports Catalog Json
begin

text \<open>
  The transactional lifecycle of \<^verbatim>\<open>pdf_bridge/services/intake.py\<close>: idempotency reservations,
  queueing of durable operations, review decisions, retries, deletions and tombstones.

  Every function that writes takes the catalog and the clock reading \<open>now\<close> of its transaction and
  returns either the exception it raises or its result and the new catalog.  A
  \<^verbatim>\<open>LifecycleError\<close> keeps its code, HTTP status and retryable flag; message texts are dropped.
\<close>

section \<open>Values of the enumerations\<close>

fun operation_type_value :: "operation_type \<Rightarrow> string" where
  "operation_type_value PREFLIGHT = ''PREFLIGHT''"
| "operation_type_value PUBLISH = ''PUBLISH''"
| "operation_type_value DELETE = ''DELETE''"

fun operation_type_lower :: "operation_type \<Rightarrow> string" where
  "operation_type_lower PREFLIGHT = ''preflight''"
| "operation_type_lower PUBLISH = ''publish''"
| "operation_type_lower DELETE = ''delete''"

fun phase_value :: "operation_phase \<Rightarrow> string" where
  "phase_value QUEUED = ''QUEUED''"
| "phase_value EXTRACTING = ''EXTRACTING''"
| "phase_value CHECKING_ELIGIBILITY = ''CHECKING_ELIGIBILITY''"
| "phase_value PACKING_FORMATTER_BATCHES = ''PACKING_FORMATTER_BATCHES''"
| "phase_value FORMATTING_MARKDOWN = ''FORMATTING_MARKDOWN''"
| "phase_value VALIDATING_MARKDOWN = ''VALIDATING_MARKDOWN''"
| "phase_value CHUNKING_MARKDOWN = ''CHUNKING_MARKDOWN''"
| "phase_value EMBEDDING_DENSE = ''EMBEDDING_DENSE''"
| "phase_value EMBEDDING_SPARSE = ''EMBEDDING_SPARSE''"
| "phase_value UPSERTING_SCREENING_POINTS = ''UPSERTING_SCREENING_POINTS''"
| "phase_value DISCOVERING_CANDIDATES = ''DISCOVERING_CANDIDATES''"
| "phase_value CLASSIFYING_CANDIDATES = ''CLASSIFYING_CANDIDATES''"
| "phase_value SEALING_REVISION = ''SEALING_REVISION''"
| "phase_value AWAITING_DECISION = ''AWAITING_DECISION''"
| "phase_value UPSERT_ACTIVE_POINTS = ''UPSERT_ACTIVE_POINTS''"
| "phase_value VERIFY_ACTIVE_POINTS = ''VERIFY_ACTIVE_POINTS''"
| "phase_value REMOVE_SCREENING_POINTS = ''REMOVE_SCREENING_POINTS''"
| "phase_value VERIFY_SCREENING_REMOVAL = ''VERIFY_SCREENING_REMOVAL''"
| "phase_value DELETE_ACTIVE_POINTS = ''DELETE_ACTIVE_POINTS''"
| "phase_value VERIFY_ACTIVE_ZERO = ''VERIFY_ACTIVE_ZERO''"
| "phase_value DELETE_SCREENING_POINTS = ''DELETE_SCREENING_POINTS''"
| "phase_value VERIFY_SCREENING_ZERO = ''VERIFY_SCREENING_ZERO''"
| "phase_value PURGE_STORAGE = ''PURGE_STORAGE''"
| "phase_value COMMIT_TOMBSTONE = ''COMMIT_TOMBSTONE''"
| "phase_value COMPLETE = ''COMPLETE''"

fun disposition_value :: "terminal_disposition \<Rightarrow> string" where
  "disposition_value TD_CANCELLED = ''CANCELLED''"
| "disposition_value TD_REJECTED = ''REJECTED''"
| "disposition_value TD_DELETED = ''DELETED''"

fun decision_action_value :: "decision_action \<Rightarrow> string" where
  "decision_action_value KEEP = ''KEEP''"
| "decision_action_value REPLACE = ''REPLACE''"
| "decision_action_value CANCEL = ''CANCEL''"

definition audit_uuid :: "uuid option \<Rightarrow> audit_value" where
  "audit_uuid x = (case x of None \<Rightarrow> ANull | Some u \<Rightarrow> AUuid u)"

text \<open>\<^verbatim>\<open>LifecycleError(code, message)\<close> with its defaults, and with \<^verbatim>\<open>status=500\<close>.\<close>

definition conflict :: "string \<Rightarrow> lifecycle_error" where
  "conflict code = LifecycleError code 409 False"

definition internal :: "string \<Rightarrow> lifecycle_error" where
  "internal code = LifecycleError code 500 False"

section \<open>Phase groups\<close>

definition PREFLIGHT_OPERATION_PHASES :: "operation_phase list" where
  "PREFLIGHT_OPERATION_PHASES =
     [QUEUED, EXTRACTING, CHECKING_ELIGIBILITY, PACKING_FORMATTER_BATCHES, FORMATTING_MARKDOWN,
      VALIDATING_MARKDOWN, CHUNKING_MARKDOWN, EMBEDDING_DENSE, EMBEDDING_SPARSE,
      UPSERTING_SCREENING_POINTS, DISCOVERING_CANDIDATES, CLASSIFYING_CANDIDATES,
      SEALING_REVISION]"

definition PUBLICATION_OPERATION_PHASES :: "operation_phase list" where
  "PUBLICATION_OPERATION_PHASES =
     [QUEUED, UPSERT_ACTIVE_POINTS, VERIFY_ACTIVE_POINTS, REMOVE_SCREENING_POINTS,
      VERIFY_SCREENING_REMOVAL]"

definition DELETION_OPERATION_PHASES :: "operation_phase list" where
  "DELETION_OPERATION_PHASES = QUEUED # map operation_phase_of
     [DP_DELETE_ACTIVE_POINTS, DP_VERIFY_ACTIVE_ZERO, DP_DELETE_SCREENING_POINTS,
      DP_VERIFY_SCREENING_ZERO, DP_PURGE_STORAGE, DP_COMMIT_TOMBSTONE]"

section \<open>Idempotency\<close>

definition canonical_request_sha256 ::
  "(string \<Rightarrow> string) \<Rightarrow> string \<Rightarrow> (string \<times> json) list \<Rightarrow> string" where
  "canonical_request_sha256 sha256 action material =
     sha256 (dumps (JObj [(''action'', JStr action), (''request'', JObj material)]))"

datatype reservation =
  Reserved idempotency_record
| IdempotencyReplay (replay_status: int) (replay_body: string)

definition reserve_idempotency ::
  "(string \<Rightarrow> string) \<Rightarrow> timestamp \<Rightarrow> string \<Rightarrow> string \<Rightarrow> string \<Rightarrow> (string \<times> json) list \<Rightarrow> catalog
     \<Rightarrow> lifecycle_error + reservation \<times> catalog" where
  "reserve_idempotency sha256 now key action actor_id request_material c =
     (if \<not> (8 \<le> length key \<and> length key \<le> 128)
         \<or> list_ex (\<lambda>ch. py_isspace ch \<or> \<not> py_isprintable ch) key
      then Inl (LifecycleError ''invalid_idempotency_key'' 400 False)
      else if action = [] \<or> length action > 64 \<or> actor_id = [] \<or> length actor_id > 255
      then Inl (LifecycleError ''invalid_idempotency_identity'' 400 False)
      else
        let request_hash = canonical_request_sha256 sha256 action request_material in
        case tget idem_key key (idempotency_records c) of
          Some existing \<Rightarrow>
            if idem_action existing \<noteq> action \<or> idem_actor_id existing \<noteq> actor_id
               \<or> idem_request_sha256 existing \<noteq> request_hash
            then Inl (conflict ''idempotency_conflict'')
            else (case (idem_response_status existing, idem_response_body existing) of
                (Some status, Some body) \<Rightarrow> Inr (IdempotencyReplay status body, c)
              | _ \<Rightarrow> Inl (LifecycleError ''idempotency_in_progress'' 409 True))
        | None \<Rightarrow>
            let (new_id, c1) = uuid4 c;
                record_row = \<lparr>idem_id = new_id, idem_key = key, idem_action = action,
                  idem_request_sha256 = request_hash, idem_actor_id = actor_id,
                  idem_resource_type = None, idem_resource_id = None,
                  idem_response_status = None, idem_response_body = None,
                  idem_created_at = now, idem_completed_at = None\<rparr>
            in rbind (add_idempotency record_row c1) (\<lambda>c2. Inr (Reserved record_row, c2)))"

text \<open>
  A response body as \<^verbatim>\<open>json.dumps\<close> sees it: a value it cannot encode, an object, or another JSON
  value; the string is its serialisation.
\<close>

datatype response_body = NotSerializable | ObjectBody string | OtherJson string

definition complete_idempotency ::
  "timestamp \<Rightarrow> idempotency_record \<Rightarrow> int \<Rightarrow> response_body \<Rightarrow> string \<Rightarrow> uuid
     \<Rightarrow> lifecycle_error + idempotency_record" where
  "complete_idempotency now r status body resource_type resource_id =
     (if \<not> (100 \<le> status \<and> status \<le> 599) \<or> resource_type = [] \<or> length resource_type > 64
      then Inl (internal ''invalid_idempotency_response'')
      else case body of
        NotSerializable \<Rightarrow> Inl (internal ''invalid_idempotency_response'')
      | OtherJson _ \<Rightarrow> Inl (internal ''invalid_idempotency_response'')
      | ObjectBody body_snapshot \<Rightarrow>
          if idem_completed_at r \<noteq> None then
            (if idem_response_status r = Some status \<and> idem_response_body r = Some body_snapshot
                \<and> idem_resource_type r = Some resource_type \<and> idem_resource_id r = Some resource_id
             then Inr r
             else Inl (conflict ''idempotency_completion_conflict''))
          else Inr (r\<lparr>idem_response_status := Some status, idem_response_body := Some body_snapshot,
                      idem_resource_type := Some resource_type, idem_resource_id := Some resource_id,
                      idem_completed_at := Some now\<rparr>))"

section \<open>Audit and queueing\<close>

definition audit ::
  "string \<Rightarrow> string \<Rightarrow> string \<Rightarrow> uuid option \<Rightarrow> uuid option \<Rightarrow> (string \<times> audit_value) list
     \<Rightarrow> catalog \<Rightarrow> catalog" where
  "audit event_type actor_type actor_id document_id operation_id details c =
     c\<lparr>audit_events := tadd \<lparr>aud_document_id = document_id, aud_operation_id = operation_id,
         aud_event_type = event_type, aud_actor_type = actor_type, aud_actor_id = actor_id,
         aud_details = details\<rparr> (audit_events c)\<rparr>"

definition next_attempt :: "catalog \<Rightarrow> uuid \<Rightarrow> operation_type \<Rightarrow> int" where
  "next_attempt c document_id operation_type =
     fold (\<lambda>w m. max m (op_attempt w))
       (filter (\<lambda>w. op_document_id w = document_id \<and> op_type w = operation_type) (operations c)) 0
     + 1"

text \<open>The flag is the return value of the Python function; timestamps are UTC, so timezone-aware.\<close>

definition set_operation_phase ::
  "operation_phase \<Rightarrow> timestamp \<Rightarrow> work_operation \<Rightarrow> bool \<times> work_operation" where
  "set_operation_phase phase now op =
     (if op_phase op = phase then (False, op)
      else (True, op\<lparr>op_phase := phase, op_phase_started_at := now\<rparr>))"

definition allowed_phases :: "operation_type \<Rightarrow> bool \<Rightarrow> operation_phase list" where
  "allowed_phases operation_type replacement_delete =
     (case operation_type of
        PREFLIGHT \<Rightarrow> PREFLIGHT_OPERATION_PHASES
      | PUBLISH \<Rightarrow>
          if replacement_delete then PUBLICATION_OPERATION_PHASES @ DELETION_OPERATION_PHASES
          else PUBLICATION_OPERATION_PHASES
      | DELETE \<Rightarrow> DELETION_OPERATION_PHASES)"

definition enqueue_operation ::
  "timestamp \<Rightarrow> uuid \<Rightarrow> operation_type \<Rightarrow> operation_priority \<Rightarrow> uuid option \<Rightarrow> uuid option
     \<Rightarrow> uuid option \<Rightarrow> operation_phase \<Rightarrow> catalog \<Rightarrow> lifecycle_error + work_operation \<times> catalog" where
  "enqueue_operation now document_id operation_type priority prepared_revision_id
       replacement_target idempotency_record_id phase c =
     (let replacement_delete = (replacement_target \<noteq> None) in
      case priority_for_operation operation_type replacement_delete of
        None \<Rightarrow> Inl (internal ''operation_binding_invalid'')
      | Some expected_priority \<Rightarrow>
          if priority \<noteq> expected_priority then Inl (internal ''operation_priority_invalid'')
          else if replacement_target = Some document_id
          then Inl (internal ''operation_binding_invalid'')
          else if phase \<notin> set (allowed_phases operation_type replacement_delete)
          then Inl (internal ''operation_phase_invalid'')
          else
            let (new_id, c1) = uuid4 c;
                op = \<lparr>op_id = new_id, op_document_id = document_id,
                  op_revision_id = prepared_revision_id, op_replacement_target = replacement_target,
                  op_idempotency_id = idempotency_record_id, op_type = operation_type,
                  op_priority = priority_int priority, op_state = OP_QUEUED, op_phase = phase,
                  op_phase_started_at = now, op_attempt = next_attempt c document_id operation_type,
                  op_worker_id = None, op_lease_expires_at = None, op_heartbeat_at = None,
                  op_failure_code = None, op_failure_message = None, op_retryable = True,
                  op_created_at = now, op_started_at = None, op_completed_at = None\<rparr>
            in rbind (add_operation op c1) (\<lambda>c2.
                 Inr (op, audit (operation_type_lower operation_type @ ''_queued'') ''system''
                   ''pdf-bridge'' (Some document_id) (Some (op_id op))
                   [(''priority'', ANum (priority_int priority)), (''attempt'', ANum (op_attempt op)),
                    (''phase'', AText (phase_value phase)),
                    (''replacement_target_document_id'', audit_uuid replacement_target)] c2)))"

section \<open>Lookups\<close>

definition latest_operation ::
  "catalog \<Rightarrow> uuid \<Rightarrow> operation_type option \<Rightarrow> work_operation option" where
  "latest_operation c document_id operation_type =
     (case operation_type of
        Some t \<Rightarrow> max_by (\<lambda>w. (op_attempt w, op_created_at w, op_id w))
          (filter (\<lambda>w. op_document_id w = document_id \<and> op_type w = t) (operations c))
      | None \<Rightarrow> max_by (\<lambda>w. (op_created_at w, op_id w))
          (filter (\<lambda>w. op_document_id w = document_id) (operations c)))"

definition latest_sealed_revision :: "catalog \<Rightarrow> uuid \<Rightarrow> prepared_revision option" where
  "latest_sealed_revision c document_id =
     max_by rev_number
       (filter (\<lambda>r. rev_document_id r = document_id \<and> rev_status r = REV_SEALED) (revisions c))"

definition latest_revision :: "catalog \<Rightarrow> uuid \<Rightarrow> prepared_revision option" where
  "latest_revision c document_id =
     max_by rev_number (filter (\<lambda>r. rev_document_id r = document_id) (revisions c))"

definition get_document_for_update :: "catalog \<Rightarrow> uuid \<Rightarrow> lifecycle_error + document" where
  "get_document_for_update c document_id =
     (case get_document c document_id of
        None \<Rightarrow> Inl (LifecycleError ''document_not_found'' 404 False)
      | Some d \<Rightarrow> Inr d)"

section \<open>Publication\<close>

definition ensure_publication_record ::
  "timestamp \<Rightarrow> uuid \<Rightarrow> prepared_revision \<Rightarrow> catalog
     \<Rightarrow> lifecycle_error + publication_record \<times> catalog" where
  "ensure_publication_record now document_id revision c =
     (case rev_expected_point_count revision of
        None \<Rightarrow> Inl (internal ''publication_binding_invalid'')
      | Some expected_points \<Rightarrow>
          if rev_document_id revision \<noteq> document_id \<or> rev_status revision \<noteq> REV_SEALED
          then Inl (internal ''publication_binding_invalid'')
          else case publication_of c (rev_id revision) of
            None \<Rightarrow>
              let (new_id, c1) = uuid4 c;
                  publication = \<lparr>pub_id = new_id, pub_document_id = document_id,
                    pub_revision_id = rev_id revision,
                    pub_active_collection = rev_active_collection revision,
                    pub_status = PUB_PENDING, pub_expected_points = expected_points,
                    pub_verified_points = None, pub_payload_revision_verified = False,
                    pub_vector_schema_verified = False, pub_screening_zero_verified = False,
                    pub_failure_code = None, pub_created_at = now, pub_verified_at = None\<rparr>
              in rbind (add_publication publication c1) (\<lambda>c2. Inr (publication, c2))
          | Some publication \<Rightarrow>
              if pub_document_id publication \<noteq> document_id
                 \<or> pub_active_collection publication \<noteq> rev_active_collection revision
                 \<or> pub_expected_points publication \<noteq> expected_points
              then Inl (internal ''publication_binding_invalid'')
              else if pub_status publication \<noteq> PUB_PENDING
              then Inl (conflict ''publication_already_started'')
              else Inr (publication, c))"

definition open_publication_operation ::
  "catalog \<Rightarrow> uuid \<Rightarrow> uuid \<Rightarrow> work_operation option" where
  "open_publication_operation c document_id prepared_revision_id =
     max_by op_attempt
       (filter (\<lambda>w. op_document_id w = document_id
          \<and> op_revision_id w = Some prepared_revision_id \<and> op_type w = PUBLISH
          \<and> op_replacement_target w = None \<and> op_state w \<in> {OP_QUEUED, OP_RUNNING}) (operations c))"

definition clear_failure :: "document \<Rightarrow> document" where
  "clear_failure d = d\<lparr>doc_failure_code := None, doc_failure_message := None,
     doc_failure_retryable := False\<rparr>"

definition queue_clear_publication ::
  "timestamp \<Rightarrow> document \<Rightarrow> prepared_revision \<Rightarrow> catalog
     \<Rightarrow> lifecycle_error + work_operation \<times> catalog" where
  "queue_clear_publication now document revision c =
     (if doc_state document = PUBLISHING then
        (case open_publication_operation c (doc_id document) (rev_id revision) of
           Some existing \<Rightarrow> Inr (existing, c)
         | None \<Rightarrow> Inl (internal ''publication_operation_missing''))
      else if doc_state document \<noteq> PREFLIGHTING
         \<or> rev_document_id revision \<noteq> doc_id document
         \<or> rev_status revision \<noteq> REV_SEALED
         \<or> \<not> rev_clear_for_publication revision
         \<or> \<not> rev_formatter_complete revision
         \<or> \<not> rev_vector_complete revision
         \<or> \<not> rev_candidate_discovery_complete revision
         \<or> \<not> rev_advisory_complete revision
         \<or> rev_incomplete_reasons revision \<noteq> []
         \<or> filter (\<lambda>x. cand_revision_id x = rev_id revision) (candidates c) \<noteq> []
      then Inl (conflict ''revision_not_publishable'')
      else rbind (ensure_publication_record now (doc_id document) revision c) (\<lambda>(_, c1).
        enqueue_operation now (doc_id document) PUBLISH PRIO_PUBLISH (Some (rev_id revision)) None None
          QUEUED (upd_document (doc_id document) (\<lambda>d. clear_failure (d\<lparr>doc_state := PUBLISHING\<rparr>)) c1)))"

section \<open>Review decisions: bindings\<close>

definition require_current_review_revision ::
  "catalog \<Rightarrow> document \<Rightarrow> uuid \<Rightarrow> lifecycle_error + prepared_revision" where
  "require_current_review_revision c document prepared_revision_id =
     (if doc_state document \<noteq> REVIEW_REQUIRED then Inl (conflict ''document_state_conflict'')
      else case get_revision c prepared_revision_id of
        None \<Rightarrow> Inl (conflict ''stale_prepared_revision'')
      | Some revision \<Rightarrow>
          if rev_document_id revision \<noteq> doc_id document \<or> rev_status revision \<noteq> REV_SEALED
             \<or> map_option rev_id (latest_sealed_revision c (doc_id document)) \<noteq> Some (rev_id revision)
             \<or> rev_manifest_sha256 revision = None
          then Inl (conflict ''stale_prepared_revision'')
          else if decision_of c (rev_id revision) \<noteq> None then Inl (conflict ''decision_exists'')
          else Inr revision)"

definition verified_ready_binding ::
  "catalog \<Rightarrow> document \<Rightarrow> lifecycle_error + prepared_revision \<times> publication_record" where
  "verified_ready_binding c document =
     (case max_by (\<lambda>p. (pub_verified_at p, pub_created_at p))
             (filter (\<lambda>p. pub_document_id p = doc_id document \<and> pub_status p = PUB_VERIFIED)
               (publications c)) of
        None \<Rightarrow> Inl (internal ''publication_record_missing'')
      | Some publication \<Rightarrow>
          (case get_revision c (pub_revision_id publication) of
             None \<Rightarrow> Inl (internal ''publication_binding_invalid'')
           | Some revision \<Rightarrow>
               if rev_document_id revision \<noteq> doc_id document \<or> rev_status revision \<noteq> REV_SEALED
                  \<or> rev_active_collection revision \<noteq> pub_active_collection publication
                  \<or> rev_expected_point_count revision \<noteq> Some (pub_expected_points publication)
               then Inl (internal ''publication_binding_invalid'')
               else Inr (revision, publication)))"

definition validate_replacement_target ::
  "catalog \<Rightarrow> document \<Rightarrow> uuid
     \<Rightarrow> lifecycle_error + document \<times> prepared_revision \<times> publication_record" where
  "validate_replacement_target c incoming target_id =
     (if target_id = doc_id incoming then Inl (conflict ''invalid_replacement_target'')
      else case get_document c target_id of
        None \<Rightarrow> Inl (conflict ''invalid_replacement_target'')
      | Some target \<Rightarrow>
          if doc_collection_key target \<noteq> doc_collection_key incoming
          then Inl (conflict ''invalid_replacement_target'')
          else if doc_state target \<noteq> READY then Inl (conflict ''replacement_target_unavailable'')
          else if doc_replaced_by target \<noteq> None then Inl (conflict ''replacement_target_busy'')
          else if list_ex (\<lambda>w. (op_document_id w = doc_id target
                 \<or> op_replacement_target w = Some (doc_id target))
                 \<and> op_state w \<in> {OP_QUEUED, OP_RUNNING}) (operations c)
          then Inl (conflict ''replacement_target_busy'')
          else rbind (verified_ready_binding c target) (\<lambda>(revision, publication).
            Inr (target, revision, publication)))"

section \<open>Deletion\<close>

definition validate_deletion_binding ::
  "catalog \<Rightarrow> document \<Rightarrow> uuid option \<Rightarrow> uuid option \<Rightarrow> string \<Rightarrow> lifecycle_error + unit" where
  "validate_deletion_binding c document prepared_revision_id publication_record_id active_collection =
     (if (case prepared_revision_id of
            None \<Rightarrow> False
          | Some r \<Rightarrow> (case get_revision c r of
                None \<Rightarrow> True
              | Some revision \<Rightarrow> rev_document_id revision \<noteq> doc_id document
                  \<or> rev_active_collection revision \<noteq> active_collection))
      then Inl (internal ''deletion_binding_invalid'')
      else if (case publication_record_id of
            None \<Rightarrow> False
          | Some p \<Rightarrow> (case get_publication c p of
                None \<Rightarrow> True
              | Some publication \<Rightarrow> pub_document_id publication \<noteq> doc_id document
                  \<or> Some (pub_revision_id publication) \<noteq> prepared_revision_id
                  \<or> pub_active_collection publication \<noteq> active_collection))
      then Inl (internal ''deletion_binding_invalid'')
      else Inr ())"

definition latest_deletion_operation :: "catalog \<Rightarrow> uuid \<Rightarrow> work_operation option" where
  "latest_deletion_operation c document_id =
     max_by (\<lambda>w. (op_created_at w, op_id w))
       (filter (\<lambda>w. (op_document_id w = document_id \<and> op_type w = DELETE)
          \<or> (op_replacement_target w = Some document_id \<and> op_type w = PUBLISH)) (operations c))"

definition new_deletion ::
  "uuid \<Rightarrow> uuid \<Rightarrow> uuid option \<Rightarrow> uuid option \<Rightarrow> terminal_disposition \<Rightarrow> string \<Rightarrow> string
     \<Rightarrow> deletion_progress" where
  "new_deletion new_id document_id prepared_revision_id publication_record_id disposition active screening =
     \<lparr>del_id = new_id, del_document_id = document_id, del_revision_id = prepared_revision_id,
      del_publication_id = publication_record_id, del_disposition = disposition,
      del_active_collection = active, del_screening_collection = screening,
      del_phase = DP_DELETE_ACTIVE_POINTS, del_active_zero_at = None, del_screening_zero_at = None,
      del_storage_purged_at = None, del_tombstoned_at = None, del_failure_code = None,
      del_attempts = 0\<rparr>"

definition begin_deletion ::
  "timestamp \<Rightarrow> document \<Rightarrow> terminal_disposition \<Rightarrow> string \<Rightarrow> string \<Rightarrow> uuid option \<Rightarrow> uuid option
     \<Rightarrow> operation_priority \<Rightarrow> string \<Rightarrow> string \<Rightarrow> uuid option \<Rightarrow> catalog
     \<Rightarrow> lifecycle_error + work_operation \<times> catalog" where
  "begin_deletion now document disposition active screening prepared_revision_id
       publication_record_id priority actor_type actor_id idempotency_record_id c =
     (if priority \<noteq> HIGH then Inl (internal ''operation_priority_invalid'')
      else if active = screening then Inl (internal ''collection_configuration_invalid'')
      else rbind (validate_deletion_binding c document prepared_revision_id publication_record_id active)
        (\<lambda>_. case deletion_of c (doc_id document) of
          Some progress \<Rightarrow>
            if doc_state document \<notin> {DELETING, DELETE_FAILED}
               \<or> doc_terminal_disposition document \<noteq> Some (del_disposition progress)
            then Inl (internal ''deletion_binding_invalid'')
            else if del_disposition progress \<noteq> disposition
               \<or> del_active_collection progress \<noteq> active
               \<or> del_screening_collection progress \<noteq> screening
               \<or> del_revision_id progress \<noteq> prepared_revision_id
               \<or> del_publication_id progress \<noteq> publication_record_id
            then Inl (conflict ''deletion_binding_conflict'')
            else (case latest_deletion_operation c (doc_id document) of
                None \<Rightarrow> Inl (internal ''deletion_operation_missing'')
              | Some op \<Rightarrow> Inr (op, c))
        | None \<Rightarrow>
            if doc_state document \<in> {DELETING, DELETE_FAILED, REJECTED, CANCELLED, DELETED}
            then Inl (internal ''deletion_binding_invalid'')
            else
              let (new_id, c1) = uuid4 c;
                  progress = new_deletion new_id (doc_id document) prepared_revision_id
                    publication_record_id disposition active screening
              in rbind (add_deletion progress c1) (\<lambda>c2.
                 rbind (enqueue_operation now (doc_id document) DELETE priority prepared_revision_id
                     None idempotency_record_id QUEUED
                     (upd_document (doc_id document) (\<lambda>d. clear_failure
                        (d\<lparr>doc_state := DELETING, doc_terminal_disposition := Some disposition\<rparr>)) c2))
                   (\<lambda>(op, c3). Inr (op, audit ''deletion_accepted'' actor_type actor_id
                      (Some (doc_id document)) (Some (op_id op))
                      [(''terminal_disposition'', AText (disposition_value disposition))] c3)))))"

definition begin_replacement ::
  "timestamp \<Rightarrow> document \<Rightarrow> prepared_revision \<Rightarrow> document \<Rightarrow> prepared_revision \<Rightarrow> publication_record
     \<Rightarrow> string \<Rightarrow> string \<Rightarrow> string \<Rightarrow> catalog \<Rightarrow> lifecycle_error + work_operation \<times> catalog" where
  "begin_replacement now incoming incoming_revision target target_revision target_publication
       screening actor_type actor_id c =
     (if deletion_of c (doc_id target) \<noteq> None then Inl (conflict ''replacement_target_busy'')
      else if pub_active_collection target_publication = screening
      then Inl (internal ''collection_configuration_invalid'')
      else rbind (ensure_publication_record now (doc_id incoming) incoming_revision c) (\<lambda>(_, c1).
        let (new_id, c2) = uuid4 c1;
            progress = new_deletion new_id (doc_id target) (Some (rev_id target_revision))
              (Some (pub_id target_publication)) TD_DELETED
              (pub_active_collection target_publication) screening
        in rbind (add_deletion progress c2) (\<lambda>c3.
           let c4 = upd_document (doc_id target) (\<lambda>d. clear_failure
                 (d\<lparr>doc_state := DELETING, doc_terminal_disposition := Some TD_DELETED,
                    doc_replaced_by := Some (doc_id incoming)\<rparr>)) c3;
               c5 = upd_document (doc_id incoming) (\<lambda>d. clear_failure (d\<lparr>doc_state := PUBLISHING\<rparr>)) c4
           in rbind (enqueue_operation now (doc_id incoming) PUBLISH REPLACEMENT
                  (Some (rev_id incoming_revision)) (Some (doc_id target)) None QUEUED c5)
                (\<lambda>(op, c6). Inr (op, audit ''replacement_old_deletion_accepted'' actor_type actor_id
                   (Some (doc_id target)) (Some (op_id op))
                   [(''incoming_document_id'', AUuid (doc_id incoming)),
                    (''active_qdrant_collection'', AText (pub_active_collection target_publication)),
                    (''screening_qdrant_collection'', AText screening)] c6)))))"

section \<open>Mutations\<close>

record mutation_outcome =
  mo_document_id :: uuid
  mo_operation :: "work_operation option"
  mo_idempotency_id :: uuid

text \<open>An idempotency reservation may carry a mutation of this actor once.\<close>

definition reservation_usable :: "idempotency_record \<Rightarrow> string \<Rightarrow> bool" where
  "reservation_usable idempotency actor_id \<longleftrightarrow>
     \<not> (idem_actor_id idempotency \<noteq> actor_id \<or> idem_completed_at idempotency \<noteq> None)"

definition record_decision ::
  "timestamp \<Rightarrow> uuid \<Rightarrow> uuid \<Rightarrow> decision_action \<Rightarrow> uuid option \<Rightarrow> idempotency_record \<Rightarrow> string
     \<Rightarrow> string \<Rightarrow> string \<Rightarrow> catalog \<Rightarrow> lifecycle_error + mutation_outcome \<times> catalog" where
  "record_decision now document_id prepared_revision_id action target_document_id idempotency
       actor_type actor_id screening c =
     (if \<not> reservation_usable idempotency actor_id
      then Inl (internal ''idempotency_binding_invalid'')
      else
      rbind (get_document_for_update c document_id) (\<lambda>document.
      rbind (require_current_review_revision c document prepared_revision_id) (\<lambda>revision.
      rbind (if action = REPLACE then
               (case target_document_id of
                  None \<Rightarrow> Inl (conflict ''replacement_target_required'')
                | Some target_id \<Rightarrow>
                    rbind (validate_replacement_target c document target_id) (\<lambda>t. Inr (Some t)))
             else if target_document_id \<noteq> None
             then Inl (conflict ''unexpected_replacement_target'')
             else Inr None) (\<lambda>target.
      let (new_id, c1) = uuid4 c;
          row = \<lparr>dec_id = new_id, dec_document_id = doc_id document,
            dec_revision_id = rev_id revision,
            dec_manifest_sha256 = (case rev_manifest_sha256 revision of None \<Rightarrow> [] | Some m \<Rightarrow> m),
            dec_action = action,
            dec_target_document_id = map_option (\<lambda>(t, _, _). doc_id t) target,
            dec_idempotency_id = idem_id idempotency, dec_actor_type = actor_type,
            dec_actor_id = actor_id\<rparr>
      in rbind (add_decision row c1) (\<lambda>c2.
         rbind (case action of
             CANCEL \<Rightarrow>
               begin_deletion now document TD_CANCELLED (rev_active_collection revision) screening
                 (Some (rev_id revision)) None HIGH actor_type actor_id None c2
           | REPLACE \<Rightarrow>
               (case target of
                  None \<Rightarrow> Inl (internal ''replacement_binding_invalid'')
                | Some (t, t_revision, t_publication) \<Rightarrow>
                    begin_replacement now document revision t t_revision t_publication screening
                      actor_type actor_id c2)
           | KEEP \<Rightarrow>
               rbind (ensure_publication_record now (doc_id document) revision c2) (\<lambda>(_, c3).
                 enqueue_operation now (doc_id document) PUBLISH PRIO_PUBLISH (Some (rev_id revision))
                   None None QUEUED
                   (upd_document (doc_id document) (\<lambda>d. d\<lparr>doc_state := PUBLISHING\<rparr>) c3)))
         (\<lambda>(op, c4). Inr (\<lparr>mo_document_id = doc_id document, mo_operation = Some op,
              mo_idempotency_id = idem_id idempotency\<rparr>,
            audit ''review_decision_recorded'' actor_type actor_id (Some (doc_id document))
              (Some (op_id op))
              [(''action'', AText (decision_action_value action)),
               (''prepared_revision_id'', AUuid (rev_id revision)),
               (''target_document_id'', audit_uuid (map_option (\<lambda>(t, _, _). doc_id t) target))] c4)))))))"

text \<open>
  Retry.  \<open>retry_owner\<close> resolves whose failed operation a retry of \<open>requested\<close> resumes: a document
  whose deletion failed as part of a replacement is retried through the incoming document.
\<close>

definition retry_owner :: "catalog \<Rightarrow> document \<Rightarrow> lifecycle_error + document" where
  "retry_owner c requested =
     (case doc_replaced_by requested of
        Some incoming_id \<Rightarrow>
          if doc_state requested = DELETE_FAILED then
            rbind (get_document_for_update c incoming_id) (\<lambda>document.
              case latest_operation c (doc_id document) (Some PUBLISH) of
                None \<Rightarrow> Inl (internal ''replacement_retry_binding_invalid'')
              | Some op \<Rightarrow>
                  if doc_state document \<noteq> PUBLISH_FAILED \<or> \<not> doc_failure_retryable document
                     \<or> op_replacement_target op \<noteq> Some (doc_id requested)
                  then Inl (internal ''replacement_retry_binding_invalid'')
                  else Inr document)
          else Inr requested
      | None \<Rightarrow> Inr requested)"

definition retry_class :: "document_state \<Rightarrow> (operation_type \<times> document_state) option" where
  "retry_class s =
     (if s = PREFLIGHT_FAILED then Some (PREFLIGHT, PREFLIGHTING)
      else if s = PUBLISH_FAILED then Some (PUBLISH, PUBLISHING)
      else if s = DELETE_FAILED then Some (DELETE, DELETING)
      else None)"

text \<open>The per-class checkpoint work of a retry: the resume phase and the updated checkpoints.\<close>

definition retry_publication ::
  "catalog \<Rightarrow> document \<Rightarrow> uuid option \<Rightarrow> uuid option \<Rightarrow> lifecycle_error + catalog" where
  "retry_publication c document revision_id replacement_target =
     (case revision_id of
        None \<Rightarrow> Inl (internal ''publication_record_missing'')
      | Some r \<Rightarrow>
          (case (publication_of c r, get_revision c r) of
             (Some publication, Some revision) \<Rightarrow>
               if pub_document_id publication \<noteq> doc_id document
                  \<or> rev_document_id revision \<noteq> doc_id document
                  \<or> rev_status revision \<noteq> REV_SEALED
                  \<or> pub_status publication = PUB_VERIFIED
                  \<or> pub_active_collection publication \<noteq> rev_active_collection revision
                  \<or> rev_expected_point_count revision \<noteq> Some (pub_expected_points publication)
               then Inl (internal ''publication_record_missing'')
               else rbind (upd_publication (pub_id publication)
                      (\<lambda>p. p\<lparr>pub_status := PUB_PENDING, pub_failure_code := None\<rparr>) c) (\<lambda>c1.
                 (case replacement_target of
                    None \<Rightarrow> Inr c1
                  | Some t \<Rightarrow>
                      (case (get_document c1 t, deletion_of c1 t) of
                         (Some target, Some progress) \<Rightarrow>
                           if doc_state target = DELETE_FAILED
                           then Inr (upd_deletion t (\<lambda>p. p\<lparr>del_failure_code := None\<rparr>)
                             (upd_document t (\<lambda>d. clear_failure (d\<lparr>doc_state := DELETING\<rparr>)) c1))
                           else Inr c1
                       | _ \<Rightarrow> Inl (internal ''deletion_checkpoint_missing''))))
           | _ \<Rightarrow> Inl (internal ''publication_record_missing'')))"

definition retry_checkpoint ::
  "catalog \<Rightarrow> document \<Rightarrow> operation_type \<Rightarrow> work_operation
     \<Rightarrow> lifecycle_error + operation_phase \<times> catalog" where
  "retry_checkpoint c document operation_type failed =
     (case operation_type of
        PREFLIGHT \<Rightarrow>
          if op_replacement_target failed \<noteq> None then Inl (internal ''operation_binding_invalid'')
          else Inr (op_phase failed, c)
      | PUBLISH \<Rightarrow>
          rbind (retry_publication c document (op_revision_id failed) (op_replacement_target failed))
            (\<lambda>c1. Inr (op_phase failed, c1))
      | DELETE \<Rightarrow>
          (case deletion_of c (doc_id document) of
             None \<Rightarrow> Inl (internal ''deletion_checkpoint_missing'')
           | Some progress \<Rightarrow>
               if del_revision_id progress \<noteq> op_revision_id failed \<or> op_replacement_target failed \<noteq> None
               then Inl (internal ''deletion_checkpoint_missing'')
               else Inr (operation_phase_of (del_phase progress),
                 upd_deletion (doc_id document) (\<lambda>p. p\<lparr>del_failure_code := None\<rparr>) c)))"

definition request_retry ::
  "timestamp \<Rightarrow> uuid \<Rightarrow> idempotency_record \<Rightarrow> string \<Rightarrow> string \<Rightarrow> catalog
     \<Rightarrow> lifecycle_error + mutation_outcome \<times> catalog" where
  "request_retry now document_id idempotency actor_type actor_id c =
     (if \<not> reservation_usable idempotency actor_id
      then Inl (internal ''idempotency_binding_invalid'')
      else
      rbind (get_document_for_update c document_id) (\<lambda>requested.
      if \<not> doc_failure_retryable requested then Inl (conflict ''retry_not_allowed'')
      else
      rbind (retry_owner c requested) (\<lambda>document.
      case retry_class (doc_state document) of
        None \<Rightarrow> Inl (conflict ''retry_not_allowed'')
      | Some (operation_type, next_state) \<Rightarrow>
      (case latest_operation c (doc_id document) (Some operation_type) of
         None \<Rightarrow> Inl (internal ''retry_checkpoint_missing'')
       | Some failed \<Rightarrow>
      if op_state failed \<noteq> OP_FAILED \<or> \<not> op_retryable failed
         \<or> op_phase failed \<in> {QUEUED, COMPLETE, AWAITING_DECISION}
      then Inl (internal ''retry_checkpoint_missing'')
      else case priority_of_int (op_priority failed) of
        None \<Rightarrow> Inl (internal ''operation_priority_invalid'')
      | Some priority \<Rightarrow>
      if doc_id requested \<noteq> doc_id document \<and> op_replacement_target failed \<noteq> Some (doc_id requested)
      then Inl (internal ''replacement_retry_binding_invalid'')
      else
      rbind (retry_checkpoint c document operation_type failed) (\<lambda>(phase, c1).
      rbind (enqueue_operation now (doc_id document) operation_type priority (op_revision_id failed)
               (op_replacement_target failed) (Some (idem_id idempotency)) phase
               (upd_document (doc_id document) (\<lambda>d. clear_failure (d\<lparr>doc_state := next_state\<rparr>)) c1))
        (\<lambda>(op, c2).
          let c3 = audit ''retry_accepted'' actor_type actor_id (Some (doc_id document))
                (Some (op_id op))
                [(''operation_type'', AText (operation_type_value operation_type)),
                 (''failed_operation_id'', AUuid (op_id failed)),
                 (''requested_document_id'', AUuid (doc_id requested)),
                 (''resume_phase'', AText (phase_value phase)),
                 (''attempt'', ANum (op_attempt op))] c2;
              c4 = (if doc_id requested \<noteq> doc_id document
                then audit ''replacement_retry_accepted'' actor_type actor_id (Some (doc_id requested))
                  (Some (op_id op))
                  [(''incoming_document_id'', AUuid (doc_id document)),
                   (''resume_phase'', AText (phase_value phase)),
                   (''attempt'', ANum (op_attempt op))] c3
                else c3)
          in Inr (\<lparr>mo_document_id = doc_id requested, mo_operation = Some op,
                   mo_idempotency_id = idem_id idempotency\<rparr>, c4)))))))"

definition deletion_target_for_state ::
  "catalog \<Rightarrow> document \<Rightarrow> string
     \<Rightarrow> lifecycle_error + string \<times> prepared_revision option \<times> publication_record option" where
  "deletion_target_for_state c document configured_active =
     (if doc_state document = READY then
        rbind (verified_ready_binding c document) (\<lambda>(revision, publication).
          Inr (pub_active_collection publication, Some revision, Some publication))
      else if doc_state document = REVIEW_REQUIRED then
        (case latest_sealed_revision c (doc_id document) of
           None \<Rightarrow> Inl (internal ''prepared_revision_missing'')
         | Some revision \<Rightarrow>
             (case publication_of c (rev_id revision) of
                None \<Rightarrow> Inr (rev_active_collection revision, Some revision, None)
              | Some publication \<Rightarrow>
                  if pub_document_id publication \<noteq> doc_id document
                     \<or> pub_active_collection publication \<noteq> rev_active_collection revision
                     \<or> rev_expected_point_count revision \<noteq> Some (pub_expected_points publication)
                  then Inl (internal ''publication_binding_invalid'')
                  else Inr (rev_active_collection revision, Some revision, Some publication)))
      else if doc_state document = PUBLISH_FAILED then
        (case max_by pub_created_at
                (filter (\<lambda>p. pub_document_id p = doc_id document) (publications c)) of
           None \<Rightarrow> Inl (internal ''publication_record_missing'')
         | Some publication \<Rightarrow>
             (case get_revision c (pub_revision_id publication) of
                None \<Rightarrow> Inl (internal ''publication_record_missing'')
              | Some revision \<Rightarrow>
                  if rev_document_id revision \<noteq> doc_id document \<or> rev_status revision \<noteq> REV_SEALED
                     \<or> pub_status publication = PUB_VERIFIED
                     \<or> pub_active_collection publication \<noteq> rev_active_collection revision
                     \<or> rev_expected_point_count revision \<noteq> Some (pub_expected_points publication)
                  then Inl (internal ''publication_record_missing'')
                  else Inr (pub_active_collection publication, Some revision, Some publication)))
      else case latest_revision c (doc_id document) of
        Some revision \<Rightarrow> Inr (rev_active_collection revision, Some revision, None)
      | None \<Rightarrow>
          if configured_active = [] then Inl (internal ''collection_configuration_invalid'')
          else Inr (configured_active, None, None))"

definition request_deletion ::
  "timestamp \<Rightarrow> uuid \<Rightarrow> idempotency_record \<Rightarrow> string \<Rightarrow> string \<Rightarrow> string \<Rightarrow> string \<Rightarrow> catalog
     \<Rightarrow> lifecycle_error + mutation_outcome \<times> catalog" where
  "request_deletion now document_id idempotency actor_type actor_id active screening c =
     (if \<not> reservation_usable idempotency actor_id
      then Inl (internal ''idempotency_binding_invalid'')
      else
      rbind (get_document_for_update c document_id) (\<lambda>document.
      if doc_state document \<in> {DELETING, DELETE_FAILED}
         \<and> doc_terminal_disposition document \<noteq> Some TD_DELETED
      then Inl (conflict ''deletion_disposition_conflict'')
      else if doc_state document \<in> {DELETING, DELETE_FAILED, DELETED} then
        (case latest_deletion_operation c (doc_id document) of
           None \<Rightarrow> Inl (internal ''deletion_operation_missing'')
         | Some op \<Rightarrow> Inr (\<lparr>mo_document_id = doc_id document, mo_operation = Some op,
             mo_idempotency_id = idem_id idempotency\<rparr>, c))
      else if doc_state document \<notin> {READY, PREFLIGHT_FAILED, REVIEW_REQUIRED, PUBLISH_FAILED}
      then Inl (conflict ''document_state_conflict'')
      else
      rbind (deletion_target_for_state c document active) (\<lambda>(target, revision, publication).
      rbind (begin_deletion now document TD_DELETED target screening (map_option rev_id revision)
               (map_option pub_id publication) HIGH actor_type actor_id (Some (idem_id idempotency)) c)
        (\<lambda>(op, c1). Inr (\<lparr>mo_document_id = doc_id document, mo_operation = Some op,
            mo_idempotency_id = idem_id idempotency\<rparr>, c1)))))"

definition queue_rejection_cleanup ::
  "timestamp \<Rightarrow> document \<Rightarrow> string \<Rightarrow> string \<Rightarrow> string \<Rightarrow> uuid option \<Rightarrow> catalog
     \<Rightarrow> lifecycle_error + work_operation \<times> catalog" where
  "queue_rejection_cleanup now document reason_code active screening prepared_revision_id c =
     (if reason_code = [] \<or> length reason_code > 100 then Inl (internal ''rejection_reason_invalid'')
      else if doc_state document \<in> {DELETING, DELETE_FAILED}
         \<and> doc_terminal_disposition document \<noteq> Some TD_REJECTED
      then Inl (conflict ''deletion_disposition_conflict'')
      else if doc_state document \<in> {DELETING, DELETE_FAILED}
         \<and> doc_failure_code document \<notin> {None, Some reason_code}
      then Inl (conflict ''rejection_reason_conflict'')
      else if doc_state document \<notin> {DELETING, DELETE_FAILED, PREFLIGHTING, PREFLIGHT_FAILED}
      then Inl (conflict ''document_state_conflict'')
      else
      rbind (begin_deletion now document TD_REJECTED active screening prepared_revision_id None HIGH
               ''system'' ''pdf-bridge'' None c)
        (\<lambda>(op, c1). Inr (op,
           upd_document (doc_id document) (\<lambda>d. d\<lparr>doc_failure_code := Some reason_code\<rparr>) c1)))"

section \<open>Tombstones\<close>

text \<open>The content tables that still hold rows of one of the revisions, with their row counts.\<close>

definition remaining_content :: "catalog \<Rightarrow> uuid list \<Rightarrow> (string \<times> nat) list" where
  "remaining_content c rs =
     filter (\<lambda>(_, n). n \<noteq> 0)
       [(''revision_artifacts'', length (filter (\<lambda>x. art_revision_id x \<in> set rs) (artifacts c))),
        (''extracted_pages'', length (filter (\<lambda>x. xp_revision_id x \<in> set rs) (extracted_pages c))),
        (''formatter_batches'', length (filter (\<lambda>x. fb_revision_id x \<in> set rs) (formatter_batches c))),
        (''prepared_pages'', length (filter (\<lambda>x. pp_revision_id x \<in> set rs) (prepared_pages c))),
        (''prepared_chunks'', length (filter (\<lambda>x. chk_revision_id x \<in> set rs) (chunks c))),
        (''prepared_chunk_vectors'', length (filter (\<lambda>x. vec_revision_id x \<in> set rs) (chunk_vectors c))),
        (''prepared_candidates'', length (filter (\<lambda>x. cand_revision_id x \<in> set rs) (candidates c))),
        (''candidate_evidence'', length (filter (\<lambda>x. ev_revision_id x \<in> set rs) (evidence_rows c)))]"

definition revision_ids_of :: "catalog \<Rightarrow> uuid \<Rightarrow> uuid list" where
  "revision_ids_of c document_id =
     map rev_id (filter (\<lambda>r. rev_document_id r = document_id) (revisions c))"

text \<open>The terminal document row and its closed checkpoint.\<close>

definition terminal_document ::
  "timestamp \<Rightarrow> terminal_disposition \<Rightarrow> string option \<Rightarrow> document \<Rightarrow> document" where
  "terminal_document now disposition reason_code d =
     (let terminal_state = state_of_disposition disposition in
      d\<lparr>doc_state := terminal_state, doc_terminal_disposition := Some disposition,
        doc_failure_retryable := False, doc_failure_message := None,
        doc_failure_code := (if terminal_state = REJECTED then reason_code else None),
        doc_rejected_at := (if terminal_state = REJECTED then Some now else doc_rejected_at d),
        doc_cancelled_at := (if terminal_state = CANCELLED then Some now else doc_cancelled_at d),
        doc_deleted_at := (if terminal_state = DELETED then Some now else doc_deleted_at d)\<rparr>)"

definition terminal_deletion :: "timestamp \<Rightarrow> deletion_progress \<Rightarrow> deletion_progress" where
  "terminal_deletion now p = p\<lparr>del_phase := DP_COMMIT_TOMBSTONE, del_failure_code := None,
     del_tombstoned_at := Some now\<rparr>"

definition commit_tombstone ::
  "timestamp \<Rightarrow> document \<Rightarrow> string option \<Rightarrow> string \<Rightarrow> string \<Rightarrow> catalog
     \<Rightarrow> lifecycle_error + tombstone \<times> catalog" where
  "commit_tombstone now document reason_code actor_type actor_id c =
     (if (case reason_code of None \<Rightarrow> False | Some s \<Rightarrow> s = [] \<or> length s > 100)
      then Inl (internal ''tombstone_reason_invalid'')
      else case tombstone_of c (doc_id document) of
        Some existing \<Rightarrow>
          (case deletion_of c (doc_id document) of
             None \<Rightarrow> Inl (internal ''tombstone_binding_invalid'')
           | Some progress \<Rightarrow>
               if tomb_disposition existing \<noteq> del_disposition progress
                  \<or> doc_state document \<noteq> state_of_disposition (tomb_disposition existing)
                  \<or> del_tombstoned_at progress = None
               then Inl (internal ''tombstone_binding_invalid'')
               else Inr (existing, c))
      | None \<Rightarrow>
          if doc_state document \<notin> {DELETING, DELETE_FAILED}
          then Inl (internal ''document_state_conflict'')
          else case deletion_of c (doc_id document) of
            None \<Rightarrow> Inl (internal ''deletion_checkpoint_incomplete'')
          | Some progress \<Rightarrow>
              if del_storage_purged_at progress = None
              then Inl (internal ''deletion_checkpoint_incomplete'')
              else if doc_terminal_disposition document \<noteq> Some (del_disposition progress)
              then Inl (internal ''deletion_disposition_conflict'')
              else if del_active_zero_at progress = None \<or> del_screening_zero_at progress = None
              then Inl (internal ''index_cleanup_incomplete'')
              else if doc_storage_key document \<noteq> None then Inl (internal ''source_not_purged'')
              else if (case del_revision_id progress of
                    None \<Rightarrow> False
                  | Some r \<Rightarrow> (case get_revision c r of
                        None \<Rightarrow> True
                      | Some revision \<Rightarrow> rev_document_id revision \<noteq> doc_id document))
              then Inl (internal ''deletion_binding_invalid'')
              else if remaining_content c (revision_ids_of c (doc_id document)) \<noteq> []
              then Inl (internal ''content_purge_incomplete'')
              else
                let (new_id, c1) = uuid4 c;
                    tombstone = \<lparr>tomb_id = new_id, tomb_document_id = doc_id document,
                      tomb_collection_key = doc_collection_key document,
                      tomb_disposition = del_disposition progress,
                      tomb_source_sha256 = doc_sha256 document,
                      tomb_manifest_sha256 = Option.bind (Option.bind (del_revision_id progress)
                        (get_revision c)) rev_manifest_sha256,
                      tomb_reason_code = reason_code, tomb_actor_type = actor_type,
                      tomb_actor_id = actor_id, tomb_occurred_at = now\<rparr>
                in rbind (add_tombstone tombstone c1) (\<lambda>c2.
                  let c3 = upd_document (doc_id document)
                        (terminal_document now (del_disposition progress) reason_code) c2;
                      c4 = upd_deletion (doc_id document) (terminal_deletion now) c3
                  in Inr (tombstone, audit ''tombstone_committed'' actor_type actor_id
                       (Some (doc_id document)) None
                       [(''disposition'', AText (disposition_value (del_disposition progress)))] c4)))"

section \<open>Content gates\<close>

definition can_serve_source :: "document \<Rightarrow> bool" where
  "can_serve_source d \<longleftrightarrow>
     doc_scan_state d = SCAN_CLEAN \<and> doc_storage_key d \<noteq> None
     \<and> doc_state d \<in> {PREFLIGHTING, PREFLIGHT_FAILED, REVIEW_REQUIRED, PUBLISHING, PUBLISH_FAILED,
         READY}"

definition can_serve_prepared_content :: "document \<Rightarrow> bool" where
  "can_serve_prepared_content d \<longleftrightarrow>
     can_serve_source d \<and> doc_state d \<in> {REVIEW_REQUIRED, PUBLISHING, PUBLISH_FAILED, READY}"

end
