(* ===== verification/Lifecycle.thy ===== *)
theory Lifecycle
  imports Intake
begin

text \<open>
  The invariants of the catalog under the lifecycle of \<^verbatim>\<open>services/intake.py\<close>: the CHECK constraints,
  the binding of every document to its deletion checkpoint and tombstone, the publication proof of
  every READY document (\<open>catalog_ok\<close>), and the shape of the durable queue (\<open>queue_ok\<close>).  Each
  lifecycle function is shown to keep them; the elimination rules ending in \<open>E\<close> describe stage by
  stage what a successful call did.
\<close>

section \<open>Invariants\<close>

definition checkpoints_ordered :: "deletion_progress \<Rightarrow> bool" where
  "checkpoints_ordered p \<longleftrightarrow>
     (del_tombstoned_at p \<noteq> None \<longrightarrow> del_storage_purged_at p \<noteq> None)
     \<and> (del_storage_purged_at p \<noteq> None \<longrightarrow> del_screening_zero_at p \<noteq> None)
     \<and> (del_screening_zero_at p \<noteq> None \<longrightarrow> del_active_zero_at p \<noteq> None)"

definition deletion_row_ok ::
  "document \<Rightarrow> deletion_progress option \<Rightarrow> tombstone option \<Rightarrow> bool" where
  "deletion_row_ok d progress tombstone \<longleftrightarrow>
     (case progress of
        None \<Rightarrow> doc_state d \<notin> set CONTENT_BLOCKED_DOCUMENT_STATES \<and> tombstone = None
      | Some p \<Rightarrow>
          doc_state d \<in> set CONTENT_BLOCKED_DOCUMENT_STATES
          \<and> doc_terminal_disposition d = Some (del_disposition p)
          \<and> deletion_check p \<and> checkpoints_ordered p
          \<and> (doc_state d \<in> set TERMINAL_DOCUMENT_STATES \<longleftrightarrow> del_tombstoned_at p \<noteq> None)
          \<and> map_option tomb_disposition tombstone =
              (if del_tombstoned_at p = None then None else Some (del_disposition p))
          \<and> (del_storage_purged_at p \<noteq> None \<longrightarrow> doc_storage_key d = None))"

definition deletion_bound :: "catalog \<Rightarrow> document \<Rightarrow> bool" where
  "deletion_bound c d \<longleftrightarrow>
     deletion_row_ok d (deletion_of c (doc_id d)) (tombstone_of c (doc_id d))"

definition verified_for :: "catalog \<Rightarrow> document \<Rightarrow> publication_record \<Rightarrow> prepared_revision \<Rightarrow> bool" where
  "verified_for c d p r \<longleftrightarrow>
     p \<in> set (publications c) \<and> r \<in> set (revisions c)
     \<and> pub_document_id p = doc_id d \<and> pub_status p = PUB_VERIFIED
     \<and> pub_revision_id p = rev_id r \<and> rev_document_id r = doc_id d \<and> rev_status r = REV_SEALED
     \<and> pub_active_collection p = rev_active_collection r
     \<and> rev_expected_point_count r = Some (pub_expected_points p)"

definition ready_bound :: "catalog \<Rightarrow> document \<Rightarrow> bool" where
  "ready_bound c d \<longleftrightarrow> (doc_state d = READY \<longrightarrow> (\<exists>p r. verified_for c d p r))"

definition document_ok :: "catalog \<Rightarrow> document \<Rightarrow> bool" where
  "document_ok c d \<longleftrightarrow> document_check d \<and> deletion_bound c d \<and> ready_bound c d"

definition catalog_ok :: "catalog \<Rightarrow> bool" where
  "catalog_ok c \<longleftrightarrow>
     distinct (map doc_id (documents c)) \<and> distinct (map rev_id (revisions c))
     \<and> distinct (map pub_id (publications c))
     \<and> (\<forall>p\<in>set (publications c). publication_check p)
     \<and> (\<forall>r\<in>set (revisions c). revision_check r)
     \<and> (\<forall>d\<in>set (documents c). document_ok c d)"

definition class_priority :: "work_operation \<Rightarrow> bool" where
  "class_priority w \<longleftrightarrow>
     map_option priority_int (priority_for_operation (op_type w) (op_replacement_target w \<noteq> None))
       = Some (op_priority w)"

definition lease_ok :: "work_operation \<Rightarrow> bool" where
  "lease_ok w \<longleftrightarrow>
     (op_state w = OP_RUNNING \<longleftrightarrow> op_worker_id w \<noteq> None)
     \<and> (op_worker_id w \<noteq> None \<longleftrightarrow> op_lease_expires_at w \<noteq> None)"

definition queue_ok :: "catalog \<Rightarrow> bool" where
  "queue_ok c \<longleftrightarrow>
     distinct (map op_id (operations c))
     \<and> distinct (map (\<lambda>w. (op_document_id w, op_type w, op_attempt w)) (operations c))
     \<and> (\<forall>w\<in>set (operations c). operation_check w \<and> class_priority w \<and> lease_ok w)"

section \<open>What the invariant reads\<close>

definition core :: "catalog \<Rightarrow> document list \<times> prepared_revision list \<times> publication_record list
    \<times> deletion_progress list \<times> tombstone list" where
  "core c = (documents c, revisions c, publications c, deletions c, tombstones c)"

lemma catalog_ok_same: "catalog_ok c \<Longrightarrow> core c' = core c \<Longrightarrow> catalog_ok c'"
  by (simp add: core_def catalog_ok_def document_ok_def deletion_bound_def ready_bound_def
      verified_for_def)

definition proofs_kept :: "catalog \<Rightarrow> catalog \<Rightarrow> bool" where
  "proofs_kept c c' \<longleftrightarrow>
     {p \<in> set (publications c). pub_status p = PUB_VERIFIED} \<subseteq> set (publications c')
     \<and> {r \<in> set (revisions c). rev_status r = REV_SEALED} \<subseteq> set (revisions c')"

lemma proofs_kept_refl [simp]: "proofs_kept c c"
  by (simp add: proofs_kept_def)

lemma ready_bound_kept: "proofs_kept c c' \<Longrightarrow> ready_bound c d \<Longrightarrow> ready_bound c' d"
  by (auto simp: proofs_kept_def ready_bound_def verified_for_def)

definition side_tables_ok :: "catalog \<Rightarrow> bool" where
  "side_tables_ok c \<longleftrightarrow>
     distinct (map rev_id (revisions c)) \<and> distinct (map pub_id (publications c))
     \<and> (\<forall>p\<in>set (publications c). publication_check p)
     \<and> (\<forall>r\<in>set (revisions c). revision_check r)"

lemma catalog_ok_iff:
  "catalog_ok c \<longleftrightarrow> distinct (map doc_id (documents c)) \<and> side_tables_ok c
     \<and> (\<forall>d\<in>set (documents c). document_ok c d)"
  by (auto simp: catalog_ok_def side_tables_ok_def)

text \<open>
  The one-document rule: a transaction that assigns to one document row and touches the deletion
  checkpoint and tombstone of that document only keeps the invariant if the new row is in order.
\<close>

lemma catalog_ok_one_document:
  assumes ok: "catalog_ok c" and side: "side_tables_ok c'"
    and docs: "documents c' = tupd doc_id k f (documents c)"
    and key: "\<And>d. doc_id (f d) = doc_id d"
    and kept: "proofs_kept c c'"
    and frame: "\<And>j. j \<noteq> k \<Longrightarrow> deletion_of c' j = deletion_of c j \<and> tombstone_of c' j = tombstone_of c j"
    and this_row: "\<And>d. get_document c k = Some d \<Longrightarrow> document_ok c d \<Longrightarrow> document_ok c' (f d)"
  shows "catalog_ok c'"
proof -
  have dist: "distinct (map doc_id (documents c))"
    using ok by (simp add: catalog_ok_def)
  have "document_ok c' (if doc_id d = k then f d else d)" if "d \<in> set (documents c)" for d
  proof (cases "doc_id d = k")
    case True
    then have "get_document c k = Some d"
      using tget_mem [OF dist that] by simp
    moreover have "document_ok c d"
      using ok that by (simp add: catalog_ok_def)
    ultimately show ?thesis
      using this_row True by simp
  next
    case False
    moreover have "document_ok c d"
      using ok that by (simp add: catalog_ok_def)
    ultimately show ?thesis
      using frame [OF False] ready_bound_kept [OF kept]
      by (simp add: document_ok_def deletion_bound_def)
  qed
  then have "\<forall>d\<in>set (documents c'). document_ok c' d"
    unfolding docs set_tupd by blast
  then show ?thesis
    using side dist key by (simp add: catalog_ok_iff docs map_key_tupd)
qed

lemma catalog_ok_document:
  assumes "catalog_ok c" and "get_document c k = Some d"
  shows "document_ok c d"
  using assms tget_Some_mem by (fastforce simp: catalog_ok_def)


section \<open>Effects of the intake primitives\<close>

lemma core_audit [simp]: "core (audit e a i d w xs c) = core c"
  by (simp add: core_def audit_def)

lemma operations_audit [simp]: "operations (audit e a i d w xs c) = operations c"
  by (simp add: audit_def)

lemma reservations_audit [simp]: "idempotency_records (audit e a i d w xs c) = idempotency_records c"
  by (simp add: audit_def)

lemma decisions_audit [simp]: "decisions (audit e a i d w xs c) = decisions c"
  by (simp add: audit_def)

lemma enqueue_operation_effect:
  assumes "enqueue_operation now d t prio r target idem phase c = Inr (op, c')"
  shows "core c' = core c" and "operations c' = tadd op (operations c)"
    and "op_document_id op = d" and "op_type op = t" and "op_priority op = priority_int prio"
    and "op_revision_id op = r" and "op_replacement_target op = target" and "op_phase op = phase"
    and "op_state op = OP_QUEUED" and "op_attempt op = next_attempt c d t"
    and "op_worker_id op = None" and "op_lease_expires_at op = None"
    and "op_created_at op = now" and "op_phase_started_at op = now"
    and "op_idempotency_id op = idem"
    and "priority_for_operation t (target \<noteq> None) = Some prio"
    and "op_id op \<notin> op_id ` set (operations c)"
    and "decisions c' = decisions c"
  using assms
  by (auto simp: enqueue_operation_def uuid4_def Let_def core_def audit_def add_operation_def
      list_ex_iff split: option.splits if_splits)

lemma ensure_publication_effect:
  assumes "ensure_publication_record now d r c = Inr (p, c')"
  shows "documents c' = documents c" and "revisions c' = revisions c"
    and "deletions c' = deletions c" and "tombstones c' = tombstones c"
    and "operations c' = operations c" and "decisions c' = decisions c"
    and "publications c' = publications c \<or>
      (publications c' = tadd p (publications c) \<and> pub_id p \<notin> pub_id ` set (publications c))"
    and "p \<in> set (publications c')" and "pub_status p = PUB_PENDING" and "pub_revision_id p = rev_id r"
    and "pub_document_id p = d" and "rev_document_id r = d" and "rev_status r = REV_SEALED"
    and "pub_verified_points p = None \<or> p \<in> set (publications c)"
    and "rev_expected_point_count r = Some (pub_expected_points p)"
  using assms tget_Some_mem [of pub_revision_id "rev_id r" "publications c"]
    tget_Some_key [of pub_revision_id "rev_id r" "publications c"]
  by (auto simp: ensure_publication_record_def uuid4_def Let_def add_publication_def list_ex_iff
      result_simps split: option.splits if_splits)


lemma ensure_publication_side:
  assumes ens: "ensure_publication_record now d r c = Inr (p, c')" and side: "side_tables_ok c"
    and "revision_check r"
  shows "side_tables_ok c'" and "proofs_kept c c'"
proof -
  note eff = ensure_publication_effect [OF ens]
  have "publication_check p" if "p \<notin> set (publications c)"
    using assms(3) eff(9,14,15) that by (simp add: publication_check_def revision_check_def)
  then show "side_tables_ok c'"
    using eff(2,7) side by (auto simp: side_tables_ok_def tadd_def)
  show "proofs_kept c c'"
    using eff(2,7) by (auto simp: proofs_kept_def)
qed

lemma ensure_publication_ok:
  assumes ens: "ensure_publication_record now d r c = Inr (p, c')" and ok: "catalog_ok c"
    and "revision_check r"
  shows "catalog_ok c'"
proof (rule catalog_ok_one_document [where f = "\<lambda>d. d", OF ok])
  note eff = ensure_publication_effect [OF ens]
  show "side_tables_ok c'" "proofs_kept c c'"
    using ensure_publication_side [OF ens _ assms(3)] ok by (auto simp: catalog_ok_iff)
  show "documents c' = tupd doc_id k (\<lambda>d. d) (documents c)" for k
    by (simp add: eff(1) tupd_def)
  fix x assume "document_ok c x"
  then show "document_ok c' x"
    using eff(3,4) ready_bound_kept [OF ensure_publication_side(2) [OF ens _ assms(3)]] ok
    by (simp add: document_ok_def deletion_bound_def catalog_ok_iff)
qed (simp_all add: ensure_publication_effect [OF ens])

lemma blocked_state_sets [simp]:
  "set CONTENT_BLOCKED_DOCUMENT_STATES = {DELETING, DELETE_FAILED, REJECTED, CANCELLED, DELETED}"
  "set TERMINAL_DOCUMENT_STATES = {REJECTED, CANCELLED, DELETED}"
  by (auto simp: CONTENT_BLOCKED_DOCUMENT_STATES_def TERMINAL_DOCUMENT_STATES_def)

lemma clear_failure_simps [simp]:
  "doc_id (clear_failure d) = doc_id d" "doc_state (clear_failure d) = doc_state d"
  "doc_terminal_disposition (clear_failure d) = doc_terminal_disposition d"
  "doc_storage_key (clear_failure d) = doc_storage_key d"
  "doc_size_bytes (clear_failure d) = doc_size_bytes d"
  "doc_sha256 (clear_failure d) = doc_sha256 d"
  "doc_replaced_by (clear_failure d) = doc_replaced_by d"
  "doc_failure_retryable (clear_failure d) = False"
  "doc_failure_code (clear_failure d) = None"
  by (simp_all add: clear_failure_def)

text \<open>A document that is not being deleted moves between open states.\<close>

definition open_state :: "document_state \<Rightarrow> bool" where
  "open_state s \<longleftrightarrow> s \<in> {PREFLIGHTING, PREFLIGHT_FAILED, REVIEW_REQUIRED, PUBLISHING, PUBLISH_FAILED}"

lemma document_ok_open:
  assumes "document_ok c d" and "doc_state d \<notin> {DELETING, DELETE_FAILED, REJECTED, CANCELLED, DELETED}"
    and "open_state (doc_state d')" and "doc_id d' = doc_id d"
    and "doc_terminal_disposition d' = doc_terminal_disposition d"
    and "doc_size_bytes d' = doc_size_bytes d" and "doc_sha256 d' = doc_sha256 d"
    and "deletion_of c' (doc_id d) = deletion_of c (doc_id d)"
    and "tombstone_of c' (doc_id d) = tombstone_of c (doc_id d)"
  shows "document_ok c' d'"
  using assms
  by (auto simp: document_ok_def document_check_def terminal_disposition_matches_state_def
      deletion_bound_def deletion_row_ok_def ready_bound_def open_state_def split: option.splits)

text \<open>A document enters deletion together with its checkpoint.\<close>

lemma document_ok_deleting:
  assumes "document_ok c d" and "doc_state d \<notin> {DELETING, DELETE_FAILED, REJECTED, CANCELLED, DELETED}"
    and "doc_state d' = DELETING" and "doc_id d' = doc_id d"
    and "doc_terminal_disposition d' = Some disp"
    and "doc_size_bytes d' = doc_size_bytes d" and "doc_sha256 d' = doc_sha256 d"
    and "active \<noteq> screening"
    and "deletion_of c' (doc_id d) = Some (new_deletion n (doc_id d) r p disp active screening)"
    and "tombstone_of c' (doc_id d) = tombstone_of c (doc_id d)"
  shows "document_ok c' d'"
  using assms
  by (auto simp: document_ok_def document_check_def terminal_disposition_matches_state_def
      deletion_bound_def deletion_row_ok_def ready_bound_def new_deletion_def deletion_check_def
      checkpoints_ordered_def split: option.splits)

lemma begin_deletion_ok:
  assumes run: "begin_deletion now d disp active screening r p prio actor who idem c = Inr (op, c')"
    and ok: "catalog_ok c" and row: "get_document c (doc_id d) = Some d"
  shows "catalog_ok c'"
proof (cases "deletion_of c (doc_id d)")
  case (Some progress)
  with run show ?thesis
    using ok by (auto simp: begin_deletion_def result_simps split: if_splits)
next
  case None
  let ?n = "uuid_supply c (uuid_drawn c)"
  let ?f = "\<lambda>d. clear_failure (d\<lparr>doc_state := DELETING, doc_terminal_disposition := Some disp\<rparr>)"
  let ?progress = "new_deletion ?n (doc_id d) r p disp active screening"
  from run None obtain c2 c3 where open_doc: "doc_state d \<notin> {DELETING, DELETE_FAILED, REJECTED, CANCELLED, DELETED}"
    and ne: "active \<noteq> screening"
    and add: "add_deletion ?progress (c\<lparr>uuid_drawn := Suc (uuid_drawn c)\<rparr>) = Inr c2"
    and enq: "enqueue_operation now (doc_id d) DELETE prio r None idem QUEUED
       (upd_document (doc_id d) ?f c2) = Inr (op, c3)"
    and c': "core c' = core c3"
    by (auto simp: begin_deletion_def result_simps uuid4_def Let_def split: if_splits)
  have c2: "documents c2 = documents c" "revisions c2 = revisions c"
    "publications c2 = publications c" "tombstones c2 = tombstones c"
    using add by (auto simp: add_deletion_def split: if_splits)
  have del: "deletion_of c2 j = (if j = doc_id d then Some ?progress else deletion_of c j)" for j
    using deletion_inserts.get_add [OF add, of j] by (simp add: new_deletion_def)
  have "catalog_ok (upd_document (doc_id d) ?f c2)"
  proof (rule catalog_ok_one_document [OF ok, where k = "doc_id d" and f = ?f])
    show "side_tables_ok (upd_document (doc_id d) ?f c2)"
      using ok by (simp add: catalog_ok_iff side_tables_ok_def upd_document_def c2)
    fix x assume x: "get_document c (doc_id d) = Some x" "document_ok c x"
    then have "x = d" using row by simp
    with open_doc ne show "document_ok (upd_document (doc_id d) ?f c2) (?f x)"
      by (intro document_ok_deleting [OF x(2), where disp = disp]) (auto simp: upd_document_def c2 del)
  qed (auto simp: upd_document_def c2 proofs_kept_def del)
  then show ?thesis
    by (rule catalog_ok_same) (simp add: c' enqueue_operation_effect(1) [OF enq])
qed


section \<open>Mutations keep the invariant\<close>

lemma document_ok_frame [simp]:
  "document_ok (upd_document k f c) d = document_ok c d"
  "document_ok (upd_operation k g c) d = document_ok c d"
  by (simp_all add: document_ok_def deletion_bound_def ready_bound_def verified_for_def table_defs)

lemma upd_document_ok:
  assumes ok: "catalog_ok c" and key: "\<And>d. doc_id (f d) = doc_id d"
    and row: "\<And>d. get_document c k = Some d \<Longrightarrow> document_ok c d \<Longrightarrow> document_ok c (f d)"
  shows "catalog_ok (upd_document k f c)"
proof (rule catalog_ok_one_document [OF ok, where k = k and f = f])
  show "side_tables_ok (upd_document k f c)"
    using ok by (simp add: catalog_ok_iff side_tables_ok_def upd_document_def)
qed (use key row in \<open>simp_all add: document_rows.rows_upd proofs_kept_def\<close>)

lemma upd_operation_ok: "catalog_ok c \<Longrightarrow> catalog_ok (upd_operation k f c)"
  by (erule catalog_ok_same) (simp add: core_def upd_operation_def)

lemma upd_open_ok:
  assumes ok: "catalog_ok c" and row: "get_document c k = Some d"
    and "doc_state d \<notin> {DELETING, DELETE_FAILED, REJECTED, CANCELLED, DELETED}"
    and "\<And>d. doc_id (f d) = doc_id d" and "\<And>d. open_state (doc_state (f d))"
    and "\<And>d. doc_terminal_disposition (f d) = doc_terminal_disposition d"
    and "\<And>d. doc_size_bytes (f d) = doc_size_bytes d" and "\<And>d. doc_sha256 (f d) = doc_sha256 d"
  shows "catalog_ok (upd_document k f c)"
  using assms by (intro upd_document_ok [OF ok]) (auto intro: document_ok_open)

lemma queue_clear_publication_ok:
  assumes run: "queue_clear_publication now d r c = Inr (op, c')" and ok: "catalog_ok c"
    and row: "get_document c (doc_id d) = Some d" and "revision_check r"
  shows "catalog_ok c'"
proof (cases "doc_state d = PUBLISHING")
  case True
  with run ok show ?thesis
    by (auto simp: queue_clear_publication_def split: option.splits)
next
  case False
  let ?f = "\<lambda>d. clear_failure (d\<lparr>doc_state := PUBLISHING\<rparr>)"
  from run False obtain p c1 where st: "doc_state d = PREFLIGHTING"
    and ens: "ensure_publication_record now (doc_id d) r c = Inr (p, c1)"
    and enq: "enqueue_operation now (doc_id d) PUBLISH PRIO_PUBLISH (Some (rev_id r)) None None QUEUED
       (upd_document (doc_id d) ?f c1) = Inr (op, c')"
    by (auto simp: queue_clear_publication_def result_simps)
  have "catalog_ok (upd_document (doc_id d) ?f c1)"
    using row st by (intro upd_open_ok [OF ensure_publication_ok [OF ens ok assms(4)], of _ d])
      (simp_all add: ensure_publication_effect(1) [OF ens] open_state_def)
  then show ?thesis
    by (rule catalog_ok_same) (simp add: enqueue_operation_effect(1) [OF enq])
qed

lemma begin_replacement_ok:
  assumes run: "begin_replacement now d r t tr tp screening actor who c = Inr (op, c')"
    and ok: "catalog_ok c" and row: "get_document c (doc_id d) = Some d"
    and trow: "get_document c (doc_id t) = Some t" and ne: "doc_id t \<noteq> doc_id d"
    and "revision_check r" and st: "doc_state d = REVIEW_REQUIRED" and tst: "doc_state t = READY"
  shows "catalog_ok c'"
proof -
  let ?f = "\<lambda>x. clear_failure (x\<lparr>doc_state := DELETING, doc_terminal_disposition := Some TD_DELETED,
     doc_replaced_by := Some (doc_id d)\<rparr>)"
  let ?g = "\<lambda>x. clear_failure (x\<lparr>doc_state := PUBLISHING\<rparr>)"
  from run obtain p c1 c3 c6 where ens: "ensure_publication_record now (doc_id d) r c = Inr (p, c1)"
    and coll: "pub_active_collection tp \<noteq> screening"
    and add: "add_deletion (new_deletion (uuid_supply c1 (uuid_drawn c1)) (doc_id t) (Some (rev_id tr))
       (Some (pub_id tp)) TD_DELETED (pub_active_collection tp) screening)
       (c1\<lparr>uuid_drawn := Suc (uuid_drawn c1)\<rparr>) = Inr c3"
    and enq: "enqueue_operation now (doc_id d) PUBLISH REPLACEMENT (Some (rev_id r)) (Some (doc_id t))
       None QUEUED (upd_document (doc_id d) ?g (upd_document (doc_id t) ?f c3)) = Inr (op, c6)"
    and c': "core c' = core c6"
    by (auto simp: begin_replacement_def result_simps uuid4_def Let_def)
  have ok1: "catalog_ok c1"
    by (rule ensure_publication_ok [OF ens ok assms(6)])
  have c3: "documents c3 = documents c1" "revisions c3 = revisions c1"
    "publications c3 = publications c1" "tombstones c3 = tombstones c1"
    using add by (auto simp: add_deletion_def split: if_splits)
  note del = deletion_inserts.get_add [OF add]
  have "catalog_ok (upd_document (doc_id t) ?f c3)"
  proof (rule catalog_ok_one_document [OF ok1, where k = "doc_id t" and f = ?f])
    show "side_tables_ok (upd_document (doc_id t) ?f c3)"
      using ok1 by (simp add: catalog_ok_iff side_tables_ok_def upd_document_def c3)
    fix x assume x: "get_document c1 (doc_id t) = Some x" "document_ok c1 x"
    then have "x = t" using trow ensure_publication_effect(1) [OF ens] by simp
    with tst coll show "document_ok (upd_document (doc_id t) ?f c3) (?f x)"
      by (intro document_ok_deleting [OF x(2), where disp = TD_DELETED])
        (auto simp: upd_document_def c3 del new_deletion_def)
  qed (auto simp: upd_document_def c3 proofs_kept_def del new_deletion_def)
  then have "catalog_ok (upd_document (doc_id d) ?g (upd_document (doc_id t) ?f c3))"
    using row st ne
    by (rule_tac upd_open_ok [of _ _ d]) (simp_all add: open_state_def document_rows.get_upd c3
        ensure_publication_effect(1) [OF ens])
  then show ?thesis
    by (rule catalog_ok_same) (simp add: c' enqueue_operation_effect(1) [OF enq])
qed


lemma get_document_for_update_Inr [result_simps]:
  "get_document_for_update c k = Inr d \<longleftrightarrow> get_document c k = Some d"
  by (auto simp: get_document_for_update_def split: option.splits)

lemma require_current_review_revisionD:
  assumes "require_current_review_revision c d rid = Inr r"
  shows "doc_state d = REVIEW_REQUIRED" and "get_revision c rid = Some r" and "rev_id r = rid"
    and "rev_document_id r = doc_id d" and "rev_status r = REV_SEALED"
    and "map_option rev_id (latest_sealed_revision c (doc_id d)) = Some rid"
    and "rev_manifest_sha256 r \<noteq> None" and "decision_of c rid = None"
  using assms tget_Some_key [of rev_id rid "revisions c" r]
  by (auto simp: require_current_review_revision_def result_simps)

lemma validate_replacement_targetD:
  assumes "validate_replacement_target c d tid = Inr (t, r, p)"
  shows "get_document c tid = Some t" and "doc_id t = tid" and "tid \<noteq> doc_id d"
    and "doc_state t = READY" and "doc_collection_key t = doc_collection_key d"
    and "doc_replaced_by t = None" and "verified_ready_binding c t = Inr (r, p)"
  using assms tget_Some_key [of doc_id tid "documents c" t]
  by (auto simp: validate_replacement_target_def result_simps split: if_splits)

lemma catalog_ok_revision: "catalog_ok c \<Longrightarrow> get_revision c k = Some r \<Longrightarrow> revision_check r"
  using tget_Some_mem by (fastforce simp: catalog_ok_def)

text \<open>What a successful decision did, stage by stage.\<close>

lemma record_decisionE:
  assumes run: "record_decision now did rid action target idem actor who screening c = Inr (m, c')"
  obtains d r row c2 op c4 where "get_document c did = Some d" and "doc_id d = did"
    and "require_current_review_revision c d rid = Inr r"
    and "add_decision row (c\<lparr>uuid_drawn := Suc (uuid_drawn c)\<rparr>) = Inr c2"
    and "dec_revision_id row = rid" and "dec_document_id row = did" and "dec_action row = action"
    and "dec_target_document_id row = target" and "Some (dec_manifest_sha256 row) = rev_manifest_sha256 r"
    and "mo_document_id m = did" and "mo_operation m = Some op"
    and "core c' = core c4" and "operations c' = operations c4" and "decisions c' = decisions c4"
    and "case action of
        CANCEL \<Rightarrow> begin_deletion now d TD_CANCELLED (rev_active_collection r) screening (Some rid) None
          HIGH actor who None c2 = Inr (op, c4)
      | REPLACE \<Rightarrow> \<exists>t tr tp. target = Some (doc_id t) \<and> validate_replacement_target c d (doc_id t) = Inr (t, tr, tp)
          \<and> begin_replacement now d r t tr tp screening actor who c2 = Inr (op, c4)
      | KEEP \<Rightarrow> \<exists>p c3. ensure_publication_record now did r c2 = Inr (p, c3)
          \<and> enqueue_operation now did PUBLISH PRIO_PUBLISH (Some rid) None None QUEUED
              (upd_document did (\<lambda>d. d\<lparr>doc_state := PUBLISHING\<rparr>) c3) = Inr (op, c4)"
    and "action \<noteq> REPLACE \<Longrightarrow> target = None"
proof -
  from run obtain d r where d: "get_document c did = Some d"
    and r: "require_current_review_revision c d rid = Inr r"
    by (auto simp: record_decision_def result_simps)
  have did: "doc_id d = did"
    by (rule tget_Some_key [OF d])
  have rid: "rev_id r = rid"
    by (rule require_current_review_revisionD(3) [OF r])
  obtain h where h: "rev_manifest_sha256 r = Some h"
    using require_current_review_revisionD(7) [OF r] by auto
  note unfold_run = record_decision_def result_simps uuid4_def Let_def
  show ?thesis
  proof (cases "action = REPLACE")
    case False
    then show ?thesis
      using run d r h did rid that [OF d did r]
      by (cases action) (auto simp: unfold_run split: if_splits)
  next
    case True
    with run d r obtain tid t tr tp c2 op c4 where t: "target = Some tid"
      and vt: "validate_replacement_target c d tid = Inr (t, tr, tp)"
      and add: "add_decision \<lparr>dec_id = uuid_supply c (uuid_drawn c), dec_document_id = did,
            dec_revision_id = rid, dec_manifest_sha256 = h, dec_action = REPLACE,
            dec_target_document_id = Some (doc_id t), dec_idempotency_id = idem_id idem,
            dec_actor_type = actor, dec_actor_id = who\<rparr> (c\<lparr>uuid_drawn := Suc (uuid_drawn c)\<rparr>) = Inr c2"
      and rep: "begin_replacement now d r t tr tp screening actor who c2 = Inr (op, c4)"
      and out: "mo_document_id m = did" "mo_operation m = Some op" "core c' = core c4"
        "operations c' = operations c4" "decisions c' = decisions c4"
      by (auto simp: unfold_run h did rid)
    have "doc_id t = tid"
      by (rule validate_replacement_targetD(2) [OF vt])
    then show ?thesis
      by (intro that [OF d did r add]) (use True t vt rep out h in auto)
  qed
qed

lemma record_decision_ok:
  assumes run: "record_decision now did rid action target idem actor who screening c = Inr (m, c')"
    and ok: "catalog_ok c"
  shows "catalog_ok c'"
  using run
proof (cases rule: record_decisionE)
  case (1 d r row c2 op c4)
  have core2: "core c2 = core c"
    using 1(4) by (auto simp: add_decision_def core_def split: if_splits)
  have ok2: "catalog_ok c2"
    by (rule catalog_ok_same [OF ok core2])
  have docs: "documents c2 = documents c"
    using core2 by (simp add: core_def)
  have row: "get_document c2 (doc_id d) = Some d"
    using 1(1,2) docs by simp
  have st: "doc_state d = REVIEW_REQUIRED"
    by (rule require_current_review_revisionD(1) [OF 1(3)])
  have chk: "revision_check r"
    by (rule catalog_ok_revision [OF ok require_current_review_revisionD(2) [OF 1(3)]])
  have "catalog_ok c4"
  proof (cases action)
    case CANCEL
    with 1(15) show ?thesis
      by (auto intro: begin_deletion_ok [OF _ ok2 row])
  next
    case REPLACE
    with 1(15) obtain t tr tp where vt: "validate_replacement_target c d (doc_id t) = Inr (t, tr, tp)"
      and rep: "begin_replacement now d r t tr tp screening actor who c2 = Inr (op, c4)"
      by auto
    note vtD = validate_replacement_targetD [OF vt]
    show ?thesis
      using vtD(1,3,4) by (intro begin_replacement_ok [OF rep ok2 row _ _ chk st]) (simp_all add: docs)
  next
    case KEEP
    with 1(15) obtain p c3 where ens: "ensure_publication_record now did r c2 = Inr (p, c3)"
      and enq: "enqueue_operation now did PUBLISH PRIO_PUBLISH (Some rid) None None QUEUED
              (upd_document did (\<lambda>d. d\<lparr>doc_state := PUBLISHING\<rparr>) c3) = Inr (op, c4)"
      by auto
    have "catalog_ok (upd_document did (\<lambda>d. d\<lparr>doc_state := PUBLISHING\<rparr>) c3)"
      using row st 1(2) by (intro upd_open_ok [OF ensure_publication_ok [OF ens ok2 chk], of _ d])
        (simp_all add: ensure_publication_effect(1) [OF ens] open_state_def)
    then show ?thesis
      by (rule catalog_ok_same) (simp add: enqueue_operation_effect(1) [OF enq])
  qed
  then show ?thesis
    by (rule catalog_ok_same) (simp add: 1(12))
qed


lemma upd_publication_keeps:
  assumes "upd_publication k f c = Inr c'"
  shows "documents c' = documents c" "revisions c' = revisions c" "deletions c' = deletions c"
    "tombstones c' = tombstones c" "operations c' = operations c" "decisions c' = decisions c"
    "outbox c' = outbox c" "publications c' = tupd pub_id k f (publications c) \<or> c' = c"
  using assms by (auto simp: upd_publication_def split: option.splits if_splits)

lemma upd_publication_ok:
  assumes ok: "catalog_ok c" and run: "upd_publication k f c = Inr c'"
    and p: "get_publication c k = Some p" and open_pub: "pub_status p \<noteq> PUB_VERIFIED"
    and key: "\<And>p. pub_id (f p) = pub_id p" and chk: "publication_check p \<Longrightarrow> publication_check (f p)"
  shows "catalog_ok c'"
proof -
  have pubs: "publications c' = tupd pub_id k f (publications c)"
    using run p open_pub by (auto simp: upd_publication_def split: if_splits)
  note keep = upd_publication_keeps [OF run]
  have dist: "distinct (map pub_id (publications c))"
    using ok by (simp add: catalog_ok_def)
  have unique: "x = p" if "x \<in> set (publications c)" "pub_id x = k" for x
    using tget_mem [OF dist that(1)] that(2) p by simp
  have kept: "proofs_kept c c'"
    using open_pub unique by (auto simp: proofs_kept_def pubs set_tupd keep)
  have side: "side_tables_ok c'"
    using ok chk unique by (auto simp: catalog_ok_iff side_tables_ok_def pubs keep map_key_tupd key set_tupd)
  show ?thesis
  proof (rule catalog_ok_one_document [OF ok side, where f = "\<lambda>d. d"])
    show "documents c' = tupd doc_id k (\<lambda>d. d) (documents c)" for k
      by (simp add: keep tupd_def)
    fix x assume "document_ok c x"
    then show "document_ok c' x"
      using ready_bound_kept [OF kept] by (simp add: document_ok_def deletion_bound_def keep)
  qed (simp_all add: kept keep)
qed

definition same_checkpoint :: "deletion_progress \<Rightarrow> deletion_progress \<Rightarrow> bool" where
  "same_checkpoint p q \<longleftrightarrow>
     del_document_id q = del_document_id p \<and> del_disposition q = del_disposition p
     \<and> del_active_collection q = del_active_collection p
     \<and> del_screening_collection q = del_screening_collection p
     \<and> del_active_zero_at q = del_active_zero_at p \<and> del_screening_zero_at q = del_screening_zero_at p
     \<and> del_storage_purged_at q = del_storage_purged_at p \<and> del_tombstoned_at q = del_tombstoned_at p"

lemma deletion_row_ok_same:
  "same_checkpoint p q \<Longrightarrow> deletion_row_ok d (Some q) t = deletion_row_ok d (Some p) t"
  by (simp add: same_checkpoint_def deletion_row_ok_def deletion_check_def checkpoints_ordered_def)

lemma upd_deletion_same_ok:
  assumes ok: "catalog_ok c" and same: "\<And>p. same_checkpoint p (f p)"
  shows "catalog_ok (upd_deletion k f c)"
proof -
  have key: "del_document_id (f p) = del_document_id p" for p
    using same by (simp add: same_checkpoint_def)
  have "document_ok (upd_deletion k f c) d" if "document_ok c d" for d
    using that same
    by (cases "deletion_of c (doc_id d)")
      (auto simp: document_ok_def deletion_bound_def deletion_rows.get_upd key
        deletion_row_ok_same [OF same] ready_bound_def verified_for_def)
  then show ?thesis
    using ok by (simp add: catalog_ok_iff side_tables_ok_def)
qed

lemma document_ok_blocked:
  assumes "document_ok c d" and "doc_state d \<in> {DELETING, DELETE_FAILED}"
    and "doc_state d' \<in> {DELETING, DELETE_FAILED}" and "doc_id d' = doc_id d"
    and "doc_terminal_disposition d' = doc_terminal_disposition d"
    and "doc_size_bytes d' = doc_size_bytes d" and "doc_sha256 d' = doc_sha256 d"
    and "doc_storage_key d' = doc_storage_key d"
  shows "document_ok c d'"
proof -
  obtain p where p: "deletion_of c (doc_id d) = Some p"
    using assms(1,2) by (auto simp: document_ok_def deletion_bound_def deletion_row_ok_def split: option.splits)
  have "deletion_bound c d'"
    using assms(1-5,8) p by (auto simp: document_ok_def deletion_bound_def deletion_row_ok_def)
  moreover have "document_check d'"
    using assms(1-7) by (auto simp: document_ok_def document_check_def terminal_disposition_matches_state_def)
  ultimately show ?thesis
    using assms(3) by (auto simp: document_ok_def ready_bound_def)
qed

lemma retry_publication_ok:
  assumes run: "retry_publication c d r t = Inr c'" and ok: "catalog_ok c"
  shows "catalog_ok c'" and "j \<noteq> the t \<or> t = None \<Longrightarrow> get_document c' j = get_document c j"
    and "operations c' = operations c"
proof -
  let ?g = "\<lambda>p. p\<lparr>pub_status := PUB_PENDING, pub_failure_code := None\<rparr>"
  let ?h = "\<lambda>d. clear_failure (d\<lparr>doc_state := DELETING\<rparr>)"
  from run obtain rid p rv c1 where p: "publication_of c rid = Some p" and st: "pub_status p \<noteq> PUB_VERIFIED"
    and upd: "upd_publication (pub_id p) ?g c = Inr c1"
    and rest: "c' = c1 \<or> (\<exists>k x. t = Some k \<and> get_document c1 k = Some x \<and> doc_state x = DELETE_FAILED
       \<and> c' = upd_deletion k (\<lambda>p. p\<lparr>del_failure_code := None\<rparr>) (upd_document k ?h c1))"
    by (auto simp: retry_publication_def result_simps split: option.splits if_splits)
  have mem: "p \<in> set (publications c)"
    by (rule tget_Some_mem [OF p])
  have "get_publication c (pub_id p) = Some p"
    using ok mem by (intro tget_mem) (auto simp: catalog_ok_def)
  then have ok1: "catalog_ok c1"
    using st by (rule upd_publication_ok [OF ok upd]) (auto simp: publication_check_def split: option.splits)
  note keep = upd_publication_keeps [OF upd]
  have "catalog_ok (upd_document k ?h c1)" if "get_document c1 k = Some x" "doc_state x = DELETE_FAILED" for k x
    using that by (intro upd_document_ok [OF ok1]) (auto intro: document_ok_blocked)
  then show "catalog_ok c'"
    using rest ok1 upd_deletion_same_ok [where f = "\<lambda>p. p\<lparr>del_failure_code := None\<rparr>"]
    by (auto simp: same_checkpoint_def)
  show "j \<noteq> the t \<or> t = None \<Longrightarrow> get_document c' j = get_document c j"
    using rest keep by (auto simp: document_rows.get_upd)
  show "operations c' = operations c"
    using rest keep by auto
qed


text \<open>The columns of a document row the invariant reads.\<close>

definition same_lifecycle :: "document \<Rightarrow> document \<Rightarrow> bool" where
  "same_lifecycle d e \<longleftrightarrow>
     doc_id e = doc_id d \<and> doc_state e = doc_state d
     \<and> doc_terminal_disposition e = doc_terminal_disposition d
     \<and> doc_storage_key e = doc_storage_key d \<and> doc_size_bytes e = doc_size_bytes d
     \<and> doc_sha256 e = doc_sha256 d"

lemma document_ok_same_lifecycle:
  "same_lifecycle d e \<Longrightarrow> document_ok c e = document_ok c d"
  by (simp add: same_lifecycle_def document_ok_def document_check_def ready_bound_def verified_for_def
      terminal_disposition_matches_state_def deletion_bound_def deletion_row_ok_def
      cong: option.case_cong)

lemma upd_same_lifecycle_ok:
  assumes "catalog_ok c" and "\<And>d. same_lifecycle d (f d)"
  shows "catalog_ok (upd_document k f c)"
proof (rule upd_document_ok [OF assms(1)])
  show "doc_id (f d) = doc_id d" for d
    using assms(2) by (simp add: same_lifecycle_def)
qed (simp add: document_ok_same_lifecycle [OF assms(2)])

lemma retry_checkpoint_ok:
  assumes run: "retry_checkpoint c d ot failed = Inr (phase, c')" and ok: "catalog_ok c"
  shows "catalog_ok c'"
    and "op_replacement_target failed \<noteq> Some j \<Longrightarrow> get_document c' j = get_document c j"
    and "operations c' = operations c"
proof -
  have pub: "catalog_ok c1 \<and> (op_replacement_target failed \<noteq> Some j \<longrightarrow> get_document c1 j = get_document c j)
      \<and> operations c1 = operations c"
    if "retry_publication c d (op_revision_id failed) (op_replacement_target failed) = Inr c1" for c1 j
    using retry_publication_ok [OF that ok] by (cases "op_replacement_target failed") auto
  have del: "catalog_ok (upd_deletion k (\<lambda>p. p\<lparr>del_failure_code := None\<rparr>) c)" for k
    by (rule upd_deletion_same_ok [OF ok]) (simp add: same_checkpoint_def)
  show "catalog_ok c'" "operations c' = operations c"
    "op_replacement_target failed \<noteq> Some j \<Longrightarrow> get_document c' j = get_document c j"
    using run pub del ok
    by (cases ot; auto simp: retry_checkpoint_def result_simps split: if_splits)+
qed

text \<open>What a successful retry did, stage by stage.\<close>

lemma request_retryE:
  assumes run: "request_retry now did idem actor who c = Inr (m, c')"
  obtains requested d ot next_state failed prio phase c1 op c2
    where "get_document c did = Some requested" and "doc_failure_retryable requested"
      and "retry_owner c requested = Inr d" and "retry_class (doc_state d) = Some (ot, next_state)"
      and "latest_operation c (doc_id d) (Some ot) = Some failed"
      and "op_state failed = OP_FAILED" and "op_retryable failed"
      and "op_phase failed \<notin> {QUEUED, COMPLETE, AWAITING_DECISION}"
      and "retry_checkpoint c d ot failed = Inr (phase, c1)"
      and "enqueue_operation now (doc_id d) ot prio (op_revision_id failed) (op_replacement_target failed)
            (Some (idem_id idem)) phase
            (upd_document (doc_id d) (\<lambda>d. clear_failure (d\<lparr>doc_state := next_state\<rparr>)) c1) = Inr (op, c2)"
      and "core c' = core c2" and "operations c' = operations c2" and "mo_operation m = Some op"
      and "mo_document_id m = did" and "decisions c' = decisions c2"
      and "idempotency_records c' = idempotency_records c2"
proof -
  from run obtain requested where req: "get_document c did = Some requested"
    by (auto simp: request_retry_def result_simps)
  then have "doc_id requested = did"
    by (rule tget_Some_key)
  with run req show ?thesis
    using that [OF req]
    by (auto simp: request_retry_def result_simps Let_def split: if_splits)
qed

lemma retry_owner_row:
  assumes "retry_owner c requested = Inr d" and "get_document c did = Some requested"
  shows "get_document c (doc_id d) = Some d"
  using assms tget_Some_key [OF assms(2)]
  by (auto simp: retry_owner_def result_simps split: option.splits if_splits dest: tget_Some_key)

lemma enqueue_not_self:
  assumes "enqueue_operation now d t prio r target idem phase c = Inr (op, c')"
  shows "target \<noteq> Some d"
  using assms by (auto simp: enqueue_operation_def Let_def split: option.splits if_splits)

lemma request_retry_ok:
  assumes run: "request_retry now did idem actor who c = Inr (m, c')" and ok: "catalog_ok c"
  shows "catalog_ok c'"
  using run
proof (cases rule: request_retryE)
  case (1 requested d ot next_state failed prio phase c1 op c2)
  let ?f = "\<lambda>d. clear_failure (d\<lparr>doc_state := next_state\<rparr>)"
  have row: "get_document c (doc_id d) = Some d"
    by (rule retry_owner_row [OF 1(3,1)])
  note cp = retry_checkpoint_ok [OF 1(9) ok]
  have row1: "get_document c1 (doc_id d) = Some d"
    using cp(2) [of "doc_id d"] enqueue_not_self [OF 1(10)] row by simp
  have "document_ok c1 (?f d)" if "document_ok c1 d"
    using 1(4) that
    by (auto simp: retry_class_def open_state_def split: if_splits
        intro: document_ok_open document_ok_blocked)
  then have "catalog_ok (upd_document (doc_id d) ?f c1)"
    using row1 by (intro upd_document_ok [OF cp(1)]) auto
  then show ?thesis
    by (rule catalog_ok_same) (simp add: 1(11) enqueue_operation_effect(1) [OF 1(10)])
qed

lemma request_deletion_ok:
  assumes run: "request_deletion now did idem actor who active screening c = Inr (m, c')"
    and ok: "catalog_ok c"
  shows "catalog_ok c'"
proof -
  from run obtain d where d: "get_document c did = Some d"
    by (auto simp: request_deletion_def result_simps)
  have row: "get_document c (doc_id d) = Some d"
    using d tget_Some_key [OF d] by simp
  from run d have "c' = c \<or> (\<exists>target r p op. begin_deletion now d TD_DELETED target screening r p HIGH
      actor who (Some (idem_id idem)) c = Inr (op, c'))"
    by (auto simp: request_deletion_def result_simps split: if_splits)
  then show ?thesis
    using ok begin_deletion_ok [OF _ ok row] by auto
qed

lemma queue_rejection_cleanup_ok:
  assumes run: "queue_rejection_cleanup now d reason active screening r c = Inr (op, c')"
    and ok: "catalog_ok c" and row: "get_document c (doc_id d) = Some d"
  shows "catalog_ok c'"
proof -
  from run obtain c1 where del: "begin_deletion now d TD_REJECTED active screening r None HIGH
      ''system'' ''pdf-bridge'' None c = Inr (op, c1)"
    and c': "c' = upd_document (doc_id d) (\<lambda>d. d\<lparr>doc_failure_code := Some reason\<rparr>) c1"
    by (auto simp: queue_rejection_cleanup_def result_simps)
  show ?thesis
    unfolding c'
    by (rule upd_same_lifecycle_ok [OF begin_deletion_ok [OF del ok row]]) (simp add: same_lifecycle_def)
qed

lemma state_of_disposition_terminal [simp]:
  "state_of_disposition disp \<in> {REJECTED, CANCELLED, DELETED}"
  "state_of_disposition disp \<noteq> READY" "state_of_disposition disp \<noteq> DELETING"
  "state_of_disposition disp \<noteq> DELETE_FAILED"
  by (cases disp; simp)+

text \<open>What a first successful tombstone commit found and wrote.\<close>

lemma commit_tombstoneE:
  assumes run: "commit_tombstone now d reason actor who c = Inr (t, c')"
    and fresh: "tombstone_of c (doc_id d) = None"
  obtains p c2 where "deletion_of c (doc_id d) = Some p" and "doc_state d \<in> {DELETING, DELETE_FAILED}"
    and "doc_terminal_disposition d = Some (del_disposition p)"
    and "del_storage_purged_at p \<noteq> None" and "del_active_zero_at p \<noteq> None"
    and "del_screening_zero_at p \<noteq> None" and "doc_storage_key d = None"
    and "remaining_content c (revision_ids_of c (doc_id d)) = []"
    and "add_tombstone t (c\<lparr>uuid_drawn := Suc (uuid_drawn c)\<rparr>) = Inr c2"
    and "tomb_document_id t = doc_id d" and "tomb_disposition t = del_disposition p"
    and "tomb_reason_code t = reason" and "tomb_source_sha256 t = doc_sha256 d"
    and "core c' = core (upd_deletion (doc_id d) (terminal_deletion now)
        (upd_document (doc_id d) (terminal_document now (del_disposition p) reason) c2))"
    and "operations c' = operations c2"
  using run fresh that
  by (auto simp: commit_tombstone_def result_simps uuid4_def Let_def split: if_splits)


lemma terminal_document_simps [simp]:
  "doc_id (terminal_document now disp reason d) = doc_id d"
  "doc_state (terminal_document now disp reason d) = state_of_disposition disp"
  "doc_terminal_disposition (terminal_document now disp reason d) = Some disp"
  "doc_storage_key (terminal_document now disp reason d) = doc_storage_key d"
  "doc_size_bytes (terminal_document now disp reason d) = doc_size_bytes d"
  "doc_sha256 (terminal_document now disp reason d) = doc_sha256 d"
  by (simp_all add: terminal_document_def Let_def)

lemma document_ok_terminal:
  assumes "document_ok c d" and "deletion_of c (doc_id d) = Some p"
    and "doc_state d \<in> {DELETING, DELETE_FAILED}"
    and "del_storage_purged_at p \<noteq> None" and "doc_storage_key d = None"
    and "deletion_of c' (doc_id d) = Some (terminal_deletion now p)"
    and "map_option tomb_disposition (tombstone_of c' (doc_id d)) = Some (del_disposition p)"
  shows "document_ok c' (terminal_document now (del_disposition p) reason d)"
  using assms state_of_disposition_terminal(1) [of "del_disposition p"]
  by (auto simp: document_ok_def document_check_def terminal_disposition_matches_state_def
      deletion_bound_def deletion_row_ok_def ready_bound_def terminal_deletion_def deletion_check_def
      checkpoints_ordered_def)

lemma commit_tombstone_ok:
  assumes run: "commit_tombstone now d reason actor who c = Inr (t, c')"
    and ok: "catalog_ok c" and row: "get_document c (doc_id d) = Some d"
  shows "catalog_ok c'"
proof (cases "tombstone_of c (doc_id d)")
  case (Some x)
  with run ok show ?thesis
    by (auto simp: commit_tombstone_def result_simps split: if_splits)
next
  case None
  from run None show ?thesis
  proof (cases rule: commit_tombstoneE)
    case (1 p c2)
    let ?f = "terminal_document now (del_disposition p) reason"
    let ?c = "upd_deletion (doc_id d) (terminal_deletion now) (upd_document (doc_id d) ?f c2)"
    have c2: "documents c2 = documents c" "revisions c2 = revisions c"
      "publications c2 = publications c" "deletions c2 = deletions c"
      using 1(9) by (auto simp: add_tombstone_def split: if_splits)
    note tomb = tombstone_inserts.get_add [OF 1(9)]
    have key: "del_document_id (terminal_deletion now q) = del_document_id q" for q
      by (simp add: terminal_deletion_def)
    have "catalog_ok ?c"
    proof (rule catalog_ok_one_document [OF ok, where k = "doc_id d" and f = ?f])
      show "side_tables_ok ?c"
        using ok by (simp add: catalog_ok_iff side_tables_ok_def c2)
      show "documents ?c = tupd doc_id (doc_id d) ?f (documents c)"
        by (simp add: document_rows.rows_upd c2)
      fix x assume x: "get_document c (doc_id d) = Some x" "document_ok c x"
      then have "x = d" using row by simp
      with x 1 show "document_ok ?c (?f x)"
        by (intro document_ok_terminal [OF x(2)]) (auto simp: deletion_rows.get_upd key c2 tomb)
    qed (auto simp: proofs_kept_def c2 deletion_rows.get_upd key tomb 1(10))
    then show ?thesis
      by (rule catalog_ok_same) (simp add: 1(14))
  qed
qed



section \<open>The queue invariant\<close>

lemma fold_max_start:
  fixes f :: "'a \<Rightarrow> int"
  shows "m \<le> fold (\<lambda>x m. max m (f x)) xs m"
proof (induction xs arbitrary: m)
  case (Cons y ys)
  from Cons.IH [of "max m (f y)"] show ?case by simp
qed simp

lemma fold_max_member:
  fixes f :: "'a \<Rightarrow> int"
  shows "x \<in> set xs \<Longrightarrow> f x \<le> fold (\<lambda>x m. max m (f x)) xs m"
proof (induction xs arbitrary: m)
  case (Cons y ys)
  then show ?case
    using fold_max_start [of "max m (f y)" f ys] by auto
qed simp

lemma next_attempt_positive: "1 \<le> next_attempt c d t"
  using fold_max_start [of 0 op_attempt] by (simp add: next_attempt_def)

lemma next_attempt_greater:
  assumes "w \<in> set (operations c)" and "op_document_id w = d" and "op_type w = t"
  shows "op_attempt w < next_attempt c d t"
proof -
  have "op_attempt w \<le> fold (\<lambda>x m. max m (op_attempt x))
      (filter (\<lambda>w. op_document_id w = d \<and> op_type w = t) (operations c)) 0"
    using assms by (intro fold_max_member) simp
  then show ?thesis
    by (simp add: next_attempt_def)
qed

definition fresh_operation :: "catalog \<Rightarrow> work_operation \<Rightarrow> bool" where
  "fresh_operation c w \<longleftrightarrow>
     op_id w \<notin> op_id ` set (operations c)
     \<and> op_state w = OP_QUEUED \<and> op_worker_id w = None \<and> op_lease_expires_at w = None
     \<and> op_attempt w = next_attempt c (op_document_id w) (op_type w)
     \<and> op_phase_started_at w = op_created_at w \<and> class_priority w"

lemma priority_int_nonneg [simp]: "0 \<le> priority_int p"
  by (cases p) auto

lemma priority_for_delete: "priority_for_operation DELETE b = Some p \<Longrightarrow> p = HIGH"
  by (auto simp: priority_for_operation_def split: if_splits)

lemma fresh_operation_ok:
  assumes "fresh_operation c w" and "queue_ok c" and "operations c' = tadd w (operations c)"
  shows "queue_ok c'"
proof -
  obtain prio where prio: "priority_for_operation (op_type w) (op_replacement_target w \<noteq> None) = Some prio"
    and "op_priority w = priority_int prio"
    using assms(1) by (auto simp: fresh_operation_def class_priority_def)
  then have "operation_check w"
    using assms(1) next_attempt_positive
    by (cases "op_type w = DELETE")
      (auto simp: fresh_operation_def operation_check_def dest: priority_for_delete)
  moreover have "(op_document_id w, op_type w, op_attempt w)
      \<notin> (\<lambda>w. (op_document_id w, op_type w, op_attempt w)) ` set (operations c)"
    using assms(1) next_attempt_greater [of _ c] by (fastforce simp: fresh_operation_def)
  ultimately show ?thesis
    using assms by (auto simp: queue_ok_def fresh_operation_def lease_ok_def tadd_def)
qed

lemma next_attempt_cong: "operations c' = operations c \<Longrightarrow> next_attempt c' = next_attempt c"
  by (simp add: next_attempt_def fun_eq_iff)

lemma enqueue_fresh:
  assumes "enqueue_operation now d t prio r target idem phase c = Inr (op, c')"
  shows "fresh_operation c op" and "operations c' = tadd op (operations c)"
  using enqueue_operation_effect [OF assms] by (auto simp: fresh_operation_def class_priority_def)

text \<open>
  A mutation leaves the queue alone or appends one fresh operation to it.
\<close>

definition queue_step :: "catalog \<Rightarrow> work_operation \<Rightarrow> catalog \<Rightarrow> bool" where
  "queue_step c op c' \<longleftrightarrow>
     (op \<in> set (operations c) \<and> operations c' = operations c)
     \<or> (fresh_operation c op \<and> operations c' = tadd op (operations c))"

lemma queue_step_ok: "queue_step c op c' \<Longrightarrow> queue_ok c \<Longrightarrow> queue_ok c'"
  using fresh_operation_ok by (auto simp: queue_step_def queue_ok_def)

lemma queue_step_enqueue:
  assumes enq: "enqueue_operation now d t prio r target idem phase c1 = Inr (op, c2)"
    and "operations c1 = operations c" and "operations c' = operations c2"
  shows "queue_step c op c'"
  using enqueue_fresh [OF enq] assms(2,3) next_attempt_cong [OF assms(2)]
  by (simp add: queue_step_def fresh_operation_def)

lemma latest_deletion_operation_mem:
  "latest_deletion_operation c d = Some op \<Longrightarrow> op \<in> set (operations c)"
  by (auto simp: latest_deletion_operation_def dest: max_by_mem)

lemma begin_deletion_queue:
  assumes run: "begin_deletion now d disp active screening r p prio actor who idem c = Inr (op, c')"
  shows "queue_step c op c'"
proof (cases "deletion_of c (doc_id d)")
  case (Some x)
  with run show ?thesis
    by (auto simp: begin_deletion_def result_simps queue_step_def latest_deletion_operation_mem
        split: if_splits)
next
  case None
  with run show ?thesis
    by (auto simp: begin_deletion_def result_simps uuid4_def Let_def add_deletion_def
        split: if_splits intro: queue_step_enqueue)
qed

lemma begin_replacement_queue:
  assumes run: "begin_replacement now d r t tr tp screening actor who c = Inr (op, c')"
  shows "queue_step c op c'"
  using run ensure_publication_effect(5)
  by (fastforce simp: begin_replacement_def result_simps uuid4_def Let_def add_deletion_def
      split: if_splits intro: queue_step_enqueue)

lemma record_decision_queue:
  assumes run: "record_decision now did rid action target idem actor who screening c = Inr (m, c')"
  shows "\<exists>op. mo_operation m = Some op \<and> queue_step c op c'"
  using run
proof (cases rule: record_decisionE)
  case (1 d r row c2 op c4)
  have ops: "operations c2 = operations c"
    using 1(4) by (auto simp: add_decision_def split: if_splits)
  have "queue_step c2 op c4"
    using 1(15) ensure_publication_effect(5)
    by (cases action) (auto intro: begin_deletion_queue begin_replacement_queue queue_step_enqueue)
  then show ?thesis
    using 1(11,13) ops next_attempt_cong [OF ops] by (auto simp: queue_step_def fresh_operation_def)
qed

lemma request_retry_queue:
  assumes run: "request_retry now did idem actor who c = Inr (m, c')" and ok: "catalog_ok c"
  shows "\<exists>op. mo_operation m = Some op \<and> queue_step c op c'"
  using run
proof (cases rule: request_retryE)
  case (1 requested d ot next_state failed prio phase c1 op c2)
  then show ?thesis
    using retry_checkpoint_ok(3) [OF 1(9) ok] by (auto intro!: queue_step_enqueue)
qed

lemma request_deletion_queue:
  assumes run: "request_deletion now did idem actor who active screening c = Inr (m, c')"
  shows "\<exists>op. mo_operation m = Some op \<and> queue_step c op c'"
  using run latest_deletion_operation_mem begin_deletion_queue
  by (fastforce simp: request_deletion_def result_simps queue_step_def split: if_splits)


end
