(* ===== verification/Worker.thy ===== *)
theory Worker
  imports Lifecycle
begin

text \<open>
  The durable part of \<^verbatim>\<open>pdf_bridge/managers/worker.py\<close>: leases, claiming, and the short catalog
  transactions between which the worker calls models, Qdrant and the filesystem.  A transaction
  takes the clock reading and the catalog and either raises, which rolls it back, or returns the
  new catalog.
\<close>

section \<open>Errors\<close>

text \<open>The exceptions \<^verbatim>\<open>_safe_failure\<close> tells apart.\<close>

datatype worker_error =
  WorkerExecutionError (we_code: string) (we_message: string) (we_retryable: bool)
| LeaseLostError
| PreparationError string string
| VectorIndexConsistencyError
| VectorIndexError
| LocalModelError
| StorageError
| LifecycleFailure lifecycle_error
| OtherError

definition FAILURE_MESSAGE_LIMIT :: nat where
  "FAILURE_MESSAGE_LIMIT = 500"

text \<open>The constructor of \<^verbatim>\<open>WorkerExecutionError\<close> bounds the code and flattens the message.\<close>

definition bounded_message :: "string \<Rightarrow> string" where
  "bounded_message message = take FAILURE_MESSAGE_LIMIT (py_join '' '' (py_split message))"

definition worker_failure :: "string \<Rightarrow> string \<Rightarrow> bool \<Rightarrow> worker_error" where
  "worker_failure code message retryable =
     WorkerExecutionError (take 100 code) (bounded_message message) retryable"

fun safe_failure :: "worker_error \<Rightarrow> string \<times> string \<times> bool" where
  "safe_failure (WorkerExecutionError code message retryable) = (code, message, retryable)"
| "safe_failure LeaseLostError =
     (''operation_lease_lost'', ''The operation lease is no longer owned by this worker.'', True)"
| "safe_failure (PreparationError code message) = (take 100 code, bounded_message message, True)"
| "safe_failure VectorIndexConsistencyError =
     (''qdrant_consistency_failed'', ''Qdrant verification did not match catalog state.'', True)"
| "safe_failure VectorIndexError =
     (''qdrant_unavailable'', ''Required Qdrant point work did not complete.'', True)"
| "safe_failure LocalModelError =
     (''local_model_unavailable'', ''A required local model operation failed.'', True)"
| "safe_failure StorageError =
     (''storage_cleanup_failed'', ''Canonical storage work did not complete.'', True)"
| "safe_failure (LifecycleFailure _) =
     (''worker_internal_error'', ''The worker failed while executing this phase.'', True)"
| "safe_failure OtherError =
     (''worker_internal_error'', ''The worker failed while executing this phase.'', True)"

definition lift_lifecycle :: "lifecycle_error + 'a \<Rightarrow> worker_error + 'a" where
  "lift_lifecycle m = (case m of Inl e \<Rightarrow> Inl (LifecycleFailure e) | Inr x \<Rightarrow> Inr x)"

lemma lift_lifecycle_Inr [result_simps]: "lift_lifecycle m = Inr x \<longleftrightarrow> m = Inr x"
  by (cases m) (auto simp: lift_lifecycle_def)

definition model_identity :: "string option \<Rightarrow> string option \<Rightarrow> worker_error + string" where
  "model_identity model_id revision =
     (case (model_id, revision) of
        (Some m, Some r) \<Rightarrow>
          if m = [] \<or> r = [] then Inl (worker_failure ''provider_not_configured''
            ''A required immutable model identity is not configured.'' False)
          else Inr (m @ ''@'' @ r)
      | _ \<Rightarrow> Inl (worker_failure ''provider_not_configured''
            ''A required immutable model identity is not configured.'' False))"

section \<open>Leases and claims\<close>

definition WORKER_SLOTS :: nat where
  "WORKER_SLOTS = 2"

text \<open>The settings the queue reads, in the unit of timestamps.\<close>

record queue_settings =
  qs_lease :: timestamp
  qs_max_operation :: timestamp

text \<open>The in-process state of an \<^verbatim>\<open>AnalysisWorker\<close> that its slots share.\<close>

record worker =
  wk_id :: string
  wk_busy :: "uuid set"
  wk_claim_times :: "uuid \<rightharpoonup> timestamp"

record claimed_operation =
  cl_operation_id :: uuid
  cl_document_id :: uuid
  cl_collection_key :: string
  cl_type :: operation_type
  cl_locked :: "uuid list"

definition lease_expired :: "timestamp \<Rightarrow> work_operation \<Rightarrow> bool" where
  "lease_expired now w \<longleftrightarrow>
     op_state w = OP_RUNNING \<and> (case op_lease_expires_at w of None \<Rightarrow> False | Some t \<Rightarrow> t \<le> now)"

definition requeue :: "work_operation \<Rightarrow> work_operation" where
  "requeue w = w\<lparr>op_state := OP_QUEUED, op_worker_id := None, op_lease_expires_at := None,
     op_heartbeat_at := None\<rparr>"

definition recover_leases :: "timestamp \<Rightarrow> catalog \<Rightarrow> nat \<times> catalog" where
  "recover_leases now c =
     (length (filter (lease_expired now) (operations c)),
      c\<lparr>operations := map (\<lambda>w. if lease_expired now w then requeue w else w) (operations c)\<rparr>)"

definition renew_leases ::
  "queue_settings \<Rightarrow> timestamp \<Rightarrow> worker \<Rightarrow> catalog \<Rightarrow> nat \<times> catalog" where
  "renew_leases st now wk c =
     (let cutoff = now - qs_max_operation st;
          capped = (\<lambda>i. case wk_claim_times wk i of None \<Rightarrow> False | Some t \<Rightarrow> t \<le> cutoff);
          renewable = (\<lambda>w. op_state w = OP_RUNNING \<and> op_worker_id w = Some (wk_id wk)
            \<and> \<not> capped (op_id w))
      in (length (filter renewable (operations c)),
          c\<lparr>operations := map (\<lambda>w. if renewable w
               then w\<lparr>op_heartbeat_at := Some now, op_lease_expires_at := Some (now + qs_lease st)\<rparr>
               else w) (operations c)\<rparr>))"

text \<open>The \<^verbatim>\<open>WHERE\<close> clause of the claim query and its \<^verbatim>\<open>ORDER BY\<close> key.\<close>

definition claimable :: "catalog \<Rightarrow> uuid set \<Rightarrow> work_operation \<Rightarrow> bool" where
  "claimable c busy w \<longleftrightarrow>
     op_state w = OP_QUEUED \<and> get_document c (op_document_id w) \<noteq> None
     \<and> op_document_id w \<notin> busy
     \<and> (case op_replacement_target w of None \<Rightarrow> True | Some t \<Rightarrow> t \<notin> busy)"

definition claim_key :: "work_operation \<Rightarrow> int \<times> timestamp \<times> uuid" where
  "claim_key w = (op_priority w, op_created_at w, op_id w)"

definition locked_document_ids :: "work_operation \<Rightarrow> uuid list" where
  "locked_document_ids w =
     sort (remdups (op_document_id w # (case op_replacement_target w of None \<Rightarrow> [] | Some t \<Rightarrow> [t])))"

definition start_running :: "queue_settings \<Rightarrow> timestamp \<Rightarrow> string \<Rightarrow> work_operation \<Rightarrow> work_operation" where
  "start_running st now wid w =
     w\<lparr>op_state := OP_RUNNING, op_worker_id := Some wid,
       op_started_at := (case op_started_at w of None \<Rightarrow> Some now | Some t \<Rightarrow> Some t),
       op_heartbeat_at := Some now, op_lease_expires_at := Some (now + qs_lease st)\<rparr>"

text \<open>\<open>recovered_at\<close>, \<open>now\<close> and \<open>noted_at\<close> are the clock readings of the lease recovery, the claim
  and the note of the claim time.\<close>

definition claim_next ::
  "queue_settings \<Rightarrow> timestamp \<Rightarrow> timestamp \<Rightarrow> timestamp \<Rightarrow> worker \<Rightarrow> catalog
     \<Rightarrow> lifecycle_error + claimed_operation option \<times> worker \<times> catalog" where
  "claim_next st recovered_at now noted_at wk c0 =
     (let c = snd (recover_leases recovered_at c0) in
      case min_by claim_key (filter (claimable c (wk_busy wk)) (operations c)) of
        None \<Rightarrow> Inr (None, wk, c)
      | Some w \<Rightarrow>
          (case get_document c (op_document_id w) of
             None \<Rightarrow> Inl (RuntimeError ''queued operation references a missing document'')
           | Some d \<Rightarrow>
               let claimed = \<lparr>cl_operation_id = op_id w, cl_document_id = op_document_id w,
                     cl_collection_key = doc_collection_key d, cl_type = op_type w,
                     cl_locked = locked_document_ids w\<rparr>
               in if set (cl_locked claimed) \<inter> wk_busy wk \<noteq> {}
                  then Inl (RuntimeError ''document work exclusion changed while claiming'')
                  else Inr (Some claimed,
                    wk\<lparr>wk_busy := wk_busy wk \<union> set (cl_locked claimed),
                       wk_claim_times := (wk_claim_times wk)(op_id w \<mapsto> noted_at)\<rparr>,
                    upd_operation (op_id w) (start_running st now (wk_id wk)) c)))"

definition release_claim :: "claimed_operation \<Rightarrow> worker \<Rightarrow> worker" where
  "release_claim claimed wk =
     wk\<lparr>wk_busy := wk_busy wk - set (cl_locked claimed),
        wk_claim_times := (wk_claim_times wk)(cl_operation_id claimed := None)\<rparr>"

section \<open>Guarded transactions\<close>

text \<open>
  The steps below, and those of the workflows that call \<open>owned_operation\<close>, first re-read their operation and
  require that it is still running under this worker's lease.  The outbox, the count of deletion attempts and the rows
  of a preparation have no such check in the code, and recording a failure asks only whether the operation is running.
\<close>

definition owned_operation :: "catalog \<Rightarrow> string \<Rightarrow> uuid \<Rightarrow> work_operation option" where
  "owned_operation c wid oid =
     (case get_operation c oid of
        None \<Rightarrow> None
      | Some w \<Rightarrow> if op_state w \<noteq> OP_RUNNING \<or> op_worker_id w \<noteq> Some wid then None else Some w)"

record operation_snapshot =
  sn_operation_id :: uuid
  sn_document_id :: uuid
  sn_revision_id :: "uuid option"
  sn_replacement_target :: "uuid option"
  sn_type :: operation_type
  sn_phase :: operation_phase

definition operation_snapshot_of :: "string \<Rightarrow> uuid \<Rightarrow> catalog \<Rightarrow> worker_error + operation_snapshot" where
  "operation_snapshot_of wid oid c =
     (case owned_operation c wid oid of
        None \<Rightarrow> Inl LeaseLostError
      | Some w \<Rightarrow> Inr \<lparr>sn_operation_id = op_id w, sn_document_id = op_document_id w,
          sn_revision_id = op_revision_id w, sn_replacement_target = op_replacement_target w,
          sn_type = op_type w, sn_phase = op_phase w\<rparr>)"

definition set_phase ::
  "string \<Rightarrow> uuid \<Rightarrow> operation_phase \<Rightarrow> timestamp \<Rightarrow> catalog \<Rightarrow> worker_error + catalog" where
  "set_phase wid oid phase now c =
     (if phase \<in> {COMPLETE, AWAITING_DECISION} then Inl OtherError
      else case owned_operation c wid oid of
        None \<Rightarrow> Inl LeaseLostError
      | Some _ \<Rightarrow> Inr (upd_operation oid (\<lambda>w. snd (set_operation_phase phase now w)) c))"

definition bind_revision ::
  "string \<Rightarrow> uuid \<Rightarrow> uuid \<Rightarrow> catalog \<Rightarrow> worker_error + catalog" where
  "bind_revision wid oid rid c =
     (case (owned_operation c wid oid, get_revision c rid) of
        (Some w, Some r) \<Rightarrow>
          if rev_document_id r \<noteq> op_document_id w then Inl LeaseLostError
          else Inr (upd_operation oid (\<lambda>w. w\<lparr>op_revision_id := Some (rev_id r)\<rparr>) c)
      | _ \<Rightarrow> Inl LeaseLostError)"

text \<open>The column updates that end an operation successfully.\<close>

definition finish_operation ::
  "operation_phase \<Rightarrow> timestamp \<Rightarrow> work_operation \<Rightarrow> work_operation" where
  "finish_operation phase now w =
     (snd (set_operation_phase phase now (w\<lparr>op_state := OP_SUCCEEDED\<rparr>)))
       \<lparr>op_retryable := False, op_completed_at := Some now, op_lease_expires_at := None,
        op_heartbeat_at := None, op_worker_id := None\<rparr>"

definition succeed_operation ::
  "string \<Rightarrow> uuid \<Rightarrow> operation_phase \<Rightarrow> timestamp \<Rightarrow> catalog \<Rightarrow> worker_error + catalog" where
  "succeed_operation wid oid phase now c =
     (case owned_operation c wid oid of
        None \<Rightarrow> Inl LeaseLostError
      | Some _ \<Rightarrow> Inr (upd_operation oid (finish_operation phase now) c))"

section \<open>Outbox\<close>

definition outbox_binding_invalid :: "string \<Rightarrow> worker_error" where
  "outbox_binding_invalid message = worker_failure ''outbox_binding_invalid'' message False"

definition begin_outbox ::
  "uuid \<Rightarrow> uuid \<Rightarrow> index_target \<Rightarrow> index_action \<Rightarrow> string \<Rightarrow> int \<Rightarrow> catalog
     \<Rightarrow> worker_error + int \<times> catalog" where
  "begin_outbox document_id revision_id target action collection expected_points c =
     (if collection = [] \<or> expected_points < 0 then Inl OtherError
      else case get_revision c revision_id of
        None \<Rightarrow> Inl (outbox_binding_invalid ''Index work lost its exact prepared revision binding.'')
      | Some revision \<Rightarrow>
          if rev_document_id revision \<noteq> document_id
          then Inl (outbox_binding_invalid ''Index work lost its exact prepared revision binding.'')
          else
            (case find (\<lambda>e. ob_revision_id e = revision_id \<and> ob_target e = target
                  \<and> ob_action e = action \<and> ob_collection e = collection) (outbox c) of
               None \<Rightarrow>
                 let new_id = next_outbox_id c;
                     entry = \<lparr>ob_id = new_id, ob_document_id = document_id,
                       ob_revision_id = revision_id, ob_target = target, ob_action = action,
                       ob_collection = collection, ob_expected_points = expected_points,
                       ob_state = OB_PENDING, ob_attempts = 1, ob_failure_code = None,
                       ob_failure_message = None, ob_applied_at = None\<rparr>
                 in rbind (lift_lifecycle (add_outbox entry c)) (\<lambda>c1. Inr (new_id, c1))
             | Some entry \<Rightarrow>
                 if ob_document_id entry \<noteq> document_id \<or> ob_expected_points entry \<noteq> expected_points
                    \<or> ob_state entry = OB_SUPERSEDED
                 then Inl (outbox_binding_invalid
                   ''Existing index work did not match the exact durable target.'')
                 else Inr (ob_id entry, upd_outbox (ob_id entry)
                   (\<lambda>e. e\<lparr>ob_attempts := ob_attempts e + 1, ob_failure_code := None,
                          ob_failure_message := None\<rparr>) c)))"

definition complete_outbox :: "int \<Rightarrow> timestamp \<Rightarrow> catalog \<Rightarrow> worker_error + catalog" where
  "complete_outbox outbox_id now c =
     (case get_outbox c outbox_id of
        None \<Rightarrow> Inl (outbox_binding_invalid ''Completed index work lost its durable target.'')
      | Some entry \<Rightarrow>
          if ob_state entry = OB_SUPERSEDED
          then Inl (outbox_binding_invalid ''Completed index work lost its durable target.'')
          else Inr (upd_outbox outbox_id
            (\<lambda>e. e\<lparr>ob_state := OB_APPLIED, ob_failure_code := None, ob_failure_message := None,
                   ob_applied_at := Some now\<rparr>) c))"

section \<open>Failure\<close>

definition record_failure :: "string \<Rightarrow> string \<Rightarrow> bool \<Rightarrow> document \<Rightarrow> document" where
  "record_failure code message retryable d =
     d\<lparr>doc_failure_code := Some code, doc_failure_message := Some message,
       doc_failure_retryable := retryable\<rparr>"

text \<open>The publication-specific part: the publication record and the replaced document.\<close>

definition fail_publication ::
  "string \<Rightarrow> string \<Rightarrow> bool \<Rightarrow> work_operation \<Rightarrow> catalog \<Rightarrow> lifecycle_error + catalog" where
  "fail_publication code message retryable w c =
     rbind (case Option.bind (op_revision_id w) (publication_of c) of
              None \<Rightarrow> Inr c
            | Some publication \<Rightarrow>
                if pub_status publication = PUB_VERIFIED then Inr c
                else upd_publication (pub_id publication)
                  (\<lambda>p. p\<lparr>pub_status := PUB_FAILED, pub_failure_code := Some code\<rparr>) c)
       (\<lambda>c1. Inr (case op_replacement_target w of
            None \<Rightarrow> c1
          | Some t \<Rightarrow>
              (case get_document c1 t of
                 None \<Rightarrow> c1
               | Some old \<Rightarrow>
                   if doc_state old = DELETING
                   then upd_deletion t (\<lambda>p. p\<lparr>del_failure_code := Some code\<rparr>)
                     (upd_document t (\<lambda>d. record_failure code message retryable
                        (d\<lparr>doc_state := DELETE_FAILED\<rparr>)) c1)
                   else c1)))"

definition failed_state :: "operation_type \<Rightarrow> document_state \<Rightarrow> document_state" where
  "failed_state t s =
     (case t of PREFLIGHT \<Rightarrow> if s \<noteq> DELETING then PREFLIGHT_FAILED else s
      | PUBLISH \<Rightarrow> PUBLISH_FAILED | DELETE \<Rightarrow> DELETE_FAILED)"

definition fail_operation_row ::
  "string \<Rightarrow> string \<Rightarrow> bool \<Rightarrow> timestamp \<Rightarrow> work_operation \<Rightarrow> work_operation" where
  "fail_operation_row code message retryable now w =
     w\<lparr>op_state := OP_FAILED, op_failure_code := Some code, op_failure_message := Some message,
       op_retryable := retryable, op_completed_at := Some now, op_lease_expires_at := None,
       op_heartbeat_at := None, op_worker_id := None\<rparr>"

definition fail_operation ::
  "string \<Rightarrow> uuid \<Rightarrow> worker_error \<Rightarrow> timestamp \<Rightarrow> catalog \<Rightarrow> worker_error + catalog" where
  "fail_operation wid oid exc now c =
     (let (code, message, retryable) = safe_failure exc in
      case get_operation c oid of
        None \<Rightarrow> Inr c
      | Some w \<Rightarrow>
          if op_state w \<noteq> OP_RUNNING then Inr c
          else case get_document c (op_document_id w) of
            None \<Rightarrow> Inl OtherError
          | Some document \<Rightarrow>
              let c1 = upd_operation oid (fail_operation_row code message retryable now) c
              in rbind (lift_lifecycle (case op_type w of
                     PUBLISH \<Rightarrow> fail_publication code message retryable w c1
                   | DELETE \<Rightarrow> Inr (upd_deletion (doc_id document)
                       (\<lambda>p. p\<lparr>del_failure_code := Some code\<rparr>) c1)
                   | PREFLIGHT \<Rightarrow> Inr c1)) (\<lambda>c2.
                 let affected = doc_id document # (case (op_type w, op_replacement_target w) of
                         (PUBLISH, Some t) \<Rightarrow> [t] | _ \<Rightarrow> []);
                     c3 = upd_document (doc_id document) (\<lambda>d. record_failure code message retryable
                       (d\<lparr>doc_state := failed_state (op_type w) (doc_state d)\<rparr>)) c2;
                     c4 = c3\<lparr>outbox := map (\<lambda>e. if ob_document_id e \<in> set affected
                            \<and> ob_state e = OB_PENDING
                          then e\<lparr>ob_failure_code := Some code, ob_failure_message := Some message\<rparr>
                          else e) (outbox c3)\<rparr>
                 in Inr (audit (operation_type_lower (op_type w) @ ''_failed'') ''system'' wid
                      (Some (doc_id document)) (Some oid)
                      [(''code'', AText code), (''phase'', AText (phase_value (op_phase w))),
                       (''retryable'', AFlag retryable)] c4)))"

end
