(* ===== verification/Vector_Index.thy ===== *)
theory Vector_Index
  imports Prelude Json
begin

text \<open>
  Point access to Qdrant, from \<^verbatim>\<open>pdf_bridge/services/vector_index.py\<close>.  The Qdrant client itself is
  not part of the repository: it is the parameter record \<open>qdrant\<close>, whose calls act on an abstract
  index state and may raise (\<open>False\<close>, or a reply that says so) after having changed it or not.
\<close>

section \<open>Points, replies and the client\<close>

definition INDEX_SCHEMA_VERSION :: int where
  "INDEX_SCHEMA_VERSION = 2"

definition DENSE_DIMENSION :: nat where
  "DENSE_DIMENSION = 768"

text \<open>An element of a vector: a finite number, or a value \<^verbatim>\<open>math.isfinite\<close> or the type test rejects.\<close>

datatype number = Num rat | NotFinite | NotNumber

text \<open>An index of a sparse vector: an integer that is no bool, or something else.\<close>

datatype index = Index int | NotIndex

record chunk_point =
  pt_chunk_id :: uuid
  pt_document_id :: uuid
  pt_revision_id :: uuid
  pt_collection_key :: string
  pt_active_collection :: string
  pt_chunk_index :: int
  pt_page_start :: int
  pt_page_end :: int
  pt_heading_path :: "string list"
  pt_text_sha256 :: string
  pt_markdown :: string
  pt_content_profile_id :: string
  pt_index_profile_id :: string
  pt_dense :: "number list"
  pt_sparse_indices :: "index list"
  pt_sparse_values :: "number list"

datatype vector_index_error = Unavailable | Consistency | Schema | QueryArgument

text \<open>A point as stored: the identifier, the payload and the two named vectors, when present.\<close>

record stored_point =
  st_id :: uuid
  st_payload :: json
  st_vector_names :: "string list"
  st_dense :: "number list option"
  st_sparse :: "(index list \<times> number list option) option"

text \<open>The filters built by \<^verbatim>\<open>_document_filter\<close>.\<close>

record point_filter =
  pf_document_id :: uuid
  pf_revision_id :: "uuid option"
  pf_published :: "bool option"
  pf_visibility :: "string option"

definition document_filter :: "uuid \<Rightarrow> point_filter" where
  "document_filter document_id =
     \<lparr>pf_document_id = document_id, pf_revision_id = None, pf_published = None, pf_visibility = None\<rparr>"

datatype count_reply = CountRaised | CountInvalid | Count int

datatype retrieve_reply = RetrieveRaised | RetrieveNoList | Retrieved "stored_point list"

record 'q qdrant =
  q_upsert :: "string \<Rightarrow> (chunk_point \<times> json) list \<Rightarrow> 'q \<Rightarrow> bool \<times> 'q"
  q_count :: "string \<Rightarrow> point_filter \<Rightarrow> 'q \<Rightarrow> count_reply"
  q_retrieve :: "string \<Rightarrow> uuid list \<Rightarrow> 'q \<Rightarrow> retrieve_reply"
  q_set_payload :: "string \<Rightarrow> (string \<times> json) list \<Rightarrow> point_filter \<Rightarrow> 'q \<Rightarrow> bool \<times> 'q"
  q_delete :: "string \<Rightarrow> point_filter \<Rightarrow> 'q \<Rightarrow> bool \<times> 'q"

section \<open>Validation and payloads\<close>

definition validate_point :: "chunk_point \<Rightarrow> vector_index_error + unit" where
  "validate_point p =
     (if length (pt_dense p) \<noteq> DENSE_DIMENSION
         \<or> list_ex (\<lambda>v. case v of Num _ \<Rightarrow> False | _ \<Rightarrow> True) (pt_dense p)
      then Inl Consistency
      else if pt_sparse_indices p = []
         \<or> length (pt_sparse_indices p) \<noteq> length (pt_sparse_values p)
         \<or> \<not> distinct (pt_sparse_indices p)
         \<or> list_ex (\<lambda>i. case i of Index n \<Rightarrow> n < 0 | NotIndex \<Rightarrow> True) (pt_sparse_indices p)
         \<or> list_ex (\<lambda>v. case v of Num _ \<Rightarrow> False | _ \<Rightarrow> True) (pt_sparse_values p)
      then Inl Consistency
      else if list_all py_isspace (pt_markdown p) then Inl Consistency
      else Inr ())"

definition point_payload :: "chunk_point \<Rightarrow> bool \<Rightarrow> string \<Rightarrow> json" where
  "point_payload p published visibility =
     JObj [(''schema_version'', JInt INDEX_SCHEMA_VERSION),
           (''document_id'', JStr (uuid_str (pt_document_id p))),
           (''prepared_revision_id'', JStr (uuid_str (pt_revision_id p))),
           (''collection_key'', JStr (pt_collection_key p)),
           (''active_qdrant_collection'', JStr (pt_active_collection p)),
           (''chunk_id'', JStr (uuid_str (pt_chunk_id p))),
           (''chunk_index'', JInt (pt_chunk_index p)),
           (''page_start'', JInt (pt_page_start p)),
           (''page_end'', JInt (pt_page_end p)),
           (''heading_path'', JArr (map JStr (pt_heading_path p))),
           (''text_sha256'', JStr (pt_text_sha256 p)),
           (''markdown'', JStr (pt_markdown p)),
           (''content_profile_id'', JStr (pt_content_profile_id p)),
           (''index_profile_id'', JStr (pt_index_profile_id p)),
           (''published'', JBool published),
           (''visibility'', JStr visibility)]"

text \<open>\<^verbatim>\<open>_point_struct\<close> validates the point before it is sent.\<close>

definition point_struct ::
  "bool \<Rightarrow> string \<Rightarrow> chunk_point \<Rightarrow> vector_index_error + chunk_point \<times> json" where
  "point_struct published visibility p =
     rbind (validate_point p) (\<lambda>_. Inr (p, point_payload p published visibility))"

fun point_structs ::
  "bool \<Rightarrow> string \<Rightarrow> chunk_point list \<Rightarrow> vector_index_error + (chunk_point \<times> json) list" where
  "point_structs published visibility [] = Inr []"
| "point_structs published visibility (p # ps) =
     rbind (point_struct published visibility p) (\<lambda>x.
     rbind (point_structs published visibility ps) (\<lambda>xs. Inr (x # xs)))"

text \<open>
  Exact comparison of JSON values: no bool counts as an int, and objects are compared by key.
\<close>

function (sequential) exact_payload_matches :: "json \<Rightarrow> json \<Rightarrow> bool" where
  "exact_payload_matches (JObj actual) (JObj expected) =
     (set (map fst actual) = set (map fst expected)
      \<and> list_all (\<lambda>(k, v). case map_of actual k of None \<Rightarrow> False
           | Some a \<Rightarrow> exact_payload_matches a v) expected)"
| "exact_payload_matches (JArr actual) (JArr expected) =
     (length actual = length expected
      \<and> list_all (\<lambda>(a, e). exact_payload_matches a e) (zip actual expected))"
| "exact_payload_matches actual expected = (actual = expected)"
  by pat_completeness auto
termination
proof (relation "measure (size \<circ> snd)")
  fix actual expected :: "json list" and x :: "json \<times> json" and a e
  assume "x \<in> set (zip actual expected)" and "(a, e) = x"
  then have "e \<in> set expected"
    by (auto dest: set_zip_rightD)
  then have "size e < Suc (size_list size expected)"
    using size_list_estimation' [of e expected "size e" size] by simp
  then show "((a, e), JArr actual, JArr expected) \<in> measure (size \<circ> snd)"
    by simp
next
  fix expected :: "(string \<times> json) list" and x :: "string \<times> json" and k v a actual
  assume x: "x \<in> set expected" and "(k, v) = x"
  then have "size v \<le> size_prod (\<lambda>_. 0) size x"
    by auto
  then have "size v < Suc (size_list (size_prod (\<lambda>_. 0) size) expected)"
    using size_list_estimation' [OF x] by (simp add: less_Suc_eq_le)
  then show "((a, v), JObj actual, JObj expected) \<in> measure (size \<circ> snd)"
    by simp
qed simp_all

definition finite_numeric_sequence :: "number list option \<Rightarrow> nat \<Rightarrow> rat list option" where
  "finite_numeric_sequence value n =
     (case value of
        None \<Rightarrow> None
      | Some xs \<Rightarrow>
          if length xs \<noteq> n then None
          else if list_ex (\<lambda>v. case v of Num _ \<Rightarrow> False | _ \<Rightarrow> True) xs then None
          else Some (map (\<lambda>v. case v of Num r \<Rightarrow> r | _ \<Rightarrow> 0) xs))"

definition vectors_match :: "stored_point \<Rightarrow> chunk_point \<Rightarrow> bool" where
  "vectors_match actual expected =
     (if set (st_vector_names actual) \<noteq> {''dense'', ''bm25''} then False
      else (case finite_numeric_sequence (st_dense actual) DENSE_DIMENSION of
        None \<Rightarrow> False
      | Some dense \<Rightarrow>
          if map Num dense \<noteq> pt_dense expected then False
          else (case st_sparse actual of
            None \<Rightarrow> False
          | Some (indices, values) \<Rightarrow>
              if list_ex (\<lambda>i. case i of Index n \<Rightarrow> n < 0 | NotIndex \<Rightarrow> True) indices then False
              else (indices = pt_sparse_indices expected)
                \<and> (case finite_numeric_sequence values (length (pt_sparse_values expected)) of
                     None \<Rightarrow> False
                   | Some vs \<Rightarrow> map Num vs = pt_sparse_values expected))))"

section \<open>Point operations\<close>

text \<open>A mutating client call: \<open>False\<close> is an exception, reported as unavailability.\<close>

definition call :: "('q \<Rightarrow> bool \<times> 'q) \<Rightarrow> ('q, vector_index_error, unit) io" where
  "call f q = (let (ok, q') = f q in (if ok then Inr () else Inl Unavailable, q'))"

definition upsert_points ::
  "'q qdrant \<Rightarrow> string \<Rightarrow> bool \<Rightarrow> string \<Rightarrow> chunk_point list
     \<Rightarrow> ('q, vector_index_error, unit) io" where
  "upsert_points client collection published visibility points q =
     (if points = [] then (Inl Consistency, q)
      else case point_structs published visibility points of
        Inl e \<Rightarrow> (Inl e, q)
      | Inr structs \<Rightarrow> call (q_upsert client collection structs) q)"

definition upsert_screening_points ::
  "'q qdrant \<Rightarrow> string \<Rightarrow> chunk_point list \<Rightarrow> ('q, vector_index_error, unit) io" where
  "upsert_screening_points client collection points =
     upsert_points client collection False ''screening'' points"

definition stage_active_points ::
  "'q qdrant \<Rightarrow> string \<Rightarrow> chunk_point list \<Rightarrow> ('q, vector_index_error, unit) io" where
  "stage_active_points client collection points =
     upsert_points client collection False ''publishing'' points"

definition count_document_points ::
  "'q qdrant \<Rightarrow> string \<Rightarrow> uuid \<Rightarrow> 'q \<Rightarrow> vector_index_error + int" where
  "count_document_points client collection document_id q =
     (case q_count client collection (document_filter document_id) q of
        CountRaised \<Rightarrow> Inl Unavailable
      | CountInvalid \<Rightarrow> Inl Consistency
      | Count n \<Rightarrow> if n < 0 then Inl Consistency else Inr n)"

text \<open>The batch checks before the index is asked, and the per-record checks of its answer.\<close>

fun expected_by_id :: "chunk_point list \<Rightarrow> vector_index_error + (uuid \<times> chunk_point) list" where
  "expected_by_id [] = Inr []"
| "expected_by_id (p # ps) =
     rbind (validate_point p) (\<lambda>_.
     rbind (expected_by_id ps) (\<lambda>m.
       if pt_chunk_id p \<in> fst ` set m then Inl Consistency else Inr ((pt_chunk_id p, p) # m)))"

fun check_records ::
  "bool \<Rightarrow> string \<Rightarrow> (uuid \<times> chunk_point) list \<Rightarrow> uuid set \<Rightarrow> stored_point list
     \<Rightarrow> vector_index_error + uuid set" where
  "check_records published visibility expected seen [] = Inr seen"
| "check_records published visibility expected seen (x # xs) =
     (case map_of expected (st_id x) of
        None \<Rightarrow> Inl Consistency
      | Some p \<Rightarrow>
          if st_id x \<in> seen then Inl Consistency
          else if \<not> exact_payload_matches (st_payload x) (point_payload p published visibility)
          then Inl Consistency
          else if \<not> vectors_match x p then Inl Consistency
          else check_records published visibility expected (insert (st_id x) seen) xs)"

definition verify_prepared_points ::
  "'q qdrant \<Rightarrow> string \<Rightarrow> chunk_point list \<Rightarrow> bool \<Rightarrow> string \<Rightarrow> 'q
     \<Rightarrow> vector_index_error + unit" where
  "verify_prepared_points client collection points published visibility q =
     (case points of
        [] \<Rightarrow> Inl Consistency
      | p # _ \<Rightarrow>
          if list_ex (\<lambda>x. pt_document_id x \<noteq> pt_document_id p
               \<or> pt_revision_id x \<noteq> pt_revision_id p) points
          then Inl Consistency
          else
          rbind (expected_by_id points) (\<lambda>expected.
          rbind (count_document_points client collection (pt_document_id p) q) (\<lambda>total.
          if total \<noteq> int (length points) then Inl Consistency
          else case q_retrieve client collection (map pt_chunk_id points) q of
            RetrieveRaised \<Rightarrow> Inl Unavailable
          | RetrieveNoList \<Rightarrow> Inl Consistency
          | Retrieved records \<Rightarrow>
              if length records \<noteq> length expected then Inl Consistency
              else rbind (check_records published visibility expected {} records) (\<lambda>seen.
                if seen \<noteq> fst ` set expected then Inl Consistency else Inr ()))))"

definition activate_prepared_points ::
  "'q qdrant \<Rightarrow> string \<Rightarrow> uuid \<Rightarrow> uuid \<Rightarrow> ('q, vector_index_error, unit) io" where
  "activate_prepared_points client collection document_id revision_id =
     call (q_set_payload client collection [(''published'', JBool True), (''visibility'', JStr ''active'')]
       \<lparr>pf_document_id = document_id, pf_revision_id = Some revision_id, pf_published = Some False,
        pf_visibility = Some ''publishing''\<rparr>)"

definition delete_document_points ::
  "'q qdrant \<Rightarrow> string \<Rightarrow> uuid \<Rightarrow> ('q, vector_index_error, unit) io" where
  "delete_document_points client collection document_id =
     call (q_delete client collection (document_filter document_id))"

definition verify_document_zero ::
  "'q qdrant \<Rightarrow> string \<Rightarrow> uuid \<Rightarrow> 'q \<Rightarrow> vector_index_error + unit" where
  "verify_document_zero client collection document_id q =
     rbind (count_document_points client collection document_id q) (\<lambda>count.
       if count \<noteq> 0 then Inl Consistency else Inr ())"

end
