(* ===== verification/Preparation.thy ===== *)
theory Preparation
  imports Worker Vector_Index
begin

text \<open>
  The persisted preparation of \<^verbatim>\<open>pdf_bridge/services/preparation.py\<close>: the start and the failure of a
  prepared revision, the correlation of chunks with their vectors, their storage, and the
  reconstruction of publication points from stored rows only.

  Digests, name-based UUIDs, the decimal form and rounding of floats and Unicode normalisation
  belong to the standard library; they are the parameter record \<open>stdlib\<close>, over which nothing is assumed.
\<close>

record stdlib =
  sl_sha256 :: "string \<Rightarrow> string"
  sl_uuid5 :: "uuid \<Rightarrow> string \<Rightarrow> uuid"
  sl_float_repr :: "rat \<Rightarrow> string"
  sl_unit_norm :: "rat list \<Rightarrow> bool"
  sl_nfkc :: "string \<Rightarrow> string"

section \<open>Errors\<close>

definition MAX_ERROR_CHARACTERS :: nat where
  "MAX_ERROR_CHARACTERS = 500"

definition sanitize :: "string \<Rightarrow> string" where
  "sanitize message =
     (let clean = take MAX_ERROR_CHARACTERS
            (map (\<lambda>ch. if char_code ch \<ge> 32 then ch else CHR ''?'') (py_join '' '' (py_split message)))
      in if clean = [] then ''preparation failed'' else clean)"

definition code_char :: "char \<Rightarrow> bool" where
  "code_char ch \<longleftrightarrow> (let n = char_code ch in
     (97 \<le> n \<and> n \<le> 122) \<or> (48 \<le> n \<and> n \<le> 57) \<or> n = 95 \<or> n = 45)"

definition safe_code :: "string \<Rightarrow> string" where
  "safe_code code =
     (let s = take 100 (map (\<lambda>ch. if code_char ch then ch else CHR ''_'') (casefold code))
      in if s = [] then ''preparation_failed'' else s)"

definition preparation_error :: "string \<Rightarrow> string \<Rightarrow> worker_error" where
  "preparation_error code message = PreparationError (safe_code code) (sanitize message)"

section \<open>Identities and handles\<close>

record preparation_identity =
  pid_active_collection :: string
  pid_content_profile_id :: string
  pid_index_profile_id :: string
  pid_preflight_policy_id :: string
  pid_formatter_model_id :: string
  pid_formatter_tokenizer_class :: string
  pid_dense_model_id :: string
  pid_sparse_model_id :: string

record preparation_handle =
  ph_revision_id :: uuid
  ph_document_id :: uuid
  ph_revision_number :: int
  ph_collection_key :: string
  ph_identity :: preparation_identity

fun revision_status_value :: "revision_status \<Rightarrow> string" where
  "revision_status_value REV_PREPARING = ''PREPARING''"
| "revision_status_value REV_SEALED = ''SEALED''"
| "revision_status_value REV_FAILED = ''FAILED''"

definition load_revision ::
  "uuid \<Rightarrow> revision_status option \<Rightarrow> catalog \<Rightarrow> worker_error + prepared_revision" where
  "load_revision rid required_status c =
     (case get_revision c rid of
        None \<Rightarrow> Inl (preparation_error ''revision_not_found'' ''prepared revision was not found'')
      | Some r \<Rightarrow>
          (case required_status of
             None \<Rightarrow> Inr r
           | Some s \<Rightarrow>
               if rev_status r \<noteq> s
               then Inl (preparation_error ''revision_state_conflict''
                 (''prepared revision was not '' @ revision_status_value s))
               else Inr r))"

definition revision_identity_matches :: "prepared_revision \<Rightarrow> preparation_handle \<Rightarrow> bool" where
  "revision_identity_matches r h \<longleftrightarrow> (let i = ph_identity h in
     \<not> (rev_id r \<noteq> ph_revision_id h \<or> rev_document_id r \<noteq> ph_document_id h
        \<or> rev_number r \<noteq> ph_revision_number h
        \<or> rev_active_collection r \<noteq> pid_active_collection i
        \<or> rev_content_profile_id r \<noteq> pid_content_profile_id i
        \<or> rev_index_profile_id r \<noteq> pid_index_profile_id i
        \<or> rev_preflight_policy_id r \<noteq> pid_preflight_policy_id i
        \<or> rev_formatter_model_id r \<noteq> pid_formatter_model_id i
        \<or> rev_dense_model_id r \<noteq> pid_dense_model_id i
        \<or> rev_dense_dimension r \<noteq> int DENSE_DIMENSION
        \<or> rev_sparse_model_id r \<noteq> pid_sparse_model_id i))"

definition validate_revision_identity ::
  "prepared_revision \<Rightarrow> preparation_handle \<Rightarrow> worker_error + unit" where
  "validate_revision_identity r h =
     (if \<not> revision_identity_matches r h
      then Inl (preparation_error ''revision_identity_mismatch''
        ''prepared revision identity no longer matched the requested target'')
      else Inr ())"

text \<open>
  The row a preparation starts with, and the transaction that stores it.  A violated unique
  constraint is reported as \<^verbatim>\<open>begin_preparation_failed\<close>.
\<close>

definition preparing_revision ::
  "timestamp \<Rightarrow> uuid \<Rightarrow> uuid \<Rightarrow> int \<Rightarrow> preparation_identity \<Rightarrow> prepared_revision" where
  "preparing_revision now new_id did number i =
     \<lparr>rev_id = new_id, rev_document_id = did, rev_number = number, rev_status = REV_PREPARING,
      rev_active_collection = pid_active_collection i,
      rev_content_profile_id = pid_content_profile_id i,
      rev_index_profile_id = pid_index_profile_id i,
      rev_preflight_policy_id = pid_preflight_policy_id i,
      rev_formatter_model_id = pid_formatter_model_id i,
      rev_dense_model_id = pid_dense_model_id i, rev_dense_dimension = int DENSE_DIMENSION,
      rev_sparse_model_id = pid_sparse_model_id i, rev_language_code = None,
      rev_native_text_eligible = False, rev_formatter_complete = False,
      rev_vector_complete = False, rev_candidate_discovery_complete = False,
      rev_advisory_complete = False, rev_clear_for_publication = False,
      rev_incomplete_reasons = [], rev_page_count = None, rev_chunk_count = None,
      rev_expected_point_count = None, rev_extraction_sha256 = None, rev_markdown_sha256 = None,
      rev_vector_manifest_sha256 = None, rev_evidence_manifest_sha256 = None,
      rev_manifest_sha256 = None, rev_failure_code = None, rev_failure_message = None,
      rev_created_at = now, rev_completed_at = None, rev_sealed_at = None\<rparr>"

definition next_revision_number :: "catalog \<Rightarrow> uuid \<Rightarrow> int" where
  "next_revision_number c did =
     fold (\<lambda>r m. max m (rev_number r)) (filter (\<lambda>r. rev_document_id r = did) (revisions c)) 0 + 1"

definition create_revision ::
  "uuid \<Rightarrow> preparation_identity \<Rightarrow> timestamp \<Rightarrow> catalog
     \<Rightarrow> worker_error + preparation_handle \<times> catalog" where
  "create_revision did i now c =
     (case get_document c did of
        None \<Rightarrow> Inl (preparation_error ''document_not_found'' ''document was not found'')
      | Some d \<Rightarrow>
          if doc_state d \<noteq> PREFLIGHTING
          then Inl (preparation_error ''document_state_conflict''
            ''document was not in PREFLIGHTING state'')
          else
            let number = next_revision_number c did;
                (new_id, c1) = uuid4 c
            in if list_ex (\<lambda>r. rev_id r = new_id \<or> rev_document_id r = did \<and> rev_number r = number)
                    (revisions c1)
               then Inl (preparation_error ''begin_preparation_failed''
                 ''the preparing revision could not be created'')
               else Inr (\<lparr>ph_revision_id = new_id, ph_document_id = did,
                      ph_revision_number = number, ph_collection_key = doc_collection_key d,
                      ph_identity = i\<rparr>,
                    c1\<lparr>revisions := tadd (preparing_revision now new_id did number i) (revisions c1)\<rparr>))"

definition failed_revision :: "string \<Rightarrow> string \<Rightarrow> timestamp \<Rightarrow> prepared_revision \<Rightarrow> prepared_revision" where
  "failed_revision code message now r =
     r\<lparr>rev_status := REV_FAILED, rev_failure_code := Some code,
       rev_failure_message := Some (sanitize message), rev_completed_at := Some now\<rparr>"

definition fail_preparation ::
  "uuid \<Rightarrow> string \<Rightarrow> string \<Rightarrow> timestamp \<Rightarrow> catalog \<Rightarrow> worker_error + catalog" where
  "fail_preparation rid code message now c =
     rbind (load_revision rid None c) (\<lambda>r.
       if rev_status r = REV_SEALED
       then Inl (preparation_error ''revision_state_conflict''
         ''a sealed revision cannot be marked failed'')
       else if rev_status r = REV_FAILED then Inr c
       else lift_lifecycle (upd_revision rid (failed_revision code message now) c))"

section \<open>Chunks and vectors\<close>

definition HARD_MAX_TOKENS :: int where
  "HARD_MAX_TOKENS = 384"

record markdown_chunk =
  mc_chunk_id :: uuid
  mc_chunk_index :: int
  mc_page_start :: int
  mc_page_end :: int
  mc_heading_path :: "string list"
  mc_token_count :: int
  mc_text_sha256 :: string
  mc_markdown :: string

record sparse_vector =
  sv_indices :: "int list"
  sv_values :: "rat list"

record prepared_vector =
  pv_chunk :: markdown_chunk
  pv_dense :: "rat list"
  pv_sparse :: sparse_vector
  pv_dense_sha256 :: string
  pv_sparse_sha256 :: string

record chunk_vector_bundle =
  cb_canonical_markdown_sha256 :: string
  cb_vectors :: "prepared_vector list"
  cb_vector_manifest_sha256 :: string

definition manifest_hash :: "stdlib \<Rightarrow> json \<Rightarrow> string" where
  "manifest_hash sl value = sl_sha256 sl (dumps value)"

definition jfloat :: "stdlib \<Rightarrow> rat \<Rightarrow> json" where
  "jfloat sl x = JFloat (sl_float_repr sl x)"

definition vector_error :: "string \<Rightarrow> worker_error" where
  "vector_error message = preparation_error ''vector_correlation'' message"

definition dense_vector_sha256 :: "stdlib \<Rightarrow> rat list \<Rightarrow> worker_error + string" where
  "dense_vector_sha256 sl values =
     (if length values \<noteq> DENSE_DIMENSION
      then Inl (vector_error ''dense vector was not 768-dimensional'')
      else if \<not> sl_unit_norm sl values then Inl (vector_error ''dense vector was not normalized'')
      else Inr (manifest_hash sl (JObj [(''dimension'', JInt (int DENSE_DIMENSION)),
        (''values'', JArr (map (jfloat sl) values))])))"

definition sparse_vector_sha256 :: "stdlib \<Rightarrow> sparse_vector \<Rightarrow> worker_error + string" where
  "sparse_vector_sha256 sl v =
     (if sv_indices v = [] \<or> length (sv_indices v) \<noteq> length (sv_values v)
         \<or> list_ex (\<lambda>i. i < 0) (sv_indices v)
         \<or> \<not> distinct (sv_indices v) \<or> list_ex (\<lambda>x. x < 0) (sv_values v)
      then Inl (vector_error ''sparse document vector was invalid or uncorrelated'')
      else Inr (manifest_hash sl (JObj [(''encoding'', JStr ''document''),
        (''indices'', JArr (map JInt (sv_indices v))),
        (''values'', JArr (map (jfloat sl) (sv_values v)))])))"

definition vector_manifest :: "stdlib \<Rightarrow> prepared_vector list \<Rightarrow> string" where
  "vector_manifest sl vs =
     manifest_hash sl (JObj [(''dense_dimension'', JInt (int DENSE_DIMENSION)),
       (''sparse_encoding'', JStr ''document''),
       (''chunks'', JArr (map (\<lambda>v. JObj
          [(''chunk_id'', JStr (uuid_str (mc_chunk_id (pv_chunk v)))),
           (''chunk_index'', JInt (mc_chunk_index (pv_chunk v))),
           (''text_sha256'', JStr (mc_text_sha256 (pv_chunk v))),
           (''dense_sha256'', JStr (pv_dense_sha256 v)),
           (''sparse_sha256'', JStr (pv_sparse_sha256 v))]) vs))])"

text \<open>The deterministic identity of a chunk: \<^verbatim>\<open>uuid5(document, "revision:index:sha256")\<close>.\<close>

definition expected_chunk_id :: "stdlib \<Rightarrow> uuid \<Rightarrow> uuid \<Rightarrow> int \<Rightarrow> string \<Rightarrow> uuid" where
  "expected_chunk_id sl did rid i text_sha256 =
     sl_uuid5 sl did (uuid_str rid @ '':'' @ int_str i @ '':'' @ text_sha256)"

definition chunk_error :: "string \<Rightarrow> worker_error" where
  "chunk_error message = preparation_error ''chunk_correlation'' message"

text \<open>
  The numbers a model returned, which need not be finite or numbers at all, and the coordinates of a
  sparse vector.
\<close>

definition finite_float :: "number \<Rightarrow> string \<Rightarrow> worker_error + rat" where
  "finite_float x description =
     (case x of
        NotNumber \<Rightarrow> Inl (preparation_error ''correlation_failed'' (description @ '' contained a non-number''))
      | NotFinite \<Rightarrow> Inl (preparation_error ''correlation_failed'' (description @ '' contained a non-finite number''))
      | Num q \<Rightarrow> Inr q)"

fun finite_floats :: "number list \<Rightarrow> string \<Rightarrow> worker_error + rat list" where
  "finite_floats [] description = Inr []"
| "finite_floats (x # xs) description =
     rbind (finite_float x description) (\<lambda>q. rbind (finite_floats xs description) (\<lambda>qs. Inr (q # qs)))"

record model_sparse_vector =
  ms_indices :: "index list"
  ms_values :: "number list"

fun strict_indexes :: "index list \<Rightarrow> int list option" where
  "strict_indexes [] = Some []"
| "strict_indexes (Index i # is) = map_option (\<lambda>rest. i # rest) (strict_indexes is)"
| "strict_indexes (NotIndex # is) = None"

definition read_sparse :: "model_sparse_vector \<Rightarrow> worker_error + sparse_vector" where
  "read_sparse v =
     rbind (finite_floats (ms_values v) ''sparse vector'') (\<lambda>values.
       case strict_indexes (ms_indices v) of
         None \<Rightarrow> Inl (vector_error ''sparse document vector was invalid or uncorrelated'')
       | Some indices \<Rightarrow> Inr \<lparr>sv_indices = indices, sv_values = values\<rparr>)"

text \<open>
  The loop of \<^verbatim>\<open>build_chunk_vector_bundle\<close> that correlates the chunks with the model outputs, which
  are its arguments.
\<close>

fun correlate_vectors ::
  "stdlib \<Rightarrow> (string \<Rightarrow> int) \<Rightarrow> preparation_handle \<Rightarrow> int \<Rightarrow> markdown_chunk list \<Rightarrow> number list list
     \<Rightarrow> model_sparse_vector list \<Rightarrow> worker_error + prepared_vector list" where
  "correlate_vectors sl count_tokens h i (k # ks) (model_dense # ds) (model_sparse # ss) =
     (if mc_chunk_index k \<noteq> i
         \<or> mc_chunk_id k \<noteq> expected_chunk_id sl (ph_document_id h) (ph_revision_id h) i (mc_text_sha256 k)
         \<or> mc_text_sha256 k \<noteq> sl_sha256 sl (mc_markdown k)
         \<or> list_all py_isspace (mc_markdown k)
         \<or> mc_token_count k \<le> 0 \<or> mc_token_count k > HARD_MAX_TOKENS
         \<or> count_tokens (mc_markdown k) \<noteq> mc_token_count k
      then Inl (chunk_error ''chunk identity, hash, order, or token count did not match'')
      else
      rbind (finite_floats model_dense ''dense vector'') (\<lambda>dense.
      rbind (dense_vector_sha256 sl dense) (\<lambda>dense_hash.
      rbind (read_sparse model_sparse) (\<lambda>sparse.
      rbind (sparse_vector_sha256 sl sparse) (\<lambda>sparse_hash.
      rbind (correlate_vectors sl count_tokens h (i + 1) ks ds ss) (\<lambda>vs.
        Inr (\<lparr>pv_chunk = k, pv_dense = dense, pv_sparse = sparse, pv_dense_sha256 = dense_hash,
              pv_sparse_sha256 = sparse_hash\<rparr> # vs)))))))"
| "correlate_vectors sl count_tokens h i _ _ _ = Inr []"

definition bundle_vectors ::
  "stdlib \<Rightarrow> (string \<Rightarrow> int) \<Rightarrow> preparation_handle \<Rightarrow> string \<Rightarrow> markdown_chunk list \<Rightarrow> number list list
     \<Rightarrow> model_sparse_vector list \<Rightarrow> worker_error + chunk_vector_bundle" where
  "bundle_vectors sl count_tokens h markdown ks dense sparse =
     (if ks = [] \<or> length ks \<noteq> length dense \<or> length ks \<noteq> length sparse
      then Inl (vector_error ''embedding output did not cover every chunk exactly once'')
      else rbind (correlate_vectors sl count_tokens h 0 ks dense sparse) (\<lambda>vs.
        Inr \<lparr>cb_canonical_markdown_sha256 = sl_sha256 sl markdown, cb_vectors = vs,
             cb_vector_manifest_sha256 = vector_manifest sl vs\<rparr>))"

definition chunk_row :: "uuid \<Rightarrow> prepared_vector \<Rightarrow> prepared_chunk" where
  "chunk_row rid v = (let k = pv_chunk v in
     \<lparr>chk_id = mc_chunk_id k, chk_revision_id = rid, chk_index = mc_chunk_index k,
      chk_page_start = mc_page_start k, chk_page_end = mc_page_end k,
      chk_heading_path = mc_heading_path k, chk_token_count = mc_token_count k,
      chk_text_sha256 = mc_text_sha256 k, chk_markdown = mc_markdown k\<rparr>)"

definition vector_row :: "uuid \<Rightarrow> prepared_vector \<Rightarrow> prepared_chunk_vector" where
  "vector_row rid v =
     \<lparr>vec_chunk_id = mc_chunk_id (pv_chunk v), vec_revision_id = rid,
      vec_dense_dimension = int DENSE_DIMENSION, vec_dense = pv_dense v,
      vec_sparse_indices = sv_indices (pv_sparse v), vec_sparse_values = sv_values (pv_sparse v),
      vec_dense_normalized = True, vec_document_encoded = True,
      vec_dense_sha256 = pv_dense_sha256 v, vec_sparse_sha256 = pv_sparse_sha256 v\<rparr>"

text \<open>
  The flush of the new rows: chunk identifiers are the primary keys of both tables, a revision has
  one chunk per index, and the schema's CHECK on chunks is enforced.
\<close>

definition insert_chunks :: "prepared_chunk list \<Rightarrow> prepared_chunk_vector list \<Rightarrow> catalog
    \<Rightarrow> worker_error + catalog" where
  "insert_chunks ks vs c =
     (let ks' = chunks c @ ks; vs' = chunk_vectors c @ vs in
      if \<not> distinct (map chk_id ks') \<or> \<not> distinct (map (\<lambda>k. (chk_revision_id k, chk_index k)) ks')
         \<or> \<not> distinct (map vec_chunk_id vs') \<or> \<not> list_all chunk_check ks
      then Inl (preparation_error ''record_vectors_failed''
        ''chunk/vector artifacts could not be recorded'')
      else Inr (c\<lparr>chunks := ks', chunk_vectors := vs'\<rparr>))"

definition vectors_recorded :: "chunk_vector_bundle \<Rightarrow> prepared_revision \<Rightarrow> prepared_revision" where
  "vectors_recorded b r =
     r\<lparr>rev_chunk_count := Some (int (length (cb_vectors b))),
       rev_expected_point_count := Some (int (length (cb_vectors b))),
       rev_vector_manifest_sha256 := Some (cb_vector_manifest_sha256 b),
       rev_vector_complete := True\<rparr>"

definition record_chunk_vectors ::
  "stdlib \<Rightarrow> preparation_handle \<Rightarrow> chunk_vector_bundle \<Rightarrow> catalog \<Rightarrow> worker_error + string \<times> catalog" where
  "record_chunk_vectors sl h b c =
     (if cb_vectors b = [] \<or> cb_vector_manifest_sha256 b \<noteq> vector_manifest sl (cb_vectors b)
      then Inl (vector_error ''vector bundle manifest did not match'')
      else
      rbind (load_revision (ph_revision_id h) (Some REV_PREPARING) c) (\<lambda>r.
      rbind (validate_revision_identity r h) (\<lambda>_.
      if \<not> rev_formatter_complete r \<or> rev_markdown_sha256 r = None
      then Inl (preparation_error ''stage_order'' ''complete formatter artifacts must be recorded first'')
      else if rev_markdown_sha256 r \<noteq> Some (cb_canonical_markdown_sha256 b)
      then Inl (chunk_error ''chunk input Markdown did not match the revision'')
      else if filter (\<lambda>k. chk_revision_id k = rev_id r) (chunks c) \<noteq> []
      then Inl (preparation_error ''stage_already_recorded'' ''chunk/vector artifacts were already recorded'')
      else
      rbind (lift_lifecycle (prevent_sealed_child_insert c (rev_id r))) (\<lambda>_.
      rbind (insert_chunks (map (chunk_row (rev_id r)) (cb_vectors b))
               (map (vector_row (rev_id r)) (cb_vectors b)) c) (\<lambda>c1.
      rbind (lift_lifecycle (upd_revision (rev_id r) (vectors_recorded b) c1)) (\<lambda>c2.
        Inr (cb_vector_manifest_sha256 b, c2)))))))"

section \<open>Reconstruction\<close>

definition stored_chunks :: "catalog \<Rightarrow> uuid \<Rightarrow> prepared_chunk list" where
  "stored_chunks c rid = sort_key chk_index (filter (\<lambda>k. chk_revision_id k = rid) (chunks c))"

abbreviation vector_of :: "catalog \<Rightarrow> uuid \<Rightarrow> prepared_chunk_vector option" where
  "vector_of c k \<equiv> tget vec_chunk_id k (chunk_vectors c)"

definition point_of :: "document \<Rightarrow> prepared_revision \<Rightarrow> prepared_vector \<Rightarrow> chunk_point" where
  "point_of d r v = (let k = pv_chunk v in
     \<lparr>pt_chunk_id = mc_chunk_id k, pt_document_id = doc_id d, pt_revision_id = rev_id r,
      pt_collection_key = doc_collection_key d, pt_active_collection = rev_active_collection r,
      pt_chunk_index = mc_chunk_index k, pt_page_start = mc_page_start k,
      pt_page_end = mc_page_end k, pt_heading_path = mc_heading_path k,
      pt_text_sha256 = mc_text_sha256 k, pt_markdown = mc_markdown k,
      pt_content_profile_id = rev_content_profile_id r,
      pt_index_profile_id = rev_index_profile_id r, pt_dense = map Num (pv_dense v),
      pt_sparse_indices = map Index (sv_indices (pv_sparse v)),
      pt_sparse_values = map Num (sv_values (pv_sparse v))\<rparr>)"

text \<open>One iteration of the loop of \<^verbatim>\<open>_validate_chunk_rows\<close>.\<close>

definition validate_chunk_row ::
  "stdlib \<Rightarrow> prepared_revision \<Rightarrow> document \<Rightarrow> int \<Rightarrow> prepared_chunk
     \<Rightarrow> prepared_chunk_vector option \<Rightarrow> worker_error + prepared_vector" where
  "validate_chunk_row sl r d i k vector =
     (case vector of
        None \<Rightarrow> Inl (chunk_error ''persisted chunk/vector correlation was invalid'')
      | Some v \<Rightarrow>
          if chk_revision_id k \<noteq> rev_id r \<or> chk_index k \<noteq> i
             \<or> chk_id k \<noteq> expected_chunk_id sl (doc_id d) (rev_id r) i (chk_text_sha256 k)
             \<or> chk_text_sha256 k \<noteq> sl_sha256 sl (chk_markdown k)
             \<or> list_all py_isspace (chk_markdown k)
             \<or> chk_page_start k < 1 \<or> chk_page_end k < chk_page_start k
             \<or> (case rev_page_count r of None \<Rightarrow> True | Some n \<Rightarrow> chk_page_end k > n)
             \<or> chk_token_count k \<le> 0 \<or> chk_token_count k > HARD_MAX_TOKENS
             \<or> vec_chunk_id v \<noteq> chk_id k \<or> vec_revision_id v \<noteq> rev_id r
             \<or> vec_dense_dimension v \<noteq> int DENSE_DIMENSION
             \<or> \<not> vec_dense_normalized v \<or> \<not> vec_document_encoded v
          then Inl (chunk_error ''persisted chunk/vector correlation was invalid'')
          else
            let sparse = \<lparr>sv_indices = vec_sparse_indices v, sv_values = vec_sparse_values v\<rparr> in
            rbind (dense_vector_sha256 sl (vec_dense v)) (\<lambda>dense_hash.
            rbind (sparse_vector_sha256 sl sparse) (\<lambda>sparse_hash.
            if vec_dense_sha256 v \<noteq> dense_hash \<or> vec_sparse_sha256 v \<noteq> sparse_hash
            then Inl (vector_error ''persisted vector hash did not match'')
            else Inr \<lparr>pv_chunk = \<lparr>mc_chunk_id = chk_id k, mc_chunk_index = chk_index k,
                    mc_page_start = chk_page_start k, mc_page_end = chk_page_end k,
                    mc_heading_path = chk_heading_path k, mc_token_count = chk_token_count k,
                    mc_text_sha256 = chk_text_sha256 k, mc_markdown = chk_markdown k\<rparr>,
                  pv_dense = vec_dense v, pv_sparse = sparse, pv_dense_sha256 = dense_hash,
                  pv_sparse_sha256 = sparse_hash\<rparr>)))"

fun validate_rows ::
  "stdlib \<Rightarrow> catalog \<Rightarrow> prepared_revision \<Rightarrow> document \<Rightarrow> int \<Rightarrow> prepared_chunk list
     \<Rightarrow> worker_error + prepared_vector list" where
  "validate_rows sl c r d i [] = Inr []"
| "validate_rows sl c r d i (k # ks) =
     rbind (validate_chunk_row sl r d i k (vector_of c (chk_id k))) (\<lambda>v.
     rbind (validate_rows sl c r d (i + 1) ks) (\<lambda>vs. Inr (v # vs)))"

definition validate_chunk_rows ::
  "stdlib \<Rightarrow> catalog \<Rightarrow> prepared_revision \<Rightarrow> document \<Rightarrow> prepared_chunk list
     \<Rightarrow> worker_error + chunk_point list \<times> string" where
  "validate_chunk_rows sl c r d ks =
     (if ks = [] then Inl (chunk_error ''prepared revision had no chunks'')
      else rbind (validate_rows sl c r d 0 ks) (\<lambda>vs.
        if rev_chunk_count r \<noteq> Some (int (length ks))
           \<or> rev_expected_point_count r \<noteq> Some (int (length ks))
        then Inl (chunk_error ''persisted chunk counts did not match'')
        else Inr (map (point_of d r) vs, vector_manifest sl vs)))"

definition reconstruct_chunk_points ::
  "stdlib \<Rightarrow> uuid \<Rightarrow> bool \<Rightarrow> catalog \<Rightarrow> worker_error + chunk_point list" where
  "reconstruct_chunk_points sl rid require_sealed c =
     rbind (load_revision rid None c) (\<lambda>r.
       if require_sealed \<and> rev_status r \<noteq> REV_SEALED
       then Inl (preparation_error ''revision_state_conflict'' ''publication requires a sealed revision'')
       else case get_document c (rev_document_id r) of
         None \<Rightarrow> Inl (preparation_error ''correlation_failed'' ''revision document was missing'')
       | Some d \<Rightarrow>
           rbind (validate_chunk_rows sl c r d (stored_chunks c (rev_id r))) (\<lambda>(points, manifest).
             if Some manifest \<noteq> rev_vector_manifest_sha256 r
             then Inl (vector_error ''revision vector manifest did not match its points'')
             else Inr points))"

end
