(* ===== verification/Storage.thy ===== *)
theory Storage
  imports Prelude
begin

text \<open>
  The filesystem primitives of \<^verbatim>\<open>pdf_bridge/services/storage.py\<close> the lifecycle uses: streaming
  uploads with their size limit and signature check, storage keys and their resolution below the
  storage root, promotion and removal.  The files below the root are an association list from path
  components to contents; symbolic links and operating-system failures other than a missing file
  are outside the model.
\<close>

type_synonym path = "string list"
type_synonym files = "(path \<times> string) list"

datatype storage_error =
  StorageFailed | InvalidPdfError | FileTooLargeError int | UnsafePathError | FileNotFoundError
| StorageValueError

section \<open>Streaming uploads\<close>

definition PDF_HEADER_BYTES :: nat where
  "PDF_HEADER_BYTES = 1024"

text \<open>\<^verbatim>\<open>bytes.lstrip(b"\<dots>")\<close> over NUL, TAB, LF, FF, CR and SPACE, then the five signature bytes.\<close>

definition pdf_padding :: "char \<Rightarrow> bool" where
  "pdf_padding ch \<longleftrightarrow> char_code ch \<in> {0, 9, 10, 12, 13, 32}"

definition has_pdf_signature :: "string \<Rightarrow> bool" where
  "has_pdf_signature header \<longleftrightarrow>
     take 5 (dropWhile pdf_padding (take PDF_HEADER_BYTES header)) = ''%PDF-''"

record staged_file =
  sf_size_bytes :: nat
  sf_sha256 :: string
  sf_content :: string

text \<open>
  The read loop.  \<open>chunks\<close> are the successive results of \<^verbatim>\<open>upload.read\<close>, \<open>None\<close> for a value that is
  not bytes; the loop ends at the first empty one or at the end of the list.
\<close>

fun stream_loop ::
  "nat \<Rightarrow> nat \<Rightarrow> string \<Rightarrow> string \<Rightarrow> string option list
     \<Rightarrow> storage_error + nat \<times> string \<times> string" where
  "stream_loop max_bytes nbytes header written [] = Inr (nbytes, header, written)"
| "stream_loop max_bytes nbytes header written (Some [] # rest) = Inr (nbytes, header, written)"
| "stream_loop max_bytes nbytes header written (None # rest) = Inl StorageFailed"
| "stream_loop max_bytes nbytes header written (Some chunk # rest) =
     (let nbytes' = nbytes + length chunk in
      if nbytes' > max_bytes then Inl (FileTooLargeError (int max_bytes))
      else stream_loop max_bytes nbytes'
        (if length header < PDF_HEADER_BYTES
         then header @ take (PDF_HEADER_BYTES - length header) chunk else header)
        (written @ chunk) rest)"

definition stream_upload ::
  "(string \<Rightarrow> string) \<Rightarrow> int \<Rightarrow> int \<Rightarrow> string option list \<Rightarrow> storage_error + staged_file" where
  "stream_upload sha256 max_bytes chunk_bytes chunks =
     (if max_bytes \<le> 0 \<or> chunk_bytes \<le> 0 then Inl StorageValueError
      else rbind (stream_loop (nat max_bytes) 0 [] [] chunks) (\<lambda>(nbytes, header, written).
        if nbytes = 0 then Inl InvalidPdfError
        else if \<not> has_pdf_signature header then Inl InvalidPdfError
        else Inr \<lparr>sf_size_bytes = nbytes, sf_sha256 = sha256 written, sf_content = written\<rparr>))"

section \<open>Storage keys\<close>

fun split_slash_acc :: "string \<Rightarrow> string \<Rightarrow> string list" where
  "split_slash_acc acc [] = [acc]"
| "split_slash_acc acc (ch # s) =
     (if ch = CHR ''/'' then acc # split_slash_acc [] s else split_slash_acc (acc @ [ch]) s)"

text \<open>\<^verbatim>\<open>PurePosixPath(key).parts\<close> of a relative key: empty and dot components vanish.\<close>

definition posix_parts :: "string \<Rightarrow> path" where
  "posix_parts key = filter (\<lambda>p. p \<noteq> [] \<and> p \<noteq> ''.'') (split_slash_acc [] key)"

definition resolve_storage_key :: "string \<Rightarrow> storage_error + path" where
  "resolve_storage_key key =
     (if take 1 key = ''/'' \<or> posix_parts key = [] \<or> ''..'' \<in> set (posix_parts key)
      then Inl UnsafePathError else Inr (posix_parts key))"

definition storage_key_for :: "uuid \<Rightarrow> string" where
  "storage_key_for document_id =
     (let identifier = uuid_str document_id
      in ''objects/'' @ take 2 identifier @ ''/'' @ identifier @ ''.pdf'')"

definition promote_staged_file ::
  "staged_file \<Rightarrow> uuid \<Rightarrow> files \<Rightarrow> storage_error + string \<times> files" where
  "promote_staged_file staged document_id fs =
     (let key = storage_key_for document_id in
      rbind (resolve_storage_key key) (\<lambda>destination.
        if map_of fs destination \<noteq> None then Inl StorageFailed
        else Inr (key, (destination, sf_content staged) # fs)))"

definition remove_storage_key :: "string \<Rightarrow> bool \<Rightarrow> files \<Rightarrow> storage_error + files" where
  "remove_storage_key key missing_ok fs =
     rbind (resolve_storage_key key) (\<lambda>path.
       if map_of fs path = None \<and> \<not> missing_ok then Inl FileNotFoundError
       else Inr (filter (\<lambda>(p, _). p \<noteq> path) fs))"

text \<open>The files below a directory, and \<^verbatim>\<open>shutil.rmtree\<close>.\<close>

definition below :: "path \<Rightarrow> path \<Rightarrow> bool" where
  "below dir p \<longleftrightarrow> take (length dir) p = dir \<and> length dir < length p"

definition dir_exists :: "path \<Rightarrow> files \<Rightarrow> bool" where
  "dir_exists dir fs = list_ex (\<lambda>(p, _). below dir p) fs"

definition rmtree :: "path \<Rightarrow> files \<Rightarrow> files" where
  "rmtree dir fs = filter (\<lambda>(p, _). \<not> below dir p) fs"

section \<open>Correctness\<close>

text \<open>The bytes of an upload: what its reader returns up to the first empty read.\<close>

fun upload_bytes :: "string option list \<Rightarrow> string option" where
  "upload_bytes [] = Some []"
| "upload_bytes (Some [] # rest) = Some []"
| "upload_bytes (None # rest) = None"
| "upload_bytes (Some chunk # rest) = map_option ((@) chunk) (upload_bytes rest)"

lemma header_grows:
  "(if length (take n w) < n then take n w @ take (n - length (take n w)) c else take n w)
     = take n (w @ c)"
  by (simp add: min_def)

lemma stream_loop_bytes:
  assumes "upload_bytes chunks = Some b" and "nbytes = length w" and "nbytes \<le> m"
  shows "stream_loop m nbytes (take PDF_HEADER_BYTES w) w chunks =
    (if nbytes + length b > m then Inl (FileTooLargeError (int m))
     else Inr (nbytes + length b, take PDF_HEADER_BYTES (w @ b), w @ b))"
  using assms
proof (induction chunks arbitrary: b nbytes w rule: upload_bytes.induct)
  case (4 ch chunk rest)
  let ?c = "ch # chunk"
  from "4.prems"(1) obtain b' where b': "upload_bytes rest = Some b'" and b: "b = ?c @ b'"
    by auto
  note grow = header_grows [of PDF_HEADER_BYTES w ?c]
  show ?case
    using "4.IH" [OF b', of "nbytes + length ?c" "w @ ?c"] "4.prems"(2,3) b grow
    by (simp add: Let_def del: append.simps)
qed simp_all

lemma has_pdf_signature_take: "has_pdf_signature (take PDF_HEADER_BYTES b) = has_pdf_signature b"
  by (simp add: has_pdf_signature_def)

lemma stream_upload_bytes:
  assumes "upload_bytes chunks = Some b" and "0 < max_bytes" and "0 < chunk_bytes"
  shows "stream_upload sha256 max_bytes chunk_bytes chunks =
    (if int (length b) > max_bytes then Inl (FileTooLargeError max_bytes)
     else if b = [] \<or> \<not> has_pdf_signature b then Inl InvalidPdfError
     else Inr \<lparr>sf_size_bytes = length b, sf_sha256 = sha256 b, sf_content = b\<rparr>)"
  using assms stream_loop_bytes [OF assms(1), of 0 "[]" "nat max_bytes"]
  by (auto simp: stream_upload_def has_pdf_signature_take)

lemma resolve_storage_key_safe:
  assumes "resolve_storage_key key = Inr p"
  shows "p \<noteq> [] \<and> ''..'' \<notin> set p \<and> [] \<notin> set p \<and> ''.'' \<notin> set p"
  using assms by (auto simp: resolve_storage_key_def posix_parts_def split: if_splits)

lemma map_of_filter_neq: "map_of (filter (\<lambda>(p, _). p \<noteq> q) fs) p = (if p = q then None else map_of fs p)"
  by (induction fs) auto

lemma remove_storage_key_frees:
  assumes "remove_storage_key key missing_ok fs = Inr fs'"
  shows "\<exists>p. resolve_storage_key key = Inr p \<and> map_of fs' = (map_of fs)(p := None)"
  using assms by (auto simp: remove_storage_key_def result_simps map_of_filter_neq fun_eq_iff split: if_splits)

lemma rmtree_clears: "\<not> dir_exists dir (rmtree dir fs)"
  by (auto simp: dir_exists_def rmtree_def list_ex_iff)

end
