(* ===== verification/World.thy ===== *)
theory World
  imports Preparation Storage
begin

text \<open>
  The state a running operation acts on: the catalog, the Qdrant index, the files below the
  storage root and the clock.  A catalog transaction (\<open>txn\<close>) reads the clock once and is atomic; a
  read-only session (\<open>query\<close>) sees the catalog as it is.  Index calls and file removals happen
  outside transactions and keep their effects when a later step raises.
\<close>

record 'q world =
  w_catalog :: catalog
  w_index :: 'q
  w_files :: files
  w_clock :: "nat \<Rightarrow> timestamp"
  w_ticks :: nat

text \<open>What an executing slot knows besides the world: its worker identity, the Qdrant client and
  screening collection if they are configured, the configured collections and the standard library
  functions.\<close>

record collection_definition =
  cd_key :: string
  cd_display_name :: string
  cd_description :: string
  cd_audience :: string
  cd_qdrant_collection_name :: string
  cd_enabled :: bool

record 'q env =
  en_worker_id :: string
  en_qdrant :: "'q qdrant option"
  en_screening :: "string option"
  en_collections :: "collection_definition list"
  en_stdlib :: stdlib

type_synonym ('q, 'a) action = "('q world, worker_error, 'a) io"

definition txn :: "(timestamp \<Rightarrow> catalog \<Rightarrow> worker_error + 'a \<times> catalog) \<Rightarrow> ('q, 'a) action" where
  "txn f w =
     (let w1 = w\<lparr>w_ticks := Suc (w_ticks w)\<rparr> in
      case f (w_clock w (w_ticks w)) (w_catalog w) of
        Inl e \<Rightarrow> (Inl e, w1)
      | Inr (x, c) \<Rightarrow> (Inr x, w1\<lparr>w_catalog := c\<rparr>))"

definition txn_unit :: "(timestamp \<Rightarrow> catalog \<Rightarrow> worker_error + catalog) \<Rightarrow> ('q, unit) action" where
  "txn_unit f = txn (\<lambda>now c. rbind (f now c) (\<lambda>c'. Inr ((), c')))"

definition query :: "(catalog \<Rightarrow> worker_error + 'a) \<Rightarrow> ('q, 'a) action" where
  "query f w = (f (w_catalog w), w)"

fun index_failure :: "vector_index_error \<Rightarrow> worker_error" where
  "index_failure Unavailable = VectorIndexError"
| "index_failure Consistency = VectorIndexConsistencyError"
| "index_failure Schema = VectorIndexError"
| "index_failure QueryArgument = OtherError"

definition on_index :: "('q, vector_index_error, 'a) io \<Rightarrow> ('q, 'a) action" where
  "on_index m w = (let (r, q) = m (w_index w) in
     (case r of Inl e \<Rightarrow> Inl (index_failure e) | Inr x \<Rightarrow> Inr x, w\<lparr>w_index := q\<rparr>))"

definition read_index :: "('q \<Rightarrow> vector_index_error + 'a) \<Rightarrow> ('q, 'a) action" where
  "read_index m w = (case m (w_index w) of Inl e \<Rightarrow> Inl (index_failure e) | Inr x \<Rightarrow> Inr x, w)"

definition on_files :: "(files \<Rightarrow> worker_error + files) \<Rightarrow> ('q, unit) action" where
  "on_files f w =
     (case f (w_files w) of Inl e \<Rightarrow> (Inl e, w) | Inr fs \<Rightarrow> (Inr (), w\<lparr>w_files := fs\<rparr>))"

section \<open>What each kind of step touches\<close>

lemma txn_Inr [result_simps]:
  "txn f w = (Inr x, w') \<longleftrightarrow>
     (\<exists>c. f (w_clock w (w_ticks w)) (w_catalog w) = Inr (x, c)
        \<and> w' = w\<lparr>w_ticks := Suc (w_ticks w), w_catalog := c\<rparr>)"
  by (auto simp: txn_def Let_def split: sum.splits prod.splits)

lemma txn_unit_Inr [result_simps]:
  "txn_unit f w = (Inr x, w') \<longleftrightarrow>
     (\<exists>c. f (w_clock w (w_ticks w)) (w_catalog w) = Inr c
        \<and> w' = w\<lparr>w_ticks := Suc (w_ticks w), w_catalog := c\<rparr>)"
  by (auto simp: txn_unit_def result_simps)

lemma query_Inr [result_simps]: "query f w = (Inr x, w') \<longleftrightarrow> f (w_catalog w) = Inr x \<and> w' = w"
  by (auto simp: query_def)

lemma on_index_Inr [result_simps]:
  "on_index m w = (Inr x, w') \<longleftrightarrow> (\<exists>q. m (w_index w) = (Inr x, q) \<and> w' = w\<lparr>w_index := q\<rparr>)"
  by (auto simp: on_index_def Let_def split: prod.splits sum.splits)

lemma read_index_Inr [result_simps]:
  "read_index m w = (Inr x, w') \<longleftrightarrow> m (w_index w) = Inr x \<and> w' = w"
  by (auto simp: read_index_def split: sum.splits)

lemma on_files_Inr [result_simps]:
  "on_files f w = (Inr x, w') \<longleftrightarrow> (\<exists>fs. f (w_files w) = Inr fs \<and> w' = w\<lparr>w_files := fs\<rparr>)"
  by (auto simp: on_files_def split: sum.splits)

lemma keeps_txn [intro]:
  assumes "\<And>now c x c'. P c \<Longrightarrow> f now c = Inr (x, c') \<Longrightarrow> P c'"
  shows "keeps (\<lambda>w. P (w_catalog w)) (txn f)"
  using assms by (auto simp: keeps_def txn_def Let_def split: sum.splits prod.splits)

lemma keeps_txn_unit [intro]:
  assumes "\<And>now c c'. P c \<Longrightarrow> f now c = Inr c' \<Longrightarrow> P c'"
  shows "keeps (\<lambda>w. P (w_catalog w)) (txn_unit f)"
  unfolding txn_unit_def by (rule keeps_txn) (use assms in \<open>auto simp: result_simps\<close>)

lemma keeps_query [intro]: "keeps P (query f)"
  by (simp add: keeps_def query_def)

lemma keeps_read_index [intro]: "keeps P (read_index m)"
  by (simp add: keeps_def read_index_def)

lemma keeps_on_index [intro]: "keeps (\<lambda>w. P (w_catalog w)) (on_index m)"
  by (simp add: keeps_def on_index_def Let_def split: prod.splits)

lemma keeps_on_files [intro]: "keeps (\<lambda>w. P (w_catalog w)) (on_files f)"
  by (auto simp: keeps_def on_files_def split: sum.splits)

end
