(* ===== verification/Deletion.thy ===== *)
theory Deletion
  imports World
begin

text \<open>
  Verified deletion: the phases of \<^verbatim>\<open>_run_deletion_phases\<close> in \<^verbatim>\<open>pdf_bridge/managers/worker.py\<close>.  Points
  leave the active and then the screening collection, each removal is verified by an exact count
  of zero, then the stored source and the private artifacts are purged, and only then a tombstone
  is committed.
\<close>

section \<open>Durable steps\<close>

definition deletion_binding_invalid :: "string \<Rightarrow> worker_error" where
  "deletion_binding_invalid message = worker_failure ''deletion_binding_invalid'' message False"

definition deletion_checkpoint_invalid :: "string \<Rightarrow> worker_error" where
  "deletion_checkpoint_invalid message = worker_failure ''deletion_checkpoint_invalid'' message False"

text \<open>The operation deletes its own document or, as a replacement, its target.\<close>

definition deletes :: "work_operation \<Rightarrow> uuid \<Rightarrow> bool" where
  "deletes w document_id \<longleftrightarrow>
     op_document_id w = document_id \<or> op_replacement_target w = Some document_id"

definition deletion_checkpoint ::
  "string \<Rightarrow> uuid \<Rightarrow> uuid \<Rightarrow> catalog \<Rightarrow> worker_error + uuid option \<times> string \<times> string" where
  "deletion_checkpoint wid oid did c =
     (case (owned_operation c wid oid, get_document c did, deletion_of c did) of
        (Some w, Some d, Some progress) \<Rightarrow>
          if \<not> deletes w did \<or> doc_terminal_disposition d \<noteq> Some (del_disposition progress)
          then Inl (deletion_binding_invalid ''Deletion work did not match its durable checkpoint.'')
          else Inr (del_revision_id progress, del_active_collection progress,
                    del_screening_collection progress)
      | _ \<Rightarrow> Inl (deletion_binding_invalid ''Deletion work did not match its durable checkpoint.''))"

definition count_deletion_attempt :: "uuid \<Rightarrow> catalog \<Rightarrow> worker_error + catalog" where
  "count_deletion_attempt did c =
     (case (get_document c did, deletion_of c did) of
        (Some _, Some _) \<Rightarrow> Inr (upd_deletion did (\<lambda>p. p\<lparr>del_attempts := del_attempts p + 1\<rparr>) c)
      | _ \<Rightarrow> Inl (deletion_binding_invalid ''Deletion progress was missing.''))"

definition set_deletion_phase ::
  "string \<Rightarrow> uuid \<Rightarrow> uuid \<Rightarrow> deletion_phase \<Rightarrow> timestamp \<Rightarrow> catalog \<Rightarrow> worker_error + catalog" where
  "set_deletion_phase wid oid did phase now c =
     (case (owned_operation c wid oid, get_document c did, deletion_of c did) of
        (Some w, Some _, Some _) \<Rightarrow>
          if \<not> deletes w did then Inl LeaseLostError
          else Inr (upd_operation oid (\<lambda>w. snd (set_operation_phase (operation_phase_of phase) now w))
                 (upd_deletion did (\<lambda>p. p\<lparr>del_phase := phase\<rparr>) c))
      | _ \<Rightarrow> Inl LeaseLostError)"

definition record_zero_verification ::
  "string \<Rightarrow> uuid \<Rightarrow> uuid \<Rightarrow> bool \<Rightarrow> timestamp \<Rightarrow> catalog \<Rightarrow> worker_error + catalog" where
  "record_zero_verification wid oid did active now c =
     (case (owned_operation c wid oid, get_document c did, deletion_of c did) of
        (Some _, Some _, Some progress) \<Rightarrow>
          if active then
            Inr (upd_operation oid (\<lambda>w. snd (set_operation_phase DELETE_SCREENING_POINTS now w))
              (upd_deletion did (\<lambda>p. p\<lparr>del_active_zero_at := Some now,
                 del_phase := DP_DELETE_SCREENING_POINTS\<rparr>) c))
          else if del_active_zero_at progress = None
          then Inl (deletion_checkpoint_invalid ''Screening zero cannot precede active zero.'')
          else
            Inr (upd_operation oid (\<lambda>w. snd (set_operation_phase VERIFY_SCREENING_ZERO now w))
              (upd_deletion did (\<lambda>p. p\<lparr>del_screening_zero_at := Some now,
                 del_phase := DP_VERIFY_SCREENING_ZERO\<rparr>) c))
      | _ \<Rightarrow> Inl LeaseLostError)"

definition deletion_outbox ::
  "uuid \<Rightarrow> uuid option \<Rightarrow> index_target \<Rightarrow> string \<Rightarrow> catalog \<Rightarrow> worker_error + int option \<times> catalog" where
  "deletion_outbox did revision_id target collection c =
     (case revision_id of
        None \<Rightarrow> Inr (None, c)
      | Some r \<Rightarrow> rbind (begin_outbox did r target IA_DELETE collection 0 c)
          (\<lambda>(i, c1). Inr (Some i, c1)))"

text \<open>What a purge needs to know, read in one session, and the commit of its result.\<close>

definition purge_plan ::
  "string \<Rightarrow> uuid \<Rightarrow> uuid \<Rightarrow> catalog \<Rightarrow> worker_error + string option \<times> uuid list \<times> string list" where
  "purge_plan wid oid did c =
     (case (owned_operation c wid oid, get_document c did, deletion_of c did) of
        (Some _, Some d, Some progress) \<Rightarrow>
          if del_active_zero_at progress = None \<or> del_screening_zero_at progress = None
          then Inl (deletion_checkpoint_invalid ''Storage purge requires both exact zero proofs.'')
          else
            let revision_ids = revision_ids_of c did in
            Inr (doc_storage_key d, revision_ids,
                 map art_storage_key (filter (\<lambda>a. art_revision_id a \<in> set revision_ids) (artifacts c)))
      | _ \<Rightarrow> Inl (deletion_checkpoint_invalid ''Storage purge requires both exact zero proofs.''))"

definition delete_revision_content :: "uuid list \<Rightarrow> catalog \<Rightarrow> catalog" where
  "delete_revision_content rs c =
     c\<lparr>evidence_rows := filter (\<lambda>x. ev_revision_id x \<notin> set rs) (evidence_rows c),
       candidates := filter (\<lambda>x. cand_revision_id x \<notin> set rs) (candidates c),
       chunk_vectors := filter (\<lambda>x. vec_revision_id x \<notin> set rs) (chunk_vectors c),
       chunks := filter (\<lambda>x. chk_revision_id x \<notin> set rs) (chunks c),
       prepared_pages := filter (\<lambda>x. pp_revision_id x \<notin> set rs) (prepared_pages c),
       formatter_batches := filter (\<lambda>x. fb_revision_id x \<notin> set rs) (formatter_batches c),
       extracted_pages := filter (\<lambda>x. xp_revision_id x \<notin> set rs) (extracted_pages c),
       artifacts := filter (\<lambda>x. art_revision_id x \<notin> set rs) (artifacts c)\<rparr>"

definition commit_purge ::
  "string \<Rightarrow> uuid \<Rightarrow> uuid \<Rightarrow> string \<Rightarrow> uuid list \<Rightarrow> timestamp \<Rightarrow> catalog \<Rightarrow> worker_error + catalog" where
  "commit_purge wid oid did storage_key revision_ids now c =
     (case (owned_operation c wid oid, get_document c did, deletion_of c did) of
        (Some _, Some d, Some progress) \<Rightarrow>
          if doc_storage_key d \<noteq> Some storage_key
             \<or> del_active_zero_at progress = None \<or> del_screening_zero_at progress = None
          then Inl LeaseLostError
          else
            let c1 = (if revision_ids \<noteq> [] then delete_revision_content revision_ids c else c)
            in Inr (upd_operation oid (\<lambda>w. snd (set_operation_phase COMMIT_TOMBSTONE now w))
                 (upd_deletion did (\<lambda>p. p\<lparr>del_storage_purged_at := Some now,
                    del_phase := DP_COMMIT_TOMBSTONE\<rparr>)
                 (upd_document did (\<lambda>d. d\<lparr>doc_storage_key := None\<rparr>) c1)))
      | _ \<Rightarrow> Inl LeaseLostError)"

definition commit_deletion ::
  "string \<Rightarrow> uuid \<Rightarrow> uuid \<Rightarrow> timestamp \<Rightarrow> catalog \<Rightarrow> worker_error + catalog" where
  "commit_deletion wid oid did now c =
     (case (owned_operation c wid oid, get_document c did, deletion_of c did) of
        (Some w, Some d, Some progress) \<Rightarrow>
          if del_storage_purged_at progress = None then Inl LeaseLostError
          else
            let reason = (if doc_terminal_disposition d = Some TD_REJECTED
                          then doc_failure_code d else None)
            in rbind (lift_lifecycle (commit_tombstone now d reason ''system'' wid c)) (\<lambda>(tombstone, c1).
                 let c2 = audit ''deletion_verified_complete'' ''system'' wid (Some did) (Some oid)
                       [(''tombstone_id'', AUuid (tomb_id tombstone)),
                        (''disposition'', AText (disposition_value (tomb_disposition tombstone)))] c1
                 in Inr (if op_type w = DELETE \<and> op_document_id w = did
                      then upd_operation oid (finish_operation COMPLETE now) c2 else c2))
      | _ \<Rightarrow> Inl LeaseLostError)"

section \<open>The workflow\<close>

definition required_qdrant :: "'q env \<Rightarrow> ('q, 'q qdrant) action" where
  "required_qdrant en =
     (case en_qdrant en of
        None \<Rightarrow> iraise (worker_failure ''provider_not_configured'' ''Qdrant is not configured.'' False)
      | Some client \<Rightarrow> iret client)"

text \<open>Remove the document's points from one collection and verify that none is left.\<close>

definition clear_collection ::
  "'q env \<Rightarrow> 'q qdrant \<Rightarrow> uuid \<Rightarrow> uuid \<Rightarrow> uuid option \<Rightarrow> bool \<Rightarrow> string \<Rightarrow> ('q, unit) action" where
  "clear_collection en client oid did revision_id active collection =
     ibind (txn_unit (set_deletion_phase (en_worker_id en) oid did
         (if active then DP_DELETE_ACTIVE_POINTS else DP_DELETE_SCREENING_POINTS))) (\<lambda>_.
     ibind (txn (\<lambda>_. deletion_outbox did revision_id
         (if active then IT_ACTIVE else IT_SCREENING) collection)) (\<lambda>outbox_id.
     ibind (on_index (delete_document_points client collection did)) (\<lambda>_.
     ibind (case outbox_id of None \<Rightarrow> iret () | Some i \<Rightarrow> txn_unit (complete_outbox i)) (\<lambda>_.
     ibind (txn_unit (set_deletion_phase (en_worker_id en) oid did
         (if active then DP_VERIFY_ACTIVE_ZERO else DP_VERIFY_SCREENING_ZERO))) (\<lambda>_.
     ibind (read_index (verify_document_zero client collection did)) (\<lambda>_.
       txn_unit (record_zero_verification (en_worker_id en) oid did active)))))))"

definition purge_missing :: worker_error where
  "purge_missing = worker_failure ''content_missing_before_purge''
     ''Expected protected content was absent before the first purge attempt.'' False"

definition remove_key :: "bool \<Rightarrow> string \<Rightarrow> ('q, unit) action" where
  "remove_key allow_missing key =
     on_files (\<lambda>fs. case remove_storage_key key allow_missing fs of
        Inl FileNotFoundError \<Rightarrow> Inl purge_missing
      | Inl _ \<Rightarrow> Inl StorageError
      | Inr fs' \<Rightarrow> Inr fs')"

fun remove_keys :: "bool \<Rightarrow> string list \<Rightarrow> ('q, unit) action" where
  "remove_keys allow_missing [] = iret ()"
| "remove_keys allow_missing (k # ks) =
     ibind (remove_key allow_missing k) (\<lambda>_. remove_keys allow_missing ks)"

definition remove_artifact_root :: "uuid \<Rightarrow> ('q, unit) action" where
  "remove_artifact_root did =
     on_files (\<lambda>fs. case resolve_storage_key (''artifacts/'' @ uuid_str did) of
        Inl _ \<Rightarrow> Inl StorageError
      | Inr artifact_root \<Rightarrow>
          if map_of fs artifact_root \<noteq> None
          then Inl (worker_failure ''artifact_purge_failed''
            ''The protected artifact root was not a directory.'' False)
          else if dir_exists artifact_root fs then Inr (rmtree artifact_root fs) else Inr fs)"

definition purge_document_content ::
  "'q env \<Rightarrow> uuid \<Rightarrow> uuid \<Rightarrow> bool \<Rightarrow> ('q, unit) action" where
  "purge_document_content en oid did allow_missing =
     ibind (query (purge_plan (en_worker_id en) oid did)) (\<lambda>(storage_key, revision_ids, artifact_keys).
       case storage_key of
         None \<Rightarrow> iraise (worker_failure ''content_binding_invalid''
           ''The deletion checkpoint had no canonical source binding.'' False)
       | Some key \<Rightarrow>
           ibind (remove_keys allow_missing (key # artifact_keys)) (\<lambda>_.
           ibind (remove_artifact_root did) (\<lambda>_.
             txn_unit (commit_purge (en_worker_id en) oid did key revision_ids))))"

text \<open>The checkpoints a run starts from.\<close>

record deletion_flags =
  df_active_verified :: bool
  df_screening_verified :: bool
  df_storage_purged :: bool
  df_tombstoned :: bool
  df_purge_checkpointed :: bool

definition deletion_flags_of :: "uuid \<Rightarrow> catalog \<Rightarrow> worker_error + deletion_flags" where
  "deletion_flags_of did c =
     (case (get_document c did, deletion_of c did) of
        (Some _, Some p) \<Rightarrow> Inr \<lparr>df_active_verified = (del_active_zero_at p \<noteq> None),
          df_screening_verified = (del_screening_zero_at p \<noteq> None),
          df_storage_purged = (del_storage_purged_at p \<noteq> None),
          df_tombstoned = (del_tombstoned_at p \<noteq> None),
          df_purge_checkpointed = (del_phase p = DP_PURGE_STORAGE)\<rparr>
      | _ \<Rightarrow> Inl OtherError)"

definition run_deletion_phases :: "'q env \<Rightarrow> uuid \<Rightarrow> uuid \<Rightarrow> ('q, unit) action" where
  "run_deletion_phases en oid did =
     ibind (query (deletion_checkpoint (en_worker_id en) oid did)) (\<lambda>(revision_id, active, screening).
     ibind (txn_unit (\<lambda>_. count_deletion_attempt did)) (\<lambda>_.
     ibind (required_qdrant en) (\<lambda>client.
     ibind (query (deletion_flags_of did)) (\<lambda>flags.
     ibind (if df_active_verified flags then iret ()
            else clear_collection en client oid did revision_id True active) (\<lambda>_.
     ibind (if df_screening_verified flags then iret ()
            else clear_collection en client oid did revision_id False screening) (\<lambda>_.
     ibind (if df_storage_purged flags then iret ()
            else ibind (txn_unit (set_deletion_phase (en_worker_id en) oid did DP_PURGE_STORAGE)) (\<lambda>_.
              purge_document_content en oid did (df_purge_checkpointed flags))) (\<lambda>_.
       if df_tombstoned flags then iret ()
       else ibind (txn_unit (set_deletion_phase (en_worker_id en) oid did DP_COMMIT_TOMBSTONE)) (\<lambda>_.
         txn_unit (commit_deletion (en_worker_id en) oid did)))))))))"

definition run_delete :: "'q env \<Rightarrow> uuid \<Rightarrow> uuid \<Rightarrow> ('q, unit) action" where
  "run_delete en oid did =
     ibind (query (operation_snapshot_of (en_worker_id en) oid)) (\<lambda>snapshot.
       if sn_type snapshot \<noteq> DELETE \<or> sn_document_id snapshot \<noteq> did
          \<or> sn_replacement_target snapshot \<noteq> None
       then iraise (deletion_binding_invalid ''Deletion work lost its exact operation binding.'')
       else run_deletion_phases en oid did)"

end
