(* ===== verification/Publication.thy ===== *)
theory Publication
  imports Deletion
begin

text \<open>
  Publication: \<^verbatim>\<open>_run_publish\<close> of \<^verbatim>\<open>pdf_bridge/managers/worker.py\<close>.  A replacement first deletes the old
  document completely.  Then the points rebuilt from the sealed revision are staged hidden,
  verified, activated and verified again in the active collection, the screening copies are
  removed and verified gone, and only then the document becomes READY.
\<close>

definition required_screening_collection :: "'q env \<Rightarrow> ('q, string) action" where
  "required_screening_collection en =
     (case en_screening en of
        Some (ch # name) \<Rightarrow> iret (ch # name)
      | _ \<Rightarrow> iraise (worker_failure ''provider_not_configured''
          ''The private screening collection is not configured.'' False))"

definition publication_binding_invalid :: "string \<Rightarrow> worker_error" where
  "publication_binding_invalid message = worker_failure ''publication_binding_invalid'' message False"

text \<open>The read session that binds the work to its sealed revision and publication record.\<close>

definition publication_checkpoint ::
  "string \<Rightarrow> uuid \<Rightarrow> uuid \<Rightarrow> uuid \<Rightarrow> catalog \<Rightarrow> worker_error + string \<times> int" where
  "publication_checkpoint wid oid did rid c =
     (case (owned_operation c wid oid, get_document c did, get_revision c rid, publication_of c rid) of
        (Some _, Some d, Some r, Some p) \<Rightarrow>
          if doc_state d \<noteq> PUBLISHING \<or> rev_document_id r \<noteq> doc_id d \<or> rev_status r \<noteq> REV_SEALED
             \<or> pub_document_id p \<noteq> doc_id d
             \<or> pub_active_collection p \<noteq> rev_active_collection r
             \<or> Some (pub_expected_points p) \<noteq> rev_expected_point_count r
             \<or> pub_status p = PUB_VERIFIED
          then Inl (publication_binding_invalid
            ''Publication work did not match its sealed revision checkpoint.'')
          else Inr (pub_active_collection p, pub_expected_points p)
      | _ \<Rightarrow> Inl (publication_binding_invalid
          ''Publication work did not match its sealed revision checkpoint.''))"

definition manifest_points_match :: "uuid \<Rightarrow> uuid \<Rightarrow> string \<Rightarrow> int \<Rightarrow> chunk_point list \<Rightarrow> bool" where
  "manifest_points_match did rid active expected_points points \<longleftrightarrow>
     \<not> (int (length points) \<noteq> expected_points
        \<or> list_ex (\<lambda>p. pt_document_id p \<noteq> did \<or> pt_revision_id p \<noteq> rid
            \<or> pt_active_collection p \<noteq> active) points)"

definition mark_upserted :: "string \<Rightarrow> uuid \<Rightarrow> uuid \<Rightarrow> catalog \<Rightarrow> worker_error + catalog" where
  "mark_upserted wid oid rid c =
     (case (publication_of c rid, owned_operation c wid oid) of
        (Some p, Some _) \<Rightarrow>
          if pub_status p = PUB_VERIFIED then Inl LeaseLostError
          else lift_lifecycle (upd_publication (pub_id p)
            (\<lambda>p. p\<lparr>pub_status := PUB_UPSERTED, pub_failure_code := None\<rparr>) c)
      | _ \<Rightarrow> Inl LeaseLostError)"

text \<open>The rows as the final transaction leaves them.\<close>

definition verified_publication :: "int \<Rightarrow> timestamp \<Rightarrow> publication_record \<Rightarrow> publication_record" where
  "verified_publication expected_points now p =
     p\<lparr>pub_status := PUB_VERIFIED, pub_verified_points := Some expected_points,
       pub_payload_revision_verified := True, pub_vector_schema_verified := True,
       pub_screening_zero_verified := True, pub_failure_code := None, pub_verified_at := Some now\<rparr>"

definition ready_document :: "timestamp \<Rightarrow> document \<Rightarrow> document" where
  "ready_document now d = clear_failure (d\<lparr>doc_state := READY, doc_ready_at := Some now\<rparr>)"

text \<open>The old document of a replacement is gone for good.\<close>

definition replaced_document_deleted :: "catalog \<Rightarrow> uuid \<Rightarrow> bool" where
  "replaced_document_deleted c t \<longleftrightarrow>
     (case (get_document c t, tombstone_of c t, deletion_of c t) of
        (Some old, Some _, Some progress) \<Rightarrow>
          doc_state old = DELETED \<and> del_tombstoned_at progress \<noteq> None
      | _ \<Rightarrow> False)"

definition finish_publication ::
  "string \<Rightarrow> uuid \<Rightarrow> uuid \<Rightarrow> uuid \<Rightarrow> int \<Rightarrow> timestamp \<Rightarrow> catalog \<Rightarrow> worker_error + catalog" where
  "finish_publication wid oid did rid expected_points now c =
     (case (owned_operation c wid oid, get_document c did, get_revision c rid, publication_of c rid) of
        (Some w, Some d, Some r, Some p) \<Rightarrow>
          if op_document_id w \<noteq> doc_id d \<or> op_revision_id w \<noteq> Some (rev_id r)
             \<or> doc_state d \<noteq> PUBLISHING \<or> rev_status r \<noteq> REV_SEALED
             \<or> pub_status p \<noteq> PUB_UPSERTED \<or> pub_expected_points p \<noteq> expected_points
          then Inl (publication_binding_invalid
            ''Verified index work lost its publication checkpoint.'')
          else if (case op_replacement_target w of None \<Rightarrow> False
                   | Some t \<Rightarrow> \<not> replaced_document_deleted c t)
          then Inl (worker_failure ''replacement_deletion_incomplete''
            ''Replacement publication requires the old tombstone first.'' False)
          else rbind (lift_lifecycle (upd_publication (pub_id p)
                 (verified_publication expected_points now) c)) (\<lambda>c1.
            Inr (audit ''publication_verified'' ''system'' wid (Some (doc_id d)) (Some oid)
              [(''prepared_revision_id'', AUuid (rev_id r)),
               (''active_qdrant_collection'', AText (pub_active_collection p)),
               (''verified_points'', ANum expected_points)]
              (upd_operation oid (finish_operation COMPLETE now)
                (upd_document did (ready_document now) c1))))
      | _ \<Rightarrow> Inl (publication_binding_invalid
          ''Verified index work lost its publication checkpoint.''))"

section \<open>The workflow\<close>

text \<open>Stage, verify, activate and verify again in the active collection.\<close>

definition publish_active ::
  "'q env \<Rightarrow> 'q qdrant \<Rightarrow> uuid \<Rightarrow> uuid \<Rightarrow> uuid \<Rightarrow> string \<Rightarrow> int \<Rightarrow> chunk_point list
     \<Rightarrow> ('q, unit) action" where
  "publish_active en client oid did rid active expected_points points =
     ibind (txn_unit (set_phase (en_worker_id en) oid UPSERT_ACTIVE_POINTS)) (\<lambda>_.
     ibind (txn (\<lambda>_. begin_outbox did rid IT_ACTIVE IA_PUBLISH active expected_points)) (\<lambda>outbox_id.
     ibind (on_index (stage_active_points client active points)) (\<lambda>_.
     ibind (txn_unit (set_phase (en_worker_id en) oid VERIFY_ACTIVE_POINTS)) (\<lambda>_.
     ibind (read_index (verify_prepared_points client active points False ''publishing'')) (\<lambda>_.
     ibind (on_index (activate_prepared_points client active did rid)) (\<lambda>_.
     ibind (read_index (verify_prepared_points client active points True ''active'')) (\<lambda>_.
     ibind (txn_unit (complete_outbox outbox_id)) (\<lambda>_.
       txn_unit (\<lambda>_. mark_upserted (en_worker_id en) oid rid)))))))))"

text \<open>Remove the screening copies and verify that none is left.\<close>

definition retire_screening ::
  "'q env \<Rightarrow> 'q qdrant \<Rightarrow> uuid \<Rightarrow> uuid \<Rightarrow> uuid \<Rightarrow> string \<Rightarrow> ('q, unit) action" where
  "retire_screening en client oid did rid screening =
     ibind (txn_unit (set_phase (en_worker_id en) oid REMOVE_SCREENING_POINTS)) (\<lambda>_.
     ibind (txn (\<lambda>_. begin_outbox did rid IT_SCREENING IA_DELETE screening 0)) (\<lambda>outbox_id.
     ibind (on_index (delete_document_points client screening did)) (\<lambda>_.
     ibind (txn_unit (set_phase (en_worker_id en) oid VERIFY_SCREENING_REMOVAL)) (\<lambda>_.
     ibind (read_index (verify_document_zero client screening did)) (\<lambda>_.
       txn_unit (complete_outbox outbox_id))))))"

definition run_publish :: "'q env \<Rightarrow> uuid \<Rightarrow> uuid \<Rightarrow> ('q, unit) action" where
  "run_publish en oid did =
     ibind (query (operation_snapshot_of (en_worker_id en) oid)) (\<lambda>snapshot.
       case sn_revision_id snapshot of
         None \<Rightarrow> iraise (publication_binding_invalid ''Publication work lost its exact operation binding.'')
       | Some rid \<Rightarrow>
           if sn_type snapshot \<noteq> PUBLISH \<or> sn_document_id snapshot \<noteq> did
           then iraise (publication_binding_invalid
             ''Publication work lost its exact operation binding.'')
           else
           ibind (case sn_replacement_target snapshot of
                    None \<Rightarrow> iret ()
                  | Some t \<Rightarrow> run_deletion_phases en oid t) (\<lambda>_.
           ibind (required_screening_collection en) (\<lambda>screening.
           ibind (query (publication_checkpoint (en_worker_id en) oid did rid))
             (\<lambda>(active, expected_points).
           ibind (query (reconstruct_chunk_points (en_stdlib en) rid True)) (\<lambda>points.
           if \<not> manifest_points_match did rid active expected_points points
           then iraise (worker_failure ''publication_manifest_invalid''
             ''Reconstructed publication points did not match the sealed manifest.'' False)
           else
           ibind (required_qdrant en) (\<lambda>client.
           ibind (publish_active en client oid did rid active expected_points points) (\<lambda>_.
           ibind (retire_screening en client oid did rid screening) (\<lambda>_.
             txn_unit (finish_publication (en_worker_id en) oid did rid expected_points)))))))))"

end
