(* ===== verification/Preflight.thy ===== *)
theory Preflight
  imports Publication
begin

text \<open>
  The durable edges of a preflight in \<^verbatim>\<open>pdf_bridge/managers/worker.py\<close>: the source it starts from, the
  screening points it writes, its two endings (a sealed revision that is published or reviewed,
  and a terminal rejection that queues its own cleanup), and the dispatch of claimed operations
  with the handling of what they raise.
\<close>

section \<open>Start\<close>

definition collection_definition_for ::
  "collection_definition list \<Rightarrow> string \<Rightarrow> worker_error + collection_definition" where
  "collection_definition_for cs key =
     (case find (\<lambda>item. cd_key item = key \<and> cd_enabled item) cs of
        None \<Rightarrow> Inl (worker_failure ''collection_not_configured''
          ''The document collection is not enabled in target configuration.'' False)
      | Some d \<Rightarrow> Inr d)"

record document_work_snapshot =
  dw_document_id :: uuid
  dw_collection_key :: string
  dw_storage_key :: string
  dw_source_path :: path

definition preflight_binding ::
  "string \<Rightarrow> uuid \<Rightarrow> uuid \<Rightarrow> catalog \<Rightarrow> worker_error + string \<times> string" where
  "preflight_binding wid oid did c =
     (case (owned_operation c wid oid, get_document c did) of
        (Some w, Some d) \<Rightarrow>
          if op_type w \<noteq> PREFLIGHT then Inl LeaseLostError
          else
            let state_conflict = worker_failure ''document_state_conflict''
                  ''The preflight document is no longer processable.'' False
            in (case doc_storage_key d of
                  Some (ch # key) \<Rightarrow>
                    if doc_state d \<noteq> PREFLIGHTING then Inl state_conflict
                    else Inr (ch # key, doc_collection_key d)
                | _ \<Rightarrow> Inl state_conflict)
      | _ \<Rightarrow> Inl LeaseLostError)"

definition source_file :: "string \<Rightarrow> files \<Rightarrow> worker_error + path" where
  "source_file storage_key fs =
     (case resolve_storage_key storage_key of
        Inl _ \<Rightarrow> Inl StorageError
      | Inr p \<Rightarrow>
          if map_of fs p = None
          then Inl (worker_failure ''source_missing'' ''The canonical source object is missing.'' False)
          else Inr p)"

definition preflight_source :: "'q env \<Rightarrow> uuid \<Rightarrow> uuid \<Rightarrow> ('q, document_work_snapshot) action" where
  "preflight_source en oid did w =
     (case rbind (preflight_binding (en_worker_id en) oid did (w_catalog w)) (\<lambda>(key, collection_key).
        rbind (source_file key (w_files w)) (\<lambda>p.
          Inr \<lparr>dw_document_id = did, dw_collection_key = collection_key, dw_storage_key = key,
               dw_source_path = p\<rparr>)) of
        Inl e \<Rightarrow> (Inl e, w) | Inr x \<Rightarrow> (Inr x, w))"

section \<open>Screening points\<close>

definition write_screening_points ::
  "'q env \<Rightarrow> uuid \<Rightarrow> preparation_handle \<Rightarrow> chunk_point list \<Rightarrow> ('q, unit) action" where
  "write_screening_points en oid h points =
     ibind (required_qdrant en) (\<lambda>client.
     ibind (required_screening_collection en) (\<lambda>screening.
     ibind (txn_unit (set_phase (en_worker_id en) oid UPSERTING_SCREENING_POINTS)) (\<lambda>_.
     ibind (txn (\<lambda>_. begin_outbox (ph_document_id h) (ph_revision_id h) IT_SCREENING IA_UPSERT
         screening (int (length points)))) (\<lambda>outbox_id.
     ibind (on_index (delete_document_points client screening (ph_document_id h))) (\<lambda>_.
     ibind (read_index (verify_document_zero client screening (ph_document_id h))) (\<lambda>_.
     ibind (on_index (upsert_screening_points client screening points)) (\<lambda>_.
     ibind (read_index (verify_prepared_points client screening points False ''screening'')) (\<lambda>_.
       txn_unit (complete_outbox outbox_id)))))))))"

section \<open>Endings\<close>

definition is_terminal_rejection :: "string \<Rightarrow> bool" where
  "is_terminal_rejection code \<longleftrightarrow> code \<in> set
     [''extraction_encrypted'', ''extraction_malformed'', ''extraction_empty'',
      ''extraction_page-budget'', ''extraction_character-budget'', ''extraction_image-only'',
      ''extraction_text-insufficient'', ''extraction_non-english'']"

definition accept_rejection_txn ::
  "string \<Rightarrow> uuid \<Rightarrow> uuid \<Rightarrow> string \<Rightarrow> string \<Rightarrow> string \<Rightarrow> timestamp \<Rightarrow> catalog
     \<Rightarrow> worker_error + catalog" where
  "accept_rejection_txn wid oid did reason_code configured_active screening now c =
     (case (owned_operation c wid oid, get_document c did) of
        (Some _, Some d) \<Rightarrow>
          let revision = latest_revision c (doc_id d);
              c1 = upd_operation oid (\<lambda>w. w\<lparr>op_revision_id := map_option rev_id revision\<rparr>) c
          in rbind (lift_lifecycle (queue_rejection_cleanup now d reason_code
                 (case revision of Some r \<Rightarrow> rev_active_collection r | None \<Rightarrow> configured_active)
                 screening (map_option rev_id revision) c1)) (\<lambda>(_, c2).
               Inr (audit ''preflight_rejected_cleanup_queued'' ''system'' wid (Some (doc_id d)) (Some oid)
                 [(''reason_code'', AText reason_code)]
                 (upd_operation oid (finish_operation COMPLETE now) c2)))
      | _ \<Rightarrow> Inl LeaseLostError)"

definition accept_rejection ::
  "'q env \<Rightarrow> uuid \<Rightarrow> uuid \<Rightarrow> string \<Rightarrow> collection_definition \<Rightarrow> ('q, unit) action" where
  "accept_rejection en oid did reason_code collection =
     ibind (required_screening_collection en) (\<lambda>screening.
       txn_unit (accept_rejection_txn (en_worker_id en) oid did reason_code
         (cd_qdrant_collection_name collection) screening))"

record sealed_preparation =
  sp_revision_id :: uuid
  sp_manifest_sha256 :: string
  sp_extraction_sha256 :: string
  sp_markdown_sha256 :: string
  sp_vector_manifest_sha256 :: string
  sp_evidence_manifest_sha256 :: string
  sp_page_count :: int
  sp_chunk_count :: int
  sp_clear_for_publication :: bool

definition finish_preflight ::
  "string \<Rightarrow> uuid \<Rightarrow> sealed_preparation \<Rightarrow> timestamp \<Rightarrow> catalog \<Rightarrow> worker_error + catalog" where
  "finish_preflight wid oid sealed now c =
     (case (owned_operation c wid oid, get_revision c (sp_revision_id sealed)) of
        (Some w, Some r) \<Rightarrow>
          if op_revision_id w \<noteq> Some (rev_id r) \<or> rev_status r \<noteq> REV_SEALED then Inl LeaseLostError
          else
            let state_conflict = worker_failure ''document_state_conflict''
                  ''The sealed preflight document changed lifecycle state.'' False
            in (case get_document c (op_document_id w) of
              None \<Rightarrow> Inl state_conflict
            | Some d \<Rightarrow>
                if doc_state d \<noteq> PREFLIGHTING then Inl state_conflict
                else rbind (if sp_clear_for_publication sealed
                  then rbind (lift_lifecycle (queue_clear_publication now d r c))
                    (\<lambda>(queued, c1). Inr (Some (op_id queued), c1))
                  else Inr (None, upd_document (doc_id d) (\<lambda>d. d\<lparr>doc_state := REVIEW_REQUIRED\<rparr>) c))
                (\<lambda>(queued, c1).
                  Inr (audit (if sp_clear_for_publication sealed
                         then ''preflight_clear_publication_queued'' else ''preflight_review_required'')
                       ''system'' wid (Some (doc_id d)) (Some oid)
                       [(''prepared_revision_id'', AUuid (rev_id r)),
                        (''manifest_sha256'', AText (sp_manifest_sha256 sealed)),
                        (''queued_publication_operation_id'', audit_uuid queued)]
                    (upd_operation oid (finish_operation
                         (if sp_clear_for_publication sealed then COMPLETE else AWAITING_DECISION) now)
                      (upd_document (doc_id d) clear_failure c1)))))
      | _ \<Rightarrow> Inl LeaseLostError)"

section \<open>Dispatch\<close>

text \<open>
  The three workflows of a claimed operation; the body of a preflight is an argument.
\<close>

definition run_operation ::
  "(uuid \<Rightarrow> uuid \<Rightarrow> ('q, unit) action) \<Rightarrow> 'q env \<Rightarrow> claimed_operation \<Rightarrow> ('q, unit) action" where
  "run_operation run_preflight en claimed =
     (case cl_type claimed of
        PREFLIGHT \<Rightarrow> run_preflight (cl_operation_id claimed) (cl_document_id claimed)
      | PUBLISH \<Rightarrow> run_publish en (cl_operation_id claimed) (cl_document_id claimed)
      | DELETE \<Rightarrow> run_delete en (cl_operation_id claimed) (cl_document_id claimed))"

text \<open>
  \<^verbatim>\<open>_execute\<close>: a lost lease is left alone, every other exception is recorded as the failure of the
  operation, and the claim is released in all cases.  The first component is the exception that
  leaves \<^verbatim>\<open>_execute\<close>, if the failure itself could not be recorded.
\<close>

definition execute ::
  "(uuid \<Rightarrow> uuid \<Rightarrow> ('q, unit) action) \<Rightarrow> 'q env \<Rightarrow> claimed_operation \<Rightarrow> worker \<Rightarrow> 'q world
     \<Rightarrow> (worker_error + unit) \<times> worker \<times> 'q world" where
  "execute run_preflight en claimed wk w =
     (let (result, w1) = run_operation run_preflight en claimed w;
          (outcome, w2) =
            (case result of
               Inr _ \<Rightarrow> (Inr (), w1)
             | Inl LeaseLostError \<Rightarrow> (Inr (), w1)
             | Inl e \<Rightarrow> txn_unit (fail_operation (en_worker_id en) (cl_operation_id claimed) e) w1)
      in (outcome, release_claim claimed wk, w2))"

end
