(* ===== verification/Admission.thy ===== *)
theory Admission
  imports Preflight
begin

text \<open>
  The request side: admission of uploads and protected source access from
  \<^verbatim>\<open>pdf_bridge/services/document.py\<close>, and the managers of \<^verbatim>\<open>pdf_bridge/managers/document.py\<close> that wrap
  every mutation in one idempotent transaction.

  The malware scanner is an argument (it is a remote service), and so is the rendering of response
  bodies, of which only the stored snapshot matters here.
\<close>

section \<open>Filenames\<close>

datatype admission_error =
  AdmissionFailure lifecycle_error
| UploadFailure storage_error
| InvalidFilenameError
| ScannerFailure
| SerializationError

definition control_char :: "char \<Rightarrow> bool" where
  "control_char ch \<longleftrightarrow> char_code ch < 32 \<or> (127 \<le> char_code ch \<and> char_code ch \<le> 159)"

definition ends_with :: "string \<Rightarrow> string \<Rightarrow> bool" where
  "ends_with suffix s \<longleftrightarrow> length suffix \<le> length s \<and> drop (length s - length suffix) s = suffix"

definition validate_pdf_filename :: "stdlib \<Rightarrow> string \<Rightarrow> admission_error + string" where
  "validate_pdf_filename sl filename =
     (let candidate = py_strip (sl_nfkc sl filename) in
      if candidate = [] \<or> candidate \<in> {''.'', ''..''} then Inl InvalidFilenameError
      else if list_ex (\<lambda>ch. char_code ch \<in> {47, 92, 0}) candidate then Inl InvalidFilenameError
      else if list_ex control_char candidate then Inl InvalidFilenameError
      else
        let collapsed = collapse_whitespace candidate in
        if length collapsed > 255 then Inl InvalidFilenameError
        else if \<not> ends_with ''.pdf'' (casefold collapsed) then Inl InvalidFilenameError
        else Inr collapsed)"

definition normalize_filename :: "stdlib \<Rightarrow> string \<Rightarrow> admission_error + string" where
  "normalize_filename sl filename =
     rbind (validate_pdf_filename sl filename) (\<lambda>name. Inr (casefold name))"

section \<open>Preparing an admission\<close>

record scan_result =
  sr_state :: scan_state
  sr_engine :: string
  sr_scanned_at :: timestamp
  sr_signature :: "string option"

record prepared_admission =
  pa_staged :: staged_file
  pa_filename :: string
  pa_normalized_filename :: string
  pa_collection :: collection_definition
  pa_scan :: scan_result

definition configured_collection ::
  "collection_definition list \<Rightarrow> string \<Rightarrow> lifecycle_error + collection_definition" where
  "configured_collection definitions key =
     (case find (\<lambda>d. cd_key d = key \<and> cd_enabled d) definitions of
        Some d \<Rightarrow> Inr d
      | None \<Rightarrow> Inl (LifecycleError ''collection_not_found'' 404 False))"

definition admission_of :: "lifecycle_error + 'a \<Rightarrow> admission_error + 'a" where
  "admission_of m = (case m of Inl e \<Rightarrow> Inl (AdmissionFailure e) | Inr x \<Rightarrow> Inr x)"

lemma admission_of_Inr [result_simps]: "admission_of m = Inr x \<longleftrightarrow> m = Inr x"
  by (cases m) (auto simp: admission_of_def)

text \<open>The verdict on a scan; \<open>None\<close> is a scanner that raised.\<close>

definition scan_verdict :: "scan_result option \<Rightarrow> admission_error + scan_result" where
  "scan_verdict scan =
     (case scan of
        None \<Rightarrow> Inl ScannerFailure
      | Some s \<Rightarrow>
          if sr_state s = SCAN_INFECTED
          then Inl (AdmissionFailure (LifecycleError ''malware_detected'' 422 False))
          else if sr_state s \<noteq> SCAN_CLEAN
          then Inl (AdmissionFailure (LifecycleError ''scanner_incomplete'' 503 True))
          else Inr s)"

definition prepare_admission ::
  "stdlib \<Rightarrow> collection_definition list \<Rightarrow> (string \<Rightarrow> scan_result option) \<Rightarrow> int \<Rightarrow> int
     \<Rightarrow> string option list \<Rightarrow> string \<Rightarrow> string option \<Rightarrow> string
     \<Rightarrow> admission_error + prepared_admission" where
  "prepare_admission sl definitions scanner max_bytes chunk_bytes file filename content_type
       collection_key =
     rbind (admission_of (configured_collection definitions collection_key)) (\<lambda>collection.
     rbind (validate_pdf_filename sl filename) (\<lambda>display_filename.
     if (case content_type of None \<Rightarrow> False | Some t \<Rightarrow> casefold t \<noteq> ''application/pdf'')
     then Inl (AdmissionFailure (LifecycleError ''unsupported_media_type'' 415 False))
     else (case stream_upload (sl_sha256 sl) max_bytes chunk_bytes file of
        Inl e \<Rightarrow> Inl (UploadFailure e)
      | Inr staged \<Rightarrow>
          rbind (scan_verdict (scanner (sf_content staged))) (\<lambda>scan.
          rbind (normalize_filename sl display_filename) (\<lambda>normalized.
            Inr \<lparr>pa_staged = staged, pa_filename = display_filename,
                 pa_normalized_filename = normalized, pa_collection = collection,
                 pa_scan = scan\<rparr>)))))"

section \<open>Registering an admission\<close>

definition find_exact_duplicate :: "catalog \<Rightarrow> string \<Rightarrow> string \<Rightarrow> document option" where
  "find_exact_duplicate c collection_key sha256 =
     min_by doc_created_at (filter (\<lambda>d. doc_collection_key d = collection_key
       \<and> doc_sha256 d = sha256 \<and> doc_state d \<notin> set TERMINAL_DOCUMENT_STATES) (documents c))"

definition admitted_document ::
  "timestamp \<Rightarrow> uuid \<Rightarrow> prepared_admission \<Rightarrow> string \<Rightarrow> string \<Rightarrow> document" where
  "admitted_document now new_id prepared actor_id storage_key =
     \<lparr>doc_id = new_id, doc_collection_key = cd_key (pa_collection prepared),
      doc_original_filename = pa_filename prepared,
      doc_normalized_filename = pa_normalized_filename prepared,
      doc_content_type = ''application/pdf'',
      doc_size_bytes = int (sf_size_bytes (pa_staged prepared)),
      doc_sha256 = sf_sha256 (pa_staged prepared), doc_storage_key = Some storage_key,
      doc_state = PREFLIGHTING, doc_terminal_disposition = None,
      doc_scan_state = sr_state (pa_scan prepared), doc_scan_engine = Some (sr_engine (pa_scan prepared)),
      doc_scan_signature = sr_signature (pa_scan prepared),
      doc_scanned_at = Some (sr_scanned_at (pa_scan prepared)), doc_created_by = actor_id,
      doc_created_at = now, doc_ready_at = None, doc_rejected_at = None, doc_cancelled_at = None,
      doc_deleted_at = None, doc_failure_code = None, doc_failure_message = None,
      doc_failure_retryable = False, doc_replaced_by = None\<rparr>"

definition upd_idempotency ::
  "uuid \<Rightarrow> idempotency_record \<Rightarrow> catalog \<Rightarrow> catalog" where
  "upd_idempotency k r c =
     c\<lparr>idempotency_records := tupd idem_id k (\<lambda>_. r) (idempotency_records c)\<rparr>"

datatype registration =
  Admitted (adm_document: uuid) (adm_operation: work_operation) (adm_body: string)
| AdmissionReplay int string

definition body_text :: "response_body \<Rightarrow> string" where
  "body_text body = (case body of NotSerializable \<Rightarrow> [] | ObjectBody s \<Rightarrow> s | OtherJson s \<Rightarrow> s)"

definition admission_material :: "prepared_admission \<Rightarrow> (string \<times> json) list" where
  "admission_material prepared =
     [(''collection_key'', JStr (cd_key (pa_collection prepared))),
      (''filename'', JStr (pa_filename prepared)),
      (''size_bytes'', JInt (int (sf_size_bytes (pa_staged prepared)))),
      (''sha256'', JStr (sf_sha256 (pa_staged prepared)))]"

text \<open>The catalog work after the promotion of the clean bytes under \<open>storage_key\<close>.\<close>

definition enter_document ::
  "(document \<Rightarrow> work_operation \<Rightarrow> response_body) \<Rightarrow> timestamp \<Rightarrow> idempotency_record \<Rightarrow> string
     \<Rightarrow> string \<Rightarrow> document \<Rightarrow> catalog \<Rightarrow> lifecycle_error + registration \<times> catalog" where
  "enter_document respond now idempotency actor_type actor_id document c =
     rbind (add_document document c) (\<lambda>c1.
     rbind (enqueue_operation now (doc_id document) PREFLIGHT NORMAL None None
              (Some (idem_id idempotency)) QUEUED c1) (\<lambda>(op, c2).
     rbind (complete_idempotency now idempotency 202 (respond document op) ''document''
              (doc_id document)) (\<lambda>completed.
       Inr (Admitted (doc_id document) op (body_text (respond document op)),
         audit ''document_admitted'' actor_type actor_id (Some (doc_id document)) (Some (op_id op))
           [(''collection_key'', AText (doc_collection_key document))]
           (upd_idempotency (idem_id idempotency) completed c2)))))"

text \<open>
  The result is the outcome, the files and whether the staged copy is still in quarantine.  Once
  promoted, the bytes are unlinked again when the catalog work raises.
\<close>

definition register_admission ::
  "stdlib \<Rightarrow> (document \<Rightarrow> work_operation \<Rightarrow> response_body) \<Rightarrow> timestamp \<Rightarrow> prepared_admission \<Rightarrow> string
     \<Rightarrow> string \<Rightarrow> string \<Rightarrow> catalog \<Rightarrow> files
     \<Rightarrow> (admission_error + registration \<times> catalog) \<times> files \<times> bool" where
  "register_admission sl respond now prepared key actor_type actor_id c fs =
     (case reserve_idempotency (sl_sha256 sl) now key ''upload_document'' actor_id
             (admission_material prepared) c of
        Inl e \<Rightarrow> (Inl (AdmissionFailure e), fs, True)
      | Inr (IdempotencyReplay status body, c1) \<Rightarrow> (Inr (AdmissionReplay status body, c1), fs, False)
      | Inr (Reserved idempotency, c1) \<Rightarrow>
          if find_exact_duplicate c1 (cd_key (pa_collection prepared)) (sf_sha256 (pa_staged prepared))
               \<noteq> None
          then (Inl (AdmissionFailure (conflict ''exact_duplicate'')), fs, False)
          else
            let (new_id, c2) = uuid4 c1 in
            (case promote_staged_file (pa_staged prepared) new_id fs of
               Inl e \<Rightarrow> (Inl (UploadFailure e), fs, False)
             | Inr (storage_key, fs1) \<Rightarrow>
                 (case enter_document respond now idempotency actor_type actor_id
                         (admitted_document now new_id prepared actor_id storage_key) c2 of
                    Inl e \<Rightarrow> (Inl (AdmissionFailure e),
                      filter (\<lambda>(p, _). Inr p \<noteq> resolve_storage_key storage_key) fs1, False)
                  | Inr x \<Rightarrow> (Inr x, fs1, False))))"

section \<open>Mutations as idempotent transactions\<close>

definition require_worker :: "bool \<Rightarrow> lifecycle_error + unit" where
  "require_worker running =
     (if running then Inr () else Inl (LifecycleError ''worker_unavailable'' 503 True))"

text \<open>The losing side of a unique-key race reserves once more after the rollback.\<close>

definition reserve_once_more ::
  "(string \<Rightarrow> string) \<Rightarrow> timestamp \<Rightarrow> string \<Rightarrow> string \<Rightarrow> string \<Rightarrow> (string \<times> json) list \<Rightarrow> catalog
     \<Rightarrow> lifecycle_error + reservation \<times> catalog" where
  "reserve_once_more sha256 now key action actor_id material c =
     (case reserve_idempotency sha256 now key action actor_id material c of
        Inl IntegrityError \<Rightarrow> reserve_idempotency sha256 now key action actor_id material c
      | r \<Rightarrow> r)"

datatype mutation_reply = Accepted string | Replayed string

definition run_mutation ::
  "(string \<Rightarrow> string) \<Rightarrow> (string \<Rightarrow> bool) \<Rightarrow> (document \<Rightarrow> work_operation \<Rightarrow> response_body) \<Rightarrow> bool
     \<Rightarrow> timestamp \<Rightarrow> string \<Rightarrow> string \<Rightarrow> string \<Rightarrow> (string \<times> json) list
     \<Rightarrow> (idempotency_record \<Rightarrow> catalog \<Rightarrow> lifecycle_error + mutation_outcome \<times> catalog)
     \<Rightarrow> catalog \<Rightarrow> admission_error + mutation_reply \<times> catalog" where
  "run_mutation sha256 valid_body respond running now key action actor_id material mutate c =
     rbind (admission_of (require_worker running)) (\<lambda>_.
     rbind (admission_of (reserve_once_more sha256 now key action actor_id material c))
       (\<lambda>(reservation, c1).
       case reservation of
         IdempotencyReplay status body \<Rightarrow>
           if status \<noteq> 202 \<or> \<not> valid_body body then Inl SerializationError
           else Inr (Replayed body, c)
       | Reserved idempotency \<Rightarrow>
           rbind (admission_of (mutate idempotency c1)) (\<lambda>(outcome, c2).
           case (mo_operation outcome, get_document c2 (mo_document_id outcome)) of
             (Some op, Some document) \<Rightarrow>
               if mo_idempotency_id outcome \<noteq> idem_id idempotency then Inl SerializationError
               else
               rbind (admission_of (complete_idempotency now idempotency 202 (respond document op)
                        ''document'' (mo_document_id outcome))) (\<lambda>completed.
                 Inr (Accepted (body_text (respond document op)),
                      upd_idempotency (idem_id idempotency) completed c2))
           | _ \<Rightarrow> Inl SerializationError)))"

definition screening_collection :: "string option \<Rightarrow> lifecycle_error + string" where
  "screening_collection value =
     (case value of None \<Rightarrow> Inl (internal ''collection_configuration_invalid'') | Some s \<Rightarrow> Inr s)"

definition decide_mutation ::
  "string option \<Rightarrow> timestamp \<Rightarrow> uuid \<Rightarrow> uuid \<Rightarrow> decision_action \<Rightarrow> uuid option \<Rightarrow> string \<Rightarrow> string
     \<Rightarrow> idempotency_record \<Rightarrow> catalog \<Rightarrow> lifecycle_error + mutation_outcome \<times> catalog" where
  "decide_mutation screening now did rid action target actor_type actor_id reservation c =
     rbind (screening_collection screening) (\<lambda>s.
       record_decision now did rid action target reservation actor_type actor_id s c)"

definition delete_mutation ::
  "collection_definition list \<Rightarrow> string option \<Rightarrow> timestamp \<Rightarrow> uuid \<Rightarrow> string \<Rightarrow> string
     \<Rightarrow> idempotency_record \<Rightarrow> catalog \<Rightarrow> lifecycle_error + mutation_outcome \<times> catalog" where
  "delete_mutation definitions screening now did actor_type actor_id reservation c =
     (case get_document c did of
        None \<Rightarrow> Inl (LifecycleError ''document_not_found'' 404 False)
      | Some existing \<Rightarrow>
          rbind (configured_collection definitions (doc_collection_key existing)) (\<lambda>definition.
          rbind (screening_collection screening) (\<lambda>s.
            request_deletion now did reservation actor_type actor_id
              (cd_qdrant_collection_name definition) s c)))"

definition decision_material ::
  "uuid \<Rightarrow> uuid \<Rightarrow> decision_action \<Rightarrow> uuid option \<Rightarrow> (string \<times> json) list" where
  "decision_material did rid action target =
     [(''document_id'', JStr (uuid_str did)), (''prepared_revision_id'', JStr (uuid_str rid)),
      (''action'', JStr (decision_action_value action)),
      (''target_document_id'', case target of None \<Rightarrow> JNull | Some t \<Rightarrow> JStr (uuid_str t))]"

definition document_material :: "uuid \<Rightarrow> (string \<times> json) list" where
  "document_material did = [(''document_id'', JStr (uuid_str did))]"

section \<open>Source access\<close>

definition source_content :: "uuid \<Rightarrow> catalog \<Rightarrow> files \<Rightarrow> lifecycle_error + path \<times> string" where
  "source_content did c fs =
     (case get_document c did of
        None \<Rightarrow> Inl (LifecycleError ''document_not_found'' 404 False)
      | Some d \<Rightarrow>
          if \<not> can_serve_source d then
            (if doc_state d \<in> set TERMINAL_DOCUMENT_STATES
             then Inl (LifecycleError ''content_purged'' 410 False)
             else Inl (LifecycleError ''content_blocked'' 409 False))
          else
            (case resolve_storage_key (case doc_storage_key d of None \<Rightarrow> [] | Some k \<Rightarrow> k) of
               Inl _ \<Rightarrow> Inl (RuntimeError ''invalid storage key'')
             | Inr p \<Rightarrow>
                 if map_of fs p = None then Inl (internal ''stored_file_missing'')
                 else Inr (p, doc_original_filename d)))"

end
