(* ===== verification/Bindings.thy ===== *)
theory Bindings
  imports Admission
begin

text \<open>
  How queued work and documents are tied together.  An open operation owns its document: the
  document is in the working state of the operation's type and no second operation is open on it.
  A replacement names an old document that points back to its replacement, is being deleted or
  deleted, and is never the document of an open deletion of its own.

  The predicate is stated over the three things it reads (the state and replacement of every
  document, the document of every revision, the operations), and the rules below say which
  changes of them keep it.
\<close>

type_synonym doc_view = "uuid \<Rightarrow> (document_state \<times> uuid option) option"

definition is_open :: "work_operation \<Rightarrow> bool" where
  "is_open w \<longleftrightarrow> op_state w \<in> {OP_QUEUED, OP_RUNNING}"

fun working_state :: "operation_type \<Rightarrow> document_state" where
  "working_state PREFLIGHT = PREFLIGHTING"
| "working_state PUBLISH = PUBLISHING"
| "working_state DELETE = DELETING"

definition at_work :: "(document_state \<times> uuid option) option \<Rightarrow> operation_type \<Rightarrow> bool" where
  "at_work v ty \<longleftrightarrow>
     (case v of None \<Rightarrow> False | Some (s, rb) \<Rightarrow> s = working_state ty \<and> (ty = DELETE \<longrightarrow> rb = None))"

definition replaced_with :: "(document_state \<times> uuid option) option \<Rightarrow> uuid \<Rightarrow> bool" where
  "replaced_with v k \<longleftrightarrow> (case v of None \<Rightarrow> False | Some (_, rb) \<Rightarrow> rb = Some k)"

definition op_bound :: "doc_view \<Rightarrow> (uuid \<times> uuid) set \<Rightarrow> work_operation \<Rightarrow> bool" where
  "op_bound V R w \<longleftrightarrow>
     (is_open w \<longrightarrow> at_work (V (op_document_id w)) (op_type w))
     \<and> (\<forall>t. op_replacement_target w = Some t \<longrightarrow> replaced_with (V t) (op_document_id w))
     \<and> (\<forall>r. op_revision_id w = Some r \<longrightarrow> (r, op_document_id w) \<in> R)"

lemma at_work_Some [simp]:
  "at_work (Some (s, rb)) ty \<longleftrightarrow> s = working_state ty \<and> (ty = DELETE \<longrightarrow> rb = None)"
  by (simp add: at_work_def)

lemma replaced_with_Some [simp]: "replaced_with (Some (s, rb)) k \<longleftrightarrow> rb = Some k"
  by (simp add: replaced_with_def)

definition single_open :: "work_operation list \<Rightarrow> bool" where
  "single_open ops \<longleftrightarrow>
     (\<forall>w\<in>set ops. \<forall>x\<in>set ops. is_open w \<and> is_open x \<and> op_document_id w = op_document_id x
        \<longrightarrow> op_id w = op_id x)"

definition replaced_blocked :: "doc_view \<Rightarrow> bool" where
  "replaced_blocked V \<longleftrightarrow>
     (\<forall>j s b. V j = Some (s, Some b) \<longrightarrow> s \<in> {DELETING, DELETE_FAILED, REJECTED, CANCELLED, DELETED})"

definition bindings :: "doc_view \<Rightarrow> (uuid \<times> uuid) set \<Rightarrow> work_operation list \<Rightarrow> bool" where
  "bindings V R ops \<longleftrightarrow> (\<forall>w\<in>set ops. op_bound V R w) \<and> single_open ops \<and> replaced_blocked V"

text \<open>Two operations that differ at most in phase, lease, failure and bookkeeping columns.\<close>

definition same_work :: "work_operation \<Rightarrow> work_operation \<Rightarrow> bool" where
  "same_work w w' \<longleftrightarrow>
     op_id w' = op_id w \<and> op_document_id w' = op_document_id w \<and> op_type w' = op_type w
     \<and> op_replacement_target w' = op_replacement_target w"

lemma bindings_D:
  assumes "bindings V R ops" and "w \<in> set ops"
  shows "op_bound V R w"
  using assms by (auto simp: bindings_def)

lemma single_openD:
  assumes "bindings V R ops" and "w \<in> set ops" and "x \<in> set ops" and "is_open w" and "is_open x"
    and "op_document_id w = op_document_id x"
  shows "op_id w = op_id x"
  using assms unfolding bindings_def single_open_def by blast

lemma resting_no_open:
  assumes "bindings V R ops" and "V k = Some (s, rb)"
    and "s \<notin> {PREFLIGHTING, PUBLISHING} \<and> (s = DELETING \<longrightarrow> rb \<noteq> None)"
    and "w \<in> set ops" and "op_document_id w = k"
  shows "\<not> is_open w"
proof
  assume "is_open w"
  then have "at_work (V k) (op_type w)"
    using bindings_D [OF assms(1,4)] assms(5) by (simp add: op_bound_def)
  then show False
    using assms(2,3) by (cases "op_type w") auto
qed

text \<open>Nothing but bookkeeping changed; operations may close.\<close>

lemma bindings_quiet:
  assumes "bindings V R ops" and "R \<subseteq> R'"
    and "\<forall>w'\<in>set ops'. \<exists>w\<in>set ops. same_work w w' \<and> (is_open w' \<longrightarrow> is_open w)
      \<and> (\<forall>r. op_revision_id w' = Some r \<longrightarrow> (r, op_document_id w) \<in> R')"
  shows "bindings V R' ops'"
proof -
  have "op_bound V R' w'" if w': "w' \<in> set ops'" for w'
  proof -
    obtain w where w: "w \<in> set ops" "same_work w w'" "is_open w' \<longrightarrow> is_open w"
      "\<forall>r. op_revision_id w' = Some r \<longrightarrow> (r, op_document_id w) \<in> R'"
      using assms(3) w' by blast
    then show ?thesis
      using bindings_D [OF assms(1) w(1)] by (simp add: op_bound_def same_work_def)
  qed
  moreover have "single_open ops'"
    unfolding single_open_def
  proof (intro ballI impI)
    fix a b assume ab: "a \<in> set ops'" "b \<in> set ops'"
      "is_open a \<and> is_open b \<and> op_document_id a = op_document_id b"
    obtain a' where a': "a' \<in> set ops" "same_work a' a" "is_open a'"
      using assms(3) ab by blast
    obtain b' where b': "b' \<in> set ops" "same_work b' b" "is_open b'"
      using assms(3) ab by blast
    show "op_id a = op_id b"
      using single_openD [OF assms(1) a'(1) b'(1) a'(3) b'(3)] a'(2) b'(2) ab(3)
      by (simp add: same_work_def)
  qed
  ultimately show ?thesis
    using assms(1) by (simp add: bindings_def)
qed

text \<open>The open operation of a document closes and the document moves on.\<close>

lemma bindings_settle:
  assumes b: "bindings V R ops" and k: "V k = Some (s, rb)"
    and rb: "rb = None \<or> s' \<in> {DELETING, DELETE_FAILED, REJECTED, CANCELLED, DELETED}"
    and w: "w \<in> set ops" "is_open w" "op_document_id w = k"
    and ids: "distinct (map op_id ops)"
    and ops': "\<forall>x'\<in>set ops'. \<exists>x\<in>set ops. same_work x x' \<and> (is_open x' \<longrightarrow> is_open x \<and> op_id x \<noteq> op_id w)
      \<and> (\<forall>r. op_revision_id x' = Some r \<longrightarrow> (r, op_document_id x) \<in> R)"
  shows "bindings (V(k \<mapsto> (s', rb))) R ops'"
proof -
  have closed: "op_document_id x' \<noteq> k" if x': "x' \<in> set ops'" "is_open x'" for x'
  proof
    assume k': "op_document_id x' = k"
    obtain x where x: "x \<in> set ops" "same_work x x'" "is_open x" "op_id x \<noteq> op_id w"
      using ops' x' by blast
    then show False
      using single_openD [OF b x(1) w(1) x(3) w(2)] k' w(3) by (simp add: same_work_def)
  qed
  have q: "bindings V R ops'"
    using ops' by (intro bindings_quiet [OF b]) auto
  show ?thesis
    unfolding bindings_def
  proof (intro conjI ballI)
    fix x' assume x': "x' \<in> set ops'"
    show "op_bound (V(k \<mapsto> (s', rb))) R x'"
      using bindings_D [OF q x'] closed [OF x'] k by (auto simp: op_bound_def)
  next
    show "single_open ops'" using q by (simp add: bindings_def)
    show "replaced_blocked (V(k \<mapsto> (s', rb)))"
      using q rb by (auto simp: bindings_def replaced_blocked_def)
  qed
qed

text \<open>A new operation opens on a document that has none and moves it to the working state.\<close>

lemma bindings_start:
  assumes b: "bindings V R ops" and free: "\<forall>x\<in>set ops. op_document_id x = op_document_id w \<longrightarrow> \<not> is_open x"
    and ids: "op_id w \<notin> op_id ` set ops"
    and k: "(\<exists>s. V (op_document_id w) = Some (s, rb))
        \<or> (V (op_document_id w) = None \<and> rb = None)"
    and rb: "rb = None \<or> op_type w = DELETE" and del: "op_type w = DELETE \<longrightarrow> rb = None"
    and target: "\<forall>t. op_replacement_target w = Some t \<longrightarrow>
        t \<noteq> op_document_id w \<and> replaced_with (V t) (op_document_id w)"
    and rev: "\<forall>r. op_revision_id w = Some r \<longrightarrow> (r, op_document_id w) \<in> R"
  shows "bindings (V(op_document_id w \<mapsto> (working_state (op_type w), rb))) R (tadd w ops)"
    (is "bindings ?V R _")
proof -
  have old: "op_bound ?V R x" if x: "x \<in> set ops" for x
  proof -
    have "replaced_with (?V t) j" if "replaced_with (V t) j" for t j
      using that k by (auto simp: replaced_with_def)
    then show ?thesis
      using bindings_D [OF b x] free x by (auto simp: op_bound_def)
  qed
  have new: "op_bound ?V R w"
    using target rev del by (auto simp: op_bound_def)
  have single: "single_open (tadd w ops)"
    unfolding single_open_def
  proof (intro ballI impI)
    fix x y assume "x \<in> set (tadd w ops)" "y \<in> set (tadd w ops)"
      and xy: "is_open x \<and> is_open y \<and> op_document_id x = op_document_id y"
    then consider "x = y" | "x = w" "y \<in> set ops" | "y = w" "x \<in> set ops" | "x \<in> set ops" "y \<in> set ops"
      by auto
    then show "op_id x = op_id y"
      using free xy single_openD [OF b, of x y] by cases auto
  qed
  have "replaced_blocked ?V"
    using b rb del by (auto simp: bindings_def replaced_blocked_def)
  then show ?thesis
    using old new single by (simp add: bindings_def)
qed

text \<open>A document that is being replaced moves between its deletion states.\<close>

lemma bindings_target:
  assumes b: "bindings V R ops" and t: "V t = Some (s, Some k)"
    and "s' \<in> {DELETING, DELETE_FAILED, REJECTED, CANCELLED, DELETED}"
  shows "bindings (V(t \<mapsto> (s', Some k))) R ops"
proof -
  have free: "\<not> is_open w" if "w \<in> set ops" "op_document_id w = t" for w
    using b t that by (intro resting_no_open [OF b t]) (auto simp: bindings_def replaced_blocked_def)
  have "op_bound (V(t \<mapsto> (s', Some k))) R w" if "w \<in> set ops" for w
    using bindings_D [OF b that] free [OF that] t by (auto simp: op_bound_def)
  then show ?thesis
    using b assms(3) by (auto simp: bindings_def replaced_blocked_def)
qed

text \<open>A document at rest is given up to a replacement.\<close>

lemma bindings_replace:
  assumes b: "bindings V R ops" and t: "V t = Some (READY, None)"
  shows "bindings (V(t \<mapsto> (DELETING, Some k))) R ops"
proof -
  have free: "\<not> is_open w" if "w \<in> set ops" "op_document_id w = t" for w
    by (rule resting_no_open [OF b t _ that]) simp
  have "op_bound (V(t \<mapsto> (DELETING, Some k))) R w" if "w \<in> set ops" for w
    using bindings_D [OF b that] free [OF that] t by (auto simp: op_bound_def)
  then show ?thesis
    using b by (auto simp: bindings_def replaced_blocked_def)
qed

text \<open>A document without open work moves between states that are not working states.\<close>

lemma bindings_rest:
  assumes b: "bindings V R ops" and k: "V k = Some (s, rb)"
    and free: "\<forall>x\<in>set ops. op_document_id x = k \<longrightarrow> \<not> is_open x"
    and "rb = None \<or> s' \<in> {DELETING, DELETE_FAILED, REJECTED, CANCELLED, DELETED}"
  shows "bindings (V(k \<mapsto> (s', rb))) R ops"
proof -
  have "op_bound (V(k \<mapsto> (s', rb))) R w" if "w \<in> set ops" for w
    using bindings_D [OF b that] free that k by (auto simp: op_bound_def)
  then show ?thesis
    using b assms(4) by (auto simp: bindings_def replaced_blocked_def)
qed

end
