(* ===== verification/Invariants.thy ===== *)
theory Invariants
  imports Bindings
begin

text \<open>
  The invariant of the whole lifecycle, \<open>lifecycle_ok\<close>: the catalog and queue invariants together
  with the bindings between documents, operations, revisions and publications.  It is shown here
  for the mutations a request can make; the worker's transactions follow in their own theory.
\<close>

section \<open>The invariant\<close>

definition view :: "catalog \<Rightarrow> doc_view" where
  "view c j = map_option (\<lambda>d. (doc_state d, doc_replaced_by d)) (get_document c j)"

definition revs :: "catalog \<Rightarrow> (uuid \<times> uuid) set" where
  "revs c = (\<lambda>r. (rev_id r, rev_document_id r)) ` set (revisions c)"

definition pub_bound :: "catalog \<Rightarrow> publication_record \<Rightarrow> bool" where
  "pub_bound c p \<longleftrightarrow> (\<exists>r\<in>set (revisions c). rev_id r = pub_revision_id p
     \<and> rev_document_id r = pub_document_id p \<and> rev_status r = REV_SEALED
     \<and> rev_active_collection r = pub_active_collection p
     \<and> rev_expected_point_count r = Some (pub_expected_points p))"

definition publications_ok :: "catalog \<Rightarrow> bool" where
  "publications_ok c \<longleftrightarrow>
     distinct (map pub_revision_id (publications c)) \<and> (\<forall>p\<in>set (publications c). pub_bound c p)"

definition rows_owned :: "catalog \<Rightarrow> bool" where
  "rows_owned c \<longleftrightarrow>
     del_document_id ` set (deletions c) \<union> tomb_document_id ` set (tombstones c)
       \<subseteq> doc_id ` set (documents c)"

definition lifecycle_ok :: "catalog \<Rightarrow> bool" where
  "lifecycle_ok c \<longleftrightarrow>
     catalog_ok c \<and> queue_ok c \<and> bindings (view c) (revs c) (operations c)
     \<and> publications_ok c \<and> rows_owned c"

lemma lifecycle_okD:
  assumes "lifecycle_ok c"
  shows "catalog_ok c" "queue_ok c" "bindings (view c) (revs c) (operations c)"
    "publications_ok c" "rows_owned c"
  using assms by (simp_all add: lifecycle_ok_def)

section \<open>How the parts read the catalog\<close>

lemma view_cong: "documents c' = documents c \<Longrightarrow> view c' = view c"
  by (simp add: view_def fun_eq_iff)

lemma view_upd_document:
  assumes "get_document c k = Some d" and "\<And>d. doc_id (f d) = doc_id d"
    and "documents c' = documents (upd_document k f c)"
  shows "view c' = (view c)(k \<mapsto> (doc_state (f d), doc_replaced_by (f d)))"
  using assms by (auto simp: view_def fun_eq_iff document_rows.get_upd)

lemma doc_ids_upd:
  "(\<And>d. doc_id (f d) = doc_id d) \<Longrightarrow>
     doc_id ` set (documents (upd_document k f c)) = doc_id ` set (documents c)"
  by (metis document_rows.keys_upd list.set_map)

lemma view_Some: "get_document c k = Some d \<Longrightarrow> view c k = Some (doc_state d, doc_replaced_by d)"
  by (simp add: view_def)

lemma revs_mono: "set (revisions c) \<subseteq> set (revisions c') \<Longrightarrow> revs c \<subseteq> revs c'"
  by (auto simp: revs_def)

lemma revs_cong: "revisions c' = revisions c \<Longrightarrow> revs c' = revs c"
  by (simp add: revs_def)

lemma revs_get: "get_revision c r = Some x \<Longrightarrow> (r, rev_document_id x) \<in> revs c"
  by (auto simp: revs_def image_iff dest: tget_Some_key tget_Some_mem)

lemma publications_ok_cong:
  assumes "publications_ok c" and "publications c' = publications c"
    and "{r \<in> set (revisions c). rev_status r = REV_SEALED} \<subseteq> set (revisions c')"
  shows "publications_ok c'"
proof -
  have "pub_bound c' p" if "pub_bound c p" for p
    using that assms(3) by (auto simp: pub_bound_def)
  then show ?thesis
    using assms(1,2) by (simp add: publications_ok_def)
qed

lemma publications_ok_upd:
  assumes "publications_ok c" and "publications c' = tupd pub_id k f (publications c)"
    and "revisions c' = revisions c"
    and "\<And>p. pub_revision_id (f p) = pub_revision_id p \<and> pub_document_id (f p) = pub_document_id p
      \<and> pub_active_collection (f p) = pub_active_collection p
      \<and> pub_expected_points (f p) = pub_expected_points p"
  shows "publications_ok c'"
proof -
  have "pub_bound c' (f p)" "pub_bound c' p" if "pub_bound c p" for p
    using that assms(3,4) by (simp_all add: pub_bound_def)
  moreover have "map pub_revision_id (publications c') = map pub_revision_id (publications c)"
    unfolding assms(2) by (rule map_key_tupd) (simp add: assms(4))
  ultimately show ?thesis
    using assms(1,2) by (auto simp: publications_ok_def set_tupd)
qed

lemma ensure_publication_bound:
  assumes run: "ensure_publication_record now d r c = Inr (p, c')" and ok: "publications_ok c"
    and mem: "r \<in> set (revisions c)"
  shows "publications_ok c'"
proof -
  note eff = ensure_publication_effect [OF run]
  have sealed: "pub_bound c' q" if "pub_bound c q" for q
    using that eff(2) by (simp add: pub_bound_def)
  show ?thesis
  proof (cases "publications c' = publications c")
    case True
    then show ?thesis
      using publications_ok_cong [OF ok] eff(2) by simp
  next
    case False
    then have new: "publications c' = tadd p (publications c)"
      using eff(7) by blast
    have "pub_revision_id p \<notin> pub_revision_id ` set (publications c)" "pub_bound c' p"
      using run False mem eff(2)
      by (auto simp: ensure_publication_record_def uuid4_def Let_def result_simps
          add_publication_def list_ex_iff pub_bound_def split: if_splits option.splits)
    then show ?thesis
      using ok sealed by (auto simp: publications_ok_def new tadd_def)
  qed
qed

section \<open>Effects on the bindings\<close>

lemma begin_deletion_effect:
  assumes run: "begin_deletion now d disp active screening r p prio actor who idem c = Inr (op, c')"
    and row: "get_document c (doc_id d) = Some d" and none: "deletion_of c (doc_id d) = None"
  shows "view c' = (view c)(doc_id d \<mapsto> (DELETING, doc_replaced_by d))"
    and "revisions c' = revisions c" and "publications c' = publications c"
    and "tombstones c' = tombstones c"
    and "doc_id ` set (documents c') = doc_id ` set (documents c)"
    and "del_document_id ` set (deletions c') = insert (doc_id d) (del_document_id ` set (deletions c))"
    and "operations c' = tadd op (operations c)" and "op_document_id op = doc_id d"
    and "op_type op = DELETE" and "op_replacement_target op = None" and "op_revision_id op = r"
    and "is_open op" and "op_id op \<notin> op_id ` set (operations c)"
    and "r = Some x \<Longrightarrow> (x, doc_id d) \<in> revs c"
proof -
  let ?f = "\<lambda>e. clear_failure (e\<lparr>doc_state := DELETING, doc_terminal_disposition := Some disp\<rparr>)"
  obtain n c2 c3 where val: "validate_deletion_binding c d r p active = Inr ()"
    and add: "add_deletion (new_deletion n (doc_id d) r p disp active screening)
        (c\<lparr>uuid_drawn := Suc (uuid_drawn c)\<rparr>) = Inr c2"
    and enq: "enqueue_operation now (doc_id d) DELETE prio r None idem QUEUED
        (upd_document (doc_id d) ?f c2) = Inr (op, c3)"
    and c': "core c' = core c3" "operations c' = operations c3"
    using run none
    by (auto simp: begin_deletion_def result_simps uuid4_def Let_def split: if_splits)
  note eff = enqueue_operation_effect [OF enq]
  have c2: "documents c2 = documents c" "revisions c2 = revisions c" "publications c2 = publications c"
    "tombstones c2 = tombstones c" "operations c2 = operations c"
    "deletions c2 = tadd (new_deletion n (doc_id d) r p disp active screening) (deletions c)"
    using add by (auto simp: add_deletion_def split: if_splits)
  have core: "documents c' = documents (upd_document (doc_id d) ?f c2)" "revisions c' = revisions c2"
    "publications c' = publications c2" "tombstones c' = tombstones c2" "deletions c' = deletions c2"
    using c'(1) eff(1) by (simp_all add: core_def)
  have docs: "documents c' = documents (upd_document (doc_id d) ?f c)"
    using core(1) c2(1) by (simp add: upd_document_def)
  show "view c' = (view c)(doc_id d \<mapsto> (DELETING, doc_replaced_by d))"
    using view_upd_document [OF row _ docs] by simp
  show "doc_id ` set (documents c') = doc_id ` set (documents c)"
    by (simp add: docs doc_ids_upd)
  show "del_document_id ` set (deletions c') = insert (doc_id d) (del_document_id ` set (deletions c))"
    using core(5) c2(6) by (simp add: new_deletion_def)
  show "r = Some x \<Longrightarrow> (x, doc_id d) \<in> revs c"
    using val by (auto simp: validate_deletion_binding_def dest: revs_get split: if_splits option.splits)
  show "revisions c' = revisions c" "publications c' = publications c" "tombstones c' = tombstones c"
    "operations c' = tadd op (operations c)" "op_document_id op = doc_id d" "op_type op = DELETE"
    "op_replacement_target op = None" "op_revision_id op = r" "is_open op"
    "op_id op \<notin> op_id ` set (operations c)"
    using core c2 c' eff by (simp_all add: is_open_def)
qed


lemma begin_replacement_effect:
  assumes run: "begin_replacement now d r t tr tp screening actor who c = Inr (op, c')"
    and row: "get_document c (doc_id d) = Some d" and trow: "get_document c (doc_id t) = Some t"
    and ne: "doc_id t \<noteq> doc_id d" and r: "get_revision c (rev_id r) = Some r"
  shows "view c' = ((view c)(doc_id t \<mapsto> (DELETING, Some (doc_id d))))
      (doc_id d \<mapsto> (PUBLISHING, doc_replaced_by d))"
    and "revisions c' = revisions c" and "tombstones c' = tombstones c"
    and "doc_id ` set (documents c') = doc_id ` set (documents c)"
    and "del_document_id ` set (deletions c') = insert (doc_id t) (del_document_id ` set (deletions c))"
    and "operations c' = tadd op (operations c)" and "op_document_id op = doc_id d"
    and "op_type op = PUBLISH" and "op_replacement_target op = Some (doc_id t)"
    and "op_revision_id op = Some (rev_id r)" and "is_open op"
    and "op_id op \<notin> op_id ` set (operations c)" and "(rev_id r, doc_id d) \<in> revs c"
    and "publications_ok c \<Longrightarrow> publications_ok c'"
proof -
  let ?f = "\<lambda>e. clear_failure (e\<lparr>doc_state := DELETING, doc_terminal_disposition := Some TD_DELETED,
      doc_replaced_by := Some (doc_id d)\<rparr>)"
  let ?g = "\<lambda>e. clear_failure (e\<lparr>doc_state := PUBLISHING\<rparr>)"
  let ?p = "\<lambda>n. new_deletion n (doc_id t) (Some (rev_id tr)) (Some (pub_id tp)) TD_DELETED
      (pub_active_collection tp) screening"
  obtain p n c1 c3 c6 where ens: "ensure_publication_record now (doc_id d) r c = Inr (p, c1)"
    and add: "add_deletion (?p n) (c1\<lparr>uuid_drawn := Suc (uuid_drawn c1)\<rparr>) = Inr c3"
    and enq: "enqueue_operation now (doc_id d) PUBLISH REPLACEMENT (Some (rev_id r)) (Some (doc_id t)) None
        QUEUED (upd_document (doc_id d) ?g (upd_document (doc_id t) ?f c3)) = Inr (op, c6)"
    and c': "core c' = core c6" "operations c' = operations c6"
    using run by (auto simp: begin_replacement_def result_simps uuid4_def Let_def split: if_splits)
  note eff = enqueue_operation_effect [OF enq] and en = ensure_publication_effect [OF ens]
  have c3: "documents c3 = documents c" "revisions c3 = revisions c" "publications c3 = publications c1"
    "tombstones c3 = tombstones c" "operations c3 = operations c" "deletions c3 = tadd (?p n) (deletions c)"
    using add en by (auto simp: add_deletion_def split: if_splits)
  have core: "documents c' = documents (upd_document (doc_id d) ?g (upd_document (doc_id t) ?f c3))"
    "revisions c' = revisions c3" "publications c' = publications c3" "tombstones c' = tombstones c3"
    "deletions c' = deletions c3"
    using c'(1) eff(1) by (simp_all add: core_def)
  have docs: "documents c' = documents (upd_document (doc_id d) ?g (upd_document (doc_id t) ?f c))"
    using core(1) c3(1) by (simp add: upd_document_def)
  have v1: "view (upd_document (doc_id t) ?f c) = (view c)(doc_id t \<mapsto> (DELETING, Some (doc_id d)))"
    using view_upd_document [OF trow, of ?f] by simp
  have row': "get_document (upd_document (doc_id t) ?f c) (doc_id d) = Some d"
    using row ne by (simp add: document_rows.get_upd)
  show "view c' = ((view c)(doc_id t \<mapsto> (DELETING, Some (doc_id d))))
      (doc_id d \<mapsto> (PUBLISHING, doc_replaced_by d))"
    using view_upd_document [OF row' _ docs] v1 by simp
  show "doc_id ` set (documents c') = doc_id ` set (documents c)"
    by (simp add: docs doc_ids_upd)
  show "del_document_id ` set (deletions c') = insert (doc_id t) (del_document_id ` set (deletions c))"
    using core(5) c3(6) by (simp add: new_deletion_def)
  show "(rev_id r, doc_id d) \<in> revs c"
    using revs_get [OF r] en(12) by simp
  show "publications_ok c'" if "publications_ok c"
  proof -
    have "publications_ok c1"
      using ensure_publication_bound [OF ens that] tget_Some_mem [OF r] .
    then show ?thesis
      using publications_ok_cong [of c1 c'] core c3 en(2) by simp
  qed
  show "revisions c' = revisions c" "tombstones c' = tombstones c"
    "operations c' = tadd op (operations c)" "op_document_id op = doc_id d" "op_type op = PUBLISH"
    "op_replacement_target op = Some (doc_id t)" "op_revision_id op = Some (rev_id r)" "is_open op"
    "op_id op \<notin> op_id ` set (operations c)"
    using core c3 c' eff by (simp_all add: is_open_def)
qed

lemma not_replaced:
  assumes "bindings V R ops" and "V k = Some (s, rb)" and "s \<notin> {DELETING, DELETE_FAILED, REJECTED, CANCELLED, DELETED}"
  shows "rb = None"
  using assms by (cases rb) (auto simp: bindings_def replaced_blocked_def)

lemma rows_owned_add:
  assumes "rows_owned c" and "doc_id ` set (documents c') = doc_id ` set (documents c)"
    and "del_document_id ` set (deletions c') = insert k (del_document_id ` set (deletions c))"
    and "tombstones c' = tombstones c" and "get_document c k = Some d"
  shows "rows_owned c'"
proof -
  have "k \<in> doc_id ` set (documents c)"
    using tget_Some_key [OF assms(5)] tget_Some_mem [OF assms(5)] by blast
  then show ?thesis
    using assms(1-4) by (simp add: rows_owned_def)
qed

lemma rows_owned_cong:
  assumes "rows_owned c" and "doc_id ` set (documents c') = doc_id ` set (documents c)"
    and "del_document_id ` set (deletions c') = del_document_id ` set (deletions c)"
    and "tombstones c' = tombstones c"
  shows "rows_owned c'"
  using assms by (simp add: rows_owned_def)

text \<open>The parts of the invariant that the mutation lemmas of the lifecycle leave open.\<close>

definition linked :: "catalog \<Rightarrow> bool" where
  "linked c \<longleftrightarrow> bindings (view c) (revs c) (operations c) \<and> publications_ok c \<and> rows_owned c"

lemma lifecycle_ok_iff: "lifecycle_ok c \<longleftrightarrow> catalog_ok c \<and> queue_ok c \<and> linked c"
  by (simp add: lifecycle_ok_def linked_def)

lemma linked_cong:
  assumes "linked c" and "core c' = core c" and "operations c' = operations c"
  shows "linked c'"
  using assms view_cong [of c' c] revs_cong [of c' c] publications_ok_cong [of c c'] rows_owned_cong [of c c']
  by (simp add: linked_def core_def)

text \<open>A deletion of a document at rest.\<close>

lemma begin_deletion_linked:
  assumes run: "begin_deletion now d disp active screening r p prio actor who idem c = Inr (op, c')"
    and row: "get_document c (doc_id d) = Some d" and ok: "linked c"
    and rest: "doc_state d \<notin> {PREFLIGHTING, PUBLISHING, DELETING, DELETE_FAILED, REJECTED, CANCELLED,
      DELETED}"
  shows "linked c'"
proof (cases "deletion_of c (doc_id d)")
  case None
  note eff = begin_deletion_effect [OF run row None]
  have b: "bindings (view c) (revs c) (operations c)"
    using ok by (simp add: linked_def)
  have rb: "doc_replaced_by d = None"
    using not_replaced [OF b view_Some [OF row]] rest by simp
  have free: "\<forall>x\<in>set (operations c). op_document_id x = op_document_id op \<longrightarrow> \<not> is_open x"
    using resting_no_open [OF b view_Some [OF row]] rest eff(8) by auto
  have "bindings ((view c)(op_document_id op \<mapsto> (working_state (op_type op), None))) (revs c)
      (tadd op (operations c))"
    by (rule bindings_start [OF b free]) (use eff view_Some [OF row] rb in auto)
  then have "bindings (view c') (revs c') (operations c')"
    using eff rb revs_cong [of c' c] by simp
  moreover have "publications_ok c'"
    using publications_ok_cong [of c c'] ok eff by (simp add: linked_def)
  moreover have "rows_owned c'"
    using rows_owned_add [OF _ eff(5,6,4) row] ok by (simp add: linked_def)
  ultimately show ?thesis by (simp add: linked_def)
next
  case (Some q)
  then have "c' = c"
    using run by (auto simp: begin_deletion_def result_simps split: if_splits option.splits)
  with ok show ?thesis by simp
qed

text \<open>A publication of a document at rest, or of one whose open work has just been closed.\<close>

lemma publish_linked:
  assumes ens: "ensure_publication_record now k r c = Inr (p, c1)"
    and enq: "enqueue_operation now k PUBLISH PRIO_PUBLISH (Some (rev_id r)) None None QUEUED
      (upd_document k f c1) = Inr (op, c2)"
    and ok: "linked c" and row: "get_document c k = Some d" and r: "get_revision c (rev_id r) = Some r"
    and free: "\<forall>x\<in>set (operations c). op_document_id x = k \<longrightarrow> \<not> is_open x"
    and rb: "doc_replaced_by d = None" and f: "\<And>d. doc_id (f d) = doc_id d"
    and fd: "doc_state (f d) = PUBLISHING" "doc_replaced_by (f d) = None"
  shows "linked c2"
proof -
  note eff = enqueue_operation_effect [OF enq] and en = ensure_publication_effect [OF ens]
  have core: "documents c2 = documents (upd_document k f c)" "revisions c2 = revisions c"
    "publications c2 = publications c1" "tombstones c2 = tombstones c" "deletions c2 = deletions c"
    "operations c2 = tadd op (operations c)"
    using eff(1,2) en by (simp_all add: core_def upd_document_def)
  have v: "view c2 = (view c)(k \<mapsto> (PUBLISHING, None))"
    using view_upd_document [OF row f core(1)] fd by simp
  have b: "bindings (view c) (revs c) (operations c)"
    using ok by (simp add: linked_def)
  have "bindings ((view c)(op_document_id op \<mapsto> (working_state (op_type op), None))) (revs c)
      (tadd op (operations c))"
    by (rule bindings_start [OF b])
      (use eff en free view_Some [OF row] rb revs_get [OF r] in auto)
  moreover have "publications_ok c2"
    using ensure_publication_bound [OF ens _ tget_Some_mem [OF r]] ok publications_ok_cong [of c1 c2] core en(2)
    by (simp add: linked_def)
  moreover have "rows_owned c2"
    using rows_owned_cong [of c c2] ok core by (simp add: linked_def doc_ids_upd f)
  ultimately show ?thesis
    using v core eff revs_cong [of c2 c] by (simp add: linked_def)
qed

lemma begin_replacement_linked:
  assumes run: "begin_replacement now d r t tr tp screening actor who c = Inr (op, c')"
    and row: "get_document c (doc_id d) = Some d" and trow: "get_document c (doc_id t) = Some t"
    and ne: "doc_id t \<noteq> doc_id d" and r: "get_revision c (rev_id r) = Some r" and ok: "linked c"
    and st: "doc_state d = REVIEW_REQUIRED" and tst: "doc_state t = READY"
  shows "linked c'"
proof -
  note eff = begin_replacement_effect [OF run row trow ne r]
  have b: "bindings (view c) (revs c) (operations c)"
    using ok by (simp add: linked_def)
  have rb: "doc_replaced_by d = None" "doc_replaced_by t = None"
    using not_replaced [OF b view_Some [OF row]] not_replaced [OF b view_Some [OF trow]] st tst by auto
  let ?V = "(view c)(doc_id t \<mapsto> (DELETING, Some (doc_id d)))"
  have b1: "bindings ?V (revs c) (operations c)"
    using bindings_replace [OF b] view_Some [OF trow] tst rb by simp
  have free: "\<forall>x\<in>set (operations c). op_document_id x = op_document_id op \<longrightarrow> \<not> is_open x"
    using resting_no_open [OF b view_Some [OF row]] st eff(7) by auto
  have "bindings (?V(op_document_id op \<mapsto> (working_state (op_type op), None))) (revs c)
      (tadd op (operations c))"
    by (rule bindings_start [OF b1 free]) (use eff view_Some [OF row] rb ne in auto)
  moreover have "rows_owned c'"
    using rows_owned_add [OF _ eff(4,5,3) trow] ok by (simp add: linked_def)
  ultimately show ?thesis
    using eff rb ok revs_cong [of c' c] by (simp add: linked_def)
qed

lemma record_decision_linked:
  assumes run: "record_decision now did rid action target idem actor who screening c = Inr (m, c')"
    and ok: "linked c"
  shows "linked c'"
  using run
proof (rule record_decisionE)
  fix d r row c2 op c4
  assume row: "get_document c did = Some d" and id: "doc_id d = did"
    and rev: "require_current_review_revision c d rid = Inr r"
    and add: "add_decision row (c\<lparr>uuid_drawn := Suc (uuid_drawn c)\<rparr>) = Inr c2"
    and c': "core c' = core c4" "operations c' = operations c4"
    and act: "case action of
        CANCEL \<Rightarrow> begin_deletion now d TD_CANCELLED (rev_active_collection r) screening (Some rid) None
          HIGH actor who None c2 = Inr (op, c4)
      | REPLACE \<Rightarrow> \<exists>t tr tp. target = Some (doc_id t) \<and> validate_replacement_target c d (doc_id t) = Inr (t, tr, tp)
          \<and> begin_replacement now d r t tr tp screening actor who c2 = Inr (op, c4)
      | KEEP \<Rightarrow> \<exists>p c3. ensure_publication_record now did r c2 = Inr (p, c3)
          \<and> enqueue_operation now did PUBLISH PRIO_PUBLISH (Some rid) None None QUEUED
              (upd_document did (\<lambda>d. d\<lparr>doc_state := PUBLISHING\<rparr>) c3) = Inr (op, c4)"
  note revD = require_current_review_revisionD [OF rev]
  have same: "core c2 = core c" "operations c2 = operations c"
    using add by (auto simp: add_decision_def core_def split: if_splits)
  have ok2: "linked c2"
    using linked_cong [OF ok same] .
  have rows: "documents c2 = documents c" "revisions c2 = revisions c"
    using same(1) by (simp_all add: core_def)
  have row2: "get_document c2 (doc_id d) = Some d" and r2: "get_revision c2 (rev_id r) = Some r"
    using row id revD(2,3) rows by simp_all
  have b: "bindings (view c2) (revs c2) (operations c2)"
    using ok2 by (simp add: linked_def)
  have "linked c4"
  proof (cases action)
    case CANCEL
    then have "begin_deletion now d TD_CANCELLED (rev_active_collection r) screening (Some rid) None
          HIGH actor who None c2 = Inr (op, c4)"
      using act by simp
    then show ?thesis
      by (rule begin_deletion_linked [OF _ row2 ok2]) (simp add: revD(1))
  next
    case REPLACE
    then obtain t tr tp where val: "validate_replacement_target c d (doc_id t) = Inr (t, tr, tp)"
      and run': "begin_replacement now d r t tr tp screening actor who c2 = Inr (op, c4)"
      using act by auto
    note vD = validate_replacement_targetD [OF val]
    show ?thesis
      by (rule begin_replacement_linked [OF run' row2 _ _ r2 ok2]) (use vD rows revD(1) in auto)
  next
    case KEEP
    then obtain p c3 where ens: "ensure_publication_record now did r c2 = Inr (p, c3)"
      and enq: "enqueue_operation now did PUBLISH PRIO_PUBLISH (Some (rev_id r)) None None QUEUED
              (upd_document did (\<lambda>d. d\<lparr>doc_state := PUBLISHING\<rparr>) c3) = Inr (op, c4)"
      using act revD(3) by auto
    have free: "\<forall>x\<in>set (operations c2). op_document_id x = did \<longrightarrow> \<not> is_open x"
      using resting_no_open [OF b view_Some [OF row2]] revD(1) id by auto
    have "doc_replaced_by d = None"
      using not_replaced [OF b view_Some [OF row2]] revD(1) by simp
    then show ?thesis
      using publish_linked [OF ens enq ok2 _ r2 free, of d] row2 id by simp
  qed
  then show ?thesis
    using linked_cong c' by blast
qed

lemma request_deletion_linked:
  assumes run: "request_deletion now did idem actor who active screening c = Inr (m, c')"
    and ok: "linked c"
  shows "linked c'"
proof -
  obtain d where row: "get_document c did = Some d"
    using run by (auto simp: request_deletion_def result_simps split: if_splits)
  then have id: "doc_id d = did"
    by (rule tget_Some_key)
  have cases: "c' = c \<or> (doc_state d \<in> {READY, PREFLIGHT_FAILED, REVIEW_REQUIRED, PUBLISH_FAILED}
      \<and> (\<exists>target r p op. begin_deletion now d TD_DELETED target screening r p HIGH actor who
            (Some (idem_id idem)) c = Inr (op, c')))"
    using run row
    by (simp add: request_deletion_def result_simps split: if_splits option.splits) blast+
  from cases show ?thesis
  proof
    assume "c' = c" with ok show ?thesis by simp
  next
    assume "doc_state d \<in> {READY, PREFLIGHT_FAILED, REVIEW_REQUIRED, PUBLISH_FAILED}
      \<and> (\<exists>target r p op. begin_deletion now d TD_DELETED target screening r p HIGH actor who
            (Some (idem_id idem)) c = Inr (op, c'))"
    then show ?thesis
      using begin_deletion_linked [OF _ _ ok, of _ d] row id by auto
  qed
qed

section \<open>Retry\<close>

lemma upd_publication_linkage:
  assumes run: "upd_publication k f c = Inr c'" and ok: "publications_ok c"
    and "\<And>p. pub_revision_id (f p) = pub_revision_id p \<and> pub_document_id (f p) = pub_document_id p
      \<and> pub_active_collection (f p) = pub_active_collection p
      \<and> pub_expected_points (f p) = pub_expected_points p"
  shows "publications_ok c'"
proof -
  note keep = upd_publication_keeps [OF run]
  from keep(8) show ?thesis
  proof
    assume "publications c' = tupd pub_id k f (publications c)"
    then show ?thesis
      using publications_ok_upd [OF ok] keep(2) assms(3) by blast
  next
    assume "c' = c" with ok show ?thesis by simp
  qed
qed

lemma del_ids_upd:
  "(\<And>p. del_document_id (f p) = del_document_id p) \<Longrightarrow>
     del_document_id ` set (deletions (upd_deletion k f c)) = del_document_id ` set (deletions c)"
  by (metis deletion_rows.keys_upd list.set_map)

lemma retry_publication_effect:
  assumes run: "retry_publication c d r target = Inr c'" and ok: "publications_ok c"
  shows "revisions c' = revisions c" "operations c' = operations c" "tombstones c' = tombstones c"
    "doc_id ` set (documents c') = doc_id ` set (documents c)"
    "del_document_id ` set (deletions c') = del_document_id ` set (deletions c)"
    "publications_ok c'"
    "view c' = view c \<or> (\<exists>t rb. target = Some t \<and> view c t = Some (DELETE_FAILED, rb)
        \<and> view c' = (view c)(t \<mapsto> (DELETING, rb)))"
proof -
  let ?f = "\<lambda>d. clear_failure (d\<lparr>doc_state := DELETING\<rparr>)"
  let ?g = "\<lambda>p. p\<lparr>pub_status := PUB_PENDING, pub_failure_code := None\<rparr>"
  obtain k c1 where upd: "upd_publication k ?g c = Inr c1"
    and t: "c' = c1 \<or> (\<exists>t target_doc. target = Some t \<and> get_document c1 t = Some target_doc
      \<and> doc_state target_doc = DELETE_FAILED
      \<and> c' = upd_deletion t (\<lambda>p. p\<lparr>del_failure_code := None\<rparr>) (upd_document t ?f c1))"
    using run
    by (auto simp: retry_publication_def result_simps split: option.splits if_splits)
  note keep = upd_publication_keeps [OF upd]
  have pub1: "publications_ok c1"
    by (rule upd_publication_linkage [OF upd ok]) simp
  from t have "revisions c' = revisions c \<and> operations c' = operations c \<and> tombstones c' = tombstones c
    \<and> doc_id ` set (documents c') = doc_id ` set (documents c)
    \<and> del_document_id ` set (deletions c') = del_document_id ` set (deletions c)
    \<and> publications_ok c' \<and> (view c' = view c \<or> (\<exists>t rb. target = Some t
        \<and> view c t = Some (DELETE_FAILED, rb) \<and> view c' = (view c)(t \<mapsto> (DELETING, rb))))"
  proof
    assume "c' = c1"
    then show ?thesis
      using keep pub1 view_cong [of c1 c] by simp
  next
    assume "\<exists>t target_doc. target = Some t \<and> get_document c1 t = Some target_doc
      \<and> doc_state target_doc = DELETE_FAILED
      \<and> c' = upd_deletion t (\<lambda>p. p\<lparr>del_failure_code := None\<rparr>) (upd_document t ?f c1)"
    then obtain t e where e: "target = Some t" "get_document c1 t = Some e" "doc_state e = DELETE_FAILED"
      and c': "c' = upd_deletion t (\<lambda>p. p\<lparr>del_failure_code := None\<rparr>) (upd_document t ?f c1)"
      by blast
    have v1: "view c1 = view c"
      using view_cong keep(1) .
    have "view c' = (view c1)(t \<mapsto> (DELETING, doc_replaced_by e))"
      using view_upd_document [OF e(2), of ?f c'] c' by simp
    moreover have "publications_ok c'"
      using publications_ok_cong [OF pub1, of c'] c' by simp
    ultimately show ?thesis
      using c' keep v1 e view_Some [OF e(2)] by (simp add: doc_ids_upd del_ids_upd)
  qed
  then show "revisions c' = revisions c" "operations c' = operations c" "tombstones c' = tombstones c"
    "doc_id ` set (documents c') = doc_id ` set (documents c)"
    "del_document_id ` set (deletions c') = del_document_id ` set (deletions c)"
    "publications_ok c'"
    "view c' = view c \<or> (\<exists>t rb. target = Some t \<and> view c t = Some (DELETE_FAILED, rb)
        \<and> view c' = (view c)(t \<mapsto> (DELETING, rb)))"
    by simp_all
qed

lemma retry_checkpoint_linked:
  assumes run: "retry_checkpoint c d ot failed = Inr (phase, c')" and ok: "linked c"
    and mem: "failed \<in> set (operations c)"
  shows "linked c'" and "revisions c' = revisions c"
proof -
  have b: "bindings (view c) (revs c) (operations c)" and pub: "publications_ok c" and rows: "rows_owned c"
    using ok by (simp_all add: linked_def)
  have "linked c' \<and> revisions c' = revisions c"
  proof (cases ot)
    case PREFLIGHT
    then show ?thesis
      using run ok by (auto simp: retry_checkpoint_def split: if_splits)
  next
    case DELETE
    then have c': "c' = upd_deletion (doc_id d) (\<lambda>p. p\<lparr>del_failure_code := None\<rparr>) c"
      using run by (auto simp: retry_checkpoint_def result_simps split: option.splits if_splits)
    then show ?thesis
      using ok view_cong [of c' c] revs_cong [of c' c] publications_ok_cong [OF pub, of c']
        rows_owned_cong [OF rows, of c']
      by (simp add: linked_def del_ids_upd)
  next
    case PUBLISH
    then have "retry_publication c d (op_revision_id failed) (op_replacement_target failed) = Inr c'"
      using run by (auto simp: retry_checkpoint_def result_simps)
    note eff = retry_publication_effect [OF this pub]
    have "bindings (view c') (revs c') (operations c')"
      using eff(7)
    proof
      assume "view c' = view c"
      then show ?thesis
        using b eff revs_cong [of c' c] by simp
    next
      assume "\<exists>t rb. op_replacement_target failed = Some t \<and> view c t = Some (DELETE_FAILED, rb)
        \<and> view c' = (view c)(t \<mapsto> (DELETING, rb))"
      then obtain t rb where t: "op_replacement_target failed = Some t" "view c t = Some (DELETE_FAILED, rb)"
        "view c' = (view c)(t \<mapsto> (DELETING, rb))" by blast
      then have "rb = Some (op_document_id failed)"
        using bindings_D [OF b mem] by (auto simp: op_bound_def)
      then show ?thesis
        using bindings_target [OF b, of t DELETE_FAILED _ DELETING] t eff revs_cong [of c' c] by simp
    qed
    then show ?thesis
      using eff rows_owned_cong [OF rows, of c'] by (simp add: linked_def)
  qed
  then show "linked c'" and "revisions c' = revisions c" by simp_all
qed

lemma latest_operation_mem:
  assumes "latest_operation c d (Some t) = Some w"
  shows "w \<in> set (operations c)" and "op_document_id w = d" and "op_type w = t"
  using assms by (auto simp: latest_operation_def dest: max_by_mem)

lemma retry_owner_states:
  assumes own: "retry_owner c requested = Inr d" and b: "bindings (view c) (revs c) (operations c)"
    and row: "get_document c (doc_id d) = Some d"
    and cls: "retry_class (doc_state d) = Some (ot, next_state)"
  shows "doc_replaced_by d = None" and "next_state = working_state ot"
    and "doc_state d \<notin> {PREFLIGHTING, PUBLISHING, DELETING}"
proof -
  show "next_state = working_state ot" "doc_state d \<notin> {PREFLIGHTING, PUBLISHING, DELETING}"
    using cls by (auto simp: retry_class_def split: if_splits)
  have "doc_state d \<in> {PREFLIGHT_FAILED, PUBLISH_FAILED, DELETE_FAILED}"
    using cls by (auto simp: retry_class_def split: if_splits)
  then show "doc_replaced_by d = None"
  proof (cases "doc_state d = DELETE_FAILED")
    case True
    then show ?thesis
      using own by (auto simp: retry_owner_def result_simps split: option.splits if_splits)
  qed (use not_replaced [OF b view_Some [OF row]] in auto)
qed

lemma request_retry_linked:
  assumes run: "request_retry now did idem actor who c = Inr (m, c')" and ok: "linked c" and cat: "catalog_ok c"
  shows "linked c'"
  using run
proof (rule request_retryE)
  fix requested d ot next_state failed prio phase c1 op c2
  let ?f = "\<lambda>d. clear_failure (d\<lparr>doc_state := next_state\<rparr>)"
  assume req: "get_document c did = Some requested" and own: "retry_owner c requested = Inr d"
    and cls: "retry_class (doc_state d) = Some (ot, next_state)"
    and failed: "latest_operation c (doc_id d) (Some ot) = Some failed"
    and chk: "retry_checkpoint c d ot failed = Inr (phase, c1)"
    and enq: "enqueue_operation now (doc_id d) ot prio (op_revision_id failed) (op_replacement_target failed)
            (Some (idem_id idem)) phase (upd_document (doc_id d) ?f c1) = Inr (op, c2)"
    and c': "core c' = core c2" "operations c' = operations c2"
  have row: "get_document c (doc_id d) = Some d"
    by (rule retry_owner_row [OF own req])
  have b: "bindings (view c) (revs c) (operations c)"
    using ok by (simp add: linked_def)
  note f = latest_operation_mem [OF failed] and st = retry_owner_states [OF own b row cls]
    and eff = enqueue_operation_effect [OF enq]
  have ops1: "operations c1 = operations c" and row1: "get_document c1 (doc_id d) = Some d"
    using retry_checkpoint_ok [OF chk cat] enqueue_not_self [OF enq] row by auto
  note l1 = retry_checkpoint_linked [OF chk ok f(1)]
  have b1: "bindings (view c1) (revs c1) (operations c1)"
    using l1 by (simp add: linked_def)
  have core: "documents c2 = documents (upd_document (doc_id d) ?f c1)" "revisions c2 = revisions c1"
    "publications c2 = publications c1" "tombstones c2 = tombstones c1" "deletions c2 = deletions c1"
    "operations c2 = tadd op (operations c1)"
    using eff(1,2) by (simp_all add: core_def)
  have v: "view c2 = (view c1)(doc_id d \<mapsto> (next_state, None))"
    using view_upd_document [OF row1 _ core(1)] st(1) by simp
  have free: "\<forall>x\<in>set (operations c1). op_document_id x = op_document_id op \<longrightarrow> \<not> is_open x"
    using resting_no_open [OF b view_Some [OF row]] st(3) eff(3) ops1 by auto
  have "bindings ((view c1)(op_document_id op \<mapsto> (working_state (op_type op), None))) (revs c1)
      (tadd op (operations c1))"
    by (rule bindings_start [OF b1 free])
      (use eff view_Some [OF row1] st bindings_D [OF b1, of failed] f ops1 enqueue_not_self [OF enq]
        in \<open>auto simp: op_bound_def\<close>)
  then have "bindings (view c2) (revs c2) (operations c2)"
    using v core eff st(2) revs_cong [of c2 c1] by simp
  moreover have "publications_ok c2"
    using publications_ok_cong [of c1 c2] l1(1) core by (simp add: linked_def)
  moreover have "rows_owned c2"
    using rows_owned_cong [of c1 c2] l1(1) core by (simp add: linked_def doc_ids_upd)
  ultimately have "linked c2" by (simp add: linked_def)
  then show ?thesis
    using linked_cong c' by blast
qed

text \<open>The three mutations keep the whole invariant.\<close>

lemma record_decision_lifecycle:
  assumes "record_decision now did rid action target idem actor who screening c = Inr (m, c')"
    and "lifecycle_ok c"
  shows "lifecycle_ok c'"
  using assms record_decision_ok [OF assms(1)] record_decision_linked [OF assms(1)]
    record_decision_queue [OF assms(1)] queue_step_ok
  by (auto simp: lifecycle_ok_iff)

lemma request_retry_lifecycle:
  assumes "request_retry now did idem actor who c = Inr (m, c')" and "lifecycle_ok c"
  shows "lifecycle_ok c'"
  using assms request_retry_ok [OF assms(1)] request_retry_linked [OF assms(1)]
    request_retry_queue [OF assms(1)] queue_step_ok
  by (auto simp: lifecycle_ok_iff)

lemma request_deletion_lifecycle:
  assumes "request_deletion now did idem actor who active screening c = Inr (m, c')"
    and "lifecycle_ok c"
  shows "lifecycle_ok c'"
  using assms request_deletion_ok [OF assms(1)] request_deletion_linked [OF assms(1)]
    request_deletion_queue [OF assms(1)] queue_step_ok
  by (auto simp: lifecycle_ok_iff)

end
