(* ===== verification/Worker_Safety.thy ===== *)
theory Worker_Safety
  imports Invariants
begin

text \<open>
  The worker's transactions keep the lifecycle invariant.  Timestamps of operations only grow, so
  a transaction is considered at a time not before the creation of any operation (\<open>on_time\<close>), which
  is what the schema's CHECK on phase start times needs.
\<close>

definition on_time :: "timestamp \<Rightarrow> catalog \<Rightarrow> bool" where
  "on_time now c \<longleftrightarrow> (\<forall>w\<in>set (operations c). op_created_at w \<le> now)"

section \<open>Changes of operation rows\<close>

definition tame :: "(uuid \<times> uuid) set \<Rightarrow> work_operation \<Rightarrow> work_operation \<Rightarrow> bool" where
  "tame R w w' \<longleftrightarrow>
     same_work w w' \<and> op_attempt w' = op_attempt w \<and> op_priority w' = op_priority w
     \<and> op_created_at w' = op_created_at w \<and> op_created_at w \<le> op_phase_started_at w'
     \<and> lease_ok w' \<and> (is_open w' \<longrightarrow> is_open w)
     \<and> (\<forall>r. op_revision_id w' = Some r \<longrightarrow> (r, op_document_id w) \<in> R)"

lemma tame_refl:
  assumes "lifecycle_ok c" and "w \<in> set (operations c)"
  shows "tame (revs c) w w"
  using assms bindings_D [OF lifecycle_okD(3) [OF assms(1)] assms(2)]
  by (auto simp: tame_def same_work_def op_bound_def lifecycle_ok_def queue_ok_def operation_check_def)

lemma tame_queue:
  assumes ok: "queue_ok c" and ops: "operations c' = map g (operations c)"
    and tame: "\<forall>w\<in>set (operations c). tame R w (g w)"
  shows "queue_ok c'"
proof -
  have same: "op_id (g w) = op_id w" "op_document_id (g w) = op_document_id w" "op_type (g w) = op_type w"
    "op_attempt (g w) = op_attempt w" if "w \<in> set (operations c)" for w
    using tame that by (auto simp: tame_def same_work_def)
  have ids: "map op_id (operations c') = map op_id (operations c)"
    "map (\<lambda>w. (op_document_id w, op_type w, op_attempt w)) (operations c') =
     map (\<lambda>w. (op_document_id w, op_type w, op_attempt w)) (operations c)"
    unfolding ops by (simp_all add: same)
  have rows: "operation_check (g w) \<and> class_priority (g w) \<and> lease_ok (g w)" if w: "w \<in> set (operations c)" for w
  proof -
    have "operation_check w" "class_priority w" "tame R w (g w)"
      using ok tame w by (simp_all add: queue_ok_def)
    then show ?thesis
      by (simp add: operation_check_def class_priority_def tame_def same_work_def)
  qed
  have "\<forall>w\<in>set (operations c'). operation_check w \<and> class_priority w \<and> lease_ok w"
    using rows by (simp add: ops)
  then show ?thesis
    using ok unfolding queue_ok_def ids by blast
qed

lemma tame_lifecycle:
  assumes ok: "lifecycle_ok c" and core: "core c' = core c" and ops: "operations c' = map g (operations c)"
    and tame: "\<forall>w\<in>set (operations c). tame (revs c) w (g w)"
  shows "lifecycle_ok c'"
proof -
  have "bindings (view c) (revs c) (operations c')"
    by (rule bindings_quiet [OF lifecycle_okD(3) [OF ok]])
      (use tame in \<open>auto simp: ops tame_def\<close>)
  moreover have "view c' = view c" "revs c' = revs c"
    using core view_cong [of c' c] revs_cong [of c' c] by (simp_all add: core_def)
  moreover have "publications_ok c'"
    by (rule publications_ok_cong [OF lifecycle_okD(4) [OF ok]]) (use core in \<open>auto simp: core_def\<close>)
  moreover have "rows_owned c'"
    by (rule rows_owned_cong [OF lifecycle_okD(5) [OF ok]]) (use core in \<open>auto simp: core_def\<close>)
  ultimately show ?thesis
    using catalog_ok_same [OF lifecycle_okD(1) [OF ok] core] tame_queue [OF lifecycle_okD(2) [OF ok] ops tame]
    by (simp add: lifecycle_ok_def)
qed

lemma tupd_map: "tupd key k f xs = map (\<lambda>r. if key r = k then f r else r) xs"
  by (simp add: tupd_def)

text \<open>One operation row changes.\<close>

lemma tame_one:
  assumes ok: "lifecycle_ok c" and core: "core c' = core c"
    and ops: "operations c' = tupd op_id k f (operations c)"
    and tame: "\<And>w. get_operation c k = Some w \<Longrightarrow> tame (revs c) w (f w)"
  shows "lifecycle_ok c'"
proof (rule tame_lifecycle [OF ok core])
  show "operations c' = map (\<lambda>r. if op_id r = k then f r else r) (operations c)"
    by (simp add: ops tupd_map)
  have "distinct (map op_id (operations c))"
    using ok by (simp add: lifecycle_ok_def queue_ok_def)
  then have "get_operation c (op_id w) = Some w" if "w \<in> set (operations c)" for w
    using tget_mem that by metis
  then show "\<forall>w\<in>set (operations c). tame (revs c) w (if op_id w = k then f w else w)"
    using tame tame_refl [OF ok] by auto
qed

lemma on_time_map:
  assumes "on_time now c" and "operations c' = map g (operations c)"
    and "\<And>w. op_created_at (g w) = op_created_at w"
  shows "on_time now c'"
  using assms by (auto simp: on_time_def)

section \<open>Leases and claims\<close>

lemma requeue_tame:
  assumes "tame R w w" and "op_state w = OP_RUNNING"
  shows "tame R w (requeue w)"
  using assms by (auto simp: tame_def requeue_def same_work_def lease_ok_def is_open_def)

lemma recover_leases_lifecycle:
  assumes "lifecycle_ok c" and "recover_leases now c = (n, c')"
  shows "lifecycle_ok c'"
proof (rule tame_lifecycle [OF assms(1)])
  show "core c' = core c"
    and "operations c' = map (\<lambda>w. if lease_expired now w then requeue w else w) (operations c)"
    using assms(2) by (auto simp: recover_leases_def core_def)
  show "\<forall>w\<in>set (operations c). tame (revs c) w (if lease_expired now w then requeue w else w)"
    using tame_refl [OF assms(1)] requeue_tame by (auto simp: lease_expired_def)
qed

lemma renew_leases_lifecycle:
  assumes "lifecycle_ok c" and "renew_leases st now wk c = (n, c')"
  shows "lifecycle_ok c'"
proof -
  let ?renewable = "\<lambda>w. op_state w = OP_RUNNING \<and> op_worker_id w = Some (wk_id wk)
    \<and> \<not> (case wk_claim_times wk (op_id w) of None \<Rightarrow> False | Some t \<Rightarrow> t \<le> now - qs_max_operation st)"
  let ?g = "\<lambda>w. if ?renewable w then w\<lparr>op_heartbeat_at := Some now,
    op_lease_expires_at := Some (now + qs_lease st)\<rparr> else w"
  show ?thesis
  proof (rule tame_lifecycle [OF assms(1)])
    show "core c' = core c" and "operations c' = map ?g (operations c)"
      using assms(2) by (auto simp: renew_leases_def core_def Let_def)
    have "tame R w (?g w)" if "tame R w w" for R w
      using that by (auto simp: tame_def same_work_def lease_ok_def is_open_def)
    then show "\<forall>w\<in>set (operations c). tame (revs c) w (?g w)"
      using tame_refl [OF assms(1)] by blast
  qed
qed

lemma start_running_tame:
  assumes "tame R w w" and "op_state w = OP_QUEUED"
  shows "tame R w (start_running st now wid w)"
  using assms by (auto simp: tame_def start_running_def same_work_def lease_ok_def is_open_def)

lemma claim_nextE:
  assumes run: "claim_next st rt now nt wk c = Inr (Some claimed, wk', c')"
  obtains w d c1 where "c1 = snd (recover_leases rt c)"
    and "min_by claim_key (filter (claimable c1 (wk_busy wk)) (operations c1)) = Some w"
    and "get_document c1 (op_document_id w) = Some d"
    and "claimed = \<lparr>cl_operation_id = op_id w, cl_document_id = op_document_id w,
      cl_collection_key = doc_collection_key d, cl_type = op_type w, cl_locked = locked_document_ids w\<rparr>"
    and "set (locked_document_ids w) \<inter> wk_busy wk = {}"
    and "wk' = wk\<lparr>wk_busy := wk_busy wk \<union> set (locked_document_ids w),
      wk_claim_times := (wk_claim_times wk)(op_id w \<mapsto> nt)\<rparr>"
    and "c' = upd_operation (op_id w) (start_running st now (wk_id wk)) c1"
  using run by (auto simp: claim_next_def Let_def split: option.splits if_splits)

lemma claim_next_lifecycle:
  assumes run: "claim_next st rt now nt wk c = Inr (r, wk', c')" and ok: "lifecycle_ok c"
  shows "lifecycle_ok c'"
proof (cases r)
  case None
  then have "c' = snd (recover_leases rt c)"
    using run by (auto simp: claim_next_def Let_def split: option.splits if_splits)
  then show ?thesis
    using recover_leases_lifecycle [OF ok] by (metis prod.collapse)
next
  case (Some claimed)
  from run [unfolded Some] show ?thesis
  proof (rule claim_nextE)
    fix w d c1
    assume c1: "c1 = snd (recover_leases rt c)"
      and min: "min_by claim_key (filter (claimable c1 (wk_busy wk)) (operations c1)) = Some w"
      and c': "c' = upd_operation (op_id w) (start_running st now (wk_id wk)) c1"
    have ok1: "lifecycle_ok c1"
      using recover_leases_lifecycle [OF ok] c1 by (metis prod.collapse)
    have w: "w \<in> set (operations c1)" "op_state w = OP_QUEUED"
      using min_by_mem [OF min] by (auto simp: claimable_def)
    have row: "get_operation c1 (op_id w) = Some w"
      using ok1 w(1) by (intro tget_mem) (auto simp: lifecycle_ok_def queue_ok_def)
    show ?thesis
    proof (rule tame_one [OF ok1])
      show "core c' = core c1" and "operations c' = tupd op_id (op_id w) (start_running st now (wk_id wk)) (operations c1)"
        by (simp_all add: c' core_def operation_rows.rows_upd)
      fix x assume "get_operation c1 (op_id w) = Some x"
      then show "tame (revs c1) x (start_running st now (wk_id wk) x)"
        using row start_running_tame tame_refl [OF ok1 w(1)] w(2) by simp
    qed
  qed
qed

section \<open>Phases and revisions\<close>

lemma owned_operationD:
  assumes "owned_operation c wid oid = Some w"
  shows "get_operation c oid = Some w" "op_state w = OP_RUNNING" "op_worker_id w = Some wid"
    "op_id w = oid" "w \<in> set (operations c)" "is_open w"
  using assms by (auto simp: owned_operation_def is_open_def dest: tget_Some_key tget_Some_mem
      split: option.splits if_splits)

lemma set_operation_phase_tame:
  assumes "tame R w w" and "op_created_at w \<le> now"
  shows "tame R w (snd (set_operation_phase phase now w))"
  using assms by (auto simp: tame_def set_operation_phase_def same_work_def lease_ok_def is_open_def)

text \<open>A phase change on top of other changes that leave the operations alone.\<close>

lemma phase_lifecycle:
  assumes ok: "lifecycle_ok c" and time: "on_time now c"
  shows "lifecycle_ok (upd_operation oid (\<lambda>w. snd (set_operation_phase phase now w)) c)"
proof (rule tame_one [OF ok])
  let ?f = "\<lambda>w. snd (set_operation_phase phase now w)"
  show "core (upd_operation oid ?f c) = core c"
    and "operations (upd_operation oid ?f c) = tupd op_id oid ?f (operations c)"
    by (simp_all add: core_def operation_rows.rows_upd)
  fix w assume "get_operation c oid = Some w"
  then have "w \<in> set (operations c)"
    by (rule tget_Some_mem)
  then show "tame (revs c) w (?f w)"
    using set_operation_phase_tame [OF tame_refl [OF ok]] time by (simp add: on_time_def)
qed

lemma set_phase_lifecycle:
  assumes "set_phase wid oid phase now c = Inr c'" and "lifecycle_ok c" and "on_time now c"
  shows "lifecycle_ok c'"
  using assms phase_lifecycle by (auto simp: set_phase_def split: if_splits option.splits)

lemma bind_revision_lifecycle:
  assumes run: "bind_revision wid oid rid c = Inr c'" and ok: "lifecycle_ok c"
  shows "lifecycle_ok c'"
proof -
  obtain w r where w: "owned_operation c wid oid = Some w" and r: "get_revision c rid = Some r"
    and doc: "rev_document_id r = op_document_id w"
    and c': "c' = upd_operation oid (\<lambda>w. w\<lparr>op_revision_id := Some (rev_id r)\<rparr>) c"
    using run by (auto simp: bind_revision_def split: option.splits if_splits)
  show ?thesis
  proof (rule tame_one [OF ok])
    show "core c' = core c"
      and "operations c' = tupd op_id oid (\<lambda>w. w\<lparr>op_revision_id := Some (rev_id r)\<rparr>) (operations c)"
      by (simp_all add: c' core_def operation_rows.rows_upd)
    fix x assume "get_operation c oid = Some x"
    then have "x = w"
      using owned_operationD [OF w] by simp
    then show "tame (revs c) x (x\<lparr>op_revision_id := Some (rev_id r)\<rparr>)"
      using tame_refl [OF ok owned_operationD(5) [OF w]] revs_get [OF r] doc tget_Some_key [OF r]
      by (auto simp: tame_def same_work_def lease_ok_def is_open_def)
  qed
qed

section \<open>Outbox\<close>

lemma lifecycle_cong:
  assumes "lifecycle_ok c" and "core c' = core c" and "operations c' = operations c"
  shows "lifecycle_ok c'"
  using assms linked_cong catalog_ok_same by (auto simp: lifecycle_ok_iff queue_ok_def)

lemma begin_outbox_keeps:
  assumes "begin_outbox did rid target action collection n c = Inr (i, c')"
  shows "core c' = core c" and "operations c' = operations c"
  using assms
  by (auto simp: begin_outbox_def add_outbox_def core_def Let_def result_simps split: if_splits option.splits)

lemma complete_outbox_keeps:
  assumes "complete_outbox i now c = Inr c'"
  shows "core c' = core c" and "operations c' = operations c"
  using assms by (auto simp: complete_outbox_def core_def split: if_splits option.splits)

section \<open>Deletion checkpoints\<close>

lemma keys_tupd:
  "(\<And>r. key (f r) = key r) \<Longrightarrow> key ` set (tupd key k f t) = key ` set t"
  by (metis list.set_map map_key_tupd)

text \<open>
  The row of a document under deletion and its checkpoint change together, without a change of the
  document's state.
\<close>

lemma checkpoint_lifecycle:
  assumes ok: "lifecycle_ok c"
    and docs: "documents c' = tupd doc_id k f (documents c)"
    and dels: "deletions c' = tupd del_document_id k g (deletions c)"
    and same: "revisions c' = revisions c" "publications c' = publications c" "tombstones c' = tombstones c"
      "operations c' = operations c"
    and f: "\<And>d. doc_id (f d) = doc_id d \<and> doc_state (f d) = doc_state d
      \<and> doc_replaced_by (f d) = doc_replaced_by d \<and> (document_check d \<longrightarrow> document_check (f d))"
    and g: "\<And>p. del_document_id (g p) = del_document_id p"
    and row: "\<And>d p t. get_document c k = Some d \<Longrightarrow> deletion_of c k = Some p \<Longrightarrow>
      deletion_row_ok d (Some p) t \<Longrightarrow> deletion_row_ok (f d) (Some (g p)) t"
    and some: "deletion_of c k \<noteq> None"
  shows "lifecycle_ok c'"
proof -
  have del': "deletion_of c' j = (if j = k then map_option g (deletion_of c j) else deletion_of c j)" for j
    using tget_tupd [of del_document_id g j k "deletions c"] g dels by simp
  have tomb': "tombstone_of c' j = tombstone_of c j" for j
    using same(3) by simp
  have doc': "get_document c' j = (if j = k then map_option f (get_document c j) else get_document c j)" for j
    using tget_tupd [of doc_id f j k "documents c"] f docs by simp
  have ready: "ready_bound c' d = ready_bound c d" for d
    using same by (simp add: ready_bound_def verified_for_def)
  have cat: "catalog_ok c'"
  proof (rule catalog_ok_one_document [OF lifecycle_okD(1) [OF ok] _ docs])
    show "side_tables_ok c'"
      using lifecycle_okD(1) [OF ok] same by (simp add: catalog_ok_iff side_tables_ok_def)
    show "proofs_kept c c'"
      using same by (simp add: proofs_kept_def)
    show "document_ok c' (f d)" if d: "get_document c k = Some d" "document_ok c d" for d
    proof -
      have id: "doc_id d = k" "doc_id (f d) = k"
        using tget_Some_key [OF d(1)] f by simp_all
      obtain p where p: "deletion_of c k = Some p"
        using some by blast
      have "deletion_bound c' (f d)"
        using d(2) row [OF d(1) p] id del' tomb' p by (simp add: document_ok_def deletion_bound_def)
      moreover have "document_check (f d)" "ready_bound c d"
        using d(2) f by (simp_all add: document_ok_def)
      moreover have "ready_bound c' (f d)"
        using \<open>ready_bound c d\<close> f same by (simp add: ready_bound_def verified_for_def)
      ultimately show ?thesis
        by (simp add: document_ok_def)
    qed
  qed (use f del' tomb' in auto)
  have "view c' = view c"
    using f by (auto simp: view_def fun_eq_iff doc' map_option.compositionality comp_def)
  moreover have "publications_ok c'"
    by (rule publications_ok_cong [OF lifecycle_okD(4) [OF ok]]) (use same in auto)
  moreover have "rows_owned c'"
    by (rule rows_owned_cong [OF lifecycle_okD(5) [OF ok]])
      (use f g same keys_tupd [of doc_id f] keys_tupd [of del_document_id g] in \<open>simp_all add: docs dels\<close>)
  ultimately show ?thesis
    using ok cat same revs_cong [of c' c] by (simp add: lifecycle_ok_def queue_ok_def)
qed

lemma upd_deletion_lifecycle:
  assumes ok: "lifecycle_ok c" and some: "deletion_of c k \<noteq> None"
    and g: "\<And>p. del_document_id (g p) = del_document_id p"
    and row: "\<And>d p t. deletion_of c k = Some p \<Longrightarrow> deletion_row_ok d (Some p) t \<Longrightarrow>
      deletion_row_ok d (Some (g p)) t"
  shows "lifecycle_ok (upd_deletion k g c)"
proof (rule checkpoint_lifecycle [OF ok, where k = k and f = "\<lambda>d. d" and g = g])
  show "documents (upd_deletion k g c) = tupd doc_id k (\<lambda>d. d) (documents c)"
    by (simp add: tupd_def)
qed (use assms in \<open>auto simp: deletion_rows.rows_upd\<close>)

lemma on_time_operations: "operations c' = operations c \<Longrightarrow> on_time now c' = on_time now c"
  by (simp add: on_time_def)

lemma set_deletion_phase_lifecycle:
  assumes run: "set_deletion_phase wid oid did phase now c = Inr c'" and ok: "lifecycle_ok c"
    and time: "on_time now c"
  shows "lifecycle_ok c'"
proof -
  let ?g = "\<lambda>p. p\<lparr>del_phase := phase\<rparr>"
  have some: "deletion_of c did \<noteq> None"
    and c': "c' = upd_operation oid (\<lambda>w. snd (set_operation_phase (operation_phase_of phase) now w))
      (upd_deletion did ?g c)"
    using run by (auto simp: set_deletion_phase_def split: option.splits if_splits)
  have "lifecycle_ok (upd_deletion did ?g c)"
    by (rule upd_deletion_lifecycle [OF ok some]) 
      (auto simp: deletion_row_ok_def deletion_check_def checkpoints_ordered_def)
  then show ?thesis
    unfolding c' by (rule phase_lifecycle) (use time in \<open>simp add: on_time_def\<close>)
qed

lemma count_deletion_attempt_lifecycle:
  assumes run: "count_deletion_attempt did c = Inr c'" and ok: "lifecycle_ok c"
  shows "lifecycle_ok c'"
proof -
  have some: "deletion_of c did \<noteq> None"
    and c': "c' = upd_deletion did (\<lambda>p. p\<lparr>del_attempts := del_attempts p + 1\<rparr>) c"
    using run by (auto simp: count_deletion_attempt_def split: option.splits)
  show ?thesis
    unfolding c' by (rule upd_deletion_lifecycle [OF ok some])
      (auto simp: deletion_row_ok_def deletion_check_def checkpoints_ordered_def)
qed

lemma record_zero_verification_lifecycle:
  assumes run: "record_zero_verification wid oid did active now c = Inr c'" and ok: "lifecycle_ok c"
    and time: "on_time now c"
  shows "lifecycle_ok c'"
proof -
  let ?g = "if active then (\<lambda>p. p\<lparr>del_active_zero_at := Some now, del_phase := DP_DELETE_SCREENING_POINTS\<rparr>)
    else (\<lambda>p. p\<lparr>del_screening_zero_at := Some now, del_phase := DP_VERIFY_SCREENING_ZERO\<rparr>)"
  have some: "deletion_of c did \<noteq> None"
    and act: "\<And>p. deletion_of c did = Some p \<Longrightarrow> active \<or> del_active_zero_at p \<noteq> None"
    and c': "\<exists>phase. c' = upd_operation oid (\<lambda>w. snd (set_operation_phase phase now w)) (upd_deletion did ?g c)"
    using run by (auto simp: record_zero_verification_def split: option.splits if_splits)
  have "lifecycle_ok (upd_deletion did ?g c)"
    by (rule upd_deletion_lifecycle [OF ok some])
      (use act in \<open>auto simp: deletion_row_ok_def deletion_check_def checkpoints_ordered_def\<close>)
  moreover have "on_time now (upd_deletion did ?g c)"
    using time by (simp add: on_time_def)
  ultimately show ?thesis
    using c' phase_lifecycle by blast
qed

lemma deletion_outbox_keeps:
  assumes "deletion_outbox did r target collection c = Inr (i, c')"
  shows "core c' = core c" and "operations c' = operations c"
  using assms by (auto simp: deletion_outbox_def result_simps dest: begin_outbox_keeps split: option.splits)

lemma commit_purge_lifecycle:
  assumes run: "commit_purge wid oid did key rs now c = Inr c'" and ok: "lifecycle_ok c"
    and time: "on_time now c"
  shows "lifecycle_ok c'"
proof -
  let ?f = "\<lambda>d. d\<lparr>doc_storage_key := None\<rparr>"
  let ?g = "\<lambda>p. p\<lparr>del_storage_purged_at := Some now, del_phase := DP_COMMIT_TOMBSTONE\<rparr>"
  obtain d p c1 where d: "get_document c did = Some d" and p: "deletion_of c did = Some p"
    and key: "doc_storage_key d = Some key" and zero: "del_active_zero_at p \<noteq> None" "del_screening_zero_at p \<noteq> None"
    and c1: "c1 = (if rs \<noteq> [] then delete_revision_content rs c else c)"
    and c': "c' = upd_operation oid (\<lambda>w. snd (set_operation_phase COMMIT_TOMBSTONE now w))
      (upd_deletion did ?g (upd_document did ?f c1))"
    using run by (auto simp: commit_purge_def Let_def split: option.splits if_splits)
  have same: "core c1 = core c" "operations c1 = operations c"
    using c1 by (auto simp: delete_revision_content_def core_def)
  let ?c2 = "upd_deletion did ?g (upd_document did ?f c1)"
  have "lifecycle_ok ?c2"
  proof (rule checkpoint_lifecycle [OF ok, where k = did and f = ?f and g = ?g])
    show "documents ?c2 = tupd doc_id did ?f (documents c)"
      and "deletions ?c2 = tupd del_document_id did ?g (deletions c)"
      and "revisions ?c2 = revisions c" and "publications ?c2 = publications c"
      and "tombstones ?c2 = tombstones c" and "operations ?c2 = operations c"
      using same by (simp_all add: core_def document_rows.rows_upd deletion_rows.rows_upd)
    show "deletion_row_ok (?f e) (Some (?g q)) t"
      if "get_document c did = Some e" "deletion_of c did = Some q" "deletion_row_ok e (Some q) t" for e q t
      using that d p key zero
      by (auto simp: deletion_row_ok_def deletion_check_def checkpoints_ordered_def)
  qed (use p in \<open>auto simp: document_check_def terminal_disposition_matches_state_def\<close>)
  then show ?thesis
    unfolding c' by (rule phase_lifecycle) (use time same in \<open>simp add: on_time_def\<close>)
qed

section \<open>Endings\<close>

lemma finish_operation_tame:
  assumes "tame R w w" and "op_created_at w \<le> now"
  shows "tame R w (finish_operation phase now w)" and "\<not> is_open (finish_operation phase now w)"
  using assms
  by (auto simp: tame_def finish_operation_def set_operation_phase_def same_work_def lease_ok_def is_open_def)

lemma fail_operation_row_tame:
  assumes "tame R w w"
  shows "tame R w (fail_operation_row code message retryable now w)"
    and "\<not> is_open (fail_operation_row code message retryable now w)"
  using assms by (auto simp: tame_def fail_operation_row_def same_work_def lease_ok_def is_open_def)

text \<open>The open operation of a document closes and its document moves on.\<close>

lemma settle_queue:
  assumes ok: "lifecycle_ok c" and w: "get_operation c oid = Some w" "is_open w"
    and f: "tame (revs c) w (f w)" "\<not> is_open (f w)"
    and ops: "operations c' = tupd op_id oid f (operations c)" and revs: "revisions c' = revisions c"
    and k: "op_document_id w = k" "view c k = Some (s, rb)"
    and v: "view c' = (view c)(k \<mapsto> (s', rb))"
    and rb: "rb = None \<or> s' \<in> {DELETING, DELETE_FAILED, REJECTED, CANCELLED, DELETED}"
  shows "queue_ok c'" and "bindings (view c') (revs c') (operations c')"
proof -
  have ids: "distinct (map op_id (operations c))"
    using ok by (simp add: lifecycle_ok_def queue_ok_def)
  have mem: "w \<in> set (operations c)" and oid: "op_id w = oid"
    using tget_Some_mem [OF w(1)] tget_Some_key [OF w(1)] by simp_all
  have row: "x = w" if "x \<in> set (operations c)" "op_id x = oid" for x
    using tget_mem [OF ids that(1)] that(2) w(1) by simp
  let ?g = "\<lambda>x. if op_id x = oid then f x else x"
  have ops': "operations c' = map ?g (operations c)"
    by (simp add: ops tupd_map)
  have tame: "\<forall>x\<in>set (operations c). tame (revs c) x (?g x)"
    using row f(1) tame_refl [OF ok] by auto
  show "queue_ok c'"
    by (rule tame_queue [OF lifecycle_okD(2) [OF ok] ops' tame])
  have "bindings ((view c)(k \<mapsto> (s', rb))) (revs c) (operations c')"
  proof (rule bindings_settle [OF lifecycle_okD(3) [OF ok] k(2) rb mem w(2) k(1) ids])
    show "\<forall>x'\<in>set (operations c'). \<exists>x\<in>set (operations c). same_work x x'
      \<and> (is_open x' \<longrightarrow> is_open x \<and> op_id x \<noteq> op_id w)
      \<and> (\<forall>r. op_revision_id x' = Some r \<longrightarrow> (r, op_document_id x) \<in> revs c)"
    proof
      fix x' assume "x' \<in> set (operations c')"
      then obtain x where x: "x \<in> set (operations c)" and x': "x' = ?g x"
        by (auto simp: ops')
      have "is_open x' \<longrightarrow> op_id x \<noteq> oid"
        using row [OF x] x' f(2) by auto
      moreover have "tame (revs c) x x'"
        using tame x x' by blast
      ultimately show "\<exists>x\<in>set (operations c). same_work x x'
        \<and> (is_open x' \<longrightarrow> is_open x \<and> op_id x \<noteq> op_id w)
        \<and> (\<forall>r. op_revision_id x' = Some r \<longrightarrow> (r, op_document_id x) \<in> revs c)"
        using x oid by (auto simp: tame_def)
    qed
  qed
  then show "bindings (view c') (revs c') (operations c')"
    using v revs_cong [OF revs] by simp
qed

lemma mark_upserted_lifecycle:
  assumes run: "mark_upserted wid oid rid c = Inr c'" and ok: "lifecycle_ok c"
  shows "lifecycle_ok c'"
proof -
  let ?f = "\<lambda>p. p\<lparr>pub_status := PUB_UPSERTED, pub_failure_code := None\<rparr>"
  obtain p where p: "publication_of c rid = Some p" "pub_status p \<noteq> PUB_VERIFIED"
    and upd: "upd_publication (pub_id p) ?f c = Inr c'"
    using run by (auto simp: mark_upserted_def result_simps split: option.splits if_splits)
  have row: "get_publication c (pub_id p) = Some p"
    using lifecycle_okD(1) [OF ok] tget_Some_mem [OF p(1)]
    by (intro tget_mem) (auto simp: catalog_ok_def)
  note keep = upd_publication_keeps [OF upd]
  have "catalog_ok c'"
    by (rule upd_publication_ok [OF lifecycle_okD(1) [OF ok] upd row p(2)]) (auto simp: publication_check_def)
  moreover have "publications_ok c'"
    by (rule upd_publication_linkage [OF upd lifecycle_okD(4) [OF ok]]) simp
  moreover have "rows_owned c'"
    by (rule rows_owned_cong [OF lifecycle_okD(5) [OF ok]]) (use keep in auto)
  ultimately show ?thesis
    using ok keep view_cong [of c' c] revs_cong [of c' c] by (simp add: lifecycle_ok_def queue_ok_def)
qed

text \<open>The commit of a deletion, for the document's own deletion and for a replaced document.\<close>

lemma commit_tombstone_view:
  assumes run: "commit_tombstone now d reason actor who c = Inr (t, c')"
    and fresh: "tombstone_of c (doc_id d) = None" and row: "get_document c (doc_id d) = Some d"
    and rows: "rows_owned c"
  shows "\<exists>s. s \<in> {REJECTED, CANCELLED, DELETED}
      \<and> view c' = (view c)(doc_id d \<mapsto> (s, doc_replaced_by d))"
    and "revisions c' = revisions c" and "publications c' = publications c"
    and "operations c' = operations c" and "rows_owned c'"
    and "doc_state d \<in> {DELETING, DELETE_FAILED}"
proof -
  let ?goal = "(\<exists>s. s \<in> {REJECTED, CANCELLED, DELETED}
      \<and> view c' = (view c)(doc_id d \<mapsto> (s, doc_replaced_by d)))
    \<and> revisions c' = revisions c \<and> publications c' = publications c
    \<and> operations c' = operations c \<and> rows_owned c' \<and> doc_state d \<in> {DELETING, DELETE_FAILED}"
  from run fresh have ?goal
  proof (rule commit_tombstoneE)
    fix p c2
    let ?f = "terminal_document now (del_disposition p) reason"
    assume st: "doc_state d \<in> {DELETING, DELETE_FAILED}"
      and add: "add_tombstone t (c\<lparr>uuid_drawn := Suc (uuid_drawn c)\<rparr>) = Inr c2"
      and tid: "tomb_document_id t = doc_id d"
      and core: "core c' = core (upd_deletion (doc_id d) (terminal_deletion now)
          (upd_document (doc_id d) ?f c2))"
      and ops: "operations c' = operations c2"
    have c2: "documents c2 = documents c" "revisions c2 = revisions c" "publications c2 = publications c"
      "deletions c2 = deletions c" "operations c2 = operations c" "tombstones c2 = tadd t (tombstones c)"
      using add by (auto simp: add_tombstone_def split: if_splits)
    have docs: "documents c' = documents (upd_document (doc_id d) ?f c)"
      and dels: "deletions c' = deletions (upd_deletion (doc_id d) (terminal_deletion now) c)"
      and rest: "revisions c' = revisions c" "publications c' = publications c"
        "tombstones c' = tadd t (tombstones c)"
      using core c2 by (simp_all add: core_def upd_document_def upd_deletion_def)
    have rb: "doc_replaced_by (?f d) = doc_replaced_by d"
      by (simp add: terminal_document_def Let_def)
    have v: "view c' = (view c)(doc_id d \<mapsto> (state_of_disposition (del_disposition p), doc_replaced_by d))"
      using view_upd_document [OF row _ docs] rb by simp
    have "doc_id d \<in> doc_id ` set (documents c)"
      using tget_Some_mem [OF row] by blast
    then have "rows_owned c'"
      using rows tid by (simp add: rows_owned_def docs dels rest doc_ids_upd del_ids_upd terminal_deletion_def)
    moreover have "\<exists>s. s \<in> {REJECTED, CANCELLED, DELETED}
        \<and> view c' = (view c)(doc_id d \<mapsto> (s, doc_replaced_by d))"
      using v state_of_disposition_terminal(1) by blast
    ultimately show ?goal
      using rest(1,2) ops c2(5) st by simp
  qed
  then show "\<exists>s. s \<in> {REJECTED, CANCELLED, DELETED}
      \<and> view c' = (view c)(doc_id d \<mapsto> (s, doc_replaced_by d))"
    and "revisions c' = revisions c" and "publications c' = publications c"
    and "operations c' = operations c" and "rows_owned c'"
    and "doc_state d \<in> {DELETING, DELETE_FAILED}"
    by blast+
qed

lemma commit_tombstone_again:
  assumes "commit_tombstone now d reason actor who c = Inr (t, c')"
    and "tombstone_of c (doc_id d) \<noteq> None"
  shows "c' = c" and "doc_state d \<in> {REJECTED, CANCELLED, DELETED}"
  using assms state_of_disposition_terminal(1)
  by (auto simp: commit_tombstone_def split: option.splits if_splits)

lemma delete_no_target:
  assumes "lifecycle_ok c" and "w \<in> set (operations c)" and "op_type w = DELETE"
  shows "op_replacement_target w = None"
  using assms by (auto simp: lifecycle_ok_def queue_ok_def class_priority_def priority_for_operation_def
      split: if_splits)

lemma commit_deletionE:
  assumes run: "commit_deletion wid oid did now c = Inr c'"
  obtains w d t c1 where "owned_operation c wid oid = Some w" and "get_document c did = Some d"
    and "commit_tombstone now d (if doc_terminal_disposition d = Some TD_REJECTED
        then doc_failure_code d else None) ''system'' wid c = Inr (t, c1)"
    and "core c' = core c1"
    and "operations c' = (if op_type w = DELETE \<and> op_document_id w = did
        then tupd op_id oid (finish_operation COMPLETE now) (operations c1) else operations c1)"
proof -
  obtain w d p where own: "owned_operation c wid oid = Some w" and row: "get_document c did = Some d"
    and del: "deletion_of c did = Some p" and purged: "del_storage_purged_at p \<noteq> None"
    using run by (simp add: commit_deletion_def split: option.splits if_splits)
  let ?reason = "if doc_terminal_disposition d = Some TD_REJECTED then doc_failure_code d else None"
  obtain t c1 where tomb: "commit_tombstone now d ?reason ''system'' wid c = Inr (t, c1)"
    and c': "c' = (let c2 = audit ''deletion_verified_complete'' ''system'' wid (Some did) (Some oid)
          [(''tombstone_id'', AUuid (tomb_id t)),
           (''disposition'', AText (disposition_value (tomb_disposition t)))] c1
        in if op_type w = DELETE \<and> op_document_id w = did
           then upd_operation oid (finish_operation COMPLETE now) c2 else c2)"
    using run own row del purged by (auto simp: commit_deletion_def result_simps Let_def)
  have "core c' = core c1"
    unfolding c' Let_def by (simp add: core_def audit_def)
  moreover have "operations c' = (if op_type w = DELETE \<and> op_document_id w = did
        then tupd op_id oid (finish_operation COMPLETE now) (operations c1) else operations c1)"
    unfolding c' Let_def by (simp add: operation_rows.rows_upd)
  ultimately show thesis
    using that [OF own row tomb] by blast
qed

lemma commit_deletion_lifecycle:
  assumes run: "commit_deletion wid oid did now c = Inr c'" and ok: "lifecycle_ok c"
    and time: "on_time now c"
    and w': "\<And>w. get_operation c oid = Some w \<Longrightarrow> deletes w did"
  shows "lifecycle_ok c'"
  using run
proof (rule commit_deletionE)
  fix w t c1 and d :: document
  let ?reason = "if doc_terminal_disposition d = Some TD_REJECTED then doc_failure_code d else None"
  assume own: "owned_operation c wid oid = Some w" and row: "get_document c did = Some d"
    and tomb: "commit_tombstone now d ?reason ''system'' wid c = Inr (t, c1)"
    and core: "core c' = core c1"
    and ops: "operations c' = (if op_type w = DELETE \<and> op_document_id w = did
        then tupd op_id oid (finish_operation COMPLETE now) (operations c1) else operations c1)"
  note w = owned_operationD [OF own] and b = lifecycle_okD(3) [OF ok]
  have id: "doc_id d = did"
    by (rule tget_Some_key [OF row])
  have row': "get_document c (doc_id d) = Some d"
    using row id by simp
  have cat: "catalog_ok c'"
    using catalog_ok_same [OF commit_tombstone_ok [OF tomb lifecycle_okD(1) [OF ok] row'] core] .
  have vd: "view c did = Some (doc_state d, doc_replaced_by d)"
    by (rule view_Some [OF row])
  have work: "at_work (view c (op_document_id w)) (op_type w)"
    using bindings_D [OF b w(5)] w(6) by (simp add: op_bound_def)
  show ?thesis
  proof (cases "tombstone_of c did = None")
    case True
    then have fresh: "tombstone_of c (doc_id d) = None"
      using id by simp
    note eff = commit_tombstone_view [OF tomb fresh row' lifecycle_okD(5) [OF ok]]
    obtain s where s: "s \<in> {REJECTED, CANCELLED, DELETED}"
      and v1: "view c1 = (view c)(did \<mapsto> (s, doc_replaced_by d))"
      using eff(1) id by auto
    have v: "view c' = (view c)(did \<mapsto> (s, doc_replaced_by d))"
      and same: "revisions c' = revisions c" "publications c' = publications c"
      using v1 view_cong [of c' c1] core eff(2,3) by (simp_all add: core_def)
    have rows: "rows_owned c'"
      by (rule rows_owned_cong [OF eff(5)]) (use core in \<open>simp_all add: core_def\<close>)
    have pubs: "publications_ok c'"
      by (rule publications_ok_cong [OF lifecycle_okD(4) [OF ok]]) (use same in auto)
    have "queue_ok c' \<and> bindings (view c') (revs c') (operations c')"
    proof (cases "op_type w = DELETE \<and> op_document_id w = did")
      case True
      then have ops': "operations c' = tupd op_id oid (finish_operation COMPLETE now) (operations c)"
        using ops eff(4) by simp
      have created: "op_created_at w \<le> now"
        using time w(5) by (simp add: on_time_def)
      show ?thesis
        using settle_queue [OF ok w(1,6) finish_operation_tame [OF tame_refl [OF ok w(5)] created]
            ops' same(1) _ vd v] True s by blast
    next
      case False
      then have ops': "operations c' = operations c"
        using ops eff(4) by auto
      have "op_replacement_target w = Some did"
      proof (rule ccontr)
        assume "op_replacement_target w \<noteq> Some did"
        then have "op_document_id w = did" "op_type w \<noteq> DELETE"
          using w' [OF w(1)] False by (auto simp: deletes_def)
        then show False
          using work vd eff(6) by (cases "op_type w") auto
      qed
      then have "doc_replaced_by d = Some (op_document_id w)"
        using bindings_D [OF b w(5)] vd by (auto simp: op_bound_def)
      then have "bindings (view c') (revs c') (operations c')"
        using bindings_target [OF b, of did "doc_state d" _ s] vd v ops' s revs_cong [OF same(1)] by auto
      then show ?thesis
        using ok ops' by (simp add: lifecycle_ok_def queue_ok_def)
    qed
    then show ?thesis
      using cat rows pubs by (simp add: lifecycle_ok_def)
  next
    case False
    then have again: "c1 = c" "doc_state d \<in> {REJECTED, CANCELLED, DELETED}"
      using commit_tombstone_again [OF tomb] id by simp_all
    have "\<not> (op_type w = DELETE \<and> op_document_id w = did)"
      using work vd again(2) by auto
    then have "operations c' = operations c"
      using ops again(1) by auto
    then show ?thesis
      using lifecycle_cong [OF ok] core again(1) by simp
  qed
qed

text \<open>The final transaction of a publication.\<close>

lemma finish_publicationE:
  assumes run: "finish_publication wid oid did rid n now c = Inr c'"
  obtains w d r p c1 where "owned_operation c wid oid = Some w" and "get_document c did = Some d"
    and "get_revision c rid = Some r" and "publication_of c rid = Some p"
    and "op_document_id w = doc_id d" and "op_revision_id w = Some (rev_id r)"
    and "doc_state d = PUBLISHING" and "rev_status r = REV_SEALED" and "pub_status p = PUB_UPSERTED"
    and "pub_expected_points p = n"
    and "\<forall>t. op_replacement_target w = Some t \<longrightarrow> replaced_document_deleted c t"
    and "upd_publication (pub_id p) (verified_publication n now) c = Inr c1"
    and "core c' = core (upd_document did (ready_document now) c1)"
    and "operations c' = tupd op_id oid (finish_operation COMPLETE now) (operations c1)"
proof -
  obtain w d r p where own: "owned_operation c wid oid = Some w" and row: "get_document c did = Some d"
    and rev: "get_revision c rid = Some r" and pub: "publication_of c rid = Some p"
    and ok: "op_document_id w = doc_id d" "op_revision_id w = Some (rev_id r)"
      "doc_state d = PUBLISHING" "rev_status r = REV_SEALED" "pub_status p = PUB_UPSERTED"
      "pub_expected_points p = n"
    and old: "\<forall>t. op_replacement_target w = Some t \<longrightarrow> replaced_document_deleted c t"
    using run by (simp add: finish_publication_def split: option.splits if_splits)
  obtain c1 where upd: "upd_publication (pub_id p) (verified_publication n now) c = Inr c1"
    and c': "c' = audit ''publication_verified'' ''system'' wid (Some (doc_id d)) (Some oid)
              [(''prepared_revision_id'', AUuid (rev_id r)),
               (''active_qdrant_collection'', AText (pub_active_collection p)),
               (''verified_points'', ANum n)]
              (upd_operation oid (finish_operation COMPLETE now)
                (upd_document did (ready_document now) c1))"
    using run own row rev pub ok old
    by (auto simp: finish_publication_def result_simps split: option.splits)
  have "core c' = core (upd_document did (ready_document now) c1)"
    "operations c' = tupd op_id oid (finish_operation COMPLETE now) (operations c1)"
    unfolding c' by (simp_all add: core_def audit_def operation_rows.rows_upd)
  then show thesis
    using that [OF own row rev pub ok old upd] by blast
qed

lemma get_upd_publication:
  assumes "upd_publication k f c = Inr c'" and "get_publication c k = Some p"
    and "\<And>p. pub_id (f p) = pub_id p"
  shows "get_publication c' k = Some (f p)"
proof -
  have "publications c' = tupd pub_id k f (publications c)"
    using assms(1,2) by (auto simp: upd_publication_def split: if_splits)
  then show ?thesis
    using tget_tupd [of pub_id f k k "publications c"] assms(2,3) by simp
qed

lemma publication_row:
  assumes "catalog_ok c" and "publication_of c rid = Some p"
  shows "get_publication c (pub_id p) = Some p"
  using assms(1) tget_Some_mem [OF assms(2)] by (intro tget_mem) (auto simp: catalog_ok_def)

lemma revision_unique:
  assumes "catalog_ok c" and "r \<in> set (revisions c)" and "x \<in> set (revisions c)" and "rev_id r = rev_id x"
  shows "r = x"
  using assms by (auto simp: catalog_ok_def distinct_map inj_on_def)

lemma ready_document_simps [simp]:
  "doc_id (ready_document now d) = doc_id d" "doc_state (ready_document now d) = READY"
  "doc_replaced_by (ready_document now d) = doc_replaced_by d"
  "doc_terminal_disposition (ready_document now d) = doc_terminal_disposition d"
  "doc_size_bytes (ready_document now d) = doc_size_bytes d"
  "doc_sha256 (ready_document now d) = doc_sha256 d"
  by (simp_all add: ready_document_def)

text \<open>An open document becomes READY on the strength of a verified publication.\<close>

lemma document_ok_ready:
  assumes "document_ok c d" and "doc_state d = PUBLISHING" and "verified_for c d p r"
  shows "document_ok c (ready_document now d)"
  using assms
  by (auto simp: document_ok_def document_check_def terminal_disposition_matches_state_def
      deletion_bound_def deletion_row_ok_def ready_bound_def verified_for_def split: option.splits)

lemma finish_publication_lifecycle:
  assumes run: "finish_publication wid oid did rid n now c = Inr c'" and ok: "lifecycle_ok c"
    and time: "on_time now c"
  shows "lifecycle_ok c'"
  using run
proof (rule finish_publicationE)
  fix w d r p c1
  let ?vp = "verified_publication n now"
  assume own: "owned_operation c wid oid = Some w" and row: "get_document c did = Some d"
    and rev: "get_revision c rid = Some r" and pub: "publication_of c rid = Some p"
    and opd: "op_document_id w = doc_id d" and opr: "op_revision_id w = Some (rev_id r)"
    and st: "doc_state d = PUBLISHING" and sealed: "rev_status r = REV_SEALED"
    and ups: "pub_status p = PUB_UPSERTED" and n: "pub_expected_points p = n"
    and upd: "upd_publication (pub_id p) ?vp c = Inr c1"
    and core: "core c' = core (upd_document did (ready_document now) c1)"
    and ops: "operations c' = tupd op_id oid (finish_operation COMPLETE now) (operations c1)"
  note w = owned_operationD [OF own] and b = lifecycle_okD(3) [OF ok] and cat = lifecycle_okD(1) [OF ok]
    and keep = upd_publication_keeps [OF upd]
  have id: "doc_id d = did" and rid: "rev_id r = rid" and prid: "pub_revision_id p = rid"
    using tget_Some_key row rev pub by metis+
  note prow = publication_row [OF cat pub]
  have cat1: "catalog_ok c1"
    by (rule upd_publication_ok [OF cat upd prow])
      (use ups n in \<open>auto simp: verified_publication_def publication_check_def\<close>)
  have p1: "get_publication c1 (pub_id p) = Some (?vp p)"
    by (rule get_upd_publication [OF upd prow]) (simp add: verified_publication_def)
  obtain r0 where r0: "r0 \<in> set (revisions c)" "rev_id r0 = rid" "rev_document_id r0 = pub_document_id p"
    "rev_active_collection r0 = pub_active_collection p"
    "rev_expected_point_count r0 = Some (pub_expected_points p)"
    using lifecycle_okD(4) [OF ok] tget_Some_mem [OF pub] prid by (auto simp: publications_ok_def pub_bound_def)
  have "r0 = r"
    by (rule revision_unique [OF cat r0(1) tget_Some_mem [OF rev]]) (simp add: r0(2) rid)
  moreover have "rev_document_id r = did"
  proof -
    have "(rid, did) \<in> revs c"
      using bindings_D [OF b w(5)] opr opd id rid by (simp add: op_bound_def)
    then obtain x where "x \<in> set (revisions c)" "rev_id x = rid" "rev_document_id x = did"
      by (auto simp: revs_def)
    then show ?thesis
      using revision_unique [OF cat _ tget_Some_mem [OF rev], of x] rid by simp
  qed
  ultimately have ver: "verified_for c1 d (?vp p) r"
    using r0 tget_Some_mem [OF p1] tget_Some_mem [OF rev] keep(2) prid rid id sealed
    by (simp add: verified_for_def verified_publication_def)
  have row1: "get_document c1 did = Some d"
    using row keep(1) by simp
  have cat2: "catalog_ok (upd_document did (ready_document now) c1)"
    by (rule upd_document_ok [OF cat1]) (use row1 ver st document_ok_ready in auto)
  have docs: "documents c' = documents (upd_document did (ready_document now) c)"
    and same: "revisions c' = revisions c" "deletions c' = deletions c" "tombstones c' = tombstones c"
    and pubs': "publications c' = publications c1"
    using core keep by (simp_all add: core_def upd_document_def)
  have v: "view c' = (view c)(did \<mapsto> (READY, doc_replaced_by d))"
    using view_upd_document [OF row _ docs] by simp
  have vd: "view c did = Some (PUBLISHING, doc_replaced_by d)"
    using view_Some [OF row] st by simp
  have rb: "doc_replaced_by d = None"
    using not_replaced [OF b vd] by simp
  have ops': "operations c' = tupd op_id oid (finish_operation COMPLETE now) (operations c)"
    using ops keep(5) by simp
  have created: "op_created_at w \<le> now"
    using time w(5) by (simp add: on_time_def)
  note q = settle_queue [OF ok w(1,6) finish_operation_tame [OF tame_refl [OF ok w(5)] created]
      ops' same(1) _ vd v]
  have pubs1: "publications_ok c1"
    by (rule upd_publication_linkage [OF upd lifecycle_okD(4) [OF ok]]) (simp add: verified_publication_def)
  have "publications_ok c'"
    by (rule publications_ok_cong [OF pubs1]) (use pubs' same(1) keep(2) in auto)
  moreover have "rows_owned c'"
    by (rule rows_owned_cong [OF lifecycle_okD(5) [OF ok]]) (use docs same in \<open>simp_all add: doc_ids_upd\<close>)
  ultimately show ?thesis
    using q opd id rb catalog_ok_same [OF cat2 core] by (simp add: lifecycle_ok_def)
qed

text \<open>The failure of an operation.\<close>

lemma record_failure_simps [simp]:
  "doc_id (record_failure code message retryable d) = doc_id d"
  "doc_state (record_failure code message retryable d) = doc_state d"
  "doc_replaced_by (record_failure code message retryable d) = doc_replaced_by d"
  "doc_terminal_disposition (record_failure code message retryable d) = doc_terminal_disposition d"
  "doc_storage_key (record_failure code message retryable d) = doc_storage_key d"
  "doc_size_bytes (record_failure code message retryable d) = doc_size_bytes d"
  "doc_sha256 (record_failure code message retryable d) = doc_sha256 d"
  "doc_failure_code (record_failure code message retryable d) = Some code"
  "doc_failure_retryable (record_failure code message retryable d) = retryable"
  by (simp_all add: record_failure_def)

lemma fail_publicationE:
  assumes run: "fail_publication code message retryable w c = Inr c'"
  obtains c1 where "c1 = c \<or> (\<exists>p r. op_revision_id w = Some r \<and> publication_of c r = Some p \<and> pub_status p \<noteq> PUB_VERIFIED
      \<and> upd_publication (pub_id p) (\<lambda>p. p\<lparr>pub_status := PUB_FAILED, pub_failure_code := Some code\<rparr>) c = Inr c1)"
    and "c' = c1 \<or> (\<exists>t d. op_replacement_target w = Some t \<and> get_document c1 t = Some d \<and> doc_state d = DELETING
      \<and> c' = upd_deletion t (\<lambda>p. p\<lparr>del_failure_code := Some code\<rparr>)
          (upd_document t (\<lambda>d. record_failure code message retryable (d\<lparr>doc_state := DELETE_FAILED\<rparr>)) c1))"
proof -
  obtain c1 where 1: "(case Option.bind (op_revision_id w) (publication_of c) of
              None \<Rightarrow> Inr c
            | Some publication \<Rightarrow>
                if pub_status publication = PUB_VERIFIED then Inr c
                else upd_publication (pub_id publication)
                  (\<lambda>p. p\<lparr>pub_status := PUB_FAILED, pub_failure_code := Some code\<rparr>) c) = Inr c1"
    and 2: "c' = (case op_replacement_target w of
            None \<Rightarrow> c1
          | Some t \<Rightarrow>
              (case get_document c1 t of
                 None \<Rightarrow> c1
               | Some old \<Rightarrow>
                   if doc_state old = DELETING
                   then upd_deletion t (\<lambda>p. p\<lparr>del_failure_code := Some code\<rparr>)
                     (upd_document t (\<lambda>d. record_failure code message retryable
                        (d\<lparr>doc_state := DELETE_FAILED\<rparr>)) c1)
                   else c1))"
    using run by (auto simp: fail_publication_def rbind_eq_Inr)
  show thesis
  proof (rule that)
    show "c1 = c \<or> (\<exists>p r. op_revision_id w = Some r \<and> publication_of c r = Some p \<and> pub_status p \<noteq> PUB_VERIFIED
      \<and> upd_publication (pub_id p) (\<lambda>p. p\<lparr>pub_status := PUB_FAILED, pub_failure_code := Some code\<rparr>) c = Inr c1)"
      using 1 by (auto split: Option.bind_splits option.splits if_splits)
  qed (use 2 in \<open>auto split: option.splits if_splits\<close>)
qed

lemma fail_publication_effect:
  assumes run: "fail_publication code message retryable w c = Inr c'"
    and cat: "catalog_ok c" and pubs: "publications_ok c"
  shows "catalog_ok c'" and "publications_ok c'" and "revisions c' = revisions c"
    and "tombstones c' = tombstones c" and "operations c' = operations c"
    and "doc_id ` set (documents c') = doc_id ` set (documents c)"
    and "del_document_id ` set (deletions c') = del_document_id ` set (deletions c)"
    and "view c' = view c \<or> (\<exists>t rb. op_replacement_target w = Some t \<and> view c t = Some (DELETING, rb)
        \<and> view c' = (view c)(t \<mapsto> (DELETE_FAILED, rb)))"
    and "op_replacement_target w \<noteq> Some j \<Longrightarrow> get_document c' j = get_document c j"
proof -
  let ?f = "\<lambda>d. record_failure code message retryable (d\<lparr>doc_state := DELETE_FAILED\<rparr>)"
  let ?goal = "catalog_ok c' \<and> publications_ok c' \<and> revisions c' = revisions c
    \<and> tombstones c' = tombstones c \<and> operations c' = operations c
    \<and> doc_id ` set (documents c') = doc_id ` set (documents c)
    \<and> del_document_id ` set (deletions c') = del_document_id ` set (deletions c)
    \<and> (view c' = view c \<or> (\<exists>t rb. op_replacement_target w = Some t \<and> view c t = Some (DELETING, rb)
        \<and> view c' = (view c)(t \<mapsto> (DELETE_FAILED, rb))))
    \<and> (op_replacement_target w \<noteq> Some j \<longrightarrow> get_document c' j = get_document c j)"
  from run have ?goal
  proof (rule fail_publicationE)
    fix c1
    assume c1: "c1 = c \<or> (\<exists>p r. op_revision_id w = Some r \<and> publication_of c r = Some p \<and> pub_status p \<noteq> PUB_VERIFIED
      \<and> upd_publication (pub_id p) (\<lambda>p. p\<lparr>pub_status := PUB_FAILED, pub_failure_code := Some code\<rparr>) c = Inr c1)"
      and c': "c' = c1 \<or> (\<exists>t d. op_replacement_target w = Some t \<and> get_document c1 t = Some d \<and> doc_state d = DELETING
      \<and> c' = upd_deletion t (\<lambda>p. p\<lparr>del_failure_code := Some code\<rparr>) (upd_document t ?f c1))"
    have one: "catalog_ok c1 \<and> publications_ok c1 \<and> documents c1 = documents c \<and> revisions c1 = revisions c
      \<and> tombstones c1 = tombstones c \<and> operations c1 = operations c \<and> deletions c1 = deletions c"
      using c1
    proof
      assume "\<exists>p r. op_revision_id w = Some r \<and> publication_of c r = Some p \<and> pub_status p \<noteq> PUB_VERIFIED
        \<and> upd_publication (pub_id p) (\<lambda>p. p\<lparr>pub_status := PUB_FAILED, pub_failure_code := Some code\<rparr>) c = Inr c1"
      then obtain p r where p: "publication_of c r = Some p" "pub_status p \<noteq> PUB_VERIFIED"
        and upd: "upd_publication (pub_id p) (\<lambda>p. p\<lparr>pub_status := PUB_FAILED, pub_failure_code := Some code\<rparr>) c = Inr c1"
        by blast
      have "catalog_ok c1"
        by (rule upd_publication_ok [OF cat upd publication_row [OF cat p(1)] p(2)])
          (auto simp: publication_check_def)
      moreover have "publications_ok c1"
        by (rule upd_publication_linkage [OF upd pubs]) simp
      ultimately show ?thesis
        using upd_publication_keeps [OF upd] by simp
    qed (use cat pubs in auto)
    have v1: "view c1 = view c"
      by (rule view_cong) (use one in blast)
    show ?goal
      using c'
    proof
      assume "c' = c1" then show ?goal using one v1 by simp
    next
      assume "\<exists>t d. op_replacement_target w = Some t \<and> get_document c1 t = Some d \<and> doc_state d = DELETING
        \<and> c' = upd_deletion t (\<lambda>p. p\<lparr>del_failure_code := Some code\<rparr>) (upd_document t ?f c1)"
      then obtain t d where t: "op_replacement_target w = Some t" and d: "get_document c1 t = Some d"
        and st: "doc_state d = DELETING"
        and c': "c' = upd_deletion t (\<lambda>p. p\<lparr>del_failure_code := Some code\<rparr>) (upd_document t ?f c1)"
        by blast
      have "catalog_ok (upd_document t ?f c1)"
        by (rule upd_document_ok) (use one d st document_ok_blocked [of c1 d "?f d"] in auto)
      then have "catalog_ok c'"
        unfolding c' by (rule upd_deletion_same_ok) (simp add: same_checkpoint_def)
      moreover have "publications_ok c'"
        using publications_ok_cong [of c1 c'] one c' by simp
      moreover have "view c' = (view c1)(t \<mapsto> (DELETE_FAILED, doc_replaced_by d))"
        using view_upd_document [OF d, of ?f c'] c' by simp
      ultimately show ?goal
        using one v1 t st view_Some [OF d] c'
        by (simp add: doc_ids_upd del_ids_upd document_rows.get_upd)
    qed
  qed
  then show "catalog_ok c'" and "publications_ok c'" and "revisions c' = revisions c"
    and "tombstones c' = tombstones c" and "operations c' = operations c"
    and "doc_id ` set (documents c') = doc_id ` set (documents c)"
    and "del_document_id ` set (deletions c') = del_document_id ` set (deletions c)"
    and "view c' = view c \<or> (\<exists>t rb. op_replacement_target w = Some t \<and> view c t = Some (DELETING, rb)
        \<and> view c' = (view c)(t \<mapsto> (DELETE_FAILED, rb)))"
    and "op_replacement_target w \<noteq> Some j \<Longrightarrow> get_document c' j = get_document c j"
    by blast+
qed

lemma fail_operation_idle:
  assumes "fail_operation wid oid exc now c = Inr c'"
    and "\<not> (\<exists>w. get_operation c oid = Some w \<and> op_state w = OP_RUNNING)"
  shows "c' = c"
  using assms by (auto simp: fail_operation_def Let_def split: prod.splits option.splits if_splits)

text \<open>What the failure of a running operation did, stage by stage.\<close>

lemma fail_operationE:
  assumes run: "fail_operation wid oid exc now c = Inr c'"
    and w: "get_operation c oid = Some w" "op_state w = OP_RUNNING"
  obtains code message retryable d c1 c2 where "safe_failure exc = (code, message, retryable)"
    and "get_document c (op_document_id w) = Some d"
    and "c1 = upd_operation oid (fail_operation_row code message retryable now) c"
    and "(case op_type w of
           PUBLISH \<Rightarrow> fail_publication code message retryable w c1
         | DELETE \<Rightarrow> Inr (upd_deletion (op_document_id w) (\<lambda>p. p\<lparr>del_failure_code := Some code\<rparr>) c1)
         | PREFLIGHT \<Rightarrow> Inr c1) = Inr c2"
    and "core c' = core (upd_document (op_document_id w) (\<lambda>d. record_failure code message retryable
        (d\<lparr>doc_state := failed_state (op_type w) (doc_state d)\<rparr>)) c2)"
    and "operations c' = operations c2"
proof -
  obtain code message retryable where sf: "safe_failure exc = (code, message, retryable)"
    by (metis prod_cases3)
  obtain d where d: "get_document c (op_document_id w) = Some d"
    using run w by (auto simp: fail_operation_def sf Let_def split: option.splits)
  have id: "doc_id d = op_document_id w"
    by (rule tget_Some_key [OF d])
  let ?c1 = "upd_operation oid (fail_operation_row code message retryable now) c"
  obtain c2 where c2: "(case op_type w of
           PUBLISH \<Rightarrow> fail_publication code message retryable w ?c1
         | DELETE \<Rightarrow> Inr (upd_deletion (op_document_id w) (\<lambda>p. p\<lparr>del_failure_code := Some code\<rparr>) ?c1)
         | PREFLIGHT \<Rightarrow> Inr ?c1) = Inr c2"
    using run w d id
    by (auto simp: fail_operation_def sf Let_def rbind_eq_Inr lift_lifecycle_Inr cong: operation_type.case_cong)
  have "core c' = core (upd_document (op_document_id w) (\<lambda>d. record_failure code message retryable
        (d\<lparr>doc_state := failed_state (op_type w) (doc_state d)\<rparr>)) c2)"
    and "operations c' = operations c2"
    using run w d id c2
    by (auto simp: fail_operation_def sf Let_def rbind_eq_Inr lift_lifecycle_Inr core_def audit_def
        cong: operation_type.case_cong)
  then show thesis
    using that [OF sf d refl c2] by blast
qed

lemma fail_stage_lifecycle:
  assumes ok: "lifecycle_ok c1" and mem: "\<exists>x\<in>set (operations c1). same_work w x"
    and view_k: "view c1 (op_document_id w) = Some (working_state (op_type w), None)"
    and stage: "(case op_type w of
           PUBLISH \<Rightarrow> fail_publication code message retryable w c1
         | DELETE \<Rightarrow> Inr (upd_deletion (op_document_id w) (\<lambda>p. p\<lparr>del_failure_code := Some code\<rparr>) c1)
         | PREFLIGHT \<Rightarrow> Inr c1) = Inr c2"
  shows "lifecycle_ok c2" and "operations c2 = operations c1"
    and "get_document c2 (op_document_id w) = get_document c1 (op_document_id w)"
proof -
  note b = lifecycle_okD(3) [OF ok]
  have "lifecycle_ok c2 \<and> operations c2 = operations c1
    \<and> get_document c2 (op_document_id w) = get_document c1 (op_document_id w)"
  proof (cases "op_type w")
    case PREFLIGHT with stage ok show ?thesis by simp
  next
    case DELETE
    then have c2: "c2 = upd_deletion (op_document_id w) (\<lambda>p. p\<lparr>del_failure_code := Some code\<rparr>) c1"
      using stage by simp
    have "catalog_ok c2"
      unfolding c2 by (rule upd_deletion_same_ok [OF lifecycle_okD(1) [OF ok]]) (simp add: same_checkpoint_def)
    moreover have "publications_ok c2"
      by (rule publications_ok_cong [OF lifecycle_okD(4) [OF ok]]) (use c2 in auto)
    moreover have "rows_owned c2"
      by (rule rows_owned_cong [OF lifecycle_okD(5) [OF ok]]) (use c2 in \<open>simp_all add: del_ids_upd\<close>)
    ultimately show ?thesis
      using ok c2 view_cong [of c2 c1] revs_cong [of c2 c1] by (simp add: lifecycle_ok_def queue_ok_def)
  next
    case PUBLISH
    then have run: "fail_publication code message retryable w c1 = Inr c2"
      using stage by simp
    note eff = fail_publication_effect [OF run lifecycle_okD(1,4) [OF ok]]
    obtain x where x: "x \<in> set (operations c1)" "same_work w x"
      using mem by blast
    have target: "replaced_with (view c1 t) (op_document_id w)" if "op_replacement_target w = Some t" for t
      using bindings_D [OF b x(1)] x(2) that by (simp add: op_bound_def same_work_def)
    have self: "op_replacement_target w \<noteq> Some (op_document_id w)"
      using target view_k by fastforce
    have "bindings (view c2) (revs c2) (operations c2)"
      using eff(8)
    proof
      assume "\<exists>t rb. op_replacement_target w = Some t \<and> view c1 t = Some (DELETING, rb)
        \<and> view c2 = (view c1)(t \<mapsto> (DELETE_FAILED, rb))"
      then obtain t rb where t: "op_replacement_target w = Some t" "view c1 t = Some (DELETING, rb)"
        "view c2 = (view c1)(t \<mapsto> (DELETE_FAILED, rb))" by blast
      then have "rb = Some (op_document_id w)"
        using target by fastforce
      then show ?thesis
        using bindings_target [OF b, of t DELETING _ DELETE_FAILED] t eff revs_cong [of c2 c1] by simp
    qed (use b eff revs_cong [of c2 c1] in simp)
    moreover have "rows_owned c2"
      by (rule rows_owned_cong [OF lifecycle_okD(5) [OF ok]]) (use eff in auto)
    moreover have "queue_ok c2"
      using lifecycle_okD(2) [OF ok] eff(5) by (simp add: queue_ok_def)
    ultimately show ?thesis
      using eff(1,2,5) eff(9) [OF self] by (simp add: lifecycle_ok_def)
  qed
  then show "lifecycle_ok c2" and "operations c2 = operations c1"
    and "get_document c2 (op_document_id w) = get_document c1 (op_document_id w)" by simp_all
qed

text \<open>The document of a failed operation comes to rest in the failed state of its class.\<close>

lemma failed_document_ok:
  assumes "document_ok c d" and "doc_state d = working_state ty"
  shows "document_ok c (record_failure code message retryable (d\<lparr>doc_state := failed_state ty (doc_state d)\<rparr>))"
proof (cases "ty = DELETE")
  case True
  then show ?thesis
    using assms by (intro document_ok_blocked [OF assms(1)]) (auto simp: failed_state_def)
next
  case False
  then have "open_state (failed_state ty (doc_state d))"
    "doc_state d \<notin> {DELETING, DELETE_FAILED, REJECTED, CANCELLED, DELETED}"
    using assms(2) by (cases ty; simp add: failed_state_def open_state_def)+
  then show ?thesis
    by (intro document_ok_open [OF assms(1)]) auto
qed

lemma fail_operation_lifecycle:
  assumes run: "fail_operation wid oid exc now c = Inr c'" and ok: "lifecycle_ok c"
  shows "lifecycle_ok c'"
proof (cases "\<exists>w. get_operation c oid = Some w \<and> op_state w = OP_RUNNING")
  case False
  with fail_operation_idle [OF run] ok show ?thesis by simp
next
  case True
  then obtain w where w: "get_operation c oid = Some w" "op_state w = OP_RUNNING" by blast
  from run w show ?thesis
  proof (rule fail_operationE)
    fix code message retryable d c1 c2
    let ?k = "op_document_id w"
    let ?F = "\<lambda>d. record_failure code message retryable
        (d\<lparr>doc_state := failed_state (op_type w) (doc_state d)\<rparr>)"
    assume d: "get_document c ?k = Some d"
      and c1: "c1 = upd_operation oid (fail_operation_row code message retryable now) c"
      and stage: "(case op_type w of
           PUBLISH \<Rightarrow> fail_publication code message retryable w c1
         | DELETE \<Rightarrow> Inr (upd_deletion ?k (\<lambda>p. p\<lparr>del_failure_code := Some code\<rparr>) c1)
         | PREFLIGHT \<Rightarrow> Inr c1) = Inr c2"
      and core: "core c' = core (upd_document ?k ?F c2)" and ops: "operations c' = operations c2"
    have mem: "w \<in> set (operations c)" and oid: "op_id w = oid" and opn: "is_open w"
      using tget_Some_mem [OF w(1)] tget_Some_key [OF w(1)] w(2) by (simp_all add: is_open_def)
    note b = lifecycle_okD(3) [OF ok]
    have work: "at_work (view c ?k) (op_type w)"
      using bindings_D [OF b mem] opn by (simp add: op_bound_def)
    have st: "doc_state d = working_state (op_type w)"
      using work view_Some [OF d] by simp
    have rb: "doc_replaced_by d = None"
      using work view_Some [OF d] not_replaced [OF b view_Some [OF d]] st by (cases "op_type w") auto
    have ok1: "lifecycle_ok c1"
    proof (rule tame_one [OF ok])
      show "core c1 = core c"
        and "operations c1 = tupd op_id oid (fail_operation_row code message retryable now) (operations c)"
        by (simp_all add: c1 core_def operation_rows.rows_upd)
      fix x assume "get_operation c oid = Some x"
      then show "tame (revs c) x (fail_operation_row code message retryable now x)"
        using w(1) fail_operation_row_tame(1) [OF tame_refl [OF ok mem]] by simp
    qed
    have v1: "view c1 = view c" and row1: "get_document c1 ?k = Some d"
      using view_cong [of c1 c] d c1 by simp_all
    have closed: "\<not> is_open x" if x: "x \<in> set (operations c1)" "op_document_id x = ?k" for x
    proof
      assume xo: "is_open x"
      obtain y where y: "y \<in> set (operations c)"
        and xy: "x = (if op_id y = oid then fail_operation_row code message retryable now y else y)"
        using x(1) c1 by (auto elim: operation_rows.upd_mem)
      have "op_id y = oid"
      proof (rule ccontr)
        assume "op_id y \<noteq> oid"
        then show False
          using single_openD [OF b y mem] xy xo x(2) opn oid by simp
      qed
      then show False
        using xo xy by (simp add: fail_operation_row_def is_open_def)
    qed
    have x: "\<exists>x\<in>set (operations c1). same_work w x"
    proof (rule bexI)
      show "same_work w (fail_operation_row code message retryable now w)"
        by (simp add: same_work_def fail_operation_row_def)
      show "fail_operation_row code message retryable now w \<in> set (operations c1)"
        using mem oid c1 by (auto simp: operation_rows.rows_upd set_tupd)
    qed
    note stage' = fail_stage_lifecycle [OF ok1 x _ stage]
    have ok2: "lifecycle_ok c2" and ops2: "operations c2 = operations c1"
      and row2: "get_document c2 ?k = Some d"
      using stage' v1 view_Some [OF d] st rb row1 by simp_all
    have cat: "catalog_ok (upd_document ?k ?F c2)"
      by (rule upd_document_ok [OF lifecycle_okD(1) [OF ok2]]) (use row2 failed_document_ok [OF _ st] in auto)
    have docs: "documents c' = documents (upd_document ?k ?F c2)"
      and same: "revisions c' = revisions c2" "publications c' = publications c2"
        "deletions c' = deletions c2" "tombstones c' = tombstones c2"
      using core by (simp_all add: core_def)
    have v: "view c' = (view c2)(?k \<mapsto> (failed_state (op_type w) (doc_state d), None))"
      using view_upd_document [OF row2 _ docs] rb by simp
    have "view c2 ?k = Some (doc_state d, None)"
      using view_Some [OF row2] rb by simp
    then have "bindings (view c') (revs c') (operations c')"
      using bindings_rest [OF lifecycle_okD(3) [OF ok2]] closed v ops ops2 revs_cong [OF same(1)] by simp
    moreover have "publications_ok c'"
      by (rule publications_ok_cong [OF lifecycle_okD(4) [OF ok2]]) (use same in auto)
    moreover have "rows_owned c'"
      by (rule rows_owned_cong [OF lifecycle_okD(5) [OF ok2]]) (use docs same in \<open>simp_all add: doc_ids_upd\<close>)
    moreover have "queue_ok c'"
      using lifecycle_okD(2) [OF ok2] ops by (simp add: queue_ok_def)
    ultimately show ?thesis
      using catalog_ok_same [OF cat core] by (simp add: lifecycle_ok_def)
  qed
qed

end
