(* ===== verification/Preflight_Safety.thy ===== *)
theory Preflight_Safety
  imports Worker_Safety
begin

text \<open>
  The endings of a preflight, the persisted preparation and the admission of documents keep the
  lifecycle invariant.  Both endings hand a document over from the finished preflight to a newly
  queued operation within one transaction.
\<close>

section \<open>The endings of a preflight\<close>

text \<open>The open operation of a document closes while its successor is queued.\<close>

lemma handover:
  assumes ok: "lifecycle_ok c" and w: "get_operation c oid = Some w" "is_open w"
    and f: "tame (revs c) w (f w)" "\<not> is_open (f w)"
    and fresh: "fresh_operation c nw" and doc: "op_document_id nw = op_document_id w"
    and time: "op_created_at nw \<le> op_phase_started_at nw"
    and target: "op_replacement_target nw = None"
    and rev: "\<forall>r. op_revision_id nw = Some r \<longrightarrow> (r, op_document_id nw) \<in> revs c"
    and vk: "view c (op_document_id w) = Some (s, None)"
    and ops: "operations c' = tupd op_id oid f (tadd nw (operations c))"
    and revs: "revisions c' = revisions c"
    and v: "view c' = (view c)(op_document_id w \<mapsto> (working_state (op_type nw), None))"
  shows "queue_ok c'" and "bindings (view c') (revs c') (operations c')"
proof -
  let ?k = "op_document_id w"
  have oid: "op_id w = oid" and mem: "w \<in> set (operations c)"
    using tget_Some_key [OF w(1)] tget_Some_mem [OF w(1)] by simp_all
  have ids: "op_id nw \<notin> op_id ` set (operations c)"
    using fresh by (simp add: fresh_operation_def)
  then have ne: "op_id nw \<noteq> oid"
    using mem oid by auto
  have opn: "is_open nw"
    using fresh by (simp add: fresh_operation_def is_open_def)
  define c1 where "c1 = c\<lparr>operations := tadd nw (operations c)\<rparr>"
  have q1: "queue_ok c1"
    by (rule fresh_operation_ok [OF fresh lifecycle_okD(2) [OF ok]]) (simp add: c1_def)
  have dist: "distinct (map op_id (operations c))"
    using ok by (simp add: lifecycle_ok_def queue_ok_def)
  have row: "x = w" if "x \<in> set (operations c)" "op_id x = oid" for x
    using tget_mem [OF dist that(1)] that(2) w(1) by simp
  let ?g = "\<lambda>x. if op_id x = oid then f x else x"
  have tame: "\<forall>x\<in>set (operations c1). tame (revs c) x (?g x)"
  proof
    fix x assume "x \<in> set (operations c1)"
    then consider "x = nw" | "x \<in> set (operations c)"
      by (auto simp: c1_def)
    then show "tame (revs c) x (?g x)"
    proof cases
      case 1
      then show ?thesis
        using ne fresh time rev
        by (auto simp: tame_def same_work_def fresh_operation_def lease_ok_def)
    next
      case 2
      then show ?thesis
        using row f(1) tame_refl [OF ok] by auto
    qed
  qed
  show "queue_ok c'"
    by (rule tame_queue [OF q1 _ tame]) (simp add: ops c1_def tupd_map)
  let ?V = "(view c)(?k \<mapsto> (REVIEW_REQUIRED, None))"
  let ?c0 = "upd_operation oid f c"
  have b0: "bindings ?V (revs c) (tupd op_id oid f (operations c))"
  proof (rule bindings_settle [OF lifecycle_okD(3) [OF ok] vk _ mem w(2) refl dist])
    show "\<forall>x'\<in>set (tupd op_id oid f (operations c)). \<exists>x\<in>set (operations c). same_work x x'
      \<and> (is_open x' \<longrightarrow> is_open x \<and> op_id x \<noteq> op_id w)
      \<and> (\<forall>r. op_revision_id x' = Some r \<longrightarrow> (r, op_document_id x) \<in> revs c)"
    proof
      fix x' assume "x' \<in> set (tupd op_id oid f (operations c))"
      then obtain x where x: "x \<in> set (operations c)" and x': "x' = ?g x"
        by (auto simp: tupd_map)
      have "is_open x' \<longrightarrow> op_id x \<noteq> oid"
        using row [OF x] x' f(2) by auto
      moreover have "tame (revs c) x x'"
        using tame x x' by (simp add: c1_def)
      ultimately show "\<exists>x\<in>set (operations c). same_work x x'
        \<and> (is_open x' \<longrightarrow> is_open x \<and> op_id x \<noteq> op_id w)
        \<and> (\<forall>r. op_revision_id x' = Some r \<longrightarrow> (r, op_document_id x) \<in> revs c)"
        using x oid by (auto simp: tame_def)
    qed
  qed simp
  have free: "\<forall>x\<in>set (tupd op_id oid f (operations c)). op_document_id x = op_document_id nw \<longrightarrow> \<not> is_open x"
    using resting_no_open [OF b0, of ?k REVIEW_REQUIRED None] doc by auto
  have same_ids: "op_id ` set (tupd op_id oid f (operations c)) = op_id ` set (operations c)"
  proof -
    have "op_id (?g x) = op_id x" if "x \<in> set (operations c)" for x
      using tame that by (simp add: c1_def tame_def same_work_def)
    then have "map op_id (tupd op_id oid f (operations c)) = map op_id (operations c)"
      by (simp add: tupd_map)
    then show ?thesis
      by (metis list.set_map)
  qed
  have "bindings (?V(op_document_id nw \<mapsto> (working_state (op_type nw), None))) (revs c)
      (tadd nw (tupd op_id oid f (operations c)))"
    by (rule bindings_start [OF b0 free]) (use same_ids ids doc target rev in auto)
  moreover have "operations c' = tadd nw (tupd op_id oid f (operations c))"
    using ne by (simp add: ops tupd_def tadd_def)
  ultimately show "bindings (view c') (revs c') (operations c')"
    using v doc revs_cong [OF revs] by simp
qed


lemma queue_clear_publicationE:
  assumes run: "queue_clear_publication now d r c = Inr (op, c')" and st: "doc_state d = PREFLIGHTING"
  obtains p c1 where "ensure_publication_record now (doc_id d) r c = Inr (p, c1)"
    and "enqueue_operation now (doc_id d) PUBLISH PRIO_PUBLISH (Some (rev_id r)) None None QUEUED
      (upd_document (doc_id d) (\<lambda>d. clear_failure (d\<lparr>doc_state := PUBLISHING\<rparr>)) c1) = Inr (op, c')"
  using run st
  by (auto simp: queue_clear_publication_def rbind_eq_Inr if_Inl_eq_Inr)

lemma latest_revision_bound:
  assumes "latest_revision c k = Some r"
  shows "(rev_id r, k) \<in> revs c" and "rev_document_id r = k" and "r \<in> set (revisions c)"
proof -
  have "r \<in> set (filter (\<lambda>r. rev_document_id r = k) (revisions c))"
    using assms by (auto simp: latest_revision_def dest: max_by_mem)
  then show "(rev_id r, k) \<in> revs c" and "rev_document_id r = k" and "r \<in> set (revisions c)"
    by (auto simp: revs_def)
qed

lemma op_idle_created:
  assumes "lifecycle_ok c" and "on_time now c" and "w \<in> set (operations c)"
  shows "tame (revs c) w (finish_operation phase now w)" "\<not> is_open (finish_operation phase now w)"
  using finish_operation_tame [OF tame_refl [OF assms(1,3)]] assms(2,3) by (simp_all add: on_time_def)

lemma finish_preflightE:
  assumes run: "finish_preflight wid oid sealed now c = Inr c'"
  obtains w r d c1 where "owned_operation c wid oid = Some w"
    and "get_revision c (sp_revision_id sealed) = Some r" and "op_revision_id w = Some (rev_id r)"
    and "rev_status r = REV_SEALED" and "get_document c (op_document_id w) = Some d"
    and "doc_state d = PREFLIGHTING"
    and "if sp_clear_for_publication sealed then \<exists>q. queue_clear_publication now d r c = Inr (q, c1)
      else c1 = upd_document (op_document_id w) (\<lambda>d. d\<lparr>doc_state := REVIEW_REQUIRED\<rparr>) c"
    and "core c' = core (upd_document (op_document_id w) clear_failure c1)"
    and "operations c' = tupd op_id oid (finish_operation
      (if sp_clear_for_publication sealed then COMPLETE else AWAITING_DECISION) now) (operations c1)"
proof -
  obtain w r d where own: "owned_operation c wid oid = Some w"
    and rev: "get_revision c (sp_revision_id sealed) = Some r" and opr: "op_revision_id w = Some (rev_id r)"
    and sealed: "rev_status r = REV_SEALED" and d: "get_document c (op_document_id w) = Some d"
    and st: "doc_state d = PREFLIGHTING"
    using run by (simp add: finish_preflight_def Let_def split: option.splits if_splits)
  have id: "doc_id d = op_document_id w"
    by (rule tget_Some_key [OF d])
  obtain q c1 where c1: "(if sp_clear_for_publication sealed
      then rbind (lift_lifecycle (queue_clear_publication now d r c)) (\<lambda>(queued, c1). Inr (Some (op_id queued), c1))
      else Inr (None, upd_document (op_document_id w) (\<lambda>d. d\<lparr>doc_state := REVIEW_REQUIRED\<rparr>) c)) = Inr (q, c1)"
    and c': "core c' = core (upd_document (op_document_id w) clear_failure c1)"
      "operations c' = tupd op_id oid (finish_operation
        (if sp_clear_for_publication sealed then COMPLETE else AWAITING_DECISION) now) (operations c1)"
    using run own rev opr sealed d st id
    by (auto simp: finish_preflight_def Let_def rbind_eq_Inr core_def audit_def operation_rows.rows_upd
        split: if_splits)
  have "if sp_clear_for_publication sealed then \<exists>q. queue_clear_publication now d r c = Inr (q, c1)
      else c1 = upd_document (op_document_id w) (\<lambda>d. d\<lparr>doc_state := REVIEW_REQUIRED\<rparr>) c"
    using c1 by (auto simp: rbind_eq_Inr lift_lifecycle_Inr split: if_splits)
  then show thesis
    using that [OF own rev opr sealed d st _ c'] by blast
qed


lemma finish_preflight_lifecycle:
  assumes run: "finish_preflight wid oid sealed now c = Inr c'" and ok: "lifecycle_ok c"
    and time: "on_time now c"
  shows "lifecycle_ok c'"
  using run
proof (rule finish_preflightE)
  fix w :: work_operation and r d c1
  let ?k = "op_document_id w"
  let ?phase = "if sp_clear_for_publication sealed then COMPLETE else AWAITING_DECISION"
  assume own: "owned_operation c wid oid = Some w"
    and rev: "get_revision c (sp_revision_id sealed) = Some r" and opr: "op_revision_id w = Some (rev_id r)"
    and d: "get_document c ?k = Some d" and st: "doc_state d = PREFLIGHTING"
    and stage: "if sp_clear_for_publication sealed then \<exists>q. queue_clear_publication now d r c = Inr (q, c1)
      else c1 = upd_document ?k (\<lambda>d. d\<lparr>doc_state := REVIEW_REQUIRED\<rparr>) c"
    and core: "core c' = core (upd_document ?k clear_failure c1)"
    and ops: "operations c' = tupd op_id oid (finish_operation ?phase now) (operations c1)"
  note w = owned_operationD [OF own] and b = lifecycle_okD(3) [OF ok] and cat = lifecycle_okD(1) [OF ok]
    and fin = op_idle_created [OF ok time owned_operationD(5) [OF own], of ?phase]
  have id: "doc_id d = ?k"
    by (rule tget_Some_key [OF d])
  have vd: "view c ?k = Some (PREFLIGHTING, None)"
    using view_Some [OF d] st not_replaced [OF b view_Some [OF d]] by simp
  have rid: "rev_id r = sp_revision_id sealed"
    by (rule tget_Some_key [OF rev])
  have docs: "documents c' = documents (upd_document ?k clear_failure c1)"
    and same: "revisions c' = revisions c1" "publications c' = publications c1"
      "deletions c' = deletions c1" "tombstones c' = tombstones c1"
    using core by (simp_all add: core_def)
  have catc: "catalog_ok c'" if "catalog_ok c1"
    by (rule catalog_ok_same [OF _ core], rule upd_same_lifecycle_ok [OF that]) (simp add: same_lifecycle_def)
  have linkc: "publications_ok c' \<and> rows_owned c'" if "publications_ok c1" "rows_owned c1"
  proof
    show "publications_ok c'"
      by (rule publications_ok_cong [OF that(1)]) (use same in auto)
    show "rows_owned c'"
      by (rule rows_owned_cong [OF that(2)]) (use docs same in \<open>simp_all add: doc_ids_upd\<close>)
  qed
  show ?thesis
  proof (cases "sp_clear_for_publication sealed")
    case True
    then obtain q where q: "queue_clear_publication now d r c = Inr (q, c1)"
      using stage by auto
    from q st show ?thesis
    proof (rule queue_clear_publicationE)
      fix p c0
      let ?f = "\<lambda>d. clear_failure (d\<lparr>doc_state := PUBLISHING\<rparr>)"
      assume ens: "ensure_publication_record now (doc_id d) r c = Inr (p, c0)"
        and enq: "enqueue_operation now (doc_id d) PUBLISH PRIO_PUBLISH (Some (rev_id r)) None None QUEUED
          (upd_document (doc_id d) ?f c0) = Inr (q, c1)"
      note eff = enqueue_operation_effect [OF enq] and en = ensure_publication_effect [OF ens]
      have c1: "documents c1 = documents (upd_document ?k ?f c)" "revisions c1 = revisions c"
        "publications c1 = publications c0" "deletions c1 = deletions c" "tombstones c1 = tombstones c"
        "operations c1 = tadd q (operations c)"
        using eff(1,2) en id by (simp_all add: core_def upd_document_def)
      have row1: "get_document c1 ?k = Some (?f d)"
        using d c1(1) by (simp add: document_rows.get_upd)
      have v: "view c' = (view c)(?k \<mapsto> (PUBLISHING, None))"
        using view_upd_document [OF row1 _ docs] view_upd_document [OF d _ c1(1)] vd view_Some [OF d] by simp
      have "catalog_ok c1"
        by (rule queue_clear_publication_ok [OF q cat])
          (use d id catalog_ok_revision [OF cat rev] in auto)
      moreover have "publications_ok c1"
        using ensure_publication_bound [OF ens lifecycle_okD(4) [OF ok] tget_Some_mem [OF rev]]
          publications_ok_cong [of c0 c1] c1 en(2) by simp
      moreover have "rows_owned c1"
        by (rule rows_owned_cong [OF lifecycle_okD(5) [OF ok]]) (use c1 in \<open>simp_all add: doc_ids_upd\<close>)
      moreover have fresh: "fresh_operation c q"
        using enqueue_fresh(1) [OF enq] next_attempt_cong [of "upd_document (doc_id d) ?f c0" c] en(5)
        by (simp add: fresh_operation_def)
      moreover have "queue_ok c'" "bindings (view c') (revs c') (operations c')"
        using handover [where f = "finish_operation ?phase now" and c' = c', OF ok w(1,6) fin fresh _ _ _ _ vd] eff ops c1 same v id
          revs_get [OF rev] rid en(12) by simp_all
      ultimately show ?thesis
        using catc linkc by (simp add: lifecycle_ok_def)
    qed
  next
    case False
    let ?f = "\<lambda>d. d\<lparr>doc_state := REVIEW_REQUIRED\<rparr>"
    have c1: "c1 = upd_document ?k ?f c"
      using stage False by simp
    have row1: "get_document c1 ?k = Some (?f d)"
      using d c1 by (simp add: document_rows.get_upd)
    have v: "view c' = (view c)(?k \<mapsto> (REVIEW_REQUIRED, None))"
      using view_upd_document [OF row1 _ docs] view_upd_document [OF d, of ?f c1] c1 vd view_Some [OF d] by simp
    have "catalog_ok c1"
      unfolding c1 by (rule upd_open_ok [OF cat d]) (use st in \<open>auto simp: open_state_def\<close>)
    moreover have "publications_ok c1" "rows_owned c1"
      using publications_ok_cong [OF lifecycle_okD(4) [OF ok], of c1]
        rows_owned_cong [OF lifecycle_okD(5) [OF ok], of c1] c1 by (simp_all add: doc_ids_upd)
    moreover have "queue_ok c'" "bindings (view c') (revs c') (operations c')"
      using settle_queue [where f = "finish_operation ?phase now", OF ok w(1,6) fin _ _ refl vd v] ops c1 same by simp_all
    ultimately show ?thesis
      using catc linkc by (simp add: lifecycle_ok_def)
  qed
qed

lemma queue_rejection_cleanupE:
  assumes run: "queue_rejection_cleanup now d reason active screening r c = Inr (op, c')"
  obtains c1 where "begin_deletion now d TD_REJECTED active screening r None HIGH ''system'' ''pdf-bridge'' None c
      = Inr (op, c1)"
    and "c' = upd_document (doc_id d) (\<lambda>d. d\<lparr>doc_failure_code := Some reason\<rparr>) c1"
  using run by (auto simp: queue_rejection_cleanup_def rbind_eq_Inr if_Inl_eq_Inr)

lemma not_deleting_no_checkpoint:
  assumes "catalog_ok c" and "get_document c k = Some d"
    and "doc_state d \<notin> {DELETING, DELETE_FAILED, REJECTED, CANCELLED, DELETED}"
  shows "deletion_of c k = None"
  using catalog_ok_document [OF assms(1,2)] tget_Some_key [OF assms(2)] assms(3)
  by (auto simp: document_ok_def deletion_bound_def deletion_row_ok_def split: option.splits)

lemma accept_rejectionE:
  assumes run: "accept_rejection_txn wid oid did reason active screening now c = Inr c'"
  obtains w d q c1 c2 where "owned_operation c wid oid = Some w" and "get_document c did = Some d"
    and "c1 = upd_operation oid (\<lambda>w. w\<lparr>op_revision_id := map_option rev_id (latest_revision c did)\<rparr>) c"
    and "queue_rejection_cleanup now d reason
       (case latest_revision c did of Some r \<Rightarrow> rev_active_collection r | None \<Rightarrow> active) screening
       (map_option rev_id (latest_revision c did)) c1 = Inr (q, c2)"
    and "core c' = core c2"
    and "operations c' = tupd op_id oid (finish_operation COMPLETE now) (operations c2)"
proof -
  obtain w d where own: "owned_operation c wid oid = Some w" and d: "get_document c did = Some d"
    using run by (simp add: accept_rejection_txn_def split: option.splits)
  have id: "doc_id d = did"
    by (rule tget_Some_key [OF d])
  let ?c1 = "upd_operation oid (\<lambda>w. w\<lparr>op_revision_id := map_option rev_id (latest_revision c did)\<rparr>) c"
  obtain q c2 where q: "queue_rejection_cleanup now d reason
       (case latest_revision c did of Some r \<Rightarrow> rev_active_collection r | None \<Rightarrow> active) screening
       (map_option rev_id (latest_revision c did)) ?c1 = Inr (q, c2)"
    and c': "core c' = core c2"
      "operations c' = tupd op_id oid (finish_operation COMPLETE now) (operations c2)"
    using run own d id
    by (auto simp: accept_rejection_txn_def Let_def rbind_eq_Inr lift_lifecycle_Inr core_def audit_def
        operation_rows.rows_upd)
  then show thesis
    using that [OF own d refl q c'] by blast
qed

lemma accept_rejection_lifecycle:
  assumes run: "accept_rejection_txn wid oid did reason active screening now c = Inr c'"
    and ok: "lifecycle_ok c" and time: "on_time now c"
    and bound: "\<And>w. get_operation c oid = Some w \<Longrightarrow> op_type w = PREFLIGHT \<and> op_document_id w = did"
  shows "lifecycle_ok c'"
  using run
proof (rule accept_rejectionE)
  fix w :: work_operation and d q c1 c2
  let ?h = "\<lambda>w. w\<lparr>op_revision_id := map_option rev_id (latest_revision c did)\<rparr>"
  let ?rid = "map_option rev_id (latest_revision c did)"
  assume own: "owned_operation c wid oid = Some w" and d: "get_document c did = Some d"
    and c1: "c1 = upd_operation oid ?h c"
    and clean: "queue_rejection_cleanup now d reason
       (case latest_revision c did of Some r \<Rightarrow> rev_active_collection r | None \<Rightarrow> active) screening ?rid c1
       = Inr (q, c2)"
    and core: "core c' = core c2"
    and ops: "operations c' = tupd op_id oid (finish_operation COMPLETE now) (operations c2)"
  note w = owned_operationD [OF own] and b = lifecycle_okD(3) [OF ok]
  have ty: "op_type w = PREFLIGHT" and wd: "op_document_id w = did"
    using bound [OF w(1)] by simp_all
  have id: "doc_id d = did"
    by (rule tget_Some_key [OF d])
  have ok1: "lifecycle_ok c1"
  proof (rule tame_one [OF ok])
    show "core c1 = core c" and "operations c1 = tupd op_id oid ?h (operations c)"
      by (simp_all add: c1 core_def operation_rows.rows_upd)
    fix x assume "get_operation c oid = Some x"
    then have "x = w" using w(1) by simp
    then show "tame (revs c) x (?h x)"
      using tame_refl [OF ok w(5)] latest_revision_bound(1) [of c did] wd
      by (auto simp: tame_def same_work_def lease_ok_def is_open_def)
  qed
  note b1 = lifecycle_okD(3) [OF ok1]
  have w1: "get_operation c1 oid = Some (?h w)"
    using w(1) by (simp add: c1 operation_rows.get_upd)
  have w1o: "is_open (?h w)" and w1m: "?h w \<in> set (operations c1)"
    using w(6) tget_Some_mem [OF w1] by (simp_all add: is_open_def)
  have d1: "get_document c1 (doc_id d) = Some d"
    using d id c1 by simp
  have "at_work (view c did) PREFLIGHT"
    using bindings_D [OF b w(5)] w(6) wd ty by (simp add: op_bound_def)
  then have st: "doc_state d = PREFLIGHTING"
    using view_Some [OF d] by simp
  have vd: "view c1 did = Some (PREFLIGHTING, None)"
    using view_Some [OF d1] id st not_replaced [OF b1 view_Some [OF d1]] by simp
  have rb: "doc_replaced_by d = None"
    using not_replaced [OF b1 view_Some [OF d1]] st by simp
  have none: "deletion_of c1 (doc_id d) = None"
    by (rule not_deleting_no_checkpoint [OF lifecycle_okD(1) [OF ok1] d1]) (simp add: st)
  have time1: "on_time now c1"
    using time by (auto simp: on_time_def c1 operation_rows.rows_upd set_tupd)
  note fin = op_idle_created [OF ok1 time1 w1m, of COMPLETE]
  from clean show ?thesis
  proof (rule queue_rejection_cleanupE)
    fix c3
    let ?f = "\<lambda>d. d\<lparr>doc_failure_code := Some reason\<rparr>"
    assume del: "begin_deletion now d TD_REJECTED
        (case latest_revision c did of Some r \<Rightarrow> rev_active_collection r | None \<Rightarrow> active) screening ?rid None
        HIGH ''system'' ''pdf-bridge'' None c1 = Inr (q, c3)"
      and c2: "c2 = upd_document (doc_id d) ?f c3"
    note eff = begin_deletion_effect [OF del d1 none]
    have v2: "view c2 = view c3"
      using c2 by (auto simp: view_def fun_eq_iff document_rows.get_upd map_option.compositionality comp_def)
    have v: "view c' = (view c1)(did \<mapsto> (DELETING, None))"
      using view_cong [of c' c2] core v2 eff(1) id rb by (simp add: core_def)
    have fresh: "fresh_operation c1 q"
      using begin_deletion_queue [OF del] eff(7,13) by (auto simp: queue_step_def tadd_def)
    have cat: "catalog_ok c'"
      using catalog_ok_same [OF queue_rejection_cleanup_ok [OF clean lifecycle_okD(1) [OF ok1] d1] core] .
    have same: "revisions c' = revisions c1" "publications c' = publications c1"
      using core c2 eff(2,3) by (simp_all add: core_def)
    have q: "queue_ok c'" "bindings (view c') (revs c') (operations c')"
    proof -
      have "op_created_at q \<le> op_phase_started_at q"
        using fresh by (simp add: fresh_operation_def)
      moreover have "\<forall>r. op_revision_id q = Some r \<longrightarrow> (r, op_document_id q) \<in> revs c1"
        using eff(8,11,14) by auto
      ultimately show "queue_ok c'" "bindings (view c') (revs c') (operations c')"
        using handover [where f = "finish_operation COMPLETE now" and c' = c', OF ok1 w1 w1o fin fresh]
          eff wd id vd ops c2 same v by simp_all
    qed
    have "publications_ok c'"
      by (rule publications_ok_cong [OF lifecycle_okD(4) [OF ok1]]) (use same in auto)
    moreover have "rows_owned c'"
    proof (rule rows_owned_add [OF lifecycle_okD(5) [OF ok1] _ _ _ d1])
      show "doc_id ` set (documents c') = doc_id ` set (documents c1)"
        "del_document_id ` set (deletions c') = insert (doc_id d) (del_document_id ` set (deletions c1))"
        "tombstones c' = tombstones c1"
        using core c2 eff(4,5,6) by (simp_all add: core_def doc_ids_upd)
    qed
    ultimately show ?thesis
      using cat q by (simp add: lifecycle_ok_def)
  qed
qed

section \<open>Preparation\<close>

text \<open>
  Preparation adds revisions and changes revisions that are not sealed; sealed revisions stay.
\<close>

lemma revisions_lifecycle:
  assumes ok: "lifecycle_ok c"
    and same: "documents c' = documents c" "publications c' = publications c" "deletions c' = deletions c"
      "tombstones c' = tombstones c" "operations c' = operations c"
    and ids: "distinct (map rev_id (revisions c'))"
    and chk: "\<forall>r\<in>set (revisions c'). revision_check r"
    and sealed: "{r \<in> set (revisions c). rev_status r = REV_SEALED} \<subseteq> set (revisions c')"
    and revs: "revs c \<subseteq> revs c'"
  shows "lifecycle_ok c'"
proof -
  note cat = lifecycle_okD(1) [OF ok]
  have "proofs_kept c c'"
    using same sealed by (simp add: proofs_kept_def)
  then have "document_ok c' d" if "document_ok c d" for d
    using that same ready_bound_kept by (simp add: document_ok_def deletion_bound_def)
  then have "catalog_ok c'"
    using cat same ids chk by (simp add: catalog_ok_def)
  moreover have "bindings (view c') (revs c') (operations c')"
  proof -
    have "bindings (view c) (revs c') (operations c)"
    proof (rule bindings_quiet [OF lifecycle_okD(3) [OF ok] revs], rule ballI)
      fix w assume w: "w \<in> set (operations c)"
      then show "\<exists>x\<in>set (operations c). same_work x w \<and> (is_open w \<longrightarrow> is_open x)
        \<and> (\<forall>r. op_revision_id w = Some r \<longrightarrow> (r, op_document_id x) \<in> revs c')"
        using bindings_D [OF lifecycle_okD(3) [OF ok] w] revs
        by (intro bexI [of _ w]) (auto simp: op_bound_def same_work_def)
    qed
    then show ?thesis
      using same view_cong [of c' c] by simp
  qed
  moreover have "publications_ok c'"
    by (rule publications_ok_cong [OF lifecycle_okD(4) [OF ok] same(2) sealed])
  moreover have "rows_owned c'"
    by (rule rows_owned_cong [OF lifecycle_okD(5) [OF ok]]) (use same in auto)
  moreover have "queue_ok c'"
    using lifecycle_okD(2) [OF ok] same by (simp add: queue_ok_def)
  ultimately show ?thesis
    by (simp add: lifecycle_ok_def)
qed

lemma next_revision_number_positive: "1 \<le> next_revision_number c did"
  using fold_max_start [of 0 rev_number] by (simp add: next_revision_number_def)

lemma create_revision_lifecycle:
  assumes run: "create_revision did i now c = Inr (h, c')" and ok: "lifecycle_ok c"
  shows "lifecycle_ok c'"
proof -
  let ?n = "uuid_supply c (uuid_drawn c)"
  have fresh: "?n \<notin> rev_id ` set (revisions c)"
    and c': "c' = c\<lparr>uuid_drawn := Suc (uuid_drawn c),
      revisions := tadd (preparing_revision now ?n did (next_revision_number c did) i) (revisions c)\<rparr>"
    using run by (auto simp: create_revision_def uuid4_def Let_def list_ex_iff split: option.splits if_splits)
  show ?thesis
  proof (rule revisions_lifecycle [OF ok])
    show "distinct (map rev_id (revisions c'))"
      using fresh lifecycle_okD(1) [OF ok] by (simp add: c' tadd_def catalog_ok_def preparing_revision_def)
    show "\<forall>r\<in>set (revisions c'). revision_check r"
      using lifecycle_okD(1) [OF ok] next_revision_number_positive [of c did]
      by (simp add: c' catalog_ok_def revision_check_def preparing_revision_def DENSE_DIMENSION_def)
  qed (auto simp: c' revs_def)
qed

text \<open>A change of one revision that is not sealed.\<close>

lemma upd_revision_lifecycle:
  assumes run: "upd_revision k f c = Inr c'" and ok: "lifecycle_ok c"
    and unsealed: "\<And>r. get_revision c k = Some r \<Longrightarrow> rev_status r \<noteq> REV_SEALED"
    and f: "\<And>r. rev_id (f r) = rev_id r \<and> rev_document_id (f r) = rev_document_id r"
    and chk: "\<And>r. get_revision c k = Some r \<Longrightarrow> revision_check r \<Longrightarrow> revision_check (f r)"
  shows "lifecycle_ok c'"
proof (cases "get_revision c k")
  case None
  then show ?thesis
    using run ok by (simp add: upd_revision_def)
next
  case (Some r)
  then have c': "c' = c\<lparr>revisions := tupd rev_id k f (revisions c)\<rparr>"
    using run by (auto simp: upd_revision_def split: if_splits)
  have dist: "distinct (map rev_id (revisions c))" and checks: "\<forall>r\<in>set (revisions c). revision_check r"
    using lifecycle_okD(1) [OF ok] by (simp_all add: catalog_ok_def)
  have row: "x = r" if "x \<in> set (revisions c)" "rev_id x = k" for x
    using tget_mem [OF dist that(1)] that(2) Some by simp
  show ?thesis
  proof (rule revisions_lifecycle [OF ok])
    show "distinct (map rev_id (revisions c'))"
      using map_key_tupd [of rev_id f rev_id k "revisions c"] f dist by (simp add: c')
    show "\<forall>r\<in>set (revisions c'). revision_check r"
      unfolding c' by (simp, rule ball_tupd) (use checks chk row Some in auto)
    show "{r \<in> set (revisions c). rev_status r = REV_SEALED} \<subseteq> set (revisions c')"
      using row unsealed [OF Some] by (auto simp: c' set_tupd)
    show "revs c \<subseteq> revs c'"
    proof -
      have "map (\<lambda>r. (rev_id r, rev_document_id r)) (tupd rev_id k f (revisions c))
          = map (\<lambda>r. (rev_id r, rev_document_id r)) (revisions c)"
        by (rule map_key_tupd) (simp add: f)
      then show ?thesis
        by (simp add: revs_def c') (metis list.set_map order_refl)
    qed
  qed (simp_all add: c')
qed

lemma load_revisionD:
  assumes "load_revision rid s c = Inr r"
  shows "get_revision c rid = Some r" "rev_id r = rid" "s = Some x \<Longrightarrow> rev_status r = x"
  using assms by (auto simp: load_revision_def dest: tget_Some_key split: option.splits if_splits)

lemma fail_preparation_lifecycle:
  assumes run: "fail_preparation rid code message now c = Inr c'" and ok: "lifecycle_ok c"
  shows "lifecycle_ok c'"
proof -
  obtain r where r: "load_revision rid None c = Inr r" and ns: "rev_status r \<noteq> REV_SEALED"
    and c': "c' = c \<or> upd_revision rid (failed_revision code message now) c = Inr c'"
    using run by (auto simp: fail_preparation_def rbind_eq_Inr if_Inl_eq_Inr lift_lifecycle_Inr split: if_splits)
  from c' show ?thesis
  proof
    assume "upd_revision rid (failed_revision code message now) c = Inr c'"
    then show ?thesis
      by (rule upd_revision_lifecycle [OF _ ok])
        (use load_revisionD [OF r] ns in \<open>auto simp: failed_revision_def revision_check_def\<close>)
  qed (use ok in simp)
qed

lemma record_chunk_vectorsE:
  assumes run: "record_chunk_vectors sl h b c = Inr (m, c')"
  obtains r c1 where "load_revision (ph_revision_id h) (Some REV_PREPARING) c = Inr r"
    and "revision_identity_matches r h"
    and "cb_vectors b \<noteq> []" and "cb_vector_manifest_sha256 b = vector_manifest sl (cb_vectors b)"
    and "filter (\<lambda>k. chk_revision_id k = rev_id r) (chunks c) = []"
    and "insert_chunks (map (chunk_row (rev_id r)) (cb_vectors b))
        (map (vector_row (rev_id r)) (cb_vectors b)) c = Inr c1"
    and "upd_revision (rev_id r) (vectors_recorded b) c1 = Inr c'"
    and "m = cb_vector_manifest_sha256 b"
  using run
  by (simp add: record_chunk_vectors_def validate_revision_identity_def rbind_eq_Inr if_Inl_eq_Inr
      lift_lifecycle_Inr) blast

lemma insert_chunks_keeps:
  assumes "insert_chunks ks vs c = Inr c'"
  shows "c' = c\<lparr>chunks := chunks c @ ks, chunk_vectors := chunk_vectors c @ vs\<rparr>"
    and "distinct (map chk_id (chunks c @ ks))" and "distinct (map vec_chunk_id (chunk_vectors c @ vs))"
    and "list_all chunk_check ks"
  using assms by (auto simp: insert_chunks_def Let_def split: if_splits)

lemma record_chunk_vectors_lifecycle:
  assumes run: "record_chunk_vectors sl h b c = Inr (m, c')" and ok: "lifecycle_ok c"
  shows "lifecycle_ok c'"
  using run
proof (rule record_chunk_vectorsE)
  fix r c1
  assume r: "load_revision (ph_revision_id h) (Some REV_PREPARING) c = Inr r"
    and ins: "insert_chunks (map (chunk_row (rev_id r)) (cb_vectors b))
        (map (vector_row (rev_id r)) (cb_vectors b)) c = Inr c1"
    and upd: "upd_revision (rev_id r) (vectors_recorded b) c1 = Inr c'"
  note c1 = insert_chunks_keeps(1) [OF ins] and rD = load_revisionD [OF r]
  have ok1: "lifecycle_ok c1"
    by (rule lifecycle_cong [OF ok]) (simp_all add: c1 core_def)
  show ?thesis
    by (rule upd_revision_lifecycle [OF upd ok1])
      (use rD c1 in \<open>auto simp: vectors_recorded_def revision_check_def\<close>)
qed

section \<open>Admission\<close>

lemma uuid4_core [simp]: "core (snd (uuid4 c)) = core c" "operations (snd (uuid4 c)) = operations c"
  by (simp_all add: uuid4_def core_def)

lemma reserve_keeps:
  assumes "reserve_idempotency sha256 now key action actor material c = Inr (r, c')"
  shows "core c' = core c" and "operations c' = operations c"
  using assms
  by (auto simp: reserve_idempotency_def Let_def uuid4_def add_idempotency_def core_def rbind_eq_Inr
      split: if_splits option.splits)

lemma document_entered_ok:
  assumes ok: "lifecycle_ok c" and chk: "document_check d" and st: "doc_state d = PREFLIGHTING"
    and fresh: "doc_id d \<notin> doc_id ` set (documents c)"
    and docs: "documents c' = tadd d (documents c)"
    and same: "revisions c' = revisions c" "publications c' = publications c" "deletions c' = deletions c"
      "tombstones c' = tombstones c"
  shows "catalog_ok c'"
proof -
  note cat = lifecycle_okD(1) [OF ok]
  have "document_ok c' e" if "e \<in> set (documents c)" for e
    using cat that same
    by (auto simp: catalog_ok_def document_ok_def deletion_bound_def ready_bound_def verified_for_def)
  moreover have "deletion_of c (doc_id d) = None" "tombstone_of c (doc_id d) = None"
    using fresh lifecycle_okD(5) [OF ok] by (auto simp: tget_None_iff rows_owned_def)
  then have "document_ok c' d"
    using chk st same by (simp add: document_ok_def deletion_bound_def deletion_row_ok_def ready_bound_def)
  ultimately show ?thesis
    using cat same fresh by (simp add: catalog_ok_def docs tadd_def)
qed

lemma enter_document_lifecycle:
  assumes run: "enter_document respond now idem actor who d c = Inr (x, c')" and ok: "lifecycle_ok c"
    and st: "doc_state d = PREFLIGHTING" and rb: "doc_replaced_by d = None"
  shows "lifecycle_ok c'"
proof -
  obtain c1 op c2 where add: "add_document d c = Inr c1"
    and enq: "enqueue_operation now (doc_id d) PREFLIGHT NORMAL None None (Some (idem_id idem)) QUEUED c1 = Inr (op, c2)"
    and c': "core c' = core c2" "operations c' = operations c2"
    using run by (auto simp: enter_document_def rbind_eq_Inr core_def audit_def upd_idempotency_def)
  note eff = enqueue_operation_effect [OF enq]
  have c1: "documents c1 = tadd d (documents c)" "revisions c1 = revisions c" "publications c1 = publications c"
    "deletions c1 = deletions c" "tombstones c1 = tombstones c" "operations c1 = operations c"
    and chk: "document_check d"
    using add by (auto simp: add_document_def split: if_splits)
  have fresh: "doc_id d \<notin> doc_id ` set (documents c)"
    by (rule document_inserts.add_fresh [OF add])
  have same: "documents c' = tadd d (documents c)" "revisions c' = revisions c"
    "publications c' = publications c" "deletions c' = deletions c" "tombstones c' = tombstones c"
    "operations c' = tadd op (operations c)"
    using c' eff(1,2) c1 by (simp_all add: core_def)
  have none: "view c (doc_id d) = None"
    using fresh by (simp add: view_def tget_None_iff)
  have v: "view c' = (view c)(doc_id d \<mapsto> (PREFLIGHTING, None))"
  proof
    fix j
    show "view c' j = ((view c)(doc_id d \<mapsto> (PREFLIGHTING, None))) j"
      using none st rb by (auto simp: view_def same(1) tget_tadd split: option.splits)
  qed
  have free: "\<forall>x\<in>set (operations c). op_document_id x = op_document_id op \<longrightarrow> \<not> is_open x"
  proof (intro ballI impI notI)
    fix x assume x: "x \<in> set (operations c)" "op_document_id x = op_document_id op" "is_open x"
    then have "at_work (view c (doc_id d)) (op_type x)"
      using bindings_D [OF lifecycle_okD(3) [OF ok] x(1)] eff(3) by (simp add: op_bound_def)
    then show False
      using none by (simp add: at_work_def)
  qed
  have "bindings ((view c)(op_document_id op \<mapsto> (working_state (op_type op), None))) (revs c)
      (tadd op (operations c))"
    by (rule bindings_start [OF lifecycle_okD(3) [OF ok] free]) (use eff c1 none in auto)
  then have "bindings (view c') (revs c') (operations c')"
    using v eff same revs_cong [of c' c] by simp
  moreover have "catalog_ok c'"
    by (rule document_entered_ok [OF ok chk st fresh same(1-5)])
  moreover have "queue_ok c'"
  proof -
    have "fresh_operation c op"
      using enqueue_fresh(1) [OF enq] next_attempt_cong [OF c1(6)] c1(6) by (simp add: fresh_operation_def)
    then show ?thesis
      by (rule fresh_operation_ok [OF _ lifecycle_okD(2) [OF ok] same(6)])
  qed
  moreover have "publications_ok c'"
    by (rule publications_ok_cong [OF lifecycle_okD(4) [OF ok]]) (use same in auto)
  moreover have "rows_owned c'"
    using lifecycle_okD(5) [OF ok] same by (auto simp: rows_owned_def)
  ultimately show ?thesis
    by (simp add: lifecycle_ok_def)
qed

lemma register_admission_lifecycle:
  assumes run: "register_admission sl respond now prepared key actor who c fs = (Inr (x, c'), fs', staged)"
    and ok: "lifecycle_ok c"
  shows "lifecycle_ok c'"
proof -
  obtain r c1 where res: "reserve_idempotency (sl_sha256 sl) now key ''upload_document'' who
      (admission_material prepared) c = Inr (r, c1)"
    using run by (auto simp: register_admission_def split: sum.splits)
  have ok1: "lifecycle_ok c1"
    by (rule lifecycle_cong [OF ok reserve_keeps [OF res]])
  show ?thesis
  proof (cases r)
    case (IdempotencyReplay status body)
    then show ?thesis
      using run res ok1 by (simp add: register_admission_def)
  next
    case (Reserved idem)
    then obtain k skey where ent: "enter_document respond now idem actor who
        (admitted_document now k prepared who skey) (snd (uuid4 c1)) = Inr (x, c')"
      using run res
      by (auto simp: register_admission_def Let_def uuid4_def split: if_splits sum.splits prod.splits)
    have "lifecycle_ok (snd (uuid4 c1))"
      by (rule lifecycle_cong [OF ok1]) simp_all
    then show ?thesis
      by (rule enter_document_lifecycle [OF ent]) (simp_all add: admitted_document_def)
  qed
qed

end
