(* ===== verification/Reachability.thy ===== *)
theory Reachability
  imports Preflight_Safety
begin

text \<open>
  The bridge as a transition system over its catalog.  A step is one committed transaction of a
  request or of a worker, with any arguments; a transaction that raises is rolled back and is no
  step.  Every interleaving of requests and workers is a sequence of such steps, because
  SQLite serialises the transactions that write.

  The stages of preparation that fill and seal a revision are represented by what the schema and
  the immutability listener allow them (\<open>prepare\<close>); the other rules are the modelled transactions.
  The time of a worker's step is not before the creation of any operation.
\<close>

inductive step :: "catalog \<Rightarrow> catalog \<Rightarrow> bool" where
  admit: "register_admission sl respond now prepared key actor_type actor_id c fs = (Inr (x, c'), fs', staged)
     \<Longrightarrow> step c c'"
| decide: "record_decision now did rid action target idem actor_type actor_id screening c = Inr (m, c')
     \<Longrightarrow> step c c'"
| retry: "request_retry now did idem actor_type actor_id c = Inr (m, c') \<Longrightarrow> step c c'"
| delete: "request_deletion now did idem actor_type actor_id active screening c = Inr (m, c') \<Longrightarrow> step c c'"
| bookkeeping: "core c' = core c \<Longrightarrow> operations c' = operations c \<Longrightarrow> step c c'"
| recover: "recover_leases now c = (n, c') \<Longrightarrow> step c c'"
| renew: "renew_leases st now wk c = (n, c') \<Longrightarrow> step c c'"
| claim: "claim_next st rt now nt wk c = Inr (r, wk', c') \<Longrightarrow> step c c'"
| phase: "on_time now c \<Longrightarrow> set_phase wid oid ph now c = Inr c' \<Longrightarrow> step c c'"
| bind: "bind_revision wid oid rid c = Inr c' \<Longrightarrow> step c c'"
| begin_index_work: "begin_outbox did rid tgt act coll n c = Inr (i, c') \<Longrightarrow> step c c'"
| complete_index_work: "complete_outbox i now c = Inr c' \<Longrightarrow> step c c'"
| start_revision: "create_revision did ident now c = Inr (h, c') \<Longrightarrow> step c c'"
| prepare: "upd_revision k f c = Inr c'
     \<Longrightarrow> (\<And>r. get_revision c k = Some r \<Longrightarrow> rev_status r \<noteq> REV_SEALED)
     \<Longrightarrow> (\<And>r. rev_id (f r) = rev_id r \<and> rev_document_id (f r) = rev_document_id r)
     \<Longrightarrow> (\<And>r. revision_check r \<Longrightarrow> revision_check (f r)) \<Longrightarrow> step c c'"
| vectors: "record_chunk_vectors sl h b c = Inr (m', c') \<Longrightarrow> step c c'"
| fail_revision: "fail_preparation rid code message now c = Inr c' \<Longrightarrow> step c c'"
| reject: "on_time now c
     \<Longrightarrow> (\<And>w. get_operation c oid = Some w \<Longrightarrow> op_type w = PREFLIGHT \<and> op_document_id w = did)
     \<Longrightarrow> accept_rejection_txn wid oid did reason active screening now c = Inr c' \<Longrightarrow> step c c'"
| preflighted: "on_time now c \<Longrightarrow> finish_preflight wid oid sealed now c = Inr c' \<Longrightarrow> step c c'"
| upserted: "mark_upserted wid oid rid c = Inr c' \<Longrightarrow> step c c'"
| published: "on_time now c \<Longrightarrow> finish_publication wid oid did rid n now c = Inr c' \<Longrightarrow> step c c'"
| attempt: "count_deletion_attempt did c = Inr c' \<Longrightarrow> step c c'"
| deletion_phase: "on_time now c \<Longrightarrow> set_deletion_phase wid oid did dp now c = Inr c' \<Longrightarrow> step c c'"
| zero: "on_time now c \<Longrightarrow> record_zero_verification wid oid did act' now c = Inr c' \<Longrightarrow> step c c'"
| purge: "on_time now c \<Longrightarrow> commit_purge wid oid did key rs now c = Inr c' \<Longrightarrow> step c c'"
| commit: "on_time now c \<Longrightarrow> (\<And>w. get_operation c oid = Some w \<Longrightarrow> deletes w did)
     \<Longrightarrow> commit_deletion wid oid did now c = Inr c' \<Longrightarrow> step c c'"
| fail: "fail_operation wid oid exc now c = Inr c' \<Longrightarrow> step c c'"

inductive reachable :: "catalog \<Rightarrow> bool" where
  initial: "reachable (empty_catalog supply)"
| later: "reachable c \<Longrightarrow> step c c' \<Longrightarrow> reachable c'"

lemma step_lifecycle: "step c c' \<Longrightarrow> lifecycle_ok c \<Longrightarrow> lifecycle_ok c'"
proof (induction rule: step.induct)
  case (bookkeeping c' c) then show ?case using lifecycle_cong by blast
next
  case (prepare k f c c') then show ?case using upd_revision_lifecycle by blast
next
  case (begin_index_work did rid tgt act coll n c i c')
  then show ?case using lifecycle_cong begin_outbox_keeps by blast
next
  case (complete_index_work i now c c') then show ?case using lifecycle_cong complete_outbox_keeps by blast
qed (blast intro: register_admission_lifecycle record_decision_lifecycle request_retry_lifecycle
    request_deletion_lifecycle recover_leases_lifecycle renew_leases_lifecycle claim_next_lifecycle
    set_phase_lifecycle bind_revision_lifecycle create_revision_lifecycle record_chunk_vectors_lifecycle
    fail_preparation_lifecycle accept_rejection_lifecycle finish_preflight_lifecycle
    mark_upserted_lifecycle finish_publication_lifecycle count_deletion_attempt_lifecycle
    set_deletion_phase_lifecycle record_zero_verification_lifecycle commit_purge_lifecycle
    commit_deletion_lifecycle fail_operation_lifecycle)+

lemma empty_lifecycle: "lifecycle_ok (empty_catalog supply)"
  by (simp add: lifecycle_ok_def catalog_ok_def queue_ok_def bindings_def single_open_def
      replaced_blocked_def publications_ok_def rows_owned_def empty_catalog_def view_def)

lemma reachable_lifecycle: "reachable c \<Longrightarrow> lifecycle_ok c"
  by (induction rule: reachable.induct) (use empty_lifecycle step_lifecycle in blast)+

section \<open>Work and documents\<close>

lemma open_work_state:
  assumes "bindings (view c) (revs c) (operations c)" and "w \<in> set (operations c)" and "is_open w"
  shows "\<exists>d. get_document c (op_document_id w) = Some d \<and> doc_state d = working_state (op_type w)
    \<and> (op_type w = DELETE \<longrightarrow> doc_replaced_by d = None)"
  using bindings_D [OF assms(1,2)] assms(3)
  by (auto simp: op_bound_def at_work_def view_def split: option.splits)

lemma replaced_has_no_work:
  assumes b: "bindings (view c) (revs c) (operations c)"
    and d: "get_document c t = Some d" "doc_replaced_by d = Some k"
    and x: "x \<in> set (operations c)" "op_document_id x = t"
  shows "\<not> is_open x \<and> doc_state d \<in> set CONTENT_BLOCKED_DOCUMENT_STATES"
proof -
  have blocked: "doc_state d \<in> {DELETING, DELETE_FAILED, REJECTED, CANCELLED, DELETED}"
    using b view_Some [OF d(1)] d(2) by (auto simp: bindings_def replaced_blocked_def)
  moreover have False if "is_open x"
    using open_work_state [OF b x(1) that] x(2) d blocked by (cases "op_type x") auto
  ultimately show ?thesis
    by (auto simp: CONTENT_BLOCKED_DOCUMENT_STATES_def TERMINAL_DOCUMENT_STATES_def)
qed

end
