(* ===== verification/Workflow_Safety.thy ===== *)
theory Workflow_Safety
  imports Reachability
begin

text \<open>
  The workflows of a claimed operation as a whole: whatever point they reach before they return or
  raise, the catalog they leave satisfies the lifecycle invariant.
\<close>

section \<open>Steady transactions\<close>

text \<open>The columns of the operations that no step of a workflow changes.\<close>

definition skeleton :: "catalog \<Rightarrow> (uuid \<times> uuid \<times> operation_type \<times> uuid option \<times> timestamp) list" where
  "skeleton c = map (\<lambda>w. (op_id w, op_document_id w, op_type w, op_replacement_target w, op_created_at w))
     (operations c)"

lemma skeleton_upd:
  assumes "operations c' = tupd op_id k f (operations c)"
    and "\<And>w. op_id (f w) = op_id w \<and> op_document_id (f w) = op_document_id w \<and> op_type (f w) = op_type w
      \<and> op_replacement_target (f w) = op_replacement_target w \<and> op_created_at (f w) = op_created_at w"
  shows "skeleton c' = skeleton c"
  unfolding skeleton_def assms(1) by (rule map_key_tupd) (simp add: assms(2))

lemma skeleton_cong: "operations c' = operations c \<Longrightarrow> skeleton c' = skeleton c"
  by (simp add: skeleton_def)

lemma skeleton_upd_operation:
  assumes "\<And>w. op_id (f w) = op_id w \<and> op_document_id (f w) = op_document_id w \<and> op_type (f w) = op_type w
      \<and> op_replacement_target (f w) = op_replacement_target w \<and> op_created_at (f w) = op_created_at w"
  shows "skeleton (upd_operation k f c) = skeleton c"
  using assms by (intro skeleton_upd [where k = k and f = f]) (simp add: operation_rows.rows_upd, blast)

lemma skeleton_keeps [simp]:
  "skeleton (upd_document k f c) = skeleton c" "skeleton (upd_deletion k g c) = skeleton c"
  "skeleton (upd_outbox i h c) = skeleton c" "skeleton (audit e a b d w xs c) = skeleton c"
  by (simp_all add: skeleton_def)

lemma skeleton_phase [simp]:
  "skeleton (upd_operation k (\<lambda>w. snd (set_operation_phase phase now w)) c) = skeleton c"
  by (rule skeleton_upd_operation) (simp add: set_operation_phase_def)

lemma skeleton_finish [simp]:
  "skeleton (upd_operation k (finish_operation phase now) c) = skeleton c"
  by (rule skeleton_upd_operation) (simp add: finish_operation_def set_operation_phase_def)

lemma on_time_skeleton: "skeleton c' = skeleton c \<Longrightarrow> on_time now c' = on_time now c"
proof -
  have "on_time now c \<longleftrightarrow> (\<forall>(_, _, _, _, t)\<in>set (skeleton c). t \<le> now)" for c
    by (auto simp: on_time_def skeleton_def)
  then show "skeleton c' = skeleton c \<Longrightarrow> on_time now c' = on_time now c"
    by simp
qed

text \<open>\<open>oid\<close> is work on \<open>did\<close>: its own document or its replacement target.\<close>

definition works_on :: "uuid \<Rightarrow> uuid \<Rightarrow> catalog \<Rightarrow> bool" where
  "works_on oid did c \<longleftrightarrow> (\<forall>w. get_operation c oid = Some w \<longrightarrow> deletes w did)"

lemma get_skeleton:
  "map_option (\<lambda>w. (op_id w, op_document_id w, op_type w, op_replacement_target w, op_created_at w))
     (get_operation c oid) = find (\<lambda>(i, _). i = oid) (skeleton c)"
proof -
  have "map_option (\<lambda>w. (op_id w, op_document_id w, op_type w, op_replacement_target w, op_created_at w))
     (tget op_id oid ws) = find (\<lambda>(i, _). i = oid)
       (map (\<lambda>w. (op_id w, op_document_id w, op_type w, op_replacement_target w, op_created_at w)) ws)" for ws
    by (induction ws) (auto simp: tget_def)
  then show ?thesis by (simp add: skeleton_def)
qed

lemma works_on_skeleton: "skeleton c' = skeleton c \<Longrightarrow> works_on oid did c' = works_on oid did c"
proof -
  assume "skeleton c' = skeleton c"
  then have "map_option (\<lambda>w. (op_id w, op_document_id w, op_type w, op_replacement_target w, op_created_at w))
     (get_operation c' oid) = map_option (\<lambda>w. (op_id w, op_document_id w, op_type w, op_replacement_target w,
       op_created_at w)) (get_operation c oid)"
    by (simp add: get_skeleton)
  then show ?thesis
    by (cases "get_operation c oid"; cases "get_operation c' oid") (auto simp: works_on_def deletes_def)
qed

text \<open>The skeleton is \<open>S\<close>, and there \<open>oid\<close> is work on \<open>did\<close>.\<close>

definition frozen ::
  "(uuid \<times> uuid \<times> operation_type \<times> uuid option \<times> timestamp) list \<Rightarrow> uuid \<Rightarrow> uuid \<Rightarrow> catalog \<Rightarrow> bool" where
  "frozen S oid did c \<longleftrightarrow> skeleton c = S \<and> works_on oid did c"

lemma frozen_skeleton: "skeleton c' = skeleton c \<Longrightarrow> frozen S oid did c' = frozen S oid did c"
  using works_on_skeleton [of c' c oid did] by (simp add: frozen_def)

definition steady :: "(catalog \<Rightarrow> bool) \<Rightarrow> 'q world \<Rightarrow> bool" where
  "steady G w \<longleftrightarrow> lifecycle_ok (w_catalog w) \<and> (\<forall>n. on_time (w_clock w n) (w_catalog w)) \<and> G (w_catalog w)"

text \<open>
  A transaction that keeps the invariant and the skeleton, under a condition that depends on the
  skeleton only.
\<close>

locale steady_txn =
  fixes f :: "timestamp \<Rightarrow> catalog \<Rightarrow> worker_error + 'a \<times> catalog"
    and G :: "catalog \<Rightarrow> bool"
  assumes keeps_ok: "lifecycle_ok c \<Longrightarrow> on_time now c \<Longrightarrow> G c \<Longrightarrow> f now c = Inr (x, c') \<Longrightarrow> lifecycle_ok c'"
    and keeps_skeleton: "f now c = Inr (x, c') \<Longrightarrow> skeleton c' = skeleton c"
    and guard: "skeleton c' = skeleton c \<Longrightarrow> G c' = G c"
begin

lemma keeps_steady: "keeps (steady G) (txn f)"
  unfolding keeps_def
proof (intro allI impI)
  fix w :: "'q world" assume w: "steady G w"
  show "steady G (snd (txn f w))"
  proof (cases "f (w_clock w (w_ticks w)) (w_catalog w)")
    case (Inl e)
    then show ?thesis
      using w by (simp add: txn_def steady_def Let_def)
  next
    case (Inr r)
    obtain x c' where r: "r = (x, c')" by fastforce
    have sk: "skeleton c' = skeleton (w_catalog w)"
      by (rule keeps_skeleton [OF Inr [unfolded r]])
    have "lifecycle_ok c'"
      by (rule keeps_ok [OF _ _ _ Inr [unfolded r]]) (use w in \<open>auto simp: steady_def\<close>)
    then show ?thesis
      using w Inr r on_time_skeleton [OF sk] guard [OF sk] by (simp add: txn_def steady_def Let_def)
  qed
qed

end

lemma keeps_steady_query [intro]: "keeps (steady G) (query f)"
  by (simp add: keeps_def query_def)

lemma keeps_steady_read [intro]: "keeps (steady G) (read_index m)"
  by (simp add: keeps_def read_index_def)

lemma keeps_steady_index [intro]: "keeps (steady G) (on_index m)"
  by (simp add: keeps_def steady_def on_index_def Let_def split: prod.splits)

lemma keeps_steady_files [intro]: "keeps (steady G) (on_files f)"
  by (auto simp: keeps_def steady_def on_files_def split: sum.splits)

abbreviation unit_txn :: "(timestamp \<Rightarrow> catalog \<Rightarrow> worker_error + catalog)
    \<Rightarrow> timestamp \<Rightarrow> catalog \<Rightarrow> worker_error + unit \<times> catalog" where
  "unit_txn f \<equiv> \<lambda>now c. rbind (f now c) (\<lambda>c'. Inr ((), c'))"

lemma steady_unit_txn:
  assumes "\<And>now c c'. lifecycle_ok c \<Longrightarrow> on_time now c \<Longrightarrow> G c \<Longrightarrow> f now c = Inr c' \<Longrightarrow> lifecycle_ok c'"
    and "\<And>now c c'. f now c = Inr c' \<Longrightarrow> skeleton c' = skeleton c"
    and "\<And>c c'. skeleton c' = skeleton c \<Longrightarrow> G c' = G c"
  shows "steady_txn (unit_txn f) G"
proof unfold_locales
  fix now c x c'
  assume run: "unit_txn f now c = Inr (x, c')"
  then have f: "f now c = Inr c'"
    by (simp add: rbind_eq_Inr)
  show "skeleton c' = skeleton c"
    by (rule assms(2) [OF f])
  show "lifecycle_ok c'" if "lifecycle_ok c" "on_time now c" "G c"
    by (rule assms(1) [OF that f])
qed (rule assms(3))

lemma keeps_unit_txn: "steady_txn (unit_txn f) G \<Longrightarrow> keeps (steady G) (txn_unit f)"
  unfolding txn_unit_def by (rule steady_txn.keeps_steady)

interpretation phase_txn: steady_txn "unit_txn (set_phase wid oid phase)" "frozen S oid' did" for wid oid phase oid' did S
  by (rule steady_unit_txn [OF set_phase_lifecycle _ frozen_skeleton])
    (auto simp: set_phase_def split: if_splits option.splits)

interpretation deletion_phase_txn: steady_txn "unit_txn (set_deletion_phase wid oid did phase)" "frozen S oid' did'"
  for wid oid did phase oid' did' S
  by (rule steady_unit_txn [OF set_deletion_phase_lifecycle _ frozen_skeleton])
    (auto simp: set_deletion_phase_def split: if_splits option.splits)

interpretation zero_txn: steady_txn "unit_txn (record_zero_verification wid oid did active)" "frozen S oid' did'"
  for wid oid did active oid' did' S
  by (rule steady_unit_txn [OF record_zero_verification_lifecycle _ frozen_skeleton])
    (auto simp: record_zero_verification_def split: if_splits option.splits)

interpretation attempt_txn: steady_txn "unit_txn (\<lambda>_. count_deletion_attempt did)" "frozen S oid' did'"
  for did oid' did' S
  by (rule steady_unit_txn [OF count_deletion_attempt_lifecycle _ frozen_skeleton])
    (auto simp: count_deletion_attempt_def split: option.splits)

lemma skeleton_delete_content [simp]: "skeleton (delete_revision_content rs c) = skeleton c"
  by (simp add: skeleton_def delete_revision_content_def)

interpretation purge_txn: steady_txn "unit_txn (commit_purge wid oid did key rs)" "frozen S oid' did'"
  for wid oid did key rs oid' did' S
  by (rule steady_unit_txn [OF commit_purge_lifecycle _ frozen_skeleton])
    (auto simp: commit_purge_def Let_def split: if_splits option.splits)

lemma commit_tombstone_skeleton:
  assumes "commit_tombstone now d reason actor who c = Inr (t, c')"
  shows "skeleton c' = skeleton c"
  using assms
  by (auto simp: commit_tombstone_def uuid4_def Let_def rbind_eq_Inr add_tombstone_def skeleton_def
      split: if_splits option.splits)

interpretation commit_txn: steady_txn "unit_txn (commit_deletion wid oid did)" "frozen S oid did"
  for wid oid did S
proof (rule steady_unit_txn [OF _ _ frozen_skeleton])
  show "lifecycle_ok c'" if "lifecycle_ok c" "on_time now c" "frozen S oid did c" "commit_deletion wid oid did now c = Inr c'"
    for now c c'
    using commit_deletion_lifecycle [OF that(4,1,2)] that(3) by (simp add: frozen_def works_on_def)
  show "skeleton c' = skeleton c" if "commit_deletion wid oid did now c = Inr c'" for now c c'
    using that
  proof (rule commit_deletionE)
    fix w t c1 and d :: document
    assume tomb: "commit_tombstone now d (if doc_terminal_disposition d = Some TD_REJECTED
        then doc_failure_code d else None) ''system'' wid c = Inr (t, c1)"
      and ops: "operations c' = (if op_type w = DELETE \<and> op_document_id w = did
        then tupd op_id oid (finish_operation COMPLETE now) (operations c1) else operations c1)"
    have "skeleton c' = skeleton c1"
      using ops skeleton_finish [of oid COMPLETE now c1] by (auto simp: skeleton_def operation_rows.rows_upd)
    then show ?thesis
      using commit_tombstone_skeleton [OF tomb] by simp
  qed
qed

lemma begin_outbox_lifecycle:
  "begin_outbox did rid tgt act coll n c = Inr (i, c') \<Longrightarrow> lifecycle_ok c \<Longrightarrow> lifecycle_ok c'"
  using lifecycle_cong begin_outbox_keeps by blast

lemma complete_outbox_lifecycle:
  "complete_outbox i now c = Inr c' \<Longrightarrow> lifecycle_ok c \<Longrightarrow> lifecycle_ok c'"
  using lifecycle_cong complete_outbox_keeps by blast

interpretation outbox_txn: steady_txn "\<lambda>_. begin_outbox did rid tgt act coll n" "frozen S oid' did'"
  for did rid tgt act coll n oid' did' S
proof unfold_locales
  show "skeleton c' = skeleton c" if "begin_outbox did rid tgt act coll n c = Inr (i, c')" for c i c'
    by (rule skeleton_cong [OF begin_outbox_keeps(2) [OF that]])
qed (blast intro: begin_outbox_lifecycle, rule frozen_skeleton)

interpretation deletion_outbox_txn: steady_txn "\<lambda>_. deletion_outbox did r tgt coll" "frozen S oid' did'"
  for did r tgt coll oid' did' S
proof unfold_locales
  show "skeleton c' = skeleton c" if "deletion_outbox did r tgt coll c = Inr (i, c')" for c i c'
    by (rule skeleton_cong [OF deletion_outbox_keeps(2) [OF that]])
  show "lifecycle_ok c'" if "lifecycle_ok c" "deletion_outbox did r tgt coll c = Inr (i, c')" for c i c'
    by (rule lifecycle_cong [OF that(1) deletion_outbox_keeps [OF that(2)]])
qed (rule frozen_skeleton)

interpretation complete_txn: steady_txn "unit_txn (complete_outbox i)" "frozen S oid' did'" for i oid' did' S
  by (rule steady_unit_txn [OF complete_outbox_lifecycle _ frozen_skeleton])
    (auto dest: complete_outbox_keeps(2) intro: skeleton_cong)

section \<open>Deletion\<close>

lemma keeps_option [intro]:
  "keeps P m \<Longrightarrow> (\<And>x. keeps P (f x)) \<Longrightarrow> keeps P (case v of None \<Rightarrow> m | Some x \<Rightarrow> f x)"
  by (cases v) auto

lemma keeps_prod [intro]: "(\<And>x y. keeps P (f x y)) \<Longrightarrow> keeps P (case v of (x, y) \<Rightarrow> f x y)"
  by (cases v) auto

lemmas steady_intros = keeps_ibind keeps_iret keeps_iraise keeps_if keeps_option keeps_prod
  keeps_steady_query keeps_steady_read keeps_steady_index keeps_steady_files

lemmas steady_txns =
  keeps_unit_txn [OF phase_txn.steady_txn_axioms] keeps_unit_txn [OF deletion_phase_txn.steady_txn_axioms]
  keeps_unit_txn [OF zero_txn.steady_txn_axioms] keeps_unit_txn [OF attempt_txn.steady_txn_axioms]
  keeps_unit_txn [OF purge_txn.steady_txn_axioms] keeps_unit_txn [OF commit_txn.steady_txn_axioms]
  keeps_unit_txn [OF complete_txn.steady_txn_axioms] outbox_txn.keeps_steady deletion_outbox_txn.keeps_steady

lemma clear_collection_steady:
  "keeps (steady (frozen S oid did)) (clear_collection en client oid did r active collection)"
  unfolding clear_collection_def by (intro steady_intros steady_txns)

lemma remove_keys_steady: "keeps (steady G) (remove_keys allow ks)"
  by (induction ks) (auto simp: remove_key_def intro!: steady_intros)

lemma purge_document_content_steady:
  "keeps (steady (frozen S oid did)) (purge_document_content en oid did allow)"
  unfolding purge_document_content_def remove_artifact_root_def
  by (intro steady_intros steady_txns remove_keys_steady)

lemma run_deletion_phases_steady:
  "keeps (steady (frozen S oid did)) (run_deletion_phases en oid did)"
  unfolding run_deletion_phases_def required_qdrant_def
  by (intro steady_intros steady_txns clear_collection_steady purge_document_content_steady)


section \<open>Publication\<close>

interpretation upserted_txn: steady_txn "unit_txn (\<lambda>_. mark_upserted wid oid rid)" "frozen S oid' did'"
  for wid oid rid oid' did' S
proof (rule steady_unit_txn [OF mark_upserted_lifecycle _ frozen_skeleton])
  show "skeleton c' = skeleton c" if "mark_upserted wid oid rid c = Inr c'" for c c'
    using that
    by (auto simp: mark_upserted_def lift_lifecycle_Inr intro!: skeleton_cong dest: upd_publication_keeps(5)
        split: option.splits if_splits)
qed

interpretation published_txn: steady_txn "unit_txn (finish_publication wid oid did rid n)" "frozen S oid' did'"
  for wid oid did rid n oid' did' S
proof (rule steady_unit_txn [OF finish_publication_lifecycle _ frozen_skeleton])
  show "skeleton c' = skeleton c" if "finish_publication wid oid did rid n now c = Inr c'" for now c c'
    using that
  proof (rule finish_publicationE)
    fix p c1
    assume upd: "upd_publication (pub_id p) (verified_publication n now) c = Inr c1"
      and ops: "operations c' = tupd op_id oid (finish_operation COMPLETE now) (operations c1)"
    show ?thesis
      using skeleton_finish [of oid COMPLETE now c1] skeleton_cong [OF upd_publication_keeps(5) [OF upd]] ops
      by (simp add: skeleton_def operation_rows.rows_upd)
  qed
qed

lemmas publish_txns = keeps_unit_txn [OF upserted_txn.steady_txn_axioms]
  keeps_unit_txn [OF published_txn.steady_txn_axioms]

lemma publish_active_steady:
  "keeps (steady (frozen S oid' did')) (publish_active en client oid did rid active n points)"
  unfolding publish_active_def by (intro steady_intros steady_txns publish_txns)

lemma retire_screening_steady:
  "keeps (steady (frozen S oid' did')) (retire_screening en client oid did rid screening)"
  unfolding retire_screening_def by (intro steady_intros steady_txns)

text \<open>The deletion of the replaced document inside a publication.\<close>

lemma replacement_steady:
  assumes w: "steady (frozen S oid did) w"
    and snap: "operation_snapshot_of wid oid (w_catalog w) = Inr snapshot"
    and target: "sn_replacement_target snapshot = Some t"
  shows "steady (frozen S oid did) (snd (run_deletion_phases en oid t w))"
proof -
  have "works_on oid t (w_catalog w)"
    using snap target
    by (auto simp: operation_snapshot_of_def works_on_def deletes_def owned_operation_def
        split: option.splits if_splits)
  then have "steady (frozen S oid t) w"
    using w by (simp add: steady_def frozen_def)
  then have "steady (frozen S oid t) (snd (run_deletion_phases en oid t w))"
    by (rule keepsD [OF run_deletion_phases_steady])
  moreover have "works_on oid did c" if "skeleton c = S" for c
    using w that works_on_skeleton [of c "w_catalog w" oid did] by (simp add: steady_def frozen_def)
  ultimately show ?thesis
    by (simp add: steady_def frozen_def)
qed

text \<open>What follows the optional deletion of the replaced document.\<close>

definition publish_rest :: "'q env \<Rightarrow> uuid \<Rightarrow> uuid \<Rightarrow> uuid \<Rightarrow> ('q, unit) action" where
  "publish_rest en oid did rid =
     ibind (required_screening_collection en) (\<lambda>screening.
     ibind (query (publication_checkpoint (en_worker_id en) oid did rid)) (\<lambda>(active, expected_points).
     ibind (query (reconstruct_chunk_points (en_stdlib en) rid True)) (\<lambda>points.
     if \<not> manifest_points_match did rid active expected_points points
     then iraise (worker_failure ''publication_manifest_invalid''
       ''Reconstructed publication points did not match the sealed manifest.'' False)
     else
     ibind (required_qdrant en) (\<lambda>client.
     ibind (publish_active en client oid did rid active expected_points points) (\<lambda>_.
     ibind (retire_screening en client oid did rid screening) (\<lambda>_.
       txn_unit (finish_publication (en_worker_id en) oid did rid expected_points)))))))"

lemma keeps_screening: "keeps P (required_screening_collection en)"
  by (auto simp: required_screening_collection_def split: option.splits list.splits)

lemma publish_rest_steady: "keeps (steady (frozen S oid' did')) (publish_rest en oid did rid)"
  unfolding publish_rest_def required_qdrant_def
  by (intro steady_intros steady_txns publish_txns publish_active_steady retire_screening_steady keeps_screening)

lemma run_publish_steady: "keeps (steady (frozen S oid did)) (run_publish en oid did)"
  unfolding keeps_def
proof (intro allI impI)
  fix w :: "'a world" assume w: "steady (frozen S oid did) w"
  show "steady (frozen S oid did) (snd (run_publish en oid did w))"
  proof (cases "operation_snapshot_of (en_worker_id en) oid (w_catalog w)")
    case (Inl e)
    then show ?thesis using w by (simp add: run_publish_def ibind_def query_def)
  next
    case (Inr snapshot)
    let ?del = "case sn_replacement_target snapshot of None \<Rightarrow> iret () | Some t \<Rightarrow> run_deletion_phases en oid t"
    have del: "steady (frozen S oid did) (snd (?del w))"
      using w replacement_steady [OF w Inr] by (simp add: iret_def split: option.splits)
    have rest: "steady (frozen S oid did) (snd (ibind ?del (\<lambda>_. publish_rest en oid did rid) w))" for rid
    proof (cases "?del w")
      case (Pair r w')
      have w': "steady (frozen S oid did) w'" using del Pair by simp
      show ?thesis
      proof (cases r)
        case (Inl e) then show ?thesis using Pair w' by (simp add: ibind_def)
      next
        case (Inr x)
        then show ?thesis
          using Pair keepsD [OF publish_rest_steady w'] by (simp add: ibind_def)
      qed
    qed
    then show ?thesis
      using Inr w
      by (simp add: run_publish_def publish_rest_def ibind_def query_def iraise_def split: option.splits)
  qed
qed

lemma run_delete_steady: "keeps (steady (frozen S oid did)) (run_delete en oid did)"
  unfolding run_delete_def by (intro steady_intros run_deletion_phases_steady)

end
