(* ===== verification/Deletion_Complete.thy ===== *)
theory Deletion_Complete
  imports Workflow_Safety
begin

text \<open>
  What a deletion run that returns has done: the tombstone of the document is committed, and, on a first
  run, both vector collections report no point of it and its source and artifacts are gone.
\<close>

section \<open>What a completed deletion has done\<close>

lemma commit_deletion_tombstones:
  assumes "commit_deletion wid oid did now c = Inr c'"
  shows "\<exists>d p. get_document c' did = Some d \<and> deletion_of c' did = Some p \<and> del_tombstoned_at p \<noteq> None"
  using assms
proof (rule commit_deletionE)
  fix w t c1 and d :: document
  let ?reason = "if doc_terminal_disposition d = Some TD_REJECTED then doc_failure_code d else None"
  assume row: "get_document c did = Some d"
    and tomb: "commit_tombstone now d ?reason ''system'' wid c = Inr (t, c1)"
    and core: "core c' = core c1"
  have id: "doc_id d = did"
    by (rule tget_Some_key [OF row])
  show ?thesis
  proof (cases "tombstone_of c (doc_id d) = None")
    case True
    from tomb True show ?thesis
    proof (rule commit_tombstoneE)
      fix p c2
      assume p: "deletion_of c (doc_id d) = Some p"
        and add: "add_tombstone t (c\<lparr>uuid_drawn := Suc (uuid_drawn c)\<rparr>) = Inr c2"
        and core1: "core c1 = core (upd_deletion (doc_id d) (terminal_deletion now)
          (upd_document (doc_id d) (terminal_document now (del_disposition p) ?reason) c2))"
      have c2: "documents c2 = documents c" "deletions c2 = deletions c"
        using add by (auto simp: add_tombstone_def split: if_splits)
      have "documents c' = tupd doc_id did (terminal_document now (del_disposition p) ?reason) (documents c)"
        "deletions c' = tupd del_document_id did (terminal_deletion now) (deletions c)"
        using core core1 c2 id by (simp_all add: core_def document_rows.rows_upd deletion_rows.rows_upd)
      then show ?thesis
        using row p id by (simp add: tget_tupd terminal_deletion_def)
    qed
  next
    case False
    then show ?thesis
      using tomb row core id
      by (auto simp: commit_tombstone_def core_def split: option.splits if_splits)
  qed
qed

text \<open>The run from its checkpoints on, with the flags it read.\<close>

lemma run_deletion_phasesE:
  assumes run: "run_deletion_phases en oid did w = (Inr (), w')"
  obtains r active screening client c1 flags w2 w3 w4 where
    "deletion_checkpoint (en_worker_id en) oid did (w_catalog w) = Inr (r, active, screening)"
    and "count_deletion_attempt did (w_catalog w) = Inr c1"
    and "en_qdrant en = Some client" and "deletion_flags_of did c1 = Inr flags"
    and "w2 = w\<lparr>w_ticks := Suc (w_ticks w), w_catalog := c1\<rparr>"
    and "(if df_active_verified flags then iret ()
          else clear_collection en client oid did r True active) w2 = (Inr (), w3)"
    and "(if df_screening_verified flags then iret ()
          else clear_collection en client oid did r False screening) w3 = (Inr (), w4)"
    and "\<exists>w5. (if df_storage_purged flags then iret ()
          else ibind (txn_unit (set_deletion_phase (en_worker_id en) oid did DP_PURGE_STORAGE)) (\<lambda>_.
            purge_document_content en oid did (df_purge_checkpointed flags))) w4 = (Inr (), w5)
      \<and> (if df_tombstoned flags then iret ()
         else ibind (txn_unit (set_deletion_phase (en_worker_id en) oid did DP_COMMIT_TOMBSTONE)) (\<lambda>_.
           txn_unit (commit_deletion (en_worker_id en) oid did))) w5 = (Inr (), w')"
proof -
  obtain r active screening where
    ck: "deletion_checkpoint (en_worker_id en) oid did (w_catalog w) = Inr (r, active, screening)"
    using run by (auto simp: run_deletion_phases_def ibind_eq_Inr query_Inr)
  obtain client where q: "en_qdrant en = Some client"
    using run by (cases "en_qdrant en")
      (auto simp: run_deletion_phases_def ibind_eq_Inr required_qdrant_def iraise_eq_Inr)
  obtain c1 flags w3 w4 w5 where c1: "count_deletion_attempt did (w_catalog w) = Inr c1"
    and fl: "deletion_flags_of did c1 = Inr flags"
    and s1: "(if df_active_verified flags then iret ()
          else clear_collection en client oid did r True active)
          (w\<lparr>w_ticks := Suc (w_ticks w), w_catalog := c1\<rparr>) = (Inr (), w3)"
    and s2: "(if df_screening_verified flags then iret ()
          else clear_collection en client oid did r False screening) w3 = (Inr (), w4)"
    and s3: "(if df_storage_purged flags then iret ()
          else ibind (txn_unit (set_deletion_phase (en_worker_id en) oid did DP_PURGE_STORAGE)) (\<lambda>_.
            purge_document_content en oid did (df_purge_checkpointed flags))) w4 = (Inr (), w5)"
    and s4: "(if df_tombstoned flags then iret ()
         else ibind (txn_unit (set_deletion_phase (en_worker_id en) oid did DP_COMMIT_TOMBSTONE)) (\<lambda>_.
           txn_unit (commit_deletion (en_worker_id en) oid did))) w5 = (Inr (), w')"
    using run ck q
    by (simp add: run_deletion_phases_def ibind_eq_Inr query_Inr txn_unit_Inr required_qdrant_def
        iret_eq_Inr del: if_split) auto
  show thesis
    by (rule that [OF ck c1 q fl refl s1 s2]) (use s3 s4 in blast)
qed

lemma deletion_complete:
  assumes run: "run_deletion_phases en oid did w = (Inr (), w')"
    and ok: "lifecycle_ok (w_catalog w)" "\<And>n. on_time (w_clock w n) (w_catalog w)"
      "works_on oid did (w_catalog w)"
  shows "lifecycle_ok (w_catalog w')
    \<and> (\<exists>d p. get_document (w_catalog w') did = Some d \<and> deletion_of (w_catalog w') did = Some p
        \<and> del_tombstoned_at p \<noteq> None)"
proof
  let ?S = "skeleton (w_catalog w)"
  have st: "steady (frozen ?S oid did) w"
    using ok by (simp add: steady_def frozen_def)
  have "steady (frozen ?S oid did) w'"
    using keepsD [OF run_deletion_phases_steady st, of en] run by simp
  then show "lifecycle_ok (w_catalog w')"
    by (simp add: steady_def)
  show "\<exists>d p. get_document (w_catalog w') did = Some d \<and> deletion_of (w_catalog w') did = Some p
        \<and> del_tombstoned_at p \<noteq> None"
    using run
  proof (rule run_deletion_phasesE)
    fix r active screening client c1 flags w2 w3 w4
    assume cnt: "count_deletion_attempt did (w_catalog w) = Inr c1"
      and fl: "deletion_flags_of did c1 = Inr flags"
      and w2: "w2 = w\<lparr>w_ticks := Suc (w_ticks w), w_catalog := c1\<rparr>"
      and s1: "(if df_active_verified flags then iret ()
          else clear_collection en client oid did r True active) w2 = (Inr (), w3)"
      and s2: "(if df_screening_verified flags then iret ()
          else clear_collection en client oid did r False screening) w3 = (Inr (), w4)"
      and s3: "\<exists>w5. (if df_storage_purged flags then iret ()
          else ibind (txn_unit (set_deletion_phase (en_worker_id en) oid did DP_PURGE_STORAGE)) (\<lambda>_.
            purge_document_content en oid did (df_purge_checkpointed flags))) w4 = (Inr (), w5)
        \<and> (if df_tombstoned flags then iret ()
           else ibind (txn_unit (set_deletion_phase (en_worker_id en) oid did DP_COMMIT_TOMBSTONE)) (\<lambda>_.
             txn_unit (commit_deletion (en_worker_id en) oid did))) w5 = (Inr (), w')"
    show ?thesis
    proof (cases "df_tombstoned flags")
      case False
      then show ?thesis
        using s3 commit_deletion_tombstones
        by (fastforce simp: ibind_eq_Inr txn_unit_Inr)
    next
      case True
      obtain d p where d: "get_document c1 did = Some d" "deletion_of c1 did = Some p"
        "del_tombstoned_at p \<noteq> None"
        and flags: "df_active_verified flags = (del_active_zero_at p \<noteq> None)"
          "df_screening_verified flags = (del_screening_zero_at p \<noteq> None)"
          "df_storage_purged flags = (del_storage_purged_at p \<noteq> None)"
        using fl True by (auto simp: deletion_flags_of_def split: option.splits)
      have "lifecycle_ok c1"
        by (rule count_deletion_attempt_lifecycle [OF cnt ok(1)])
      then have "document_ok c1 d"
        using catalog_ok_document [OF _ d(1)] by (simp add: lifecycle_ok_def)
      then have "df_active_verified flags" "df_screening_verified flags" "df_storage_purged flags"
        using d flags tget_Some_key [OF d(1)]
        by (auto simp: document_ok_def deletion_bound_def deletion_row_ok_def checkpoints_ordered_def)
      then have "w_catalog w' = c1"
        using s1 s2 s3 True w2 by (auto simp: iret_eq_Inr)
      then show ?thesis
        using d by auto
    qed
  qed
qed

section \<open>The index and the files after a first run\<close>

text \<open>
  What Qdrant documents of deletions: a request on one collection does not change what another
  collection holds.
\<close>

definition isolated_deletes :: "'q qdrant \<Rightarrow> bool" where
  "isolated_deletes client \<longleftrightarrow>
     (\<forall>a b f g ids q. a \<noteq> b \<longrightarrow> q_count client b g (snd (q_delete client a f q)) = q_count client b g q
        \<and> q_retrieve client b ids (snd (q_delete client a f q)) = q_retrieve client b ids q)"

lemma txn_effect:
  "txn f w = (Inr x, w') \<Longrightarrow> w_index w' = w_index w \<and> w_files w' = w_files w"
  "txn_unit g w = (Inr (), w') \<Longrightarrow> w_index w' = w_index w \<and> w_files w' = w_files w"
  by (auto simp: txn_Inr txn_unit_Inr)

lemma clear_collection_zero:
  assumes "clear_collection en client oid did r active collection w = (Inr (), w')"
  shows "verify_document_zero client collection did (w_index w') = Inr () \<and> w_files w' = w_files w
    \<and> w_index w' = snd (q_delete client collection (document_filter did) (w_index w))"
proof -
  let ?q = "q_delete client collection (document_filter did) (w_index w)"
  obtain w0 w1 i w2 w3 w4 where
    a: "txn_unit (set_deletion_phase (en_worker_id en) oid did
         (if active then DP_DELETE_ACTIVE_POINTS else DP_DELETE_SCREENING_POINTS)) w = (Inr (), w0)"
    and b: "txn (\<lambda>_. deletion_outbox did r (if active then IT_ACTIVE else IT_SCREENING) collection) w0 = (Inr i, w1)"
    and del: "on_index (delete_document_points client collection did) w1 = (Inr (), w2)"
    and out: "(case i of None \<Rightarrow> iret () | Some i \<Rightarrow> txn_unit (complete_outbox i)) w2 = (Inr (), w3)"
    and same: "txn_unit (set_deletion_phase (en_worker_id en) oid did
         (if active then DP_VERIFY_ACTIVE_ZERO else DP_VERIFY_SCREENING_ZERO)) w3 = (Inr (), w4)"
    and zero: "read_index (verify_document_zero client collection did) w4 = (Inr (), w4)"
    and last: "txn_unit (record_zero_verification (en_worker_id en) oid did active) w4 = (Inr (), w')"
    using assms unfolding clear_collection_def ibind_eq_Inr by (auto simp: read_index_Inr)
  have "w_index w3 = w_index w2" "w_files w3 = w_files w2"
    using out by (auto simp: txn_unit_Inr iret_eq_Inr split: option.splits)
  moreover have "w_index w2 = snd ?q" "w_files w2 = w_files w"
    using del txn_effect(2) [OF a] txn_effect(1) [OF b]
    by (auto simp: on_index_Inr delete_document_points_def call_def Let_def split: prod.splits)
  ultimately show ?thesis
    using zero txn_effect(2) [OF same] txn_effect(2) [OF last] by (simp add: read_index_Inr)
qed

lemma remove_key_Inr:
  assumes "remove_key allow key w = (Inr (), w')"
  shows "w_index w' = w_index w \<and> (\<forall>p. map_of (w_files w) p = None \<longrightarrow> map_of (w_files w') p = None)
    \<and> (\<exists>p. resolve_storage_key key = Inr p \<and> map_of (w_files w') p = None)"
proof -
  obtain fs where fs: "remove_storage_key key allow (w_files w) = Inr fs" "w' = w\<lparr>w_files := fs\<rparr>"
    using assms by (auto simp: remove_key_def on_files_Inr split: sum.splits storage_error.splits)
  then show ?thesis
    using remove_storage_key_frees [OF fs(1)] by auto
qed

lemma remove_keys_Inr:
  assumes "remove_keys allow ks w = (Inr (), w')"
  shows "w_index w' = w_index w \<and> (\<forall>p. map_of (w_files w) p = None \<longrightarrow> map_of (w_files w') p = None)
    \<and> (\<forall>k\<in>set ks. \<exists>p. resolve_storage_key k = Inr p \<and> map_of (w_files w') p = None)"
  using assms
proof (induction ks arbitrary: w)
  case (Cons k ks)
  then obtain w1 where one: "remove_key allow k w = (Inr (), w1)" and rest: "remove_keys allow ks w1 = (Inr (), w')"
    by (auto simp: ibind_eq_Inr)
  from remove_key_Inr [OF one] Cons.IH [OF rest] show ?case
    by auto
qed (simp add: iret_eq_Inr)

lemma map_of_rmtree: "map_of (rmtree dir fs) p = (if below dir p then None else map_of fs p)"
  by (induction fs) (auto simp: rmtree_def)

lemma remove_artifact_root_Inr:
  assumes "remove_artifact_root did w = (Inr (), w')"
  shows "w_index w' = w_index w \<and> (\<forall>p. map_of (w_files w) p = None \<longrightarrow> map_of (w_files w') p = None)
    \<and> (\<exists>p. resolve_storage_key (''artifacts/'' @ uuid_str did) = Inr p
         \<and> map_of (w_files w') p = None \<and> \<not> dir_exists p (w_files w'))"
  using assms rmtree_clears
  by (auto simp: remove_artifact_root_def on_files_Inr map_of_rmtree below_def split: sum.splits if_splits)

lemma purge_document_content_files:
  assumes "purge_document_content en oid did allow w = (Inr (), w')"
  shows "w_index w' = w_index w
    \<and> (\<exists>d key p. get_document (w_catalog w) did = Some d \<and> doc_storage_key d = Some key
        \<and> resolve_storage_key key = Inr p \<and> map_of (w_files w') p = None)
    \<and> (\<forall>a\<in>set (artifacts (w_catalog w)). art_revision_id a \<in> set (revision_ids_of (w_catalog w) did)
        \<longrightarrow> (\<exists>p. resolve_storage_key (art_storage_key a) = Inr p \<and> map_of (w_files w') p = None))
    \<and> (\<exists>p. resolve_storage_key (''artifacts/'' @ uuid_str did) = Inr p
         \<and> map_of (w_files w') p = None \<and> \<not> dir_exists p (w_files w'))"
proof -
  obtain key rs ks w1 w2 where plan: "purge_plan (en_worker_id en) oid did (w_catalog w) = Inr (Some key, rs, ks)"
    and keys: "remove_keys allow (key # ks) w = (Inr (), w1)" and root: "remove_artifact_root did w1 = (Inr (), w2)"
    and last: "w_index w' = w_index w2" "w_files w' = w_files w2"
    using assms
    by (auto simp: purge_document_content_def ibind_eq_Inr query_Inr txn_unit_Inr iraise_eq_Inr
        simp del: remove_keys.simps split: option.splits)
  obtain d where d: "get_document (w_catalog w) did = Some d" "doc_storage_key d = Some key"
    and ks: "ks = map art_storage_key (filter (\<lambda>a. art_revision_id a \<in> set (revision_ids_of (w_catalog w) did))
      (artifacts (w_catalog w)))"
    using plan by (auto simp: purge_plan_def Let_def split: option.splits if_splits)
  note R = remove_keys_Inr [OF keys] and A = remove_artifact_root_Inr [OF root]
  have keep: "map_of (w_files w1) p = None \<Longrightarrow> map_of (w_files w') p = None" for p
    using A last by simp
  have gone: "\<exists>p. resolve_storage_key k = Inr p \<and> map_of (w_files w') p = None" if "k \<in> set (key # ks)" for k
    using R keep that by blast
  have "w_index w' = w_index w"
    using R A last by simp
  moreover have "\<exists>p. resolve_storage_key key = Inr p \<and> map_of (w_files w') p = None"
    by (rule gone) simp
  moreover have "\<exists>p. resolve_storage_key (art_storage_key a) = Inr p \<and> map_of (w_files w') p = None"
    if "a \<in> set (artifacts (w_catalog w))" "art_revision_id a \<in> set (revision_ids_of (w_catalog w) did)" for a
    by (rule gone) (use that ks in auto)
  ultimately show ?thesis
    using A last d by auto
qed

text \<open>The rows a purge is planned from, which the steps before it leave alone.\<close>

definition protected_rows :: "catalog \<Rightarrow> document list \<times> prepared_revision list \<times> revision_artifact list" where
  "protected_rows c = (documents c, revisions c, artifacts c)"

lemma protected_rows_keeps:
  "set_deletion_phase wid oid did ph now c = Inr c' \<Longrightarrow> protected_rows c' = protected_rows c"
  "record_zero_verification wid oid did active now c = Inr c' \<Longrightarrow> protected_rows c' = protected_rows c"
  "count_deletion_attempt did c = Inr c' \<Longrightarrow> protected_rows c' = protected_rows c"
  "complete_outbox i now c = Inr c' \<Longrightarrow> protected_rows c' = protected_rows c"
  "deletion_outbox did r target collection c = Inr (x, c') \<Longrightarrow> protected_rows c' = protected_rows c"
  by (auto simp: protected_rows_def set_deletion_phase_def record_zero_verification_def
      count_deletion_attempt_def complete_outbox_def deletion_outbox_def begin_outbox_def add_outbox_def
      Let_def result_simps split: if_splits option.splits)

lemma clear_collection_rows:
  "keeps (\<lambda>w. protected_rows (w_catalog w) = K) (clear_collection en client oid did r active collection)"
  unfolding clear_collection_def
  by (intro keeps_ibind keeps_txn_unit keeps_txn keeps_on_index keeps_read_index keeps_option keeps_iret)
    (simp_all add: protected_rows_keeps)

lemma deletion_leaves_nothing:
  assumes run: "run_deletion_phases en oid did w = (Inr (), w')"
    and fresh: "deletion_of (w_catalog w) did = Some p" "del_active_zero_at p = None"
      "del_screening_zero_at p = None" "del_storage_purged_at p = None"
    and client: "en_qdrant en = Some client" "isolated_deletes client"
    and apart: "del_active_collection p \<noteq> del_screening_collection p"
  shows "verify_document_zero client (del_active_collection p) did (w_index w') = Inr ()
    \<and> verify_document_zero client (del_screening_collection p) did (w_index w') = Inr ()
    \<and> (\<exists>d key q. get_document (w_catalog w) did = Some d \<and> doc_storage_key d = Some key
        \<and> resolve_storage_key key = Inr q \<and> map_of (w_files w') q = None)
    \<and> (\<forall>a\<in>set (artifacts (w_catalog w)). art_revision_id a \<in> set (revision_ids_of (w_catalog w) did)
        \<longrightarrow> (\<exists>q. resolve_storage_key (art_storage_key a) = Inr q \<and> map_of (w_files w') q = None))
    \<and> (\<exists>q. resolve_storage_key (''artifacts/'' @ uuid_str did) = Inr q
         \<and> map_of (w_files w') q = None \<and> \<not> dir_exists q (w_files w'))"
  using run
proof (rule run_deletion_phasesE)
  fix r active screening client' c1 flags w2 w3 w4
  assume ck: "deletion_checkpoint (en_worker_id en) oid did (w_catalog w) = Inr (r, active, screening)"
    and cnt: "count_deletion_attempt did (w_catalog w) = Inr c1"
    and cl: "en_qdrant en = Some client'"
    and fl: "deletion_flags_of did c1 = Inr flags"
    and w2: "w2 = w\<lparr>w_ticks := Suc (w_ticks w), w_catalog := c1\<rparr>"
    and s1: "(if df_active_verified flags then iret ()
        else clear_collection en client' oid did r True active) w2 = (Inr (), w3)"
    and s2: "(if df_screening_verified flags then iret ()
        else clear_collection en client' oid did r False screening) w3 = (Inr (), w4)"
    and s3: "\<exists>w5. (if df_storage_purged flags then iret ()
        else ibind (txn_unit (set_deletion_phase (en_worker_id en) oid did DP_PURGE_STORAGE)) (\<lambda>_.
          purge_document_content en oid did (df_purge_checkpointed flags))) w4 = (Inr (), w5)
      \<and> (if df_tombstoned flags then iret ()
         else ibind (txn_unit (set_deletion_phase (en_worker_id en) oid did DP_COMMIT_TOMBSTONE)) (\<lambda>_.
           txn_unit (commit_deletion (en_worker_id en) oid did))) w5 = (Inr (), w')"
  have names: "active = del_active_collection p" "screening = del_screening_collection p"
    using ck fresh(1) by (auto simp: deletion_checkpoint_def split: option.splits if_splits)
  have "deletion_of c1 did = Some (p\<lparr>del_attempts := del_attempts p + 1\<rparr>)"
    using cnt fresh(1) by (auto simp: count_deletion_attempt_def deletion_rows.rows_upd tget_tupd
        split: option.splits)
  then have flags: "\<not> df_active_verified flags" "\<not> df_screening_verified flags" "\<not> df_storage_purged flags"
    using fl fresh by (auto simp: deletion_flags_of_def split: option.splits)
  have a: "clear_collection en client oid did r True active w2 = (Inr (), w3)"
    and b: "clear_collection en client oid did r False screening w3 = (Inr (), w4)"
    using s1 s2 flags cl client(1) by auto
  obtain w4' w5 where c: "txn_unit (set_deletion_phase (en_worker_id en) oid did DP_PURGE_STORAGE) w4 = (Inr (), w4')"
    and d: "purge_document_content en oid did (df_purge_checkpointed flags) w4' = (Inr (), w5)"
    and e: "(if df_tombstoned flags then iret ()
         else ibind (txn_unit (set_deletion_phase (en_worker_id en) oid did DP_COMMIT_TOMBSTONE)) (\<lambda>_.
           txn_unit (commit_deletion (en_worker_id en) oid did))) w5 = (Inr (), w')"
    using s3 flags by (auto simp: ibind_eq_Inr)
  have last: "w_index w' = w_index w5" "w_files w' = w_files w5"
    using e by (auto simp: ibind_eq_Inr iret_eq_Inr txn_unit_Inr split: if_splits)
  have rows: "protected_rows (w_catalog w4') = protected_rows (w_catalog w)"
  proof -
    have "protected_rows (w_catalog w2) = protected_rows (w_catalog w)"
      using protected_rows_keeps(3) [OF cnt] w2 by simp
    then have "protected_rows (w_catalog w3) = protected_rows (w_catalog w)"
      using keepsD [OF clear_collection_rows, of w2 "protected_rows (w_catalog w)"] a by (metis snd_conv)
    then have "protected_rows (w_catalog w4) = protected_rows (w_catalog w)"
      using keepsD [OF clear_collection_rows, of w3 "protected_rows (w_catalog w)"] b by (metis snd_conv)
    then show ?thesis
      using c protected_rows_keeps(1) by (auto simp: txn_unit_Inr)
  qed
  then have same: "documents (w_catalog w4') = documents (w_catalog w)"
    "artifacts (w_catalog w4') = artifacts (w_catalog w)"
    "revision_ids_of (w_catalog w4') did = revision_ids_of (w_catalog w) did"
    by (auto simp: protected_rows_def revision_ids_of_def fun_eq_iff)
  note P = purge_document_content_files [OF d, unfolded same]
  have index: "w_index w' = w_index w4"
    using P last txn_effect(2) [OF c] by simp
  have zero_s: "verify_document_zero client screening did (w_index w4) = Inr ()"
    and moved: "w_index w4 = snd (q_delete client screening (document_filter did) (w_index w3))"
    using clear_collection_zero [OF b] by blast+
  have "verify_document_zero client active did (w_index w3) = Inr ()"
    using clear_collection_zero [OF a] by blast
  then have "verify_document_zero client active did (w_index w4) = Inr ()"
    using client(2) apart names
    by (simp add: moved isolated_deletes_def verify_document_zero_def count_document_points_def)
  then show ?thesis
    using zero_s P index last unfolding names by simp
qed

lemma run_deleteD:
  assumes "run_delete en oid did w = (Inr (), w')"
  shows "run_deletion_phases en oid did w = (Inr (), w')" "works_on oid did (w_catalog w)"
  using assms
  by (auto simp: run_delete_def ibind_eq_Inr query_Inr iraise_eq_Inr operation_snapshot_of_def works_on_def deletes_def
      owned_operation_def split: if_splits option.splits)

end
