(* ===== verification/Publication_Complete.thy ===== *)
theory Publication_Complete
  imports Deletion_Complete
begin

text \<open>
  What a publication run that returns has done: the document is READY, the active collection holds
  exactly the points of the sealed revision, the screening collection none, and a replaced document
  is deleted for good.  Then the execution of a claimed operation as a whole, failures included.
\<close>

section \<open>What a completed publication has done\<close>

lemma publish_active_verified:
  assumes "publish_active en client oid did rid active n points w = (Inr (), w')"
  shows "verify_prepared_points client active points True ''active'' (w_index w') = Inr ()"
proof -
  obtain w0 w1 w2 where
    v: "read_index (verify_prepared_points client active points True ''active'') w0 = (Inr (), w0)"
    and a: "\<exists>i. txn_unit (complete_outbox i) w0 = (Inr (), w1)"
    and b: "txn_unit (\<lambda>_. mark_upserted (en_worker_id en) oid rid) w1 = (Inr (), w')"
    using assms unfolding publish_active_def ibind_eq_Inr by (auto simp: read_index_Inr)
  then show ?thesis
    using a txn_effect(2) [OF b] txn_effect(2) by (fastforce simp: read_index_Inr)
qed

lemma retire_screening_zero:
  assumes "retire_screening en client oid did rid screening w = (Inr (), w')"
  shows "verify_document_zero client screening did (w_index w') = Inr ()
    \<and> w_index w' = snd (q_delete client screening (document_filter did) (w_index w))"
proof -
  obtain w0 i w1 w2 w3 where
    a: "txn_unit (set_phase (en_worker_id en) oid REMOVE_SCREENING_POINTS) w = (Inr (), w0)"
    and b: "txn (\<lambda>_. begin_outbox did rid IT_SCREENING IA_DELETE screening 0) w0 = (Inr i, w1)"
    and del: "on_index (delete_document_points client screening did) w1 = (Inr (), w2)"
    and c: "txn_unit (set_phase (en_worker_id en) oid VERIFY_SCREENING_REMOVAL) w2 = (Inr (), w3)"
    and zero: "read_index (verify_document_zero client screening did) w3 = (Inr (), w3)"
    and d: "txn_unit (complete_outbox i) w3 = (Inr (), w')"
    using assms unfolding retire_screening_def ibind_eq_Inr by (auto simp: read_index_Inr)
  have "w_index w2 = snd (q_delete client screening (document_filter did) (w_index w))"
    using del txn_effect(2) [OF a] txn_effect(1) [OF b]
    by (auto simp: on_index_Inr delete_document_points_def call_def Let_def split: prod.splits)
  then show ?thesis
    using zero txn_effect(2) [OF c] txn_effect(2) [OF d] by (simp add: read_index_Inr)
qed

lemma verify_prepared_isolated:
  assumes "isolated_deletes client" and "a \<noteq> b"
  shows "verify_prepared_points client b points published visibility (snd (q_delete client a f q))
    = verify_prepared_points client b points published visibility q"
proof -
  have same: "q_count client b g (snd (q_delete client a f q)) = q_count client b g q"
    "q_retrieve client b ids (snd (q_delete client a f q)) = q_retrieve client b ids q" for g ids
    using assms by (auto simp: isolated_deletes_def)
  show ?thesis
    by (simp only: verify_prepared_points_def count_document_points_def same)
qed

text \<open>The part of a publication after the deletion of the replaced document, taken apart.\<close>

lemma publish_restE:
  assumes "publish_rest en oid did rid w = (Inr (), w')"
  obtains screening active n points client w1 w2 where
    "en_screening en = Some screening" and "en_qdrant en = Some client"
    and "publication_checkpoint (en_worker_id en) oid did rid (w_catalog w) = Inr (active, n)"
    and "reconstruct_chunk_points (en_stdlib en) rid True (w_catalog w) = Inr points"
    and "manifest_points_match did rid active n points"
    and "publish_active en client oid did rid active n points w = (Inr (), w1)"
    and "retire_screening en client oid did rid screening w1 = (Inr (), w2)"
    and "finish_publication (en_worker_id en) oid did rid n (w_clock w2 (w_ticks w2)) (w_catalog w2)
      = Inr (w_catalog w')"
    and "w_index w' = w_index w2"
proof -
  obtain screening where s: "en_screening en = Some screening"
    "required_screening_collection en = iret screening"
    using assms
    by (auto simp: publish_rest_def ibind_eq_Inr required_screening_collection_def iraise_eq_Inr iret_eq_Inr
        split: option.splits list.splits)
  obtain active n points w0 where a: "publication_checkpoint (en_worker_id en) oid did rid (w_catalog w) = Inr (active, n)"
    and b: "reconstruct_chunk_points (en_stdlib en) rid True (w_catalog w) = Inr points"
    and c: "manifest_points_match did rid active n points"
    and rest: "ibind (required_qdrant en) (\<lambda>client.
       ibind (publish_active en client oid did rid active n points) (\<lambda>_.
       ibind (retire_screening en client oid did rid screening) (\<lambda>_.
         txn_unit (finish_publication (en_worker_id en) oid did rid n)))) w = (Inr (), w')"
    using assms s by (auto simp: publish_rest_def ibind_eq_Inr query_Inr iret_eq_Inr iraise_eq_Inr split: if_splits)
  obtain client where q: "en_qdrant en = Some client" "required_qdrant en = iret client"
    using rest by (auto simp: required_qdrant_def ibind_eq_Inr iraise_eq_Inr split: option.splits)
  obtain w1 w2 where "publish_active en client oid did rid active n points w = (Inr (), w1)"
    and "retire_screening en client oid did rid screening w1 = (Inr (), w2)"
    and "finish_publication (en_worker_id en) oid did rid n (w_clock w2 (w_ticks w2)) (w_catalog w2)
      = Inr (w_catalog w')"
    and "w_index w' = w_index w2"
    using rest q by (auto simp: ibind_eq_Inr iret_eq_Inr txn_unit_Inr)
  then show thesis
    by (rule that [OF s(1) q(1) a b c])
qed

lemma finish_publication_ready:
  assumes "finish_publication wid oid did rid n now c = Inr c'"
  shows "\<exists>d w. get_document c' did = Some d \<and> doc_state d = READY \<and> get_operation c' oid = Some w
    \<and> op_state w = OP_SUCCEEDED \<and> op_phase w = COMPLETE"
  using assms
proof (rule finish_publicationE)
  fix w d r p c1
  assume own: "owned_operation c wid oid = Some w" and row: "get_document c did = Some d"
    and upd: "upd_publication (pub_id p) (verified_publication n now) c = Inr c1"
    and core: "core c' = core (upd_document did (ready_document now) c1)"
    and ops: "operations c' = tupd op_id oid (finish_operation COMPLETE now) (operations c1)"
  have "get_operation c oid = Some w"
    using own by (auto simp: owned_operation_def split: option.splits if_splits)
  moreover have "documents c' = tupd doc_id did (ready_document now) (documents c)"
    using core upd_publication_keeps(1) [OF upd] by (simp add: core_def document_rows.rows_upd)
  ultimately show ?thesis
    using row ops upd_publication_keeps(5) [OF upd]
    by (simp add: tget_tupd ready_document_def clear_failure_def finish_operation_def set_operation_phase_def)
qed

lemma publish_rest_serves:
  assumes run: "publish_rest en oid did rid w = (Inr (), w')"
    and client: "\<And>client. en_qdrant en = Some client \<Longrightarrow> isolated_deletes client"
    and apart: "\<And>r. get_revision (w_catalog w) rid = Some r \<Longrightarrow> en_screening en \<noteq> Some (rev_active_collection r)"
  shows "\<exists>r points client screening. get_revision (w_catalog w) rid = Some r
    \<and> reconstruct_chunk_points (en_stdlib en) rid True (w_catalog w) = Inr points
    \<and> en_qdrant en = Some client \<and> en_screening en = Some screening
    \<and> verify_prepared_points client (rev_active_collection r) points True ''active'' (w_index w') = Inr ()
    \<and> verify_document_zero client screening did (w_index w') = Inr ()
    \<and> (\<exists>d w. get_document (w_catalog w') did = Some d \<and> doc_state d = READY
        \<and> get_operation (w_catalog w') oid = Some w \<and> op_state w = OP_SUCCEEDED \<and> op_phase w = COMPLETE)"
  using run
proof (rule publish_restE)
  fix screening active n points cl w1 w2
  assume s: "en_screening en = Some screening" and cl: "en_qdrant en = Some cl"
    and ck: "publication_checkpoint (en_worker_id en) oid did rid (w_catalog w) = Inr (active, n)"
    and pts: "reconstruct_chunk_points (en_stdlib en) rid True (w_catalog w) = Inr points"
    and act: "publish_active en cl oid did rid active n points w = (Inr (), w1)"
    and ret: "retire_screening en cl oid did rid screening w1 = (Inr (), w2)"
    and fin: "finish_publication (en_worker_id en) oid did rid n (w_clock w2 (w_ticks w2)) (w_catalog w2)
      = Inr (w_catalog w')"
    and idx: "w_index w' = w_index w2"
  obtain r where r: "get_revision (w_catalog w) rid = Some r" "active = rev_active_collection r"
    using ck by (auto simp: publication_checkpoint_def split: option.splits if_splits)
  have "verify_prepared_points cl active points True ''active'' (w_index w2) = Inr ()"
    using publish_active_verified [OF act] retire_screening_zero [OF ret]
      verify_prepared_isolated [OF client [OF cl], of screening active] apart [OF r(1)] s r(2) by metis
  then show ?thesis
    using retire_screening_zero [OF ret] finish_publication_ready [OF fin] s cl pts r idx by metis
qed


text \<open>A publication whose deletion stage returned continues with its rest.\<close>

lemma run_publishE:
  assumes run: "run_publish en oid did w = (Inr (), w')"
  obtains wo rid w1 where "owned_operation (w_catalog w) (en_worker_id en) oid = Some wo"
    and "op_revision_id wo = Some rid" and "op_document_id wo = did" and "op_type wo = PUBLISH"
    and "(case op_replacement_target wo of None \<Rightarrow> iret () | Some t \<Rightarrow> run_deletion_phases en oid t) w = (Inr (), w1)"
    and "publish_rest en oid did rid w1 = (Inr (), w')"
proof -
  obtain wo where own: "owned_operation (w_catalog w) (en_worker_id en) oid = Some wo"
    using run by (auto simp: run_publish_def ibind_eq_Inr query_Inr operation_snapshot_of_def split: option.splits)
  obtain rid where rid: "op_revision_id wo = Some rid" "op_document_id wo = did" "op_type wo = PUBLISH"
    using run own by (auto simp: run_publish_def ibind_eq_Inr query_Inr operation_snapshot_of_def iraise_eq_Inr
        split: option.splits if_splits)
  obtain w1 where "(case op_replacement_target wo of None \<Rightarrow> iret () | Some t \<Rightarrow> run_deletion_phases en oid t) w
      = (Inr (), w1)" and "publish_rest en oid did rid w1 = (Inr (), w')"
    using run own rid
    by (simp add: run_publish_def publish_rest_def ibind_eq_Inr query_Inr operation_snapshot_of_def) blast
  then show thesis
    by (rule that [OF own rid])
qed

lemma publication_serves:
  assumes run: "run_publish en oid did w = (Inr (), w')"
    and wo: "get_operation (w_catalog w) oid = Some wo" "op_replacement_target wo = None" "op_revision_id wo = Some rid"
    and client: "en_qdrant en = Some client" "isolated_deletes client"
    and rev: "get_revision (w_catalog w) rid = Some r"
    and screening: "en_screening en = Some screening" "screening \<noteq> rev_active_collection r"
  shows "\<exists>points d. reconstruct_chunk_points (en_stdlib en) rid True (w_catalog w) = Inr points
    \<and> verify_prepared_points client (rev_active_collection r) points True ''active'' (w_index w') = Inr ()
    \<and> verify_document_zero client screening did (w_index w') = Inr ()
    \<and> get_document (w_catalog w') did = Some d \<and> doc_state d = READY"
  using run
proof (rule run_publishE)
  fix wo' rid' w1
  assume own: "owned_operation (w_catalog w) (en_worker_id en) oid = Some wo'" and rid': "op_revision_id wo' = Some rid'"
    and del: "(case op_replacement_target wo' of None \<Rightarrow> iret () | Some t \<Rightarrow> run_deletion_phases en oid t) w = (Inr (), w1)"
    and rest: "publish_rest en oid did rid' w1 = (Inr (), w')"
  have "wo' = wo"
    using own wo by (auto simp: owned_operation_def split: if_splits)
  then have "rid' = rid" "w1 = w"
    using rid' wo del by (simp_all add: iret_eq_Inr)
  then show ?thesis
    using publish_rest_serves [OF rest] client screening rev by auto
qed

lemma finish_publication_replaced:
  assumes "finish_publication wid oid did rid n now c = Inr c'"
    and "get_operation c oid = Some w" and "op_replacement_target w = Some t" and "t \<noteq> did"
  shows "replaced_document_deleted c' t"
  using assms(1)
proof (rule finish_publicationE)
  fix w' d r p c1
  assume own: "owned_operation c wid oid = Some w'"
    and old: "\<forall>t. op_replacement_target w' = Some t \<longrightarrow> replaced_document_deleted c t"
    and upd: "upd_publication (pub_id p) (verified_publication n now) c = Inr c1"
    and core: "core c' = core (upd_document did (ready_document now) c1)"
  have "replaced_document_deleted c t"
    using old own assms(2,3) by (auto simp: owned_operation_def split: if_splits)
  moreover have "documents c' = tupd doc_id did (ready_document now) (documents c)"
    "deletions c' = deletions c" "tombstones c' = tombstones c"
    using core upd_publication_keeps [OF upd] by (simp_all add: core_def document_rows.rows_upd)
  ultimately show ?thesis
    using assms(4) by (simp add: replaced_document_deleted_def tget_tupd ready_document_def clear_failure_def)
qed

lemma replacement_serves:
  assumes run: "run_publish en oid did w = (Inr (), w')"
    and wo: "get_operation (w_catalog w) oid = Some wo" "op_replacement_target wo = Some t" "t \<noteq> did"
    and ok: "lifecycle_ok (w_catalog w)" "\<And>n. on_time (w_clock w n) (w_catalog w)"
  shows "lifecycle_ok (w_catalog w') \<and> replaced_document_deleted (w_catalog w') t
    \<and> (\<exists>d. get_document (w_catalog w') did = Some d \<and> doc_state d = READY)"
  using run
proof (rule run_publishE)
  fix wo' rid w1
  assume own: "owned_operation (w_catalog w) (en_worker_id en) oid = Some wo'" and did: "op_document_id wo' = did"
    and rest: "publish_rest en oid did rid w1 = (Inr (), w')"
    and del: "(case op_replacement_target wo' of None \<Rightarrow> iret () | Some t \<Rightarrow> run_deletion_phases en oid t) w = (Inr (), w1)"
  let ?S = "skeleton (w_catalog w)"
  have wo': "wo' = wo"
    using own wo by (auto simp: owned_operation_def split: if_splits)
  have st: "steady (frozen ?S oid did) w"
    using ok own wo did wo' by (auto simp: steady_def frozen_def works_on_def deletes_def)
  have snap: "\<exists>sn. operation_snapshot_of (en_worker_id en) oid (w_catalog w) = Inr sn \<and> sn_replacement_target sn = Some t"
    using own wo wo' by (simp add: operation_snapshot_of_def)
  have "steady (frozen ?S oid did) w1"
    using snap replacement_steady [OF st] del wo wo' by (metis option.simps(5) snd_conv)
  then have w2: "skeleton (w_catalog w2) = ?S"
    if "publish_active en cl oid did rid active n points w1 = (Inr (), w1')"
      "retire_screening en cl oid did rid screening w1' = (Inr (), w2)" for cl active n points w1' screening w2
    using keepsD [OF publish_active_steady] keepsD [OF retire_screening_steady] that
    by (metis steady_def frozen_def snd_conv)
  have target: "\<exists>w. get_operation c oid = Some w \<and> op_replacement_target w = Some t" if "skeleton c = ?S" for c
    using get_skeleton [where c = c and oid = oid, symmetric]
      get_skeleton [where c = "w_catalog w" and oid = oid, symmetric] that wo
    by (auto simp: map_option_case split: option.splits)
  have "lifecycle_ok (w_catalog w')"
    using keepsD [OF run_publish_steady st, of en] run by (simp add: steady_def)
  moreover have "replaced_document_deleted (w_catalog w') t \<and> (\<exists>d. get_document (w_catalog w') did = Some d \<and> doc_state d = READY)"
    using rest
  proof (rule publish_restE)
    fix screening active n points cl w1' w2
    assume act: "publish_active en cl oid did rid active n points w1 = (Inr (), w1')"
      and ret: "retire_screening en cl oid did rid screening w1' = (Inr (), w2)"
      and fin: "finish_publication (en_worker_id en) oid did rid n (w_clock w2 (w_ticks w2)) (w_catalog w2) = Inr (w_catalog w')"
    show ?thesis
      using finish_publication_replaced [OF fin _ _ wo(3)] target [OF w2 [OF act ret]] finish_publication_ready [OF fin]
      by blast
  qed
  ultimately show ?thesis by simp
qed

section \<open>A claimed operation as a whole\<close>

lemma fail_txn_ok:
  assumes "lifecycle_ok (w_catalog w)"
  shows "lifecycle_ok (w_catalog (snd (txn_unit (fail_operation wid oid e) w)))"
proof (cases "fail_operation wid oid e (w_clock w (w_ticks w)) (w_catalog w)")
  case (Inl e')
  then show ?thesis using assms by (simp add: txn_unit_def txn_def Let_def)
next
  case (Inr c')
  then show ?thesis
    using fail_operation_lifecycle [OF Inr assms] by (simp add: txn_unit_def txn_def Let_def)
qed

end
