(* ===== verification/Scenario.thy ===== *)
theory Scenario
  imports Publication_Complete
begin

text \<open>
  A concrete life of one document, run through the modelled transactions from the empty catalog: it
  is admitted, claimed, prepared, published, deleted; in between it is also sent to review, fails and
  is retried.  The states are results of the transactions themselves, and the chain shows that they
  are reachable.  The witnesses of the properties are taken from it.
\<close>

section \<open>Parameters\<close>

text \<open>A standard library with constant digests, and the service's configuration.\<close>

definition demo_stdlib :: stdlib where
  "demo_stdlib = \<lparr>sl_sha256 = (\<lambda>_. replicate 64 (CHR ''a'')), sl_uuid5 = (\<lambda>_ _. 77),
     sl_float_repr = (\<lambda>_. ''1.0''), sl_unit_norm = (\<lambda>_. True), sl_nfkc = (\<lambda>s. s)\<rparr>"

definition reports :: collection_definition where
  "reports = \<lparr>cd_key = ''reports'', cd_display_name = ''Reports'', cd_description = ''Reports'',
     cd_audience = ''staff'', cd_qdrant_collection_name = ''reports_v1'', cd_enabled = True\<rparr>"

definition demo_scan :: scan_result where
  "demo_scan = \<lparr>sr_state = SCAN_CLEAN, sr_engine = ''clamd'', sr_scanned_at = 1, sr_signature = None\<rparr>"

definition demo_upload :: prepared_admission where
  "demo_upload = \<lparr>pa_staged = \<lparr>sf_size_bytes = 5, sf_sha256 = replicate 64 (CHR ''a''), sf_content = ''%PDF-''\<rparr>,
     pa_filename = ''a.pdf'', pa_normalized_filename = ''a.pdf'', pa_collection = reports,
     pa_scan = demo_scan\<rparr>"

definition demo_respond :: "document \<Rightarrow> work_operation \<Rightarrow> response_body" where
  "demo_respond d w = ObjectBody ''{}''"

definition demo_settings :: queue_settings where
  "demo_settings = \<lparr>qs_lease = 60, qs_max_operation = 3600\<rparr>"

definition idle_worker :: worker where
  "idle_worker = \<lparr>wk_id = ''w1'', wk_busy = {}, wk_claim_times = (\<lambda>_. None)\<rparr>"

definition demo_identity :: preparation_identity where
  "demo_identity = \<lparr>pid_active_collection = ''reports_v1'', pid_content_profile_id = ''c1'',
     pid_index_profile_id = ''i1'', pid_preflight_policy_id = ''p1'', pid_formatter_model_id = ''f@1'',
     pid_formatter_tokenizer_class = ''T'', pid_dense_model_id = ''d@1'', pid_sparse_model_id = ''s@1''\<rparr>"

definition demo_empty :: catalog where
  "demo_empty = empty_catalog (\<lambda>n. n)"

section \<open>States\<close>

definition demo_admission :: "(admission_error + registration \<times> catalog) \<times> files \<times> bool" where
  "demo_admission = register_admission demo_stdlib demo_respond 10 demo_upload ''key-0001'' ''user'' ''alice''
     demo_empty []"

definition demo_admitted :: catalog where
  "demo_admitted = snd (projr (fst demo_admission))"

definition demo_files :: files where
  "demo_files = fst (snd demo_admission)"

definition demo_claimed :: catalog where
  "demo_claimed = snd (snd (projr (claim_next demo_settings 20 20 20 idle_worker demo_admitted)))"

definition demo_started :: catalog where
  "demo_started = snd (projr (create_revision 1 demo_identity 21 demo_claimed))"

definition demo_bound :: catalog where
  "demo_bound = projr (bind_revision ''w1'' 2 3 demo_started)"

definition seal_demo :: "bool \<Rightarrow> prepared_revision \<Rightarrow> prepared_revision" where
  "seal_demo clear r = r\<lparr>rev_status := REV_SEALED, rev_page_count := Some 1, rev_chunk_count := Some 1,
     rev_expected_point_count := Some 1, rev_manifest_sha256 := Some (replicate 64 (CHR ''b'')),
     rev_native_text_eligible := True, rev_formatter_complete := True, rev_vector_complete := True,
     rev_candidate_discovery_complete := True, rev_advisory_complete := True,
     rev_clear_for_publication := clear, rev_sealed_at := Some 25\<rparr>"

definition demo_prepared :: "bool \<Rightarrow> catalog" where
  "demo_prepared clear = projr (upd_revision 3 (seal_demo clear) demo_bound)"

definition demo_sealed :: "bool \<Rightarrow> sealed_preparation" where
  "demo_sealed clear = \<lparr>sp_revision_id = 3, sp_manifest_sha256 = replicate 64 (CHR ''b''),
     sp_extraction_sha256 = [], sp_markdown_sha256 = [], sp_vector_manifest_sha256 = [],
     sp_evidence_manifest_sha256 = [], sp_page_count = 1, sp_chunk_count = 1,
     sp_clear_for_publication = clear\<rparr>"

text \<open>A preflight that finds nothing queues the publication; one that finds candidates asks for review.\<close>

definition demo_preflighted :: "bool \<Rightarrow> catalog" where
  "demo_preflighted clear = projr (finish_preflight ''w1'' 2 (demo_sealed clear) 30 (demo_prepared clear))"

definition demo_publishing :: catalog where
  "demo_publishing = snd (snd (projr (claim_next demo_settings 40 40 40 idle_worker (demo_preflighted True))))"

definition demo_upserted :: catalog where
  "demo_upserted = projr (mark_upserted ''w1'' 5 3 demo_publishing)"

definition demo_ready :: catalog where
  "demo_ready = projr (finish_publication ''w1'' 5 1 3 1 42 demo_upserted)"

text \<open>The reservation a deletion of the ready document is carried by, and the claimed deletion.\<close>

definition demo_reservation :: idempotency_record where
  "demo_reservation = \<lparr>idem_id = 90, idem_key = ''key-0002'', idem_action = ''delete_document'',
     idem_request_sha256 = [], idem_actor_id = ''alice'', idem_resource_type = None, idem_resource_id = None,
     idem_response_status = None, idem_response_body = None, idem_created_at = 50, idem_completed_at = None\<rparr>"

definition demo_deletion_requested :: catalog where
  "demo_deletion_requested = snd (projr (request_deletion 50 1 demo_reservation ''user'' ''alice'' ''reports_v1''
     ''screening'' demo_ready))"

definition demo_deleting :: catalog where
  "demo_deleting = snd (snd (projr (claim_next demo_settings 60 60 60 idle_worker demo_deletion_requested)))"

text \<open>The checkpoints of that deletion.\<close>

definition demo_active_zero :: catalog where
  "demo_active_zero = projr (record_zero_verification ''w1'' 7 1 True 61 demo_deleting)"

definition demo_screening_zero :: catalog where
  "demo_screening_zero = projr (record_zero_verification ''w1'' 7 1 False 62 demo_active_zero)"

definition demo_purged :: catalog where
  "demo_purged = projr (commit_purge ''w1'' 7 1 (storage_key_for 1) [3] 63 demo_screening_zero)"

definition demo_deleted :: catalog where
  "demo_deleted = projr (commit_deletion ''w1'' 7 1 64 demo_purged)"

text \<open>A preflight that fails while it extracts, and its retry.\<close>

definition demo_extracting :: catalog where
  "demo_extracting = projr (set_phase ''w1'' 2 EXTRACTING 22 demo_claimed)"

definition demo_failed :: catalog where
  "demo_failed = projr (fail_operation ''w1'' 2 (worker_failure ''extraction_timeout'' ''Timed out.'' True) 23
     demo_extracting)"

definition demo_retried :: catalog where
  "demo_retried = snd (projr (request_retry 50 1 demo_reservation ''user'' ''alice'' demo_failed))"

section \<open>Reachability\<close>

lemma Inr_projr: "\<not> isl x \<Longrightarrow> x = Inr (projr x)"
  by (cases x) auto

lemma demo_admitted_reachable: "reachable demo_admitted"
proof -
  have "\<not> isl (fst demo_admission)"
    by code_simp
  then have "register_admission demo_stdlib demo_respond 10 demo_upload ''key-0001'' ''user'' ''alice'' demo_empty []
      = (Inr (fst (projr (fst demo_admission)), demo_admitted), fst (snd demo_admission), snd (snd demo_admission))"
    using Inr_projr [of "fst demo_admission"] by (simp add: demo_admitted_def demo_admission_def prod_eq_iff)
  moreover have "reachable demo_empty"
    unfolding demo_empty_def by (rule reachable.initial)
  ultimately show ?thesis
    by (blast intro: reachable.later step.admit)
qed

lemma demo_claimed_reachable: "reachable demo_claimed"
proof -
  have "\<not> isl (claim_next demo_settings 20 20 20 idle_worker demo_admitted)"
    by code_simp
  from Inr_projr [OF this] have "step demo_admitted demo_claimed"
    unfolding demo_claimed_def by (metis prod.collapse step.claim)
  then show ?thesis
    by (rule reachable.later [OF demo_admitted_reachable])
qed

lemma demo_started_reachable: "reachable demo_started"
proof -
  have "\<not> isl (create_revision 1 demo_identity 21 demo_claimed)"
    by code_simp
  from Inr_projr [OF this] have "step demo_claimed demo_started"
    unfolding demo_started_def by (metis prod.collapse step.start_revision)
  then show ?thesis
    by (rule reachable.later [OF demo_claimed_reachable])
qed

lemma demo_bound_reachable: "reachable demo_bound"
proof -
  have "\<not> isl (bind_revision ''w1'' 2 3 demo_started)"
    by code_simp
  from Inr_projr [OF this] have "step demo_started demo_bound"
    unfolding demo_bound_def by (metis step.bind)
  then show ?thesis
    by (rule reachable.later [OF demo_started_reachable])
qed

lemma demo_prepared_reachable: "reachable (demo_prepared clear)"
proof -
  have "\<not> isl (upd_revision 3 (seal_demo True) demo_bound)" "\<not> isl (upd_revision 3 (seal_demo False) demo_bound)"
    by code_simp+
  then have "\<not> isl (upd_revision 3 (seal_demo clear) demo_bound)"
    by (cases clear) auto
  note run = Inr_projr [OF this]
  have "map_option rev_status (get_revision demo_bound 3) = Some REV_PREPARING"
    by code_simp
  then have open_rev: "rev_status r \<noteq> REV_SEALED" if "get_revision demo_bound 3 = Some r" for r
    using that by simp
  have "step demo_bound (demo_prepared clear)"
    unfolding demo_prepared_def
    by (rule step.prepare [OF run]) (auto simp: open_rev seal_demo_def revision_check_def)
  then show ?thesis
    by (rule reachable.later [OF demo_bound_reachable])
qed

lemma demo_on_time:
  assumes "list_all (\<lambda>w. op_created_at w \<le> now) (operations c)"
  shows "on_time now c"
  using assms by (simp add: on_time_def list_all_iff)

lemma demo_preflighted_reachable: "reachable (demo_preflighted clear)"
proof -
  have "\<not> isl (finish_preflight ''w1'' 2 (demo_sealed True) 30 (demo_prepared True))"
    "\<not> isl (finish_preflight ''w1'' 2 (demo_sealed False) 30 (demo_prepared False))"
    by code_simp+
  then have "\<not> isl (finish_preflight ''w1'' 2 (demo_sealed clear) 30 (demo_prepared clear))"
    by (cases clear) auto
  note run = Inr_projr [OF this]
  have "list_all (\<lambda>w. op_created_at w \<le> 30) (operations (demo_prepared True))"
    "list_all (\<lambda>w. op_created_at w \<le> 30) (operations (demo_prepared False))"
    by code_simp+
  then have "on_time 30 (demo_prepared clear)"
    by (cases clear) (auto intro: demo_on_time)
  from step.preflighted [OF this run] have "step (demo_prepared clear) (demo_preflighted clear)"
    unfolding demo_preflighted_def .
  then show ?thesis
    by (rule reachable.later [OF demo_prepared_reachable])
qed

lemma demo_publishing_reachable: "reachable demo_publishing"
proof -
  have "\<not> isl (claim_next demo_settings 40 40 40 idle_worker (demo_preflighted True))"
    by code_simp
  from Inr_projr [OF this] have "step (demo_preflighted True) demo_publishing"
    unfolding demo_publishing_def by (metis prod.collapse step.claim)
  then show ?thesis
    by (rule reachable.later [OF demo_preflighted_reachable])
qed

lemma demo_upserted_reachable: "reachable demo_upserted"
proof -
  have "\<not> isl (mark_upserted ''w1'' 5 3 demo_publishing)"
    by code_simp
  from step.upserted [OF Inr_projr [OF this]] have "step demo_publishing demo_upserted"
    unfolding demo_upserted_def .
  then show ?thesis
    by (rule reachable.later [OF demo_publishing_reachable])
qed

lemma demo_ready_reachable: "reachable demo_ready"
proof -
  have run: "\<not> isl (finish_publication ''w1'' 5 1 3 1 42 demo_upserted)"
    by code_simp
  have "on_time 42 demo_upserted"
    by (rule demo_on_time) code_simp
  from step.published [OF this Inr_projr [OF run]] have "step demo_upserted demo_ready"
    unfolding demo_ready_def .
  then show ?thesis
    by (rule reachable.later [OF demo_upserted_reachable])
qed

lemma demo_deletion_requested_reachable: "reachable demo_deletion_requested"
proof -
  have "\<not> isl (request_deletion 50 1 demo_reservation ''user'' ''alice'' ''reports_v1'' ''screening'' demo_ready)"
    by code_simp
  from Inr_projr [OF this] have "step demo_ready demo_deletion_requested"
    unfolding demo_deletion_requested_def by (metis prod.collapse step.delete)
  then show ?thesis
    by (rule reachable.later [OF demo_ready_reachable])
qed

lemma demo_deleting_reachable: "reachable demo_deleting"
proof -
  have "\<not> isl (claim_next demo_settings 60 60 60 idle_worker demo_deletion_requested)"
    by code_simp
  from Inr_projr [OF this] have "step demo_deletion_requested demo_deleting"
    unfolding demo_deleting_def by (metis prod.collapse step.claim)
  then show ?thesis
    by (rule reachable.later [OF demo_deletion_requested_reachable])
qed

lemma demo_active_zero_reachable: "reachable demo_active_zero"
proof -
  have run: "\<not> isl (record_zero_verification ''w1'' 7 1 True 61 demo_deleting)"
    by code_simp
  have "on_time 61 demo_deleting"
    by (rule demo_on_time) code_simp
  from step.zero [OF this Inr_projr [OF run]] show ?thesis
    unfolding demo_active_zero_def by (rule reachable.later [OF demo_deleting_reachable])
qed

lemma demo_screening_zero_reachable: "reachable demo_screening_zero"
proof -
  have run: "\<not> isl (record_zero_verification ''w1'' 7 1 False 62 demo_active_zero)"
    by code_simp
  have "on_time 62 demo_active_zero"
    by (rule demo_on_time) code_simp
  from step.zero [OF this Inr_projr [OF run]] show ?thesis
    unfolding demo_screening_zero_def by (rule reachable.later [OF demo_active_zero_reachable])
qed

lemma demo_purged_reachable: "reachable demo_purged"
proof -
  have run: "\<not> isl (commit_purge ''w1'' 7 1 (storage_key_for 1) [3] 63 demo_screening_zero)"
    by code_simp
  have "on_time 63 demo_screening_zero"
    by (rule demo_on_time) code_simp
  from step.purge [OF this Inr_projr [OF run]] show ?thesis
    unfolding demo_purged_def by (rule reachable.later [OF demo_screening_zero_reachable])
qed

lemma demo_deleted_reachable: "reachable demo_deleted"
proof -
  have run: "\<not> isl (commit_deletion ''w1'' 7 1 64 demo_purged)"
    by code_simp
  have time: "on_time 64 demo_purged"
    by (rule demo_on_time) code_simp
  have "map_option op_document_id (get_operation demo_purged 7) = Some 1"
    by code_simp
  then have "deletes w 1" if "get_operation demo_purged 7 = Some w" for w
    using that by (simp add: deletes_def)
  from step.commit [OF time this Inr_projr [OF run]] show ?thesis
    unfolding demo_deleted_def by (rule reachable.later [OF demo_purged_reachable])
qed

lemma demo_extracting_reachable: "reachable demo_extracting"
proof -
  have run: "\<not> isl (set_phase ''w1'' 2 EXTRACTING 22 demo_claimed)"
    by code_simp
  have "on_time 22 demo_claimed"
    by (rule demo_on_time) code_simp
  from step.phase [OF this Inr_projr [OF run]] show ?thesis
    unfolding demo_extracting_def by (rule reachable.later [OF demo_claimed_reachable])
qed

lemma demo_failed_reachable: "reachable demo_failed"
proof -
  have "\<not> isl (fail_operation ''w1'' 2 (worker_failure ''extraction_timeout'' ''Timed out.'' True) 23
      demo_extracting)"
    by code_simp
  from step.fail [OF Inr_projr [OF this]] show ?thesis
    unfolding demo_failed_def by (rule reachable.later [OF demo_extracting_reachable])
qed

section \<open>An index in memory\<close>

text \<open>An index kept in memory: for every collection the stored points with their two payload flags.\<close>

record memory_point =
  mp_collection :: string
  mp_point :: chunk_point
  mp_published :: bool
  mp_visibility :: string

definition memory_matches :: "string \<Rightarrow> point_filter \<Rightarrow> memory_point \<Rightarrow> bool" where
  "memory_matches collection f m \<longleftrightarrow> mp_collection m = collection \<and> pt_document_id (mp_point m) = pf_document_id f
     \<and> (case pf_revision_id f of None \<Rightarrow> True | Some r \<Rightarrow> pt_revision_id (mp_point m) = r)
     \<and> (case pf_published f of None \<Rightarrow> True | Some b \<Rightarrow> mp_published m = b)
     \<and> (case pf_visibility f of None \<Rightarrow> True | Some v \<Rightarrow> mp_visibility m = v)"

fun memory_payload_flag :: "string \<Rightarrow> json \<Rightarrow> json" where
  "memory_payload_flag k (JObj kvs) = (case map_of kvs k of None \<Rightarrow> JNull | Some v \<Rightarrow> v)"
| "memory_payload_flag k _ = JNull"

definition memory_stored :: "string \<Rightarrow> chunk_point \<times> json \<Rightarrow> memory_point" where
  "memory_stored collection = (\<lambda>(p, payload). \<lparr>mp_collection = collection, mp_point = p,
     mp_published = (memory_payload_flag ''published'' payload = JBool True),
     mp_visibility = (case memory_payload_flag ''visibility'' payload of JStr v \<Rightarrow> v | _ \<Rightarrow> [])\<rparr>)"

definition memory_fetched :: "memory_point \<Rightarrow> stored_point" where
  "memory_fetched m = (let p = mp_point m in
     \<lparr>st_id = pt_chunk_id p, st_payload = point_payload p (mp_published m) (mp_visibility m),
      st_vector_names = [''dense'', ''bm25''], st_dense = Some (pt_dense p),
      st_sparse = Some (pt_sparse_indices p, Some (pt_sparse_values p))\<rparr>)"

definition memory_index :: "memory_point list qdrant" where
  "memory_index = \<lparr>
     q_upsert = (\<lambda>collection ps q. (True, map (memory_stored collection) ps
       @ filter (\<lambda>m. \<not> (mp_collection m = collection
           \<and> pt_chunk_id (mp_point m) \<in> set (map (pt_chunk_id \<circ> fst) ps))) q)),
     q_count = (\<lambda>collection f q. Count (int (length (filter (memory_matches collection f) q)))),
     q_retrieve = (\<lambda>collection ids q. Retrieved (map memory_fetched (filter (\<lambda>m. mp_collection m = collection
       \<and> pt_chunk_id (mp_point m) \<in> set ids) q))),
     q_set_payload = (\<lambda>collection kvs f q. (True, map (\<lambda>m. if memory_matches collection f m
       then m\<lparr>mp_published := (map_of kvs ''published'' = Some (JBool True)),
              mp_visibility := (case map_of kvs ''visibility'' of Some (JStr v) \<Rightarrow> v | _ \<Rightarrow> mp_visibility m)\<rparr>
       else m) q)),
     q_delete = (\<lambda>collection f q. (True, filter (\<lambda>m. \<not> memory_matches collection f m) q))\<rparr>"

lemma memory_index_isolated: "isolated_deletes memory_index"
  by (auto simp: isolated_deletes_def memory_index_def memory_matches_def intro!: arg_cong [where f = length]
      arg_cong [where f = "map memory_fetched"] filter_cong)

definition demo_env :: "memory_point list env" where
  "demo_env = \<lparr>en_worker_id = ''w1'', en_qdrant = Some memory_index, en_screening = Some ''screening'',
     en_collections = [reports], en_stdlib = demo_stdlib\<rparr>"


definition demo_deletion_world :: "memory_point list world" where
  "demo_deletion_world = \<lparr>w_catalog = demo_deleting, w_index = [], w_files = demo_files,
     w_clock = (\<lambda>n. 70 + int n), w_ticks = 0\<rparr>"

text \<open>The claim of the preflight with the world it starts in, and a claim as it is made.\<close>

definition demo_preflight_world :: "memory_point list world" where
  "demo_preflight_world = demo_deletion_world\<lparr>w_catalog := demo_claimed\<rparr>"

definition demo_preflight_claim :: claimed_operation where
  "demo_preflight_claim = \<lparr>cl_operation_id = 2, cl_document_id = 1, cl_collection_key = ''reports'', cl_type = PREFLIGHT,
     cl_locked = [1]\<rparr>"

definition demo_claim_result :: "lifecycle_error + claimed_operation option \<times> worker \<times> catalog" where
  "demo_claim_result = claim_next demo_settings 20 20 20 idle_worker demo_admitted"

section \<open>The deletion of the scenario runs\<close>

lemma demo_deletion_run: "\<exists>w'. run_delete demo_env 7 1 demo_deletion_world = (Inr (), w')"
proof -
  have "\<not> isl (fst (run_delete demo_env 7 1 demo_deletion_world))"
    by code_simp
  then show ?thesis
    by (metis Inr_projr old.unit.exhaust prod.collapse)
qed

lemma demo_deletion_ok:
  "lifecycle_ok (w_catalog demo_deletion_world)" "on_time (w_clock demo_deletion_world n) (w_catalog demo_deletion_world)"
proof -
  show "lifecycle_ok (w_catalog demo_deletion_world)"
    using reachable_lifecycle [OF demo_deleting_reachable] by (simp add: demo_deletion_world_def)
  have "list_all (\<lambda>w. op_created_at w \<le> 70) (operations demo_deleting)"
    by code_simp
  then show "on_time (w_clock demo_deletion_world n) (w_catalog demo_deletion_world)"
    by (auto simp: demo_deletion_world_def on_time_def list_all_iff)
qed

lemma demo_preflight_ok:
  "lifecycle_ok (w_catalog demo_preflight_world)" "on_time (w_clock demo_preflight_world n) (w_catalog demo_preflight_world)"
proof -
  show "lifecycle_ok (w_catalog demo_preflight_world)"
    using reachable_lifecycle [OF demo_claimed_reachable] by (simp add: demo_preflight_world_def)
  have "list_all (\<lambda>w. op_created_at w \<le> 70) (operations demo_claimed)"
    by code_simp
  then show "on_time (w_clock demo_preflight_world n) (w_catalog demo_preflight_world)"
    by (auto simp: demo_preflight_world_def demo_deletion_world_def on_time_def list_all_iff)
qed

end
