(* ===== verification/Requests.thy ===== *)
theory Requests
  imports Admission
begin

text \<open>
  The managers of \<^verbatim>\<open>pdf_bridge/managers/document.py\<close>: the three lifecycle mutations, each one
  idempotent transaction, and the upload, which streams and scans outside its transaction.  The
  transition lock serialises them, so each is a function of the catalog it starts from.
\<close>

section \<open>Managers\<close>

definition decide_document ::
  "(string \<Rightarrow> string) \<Rightarrow> (string \<Rightarrow> bool) \<Rightarrow> (document \<Rightarrow> work_operation \<Rightarrow> response_body) \<Rightarrow> bool
     \<Rightarrow> string option \<Rightarrow> timestamp \<Rightarrow> uuid \<Rightarrow> uuid \<Rightarrow> decision_action \<Rightarrow> uuid option \<Rightarrow> string \<Rightarrow> string
     \<Rightarrow> string \<Rightarrow> catalog \<Rightarrow> admission_error + mutation_reply \<times> catalog" where
  "decide_document sha256 valid_body respond running screening now did rid action target key
       actor_type actor_id c =
     run_mutation sha256 valid_body respond running now key ''decide_document'' actor_id
       (decision_material did rid action target)
       (decide_mutation screening now did rid action target actor_type actor_id) c"

definition retry_document ::
  "(string \<Rightarrow> string) \<Rightarrow> (string \<Rightarrow> bool) \<Rightarrow> (document \<Rightarrow> work_operation \<Rightarrow> response_body) \<Rightarrow> bool
     \<Rightarrow> timestamp \<Rightarrow> uuid \<Rightarrow> string \<Rightarrow> string \<Rightarrow> string \<Rightarrow> catalog
     \<Rightarrow> admission_error + mutation_reply \<times> catalog" where
  "retry_document sha256 valid_body respond running now did key actor_type actor_id c =
     run_mutation sha256 valid_body respond running now key ''retry_document'' actor_id
       (document_material did) (\<lambda>reservation. request_retry now did reservation actor_type actor_id) c"

definition delete_document ::
  "(string \<Rightarrow> string) \<Rightarrow> (string \<Rightarrow> bool) \<Rightarrow> (document \<Rightarrow> work_operation \<Rightarrow> response_body) \<Rightarrow> bool
     \<Rightarrow> collection_definition list \<Rightarrow> string option \<Rightarrow> timestamp \<Rightarrow> uuid \<Rightarrow> string \<Rightarrow> string \<Rightarrow> string
     \<Rightarrow> catalog \<Rightarrow> admission_error + mutation_reply \<times> catalog" where
  "delete_document sha256 valid_body respond running definitions screening now did key actor_type
       actor_id c =
     run_mutation sha256 valid_body respond running now key ''delete_document'' actor_id
       (document_material did) (delete_mutation definitions screening now did actor_type actor_id) c"

text \<open>
  An upload.  A unique-key race is retried once while the staged copy is still in quarantine; the
  promoted bytes of an admission whose response is invalid are unlinked.  The result is the reply
  with the committed catalog, and the files below the storage root.
\<close>

definition register_once_more ::
  "stdlib \<Rightarrow> (document \<Rightarrow> work_operation \<Rightarrow> response_body) \<Rightarrow> timestamp \<Rightarrow> prepared_admission \<Rightarrow> string
     \<Rightarrow> string \<Rightarrow> string \<Rightarrow> catalog \<Rightarrow> files
     \<Rightarrow> (admission_error + registration \<times> catalog) \<times> files" where
  "register_once_more sl respond now prepared key actor_type actor_id c fs =
     (case register_admission sl respond now prepared key actor_type actor_id c fs of
        (Inl (AdmissionFailure IntegrityError), fs1, True) \<Rightarrow>
          (case register_admission sl respond now prepared key actor_type actor_id c fs1 of
             (r, fs2, _) \<Rightarrow> (r, fs2))
      | (r, fs1, _) \<Rightarrow> (r, fs1))"

definition upload_document ::
  "stdlib \<Rightarrow> (string \<Rightarrow> bool) \<Rightarrow> (document \<Rightarrow> work_operation \<Rightarrow> response_body) \<Rightarrow> bool
     \<Rightarrow> collection_definition list \<Rightarrow> (string \<Rightarrow> scan_result option) \<Rightarrow> int \<Rightarrow> int \<Rightarrow> timestamp
     \<Rightarrow> string option list \<Rightarrow> string \<Rightarrow> string option \<Rightarrow> string \<Rightarrow> string \<Rightarrow> string \<Rightarrow> string
     \<Rightarrow> catalog \<Rightarrow> files \<Rightarrow> (admission_error + mutation_reply \<times> catalog) \<times> files" where
  "upload_document sl valid_body respond running definitions scanner max_bytes chunk_bytes now file
       filename content_type collection_key key actor_type actor_id c fs =
     (case rbind (admission_of (require_worker running)) (\<lambda>_.
             prepare_admission sl definitions scanner max_bytes chunk_bytes file filename content_type
               collection_key) of
        Inl e \<Rightarrow> (Inl e, fs)
      | Inr prepared \<Rightarrow>
          (case register_once_more sl respond now prepared key actor_type actor_id c fs of
             (Inl e, fs1) \<Rightarrow> (Inl e, fs1)
           | (Inr (AdmissionReplay status body, _), fs1) \<Rightarrow>
               (if status \<noteq> 202 \<or> \<not> valid_body body then Inl SerializationError
                else Inr (Replayed body, c), fs1)
           | (Inr (Admitted did op body, c1), fs1) \<Rightarrow>
               if \<not> valid_body body
               then (Inl SerializationError,
                 filter (\<lambda>(p, _). Inr p \<noteq> resolve_storage_key (storage_key_for did)) fs1)
               else (Inr (Accepted body, c1), fs1)))"

section \<open>Reservations survive mutations\<close>

lemma enqueue_operation_reservations:
  "enqueue_operation now did t p r tgt i ph c = Inr (op, c') \<Longrightarrow> idempotency_records c' = idempotency_records c"
  by (auto simp: enqueue_operation_def uuid4_def Let_def add_operation_def audit_def result_simps
      split: option.splits if_splits)

lemma ensure_publication_reservations:
  "ensure_publication_record now did r c = Inr (p, c') \<Longrightarrow> idempotency_records c' = idempotency_records c"
  by (auto simp: ensure_publication_record_def uuid4_def Let_def add_publication_def result_simps
      split: option.splits if_splits)

lemma begin_deletion_reservations:
  "begin_deletion now d dis active screening r p prio aty aid i c = Inr (op, c')
     \<Longrightarrow> idempotency_records c' = idempotency_records c"
  by (auto simp: begin_deletion_def uuid4_def Let_def add_deletion_def audit_def result_simps
      dest!: enqueue_operation_reservations split: option.splits if_splits)

lemma begin_replacement_reservations:
  "begin_replacement now inc ir t tr tp screening aty aid c = Inr (op, c')
     \<Longrightarrow> idempotency_records c' = idempotency_records c"
  by (auto simp: begin_replacement_def uuid4_def Let_def add_deletion_def audit_def result_simps
      dest!: enqueue_operation_reservations ensure_publication_reservations split: option.splits if_splits)

lemma record_decision_reservations:
  "record_decision now did rid action target idem aty aid screening c = Inr (m, c')
     \<Longrightarrow> idempotency_records c' = idempotency_records c"
  by (cases action)
    (auto simp: record_decision_def uuid4_def Let_def add_decision_def audit_def result_simps
      dest!: enqueue_operation_reservations ensure_publication_reservations begin_deletion_reservations
        begin_replacement_reservations split: option.splits if_splits)

lemma retry_checkpoint_reservations:
  "retry_checkpoint c d t failed = Inr (ph, c') \<Longrightarrow> idempotency_records c' = idempotency_records c"
  by (cases t)
    (auto simp: retry_checkpoint_def retry_publication_def upd_publication_def result_simps
      split: option.splits if_splits)

lemma request_retry_reservations:
  "request_retry now did idem aty aid c = Inr (m, c') \<Longrightarrow> idempotency_records c' = idempotency_records c"
  by (erule request_retryE) (auto dest!: enqueue_operation_reservations retry_checkpoint_reservations)

lemma request_deletion_reservations:
  "request_deletion now did idem aty aid active screening c = Inr (m, c')
     \<Longrightarrow> idempotency_records c' = idempotency_records c"
  by (auto simp: request_deletion_def result_simps dest!: begin_deletion_reservations
      split: option.splits if_splits)

section \<open>Idempotency\<close>

text \<open>A fresh reservation, and a replayed one.\<close>

lemma reserve_fresh:
  assumes "reserve_idempotency sha256 now key action actor material c = Inr (Reserved r, c1)"
  shows "idempotency_records c1 = tadd r (idempotency_records c)"
    "\<forall>x\<in>set (idempotency_records c). idem_id x \<noteq> idem_id r \<and> idem_key x \<noteq> key"
    "idem_key r = key" "idem_action r = action" "idem_actor_id r = actor" "idem_completed_at r = None"
    "idem_request_sha256 r = canonical_request_sha256 sha256 action material"
    "8 \<le> length key \<and> length key \<le> 128 \<and> \<not> list_ex (\<lambda>ch. py_isspace ch \<or> \<not> py_isprintable ch) key"
    "action \<noteq> [] \<and> length action \<le> 64 \<and> actor \<noteq> [] \<and> length actor \<le> 255"
  using assms
  by (auto simp: reserve_idempotency_def uuid4_def Let_def add_idempotency_def list_ex_iff result_simps
      split: option.splits if_splits)

lemma reserve_once_more_eq:
  "reserve_once_more sha256 now key action actor material c
     = reserve_idempotency sha256 now key action actor material c"
  by (simp add: reserve_once_more_def split: sum.splits lifecycle_error.splits)

lemma complete_reserved:
  assumes "complete_idempotency now r 202 b rt rid = Inr r'" and "idem_completed_at r = None"
  shows "r' = r\<lparr>idem_response_status := Some 202, idem_response_body := Some (body_text b),
    idem_resource_type := Some rt, idem_resource_id := Some rid, idem_completed_at := Some now\<rparr>"
  using assms
  by (auto simp: complete_idempotency_def body_text_def split: response_body.splits if_splits)

lemma get_completed:
  assumes "idempotency_records c = tadd r rs" and "\<forall>x\<in>set rs. idem_id x \<noteq> idem_id r \<and> idem_key x \<noteq> idem_key r"
    and "idem_key r' = idem_key r"
  shows "tget idem_key (idem_key r) (idempotency_records (upd_idempotency (idem_id r) r' c)) = Some r'"
proof -
  have "tupd idem_id (idem_id r) (\<lambda>_. r') rs = rs"
    using assms(2) by (induction rs) (auto simp: tupd_def)
  then have "idempotency_records (upd_idempotency (idem_id r) r' c) = tadd r' rs"
    using assms(1) by (simp add: upd_idempotency_def tadd_def tupd_def)
  moreover have "tget idem_key (idem_key r) rs = None"
    using assms(2) by (auto simp: tget_None_iff)
  ultimately show ?thesis
    using assms(3) by (simp add: tget_tadd)
qed

text \<open>A completed record under \<open>key\<close> for this request.\<close>

definition answered ::
  "(string \<Rightarrow> string) \<Rightarrow> string \<Rightarrow> string \<Rightarrow> string \<Rightarrow> (string \<times> json) list \<Rightarrow> string \<Rightarrow> catalog \<Rightarrow> bool" where
  "answered sha256 key action actor material body c \<longleftrightarrow>
     (case tget idem_key key (idempotency_records c) of
        None \<Rightarrow> False
      | Some r \<Rightarrow> idem_action r = action \<and> idem_actor_id r = actor
          \<and> idem_request_sha256 r = canonical_request_sha256 sha256 action material
          \<and> idem_response_status r = Some 202 \<and> idem_response_body r = Some body)"

lemma answered_replay:
  assumes "answered sha256 key action actor material body c"
    and "8 \<le> length key \<and> length key \<le> 128 \<and> \<not> list_ex (\<lambda>ch. py_isspace ch \<or> \<not> py_isprintable ch) key"
    and "action \<noteq> [] \<and> length action \<le> 64 \<and> actor \<noteq> [] \<and> length actor \<le> 255"
  shows "reserve_idempotency sha256 now key action actor material c = Inr (IdempotencyReplay 202 body, c)"
  using assms by (auto simp: answered_def reserve_idempotency_def Let_def split: option.splits)

lemma answered_conflict:
  assumes "answered sha256 key action actor material body c"
    and "8 \<le> length key \<and> length key \<le> 128 \<and> \<not> list_ex (\<lambda>ch. py_isspace ch \<or> \<not> py_isprintable ch) key"
    and "action' \<noteq> [] \<and> length action' \<le> 64 \<and> actor' \<noteq> [] \<and> length actor' \<le> 255"
    and "action' \<noteq> action \<or> actor' \<noteq> actor
      \<or> canonical_request_sha256 sha256 action' material' \<noteq> canonical_request_sha256 sha256 action material"
  shows "reserve_idempotency sha256 now key action' actor' material' c = Inl (conflict ''idempotency_conflict'')"
  using assms by (auto simp: answered_def reserve_idempotency_def Let_def split: option.splits)

text \<open>A mutation that leaves the reservations alone.\<close>

locale reserved_mutation =
  fixes mutate :: "idempotency_record \<Rightarrow> catalog \<Rightarrow> lifecycle_error + mutation_outcome \<times> catalog"
  assumes keeps_reservations: "mutate r c = Inr (m, c') \<Longrightarrow> idempotency_records c' = idempotency_records c"
begin

text \<open>What an accepted request leaves behind under its key.\<close>

lemma accepted_answered:
  assumes run: "run_mutation sha256 valid respond running now key action actor material mutate c
      = Inr (Accepted body, c')"
  shows "running \<and> answered sha256 key action actor material body c'
    \<and> (8 \<le> length key \<and> length key \<le> 128 \<and> \<not> list_ex (\<lambda>ch. py_isspace ch \<or> \<not> py_isprintable ch) key)
    \<and> (action \<noteq> [] \<and> length action \<le> 64 \<and> actor \<noteq> [] \<and> length actor \<le> 255)"
proof -
  obtain x c1 where running: running and res: "reserve_idempotency sha256 now key action actor material c = Inr (x, c1)"
    using run by (auto simp: run_mutation_def result_simps reserve_once_more_eq require_worker_def split: if_splits)
  then obtain r where x: "x = Reserved r"
    using run by (cases x) (auto simp: run_mutation_def admission_of_def require_worker_def reserve_once_more_eq
        split: if_splits)
  note res = res [unfolded x]
  obtain outcome c2 op d completed where mut: "mutate r c1 = Inr (outcome, c2)"
    and comp: "complete_idempotency now r 202 (respond d op) ''document'' (mo_document_id outcome) = Inr completed"
    and body: "body = body_text (respond d op)" and c': "c' = upd_idempotency (idem_id r) completed c2"
    using run res running
    by (auto simp: run_mutation_def reserve_once_more_eq admission_of_def require_worker_def rbind_def
        split: option.splits if_splits sum.splits)
  note fresh = reserve_fresh [OF res]
  have fin: "completed = r\<lparr>idem_response_status := Some 202, idem_response_body := Some body,
      idem_resource_type := Some ''document'', idem_resource_id := Some (mo_document_id outcome),
      idem_completed_at := Some now\<rparr>"
    using complete_reserved [OF comp fresh(6)] body by simp
  have "tget idem_key key (idempotency_records c') = Some completed"
    using get_completed [of c2 r "idempotency_records c" completed] fresh keeps_reservations [OF mut] c' fin
    by simp
  then show ?thesis
    using running fresh fin by (simp add: answered_def)
qed

lemma replays:
  assumes run: "run_mutation sha256 valid respond running now key action actor material mutate c
      = Inr (Accepted body, c')"
    and later: "answered sha256 key action actor material body c' \<Longrightarrow> answered sha256 key action actor material body c''"
    and "valid body"
  shows "run_mutation sha256 valid respond' running now' key action actor material mutate' c''
      = Inr (Replayed body, c'')"
  using accepted_answered [OF run] answered_replay [of sha256 key action actor material body c'' now'] later assms(3)
  by (auto simp: run_mutation_def reserve_once_more_eq admission_of_def require_worker_def)

end

interpretation decide_requests: reserved_mutation "decide_mutation screening now did rid action target aty aid"
  for screening now did rid action target aty aid
  by unfold_locales (auto simp: decide_mutation_def result_simps dest!: record_decision_reservations)

interpretation retry_requests: reserved_mutation "\<lambda>r. request_retry now did r aty aid" for now did aty aid
  by unfold_locales (auto dest!: request_retry_reservations)

interpretation delete_requests: reserved_mutation "delete_mutation definitions screening now did aty aid"
  for definitions screening now did aty aid
  by unfold_locales (auto simp: delete_mutation_def result_simps dest!: request_deletion_reservations
      split: option.splits)


subsection \<open>A decision is recorded once\<close>

lemma begin_deletion_decisions:
  "begin_deletion now d dis active screening r p prio aty aid i c = Inr (op, c') \<Longrightarrow> decisions c' = decisions c"
  by (auto simp: begin_deletion_def uuid4_def Let_def add_deletion_def result_simps
      dest!: enqueue_operation_effect(18) split: option.splits if_splits)

lemma ensure_publication_decisions:
  "ensure_publication_record now did r c = Inr (p, c') \<Longrightarrow> decisions c' = decisions c"
  by (auto simp: ensure_publication_record_def uuid4_def Let_def add_publication_def result_simps
      split: option.splits if_splits)

lemma begin_replacement_decisions:
  "begin_replacement now inc ir t tr tp screening aty aid c = Inr (op, c') \<Longrightarrow> decisions c' = decisions c"
  by (auto simp: begin_replacement_def uuid4_def Let_def add_deletion_def result_simps
      dest!: enqueue_operation_effect(18) ensure_publication_decisions split: option.splits if_splits)

lemma decided_once:
  assumes "decision_of c rid \<noteq> None"
  shows "\<exists>e. record_decision now did rid action target idem aty aid screening c = Inl e"
proof (cases "record_decision now did rid action target idem aty aid screening c")
  case (Inr x)
  obtain m c' where x: "x = (m, c')" by fastforce
  have False
    using Inr [unfolded x]
  proof (cases rule: record_decisionE)
    case (1 d r row c2 op c4)
    show False
      using require_current_review_revisionD(8) [OF 1(3)] assms by simp
  qed
  then show ?thesis ..
qed auto

lemma record_decision_row:
  assumes run: "record_decision now did rid action target idem aty aid screening c = Inr (m, c')"
  shows "\<exists>d r dec. get_document c did = Some d \<and> doc_state d = REVIEW_REQUIRED
      \<and> get_revision c rid = Some r \<and> rev_document_id r = did \<and> rev_status r = REV_SEALED
      \<and> map_option rev_id (latest_sealed_revision c did) = Some rid
      \<and> decision_of c rid = None \<and> decision_of c' rid = Some dec \<and> dec_document_id dec = did
      \<and> Some (dec_manifest_sha256 dec) = rev_manifest_sha256 r
      \<and> dec_action dec = action \<and> dec_target_document_id dec = target"
  using run
proof (cases rule: record_decisionE)
  case (1 d r row c2 op c4)
  note rev = require_current_review_revisionD [OF 1(3)]
  have "decisions c4 = decisions c2"
    using 1(15) by (cases action)
      (auto dest!: begin_deletion_decisions begin_replacement_decisions ensure_publication_decisions
        enqueue_operation_effect(18))
  then have "decision_of c' rid = Some row"
    using 1(14,5) decision_inserts.get_add [OF 1(4), of rid] by simp
  then show ?thesis
    using 1 rev by auto
qed

end
