(* ===== verification/Leases.thy ===== *)
theory Leases
  imports Preflight
begin

text \<open>
  Leases and claims: which operation a slot claims, what the exclusion of busy documents
  guarantees, and that no durable step of a worker whose lease was recovered can commit.
\<close>

section \<open>Durable steps need the lease\<close>

text \<open>
  A transaction that commits only while its operation runs under the given worker's lease.
\<close>

locale leased =
  fixes work :: "string \<Rightarrow> uuid \<Rightarrow> catalog \<Rightarrow> worker_error + 'a"
  assumes owned: "work wid oid c = Inr x \<Longrightarrow> owned_operation c wid oid \<noteq> None"
begin

lemma refused:
  assumes "owned_operation c wid oid = None"
  shows "\<exists>e. work wid oid c = Inl e"
  using owned [of wid oid c] assms by (cases "work wid oid c") auto

lemma running:
  assumes "work wid oid c = Inr x"
  obtains w where "get_operation c oid = Some w" and "op_state w = OP_RUNNING"
    and "op_worker_id w = Some wid"
  using owned [OF assms] by (auto simp: owned_operation_def split: option.splits if_splits)

end

interpretation phase_lease: leased "\<lambda>wid oid. set_phase wid oid phase now" for phase now
  by unfold_locales (auto simp: set_phase_def split: if_splits option.splits)

interpretation bind_lease: leased "\<lambda>wid oid. bind_revision wid oid rid" for rid
  by unfold_locales (auto simp: bind_revision_def split: if_splits option.splits)

interpretation succeed_lease: leased "\<lambda>wid oid. succeed_operation wid oid phase now" for phase now
  by unfold_locales (auto simp: succeed_operation_def split: option.splits)

interpretation reject_lease: leased
  "\<lambda>wid oid. accept_rejection_txn wid oid did reason active screening now" for did reason active screening now
  by unfold_locales (auto simp: accept_rejection_txn_def split: option.splits)

interpretation preflight_lease: leased "\<lambda>wid oid. finish_preflight wid oid sealed now" for sealed now
  by unfold_locales (auto simp: finish_preflight_def split: option.splits)

interpretation upsert_lease: leased "\<lambda>wid oid. mark_upserted wid oid rid" for rid
  by unfold_locales (auto simp: mark_upserted_def split: option.splits)

interpretation publish_lease: leased "\<lambda>wid oid. finish_publication wid oid did rid n now" for did rid n now
  by unfold_locales (auto simp: finish_publication_def split: option.splits)

interpretation deletion_phase_lease: leased "\<lambda>wid oid. set_deletion_phase wid oid did phase now" for did phase now
  by unfold_locales (auto simp: set_deletion_phase_def split: option.splits)

interpretation zero_lease: leased "\<lambda>wid oid. record_zero_verification wid oid did active now" for did active now
  by unfold_locales (auto simp: record_zero_verification_def split: option.splits)

interpretation purge_lease: leased "\<lambda>wid oid. commit_purge wid oid did key rs now" for did key rs now
  by unfold_locales (auto simp: commit_purge_def split: option.splits)

interpretation commit_lease: leased "\<lambda>wid oid. commit_deletion wid oid did now" for did now
  by unfold_locales (auto simp: commit_deletion_def split: option.splits)

text \<open>An operation whose lease was recovered is owned by nobody.\<close>

lemma get_recovered:
  "get_operation (snd (recover_leases now c)) oid =
     map_option (\<lambda>w. if lease_expired now w then requeue w else w) (get_operation c oid)"
proof -
  have "tget op_id k (map (\<lambda>w. if lease_expired now w then requeue w else w) ws) =
      map_option (\<lambda>w. if lease_expired now w then requeue w else w) (tget op_id k ws)" for k ws
    by (induction ws) (auto simp: tget_def requeue_def)
  then show ?thesis
    by (simp add: recover_leases_def)
qed

lemma recovered_not_owned:
  assumes "get_operation c oid = Some w" and "lease_expired now w"
  shows "owned_operation (snd (recover_leases now c)) wid oid = None"
  using assms by (simp add: owned_operation_def get_recovered requeue_def)

lemma recovered_not_failed:
  assumes "get_operation c oid = Some w" and "lease_expired now w"
  shows "fail_operation wid oid exc t (snd (recover_leases now c)) = Inr (snd (recover_leases now c))"
  using assms by (simp add: fail_operation_def get_recovered requeue_def split: prod.split)

text \<open>The steps that are not fenced change neither operations nor documents.\<close>

lemma unfenced_steps:
  "begin_outbox did rid target action collection n c = Inr (i, c1) \<Longrightarrow> operations c1 = operations c \<and> documents c1 = documents c"
  "complete_outbox i now c = Inr c1 \<Longrightarrow> operations c1 = operations c \<and> documents c1 = documents c"
  by (auto simp: begin_outbox_def complete_outbox_def add_outbox_def upd_outbox_def result_simps Let_def lift_lifecycle_def
      split: option.splits if_splits sum.splits)

section \<open>Claims\<close>

text \<open>The operations after a claim: expired leases were recovered and one operation started.\<close>

lemma locked_documents: "set (locked_document_ids w) = {op_document_id w} \<union> set_option (op_replacement_target w)"
  by (auto simp: locked_document_ids_def split: option.splits)

lemma claimable_not_busy:
  "claimable c busy w \<Longrightarrow> set (locked_document_ids w) \<inter> busy = {}"
  by (auto simp: claimable_def locked_documents split: option.splits)

end
