(* ===== verification/Text.thy ===== *)
theory Text
  imports Prelude
begin

text \<open>
  The text operations of Python that the Markdown, filename and prompt code is written with:
  stripping, splitting at a character and into lines.  \<open>visible\<close> is what is left of a text
  without its whitespace; it is the measure in which no text may be lost.
\<close>

section \<open>Characters\<close>

definition LF :: char where
  "LF = char_of (10::nat)"

definition TAB :: char where
  "TAB = char_of (9::nat)"

definition is_blank_char :: "char \<Rightarrow> bool" where
  "is_blank_char c \<longleftrightarrow> c = CHR '' '' \<or> c = TAB"

text \<open>The characters \<^verbatim>\<open>str.splitlines\<close> breaks at, in the first 256 code points.\<close>

definition is_line_break :: "char \<Rightarrow> bool" where
  "is_line_break c = (let n = char_code c in (10 \<le> n \<and> n \<le> 13) \<or> (28 \<le> n \<and> n \<le> 30) \<or> n = 133)"

lemma line_break_isspace: "is_line_break c \<Longrightarrow> py_isspace c"
  by (auto simp: is_line_break_def py_isspace_def Let_def)

lemma LF_isspace [simp]: "py_isspace LF"
  by (simp add: LF_def py_isspace_def char_code_def Let_def)

lemma LF_line_break [simp]: "is_line_break LF"
  by (simp add: LF_def is_line_break_def char_code_def Let_def)

section \<open>Stripping\<close>

definition py_lstrip :: "string \<Rightarrow> string" where
  "py_lstrip s = dropWhile py_isspace s"

definition py_rstrip :: "string \<Rightarrow> string" where
  "py_rstrip s = rev (dropWhile py_isspace (rev s))"

definition strip_char :: "char \<Rightarrow> string \<Rightarrow> string" where
  "strip_char c s = rev (dropWhile (\<lambda>x. x = c) (rev (dropWhile (\<lambda>x. x = c) s)))"

definition visible :: "string \<Rightarrow> string" where
  "visible s = filter (\<lambda>c. \<not> py_isspace c) s"

definition blank :: "string \<Rightarrow> bool" where
  "blank s \<longleftrightarrow> py_strip s = []"

lemma py_strip_eq: "py_strip s = py_rstrip (py_lstrip s)"
  by (simp add: py_strip_def py_rstrip_def py_lstrip_def)

lemma visible_append [simp]: "visible (a @ b) = visible a @ visible b"
  by (simp add: visible_def)

lemma visible_Nil [simp]: "visible [] = []"
  by (simp add: visible_def)

lemma visible_Cons [simp]: "visible (c # s) = (if py_isspace c then visible s else c # visible s)"
  by (simp add: visible_def)

lemma visible_lstrip [simp]: "visible (py_lstrip s) = visible s"
  by (induction s) (auto simp: py_lstrip_def)

lemma visible_rev: "visible (rev s) = rev (visible s)"
  by (simp add: visible_def rev_filter)

lemma visible_rstrip [simp]: "visible (py_rstrip s) = visible s"
  using visible_lstrip [of "rev s"] by (simp add: py_rstrip_def py_lstrip_def visible_rev)

lemma visible_strip [simp]: "visible (py_strip s) = visible s"
  by (simp add: py_strip_eq)

lemma visible_empty_iff: "visible s = [] \<longleftrightarrow> list_all py_isspace s"
  by (simp add: visible_def filter_empty_conv list_all_iff)

lemma lstrip_empty_iff [simp]: "py_lstrip s = [] \<longleftrightarrow> visible s = []"
  by (auto simp: py_lstrip_def visible_empty_iff list_all_iff dropWhile_eq_Nil_conv)

lemma rstrip_empty_iff [simp]: "py_rstrip s = [] \<longleftrightarrow> visible s = []"
  by (auto simp: py_rstrip_def visible_empty_iff list_all_iff dropWhile_eq_Nil_conv)

lemma strip_empty_iff [simp]: "py_strip s = [] \<longleftrightarrow> visible s = []"
  by (simp add: py_strip_eq)

lemma blank_iff: "blank s \<longleftrightarrow> visible s = []"
  by (simp add: blank_def)

lemma length_lstrip: "length (py_lstrip s) \<le> length s"
  by (simp add: py_lstrip_def length_dropWhile_le)

lemma length_rstrip: "length (py_rstrip s) \<le> length s"
  using length_dropWhile_le [of py_isspace "rev s"] by (simp add: py_rstrip_def)

lemma length_visible: "length (visible s) \<le> length s"
  by (simp add: visible_def)

text \<open>A text is trimmed when stripping leaves it alone.\<close>

definition trimmed :: "string \<Rightarrow> bool" where
  "trimmed s \<longleftrightarrow> s \<noteq> [] \<longrightarrow> \<not> py_isspace (hd s) \<and> \<not> py_isspace (last s)"

lemma dropWhile_hd: "s = [] \<or> \<not> P (hd s) \<Longrightarrow> dropWhile P s = s"
  by (cases s) auto

lemma trimmed_strip: "trimmed s \<Longrightarrow> py_strip s = s"
  using dropWhile_hd [of s py_isspace] dropWhile_hd [of "rev s" py_isspace]
  by (auto simp: trimmed_def py_strip_def hd_rev)

lemma lstrip_hd: "py_lstrip s \<noteq> [] \<Longrightarrow> \<not> py_isspace (hd (py_lstrip s))"
  using hd_dropWhile [of py_isspace s] by (simp add: py_lstrip_def)

lemma rstrip_last: "py_rstrip s \<noteq> [] \<Longrightarrow> \<not> py_isspace (last (py_rstrip s))"
  using hd_dropWhile [of py_isspace "rev s"] by (simp add: py_rstrip_def last_rev)

lemma rstrip_prefix: "\<exists>w. s = py_rstrip s @ w \<and> visible w = []"
proof -
  have "s = rev (dropWhile py_isspace (rev s)) @ rev (takeWhile py_isspace (rev s))"
    by (metis rev_append rev_rev_ident takeWhile_dropWhile_id)
  moreover have "visible (rev (takeWhile py_isspace (rev s))) = []"
    by (auto simp: visible_empty_iff list_all_iff dest: set_takeWhileD)
  ultimately show ?thesis
    unfolding py_rstrip_def by blast
qed

lemma rstrip_hd: "py_rstrip s \<noteq> [] \<Longrightarrow> hd (py_rstrip s) = hd s"
  using rstrip_prefix [of s] by (metis hd_append2)

lemma strip_trimmed [simp]: "trimmed (py_strip s)"
  by (auto simp: trimmed_def py_strip_eq rstrip_last)
    (metis lstrip_hd rstrip_hd rstrip_empty_iff lstrip_empty_iff visible_lstrip)

lemma strip_idem [simp]: "py_strip (py_strip s) = py_strip s"
  by (rule trimmed_strip) simp

lemma trimmed_visible: "trimmed s \<Longrightarrow> visible s = [] \<longleftrightarrow> s = []"
  using trimmed_strip strip_empty_iff by metis

section \<open>Splitting\<close>

fun split_on :: "char \<Rightarrow> string \<Rightarrow> string list" where
  "split_on d [] = [[]]"
| "split_on d (c # cs) =
     (if c = d then [] # split_on d cs
      else case split_on d cs of [] \<Rightarrow> [[c]] | x # xs \<Rightarrow> (c # x) # xs)"

fun splitlines_acc :: "string \<Rightarrow> string \<Rightarrow> string list" where
  "splitlines_acc acc [] = (if acc = [] then [] else [acc])"
| "splitlines_acc acc (c # cs) =
     (if is_line_break c
      then acc # splitlines_acc [] (if char_code c = 13 \<and> take 1 cs = [LF] then drop 1 cs else cs)
      else splitlines_acc (acc @ [c]) cs)"

definition splitlines :: "string \<Rightarrow> string list" where
  "splitlines s = splitlines_acc [] s"

lemma visible_drop_LF: "take 1 cs = [LF] \<Longrightarrow> visible (drop (Suc 0) cs) = visible cs"
  by (cases cs) auto

lemma visible_splitlines_acc:
  "concat (map visible (splitlines_acc acc s)) = visible acc @ visible s"
  by (induction acc s rule: splitlines_acc.induct)
    (auto simp: line_break_isspace visible_drop_LF)

lemma visible_splitlines [simp]: "concat (map visible (splitlines s)) = visible s"
  by (simp add: splitlines_def visible_splitlines_acc)

text \<open>A line holds no line break.\<close>

definition one_line :: "string \<Rightarrow> bool" where
  "one_line s \<longleftrightarrow> list_all (\<lambda>c. \<not> is_line_break c) s"

lemma splitlines_acc_one_line:
  "one_line acc \<Longrightarrow> list_all one_line (splitlines_acc acc s)"
  by (induction acc s rule: splitlines_acc.induct) (auto simp: one_line_def)

lemma splitlines_one_line: "l \<in> set (splitlines s) \<Longrightarrow> one_line l"
  using splitlines_acc_one_line [of "[]" s] by (auto simp: splitlines_def one_line_def list_all_iff)

lemma splitlines_acc_line:
  "one_line l \<Longrightarrow> splitlines_acc acc (l @ s) = splitlines_acc (acc @ l) s"
  by (induction l arbitrary: acc) (auto simp: one_line_def)

lemma char_code_LF [simp]: "char_code LF = 10"
  by (simp add: LF_def char_code_def)

text \<open>Joining lines and splitting the text again gives the lines back, unless the last one is empty.\<close>

lemma splitlines_join:
  "list_all one_line ls \<Longrightarrow> ls \<noteq> [] \<Longrightarrow> last ls \<noteq> [] \<Longrightarrow> splitlines (py_join [LF] ls) = ls"
proof (induction ls)
  case (Cons l ls)
  show ?case
  proof (cases ls)
    case Nil
    then show ?thesis
      using Cons.prems splitlines_acc_line [of l "[]" "[]"] by (simp add: splitlines_def)
  next
    case (Cons l' ls')
    then have "splitlines_acc [] (py_join [LF] ls) = ls"
      using Cons.IH Cons.prems by (simp add: splitlines_def)
    then show ?thesis
      using Cons Cons.prems splitlines_acc_line [of l "[]" "LF # py_join [LF] ls"] by (simp add: splitlines_def)
  qed
qed simp

lemma visible_join:
  "visible sep = [] \<Longrightarrow> visible (py_join sep xs) = concat (map visible xs)"
  by (induction sep xs rule: py_join.induct) auto

lemma visible_join_LF [simp]: "visible (py_join [LF] xs) = concat (map visible xs)"
  by (rule visible_join) simp

end
