(* ===== verification/Chunking.thy ===== *)
theory Chunking
  imports Preparation Text
begin

text \<open>
  Structure-aware chunking of canonical Markdown, from \<^verbatim>\<open>pdf_bridge/services/markdown_chunking.py\<close>.
  The tokenizer is not part of the repository: it is the parameter \<open>tk\<close>, the number of model
  wordpieces of a text.  A loop over \<^verbatim>\<open>lines[index:]\<close> is recursion over the lines that are left.
\<close>

section \<open>Pages, blocks and limits\<close>

definition TARGET_TOKENS :: int where
  "TARGET_TOKENS = 320"

definition OVERLAP_TOKENS :: int where
  "OVERLAP_TOKENS = 48"

type_synonym tokenizer = "string \<Rightarrow> int"

datatype chunking_error = MarkdownChunkingError string | ChunkingValueError string

record markdown_page =
  mp_page_number :: int
  mp_markdown :: string

datatype block_kind = Heading | Fence | Table | Prose | Overlap

record block =
  bl_text :: string
  bl_page :: int
  bl_heading_path :: "string list"
  bl_kind :: block_kind
  bl_token_count :: int

fun validate_pages_from :: "int \<Rightarrow> markdown_page list \<Rightarrow> chunking_error + unit" where
  "validate_pages_from expected [] = Inr ()"
| "validate_pages_from expected (page # pages) =
     (if mp_page_number page \<noteq> expected
      then Inl (MarkdownChunkingError ''formatted pages must be complete and in one-based order'')
      else if py_strip (mp_markdown page) = []
      then Inl (MarkdownChunkingError (''page '' @ int_str (mp_page_number page) @ '' has empty Markdown''))
      else validate_pages_from (expected + 1) pages)"

definition validate_pages :: "markdown_page list \<Rightarrow> chunking_error + unit" where
  "validate_pages pages =
     (if pages = [] then Inl (MarkdownChunkingError ''at least one formatted page is required'')
      else validate_pages_from 1 pages)"

definition canonical_markdown :: "markdown_page list \<Rightarrow> chunking_error + string" where
  "canonical_markdown pages =
     rbind (validate_pages pages) (\<lambda>_.
       Inr (py_join [LF, LF] (map (\<lambda>page. ''<!-- page:'' @ int_str (mp_page_number page) @ '' -->'' @ [LF, LF]
         @ py_strip (mp_markdown page)) pages)))"

section \<open>Line patterns\<close>

text \<open>
  \<^verbatim>\<open>^(#{1,6})[ \t]+(.+?)\s*$\<close>: the level and the stripped title.  The title group takes at least
  one character, if need be one of the blanks before it.
\<close>

definition heading_of :: "string \<Rightarrow> (nat \<times> string) option" where
  "heading_of line =
     (let level = length (takeWhile (\<lambda>c. c = CHR ''#'') line);
          rest = drop level line;
          blanks = takeWhile is_blank_char rest;
          title = dropWhile is_blank_char rest
      in if 1 \<le> level \<and> level \<le> 6 \<and> blanks \<noteq> [] \<and> (title \<noteq> [] \<or> 2 \<le> length blanks)
         then Some (level, py_strip title) else None)"

text \<open>\<^verbatim>\<open>^[ \t]*(`{3,}|~{3,})([^`]*)$\<close>: the marker.\<close>

definition BACKTICK :: char where
  "BACKTICK = char_of (96::nat)"

definition fence_of :: "string \<Rightarrow> string option" where
  "fence_of line =
     (case dropWhile is_blank_char line of
        [] \<Rightarrow> None
      | c # cs \<Rightarrow>
          let marker = c # takeWhile (\<lambda>x. x = c) cs; info = dropWhile (\<lambda>x. x = c) cs
          in if (c = BACKTICK \<or> c = CHR ''~'') \<and> 3 \<le> length marker \<and> BACKTICK \<notin> set info
             then Some marker else None)"

text \<open>\<^verbatim>\<open>^:?-{3,}:?$\<close>\<close>

definition table_separator_cell :: "string \<Rightarrow> bool" where
  "table_separator_cell cell =
     (let rest = (if take 1 cell = '':'' then drop 1 cell else cell);
          dashes = takeWhile (\<lambda>c. c = CHR ''-'') rest;
          tail = dropWhile (\<lambda>c. c = CHR ''-'') rest
      in 3 \<le> length dashes \<and> (tail = [] \<or> tail = '':''))"

definition is_table_separator :: "string \<Rightarrow> bool" where
  "is_table_separator line =
     (let cells = map py_strip (split_on (CHR ''|'') (strip_char (CHR ''|'') (py_strip line)))
      in 2 \<le> length cells \<and> list_all table_separator_cell cells)"

fun is_table_start :: "string list \<Rightarrow> bool" where
  "is_table_start (line # following # _) = (CHR ''|'' \<in> set line \<and> is_table_separator following)"
| "is_table_start _ = False"

section \<open>Parsing a page into blocks\<close>

definition new_block :: "tokenizer \<Rightarrow> int \<Rightarrow> string list \<Rightarrow> block_kind \<Rightarrow> string \<Rightarrow> block list" where
  "new_block tk page headings kind text =
     (let candidate = py_strip text in
      if candidate = [] then []
      else [\<lparr>bl_text = candidate, bl_page = page, bl_heading_path = headings, bl_kind = kind,
             bl_token_count = tk candidate\<rparr>])"

text \<open>The lines of a fence after its opening line, up to the closing one and including it.\<close>

fun take_fence :: "string \<Rightarrow> string list \<Rightarrow> string list \<times> string list" where
  "take_fence marker [] = ([], [])"
| "take_fence marker (l # ls) =
     (if take (length marker) (py_lstrip l) = marker then ([l], ls)
      else let (captured, rest) = take_fence marker ls in (l # captured, rest))"

definition table_row :: "string \<Rightarrow> bool" where
  "table_row l \<longleftrightarrow> py_strip l \<noteq> [] \<and> CHR ''|'' \<in> set l"

fun take_prose :: "string list \<Rightarrow> string list \<times> string list" where
  "take_prose [] = ([], [])"
| "take_prose (l # ls) =
     (if py_strip l = [] \<or> heading_of l \<noteq> None \<or> fence_of l \<noteq> None \<or> is_table_start (l # ls)
      then ([], l # ls)
      else let (captured, rest) = take_prose ls in (l # captured, rest))"

lemma take_fence_append: "fst (take_fence marker ls) @ snd (take_fence marker ls) = ls"
  by (induction marker ls rule: take_fence.induct) (auto split: prod.splits)

lemma take_prose_append: "fst (take_prose ls) @ snd (take_prose ls) = ls"
  by (induction ls rule: take_prose.induct) (auto split: prod.splits)

lemma length_take_fence [termination_simp]: "(cs, rest) = take_fence marker ls \<Longrightarrow> length rest < Suc (length ls)"
  using arg_cong [OF take_fence_append [of marker ls], of length] by (cases "take_fence marker ls") auto

lemma length_take_prose [termination_simp]: "(cs, rest) = take_prose ls \<Longrightarrow> length rest < Suc (length ls)"
  using arg_cong [OF take_prose_append [of ls], of length] by (cases "take_prose ls") auto

lemma length_drop_rows [termination_simp]: "length (dropWhile P (tl ls)) < Suc (length ls)"
  using length_dropWhile_le [of P "tl ls"] by simp

fun parse_lines :: "tokenizer \<Rightarrow> int \<Rightarrow> string list \<Rightarrow> string list \<Rightarrow> block list \<times> string list" where
  "parse_lines tk page headings [] = ([], headings)"
| "parse_lines tk page headings (line # rest) =
     (if py_strip line = [] then parse_lines tk page headings rest
      else case heading_of line of
        Some (level, title) \<Rightarrow>
          let headings' = take (level - 1) headings @ [title];
              (blocks, final) = parse_lines tk page headings' rest
          in (new_block tk page headings' Heading line @ blocks, final)
      | None \<Rightarrow>
        (case fence_of line of
          Some marker \<Rightarrow>
            let (captured, rest') = take_fence marker rest;
                (blocks, final) = parse_lines tk page headings rest'
            in (new_block tk page headings Fence (py_join [LF] (line # captured)) @ blocks, final)
        | None \<Rightarrow>
            if is_table_start (line # rest)
            then let rows = takeWhile table_row (tl rest);
                     (blocks, final) = parse_lines tk page headings (dropWhile table_row (tl rest))
                 in (new_block tk page headings Table (py_join [LF] (line # hd rest # rows)) @ blocks, final)
            else let (captured, rest') = take_prose rest;
                     (blocks, final) = parse_lines tk page headings rest'
                 in (new_block tk page headings Prose (py_join [LF] (line # captured)) @ blocks, final)))"

definition parse_blocks :: "markdown_page \<Rightarrow> tokenizer \<Rightarrow> string list \<Rightarrow> block list \<times> string list" where
  "parse_blocks page tk inherited =
     parse_lines tk (mp_page_number page) inherited (splitlines (py_strip (mp_markdown page)))"

section \<open>Prefixes and suffixes that fit\<close>

text \<open>The ends of the matches of \<^verbatim>\<open>(?:\n+|(?<=[.!?])\s+|\s+)\<close>: a run of newlines, or else a run of
  whitespace.\<close>

fun break_ends :: "nat \<Rightarrow> string \<Rightarrow> nat list" where
  "break_ends i [] = []"
| "break_ends i (c # cs) =
     (if py_isspace c then
        let k = length (takeWhile (if c = LF then (\<lambda>x. x = LF) else py_isspace) cs)
        in (i + 1 + k) # break_ends (i + 1 + k) (drop k cs)
      else break_ends (i + 1) cs)"

definition break_positions :: "string \<Rightarrow> nat list" where
  "break_positions text = sort (remdups (break_ends 0 text @ [1..<Suc (length text)]))"

definition fits :: "tokenizer \<Rightarrow> int \<Rightarrow> string \<Rightarrow> bool" where
  "fits tk max_tokens candidate \<longleftrightarrow> candidate \<noteq> [] \<and> tk candidate \<le> max_tokens"

function prefix_search ::
  "tokenizer \<Rightarrow> int \<Rightarrow> string \<Rightarrow> nat list \<Rightarrow> int \<Rightarrow> int \<Rightarrow> nat \<Rightarrow> nat" where
  "prefix_search tk max_tokens text positions low high best =
     (if low \<le> high then
        let middle = (low + high) div 2; stop = positions ! nat middle
        in if fits tk max_tokens (py_rstrip (take stop text))
           then prefix_search tk max_tokens text positions (middle + 1) high stop
           else prefix_search tk max_tokens text positions low (middle - 1) best
      else best)"
  by pat_completeness auto
termination
  by (relation "measure (\<lambda>(tk, m, text, ps, low, high, best). nat (high - low + 1))") auto

declare prefix_search.simps [simp del]

definition largest_prefix :: "string \<Rightarrow> int \<Rightarrow> tokenizer \<Rightarrow> chunking_error + string \<times> string" where
  "largest_prefix text max_tokens tk =
     (let positions = break_positions text;
          best = prefix_search tk max_tokens text positions 0 (int (length positions) - 1) 0
      in if best \<le> 0 then Inl (MarkdownChunkingError ''the tokenizer cannot fit one source character'')
         else Inr (py_rstrip (take best text), py_lstrip (drop best text)))"

fun suffix_scan :: "tokenizer \<Rightarrow> int \<Rightarrow> string \<Rightarrow> nat list \<Rightarrow> string \<Rightarrow> string" where
  "suffix_scan tk max_tokens text [] best = best"
| "suffix_scan tk max_tokens text (start # starts) best =
     (let candidate = py_lstrip (drop start text) in
      if fits tk max_tokens candidate then suffix_scan tk max_tokens text starts candidate
      else if best \<noteq> [] then best
      else suffix_scan tk max_tokens text starts best)"

definition largest_suffix :: "string \<Rightarrow> int \<Rightarrow> tokenizer \<Rightarrow> string" where
  "largest_suffix text max_tokens tk =
     (let best = suffix_scan tk max_tokens text (rev (0 # break_ends 0 text)) []
      in if best \<noteq> [] then best else suffix_scan tk max_tokens text (rev [0..<length text]) [])"

subsection \<open>What a prefix is\<close>

lemma break_ends_bound: "e \<in> set (break_ends i s) \<Longrightarrow> i < e \<and> e \<le> i + length s"
proof (induction i s rule: break_ends.induct)
  case (2 i c cs)
  let ?k = "length (takeWhile (if c = LF then (\<lambda>x. x = LF) else py_isspace) cs)"
  have "?k \<le> length cs"
    by (rule length_takeWhile_le)
  then show ?case
    using 2 by (auto simp: Let_def split: if_splits)
qed simp

text \<open>Every position of the s is a candidate, whatever the breaks are.\<close>

lemma break_positions_all: "break_positions s = [1..<Suc (length s)]"
proof -
  have "set (break_ends 0 s @ [1..<Suc (length s)]) = set [1..<Suc (length s)]"
    by (auto simp: Suc_le_eq less_Suc_eq_le dest!: break_ends_bound simp del: upt_Suc)
  then show ?thesis
    unfolding break_positions_def
    by (intro sorted_distinct_set_unique) (auto simp del: upt_Suc)
qed

definition prefix_fits :: "tokenizer \<Rightarrow> int \<Rightarrow> string \<Rightarrow> nat \<Rightarrow> bool" where
  "prefix_fits tk m s n \<longleftrightarrow> 0 < n \<and> n \<le> length s \<and> fits tk m (py_rstrip (take n s))"

lemma prefix_search_sound:
  assumes "best = 0 \<or> prefix_fits tk m s best" and "0 \<le> low" and "high < int (length s)"
  shows "let n = prefix_search tk m s [1..<Suc (length s)] low high best in n = 0 \<or> prefix_fits tk m s n"
  using assms
proof (induction tk m s "[1..<Suc (length s)]" low high best rule: prefix_search.induct)
  case (1 tk m s low high best)
  let ?mid = "(low + high) div 2"
  have "[1..<Suc (length s)] ! nat ?mid = Suc (nat ?mid)" if "low \<le> high"
    using 1(4,5) that by (simp add: nth_append nth_upt del: upt_Suc)
  moreover have "prefix_fits tk m s (Suc (nat ?mid))"
    if "low \<le> high" "fits tk m (py_rstrip (take (Suc (nat ?mid)) s))"
    using 1(4,5) that by (auto simp: prefix_fits_def)
  ultimately show ?case
    using 1 by (subst prefix_search.simps) (simp add: Let_def del: upt_Suc)
qed

lemma largest_prefixE:
  assumes "largest_prefix s m tk = Inr (piece, rest)"
  obtains n where "prefix_fits tk m s n" and "piece = py_rstrip (take n s)" and "rest = py_lstrip (drop n s)"
  using assms prefix_search_sound [of 0 tk m s 0 "int (length s) - 1"]
  by (auto simp: largest_prefix_def break_positions_all Let_def result_simps simp del: upt_Suc)

lemma largest_prefix_visible:
  assumes "largest_prefix s m tk = Inr (piece, rest)"
  shows "visible piece @ visible rest = visible s" "visible piece \<noteq> []" "tk piece \<le> m"
    and "length rest < length s" "length piece + length rest \<le> length s"
proof -
  obtain n where n: "prefix_fits tk m s n" and p: "piece = py_rstrip (take n s)"
    and r: "rest = py_lstrip (drop n s)"
    by (rule largest_prefixE [OF assms])
  show "visible piece @ visible rest = visible s"
    using p r by (simp flip: visible_append)
  show "visible piece \<noteq> []" "tk piece \<le> m"
    using n p by (auto simp: prefix_fits_def fits_def)
  show "length rest < length s"
    using n r length_lstrip [of "drop n s"] by (auto simp: prefix_fits_def)
  show "length piece + length rest \<le> length s"
    using n p r length_lstrip [of "drop n s"] length_rstrip [of "take n s"] by (auto simp: prefix_fits_def)
qed

text \<open>With a tokenizer for which shorter prefixes never need more tokens, the search finds the
  longest prefix that fits.\<close>

lemma prefix_search_greatest:
  assumes down: "\<And>i j. 0 < i \<Longrightarrow> i \<le> j \<Longrightarrow> prefix_fits tk m s j \<Longrightarrow> prefix_fits tk m s i"
    and "best = nat low" and "0 \<le> low" and "low \<le> high + 1" and "high < int (length s)"
    and "\<forall>j. nat (high + 1) < j \<longrightarrow> \<not> prefix_fits tk m s j"
  shows "\<forall>j. prefix_search tk m s [1..<Suc (length s)] low high best < j \<longrightarrow> \<not> prefix_fits tk m s j"
  using assms(2-) down
proof (induction tk m s "[1..<Suc (length s)]" low high best rule: prefix_search.induct)
  case (1 tk m s low high best)
  let ?mid = "(low + high) div 2"
  have pos: "[1..<Suc (length s)] ! nat ?mid = Suc (nat ?mid)" if "low \<le> high"
    using 1(4,6) that by (simp add: nth_append nth_upt del: upt_Suc)
  have up: "\<forall>j. nat (?mid - 1 + 1) < j \<longrightarrow> \<not> prefix_fits tk m s j"
    if "low \<le> high" "\<not> fits tk m (py_rstrip (take (Suc (nat ?mid)) s))"
  proof (intro allI impI notI)
    fix j assume "nat (?mid - 1 + 1) < j" "prefix_fits tk m s j"
    then have "prefix_fits tk m s (Suc (nat ?mid))"
      using 1(8) [of "Suc (nat ?mid)" j] by simp
    then show False
      using that by (simp add: prefix_fits_def)
  qed
  show ?case
  proof (cases "low \<le> high")
    case True
    then have mid: "low \<le> ?mid" "?mid \<le> high"
      by auto
    show ?thesis
    proof (cases "fits tk m (py_rstrip (take (Suc (nat ?mid)) s))")
      case fit: True
      have "\<forall>j. prefix_search tk m s [1..<Suc (length s)] (?mid + 1) high (Suc (nat ?mid)) < j
          \<longrightarrow> \<not> prefix_fits tk m s j"
        using 1(1) [OF True refl refl] 1(3-) pos [OF True] fit mid
        by (simp add: nat_add_distrib del: upt_Suc)
      then show ?thesis
        using True fit pos by (subst prefix_search.simps) (simp add: Let_def del: upt_Suc)
    next
      case no: False
      have "\<forall>j. prefix_search tk m s [1..<Suc (length s)] low (?mid - 1) best < j \<longrightarrow> \<not> prefix_fits tk m s j"
        using 1(2) [OF True refl refl] 1(3-) pos [OF True] no mid up [OF True no]
        by (simp del: upt_Suc)
      then show ?thesis
        using True no pos by (subst prefix_search.simps) (simp add: Let_def del: upt_Suc)
    qed
  next
    case False
    then show ?thesis
      using 1(3-7) by (subst prefix_search.simps) simp
  qed
qed


section \<open>Splitting blocks that are too large\<close>

definition piece_of :: "tokenizer \<Rightarrow> block \<Rightarrow> block_kind \<Rightarrow> string \<Rightarrow> block" where
  "piece_of tk b kind s =
     \<lparr>bl_text = s, bl_page = bl_page b, bl_heading_path = bl_heading_path b, bl_kind = kind,
      bl_token_count = tk s\<rparr>"

function split_prose_from :: "tokenizer \<Rightarrow> block \<Rightarrow> string \<Rightarrow> chunking_error + block list" where
  "split_prose_from tk b remaining =
     (if remaining = [] then Inr []
      else case largest_prefix remaining HARD_MAX_TOKENS tk of
        Inl e \<Rightarrow> Inl e
      | Inr (piece, rest) \<Rightarrow>
          rbind (split_prose_from tk b rest) (\<lambda>pieces. Inr (piece_of tk b Prose piece # pieces)))"
  by pat_completeness auto
termination
  by (relation "measure (\<lambda>(tk, b, s). length s)") (auto dest: largest_prefix_visible)

declare split_prose_from.simps [simp del]

definition split_prose :: "block \<Rightarrow> tokenizer \<Rightarrow> chunking_error + block list" where
  "split_prose b tk = split_prose_from tk b (bl_text b)"

fun split_rows ::
  "tokenizer \<Rightarrow> block \<Rightarrow> string \<Rightarrow> string list \<Rightarrow> string list \<Rightarrow> chunking_error + block list" where
  "split_rows tk b header rows [] = Inr [piece_of tk b Table (py_join [LF] (header # rows))]"
| "split_rows tk b header rows (row # rest) =
     (if tk (py_join [LF] (header # rows @ [row])) \<le> HARD_MAX_TOKENS
      then split_rows tk b header (rows @ [row]) rest
      else if rows = []
      then Inl (MarkdownChunkingError ''a Markdown table row exceeds 384 MPNet wordpieces'')
      else if tk (py_join [LF] [header, row]) > HARD_MAX_TOKENS
      then Inl (MarkdownChunkingError ''a Markdown table row exceeds 384 MPNet wordpieces'')
      else rbind (split_rows tk b header [row] rest) (\<lambda>pieces.
        Inr (piece_of tk b Table (py_join [LF] (header # rows)) # pieces)))"

definition split_table :: "block \<Rightarrow> tokenizer \<Rightarrow> chunking_error + block list" where
  "split_table b tk =
     (let lines = splitlines (bl_text b) in
      if length lines < 2 \<or> \<not> is_table_separator (lines ! 1)
      then Inl (MarkdownChunkingError ''formatter returned a malformed Markdown table'')
      else let header = py_join [LF] (take 2 lines) in
        if tk header > HARD_MAX_TOKENS
        then Inl (MarkdownChunkingError ''a Markdown table header exceeds 384 MPNet wordpieces'')
        else if length lines = 2 then Inr [b]
        else split_rows tk b header [] (drop 2 lines))"

definition fenced :: "string \<Rightarrow> string \<Rightarrow> string \<Rightarrow> string" where
  "fenced opener closer piece = opener @ [LF] @ piece @ [LF] @ closer"

text \<open>What was cut off too much goes back in front of the rest.\<close>

definition rejoin :: "string \<Rightarrow> string \<Rightarrow> string" where
  "rejoin restored remaining = py_join [LF] (filter (\<lambda>part. part \<noteq> []) [restored, remaining])"

text \<open>One iteration of the loop: the piece that is cut off and what remains.\<close>

definition cut_fence ::
  "tokenizer \<Rightarrow> string \<Rightarrow> string \<Rightarrow> int \<Rightarrow> string \<Rightarrow> chunking_error + string \<times> string" where
  "cut_fence tk opener closer budget remaining =
     rbind (largest_prefix remaining budget tk) (\<lambda>(piece, rest).
       rbind (if tk (fenced opener closer piece) > HARD_MAX_TOKENS
              then rbind (largest_prefix piece (max (budget - 1) 1) tk) (\<lambda>(tighter, restored).
                Inr (tighter, rejoin restored rest))
              else Inr (piece, rest)) (\<lambda>(piece, rest).
         if tk (fenced opener closer piece) > HARD_MAX_TOKENS
         then Inl (MarkdownChunkingError ''a fenced block cannot be split below 384 wordpieces'')
         else Inr (piece, rest)))"

lemma visible_rejoin [simp]: "visible (rejoin a b) = visible a @ visible b"
  by (auto simp: rejoin_def)

lemma cut_fence_visible:
  assumes "cut_fence tk opener closer budget remaining = Inr (piece, rest)"
  shows "visible piece @ visible rest = visible remaining" "visible piece \<noteq> []"
    and "tk (fenced opener closer piece) \<le> HARD_MAX_TOKENS"
proof -
  obtain p1 r1 where cut: "largest_prefix remaining budget tk = Inr (p1, r1)"
    and "(piece = p1 \<and> rest = r1) \<or> (\<exists>r2. largest_prefix p1 (max (budget - 1) 1) tk = Inr (piece, r2) \<and> rest = rejoin r2 r1)"
    and "tk (fenced opener closer piece) \<le> HARD_MAX_TOKENS"
    using assms by (auto simp: cut_fence_def result_simps split: if_splits)
  then show "visible piece @ visible rest = visible remaining" "visible piece \<noteq> []"
    "tk (fenced opener closer piece) \<le> HARD_MAX_TOKENS"
    using largest_prefix_visible(1,2) [OF cut] by (auto dest: largest_prefix_visible(1,2) simp flip: append_assoc)
qed

lemma cut_fence_shrinks [termination_simp]:
  assumes "cut_fence tk opener closer budget remaining = Inr (piece, rest)"
  shows "length (visible rest) < length (visible remaining)"
  using cut_fence_visible(1,2) [OF assms] by (metis append_Nil length_0_conv length_append less_add_same_cancel2 not_gr_zero)

function split_fence_from ::
  "tokenizer \<Rightarrow> block \<Rightarrow> string \<Rightarrow> string \<Rightarrow> int \<Rightarrow> string \<Rightarrow> chunking_error + block list" where
  "split_fence_from tk b opener closer budget remaining =
     (if remaining = [] then Inr []
      else case cut_fence tk opener closer budget remaining of
        Inl e \<Rightarrow> Inl e
      | Inr (piece, rest) \<Rightarrow>
          rbind (split_fence_from tk b opener closer budget rest) (\<lambda>pieces.
            Inr (piece_of tk b Fence (fenced opener closer piece) # pieces)))"
  by pat_completeness auto
termination
  by (relation "measure (\<lambda>(tk, b, opener, closer, budget, s). length (visible s))")
    (auto dest: cut_fence_shrinks)

declare split_fence_from.simps [simp del]

definition split_fence :: "block \<Rightarrow> tokenizer \<Rightarrow> chunking_error + block list" where
  "split_fence b tk =
     (let lines = splitlines (bl_text b) in
      if length lines < 2
      then Inl (MarkdownChunkingError ''formatter returned an unterminated Markdown fence'')
      else let opener = hd lines; closer = last lines; content = py_join [LF] (butlast (tl lines));
               wrapper_tokens = tk (opener @ [LF, LF] @ closer);
               budget = HARD_MAX_TOKENS - wrapper_tokens
        in if budget \<le> 0
           then Inl (MarkdownChunkingError ''a Markdown fence wrapper exceeds the hard token limit'')
           else split_fence_from tk b opener closer budget content)"

definition bound_block :: "tokenizer \<Rightarrow> block \<Rightarrow> chunking_error + block list" where
  "bound_block tk b =
     (if bl_token_count b \<le> HARD_MAX_TOKENS then Inr [b]
      else case bl_kind b of
        Table \<Rightarrow> split_table b tk
      | Fence \<Rightarrow> split_fence b tk
      | _ \<Rightarrow> split_prose b tk)"

fun bound_all :: "tokenizer \<Rightarrow> block list \<Rightarrow> chunking_error + block list" where
  "bound_all tk [] = Inr []"
| "bound_all tk (b # bs) =
     rbind (bound_block tk b) (\<lambda>pieces. rbind (bound_all tk bs) (\<lambda>rest. Inr (pieces @ rest)))"

fun bounded_blocks_from ::
  "tokenizer \<Rightarrow> string list \<Rightarrow> markdown_page list \<Rightarrow> chunking_error + block list" where
  "bounded_blocks_from tk headings [] = Inr []"
| "bounded_blocks_from tk headings (page # pages) =
     (let (page_blocks, headings') = parse_blocks page tk headings in
      rbind (bound_all tk page_blocks) (\<lambda>bounded.
      rbind (bounded_blocks_from tk headings' pages) (\<lambda>rest. Inr (bounded @ rest))))"

definition bounded_blocks :: "markdown_page list \<Rightarrow> tokenizer \<Rightarrow> chunking_error + block list" where
  "bounded_blocks pages tk = bounded_blocks_from tk [] pages"

section \<open>Assembling chunks\<close>

definition overlap :: "block list \<Rightarrow> tokenizer \<Rightarrow> block list" where
  "overlap parts tk =
     (case find (\<lambda>part. bl_kind part = Prose) (rev parts) of
        None \<Rightarrow> []
      | Some prose \<Rightarrow>
          let s = (if bl_token_count prose \<le> OVERLAP_TOKENS then bl_text prose
                   else largest_suffix (bl_text prose) OVERLAP_TOKENS tk)
          in if s = [] then [] else [piece_of tk prose Overlap s])"

definition finish_chunk ::
  "stdlib \<Rightarrow> uuid \<Rightarrow> uuid \<Rightarrow> nat \<Rightarrow> block list \<Rightarrow> tokenizer \<Rightarrow> chunking_error + markdown_chunk" where
  "finish_chunk sl document_id prepared_revision_id index parts tk =
     (let markdown = py_strip (py_join [LF, LF] (map bl_text parts)) in
      if markdown = [] then Inl (MarkdownChunkingError ''empty chunks are forbidden'')
      else let count = tk markdown in
        if count > HARD_MAX_TOKENS
        then Inl (MarkdownChunkingError (''chunk '' @ nat_digits index
          @ '' exceeds the 384-wordpiece hard maximum ('' @ int_str count @ '')''))
        else let text_hash = sl_sha256 sl markdown in
          Inr \<lparr>mc_chunk_id = sl_uuid5 sl document_id
                 (uuid_str prepared_revision_id @ '':'' @ nat_digits index @ '':'' @ text_hash),
               mc_chunk_index = int index,
               mc_page_start = Min (set (map bl_page parts)),
               mc_page_end = Max (set (map bl_page parts)),
               mc_heading_path = bl_heading_path (last parts),
               mc_token_count = count, mc_text_sha256 = text_hash, mc_markdown = markdown\<rparr>)"

definition total_tokens :: "tokenizer \<Rightarrow> block list \<Rightarrow> int" where
  "total_tokens tk parts = tk (py_join [LF, LF] (map bl_text parts))"

definition flush ::
  "stdlib \<Rightarrow> uuid \<Rightarrow> uuid \<Rightarrow> tokenizer \<Rightarrow> nat \<Rightarrow> markdown_chunk list \<times> block list
     \<Rightarrow> chunking_error + markdown_chunk list \<times> block list" where
  "flush sl document_id prepared_revision_id tk max_chunks state =
     (case state of (made, parts) \<Rightarrow>
        if parts = [] then Inr (made, parts)
        else rbind (finish_chunk sl document_id prepared_revision_id (length made) parts tk) (\<lambda>chunk.
          let made' = made @ [chunk] in
          if length made' > max_chunks
          then Inl (MarkdownChunkingError (''document exceeds the '' @ nat_digits max_chunks @ ''-chunk limit''))
          else Inr (made', overlap parts tk)))"

definition add_block ::
  "stdlib \<Rightarrow> uuid \<Rightarrow> uuid \<Rightarrow> tokenizer \<Rightarrow> nat \<Rightarrow> block \<Rightarrow> markdown_chunk list \<times> block list
     \<Rightarrow> chunking_error + markdown_chunk list \<times> block list" where
  "add_block sl document_id prepared_revision_id tk max_chunks b state =
     rbind (if snd state \<noteq> [] \<and> total_tokens tk (snd state @ [b]) > TARGET_TOKENS
            then flush sl document_id prepared_revision_id tk max_chunks state
            else Inr state) (\<lambda>(made, parts).
       let kept = (if parts \<noteq> [] \<and> total_tokens tk (parts @ [b]) > HARD_MAX_TOKENS then [] else parts);
           parts' = kept @ [b]
       in if total_tokens tk parts' > HARD_MAX_TOKENS
          then Inl (MarkdownChunkingError ''a bounded block exceeded the hard chunk limit'')
          else Inr (made, parts'))"

fun add_blocks ::
  "stdlib \<Rightarrow> uuid \<Rightarrow> uuid \<Rightarrow> tokenizer \<Rightarrow> nat \<Rightarrow> block list \<Rightarrow> markdown_chunk list \<times> block list
     \<Rightarrow> chunking_error + markdown_chunk list \<times> block list" where
  "add_blocks sl document_id prepared_revision_id tk max_chunks [] state = Inr state"
| "add_blocks sl document_id prepared_revision_id tk max_chunks (b # bs) state =
     rbind (add_block sl document_id prepared_revision_id tk max_chunks b state)
       (add_blocks sl document_id prepared_revision_id tk max_chunks bs)"

definition chunk_markdown ::
  "stdlib \<Rightarrow> markdown_page list \<Rightarrow> uuid \<Rightarrow> uuid \<Rightarrow> tokenizer \<Rightarrow> int \<Rightarrow> chunking_error + markdown_chunk list" where
  "chunk_markdown sl pages document_id prepared_revision_id tk max_chunks =
     rbind (validate_pages pages) (\<lambda>_.
       if max_chunks \<le> 0 then Inl (ChunkingValueError ''max_chunks must be positive'')
       else rbind (bounded_blocks pages tk) (\<lambda>blocks.
         if blocks = []
         then Inl (MarkdownChunkingError ''formatted Markdown contains no indexable content'')
         else rbind (add_blocks sl document_id prepared_revision_id tk (nat max_chunks) blocks ([], [])) (\<lambda>state.
           rbind (flush sl document_id prepared_revision_id tk (nat max_chunks) state) (\<lambda>(made, parts).
             Inr made))))"

end
