(* ===== verification/Chunking_Correct.thy ===== *)
theory Chunking_Correct
  imports Chunking
begin

text \<open>
  What chunking promises: parsing loses no visible text, every piece of a block that was split
  fits the hard limit and together the pieces carry the block's visible text, and the chunks
  partition the blocks in order, apart from a short overlap at the start of a chunk.
\<close>

section \<open>Parsing\<close>

definition block_text :: "block list \<Rightarrow> string" where
  "block_text bs = concat (map (\<lambda>b. visible (bl_text b)) bs)"

lemma block_text_simps [simp]:
  "block_text [] = []" "block_text (b # bs) = visible (bl_text b) @ block_text bs"
  "block_text (bs @ cs) = block_text bs @ block_text cs"
  by (simp_all add: block_text_def)

lemma block_text_new [simp]: "block_text (new_block tk page headings kind s) = visible s"
  by (auto simp: new_block_def Let_def)

lemma visible_take_fence:
  "concat (map visible (fst (take_fence marker ls))) @ concat (map visible (snd (take_fence marker ls)))
     = concat (map visible ls)"
  by (simp add: take_fence_append flip: concat_append map_append)

lemma visible_take_prose:
  "concat (map visible (fst (take_prose ls))) @ concat (map visible (snd (take_prose ls))) = concat (map visible ls)"
  by (simp add: take_prose_append flip: concat_append map_append)

lemma parse_lines_text: "block_text (fst (parse_lines tk page headings ls)) = concat (map visible ls)"
proof (induction tk page headings ls rule: parse_lines.induct)
  case (2 tk page headings line rest)
  have rows: "concat (map visible rest) = visible (hd rest) @ concat (map visible (takeWhile table_row (tl rest)))
      @ concat (map visible (dropWhile table_row (tl rest)))" if "is_table_start (line # rest)"
    using that by (cases rest) (simp_all flip: concat_append map_append)
  consider (blank) "py_strip line = []" | (heading) level title where "py_strip line \<noteq> []" "heading_of line = Some (level, title)"
    | (fence) marker where "py_strip line \<noteq> []" "heading_of line = None" "fence_of line = Some marker"
    | (table) "py_strip line \<noteq> []" "heading_of line = None" "fence_of line = None" "is_table_start (line # rest)"
    | (prose) "py_strip line \<noteq> []" "heading_of line = None" "fence_of line = None" "\<not> is_table_start (line # rest)"
    by (metis option.exhaust surj_pair)
  then show ?case
  proof cases
    case heading
    then show ?thesis
      using 2(5) [OF heading refl refl] by (simp add: Let_def case_prod_beta)
  next
    case fence
    then show ?thesis
      using 2(4) [OF fence refl prod.collapse] visible_take_fence [of marker rest]
      by (simp add: case_prod_beta)
  next
    case table
    then show ?thesis
      using 2(2) [OF table refl] rows by (simp add: Let_def case_prod_beta del: is_table_start.simps)
  next
    case prose
    then show ?thesis
      using 2(3) [OF prose refl prod.collapse] visible_take_prose [of rest]
      by (simp add: case_prod_beta del: is_table_start.simps)
  qed (use 2(1) in simp)
qed simp

lemma parse_blocks_text: "block_text (fst (parse_blocks page tk headings)) = visible (mp_markdown page)"
  by (simp add: parse_blocks_def parse_lines_text)

text \<open>The blocks of a page: visible text, its exact token count, the page.\<close>

definition block_ok :: "tokenizer \<Rightarrow> int \<Rightarrow> block \<Rightarrow> bool" where
  "block_ok tk page b \<longleftrightarrow> visible (bl_text b) \<noteq> [] \<and> bl_token_count b = tk (bl_text b) \<and> bl_page b = page"

lemma new_block_ok: "b \<in> set (new_block tk page headings kind s) \<Longrightarrow> block_ok tk page b"
  by (auto simp: new_block_def block_ok_def Let_def split: if_splits)

lemma parse_lines_ok: "b \<in> set (fst (parse_lines tk page headings ls)) \<Longrightarrow> block_ok tk page b"
proof (induction tk page headings ls rule: parse_lines.induct)
  case (2 tk page headings line rest)
  then show ?case
    by (auto simp: Let_def simp del: is_table_start.simps split: if_splits prod.splits option.splits dest: new_block_ok)
qed simp

section \<open>Splitting\<close>

definition bounded_ok :: "tokenizer \<Rightarrow> int \<Rightarrow> block \<Rightarrow> bool" where
  "bounded_ok tk page b \<longleftrightarrow> block_ok tk page b \<and> tk (bl_text b) \<le> HARD_MAX_TOKENS"

lemma piece_of_simps [simp]:
  "bl_text (piece_of tk b kind s) = s" "bl_page (piece_of tk b kind s) = bl_page b"
  "bl_token_count (piece_of tk b kind s) = tk s" "bl_kind (piece_of tk b kind s) = kind"
  "bl_heading_path (piece_of tk b kind s) = bl_heading_path b"
  by (simp_all add: piece_of_def)

lemma piece_bounded:
  "visible s \<noteq> [] \<Longrightarrow> tk s \<le> HARD_MAX_TOKENS \<Longrightarrow> bounded_ok tk (bl_page b) (piece_of tk b kind s)"
  by (simp add: bounded_ok_def block_ok_def)

lemma split_prose_from_ok:
  assumes "split_prose_from tk b s = Inr pieces"
  shows "block_text pieces = visible s \<and> list_all (bounded_ok tk (bl_page b)) pieces"
  using assms
proof (induction tk b s arbitrary: pieces rule: split_prose_from.induct)
  case (1 tk b remaining)
  show ?case
  proof (cases "remaining = []")
    case True
    then show ?thesis
      using 1 by (simp add: split_prose_from.simps)
  next
    case False
    then obtain piece rest tail where lp: "largest_prefix remaining HARD_MAX_TOKENS tk = Inr (piece, rest)"
      and tail: "split_prose_from tk b rest = Inr tail" and ps: "pieces = piece_of tk b Prose piece # tail"
      using 1(2) by (subst (asm) split_prose_from.simps) (auto simp: result_simps split: sum.splits)
    show ?thesis
      using 1(1) [OF False lp refl tail] largest_prefix_visible(1-3) [OF lp] ps by (simp add: piece_bounded)
  qed
qed

text \<open>The pieces of a table repeat the header and share out the rows.\<close>

lemma split_rows_ok:
  assumes "split_rows tk b header rows rest = Inr pieces" and "visible header \<noteq> []"
    and "tk (py_join [LF] (header # rows)) \<le> HARD_MAX_TOKENS"
  shows "list_all (bounded_ok tk (bl_page b)) pieces
    \<and> (\<exists>groups. map bl_text pieces = map (\<lambda>g. py_join [LF] (header # g)) groups \<and> concat groups = rows @ rest)"
  using assms
proof (induction tk b header rows rest arbitrary: pieces rule: split_rows.induct)
  case (1 tk b header rows)
  then show ?case
    by (auto intro!: piece_bounded exI [of _ "[rows]"])
next
  case (2 tk b header rows row rest)
  show ?case
  proof (cases "tk (py_join [LF] (header # rows @ [row])) \<le> HARD_MAX_TOKENS")
    case True
    then show ?thesis
      using 2 by auto
  next
    case False
    then obtain tail where t: "rows \<noteq> []" "tk (py_join [LF] [header, row]) \<le> HARD_MAX_TOKENS"
      "split_rows tk b header [row] rest = Inr tail"
      and ps: "pieces = piece_of tk b Table (py_join [LF] (header # rows)) # tail"
      using 2(3) by (auto simp: result_simps split: if_splits)
    obtain groups where g: "map bl_text tail = map (\<lambda>g. py_join [LF] (header # g)) groups"
      "concat groups = row # rest" "list_all (bounded_ok tk (bl_page b)) tail"
      using 2(2) [OF False t(1) _ t(3)] t(2) 2(4) by auto
    have "bounded_ok tk (bl_page b) (piece_of tk b Table (py_join [LF] (header # rows)))"
      using 2(4,5) by (intro piece_bounded) auto
    then show ?thesis
      using g ps by (intro conjI exI [of _ "rows # groups"]) auto
  qed
qed

lemma split_fence_from_ok:
  assumes "split_fence_from tk b opener closer budget s = Inr pieces"
  shows "list_all (bounded_ok tk (bl_page b)) pieces
    \<and> (\<exists>parts. map bl_text pieces = map (fenced opener closer) parts \<and> concat (map visible parts) = visible s)"
  using assms
proof (induction tk b opener closer budget s arbitrary: pieces rule: split_fence_from.induct)
  case (1 tk b opener closer budget remaining)
  show ?case
  proof (cases "remaining = []")
    case True
    then show ?thesis
      using 1 by (simp add: split_fence_from.simps)
  next
    case False
    then obtain piece rest tail where cut: "cut_fence tk opener closer budget remaining = Inr (piece, rest)"
      and tail: "split_fence_from tk b opener closer budget rest = Inr tail"
      and ps: "pieces = piece_of tk b Fence (fenced opener closer piece) # tail"
      using 1(2) by (subst (asm) split_fence_from.simps) (auto simp: result_simps split: sum.splits)
    obtain parts where p: "map bl_text tail = map (fenced opener closer) parts" "concat (map visible parts) = visible rest"
      "list_all (bounded_ok tk (bl_page b)) tail"
      using 1(1) [OF False cut refl tail] by auto
    have "bounded_ok tk (bl_page b) (piece_of tk b Fence (fenced opener closer piece))"
      using cut_fence_visible(2,3) [OF cut] by (intro piece_bounded) (auto simp: fenced_def)
    then show ?thesis
      using p ps cut_fence_visible(1) [OF cut] by (intro conjI exI [of _ "piece # parts"]) auto
  qed
qed


text \<open>The text of a block is its lines joined, so a table of two lines is its header.\<close>

lemma lstrip_join: "visible l \<noteq> [] \<Longrightarrow> py_lstrip (py_join [LF] (l # ls)) = py_join [LF] (py_lstrip l # ls)"
  by (cases ls) (auto simp: py_lstrip_def visible_empty_iff list_all_iff dropWhile_append)

lemma join_snoc: "ls \<noteq> [] \<Longrightarrow> py_join [LF] (ls @ [l]) = py_join [LF] ls @ [LF] @ l"
  by (induction ls rule: induct_list012) auto

lemma rstrip_append: "visible l \<noteq> [] \<Longrightarrow> py_rstrip (s @ l) = s @ py_rstrip l"
  by (auto simp: py_rstrip_def visible_empty_iff list_all_iff dropWhile_append dropWhile_eq_Nil_conv)

lemma rstrip_join:
  "visible l \<noteq> [] \<Longrightarrow> py_rstrip (py_join [LF] (ls @ [l])) = py_join [LF] (ls @ [py_rstrip l])"
  using rstrip_append [of l "py_join [LF] ls @ [LF]"] by (cases "ls = []") (auto simp: join_snoc)

lemma one_line_strip: "one_line s \<Longrightarrow> one_line (py_lstrip s)" "one_line s \<Longrightarrow> one_line (py_rstrip s)"
  by (auto simp: one_line_def py_lstrip_def py_rstrip_def list_all_iff dest!: set_dropWhileD)

lemma join_strip_lines:
  assumes "list_all one_line (l # ls)" and "visible l \<noteq> []" and "visible (last (l # ls)) \<noteq> []"
  shows "\<exists>ms. py_strip (py_join [LF] (l # ls)) = py_join [LF] ms \<and> list_all one_line ms \<and> ms \<noteq> [] \<and> last ms \<noteq> []"
proof -
  let ?k = "py_lstrip l # ls"
  have k: "visible (last ?k) \<noteq> []" "list_all one_line ?k"
    using assms by (auto simp: one_line_strip)
  have "py_strip (py_join [LF] (l # ls)) = py_rstrip (py_join [LF] (butlast ?k @ [last ?k]))"
    using assms(2) by (simp add: py_strip_eq lstrip_join del: py_join.simps)
  also have "\<dots> = py_join [LF] (butlast ?k @ [py_rstrip (last ?k)])"
    by (rule rstrip_join [OF k(1)])
  finally have "py_strip (py_join [LF] (l # ls)) = py_join [LF] (butlast ?k @ [py_rstrip (last ?k)])" .
  moreover have "list_all one_line (butlast ?k @ [py_rstrip (last ?k)])"
    using k(2) one_line_strip(2) [of "last ?k"] by (auto simp: list_all_iff dest: in_set_butlastD)
  moreover have "last (butlast ?k @ [py_rstrip (last ?k)]) \<noteq> []"
    using k(1) by simp
  ultimately show ?thesis
    by blast
qed

lemma join_lines_of_block:
  assumes "list_all one_line (l # ls)" and "visible l \<noteq> []" and "visible (last (l # ls)) \<noteq> []"
  shows "py_join [LF] (splitlines (py_strip (py_join [LF] (l # ls)))) = py_strip (py_join [LF] (l # ls))"
  using join_strip_lines [OF assms] splitlines_join by metis


lemma separator_visible:
  assumes "is_table_separator l"
  shows "visible l \<noteq> []"
proof
  assume "visible l = []"
  then have "py_strip l = []"
    by simp
  then show False
    using assms by (simp add: is_table_separator_def strip_char_def del: strip_empty_iff)
qed

lemma parse_lines_table:
  assumes "b \<in> set (fst (parse_lines tk page headings ls))" and "bl_kind b = Table" and "list_all one_line ls"
  shows "py_join [LF] (splitlines (bl_text b)) = bl_text b"
  using assms
proof (induction tk page headings ls rule: parse_lines.induct)
  case (2 tk page headings line rest)
  have captured: "list_all one_line (snd (take_fence marker rest))" "list_all one_line (snd (take_prose rest))" for marker
    using 2(8) take_fence_append [of marker rest] take_prose_append [of rest]
    by (metis list_all_append list.pred_inject(2))+
  have rows: "list_all one_line (dropWhile table_row (tl rest))"
    using 2(8) by (cases rest) (auto simp: list_all_iff dest: set_dropWhileD)
  consider (blank) "py_strip line = []" | (heading) level title where "py_strip line \<noteq> []" "heading_of line = Some (level, title)"
    | (fence) marker where "py_strip line \<noteq> []" "heading_of line = None" "fence_of line = Some marker"
    | (table) "py_strip line \<noteq> []" "heading_of line = None" "fence_of line = None" "is_table_start (line # rest)"
    | (prose) "py_strip line \<noteq> []" "heading_of line = None" "fence_of line = None" "\<not> is_table_start (line # rest)"
    by (metis option.exhaust surj_pair)
  then show ?case
  proof cases
    case heading
    then show ?thesis
      using 2(5) [OF heading refl refl] 2(6-8) by (auto simp add: Let_def case_prod_beta new_block_def split: if_splits)
  next
    case fence
    then show ?thesis
      using 2(4) [OF fence refl prod.collapse] 2(6-8) captured(1) [of marker]
      by (auto simp: case_prod_beta new_block_def Let_def split: if_splits)
  next
    case table
    have sep: "visible (hd rest) \<noteq> []" "rest \<noteq> []"
      using table(4) by (cases rest rule: list.exhaust; auto dest: separator_visible)+
    have "py_join [LF] (splitlines (py_strip (py_join [LF] (line # hd rest # takeWhile table_row (tl rest)))))
        = py_strip (py_join [LF] (line # hd rest # takeWhile table_row (tl rest)))"
    proof (rule join_lines_of_block)
      show "list_all one_line (line # hd rest # takeWhile table_row (tl rest))"
        using 2(8) sep(2) by (cases rest) (auto simp: list_all_iff dest: set_takeWhileD)
      show "visible (last (line # hd rest # takeWhile table_row (tl rest))) \<noteq> []"
        using sep(1) by (auto simp: table_row_def dest!: last_in_set [THEN set_takeWhileD])
    qed (use table(1) in simp)
    then show ?thesis
      using 2(2) [OF table refl] 2(6-8) table rows
      by (auto simp: Let_def case_prod_beta new_block_def simp del: is_table_start.simps split: if_splits)
  next
    case prose
    then show ?thesis
      using 2(3) [OF prose refl prod.collapse] 2(6-8) captured(2)
      by (auto simp: case_prod_beta new_block_def Let_def simp del: is_table_start.simps split: if_splits)
  qed (use 2(1,6-8) in simp)
qed simp

lemma bound_block_ok:
  assumes "bound_block tk b = Inr pieces" and "block_ok tk page b"
    and "bl_kind b = Table \<longrightarrow> py_join [LF] (splitlines (bl_text b)) = bl_text b"
  shows "list_all (bounded_ok tk page) pieces"
proof -
  let ?ls = "splitlines (bl_text b)"
  have page: "bl_page b = page"
    using assms(2) by (simp add: block_ok_def)
  have table: "list_all (bounded_ok tk page) pieces" if "split_table b tk = Inr pieces" "bl_kind b = Table"
  proof (cases "length ?ls = 2")
    case True
    then show ?thesis
      using that assms(2,3) by (auto simp: split_table_def Let_def result_simps bounded_ok_def)
  next
    case False
    then have run: "split_rows tk b (py_join [LF] (take 2 ?ls)) [] (drop 2 ?ls) = Inr pieces"
      and head: "tk (py_join [LF] (take 2 ?ls)) \<le> HARD_MAX_TOKENS" "2 \<le> length ?ls" "is_table_separator (?ls ! 1)"
      using that(1) by (auto simp: split_table_def Let_def result_simps)
    have "visible (?ls ! 1) \<noteq> []"
      by (rule separator_visible [OF head(3)])
    then have "visible (py_join [LF] (take 2 ?ls)) \<noteq> []"
      using head(2) by (cases ?ls rule: list.exhaust; cases "tl ?ls") auto
    then show ?thesis
      using split_rows_ok [OF run] head(1) page by simp
  qed
  show ?thesis
  proof (cases "bl_token_count b \<le> HARD_MAX_TOKENS")
    case True
    then show ?thesis
      using assms(1,2) by (auto simp: bound_block_def bounded_ok_def block_ok_def)
  next
    case False
    then show ?thesis
      using assms(1) table page
      by (cases "bl_kind b") (auto simp: bound_block_def split_prose_def split_fence_def Let_def result_simps
          dest!: split_prose_from_ok split_fence_from_ok)
  qed
qed


lemma bound_all_ok:
  assumes "bound_all tk bs = Inr pieces"
    and "\<forall>b\<in>set bs. block_ok tk page b \<and> (bl_kind b = Table \<longrightarrow> py_join [LF] (splitlines (bl_text b)) = bl_text b)"
  shows "list_all (bounded_ok tk page) pieces"
  using assms
proof (induction tk bs arbitrary: pieces rule: bound_all.induct)
  case (2 tk b bs)
  then obtain p r where "bound_block tk b = Inr p" "bound_all tk bs = Inr r" "pieces = p @ r"
    by (auto simp: result_simps)
  then show ?case
    using 2 bound_block_ok by simp
qed simp

lemma parse_blocks_ok:
  assumes "b \<in> set (fst (parse_blocks page tk headings))"
  shows "block_ok tk (mp_page_number page) b"
    and "bl_kind b = Table \<longrightarrow> py_join [LF] (splitlines (bl_text b)) = bl_text b"
  using assms parse_lines_table splitlines_one_line
  by (auto simp: parse_blocks_def list_all_iff dest: parse_lines_ok)

lemma bounded_blocks_from_ok:
  assumes "bounded_blocks_from tk headings pages = Inr blocks" and "b \<in> set blocks"
  shows "\<exists>page\<in>set pages. bounded_ok tk (mp_page_number page) b"
  using assms
proof (induction tk headings pages arbitrary: blocks rule: bounded_blocks_from.induct)
  case (2 tk headings page pages)
  obtain bs hs where parse: "parse_blocks page tk headings = (bs, hs)"
    by fastforce
  then obtain bounded rest where parts: "bound_all tk bs = Inr bounded" "bounded_blocks_from tk hs pages = Inr rest"
    "blocks = bounded @ rest"
    using 2(2) by (auto simp: result_simps)
  have "list_all (bounded_ok tk (mp_page_number page)) bounded"
    using bound_all_ok [OF parts(1)] parse_blocks_ok [of _ page tk headings] parse by fastforce
  then show ?case
    using 2(1) [OF parse [symmetric] refl parts(2)] 2(3) parts(3) by (auto simp: list_all_iff)
qed simp

lemma validate_pages_from_numbers:
  "validate_pages_from k pages = Inr () \<Longrightarrow> page \<in> set pages \<Longrightarrow> k \<le> mp_page_number page \<and> mp_page_number page < k + int (length pages)"
  by (induction k pages rule: validate_pages_from.induct) (auto split: if_splits)

text \<open>A block any chunk may hold.\<close>

definition part_ok :: "tokenizer \<Rightarrow> int \<Rightarrow> block \<Rightarrow> bool" where
  "part_ok tk last_page b \<longleftrightarrow> visible (bl_text b) \<noteq> [] \<and> bl_token_count b = tk (bl_text b)
     \<and> tk (bl_text b) \<le> HARD_MAX_TOKENS \<and> 1 \<le> bl_page b \<and> bl_page b \<le> last_page"

lemma bounded_blocks_ok:
  assumes "bounded_blocks pages tk = Inr blocks" and "validate_pages pages = Inr ()"
  shows "list_all (part_ok tk (int (length pages))) blocks"
  unfolding list_all_iff
proof
  fix b assume "b \<in> set blocks"
  then obtain page where "page \<in> set pages" "bounded_ok tk (mp_page_number page) b"
    using bounded_blocks_from_ok assms(1) unfolding bounded_blocks_def by blast
  moreover have "validate_pages_from 1 pages = Inr ()"
    using assms(2) by (simp add: validate_pages_def split: if_splits)
  ultimately show "part_ok tk (int (length pages)) b"
    using validate_pages_from_numbers [of 1 pages page]
    by (auto simp: part_ok_def bounded_ok_def block_ok_def)
qed

section \<open>Chunks\<close>

lemma suffix_scan_fits:
  "best = [] \<or> fits tk m best \<Longrightarrow> suffix_scan tk m s starts best = [] \<or> fits tk m (suffix_scan tk m s starts best)"
  by (induction tk m s starts best rule: suffix_scan.induct) (auto simp: Let_def)

lemma suffix_scan_visible:
  "(best = [] \<or> visible best \<noteq> []) \<Longrightarrow> suffix_scan tk m s starts best = [] \<or> visible (suffix_scan tk m s starts best) \<noteq> []"
  by (induction tk m s starts best rule: suffix_scan.induct) (auto simp: Let_def fits_def)

lemma suffix_scan_suffix:
  "(\<exists>p. s = p @ best) \<Longrightarrow> \<exists>p. s = p @ suffix_scan tk m s starts best"
proof (induction tk m s starts best rule: suffix_scan.induct)
  case (2 tk m s start starts best)
  have "\<exists>p. s = p @ py_lstrip (drop start s)"
    by (metis append_assoc append_take_drop_id py_lstrip_def takeWhile_dropWhile_id)
  then show ?case
    using 2 by (auto simp: Let_def)
qed simp

lemma largest_suffix_ok:
  assumes "largest_suffix s m tk \<noteq> []"
  shows "tk (largest_suffix s m tk) \<le> m" "visible (largest_suffix s m tk) \<noteq> []" "\<exists>p. s = p @ largest_suffix s m tk"
  using assms suffix_scan_fits [of "[]" tk m s] suffix_scan_visible [of "[]" tk m s] suffix_scan_suffix [of s "[]" tk m]
  by (auto simp: largest_suffix_def Let_def fits_def split: if_splits)

text \<open>The overlap repeats the end of the last prose block of the chunk before.\<close>

definition overlap_ok :: "tokenizer \<Rightarrow> int \<Rightarrow> block list \<Rightarrow> block list \<Rightarrow> bool" where
  "overlap_ok tk n before over \<longleftrightarrow> over = [] \<or>
     (\<exists>p b. over = [b] \<and> p \<in> set before \<and> bl_kind p = Prose \<and> bl_kind b = Overlap
        \<and> (\<exists>s. bl_text p = s @ bl_text b) \<and> bl_token_count b \<le> OVERLAP_TOKENS \<and> part_ok tk n b)"

lemma overlap_is_ok:
  assumes "list_all (part_ok tk n) parts"
  shows "overlap_ok tk n parts (overlap parts tk)"
proof (cases "find (\<lambda>part. bl_kind part = Prose) (rev parts)")
  case (Some p)
  then have p: "p \<in> set parts" "bl_kind p = Prose"
    by (auto simp: find_Some_iff) (metis nth_mem length_rev set_rev)
  then have ok: "part_ok tk n p"
    using assms by (simp add: list_all_iff)
  let ?s = "if bl_token_count p \<le> OVERLAP_TOKENS then bl_text p else largest_suffix (bl_text p) OVERLAP_TOKENS tk"
  have "part_ok tk n (piece_of tk p Overlap ?s) \<and> tk ?s \<le> OVERLAP_TOKENS \<and> (\<exists>q. bl_text p = q @ ?s)" if "?s \<noteq> []"
    using that ok largest_suffix_ok [of "bl_text p" OVERLAP_TOKENS tk]
    by (auto simp: part_ok_def OVERLAP_TOKENS_def HARD_MAX_TOKENS_def split: if_splits)
  then show ?thesis
    using Some p by (auto simp: overlap_def overlap_ok_def Let_def)
qed (simp add: overlap_def overlap_ok_def)


text \<open>
  \<open>groups\<close> lists for every chunk the overlap it starts with and the blocks it adds.  A state of the
  loop after the blocks \<open>seen\<close> has finished chunks for \<open>groups\<close> and \<open>over @ fresh\<close> pending.
\<close>

type_synonym group = "block list \<times> block list"

definition group_parts :: "group \<Rightarrow> block list" where
  "group_parts g = fst g @ snd g"

definition grouped ::
  "stdlib \<Rightarrow> uuid \<Rightarrow> uuid \<Rightarrow> tokenizer \<Rightarrow> int \<Rightarrow> group list \<Rightarrow> markdown_chunk list \<Rightarrow> bool" where
  "grouped sl did rid tk n groups made \<longleftrightarrow> length groups = length made \<and>
     (\<forall>i<length made. finish_chunk sl did rid i (group_parts (groups ! i)) tk = Inr (made ! i)
        \<and> list_all (part_ok tk n) (group_parts (groups ! i)) \<and> snd (groups ! i) \<noteq> []
        \<and> (if i = 0 then fst (groups ! i) = []
           else overlap_ok tk n (group_parts (groups ! (i - 1))) (fst (groups ! i))))"

definition pending_ok :: "tokenizer \<Rightarrow> int \<Rightarrow> group list \<Rightarrow> group \<Rightarrow> bool" where
  "pending_ok tk n groups g \<longleftrightarrow> list_all (part_ok tk n) (group_parts g)
     \<and> (if groups = [] then fst g = [] else overlap_ok tk n (group_parts (last groups)) (fst g))"

definition loop_state ::
  "stdlib \<Rightarrow> uuid \<Rightarrow> uuid \<Rightarrow> tokenizer \<Rightarrow> int \<Rightarrow> nat \<Rightarrow> block list \<Rightarrow> markdown_chunk list \<times> block list \<Rightarrow> bool" where
  "loop_state sl did rid tk n limit seen state \<longleftrightarrow>
     (\<exists>groups g. grouped sl did rid tk n groups (fst state) \<and> length (fst state) \<le> limit
        \<and> concat (map snd groups) @ snd g = seen \<and> snd state = group_parts g \<and> pending_ok tk n groups g
        \<and> (if snd g = [] then seen = [] \<and> snd state = [] else total_tokens tk (snd state) \<le> HARD_MAX_TOKENS))"

lemma grouped_snoc:
  assumes "grouped sl did rid tk n groups made" and "pending_ok tk n groups g" and "snd g \<noteq> []"
    and "finish_chunk sl did rid (length made) (group_parts g) tk = Inr chunk"
  shows "grouped sl did rid tk n (groups @ [g]) (made @ [chunk])"
  using assms by (auto simp: grouped_def pending_ok_def nth_append less_Suc_eq last_conv_nth split: if_splits)

lemma flush_grouped:
  assumes run: "flush sl did rid tk limit (made, group_parts g) = Inr (made', parts')"
    and "grouped sl did rid tk n groups made" and "pending_ok tk n groups g" and "snd g \<noteq> []"
  shows "grouped sl did rid tk n (groups @ [g]) made' \<and> parts' = overlap (group_parts g) tk \<and> length made' \<le> limit"
proof -
  obtain chunk where "finish_chunk sl did rid (length made) (group_parts g) tk = Inr chunk" "made' = made @ [chunk]"
    "parts' = overlap (group_parts g) tk" "length made' \<le> limit"
    using run assms(4) by (auto simp: flush_def result_simps Let_def group_parts_def)
  then show ?thesis
    using grouped_snoc assms by blast
qed

lemma overlap_pending:
  assumes "pending_ok tk n groups g" and "part_ok tk n b"
    and "over = [] \<or> over = overlap (group_parts g) tk"
  shows "pending_ok tk n (groups @ [g]) (over, [b])"
proof -
  have "overlap_ok tk n (group_parts g) over"
    using assms overlap_is_ok [of tk n "group_parts g"] by (auto simp: pending_ok_def overlap_ok_def)
  then show ?thesis
    using assms(2) by (auto simp: pending_ok_def group_parts_def overlap_ok_def)
qed

lemma add_block_loop:
  assumes run: "add_block sl did rid tk limit b state = Inr state'"
    and "loop_state sl did rid tk n limit seen state" and b: "part_ok tk n b"
  shows "loop_state sl did rid tk n limit (seen @ [b]) state'"
proof -
  obtain made parts where st: "state = (made, parts)"
    by fastforce
  obtain groups g where inv: "grouped sl did rid tk n groups made" "length made \<le> limit"
    "concat (map snd groups) @ snd g = seen" "parts = group_parts g" "pending_ok tk n groups g"
    "if snd g = [] then seen = [] \<and> parts = [] else total_tokens tk parts \<le> HARD_MAX_TOKENS"
    using assms(2) unfolding loop_state_def st fst_conv snd_conv by blast
  show ?thesis
  proof (cases "parts \<noteq> [] \<and> total_tokens tk (parts @ [b]) > TARGET_TOKENS")
    case True
    then have fresh: "snd g \<noteq> []"
      using inv(6) by auto
    obtain made' parts' where fl: "flush sl did rid tk limit (made, parts) = Inr (made', parts')"
      and st': "fst state' = made'" and kept: "snd state' = [b] \<or> snd state' = parts' @ [b]"
      and fit: "total_tokens tk (snd state') \<le> HARD_MAX_TOKENS"
      using run True st by (auto simp: add_block_def result_simps Let_def split: if_splits)
    have gr: "grouped sl did rid tk n (groups @ [g]) made'" "parts' = overlap (group_parts g) tk" "length made' \<le> limit"
      using flush_grouped [OF fl [unfolded inv(4)] inv(1,5) fresh] by auto
    obtain over where over: "snd state' = group_parts (over, [b])" "over = [] \<or> over = overlap (group_parts g) tk"
      using kept gr(2) by (auto simp: group_parts_def)
    show ?thesis
      unfolding loop_state_def
      using gr st' fit over overlap_pending [OF inv(5) b over(2)] inv(3)
      by (intro exI [of _ "groups @ [g]"] exI [of _ "(over, [b])"]) auto
  next
    case False
    then have "state' = (made, parts @ [b])" "total_tokens tk (parts @ [b]) \<le> HARD_MAX_TOKENS"
      using run st by (auto simp: add_block_def result_simps Let_def TARGET_TOKENS_def HARD_MAX_TOKENS_def split: if_splits)
    moreover have "pending_ok tk n groups (fst g, snd g @ [b])"
      using inv(5) b by (auto simp: pending_ok_def group_parts_def split: if_splits)
    ultimately show ?thesis
      unfolding loop_state_def
      using inv by (intro exI [of _ groups] exI [of _ "(fst g, snd g @ [b])"]) (auto simp: group_parts_def)
  qed
qed

lemma add_blocks_loop:
  assumes "add_blocks sl did rid tk limit bs state = Inr state'"
    and "loop_state sl did rid tk n limit seen state" and "list_all (part_ok tk n) bs"
  shows "loop_state sl did rid tk n limit (seen @ bs) state'"
  using assms
proof (induction bs arbitrary: state seen)
  case (Cons b bs)
  then obtain mid where "add_block sl did rid tk limit b state = Inr mid" "add_blocks sl did rid tk limit bs mid = Inr state'"
    by (auto simp: result_simps)
  then show ?case
    using Cons.IH [of mid "seen @ [b]"] Cons.prems add_block_loop [of sl did rid tk limit b state mid n seen] by simp
qed simp

lemma loop_start: "loop_state sl did rid tk n limit [] ([], [])"
  unfolding loop_state_def
  by (intro exI [of _ "[]"] exI [of _ "([], [])"]) (simp add: grouped_def pending_ok_def group_parts_def)

lemma chunk_markdown_grouped:
  assumes "chunk_markdown sl pages did rid tk max_chunks = Inr made"
  shows "\<exists>blocks groups. bounded_blocks pages tk = Inr blocks \<and> concat (map snd groups) = blocks \<and> made \<noteq> []
    \<and> validate_pages pages = Inr () \<and> grouped sl did rid tk (int (length pages)) groups made
    \<and> int (length made) \<le> max_chunks"
proof -
  obtain blocks state parts where ok: "validate_pages pages = Inr ()" "0 < max_chunks" "bounded_blocks pages tk = Inr blocks"
    "blocks \<noteq> []" "add_blocks sl did rid tk (nat max_chunks) blocks ([], []) = Inr state"
    "flush sl did rid tk (nat max_chunks) state = Inr (made, parts)"
    using assms by (auto simp: chunk_markdown_def result_simps)
  have "loop_state sl did rid tk (int (length pages)) (nat max_chunks) ([] @ blocks) state"
    by (rule add_blocks_loop [OF ok(5) loop_start bounded_blocks_ok [OF ok(3,1)]])
  then obtain groups g where g: "grouped sl did rid tk (int (length pages)) groups (fst state)"
    "concat (map snd groups) @ snd g = blocks" "snd state = group_parts g" "pending_ok tk (int (length pages)) groups g"
    "if snd g = [] then [] @ blocks = [] \<and> snd state = [] else total_tokens tk (snd state) \<le> HARD_MAX_TOKENS"
    unfolding loop_state_def append_Nil by blast
  then have fresh: "snd g \<noteq> []"
    using ok(4) by (auto split: if_splits)
  have "grouped sl did rid tk (int (length pages)) (groups @ [g]) made \<and> length made \<le> nat max_chunks"
    using flush_grouped [of sl did rid tk "nat max_chunks" "fst state" g made parts] ok(6) g fresh by (metis prod.collapse)
  then show ?thesis
    using ok g(2) by (intro exI [of _ blocks] exI [of _ "groups @ [g]"]) (auto simp: grouped_def)
qed


text \<open>A tokenizer for which surrounding whitespace costs nothing never trips the guards of the loop:
  the chunk limit is all that can be hit.\<close>

definition chunk_limit :: "nat \<Rightarrow> chunking_error" where
  "chunk_limit limit = MarkdownChunkingError (''document exceeds the '' @ nat_digits limit @ ''-chunk limit'')"

definition strips_free :: "tokenizer \<Rightarrow> bool" where
  "strips_free tk \<longleftrightarrow> (\<forall>s. tk (py_strip s) \<le> tk s)"

lemma flush_error:
  assumes "flush sl did rid tk limit (made, parts) = Inl e" and "strips_free tk"
    and "list_all (part_ok tk n) parts" and "total_tokens tk parts \<le> HARD_MAX_TOKENS"
  shows "e = chunk_limit limit"
proof -
  have "parts \<noteq> []"
    using assms(1) by (auto simp: flush_def)
  then have "visible (py_join [LF, LF] (map bl_text parts)) \<noteq> []"
    using assms(3) by (cases parts) (auto simp: part_ok_def visible_join simp del: py_join.simps)
  moreover have "tk (py_strip (py_join [LF, LF] (map bl_text parts))) \<le> HARD_MAX_TOKENS"
    using assms(2,4) unfolding total_tokens_def strips_free_def by (meson order_trans)
  ultimately show ?thesis
    using assms(1) \<open>parts \<noteq> []\<close>
    by (auto simp: flush_def finish_chunk_def Let_def chunk_limit_def split: if_splits)
qed

lemma add_block_error:
  assumes "add_block sl did rid tk limit b state = Inl e" and "strips_free tk"
    and "loop_state sl did rid tk n limit seen state" and "part_ok tk n b"
  shows "e = chunk_limit limit"
proof -
  obtain made parts where st: "state = (made, parts)"
    by fastforce
  have parts: "list_all (part_ok tk n) parts" "parts \<noteq> [] \<Longrightarrow> total_tokens tk parts \<le> HARD_MAX_TOKENS"
    using assms(3) by (auto simp: st loop_state_def pending_ok_def split: if_splits)
  have one: "total_tokens tk [b] \<le> HARD_MAX_TOKENS"
    using assms(4) by (simp add: total_tokens_def part_ok_def)
  show ?thesis
    using assms(1) parts one flush_error [OF _ assms(2), of sl did rid limit made parts e n]
    by (auto simp: st add_block_def rbind_eq_Inl Let_def split: if_splits)
qed

lemma add_blocks_error:
  assumes "add_blocks sl did rid tk limit bs state = Inl e" and strip: "strips_free tk"
    and "loop_state sl did rid tk n limit seen state" and "list_all (part_ok tk n) bs"
  shows "e = chunk_limit limit"
  using assms(1,3,4)
proof (induction bs arbitrary: state seen)
  case (Cons b bs)
  then consider "add_block sl did rid tk limit b state = Inl e"
    | mid where "add_block sl did rid tk limit b state = Inr mid" "add_blocks sl did rid tk limit bs mid = Inl e"
    by (auto simp: rbind_eq_Inl)
  then show ?case
  proof cases
    case 1
    then show ?thesis
      using add_block_error [OF _ strip] Cons.prems by auto
  next
    case 2
    then show ?thesis
      using Cons.IH [of mid "seen @ [b]"] Cons.prems add_block_loop [of sl did rid tk limit b state mid n seen] by simp
  qed
qed simp

lemma chunk_markdown_error:
  assumes "strips_free tk" and "validate_pages pages = Inr ()" and "0 < max_chunks"
    and "bounded_blocks pages tk = Inr blocks" and "blocks \<noteq> []"
    and "chunk_markdown sl pages did rid tk max_chunks = Inl e"
  shows "e = chunk_limit (nat max_chunks)"
proof -
  let ?n = "int (length pages)"
  note blocks = bounded_blocks_ok [OF assms(4,2)]
  consider "add_blocks sl did rid tk (nat max_chunks) blocks ([], []) = Inl e"
    | state where "add_blocks sl did rid tk (nat max_chunks) blocks ([], []) = Inr state"
      "flush sl did rid tk (nat max_chunks) state = Inl e"
    using assms(2-) by (auto simp: chunk_markdown_def rbind_eq_Inl)
  then show ?thesis
  proof cases
    case 1
    show ?thesis
      by (rule add_blocks_error [OF 1 assms(1) loop_start blocks])
  next
    case (2 state)
    have inv: "loop_state sl did rid tk ?n (nat max_chunks) ([] @ blocks) state"
      by (rule add_blocks_loop [OF 2(1) loop_start blocks])
    have "list_all (part_ok tk ?n) (snd state) \<and> total_tokens tk (snd state) \<le> HARD_MAX_TOKENS"
      using inv assms(5) by (auto simp: loop_state_def pending_ok_def split: if_splits)
    then show ?thesis
      using flush_error [OF _ assms(1), of sl did rid _ "fst state" "snd state" e ?n] 2(2) by simp
  qed
qed


section \<open>Properties\<close>

lemma finish_chunkE:
  assumes "finish_chunk sl did rid i parts tk = Inr c"
  shows "mc_markdown c = py_strip (py_join [LF, LF] (map bl_text parts))" "mc_markdown c \<noteq> []"
    "mc_token_count c = tk (mc_markdown c)" "mc_token_count c \<le> HARD_MAX_TOKENS" "mc_chunk_index c = int i"
    "mc_text_sha256 c = sl_sha256 sl (mc_markdown c)"
    "mc_chunk_id c = sl_uuid5 sl did (uuid_str rid @ '':'' @ nat_digits i @ '':'' @ mc_text_sha256 c)"
    "mc_page_start c = Min (set (map bl_page parts))" "mc_page_end c = Max (set (map bl_page parts))"
  using assms by (auto simp: finish_chunk_def Let_def result_simps)

lemma page_span:
  assumes "list_all (part_ok tk n) parts" and "parts \<noteq> []"
  shows "1 \<le> Min (set (map bl_page parts))" "Min (set (map bl_page parts)) \<le> Max (set (map bl_page parts))"
    "Max (set (map bl_page parts)) \<le> n"
proof -
  have all: "\<forall>p\<in>set (map bl_page parts). 1 \<le> p \<and> p \<le> n" and fin: "finite (set (map bl_page parts))"
    and ne: "set (map bl_page parts) \<noteq> {}"
    using assms by (auto simp: list_all_iff part_ok_def)
  show "1 \<le> Min (set (map bl_page parts))" "Max (set (map bl_page parts)) \<le> n"
    using all Min_in [OF fin ne] Max_in [OF fin ne] by blast+
  show "Min (set (map bl_page parts)) \<le> Max (set (map bl_page parts))"
    using Min_le [OF fin Max_in [OF fin ne]] .
qed

text \<open>C13. Every chunk of a document has text, its exact token count, which is at most the hard
  maximum, its position, its digest and the identifier derived from revision, position and digest,
  and a page span inside the document; there is at least one chunk and no more than the limit.\<close>

theorem chunk_markdown_bounds:
  assumes "chunk_markdown sl pages did rid tk max_chunks = Inr made"
  shows "made \<noteq> [] \<and> int (length made) \<le> max_chunks \<and> (\<forall>i<length made. let c = made ! i in
      mc_chunk_index c = int i \<and> mc_markdown c \<noteq> [] \<and> mc_token_count c = tk (mc_markdown c)
    \<and> mc_token_count c \<le> 384 \<and> mc_text_sha256 c = sl_sha256 sl (mc_markdown c)
    \<and> mc_chunk_id c = sl_uuid5 sl did (uuid_str rid @ '':'' @ nat_digits i @ '':'' @ mc_text_sha256 c)
    \<and> 1 \<le> mc_page_start c \<and> mc_page_start c \<le> mc_page_end c \<and> mc_page_end c \<le> int (length pages))"
proof -
  obtain groups where g: "grouped sl did rid tk (int (length pages)) groups made" "made \<noteq> []"
    "int (length made) \<le> max_chunks"
    using chunk_markdown_grouped [OF assms] by blast
  show ?thesis
  proof (intro conjI allI impI g(2,3))
    fix i assume i: "i < length made"
    then have fin: "finish_chunk sl did rid i (group_parts (groups ! i)) tk = Inr (made ! i)"
      and ok: "list_all (part_ok tk (int (length pages))) (group_parts (groups ! i))" "group_parts (groups ! i) \<noteq> []"
      using g(1) by (auto simp: grouped_def group_parts_def)
    show "let c = made ! i in
      mc_chunk_index c = int i \<and> mc_markdown c \<noteq> [] \<and> mc_token_count c = tk (mc_markdown c)
    \<and> mc_token_count c \<le> 384 \<and> mc_text_sha256 c = sl_sha256 sl (mc_markdown c)
    \<and> mc_chunk_id c = sl_uuid5 sl did (uuid_str rid @ '':'' @ nat_digits i @ '':'' @ mc_text_sha256 c)
    \<and> 1 \<le> mc_page_start c \<and> mc_page_start c \<le> mc_page_end c \<and> mc_page_end c \<le> int (length pages)"
      using finish_chunkE(2-9) [OF fin] page_span [OF ok] by (simp add: Let_def HARD_MAX_TOKENS_def)
  qed
qed

text \<open>Two pages, with a tokenizer that counts 24 for every character: a heading and a table, and a
  paragraph of twenty characters, of which sixteen fit.\<close>

definition char_count :: tokenizer where
  "char_count s = 24 * int (length s)"

definition plain_stdlib :: stdlib where
  "plain_stdlib = \<lparr>sl_sha256 = (\<lambda>s. ''sha:'' @ s), sl_uuid5 = (\<lambda>u s. u + length s), sl_float_repr = (\<lambda>_. ''0.0''),
     sl_unit_norm = (\<lambda>_. True), sl_nfkc = (\<lambda>s. s)\<rparr>"

definition two_pages :: "markdown_page list" where
  "two_pages = [\<lparr>mp_page_number = 1, mp_markdown = ''# T'' @ [LF, LF] @ ''a|b'' @ [LF] @ ''---|---''\<rparr>,
     \<lparr>mp_page_number = 2, mp_markdown = ''abcdefghijklmnopqrst''\<rparr>]"

definition two_page_chunks :: "markdown_chunk list" where
  "two_page_chunks = projr (chunk_markdown plain_stdlib two_pages 7 8 char_count 10)"

lemma two_page_texts:
  "map mc_markdown two_page_chunks = [''# T'', ''a|b'' @ [LF] @ ''---|---'', ''abcdefghijklmnop'', ''op'' @ [LF, LF] @ ''qrst'']"
  by code_simp

lemma two_page_run: "chunk_markdown plain_stdlib two_pages 7 8 char_count 10 = Inr two_page_chunks"
proof -
  have "\<not> isl (chunk_markdown plain_stdlib two_pages 7 8 char_count 10)"
    by code_simp
  then show ?thesis
    by (simp add: two_page_chunks_def)
qed

lemma two_page_length: "length two_page_chunks = 4"
  using arg_cong [OF two_page_texts, of length] by simp

theorem chunk_markdown_bounds_witness:
  "mc_token_count (two_page_chunks ! 2) \<le> 384 \<and> mc_page_end (two_page_chunks ! 3) \<le> 2"
proof -
  have "int (length two_pages) = 2"
    by (simp add: two_pages_def)
  then show ?thesis
    using chunk_markdown_bounds [OF two_page_run, THEN conjunct2, THEN conjunct2, rule_format, of 2]
      chunk_markdown_bounds [OF two_page_run, THEN conjunct2, THEN conjunct2, rule_format, of 3] two_page_length
    by (simp add: Let_def)
qed

text \<open>C14. The chunks partition the blocks of the document in order: every block, whole, is in exactly one
  chunk, after at most one overlap block, which repeats the end of a prose block of the chunk before
  and has at most the overlap's number of tokens.\<close>

theorem chunk_markdown_partitions:
  assumes "chunk_markdown sl pages did rid tk max_chunks = Inr made"
  shows "\<exists>blocks groups. bounded_blocks pages tk = Inr blocks \<and> concat (map snd groups) = blocks
    \<and> length groups = length made
    \<and> (\<forall>i<length made. mc_markdown (made ! i) = py_strip (py_join [LF, LF] (map bl_text (fst (groups ! i) @ snd (groups ! i))))
        \<and> snd (groups ! i) \<noteq> []
        \<and> (fst (groups ! i) = [] \<or> (\<exists>p b s. 0 < i \<and> fst (groups ! i) = [b]
            \<and> p \<in> set (fst (groups ! (i - 1)) @ snd (groups ! (i - 1))) \<and> bl_kind p = Prose
            \<and> bl_text p = s @ bl_text b \<and> tk (bl_text b) \<le> 48)))"
proof -
  obtain blocks groups where g: "bounded_blocks pages tk = Inr blocks" "concat (map snd groups) = blocks"
    "grouped sl did rid tk (int (length pages)) groups made"
    using chunk_markdown_grouped [OF assms] by blast
  have each: "mc_markdown (made ! i) = py_strip (py_join [LF, LF] (map bl_text (fst (groups ! i) @ snd (groups ! i))))
        \<and> snd (groups ! i) \<noteq> []
        \<and> (fst (groups ! i) = [] \<or> (\<exists>p b s. 0 < i \<and> fst (groups ! i) = [b]
            \<and> p \<in> set (fst (groups ! (i - 1)) @ snd (groups ! (i - 1))) \<and> bl_kind p = Prose
            \<and> bl_text p = s @ bl_text b \<and> tk (bl_text b) \<le> 48))" if i: "i < length made" for i
  proof -
    have fin: "finish_chunk sl did rid i (group_parts (groups ! i)) tk = Inr (made ! i)" "snd (groups ! i) \<noteq> []"
      and over: "i = 0 \<longrightarrow> fst (groups ! i) = []"
        "0 < i \<longrightarrow> overlap_ok tk (int (length pages)) (group_parts (groups ! (i - 1))) (fst (groups ! i))"
      using g(3) i by (auto simp: grouped_def split: if_splits)
    show ?thesis
      using finish_chunkE(1) [OF fin(1)] fin(2) over
      by (cases i) (fastforce simp: group_parts_def overlap_ok_def part_ok_def OVERLAP_TOKENS_def)+
  qed
  show ?thesis
    using g each by (intro exI [of _ blocks] exI [of _ groups]) (simp add: grouped_def)
qed

theorem chunk_markdown_partitions_witness:
  "\<exists>groups :: group list. concat (map snd groups) = projr (bounded_blocks two_pages char_count) \<and> length groups = 4"
proof -
  obtain blocks and groups :: "group list" where "bounded_blocks two_pages char_count = Inr blocks" "concat (map snd groups) = blocks"
    "length groups = length two_page_chunks"
    using chunk_markdown_partitions [OF two_page_run] by blast
  then show ?thesis
    using two_page_length by (intro exI [of _ groups]) simp
qed

text \<open>C15. With a tokenizer for which stripping a text never adds tokens, documents whose pages are in
  order and whose blocks could be bounded are chunked: the only error left is the limit on the
  number of chunks, and none of the internal guards can fail.\<close>

theorem chunk_markdown_total:
  assumes "\<forall>s. tk (py_strip s) \<le> tk s" and "validate_pages pages = Inr ()" and "0 < max_chunks"
    and "bounded_blocks pages tk = Inr blocks" and "blocks \<noteq> []"
  shows "(\<exists>made. chunk_markdown sl pages did rid tk max_chunks = Inr made)
    \<or> chunk_markdown sl pages did rid tk max_chunks
      = Inl (MarkdownChunkingError (''document exceeds the '' @ nat_digits (nat max_chunks) @ ''-chunk limit''))"
  using chunk_markdown_error [OF _ assms(2-5), of sl did rid] assms(1)
  by (cases "chunk_markdown sl pages did rid tk max_chunks") (auto simp: strips_free_def chunk_limit_def)

lemma length_strip: "length (py_strip s) \<le> length s"
  using length_rstrip [of "py_lstrip s"] length_lstrip [of s] by (simp add: py_strip_eq)

theorem chunk_markdown_total_witness:
  "\<exists>blocks. bounded_blocks two_pages char_count = Inr blocks
    \<and> ((\<exists>made. chunk_markdown plain_stdlib two_pages 7 8 char_count 1 = Inr made)
      \<or> chunk_markdown plain_stdlib two_pages 7 8 char_count 1
        = Inl (MarkdownChunkingError (''document exceeds the '' @ nat_digits 1 @ ''-chunk limit'')))"
proof -
  obtain blocks where blocks: "bounded_blocks two_pages char_count = Inr blocks" "blocks \<noteq> []"
    using two_page_run by (auto simp: chunk_markdown_def result_simps)
  have "validate_pages two_pages = Inr ()"
    by code_simp
  then show ?thesis
    using chunk_markdown_total [of char_count two_pages 1 blocks plain_stdlib 7 8] blocks
    by (simp add: char_count_def length_strip)
qed


text \<open>C16. Bounding a block gives pieces that all fit the hard maximum and carry the exact count, and no
  visible text is lost: the pieces of prose together carry its text, the pieces of a table all
  repeat its two header lines and share out its rows in order, and the pieces of a fence all carry
  its first and last line and share out the text between them.\<close>

theorem bound_block_keeps_text:
  assumes "b \<in> set (fst (parse_blocks page tk headings))" and "bound_block tk b = Inr pieces"
  shows "list_all (\<lambda>p. visible (bl_text p) \<noteq> [] \<and> bl_token_count p = tk (bl_text p) \<and> tk (bl_text p) \<le> 384
        \<and> bl_page p = mp_page_number page) pieces
    \<and> (let ls = splitlines (bl_text b) in
        block_text pieces = visible (bl_text b)
      \<or> (bl_kind b = Table \<and> (\<exists>groups. map bl_text pieces = map (\<lambda>g. py_join [LF] (py_join [LF] (take 2 ls) # g)) groups
            \<and> concat groups = drop 2 ls))
      \<or> (bl_kind b = Fence \<and> (\<exists>parts. map bl_text pieces = map (fenced (hd ls) (last ls)) parts
            \<and> concat (map visible parts) = concat (map visible (butlast (tl ls))))))"
proof -
  have ok: "list_all (bounded_ok tk (mp_page_number page)) pieces"
    by (rule bound_block_ok [OF assms(2) parse_blocks_ok [OF assms(1)]])
  have bounded: "list_all (\<lambda>p. visible (bl_text p) \<noteq> [] \<and> bl_token_count p = tk (bl_text p) \<and> tk (bl_text p) \<le> 384
        \<and> bl_page p = mp_page_number page) pieces"
    by (rule list.pred_mono_strong [OF ok]) (simp add: bounded_ok_def block_ok_def HARD_MAX_TOKENS_def)
  have vis: "visible (py_join [LF] (take 2 (splitlines (bl_text b)))) \<noteq> []"
    if "2 \<le> length (splitlines (bl_text b))" "is_table_separator (splitlines (bl_text b) ! Suc 0)"
    using that separator_visible [OF that(2)]
    by (cases "splitlines (bl_text b)" rule: list.exhaust; cases "tl (splitlines (bl_text b))") auto
  show ?thesis
    using assms(2) bounded vis
    by (auto simp: bound_block_def split_prose_def split_table_def split_fence_def Let_def result_simps
        dest!: split_prose_from_ok split_fence_from_ok split_rows_ok split: if_splits block_kind.splits)
qed

theorem bound_block_keeps_text_witness:
  "\<exists>b pieces. bl_text b = ''abcdefghijklmnopqrst'' \<and> bound_block char_count b = Inr pieces \<and> length pieces = 2
    \<and> list_all (\<lambda>p. char_count (bl_text p) \<le> 384) pieces"
proof -
  let ?bs = "fst (parse_blocks (two_pages ! 1) char_count [])"
  have texts: "map bl_text ?bs = [''abcdefghijklmnopqrst'']" "map length (map (projr \<circ> bound_block char_count) ?bs) = [2]"
    "\<not> isl (bound_block char_count (hd ?bs))"
    by code_simp+
  then obtain b pieces where b: "b \<in> set ?bs" "bl_text b = ''abcdefghijklmnopqrst''" "bound_block char_count b = Inr pieces"
    "length pieces = 2"
    by (cases ?bs; cases "bound_block char_count (hd ?bs)") auto
  show ?thesis
    using bound_block_keeps_text [OF b(1,3)] b(2-) by (intro exI [of _ b] exI [of _ pieces]) (auto simp: list_all_iff)
qed

text \<open>C17. Parsing a page into blocks loses no visible character and keeps their order.\<close>

theorem parse_blocks_lossless:
  "concat (map (\<lambda>b. visible (bl_text b)) (fst (parse_blocks page tk headings))) = visible (mp_markdown page)"
  using parse_blocks_text by (simp add: block_text_def)






section \<open>Limits of the search\<close>

text \<open>
  The search assumes that prefixes that fit form an initial segment.  Prefixes of a text that starts
  with whitespace do not: a fence whose content starts with indentation longer than the rest is
  rejected, although the content after the indentation could be cut to fit.
\<close>

definition visible_count :: tokenizer where
  "visible_count s = 24 * int (length (visible s))"

definition indented_fence :: block where
  "indented_fence = \<lparr>bl_text = ''~~~'' @ [LF] @ replicate 14 (CHR '' '') @ ''abcdefghijkl'' @ [LF] @ ''~~~'',
     bl_page = 1, bl_heading_path = [], bl_kind = Fence, bl_token_count = 432\<rparr>"

lemma indented_fence_rejected:
  "bl_token_count indented_fence = visible_count (bl_text indented_fence)"
  "bound_block visible_count indented_fence
     = Inl (MarkdownChunkingError ''the tokenizer cannot fit one source character'')"
  "\<not> isl (bound_block visible_count (indented_fence\<lparr>bl_text := ''~~~'' @ [LF] @ ''abcdefghijkl'' @ [LF] @ ''~~~''\<rparr>))"
  by code_simp+

text \<open>Nor does it look for a textual boundary: words are cut wherever the limit falls.\<close>

lemma prefix_cuts_words:
  "largest_prefix ''ab cdef'' 144 char_count = Inr (''ab cde'', ''f'')"
  by code_simp

end
