(* ===== verification/Candidates.thy ===== *)
theory Candidates
  imports Vector_Index
begin

text \<open>
  Candidate discovery rules and rank fusion, from \<^verbatim>\<open>pdf_bridge/services/candidates.py\<close>.  A float is the
  rational it stands for; arithmetic rounds to the nearest double, in the normal range, in which
  scores and ranks lie.  The dictionaries of the function are tables in insertion order, the sets
  of identifiers it is given are lists in an arbitrary order.
\<close>

section \<open>Floats\<close>

fun bit_length :: "nat \<Rightarrow> nat" where
  "bit_length n = (if n = 0 then 0 else Suc (bit_length (n div 2)))"

declare bit_length.simps [simp del]

definition pow2 :: "int \<Rightarrow> rat" where
  "pow2 e = (if 0 \<le> e then 2 ^ nat e else 1 / 2 ^ nat (- e))"

definition round_half_even :: "rat \<Rightarrow> int" where
  "round_half_even q =
     (let f = \<lfloor>q\<rfloor>; d = q - of_int f in
      if d < 1 / 2 \<or> (d = 1 / 2 \<and> even f) then f else f + 1)"

definition to_double :: "rat \<Rightarrow> rat" where
  "to_double x =
     (if x = 0 then 0
      else let (n, d) = quotient_of \<bar>x\<bar>;
               e0 = int (bit_length (nat n)) - int (bit_length (nat d));
               e = (if pow2 e0 \<le> \<bar>x\<bar> then e0 else e0 - 1);
               unit_last = pow2 (e - 52)
           in sgn x * of_int (round_half_even (\<bar>x\<bar> / unit_last)) * unit_last)"

text \<open>\<^verbatim>\<open>round(x, digits)\<close>: the double nearest to the decimal nearest to \<open>x\<close>.\<close>

definition round_digits :: "nat \<Rightarrow> rat \<Rightarrow> rat" where
  "round_digits digits x = to_double (of_int (round_half_even (x * 10 ^ digits)) / 10 ^ digits)"

section \<open>Hits, evidence and thresholds\<close>

definition COSINE_STRONG_THRESHOLD :: rat where
  "COSINE_STRONG_THRESHOLD = to_double (86 / 100)"

definition COSINE_MULTI_THRESHOLD :: rat where
  "COSINE_MULTI_THRESHOLD = to_double (72 / 100)"

definition COSINE_MULTI_MIN_CHUNKS :: nat where
  "COSINE_MULTI_MIN_CHUNKS = 2"

definition BM25_STRONG_PLACEMENT_RANK :: int where
  "BM25_STRONG_PLACEMENT_RANK = 3"

definition BM25_STRONG_MIN_CHUNKS :: nat where
  "BM25_STRONG_MIN_CHUNKS = 3"

definition RRF_K :: int where
  "RRF_K = 60"

definition MAX_CLASSIFIED_CANDIDATES :: nat where
  "MAX_CLASSIFIED_CANDIDATES = 12"

datatype candidate_rule =
  RULE_IDENTICAL_TEXT | RULE_FILENAME_FAMILY | RULE_COSINE_STRONG | RULE_COSINE_MULTI | RULE_BM25_REPEATED

record chunk_hit =
  hit_document_id :: uuid
  hit_source :: string
  hit_chunk_id :: string
  hit_score :: number
  hit_rank :: int

record scored_candidate =
  sc_document_id :: uuid
  sc_source :: string
  sc_reasons :: "candidate_rule list"
  sc_max_cosine :: rat
  sc_strong_cosine_chunks :: nat
  sc_moderate_cosine_chunks :: nat
  sc_bm25_strong_placements :: nat
  sc_fused_score :: rat
  sc_matched_chunk_pairs :: "(nat \<times> string) list"

definition is_qualified :: "scored_candidate \<Rightarrow> bool" where
  "is_qualified c \<longleftrightarrow> sc_reasons c \<noteq> []"

section \<open>Reciprocal rank fusion\<close>

type_synonym scores = "(uuid \<times> rat) list"

definition score_of :: "scores \<Rightarrow> uuid \<Rightarrow> rat" where
  "score_of scores d = (case map_of scores d of None \<Rightarrow> 0 | Some s \<Rightarrow> s)"

text \<open>\<^verbatim>\<open>scores[document_id] = scores.get(document_id, 0.0) + 1.0 / (k + position)\<close>\<close>

definition add_score :: "int \<Rightarrow> int \<Rightarrow> uuid \<Rightarrow> scores \<Rightarrow> scores" where
  "add_score k position d scores =
     (let s = to_double (score_of scores d + to_double (1 / of_int (k + position))) in
      if d \<in> set (map fst scores) then map (\<lambda>(x, v). (x, if x = d then s else v)) scores
      else scores @ [(d, s)])"

fun fuse_ranking :: "int \<Rightarrow> int \<Rightarrow> uuid set \<Rightarrow> uuid list \<Rightarrow> scores \<Rightarrow> scores" where
  "fuse_ranking k position seen [] scores = scores"
| "fuse_ranking k position seen (d # ds) scores =
     (if d \<in> seen then fuse_ranking k (position + 1) seen ds scores
      else fuse_ranking k (position + 1) (insert d seen) ds (add_score k position d scores))"

definition reciprocal_rank_fusion :: "uuid list list \<Rightarrow> int \<Rightarrow> string + scores" where
  "reciprocal_rank_fusion rankings k =
     (if k \<le> 0 then Inl ''RRF k must be positive''
      else Inr (fold (fuse_ranking k 1 {}) rankings []))"

section \<open>Validation of the hits\<close>

type_synonym sources = "uuid \<Rightarrow> string option"

definition check_hit :: "sources \<Rightarrow> chunk_hit \<Rightarrow> string + unit" where
  "check_hit sources hit =
     (if hit_rank hit < 1 then Inl ''candidate hit ranks must be positive''
      else if hit_chunk_id hit = [] then Inl ''candidate hit chunk IDs cannot be blank''
      else if (case hit_score hit of Num _ \<Rightarrow> False | _ \<Rightarrow> True) then Inl ''candidate hit scores must be finite''
      else case sources (hit_document_id hit) of
        None \<Rightarrow> Inr ()
      | Some expected \<Rightarrow> if expected \<noteq> hit_source hit then Inl ''candidate source evidence is inconsistent'' else Inr ())"

fun check_hits :: "sources \<Rightarrow> chunk_hit list \<Rightarrow> string + unit" where
  "check_hits sources [] = Inr ()"
| "check_hits sources (hit # hits) = rbind (check_hit sources hit) (\<lambda>_. check_hits sources hits)"

definition referenced_ids :: "chunk_hit list list \<Rightarrow> chunk_hit list list \<Rightarrow> uuid list \<Rightarrow> uuid list \<Rightarrow> uuid list" where
  "referenced_ids dense bm25 family identical =
     family @ identical @ map hit_document_id (concat (dense @ bm25))"

text \<open>The values of \<open>sources\<close> that are neither active nor screening; \<open>known\<close> lists the keys.\<close>

definition check_sources :: "sources \<Rightarrow> uuid list \<Rightarrow> uuid list \<Rightarrow> string + unit" where
  "check_sources sources known referenced =
     (if list_ex (\<lambda>d. sources d = None) referenced
      then Inl ''every candidate document must have an explicit source''
      else if list_ex (\<lambda>d. sources d \<notin> {None, Some ''active'', Some ''screening''}) known
      then Inl ''candidate sources must be active or screening''
      else Inr ())"

section \<open>Evidence\<close>

type_synonym evidence = "scored_candidate list"

definition new_candidate :: "sources \<Rightarrow> uuid \<Rightarrow> scored_candidate" where
  "new_candidate sources d =
     \<lparr>sc_document_id = d, sc_source = the (sources d), sc_reasons = [], sc_max_cosine = 0,
      sc_strong_cosine_chunks = 0, sc_moderate_cosine_chunks = 0, sc_bm25_strong_placements = 0,
      sc_fused_score = 0, sc_matched_chunk_pairs = []\<rparr>"

definition entry :: "sources \<Rightarrow> uuid \<Rightarrow> evidence \<Rightarrow> evidence" where
  "entry sources d ev = (case tget sc_document_id d ev of None \<Rightarrow> tadd (new_candidate sources d) ev | Some _ \<Rightarrow> ev)"

definition upd_entry :: "sources \<Rightarrow> (scored_candidate \<Rightarrow> scored_candidate) \<Rightarrow> uuid \<Rightarrow> evidence \<Rightarrow> evidence" where
  "upd_entry sources f d ev = tupd sc_document_id d f (entry sources d ev)"

definition score_value :: "chunk_hit \<Rightarrow> rat" where
  "score_value hit = (case hit_score hit of Num q \<Rightarrow> q | _ \<Rightarrow> 0)"

definition strong_hit :: "chunk_hit \<Rightarrow> bool" where
  "strong_hit hit \<longleftrightarrow> COSINE_STRONG_THRESHOLD \<le> score_value hit"

definition moderate_hit :: "chunk_hit \<Rightarrow> bool" where
  "moderate_hit hit \<longleftrightarrow> \<not> strong_hit hit \<and> COSINE_MULTI_THRESHOLD \<le> score_value hit"

definition bm25_hit :: "chunk_hit \<Rightarrow> bool" where
  "bm25_hit hit \<longleftrightarrow> hit_rank hit \<le> BM25_STRONG_PLACEMENT_RANK"

definition note_hit :: "nat \<Rightarrow> chunk_hit \<Rightarrow> scored_candidate \<Rightarrow> scored_candidate" where
  "note_hit chunk_index hit c =
     c\<lparr>sc_max_cosine := max (sc_max_cosine c) (score_value hit),
       sc_matched_chunk_pairs := sc_matched_chunk_pairs c
         @ (if strong_hit hit \<or> moderate_hit hit then [(chunk_index, hit_chunk_id hit)] else [])\<rparr>"

text \<open>The hits of every incoming chunk with the index of the chunk, in the order of the loops.\<close>

definition indexed_hits :: "chunk_hit list list \<Rightarrow> (nat \<times> chunk_hit) list" where
  "indexed_hits results = concat (map (\<lambda>(i, hits). map (Pair i) hits) (enumerate 0 results))"

definition dense_evidence :: "sources \<Rightarrow> chunk_hit list list \<Rightarrow> evidence" where
  "dense_evidence sources dense =
     fold (\<lambda>p. upd_entry sources (note_hit (fst p) (snd p)) (hit_document_id (snd p))) (indexed_hits dense) []"

text \<open>
  A dictionary from documents to sets of chunk indices, filled with \<^verbatim>\<open>setdefault(...).add(...)\<close> for the
  hits that satisfy a condition: the documents in the order of their first hit, and their chunks.
\<close>

type_synonym chunk_sets = "(uuid \<times> nat) list"

definition chunk_sets :: "(chunk_hit \<Rightarrow> bool) \<Rightarrow> chunk_hit list list \<Rightarrow> chunk_sets" where
  "chunk_sets P results =
     map (\<lambda>(i, hit). (hit_document_id hit, i)) (filter (\<lambda>(i, hit). P hit) (indexed_hits results))"

definition set_keys :: "chunk_sets \<Rightarrow> uuid list" where
  "set_keys cs = rev (remdups (rev (map fst cs)))"

definition chunks_for :: "chunk_sets \<Rightarrow> uuid \<Rightarrow> nat list" where
  "chunks_for cs d = remdups (map snd (filter (\<lambda>p. fst p = d) cs))"

definition add_reason :: "candidate_rule \<Rightarrow> scored_candidate \<Rightarrow> scored_candidate" where
  "add_reason rule c = c\<lparr>sc_reasons := sc_reasons c @ [rule]\<rparr>"

definition apply_rules ::
  "sources \<Rightarrow> uuid list \<Rightarrow> uuid list \<Rightarrow> chunk_sets \<Rightarrow> chunk_sets \<Rightarrow> chunk_sets \<Rightarrow> evidence \<Rightarrow> evidence" where
  "apply_rules sources identical family strong moderate bm25 ev0 =
     (let ev1 = fold (upd_entry sources (add_reason RULE_IDENTICAL_TEXT)) identical ev0;
          ev2 = fold (upd_entry sources (add_reason RULE_FILENAME_FAMILY)) family ev1;
          ev3 = fold (\<lambda>d. upd_entry sources (\<lambda>c. add_reason RULE_COSINE_STRONG
                  (c\<lparr>sc_strong_cosine_chunks := length (chunks_for strong d)\<rparr>)) d) (set_keys strong) ev2;
          ev4 = fold (\<lambda>d. upd_entry sources (\<lambda>c.
                  let c' = c\<lparr>sc_moderate_cosine_chunks := length (chunks_for moderate d)\<rparr> in
                  if COSINE_MULTI_MIN_CHUNKS \<le> length (remdups (chunks_for moderate d @ chunks_for strong d))
                  then add_reason RULE_COSINE_MULTI c' else c') d) (set_keys moderate) ev3
      in fold (\<lambda>d. upd_entry sources (\<lambda>c.
                  let c' = c\<lparr>sc_bm25_strong_placements := length (chunks_for bm25 d)\<rparr> in
                  if BM25_STRONG_MIN_CHUNKS \<le> length (chunks_for bm25 d)
                  then add_reason RULE_BM25_REPEATED c' else c') d) (set_keys bm25) ev4)"

definition source_rankings :: "chunk_hit list list \<Rightarrow> uuid list list" where
  "source_rankings results =
     filter (\<lambda>r. r \<noteq> []) (concat (map (\<lambda>hits. map (\<lambda>source.
       map hit_document_id (filter (\<lambda>h. hit_source h = source) (sort_key hit_rank hits)))
       [''active'', ''screening'']) results))"

definition set_fused :: "scores \<Rightarrow> evidence \<Rightarrow> evidence" where
  "set_fused scores ev = map (\<lambda>c. case map_of scores (sc_document_id c) of
     None \<Rightarrow> c | Some s \<Rightarrow> c\<lparr>sc_fused_score := round_digits 6 s\<rparr>) ev"

definition candidate_key :: "scored_candidate \<Rightarrow> rat \<times> string" where
  "candidate_key c = (- sc_fused_score c, uuid_str (sc_document_id c))"

definition evaluate_candidates ::
  "chunk_hit list list \<Rightarrow> chunk_hit list list \<Rightarrow> uuid list \<Rightarrow> uuid list \<Rightarrow> sources \<Rightarrow> uuid list
     \<Rightarrow> string + scored_candidate list" where
  "evaluate_candidates dense bm25 family identical sources known =
     rbind (check_hits sources (concat (dense @ bm25))) (\<lambda>_.
     rbind (check_sources sources known (referenced_ids dense bm25 family identical)) (\<lambda>_.
       let ev = apply_rules sources identical family (chunk_sets strong_hit dense) (chunk_sets moderate_hit dense)
                  (chunk_sets bm25_hit bm25) (dense_evidence sources dense)
       in rbind (reciprocal_rank_fusion (source_rankings (dense @ bm25)) RRF_K) (\<lambda>fused.
            Inr (sort_key candidate_key (filter is_qualified (set_fused fused ev))))))"

end
