(* ===== verification/Candidates_Correct.thy ===== *)
theory Candidates_Correct
  imports Candidates
begin

text \<open>
  The candidates are exactly the documents one of the five rules names, each with the rules that
  apply to it, and every ranking contributes once to a document's fused score.
\<close>

section \<open>Rules\<close>

definition reasons_of :: "evidence \<Rightarrow> uuid \<Rightarrow> candidate_rule list" where
  "reasons_of ev d = (case tget sc_document_id d ev of None \<Rightarrow> [] | Some c \<Rightarrow> sc_reasons c)"

lemma new_candidate_simps [simp]:
  "sc_document_id (new_candidate sources d) = d" "sc_reasons (new_candidate sources d) = []"
  by (simp_all add: new_candidate_def)

lemma tget_entry:
  "tget sc_document_id x (entry sources d ev) =
     (case tget sc_document_id x ev of None \<Rightarrow> if x = d then Some (new_candidate sources d) else None | Some c \<Rightarrow> Some c)"
  by (auto simp: entry_def table_simps split: option.splits)

lemma reasons_upd_entry:
  assumes "\<And>c. sc_document_id (f c) = sc_document_id c" and "\<And>c. sc_reasons (f c) = sc_reasons c @ rs"
  shows "reasons_of (upd_entry sources f d ev) x = reasons_of ev x @ (if x = d then rs else [])"
  using assms by (auto simp: reasons_of_def upd_entry_def tget_tupd tget_entry split: option.splits)

lemma distinct_upd_entry:
  assumes "\<And>c. sc_document_id (f c) = sc_document_id c" and "distinct (map sc_document_id ev)"
  shows "distinct (map sc_document_id (upd_entry sources f d ev))"
  using assms by (auto simp: upd_entry_def map_key_tupd entry_def tadd_def tget_None_iff split: option.splits)

text \<open>A loop that updates one entry per document of a set.\<close>

lemma reasons_fold:
  assumes "\<And>d c. sc_document_id (f d c) = sc_document_id c" and "\<And>d c. sc_reasons (f d c) = sc_reasons c @ rs d"
    and "distinct ds"
  shows "reasons_of (fold (\<lambda>d. upd_entry sources (f d) d) ds ev) x = reasons_of ev x @ (if x \<in> set ds then rs x else [])"
  using assms(3)
proof (induction ds arbitrary: ev)
  case (Cons d ds)
  then show ?case
    using reasons_upd_entry [of "f d" "rs d" sources d ev x] assms(1,2) by auto
qed simp

lemma distinct_fold:
  assumes "\<And>d c. sc_document_id (f d c) = sc_document_id c" and "distinct (map sc_document_id ev)"
  shows "distinct (map sc_document_id (fold (\<lambda>d. upd_entry sources (f d) (g d)) ds ev))"
  using assms(2)
proof (induction ds arbitrary: ev)
  case (Cons d ds)
  then show ?case
    using distinct_upd_entry [of "f d" ev sources "g d"] assms(1) by simp
qed simp

lemma dense_evidence_plain:
  "reasons_of (dense_evidence sources dense) x = [] \<and> distinct (map sc_document_id (dense_evidence sources dense))"
proof -
  have note_simps: "sc_document_id (note_hit i hit c) = sc_document_id c" "sc_reasons (note_hit i hit c) = sc_reasons c @ []"
    for i hit c
    by (simp_all add: note_hit_def)
  have "reasons_of (fold (\<lambda>p. upd_entry sources (note_hit (fst p) (snd p)) (hit_document_id (snd p))) ps ev) x = reasons_of ev x"
    for ps ev
  proof (induction ps arbitrary: ev)
    case (Cons p ps)
    then show ?case
      using reasons_upd_entry [of "note_hit (fst p) (snd p)" "[]"] note_simps by simp
  qed simp
  then show ?thesis
    using distinct_fold [of "\<lambda>p. note_hit (fst p) (snd p)" "[]" sources "\<lambda>p. hit_document_id (snd p)" "indexed_hits dense"] note_simps
    by (simp add: dense_evidence_def) (simp add: reasons_of_def)
qed

section \<open>Chunk sets\<close>

definition matching_chunks :: "(chunk_hit \<Rightarrow> bool) \<Rightarrow> chunk_hit list list \<Rightarrow> uuid \<Rightarrow> nat set" where
  "matching_chunks P results d = {i. i < length results \<and> (\<exists>h\<in>set (results ! i). hit_document_id h = d \<and> P h)}"

lemma set_indexed_hits: "set (indexed_hits results) = {(i, h). i < length results \<and> h \<in> set (results ! i)}"
  by (auto simp: indexed_hits_def in_set_enumerate_eq) (force simp: in_set_enumerate_eq)+

lemma set_chunks_for: "set (chunks_for (chunk_sets P results) d) = matching_chunks P results d"
  by (force simp: chunks_for_def chunk_sets_def set_indexed_hits matching_chunks_def)

lemma set_keys_iff: "d \<in> set (set_keys (chunk_sets P results)) \<longleftrightarrow> matching_chunks P results d \<noteq> {}"
  by (force simp: set_keys_def chunk_sets_def set_indexed_hits matching_chunks_def)

lemma distinct_set_keys: "distinct (set_keys cs)"
  by (simp add: set_keys_def)

lemma length_chunks_for: "length (chunks_for (chunk_sets P results) d) = card (matching_chunks P results d)"
proof -
  have "distinct (chunks_for (chunk_sets P results) d)"
    by (simp add: chunks_for_def)
  then show ?thesis
    using distinct_card set_chunks_for by metis
qed

lemma length_union:
  "length (remdups (chunks_for (chunk_sets P results) d @ chunks_for (chunk_sets Q results) d))
     = card (matching_chunks P results d \<union> matching_chunks Q results d)"
  by (simp add: length_remdups_card_conv set_chunks_for del: remdups_append2)

section \<open>Exactness\<close>

text \<open>The rules that name a document, in the order in which they are applied.\<close>

definition named_by ::
  "chunk_hit list list \<Rightarrow> chunk_hit list list \<Rightarrow> uuid set \<Rightarrow> uuid set \<Rightarrow> uuid \<Rightarrow> candidate_rule list" where
  "named_by dense bm25 family identical d =
     (if d \<in> identical then [RULE_IDENTICAL_TEXT] else [])
     @ (if d \<in> family then [RULE_FILENAME_FAMILY] else [])
     @ (if matching_chunks strong_hit dense d \<noteq> {} then [RULE_COSINE_STRONG] else [])
     @ (if matching_chunks moderate_hit dense d \<noteq> {}
           \<and> 2 \<le> card (matching_chunks moderate_hit dense d \<union> matching_chunks strong_hit dense d)
        then [RULE_COSINE_MULTI] else [])
     @ (if 3 \<le> card (matching_chunks bm25_hit bm25 d) then [RULE_BM25_REPEATED] else [])"

lemma apply_rules_reasons:
  assumes "distinct identical" and "distinct family"
  shows "reasons_of (apply_rules sources identical family (chunk_sets strong_hit dense) (chunk_sets moderate_hit dense)
      (chunk_sets bm25_hit bm25) (dense_evidence sources dense)) d = named_by dense bm25 (set family) (set identical) d"
proof -
  have empty: "matching_chunks bm25_hit bm25 d = {} \<Longrightarrow> card (matching_chunks bm25_hit bm25 d) = 0"
    by simp
  show ?thesis
    unfolding apply_rules_def Let_def
    by (subst reasons_fold [where rs = "\<lambda>d. if BM25_STRONG_MIN_CHUNKS \<le> card (matching_chunks bm25_hit bm25 d)
            then [RULE_BM25_REPEATED] else []"],
        simp add: add_reason_def, simp add: add_reason_def length_chunks_for, rule distinct_set_keys,
        subst reasons_fold [where rs = "\<lambda>d. if COSINE_MULTI_MIN_CHUNKS \<le> card (matching_chunks moderate_hit dense d
            \<union> matching_chunks strong_hit dense d) then [RULE_COSINE_MULTI] else []"],
        simp add: add_reason_def, simp add: add_reason_def length_union, rule distinct_set_keys,
        subst reasons_fold [where rs = "\<lambda>d. [RULE_COSINE_STRONG]"],
        simp add: add_reason_def, simp add: add_reason_def, rule distinct_set_keys,
        subst reasons_fold [where rs = "\<lambda>d. [RULE_FILENAME_FAMILY]"],
        simp add: add_reason_def, simp add: add_reason_def, rule assms(2),
        subst reasons_fold [where rs = "\<lambda>d. [RULE_IDENTICAL_TEXT]"],
        simp add: add_reason_def, simp add: add_reason_def, rule assms(1))
      (auto simp: named_by_def dense_evidence_plain set_keys_iff BM25_STRONG_MIN_CHUNKS_def COSINE_MULTI_MIN_CHUNKS_def)
qed

lemma apply_rules_distinct:
  "distinct (map sc_document_id ev) \<Longrightarrow>
     distinct (map sc_document_id (apply_rules sources identical family strong moderate bm25 ev))"
  unfolding apply_rules_def Let_def
  by (intro distinct_fold) (auto simp: add_reason_def)


lemma set_fused_simps:
  "map sc_document_id (set_fused scores ev) = map sc_document_id ev"
  "reasons_of (set_fused scores ev) d = reasons_of ev d"
proof -
  show ids: "map sc_document_id (set_fused scores ev) = map sc_document_id ev"
    by (induction ev) (auto simp: set_fused_def split: option.splits)
  show "reasons_of (set_fused scores ev) d = reasons_of ev d"
    by (induction ev) (auto simp: set_fused_def reasons_of_def tget_def split: option.splits)
qed

lemma reasons_of_mem: "distinct (map sc_document_id ev) \<Longrightarrow> c \<in> set ev \<Longrightarrow> reasons_of ev (sc_document_id c) = sc_reasons c"
  by (simp add: reasons_of_def tget_mem)

lemma qualified_ids:
  assumes "distinct (map sc_document_id ev)"
  shows "sc_document_id ` set (filter is_qualified ev) = {d. reasons_of ev d \<noteq> []}"
proof (intro set_eqI iffI)
  fix d assume "d \<in> {d. reasons_of ev d \<noteq> []}"
  then obtain c where "tget sc_document_id d ev = Some c" "sc_reasons c \<noteq> []"
    by (auto simp: reasons_of_def split: option.splits)
  then show "d \<in> sc_document_id ` set (filter is_qualified ev)"
    using tget_Some_mem tget_Some_key by (fastforce simp: is_qualified_def)
qed (auto simp: is_qualified_def reasons_of_mem [OF assms])

text \<open>C19. Candidate discovery returns exactly the documents named by one of its rules: identical text,
  filename family, a strong cosine hit, moderate hits with at least two chunks in all, or a high
  placement for at least three chunks.  Each is returned once, with the rules that name it, ordered
  by falling fused score and then by identifier.\<close>

theorem candidates_exact:
  assumes "evaluate_candidates dense bm25 family identical sources known = Inr result"
    and "distinct family" and "distinct identical"
  shows "set (map sc_document_id result) = {d. named_by dense bm25 (set family) (set identical) d \<noteq> []}
    \<and> distinct (map sc_document_id result)
    \<and> (\<forall>c\<in>set result. sc_reasons c = named_by dense bm25 (set family) (set identical) (sc_document_id c))
    \<and> sorted (map (\<lambda>c. (- sc_fused_score c, uuid_str (sc_document_id c))) result)"
proof -
  let ?ev = "apply_rules sources identical family (chunk_sets strong_hit dense) (chunk_sets moderate_hit dense)
      (chunk_sets bm25_hit bm25) (dense_evidence sources dense)"
  obtain fused where result: "result = sort_key candidate_key (filter is_qualified (set_fused fused ?ev))"
    using assms(1) by (auto simp: evaluate_candidates_def result_simps Let_def)
  let ?fe = "set_fused fused ?ev"
  have dist: "distinct (map sc_document_id ?fe)"
    using apply_rules_distinct dense_evidence_plain by (simp add: set_fused_simps)
  have reasons: "reasons_of ?fe d = named_by dense bm25 (set family) (set identical) d" for d
    using apply_rules_reasons [OF assms(3,2)] by (simp add: set_fused_simps)
  have "distinct (map sc_document_id result)"
    unfolding result using dist by (simp add: distinct_map inj_on_def)
  moreover have "set (map sc_document_id result) = {d. named_by dense bm25 (set family) (set identical) d \<noteq> []}"
    using qualified_ids [OF dist] reasons by (simp add: result)
  moreover have "\<forall>c\<in>set result. sc_reasons c = named_by dense bm25 (set family) (set identical) (sc_document_id c)"
    using reasons_of_mem [OF dist] reasons by (auto simp: result)
  moreover have "sorted (map candidate_key result)"
    unfolding result by (rule sorted_sort_key)
  ultimately show ?thesis
    by (simp add: candidate_key_def [abs_def])
qed

section \<open>Fusion\<close>

text \<open>The contribution of one ranking: its first position of the document, if it has one.\<close>

definition rank_step :: "int \<Rightarrow> int \<Rightarrow> uuid \<Rightarrow> uuid list \<Rightarrow> rat \<Rightarrow> rat" where
  "rank_step k start d ranking s =
     (if d \<in> set ranking
      then to_double (s + to_double (1 / of_int (k + start + int (length (takeWhile (\<lambda>x. x \<noteq> d) ranking)))))
      else s)"

lemma score_add_score:
  "score_of (add_score k position d scores) x
     = (if x = d then to_double (score_of scores d + to_double (1 / of_int (k + position))) else score_of scores x)"
proof -
  have "map_of (map (\<lambda>(x, v). (x, if x = d then s else v)) scores) x
      = (if x = d then map_option (\<lambda>_. s) (map_of scores x) else map_of scores x)" for s :: rat
    by (induction scores) auto
  moreover have "d \<notin> fst ` set scores \<longleftrightarrow> map_of scores d = None"
    by (simp add: map_of_eq_None_iff)
  ultimately show ?thesis
    by (auto simp: add_score_def score_of_def Let_def map_add_def split: option.splits)
qed

lemma fuse_ranking_score:
  "score_of (fuse_ranking k position seen ranking scores) d
     = (if d \<in> seen then score_of scores d else rank_step k position d ranking (score_of scores d))"
proof (induction k position seen ranking scores rule: fuse_ranking.induct)
  case (2 k position seen x xs scores)
  then show ?case
    by (auto simp: rank_step_def score_add_score algebra_simps)
qed (simp add: rank_step_def)

text \<open>Reciprocal rank fusion gives every document the sum, in the order of the rankings and in double
  arithmetic, of one over k plus its first position in each ranking that has it; repeated
  occurrences in a ranking do not count.\<close>

theorem fusion_reference:
  assumes "0 < k"
  shows "\<exists>scores. reciprocal_rank_fusion rankings k = Inr scores
    \<and> (\<forall>d. score_of scores d = fold (rank_step k 1 d) rankings 0)"
proof -
  have "score_of (fold (fuse_ranking k 1 {}) rankings scores) d = fold (rank_step k 1 d) rankings (score_of scores d)"
    for scores d
    by (induction rankings arbitrary: scores) (simp_all add: fuse_ranking_score)
  then show ?thesis
    using assms by (auto simp: reciprocal_rank_fusion_def score_of_def)
qed


theorem fusion_reference_witness:
  "\<exists>scores. reciprocal_rank_fusion [[1, 2, 1], [2]] 60 = Inr scores \<and> score_of scores 1 = to_double (to_double (1 / 61))"
proof -
  obtain scores where r: "reciprocal_rank_fusion [[1, 2, 1], [2]] 60 = Inr scores"
    and all: "\<forall>d. score_of scores d = fold (rank_step 60 1 d) [[1, 2, 1], [2]] 0"
    using fusion_reference [of 60 "[[1, 2, 1], [2]]"] by auto
  have "fold (rank_step 60 1 1) [[1, 2, 1], [2]] 0 = to_double (to_double (1 / 61))"
    by (simp add: rank_step_def)
  with r all show ?thesis
    by metis
qed

text \<open>One incoming chunk with a strong hit on document 1 and a weak one on document 3, and document 2
  with identical text.\<close>

definition demo_hit :: "uuid \<Rightarrow> rat \<Rightarrow> int \<Rightarrow> chunk_hit" where
  "demo_hit d s r = \<lparr>hit_document_id = d, hit_source = ''active'', hit_chunk_id = ''c'', hit_score = Num s, hit_rank = r\<rparr>"

definition demo_dense_hits :: "chunk_hit list list" where
  "demo_dense_hits = [[demo_hit 3 (1 / 2) 2, demo_hit 1 (9 / 10) 1]]"

definition demo_sources :: sources where
  "demo_sources d = (if d \<le> 3 then Some ''active'' else None)"

lemma thresholds:
  "COSINE_STRONG_THRESHOLD = 7746191359077253 / 9007199254740992"
  "COSINE_MULTI_THRESHOLD = 6485183463413514 / 9007199254740992"
  by code_simp+

theorem candidates_exact_witness:
  "\<exists>result. evaluate_candidates demo_dense_hits [] [] [2] demo_sources [1, 2, 3] = Inr result
    \<and> set (map sc_document_id result) = {1, 2} \<and> distinct (map sc_document_id result)"
proof -
  have checks: "check_hits demo_sources (concat (demo_dense_hits @ [])) = Inr ()"
    "check_sources demo_sources [1, 2, 3] (referenced_ids demo_dense_hits [] [] [2]) = Inr ()"
    by (simp_all add: demo_dense_hits_def demo_hit_def demo_sources_def check_hit_def check_sources_def referenced_ids_def)
  then obtain result where run: "evaluate_candidates demo_dense_hits [] [] [2] demo_sources [1, 2, 3] = Inr result"
    by (simp add: evaluate_candidates_def Let_def reciprocal_rank_fusion_def RRF_K_def)
  have "{d. named_by demo_dense_hits [] {} {2} d \<noteq> []} = {1, 2}"
    by (auto simp: named_by_def matching_chunks_def demo_dense_hits_def demo_hit_def strong_hit_def moderate_hit_def
        score_value_def thresholds card_insert_if)
  then show ?thesis
    using candidates_exact [OF run] run by simp
qed

end
