(* ===== verification/Filenames.thy ===== *)
theory Filenames
  imports Admission Text Candidates
begin

text \<open>
  Filename families, from \<^verbatim>\<open>pdf_bridge/services/filenames.py\<close>, and the advisory name check built on
  them in \<^verbatim>\<open>services/document.py\<close> and \<^verbatim>\<open>managers/document.py\<close>.  The two similarity measures of the
  \<^verbatim>\<open>rapidfuzz\<close> package are parameters.
\<close>

section \<open>Tokens\<close>

definition TOKEN_SET_SIMILARITY_THRESHOLD :: rat where
  "TOKEN_SET_SIMILARITY_THRESHOLD = to_double (88 / 100)"

definition JARO_WINKLER_THRESHOLD :: rat where
  "JARO_WINKLER_THRESHOLD = to_double (90 / 100)"

definition MIN_FAMILY_SUBSTANTIVE_TOKENS :: nat where
  "MIN_FAMILY_SUBSTANTIVE_TOKENS = 2"

definition MONTH_TOKENS :: "string list" where
  "MONTH_TOKENS = [''jan'', ''january'', ''feb'', ''february'', ''mar'', ''march'', ''apr'', ''april'', ''may'',
     ''jun'', ''june'', ''jul'', ''july'', ''aug'', ''august'', ''sep'', ''sept'', ''september'', ''oct'',
     ''october'', ''nov'', ''november'', ''dec'', ''december'']"

definition QUARTER_TOKENS :: "string list" where
  "QUARTER_TOKENS = [''q1'', ''q2'', ''q3'', ''q4'', ''h1'', ''h2'', ''quarter'', ''quarterly'']"

definition VERSION_WORD_TOKENS :: "string list" where
  "VERSION_WORD_TOKENS = [''v'', ''ver'', ''version'', ''rev'', ''revision'', ''draft'', ''final'', ''copy'']"

definition STOP_TOKENS :: "string list" where
  "STOP_TOKENS = [''a'', ''an'', ''and'', ''de'', ''der'', ''die'', ''el'', ''la'', ''le'', ''of'', ''or'', ''the'', ''to'']"

definition is_digit :: "char \<Rightarrow> bool" where
  "is_digit c = (48 \<le> char_code c \<and> char_code c \<le> 57)"

definition is_lower_letter :: "char \<Rightarrow> bool" where
  "is_lower_letter c = (97 \<le> char_code c \<and> char_code c \<le> 122)"

definition is_version_separator :: "char \<Rightarrow> bool" where
  "is_version_separator c \<longleftrightarrow> c = CHR ''.'' \<or> c = CHR ''_'' \<or> c = CHR ''-''"

lemma length_after_digits [termination_simp]: "length (dropWhile P xs) < Suc (Suc (length xs))"
  using length_dropWhile_le [of P xs] by simp

text \<open>What is left of a text after \<^verbatim>\<open>(?:[._-]\d+)*\<close>.\<close>

fun after_groups :: "string \<Rightarrow> string" where
  "after_groups (c # d # ds) =
     (if is_version_separator c \<and> is_digit d then after_groups (dropWhile is_digit ds) else c # d # ds)"
| "after_groups s = s"

text \<open>\<^verbatim>\<open>^(?:v|ver|rev|r)?\d+(?:[._-]\d+)*[a-z]?$\<close>\<close>

definition version_number :: "string \<Rightarrow> bool" where
  "version_number s \<longleftrightarrow> s \<noteq> [] \<and> is_digit (hd s)
     \<and> (case after_groups (dropWhile is_digit s) of [] \<Rightarrow> True | [c] \<Rightarrow> is_lower_letter c | _ \<Rightarrow> False)"

definition version_pattern :: "string \<Rightarrow> bool" where
  "version_pattern s \<longleftrightarrow>
     list_ex (\<lambda>p. take (length p) s = p \<and> version_number (drop (length p) s)) [[], ''v'', ''ver'', ''rev'', ''r'']"

text \<open>\<^verbatim>\<open>^\d+$\<close> and \<^verbatim>\<open>^\d{1,4}(?:[._-]\d{1,2}){1,2}$\<close>\<close>

definition numeric_pattern :: "string \<Rightarrow> bool" where
  "numeric_pattern s \<longleftrightarrow> s \<noteq> [] \<and> list_all is_digit s"

fun date_groups :: "nat \<Rightarrow> string \<Rightarrow> bool" where
  "date_groups 0 s \<longleftrightarrow> False"
| "date_groups (Suc n) [] \<longleftrightarrow> False"
| "date_groups (Suc n) (c # cs) \<longleftrightarrow>
     is_version_separator c
     \<and> (let k = length (takeWhile is_digit cs); rest = dropWhile is_digit cs in
        1 \<le> k \<and> k \<le> 2 \<and> (rest = [] \<or> date_groups n rest))"

definition dateish_pattern :: "string \<Rightarrow> bool" where
  "dateish_pattern s \<longleftrightarrow>
     (let k = length (takeWhile is_digit s) in 1 \<le> k \<and> k \<le> 4 \<and> date_groups 2 (dropWhile is_digit s))"

definition is_variable_token :: "string \<Rightarrow> bool" where
  "is_variable_token token \<longleftrightarrow>
     token \<in> set MONTH_TOKENS \<or> token \<in> set QUARTER_TOKENS \<or> token \<in> set VERSION_WORD_TOKENS
     \<or> version_pattern token \<or> numeric_pattern token \<or> dateish_pattern token"

section \<open>Profiles\<close>

record filename_profile =
  fp_original :: string
  fp_normalized :: string
  fp_tokens :: "string list"
  fp_family_key :: "string list"
  fp_variable_tokens :: "string list"

text \<open>\<^verbatim>\<open>\w\<close> without the underscore, on the first 256 code points: the alphanumeric characters.\<close>

definition is_word_char :: "char \<Rightarrow> bool" where
  "is_word_char c = (let n = char_code c in
     (48 \<le> n \<and> n \<le> 57) \<or> (65 \<le> n \<and> n \<le> 90) \<or> (97 \<le> n \<and> n \<le> 122)
     \<or> n \<in> {170, 178, 179, 181, 185, 186, 188, 189, 190} \<or> (192 \<le> n \<and> n \<noteq> 215 \<and> n \<noteq> 247))"

text \<open>\<^verbatim>\<open>_NON_WORD.sub(" ", s)\<close>: every run of other characters becomes one space.\<close>

fun sub_non_word :: "bool \<Rightarrow> string \<Rightarrow> string" where
  "sub_non_word in_run [] = []"
| "sub_non_word in_run (c # cs) =
     (if is_word_char c then c # sub_non_word False cs
      else (if in_run then [] else '' '') @ sub_non_word True cs)"

definition remove_pdf_suffix :: "string \<Rightarrow> string" where
  "remove_pdf_suffix s =
     (if 4 \<le> length s \<and> drop (length s - 4) s = ''.pdf'' then take (length s - 4) s else s)"

definition substantive :: "string \<Rightarrow> bool" where
  "substantive token \<longleftrightarrow> \<not> is_variable_token token \<and> token \<notin> set STOP_TOKENS"

definition profile_filename :: "stdlib \<Rightarrow> string \<Rightarrow> filename_profile" where
  "profile_filename sl filename =
     (let candidate = remove_pdf_suffix (py_strip (casefold (sl_nfkc sl filename)));
          normalized = py_join '' '' (py_split (sub_non_word False candidate));
          tokens = py_split normalized
      in \<lparr>fp_original = filename, fp_normalized = normalized, fp_tokens = tokens,
          fp_family_key = sort (remdups (filter substantive tokens)),
          fp_variable_tokens = filter is_variable_token tokens\<rparr>)"

section \<open>Comparison\<close>

datatype match_kind = FilenameFamily | TokenSetSimilarity | JaroWinklerSimilarity

record filename_match =
  fm_kind :: match_kind
  fm_similarity :: rat
  fm_shared_family_tokens :: "string list"

record similarity =
  token_set_ratio :: "string \<Rightarrow> string \<Rightarrow> rat"
  jaro_winkler_similarity :: "string \<Rightarrow> string \<Rightarrow> rat"

definition shared_family :: "filename_profile \<Rightarrow> filename_profile \<Rightarrow> string list" where
  "shared_family candidate existing =
     sort (remdups (filter (\<lambda>t. t \<in> set (fp_family_key existing)) (fp_family_key candidate)))"

definition compare_filenames ::
  "similarity \<Rightarrow> filename_profile \<Rightarrow> filename_profile \<Rightarrow> filename_match option" where
  "compare_filenames sim candidate existing =
     (if fp_family_key candidate \<noteq> [] \<and> MIN_FAMILY_SUBSTANTIVE_TOKENS \<le> length (fp_family_key candidate)
         \<and> fp_family_key candidate = fp_family_key existing
      then Some \<lparr>fm_kind = FilenameFamily, fm_similarity = 1, fm_shared_family_tokens = fp_family_key candidate\<rparr>
      else if fp_normalized candidate \<noteq> [] \<and> fp_normalized existing \<noteq> [] then
        let token_set = to_double (token_set_ratio sim (fp_normalized candidate) (fp_normalized existing) / 100) in
        if TOKEN_SET_SIMILARITY_THRESHOLD \<le> token_set
        then Some \<lparr>fm_kind = TokenSetSimilarity, fm_similarity = round_digits 4 token_set,
                   fm_shared_family_tokens = shared_family candidate existing\<rparr>
        else let jaro_winkler = jaro_winkler_similarity sim (fp_normalized candidate) (fp_normalized existing) in
          if JARO_WINKLER_THRESHOLD \<le> jaro_winkler
          then Some \<lparr>fm_kind = JaroWinklerSimilarity, fm_similarity = round_digits 4 jaro_winkler,
                     fm_shared_family_tokens = shared_family candidate existing\<rparr>
          else None
      else None)"

section \<open>The advisory name check\<close>

record advisory_match =
  am_document_id :: uuid
  am_original_filename :: string
  am_state :: document_state
  am_match_type :: match_kind
  am_score :: rat

text \<open>The newest 500 live documents of the collection.  The query orders by creation time alone;
  rows of the same time keep their insertion order here.\<close>

definition advisory_documents :: "catalog \<Rightarrow> string \<Rightarrow> document list" where
  "advisory_documents c collection_key =
     take 500 (sort_key (\<lambda>d. - doc_created_at d)
       (filter (\<lambda>d. doc_collection_key d = collection_key \<and> doc_state d \<notin> set TERMINAL_DOCUMENT_STATES)
         (documents c)))"

definition advisory_match :: "stdlib \<Rightarrow> similarity \<Rightarrow> filename_profile \<Rightarrow> document \<Rightarrow> advisory_match option" where
  "advisory_match sl sim incoming d =
     map_option (\<lambda>m. \<lparr>am_document_id = doc_id d, am_original_filename = doc_original_filename d,
         am_state = doc_state d, am_match_type = fm_kind m, am_score = fm_similarity m\<rparr>)
       (compare_filenames sim incoming (profile_filename sl (doc_original_filename d)))"

definition filename_advisory ::
  "stdlib \<Rightarrow> similarity \<Rightarrow> collection_definition list \<Rightarrow> string \<Rightarrow> string \<Rightarrow> nat \<Rightarrow> catalog
     \<Rightarrow> admission_error + string \<times> advisory_match list" where
  "filename_advisory sl sim definitions collection_key filename limit c =
     rbind (admission_of (configured_collection definitions collection_key)) (\<lambda>_.
     rbind (normalize_filename sl filename) (\<lambda>normalized.
       let incoming = profile_filename sl filename;
           matches = List.map_filter (advisory_match sl sim incoming) (advisory_documents c collection_key)
       in Inr (normalized,
            take limit (sort_key (\<lambda>m. (- am_score m, casefold (am_original_filename m))) matches))))"

datatype name_check_kind = EXACT_NAME | FILENAME_FAMILY

record name_check_match =
  nc_kind :: name_check_kind
  nc_document_id :: uuid
  nc_original_filename :: string
  nc_state :: document_state
  nc_similarity :: rat

definition name_check_match_of :: "stdlib \<Rightarrow> string \<Rightarrow> advisory_match \<Rightarrow> name_check_match" where
  "name_check_match_of sl filename m =
     (let exact = (fp_normalized (profile_filename sl (am_original_filename m))
                   = fp_normalized (profile_filename sl filename))
      in \<lparr>nc_kind = (if exact then EXACT_NAME else FILENAME_FAMILY), nc_document_id = am_document_id m,
          nc_original_filename = am_original_filename m, nc_state = am_state m,
          nc_similarity = (if exact then 1 else am_score m)\<rparr>)"

definition name_check ::
  "stdlib \<Rightarrow> similarity \<Rightarrow> collection_definition list \<Rightarrow> string \<Rightarrow> string \<Rightarrow> catalog
     \<Rightarrow> admission_error + string \<times> name_check_match list" where
  "name_check sl sim definitions collection_key filename c =
     rbind (filename_advisory sl sim definitions collection_key filename 100 c) (\<lambda>(normalized, matches).
       Inr (normalized, map (name_check_match_of sl filename) matches))"


section \<open>Families\<close>

lemma family_key_set: "set (fp_family_key (profile_filename sl f)) = {t \<in> set (fp_tokens (profile_filename sl f)). substantive t}"
  by (auto simp: profile_filename_def Let_def)

lemma family_key_eq_iff:
  "fp_family_key (profile_filename sl f) = fp_family_key (profile_filename sl g)
     \<longleftrightarrow> {t \<in> set (fp_tokens (profile_filename sl f)). substantive t} = {t \<in> set (fp_tokens (profile_filename sl g)). substantive t}"
proof -
  have "fp_family_key (profile_filename sl x) = sorted_list_of_set {t \<in> set (fp_tokens (profile_filename sl x)). substantive t}" for x
    by (simp add: profile_filename_def Let_def sorted_list_of_set_sort_remdups [symmetric])
  then show ?thesis
    by (metis family_key_set)
qed

lemma length_family_key:
  "length (fp_family_key (profile_filename sl f)) = card {t \<in> set (fp_tokens (profile_filename sl f)). substantive t}"
proof -
  have "distinct (fp_family_key (profile_filename sl f))"
    by (simp add: profile_filename_def Let_def)
  then show ?thesis
    by (metis distinct_card family_key_set)
qed

text \<open>Two filenames are of one family when they have the same substantive tokens, at least two.\<close>

definition same_family :: "stdlib \<Rightarrow> string \<Rightarrow> string \<Rightarrow> bool" where
  "same_family sl f g \<longleftrightarrow>
     {t \<in> set (fp_tokens (profile_filename sl f)). substantive t} = {t \<in> set (fp_tokens (profile_filename sl g)). substantive t}
     \<and> 2 \<le> card {t \<in> set (fp_tokens (profile_filename sl f)). substantive t}"

lemma compare_same_family:
  assumes "same_family sl f g"
  shows "\<exists>m. compare_filenames sim (profile_filename sl f) (profile_filename sl g) = Some m \<and> fm_similarity m = 1
    \<and> fm_kind m = FilenameFamily"
proof -
  have "fp_family_key (profile_filename sl f) = fp_family_key (profile_filename sl g)"
    and two: "2 \<le> length (fp_family_key (profile_filename sl f))"
    using assms unfolding same_family_def family_key_eq_iff length_family_key by blast+
  moreover have "fp_family_key (profile_filename sl f) \<noteq> []"
    using two by auto
  ultimately show ?thesis
    by (simp add: compare_filenames_def MIN_FAMILY_SUBSTANTIVE_TOKENS_def)
qed

definition live_in :: "catalog \<Rightarrow> string \<Rightarrow> document list" where
  "live_in c collection_key =
     filter (\<lambda>d. doc_collection_key d = collection_key \<and> doc_state d \<notin> set TERMINAL_DOCUMENT_STATES) (documents c)"

lemma set_advisory_documents: "set (advisory_documents c key) \<subseteq> set (live_in c key)"
  unfolding advisory_documents_def live_in_def by (rule order_trans [OF set_take_subset]) simp

lemma advisory_documents_all: "length (live_in c key) \<le> 500 \<Longrightarrow> set (advisory_documents c key) = set (live_in c key)"
  by (simp add: advisory_documents_def live_in_def)

lemma name_checkE:
  assumes "name_check sl sim definitions key filename c = Inr (normalized, items)"
  obtains matches where "items = map (name_check_match_of sl filename) (take 100 matches)"
    and "set matches = set (List.map_filter (advisory_match sl sim (profile_filename sl filename)) (advisory_documents c key))"
proof -
  let ?ms = "List.map_filter (advisory_match sl sim (profile_filename sl filename)) (advisory_documents c key)"
  have "items = map (name_check_match_of sl filename)
      (take 100 (sort_key (\<lambda>m. (- am_score m, casefold (am_original_filename m))) ?ms))"
    using assms by (auto simp: name_check_def filename_advisory_def result_simps Let_def)
  then show ?thesis
    by (rule that) simp
qed

lemma set_map_filter_iff: "y \<in> set (List.map_filter f xs) \<longleftrightarrow> (\<exists>x\<in>set xs. f x = Some y)"
  by (induction xs) (auto simp: map_filter_simps split: option.splits)

text \<open>The advisory name check reports only live documents of the collection that match, at most a
  hundred, and while the collection has at most five hundred live documents and a hundred matches
  it reports, with similarity one, every live document whose filename has the same substantive
  tokens (at least two) whatever their order and whatever months, dates, quarters, versions,
  counters and stop words the names carry.\<close>

theorem name_check_reports_family:
  assumes "name_check sl sim definitions key filename c = Inr (normalized, items)"
  shows "length items \<le> 100
    \<and> (\<forall>item\<in>set items. \<exists>d\<in>set (documents c). nc_document_id item = doc_id d \<and> nc_state item = doc_state d
        \<and> doc_collection_key d = key \<and> doc_state d \<notin> {REJECTED, CANCELLED, DELETED})
    \<and> (length (live_in c key) \<le> 500 \<and> length items < 100 \<longrightarrow>
        (\<forall>d\<in>set (live_in c key). same_family sl filename (doc_original_filename d)
          \<longrightarrow> (\<exists>item\<in>set items. nc_document_id item = doc_id d \<and> nc_similarity item = 1)))"
proof -
  obtain matches where items: "items = map (name_check_match_of sl filename) (take 100 matches)"
    and ms: "set matches = set (List.map_filter (advisory_match sl sim (profile_filename sl filename)) (advisory_documents c key))"
    by (rule name_checkE [OF assms])
  have mem: "m \<in> set matches \<longleftrightarrow> (\<exists>d\<in>set (advisory_documents c key). advisory_match sl sim (profile_filename sl filename) d = Some m)" for m
    by (simp add: ms set_map_filter_iff)
  have listed: "\<exists>d\<in>set (documents c). nc_document_id item = doc_id d \<and> nc_state item = doc_state d
        \<and> doc_collection_key d = key \<and> doc_state d \<notin> {REJECTED, CANCELLED, DELETED}" if item: "item \<in> set items" for item
  proof -
    obtain m where "m \<in> set matches" "item = name_check_match_of sl filename m"
      using item set_take_subset [of 100 matches] by (auto simp: items)
    moreover then obtain d where "d \<in> set (advisory_documents c key)"
      "advisory_match sl sim (profile_filename sl filename) d = Some m"
      using mem by blast
    moreover have "d \<in> set (live_in c key)" if "d \<in> set (advisory_documents c key)" for d
      using that set_advisory_documents by blast
    ultimately show ?thesis
      by (intro bexI [of _ d]) (auto simp: name_check_match_of_def advisory_match_def live_in_def TERMINAL_DOCUMENT_STATES_def Let_def)
  qed
  have family: "\<exists>item\<in>set items. nc_document_id item = doc_id d \<and> nc_similarity item = 1"
    if fam: "length (live_in c key) \<le> 500" "length items < 100" "d \<in> set (live_in c key)"
      "same_family sl filename (doc_original_filename d)" for d
  proof -
    obtain m where "advisory_match sl sim (profile_filename sl filename) d = Some m" "am_score m = 1" "am_document_id m = doc_id d"
      using compare_same_family [OF fam(4), of sim] by (auto simp: advisory_match_def)
    moreover have "d \<in> set (advisory_documents c key)"
      using fam advisory_documents_all by blast
    moreover have "items = map (name_check_match_of sl filename) matches"
      using fam(2) by (simp add: items)
    ultimately show ?thesis
      using mem by (auto simp: name_check_match_of_def Let_def intro!: bexI [of _ m])
  qed
  show ?thesis
    using listed family by (auto simp: items)
qed


text \<open>A catalog with one document, whose name differs from the incoming one in order, quarter and year.\<close>

definition advisory_catalog :: catalog where
  "advisory_catalog = (empty_catalog (\<lambda>n. n))\<lparr>documents := [\<lparr>doc_id = 1, doc_collection_key = ''reports'',
      doc_original_filename = ''Sales_Report-Q1.pdf'', doc_normalized_filename = [], doc_content_type = [],
      doc_size_bytes = 1, doc_sha256 = [], doc_storage_key = Some ''k'', doc_state = READY,
      doc_terminal_disposition = None, doc_scan_state = SCAN_CLEAN, doc_scan_engine = None, doc_scan_signature = None,
      doc_scanned_at = None, doc_created_by = [], doc_created_at = 0, doc_ready_at = None, doc_rejected_at = None,
      doc_cancelled_at = None, doc_deleted_at = None, doc_failure_code = None, doc_failure_message = None,
      doc_failure_retryable = False, doc_replaced_by = None\<rparr>]\<rparr>"

definition latin_stdlib :: stdlib where
  "latin_stdlib = \<lparr>sl_sha256 = (\<lambda>s. s), sl_uuid5 = (\<lambda>u s. u), sl_float_repr = (\<lambda>_. ''0.0''),
     sl_unit_norm = (\<lambda>_. True), sl_nfkc = (\<lambda>s. s)\<rparr>"

definition no_similarity :: similarity where
  "no_similarity = \<lparr>token_set_ratio = (\<lambda>a b. 0), jaro_winkler_similarity = (\<lambda>a b. 0)\<rparr>"

definition reports_only :: "collection_definition list" where
  "reports_only = [\<lparr>cd_key = ''reports'', cd_display_name = ''R'', cd_description = ''R'', cd_audience = ''staff'',
     cd_qdrant_collection_name = ''reports_v1'', cd_enabled = True\<rparr>]"

theorem name_check_reports_family_witness:
  "\<exists>normalized items. name_check latin_stdlib no_similarity reports_only ''reports'' ''the report, sales 2024.pdf'' advisory_catalog
      = Inr (normalized, items) \<and> (\<exists>item\<in>set items. nc_document_id item = 1 \<and> nc_similarity item = 1)"
proof -
  let ?run = "name_check latin_stdlib no_similarity reports_only ''reports'' ''the report, sales 2024.pdf'' advisory_catalog"
  have "\<not> isl (configured_collection reports_only ''reports'')" "\<not> isl (normalize_filename latin_stdlib ''the report, sales 2024.pdf'')"
    by code_simp+
  then obtain cd nm where "configured_collection reports_only ''reports'' = Inr cd"
    "normalize_filename latin_stdlib ''the report, sales 2024.pdf'' = Inr nm"
    by (metis isl_def sum.collapse(2))
  then obtain normalized items where run: "?run = Inr (normalized, items)"
    by (simp add: name_check_def filename_advisory_def admission_of_def Let_def)
  have tokens: "fp_tokens (profile_filename latin_stdlib ''the report, sales 2024.pdf'') = [''the'', ''report'', ''sales'', ''2024'']"
    "fp_tokens (profile_filename latin_stdlib ''Sales_Report-Q1.pdf'') = [''sales'', ''report'', ''q1'']"
    "map substantive [''the'', ''report'', ''sales'', ''2024'', ''q1''] = [False, True, True, False, False]"
    by code_simp+
  have "{t \<in> set [''the'', ''report'', ''sales'', ''2024'']. substantive t} = {''sales'', ''report''}"
    "{t \<in> set [''sales'', ''report'', ''q1'']. substantive t} = {''sales'', ''report''}"
    using tokens(3) by auto
  then have "same_family latin_stdlib ''the report, sales 2024.pdf'' ''Sales_Report-Q1.pdf''"
    unfolding same_family_def tokens by simp
  then have "\<forall>d\<in>set (live_in advisory_catalog ''reports''). same_family latin_stdlib ''the report, sales 2024.pdf'' (doc_original_filename d)"
    by (simp add: live_in_def advisory_catalog_def)
  moreover have few: "length items < 100"
  proof -
    have "length (List.map_filter f xs) \<le> length xs" for f :: "document \<Rightarrow> advisory_match option" and xs
      by (induction xs) (auto simp: map_filter_simps split: option.splits)
    moreover have "length (advisory_documents advisory_catalog ''reports'') = 1"
      by code_simp
    ultimately have "length (List.map_filter (advisory_match latin_stdlib no_similarity
        (profile_filename latin_stdlib ''the report, sales 2024.pdf'')) (advisory_documents advisory_catalog ''reports'')) \<le> 1"
      by metis
    then show ?thesis
      using run by (auto simp: name_check_def filename_advisory_def result_simps Let_def)
  qed
  moreover have "length (live_in advisory_catalog ''reports'') = 1" "map doc_id (live_in advisory_catalog ''reports'') = [1]"
    by code_simp+
  ultimately show ?thesis
    using name_check_reports_family [OF run] run few by fastforce
qed

end
