(* ===== verification/Catalog_Reads.thy ===== *)
theory Catalog_Reads
  imports Admission Worker Text
begin

text \<open>
  Read-only catalog queries and cursor pagination, from \<^verbatim>\<open>pdf_bridge/services/catalog.py\<close> and the
  coordinators of \<^verbatim>\<open>pdf_bridge/managers/catalog.py\<close>.  Queries with \<^verbatim>\<open>ORDER BY\<close> and \<^verbatim>\<open>LIMIT\<close> are sorts of the
  table; \<^verbatim>\<open>base64\<close>, \<^verbatim>\<open>json.loads\<close>, ISO timestamps and \<^verbatim>\<open>uuid.UUID\<close> are the parameter \<open>cursor_lib\<close>.
\<close>

section \<open>Cursors\<close>

record cursor_lib =
  cl_b64encode :: "string \<Rightarrow> string"
  cl_b64decode :: "string \<Rightarrow> string option"
  cl_loads :: "string \<Rightarrow> json option"
  cl_isoformat :: "timestamp \<Rightarrow> string"
  cl_fromisoformat :: "string \<Rightarrow> timestamp option"
  cl_uuid :: "string \<Rightarrow> uuid option"

record 'r cursor_page =
  cp_items :: "'r list"
  cp_next :: "string option"

definition invalid_cursor :: lifecycle_error where
  "invalid_cursor = LifecycleError ''invalid_cursor'' 400 False"

definition rstrip_char :: "char \<Rightarrow> string \<Rightarrow> string" where
  "rstrip_char c s = rev (dropWhile (\<lambda>x. x = c) (rev s))"

definition pad_base64 :: "string \<Rightarrow> string" where
  "pad_base64 s = s @ replicate (nat ((- int (length s)) mod 4)) (CHR ''='')"

definition cursor_payload :: "string \<Rightarrow> string \<Rightarrow> json" where
  "cursor_payload t identifier = JObj [(''id'', JStr identifier), (''t'', JStr t), (''v'', JInt 1)]"

definition encode_cursor :: "cursor_lib \<Rightarrow> timestamp \<Rightarrow> string \<Rightarrow> string" where
  "encode_cursor lib timestamp identifier =
     rstrip_char (CHR ''='') (cl_b64encode lib (dumps (cursor_payload (cl_isoformat lib timestamp) identifier)))"

text \<open>\<^verbatim>\<open>value == 1\<close> for a parsed JSON value.\<close>

definition is_one :: "json \<Rightarrow> bool" where
  "is_one j \<longleftrightarrow> j = JInt 1 \<or> j = JBool True \<or> j = JFloat ''1.0''"

definition replace_Z :: "string \<Rightarrow> string" where
  "replace_Z s = concat (map (\<lambda>c. if c = CHR ''Z'' then ''+00:00'' else [c]) s)"

text \<open>\<^verbatim>\<open>str(value)\<close> of a scalar; the texts of lists and objects are no timestamps and no identifiers.\<close>

definition scalar_text :: "json \<Rightarrow> string option" where
  "scalar_text j = (case j of JStr s \<Rightarrow> Some s | JInt i \<Rightarrow> Some (int_str i) | JFloat s \<Rightarrow> Some s
     | JBool b \<Rightarrow> Some (if b then ''True'' else ''False'') | JNull \<Rightarrow> Some ''None'' | _ \<Rightarrow> None)"

definition is_decimal :: "string \<Rightarrow> bool" where
  "is_decimal s \<longleftrightarrow> s \<noteq> [] \<and> list_all (\<lambda>c. 48 \<le> char_code c \<and> char_code c \<le> 57) s"

definition parse_cursor_payload ::
  "cursor_lib \<Rightarrow> bool \<Rightarrow> json \<Rightarrow> (timestamp \<times> string) option" where
  "parse_cursor_payload lib uuid_identifier payload =
     (case payload of
        JObj members \<Rightarrow>
          if set (map fst members) \<noteq> {''v'', ''t'', ''id''} then None
          else if \<not> (case map_of members ''v'' of Some v \<Rightarrow> is_one v | None \<Rightarrow> False) then None
          else (case (Option.bind (map_of members ''t'') scalar_text, Option.bind (map_of members ''id'') scalar_text) of
            (Some t, Some identifier) \<Rightarrow>
              (case cl_fromisoformat lib (replace_Z t) of
                 None \<Rightarrow> None
               | Some timestamp \<Rightarrow>
                   if uuid_identifier
                   then map_option (\<lambda>u. (timestamp, uuid_str u)) (cl_uuid lib identifier)
                   else if is_decimal identifier then Some (timestamp, identifier) else None)
          | _ \<Rightarrow> None)
      | _ \<Rightarrow> None)"

definition decode_cursor ::
  "cursor_lib \<Rightarrow> string \<Rightarrow> bool \<Rightarrow> lifecycle_error + timestamp \<times> string" where
  "decode_cursor lib cursor uuid_identifier =
     (if cursor = [] \<or> length cursor > 500 then Inl invalid_cursor
      else case Option.bind (cl_b64decode lib (pad_base64 cursor)) (cl_loads lib) of
        None \<Rightarrow> Inl invalid_cursor
      | Some payload \<Rightarrow>
          (case parse_cursor_payload lib uuid_identifier payload of
             None \<Rightarrow> Inl invalid_cursor
           | Some r \<Rightarrow> Inr r))"

definition validate_limit :: "int \<Rightarrow> lifecycle_error + unit" where
  "validate_limit limit =
     (if 1 \<le> limit \<and> limit \<le> 100 then Inr () else Inl (LifecycleError ''invalid_limit'' 400 False))"

section \<open>Pages\<close>

text \<open>\<^verbatim>\<open>LIMIT limit + 1\<close>, the cut to \<open>limit\<close> rows and the cursor of the last row kept.\<close>

definition cut_page :: "('r \<Rightarrow> string) \<Rightarrow> nat \<Rightarrow> 'r list \<Rightarrow> 'r cursor_page" where
  "cut_page enc limit rows =
     (let items = take (limit + 1) rows; has_more = length items > limit; kept = take limit items
      in \<lparr>cp_items = kept, cp_next = (if has_more \<and> kept \<noteq> [] then Some (enc (last kept)) else None)\<rparr>)"

text \<open>Rows after a position in descending order of a key, and the position a cursor stands for.\<close>

definition rows_below :: "('r \<Rightarrow> 'k::linorder) \<Rightarrow> 'k option \<Rightarrow> 'r list \<Rightarrow> 'r list" where
  "rows_below key position rows =
     rev (sort_key key (filter (\<lambda>r. case position of None \<Rightarrow> True | Some k \<Rightarrow> key r < k) rows))"

definition uuid_position :: "cursor_lib \<Rightarrow> string option \<Rightarrow> lifecycle_error + (timestamp \<times> uuid) option" where
  "uuid_position lib cursor =
     (case cursor of
        None \<Rightarrow> Inr None
      | Some [] \<Rightarrow> Inr None
      | Some (ch # rest) \<Rightarrow>
          rbind (decode_cursor lib (ch # rest) True) (\<lambda>(timestamp, identifier).
            case cl_uuid lib identifier of
              None \<Rightarrow> Inl (ValueError ''badly formed hexadecimal UUID string'')
            | Some u \<Rightarrow> Inr (Some (timestamp, u))))"

definition document_key :: "document \<Rightarrow> timestamp \<times> uuid" where
  "document_key d = (doc_created_at d, doc_id d)"

definition listed_documents :: "catalog \<Rightarrow> string \<Rightarrow> document_state option \<Rightarrow> document list" where
  "listed_documents c collection_key state =
     filter (\<lambda>d. doc_collection_key d = collection_key \<and> doc_state d \<notin> set TERMINAL_DOCUMENT_STATES
       \<and> (case state of None \<Rightarrow> True | Some s \<Rightarrow> doc_state d = s)) (documents c)"

definition list_documents ::
  "cursor_lib \<Rightarrow> string \<Rightarrow> document_state option \<Rightarrow> int \<Rightarrow> catalog \<Rightarrow> string option
     \<Rightarrow> lifecycle_error + document cursor_page" where
  "list_documents lib collection_key state limit c cursor =
     rbind (validate_limit limit) (\<lambda>_.
       if (case state of None \<Rightarrow> False | Some s \<Rightarrow> s \<in> set TERMINAL_DOCUMENT_STATES)
       then Inr \<lparr>cp_items = [], cp_next = None\<rparr>
       else rbind (uuid_position lib cursor) (\<lambda>position.
         Inr (cut_page (\<lambda>d. encode_cursor lib (doc_created_at d) (uuid_str (doc_id d))) (nat limit)
           (rows_below document_key position (listed_documents c collection_key state)))))"

definition tombstone_key :: "tombstone \<Rightarrow> timestamp \<times> uuid" where
  "tombstone_key t = (tomb_occurred_at t, tomb_id t)"

definition listed_tombstones ::
  "catalog \<Rightarrow> string list \<Rightarrow> string option \<Rightarrow> terminal_disposition option \<Rightarrow> tombstone list" where
  "listed_tombstones c visible_keys collection_key disposition =
     filter (\<lambda>t. tomb_collection_key t \<in> set visible_keys
       \<and> (case collection_key of None \<Rightarrow> True | Some k \<Rightarrow> tomb_collection_key t = k)
       \<and> (case disposition of None \<Rightarrow> True | Some x \<Rightarrow> tomb_disposition t = x)) (tombstones c)"

definition list_history ::
  "cursor_lib \<Rightarrow> string list \<Rightarrow> string option \<Rightarrow> terminal_disposition option \<Rightarrow> int \<Rightarrow> catalog \<Rightarrow> string option
     \<Rightarrow> lifecycle_error + tombstone cursor_page" where
  "list_history lib visible_keys collection_key disposition limit c cursor =
     rbind (validate_limit limit) (\<lambda>_.
       if visible_keys = [] then Inl (LifecycleError ''collection_not_found'' 404 False)
       else rbind (uuid_position lib cursor) (\<lambda>position.
         Inr (cut_page (\<lambda>t. encode_cursor lib (tomb_occurred_at t) (uuid_str (tomb_id t))) (nat limit)
           (rows_below tombstone_key position (listed_tombstones c visible_keys collection_key disposition)))))"

section \<open>Documents, operations and artifacts\<close>

definition count_state :: "catalog \<Rightarrow> string \<Rightarrow> document_state \<Rightarrow> nat" where
  "count_state c key s = length (filter (\<lambda>d. doc_collection_key d = key \<and> doc_state d = s) (documents c))"

definition list_collections ::
  "catalog \<Rightarrow> collection_definition list \<Rightarrow> (collection_definition \<times> (document_state \<Rightarrow> nat)) list" where
  "list_collections c definitions =
     map (\<lambda>d. (d, count_state c (cd_key d))) (filter cd_enabled definitions)"

definition get_collection ::
  "catalog \<Rightarrow> collection_definition list \<Rightarrow> string
     \<Rightarrow> lifecycle_error + collection_definition \<times> (document_state \<Rightarrow> nat)" where
  "get_collection c definitions key =
     rbind (configured_collection definitions key) (\<lambda>d. Inr (hd (list_collections c [d])))"

record document_aggregate =
  ag_document :: document
  ag_operation :: "work_operation option"
  ag_revision :: "prepared_revision option"
  ag_decision :: "decision option"
  ag_publication :: "publication_record option"
  ag_deletion :: "deletion_progress option"

text \<open>The operations of the document, and the latest one that replaces it.\<close>

definition aggregate_operations :: "catalog \<Rightarrow> uuid \<Rightarrow> work_operation list" where
  "aggregate_operations c did =
     (let own = filter (\<lambda>w. op_document_id w = did) (operations c);
          replacing = max_by (\<lambda>w. (op_created_at w, op_id w))
            (filter (\<lambda>w. op_replacement_target w = Some did) (operations c))
      in case replacing of
           None \<Rightarrow> own
         | Some w \<Rightarrow> if list_all (\<lambda>x. op_id x \<noteq> op_id w) own then own @ [w] else own)"

definition document_aggregate :: "catalog \<Rightarrow> uuid \<Rightarrow> lifecycle_error + document_aggregate" where
  "document_aggregate c did =
     (case get_document c did of
        None \<Rightarrow> Inl (LifecycleError ''document_not_found'' 404 False)
      | Some d \<Rightarrow>
          let revision = max_by rev_number
                (filter (\<lambda>r. rev_document_id r = did \<and> rev_status r = REV_SEALED) (revisions c))
          in Inr \<lparr>ag_document = d,
                ag_operation = max_by (\<lambda>w. (op_created_at w, uuid_str (op_id w))) (aggregate_operations c did),
                ag_revision = revision,
                ag_decision = Option.bind revision (\<lambda>r. decision_of c (rev_id r)),
                ag_publication = Option.bind revision (\<lambda>r. publication_of c (rev_id r)),
                ag_deletion = deletion_of c did\<rparr>)"

definition content_gate :: "document \<Rightarrow> lifecycle_error + unit" where
  "content_gate d =
     (if can_serve_prepared_content d then Inr ()
      else if doc_state d \<in> set TERMINAL_DOCUMENT_STATES \<or> doc_state d \<in> {DELETING, DELETE_FAILED}
      then Inl (LifecycleError ''content_purged'' 410 False)
      else Inl (conflict ''artifact_not_ready''))"

definition markdown_record :: "catalog \<Rightarrow> uuid \<Rightarrow> lifecycle_error + prepared_revision \<times> string" where
  "markdown_record c did =
     (case get_document c did of
        None \<Rightarrow> Inl (LifecycleError ''document_not_found'' 404 False)
      | Some d \<Rightarrow>
          rbind (content_gate d) (\<lambda>_.
            case latest_sealed_revision c did of
              None \<Rightarrow> Inl (conflict ''artifact_not_ready'')
            | Some r \<Rightarrow>
                let pages = filter (\<lambda>p. pp_revision_id p = rev_id r) (prepared_pages c) in
                if pages = [] then Inl (conflict ''artifact_not_ready'')
                else Inr (r, py_join [LF, LF] (map (\<lambda>p. ''<!-- page:'' @ int_str (pp_page_number p) @ '' -->'' @ [LF, LF]
                       @ pp_markdown p) (sort_key pp_page_number pages)))))"

definition chunk_cursor_payload :: "uuid \<Rightarrow> int \<Rightarrow> json" where
  "chunk_cursor_payload rid index =
     JObj [(''chunk_index'', JInt index), (''revision_id'', JStr (uuid_str rid)), (''v'', JInt 1)]"

definition encode_chunk_cursor :: "cursor_lib \<Rightarrow> uuid \<Rightarrow> int \<Rightarrow> string" where
  "encode_chunk_cursor lib rid index =
     rstrip_char (CHR ''='') (cl_b64encode lib (dumps (chunk_cursor_payload rid index)))"

text \<open>The index after which the page starts.  The value of \<^verbatim>\<open>chunk_index\<close> passes through \<^verbatim>\<open>int()\<close>; on
  numbers that is their integral part, which the parameter \<open>int_of\<close> takes of the other scalars.\<close>

definition chunk_position ::
  "cursor_lib \<Rightarrow> (json \<Rightarrow> int option) \<Rightarrow> uuid \<Rightarrow> string option \<Rightarrow> lifecycle_error + int" where
  "chunk_position lib int_of rid cursor =
     (case cursor of
        None \<Rightarrow> Inr (- 1)
      | Some [] \<Rightarrow> Inr (- 1)
      | Some (ch # rest) \<Rightarrow>
          (case Option.bind (cl_b64decode lib (pad_base64 (ch # rest))) (cl_loads lib) of
             Some (JObj members) \<Rightarrow>
               if set (map fst members) \<noteq> {''v'', ''revision_id'', ''chunk_index''}
                  \<or> \<not> (case map_of members ''v'' of Some v \<Rightarrow> is_one v | None \<Rightarrow> False)
                  \<or> Option.bind (Option.bind (map_of members ''revision_id'') scalar_text) (cl_uuid lib) \<noteq> Some rid
               then Inl invalid_cursor
               else (case Option.bind (map_of members ''chunk_index'')
                       (\<lambda>j. case j of JInt i \<Rightarrow> Some i | _ \<Rightarrow> int_of j) of
                  None \<Rightarrow> Inl invalid_cursor
                | Some i \<Rightarrow> if i < 0 then Inl invalid_cursor else Inr i)
           | _ \<Rightarrow> Inl invalid_cursor))"

definition list_chunks ::
  "cursor_lib \<Rightarrow> (json \<Rightarrow> int option) \<Rightarrow> uuid \<Rightarrow> int \<Rightarrow> catalog \<Rightarrow> string option
     \<Rightarrow> lifecycle_error + prepared_chunk cursor_page" where
  "list_chunks lib int_of did limit c cursor =
     rbind (validate_limit limit) (\<lambda>_.
       case get_document c did of
         None \<Rightarrow> Inl (LifecycleError ''document_not_found'' 404 False)
       | Some d \<Rightarrow>
           rbind (content_gate d) (\<lambda>_.
             case latest_sealed_revision c did of
               None \<Rightarrow> Inl (conflict ''artifact_not_ready'')
             | Some r \<Rightarrow>
                 rbind (chunk_position lib int_of (rev_id r) cursor) (\<lambda>after_index.
                   Inr (cut_page (\<lambda>k. encode_chunk_cursor lib (rev_id r) (chk_index k)) (nat limit)
                     (sort_key chk_index (filter (\<lambda>k. chk_revision_id k = rev_id r \<and> chk_index k > after_index)
                       (chunks c)))))))"

definition preflight_revision :: "catalog \<Rightarrow> uuid \<Rightarrow> lifecycle_error + prepared_revision" where
  "preflight_revision c did =
     (case get_document c did of
        None \<Rightarrow> Inl (LifecycleError ''document_not_found'' 404 False)
      | Some d \<Rightarrow>
          if doc_state d \<in> set TERMINAL_DOCUMENT_STATES \<or> doc_state d \<in> {DELETING, DELETE_FAILED}
          then Inl (LifecycleError ''content_purged'' 410 False)
          else (case latest_sealed_revision c did of
            None \<Rightarrow> Inl (conflict ''artifact_not_ready'')
          | Some r \<Rightarrow> Inr r))"

definition catalog_get_operation :: "catalog \<Rightarrow> uuid \<Rightarrow> lifecycle_error + work_operation" where
  "catalog_get_operation c oid =
     (case tget op_id oid (operations c) of
        None \<Rightarrow> Inl (LifecycleError ''operation_not_found'' 404 False)
      | Some w \<Rightarrow> Inr w)"

definition queue_position :: "catalog \<Rightarrow> work_operation \<Rightarrow> nat option" where
  "queue_position c w =
     (if op_state w \<noteq> OP_QUEUED then None
      else Some (length (filter (\<lambda>x. op_state x = op_state w
        \<and> (op_priority x < op_priority w
           \<or> (op_priority x = op_priority w
              \<and> (op_created_at x < op_created_at w
                 \<or> (op_created_at x = op_created_at w \<and> op_id x < op_id w))))) (operations c)) + 1))"


section \<open>Coordinators\<close>

definition manager_encode_cursor :: "cursor_lib \<Rightarrow> (string \<times> json) list \<Rightarrow> string" where
  "manager_encode_cursor lib members =
     rstrip_char (CHR ''='') (cl_b64encode lib (dumps (JObj ((''v'', JInt 1) # members))))"

definition manager_decode_cursor ::
  "cursor_lib \<Rightarrow> string set \<Rightarrow> string \<Rightarrow> lifecycle_error + (string \<rightharpoonup> json)" where
  "manager_decode_cursor lib names cursor =
     (if cursor = [] \<or> length cursor > 2048 then Inl invalid_cursor
      else case Option.bind (cl_b64decode lib (pad_base64 cursor)) (cl_loads lib) of
        Some (JObj members) \<Rightarrow>
          if set (map fst members) \<noteq> insert ''v'' names
             \<or> \<not> (case map_of members ''v'' of Some v \<Rightarrow> is_one v | None \<Rightarrow> False)
          then Inl invalid_cursor else Inr (map_of members)
      | _ \<Rightarrow> Inl invalid_cursor)"

text \<open>A slice of a list that is paged by position.\<close>

definition slice_page :: "('r \<Rightarrow> string) \<Rightarrow> nat \<Rightarrow> nat \<Rightarrow> 'r list \<Rightarrow> 'r cursor_page" where
  "slice_page enc start limit rows =
     (let selected = take limit (drop start rows); has_more = start + length selected < length rows
      in \<lparr>cp_items = selected,
          cp_next = (if has_more \<and> selected \<noteq> [] then Some (enc (last selected)) else None)\<rparr>)"

fun last_index :: "('r \<Rightarrow> bool) \<Rightarrow> 'r list \<Rightarrow> nat option" where
  "last_index P [] = None"
| "last_index P (x # xs) = (case last_index P xs of Some i \<Rightarrow> Some (Suc i) | None \<Rightarrow> if P x then Some 0 else None)"

definition page_collections ::
  "cursor_lib \<Rightarrow> collection_definition list \<Rightarrow> int \<Rightarrow> catalog \<Rightarrow> string option
     \<Rightarrow> lifecycle_error + (collection_definition \<times> (document_state \<Rightarrow> nat)) cursor_page" where
  "page_collections lib definitions limit c cursor =
     rbind (validate_limit limit) (\<lambda>_.
       let records = list_collections c definitions in
       rbind (case cursor of
           None \<Rightarrow> Inr 0
         | Some s \<Rightarrow>
             rbind (manager_decode_cursor lib {''kind'', ''after''} s) (\<lambda>payload.
               case (payload ''kind'', payload ''after'') of
                 (Some kind, Some (JStr after)) \<Rightarrow>
                   if kind \<noteq> JStr ''collections'' then Inl invalid_cursor
                   else (case last_index (\<lambda>r. cd_key (fst r) = after) records of
                     None \<Rightarrow> Inl invalid_cursor
                   | Some i \<Rightarrow> Inr (i + 1))
               | _ \<Rightarrow> Inl invalid_cursor)) (\<lambda>start.
         Inr (slice_page (\<lambda>r. manager_encode_cursor lib [(''kind'', JStr ''collections''), (''after'', JStr (cd_key (fst r)))])
           start (nat limit) records)))"

fun first_index :: "('r \<Rightarrow> bool) \<Rightarrow> 'r list \<Rightarrow> nat option" where
  "first_index P [] = None"
| "first_index P (x # xs) = (if P x then Some 0 else map_option Suc (first_index P xs))"

definition candidate_page_start ::
  "cursor_lib \<Rightarrow> (json \<Rightarrow> int option) \<Rightarrow> uuid \<Rightarrow> prepared_candidate list \<Rightarrow> string option
     \<Rightarrow> lifecycle_error + nat" where
  "candidate_page_start lib int_of rid rows cursor =
     (case cursor of
        None \<Rightarrow> Inr 0
      | Some s \<Rightarrow>
          rbind (manager_decode_cursor lib {''kind'', ''revision_id'', ''rank'', ''id''} s) (\<lambda>payload.
            case (Option.bind (Option.bind (payload ''revision_id'') scalar_text) (cl_uuid lib),
                  Option.bind (Option.bind (payload ''id'') scalar_text) (cl_uuid lib),
                  Option.bind (payload ''rank'') (\<lambda>j. case j of JInt i \<Rightarrow> Some i | _ \<Rightarrow> int_of j)) of
              (Some cursor_revision, Some candidate_id, Some rank) \<Rightarrow>
                if payload ''kind'' \<noteq> Some (JStr ''preflight'') \<or> cursor_revision \<noteq> rid \<or> rank < 1
                then Inl invalid_cursor
                else (case first_index (\<lambda>x. cand_id x = candidate_id \<and> cand_rank x = rank) rows of
                  None \<Rightarrow> Inl invalid_cursor
                | Some i \<Rightarrow> Inr (i + 1))
            | _ \<Rightarrow> Inl invalid_cursor))"

definition ranked_candidates :: "catalog \<Rightarrow> uuid \<Rightarrow> prepared_candidate list" where
  "ranked_candidates c rid =
     sort_key (\<lambda>x. (cand_rank x, uuid_str (cand_id x))) (filter (\<lambda>x. cand_revision_id x = rid) (candidates c))"

definition preflight_cursor :: "cursor_lib \<Rightarrow> uuid \<Rightarrow> prepared_candidate \<Rightarrow> string" where
  "preflight_cursor lib rid x =
     manager_encode_cursor lib [(''kind'', JStr ''preflight''), (''revision_id'', JStr (uuid_str rid)),
       (''rank'', JInt (cand_rank x)), (''id'', JStr (uuid_str (cand_id x)))]"

definition preflight_page ::
  "cursor_lib \<Rightarrow> (json \<Rightarrow> int option) \<Rightarrow> uuid \<Rightarrow> int \<Rightarrow> catalog \<Rightarrow> string option
     \<Rightarrow> lifecycle_error + prepared_candidate cursor_page" where
  "preflight_page lib int_of did limit c cursor =
     rbind (validate_limit limit) (\<lambda>_.
     rbind (preflight_revision c did) (\<lambda>r.
       let rows = ranked_candidates c (rev_id r) in
       rbind (candidate_page_start lib int_of (rev_id r) rows cursor) (\<lambda>start.
         Inr (slice_page (preflight_cursor lib (rev_id r)) start (nat limit) rows))))"

text \<open>Operation metrics: one bucket per type, state and phase of the operations that have not
  succeeded, of documents in visible collections.\<close>

definition operation_state_value :: "operation_state \<Rightarrow> string" where
  "operation_state_value s = (case s of OP_QUEUED \<Rightarrow> ''QUEUED'' | OP_RUNNING \<Rightarrow> ''RUNNING''
     | OP_SUCCEEDED \<Rightarrow> ''SUCCEEDED'' | OP_FAILED \<Rightarrow> ''FAILED'' | OP_CANCELLED \<Rightarrow> ''CANCELLED'')"

definition metric_operations :: "catalog \<Rightarrow> string list \<Rightarrow> work_operation list" where
  "metric_operations c visible_keys =
     filter (\<lambda>w. op_state w \<in> {OP_QUEUED, OP_RUNNING, OP_FAILED}
       \<and> (case get_document c (op_document_id w) of None \<Rightarrow> False
          | Some d \<Rightarrow> doc_collection_key d \<in> set visible_keys)) (operations c)"

record metric_row =
  mr_type :: operation_type
  mr_state :: operation_state
  mr_phase :: operation_phase
  mr_count :: nat
  mr_oldest_created :: timestamp
  mr_oldest_phase_started :: timestamp

definition metric_key :: "work_operation \<Rightarrow> operation_state \<times> operation_type \<times> operation_phase" where
  "metric_key w = (op_state w, op_type w, op_phase w)"

definition metric_row :: "work_operation list \<Rightarrow> operation_state \<times> operation_type \<times> operation_phase \<Rightarrow> metric_row" where
  "metric_row ws k =
     (let ms = filter (\<lambda>w. metric_key w = k) ws
      in \<lparr>mr_type = fst (snd k), mr_state = fst k, mr_phase = snd (snd k), mr_count = length ms,
          mr_oldest_created = Min (set (map op_created_at ms)),
          mr_oldest_phase_started = Min (set (map op_phase_started_at ms))\<rparr>)"

definition operation_metric_rows :: "catalog \<Rightarrow> string list \<Rightarrow> metric_row list" where
  "operation_metric_rows c visible_keys =
     (if visible_keys = [] then []
      else let ws = metric_operations c visible_keys in
        map (metric_row ws)
          (sort_key (\<lambda>(s, t, p). (operation_state_value s, operation_type_value t, phase_value p))
            (remdups (map metric_key ws))))"

record operation_metrics =
  om_total :: nat
  om_queued :: nat
  om_running :: nat
  om_failed :: nat
  om_oldest_queued_age :: "int option"
  om_buckets :: "(metric_row \<times> int \<times> int) list"

definition operation_metrics :: "catalog \<Rightarrow> collection_definition list \<Rightarrow> timestamp \<Rightarrow> operation_metrics" where
  "operation_metrics c definitions now =
     (let rows = operation_metric_rows c (map cd_key (filter cd_enabled definitions));
          age = (\<lambda>t. max (now - t) 0);
          buckets = map (\<lambda>r. (r, age (mr_oldest_created r), age (mr_oldest_phase_started r))) rows;
          count_of = (\<lambda>s. sum_list (map mr_count (filter (\<lambda>r. mr_state r = s) rows)));
          queued_ages = map (\<lambda>r. age (mr_oldest_created r)) (filter (\<lambda>r. mr_state r = OP_QUEUED) rows)
      in \<lparr>om_total = sum_list (map mr_count rows), om_queued = count_of OP_QUEUED, om_running = count_of OP_RUNNING,
          om_failed = count_of OP_FAILED,
          om_oldest_queued_age = (if queued_ages = [] then None else Some (Max (set queued_ages))),
          om_buckets = buckets\<rparr>)"

end
