(* ===== verification/Pagination.thy ===== *)
theory Pagination
  imports Catalog_Reads
begin

text \<open>
  A client that follows the cursors of a listing sees every row exactly once and in order, the
  position of an operation in the queue is its rank in the order in which claims are made, and the
  metrics add up.
\<close>

section \<open>Walking the pages of a listing\<close>

text \<open>The client asks for pages until there is no next cursor.\<close>

fun walk :: "nat \<Rightarrow> (string option \<Rightarrow> 'e + 'r cursor_page) \<Rightarrow> string option \<Rightarrow> 'r list option" where
  "walk 0 fetch cursor = None"
| "walk (Suc n) fetch cursor =
     (case fetch cursor of
        Inl _ \<Rightarrow> None
      | Inr page \<Rightarrow> (case cp_next page of
          None \<Rightarrow> Some (cp_items page)
        | Some s \<Rightarrow> map_option (append (cp_items page)) (walk n fetch (Some s))))"

text \<open>A listing serves a sequence of rows when it starts with the first page of it and answers the
  cursor of a row with the page after that row.\<close>

definition serves :: "(string option \<Rightarrow> 'e + 'r cursor_page) \<Rightarrow> ('r \<Rightarrow> string) \<Rightarrow> nat \<Rightarrow> 'r list \<Rightarrow> bool" where
  "serves fetch enc limit rows \<longleftrightarrow> 0 < limit \<and> fetch None = Inr (cut_page enc limit rows)
     \<and> (\<forall>xs r ys. rows = xs @ r # ys \<longrightarrow> fetch (Some (enc r)) = Inr (cut_page enc limit ys))"

lemma cut_page_simps:
  "0 < limit \<Longrightarrow> length rows \<le> limit \<Longrightarrow> cut_page enc limit rows = \<lparr>cp_items = rows, cp_next = None\<rparr>"
  "0 < limit \<Longrightarrow> limit < length rows \<Longrightarrow>
     cut_page enc limit rows = \<lparr>cp_items = take limit rows, cp_next = Some (enc (last (take limit rows)))\<rparr>"
  by (auto simp: cut_page_def Let_def min_def)

lemma walk_serves:
  assumes "serves fetch enc limit rows" and "rows = xs @ ys"
    and "fetch cursor = Inr (cut_page enc limit ys)" and "length ys < n"
  shows "walk n fetch cursor = Some ys"
  using assms(2-4)
proof (induction n arbitrary: xs ys cursor)
  case (Suc n)
  have limit: "0 < limit"
    using assms(1) by (simp add: serves_def)
  show ?case
  proof (cases "length ys \<le> limit")
    case True
    then show ?thesis
      using Suc.prems cut_page_simps(1) [OF limit True, of enc] by simp
  next
    case False
    let ?r = "last (take limit ys)"
    have ys: "ys = butlast (take limit ys) @ ?r # drop limit ys"
      using False limit by (metis append_take_drop_id append.assoc append_Cons append_Nil append_butlast_last_id
          list.size(3) not_le take_eq_Nil2 less_irrefl_nat less_zeroE)
    then have "rows = (xs @ butlast (take limit ys)) @ ?r # drop limit ys"
      using Suc.prems(1) by simp
    then have next_page: "fetch (Some (enc ?r)) = Inr (cut_page enc limit (drop limit ys))"
      using assms(1) unfolding serves_def by blast
    have "walk n fetch (Some (enc ?r)) = Some (drop limit ys)"
      using Suc.IH [of "xs @ take limit ys" "drop limit ys" "Some (enc ?r)"] Suc.prems(1,3) next_page False limit
      by simp
    then show ?thesis
      using Suc.prems(2) False cut_page_simps(2) [OF limit, of ys enc] by simp
  qed
qed simp

lemma walk_all:
  assumes "serves fetch enc limit rows"
  shows "walk (Suc (length rows)) fetch None = Some rows"
  by (rule walk_serves [OF assms, of "[]"]) (use assms in \<open>simp_all add: serves_def\<close>)

section \<open>Descending keys\<close>

text \<open>The rows below the key of a row are the rows after it.\<close>

lemma sort_key_below:
  assumes "sort_key key rows = xs @ r # ys" and "distinct (map key rows)"
  shows "sort_key key (filter (\<lambda>x. key x < key r) rows) = xs"
proof -
  have sorted: "sorted (map key (xs @ r # ys))" and dist: "distinct (map key (xs @ r # ys))"
    using sorted_sort_key [of key rows] assms(2) unfolding assms(1) [symmetric]
    by (auto simp: distinct_map)
  have "sort_key key (filter (\<lambda>x. key x < key r) rows) = filter (\<lambda>x. key x < key r) (sort_key key rows)"
    by (rule filter_sort [symmetric])
  also have "\<dots> = filter (\<lambda>x. key x < key r) xs @ filter (\<lambda>x. key x < key r) (r # ys)"
    by (simp add: assms(1))
  also have "filter (\<lambda>x. key x < key r) xs = xs"
  proof (rule filter_True, rule ballI)
    fix x assume "x \<in> set xs"
    then have "key x \<le> key r" "key x \<noteq> key r"
      using sorted dist by (auto simp: sorted_append) (metis image_eqI)
    then show "key x < key r"
      by simp
  qed
  also have "filter (\<lambda>x. key x < key r) (r # ys) = []"
    using sorted by (auto simp: sorted_append filter_empty_conv)
  finally show ?thesis
    by simp
qed

lemma rows_below_after:
  assumes "rows_below key None rows = xs @ r # ys" and "distinct (map key rows)"
  shows "rows_below key (Some (key r)) rows = ys"
proof -
  have "sort_key key rows = rev ys @ r # rev xs"
    using assms(1) by (simp add: rows_below_def rev_swap)
  from sort_key_below [OF this assms(2)] show ?thesis
    by (simp add: rows_below_def)
qed

lemma rows_below_mem [simp]: "set (rows_below key None rows) = set rows"
  by (simp add: rows_below_def)

text \<open>What the cursor of a row needs of the library: its text is short, base64 and JSON give the payload
  back, and so do the timestamp and the identifier.\<close>

definition cursor_laws :: "cursor_lib \<Rightarrow> timestamp \<Rightarrow> uuid \<Rightarrow> bool" where
  "cursor_laws lib t u \<longleftrightarrow>
     (let payload = cursor_payload (cl_isoformat lib t) (uuid_str u); cursor = encode_cursor lib t (uuid_str u) in
      cursor \<noteq> [] \<and> length cursor \<le> 500
      \<and> cl_b64decode lib (pad_base64 cursor) = Some (dumps payload) \<and> cl_loads lib (dumps payload) = Some payload
      \<and> cl_fromisoformat lib (replace_Z (cl_isoformat lib t)) = Some t \<and> cl_uuid lib (uuid_str u) = Some u)"

lemma uuid_position_encode:
  assumes "cursor_laws lib t u"
  shows "uuid_position lib (Some (encode_cursor lib t (uuid_str u))) = Inr (Some (t, u))"
proof -
  have "decode_cursor lib (encode_cursor lib t (uuid_str u)) True = Inr (t, uuid_str u)"
    using assms
    by (auto simp: cursor_laws_def decode_cursor_def parse_cursor_payload_def cursor_payload_def scalar_text_def is_one_def Let_def)
  then show ?thesis
    using assms by (cases "encode_cursor lib t (uuid_str u)") (auto simp: uuid_position_def cursor_laws_def Let_def)
qed

lemma list_documents_serves:
  assumes "1 \<le> limit" "limit \<le> 100" and "distinct (map doc_id (documents c))"
    and "case state of None \<Rightarrow> True | Some s \<Rightarrow> s \<notin> set TERMINAL_DOCUMENT_STATES"
    and "\<forall>d\<in>set (listed_documents c key state). cursor_laws lib (doc_created_at d) (doc_id d)"
  shows "serves (list_documents lib key state limit c) (\<lambda>d. encode_cursor lib (doc_created_at d) (uuid_str (doc_id d)))
    (nat limit) (rows_below document_key None (listed_documents c key state))"
proof -
  let ?rows = "listed_documents c key state"
  have "distinct (map doc_id ?rows)"
    using assms(3) by (simp add: listed_documents_def distinct_map_filter)
  then have dist: "distinct (map document_key ?rows)"
    by (auto simp: distinct_map document_key_def inj_on_def)
  have fetch: "list_documents lib key state limit c cursor = rbind (uuid_position lib cursor) (\<lambda>position.
      Inr (cut_page (\<lambda>d. encode_cursor lib (doc_created_at d) (uuid_str (doc_id d))) (nat limit) (rows_below document_key position ?rows)))"
    for cursor
    using assms(1,2,4) by (auto simp: list_documents_def validate_limit_def split: option.splits)
  show ?thesis
    unfolding serves_def fetch
  proof (intro conjI allI impI)
    fix xs r ys assume split: "rows_below document_key None ?rows = xs @ r # ys"
    have "r \<in> set ?rows"
      using arg_cong [OF split, of set] by auto
    then have "uuid_position lib (Some (encode_cursor lib (doc_created_at r) (uuid_str (doc_id r)))) = Inr (Some (document_key r))"
      using assms(5) uuid_position_encode by (simp add: document_key_def)
    then show "rbind (uuid_position lib (Some (encode_cursor lib (doc_created_at r) (uuid_str (doc_id r))))) (\<lambda>position.
        Inr (cut_page (\<lambda>d. encode_cursor lib (doc_created_at d) (uuid_str (doc_id d))) (nat limit) (rows_below document_key position ?rows)))
      = Inr (cut_page (\<lambda>d. encode_cursor lib (doc_created_at d) (uuid_str (doc_id d))) (nat limit) ys)"
      using rows_below_after [OF split dist] by simp
  qed (use assms(1) in \<open>simp_all add: uuid_position_def\<close>)
qed

text \<open>C20. Following the cursors of the document listing, whatever the page size, returns exactly the
  live documents of the collection in the requested state, each once, newest first with the
  identifier as tie breaker, and ends.\<close>

theorem document_pages_complete:
  assumes "1 \<le> limit" "limit \<le> 100" and "distinct (map doc_id (documents c))"
    and "case state of None \<Rightarrow> True | Some s \<Rightarrow> s \<notin> set TERMINAL_DOCUMENT_STATES"
    and "\<forall>d\<in>set (listed_documents c key state). cursor_laws lib (doc_created_at d) (doc_id d)"
  shows "\<exists>rows n. walk n (list_documents lib key state limit c) None = Some rows
    \<and> set rows = set (listed_documents c key state) \<and> distinct rows
    \<and> sorted (rev (map (\<lambda>d. (doc_created_at d, doc_id d)) rows))"
proof -
  let ?rows = "rows_below document_key None (listed_documents c key state)"
  have "walk (Suc (length ?rows)) (list_documents lib key state limit c) None = Some ?rows"
    by (rule walk_all [OF list_documents_serves [OF assms]])
  moreover have "distinct ?rows"
    using assms(3) by (auto simp: rows_below_def listed_documents_def distinct_map)
  moreover have "sorted (rev (map document_key ?rows))"
    by (simp add: rows_below_def rev_map)
  moreover have "map (\<lambda>d. (doc_created_at d, doc_id d)) ?rows = map document_key ?rows"
    by (simp add: document_key_def)
  moreover have "set ?rows = set (listed_documents c key state)"
    by simp
  ultimately show ?thesis
    by metis
qed


text \<open>Three documents of one collection, two of the same age, and a library that is exact on them.\<close>

definition listing_lib :: cursor_lib where
  "listing_lib = \<lparr>cl_b64encode = (\<lambda>s. s), cl_b64decode = (\<lambda>s. Some (rstrip_char (CHR ''='') s)),
     cl_loads = (\<lambda>s. Some (cursor_payload (take 1 (drop 50 s)) (take 36 (drop 7 s)))),
     cl_isoformat = (\<lambda>t. nat_digits (nat t)), cl_fromisoformat = (\<lambda>s. find (\<lambda>t. nat_digits (nat t) = s) [1, 2]),
     cl_uuid = (\<lambda>s. find (\<lambda>u. uuid_str u = s) [1, 2, 3])\<rparr>"

definition listing_document :: "uuid \<Rightarrow> timestamp \<Rightarrow> document" where
  "listing_document u t = \<lparr>doc_id = u, doc_collection_key = ''reports'', doc_original_filename = ''a.pdf'',
      doc_normalized_filename = ''a.pdf'', doc_content_type = ''application/pdf'',
      doc_size_bytes = 1, doc_sha256 = [], doc_storage_key = Some ''k'', doc_state = READY,
      doc_terminal_disposition = None, doc_scan_state = SCAN_CLEAN, doc_scan_engine = None, doc_scan_signature = None,
      doc_scanned_at = None, doc_created_by = [], doc_created_at = t, doc_ready_at = None, doc_rejected_at = None,
      doc_cancelled_at = None, doc_deleted_at = None, doc_failure_code = None, doc_failure_message = None,
      doc_failure_retryable = False, doc_replaced_by = None\<rparr>"

definition listing_catalog :: catalog where
  "listing_catalog = (empty_catalog (\<lambda>n. n))\<lparr>documents := [listing_document 1 1, listing_document 3 2, listing_document 2 2]\<rparr>"

lemma hex_plain: "set (hex_digits k n) \<subseteq> set ''0123456789abcdef''"
proof (induction k arbitrary: n)
  case (Suc k)
  have "hex_digit (n mod 16) \<in> set ''0123456789abcdef''"
    unfolding hex_digit_def by (rule nth_mem) simp
  then show ?case
    using Suc [of "n div 16"] by simp
qed simp

lemma uuid_plain: "set (uuid_str u) \<subseteq> set ''0123456789abcdef-''"
proof -
  have "set (uuid_str u) \<subseteq> insert (CHR ''-'') (set (hex_digits 32 u))"
    by (auto simp: uuid_str_def Let_def dest: in_set_takeD in_set_dropD simp del: hex_digits.simps)
  also have "\<dots> \<subseteq> insert (CHR ''-'') (set ''0123456789abcdef'')"
    by (rule insert_mono [OF hex_plain])
  finally show ?thesis
    by (rule order_trans) simp
qed

lemma length_uuid_str: "length (uuid_str u) = 36"
  by (simp add: uuid_str_def Let_def)

lemma json_str_uuid: "json_str (uuid_str u) = [char_of (34::nat)] @ uuid_str u @ [char_of (34::nat)]"
proof -
  have "\<forall>c\<in>set ''0123456789abcdef-''. escape_char c = [c]"
    by code_simp
  then have "concat (map escape_char s) = s" if "set s \<subseteq> set ''0123456789abcdef-''" for s
    using that by (induction s) auto
  then show ?thesis
    using uuid_plain by (simp add: json_str_def)
qed

lemma payload_text:
  assumes "t \<in> {''1'', ''2''}"
  shows "dumps (cursor_payload t (uuid_str u)) = [CHR ''{'', char_of (34::nat)] @ ''id'' @ [char_of (34::nat), CHR '':'', char_of (34::nat)]
    @ uuid_str u @ [char_of (34::nat), CHR '','', char_of (34::nat)] @ ''t'' @ [char_of (34::nat), CHR '':'', char_of (34::nat)]
    @ t @ [char_of (34::nat), CHR '','', char_of (34::nat)] @ ''v'' @ [char_of (34::nat), CHR '':''] @ ''1}''"
proof -
  have "sorted [''id'', ''t'', ''v'']" "json_str ''1'' = [char_of (34::nat)] @ ''1'' @ [char_of (34::nat)]"
    "json_str ''2'' = [char_of (34::nat)] @ ''2'' @ [char_of (34::nat)]" "int_str 1 = ''1''"
    "json_str ''id'' = [char_of (34::nat)] @ ''id'' @ [char_of (34::nat)]"
    "json_str ''t'' = [char_of (34::nat)] @ ''t'' @ [char_of (34::nat)]"
    "json_str ''v'' = [char_of (34::nat)] @ ''v'' @ [char_of (34::nat)]"
    by code_simp+
  moreover from this have "sort_key fst [(''id'', a), (''t'', b), (''v'', e)] = [(''id'', a), (''t'', b), (''v'', e)]" for a b e :: string
    by (intro sort_key_id_if_sorted) simp
  ultimately show ?thesis
    using assms unfolding cursor_payload_def dumps.simps list.map prod.case by (elim insertE) (simp_all add: json_str_uuid)
qed

lemma listing_laws:
  assumes "t \<in> {1, 2}" and "u \<in> {1, 2, 3}"
  shows "cursor_laws listing_lib t u"
proof -
  have digits: "nat_digits 1 = ''1''" "nat_digits 2 = ''2''"
    by code_simp+
  have uuids: "uuid_str 1 \<noteq> uuid_str 2" "uuid_str 1 \<noteq> uuid_str 3" "uuid_str 2 \<noteq> uuid_str 3"
    using uuid_str_inj [of 1 2] uuid_str_inj [of 1 3] uuid_str_inj [of 2 3] by auto
  show ?thesis
    using assms digits uuids uuids [symmetric] unfolding cursor_laws_def
    by (elim insertE)
      (simp_all add: listing_lib_def Let_def encode_cursor_def payload_text rstrip_char_def pad_base64_def
        length_uuid_str replace_Z_def)
qed

theorem document_pages_complete_witness:
  "\<exists>rows n. walk n (list_documents listing_lib ''reports'' None 1 listing_catalog) None = Some rows
    \<and> set rows = set (listed_documents listing_catalog ''reports'' None) \<and> distinct rows"
proof -
  have "\<forall>d\<in>set (listed_documents listing_catalog ''reports'' None). cursor_laws listing_lib (doc_created_at d) (doc_id d)"
    using listing_laws by (auto simp: listed_documents_def listing_catalog_def listing_document_def)
  moreover have "distinct (map doc_id (documents listing_catalog))"
    by (simp add: listing_catalog_def listing_document_def)
  ultimately show ?thesis
    using document_pages_complete [of 1 listing_catalog None "''reports''" listing_lib] by auto
qed

section \<open>Metrics\<close>

lemma sum_counts: "sum_list (map (\<lambda>k. length (filter (\<lambda>w. f w = k) ws)) ks) = length (filter (\<lambda>w. f w \<in> set ks) ws)"
  if "distinct ks"
  using that
proof (induction ks)
  case (Cons k ks)
  have "length (filter (\<lambda>w. f w = k \<or> f w \<in> set ks) ws) = length (filter (\<lambda>w. f w = k) ws) + length (filter (\<lambda>w. f w \<in> set ks) ws)"
    using Cons.prems by (induction ws) auto
  then show ?case
    using Cons by simp
qed simp

text \<open>The metrics count every operation of a visible collection that is queued, running or failed
  exactly once: the buckets add up to the total, and the total is the sum of the three counts.\<close>

theorem operation_metrics_total:
  "om_total (operation_metrics c definitions now)
     = length (metric_operations c (map cd_key (filter cd_enabled definitions)))
   \<and> om_total (operation_metrics c definitions now)
     = om_queued (operation_metrics c definitions now) + om_running (operation_metrics c definitions now)
       + om_failed (operation_metrics c definitions now)"
proof -
  let ?vis = "map cd_key (filter cd_enabled definitions)"
  let ?ws = "metric_operations c ?vis"
  let ?rows = "operation_metric_rows c ?vis"
  have states: "mr_state r \<in> {OP_QUEUED, OP_RUNNING, OP_FAILED}" if "r \<in> set ?rows" for r
    using that by (auto simp: operation_metric_rows_def metric_row_def metric_key_def metric_operations_def Let_def split: if_splits)
  have total: "sum_list (map mr_count ?rows) = length ?ws"
  proof (cases "?vis = []")
    case True
    then show ?thesis
      by (simp add: operation_metric_rows_def metric_operations_def filter_empty_conv split: option.splits)
  next
    case False
    let ?ks = "sort_key (\<lambda>(s, t, p). (operation_state_value s, operation_type_value t, phase_value p)) (remdups (map metric_key ?ws))"
    have "sum_list (map mr_count ?rows) = sum_list (map (\<lambda>k. length (filter (\<lambda>w. metric_key w = k) ?ws)) ?ks)"
      using False by (simp add: operation_metric_rows_def metric_row_def Let_def comp_def)
    also have "\<dots> = length (filter (\<lambda>w. metric_key w \<in> set ?ks) ?ws)"
      by (rule sum_counts) simp
    also have "filter (\<lambda>w. metric_key w \<in> set ?ks) ?ws = ?ws"
      by (rule filter_True) simp
    finally show ?thesis .
  qed
  have parts: "sum_list (map mr_count rs) = sum_list (map mr_count (filter (\<lambda>r. mr_state r = OP_QUEUED) rs))
      + sum_list (map mr_count (filter (\<lambda>r. mr_state r = OP_RUNNING) rs))
      + sum_list (map mr_count (filter (\<lambda>r. mr_state r = OP_FAILED) rs))"
    if "\<forall>r\<in>set rs. mr_state r \<in> {OP_QUEUED, OP_RUNNING, OP_FAILED}" for rs
    using that by (induction rs) auto
  show ?thesis
    using total parts [of ?rows] states by (simp add: operation_metrics_def Let_def)
qed

end
