(* ===== verification/Markdown_Text.thy ===== *)
theory Markdown_Text
  imports Preparation Text
begin

text \<open>
  The text side of the Markdown formatter, from \<^verbatim>\<open>pdf_bridge/services/markdown_formatter.py\<close>:
  normalisation of layout text and of Markdown, the fidelity projection to words and numbers, and
  the structural checks on fences, raw HTML, images, links and tables.  The regular expressions are
  recognisers of a prefix of the text; a search tries them at every position.
\<close>

section \<open>Normalisation and projection\<close>

text \<open>A rejected attempt: the code, the bounded diagnostic, the response hash and the projections.\<close>

record projection_check =
  pc_page_number :: int
  pc_slice_index :: int
  pc_source_projection_sha256 :: string
  pc_markdown_projection_sha256 :: "string option"

record rejection =
  rj_code :: string
  rj_diagnostic :: string
  rj_response_sha256 :: "string option"
  rj_projections :: "projection_check list"

text \<open>\<^verbatim>\<open>unicodedata.category\<close> on the first 256 code points: letters, numbers, controls, formats.\<close>

definition is_letter :: "char \<Rightarrow> bool" where
  "is_letter c = (let n = char_code c in (65 \<le> n \<and> n \<le> 90) \<or> (97 \<le> n \<and> n \<le> 122)
     \<or> n = 170 \<or> n = 181 \<or> n = 186 \<or> (192 \<le> n \<and> n \<noteq> 215 \<and> n \<noteq> 247))"

definition is_number :: "char \<Rightarrow> bool" where
  "is_number c = (let n = char_code c in (48 \<le> n \<and> n \<le> 57) \<or> n = 178 \<or> n = 179 \<or> n = 185 \<or> (188 \<le> n \<and> n \<le> 190))"

definition is_control :: "char \<Rightarrow> bool" where
  "is_control c = (let n = char_code c in n < 32 \<or> (127 \<le> n \<and> n < 160))"

definition is_format :: "char \<Rightarrow> bool" where
  "is_format c \<longleftrightarrow> char_code c = 173"

definition is_disallowed_control :: "char \<Rightarrow> bool" where
  "is_disallowed_control c \<longleftrightarrow> c \<noteq> LF \<and> (is_control c \<or> is_format c)"

definition MAX_DIAGNOSTIC_CHARACTERS :: nat where
  "MAX_DIAGNOSTIC_CHARACTERS = 600"

definition bounded_diagnostic :: "string \<Rightarrow> string" where
  "bounded_diagnostic diagnostic =
     take MAX_DIAGNOSTIC_CHARACTERS (py_join '' '' (py_split
       (map (\<lambda>c. if c = LF \<or> \<not> is_control c then c else CHR ''?'') diagnostic)))"

definition attempt_rejected :: "string \<Rightarrow> string \<Rightarrow> rejection" where
  "attempt_rejected code diagnostic =
     \<lparr>rj_code = code, rj_diagnostic = bounded_diagnostic diagnostic, rj_response_sha256 = None, rj_projections = []\<rparr>"

definition CR :: char where
  "CR = char_of (13::nat)"

text \<open>\<^verbatim>\<open>text.replace("\r\n", "\n").replace("\r", "\n")\<close>\<close>

fun unify_newlines :: "string \<Rightarrow> string" where
  "unify_newlines [] = []"
| "unify_newlines (c # cs) =
     (if c = CR then LF # (case cs of [] \<Rightarrow> [] | d # ds \<Rightarrow> if d = LF then unify_newlines ds else unify_newlines cs)
      else c # unify_newlines cs)"

definition normalize_layout_text :: "stdlib \<Rightarrow> string \<Rightarrow> string" where
  "normalize_layout_text sl s = filter (\<lambda>c. \<not> is_disallowed_control c) (sl_nfkc sl (unify_newlines s))"

text \<open>\<^verbatim>\<open>^ {0,3}(?P<marker>`{3,}|~{3,})(?P<rest>.*)$\<close> on one line: marker and rest.\<close>

definition formatter_fence :: "string \<Rightarrow> (string \<times> string) option" where
  "formatter_fence line =
     (let spaces = takeWhile (\<lambda>c. c = CHR '' '') line in
      case drop (length spaces) line of
        [] \<Rightarrow> None
      | c # cs \<Rightarrow>
          let marker = c # takeWhile (\<lambda>x. x = c) cs in
          if length spaces \<le> 3 \<and> (c = char_of (96::nat) \<or> c = CHR ''~'') \<and> 3 \<le> length marker
          then Some (marker, dropWhile (\<lambda>x. x = c) cs) else None)"

text \<open>The open fence: its character and length.\<close>

type_synonym open_fence = "(char \<times> nat) option"

definition closes_fence :: "char \<times> nat \<Rightarrow> string \<times> string \<Rightarrow> bool" where
  "closes_fence opened fence \<longleftrightarrow>
     hd (fst fence) = fst opened \<and> snd opened \<le> length (fst fence) \<and> py_strip (snd fence) = []"

fun remove_markers :: "open_fence \<Rightarrow> string list \<Rightarrow> string list" where
  "remove_markers opened [] = []"
| "remove_markers opened (line # ls) =
     (case formatter_fence line of
        None \<Rightarrow> line # remove_markers opened ls
      | Some fence \<Rightarrow>
          (case opened of
             None \<Rightarrow> [] # remove_markers (Some (hd (fst fence), length (fst fence))) ls
           | Some f \<Rightarrow> if closes_fence f fence then [] # remove_markers None ls
               else line # remove_markers opened ls))"

definition remove_fence_markers :: "string \<Rightarrow> string" where
  "remove_fence_markers markdown = py_join [LF] (remove_markers None (split_on LF markdown))"

datatype token_kind = WordToken | NumberToken

definition kind_of :: "char \<Rightarrow> token_kind option" where
  "kind_of c = (if is_letter c then Some WordToken else if is_number c then Some NumberToken else None)"

text \<open>The loop of \<^verbatim>\<open>fidelity_projection\<close>; no character of the first 256 is a combining mark.\<close>

fun project :: "string \<Rightarrow> token_kind option \<Rightarrow> string \<Rightarrow> string list" where
  "project current current_kind [] = (if current = [] then [] else [current])"
| "project current current_kind (c # cs) =
     (let kind = kind_of c in
      if kind \<noteq> None \<and> (current_kind = None \<or> current_kind = kind) then project (current @ [c]) kind cs
      else (if current = [] then [] else [current])
        @ (if kind \<noteq> None then project [c] kind cs else project [] None cs))"

definition fidelity_projection :: "stdlib \<Rightarrow> bool \<Rightarrow> string \<Rightarrow> string list" where
  "fidelity_projection sl markdown s =
     (let normalized = sl_nfkc sl s in
      project [] None (if markdown then remove_fence_markers normalized else normalized))"

definition projection_hash :: "stdlib \<Rightarrow> string list \<Rightarrow> string" where
  "projection_hash sl tokens = sl_sha256 sl (dumps (JArr (map JStr tokens)))"

definition normalize_markdown :: "stdlib \<Rightarrow> string \<Rightarrow> rejection + string" where
  "normalize_markdown sl markdown =
     (let normalized = sl_nfkc sl (unify_newlines markdown) in
      if list_ex is_disallowed_control normalized
      then Inl (attempt_rejected ''markdown_control'' ''formatter output contained a disallowed control character'')
      else if py_strip normalized = []
      then Inl (attempt_rejected ''markdown_empty'' ''formatter output contained empty Markdown'')
      else Inr (py_strip normalized))"

section \<open>Fences\<close>

text \<open>The lines outside fences; a line of a fence is \<open>None\<close>.\<close>

fun outside_lines :: "open_fence \<Rightarrow> string list \<Rightarrow> rejection + string option list" where
  "outside_lines opened [] =
     (if opened = None then Inr []
      else Inl (attempt_rejected ''markdown_fence'' ''formatter output contained an unbalanced fenced block''))"
| "outside_lines opened (line # ls) =
     (case opened of
        None \<Rightarrow>
          (case formatter_fence line of
             Some fence \<Rightarrow> rbind (outside_lines (Some (hd (fst fence), length (fst fence))) ls) (\<lambda>rest. Inr (None # rest))
           | None \<Rightarrow> rbind (outside_lines None ls) (\<lambda>rest. Inr (Some line # rest)))
      | Some f \<Rightarrow>
          rbind (outside_lines (case formatter_fence line of
              Some fence \<Rightarrow> if closes_fence f fence then None else opened
            | None \<Rightarrow> opened) ls) (\<lambda>rest. Inr (None # rest)))"

definition outside_fence_lines :: "string \<Rightarrow> rejection + string option list" where
  "outside_fence_lines markdown = outside_lines None (split_on LF markdown)"

section \<open>Searching\<close>

text \<open>A recogniser gets the character before the position, if any, and the rest of the text; it
  returns what it matched and the text after the match.\<close>

type_synonym 'a recogniser = "char option \<Rightarrow> string \<Rightarrow> ('a \<times> string) option"

fun finditer_fuel :: "nat \<Rightarrow> 'a recogniser \<Rightarrow> char option \<Rightarrow> string \<Rightarrow> 'a list" where
  "finditer_fuel 0 m before s = []"
| "finditer_fuel (Suc n) m before s =
     (case s of
        [] \<Rightarrow> []
      | c # cs \<Rightarrow>
          (case m before s of
             Some (x, rest) \<Rightarrow>
               x # (if length rest < length s
                    then finditer_fuel n m (Some (last (take (length s - length rest) s))) rest
                    else finditer_fuel n m (Some c) cs)
           | None \<Rightarrow> finditer_fuel n m (Some c) cs))"

text \<open>Every step moves on, so the length of the text is fuel enough.\<close>

definition finditer :: "'a recogniser \<Rightarrow> string \<Rightarrow> 'a list" where
  "finditer m s = finditer_fuel (length s) m None s"

definition is_ascii_letter :: "char \<Rightarrow> bool" where
  "is_ascii_letter c = (let n = char_code c in (65 \<le> n \<and> n \<le> 90) \<or> (97 \<le> n \<and> n \<le> 122))"

definition is_tag_char :: "char \<Rightarrow> bool" where
  "is_tag_char c \<longleftrightarrow> is_ascii_letter c \<or> (48 \<le> char_code c \<and> char_code c \<le> 57) \<or> c = CHR '':'' \<or> c = CHR ''-''"

definition starts_with :: "string \<Rightarrow> string \<Rightarrow> bool" where
  "starts_with p s \<longleftrightarrow> take (length p) s = p"

text \<open>After the name of a tag: \<^verbatim>\<open>(?:\s[^<>\n]*)?/?>\<close>\<close>

definition tag_end :: "string \<Rightarrow> bool" where
  "tag_end s \<longleftrightarrow> starts_with ''>'' s \<or> starts_with ''/>'' s
     \<or> (s \<noteq> [] \<and> py_isspace (hd s)
        \<and> starts_with ''>'' (dropWhile (\<lambda>c. c \<noteq> CHR ''<'' \<and> c \<noteq> CHR ''>'' \<and> c \<noteq> LF) (tl s)))"

text \<open>The alternatives of \<^verbatim>\<open>_RAW_HTML\<close> at one position.\<close>

definition raw_html_at :: "string \<Rightarrow> bool" where
  "raw_html_at s \<longleftrightarrow> starts_with ''<!--'' s \<or> starts_with ''-->'' s
     \<or> (starts_with ''<!'' s \<and> drop 2 s \<noteq> [] \<and> is_ascii_letter (s ! 2))
     \<or> (starts_with ''<?'' s \<and> drop 2 s \<noteq> [] \<and> is_ascii_letter (s ! 2))
     \<or> (starts_with ''<'' s
        \<and> (let t = (if starts_with ''</'' s then drop 2 s else drop 1 s) in
           t \<noteq> [] \<and> is_ascii_letter (hd t) \<and> tag_end (dropWhile is_tag_char t)))"

definition raw_html :: "unit recogniser" where
  "raw_html before s = (if raw_html_at s then Some ((), tl s) else None)"

text \<open>\<^verbatim>\<open>!\[[^\]\n]*\]\<close>\<close>

definition image :: "unit recogniser" where
  "image before s =
     (if starts_with ''!['' s
         \<and> starts_with '']'' (dropWhile (\<lambda>c. c \<noteq> CHR '']'' \<and> c \<noteq> LF) (drop 2 s))
      then Some ((), tl s) else None)"

text \<open>\<^verbatim>\<open>[label]\<close> with a label that is not empty: the label and the rest.\<close>

definition bracketed :: "string \<Rightarrow> (string \<times> string) option" where
  "bracketed s =
     (if starts_with ''['' s then
        let label = takeWhile (\<lambda>c. c \<noteq> CHR '']'' \<and> c \<noteq> LF) (drop 1 s);
            rest = drop (length label + 1) s
        in if label \<noteq> [] \<and> starts_with '']'' rest then Some (label, drop 1 rest) else None
      else None)"

text \<open>\<^verbatim>\<open>(?:<(?P<angled>[^>\n]+)>|(?P<plain>...))\<close>: an angled destination, or a plain one of the given
  characters.\<close>

definition destination :: "(char \<Rightarrow> bool) \<Rightarrow> string \<Rightarrow> (string \<times> string) option" where
  "destination P s =
     (let angled = takeWhile (\<lambda>c. c \<noteq> CHR ''>'' \<and> c \<noteq> LF) (drop 1 s);
          rest = drop (length angled + 1) s;
          plain = takeWhile P s
      in if starts_with ''<'' s \<and> angled \<noteq> [] \<and> starts_with ''>'' rest then Some (angled, drop 1 rest)
         else if plain \<noteq> [] then Some (plain, drop (length plain) s) else None)"

definition inline_link :: "string recogniser" where
  "inline_link before s =
     (if before = Some (CHR ''!'') then None
      else case bracketed s of
        None \<Rightarrow> None
      | Some (label, rest) \<Rightarrow>
          if starts_with ''('' rest
          then destination (\<lambda>c. \<not> py_isspace c \<and> c \<noteq> CHR '')'') (dropWhile py_isspace (drop 1 rest))
          else None)"

text \<open>\<^verbatim>\<open><(?P<destination>(?:https?|mailto):[^>\s]+)>\<close>, without regard to case.\<close>

definition autolink :: "string recogniser" where
  "autolink before s =
     (if starts_with ''<'' s then
        let t = drop 1 s; low = py_lower t;
            scheme = (if starts_with ''https:'' low then 6 else if starts_with ''http:'' low then 5
                      else if starts_with ''mailto:'' low then 7 else 0);
            tail = takeWhile (\<lambda>c. c \<noteq> CHR ''>'' \<and> \<not> py_isspace c) (drop scheme t);
            rest = drop (scheme + length tail) t
        in if 0 < scheme \<and> tail \<noteq> [] \<and> starts_with ''>'' rest
           then Some (take scheme t @ tail, drop 1 rest) else None
      else None)"

text \<open>\<^verbatim>\<open>^ {0,3}\[(?P<label>[^\]\n]+)\]:\s*(?:<(?P<angled>[^>\n]+)>|(?P<plain>\S+))\<close> at the start of a line.\<close>

definition reference_definition :: "(string \<times> string) recogniser" where
  "reference_definition before s =
     (if before = None \<or> before = Some LF then
        let spaces = length (takeWhile (\<lambda>c. c = CHR '' '') s) in
        if 3 < spaces then None
        else case bracketed (drop spaces s) of
          None \<Rightarrow> None
        | Some (label, rest) \<Rightarrow>
            if starts_with '':'' rest
            then map_option (\<lambda>(d, after). ((label, d), after))
              (destination (\<lambda>c. \<not> py_isspace c) (dropWhile py_isspace (drop 1 rest)))
            else None
      else None)"

text \<open>\<^verbatim>\<open>(?<!!)\[[^\]\n]+\]\[(?P<label>[^\]\n]*)\]\<close>\<close>

definition reference_link :: "string recogniser" where
  "reference_link before s =
     (if before = Some (CHR ''!'') then None
      else case bracketed s of
        None \<Rightarrow> None
      | Some (l, rest) \<Rightarrow>
          if starts_with ''['' rest then
            let label = takeWhile (\<lambda>c. c \<noteq> CHR '']'' \<and> c \<noteq> LF) (drop 1 rest); after = drop (length label + 1) rest
            in if starts_with '']'' after then Some (label, drop 1 after) else None
          else None)"

fun contains :: "string \<Rightarrow> string \<Rightarrow> bool" where
  "contains needle [] \<longleftrightarrow> needle = []"
| "contains needle (c # cs) \<longleftrightarrow> starts_with needle (c # cs) \<or> contains needle cs"

section \<open>Links, tables and structure\<close>

definition link_destinations :: "string \<Rightarrow> string list" where
  "link_destinations markdown =
     finditer inline_link markdown @ finditer autolink markdown @ map snd (finditer reference_definition markdown)"

definition validate_links :: "string \<Rightarrow> string \<Rightarrow> rejection + unit" where
  "validate_links markdown source_text =
     (let definitions = map (\<lambda>(l, d). py_strip (casefold l)) (finditer reference_definition markdown) in
      if list_ex (\<lambda>l. py_strip (casefold l) = [] \<or> py_strip (casefold l) \<notin> set definitions)
           (finditer reference_link markdown)
      then Inl (attempt_rejected ''markdown_link'' ''formatter output contained an unresolved reference link'')
      else if list_ex (\<lambda>d. \<not> contains d source_text) (link_destinations markdown)
      then Inl (attempt_rejected ''markdown_link'' ''formatter output contained a generated link destination'')
      else Inr ())"

fun split_cells :: "string \<Rightarrow> string \<Rightarrow> string list" where
  "split_cells current [] = [py_strip current]"
| "split_cells current (c # cs) =
     (if c = char_of (92::nat) \<and> cs \<noteq> [] then split_cells (current @ [c, hd cs]) (tl cs)
      else if c = CHR ''|'' then py_strip current # split_cells [] cs
      else split_cells (current @ [c]) cs)"

definition pipe_cells :: "string \<Rightarrow> string list option" where
  "pipe_cells line =
     (let stripped = py_strip line; cells = split_cells [] stripped in
      if length cells < 2 then None
      else let cells' = (if starts_with ''|'' stripped then tl cells else cells)
           in Some (if last stripped = CHR ''|'' then butlast cells' else cells'))"

text \<open>\<^verbatim>\<open>^:?-{3,}:?$\<close>\<close>

definition delimiter_cell :: "string \<Rightarrow> bool" where
  "delimiter_cell cell =
     (let rest = (if starts_with '':'' cell then drop 1 cell else cell);
          dashes = takeWhile (\<lambda>c. c = CHR ''-'') rest;
          after = dropWhile (\<lambda>c. c = CHR ''-'') rest
      in 3 \<le> length dashes \<and> (after = [] \<or> after = '':''))"

definition delimiter_like :: "string list \<Rightarrow> bool" where
  "delimiter_like cells = list_all (\<lambda>cell. CHR ''-'' \<in> set cell \<and> list_all (\<lambda>c. c = CHR '':'' \<or> c = CHR ''-'') cell) cells"

definition table_error :: "string \<Rightarrow> rejection" where
  "table_error diagnostic = attempt_rejected ''markdown_table'' diagnostic"

text \<open>The rows after a delimiter, up to a blank line, a fence or a line without cells.\<close>

fun validate_table_rows :: "nat \<Rightarrow> string option list \<Rightarrow> rejection + unit" where
  "validate_table_rows columns [] = Inr ()"
| "validate_table_rows columns (None # ls) = Inr ()"
| "validate_table_rows columns (Some line # ls) =
     (if py_strip line = [] then Inr ()
      else case pipe_cells line of
        None \<Rightarrow> Inr ()
      | Some row \<Rightarrow>
          if length row \<noteq> columns
          then Inl (table_error ''formatter output contained a table row with the wrong column count'')
          else validate_table_rows columns ls)"

text \<open>\<open>before\<close> is the line above, \<open>None\<close> at the start of the text.\<close>

fun validate_tables_from :: "string option option \<Rightarrow> string option list \<Rightarrow> rejection + unit" where
  "validate_tables_from before [] = Inr ()"
| "validate_tables_from before (None # ls) = validate_tables_from (Some None) ls"
| "validate_tables_from before (Some line # ls) =
     rbind (case pipe_cells line of
         None \<Rightarrow> Inr ()
       | Some [] \<Rightarrow> Inr ()
       | Some (cell # cells) \<Rightarrow>
           let delimiter = cell # cells in
           if delimiter_like delimiter \<and> \<not> list_all delimiter_cell delimiter
           then Inl (table_error ''formatter output contained an invalid table delimiter'')
           else if \<not> delimiter_like delimiter then Inr ()
           else (case before of
               Some (Some upper) \<Rightarrow>
                 if length delimiter < 2
                 then Inl (table_error ''formatter output contained a table delimiter without a valid header'')
                 else (case pipe_cells upper of
                     Some header \<Rightarrow>
                       if length header \<noteq> length delimiter
                       then Inl (table_error ''formatter output contained a table header with the wrong column count'')
                       else if list_all delimiter_cell header
                       then Inl (table_error ''formatter output contained a repeated table delimiter'')
                       else validate_table_rows (length delimiter) ls
                   | None \<Rightarrow> Inl (table_error ''formatter output contained a table header with the wrong column count''))
             | _ \<Rightarrow> Inl (table_error ''formatter output contained a table delimiter without a valid header'')))
       (\<lambda>_. validate_tables_from (Some (Some line)) ls)"

definition validate_tables :: "string option list \<Rightarrow> rejection + unit" where
  "validate_tables ls = validate_tables_from None ls"

definition validate_markdown_structure :: "string \<Rightarrow> string \<Rightarrow> rejection + unit" where
  "validate_markdown_structure markdown source_text =
     rbind (outside_fence_lines markdown) (\<lambda>ls.
       let outside_text = py_join [LF] (List.map_filter id ls) in
       if finditer raw_html outside_text \<noteq> []
       then Inl (attempt_rejected ''markdown_html'' ''formatter output contained raw HTML'')
       else if finditer image outside_text \<noteq> []
       then Inl (attempt_rejected ''markdown_image'' ''formatter output contained image syntax'')
       else rbind (validate_links outside_text source_text) (\<lambda>_. validate_tables ls))"

end
