(* ===== verification/Text_Extraction.thy ===== *)
theory Text_Extraction
  imports Formatter
begin

text \<open>
  Bounded text extraction, from \<^verbatim>\<open>pdf_bridge/services/extraction.py\<close>: normalisation of layout text,
  the checks on what the child process printed, and the eligibility checks on the language.  The
  child process, \<^verbatim>\<open>json.loads\<close> and the language detector are arguments; messages are dropped, the
  rejection reasons are kept.
\<close>

section \<open>Documents and errors\<close>

definition EXTRACTION_PROFILE :: string where
  "EXTRACTION_PROFILE = ''pypdf/6.14.2:layout:nfkc-controls-v1''"

definition MINIMUM_ALPHANUMERIC_CHARACTERS :: nat where
  "MINIMUM_ALPHANUMERIC_CHARACTERS = 80"

definition LANGUAGE_SAMPLE_CHARACTERS :: nat where
  "LANGUAGE_SAMPLE_CHARACTERS = 50000"

record extraction_limits =
  xl_max_pages :: int
  xl_max_characters :: int
  xl_cpu_seconds :: int
  xl_memory_bytes :: int
  xl_wall_clock_seconds :: rat

record layout_extract =
  le_page_number :: int
  le_layout_text :: string
  le_character_count :: int
  le_text_sha256 :: string

record extracted_document =
  xd_page_count :: int
  xd_character_count :: int
  xd_pages :: "layout_extract list"

datatype rejection_reason = Encrypted | Malformed | Empty_Text | Page_Budget | Character_Budget | Timeout
  | Image_Only | Text_Insufficient | Non_English

definition reason_value :: "rejection_reason \<Rightarrow> string" where
  "reason_value r = (case r of
      Encrypted \<Rightarrow> ''encrypted'' | Malformed \<Rightarrow> ''malformed'' | Empty_Text \<Rightarrow> ''empty''
    | Page_Budget \<Rightarrow> ''page-budget'' | Character_Budget \<Rightarrow> ''character-budget'' | Timeout \<Rightarrow> ''timeout''
    | Image_Only \<Rightarrow> ''image-only'' | Text_Insufficient \<Rightarrow> ''text-insufficient'' | Non_English \<Rightarrow> ''non-english'')"

text \<open>\<open>ExtractionValueError\<close> and \<open>ExtractionTypeError\<close> are Python's \<^verbatim>\<open>ValueError\<close> and \<^verbatim>\<open>TypeError\<close>.\<close>

datatype extraction_error =
  ExtractionRejected rejection_reason
| ExtractionInfrastructure
| ExtractionValueError
| ExtractionTypeError

section \<open>Normalisation\<close>

definition kept_character :: "char \<Rightarrow> bool" where
  "kept_character c \<longleftrightarrow> c = LF \<or> c = TAB \<or> \<not> is_control c"

definition drop_blank_ends :: "string list \<Rightarrow> string list" where
  "drop_blank_ends ls = rev (dropWhile (\<lambda>l. l = []) (rev (dropWhile (\<lambda>l. l = []) ls)))"

definition extraction_normalize :: "stdlib \<Rightarrow> string \<Rightarrow> string" where
  "extraction_normalize sl s =
     (let candidate = filter kept_character (unify_newlines (sl_nfkc sl s)) in
      py_join [LF] (drop_blank_ends (map py_rstrip (split_on LF candidate))))"

section \<open>The answer of the child\<close>

text \<open>Python's \<^verbatim>\<open>==\<close> between a JSON value and an integer: booleans and integral floats count.\<close>

fun json_equals_int :: "json \<Rightarrow> int \<Rightarrow> bool" where
  "json_equals_int (JInt i) k = (i = k)"
| "json_equals_int (JBool b) k = (k = (if b then 1 else 0))"
| "json_equals_int (JFloat s) k = (s = int_str k @ ''.0'' \<or> (k = 0 \<and> s = ''-0.0''))"
| "json_equals_int _ k = False"

text \<open>\<^verbatim>\<open>isinstance(value, int)\<close> holds of booleans.\<close>

fun json_int :: "json \<Rightarrow> int option" where
  "json_int (JInt i) = Some i"
| "json_int (JBool b) = Some (if b then 1 else 0)"
| "json_int _ = None"

definition child_reason :: "json \<Rightarrow> extraction_error" where
  "child_reason reason =
     (case reason of
        JArr _ \<Rightarrow> ExtractionTypeError
      | JObj _ \<Rightarrow> ExtractionTypeError
      | JStr s \<Rightarrow>
          ExtractionRejected (if s = ''encrypted'' then Encrypted else if s = ''empty'' then Empty_Text
            else if s = ''page-budget'' then Page_Budget else if s = ''character-budget'' then Character_Budget
            else Malformed)
      | _ \<Rightarrow> ExtractionRejected Malformed)"

fun parse_child_pages ::
  "stdlib \<Rightarrow> extraction_limits \<Rightarrow> int \<Rightarrow> int \<Rightarrow> json list \<Rightarrow> extraction_error + layout_extract list" where
  "parse_child_pages sl limits expected total_so_far [] = Inr []"
| "parse_child_pages sl limits expected total_so_far (raw # raws) =
     (case raw of
        JObj members \<Rightarrow>
          (case obj_get members ''layout_text'' of
             JStr source \<Rightarrow>
               if \<not> json_equals_int (obj_get members ''page_number'') expected
               then Inl (ExtractionRejected Malformed)
               else let normalized = extraction_normalize sl source;
                        new_total = total_so_far + int (length normalized)
                    in if new_total > xl_max_characters limits then Inl (ExtractionRejected Character_Budget)
                       else rbind (parse_child_pages sl limits (expected + 1) new_total raws) (\<lambda>rest.
                         Inr (\<lparr>le_page_number = expected, le_layout_text = normalized,
                               le_character_count = int (length normalized),
                               le_text_sha256 = sl_sha256 sl normalized\<rparr> # rest))
           | _ \<Rightarrow> Inl (ExtractionRejected Malformed))
      | _ \<Rightarrow> Inl (ExtractionRejected Malformed))"

definition parse_child_payload ::
  "stdlib \<Rightarrow> extraction_limits \<Rightarrow> json \<Rightarrow> extraction_error + extracted_document" where
  "parse_child_payload sl limits payload =
     (case payload of
        JObj members \<Rightarrow>
          if \<not> truthy (obj_get members ''ok'') then Inl (child_reason (obj_get members ''reason''))
          else (case (json_int (obj_get members ''page_count''), obj_get members ''pages'') of
              (Some page_count, JArr raws) \<Rightarrow>
                if page_count \<le> 0 \<or> page_count \<noteq> int (length raws) \<or> page_count > xl_max_pages limits
                then Inl (ExtractionRejected Malformed)
                else rbind (parse_child_pages sl limits 1 0 raws) (\<lambda>pages.
                  Inr \<lparr>xd_page_count = page_count,
                       xd_character_count = sum_list (map (\<lambda>p. int (length (le_layout_text p))) pages),
                       xd_pages = pages\<rparr>)
            | _ \<Rightarrow> Inl (ExtractionRejected Malformed))
      | _ \<Rightarrow> Inl (ExtractionRejected Malformed))"

text \<open>How the child process may end: killed at the timeout, never started, or with a status and its
  output.\<close>

datatype child_result = ChildTimeout | ChildUnavailable | ChildExited int string

definition child_arguments :: "string \<Rightarrow> extraction_limits \<Rightarrow> string list" where
  "child_arguments path limits =
     [''-m'', ''pdf_bridge.services.extraction_child'', path,
      ''--max-pages'', int_str (xl_max_pages limits), ''--max-characters'', int_str (xl_max_characters limits),
      ''--cpu-seconds'', int_str (xl_cpu_seconds limits), ''--memory-bytes'', int_str (xl_memory_bytes limits)]"

definition extract_pdf_layout ::
  "stdlib \<Rightarrow> (string \<Rightarrow> json option) \<Rightarrow> (string list \<Rightarrow> rat \<Rightarrow> child_result) \<Rightarrow> string \<Rightarrow> extraction_limits
     \<Rightarrow> extraction_error + extracted_document" where
  "extract_pdf_layout sl loads run_child path limits =
     (if min (min (xl_max_pages limits) (xl_max_characters limits)) (min (xl_cpu_seconds limits) (xl_memory_bytes limits)) \<le> 0
         \<or> xl_wall_clock_seconds limits \<le> 0
      then Inl ExtractionValueError
      else case run_child (child_arguments path limits) (xl_wall_clock_seconds limits) of
        ChildTimeout \<Rightarrow> Inl (ExtractionRejected Timeout)
      | ChildUnavailable \<Rightarrow> Inl ExtractionInfrastructure
      | ChildExited status output_text \<Rightarrow>
          if status \<noteq> 0 then Inl (ExtractionRejected Malformed)
          else case loads output_text of
            None \<Rightarrow> Inl (ExtractionRejected Malformed)
          | Some payload \<Rightarrow> parse_child_payload sl limits payload)"

section \<open>Eligibility\<close>

definition substantive_text :: "extracted_document \<Rightarrow> string" where
  "substantive_text d = py_join [LF] (map le_layout_text (filter (\<lambda>p. le_layout_text p \<noteq> []) (xd_pages d)))"

text \<open>The detector may raise (\<open>None\<close>), be undecided (\<open>Some None\<close>) or name a language.\<close>

definition validate_native_english ::
  "(string \<Rightarrow> string option option) \<Rightarrow> extracted_document \<Rightarrow> extraction_error + unit" where
  "validate_native_english detect_language d =
     (let text' = substantive_text d;
          alphanumeric = length (filter (\<lambda>c. is_letter c \<or> is_number c) text')
      in if py_strip text' = [] then Inl (ExtractionRejected Image_Only)
         else if alphanumeric < MINIMUM_ALPHANUMERIC_CHARACTERS then Inl (ExtractionRejected Text_Insufficient)
         else case detect_language (take LANGUAGE_SAMPLE_CHARACTERS text') of
           None \<Rightarrow> Inl ExtractionInfrastructure
         | Some None \<Rightarrow> Inl ExtractionInfrastructure
         | Some (Some language) \<Rightarrow>
             if casefold language \<in> {''en'', ''eng'', ''english''} then Inr ()
             else Inl (ExtractionRejected Non_English))"

section \<open>What an extraction promises\<close>

text \<open>The correlation the catalog demands of an extracted document.\<close>

definition extraction_correlated :: "stdlib \<Rightarrow> extracted_document \<Rightarrow> bool" where
  "extraction_correlated sl d \<longleftrightarrow> 0 < xd_page_count d \<and> xd_page_count d = int (length (xd_pages d))
     \<and> map le_page_number (xd_pages d) = map (\<lambda>i. 1 + int i) [0..<length (xd_pages d)]
     \<and> (\<forall>p\<in>set (xd_pages d). le_character_count p = int (length (le_layout_text p))
          \<and> le_text_sha256 p = sl_sha256 sl (le_layout_text p))
     \<and> xd_character_count d = sum_list (map le_character_count (xd_pages d))"

lemma map_shift_upt: "map (\<lambda>i. k + int i) [0..<Suc n] = k # map (\<lambda>i. k + 1 + int i) [0..<n]"
  by (simp add: upt_conv_Cons map_Suc_upt [symmetric] comp_def del: upt_Suc)

lemma parse_child_pages_result:
  "parse_child_pages sl limits k t raws = Inr pages \<Longrightarrow>
     length pages = length raws \<and> map le_page_number pages = map (\<lambda>i. k + int i) [0..<length pages]
     \<and> (\<forall>p\<in>set pages. le_character_count p = int (length (le_layout_text p))
          \<and> le_text_sha256 p = sl_sha256 sl (le_layout_text p)
          \<and> (\<exists>source. le_layout_text p = extraction_normalize sl source))
     \<and> (pages \<noteq> [] \<longrightarrow> t + sum_list (map (\<lambda>p. int (length (le_layout_text p))) pages) \<le> xl_max_characters limits)"
proof (induction raws arbitrary: k t pages)
  case (Cons raw raws)
  then obtain members source rest where raw: "raw = JObj members" "obj_get members ''layout_text'' = JStr source"
    and rest: "parse_child_pages sl limits (k + 1) (t + int (length (extraction_normalize sl source))) raws = Inr rest"
    and pages: "pages = \<lparr>le_page_number = k, le_layout_text = extraction_normalize sl source,
          le_character_count = int (length (extraction_normalize sl source)),
          le_text_sha256 = sl_sha256 sl (extraction_normalize sl source)\<rparr> # rest"
    and le: "t + int (length (extraction_normalize sl source)) \<le> xl_max_characters limits"
    by (auto simp: result_simps Let_def split: json.split_asm if_splits)
  from Cons.IH [OF rest] show ?case
    unfolding pages using le by (cases "rest = []") (auto simp: map_shift_upt simp del: upt_Suc)
qed simp

lemma extraction_is_correlated:
  assumes "parse_child_payload sl limits payload = Inr d"
  shows "extraction_correlated sl d \<and> xd_page_count d \<le> xl_max_pages limits
    \<and> xd_character_count d \<le> xl_max_characters limits"
proof -
  obtain members raws pages where run: "parse_child_pages sl limits 1 0 raws = Inr pages"
    and bounds: "0 < xd_page_count d" "xd_page_count d = int (length raws)" "xd_page_count d \<le> xl_max_pages limits"
    and d: "xd_pages d = pages" "xd_character_count d = sum_list (map (\<lambda>p. int (length (le_layout_text p))) pages)"
    using assms by (auto simp: parse_child_payload_def result_simps split: prod.split_asm option.split_asm if_splits)
  have "xd_character_count d = sum_list (map le_character_count pages)"
    unfolding d using parse_child_pages_result [OF run] by (intro arg_cong [where f = sum_list] map_cong) auto
  then show ?thesis
    using parse_child_pages_result [OF run] bounds d unfolding extraction_correlated_def by auto
qed

end
