(* ===== verification/Stages.thy ===== *)
theory Stages
  imports Text_Extraction Chunking
begin

text \<open>
  The stages of \<^verbatim>\<open>pdf_bridge/services/preparation.py\<close> that record extracted pages, formatter attempts
  and Markdown pages, each one catalog transaction after its correlation checks.
\<close>

section \<open>Extraction\<close>

definition extraction_error_of :: "string \<Rightarrow> worker_error" where
  "extraction_error_of message = preparation_error ''extraction_correlation'' message"

definition extract_json :: "int \<Rightarrow> string \<Rightarrow> int \<Rightarrow> string \<Rightarrow> json" where
  "extract_json page_number layout_text character_count text_sha256 =
     JObj [(''page_number'', JInt page_number), (''layout_text'', JStr layout_text),
       (''character_count'', JInt character_count), (''text_sha256'', JStr text_sha256)]"

definition extraction_manifest_of :: "stdlib \<Rightarrow> int \<Rightarrow> int \<Rightarrow> json list \<Rightarrow> string" where
  "extraction_manifest_of sl page_count character_count pages =
     manifest_hash sl (JObj [(''extraction_profile'', JStr EXTRACTION_PROFILE), (''page_count'', JInt page_count),
       (''character_count'', JInt character_count), (''pages'', JArr pages)])"

definition extraction_manifest_sha256 :: "stdlib \<Rightarrow> extracted_document \<Rightarrow> string" where
  "extraction_manifest_sha256 sl d =
     extraction_manifest_of sl (xd_page_count d) (xd_character_count d)
       (map (\<lambda>p. extract_json (le_page_number p) (le_layout_text p) (le_character_count p) (le_text_sha256 p)) (xd_pages d))"

fun validate_extract_pages :: "stdlib \<Rightarrow> int \<Rightarrow> layout_extract list \<Rightarrow> worker_error + int" where
  "validate_extract_pages sl expected [] = Inr 0"
| "validate_extract_pages sl expected (page # pages) =
     (if le_page_number page \<noteq> expected
      then Inl (extraction_error_of ''extraction pages were missing or reordered'')
      else if le_character_count page \<noteq> int (length (le_layout_text page))
      then Inl (extraction_error_of ''extraction character count did not match'')
      else if le_text_sha256 page \<noteq> sl_sha256 sl (le_layout_text page)
      then Inl (extraction_error_of ''extraction page hash did not match'')
      else rbind (validate_extract_pages sl (expected + 1) pages) (\<lambda>n. Inr (le_character_count page + n)))"

definition validate_extraction :: "stdlib \<Rightarrow> extracted_document \<Rightarrow> worker_error + unit" where
  "validate_extraction sl d =
     (if xd_page_count d \<le> 0 \<or> xd_page_count d \<noteq> int (length (xd_pages d))
      then Inl (extraction_error_of ''extraction page coverage was invalid'')
      else rbind (validate_extract_pages sl 1 (xd_pages d)) (\<lambda>character_count.
        if character_count \<noteq> xd_character_count d
        then Inl (extraction_error_of ''extraction document character count did not match'')
        else Inr ()))"

definition extracted_row :: "uuid \<Rightarrow> layout_extract \<Rightarrow> extracted_page" where
  "extracted_row rid p = \<lparr>xp_revision_id = rid, xp_page_number = le_page_number p, xp_layout_text = le_layout_text p,
     xp_character_count = le_character_count p, xp_text_sha256 = le_text_sha256 p\<rparr>"

text \<open>The flush of new rows: the unique constraint and the CHECKs of the table.\<close>

definition extracted_check :: "extracted_page \<Rightarrow> bool" where
  "extracted_check x \<longleftrightarrow> 1 \<le> xp_page_number x \<and> 0 \<le> xp_character_count x \<and> length (xp_text_sha256 x) = 64"

definition insert_extracted :: "extracted_page list \<Rightarrow> catalog \<Rightarrow> worker_error + catalog" where
  "insert_extracted rows c =
     (if \<not> distinct (map (\<lambda>x. (xp_revision_id x, xp_page_number x)) (extracted_pages c @ rows))
         \<or> \<not> list_all extracted_check rows
      then Inl (preparation_error ''record_extraction_failed'' ''extraction artifacts could not be recorded'')
      else Inr (c\<lparr>extracted_pages := extracted_pages c @ rows\<rparr>))"

definition extraction_recorded :: "string \<Rightarrow> extracted_document \<Rightarrow> string \<Rightarrow> prepared_revision \<Rightarrow> prepared_revision" where
  "extraction_recorded language_code d digest r =
     r\<lparr>rev_language_code := Some language_code, rev_native_text_eligible := True,
       rev_page_count := Some (xd_page_count d), rev_extraction_sha256 := Some digest\<rparr>"

definition record_extraction ::
  "stdlib \<Rightarrow> preparation_handle \<Rightarrow> extracted_document \<Rightarrow> string \<Rightarrow> catalog \<Rightarrow> worker_error + string \<times> catalog" where
  "record_extraction sl h d language_code c =
     rbind (validate_extraction sl d) (\<lambda>_.
     let digest = extraction_manifest_sha256 sl d in
     rbind (load_revision (ph_revision_id h) (Some REV_PREPARING) c) (\<lambda>r.
     rbind (validate_revision_identity r h) (\<lambda>_.
     if filter (\<lambda>x. xp_revision_id x = rev_id r) (extracted_pages c) \<noteq> []
     then Inl (preparation_error ''stage_already_recorded'' ''extraction artifacts were already recorded'')
     else
     rbind (lift_lifecycle (prevent_sealed_child_insert c (rev_id r))) (\<lambda>_.
     rbind (insert_extracted (map (extracted_row (rev_id r)) (xd_pages d)) c) (\<lambda>c1.
     rbind (lift_lifecycle (upd_revision (rev_id r) (extraction_recorded language_code d digest) c1)) (\<lambda>c2.
       Inr (digest, c2)))))))"

section \<open>Formatted pages\<close>

definition correlation_error :: "string \<Rightarrow> worker_error" where
  "correlation_error message = preparation_error ''formatter_correlation'' message"

text \<open>What is stored of a slice: its offsets in the source and in the Markdown, and its hashes.\<close>

record slice_record =
  sr_slice_index :: int
  sr_source_start :: int
  sr_source_end :: int
  sr_markdown_start :: int
  sr_markdown_end :: int
  sr_source_text_sha256 :: string
  sr_markdown_sha256 :: string
  sr_source_projection_sha256 :: string
  sr_markdown_projection_sha256 :: string

definition slice_json :: "slice_record \<Rightarrow> json" where
  "slice_json x = JObj [(''slice_index'', JInt (sr_slice_index x)),
     (''source_start'', JInt (sr_source_start x)), (''source_end'', JInt (sr_source_end x)),
     (''markdown_start'', JInt (sr_markdown_start x)), (''markdown_end'', JInt (sr_markdown_end x)),
     (''source_text_sha256'', JStr (sr_source_text_sha256 x)), (''markdown_sha256'', JStr (sr_markdown_sha256 x)),
     (''source_projection_sha256'', JStr (sr_source_projection_sha256 x)),
     (''markdown_projection_sha256'', JStr (sr_markdown_projection_sha256 x))]"

text \<open>\<^verbatim>\<open>text[start:end]\<close>\<close>

definition py_slice :: "string \<Rightarrow> nat \<Rightarrow> nat \<Rightarrow> string" where
  "py_slice s start stop = take (stop - start) (drop start s)"

definition source_hash_of :: "stdlib \<Rightarrow> string \<Rightarrow> string" where
  "source_hash_of sl source = projection_hash sl (fidelity_projection sl False source)"

definition markdown_hash_of :: "stdlib \<Rightarrow> string \<Rightarrow> string" where
  "markdown_hash_of sl markdown = projection_hash sl (fidelity_projection sl True markdown)"

text \<open>The loop over the slices of a page: the records, and how far the source and the Markdown are
  covered.\<close>

fun slice_records ::
  "stdlib \<Rightarrow> formatted_page \<Rightarrow> int \<Rightarrow> int \<Rightarrow> nat \<Rightarrow> nat \<Rightarrow> formatted_slice list
     \<Rightarrow> worker_error + slice_record list \<times> nat \<times> nat" where
  "slice_records sl page expected_page expected_slice source_cursor markdown_cursor [] =
     Inr ([], source_cursor, markdown_cursor)"
| "slice_records sl page expected_page expected_slice source_cursor markdown_cursor (item # items) =
     (if fsl_page_number item \<noteq> expected_page \<or> fsl_slice_index item \<noteq> expected_slice
      then Inl (correlation_error ''formatted slices were missing or reordered'')
      else
        let source_end = source_cursor + length (fsl_source_text item);
            markdown_start = (if expected_slice \<noteq> 0 then markdown_cursor + 2 else markdown_cursor);
            markdown_end = markdown_start + length (fsl_markdown item);
            source_projection = source_hash_of sl (fsl_source_text item);
            markdown_projection = markdown_hash_of sl (fsl_markdown item)
        in if py_slice (fpg_source_text page) source_cursor source_end \<noteq> fsl_source_text item
           then Inl (correlation_error ''formatter slices did not exactly cover source text'')
           else if py_slice (fpg_markdown page) markdown_start markdown_end \<noteq> fsl_markdown item
           then Inl (correlation_error ''formatter slices did not exactly cover page Markdown'')
           else if fsl_source_text_sha256 item \<noteq> sl_sha256 sl (fsl_source_text item)
              \<or> fsl_source_projection_sha256 item \<noteq> source_projection
              \<or> fsl_markdown_projection_sha256 item \<noteq> markdown_projection
              \<or> source_projection \<noteq> markdown_projection
           then Inl (correlation_error ''formatter slice hashes or fidelity did not match'')
           else rbind (slice_records sl page expected_page (expected_slice + 1) source_end markdown_end items)
             (\<lambda>(rest, source_covered, markdown_covered).
               Inr (\<lparr>sr_slice_index = expected_slice, sr_source_start = int source_cursor,
                     sr_source_end = int source_end, sr_markdown_start = int markdown_start,
                     sr_markdown_end = int markdown_end, sr_source_text_sha256 = fsl_source_text_sha256 item,
                     sr_markdown_sha256 = sl_sha256 sl (fsl_markdown item),
                     sr_source_projection_sha256 = source_projection,
                     sr_markdown_projection_sha256 = markdown_projection\<rparr> # rest,
                    source_covered, markdown_covered)))"

record page_record =
  pr_page_number :: int
  pr_slices :: "slice_record list"
  pr_markdown :: string
  pr_markdown_sha256 :: string
  pr_source_projection_sha256 :: string
  pr_markdown_projection_sha256 :: string

definition page_record_of ::
  "stdlib \<Rightarrow> int \<Rightarrow> extracted_page option \<Rightarrow> formatted_page \<Rightarrow> worker_error + page_record" where
  "page_record_of sl expected_page extracted page =
     (case extracted of
        None \<Rightarrow> Inl (correlation_error ''formatted pages were missing or reordered'')
      | Some row \<Rightarrow>
          if fpg_page_number page \<noteq> expected_page
          then Inl (correlation_error ''formatted pages were missing or reordered'')
          else if fpg_source_text page \<noteq> xp_layout_text row
          then Inl (correlation_error ''formatter source did not match extracted layout text'')
          else if fpg_source_text_sha256 page \<noteq> xp_text_sha256 row
          then Inl (correlation_error ''formatter page source hash did not match extraction'')
          else if py_strip (fpg_markdown page) = []
          then Inl (correlation_error ''formatted page Markdown was empty'')
          else rbind (slice_records sl page expected_page 0 0 0 (fpg_slices page))
            (\<lambda>(slices, source_covered, markdown_covered).
              let source_projection = source_hash_of sl (fpg_source_text page);
                  markdown_projection = markdown_hash_of sl (fpg_markdown page)
              in if source_covered \<noteq> length (fpg_source_text page) \<or> markdown_covered \<noteq> length (fpg_markdown page)
                 then Inl (correlation_error ''formatter slices did not provide exact page coverage'')
                 else if source_projection \<noteq> markdown_projection
                 then Inl (correlation_error ''formatted page fidelity projection did not match'')
                 else Inr \<lparr>pr_page_number = expected_page, pr_slices = slices, pr_markdown = fpg_markdown page,
                        pr_markdown_sha256 = sl_sha256 sl (fpg_markdown page),
                        pr_source_projection_sha256 = source_projection,
                        pr_markdown_projection_sha256 = markdown_projection\<rparr>))"

fun page_records :: "stdlib \<Rightarrow> (int \<Rightarrow> extracted_page option) \<Rightarrow> int \<Rightarrow> formatted_page list \<Rightarrow> worker_error + page_record list" where
  "page_records sl extracted expected_page [] = Inr []"
| "page_records sl extracted expected_page (page # pages) =
     rbind (page_record_of sl expected_page (extracted expected_page) page) (\<lambda>x.
     rbind (page_records sl extracted (expected_page + 1) pages) (\<lambda>rest. Inr (x # rest)))"

text \<open>\<^verbatim>\<open>{page.page_number: page for page in extracted}\<close>\<close>

definition by_page :: "extracted_page list \<Rightarrow> int \<Rightarrow> extracted_page option" where
  "by_page rows = map_of (map (\<lambda>x. (xp_page_number x, x)) (rev rows))"

definition formatted_slice_records ::
  "stdlib \<Rightarrow> formatted_document \<Rightarrow> extracted_page list \<Rightarrow> worker_error + page_record list" where
  "formatted_slice_records sl d rows =
     rbind (page_records sl (by_page rows) 1 (fd_pages d)) (\<lambda>records.
       if length records \<noteq> card (xp_page_number ` set rows)
       then Inl (correlation_error ''formatter did not cover every extracted page'')
       else Inr records)"

text \<open>\<^verbatim>\<open>slices_by_key\<close>: the records by page and slice.\<close>

definition slices_by_key :: "page_record list \<Rightarrow> ((int \<times> int) \<times> slice_record) list" where
  "slices_by_key records = concat (map (\<lambda>p. map (\<lambda>x. ((pr_page_number p, sr_slice_index x), x)) (pr_slices p)) records)"


section \<open>Formatter attempts\<close>

definition attempt_keys :: "formatter_attempt \<Rightarrow> (int \<times> int) list" where
  "attempt_keys a = map (\<lambda>p. (pc_page_number p, pc_slice_index p)) (fa_projections a)"

text \<open>\<^verbatim>\<open>keys_by_batch\<close>: the slices of each batch, as its valid attempt names them.\<close>

fun keys_by_batch ::
  "(int \<times> (int \<times> int) list) list \<Rightarrow> formatter_attempt list \<Rightarrow> worker_error + (int \<times> (int \<times> int) list) list" where
  "keys_by_batch known [] = Inr known"
| "keys_by_batch known (a # as) =
     (if \<not> fa_valid a then keys_by_batch known as
      else if attempt_keys a = [] \<or> \<not> distinct (attempt_keys a)
      then Inl (correlation_error ''valid formatter attempt coverage was invalid'')
      else case map_of known (fa_batch_index a) of
        None \<Rightarrow> keys_by_batch (known @ [(fa_batch_index a, attempt_keys a)]) as
      | Some existing \<Rightarrow>
          if existing \<noteq> attempt_keys a
          then Inl (correlation_error ''formatter batch coverage changed across attempts'')
          else keys_by_batch known as)"

text \<open>One slice of an attempt: the source item, and the item with the Markdown projection.\<close>

definition source_item_json :: "int \<times> int \<Rightarrow> slice_record \<Rightarrow> (string \<times> json) list" where
  "source_item_json key x =
     [(''page_number'', JInt (fst key)), (''slice_index'', JInt (snd key)),
      (''source_text_sha256'', JStr (sr_source_text_sha256 x)),
      (''source_projection_sha256'', JStr (sr_source_projection_sha256 x))]"

definition string_json :: "string option \<Rightarrow> json" where
  "string_json x = (case x of None \<Rightarrow> JNull | Some s \<Rightarrow> JStr s)"

definition projection_for :: "formatter_attempt \<Rightarrow> int \<times> int \<Rightarrow> projection_check option" where
  "projection_for a key = map_of (rev (map (\<lambda>p. ((pc_page_number p, pc_slice_index p), p)) (fa_projections a))) key"

fun attempt_items ::
  "((int \<times> int) \<times> slice_record) list \<Rightarrow> formatter_attempt \<Rightarrow> (int \<times> int) list
     \<Rightarrow> worker_error + ((int \<times> int) \<times> slice_record \<times> string option) list" where
  "attempt_items known a [] = Inr []"
| "attempt_items known a (key # keys) =
     (case map_of known key of
        None \<Rightarrow> Inl (correlation_error ''formatter attempt referenced an unknown slice'')
      | Some persisted \<Rightarrow>
          (case projection_for a key of
             None \<Rightarrow> rbind (attempt_items known a keys) (\<lambda>rest. Inr ((key, persisted, None) # rest))
           | Some projection \<Rightarrow>
               if pc_source_projection_sha256 projection \<noteq> sr_source_projection_sha256 persisted
               then Inl (correlation_error ''formatter attempt source projection did not match'')
               else rbind (attempt_items known a keys) (\<lambda>rest.
                 Inr ((key, persisted, pc_markdown_projection_sha256 projection) # rest))))"

definition request_manifest :: "formatter_config \<Rightarrow> json list \<Rightarrow> json" where
  "request_manifest cfg source_slices =
     JObj [(''formatter_version'', JStr MARKDOWN_FORMATTER_VERSION), (''model_id'', JStr (fcfg_model_id cfg)),
       (''tokenizer_class'', JStr (fcfg_expected_tokenizer_class cfg)), (''temperature'', JInt 0), (''n'', JInt 1),
       (''max_output_tokens'', JInt (fcfg_max_output_tokens cfg)), (''page_slices'', JArr source_slices)]"

definition batch_row ::
  "stdlib \<Rightarrow> formatter_config \<Rightarrow> uuid \<Rightarrow> timestamp \<Rightarrow> formatter_attempt
     \<Rightarrow> ((int \<times> int) \<times> slice_record \<times> string option) list \<Rightarrow> formatter_batch" where
  "batch_row sl cfg rid now a items =
     (let source_slices = map (\<lambda>(key, x, m). JObj (source_item_json key x)) items in
      \<lparr>fb_revision_id = rid, fb_batch_index = fa_batch_index a, fb_attempt = fa_attempt_number a,
       fb_status = (if fa_valid a then FB_VALID else FB_FAILED),
       fb_page_slices = JArr (map (\<lambda>(key, x, m). JObj (source_item_json key x @
          [(''markdown_projection_sha256'', string_json m)])) items),
       fb_source_manifest_sha256 = manifest_hash sl (JArr source_slices),
       fb_request_sha256 = manifest_hash sl (request_manifest cfg source_slices),
       fb_response_sha256 = fa_response_sha256 a,
       fb_finish_reason = (if fa_valid a then Some ''stop'' else None),
       fb_validation_errors = (case fa_diagnostic a of None \<Rightarrow> [] | Some d \<Rightarrow> [sanitize d]),
       fb_started_at = Some now, fb_completed_at = Some now\<rparr>)"

fun batch_rows ::
  "stdlib \<Rightarrow> formatter_config \<Rightarrow> uuid \<Rightarrow> timestamp \<Rightarrow> ((int \<times> int) \<times> slice_record) list
     \<Rightarrow> (int \<times> (int \<times> int) list) list \<Rightarrow> (int \<times> int) list \<Rightarrow> formatter_attempt list
     \<Rightarrow> worker_error + formatter_batch list" where
  "batch_rows sl cfg rid now known keys_of seen_attempts [] = Inr []"
| "batch_rows sl cfg rid now known keys_of seen_attempts (a # as) =
     (if (fa_batch_index a, fa_attempt_number a) \<in> set seen_attempts
      then Inl (correlation_error ''formatter attempts were duplicated or incomplete'')
      else case map_of keys_of (fa_batch_index a) of
        None \<Rightarrow> Inl (correlation_error ''formatter attempts were duplicated or incomplete'')
      | Some keys \<Rightarrow>
          if \<not> distinct (attempt_keys a)
          then Inl (correlation_error ''formatter attempt projections were duplicated'')
          else rbind (attempt_items known a keys) (\<lambda>items.
            if fa_valid a \<and> (set (attempt_keys a) \<noteq> set keys
               \<or> list_ex (\<lambda>(key, x, m). m \<noteq> Some (sr_markdown_projection_sha256 x)) items)
            then Inl (correlation_error ''valid formatter attempt projections did not match'')
            else rbind (batch_rows sl cfg rid now known keys_of
                 ((fa_batch_index a, fa_attempt_number a) # seen_attempts) as) (\<lambda>rest.
              Inr (batch_row sl cfg rid now a items # rest))))"

definition formatter_batch_records ::
  "stdlib \<Rightarrow> formatter_config \<Rightarrow> uuid \<Rightarrow> timestamp \<Rightarrow> formatted_document \<Rightarrow> ((int \<times> int) \<times> slice_record) list
     \<Rightarrow> worker_error + formatter_batch list" where
  "formatter_batch_records sl cfg rid now d known =
     rbind (keys_by_batch [] (fd_attempts d)) (\<lambda>keys_of.
       if keys_of = [] then Inl (correlation_error ''formatter returned no valid batches'')
       else rbind (batch_rows sl cfg rid now known keys_of [] (fd_attempts d)) (\<lambda>records.
         if set (map fst keys_of) \<noteq> set (map int [0..<length keys_of])
         then Inl (correlation_error ''formatter batch indexes were not consecutive'')
         else Inr records))"

section \<open>Recording the Markdown\<close>

definition page_row :: "uuid \<Rightarrow> page_record \<Rightarrow> prepared_page" where
  "page_row rid x = \<lparr>pp_revision_id = rid, pp_page_number = pr_page_number x,
     pp_slices = JArr (map slice_json (pr_slices x)), pp_markdown = pr_markdown x,
     pp_markdown_sha256 = pr_markdown_sha256 x,
     pp_source_projection_sha256 = pr_source_projection_sha256 x,
     pp_markdown_projection_sha256 = pr_markdown_projection_sha256 x\<rparr>"

definition batch_check :: "formatter_batch \<Rightarrow> bool" where
  "batch_check b \<longleftrightarrow> 0 \<le> fb_batch_index b \<and> 1 \<le> fb_attempt b"

definition page_check :: "prepared_page \<Rightarrow> bool" where
  "page_check p \<longleftrightarrow> 1 \<le> pp_page_number p \<and> length (pp_markdown_sha256 p) = 64
     \<and> length (pp_source_projection_sha256 p) = 64 \<and> length (pp_markdown_projection_sha256 p) = 64"

definition insert_formatted ::
  "formatter_batch list \<Rightarrow> prepared_page list \<Rightarrow> catalog \<Rightarrow> worker_error + catalog" where
  "insert_formatted bs ps c =
     (if \<not> distinct (map (\<lambda>b. (fb_revision_id b, fb_batch_index b, fb_attempt b)) (formatter_batches c @ bs))
         \<or> \<not> distinct (map (\<lambda>p. (pp_revision_id p, pp_page_number p)) (prepared_pages c @ ps))
         \<or> \<not> list_all batch_check bs \<or> \<not> list_all page_check ps
      then Inl (preparation_error ''record_formatting_failed'' ''validated formatter artifacts could not be recorded'')
      else Inr (c\<lparr>formatter_batches := formatter_batches c @ bs, prepared_pages := prepared_pages c @ ps\<rparr>))"

definition formatting_recorded :: "string \<Rightarrow> prepared_revision \<Rightarrow> prepared_revision" where
  "formatting_recorded markdown_sha256 r =
     r\<lparr>rev_formatter_complete := True, rev_markdown_sha256 := Some markdown_sha256\<rparr>"

definition stored_extracts :: "catalog \<Rightarrow> uuid \<Rightarrow> extracted_page list" where
  "stored_extracts c rid = sort_key xp_page_number (filter (\<lambda>x. xp_revision_id x = rid) (extracted_pages c))"

definition stored_pages :: "catalog \<Rightarrow> uuid \<Rightarrow> prepared_page list" where
  "stored_pages c rid = sort_key pp_page_number (filter (\<lambda>x. pp_revision_id x = rid) (prepared_pages c))"

definition check_formatter_identity ::
  "preparation_handle \<Rightarrow> formatted_document \<Rightarrow> formatter_config \<Rightarrow> worker_error + unit" where
  "check_formatter_identity h d cfg =
     (let i = ph_identity h in
      if fcfg_model_id cfg \<noteq> pid_formatter_model_id i
         \<or> fcfg_expected_tokenizer_class cfg \<noteq> pid_formatter_tokenizer_class i
      then Inl (preparation_error ''formatter_identity_mismatch''
        ''formatter model or tokenizer did not match the revision'')
      else if fd_formatter_version d \<noteq> MARKDOWN_FORMATTER_VERSION
      then Inl (preparation_error ''formatter_identity_mismatch''
        ''formatter version did not match the target profile'')
      else if fd_tokenizer_class d \<noteq> pid_formatter_tokenizer_class i
      then Inl (preparation_error ''formatter_identity_mismatch''
        ''formatter response tokenizer did not match the target profile'')
      else Inr ())"

definition markdown_of_records :: "page_record list \<Rightarrow> worker_error + string" where
  "markdown_of_records records =
     (case canonical_markdown (map (\<lambda>x. \<lparr>mp_page_number = pr_page_number x, mp_markdown = pr_markdown x\<rparr>) records) of
        Inl e \<Rightarrow> Inl (preparation_error ''record_formatting_failed''
          ''validated formatter artifacts could not be recorded'')
      | Inr markdown \<Rightarrow> Inr markdown)"

definition record_formatting ::
  "stdlib \<Rightarrow> preparation_handle \<Rightarrow> formatted_document \<Rightarrow> formatter_config \<Rightarrow> timestamp \<Rightarrow> catalog
     \<Rightarrow> worker_error + string \<times> catalog" where
  "record_formatting sl h d cfg now c =
     rbind (check_formatter_identity h d cfg) (\<lambda>_.
     rbind (load_revision (ph_revision_id h) (Some REV_PREPARING) c) (\<lambda>r.
     rbind (validate_revision_identity r h) (\<lambda>_.
     let extracted = stored_extracts c (rev_id r) in
     if extracted = [] \<or> rev_page_count r \<noteq> Some (int (length extracted))
     then Inl (preparation_error ''stage_order'' ''complete extraction must be recorded before formatting'')
     else if filter (\<lambda>p. pp_revision_id p = rev_id r) (prepared_pages c) \<noteq> []
     then Inl (preparation_error ''stage_already_recorded'' ''formatter artifacts were already recorded'')
     else
     rbind (formatted_slice_records sl d extracted) (\<lambda>records.
     rbind (formatter_batch_records sl cfg (rev_id r) now d (slices_by_key records)) (\<lambda>batches.
     rbind (markdown_of_records records) (\<lambda>markdown.
     rbind (lift_lifecycle (prevent_sealed_child_insert c (rev_id r))) (\<lambda>_.
     rbind (insert_formatted batches (map (page_row (rev_id r)) records) c) (\<lambda>c1.
     rbind (lift_lifecycle (upd_revision (rev_id r) (formatting_recorded (sl_sha256 sl markdown)) c1)) (\<lambda>c2.
       Inr (sl_sha256 sl markdown, c2))))))))))"

definition load_prepared_markdown_pages ::
  "preparation_handle \<Rightarrow> catalog \<Rightarrow> worker_error + markdown_page list" where
  "load_prepared_markdown_pages h c =
     rbind (load_revision (ph_revision_id h) (Some REV_PREPARING) c) (\<lambda>r.
     rbind (validate_revision_identity r h) (\<lambda>_.
     if \<not> rev_formatter_complete r
     then Inl (preparation_error ''stage_order'' ''complete formatter artifacts must be recorded first'')
     else let rows = stored_pages c (rev_id r) in
       if rev_page_count r \<noteq> Some (int (length rows))
       then Inl (correlation_error ''persisted Markdown page coverage was incomplete'')
       else Inr (map (\<lambda>p. \<lparr>mp_page_number = pp_page_number p, mp_markdown = pp_markdown p\<rparr>) rows)))"

end
