(* ===== verification/Profiles.thy ===== *)
theory Profiles
  imports Stages
begin

text \<open>
  Profile identities, from \<^verbatim>\<open>pdf_bridge/services/profiles.py\<close>, and their validation when a preparation
  starts and is sealed (\<^verbatim>\<open>validate_preparation_identity\<close> of \<^verbatim>\<open>services/preparation.py\<close>).  A profile is
  the hash of its canonical JSON; the index profile contains the content profile's identifier and
  the policy profile the index profile's.
\<close>

section \<open>Profile material\<close>

text \<open>Python values as the profile code tells them apart; a float that is not finite is \<open>MFloat None\<close>,
  a mapping key that is no string \<open>None\<close>, any other object \<open>MOther\<close>.\<close>

datatype material =
  MNone
| MBool bool
| MInt int
| MFloat "rat option"
| MStr string
| MMap "(string option \<times> material) list"
| MList "material list"
| MOther

datatype profile_error = ProfileValueError | ProfileTypeError

definition profile_key_ok :: "string option \<Rightarrow> bool" where
  "profile_key_ok key = (case key of None \<Rightarrow> False | Some k \<Rightarrow> k \<noteq> [] \<and> list_all (\<lambda>c. 32 \<le> char_code c) k)"

fun canonical_value :: "stdlib \<Rightarrow> material \<Rightarrow> profile_error + json"
  and canonical_members :: "stdlib \<Rightarrow> (string option \<times> material) list \<Rightarrow> profile_error + (string \<times> json) list"
  and canonical_items :: "stdlib \<Rightarrow> material list \<Rightarrow> profile_error + json list" where
  "canonical_value sl MNone = Inr JNull"
| "canonical_value sl (MBool b) = Inr (JBool b)"
| "canonical_value sl (MInt i) = Inr (JInt i)"
| "canonical_value sl (MFloat x) = (case x of None \<Rightarrow> Inl ProfileValueError | Some q \<Rightarrow> Inr (jfloat sl q))"
| "canonical_value sl (MStr s) = Inr (JStr s)"
| "canonical_value sl (MMap kvs) = rbind (canonical_members sl kvs) (\<lambda>members. Inr (JObj members))"
| "canonical_value sl (MList xs) = rbind (canonical_items sl xs) (\<lambda>items. Inr (JArr items))"
| "canonical_value sl MOther = Inl ProfileTypeError"
| "canonical_members sl [] = Inr []"
| "canonical_members sl ((key, nested) # kvs) =
     (if \<not> profile_key_ok key then Inl ProfileTypeError
      else rbind (canonical_value sl nested) (\<lambda>v.
        rbind (canonical_members sl kvs) (\<lambda>rest. Inr ((the key, v) # rest))))"
| "canonical_items sl [] = Inr []"
| "canonical_items sl (x # xs) =
     rbind (canonical_value sl x) (\<lambda>v. rbind (canonical_items sl xs) (\<lambda>rest. Inr (v # rest)))"

section \<open>Identities\<close>

record profile_identity =
  pf_profile_id :: string
  pf_canonical_json :: string

record pipeline_profiles =
  pp_content :: profile_identity
  pp_index :: profile_identity
  pp_preflight_policy :: profile_identity

definition PROFILE_SCHEMA_VERSION :: int where
  "PROFILE_SCHEMA_VERSION = 1"

definition hex_char :: "char \<Rightarrow> bool" where
  "hex_char c = (let n = char_code c in (48 \<le> n \<and> n \<le> 57) \<or> (97 \<le> n \<and> n \<le> 102))"

definition is_sha256 :: "string \<Rightarrow> bool" where
  "is_sha256 s \<longleftrightarrow> length s = 64 \<and> list_all hex_char s"

definition is_profile_id :: "string \<Rightarrow> bool" where
  "is_profile_id s \<longleftrightarrow> take 7 s = ''sha256:'' \<and> is_sha256 (drop 7 s)"

definition collection_char :: "char \<Rightarrow> bool" where
  "collection_char c \<longleftrightarrow> identity_start c \<or> c \<in> set ''._-''"

definition is_collection_name :: "string \<Rightarrow> bool" where
  "is_collection_name s \<longleftrightarrow> s \<noteq> [] \<and> identity_start (hd s) \<and> list_all collection_char (tl s) \<and> length s \<le> 255"

definition profile_of :: "stdlib \<Rightarrow> (string \<times> json) list \<Rightarrow> profile_identity" where
  "profile_of sl members =
     \<lparr>pf_profile_id = ''sha256:'' @ sl_sha256 sl (dumps (JObj members)), pf_canonical_json = dumps (JObj members)\<rparr>"

definition validated_inputs :: "stdlib \<Rightarrow> material \<Rightarrow> profile_error + json" where
  "validated_inputs sl inputs =
     (case inputs of
        MMap kvs \<Rightarrow> if kvs = [] then Inl ProfileValueError else canonical_value sl inputs
      | _ \<Rightarrow> Inl ProfileTypeError)"

definition content_members :: "json \<Rightarrow> (string \<times> json) list" where
  "content_members inputs = [(''profile_schema_version'', JInt PROFILE_SCHEMA_VERSION),
     (''profile_kind'', JStr ''content''), (''inputs'', inputs)]"

definition build_content_profile :: "stdlib \<Rightarrow> material \<Rightarrow> profile_error + profile_identity" where
  "build_content_profile sl inputs =
     rbind (validated_inputs sl inputs) (\<lambda>v. Inr (profile_of sl (content_members v)))"

definition index_members :: "string \<Rightarrow> string \<Rightarrow> json \<Rightarrow> (string \<times> json) list" where
  "index_members content_profile_id active_collection inputs =
     [(''profile_schema_version'', JInt PROFILE_SCHEMA_VERSION), (''profile_kind'', JStr ''index''),
      (''content_profile_id'', JStr content_profile_id), (''active_qdrant_collection'', JStr active_collection),
      (''inputs'', inputs)]"

definition build_index_profile :: "stdlib \<Rightarrow> material \<Rightarrow> string \<Rightarrow> string \<Rightarrow> profile_error + profile_identity" where
  "build_index_profile sl inputs content_profile_id active_collection =
     (if \<not> is_profile_id content_profile_id \<or> \<not> is_collection_name active_collection then Inl ProfileValueError
      else rbind (validated_inputs sl inputs) (\<lambda>v.
        Inr (profile_of sl (index_members content_profile_id active_collection v))))"

definition policy_members :: "string \<Rightarrow> json \<Rightarrow> (string \<times> json) list" where
  "policy_members index_profile_id inputs =
     [(''profile_schema_version'', JInt PROFILE_SCHEMA_VERSION), (''profile_kind'', JStr ''preflight_policy''),
      (''index_profile_id'', JStr index_profile_id), (''inputs'', inputs)]"

definition build_preflight_policy_profile :: "stdlib \<Rightarrow> material \<Rightarrow> string \<Rightarrow> profile_error + profile_identity" where
  "build_preflight_policy_profile sl inputs index_profile_id =
     (if \<not> is_profile_id index_profile_id then Inl ProfileValueError
      else rbind (validated_inputs sl inputs) (\<lambda>v. Inr (profile_of sl (policy_members index_profile_id v))))"

definition build_pipeline_profiles ::
  "stdlib \<Rightarrow> material \<Rightarrow> material \<Rightarrow> material \<Rightarrow> string \<Rightarrow> profile_error + pipeline_profiles" where
  "build_pipeline_profiles sl content_inputs index_inputs policy_inputs active_collection =
     rbind (build_content_profile sl content_inputs) (\<lambda>content.
     rbind (build_index_profile sl index_inputs (pf_profile_id content) active_collection) (\<lambda>index.
     rbind (build_preflight_policy_profile sl policy_inputs (pf_profile_id index)) (\<lambda>policy.
       Inr \<lparr>pp_content = content, pp_index = index, pp_preflight_policy = policy\<rparr>)))"

section \<open>Validation\<close>

definition profile_mismatch :: "string \<Rightarrow> worker_error" where
  "profile_mismatch message = preparation_error ''profile_mismatch'' message"

definition validate_profile_identity ::
  "stdlib \<Rightarrow> (string \<Rightarrow> json option) \<Rightarrow> profile_identity \<Rightarrow> string \<Rightarrow> worker_error + (string \<times> json) list" where
  "validate_profile_identity sl loads p kind =
     (if \<not> is_profile_id (pf_profile_id p) then Inl (profile_mismatch (kind @ '' profile ID was invalid''))
      else if pf_profile_id p \<noteq> ''sha256:'' @ sl_sha256 sl (pf_canonical_json p)
      then Inl (profile_mismatch (kind @ '' profile hash did not match''))
      else case loads (pf_canonical_json p) of
        None \<Rightarrow> Inl (profile_mismatch (kind @ '' profile JSON was invalid''))
      | Some payload \<Rightarrow>
          (case payload of
             JObj members \<Rightarrow>
               if obj_get members ''profile_kind'' \<noteq> JStr kind
               then Inl (profile_mismatch (kind @ '' profile kind did not match''))
               else Inr members
           | _ \<Rightarrow> Inl (profile_mismatch (kind @ '' profile kind did not match''))))"

definition visible_name :: "string \<Rightarrow> bool" where
  "visible_name s \<longleftrightarrow> s \<noteq> [] \<and> length s \<le> 255 \<and> list_all (\<lambda>c. 33 \<le> char_code c) s"

definition model_id_ok :: "string \<Rightarrow> bool" where
  "model_id_ok s \<longleftrightarrow> py_strip s \<noteq> [] \<and> length s \<le> 255"

definition check_model_ids :: "preparation_identity \<Rightarrow> worker_error + unit" where
  "check_model_ids i =
     (if \<not> visible_name (pid_active_collection i)
      then Inl (preparation_error ''invalid_target'' ''active Qdrant collection was invalid'')
      else if \<not> model_id_ok (pid_formatter_model_id i)
      then Inl (preparation_error ''invalid_model_identity'' ''formatter model identity was invalid'')
      else if \<not> model_id_ok (pid_dense_model_id i)
      then Inl (preparation_error ''invalid_model_identity'' ''dense model identity was invalid'')
      else if \<not> model_id_ok (pid_sparse_model_id i)
      then Inl (preparation_error ''invalid_model_identity'' ''sparse model identity was invalid'')
      else if \<not> visible_name (pid_formatter_tokenizer_class i)
      then Inl (preparation_error ''invalid_model_identity'' ''formatter tokenizer identity was invalid'')
      else Inr ())"

text \<open>The identity holds the profile identifiers, \<open>profiles\<close> their canonical texts.\<close>

definition with_profiles :: "preparation_identity \<Rightarrow> pipeline_profiles \<Rightarrow> preparation_identity" where
  "with_profiles i profiles =
     i\<lparr>pid_content_profile_id := pf_profile_id (pp_content profiles),
       pid_index_profile_id := pf_profile_id (pp_index profiles),
       pid_preflight_policy_id := pf_profile_id (pp_preflight_policy profiles)\<rparr>"

definition validate_preparation_identity ::
  "stdlib \<Rightarrow> (string \<Rightarrow> json option) \<Rightarrow> preparation_identity \<Rightarrow> pipeline_profiles \<Rightarrow> worker_error + unit" where
  "validate_preparation_identity sl loads i profiles =
     rbind (check_model_ids i) (\<lambda>_.
     rbind (validate_profile_identity sl loads (pp_content profiles) ''content'') (\<lambda>content.
     rbind (validate_profile_identity sl loads (pp_index profiles) ''index'') (\<lambda>index.
     rbind (validate_profile_identity sl loads (pp_preflight_policy profiles) ''preflight_policy'') (\<lambda>policy.
     rbind (case obj_get content ''inputs'' of
         JObj inputs \<Rightarrow>
           if obj_get inputs ''formatter_tokenizer_class'' \<noteq> JStr (pid_formatter_tokenizer_class i)
           then Inl (profile_mismatch ''content profile did not bind the formatter tokenizer'') else Inr ()
       | _ \<Rightarrow> Inl (profile_mismatch ''content profile did not bind the formatter tokenizer'')) (\<lambda>_.
     if obj_get content ''profile_schema_version'' \<noteq> obj_get index ''profile_schema_version''
     then Inl (profile_mismatch ''content and index profile schemas differed'')
     else if obj_get index ''content_profile_id'' \<noteq> JStr (pf_profile_id (pp_content profiles))
     then Inl (profile_mismatch ''index profile did not bind the content profile'')
     else if obj_get index ''active_qdrant_collection'' \<noteq> JStr (pid_active_collection i)
     then Inl (profile_mismatch ''index profile did not bind the active target'')
     else if obj_get policy ''index_profile_id'' \<noteq> JStr (pf_profile_id (pp_index profiles))
     then Inl (profile_mismatch ''policy profile did not bind the index profile'')
     else Inr ())))))"

text \<open>The start of a preparation: identity, then the revision.\<close>

definition begin_preparation ::
  "stdlib \<Rightarrow> (string \<Rightarrow> json option) \<Rightarrow> pipeline_profiles \<Rightarrow> uuid \<Rightarrow> preparation_identity \<Rightarrow> timestamp \<Rightarrow> catalog
     \<Rightarrow> worker_error + preparation_handle \<times> catalog" where
  "begin_preparation sl loads profiles did i now c =
     rbind (validate_preparation_identity sl loads i profiles) (\<lambda>_.
       create_revision did (with_profiles i profiles) now c)"

section \<open>Chained identities\<close>

lemma dumps_sorted:
  assumes "sorted (map fst kvs)"
  shows "dumps (JObj kvs) = ''{'' @ py_join '','' (map (\<lambda>(k, v). json_str k @ '':'' @ dumps v) kvs) @ ''}''"
proof -
  let ?xs = "map (\<lambda>(k, v). (k, dumps v)) kvs"
  have "map fst ?xs = map fst kvs"
    by (simp add: case_prod_beta)
  then have "sorted (map fst ?xs)"
    using assms by metis
  then have sort: "sort_key fst ?xs = ?xs"
    by (rule sort_key_id_if_sorted)
  have maps: "map (\<lambda>(k, v). json_str k @ '':'' @ v) ?xs = map (\<lambda>(k, v). json_str k @ '':'' @ dumps v) kvs"
    by (simp add: case_prod_beta comp_def)
  show ?thesis
    by (simp only: dumps.simps sort maps)
qed

definition plain_char :: "char \<Rightarrow> bool" where
  "plain_char c \<longleftrightarrow> 32 \<le> char_code c \<and> char_code c \<noteq> 34 \<and> char_code c \<noteq> 92"

lemma json_str_plain:
  assumes "list_all plain_char s"
  shows "json_str s = [char_of (34::nat)] @ s @ [char_of (34::nat)]"
proof -
  have "concat (map escape_char s) = s"
    using assms by (induction s) (auto simp: escape_char_def plain_char_def Let_def)
  then show ?thesis
    by (simp add: json_str_def)
qed

lemma hex_char_plain: "hex_char c \<Longrightarrow> plain_char c"
  by (auto simp: hex_char_def plain_char_def Let_def)

lemma profile_id_plain:
  assumes "is_profile_id p"
  shows "list_all plain_char p" and "length p = 71"
proof -
  have p: "p = ''sha256:'' @ drop 7 p" "length (drop 7 p) = 64" "list_all hex_char (drop 7 p)"
    using assms append_take_drop_id [of 7 p] by (auto simp: is_profile_id_def is_sha256_def)
  have "list_all plain_char ''sha256:''"
    by code_simp
  moreover have "list_all plain_char (drop 7 p)"
    using p(3) hex_char_plain by (auto simp: list_all_iff)
  ultimately show "list_all plain_char p"
    by (subst p(1)) simp
  show "length p = 71"
    by (subst p(1)) (simp add: p(2) del: length_drop)
qed

lemma collection_char_plain: "collection_char c \<Longrightarrow> plain_char c"
  by (auto simp: collection_char_def identity_start_def is_ascii_letter_def plain_char_def Let_def char_code_def)

lemma collection_plain:
  assumes "is_collection_name s"
  shows "list_all plain_char s"
proof -
  have "\<forall>c\<in>set s. collection_char c"
    using assms by (cases s) (auto simp: is_collection_name_def list_all_iff collection_char_def)
  then show ?thesis
    using collection_char_plain by (auto simp: list_all_iff)
qed

lemma dumps_policy:
  assumes "is_profile_id pid"
  shows "\<exists>rest. dumps (JObj (policy_members pid inputs)) =
    ''{'' @ json_str ''index_profile_id'' @ '':'' @ [char_of (34::nat)] @ pid @ rest"
proof -
  let ?kvs = "[(''index_profile_id'', JStr pid), (''inputs'', inputs), (''profile_kind'', JStr ''preflight_policy''),
    (''profile_schema_version'', JInt PROFILE_SCHEMA_VERSION)]"
  have "dumps (JObj (policy_members pid inputs)) = dumps (JObj ?kvs)"
    by (rule dumps_obj_order) (auto simp: policy_members_def)
  also have "sorted (map fst ?kvs)"
    unfolding list.map fst_conv by code_simp
  note dumps_sorted [OF this]
  finally show ?thesis
    using json_str_plain [OF profile_id_plain(1) [OF assms]] by simp
qed

lemma dumps_index:
  assumes "is_profile_id cid" and "is_collection_name name"
  shows "\<exists>rest. dumps (JObj (index_members cid name inputs)) =
    ''{'' @ json_str ''active_qdrant_collection'' @ '':'' @ [char_of (34::nat)] @ name @ [char_of (34::nat)]
      @ '','' @ json_str ''content_profile_id'' @ '':'' @ [char_of (34::nat)] @ cid @ rest"
proof -
  let ?kvs = "[(''active_qdrant_collection'', JStr name), (''content_profile_id'', JStr cid), (''inputs'', inputs),
    (''profile_kind'', JStr ''index''), (''profile_schema_version'', JInt PROFILE_SCHEMA_VERSION)]"
  have "dumps (JObj (index_members cid name inputs)) = dumps (JObj ?kvs)"
    by (rule dumps_obj_order) (auto simp: index_members_def)
  also have "sorted (map fst ?kvs)"
    unfolding list.map fst_conv by code_simp
  note dumps_sorted [OF this]
  finally show ?thesis
    using json_str_plain [OF profile_id_plain(1) [OF assms(1)]] json_str_plain [OF collection_plain [OF assms(2)]] by simp
qed

lemma policy_text_inj:
  assumes "dumps (JObj (policy_members p inputs)) = dumps (JObj (policy_members q inputs'))"
    and "is_profile_id p" and "is_profile_id q"
  shows "p = q"
proof -
  obtain r r' where "''{'' @ json_str ''index_profile_id'' @ '':'' @ [char_of (34::nat)] @ p @ r
      = ''{'' @ json_str ''index_profile_id'' @ '':'' @ [char_of (34::nat)] @ q @ r'"
    using dumps_policy [OF assms(2), of inputs] dumps_policy [OF assms(3), of inputs'] assms(1) by metis
  then have "p @ r = q @ r'"
    by simp
  then show ?thesis
    using profile_id_plain(2) [OF assms(2)] profile_id_plain(2) [OF assms(3)] by simp
qed

lemma plain_until:
  assumes "a @ [q] @ r = b @ [q] @ r'" and "q \<notin> set a" and "q \<notin> set b"
  shows "a = b \<and> r = r'"
proof -
  have "takeWhile (\<lambda>c. c \<noteq> q) (a @ [q] @ r) = a" "takeWhile (\<lambda>c. c \<noteq> q) (b @ [q] @ r') = b"
    using assms(2,3) by (auto simp: takeWhile_append)
  with assms(1) show ?thesis
    by simp
qed

lemma index_text_inj:
  assumes "dumps (JObj (index_members p name inputs)) = dumps (JObj (index_members q name' inputs'))"
    and "is_profile_id p" "is_collection_name name" and "is_profile_id q" "is_collection_name name'"
  shows "p = q \<and> name = name'"
proof -
  let ?mid = "\<lambda>cid r. '','' @ json_str ''content_profile_id'' @ '':'' @ [char_of (34::nat)] @ cid @ r"
  let ?start = "''{'' @ json_str ''active_qdrant_collection'' @ '':'' @ [char_of (34::nat)]"
  obtain r where r: "dumps (JObj (index_members p name inputs)) = ?start @ name @ [char_of (34::nat)] @ ?mid p r"
    using dumps_index [OF assms(2,3), of inputs] by (elim exE) simp
  obtain r' where r': "dumps (JObj (index_members q name' inputs')) = ?start @ name' @ [char_of (34::nat)] @ ?mid q r'"
    using dumps_index [OF assms(4,5), of inputs'] by (elim exE) simp
  have "name @ [char_of (34::nat)] @ ?mid p r = name' @ [char_of (34::nat)] @ ?mid q r'"
    using assms(1) unfolding r r' by simp
  moreover have "char_of (34::nat) \<notin> set name" "char_of (34::nat) \<notin> set name'"
    using collection_plain [OF assms(3)] collection_plain [OF assms(5)]
    by (auto simp: list_all_iff plain_char_def char_code_def)
  ultimately have "name = name' \<and> ?mid p r = ?mid q r'"
    by (intro plain_until)
  then show ?thesis
    using profile_id_plain(2) [OF assms(2)] profile_id_plain(2) [OF assms(4)] by simp
qed

lemma build_pipelineE:
  assumes "build_pipeline_profiles sl content_inputs index_inputs policy_inputs coll = Inr p"
  obtains c i q where "pp_content p = profile_of sl (content_members c)"
    and "pp_index p = profile_of sl (index_members (pf_profile_id (pp_content p)) coll i)"
    and "pp_preflight_policy p = profile_of sl (policy_members (pf_profile_id (pp_index p)) q)"
    and "is_profile_id (pf_profile_id (pp_content p))" and "is_profile_id (pf_profile_id (pp_index p))"
    and "is_collection_name coll"
    and "validated_inputs sl content_inputs = Inr c"
  using assms by (auto simp: build_pipeline_profiles_def build_content_profile_def build_index_profile_def
      build_preflight_policy_profile_def result_simps)

text \<open>C23. The policy profile identifier stands for the whole pipeline: as long as SHA-256 does not collide
  on the profile texts involved, two pipelines with the same policy identifier have the same index
  and content profile identifiers and texts and the same resolved collection.\<close>

theorem policy_id_binds_pipeline:
  assumes "build_pipeline_profiles sl c1 i1 q1 coll1 = Inr p1" and "build_pipeline_profiles sl c2 i2 q2 coll2 = Inr p2"
    and "pf_profile_id (pp_preflight_policy p1) = pf_profile_id (pp_preflight_policy p2)"
    and "\<forall>f\<in>{pp_content, pp_index, pp_preflight_policy}.
      sl_sha256 sl (pf_canonical_json (f p1)) = sl_sha256 sl (pf_canonical_json (f p2))
        \<longrightarrow> pf_canonical_json (f p1) = pf_canonical_json (f p2)"
  shows "p1 = p2 \<and> coll1 = coll2"
proof -
  obtain a b d where p1: "pp_content p1 = profile_of sl (content_members a)"
    "pp_index p1 = profile_of sl (index_members (pf_profile_id (pp_content p1)) coll1 b)"
    "pp_preflight_policy p1 = profile_of sl (policy_members (pf_profile_id (pp_index p1)) d)"
    "is_profile_id (pf_profile_id (pp_content p1))" "is_profile_id (pf_profile_id (pp_index p1))" "is_collection_name coll1"
    using build_pipelineE [OF assms(1)] by metis
  obtain a' b' d' where p2: "pp_content p2 = profile_of sl (content_members a')"
    "pp_index p2 = profile_of sl (index_members (pf_profile_id (pp_content p2)) coll2 b')"
    "pp_preflight_policy p2 = profile_of sl (policy_members (pf_profile_id (pp_index p2)) d')"
    "is_profile_id (pf_profile_id (pp_content p2))" "is_profile_id (pf_profile_id (pp_index p2))" "is_collection_name coll2"
    using build_pipelineE [OF assms(2)] by metis
  have same: "f p1 = f p2" if "pf_profile_id (f p1) = pf_profile_id (f p2)" "f \<in> {pp_content, pp_index, pp_preflight_policy}"
      "f p1 = profile_of sl m1" "f p2 = profile_of sl m2" for f :: "pipeline_profiles \<Rightarrow> profile_identity" and m1 m2
  proof -
    have "sl_sha256 sl (dumps (JObj m1)) = sl_sha256 sl (dumps (JObj m2))"
      using that by (simp add: profile_of_def)
    with assms(4) that(2-4) have "dumps (JObj m1) = dumps (JObj m2)"
      by (auto simp: profile_of_def)
    then show ?thesis
      using that(3,4) by (simp add: profile_of_def)
  qed
  have policy: "pp_preflight_policy p1 = pp_preflight_policy p2"
    by (rule same [OF assms(3) _ p1(3) p2(3)]) simp
  then have "pf_profile_id (pp_index p1) = pf_profile_id (pp_index p2)"
    using policy_text_inj p1(3,5) p2(3,5) by (metis profile_of_def profile_identity.select_convs(2))
  then have index: "pp_index p1 = pp_index p2"
    by (rule same [OF _ _ p1(2) p2(2)]) simp
  then have *: "pf_profile_id (pp_content p1) = pf_profile_id (pp_content p2) \<and> coll1 = coll2"
    using index_text_inj p1(2,4,6) p2(2,4,6) by (metis profile_of_def profile_identity.select_convs(2))
  then have "pp_content p1 = pp_content p2"
    by (intro same [OF _ _ p1(1) p2(1)]) simp_all
  with policy index * show ?thesis
    by simp
qed

section \<open>Built profiles are accepted\<close>

text \<open>What \<^verbatim>\<open>json.loads\<close> gives for the text of a mapping: the same scalars, and mappings in it have the same
  strings.\<close>

definition reads_back :: "(string \<times> json) list \<Rightarrow> (string \<times> json) list \<Rightarrow> bool" where
  "reads_back m' m \<longleftrightarrow>
     (\<forall>k v. map_of m k = Some v \<and> ((\<exists>s. v = JStr s) \<or> (\<exists>i. v = JInt i)) \<longrightarrow> obj_get m' k = v)
     \<and> (\<forall>k inner. map_of m k = Some (JObj inner) \<longrightarrow> (\<exists>inner'. obj_get m' k = JObj inner'
          \<and> (\<forall>j s. obj_get inner j = JStr s \<longrightarrow> obj_get inner' j = JStr s)))"

definition reads :: "(string \<Rightarrow> json option) \<Rightarrow> (string \<times> json) list \<Rightarrow> bool" where
  "reads loads m \<longleftrightarrow> (\<exists>m'. loads (dumps (JObj m)) = Some (JObj m') \<and> reads_back m' m)"

lemma reads_back_scalar:
  assumes "reads_back m' m" and "map_of m k = Some v" and "(\<exists>s. v = JStr s) \<or> (\<exists>i. v = JInt i)"
  shows "obj_get m' k = v"
  using assms unfolding reads_back_def by blast

lemma reads_back_object:
  assumes "reads_back m' m" and "map_of m k = Some (JObj inner)"
  obtains inner' where "obj_get m' k = JObj inner'" and "\<And>j s. obj_get inner j = JStr s \<Longrightarrow> obj_get inner' j = JStr s"
  using assms unfolding reads_back_def by blast

lemma canonical_members_get:
  "canonical_members sl kvs = Inr ms \<Longrightarrow> map_of kvs (Some k) = Some x
     \<Longrightarrow> \<exists>v. map_of ms k = Some v \<and> canonical_value sl x = Inr v"
proof (induction kvs arbitrary: ms)
  case (Cons kv kvs)
  then show ?case
    by (cases kv) (fastforce simp: result_simps profile_key_ok_def split: if_splits option.split_asm)
qed simp

text \<open>The arguments under which built profiles are accepted: the identity is well-formed and names the
  collection, the content inputs name its tokenizer, the digests are hexadecimal and the three texts
  are read back as written.\<close>

definition acceptable ::
  "stdlib \<Rightarrow> (string \<Rightarrow> json option) \<Rightarrow> preparation_identity \<Rightarrow> (string option \<times> material) list
     \<Rightarrow> material \<Rightarrow> material \<Rightarrow> string \<Rightarrow> pipeline_profiles \<Rightarrow> bool" where
  "acceptable sl loads i kvs index_inputs policy_inputs coll p \<longleftrightarrow>
     check_model_ids i = Inr () \<and> pid_active_collection i = coll
     \<and> map_of kvs (Some ''formatter_tokenizer_class'') = Some (MStr (pid_formatter_tokenizer_class i))
     \<and> (\<forall>s. is_sha256 (sl_sha256 sl s))
     \<and> (\<forall>v. validated_inputs sl (MMap kvs) = Inr v \<longrightarrow> reads loads (content_members v))
     \<and> (\<forall>v. validated_inputs sl index_inputs = Inr v
          \<longrightarrow> reads loads (index_members (pf_profile_id (pp_content p)) coll v))
     \<and> (\<forall>v. validated_inputs sl policy_inputs = Inr v
          \<longrightarrow> reads loads (policy_members (pf_profile_id (pp_index p)) v))"

lemma profile_of_id: "(\<forall>s. is_sha256 (sl_sha256 sl s)) \<Longrightarrow> is_profile_id (pf_profile_id (profile_of sl m))"
  by (simp add: profile_of_def is_profile_id_def)

lemma validate_profile_built:
  assumes "\<forall>s. is_sha256 (sl_sha256 sl s)" and "reads loads m" and "map_of m ''profile_kind'' = Some (JStr kind)"
  obtains m' where "validate_profile_identity sl loads (profile_of sl m) kind = Inr m'" and "reads_back m' m"
proof -
  obtain m' where read: "loads (dumps (JObj m)) = Some (JObj m')" and agree: "reads_back m' m"
    using assms(2) by (auto simp: reads_def)
  have "obj_get m' ''profile_kind'' = JStr kind"
    by (rule reads_back_scalar [OF agree assms(3)]) simp
  then have "validate_profile_identity sl loads (profile_of sl m) kind = Inr m'"
    using read profile_of_id [OF assms(1)] unfolding validate_profile_identity_def by (simp add: profile_of_def)
  with agree show ?thesis
    using that by blast
qed

lemma validate_built_profiles:
  assumes "build_pipeline_profiles sl (MMap kvs) index_inputs policy_inputs coll = Inr p"
    and "acceptable sl loads i kvs index_inputs policy_inputs coll p"
  shows "validate_preparation_identity sl loads i p = Inr ()"
proof -
  obtain c d q where content: "validated_inputs sl (MMap kvs) = Inr c" "pp_content p = profile_of sl (content_members c)"
    and index: "validated_inputs sl index_inputs = Inr d"
      "pp_index p = profile_of sl (index_members (pf_profile_id (pp_content p)) coll d)"
    and policy: "validated_inputs sl policy_inputs = Inr q"
      "pp_preflight_policy p = profile_of sl (policy_members (pf_profile_id (pp_index p)) q)"
    using assms(1) by (auto simp: build_pipeline_profiles_def build_content_profile_def build_index_profile_def
        build_preflight_policy_profile_def result_simps)
  have hex: "\<forall>s. is_sha256 (sl_sha256 sl s)" and ids: "check_model_ids i = Inr ()" "pid_active_collection i = coll"
    using assms(2) by (auto simp: acceptable_def)
  have "reads loads (content_members c)" "reads loads (index_members (pf_profile_id (pp_content p)) coll d)"
      "reads loads (policy_members (pf_profile_id (pp_index p)) q)"
    using assms(2) content index policy by (auto simp: acceptable_def)
  moreover have kinds: "map_of (content_members c) ''profile_kind'' = Some (JStr ''content'')"
      "map_of (index_members (pf_profile_id (pp_content p)) coll d) ''profile_kind'' = Some (JStr ''index'')"
      "map_of (policy_members (pf_profile_id (pp_index p)) q) ''profile_kind'' = Some (JStr ''preflight_policy'')"
    by (simp_all add: content_members_def index_members_def policy_members_def)
  ultimately obtain mc mi mp where mc: "validate_profile_identity sl loads (pp_content p) ''content'' = Inr mc"
      "reads_back mc (content_members c)"
    and mi: "validate_profile_identity sl loads (pp_index p) ''index'' = Inr mi"
      "reads_back mi (index_members (pf_profile_id (pp_content p)) coll d)"
    and mp: "validate_profile_identity sl loads (pp_preflight_policy p) ''preflight_policy'' = Inr mp"
      "reads_back mp (policy_members (pf_profile_id (pp_index p)) q)"
    using validate_profile_built [OF hex] content(2) index(2) policy(2) by metis
  have bound: "obj_get mc ''profile_schema_version'' = obj_get mi ''profile_schema_version''"
      "obj_get mi ''content_profile_id'' = JStr (pf_profile_id (pp_content p))"
      "obj_get mi ''active_qdrant_collection'' = JStr coll" "obj_get mp ''index_profile_id'' = JStr (pf_profile_id (pp_index p))"
    using reads_back_scalar [OF mc(2)] reads_back_scalar [OF mi(2)] reads_back_scalar [OF mp(2)]
    by (simp_all add: content_members_def index_members_def policy_members_def)
  obtain ms where ms: "c = JObj ms" "map_of ms ''formatter_tokenizer_class'' = Some (JStr (pid_formatter_tokenizer_class i))"
    using content(1) assms(2) canonical_members_get
    by (fastforce simp: validated_inputs_def acceptable_def result_simps split: if_splits)
  have "map_of (content_members c) ''inputs'' = Some (JObj ms)"
    by (simp add: content_members_def ms(1))
  from reads_back_object [OF mc(2) this] obtain inner where inner: "obj_get mc ''inputs'' = JObj inner"
    and strings: "\<And>j s. obj_get ms j = JStr s \<Longrightarrow> obj_get inner j = JStr s"
    by blast
  have "obj_get ms ''formatter_tokenizer_class'' = JStr (pid_formatter_tokenizer_class i)"
    by (simp add: obj_get_def ms(2))
  then have "obj_get inner ''formatter_tokenizer_class'' = JStr (pid_formatter_tokenizer_class i)"
    by (rule strings)
  with inner show ?thesis
    using ids mc(1) mi(1) mp(1) bound by (simp add: validate_preparation_identity_def)
qed

text \<open>C24. Profiles round trip: the profiles the pipeline builds for a well-formed identity pass the
  validation at the start and at the sealing of a preparation.\<close>

theorem built_profiles_validate:
  assumes "build_pipeline_profiles sl (MMap kvs) index_inputs policy_inputs coll = Inr p"
    and "acceptable sl loads i kvs index_inputs policy_inputs coll p"
  shows "validate_preparation_identity sl loads i p = Inr ()"
  by (rule validate_built_profiles [OF assms])

text \<open>A pipeline for the witnesses.\<close>

definition prof_stdlib :: stdlib where
  "prof_stdlib = \<lparr>sl_sha256 = (\<lambda>s. replicate 64 (CHR ''a'')), sl_uuid5 = (\<lambda>_ _. 0), sl_float_repr = (\<lambda>_. ''0.0''),
     sl_unit_norm = (\<lambda>_. True), sl_nfkc = (\<lambda>s. s)\<rparr>"

definition prof_inputs :: "(string option \<times> material) list" where
  "prof_inputs = [(Some ''formatter_tokenizer_class'', MStr ''T'')]"

definition prof_members :: "(string \<times> json) list" where
  "prof_members = [(''formatter_tokenizer_class'', JStr ''T'')]"

definition prof_id :: string where
  "prof_id = ''sha256:'' @ replicate 64 (CHR ''a'')"

definition prof_loads :: "string \<Rightarrow> json option" where
  "prof_loads s = Some (JObj (if s ! 2 = CHR ''a'' then index_members prof_id ''k'' (JObj prof_members)
     else if s ! 4 = CHR ''d'' then policy_members prof_id (JObj prof_members)
     else content_members (JObj prof_members)))"

definition prof_identity :: preparation_identity where
  "prof_identity = \<lparr>pid_active_collection = ''k'', pid_content_profile_id = prof_id, pid_index_profile_id = prof_id,
     pid_preflight_policy_id = prof_id, pid_formatter_model_id = ''m'', pid_formatter_tokenizer_class = ''T'',
     pid_dense_model_id = ''d'', pid_sparse_model_id = ''s''\<rparr>"

definition prof_pipeline :: pipeline_profiles where
  "prof_pipeline = \<lparr>pp_content = profile_of prof_stdlib (content_members (JObj prof_members)),
     pp_index = profile_of prof_stdlib (index_members prof_id ''k'' (JObj prof_members)),
     pp_preflight_policy = profile_of prof_stdlib (policy_members prof_id (JObj prof_members))\<rparr>"

lemma prof_validated: "validated_inputs prof_stdlib (MMap prof_inputs) = Inr (JObj prof_members)"
  by code_simp

lemma prof_profile_id [simp]: "pf_profile_id (profile_of prof_stdlib m) = prof_id"
  by (simp add: profile_of_def prof_stdlib_def prof_id_def)

lemma prof_id_ok: "is_profile_id prof_id" "is_collection_name ''k''" "check_model_ids prof_identity = Inr ()"
  by code_simp+

lemma prof_built:
  "build_pipeline_profiles prof_stdlib (MMap prof_inputs) (MMap prof_inputs) (MMap prof_inputs) ''k'' = Inr prof_pipeline"
  by (simp add: build_pipeline_profiles_def build_content_profile_def build_index_profile_def
      build_preflight_policy_profile_def prof_validated prof_id_ok prof_pipeline_def)

lemma reads_back_self: "reads_back m m"
  unfolding reads_back_def obj_get_def by auto

lemma content_text: "\<exists>rest. dumps (JObj (content_members v)) = ''{'' @ json_str ''inputs'' @ rest"
proof -
  let ?kvs = "[(''inputs'', v), (''profile_kind'', JStr ''content''), (''profile_schema_version'', JInt PROFILE_SCHEMA_VERSION)]"
  have "dumps (JObj (content_members v)) = dumps (JObj ?kvs)"
    by (rule dumps_obj_order) (auto simp: content_members_def)
  also have "sorted (map fst ?kvs)"
    unfolding list.map fst_conv by code_simp
  note dumps_sorted [OF this]
  finally show ?thesis
    by simp
qed

lemma prof_reads:
  "reads prof_loads (content_members (JObj prof_members))" "reads prof_loads (index_members prof_id ''k'' (JObj prof_members))"
  "reads prof_loads (policy_members prof_id (JObj prof_members))"
proof -
  have plain: "json_str s = [char_of (34::nat)] @ s @ [char_of (34::nat)]"
    if "s \<in> {''inputs'', ''active_qdrant_collection'', ''index_profile_id''}" for s
  proof (rule json_str_plain)
    have "\<forall>s\<in>{''inputs'', ''active_qdrant_collection'', ''index_profile_id''}. list_all plain_char s"
      by code_simp
    with that show "list_all plain_char s"
      by blast
  qed
  obtain r where "dumps (JObj (content_members (JObj prof_members))) = ''{'' @ json_str ''inputs'' @ r"
    using content_text by blast
  then have "prof_loads (dumps (JObj (content_members (JObj prof_members)))) = Some (JObj (content_members (JObj prof_members)))"
    by (simp add: prof_loads_def plain del: dumps.simps)
  moreover obtain r2 where "dumps (JObj (index_members prof_id ''k'' (JObj prof_members)))
      = ''{'' @ json_str ''active_qdrant_collection'' @ r2"
    using dumps_index [OF prof_id_ok(1,2), of "JObj prof_members"] by auto
  then have "prof_loads (dumps (JObj (index_members prof_id ''k'' (JObj prof_members))))
      = Some (JObj (index_members prof_id ''k'' (JObj prof_members)))"
    by (simp add: prof_loads_def plain del: dumps.simps)
  moreover obtain r3 where "dumps (JObj (policy_members prof_id (JObj prof_members)))
      = ''{'' @ json_str ''index_profile_id'' @ r3"
    using dumps_policy [OF prof_id_ok(1), of "JObj prof_members"] by auto
  then have "prof_loads (dumps (JObj (policy_members prof_id (JObj prof_members))))
      = Some (JObj (policy_members prof_id (JObj prof_members)))"
    by (simp add: prof_loads_def plain del: dumps.simps)
  ultimately show "reads prof_loads (content_members (JObj prof_members))"
    "reads prof_loads (index_members prof_id ''k'' (JObj prof_members))"
    "reads prof_loads (policy_members prof_id (JObj prof_members))"
    unfolding reads_def using reads_back_self by blast+
qed

text \<open>Two pipelines whose content inputs name the same two settings in different orders.\<close>

definition prof_ordered :: "bool \<Rightarrow> (string \<times> string) list" where
  "prof_ordered first = (if first then [(''a'', ''x''), (''b'', ''y'')] else [(''b'', ''y''), (''a'', ''x'')])"

definition prof_variant :: "bool \<Rightarrow> pipeline_profiles" where
  "prof_variant first = prof_pipeline\<lparr>pp_content := profile_of prof_stdlib
     (content_members (JObj (map (\<lambda>(k, v). (k, JStr v)) (prof_ordered first))))\<rparr>"

lemma prof_variant_built:
  "build_pipeline_profiles prof_stdlib (MMap (map (\<lambda>(k, v). (Some k, MStr v)) (prof_ordered first))) (MMap prof_inputs)
     (MMap prof_inputs) ''k'' = Inr (prof_variant first)"
proof -
  have "validated_inputs prof_stdlib (MMap (map (\<lambda>(k, v). (Some k, MStr v)) (prof_ordered True)))
        = Inr (JObj (map (\<lambda>(k, v). (k, JStr v)) (prof_ordered True)))"
      "validated_inputs prof_stdlib (MMap (map (\<lambda>(k, v). (Some k, MStr v)) (prof_ordered False)))
        = Inr (JObj (map (\<lambda>(k, v). (k, JStr v)) (prof_ordered False)))"
    by code_simp+
  then have "validated_inputs prof_stdlib (MMap (map (\<lambda>(k, v). (Some k, MStr v)) (prof_ordered first)))
        = Inr (JObj (map (\<lambda>(k, v). (k, JStr v)) (prof_ordered first)))"
    by (cases first) simp_all
  then show ?thesis
    by (simp add: build_pipeline_profiles_def build_content_profile_def build_index_profile_def
      build_preflight_policy_profile_def prof_validated prof_id_ok prof_pipeline_def prof_variant_def)
qed

lemma prof_variant_text: "pf_canonical_json (pp_content (prof_variant False)) = pf_canonical_json (pp_content (prof_variant True))"
proof -
  have "dumps (JObj (map (\<lambda>(k, v). (k, JStr v)) (prof_ordered False))) = dumps (JObj (map (\<lambda>(k, v). (k, JStr v)) (prof_ordered True)))"
    by (rule dumps_obj_order) (auto simp: prof_ordered_def)
  then show ?thesis
    by (simp add: prof_variant_def profile_of_def content_members_def del: dumps.simps(5))
qed

theorem policy_id_binds_pipeline_witness: "prof_variant False = prof_variant True"
proof -
  have "pf_canonical_json (f (prof_variant False)) = pf_canonical_json (f (prof_variant True))"
    if "f \<in> {pp_content, pp_index, pp_preflight_policy}" for f
    using that prof_variant_text by (auto simp: prof_variant_def)
  then show ?thesis
    using policy_id_binds_pipeline [OF prof_variant_built [of False] prof_variant_built [of True]]
    by (simp add: prof_variant_def)
qed

lemma prof_acceptable:
  "acceptable prof_stdlib prof_loads prof_identity prof_inputs (MMap prof_inputs) (MMap prof_inputs) ''k'' prof_pipeline"
proof -
  have "is_sha256 (replicate 64 (CHR ''a''))"
    by code_simp
  then have "\<forall>s. is_sha256 (sl_sha256 prof_stdlib s)"
    by (simp add: prof_stdlib_def)
  then show ?thesis
    using prof_reads prof_id_ok(3)
    by (simp add: acceptable_def prof_validated prof_pipeline_def) (simp add: prof_identity_def prof_inputs_def)
qed

lemmas prof_valid = validate_built_profiles [OF prof_built prof_acceptable]

theorem built_profiles_validate_witness: "validate_preparation_identity prof_stdlib prof_loads prof_identity prof_pipeline = Inr ()"
  by (rule built_profiles_validate [OF prof_built prof_acceptable])

end
