(* ===== verification/Evidence.thy ===== *)
theory Evidence
  imports Profiles
begin

text \<open>
  Candidates and evidence of a prepared revision, from
  \<^verbatim>\<open>pdf_bridge/services/preparation.py\<close>: what the deterministic screening found, recorded before any
  advisory model call, and the outcomes of the advisory models appended to it.  \<^verbatim>\<open>uuid.UUID(text)\<close> is an
  argument.
\<close>

section \<open>Evidence\<close>

fun evidence_kind_value :: "evidence_kind \<Rightarrow> string" where
  "evidence_kind_value DETERMINISTIC = ''DETERMINISTIC''"
| "evidence_kind_value CLASSIFIER = ''CLASSIFIER''"
| "evidence_kind_value VERIFIER = ''VERIFIER''"
| "evidence_kind_value INCOMPLETE = ''INCOMPLETE''"

fun candidate_source_value :: "candidate_source \<Rightarrow> string" where
  "candidate_source_value SRC_ACTIVE = ''ACTIVE''"
| "candidate_source_value SRC_SCREENING = ''SCREENING''"

fun document_state_value :: "document_state \<Rightarrow> string" where
  "document_state_value PREFLIGHTING = ''PREFLIGHTING''"
| "document_state_value PREFLIGHT_FAILED = ''PREFLIGHT_FAILED''"
| "document_state_value REVIEW_REQUIRED = ''REVIEW_REQUIRED''"
| "document_state_value PUBLISHING = ''PUBLISHING''"
| "document_state_value PUBLISH_FAILED = ''PUBLISH_FAILED''"
| "document_state_value READY = ''READY''"
| "document_state_value DELETING = ''DELETING''"
| "document_state_value DELETE_FAILED = ''DELETE_FAILED''"
| "document_state_value REJECTED = ''REJECTED''"
| "document_state_value CANCELLED = ''CANCELLED''"
| "document_state_value DELETED = ''DELETED''"

record evidence_input =
  ei_kind :: evidence_kind
  ei_model_id :: "string option"
  ei_valid :: bool
  ei_label :: "string option"
  ei_summary :: "string option"
  ei_citations :: "json list"
  ei_failure_code :: "string option"

record candidate_input =
  ci_matched_document_id :: uuid
  ci_source :: candidate_source
  ci_reasons :: "string list"
  ci_max_cosine :: number
  ci_bm25_score :: number
  ci_fused_score :: number
  ci_matched_chunk_pairs :: "(int \<times> uuid) list"
  ci_evidence :: "evidence_input list"

record preflight_completeness =
  pc_candidate_discovery_complete :: bool
  pc_advisory_complete :: bool
  pc_clear_for_publication :: bool
  pc_incomplete_reasons :: "string list"

definition evidence_error :: "string \<Rightarrow> worker_error" where
  "evidence_error message = preparation_error ''evidence_correlation'' message"

definition candidate_error :: "string \<Rightarrow> worker_error" where
  "candidate_error message = preparation_error ''candidate_correlation'' message"

definition candidate_evidence_sha256 ::
  "stdlib \<Rightarrow> evidence_kind \<Rightarrow> string option \<Rightarrow> bool \<Rightarrow> string option \<Rightarrow> string option \<Rightarrow> json list \<Rightarrow> string option \<Rightarrow> string" where
  "candidate_evidence_sha256 sl kind model_id valid label summary evidence failure_code =
     manifest_hash sl (JObj [(''kind'', JStr (evidence_kind_value kind)), (''model_id'', string_json model_id),
       (''valid'', JBool valid), (''label'', string_json label), (''summary'', string_json summary),
       (''evidence'', JArr evidence), (''failure_code'', string_json failure_code)])"

text \<open>\<^verbatim>\<open>str(value)\<close> of a JSON value that may be an identifier; what is no string is no UUID text.\<close>

fun uuid_text :: "(string \<Rightarrow> uuid option) \<Rightarrow> json \<Rightarrow> uuid option" where
  "uuid_text parse_uuid (JStr s) = parse_uuid s"
| "uuid_text parse_uuid (JInt i) = parse_uuid (int_str i)"
| "uuid_text parse_uuid (JFloat s) = parse_uuid s"
| "uuid_text parse_uuid _ = None"

definition citation_json :: "uuid \<Rightarrow> uuid \<Rightarrow> int \<Rightarrow> int \<Rightarrow> string \<Rightarrow> json" where
  "citation_json document_id chunk_id page_start page_end excerpt =
     JObj [(''document_id'', JStr (uuid_str document_id)), (''chunk_id'', JStr (uuid_str chunk_id)),
       (''page_start'', JInt page_start), (''page_end'', JInt page_end), (''excerpt'', JStr excerpt)]"

text \<open>The document of the revision that holds a chunk.\<close>

definition retained_document :: "catalog \<Rightarrow> uuid \<Rightarrow> uuid option" where
  "retained_document c chunk_id =
     Option.bind (tget chk_id chunk_id (chunks c)) (\<lambda>k. map_option rev_document_id (get_revision c (chk_revision_id k)))"

definition normalized_citation ::
  "(string \<Rightarrow> uuid option) \<Rightarrow> catalog \<Rightarrow> uuid list \<Rightarrow> json \<Rightarrow> worker_error + json" where
  "normalized_citation parse_uuid c allowed_document_ids value =
     (case value of
        JObj members \<Rightarrow>
          if set (map fst members) \<noteq> {''document_id'', ''chunk_id'', ''page_start'', ''page_end'', ''excerpt''}
          then Inl (evidence_error ''evidence citation fields did not match the contract'')
          else (case (uuid_text parse_uuid (obj_get members ''document_id''), uuid_text parse_uuid (obj_get members ''chunk_id'')) of
              (Some document_id, Some chunk_id) \<Rightarrow>
                (case (obj_get members ''page_start'', obj_get members ''page_end'', obj_get members ''excerpt'') of
                   (JInt page_start, JInt page_end, JStr excerpt) \<Rightarrow>
                     if document_id \<notin> set allowed_document_ids \<or> page_start < 1 \<or> page_end < page_start
                        \<or> py_strip excerpt = [] \<or> 4000 < length excerpt
                     then Inl (evidence_error ''evidence citation content was invalid'')
                     else if retained_document c chunk_id \<noteq> Some document_id
                     then Inl (evidence_error ''evidence citation did not match a retained chunk'')
                     else Inr (citation_json document_id chunk_id page_start page_end excerpt)
                 | _ \<Rightarrow> Inl (evidence_error ''evidence citation content was invalid''))
            | _ \<Rightarrow> Inl (evidence_error ''evidence citation identity was invalid''))
      | _ \<Rightarrow> Inl (evidence_error ''evidence citation fields did not match the contract''))"

fun normalized_citations ::
  "(string \<Rightarrow> uuid option) \<Rightarrow> catalog \<Rightarrow> uuid list \<Rightarrow> json list \<Rightarrow> worker_error + json list" where
  "normalized_citations parse_uuid c allowed [] = Inr []"
| "normalized_citations parse_uuid c allowed (v # vs) =
     rbind (normalized_citation parse_uuid c allowed v) (\<lambda>x.
     rbind (normalized_citations parse_uuid c allowed vs) (\<lambda>rest. Inr (x # rest)))"

text \<open>\<^verbatim>\<open>[a-z0-9][a-z0-9._-]*\<close>\<close>

definition token_char :: "char \<Rightarrow> bool" where
  "token_char c = (let n = char_code c in (97 \<le> n \<and> n \<le> 122) \<or> (48 \<le> n \<and> n \<le> 57))"

definition is_token :: "string \<Rightarrow> bool" where
  "is_token s \<longleftrightarrow> s \<noteq> [] \<and> token_char (hd s) \<and> list_all (\<lambda>c. token_char c \<or> c \<in> set ''._-'') (tl s)"

definition longer :: "nat \<Rightarrow> string option \<Rightarrow> bool" where
  "longer n x = (case x of None \<Rightarrow> False | Some s \<Rightarrow> n < length s)"

definition evidence_contradictory :: "evidence_input \<Rightarrow> bool" where
  "evidence_contradictory e \<longleftrightarrow>
     (ei_kind e = DETERMINISTIC \<and> (ei_model_id e \<noteq> None \<or> \<not> ei_valid e))
     \<or> (ei_kind e \<in> {CLASSIFIER, VERIFIER} \<and> (ei_model_id e = None \<or> ei_model_id e = Some []))
     \<or> (ei_kind e = INCOMPLETE \<and> ei_valid e)"

definition evidence_row ::
  "stdlib \<Rightarrow> (string \<Rightarrow> uuid option) \<Rightarrow> catalog \<Rightarrow> uuid \<Rightarrow> uuid \<Rightarrow> uuid list \<Rightarrow> evidence_input \<Rightarrow> worker_error + candidate_evidence" where
  "evidence_row sl parse_uuid c revision_id candidate_id allowed e =
     (if evidence_contradictory e
      then Inl (evidence_error ''evidence kind, model, and validity were contradictory'')
      else if longer 255 (ei_model_id e) \<or> longer 64 (ei_label e)
         \<or> (case ei_summary e of None \<Rightarrow> False | Some s \<Rightarrow> py_strip s = [] \<or> 2000 < length s)
      then Inl (evidence_error ''evidence metadata was invalid'')
      else if (case ei_failure_code e of None \<Rightarrow> False | Some s \<Rightarrow> \<not> is_token s \<or> 100 < length s)
      then Inl (evidence_error ''evidence failure code was invalid'')
      else if ei_valid e = (ei_failure_code e \<noteq> None)
      then Inl (evidence_error ''evidence validity and failure code were contradictory'')
      else if 50 < length (ei_citations e)
      then Inl (evidence_error ''evidence citation count was invalid'')
      else rbind (normalized_citations parse_uuid c allowed (ei_citations e)) (\<lambda>citations.
        Inr \<lparr>ev_revision_id = revision_id, ev_candidate_id = candidate_id, ev_kind = ei_kind e,
             ev_model_id = ei_model_id e, ev_valid = ei_valid e, ev_label = ei_label e, ev_summary = ei_summary e,
             ev_evidence = citations, ev_failure_code = ei_failure_code e,
             ev_sha256 = candidate_evidence_sha256 sl (ei_kind e) (ei_model_id e) (ei_valid e) (ei_label e)
               (ei_summary e) citations (ei_failure_code e)\<rparr>))"

section \<open>Candidates\<close>

definition document_snapshot :: "document \<Rightarrow> json" where
  "document_snapshot d =
     JObj [(''id'', JStr (uuid_str (doc_id d))), (''collection_key'', JStr (doc_collection_key d)),
       (''original_filename'', JStr (doc_original_filename d)), (''state'', JStr (document_state_value (doc_state d))),
       (''sha256'', JStr (doc_sha256 d))]"

definition check_candidate_match :: "preparation_handle \<Rightarrow> candidate_input \<Rightarrow> document \<Rightarrow> worker_error + unit" where
  "check_candidate_match h item matched =
     (if doc_collection_key matched \<noteq> ph_collection_key h
      then Inl (preparation_error ''candidate_scope'' ''candidate document crossed a logical collection'')
      else if ci_source item = SRC_ACTIVE \<and> doc_state matched \<noteq> READY
      then Inl (candidate_error ''active candidate was not READY'')
      else if ci_source item \<noteq> SRC_ACTIVE \<and> doc_state matched \<in> {REJECTED, CANCELLED, DELETED}
      then Inl (candidate_error ''screening candidate was content-free'')
      else if ci_reasons item = [] \<or> 50 < length (ci_reasons item) \<or> \<not> distinct (ci_reasons item)
      then Inl (candidate_error ''candidate reasons were missing or duplicated'')
      else if list_ex (\<lambda>reason. \<not> is_token reason \<or> 100 < length reason) (ci_reasons item)
      then Inl (candidate_error ''candidate reason was invalid'')
      else Inr ())"

definition candidate_row ::
  "preparation_handle \<Rightarrow> uuid \<Rightarrow> uuid \<Rightarrow> int \<Rightarrow> candidate_input \<Rightarrow> document \<Rightarrow> worker_error + prepared_candidate" where
  "candidate_row h new_id revision_id rank item matched =
     rbind (check_candidate_match h item matched) (\<lambda>_.
     rbind (finite_float (ci_max_cosine item) ''candidate max cosine'') (\<lambda>max_cosine.
     rbind (finite_float (ci_bm25_score item) ''candidate BM25 score'') (\<lambda>bm25_score.
     rbind (finite_float (ci_fused_score item) ''candidate fused score'') (\<lambda>fused_score.
     if \<not> (- 1 \<le> max_cosine \<and> max_cosine \<le> 1) \<or> bm25_score < 0 \<or> fused_score < 0
     then Inl (candidate_error ''candidate score was outside its valid range'')
     else if list_ex (\<lambda>(i, k). i < 0) (ci_matched_chunk_pairs item)
     then Inl (candidate_error ''candidate chunk correlation was invalid'')
     else if length (ci_evidence item) \<noteq> 1 \<or> ei_kind (hd (ci_evidence item)) \<noteq> DETERMINISTIC
     then Inl (candidate_error ''candidate must first persist exactly one deterministic evidence record'')
     else Inr \<lparr>cand_id = new_id, cand_revision_id = revision_id, cand_matched_document_id = doc_id matched,
            cand_source = ci_source item, cand_rank = rank, cand_reasons = ci_reasons item,
            cand_max_cosine = max_cosine, cand_bm25_score = bm25_score, cand_fused_score = fused_score,
            cand_matched_chunk_pairs = ci_matched_chunk_pairs item,
            cand_document_snapshot = document_snapshot matched\<rparr>))))"

definition record_candidates_failed :: worker_error where
  "record_candidates_failed =
     preparation_error ''record_candidates_failed'' ''preflight evidence could not be recorded''"

text \<open>The flush of one candidate and of evidence rows: primary keys, unique constraints and the CHECK on
  the rank.\<close>

definition insert_candidate :: "prepared_candidate \<Rightarrow> catalog \<Rightarrow> worker_error + catalog" where
  "insert_candidate x c =
     (if list_ex (\<lambda>y. cand_id y = cand_id x \<or> (cand_revision_id y = cand_revision_id x
           \<and> cand_matched_document_id y = cand_matched_document_id x)) (candidates c) \<or> cand_rank x < 1
      then Inl record_candidates_failed
      else Inr (c\<lparr>candidates := candidates c @ [x]\<rparr>))"

definition insert_evidence :: "worker_error \<Rightarrow> candidate_evidence list \<Rightarrow> catalog \<Rightarrow> worker_error + catalog" where
  "insert_evidence failure es c =
     (if \<not> distinct (map (\<lambda>e. (ev_candidate_id e, ev_kind e)) (evidence_rows c @ es)) then Inl failure
      else Inr (c\<lparr>evidence_rows := evidence_rows c @ es\<rparr>))"

fun add_candidates ::
  "stdlib \<Rightarrow> (string \<Rightarrow> uuid option) \<Rightarrow> preparation_handle \<Rightarrow> uuid \<Rightarrow> int \<Rightarrow> candidate_input list \<Rightarrow> catalog
     \<Rightarrow> worker_error + uuid list \<times> catalog" where
  "add_candidates sl parse_uuid h revision_id rank [] c = Inr ([], c)"
| "add_candidates sl parse_uuid h revision_id rank (item # items) c =
     (case get_document c (ci_matched_document_id item) of
        None \<Rightarrow> Inl (candidate_error ''a candidate document was not retained'')
      | Some matched \<Rightarrow>
          let (new_id, c1) = uuid4 c in
          rbind (candidate_row h new_id revision_id rank item matched) (\<lambda>x.
          rbind (insert_candidate x c1) (\<lambda>c2.
          rbind (evidence_row sl parse_uuid c2 revision_id new_id [ph_document_id h, doc_id matched]
            (hd (ci_evidence item))) (\<lambda>e.
          rbind (insert_evidence record_candidates_failed [e] c2) (\<lambda>c3.
          rbind (add_candidates sl parse_uuid h revision_id (rank + 1) items c3) (\<lambda>(ids, c4).
            Inr (new_id # ids, c4)))))))"

definition record_preflight_candidates ::
  "stdlib \<Rightarrow> (string \<Rightarrow> uuid option) \<Rightarrow> preparation_handle \<Rightarrow> candidate_input list \<Rightarrow> catalog
     \<Rightarrow> worker_error + uuid list \<times> catalog" where
  "record_preflight_candidates sl parse_uuid h items c =
     (let matched_ids = map ci_matched_document_id items in
      if 100 < length items then Inl (preparation_error ''candidate_limit'' ''candidate count exceeded the safety limit'')
      else if \<not> distinct matched_ids \<or> ph_document_id h \<in> set matched_ids
      then Inl (candidate_error ''candidate documents were duplicated or self-referential'')
      else
      rbind (load_revision (ph_revision_id h) (Some REV_PREPARING) c) (\<lambda>r.
      rbind (validate_revision_identity r h) (\<lambda>_.
      if \<not> rev_vector_complete r
      then Inl (preparation_error ''stage_order'' ''complete chunk vectors must be recorded before candidates'')
      else if filter (\<lambda>x. cand_revision_id x = rev_id r) (candidates c) \<noteq> []
      then Inl (preparation_error ''stage_already_recorded'' ''preflight candidates were already recorded'')
      else if list_ex (\<lambda>d. get_document c d = None) matched_ids
      then Inl (candidate_error ''a candidate document was not retained'')
      else rbind (lift_lifecycle (prevent_sealed_child_insert c (rev_id r))) (\<lambda>_.
        add_candidates sl parse_uuid h (rev_id r) 1 items c))))"

section \<open>Advisory evidence\<close>

definition stored_candidates :: "catalog \<Rightarrow> uuid \<Rightarrow> prepared_candidate list" where
  "stored_candidates c rid = sort_key cand_rank (filter (\<lambda>x. cand_revision_id x = rid) (candidates c))"

definition record_advisory_failed :: worker_error where
  "record_advisory_failed = preparation_error ''record_advisory_failed'' ''advisory evidence could not be recorded''"

text \<open>The rows a candidate gets: one classifier and one verifier outcome at least, no second deterministic one.\<close>

fun evidence_rows_of ::
  "stdlib \<Rightarrow> (string \<Rightarrow> uuid option) \<Rightarrow> catalog \<Rightarrow> uuid \<Rightarrow> uuid \<Rightarrow> uuid list \<Rightarrow> evidence_input list
     \<Rightarrow> worker_error + candidate_evidence list" where
  "evidence_rows_of sl parse_uuid c revision_id candidate_id allowed [] = Inr []"
| "evidence_rows_of sl parse_uuid c revision_id candidate_id allowed (e # es) =
     rbind (evidence_row sl parse_uuid c revision_id candidate_id allowed e) (\<lambda>x.
     rbind (evidence_rows_of sl parse_uuid c revision_id candidate_id allowed es) (\<lambda>rest. Inr (x # rest)))"

definition advisory_rows ::
  "stdlib \<Rightarrow> (string \<Rightarrow> uuid option) \<Rightarrow> preparation_handle \<Rightarrow> uuid \<Rightarrow> catalog \<Rightarrow> prepared_candidate
     \<Rightarrow> evidence_input list \<Rightarrow> worker_error + candidate_evidence list" where
  "advisory_rows sl parse_uuid h revision_id c x records =
     (let kinds = map ei_kind records in
      if set (map ev_kind (filter (\<lambda>e. ev_candidate_id e = cand_id x) (evidence_rows c))) \<noteq> {DETERMINISTIC}
      then Inl (preparation_error ''stage_already_recorded''
        ''candidate advisory evidence was already recorded or incomplete'')
      else if \<not> distinct kinds \<or> DETERMINISTIC \<in> set kinds \<or> \<not> {CLASSIFIER, VERIFIER} \<subseteq> set kinds
      then Inl (evidence_error ''advisory evidence requires unique classifier and verifier outcomes'')
      else evidence_rows_of sl parse_uuid c revision_id (cand_id x) [ph_document_id h, cand_matched_document_id x]
        records)"

fun add_advisory ::
  "stdlib \<Rightarrow> (string \<Rightarrow> uuid option) \<Rightarrow> preparation_handle \<Rightarrow> uuid \<Rightarrow> (uuid \<Rightarrow> evidence_input list)
     \<Rightarrow> prepared_candidate list \<Rightarrow> catalog \<Rightarrow> worker_error + catalog" where
  "add_advisory sl parse_uuid h revision_id records [] c = Inr c"
| "add_advisory sl parse_uuid h revision_id records (x # xs) c =
     rbind (advisory_rows sl parse_uuid h revision_id c x (records (cand_id x))) (\<lambda>es.
     rbind (insert_evidence record_advisory_failed es c) (\<lambda>c1.
       add_advisory sl parse_uuid h revision_id records xs c1))"

definition append_advisory_evidence ::
  "stdlib \<Rightarrow> (string \<Rightarrow> uuid option) \<Rightarrow> preparation_handle \<Rightarrow> (uuid \<times> evidence_input list) list \<Rightarrow> catalog
     \<Rightarrow> worker_error + catalog" where
  "append_advisory_evidence sl parse_uuid h evidence_by_candidate c =
     rbind (load_revision (ph_revision_id h) (Some REV_PREPARING) c) (\<lambda>r.
     rbind (validate_revision_identity r h) (\<lambda>_.
     let xs = stored_candidates c (rev_id r) in
     if set (map fst evidence_by_candidate) \<noteq> set (map cand_id xs)
     then Inl (evidence_error ''advisory evidence did not cover the exact deterministic candidate set'')
     else rbind (lift_lifecycle (prevent_sealed_child_insert c (rev_id r))) (\<lambda>_.
       add_advisory sl parse_uuid h (rev_id r) (\<lambda>k. case map_of evidence_by_candidate k of None \<Rightarrow> [] | Some es \<Rightarrow> es) xs c)))"

end
