(* ===== verification/Sealing.thy ===== *)
theory Sealing
  imports Evidence Preflight
begin

text \<open>
  The sealing of a prepared revision, from \<^verbatim>\<open>pdf_bridge/services/preparation.py\<close>.  Sealing recomputes
  every stored hash from the stored rows, checks that pages, slices, attempts, chunks, vectors and
  evidence fit together and then makes the revision immutable.  JSON columns are read as the values
  they hold; members of an object are looked up by name, and a lookup on a value that is no object
  raises (\<open>OtherError\<close>).
\<close>

section \<open>Extracted pages\<close>

fun check_extract_rows :: "stdlib \<Rightarrow> int \<Rightarrow> extracted_page list \<Rightarrow> worker_error + int" where
  "check_extract_rows sl expected [] = Inr 0"
| "check_extract_rows sl expected (page # pages) =
     (if xp_page_number page \<noteq> expected \<or> xp_character_count page \<noteq> int (length (xp_layout_text page))
         \<or> xp_text_sha256 page \<noteq> sl_sha256 sl (xp_layout_text page)
      then Inl (extraction_error_of ''persisted extraction page correlation was invalid'')
      else rbind (check_extract_rows sl (expected + 1) pages) (\<lambda>n. Inr (xp_character_count page + n)))"

definition extraction_rows_hash :: "stdlib \<Rightarrow> extracted_page list \<Rightarrow> worker_error + string \<times> int" where
  "extraction_rows_hash sl rows =
     rbind (check_extract_rows sl 1 rows) (\<lambda>character_count.
       if rows = [] then Inl (extraction_error_of ''persisted extraction was empty'')
       else Inr (extraction_manifest_of sl (int (length rows)) character_count
           (map (\<lambda>x. extract_json (xp_page_number x) (xp_layout_text x) (xp_character_count x) (xp_text_sha256 x)) rows),
         int (length rows)))"

section \<open>Markdown pages\<close>

definition SLICE_FIELDS :: "string set" where
  "SLICE_FIELDS = {''slice_index'', ''source_start'', ''source_end'', ''markdown_start'', ''markdown_end'',
     ''source_text_sha256'', ''markdown_sha256'', ''source_projection_sha256'', ''markdown_projection_sha256''}"

text \<open>One stored slice against the texts of its page: how far both are covered then.\<close>

definition check_slice ::
  "stdlib \<Rightarrow> string \<Rightarrow> string \<Rightarrow> int \<Rightarrow> int \<Rightarrow> int \<Rightarrow> json \<Rightarrow> worker_error + int \<times> int" where
  "check_slice sl source markdown expected_slice source_cursor markdown_cursor item =
     (case item of
        JObj members \<Rightarrow>
          if set (map fst members) \<noteq> SLICE_FIELDS
          then Inl (correlation_error ''persisted formatter slice shape was invalid'')
          else (case (obj_get members ''slice_index'', obj_get members ''source_start'', obj_get members ''source_end'',
                  obj_get members ''markdown_start'', obj_get members ''markdown_end'') of
             (JInt slice_index, JInt source_start, JInt source_end, JInt markdown_start, JInt markdown_end) \<Rightarrow>
               if slice_index \<noteq> expected_slice \<or> source_start \<noteq> source_cursor \<or> source_end < source_start
                  \<or> markdown_start \<noteq> markdown_cursor + (if expected_slice \<noteq> 0 then 2 else 0)
                  \<or> markdown_end \<le> markdown_start
               then Inl (correlation_error ''persisted formatter slice coverage was invalid'')
               else
                 let source_text = py_slice source (nat source_start) (nat source_end);
                     markdown_text = py_slice markdown (nat markdown_start) (nat markdown_end);
                     source_projection = source_hash_of sl source_text;
                     markdown_projection = markdown_hash_of sl markdown_text
                 in if obj_get members ''source_text_sha256'' \<noteq> JStr (sl_sha256 sl source_text)
                       \<or> obj_get members ''markdown_sha256'' \<noteq> JStr (sl_sha256 sl markdown_text)
                       \<or> obj_get members ''source_projection_sha256'' \<noteq> JStr source_projection
                       \<or> obj_get members ''markdown_projection_sha256'' \<noteq> JStr markdown_projection
                       \<or> source_projection \<noteq> markdown_projection
                    then Inl (correlation_error ''persisted formatter slice hashes did not match'')
                    else Inr (source_end, markdown_end)
           | _ \<Rightarrow> Inl (correlation_error ''persisted formatter slice offsets were invalid''))
      | _ \<Rightarrow> Inl (correlation_error ''persisted formatter slice shape was invalid''))"

fun check_slices ::
  "stdlib \<Rightarrow> string \<Rightarrow> string \<Rightarrow> int \<Rightarrow> int \<Rightarrow> int \<Rightarrow> json list \<Rightarrow> worker_error + int \<times> int" where
  "check_slices sl source markdown expected_slice source_cursor markdown_cursor [] =
     Inr (source_cursor, markdown_cursor)"
| "check_slices sl source markdown expected_slice source_cursor markdown_cursor (item # items) =
     rbind (check_slice sl source markdown expected_slice source_cursor markdown_cursor item) (\<lambda>(s, m).
       check_slices sl source markdown (expected_slice + 1) s m items)"

text \<open>\<^verbatim>\<open>page.slices\<close> as a list, \<^verbatim>\<open>None\<close> if it is none.\<close>

fun json_items :: "json \<Rightarrow> json list option" where
  "json_items (JArr xs) = Some xs"
| "json_items _ = None"

definition check_page :: "stdlib \<Rightarrow> int \<Rightarrow> extracted_page \<Rightarrow> prepared_page \<Rightarrow> worker_error + unit" where
  "check_page sl expected source page =
     (if pp_page_number page \<noteq> expected \<or> pp_markdown_sha256 page \<noteq> sl_sha256 sl (pp_markdown page)
         \<or> py_strip (pp_markdown page) = [] \<or> json_items (pp_slices page) \<in> {None, Some []}
      then Inl (correlation_error ''persisted Markdown page identity was invalid'')
      else
      rbind (check_slices sl (xp_layout_text source) (pp_markdown page) 0 0 0 (the (json_items (pp_slices page))))
        (\<lambda>(source_cursor, markdown_cursor).
          let source_projection = source_hash_of sl (xp_layout_text source);
              markdown_projection = markdown_hash_of sl (pp_markdown page)
          in if source_cursor \<noteq> int (length (xp_layout_text source)) \<or> markdown_cursor \<noteq> int (length (pp_markdown page))
                \<or> pp_source_projection_sha256 page \<noteq> source_projection
                \<or> pp_markdown_projection_sha256 page \<noteq> markdown_projection
                \<or> source_projection \<noteq> markdown_projection
             then Inl (correlation_error ''persisted formatter page coverage did not match'')
             else Inr ()))"

fun check_pages ::
  "stdlib \<Rightarrow> int \<Rightarrow> extracted_page list \<Rightarrow> prepared_page list \<Rightarrow> worker_error + markdown_page list" where
  "check_pages sl expected (x # xs) (p # ps) =
     rbind (check_page sl expected x p) (\<lambda>_.
     rbind (check_pages sl (expected + 1) xs ps) (\<lambda>rest.
       Inr (\<lparr>mp_page_number = expected, mp_markdown = pp_markdown p\<rparr> # rest)))"
| "check_pages sl expected _ _ = Inr []"

definition validate_persisted_pages ::
  "stdlib \<Rightarrow> prepared_revision \<Rightarrow> extracted_page list \<Rightarrow> prepared_page list \<Rightarrow> worker_error + string \<times> string" where
  "validate_persisted_pages sl r extracted prepared =
     rbind (extraction_rows_hash sl extracted) (\<lambda>(extraction_hash, page_count).
       if rev_page_count r \<noteq> Some page_count \<or> rev_extraction_sha256 r \<noteq> Some extraction_hash
       then Inl (extraction_error_of ''revision extraction manifest did not match its pages'')
       else if int (length prepared) \<noteq> page_count
       then Inl (correlation_error ''persisted Markdown did not cover every extracted page'')
       else
       rbind (check_pages sl 1 extracted prepared) (\<lambda>markdown_pages.
         (case canonical_markdown markdown_pages of
            Inl e \<Rightarrow> Inl (correlation_error ''persisted canonical Markdown was invalid'')
          | Inr markdown \<Rightarrow>
              if rev_markdown_sha256 r \<noteq> Some (sl_sha256 sl markdown)
              then Inl (correlation_error ''revision Markdown manifest did not match its pages'')
              else Inr (extraction_hash, sl_sha256 sl markdown))))"

section \<open>Formatter attempts\<close>

text \<open>A slice of an attempt is identified by its two numbers as stored.\<close>

type_synonym slice_key = "json \<times> json"

definition BATCH_FIELDS :: "string set" where
  "BATCH_FIELDS = {''page_number'', ''slice_index'', ''source_text_sha256'', ''source_projection_sha256'',
     ''markdown_projection_sha256''}"

fun json_members :: "json \<Rightarrow> (string \<times> json) list option" where
  "json_members (JObj kvs) = Some kvs"
| "json_members _ = None"

definition member_key :: "(string \<times> json) list \<Rightarrow> slice_key" where
  "member_key kvs = (obj_get kvs ''page_number'', obj_get kvs ''slice_index'')"

text \<open>\<^verbatim>\<open>expected_slices\<close>, in the order of \<^verbatim>\<open>expected_order\<close>.\<close>

definition expected_slices :: "prepared_page list \<Rightarrow> (slice_key \<times> (string \<times> json) list) list" where
  "expected_slices pages = concat (map (\<lambda>p. map (\<lambda>kvs. ((JInt (pp_page_number p), obj_get kvs ''slice_index''), kvs))
     (List.map_filter json_members (case json_items (pp_slices p) of None \<Rightarrow> [] | Some xs \<Rightarrow> xs))) pages)"

text \<open>\<^verbatim>\<open>(item["page_number"], item["slice_index"])\<close> of every reference item: subscripting a value that is no
  object, or lacks the member, raises.\<close>

fun reference_keys :: "json list \<Rightarrow> worker_error + slice_key list" where
  "reference_keys [] = Inr []"
| "reference_keys (item # items) =
     (case json_members item of
        None \<Rightarrow> Inl OtherError
      | Some kvs \<Rightarrow>
          if map_of kvs ''page_number'' = None \<or> map_of kvs ''slice_index'' = None then Inl OtherError
          else rbind (reference_keys items) (\<lambda>rest. Inr (member_key kvs # rest)))"

definition source_slice_json :: "(string \<times> json) list \<Rightarrow> json" where
  "source_slice_json kvs = JObj [(''page_number'', obj_get kvs ''page_number''), (''slice_index'', obj_get kvs ''slice_index''),
     (''source_text_sha256'', obj_get kvs ''source_text_sha256''),
     (''source_projection_sha256'', obj_get kvs ''source_projection_sha256'')]"

fun check_attempt_items :: "json list \<Rightarrow> worker_error + unit" where
  "check_attempt_items [] = Inr ()"
| "check_attempt_items (item # items) =
     (case json_members item of
        None \<Rightarrow> Inl (correlation_error ''formatter batch slice shape was invalid'')
      | Some kvs \<Rightarrow>
          if set (map fst kvs) \<noteq> BATCH_FIELDS
          then Inl (correlation_error ''formatter batch slice shape was invalid'')
          else (case obj_get kvs ''markdown_projection_sha256'' of
             JNull \<Rightarrow> check_attempt_items items
           | JStr digest \<Rightarrow>
               if \<not> is_sha256 digest then Inl (correlation_error ''formatter attempt projection hash was invalid'')
               else check_attempt_items items
           | _ \<Rightarrow> Inl OtherError))"

definition check_attempt_status :: "formatter_batch \<Rightarrow> worker_error + unit" where
  "check_attempt_status b =
     (if fb_status b = FB_VALID
      then if fb_finish_reason b \<noteq> Some ''stop'' \<or> (case fb_response_sha256 b of None \<Rightarrow> True | Some s \<Rightarrow> \<not> is_sha256 s)
              \<or> fb_validation_errors b \<noteq> []
           then Inl (correlation_error ''valid formatter attempt proof was invalid'')
           else Inr ()
      else if fb_status b \<noteq> FB_FAILED
      then Inl (correlation_error ''formatter attempt retained a nonterminal status'')
      else Inr ())"

definition check_attempt :: "stdlib \<Rightarrow> json list \<Rightarrow> formatter_batch \<Rightarrow> worker_error + unit" where
  "check_attempt sl reference b =
     (case json_items (fb_page_slices b) of
        None \<Rightarrow> Inl (correlation_error ''formatter attempt slice coverage was invalid'')
      | Some items \<Rightarrow>
          let members = List.map_filter json_members items;
              mismatch = correlation_error ''formatter attempt hashes or coverage did not match''
          in if length members \<noteq> length reference then Inl mismatch
             else rbind (reference_keys reference) (\<lambda>keys.
               if map member_key members \<noteq> keys
                  \<or> \<not> is_sha256 (fb_source_manifest_sha256 b) \<or> \<not> is_sha256 (fb_request_sha256 b)
                  \<or> fb_source_manifest_sha256 b \<noteq> manifest_hash sl (JArr (map source_slice_json members))
                  \<or> list_ex (\<lambda>e. MAX_ERROR_CHARACTERS < length e) (fb_validation_errors b)
               then Inl mismatch
               else rbind (check_attempt_status b) (\<lambda>_. check_attempt_items items)))"

fun check_attempts :: "stdlib \<Rightarrow> json list \<Rightarrow> formatter_batch list \<Rightarrow> worker_error + unit" where
  "check_attempts sl reference [] = Inr ()"
| "check_attempts sl reference (b # bs) =
     rbind (check_attempt sl reference b) (\<lambda>_. check_attempts sl reference bs)"

text \<open>The reference items against the stored pages: the keys they cover.\<close>

fun covered_keys :: "(slice_key \<times> (string \<times> json) list) list \<Rightarrow> json list \<Rightarrow> worker_error + slice_key list" where
  "covered_keys expected [] = Inr []"
| "covered_keys expected (item # items) =
     (case json_members item of
        None \<Rightarrow> Inl (correlation_error ''formatter batch slice shape was invalid'')
      | Some kvs \<Rightarrow>
          if set (map fst kvs) \<noteq> BATCH_FIELDS
          then Inl (correlation_error ''formatter batch slice shape was invalid'')
          else (case map_of (rev expected) (member_key kvs) of
             None \<Rightarrow> Inl (correlation_error ''formatter batch did not match prepared pages'')
           | Some page_slice \<Rightarrow>
               if list_ex (\<lambda>field. obj_get kvs field \<noteq> obj_get page_slice field)
                    [''source_text_sha256'', ''source_projection_sha256'', ''markdown_projection_sha256'']
               then Inl (correlation_error ''formatter batch did not match prepared pages'')
               else rbind (covered_keys expected items) (\<lambda>rest. Inr (member_key kvs # rest))))"

definition check_batch ::
  "stdlib \<Rightarrow> (slice_key \<times> (string \<times> json) list) list \<Rightarrow> formatter_batch list \<Rightarrow> worker_error + slice_key list" where
  "check_batch sl expected group_rows =
     (let attempts = sort_key fb_attempt group_rows in
      if map fb_attempt attempts \<noteq> map int [1..<Suc (length attempts)]
      then Inl (correlation_error ''formatter attempt numbers were not consecutive'')
      else if length (filter (\<lambda>b. fb_status b = FB_VALID) attempts) \<noteq> 1 \<or> fb_status (last attempts) \<noteq> FB_VALID
      then Inl (correlation_error ''formatter batch lacked one final valid attempt'')
      else case json_items (fb_page_slices (last attempts)) of
        None \<Rightarrow> Inl (correlation_error ''formatter attempt slice coverage was empty'')
      | Some reference \<Rightarrow>
          if reference = [] then Inl (correlation_error ''formatter attempt slice coverage was empty'')
          else rbind (check_attempts sl reference attempts) (\<lambda>_. covered_keys expected reference))"

fun check_batches ::
  "stdlib \<Rightarrow> (slice_key \<times> (string \<times> json) list) list \<Rightarrow> formatter_batch list \<Rightarrow> int list \<Rightarrow> worker_error + slice_key list" where
  "check_batches sl expected batches [] = Inr []"
| "check_batches sl expected batches (i # is) =
     rbind (check_batch sl expected (filter (\<lambda>b. fb_batch_index b = i) batches)) (\<lambda>ks.
     rbind (check_batches sl expected batches is) (\<lambda>rest. Inr (ks @ rest)))"

definition validate_formatter_batches ::
  "stdlib \<Rightarrow> prepared_revision \<Rightarrow> formatter_batch list \<Rightarrow> prepared_page list \<Rightarrow> worker_error + unit" where
  "validate_formatter_batches sl r batches pages =
     (let expected = expected_slices pages; indexes = remdups (map fb_batch_index batches) in
      if batches = [] \<or> expected = []
      then Inl (correlation_error ''formatter attempts or page slices were missing'')
      else if list_ex (\<lambda>b. fb_revision_id b \<noteq> rev_id r) batches
      then Inl (correlation_error ''formatter attempt belonged to another revision'')
      else if set indexes \<noteq> set (map int [0..<length indexes])
      then Inl (correlation_error ''formatter batch indexes were not consecutive'')
      else rbind (check_batches sl expected batches (map int [0..<length indexes])) (\<lambda>coverage.
        if coverage \<noteq> map fst expected
        then Inl (correlation_error ''valid formatter batches did not exactly cover page slices'')
        else Inr ()))"

section \<open>Manifests\<close>

definition completeness_reasons :: "preflight_completeness \<Rightarrow> string list" where
  "completeness_reasons pc = sort (remdups (pc_incomplete_reasons pc))"

definition expected_clear :: "preflight_completeness \<Rightarrow> prepared_candidate list \<Rightarrow> bool" where
  "expected_clear pc xs \<longleftrightarrow> pc_candidate_discovery_complete pc \<and> pc_advisory_complete pc \<and> xs = []
     \<and> completeness_reasons pc = []"

definition check_completeness :: "preflight_completeness \<Rightarrow> prepared_candidate list \<Rightarrow> worker_error + unit" where
  "check_completeness pc xs =
     (let reasons = completeness_reasons pc in
      if list_ex (\<lambda>reason. py_strip reason = [] \<or> 200 < length reason) reasons
      then Inl (evidence_error ''incomplete reason was invalid'')
      else if pc_clear_for_publication pc \<noteq> expected_clear pc xs
      then Inl (evidence_error ''clear-for-publication flags were contradictory'')
      else if (\<not> pc_candidate_discovery_complete pc \<or> \<not> pc_advisory_complete pc) \<and> reasons = []
      then Inl (evidence_error ''incomplete preflight required a bounded reason'')
      else if pc_candidate_discovery_complete pc \<and> pc_advisory_complete pc \<and> reasons \<noteq> []
      then Inl (evidence_error ''complete preflight could not retain incomplete reasons'')
      else Inr ())"

fun evidence_items :: "stdlib \<Rightarrow> evidence_kind list \<Rightarrow> candidate_evidence list \<Rightarrow> worker_error + json list" where
  "evidence_items sl kinds [] = Inr []"
| "evidence_items sl kinds (e # es) =
     (let calculated = candidate_evidence_sha256 sl (ev_kind e) (ev_model_id e) (ev_valid e) (ev_label e) (ev_summary e)
            (ev_evidence e) (ev_failure_code e)
      in if ev_kind e \<in> set kinds then Inl (evidence_error ''candidate evidence kind was duplicated'')
         else if ev_sha256 e \<noteq> calculated then Inl (evidence_error ''candidate evidence hash did not match'')
         else rbind (evidence_items sl (ev_kind e # kinds) es) (\<lambda>rest.
           Inr (JObj [(''kind'', JStr (evidence_kind_value (ev_kind e))), (''evidence_sha256'', JStr calculated),
             (''valid'', JBool (ev_valid e))] # rest)))"

definition candidate_evidence_of :: "candidate_evidence list \<Rightarrow> prepared_candidate \<Rightarrow> candidate_evidence list" where
  "candidate_evidence_of es x = sort_key (\<lambda>e. evidence_kind_value (ev_kind e)) (filter (\<lambda>e. ev_candidate_id e = cand_id x) es)"

definition check_evidence_kinds ::
  "preflight_completeness \<Rightarrow> candidate_evidence list \<Rightarrow> worker_error + unit" where
  "check_evidence_kinds pc es =
     (let kinds = map ev_kind es; valid_kinds = map ev_kind (filter ev_valid es) in
      if pc_candidate_discovery_complete pc \<and> DETERMINISTIC \<notin> set valid_kinds
      then Inl (evidence_error ''complete discovery lacked deterministic evidence'')
      else if pc_advisory_complete pc \<and> \<not> {CLASSIFIER, VERIFIER} \<subseteq> set valid_kinds
      then Inl (evidence_error ''complete advisory review lacked classifier or verifier'')
      else if pc_advisory_complete pc \<and> INCOMPLETE \<in> set kinds
      then Inl (evidence_error ''complete advisory review retained incomplete evidence'')
      else Inr ())"

definition candidate_json :: "stdlib \<Rightarrow> prepared_candidate \<Rightarrow> json list \<Rightarrow> json" where
  "candidate_json sl x items =
     JObj [(''candidate_id'', JStr (uuid_str (cand_id x))),
       (''matched_document_id'', JStr (uuid_str (cand_matched_document_id x))),
       (''source'', JStr (candidate_source_value (cand_source x))), (''rank'', JInt (cand_rank x)),
       (''reasons'', JArr (map JStr (cand_reasons x))), (''max_cosine'', jfloat sl (cand_max_cosine x)),
       (''bm25_score'', jfloat sl (cand_bm25_score x)), (''fused_score'', jfloat sl (cand_fused_score x)),
       (''matched_chunk_pairs'', JArr (map (\<lambda>(i, k). JArr [JInt i, JStr (uuid_str k)]) (cand_matched_chunk_pairs x))),
       (''document_snapshot'', cand_document_snapshot x), (''evidence'', JArr items)]"

fun candidate_items ::
  "stdlib \<Rightarrow> prepared_revision \<Rightarrow> preflight_completeness \<Rightarrow> candidate_evidence list \<Rightarrow> int \<Rightarrow> prepared_candidate list
     \<Rightarrow> worker_error + json list" where
  "candidate_items sl r pc es expected_rank [] = Inr []"
| "candidate_items sl r pc es expected_rank (x # xs) =
     (if cand_revision_id x \<noteq> rev_id r \<or> cand_rank x \<noteq> expected_rank \<or> cand_matched_document_id x = rev_document_id r
      then Inl (evidence_error ''candidate rank or revision correlation was invalid'')
      else
      rbind (evidence_items sl [] (candidate_evidence_of es x)) (\<lambda>items.
      rbind (check_evidence_kinds pc (candidate_evidence_of es x)) (\<lambda>_.
      rbind (candidate_items sl r pc es (expected_rank + 1) xs) (\<lambda>rest.
        Inr (candidate_json sl x items # rest)))))"

definition evidence_manifest ::
  "stdlib \<Rightarrow> prepared_revision \<Rightarrow> prepared_candidate list \<Rightarrow> candidate_evidence list \<Rightarrow> preflight_completeness
     \<Rightarrow> worker_error + string \<times> string list" where
  "evidence_manifest sl r xs es pc =
     rbind (check_completeness pc xs) (\<lambda>_.
       if list_ex (\<lambda>e. ev_revision_id e \<noteq> rev_id r) es
       then Inl (evidence_error ''evidence belonged to a different revision'')
       else
       rbind (candidate_items sl r pc es 1 xs) (\<lambda>items.
         if list_ex (\<lambda>e. ev_candidate_id e \<notin> set (map cand_id xs)) es
         then Inl (evidence_error ''evidence referenced an unknown prepared candidate'')
         else Inr (manifest_hash sl (JObj
             [(''candidate_discovery_complete'', JBool (pc_candidate_discovery_complete pc)),
              (''advisory_complete'', JBool (pc_advisory_complete pc)),
              (''clear_for_publication'', JBool (pc_clear_for_publication pc)),
              (''incomplete_reasons'', JArr (map JStr (completeness_reasons pc))),
              (''candidates'', JArr items)]),
           completeness_reasons pc)))"

definition PREPARATION_MANIFEST_VERSION :: int where
  "PREPARATION_MANIFEST_VERSION = 1"

definition count_json :: "int option \<Rightarrow> json" where
  "count_json n = (case n of None \<Rightarrow> JNull | Some i \<Rightarrow> JInt i)"

record manifest_parts =
  mp_extraction_sha256 :: string
  mp_markdown_sha256 :: string
  mp_vector_manifest_sha256 :: string
  mp_evidence_manifest_sha256 :: string
  mp_reasons :: "string list"

definition whole_manifest ::
  "stdlib \<Rightarrow> prepared_revision \<Rightarrow> document \<Rightarrow> manifest_parts \<Rightarrow> string \<Rightarrow> preflight_completeness \<Rightarrow> string" where
  "whole_manifest sl r d parts formatter_tokenizer_class pc =
     manifest_hash sl (JObj
       [(''manifest_version'', JInt PREPARATION_MANIFEST_VERSION), (''revision_id'', JStr (uuid_str (rev_id r))),
        (''document_id'', JStr (uuid_str (doc_id d))), (''revision_number'', JInt (rev_number r)),
        (''collection_key'', JStr (doc_collection_key d)),
        (''active_qdrant_collection'', JStr (rev_active_collection r)),
        (''content_profile_id'', JStr (rev_content_profile_id r)), (''index_profile_id'', JStr (rev_index_profile_id r)),
        (''preflight_policy_id'', JStr (rev_preflight_policy_id r)),
        (''formatter_model_id'', JStr (rev_formatter_model_id r)),
        (''formatter_tokenizer_class'', JStr formatter_tokenizer_class),
        (''dense_model_id'', JStr (rev_dense_model_id r)), (''dense_dimension'', JInt (rev_dense_dimension r)),
        (''sparse_model_id'', JStr (rev_sparse_model_id r)), (''page_count'', count_json (rev_page_count r)),
        (''chunk_count'', count_json (rev_chunk_count r)),
        (''expected_point_count'', count_json (rev_expected_point_count r)),
        (''extraction_sha256'', JStr (mp_extraction_sha256 parts)), (''markdown_sha256'', JStr (mp_markdown_sha256 parts)),
        (''vector_manifest_sha256'', JStr (mp_vector_manifest_sha256 parts)),
        (''evidence_manifest_sha256'', JStr (mp_evidence_manifest_sha256 parts)),
        (''native_text_eligible'', JBool (rev_native_text_eligible r)),
        (''formatter_complete'', JBool (rev_formatter_complete r)), (''vector_complete'', JBool (rev_vector_complete r)),
        (''candidate_discovery_complete'', JBool (pc_candidate_discovery_complete pc)),
        (''advisory_complete'', JBool (pc_advisory_complete pc)),
        (''clear_for_publication'', JBool (pc_clear_for_publication pc)),
        (''incomplete_reasons'', JArr (map JStr (mp_reasons parts)))])"

section \<open>Sealing\<close>

definition stored_batches :: "catalog \<Rightarrow> uuid \<Rightarrow> formatter_batch list" where
  "stored_batches c rid =
     sort_key fb_batch_index (sort_key fb_attempt (filter (\<lambda>b. fb_revision_id b = rid) (formatter_batches c)))"

text \<open>\<^verbatim>\<open>order_by(rank, id)\<close> and the evidence of the revision.\<close>

definition sealed_candidates :: "catalog \<Rightarrow> uuid \<Rightarrow> prepared_candidate list" where
  "sealed_candidates c rid =
     sort_key cand_rank (sort_key cand_id (filter (\<lambda>x. cand_revision_id x = rid) (candidates c)))"

definition stored_evidence :: "catalog \<Rightarrow> uuid \<Rightarrow> candidate_evidence list" where
  "stored_evidence c rid = filter (\<lambda>e. ev_revision_id e = rid) (evidence_rows c)"

text \<open>Everything the transaction validates and recomputes before it writes.\<close>

definition sealing_parts ::
  "stdlib \<Rightarrow> catalog \<Rightarrow> prepared_revision \<Rightarrow> document \<Rightarrow> preflight_completeness \<Rightarrow> worker_error + manifest_parts" where
  "sealing_parts sl c r d pc =
     (let pages = stored_pages c (rev_id r) in
      rbind (validate_persisted_pages sl r (stored_extracts c (rev_id r)) pages) (\<lambda>(extraction_hash, markdown_hash).
      rbind (validate_formatter_batches sl r (stored_batches c (rev_id r)) pages) (\<lambda>_.
      rbind (validate_chunk_rows sl c r d (stored_chunks c (rev_id r))) (\<lambda>(points, vector_hash).
      if rev_vector_manifest_sha256 r \<noteq> Some vector_hash
      then Inl (vector_error ''revision vector manifest did not match'')
      else rbind (evidence_manifest sl r (sealed_candidates c (rev_id r)) (stored_evidence c (rev_id r)) pc)
        (\<lambda>(evidence_hash, reasons).
          Inr \<lparr>mp_extraction_sha256 = extraction_hash, mp_markdown_sha256 = markdown_hash,
               mp_vector_manifest_sha256 = vector_hash, mp_evidence_manifest_sha256 = evidence_hash,
               mp_reasons = reasons\<rparr>)))))"

definition sealed_revision ::
  "manifest_parts \<Rightarrow> string \<Rightarrow> preflight_completeness \<Rightarrow> timestamp \<Rightarrow> prepared_revision \<Rightarrow> prepared_revision" where
  "sealed_revision parts digest pc now r =
     r\<lparr>rev_candidate_discovery_complete := pc_candidate_discovery_complete pc,
       rev_advisory_complete := pc_advisory_complete pc, rev_clear_for_publication := pc_clear_for_publication pc,
       rev_incomplete_reasons := mp_reasons parts, rev_extraction_sha256 := Some (mp_extraction_sha256 parts),
       rev_markdown_sha256 := Some (mp_markdown_sha256 parts),
       rev_vector_manifest_sha256 := Some (mp_vector_manifest_sha256 parts),
       rev_evidence_manifest_sha256 := Some (mp_evidence_manifest_sha256 parts), rev_manifest_sha256 := Some digest,
       rev_completed_at := Some now, rev_sealed_at := Some now, rev_failure_code := None,
       rev_failure_message := None, rev_status := REV_SEALED\<rparr>"

definition seal_prepared_revision ::
  "stdlib \<Rightarrow> (string \<Rightarrow> json option) \<Rightarrow> pipeline_profiles \<Rightarrow> preparation_handle \<Rightarrow> preflight_completeness \<Rightarrow> timestamp
     \<Rightarrow> catalog \<Rightarrow> worker_error + sealed_preparation \<times> catalog" where
  "seal_prepared_revision sl loads profiles h pc now c =
     rbind (validate_preparation_identity sl loads (ph_identity h) profiles) (\<lambda>_.
     rbind (load_revision (ph_revision_id h) (Some REV_PREPARING) c) (\<lambda>r.
     rbind (validate_revision_identity r h) (\<lambda>_.
     case get_document c (rev_document_id r) of
       None \<Rightarrow> Inl (preparation_error ''revision_identity_mismatch'' ''revision document correlation did not match'')
     | Some d \<Rightarrow>
         if doc_collection_key d \<noteq> ph_collection_key h
         then Inl (preparation_error ''revision_identity_mismatch'' ''revision document correlation did not match'')
         else if \<not> rev_native_text_eligible r \<or> \<not> rev_formatter_complete r \<or> \<not> rev_vector_complete r
         then Inl (preparation_error ''partial_preparation'' ''partial content artifacts could not be sealed'')
         else
         rbind (sealing_parts sl c r d pc) (\<lambda>parts.
         let digest = whole_manifest sl r d parts (pid_formatter_tokenizer_class (ph_identity h)) pc;
             r1 = sealed_revision parts digest pc now r
         in if \<not> revision_check r1
            then Inl (preparation_error ''seal_preparation_failed'' ''prepared revision could not be sealed'')
            else
            rbind (lift_lifecycle (upd_revision (rev_id r) (sealed_revision parts digest pc now) c)) (\<lambda>c1.
              Inr (\<lparr>sp_revision_id = rev_id r, sp_manifest_sha256 = digest,
                     sp_extraction_sha256 = mp_extraction_sha256 parts, sp_markdown_sha256 = mp_markdown_sha256 parts,
                     sp_vector_manifest_sha256 = mp_vector_manifest_sha256 parts,
                     sp_evidence_manifest_sha256 = mp_evidence_manifest_sha256 parts,
                     sp_page_count = (case rev_page_count r of None \<Rightarrow> 0 | Some n \<Rightarrow> n),
                     sp_chunk_count = (case rev_chunk_count r of None \<Rightarrow> 0 | Some n \<Rightarrow> n),
                     sp_clear_for_publication = pc_clear_for_publication pc\<rparr>, c1))))))"

end
