(* ===== verification/Sealing_Correct.thy ===== *)
theory Sealing_Correct
  imports Sealing Reachability
begin

text \<open>
  What a seal gives: the row is immutable with its manifest and counts, its points can be rebuilt from the
  stored rows alone, and they are the points publication will write.
\<close>

section \<open>What a seal needs and writes\<close>

lemma load_revision_Inr:
  "load_revision rid (Some s) c = Inr r \<longleftrightarrow> get_revision c rid = Some r \<and> rev_status r = s"
  by (auto simp: load_revision_def split: option.splits)

lemma upd_open_revision:
  assumes "get_revision c k = Some r" and "rev_status r \<noteq> REV_SEALED"
  shows "upd_revision k f c = Inr (c\<lparr>revisions := tupd rev_id k f (revisions c)\<rparr>)"
  using assms by (simp add: upd_revision_def stored_revision_status_def)

lemma seal_run:
  assumes "seal_prepared_revision sl loads profiles h pc now c = Inr (s, c')"
  obtains r d parts where "get_revision c (ph_revision_id h) = Some r" "rev_status r = REV_PREPARING"
    "rev_id r = ph_revision_id h" "get_document c (rev_document_id r) = Some d"
    "doc_collection_key d = ph_collection_key h" "sealing_parts sl c r d pc = Inr parts"
    "revision_check (sealed_revision parts (sp_manifest_sha256 s) pc now r)"
    "sp_manifest_sha256 s = whole_manifest sl r d parts (pid_formatter_tokenizer_class (ph_identity h)) pc"
    "c' = c\<lparr>revisions := tupd rev_id (rev_id r) (sealed_revision parts (sp_manifest_sha256 s) pc now) (revisions c)\<rparr>"
    "sp_revision_id s = rev_id r" "sp_clear_for_publication s = pc_clear_for_publication pc"
proof -
  from assms obtain r d where r: "get_revision c (ph_revision_id h) = Some r" "rev_status r = REV_PREPARING"
    and d: "get_document c (rev_document_id r) = Some d"
    by (auto simp: seal_prepared_revision_def result_simps load_revision_Inr split: option.split_asm)
  have id: "rev_id r = ph_revision_id h"
    using tget_Some_key [OF r(1)] .
  show ?thesis
    using assms r d id
    by (auto simp: seal_prepared_revision_def result_simps load_revision_Inr Let_def upd_open_revision lift_lifecycle_def
        split: if_splits intro!: that)
qed

section \<open>Points of a sealed revision\<close>

text \<open>Two revisions with the same identity, counts and index targets have the same points.\<close>

definition same_points :: "prepared_revision \<Rightarrow> prepared_revision \<Rightarrow> bool" where
  "same_points r r' \<longleftrightarrow> rev_id r' = rev_id r \<and> rev_document_id r' = rev_document_id r
     \<and> rev_page_count r' = rev_page_count r \<and> rev_chunk_count r' = rev_chunk_count r
     \<and> rev_expected_point_count r' = rev_expected_point_count r \<and> rev_active_collection r' = rev_active_collection r
     \<and> rev_content_profile_id r' = rev_content_profile_id r \<and> rev_index_profile_id r' = rev_index_profile_id r"

lemma same_pointsD:
  assumes "same_points r r'"
  shows "rev_id r' = rev_id r" "rev_page_count r' = rev_page_count r" "rev_chunk_count r' = rev_chunk_count r"
    "rev_expected_point_count r' = rev_expected_point_count r" "rev_active_collection r' = rev_active_collection r"
    "rev_content_profile_id r' = rev_content_profile_id r" "rev_index_profile_id r' = rev_index_profile_id r"
  using assms by (simp_all add: same_points_def)

lemma same_points_sealed: "same_points r (sealed_revision parts digest pc now r)"
  by (simp add: same_points_def sealed_revision_def)

lemma validate_rows_cong:
  assumes "same_points r r'" and "chunk_vectors c' = chunk_vectors c"
  shows "validate_rows sl c' r' d i ks = validate_rows sl c r d i ks"
proof (induction ks arbitrary: i)
  case (Cons k ks)
  have "validate_chunk_row sl r' d i k (vector_of c' (chk_id k)) = validate_chunk_row sl r d i k (vector_of c (chk_id k))"
    unfolding validate_chunk_row_def same_pointsD [OF assms(1)] assms(2) ..
  with Cons.IH show ?case
    by simp
qed simp

lemma validate_chunk_rows_cong:
  assumes "same_points r r'" and "chunk_vectors c' = chunk_vectors c"
  shows "validate_chunk_rows sl c' r' d ks = validate_chunk_rows sl c r d ks"
proof -
  have pt: "point_of d r' = point_of d r"
    unfolding point_of_def same_pointsD [OF assms(1)] ..
  show ?thesis
    unfolding validate_chunk_rows_def validate_rows_cong [OF assms] same_pointsD [OF assms(1)] pt ..
qed

lemma validate_rows_length: "validate_rows sl c r d i ks = Inr vs \<Longrightarrow> length vs = length ks"
  by (induction ks arbitrary: i vs) (auto simp: result_simps)

lemma validate_chunk_rows_count:
  "validate_chunk_rows sl c r d ks = Inr (points, m) \<Longrightarrow> rev_expected_point_count r = Some (int (length points))"
  by (auto simp: validate_chunk_rows_def result_simps dest!: validate_rows_length split: if_splits)

lemma check_completeness_clear:
  "check_completeness pc xs = Inr () \<Longrightarrow> pc_clear_for_publication pc = expected_clear pc xs"
  by (auto simp: check_completeness_def Let_def split: if_splits)

lemma sealing_parts_result:
  assumes "sealing_parts sl c r d pc = Inr parts"
  obtains points where
    "validate_persisted_pages sl r (stored_extracts c (rev_id r)) (stored_pages c (rev_id r))
       = Inr (mp_extraction_sha256 parts, mp_markdown_sha256 parts)"
    "validate_chunk_rows sl c r d (stored_chunks c (rev_id r)) = Inr (points, mp_vector_manifest_sha256 parts)"
    "pc_clear_for_publication pc = expected_clear pc (sealed_candidates c (rev_id r))"
    "mp_reasons parts = completeness_reasons pc"
  using assms by (auto simp: sealing_parts_def Let_def evidence_manifest_def result_simps
      dest!: check_completeness_clear split: if_splits prod.splits intro!: that)

lemma sealed_candidates_empty:
  "sealed_candidates c rid = [] \<longleftrightarrow> (\<forall>x\<in>set (candidates c). cand_revision_id x \<noteq> rid)"
proof -
  have "sealed_candidates c rid = [] \<longleftrightarrow> set (sealed_candidates c rid) = {}"
    by blast
  also have "\<dots> \<longleftrightarrow> (\<forall>x\<in>set (candidates c). cand_revision_id x \<noteq> rid)"
    by (auto simp: sealed_candidates_def)
  finally show ?thesis .
qed

lemma tget_tupd_same: "tget key k t = Some r \<Longrightarrow> f r = r \<Longrightarrow> tget key k (tupd key k f t) = Some r"
  by (induction t) (auto simp: tget_def tupd_def split: if_splits)

lemma sealed_row_frozen:
  assumes "get_revision c rid = Some r" and "rev_status r = REV_SEALED"
  shows "\<forall>change c2. upd_revision rid change c = Inr c2 \<longrightarrow> change r = r \<and> get_revision c2 rid = Some r"
    and "\<exists>e. prevent_sealed_child_insert c rid = Inl e"
    and "\<forall>old new. prevent_sealed_child_update c rid old new = Inr new \<longrightarrow> new = old"
  using assms tget_tupd_same
  by (auto simp: upd_revision_def prevent_sealed_child_insert_def prevent_sealed_child_update_def stored_revision_status_def
      split: if_splits)

text \<open>C29. A sealed revision can be published and no longer changes.  Sealing stores the manifest digest and consistent
  counts; the revision is clear for publication exactly if discovery and advisory review are complete and left
  neither candidates nor reasons; the points of the publication are rebuilt from the stored rows without error, as
  many as are expected.  From then on every update that would change the row is refused, and so is every insert and
  every change of a content row of it.\<close>

theorem sealed_revision_publishes:
  assumes "seal_prepared_revision sl loads profiles h pc now c = Inr (s, c')"
  shows "\<exists>r points. get_revision c' (sp_revision_id s) = Some r \<and> rev_status r = REV_SEALED \<and> revision_check r
    \<and> rev_manifest_sha256 r = Some (sp_manifest_sha256 s)
    \<and> (rev_clear_for_publication r \<longleftrightarrow> rev_candidate_discovery_complete r \<and> rev_advisory_complete r
         \<and> rev_incomplete_reasons r = [] \<and> (\<forall>x\<in>set (candidates c'). cand_revision_id x \<noteq> rev_id r))
    \<and> reconstruct_chunk_points sl (rev_id r) True c' = Inr points
    \<and> rev_expected_point_count r = Some (int (length points))
    \<and> (\<forall>change c2. upd_revision (rev_id r) change c' = Inr c2 \<longrightarrow> change r = r \<and> get_revision c2 (rev_id r) = Some r)
    \<and> (\<exists>e. prevent_sealed_child_insert c' (rev_id r) = Inl e)
    \<and> (\<forall>old new. prevent_sealed_child_update c' (rev_id r) old new = Inr new \<longrightarrow> new = old)"
proof -
  obtain r d parts where r: "get_revision c (ph_revision_id h) = Some r" "rev_id r = ph_revision_id h"
    and d: "get_document c (rev_document_id r) = Some d" and parts: "sealing_parts sl c r d pc = Inr parts"
    and chk: "revision_check (sealed_revision parts (sp_manifest_sha256 s) pc now r)"
    and c': "c' = c\<lparr>revisions := tupd rev_id (rev_id r) (sealed_revision parts (sp_manifest_sha256 s) pc now) (revisions c)\<rparr>"
    and s: "sp_revision_id s = rev_id r"
    using seal_run [OF assms] by metis
  let ?r = "sealed_revision parts (sp_manifest_sha256 s) pc now r"
  have r': "get_revision c' (rev_id r) = Some ?r"
    using r unfolding c' by (simp add: tget_tupd sealed_revision_def)
  obtain points where pts: "validate_chunk_rows sl c r d (stored_chunks c (rev_id r)) = Inr (points, mp_vector_manifest_sha256 parts)"
    and clear: "pc_clear_for_publication pc = expected_clear pc (sealed_candidates c (rev_id r))"
    and reasons: "mp_reasons parts = completeness_reasons pc"
    using sealing_parts_result [OF parts] by metis
  have pts': "validate_chunk_rows sl c' ?r d (stored_chunks c' (rev_id r)) = Inr (points, mp_vector_manifest_sha256 parts)"
    using validate_chunk_rows_cong [OF same_points_sealed, of c' c] pts unfolding c' by (simp add: stored_chunks_def)
  have "reconstruct_chunk_points sl (rev_id r) True c' = Inr points"
    using r' pts' d unfolding reconstruct_chunk_points_def
    by (simp add: load_revision_def sealed_revision_def c')
  moreover have "rev_expected_point_count ?r = Some (int (length points))"
    using validate_chunk_rows_count [OF pts'] .
  moreover have "rev_clear_for_publication ?r \<longleftrightarrow> rev_candidate_discovery_complete ?r \<and> rev_advisory_complete ?r
         \<and> rev_incomplete_reasons ?r = [] \<and> (\<forall>x\<in>set (candidates c'). cand_revision_id x \<noteq> rev_id ?r)"
    using clear reasons unfolding expected_clear_def sealed_candidates_empty
    by (auto simp: sealed_revision_def c')
  moreover have "rev_id ?r = rev_id r" "rev_status ?r = REV_SEALED" "rev_manifest_sha256 ?r = Some (sp_manifest_sha256 s)"
    by (simp_all add: sealed_revision_def)
  moreover from this have "get_revision c' (rev_id ?r) = Some ?r"
    using r' by simp
  note frozen = sealed_row_frozen [OF this \<open>rev_status ?r = REV_SEALED\<close>]
  ultimately show ?thesis
    using r' chk s frozen by (intro exI [of _ ?r] exI [of _ points] conjI) simp_all
qed

section \<open>Stored vectors\<close>

text \<open>A correlated vector and the rows that store it.\<close>

definition vector_ok :: "stdlib \<Rightarrow> preparation_handle \<Rightarrow> int \<Rightarrow> prepared_vector \<Rightarrow> bool" where
  "vector_ok sl h i v \<longleftrightarrow> (let k = pv_chunk v in
     mc_chunk_index k = i \<and> mc_chunk_id k = expected_chunk_id sl (ph_document_id h) (ph_revision_id h) i (mc_text_sha256 k)
     \<and> mc_text_sha256 k = sl_sha256 sl (mc_markdown k) \<and> \<not> list_all py_isspace (mc_markdown k)
     \<and> 0 < mc_token_count k \<and> mc_token_count k \<le> HARD_MAX_TOKENS
     \<and> dense_vector_sha256 sl (pv_dense v) = Inr (pv_dense_sha256 v)
     \<and> sparse_vector_sha256 sl (pv_sparse v) = Inr (pv_sparse_sha256 v))"

lemma correlate_vectors_ok:
  "correlate_vectors sl count h i ks ds ss = Inr vs \<Longrightarrow> length ds = length ks \<Longrightarrow> length ss = length ks
     \<Longrightarrow> map pv_chunk vs = ks \<and> (\<forall>j<length vs. vector_ok sl h (i + int j) (vs ! j))"
proof (induction sl count h i ks ds ss arbitrary: vs rule: correlate_vectors.induct)
  case (1 sl count h i k ks d ds s ss)
  from "1.prems" obtain dense dh sparse sh rest where step:
      "mc_chunk_index k = i" "mc_chunk_id k = expected_chunk_id sl (ph_document_id h) (ph_revision_id h) i (mc_text_sha256 k)"
      "mc_text_sha256 k = sl_sha256 sl (mc_markdown k)" "\<not> list_all py_isspace (mc_markdown k)"
      "0 < mc_token_count k" "mc_token_count k \<le> HARD_MAX_TOKENS"
      "count (mc_markdown k) = mc_token_count k"
      "dense_vector_sha256 sl dense = Inr dh" "sparse_vector_sha256 sl sparse = Inr sh"
      "correlate_vectors sl count h (i + 1) ks ds ss = Inr rest"
      "vs = \<lparr>pv_chunk = k, pv_dense = dense, pv_sparse = sparse, pv_dense_sha256 = dh, pv_sparse_sha256 = sh\<rparr> # rest"
    by (auto simp: result_simps split: if_splits)
  have "map pv_chunk rest = ks \<and> (\<forall>j<length rest. vector_ok sl h (i + 1 + int j) (rest ! j))"
    using "1.IH" step(10) "1.prems"(2,3) step(1-7) by simp
  then show ?case
    using step by (auto simp: vector_ok_def nth_Cons' less_Suc_eq_0_disj algebra_simps)
qed auto

lemma validate_stored_row:
  assumes v: "vector_ok sl h i v" and ids: "rev_id r = ph_revision_id h" "doc_id d = ph_document_id h"
    and pages: "1 \<le> mc_page_start (pv_chunk v)" "mc_page_start (pv_chunk v) \<le> mc_page_end (pv_chunk v)"
      "rev_page_count r = Some n" "mc_page_end (pv_chunk v) \<le> n"
  shows "validate_chunk_row sl r d i (chunk_row (rev_id r) v) (Some (vector_row (rev_id r) v)) = Inr v"
proof -
  obtain k dense sparse dh sh where "v = \<lparr>pv_chunk = k, pv_dense = dense, pv_sparse = sparse, pv_dense_sha256 = dh,
      pv_sparse_sha256 = sh\<rparr>"
    by (cases v)
  with assms show ?thesis
    by (cases k; cases sparse) (simp add: validate_chunk_row_def vector_ok_def chunk_row_def vector_row_def)
qed

lemma chk_id_row [simp]: "chk_id (chunk_row rid v) = mc_chunk_id (pv_chunk v)" "vec_chunk_id (vector_row rid v) = mc_chunk_id (pv_chunk v)"
  by (simp_all add: chunk_row_def vector_row_def Let_def)

lemma validate_stored_rows:
  assumes "\<forall>j<length vs. vector_ok sl h (i + int j) (vs ! j)"
    and ids: "rev_id r = ph_revision_id h" "doc_id d = ph_document_id h" "rev_page_count r = Some n"
    and "\<forall>v\<in>set vs. 1 \<le> mc_page_start (pv_chunk v) \<and> mc_page_start (pv_chunk v) \<le> mc_page_end (pv_chunk v)
           \<and> mc_page_end (pv_chunk v) \<le> n"
    and "\<forall>v\<in>set vs. vector_of c (mc_chunk_id (pv_chunk v)) = Some (vector_row (rev_id r) v)"
  shows "validate_rows sl c r d i (map (chunk_row (rev_id r)) vs) = Inr vs"
  using assms(1,5,6)
proof (induction vs arbitrary: i)
  case (Cons v vs)
  have "vector_ok sl h i v" "\<forall>j<length vs. vector_ok sl h (i + 1 + int j) (vs ! j)"
    using Cons.prems(1) by (auto dest: spec [of _ 0] spec [of _ "Suc _"] simp: algebra_simps)
  then show ?case
    using Cons.IH [of "i + 1"] Cons.prems(2,3) validate_stored_row [OF _ ids(1,2) _ _ ids(3), where v = v and i = i]
    by (auto simp: chk_id_row)
qed simp

lemma rows_of_new:
  assumes "filter (\<lambda>k. chk_revision_id k = rid) ks = []" and "\<forall>j<length vs. vector_ok sl h (int j) (vs ! j)"
  shows "sort_key chk_index (filter (\<lambda>k. chk_revision_id k = rid) (ks @ map (chunk_row rid) vs)) = map (chunk_row rid) vs"
proof -
  have "map (\<lambda>v. chk_index (chunk_row rid v)) vs = map int [0..<length vs]"
    using assms(2) by (auto intro!: nth_equalityI simp: chunk_row_def vector_ok_def Let_def)
  then have "sorted (map chk_index (map (chunk_row rid) vs))"
    by (simp add: comp_def sorted_wrt_map)
  moreover have "filter (\<lambda>k. chk_revision_id k = rid) (map (chunk_row rid) vs) = map (chunk_row rid) vs"
    by (auto simp: filter_map comp_def chunk_row_def Let_def)
  ultimately show ?thesis
    using assms(1) by (simp add: sort_key_id_if_sorted)
qed

lemma record_chunk_vectors_run:
  assumes "record_chunk_vectors sl h b c = Inr (m, c')" and "get_revision c (ph_revision_id h) = Some r"
  shows "rev_id r = ph_revision_id h" "revision_identity_matches r h"
    "filter (\<lambda>k. chk_revision_id k = rev_id r) (chunks c) = []"
    "cb_vectors b \<noteq> []" "m = vector_manifest sl (cb_vectors b)" "m = cb_vector_manifest_sha256 b"
    "distinct (map vec_chunk_id (chunk_vectors c'))" "list_all chunk_check (map (chunk_row (rev_id r)) (cb_vectors b))"
    "c' = c\<lparr>chunks := chunks c @ map (chunk_row (rev_id r)) (cb_vectors b),
             chunk_vectors := chunk_vectors c @ map (vector_row (rev_id r)) (cb_vectors b),
             revisions := tupd rev_id (rev_id r) (vectors_recorded b) (revisions c)\<rparr>"
proof -
  show id: "rev_id r = ph_revision_id h"
    using tget_Some_key [OF assms(2)] .
  from assms have prep: "rev_status r = REV_PREPARING"
    by (auto simp: record_chunk_vectors_def result_simps load_revision_Inr split: if_splits)
  from assms show "revision_identity_matches r h" "filter (\<lambda>k. chk_revision_id k = rev_id r) (chunks c) = []"
    "cb_vectors b \<noteq> []" "m = vector_manifest sl (cb_vectors b)" "m = cb_vector_manifest_sha256 b"
    by (auto simp: record_chunk_vectors_def validate_revision_identity_def result_simps load_revision_Inr split: if_splits)
  from assms id prep show "distinct (map vec_chunk_id (chunk_vectors c'))"
      "list_all chunk_check (map (chunk_row (rev_id r)) (cb_vectors b))"
      "c' = c\<lparr>chunks := chunks c @ map (chunk_row (rev_id r)) (cb_vectors b),
             chunk_vectors := chunk_vectors c @ map (vector_row (rev_id r)) (cb_vectors b),
             revisions := tupd rev_id (rev_id r) (vectors_recorded b) (revisions c)\<rparr>"
    by (auto simp: record_chunk_vectors_def insert_chunks_def result_simps load_revision_Inr Let_def upd_open_revision
        split: if_splits)
qed

text \<open>C28. Vectors survive storage: what \<^verbatim>\<open>build_chunk_vector_bundle\<close> correlated and \<^verbatim>\<open>record_chunk_vectors\<close>
  committed is rebuilt by \<^verbatim>\<open>reconstruct_chunk_points\<close> from the rows alone, point for point and in order,
  provided the page spans of the chunks end inside the document.\<close>

theorem vectors_round_trip:
  assumes made: "bundle_vectors sl count h markdown ks dense sparse = Inr b"
    and stored: "record_chunk_vectors sl h b c = Inr (m, c')"
    and d: "get_document c (ph_document_id h) = Some d"
    and r: "get_revision c (ph_revision_id h) = Some r" "rev_page_count r = Some n" "\<forall>k\<in>set ks. mc_page_end k \<le> n"
  shows "reconstruct_chunk_points sl (ph_revision_id h) False c' = Inr (map (point_of d r) (cb_vectors b))"
proof -
  let ?vs = "cb_vectors b" and ?r = "vectors_recorded b r"
  have lens: "length dense = length ks" "length sparse = length ks"
    and cor: "correlate_vectors sl count h 0 ks dense sparse = Inr ?vs"
    using made by (auto simp: bundle_vectors_def result_simps split: if_splits)
  note ok = correlate_vectors_ok [OF cor lens, simplified]
  note run = record_chunk_vectors_run [OF stored r(1)]
  note id = run(1) and ident = run(2) and none = run(3) and m = run(5,6) and dist = run(7) and chk = run(8) and c' = run(9)
  have r': "get_revision c' (ph_revision_id h) = Some ?r"
    using r(1) unfolding c' by (simp add: tget_tupd vectors_recorded_def id)
  have d': "get_document c' (rev_document_id ?r) = Some d" "doc_id d = ph_document_id h"
    using d ident tget_Some_key [OF d] unfolding c'
    by (auto simp: revision_identity_matches_def vectors_recorded_def Let_def)
  have rows: "stored_chunks c' (rev_id ?r) = map (chunk_row (rev_id ?r)) ?vs"
    using rows_of_new [OF none conjunct2 [OF ok]] unfolding c' by (simp add: stored_chunks_def vectors_recorded_def)
  have "validate_rows sl c' ?r d 0 (map (chunk_row (rev_id ?r)) ?vs) = Inr ?vs"
  proof (rule validate_stored_rows [where h = h and n = n])
    show "\<forall>v\<in>set ?vs. vector_of c' (mc_chunk_id (pv_chunk v)) = Some (vector_row (rev_id ?r) v)"
    proof
      fix v assume "v \<in> set ?vs"
      then have "vector_row (rev_id ?r) v \<in> set (chunk_vectors c')"
        unfolding c' by (simp add: vectors_recorded_def)
      from tget_mem [OF dist this] show "vector_of c' (mc_chunk_id (pv_chunk v)) = Some (vector_row (rev_id ?r) v)"
        by simp
    qed
    show "\<forall>v\<in>set ?vs. 1 \<le> mc_page_start (pv_chunk v) \<and> mc_page_start (pv_chunk v) \<le> mc_page_end (pv_chunk v)
        \<and> mc_page_end (pv_chunk v) \<le> n"
      using chk ok r(3) by (fastforce simp: list_all_iff chunk_check_def chunk_row_def Let_def)
  qed (use ok id d' r(2) in \<open>simp_all add: vectors_recorded_def\<close>)
  then have "validate_chunk_rows sl c' ?r d (stored_chunks c' (rev_id ?r)) = Inr (map (point_of d ?r) ?vs, m)"
    unfolding rows using run(4) m(1) by (simp add: validate_chunk_rows_def vectors_recorded_def)
  moreover have "point_of d ?r = point_of d r"
    by (simp add: point_of_def vectors_recorded_def fun_eq_iff)
  ultimately show ?thesis
    using r' d' m(2) by (simp add: reconstruct_chunk_points_def load_revision_def vectors_recorded_def)
qed

end
