(* ===== verification/Formatter_Correct.thy ===== *)
theory Formatter_Correct
  imports Formatter
begin

text \<open>
  What a formatted document promises: every page of the source is there, in order, its slices cover
  its normalised text exactly, and every slice's Markdown has the words and numbers of its source in
  the same order.  The assertions of the code never fire, and a failure is always one of the errors
  callers handle.
\<close>

section \<open>Slices\<close>

definition sliced :: "stdlib \<Rightarrow> source_page \<Rightarrow> source_slice list \<Rightarrow> bool" where
  "sliced sl page slices \<longleftrightarrow> slices \<noteq> []
     \<and> (\<forall>x\<in>set slices. ss_page_number x = sp_page_number page \<and> ss_text_sha256 x = sl_sha256 sl (ss_text x))
     \<and> map ss_slice_index slices = map int [0..<length slices]
     \<and> concat (map ss_text slices) = sp_text page"

lemma make_slice_simps [simp]:
  "ss_page_number (make_slice sl p i s) = p" "ss_slice_index (make_slice sl p i s) = i"
  "ss_text (make_slice sl p i s) = s" "ss_text_sha256 (make_slice sl p i s) = sl_sha256 sl s"
  by (simp_all add: make_slice_def)

lemma slice_loop_result:
  assumes "slice_loop sl client cfg pn slices remaining s = (Inr out, t)"
    and "\<forall>x\<in>set slices. ss_page_number x = pn \<and> ss_text_sha256 x = sl_sha256 sl (ss_text x)"
    and "map ss_slice_index slices = map int [0..<length slices]"
  shows "(\<forall>x\<in>set out. ss_page_number x = pn \<and> ss_text_sha256 x = sl_sha256 sl (ss_text x))
    \<and> map ss_slice_index out = map int [0..<length out]
    \<and> concat (map ss_text out) = concat (map ss_text slices) @ remaining
    \<and> (out = [] \<longleftrightarrow> slices = [] \<and> remaining = [])"
  using assms
proof (induction sl client cfg pn slices remaining s rule: slice_loop.induct)
  case (1 sl client cfg pn slices remaining s)
  show ?case
  proof (cases "remaining = []")
    case True
    then show ?thesis
      using "1.prems" by (subst (asm) slice_loop.simps) auto
  next
    case False
    obtain piece s' where piece: "next_piece sl client cfg pn (int (length slices)) remaining s = (Inr piece, s')"
      using "1.prems"(1) False by (subst (asm) slice_loop.simps) (auto split: prod.splits sum.splits)
    have "slice_loop sl client cfg pn (slices @ [make_slice sl pn (int (length slices)) piece])
        (drop (length piece) remaining) s' = (Inr out, t)"
      using "1.prems"(1) False piece by (subst (asm) slice_loop.simps) auto
    from "1.IH" [OF False piece [symmetric] refl this] "1.prems"(2,3) next_piece_prefix [OF piece False]
    show ?thesis
      by auto
  qed
qed

lemma slice_layout_page_sliced:
  assumes "slice_layout_page sl client cfg page s = (Inr slices, t)"
  shows "sliced sl page slices"
proof -
  obtain out s1 where loop: "slice_loop sl client cfg (sp_page_number page) [] (sp_text page) s = (Inr out, s1)"
    and rest: "out = [] \<and> slices = [make_slice sl (sp_page_number page) 0 []] \<or> out \<noteq> [] \<and> slices = out"
    using assms by (auto simp: slice_layout_page_def Let_def result_simps split: if_splits)
  from slice_loop_result [OF loop] rest show ?thesis
    by (auto simp: sliced_def)
qed

lemma prepare_slices_groups:
  "prepare_slices sl client cfg pages s = (Inr slices, t)
     \<Longrightarrow> \<exists>groups. slices = concat groups \<and> list_all2 (sliced sl) pages groups"
proof (induction pages arbitrary: s slices t)
  case (Cons page pages)
  let ?whole = "make_slice sl (sp_page_number page) 0 (sp_text page)"
  from Cons.prems obtain fits mine rest s0 s1 where slices: "slices = mine @ rest"
    and probe: "(if fits then iret [?whole] else slice_layout_page sl client cfg page) s0 = (Inr mine, s1)"
    and rest: "prepare_slices sl client cfg pages s1 = (Inr rest, t)"
    unfolding prepare_slices.simps Let_def ibind_eq_Inr iret_eq_Inr by blast
  from probe have mine: "mine = [?whole] \<or> slice_layout_page sl client cfg page s0 = (Inr mine, s1)"
    by (auto simp: result_simps split: if_splits)
  have "sliced sl page [?whole]"
    by (simp add: sliced_def)
  with mine slice_layout_page_sliced have "sliced sl page mine"
    by blast
  with Cons.IH [OF rest] slices show ?case
    by (metis concat.simps(2) list_all2_Cons)
qed (simp add: result_simps)

section \<open>Batches\<close>

lemma pack_loop_batches:
  assumes "pack_loop client cfg current slices s = (Inr batches, t)"
    and "1 \<le> fcfg_max_pages_per_request cfg" and "current \<noteq> [] \<Longrightarrow> slice_page_count current \<le> fcfg_max_pages_per_request cfg"
  shows "concat batches = current @ slices
    \<and> (\<forall>b\<in>set batches. b \<noteq> [] \<and> slice_page_count b \<le> fcfg_max_pages_per_request cfg)"
  using assms(1,3)
proof (induction slices arbitrary: current s batches t)
  case (Cons x slices)
  have one: "slice_page_count [x] \<le> fcfg_max_pages_per_request cfg"
    using assms(2) by (simp add: slice_page_count_def)
  from Cons.prems(1) obtain fits s1
    where probe: "(if slice_page_count (current @ [x]) \<le> fcfg_max_pages_per_request cfg
       then fits_budget client cfg (current @ [x]) else iret False) s = (Inr fits, s1)"
    and rest: "(if fits then pack_loop client cfg (current @ [x]) slices
       else ibind (fits_budget client cfg [x]) (\<lambda>alone.
         if \<not> alone
         then iraise (formatting_error ''an internally prepared formatter slice exceeded the token budget'')
         else ibind (pack_loop client cfg [x] slices) (\<lambda>batches.
           iret (if current = [] then batches else current # batches)))) s1 = (Inr batches, t)"
    unfolding pack_loop.simps ibind_eq_Inr by blast
  from probe have fits: "fits \<longrightarrow> slice_page_count (current @ [x]) \<le> fcfg_max_pages_per_request cfg"
    by (auto simp: result_simps split: if_splits)
  show ?case
  proof (cases fits)
    case True
    then show ?thesis
      using Cons.IH [of "current @ [x]" s1 batches t] rest fits by simp
  next
    case False
    then obtain more s2 where "pack_loop client cfg [x] slices s2 = (Inr more, t)"
      and "batches = (if current = [] then more else current # more)"
      using rest by (auto simp: result_simps split: if_splits)
    then show ?thesis
      using Cons.IH [of "[x]" s2 more t] one Cons.prems(2) by auto
  qed
qed (auto simp: result_simps)

section \<open>Validation\<close>

definition faithful :: "stdlib \<Rightarrow> source_slice \<Rightarrow> formatted_slice \<Rightarrow> bool" where
  "faithful sl source item \<longleftrightarrow>
     fsl_page_number item = ss_page_number source \<and> fsl_slice_index item = ss_slice_index source
     \<and> fsl_source_text item = ss_text source \<and> fsl_source_text_sha256 item = ss_text_sha256 source
     \<and> fidelity_projection sl True (fsl_markdown item) = fidelity_projection sl False (ss_text source)
     \<and> validate_markdown_structure (fsl_markdown item) (ss_text source) = Inr () \<and> fsl_markdown item \<noteq> []
     \<and> fsl_source_projection_sha256 item = fsl_markdown_projection_sha256 item"

lemma fidelity_check_Inr:
  "fidelity_check sl source markdown = Inr check \<Longrightarrow>
     fidelity_projection sl True markdown = fidelity_projection sl False (ss_text source)
     \<and> pc_markdown_projection_sha256 check = Some (pc_source_projection_sha256 check)"
  by (auto simp: fidelity_check_def Let_def split: if_splits)

lemma normalize_markdown_filled: "normalize_markdown sl raw = Inr m \<Longrightarrow> m \<noteq> []"
  by (auto simp: normalize_markdown_def Let_def split: if_splits)

lemma validate_slice_faithful:
  "validate_slice sl h ps actual source = Inr item \<Longrightarrow> faithful sl source item"
  by (auto simp: validate_slice_def result_simps faithful_def split: json.splits if_splits
      dest!: fidelity_check_Inr normalize_markdown_filled)

lemma validate_slices_faithful:
  "validate_slices sl h formatted actuals sources = Inr out \<Longrightarrow> length actuals = length sources
     \<Longrightarrow> \<exists>new. out = formatted @ new \<and> list_all2 (faithful sl) sources new"
proof (induction sl h formatted actuals sources rule: validate_slices.induct)
  case (1 sl h formatted actual actuals source sources)
  from "1.prems" obtain item where item: "validate_slice sl h (map evidence_of formatted) actual source = Inr item"
    and "validate_slices sl h (formatted @ [item]) actuals sources = Inr out"
    by (auto simp: result_simps)
  from "1.IH" [OF this(2)] "1.prems" validate_slice_faithful [OF item] show ?case
    by auto
qed auto

lemma validate_output_pages_faithful:
  "validate_output_pages sl h formatted pages groups = Inr out \<Longrightarrow> length pages = length groups
     \<Longrightarrow> \<exists>new. out = formatted @ new \<and> list_all2 (faithful sl) (concat (map snd groups)) new"
proof (induction sl h formatted pages groups rule: validate_output_pages.induct)
  case (1 sl h formatted page pages number sources groups)
  from "1.prems"(1) obtain members actuals middle where page: "page = JObj members" 
    and slices: "obj_get members ''slices'' = JArr actuals" "length actuals = length sources"
    and middle: "validate_slices sl h formatted actuals sources = Inr middle"
    and rest: "validate_output_pages sl h middle pages groups = Inr out"
    and checks: "exact_keys members [''page_number'', ''slices''] ''page'' = Inr ()" "obj_get members ''page_number'' = JInt number"
    by (auto simp: result_simps split: json.splits if_splits)
  obtain mine where "middle = formatted @ mine" and "list_all2 (faithful sl) sources mine"
    using validate_slices_faithful [OF middle slices(2)] by blast
  moreover have "\<exists>new. out = middle @ new \<and> list_all2 (faithful sl) (concat (map snd groups)) new"
    using "1.IH" page slices middle rest checks "1.prems"(2) by auto
  ultimately show ?case
    by (auto intro: list_all2_appendI)
qed auto

lemma group_slices_concat: "concat (map snd (group_slices slices)) = slices"
proof -
  have "concat (map snd (foldl group_step pages slices)) = concat (map snd pages) @ slices" for pages
  proof (induction slices arbitrary: pages)
    case (Cons x slices)
    have "concat (map snd (group_step pages x)) = concat (map snd pages) @ [x]"
      by (cases pages rule: rev_cases) (auto simp: group_step_def)
    with Cons show ?case
      by simp
  qed simp
  from this [of "[]"] show ?thesis
    by (simp add: group_slices_def)
qed

lemma validate_output_faithful:
  assumes "validate_output sl loads content slices h = Inr out"
  shows "list_all2 (faithful sl) slices out"
proof -
  obtain payload where "validate_payload sl h slices payload = Inr out"
    using assms unfolding validate_output_def
    by (auto simp: result_simps split: decoded.split_asm json.split_asm if_split_asm)
  then obtain pages where "length pages = length (group_slices slices)"
    and "validate_output_pages sl h [] pages (group_slices slices) = Inr out"
    by (auto simp: validate_payload_def result_simps split: json.splits)
  from validate_output_pages_faithful [OF this(2,1)] show ?thesis
    by (simp add: group_slices_concat)
qed


section \<open>Attempts\<close>

text \<open>The attempts of one batch: numbered from \<open>k\<close>, all but the last rejected.\<close>

definition attempt_run :: "int \<Rightarrow> int \<Rightarrow> formatter_attempt list \<Rightarrow> bool" where
  "attempt_run b k run \<longleftrightarrow> run \<noteq> [] \<and> (\<forall>a\<in>set run. fa_batch_index a = b)
     \<and> map fa_attempt_number run = map (\<lambda>i. k + int i) [0..<length run]
     \<and> map fa_valid run = replicate (length run - 1) False @ [True]"

lemma attempt_run_Cons:
  assumes "attempt_run b (k + 1) run"
  shows "attempt_run b k (failed_attempt b k r # run)"
proof -
  have "map (\<lambda>i. k + int i) [0..<Suc (length run)] = k # map (\<lambda>i. k + 1 + int i) [0..<length run]"
    by (simp add: upt_conv_Cons map_Suc_upt [symmetric] comp_def del: upt_Suc)
  moreover obtain m where "length run = Suc m"
    using assms by (cases run) (auto simp: attempt_run_def)
  ultimately show ?thesis
    using assms by (auto simp: attempt_run_def failed_attempt_def simp del: upt_Suc)
qed

lemma format_attempt_faithful:
  "format_attempt sl loads client cfg slices callback s = (Inr (formatted, h), t)
     \<Longrightarrow> list_all2 (faithful sl) slices formatted"
  by (auto simp: format_attempt_def result_simps split: prod.splits dest!: validate_output_faithful)

lemma attempt_loop_result:
  "attempt_loop sl loads client cfg b slices callback attempts k n s = (Inr (formatted, out), t)
     \<Longrightarrow> list_all2 (faithful sl) slices formatted
       \<and> (\<exists>run. out = attempts @ run \<and> attempt_run b k run \<and> length run \<le> n)"
proof (induction n arbitrary: attempts k s)
  case 0
  then show ?case
    by (auto split: list.splits simp: Let_def)
next
  case (Suc n)
  show ?case
  proof (cases "format_attempt sl loads client cfg slices callback s")
    case (Pair res s')
    show ?thesis
    proof (cases res)
      case (Inl e)
      with Suc.prems Pair obtain r where "e = AttemptRejected r"
        and "attempt_loop sl loads client cfg b slices callback (attempts @ [failed_attempt b k r]) (k + 1) n s'
          = (Inr (formatted, out), t)"
        by (auto split: formatter_error.splits)
      from Suc.IH [OF this(2)] show ?thesis
        using attempt_run_Cons by fastforce
    next
      case (Inr x)
      with Suc.prems Pair obtain h where x: "x = (formatted, h)"
        and out: "out = attempts @ [valid_attempt b k h formatted]"
        by (auto split: prod.splits)
      have "attempt_run b k [valid_attempt b k h formatted]"
        by (simp add: attempt_run_def valid_attempt_def)
      moreover have "list_all2 (faithful sl) slices formatted"
        using format_attempt_faithful Pair Inr x by blast
      ultimately show ?thesis
        using out by auto
    qed
  qed
qed


lemma format_batches_result:
  "format_batches sl loads client cfg callback b attempts batches s = (Inr (formatted, out), t)
     \<Longrightarrow> list_all2 (faithful sl) (concat batches) formatted
       \<and> (\<exists>runs. out = attempts @ concat runs \<and> length runs = length batches
            \<and> (\<forall>i<length runs. attempt_run (b + int i) 1 (runs ! i) \<and> length (runs ! i) \<le> nat (fcfg_max_attempts cfg)))"
proof (induction batches arbitrary: b attempts s formatted)
  case (Cons batch batches)
  then obtain mine attempts' s1 rest where formatted: "formatted = mine @ rest"
    and first: "attempt_loop sl loads client cfg b batch callback attempts 1 (nat (fcfg_max_attempts cfg)) s
        = (Inr (mine, attempts'), s1)"
    and later: "format_batches sl loads client cfg callback (b + 1) attempts' batches s1 = (Inr (rest, out), t)"
    by (auto simp: ibind_eq_Inr iret_eq_Inr format_batch_def)
  from attempt_loop_result [OF first] obtain run where mine: "list_all2 (faithful sl) batch mine"
    and run: "attempts' = attempts @ run" "attempt_run b 1 run" "length run \<le> nat (fcfg_max_attempts cfg)"
    by blast
  from Cons.IH [OF later] obtain runs where rest: "list_all2 (faithful sl) (concat batches) rest"
    and runs: "out = attempts' @ concat runs" "length runs = length batches"
      "\<forall>i<length runs. attempt_run (b + 1 + int i) 1 (runs ! i) \<and> length (runs ! i) \<le> nat (fcfg_max_attempts cfg)"
    by blast
  have "\<forall>i<length (run # runs). attempt_run (b + int i) 1 ((run # runs) ! i)
      \<and> length ((run # runs) ! i) \<le> nat (fcfg_max_attempts cfg)"
    using run(2,3) runs(3) by (auto simp: less_Suc_eq_0_disj algebra_simps)
  moreover have "out = attempts @ concat (run # runs)"
    using run(1) runs(1) by simp
  moreover have "length (run # runs) = length (batch # batches)"
    using runs(2) by simp
  moreover have "list_all2 (faithful sl) (concat (batch # batches)) formatted"
    using formatted mine rest by (auto intro: list_all2_appendI)
  ultimately show ?case
    by blast
qed (simp add: result_simps)

section \<open>Assembly\<close>

definition page_of :: "stdlib \<Rightarrow> source_page \<Rightarrow> formatted_page \<Rightarrow> bool" where
  "page_of sl source page \<longleftrightarrow>
     fpg_page_number page = sp_page_number source \<and> fpg_source_text page = sp_text source
     \<and> fpg_source_text_sha256 page = sp_text_sha256 source
     \<and> fpg_markdown page = py_join [LF, LF] (map fsl_markdown (fpg_slices page))
     \<and> (\<exists>slices. sliced sl source slices \<and> list_all2 (faithful sl) slices (fpg_slices page))"

lemma faithful_filter:
  assumes "list_all2 (faithful sl) slices formatted"
  shows "list_all2 (faithful sl) (filter (\<lambda>x. ss_page_number x = n) slices) (filter (\<lambda>x. fsl_page_number x = n) formatted)"
  using assms by (induction rule: list_all2_induct) (auto simp: faithful_def)

lemma sliced_filter:
  assumes "list_all2 (sliced sl) pages groups" and "n \<notin> sp_page_number ` set pages"
  shows "filter (\<lambda>x. ss_page_number x = n) (concat groups) = []"
  using assms by (induction rule: list_all2_induct) (auto simp: sliced_def filter_empty_conv)

lemma faithful_maps:
  assumes "list_all2 (faithful sl) slices formatted"
  shows "map fsl_slice_index formatted = map ss_slice_index slices"
    and "map fsl_source_text formatted = map ss_text slices"
  using assms by (induction rule: list_all2_induct) (auto simp: faithful_def)

lemma assemble_pages_result:
  assumes "list_all2 (sliced sl) pages groups" and "distinct (map sp_page_number pages)"
    and "\<And>page grp. (page, grp) \<in> set (zip pages groups) \<Longrightarrow>
      list_all2 (faithful sl) grp (filter (\<lambda>x. fsl_page_number x = sp_page_number page) formatted)"
  shows "\<exists>out. assemble_pages pages formatted = Inr out \<and> list_all2 (page_of sl) pages out"
  using assms
proof (induction rule: list_all2_induct)
  case (Cons page pages grp groups)
  let ?mine = "filter (\<lambda>x. fsl_page_number x = sp_page_number page) formatted"
  have mine: "list_all2 (faithful sl) grp ?mine"
    using Cons.prems(2) by simp
  have "length ?mine = length grp"
    using list_all2_lengthD [OF mine] by simp
  then have checks: "?mine \<noteq> []" "map fsl_slice_index ?mine = map int [0..<length ?mine]"
      "concat (map fsl_source_text ?mine) = sp_text page"
    using Cons.hyps(1) faithful_maps [OF mine] by (auto simp: sliced_def simp del: length_filter_conv_card)
  obtain out where "assemble_pages pages formatted = Inr out" and "list_all2 (page_of sl) pages out"
    using Cons.IH Cons.prems by auto
  moreover have "page_of sl page \<lparr>fpg_page_number = sp_page_number page, fpg_source_text = sp_text page,
      fpg_source_text_sha256 = sp_text_sha256 page, fpg_markdown = py_join [LF, LF] (map fsl_markdown ?mine),
      fpg_slices = ?mine\<rparr>"
    using mine Cons.hyps(1) by (auto simp: page_of_def)
  ultimately show ?case
    using checks by (auto simp: Let_def)
qed simp

lemma groups_by_page:
  assumes "list_all2 (sliced sl) pages groups" and "distinct (map sp_page_number pages)"
    and "(page, grp) \<in> set (zip pages groups)"
  shows "filter (\<lambda>x. ss_page_number x = sp_page_number page) (concat groups) = grp"
  using assms
proof (induction rule: list_all2_induct)
  case (Cons p pages g groups)
  have keep: "filter (\<lambda>x. ss_page_number x = sp_page_number p) g = g"
    using Cons.hyps(1) by (auto simp: sliced_def intro: filter_True)
  have drop: "filter (\<lambda>x. ss_page_number x = n) g = []" if "n \<noteq> sp_page_number p" for n
    using Cons.hyps(1) that by (auto simp: sliced_def filter_empty_conv)
  show ?case
  proof (cases "(page, grp) = (p, g)")
    case True
    then show ?thesis
      using keep sliced_filter [OF Cons.hyps(2)] Cons.prems(1) by simp
  next
    case False
    then have mem: "(page, grp) \<in> set (zip pages groups)"
      using Cons.prems(2) by auto
    then have "sp_page_number page \<noteq> sp_page_number p"
      using Cons.prems(1) by (auto dest!: set_zip_leftD simp: image_iff)
    then show ?thesis
      using Cons.IH Cons.prems(1) mem drop by simp
  qed
qed simp

lemma assembled:
  assumes "list_all2 (sliced sl) pages groups" and "distinct (map sp_page_number pages)"
    and "list_all2 (faithful sl) (concat groups) formatted"
  shows "\<exists>out. assemble_pages pages formatted = Inr out \<and> list_all2 (page_of sl) pages out"
proof (rule assemble_pages_result [OF assms(1,2)])
  fix page grp assume "(page, grp) \<in> set (zip pages groups)"
  from groups_by_page [OF assms(1,2) this] faithful_filter [OF assms(3), of "sp_page_number page"]
  show "list_all2 (faithful sl) grp (filter (\<lambda>x. fsl_page_number x = sp_page_number page) formatted)"
    by simp
qed

section \<open>The document\<close>

lemma normalize_pages_from_result:
  "normalize_pages_from sl n pages = Inr sources \<Longrightarrow>
     map sp_page_number sources = map lp_page_number pages
     \<and> map lp_page_number pages = map (\<lambda>i. n + int i) [0..<length pages]
     \<and> map sp_text sources = map (\<lambda>p. normalize_layout_text sl (lp_text p)) pages
     \<and> map sp_text_sha256 sources = map (\<lambda>p. sl_sha256 sl (normalize_layout_text sl (lp_text p))) pages"
proof (induction sl n pages arbitrary: sources rule: normalize_pages_from.induct)
  case (2 sl n page pages)
  have "map (\<lambda>i. n + int i) [0..<Suc (length pages)] = n # map (\<lambda>i. n + 1 + int i) [0..<length pages]"
    by (simp add: upt_conv_Cons map_Suc_upt [symmetric] comp_def del: upt_Suc)
  with 2 show ?case
    by (auto simp: result_simps Let_def simp del: upt_Suc)
qed simp

lemma normalize_pages_result:
  assumes "normalize_pages sl pages = Inr sources"
  shows "map sp_page_number sources = map lp_page_number pages"
    and "map lp_page_number pages = map (\<lambda>i. 1 + int i) [0..<length pages]"
    and "map sp_text sources = map (\<lambda>p. normalize_layout_text sl (lp_text p)) pages"
    and "distinct (map sp_page_number sources)"
proof -
  have *: "normalize_pages_from sl 1 pages = Inr sources"
    using assms by (auto simp: normalize_pages_def split: if_splits)
  show "map sp_page_number sources = map lp_page_number pages"
    and "map lp_page_number pages = map (\<lambda>i. 1 + int i) [0..<length pages]"
    and "map sp_text sources = map (\<lambda>p. normalize_layout_text sl (lp_text p)) pages"
    using normalize_pages_from_result [OF *] by auto
  then show "distinct (map sp_page_number sources)"
    by (simp add: distinct_map inj_on_def)
qed

lemma ibindE:
  assumes "ibind m f s = (Inr y, t)"
  obtains x s' where "m s = (Inr x, s')" and "f x s' = (Inr y, t)"
  using assms by (auto simp: ibind_eq_Inr)

lemma check_tokenizer_info_Inr:
  assumes "check_tokenizer_info cfg payload = Inr c"
  shows "c = fcfg_expected_tokenizer_class cfg"
proof (cases payload)
  case (JObj kvs)
  with assms show ?thesis
    by (cases "obj_get kvs ''tokenizer_class''") (auto simp: check_tokenizer_info_def split: if_splits)
qed (use assms in \<open>simp_all add: check_tokenizer_info_def\<close>)

lemma tokenizer_identity_expected:
  "tokenizer_identity client cfg s = (Inr c, t) \<Longrightarrow> c = fcfg_expected_tokenizer_class cfg"
  by (auto simp: tokenizer_identity_def result_simps dest!: check_tokenizer_info_Inr)

lemma format_pages_run:
  assumes "format_pages sl loads client cfg pages callback s = (Inr doc, t)"
  obtains sources groups batches formatted s1 s2 s3
  where "normalize_pages sl pages = Inr sources" and "list_all2 (sliced sl) sources groups"
    and "pack_loop client cfg [] (concat groups) s1 = (Inr batches, s2)"
    and "format_batches sl loads client cfg callback 0 [] batches s3 = (Inr (formatted, fd_attempts doc), t)"
    and "assemble_pages sources formatted = Inr (fd_pages doc)"
    and "fst_max_model_len t = Some (fd_max_model_len doc)"
    and "fd_markdown doc = document_markdown (fd_pages doc)"
    and "fd_markdown_sha256 doc = sl_sha256 sl (fd_markdown doc)"
    and "fd_tokenizer_class doc = fcfg_expected_tokenizer_class cfg"
  using assms unfolding format_pages_def pack_batches_def format_packed_def
  apply (elim ibindE)
  apply (clarsimp simp: result_simps split: if_splits option.splits prod.splits)
  apply (frule tokenizer_identity_expected, frule prepare_slices_groups)
  apply blast
  done

text \<open>What every page of a document has.\<close>

definition page_complete :: "stdlib \<Rightarrow> formatted_page \<Rightarrow> bool" where
  "page_complete sl p \<longleftrightarrow> fpg_slices p \<noteq> [] \<and> concat (map fsl_source_text (fpg_slices p)) = fpg_source_text p
     \<and> map fsl_slice_index (fpg_slices p) = map int [0..<length (fpg_slices p)]
     \<and> fpg_markdown p = py_join [LF, LF] (map fsl_markdown (fpg_slices p))
     \<and> (\<forall>x\<in>set (fpg_slices p).
          fidelity_projection sl True (fsl_markdown x) = fidelity_projection sl False (fsl_source_text x)
          \<and> validate_markdown_structure (fsl_markdown x) (fsl_source_text x) = Inr () \<and> fsl_markdown x \<noteq> [])"

lemma page_of_complete:
  assumes "page_of sl source page"
  shows "page_complete sl page"
proof -
  obtain slices where ok: "sliced sl source slices" and all: "list_all2 (faithful sl) slices (fpg_slices page)"
    using assms by (auto simp: page_of_def)
  have "fpg_slices page \<noteq> []"
    using ok all by (auto simp: sliced_def)
  moreover have "length slices = length (fpg_slices page)"
    using all by (rule list_all2_lengthD)
  moreover have "\<forall>x\<in>set (fpg_slices page).
      fidelity_projection sl True (fsl_markdown x) = fidelity_projection sl False (fsl_source_text x)
      \<and> validate_markdown_structure (fsl_markdown x) (fsl_source_text x) = Inr () \<and> fsl_markdown x \<noteq> []"
    using all by (induction rule: list_all2_induct) (auto simp: faithful_def)
  ultimately show ?thesis
    using ok assms faithful_maps [OF all] unfolding page_complete_def
    by (auto simp: sliced_def page_of_def)
qed

lemma document_pages:
  assumes "format_pages sl loads client cfg pages callback s = (Inr doc, t)" and "1 \<le> fcfg_max_pages_per_request cfg"
  shows "\<exists>sources. normalize_pages sl pages = Inr sources \<and> list_all2 (page_of sl) sources (fd_pages doc)"
proof -
  obtain sources groups batches formatted s1 s2 s3
    where sources: "normalize_pages sl pages = Inr sources" and groups: "list_all2 (sliced sl) sources groups"
      and pack: "pack_loop client cfg [] (concat groups) s1 = (Inr batches, s2)"
      and run: "format_batches sl loads client cfg callback 0 [] batches s3 = (Inr (formatted, fd_attempts doc), t)"
      and assembled_pages: "assemble_pages sources formatted = Inr (fd_pages doc)"
    using format_pages_run [OF assms(1)] by metis
  have "concat batches = concat groups"
    using pack_loop_batches [OF pack assms(2)] by simp
  then have "list_all2 (faithful sl) (concat groups) formatted"
    using format_batches_result [OF run] by simp
  from assembled [OF groups normalize_pages_result(4) [OF sources] this] assembled_pages sources show ?thesis
    by auto
qed

section \<open>Errors\<close>

text \<open>\<open>raises_at P m s\<close>: started in \<open>s\<close>, whatever \<open>m\<close> raises satisfies \<open>P\<close>.\<close>

definition raises_at :: "('e \<Rightarrow> bool) \<Rightarrow> ('s, 'e, 'a) io \<Rightarrow> 's \<Rightarrow> bool" where
  "raises_at P m s \<longleftrightarrow> (\<forall>e t. m s = (Inl e, t) \<longrightarrow> P e)"

text \<open>The decoder or the client raises an exception that the formatter does not catch, on some input.\<close>

definition uncaught_reply :: "http_reply \<Rightarrow> bool" where
  "uncaught_reply reply \<longleftrightarrow> reply = ClientRaised \<or> (\<exists>status. reply = Reply (Some status) DecoderRaised)"

definition uncaught_source :: "(string \<Rightarrow> decoded) \<Rightarrow> 'c formatter_client \<Rightarrow> bool" where
  "uncaught_source loads client \<longleftrightarrow> (\<exists>content. loads content = DecoderRaised)
     \<or> (\<exists>url headers timeout c. uncaught_reply (fst (fc_get client url headers timeout c)))
     \<or> (\<exists>url body headers timeout c. uncaught_reply (fst (fc_post client url body headers timeout c)))"

definition handled :: "(string \<Rightarrow> decoded) \<Rightarrow> 'c formatter_client \<Rightarrow> formatter_error \<Rightarrow> bool" where
  "handled loads client e \<longleftrightarrow> (\<exists>message attempts. e = MarkdownFormattingError message attempts)
     \<or> (\<exists>failure. e = CallbackError failure) \<or> (e = UncaughtError \<and> uncaught_source loads client)"

definition rejected :: "formatter_error \<Rightarrow> bool" where
  "rejected e \<longleftrightarrow> (\<exists>r. e = AttemptRejected r)"

lemma handled_simps [simp]:
  "handled loads client (formatting_error m)" "handled loads client (MarkdownFormattingError m a)"
  "handled loads client (CallbackError x)" "\<not> handled loads client (AttemptRejected r)"
  "\<not> handled loads client (AssertionError m)"
  by (auto simp: handled_def formatting_error_def)

lemma raises_iret [intro!]: "raises_at P (iret x) s"
  by (simp add: raises_at_def iret_def)

lemma raises_iraise [intro]: "P e \<Longrightarrow> raises_at P (iraise e) s"
  by (simp add: raises_at_def iraise_def)

lemma raises_lift [intro]: "(\<And>e. r = Inl e \<Longrightarrow> P e) \<Longrightarrow> raises_at P (lift_result r) s"
  by (simp add: raises_at_def lift_result_def)

lemma raises_ibind [intro]:
  assumes "raises_at P m s" and "\<And>x t. m s = (Inr x, t) \<Longrightarrow> raises_at P (f x) t"
  shows "raises_at P (ibind m f) s"
  using assms by (auto simp: raises_at_def ibind_def split: prod.splits sum.splits)

lemma raises_if [intro]: "(b \<Longrightarrow> raises_at P m s) \<Longrightarrow> (\<not> b \<Longrightarrow> raises_at P m' s) \<Longrightarrow> raises_at P (if b then m else m') s"
  by simp

lemma raises_mono: "raises_at P m s \<Longrightarrow> (\<And>e. P e \<Longrightarrow> Q e) \<Longrightarrow> raises_at Q m s"
  by (auto simp: raises_at_def)

lemma raises_option [intro]:
  "(x = None \<Longrightarrow> raises_at P m s) \<Longrightarrow> (\<And>y. x = Some y \<Longrightarrow> raises_at P (f y) s)
     \<Longrightarrow> raises_at P (case x of None \<Rightarrow> m | Some y \<Rightarrow> f y) s"
  by (cases x) auto

lemma raises_decoded [intro]:
  "(\<And>y. x = Decoded y \<Longrightarrow> raises_at P (f y) s) \<Longrightarrow> (x = DecoderRejected \<Longrightarrow> raises_at P m s)
     \<Longrightarrow> (x = DecoderRaised \<Longrightarrow> raises_at P m' s)
     \<Longrightarrow> raises_at P (case x of Decoded y \<Rightarrow> f y | DecoderRejected \<Rightarrow> m | DecoderRaised \<Rightarrow> m') s"
  by (cases x) auto

lemma sent_source: "uncaught_reply (fst (send_request client cfg path body c)) \<Longrightarrow> uncaught_source loads client"
  unfolding uncaught_source_def send_request_def Let_def by (cases body) auto

lemma request_raises:
  assumes "\<And>t. raises_at P validation t" and "\<And>r. P (AttemptRejected r)"
    and "uncaught_source loads client \<Longrightarrow> P UncaughtError"
  shows "raises_at P (request_json client cfg path body validation) s"
proof -
  have reply: "raises_at P (read_reply path validation reply) t" if "uncaught_reply reply \<Longrightarrow> P UncaughtError" for reply t
    using assms(1,2) that unfolding read_reply_def
    by (cases reply) (auto simp: provider_error_def uncaught_reply_def
        intro!: raises_ibind raises_option raises_decoded raises_if raises_iraise)
  show ?thesis
    using reply [OF assms(3) [OF sent_source]] unfolding raises_at_def request_json_def Let_def
    by (metis (no_types, lifting) case_prod_beta)
qed

lemma final_request_raises: "raises_at (handled loads client) (final_request client cfg path body) s"
proof -
  have "raises_at (\<lambda>e. handled loads client e \<or> rejected e) (request_json client cfg path body (iret ())) s"
    by (rule request_raises [where loads = loads]) (auto simp: rejected_def handled_def)
  then show ?thesis
    by (auto simp: raises_at_def final_request_def rejected_def split: prod.splits sum.splits formatter_error.splits)
qed

lemma parse_raises: "raises_at (handled loads client) (parse_tokenization cfg payload) s"
  by (auto simp: raises_at_def parse_tokenization_def split: json.splits option.splits prod.splits if_splits)

lemma parse_known: "parse_tokenization cfg payload s = (Inr x, t) \<Longrightarrow> fst_max_model_len t \<noteq> None"
  by (cases payload) (auto simp: parse_tokenization_def split: option.splits prod.splits if_splits)

lemma tokenizer_identity_raises: "raises_at (handled loads client) (tokenizer_identity client cfg) s"
  unfolding tokenizer_identity_def
proof (intro raises_ibind final_request_raises raises_lift)
  fix payload t e assume "check_tokenizer_info cfg payload = Inl e"
  then show "handled loads client e"
    by (auto simp: check_tokenizer_info_def split: json.splits if_splits)
qed

lemma raises_case_prod [intro]: "raises_at P (f (fst p) (snd p)) s \<Longrightarrow> raises_at P (case p of (a, b) \<Rightarrow> f a b) s"
  by (simp add: case_prod_beta)

lemma token_count_raises: "raises_at (handled loads client) (token_count client cfg slices) s"
  unfolding token_count_def by (intro raises_ibind final_request_raises parse_raises raises_case_prod raises_iret)

lemma raw_token_ids_raises: "raises_at (handled loads client) (raw_token_ids client cfg source) s"
  unfolding raw_token_ids_def by (intro raises_ibind final_request_raises parse_raises raises_case_prod raises_iret)

lemma token_count_known: "token_count client cfg slices s = (Inr x, t) \<Longrightarrow> fst_max_model_len t \<noteq> None"
  by (auto simp: token_count_def result_simps dest!: parse_known)

lemma fits_budget_raises: "raises_at (handled loads client) (fits_budget client cfg slices) s"
  unfolding fits_budget_def
proof (rule raises_ibind [OF token_count_raises])
  fix x t assume "token_count client cfg slices s = (Inr x, t)"
  from token_count_known [OF this] show "raises_at (handled loads client) (\<lambda>s. case fst_max_model_len s of
         None \<Rightarrow> (Inl (AssertionError ''state.max_model_len is not None''), s)
       | Some max_model_len \<Rightarrow> (Inr (within_budget cfg x max_model_len), s)) t"
    by (auto simp: raises_at_def)
qed

lemma fits_budget_known: "fits_budget client cfg slices s = (Inr x, t) \<Longrightarrow> fst_max_model_len t \<noteq> None"
  by (auto simp: fits_budget_def ibind_eq_Inr split: option.splits)

lemma fitting_search_raises:
  assumes "\<And>m s. raises_at P (fits m) s"
  shows "raises_at P (fitting_search fits low high best) s"
  using assms
proof (induction fits low high best s rule: fitting_search.induct)
  case (1 fits low high best s)
  show ?case
    unfolding raises_at_def
  proof (intro allI impI)
    fix e t assume *: "fitting_search fits low high best s = (Inl e, t)"
    then have le: "low \<le> high"
      by (subst (asm) fitting_search.simps) (auto split: if_splits)
    show "P e"
    proof (cases "fits ((low + high) div 2) s")
      case (Pair res s')
      show ?thesis
      proof (cases res)
        case (Inl e')
        with * Pair le have "e' = e"
          by (subst (asm) fitting_search.simps) (auto simp: Let_def)
        with "1.prems" Pair Inl show ?thesis
          by (auto simp: raises_at_def)
      next
        case (Inr ok)
        from "1.IH"(1) [OF le refl Pair [symmetric] Inr] "1.IH"(2) [OF le refl Pair [symmetric] Inr] "1.prems" * Pair Inr le
        show ?thesis
          by (subst (asm) (3) fitting_search.simps) (auto simp: Let_def raises_at_def split: if_splits)
      qed
    qed
  qed
qed


lemma boundary_loop_raises:
  "raises_at (handled loads client) (boundary_loop sl client cfg pn i source complete_tokens n) s"
  by (induction n arbitrary: s)
    (auto intro!: raises_ibind raises_if raw_token_ids_raises fits_budget_raises)

lemma token_boundary_raises: "raises_at (handled loads client) (largest_fitting_token_boundary sl client cfg pn i source) s"
  unfolding largest_fitting_token_boundary_def largest_fitting_text_prefix_def
  by (intro raises_ibind raises_if raises_iret fitting_search_raises fits_budget_raises raw_token_ids_raises
      boundary_loop_raises)

lemma next_piece_raises: "raises_at (handled loads client) (next_piece sl client cfg pn i remaining) s"
  unfolding next_piece_def largest_fitting_line_prefix_def Let_def
  by (intro raises_ibind raises_if raises_iret raises_iraise handled_simps fitting_search_raises fits_budget_raises
      token_boundary_raises)

lemma slice_loop_raises: "raises_at (handled loads client) (slice_loop sl client cfg pn slices remaining) s"
proof (induction sl client cfg pn slices remaining s rule: slice_loop.induct)
  case (1 sl client cfg pn slices remaining s)
  show ?case
  proof (cases "remaining = []")
    case False
    show ?thesis
    proof (cases "next_piece sl client cfg pn (int (length slices)) remaining s")
      case (Pair res s')
      show ?thesis
      proof (cases res)
        case (Inl e)
        then have "handled loads client e"
          using next_piece_raises Pair by (metis raises_at_def)
        then show ?thesis
          using False Pair Inl unfolding raises_at_def by (subst slice_loop.simps) simp
      next
        case (Inr piece)
        from "1.IH" [OF False Pair [symmetric] Inr] show ?thesis
          using False Pair Inr unfolding raises_at_def by (subst slice_loop.simps) simp
      qed
    qed
  qed (simp add: raises_at_def slice_loop.simps)
qed

lemma slice_layout_page_raises: "raises_at (handled loads client) (slice_layout_page sl client cfg page) s"
  unfolding slice_layout_page_def Let_def
proof (rule raises_ibind [OF slice_loop_raises])
  fix slices t
  assume loop: "slice_loop sl client cfg (sp_page_number page) [] (sp_text page) s = (Inr slices, t)"
  from slice_loop_result [OF loop] have "concat (map ss_text slices) = sp_text page"
    and "slices = [] \<Longrightarrow> sp_text page = []"
    by simp_all
  then show "raises_at (handled loads client) (ibind (if slices = [] then
        ibind (fits_budget client cfg [make_slice sl (sp_page_number page) 0 []]) (\<lambda>fits.
             if fits then iret [make_slice sl (sp_page_number page) 0 []]
             else iraise (formatting_error ''formatter prompt overhead leaves no room for an empty page''))
         else iret slices) (\<lambda>slices.
       if concat (map ss_text slices) \<noteq> sp_text page
       then iraise (AssertionError ''formatter slicing did not preserve exact source coverage'')
       else iret slices)) t"
    by (intro raises_ibind) (auto intro!: raises_ibind raises_if raises_iraise fits_budget_raises
        simp: result_simps split: if_splits)
qed

lemma prepare_slices_raises: "raises_at (handled loads client) (prepare_slices sl client cfg pages) s"
  by (induction pages arbitrary: s)
    (auto simp: Let_def intro!: raises_ibind raises_if fits_budget_raises slice_layout_page_raises)

lemma pack_loop_raises: "raises_at (handled loads client) (pack_loop client cfg current slices) s"
  by (induction slices arbitrary: current s)
    (auto intro!: raises_ibind raises_if raises_iraise fits_budget_raises)

lemma report_progress_raises: "raises_at (handled loads client) (report_progress callback progress) s"
  by (auto simp: raises_at_def report_progress_def split: option.splits prod.splits sum.splits if_splits)

subsection \<open>Attempts\<close>

definition slice_keys :: "source_slice list \<Rightarrow> (int \<times> int) list" where
  "slice_keys slices = map (\<lambda>x. (ss_page_number x, ss_slice_index x)) slices"

lemma completion_envelope_Inl: "completion_envelope cfg payload = Inl e \<Longrightarrow> rejected e"
  unfolding completion_envelope_def
  by (auto simp: rejected_def reject_def split: json.splits list.splits if_splits)

lemma format_attempt_raises:
  assumes "distinct (slice_keys slices)"
  shows "raises_at (\<lambda>e. handled loads client e \<or> rejected e) (format_attempt sl loads client cfg slices callback) s"
  unfolding format_attempt_def completion_content_def
proof (intro raises_ibind request_raises [where loads = loads] raises_lift raises_case_prod raises_iret)
  fix t show "raises_at (\<lambda>e. handled loads client e \<or> rejected e) (report_progress callback FP_VALIDATING_MARKDOWN) t"
    by (rule raises_mono [OF report_progress_raises [of loads client]]) simp
next
  fix content h t e assume out: "validate_output sl loads content slices h = Inl e"
  show "handled loads client e \<or> rejected e"
  proof (cases "loads content = DecoderRaised")
    case True
    then have "e = UncaughtError" and "uncaught_source loads client"
      using assms out by (auto simp: validate_output_def slice_keys_def uncaught_source_def)
    then show ?thesis
      by (simp add: handled_def)
  next
    case False
    then show ?thesis
      using assms out by (auto simp: validate_output_def slice_keys_def map_error_def rejected_def split: sum.splits)
  qed
qed (auto simp: rejected_def handled_def dest: completion_envelope_Inl)

lemma attempt_loop_raises:
  assumes "distinct (slice_keys slices)" and "attempts \<noteq> [] \<or> 0 < n"
  shows "raises_at (handled loads client) (attempt_loop sl loads client cfg b slices callback attempts k n) s"
  using assms(2)
proof (induction n arbitrary: attempts k s)
  case 0
  then show ?case
    by (cases attempts) (simp_all add: raises_at_def Let_def)
next
  case (Suc n attempts k s)
  show ?case
  proof (cases "format_attempt sl loads client cfg slices callback s")
    case (Pair res s')
    show ?thesis
    proof (cases res)
      case (Inl e)
      then have "handled loads client e \<or> rejected e"
        using format_attempt_raises [OF assms(1)] Pair by (metis raises_at_def)
      then show ?thesis
        using Suc.IH [of "attempts @ [failed_attempt b k r]" "k + 1" s' for r] Pair Inl
        by (cases e) (auto simp: raises_at_def rejected_def)
    next
      case (Inr x)
      with Pair show ?thesis
        by (cases x) (simp add: raises_at_def)
    qed
  qed
qed

lemma format_batches_raises:
  assumes "\<forall>batch\<in>set batches. distinct (slice_keys batch)" and "0 < fcfg_max_attempts cfg"
  shows "raises_at (handled loads client) (format_batches sl loads client cfg callback b attempts batches) s"
  using assms(1)
proof (induction batches arbitrary: b attempts s)
  case (Cons batch batches)
  show ?case
    unfolding format_batches.simps format_batch_def
    using Cons assms(2) by (intro raises_ibind raises_case_prod raises_iret attempt_loop_raises) auto
qed auto

lemma image_disjoint: "f ` A \<subseteq> {x} \<Longrightarrow> f ` B \<subseteq> Y \<Longrightarrow> x \<notin> Y \<Longrightarrow> A \<inter> B = {}"
  by (auto simp: image_subset_iff)

lemma sliced_keys:
  assumes "list_all2 (sliced sl) pages groups" and "distinct (map sp_page_number pages)"
  shows "distinct (slice_keys (concat groups))"
  using assms
proof (induction rule: list_all2_induct)
  case (Cons page pages grp groups)
  have "distinct (map ss_slice_index grp)"
    using Cons.hyps(1) by (auto simp: sliced_def distinct_map)
  then have keys: "distinct (slice_keys grp)"
    by (auto simp: slice_keys_def distinct_map inj_on_def)
  have "fst ` set (slice_keys grp) \<subseteq> {sp_page_number page}"
    using Cons.hyps(1) by (auto simp: sliced_def slice_keys_def)
  moreover have "fst ` set (slice_keys (concat groups)) \<subseteq> sp_page_number ` set pages"
    using Cons.hyps(2) by (induction rule: list_all2_induct) (auto simp: sliced_def slice_keys_def)
  moreover have "sp_page_number page \<notin> sp_page_number ` set pages"
    using Cons.prems by auto
  ultimately have "set (slice_keys grp) \<inter> set (slice_keys (concat groups)) = {}"
    by (rule image_disjoint)
  moreover have "slice_keys (concat (grp # groups)) = slice_keys grp @ slice_keys (concat groups)"
    by (simp add: slice_keys_def)
  ultimately show ?case
    using Cons.IH Cons.prems keys by simp
qed (simp add: slice_keys_def)


subsection \<open>The known context window\<close>

definition window_known :: "'c formatter_state \<Rightarrow> bool" where
  "window_known s \<longleftrightarrow> fst_max_model_len s \<noteq> None"

lemma keeps_case_prod [intro]: "keeps P (f (fst p) (snd p)) \<Longrightarrow> keeps P (case p of (a, b) \<Rightarrow> f a b)"
  by (simp add: case_prod_beta)

lemma keeps_lift_result [intro]: "keeps P (lift_result r)"
  by (simp add: keeps_def lift_result_def)

lemma report_progress_window [intro]: "keeps window_known (report_progress callback progress)"
  by (auto simp: keeps_def report_progress_def window_known_def split: option.splits prod.splits sum.splits)

lemma request_json_window [intro]:
  assumes "keeps window_known validation"
  shows "keeps window_known (request_json client cfg path body validation)"
proof -
  have "keeps window_known (read_reply path validation reply)" for reply
    using assms unfolding read_reply_def by (auto split: http_reply.split option.split decoded.split)
  then show ?thesis
    by (auto simp: keeps_def request_json_def window_known_def split: prod.splits)
qed

lemma format_attempt_window: "keeps window_known (format_attempt sl loads client cfg slices callback)"
  unfolding format_attempt_def completion_content_def
  by (intro keeps_ibind keeps_case_prod keeps_iret keeps_lift_result request_json_window report_progress_window)

lemma attempt_loop_window:
  fixes client :: "'c formatter_client"
  shows "keeps window_known (attempt_loop sl loads client cfg b slices callback attempts k n)"
proof (induction n arbitrary: attempts k)
  case 0
  then show ?case
    by (cases attempts) (simp_all add: keeps_def Let_def)
next
  case (Suc n)
  show ?case
    unfolding keeps_def
  proof (intro allI impI)
    fix s :: "'c formatter_state" assume known: "window_known s"
    obtain res s' where run: "format_attempt sl loads client cfg slices callback s = (res, s')"
      by fastforce
    with known have "window_known s'"
      using keepsD [OF format_attempt_window] by (metis snd_conv)
    then show "window_known (snd (attempt_loop sl loads client cfg b slices callback attempts k (Suc n) s))"
      using run Suc by (auto simp: keeps_def split: sum.split formatter_error.split)
  qed
qed

lemma format_batches_window:
  "keeps window_known (format_batches sl loads client cfg callback b attempts batches)"
  by (induction batches arbitrary: b attempts)
    (auto simp: format_batch_def intro!: keeps_ibind keeps_case_prod attempt_loop_window)

lemma pack_loop_window:
  "pack_loop client cfg current (x # slices) s = (Inr batches, t) \<Longrightarrow> window_known t"
proof (induction slices arbitrary: x current s batches)
  case Nil
  then show ?case
    by (auto simp: result_simps window_known_def split: if_splits dest!: fits_budget_known)
next
  case (Cons y slices)
  then show ?case
    by (subst (asm) pack_loop.simps) (auto simp only: ibind_eq_Inr iret_eq_Inr iraise_eq_Inr split: if_splits)
qed

lemma sliced_nonempty:
  assumes "list_all2 (sliced sl) pages groups" and "pages \<noteq> []"
  obtains x xs where "concat groups = x # xs"
  using assms by (cases pages; cases groups) (auto simp: sliced_def neq_Nil_conv)


lemma normalize_pages_Inl: "normalize_pages sl pages = Inl e \<Longrightarrow> handled loads client e"
proof -
  have "normalize_pages_from sl n pages = Inl e \<Longrightarrow> handled loads client e" for n
    by (induction sl n pages rule: normalize_pages_from.induct) (auto simp: Let_def rbind_eq_Inl split: if_splits)
  then show "normalize_pages sl pages = Inl e \<Longrightarrow> handled loads client e"
    by (auto simp: normalize_pages_def split: if_splits)
qed

lemma packed_batches:
  assumes "normalize_pages sl pages = Inr sources" and "prepare_slices sl client cfg sources s = (Inr slices, s1)"
    and "pack_loop client cfg [] slices s1 = (Inr batches, s2)" and "1 \<le> fcfg_max_pages_per_request cfg"
  obtains groups where "list_all2 (sliced sl) sources groups" and "distinct (map sp_page_number sources)"
    and "concat batches = concat groups" and "window_known s2" and "\<forall>batch\<in>set batches. distinct (slice_keys batch)"
proof -
  obtain groups where slices: "slices = concat groups" and groups: "list_all2 (sliced sl) sources groups"
    using prepare_slices_groups [OF assms(2)] by blast
  have numbers: "distinct (map sp_page_number sources)"
    by (rule normalize_pages_result(4) [OF assms(1)])
  have concat: "concat batches = concat groups"
    using pack_loop_batches [OF assms(3,4)] slices by simp
  have "pages \<noteq> []"
    using assms(1) by (auto simp: normalize_pages_def)
  then have "sources \<noteq> []"
    using normalize_pages_result(1) [OF assms(1)] by auto
  then obtain x xs where "slices = x # xs"
    using sliced_nonempty [OF groups] slices by metis
  then have window: "window_known s2"
    using assms(3) pack_loop_window by blast
  have "distinct (slice_keys batch)" if mem: "batch \<in> set batches" for batch
  proof -
    obtain before after where "batches = before @ batch # after"
      using mem by (auto simp: in_set_conv_decomp)
    then have "slice_keys (concat groups) = slice_keys (concat before) @ slice_keys batch @ slice_keys (concat after)"
      by (simp add: concat [symmetric] slice_keys_def)
    then show ?thesis
      using sliced_keys [OF groups numbers] by simp
  qed
  with groups numbers concat window show ?thesis
    using that by blast
qed

lemma format_packed_raises:
  assumes groups: "list_all2 (sliced sl) sources groups" and numbers: "distinct (map sp_page_number sources)"
    and concat: "concat batches = concat groups" and window: "window_known t"
    and keys: "\<forall>batch\<in>set batches. distinct (slice_keys batch)" and "0 < fcfg_max_attempts cfg"
  shows "raises_at (handled loads client) (format_packed sl loads client cfg callback sources tokenizer_class batches) t"
  unfolding format_packed_def
proof (intro raises_ibind report_progress_raises raises_case_prod raises_lift)
  fix u t1 assume "report_progress callback FP_FORMATTING_MARKDOWN t = (Inr u, t1)"
  then have window1: "window_known t1"
    using keepsD [OF report_progress_window window] by (metis snd_conv)
  show "raises_at (handled loads client) (format_batches sl loads client cfg callback 0 [] batches) t1"
    by (rule format_batches_raises [OF keys assms(6)])
  fix res t2 assume run: "format_batches sl loads client cfg callback 0 [] batches t1 = (Inr res, t2)"
  then have window2: "window_known t2"
    using keepsD [OF format_batches_window window1] by (metis snd_conv)
  have "list_all2 (faithful sl) (concat groups) (fst res)"
    using format_batches_result [of sl loads client cfg callback 0 "[]" batches t1 "fst res" "snd res"] run concat by simp
  from assembled [OF groups numbers this] obtain out where out: "assemble_pages sources (fst res) = Inr out"
    by blast
  show "handled loads client e" if "assemble_pages sources (fst res) = Inl e" for e
    using that out by simp
  fix ps t3 assume "lift_result (assemble_pages sources (fst res)) t2 = (Inr ps, t3)"
  then have "window_known t3"
    using window2 by (simp add: result_simps)
  then show "raises_at (handled loads client) (\<lambda>s. case fst_max_model_len s of
         None \<Rightarrow> (Inl (AssertionError ''state.max_model_len is not None''), s)
       | Some max_model_len \<Rightarrow>
           (Inr \<lparr>fd_pages = ps, fd_markdown = document_markdown ps,
                 fd_markdown_sha256 = sl_sha256 sl (document_markdown ps),
                 fd_attempts = snd res, fd_formatter_version = MARKDOWN_FORMATTER_VERSION,
                 fd_tokenizer_class = tokenizer_class, fd_max_model_len = max_model_len\<rparr>, s)) t3"
    by (auto simp: raises_at_def window_known_def)
qed

lemma format_pages_raises:
  assumes "check_formatter_config cfg = Inr ()"
  shows "raises_at (handled loads client) (format_pages sl loads client cfg pages callback) s"
  unfolding format_pages_def pack_batches_def
proof (intro raises_ibind [OF report_progress_raises] raises_ibind [OF tokenizer_identity_raises]
    raises_ibind [OF fits_budget_raises] raises_ibind [OF raises_lift] raises_ibind [OF pack_loop_raises]
    raises_ibind [OF raises_if] prepare_slices_raises raises_iraise handled_simps)
  fix e assume "normalize_pages sl pages = Inl e"
  then show "handled loads client e"
    by (rule normalize_pages_Inl)
next
  have max: "1 \<le> fcfg_max_pages_per_request cfg" "0 < fcfg_max_attempts cfg"
    using assms by (auto simp: check_formatter_config_def split: if_splits)
  fix t sources t1 tc fits t3 slices t4 batches t5
  assume "lift_result (normalize_pages sl pages) t = (Inr sources, t1)"
    and "(if \<not> fits
          then iraise (formatting_error ''formatter prompt and output reserve exceed the configured token budget'')
          else prepare_slices sl client cfg sources) t3 = (Inr slices, t4)"
    and pack: "pack_loop client cfg [] slices t4 = (Inr batches, t5)"
  then have sources: "normalize_pages sl pages = Inr sources"
    and prep: "prepare_slices sl client cfg sources t3 = (Inr slices, t4)"
    by (auto simp: lift_result_Inr iraise_eq_Inr split: if_splits)
  show "raises_at (handled loads client) (format_packed sl loads client cfg callback sources tc batches) t5"
    using packed_batches [OF sources prep pack max(1)] format_packed_raises max(2) by metis
qed

section \<open>A model server\<close>

text \<open>A server for the witnesses: every prompt has no tokens and the completion is the one given.\<close>

definition fmt_hash :: string where
  "fmt_hash = replicate 64 (CHR ''a'')"

definition fmt_stdlib :: stdlib where
  "fmt_stdlib = \<lparr>sl_sha256 = (\<lambda>s. fmt_hash), sl_uuid5 = (\<lambda>_ _. 0), sl_float_repr = (\<lambda>_. ''0.0''),
     sl_unit_norm = (\<lambda>_. True), sl_nfkc = (\<lambda>s. s)\<rparr>"

definition fmt_config :: formatter_config where
  "fmt_config = \<lparr>fcfg_api_url = ''u'', fcfg_model_id = ''m'', fcfg_expected_tokenizer_class = ''T'',
     fcfg_prompt_revision = FORMATTER_PROMPT_REVISION, fcfg_schema_revision = FORMATTER_SCHEMA_REVISION,
     fcfg_api_token = None, fcfg_timeout_seconds = 1, fcfg_max_input_tokens = 10, fcfg_max_output_tokens = 10,
     fcfg_token_safety_reserve = 0, fcfg_max_pages_per_request = 1, fcfg_max_attempts = 1\<rparr>"

definition fmt_client :: "'c formatter_client" where
  "fmt_client = \<lparr>fc_get = (\<lambda>url headers timeout c. (Reply (Some 200) (Decoded (JObj [(''tokenizer_class'', JStr ''T'')])), c)),
     fc_post = (\<lambda>url body headers timeout c.
       (Reply (Some 200) (Decoded (if last url = CHR ''e''
          then JObj [(''count'', JInt 0), (''max_model_len'', JInt 100), (''tokens'', JArr [])]
          else JObj [(''choices'', JArr [JObj [(''finish_reason'', JStr ''stop''),
            (''message'', JObj [(''content'', JStr ''c'')])]])])), c))\<rparr>"

definition fmt_loads :: "string \<Rightarrow> decoded" where
  "fmt_loads content = Decoded (JObj [(''pages'', JArr [JObj [(''page_number'', JInt 1),
     (''slices'', JArr [JObj [(''slice_index'', JInt 0), (''source_text_sha256'', JStr fmt_hash),
        (''markdown'', JStr ''# Hi'')]])]])])"

definition fmt_pages :: "layout_page list" where
  "fmt_pages = [\<lparr>lp_page_number = 1, lp_text = ''Hi''\<rparr>]"

definition fmt_slice :: source_slice where
  "fmt_slice = make_slice fmt_stdlib 1 0 ''Hi''"

definition fmt_item :: formatted_slice where
  "fmt_item = \<lparr>fsl_page_number = 1, fsl_slice_index = 0, fsl_source_text = ''Hi'', fsl_source_text_sha256 = fmt_hash,
     fsl_markdown = ''# Hi'', fsl_source_projection_sha256 = fmt_hash, fsl_markdown_projection_sha256 = fmt_hash\<rparr>"

lemma fmt_sha: "sl_sha256 fmt_stdlib s = fmt_hash"
  by (simp add: fmt_stdlib_def)

lemma fmt_config_ok: "check_formatter_config fmt_config = Inr ()"
  by code_simp

lemma fmt_fits:
  assumes "fst_max_model_len s = None \<or> fst_max_model_len s = Some 100"
  shows "fits_budget fmt_client fmt_config slices s = (Inr True, s\<lparr>fst_max_model_len := Some 100\<rparr>)"
  using assms by (auto simp: fits_budget_def token_count_def final_request_def request_json_def send_request_def
      read_reply_def ibind_def iret_def fmt_client_def fmt_config_def parse_tokenization_def tokenization_def obj_get_def
      different_model_def reported_model_def within_budget_def)

lemma fmt_identity: "tokenizer_identity fmt_client fmt_config s = (Inr ''T'', s)"
  by (simp add: tokenizer_identity_def final_request_def request_json_def send_request_def read_reply_def ibind_def iret_def
      lift_result_def fmt_client_def fmt_config_def check_tokenizer_info_def obj_get_def different_model_def
      reported_model_def py_strip_def py_isspace_def char_code_def)

lemma fmt_validated: "validate_output fmt_stdlib fmt_loads ''c'' [fmt_slice] fmt_hash = Inr [fmt_item]"
  by code_simp

lemma fmt_attempt:
  "format_attempt fmt_stdlib fmt_loads fmt_client fmt_config [fmt_slice] None s = (Inr ([fmt_item], fmt_hash), s)"
  using fmt_validated
  by (simp add: format_attempt_def completion_content_def request_json_def send_request_def read_reply_def ibind_def iret_def
      lift_result_def fmt_client_def fmt_config_def completion_envelope_def obj_get_def different_model_def
      report_progress_def fmt_stdlib_def)

definition fmt_source :: source_page where
  "fmt_source = \<lparr>sp_page_number = 1, sp_text = ''Hi'', sp_text_sha256 = fmt_hash\<rparr>"

lemma fmt_sources: "normalize_pages fmt_stdlib fmt_pages = Inr [fmt_source]"
  by code_simp

definition fmt_document :: formatted_document where
  "fmt_document = \<lparr>fd_pages = [\<lparr>fpg_page_number = 1, fpg_source_text = ''Hi'', fpg_source_text_sha256 = fmt_hash,
       fpg_markdown = ''# Hi'', fpg_slices = [fmt_item]\<rparr>],
     fd_markdown = document_markdown [\<lparr>fpg_page_number = 1, fpg_source_text = ''Hi'', fpg_source_text_sha256 = fmt_hash,
       fpg_markdown = ''# Hi'', fpg_slices = [fmt_item]\<rparr>], fd_markdown_sha256 = fmt_hash,
     fd_attempts = [\<lparr>fa_batch_index = 0, fa_attempt_number = 1, fa_valid = True, fa_diagnostic = None,
       fa_response_sha256 = Some fmt_hash, fa_projections = [evidence_of fmt_item]\<rparr>],
     fd_formatter_version = MARKDOWN_FORMATTER_VERSION, fd_tokenizer_class = ''T'', fd_max_model_len = 100\<rparr>"

lemma fmt_assembled:
  "assemble_pages [fmt_source] [fmt_item]
     = Inr [\<lparr>fpg_page_number = 1, fpg_source_text = ''Hi'', fpg_source_text_sha256 = fmt_hash,
          fpg_markdown = ''# Hi'', fpg_slices = [fmt_item]\<rparr>]"
  by (simp add: fmt_item_def fmt_source_def)

lemma fmt_limits: "fcfg_max_attempts fmt_config = 1" "fcfg_max_pages_per_request fmt_config = 1"
  by (simp_all add: fmt_config_def)

lemma fmt_run:
  assumes "normalize_pages fmt_stdlib pages = Inr [fmt_source]"
  shows "format_markdown_document fmt_stdlib fmt_loads fmt_client fmt_config pages None c = (Inr fmt_document, c)"
proof -
  have "prepare_slices fmt_stdlib fmt_client fmt_config [fmt_source] s = (Inr [fmt_slice], s\<lparr>fst_max_model_len := Some 100\<rparr>)"
    if "fst_max_model_len s = Some 100" for s :: "'a formatter_state"
    using that by (simp add: fmt_source_def ibind_def iret_def fmt_fits fmt_slice_def Let_def)
  then show ?thesis
    by (auto simp: format_markdown_document_def format_pages_def format_packed_def pack_batches_def report_progress_def
        assms lift_result_def ibind_def iret_def fmt_identity fmt_fits slice_page_count_def Let_def
        format_batch_def fmt_attempt fmt_limits fmt_assembled numeral_eq_Suc fmt_document_def valid_attempt_def fmt_sha
        simp del: assemble_pages.simps prepare_slices.simps)
qed

section \<open>Guarantees\<close>

lemma formatted_document_result:
  assumes "format_markdown_document sl loads client cfg pages callback c = (Inr doc, c')"
    and "check_formatter_config cfg = Inr ()"
  shows "map fpg_page_number (fd_pages doc) = map (\<lambda>i. 1 + int i) [0..<length pages]
    \<and> map fpg_source_text (fd_pages doc) = map (\<lambda>p. normalize_layout_text sl (lp_text p)) pages
    \<and> (\<forall>p\<in>set (fd_pages doc). page_complete sl p)
    \<and> fd_markdown doc = document_markdown (fd_pages doc)
    \<and> fd_tokenizer_class doc = fcfg_expected_tokenizer_class cfg"
proof -
  obtain s t where run: "format_pages sl loads client cfg pages callback s = (Inr doc, t)"
    using assms(1) by (auto simp: format_markdown_document_def split: prod.splits)
  have "1 \<le> fcfg_max_pages_per_request cfg"
    using assms(2) by (auto simp: check_formatter_config_def split: if_splits)
  from document_pages [OF run this] obtain sources
    where sources: "normalize_pages sl pages = Inr sources" and all: "list_all2 (page_of sl) sources (fd_pages doc)"
    by blast
  have "map fpg_page_number (fd_pages doc) = map sp_page_number sources"
    "map fpg_source_text (fd_pages doc) = map sp_text sources"
    using all by (induction rule: list_all2_induct) (auto simp: page_of_def)
  moreover have "\<forall>p\<in>set (fd_pages doc). page_complete sl p"
    using all by (induction rule: list_all2_induct) (auto simp: page_of_complete)
  moreover have "fd_markdown doc = document_markdown (fd_pages doc)"
    "fd_tokenizer_class doc = fcfg_expected_tokenizer_class cfg"
    using format_pages_run [OF run] by metis+
  ultimately show ?thesis
    using normalize_pages_result [OF sources] by simp
qed

text \<open>C21. A formatted document is complete and faithful: its pages are the source pages in order with
  their normalised text, the slices of a page are numbered from 0 and cover that text exactly, each
  slice's Markdown passes the structural checks and has the words and numbers of its source in the
  same order, and the document's text is the page-marked concatenation.\<close>

theorem formatting_is_faithful:
  assumes "format_markdown_document sl loads client cfg pages callback c = (Inr doc, c')"
    and "check_formatter_config cfg = Inr ()"
  shows "map fpg_page_number (fd_pages doc) = map (\<lambda>i. 1 + int i) [0..<length pages]
    \<and> map fpg_source_text (fd_pages doc) = map (\<lambda>p. normalize_layout_text sl (lp_text p)) pages
    \<and> (\<forall>p\<in>set (fd_pages doc). page_complete sl p)
    \<and> fd_markdown doc = document_markdown (fd_pages doc)
    \<and> fd_tokenizer_class doc = fcfg_expected_tokenizer_class cfg"
  by (rule formatted_document_result [OF assms])

theorem formatting_is_faithful_witness:
  "\<exists>doc c'. format_markdown_document fmt_stdlib fmt_loads fmt_client fmt_config fmt_pages None () = (Inr doc, c')
     \<and> map fpg_source_text (fd_pages doc) = [''Hi''] \<and> (\<forall>p\<in>set (fd_pages doc). page_complete fmt_stdlib p)"
proof -
  note run = fmt_run [OF fmt_sources, of "()"]
  have "map (\<lambda>p. normalize_layout_text fmt_stdlib (lp_text p)) fmt_pages = [''Hi'']"
    by code_simp
  with formatting_is_faithful [OF run fmt_config_ok] run show ?thesis
    by auto
qed

text \<open>The attempts of a document are bounded and recorded: batch by batch they are numbered from 1,
  at most \<^verbatim>\<open>max_attempts\<close> of them, all rejected but the last, which was accepted.\<close>

theorem attempts_are_bounded:
  assumes "format_markdown_document sl loads client cfg pages callback c = (Inr doc, c')"
  shows "\<exists>runs. fd_attempts doc = concat runs
    \<and> (\<forall>i<length runs. attempt_run (int i) 1 (runs ! i) \<and> int (length (runs ! i)) \<le> fcfg_max_attempts cfg)"
proof -
  obtain s t where run: "format_pages sl loads client cfg pages callback s = (Inr doc, t)"
    using assms(1) by (auto simp: format_markdown_document_def split: prod.splits)
  obtain batches formatted s3
    where "format_batches sl loads client cfg callback 0 [] batches s3 = (Inr (formatted, fd_attempts doc), t)"
    using format_pages_run [OF run] by metis
  from format_batches_result [OF this] obtain runs where "fd_attempts doc = concat runs"
    and runs: "\<forall>i<length runs. attempt_run (int i) 1 (runs ! i) \<and> length (runs ! i) \<le> nat (fcfg_max_attempts cfg)"
    by auto
  moreover have "int (length r) \<le> fcfg_max_attempts cfg" if "attempt_run b k r" "length r \<le> nat (fcfg_max_attempts cfg)" for b k r
    using that by (cases r) (auto simp: attempt_run_def)
  ultimately show ?thesis
    by blast
qed

theorem attempts_are_bounded_witness:
  "\<exists>doc runs. format_markdown_document fmt_stdlib fmt_loads fmt_client fmt_config fmt_pages None () = (Inr doc, ())
     \<and> fd_attempts doc = concat runs \<and> length (concat runs) = 1
     \<and> (\<forall>i<length runs. attempt_run (int i) 1 (runs ! i))"
proof -
  note run = fmt_run [OF fmt_sources, of "()"]
  have "length (fd_attempts fmt_document) = 1"
    by (simp add: fmt_document_def)
  with run attempts_are_bounded [OF run] show ?thesis
    by metis
qed

text \<open>C22. Nothing the code itself raises leaves the formatter except formatting errors: whatever the model server
  answers, a rejected attempt never escapes and no assertion fires.  The other exceptions that pass are those of the
  progress callback and those that the client or the JSON decoder raises outside the handled classes, such as
  \<^verbatim>\<open>RecursionError\<close> on a deeply nested answer, which then ends the formatting instead of the attempt.\<close>

theorem formatting_errors_are_handled:
  assumes "check_formatter_config cfg = Inr ()"
    and "format_markdown_document sl loads client cfg pages callback c = (Inl e, c')"
  shows "(\<exists>message attempts. e = MarkdownFormattingError message attempts) \<or> (\<exists>failure. e = CallbackError failure)
    \<or> (e = UncaughtError \<and> uncaught_source loads client)"
proof -
  obtain s t where "format_pages sl loads client cfg pages callback s = (Inl e, t)"
    using assms(2) by (auto simp: format_markdown_document_def split: prod.splits)
  with format_pages_raises [OF assms(1)] show ?thesis
    unfolding raises_at_def handled_def by blast
qed

text \<open>A deeply nested completion passes every attempt: with attempts left the formatting ends at once.\<close>

lemma nested_completion_escapes:
  "fst (attempt_loop fmt_stdlib (\<lambda>_. DecoderRaised) fmt_client fmt_config 0 [fmt_slice] None [] 1 5
     \<lparr>fst_client = (), fst_max_model_len = None, fst_reported = []\<rparr>) = Inl UncaughtError"
  by code_simp

theorem formatting_errors_are_handled_witness:
  "\<exists>e. format_markdown_document fmt_stdlib fmt_loads fmt_client fmt_config [] None () = (Inl e, ())
     \<and> ((\<exists>message attempts. e = MarkdownFormattingError message attempts) \<or> (\<exists>failure. e = CallbackError failure)
        \<or> (e = UncaughtError \<and> uncaught_source fmt_loads (fmt_client :: unit formatter_client)))"
proof -
  have run: "format_markdown_document fmt_stdlib fmt_loads fmt_client fmt_config [] None ()
      = (Inl (formatting_error ''formatter requires at least one source page''), ())"
    by (simp add: format_markdown_document_def format_pages_def report_progress_def ibind_def lift_result_def
        normalize_pages_def)
  from formatting_errors_are_handled [OF fmt_config_ok run] run show ?thesis
    by blast
qed

end
