(* ===== verification/Pages_Correct.thy ===== *)
theory Pages_Correct
  imports Sealing_Correct Formatter_Correct
begin

text \<open>
  Pages from the extraction to the seal: what the extraction returns is well formed, what the stages record
  passes the checks that recompute it, and one class of characters can never be recorded.
\<close>

section \<open>Slices\<close>

lemma obj_get_Cons [simp]: "obj_get ((k, v) # kvs) k' = (if k = k' then v else obj_get kvs k')"
  by (simp add: obj_get_def)

lemma check_slice_record:
  assumes "sr_slice_index x = i" "sr_source_start x = int sc" "sr_source_end x = int (sc + n)"
    "sr_markdown_start x = int ms" "sr_markdown_end x = int (ms + k)" "0 < k"
    "mc + (if i \<noteq> 0 then 2 else 0) = int ms"
    "py_slice source sc (sc + n) = s" "py_slice markdown ms (ms + k) = m"
    "sr_source_text_sha256 x = sl_sha256 sl s" "sr_markdown_sha256 x = sl_sha256 sl m"
    "sr_source_projection_sha256 x = source_hash_of sl s" "sr_markdown_projection_sha256 x = markdown_hash_of sl m"
    "source_hash_of sl s = markdown_hash_of sl m"
  shows "check_slice sl source markdown i (int sc) mc (slice_json x) = Inr (int (sc + n), int (ms + k))"
proof -
  have "nat (int ms + int k) = ms + k" "nat (int sc + int n) = sc + n"
    by simp_all
  then show ?thesis
    using assms by (simp add: check_slice_def slice_json_def SLICE_FIELDS_def Let_def insert_commute)
qed

lemma check_slice_records:
  "slice_records sl page expected_page i sc mc items = Inr (recs, sc', mc') \<Longrightarrow> \<forall>s\<in>set items. fsl_markdown s \<noteq> []
     \<Longrightarrow> length recs = length items
       \<and> check_slices sl (fpg_source_text page) (fpg_markdown page) i (int sc) (int mc) (map slice_json recs)
           = Inr (int sc', int mc')"
proof (induction sl page expected_page i sc mc items arbitrary: recs rule: slice_records.induct)
  case (2 sl page p i sc mc item items)
  let ?se = "sc + length (fsl_source_text item)" and ?ms = "if i \<noteq> 0 then mc + 2 else mc"
  let ?me = "?ms + length (fsl_markdown item)"
  from "2.prems"(1) obtain rest where slices: "py_slice (fpg_source_text page) sc ?se = fsl_source_text item"
      "py_slice (fpg_markdown page) ?ms ?me = fsl_markdown item"
    and hashes: "fsl_source_text_sha256 item = sl_sha256 sl (fsl_source_text item)"
      "source_hash_of sl (fsl_source_text item) = markdown_hash_of sl (fsl_markdown item)"
    and head: "fsl_page_number item = p" "fsl_slice_index item = i"
    and hashes': "fsl_source_projection_sha256 item = source_hash_of sl (fsl_source_text item)"
      "fsl_markdown_projection_sha256 item = markdown_hash_of sl (fsl_markdown item)"
    and rest: "slice_records sl page p (i + 1) ?se ?me items = Inr (rest, sc', mc')"
    and recs: "recs = \<lparr>sr_slice_index = i, sr_source_start = int sc, sr_source_end = int ?se,
        sr_markdown_start = int ?ms, sr_markdown_end = int ?me,
        sr_source_text_sha256 = fsl_source_text_sha256 item, sr_markdown_sha256 = sl_sha256 sl (fsl_markdown item),
        sr_source_projection_sha256 = source_hash_of sl (fsl_source_text item),
        sr_markdown_projection_sha256 = markdown_hash_of sl (fsl_markdown item)\<rparr> # rest"
    by (auto simp: result_simps Let_def simp del: length_map split: if_split_asm prod.split_asm)
  have IH: "length rest = length items \<and> check_slices sl (fpg_source_text page) (fpg_markdown page) (i + 1) (int ?se) (int ?me)
      (map slice_json rest) = Inr (int sc', int mc')"
    by (rule "2.IH" [OF _ refl refl refl refl refl _ _ _ rest]) (use "2.prems"(2) slices hashes hashes' head in simp_all)
  have "check_slice sl (fpg_source_text page) (fpg_markdown page) i (int sc) (int mc) (slice_json (hd recs)) = Inr (int ?se, int ?me)"
    unfolding recs list.sel
    by (rule check_slice_record [OF _ _ _ _ _ _ _ slices]) (use "2.prems"(2) hashes in simp_all)
  with IH show ?case
    by (simp add: recs)
qed simp

section \<open>Pages\<close>

definition slices_filled :: "formatted_page \<Rightarrow> bool" where
  "slices_filled p \<longleftrightarrow> fpg_slices p \<noteq> [] \<and> (\<forall>s\<in>set (fpg_slices p). fsl_markdown s \<noteq> [])"

lemma check_page_record:
  assumes rec': "page_record_of sl i (Some x) page = Inr rc" and filled: "slices_filled page"
  shows "pr_page_number rc = i" "check_page sl i x (page_row rid rc) = Inr ()"
proof -
  let ?sp = "source_hash_of sl (fpg_source_text page)" and ?mp = "markdown_hash_of sl (fpg_markdown page)"
  obtain slices where slices: "slice_records sl page i 0 0 0 (fpg_slices page)
        = Inr (slices, length (fpg_source_text page), length (fpg_markdown page))"
    and same: "fpg_source_text page = xp_layout_text x" "py_strip (fpg_markdown page) \<noteq> []" "?sp = ?mp"
    and rc: "rc = \<lparr>pr_page_number = i, pr_slices = slices, pr_markdown = fpg_markdown page,
         pr_markdown_sha256 = sl_sha256 sl (fpg_markdown page), pr_source_projection_sha256 = ?sp,
         pr_markdown_projection_sha256 = ?mp\<rparr>"
    using rec' unfolding page_record_of_def
    by (auto simp: result_simps Let_def split: if_split_asm prod.split_asm)
  show "pr_page_number rc = i"
    by (simp add: rc)
  have "slices \<noteq> []" and "check_slices sl (xp_layout_text x) (fpg_markdown page) 0 0 0 (map slice_json slices)
      = Inr (int (length (xp_layout_text x)), int (length (fpg_markdown page)))"
    using check_slice_records [OF slices] filled unfolding same(1) by (auto simp: slices_filled_def)
  then show "check_page sl i x (page_row rid rc) = Inr ()"
    using same by (simp add: check_page_def page_row_def rc)
qed

lemma page_row_simps [simp]: "pp_markdown (page_row rid x) = pr_markdown x" "pp_page_number (page_row rid x) = pr_page_number x"
    "pp_revision_id (page_row rid x) = rid"
  by (simp_all add: page_row_def)

lemma check_page_records:
  "page_records sl ex i pages = Inr recs \<Longrightarrow> \<forall>p\<in>set pages. slices_filled p \<Longrightarrow> length xs = length recs
     \<Longrightarrow> (\<forall>j<length xs. ex (i + int j) = Some (xs ! j))
     \<Longrightarrow> check_pages sl i xs (map (page_row rid) recs)
           = Inr (map (\<lambda>x. \<lparr>mp_page_number = pr_page_number x, mp_markdown = pr_markdown x\<rparr>) recs)
       \<and> map pr_page_number recs = map (\<lambda>j. i + int j) [0..<length recs]"
proof (induction sl ex i pages arbitrary: recs xs rule: page_records.induct)
  case (2 sl ex i page pages)
  then obtain x xs' where xs: "xs = x # xs'"
    by (cases xs) (auto simp: result_simps)
  from "2.prems" obtain rc rest where rc: "page_record_of sl i (ex i) page = Inr rc"
    and rest: "page_records sl ex (i + 1) pages = Inr rest" and recs: "recs = rc # rest"
    by (auto simp: result_simps)
  have x: "ex i = Some x" and xs': "\<forall>j<length xs'. ex (i + 1 + int j) = Some (xs' ! j)"
    using "2.prems"(4) unfolding xs by (auto dest: spec [of _ 0] spec [of _ "Suc _"] simp: algebra_simps)
  note page = check_page_record [OF rc [unfolded x]]
  have "check_pages sl (i + 1) xs' (map (page_row rid) rest)
        = Inr (map (\<lambda>x. \<lparr>mp_page_number = pr_page_number x, mp_markdown = pr_markdown x\<rparr>) rest)
      \<and> map pr_page_number rest = map (\<lambda>j. i + 1 + int j) [0..<length rest]"
    using "2.IH" [OF rest _ _ xs'] "2.prems" by (simp add: xs recs)
  then show ?case
    using page "2.prems"(2) unfolding recs xs by (simp add: map_shift_upt del: upt_Suc)
qed simp

section \<open>Extracts\<close>

lemma validate_extract_pages_rows:
  "validate_extract_pages sl k pages = Inr n \<Longrightarrow> check_extract_rows sl k (map (extracted_row rid) pages) = Inr n
     \<and> map xp_page_number (map (extracted_row rid) pages) = map (\<lambda>j. k + int j) [0..<length pages]"
proof (induction sl k pages arbitrary: n rule: validate_extract_pages.induct)
  case (2 sl k page pages)
  then show ?case
    by (auto simp: result_simps extracted_row_def map_shift_upt simp del: upt_Suc split: if_split_asm)
qed simp

lemma numbered_rows:
  assumes "filter (\<lambda>x. owner x = rid) olds = []" and "\<forall>x\<in>set news. owner x = rid"
    and "map number news = map (\<lambda>j. 1 + int j) [0..<length news]"
  shows "sort_key number (filter (\<lambda>x. owner x = rid) (olds @ news)) = news"
proof -
  have "sorted (map number news)"
    unfolding assms(3) by (simp add: sorted_wrt_map)
  moreover have "filter (\<lambda>x. owner x = rid) news = news"
    using assms(2) by simp
  ultimately show ?thesis
    using assms(1) by (simp add: sort_key_id_if_sorted)
qed

lemma by_page_nth:
  assumes "map xp_page_number rows = map (\<lambda>j. 1 + int j) [0..<length rows]" and "j < length rows"
  shows "by_page rows (1 + int j) = Some (rows ! j)" "xp_page_number ` set rows = (\<lambda>j. 1 + int j) ` {0..<length rows}"
proof -
  have dist: "distinct (map xp_page_number rows)"
    unfolding assms(1) by (simp add: distinct_map inj_on_def)
  have "xp_page_number (rows ! j) = 1 + int j"
    using arg_cong [OF assms(1), of "\<lambda>l. l ! j"] assms(2) by simp
  moreover have "map_of (map (\<lambda>x. (xp_page_number x, x)) (rev rows)) (xp_page_number (rows ! j)) = Some (rows ! j)"
    using dist assms(2) by (intro map_of_is_SomeI) (auto simp: comp_def distinct_map image_iff)
  ultimately show "by_page rows (1 + int j) = Some (rows ! j)"
    by (simp add: by_page_def)
  show "xp_page_number ` set rows = (\<lambda>j. 1 + int j) ` {0..<length rows}"
    using arg_cong [OF assms(1), of set] by simp
qed

lemma record_extraction_run:
  assumes "record_extraction sl h xd lang c = Inr (x, c1)"
  obtains r where "get_revision c (ph_revision_id h) = Some r" "rev_id r = ph_revision_id h"
    "filter (\<lambda>x. xp_revision_id x = rev_id r) (extracted_pages c) = []"
    "x = extraction_manifest_sha256 sl xd" "validate_extraction sl xd = Inr ()"
    "c1 = c\<lparr>extracted_pages := extracted_pages c @ map (extracted_row (rev_id r)) (xd_pages xd),
             revisions := tupd rev_id (rev_id r) (extraction_recorded lang xd x) (revisions c)\<rparr>"
proof -
  from assms obtain r where r: "get_revision c (ph_revision_id h) = Some r" "rev_status r = REV_PREPARING"
    by (auto simp: record_extraction_def result_simps load_revision_Inr Let_def)
  have id: "rev_id r = ph_revision_id h"
    using tget_Some_key [OF r(1)] .
  show ?thesis
    using assms r id
    by (auto simp: record_extraction_def insert_extracted_def result_simps load_revision_Inr Let_def upd_open_revision
        split: if_split_asm intro!: that)
qed

lemma record_formatting_run:
  assumes "record_formatting sl h d cfg now c = Inr (m, c')"
  obtains r records batches markdown where "get_revision c (ph_revision_id h) = Some r" "rev_id r = ph_revision_id h"
    "rev_page_count r = Some (int (length (stored_extracts c (rev_id r))))"
    "filter (\<lambda>p. pp_revision_id p = rev_id r) (prepared_pages c) = []"
    "formatted_slice_records sl d (stored_extracts c (rev_id r)) = Inr records"
    "formatter_batch_records sl cfg (rev_id r) now d (slices_by_key records) = Inr batches"
    "markdown_of_records records = Inr markdown" "m = sl_sha256 sl markdown"
    "c' = c\<lparr>formatter_batches := formatter_batches c @ batches,
             prepared_pages := prepared_pages c @ map (page_row (rev_id r)) records,
             revisions := tupd rev_id (rev_id r) (formatting_recorded m) (revisions c)\<rparr>"
proof -
  from assms obtain r where r: "get_revision c (ph_revision_id h) = Some r" "rev_status r = REV_PREPARING"
    by (auto simp: record_formatting_def result_simps load_revision_Inr Let_def)
  have id: "rev_id r = ph_revision_id h"
    using tget_Some_key [OF r(1)] .
  show ?thesis
    using assms r id
    by (auto simp: record_formatting_def insert_formatted_def result_simps load_revision_Inr Let_def upd_open_revision
        split: if_split_asm intro!: that)
qed

lemma formatted_records_count:
  "formatted_slice_records sl d rows = Inr records \<Longrightarrow>
     page_records sl (by_page rows) 1 (fd_pages d) = Inr records \<and> length records = card (xp_page_number ` set rows)"
  by (auto simp: formatted_slice_records_def result_simps split: if_split_asm)

lemma markdown_of_records_Inr:
  "markdown_of_records records = Inr m \<longleftrightarrow>
     canonical_markdown (map (\<lambda>x. \<lparr>mp_page_number = pr_page_number x, mp_markdown = pr_markdown x\<rparr>) records) = Inr m"
  by (auto simp: markdown_of_records_def split: sum.splits)

lemma extraction_rows_recorded:
  assumes "validate_extraction sl xd = Inr ()"
  shows "extraction_rows_hash sl (map (extracted_row rid) (xd_pages xd))
      = Inr (extraction_manifest_sha256 sl xd, xd_page_count xd)"
    "map xp_page_number (map (extracted_row rid) (xd_pages xd)) = map (\<lambda>j. 1 + int j) [0..<length (xd_pages xd)]"
    "xd_page_count xd = int (length (xd_pages xd))" "xd_pages xd \<noteq> []"
proof -
  from assms have pages: "validate_extract_pages sl 1 (xd_pages xd) = Inr (xd_character_count xd)"
      and n: "xd_page_count xd = int (length (xd_pages xd))" "xd_pages xd \<noteq> []"
    by (auto simp: validate_extraction_def result_simps split: if_split_asm)
  then show "xd_page_count xd = int (length (xd_pages xd))" "xd_pages xd \<noteq> []"
    by simp_all
  show "map xp_page_number (map (extracted_row rid) (xd_pages xd)) = map (\<lambda>j. 1 + int j) [0..<length (xd_pages xd)]"
    using validate_extract_pages_rows [OF pages] by blast
  show "extraction_rows_hash sl (map (extracted_row rid) (xd_pages xd))
      = Inr (extraction_manifest_sha256 sl xd, xd_page_count xd)"
    using validate_extract_pages_rows [OF pages, of rid] n
    by (simp add: extraction_rows_hash_def extraction_manifest_sha256_def comp_def extracted_row_def)
qed

lemma recorded_pages_check:
  assumes ext: "record_extraction sl h xd lang c = Inr (x, c1)"
    and form: "record_formatting sl h d cfg now c1 = Inr (m, c2)"
    and filled: "\<forall>p\<in>set (fd_pages d). slices_filled p"
  shows "\<exists>r. get_revision c2 (ph_revision_id h) = Some r
    \<and> validate_persisted_pages sl r (stored_extracts c2 (rev_id r)) (stored_pages c2 (rev_id r)) = Inr (x, m)"
proof -
  obtain r0 where r0: "get_revision c (ph_revision_id h) = Some r0" "rev_id r0 = ph_revision_id h"
    and none: "filter (\<lambda>x. xp_revision_id x = rev_id r0) (extracted_pages c) = []"
    and x: "x = extraction_manifest_sha256 sl xd" "validate_extraction sl xd = Inr ()"
    and c1: "c1 = c\<lparr>extracted_pages := extracted_pages c @ map (extracted_row (rev_id r0)) (xd_pages xd),
             revisions := tupd rev_id (rev_id r0) (extraction_recorded lang xd x) (revisions c)\<rparr>"
    by (rule record_extraction_run [OF ext])
  obtain r1 records batches markdown where r1: "get_revision c1 (ph_revision_id h) = Some r1" "rev_id r1 = ph_revision_id h"
    and fresh: "filter (\<lambda>p. pp_revision_id p = rev_id r1) (prepared_pages c1) = []"
    and recs: "formatted_slice_records sl d (stored_extracts c1 (rev_id r1)) = Inr records"
    and md: "markdown_of_records records = Inr markdown" "m = sl_sha256 sl markdown"
    and c2: "c2 = c1\<lparr>formatter_batches := formatter_batches c1 @ batches,
             prepared_pages := prepared_pages c1 @ map (page_row (rev_id r1)) records,
             revisions := tupd rev_id (rev_id r1) (formatting_recorded m) (revisions c1)\<rparr>"
    by (rule record_formatting_run [OF form])
  let ?rid = "ph_revision_id h" and ?xs = "map (extracted_row (ph_revision_id h)) (xd_pages xd)"
  let ?r = "formatting_recorded m (extraction_recorded lang xd x r0)"
  note rows = extraction_rows_recorded(1,2) [OF x(2), of ?rid] extraction_rows_recorded(3,4) [OF x(2)]
  have r: "get_revision c2 ?rid = Some ?r" "rev_id ?r = ?rid"
    using r0 r1(2) unfolding c2 c1 by (simp_all add: tget_tupd formatting_recorded_def extraction_recorded_def)
  have ex1: "stored_extracts c1 ?rid = ?xs"
    using numbered_rows [OF none, of ?xs xp_page_number] rows(2) r0(2) unfolding c1
    by (simp add: stored_extracts_def extracted_row_def comp_def)
  then have ex2: "stored_extracts c2 ?rid = ?xs"
    unfolding c2 by (simp add: stored_extracts_def)
  have pr: "page_records sl (by_page ?xs) 1 (fd_pages d) = Inr records" and len: "length records = length ?xs"
    using formatted_records_count [OF recs] by_page_nth(2) [of ?xs 0] rows(2,4)
    unfolding ex1 [folded r1(2)] r1(2) ex1 by (simp_all add: card_image inj_on_def)
  have chk: "check_pages sl 1 ?xs (map (page_row ?rid) records)
        = Inr (map (\<lambda>x. \<lparr>mp_page_number = pr_page_number x, mp_markdown = pr_markdown x\<rparr>) records)"
    and nums: "map pr_page_number records = map (\<lambda>j. 1 + int j) [0..<length records]"
    using check_page_records [OF pr filled, of ?xs ?rid] by_page_nth(1) rows(2) len by auto
  have pages: "stored_pages c2 ?rid = map (page_row ?rid) records"
    using numbered_rows [OF fresh, of "map (page_row ?rid) records" pp_page_number] nums r1(2) unfolding c2
    by (simp add: stored_pages_def comp_def)
  show ?thesis
    using r rows(1,3) len chk md x(1)
    by (intro exI [of _ ?r])
      (simp add: validate_persisted_pages_def ex2 pages markdown_of_records_Inr formatting_recorded_def extraction_recorded_def)
qed

text \<open>C26. What the stages recorded passes the checks of the seal: once the extraction of a revision and the document
  the formatter returned are committed, recomputing every page, slice and document hash from the stored rows
  succeeds and gives the two digests the stages returned.\<close>

theorem recorded_pages_validate:
  assumes "record_extraction sl h xd lang c = Inr (x, c1)"
    and "format_markdown_document sl loads client cfg pages callback s = (Inr d, s')" and "check_formatter_config cfg = Inr ()"
    and "record_formatting sl h d cfg now c1 = Inr (m, c2)"
  shows "\<exists>r. get_revision c2 (ph_revision_id h) = Some r
    \<and> validate_persisted_pages sl r (stored_extracts c2 (rev_id r)) (stored_pages c2 (rev_id r)) = Inr (x, m)"
proof (rule recorded_pages_check [OF assms(1,4)])
  show "\<forall>p\<in>set (fd_pages d). slices_filled p"
    using formatted_document_result [OF assms(2,3)] by (auto simp: page_complete_def slices_filled_def)
qed

section \<open>Extraction\<close>

lemma extraction_pages_normalized:
  assumes "parse_child_payload sl limits payload = Inr d"
  shows "\<forall>p\<in>set (xd_pages d). \<exists>source. le_layout_text p = extraction_normalize sl source"
  using assms parse_child_pages_result
  by (fastforce simp: parse_child_payload_def result_simps split: prod.split_asm option.split_asm if_splits json.split_asm)

lemma validate_extract_pages_ok:
  "map le_page_number pages = map (\<lambda>i. k + int i) [0..<length pages] \<Longrightarrow>
     \<forall>p\<in>set pages. le_character_count p = int (length (le_layout_text p)) \<and> le_text_sha256 p = sl_sha256 sl (le_layout_text p)
     \<Longrightarrow> validate_extract_pages sl k pages = Inr (sum_list (map le_character_count pages))"
proof (induction pages arbitrary: k)
  case (Cons p pages)
  then show ?case
    by (auto simp: map_shift_upt simp del: upt_Suc)
qed simp

lemma in_py_joinD: "ch \<in> set (py_join sep ls) \<Longrightarrow> ch \<in> set sep \<or> (\<exists>l\<in>set ls. ch \<in> set l)"
  by (induction sep ls rule: py_join.induct) auto

lemma split_on_subset: "l \<in> set (split_on d s) \<Longrightarrow> set l \<subseteq> set s"
proof (induction d s arbitrary: l rule: split_on.induct)
  case (2 d c cs)
  then show ?case
    by (cases "split_on d cs") (fastforce split: if_splits)+
qed simp

lemma extraction_normalize_kept:
  assumes "ch \<in> set (extraction_normalize sl s)"
  shows "kept_character ch"
proof -
  consider "ch = LF" | l where "l \<in> set (split_on LF (filter kept_character (unify_newlines (sl_nfkc sl s))))" "ch \<in> set (py_rstrip l)"
    using in_py_joinD [OF assms [unfolded extraction_normalize_def Let_def]]
    by (auto simp: drop_blank_ends_def dest!: set_dropWhileD)
  then show ?thesis
  proof cases
    case (2 l)
    have "set (py_rstrip l) \<subseteq> set l"
      using rstrip_prefix [of l] by (metis set_append sup_ge1)
    with 2 show ?thesis
      using split_on_subset by fastforce
  qed (simp add: kept_character_def)
qed

text \<open>C25. An extraction that returns needs no further check: it has the number of pages it states, within the limit,
  numbered from 1, each with the count and digest of its text, at most the allowed characters in total and no
  control character but line feeds and tabs, so the validation before it is recorded never fails.\<close>

theorem extraction_is_valid:
  assumes "extract_pdf_layout sl loads run_child path limits = Inr d"
  shows "validate_extraction sl d = Inr () \<and> xd_page_count d \<le> xl_max_pages limits
    \<and> sum_list (map (\<lambda>p. int (length (le_layout_text p))) (xd_pages d)) \<le> xl_max_characters limits
    \<and> (\<forall>p\<in>set (xd_pages d). list_all kept_character (le_layout_text p))"
proof -
  obtain payload where run: "parse_child_payload sl limits payload = Inr d"
    using assms by (auto simp: extract_pdf_layout_def split: if_splits child_result.splits option.splits)
  note ok = extraction_is_correlated [OF run]
  have "validate_extract_pages sl 1 (xd_pages d) = Inr (xd_character_count d)"
    using ok validate_extract_pages_ok [of "xd_pages d" 1 sl] by (simp add: extraction_correlated_def)
  moreover have "sum_list (map (\<lambda>p. int (length (le_layout_text p))) (xd_pages d)) = xd_character_count d"
    using ok by (auto simp: extraction_correlated_def intro!: arg_cong [where f = sum_list])
  moreover have "\<forall>p\<in>set (xd_pages d). list_all kept_character (le_layout_text p)"
    using extraction_pages_normalized [OF run] extraction_normalize_kept by (fastforce simp: list_all_iff)
  ultimately show ?thesis
    using ok by (auto simp: validate_extraction_def extraction_correlated_def)
qed

section \<open>Characters the formatter drops\<close>

lemma page_records_nth:
  "page_records sl ex i pages = Inr recs \<Longrightarrow> length recs = length pages
     \<and> (\<forall>j<length pages. \<exists>row. ex (i + int j) = Some row \<and> fpg_source_text (pages ! j) = xp_layout_text row)"
proof (induction sl ex i pages arbitrary: recs rule: page_records.induct)
  case (2 sl ex i page pages)
  then obtain rc rest where rc: "page_record_of sl i (ex i) page = Inr rc"
    and rest: "page_records sl ex (i + 1) pages = Inr rest" and recs: "recs = rc # rest"
    by (auto simp: result_simps)
  have "\<exists>row. ex i = Some row \<and> fpg_source_text page = xp_layout_text row"
    using rc by (auto simp: page_record_of_def split: option.split_asm if_split_asm)
  moreover note "2.IH" [OF rest]
  ultimately show ?case
    by (auto simp: recs less_Suc_eq_0_disj algebra_simps)
qed simp

lemma normalized_has_no_controls: "ch \<in> set (normalize_layout_text sl s) \<Longrightarrow> \<not> is_disallowed_control ch"
  by (simp add: normalize_layout_text_def)

lemma covered_row:
  assumes "formatted_slice_records sl d rows = Inr records" and "distinct (map xp_page_number rows)" and "row \<in> set rows"
  shows "\<exists>p\<in>set (fd_pages d). fpg_source_text p = xp_layout_text row"
proof -
  note recs = formatted_records_count [OF assms(1)]
  let ?ps = "fd_pages d" and ?N = "xp_page_number ` set rows"
  have nth: "\<forall>j<length ?ps. \<exists>row. by_page rows (1 + int j) = Some row \<and> fpg_source_text (?ps ! j) = xp_layout_text row"
    and len: "card ?N = length ?ps"
    using page_records_nth [of sl "by_page rows" 1 ?ps records] recs by auto
  have "(\<lambda>j. 1 + int j) ` {..<length ?ps} \<subseteq> ?N"
    using nth by (force simp: by_page_def dest: map_of_SomeD)
  moreover have "card ((\<lambda>j. 1 + int j) ` {..<length ?ps}) = length ?ps"
    by (simp add: card_image inj_on_def)
  ultimately have "?N = (\<lambda>j. 1 + int j) ` {..<length ?ps}"
    using len card_subset_eq [of ?N] by (metis List.finite_set finite_imageI)
  then obtain j where j: "j < length ?ps" "xp_page_number row = 1 + int j"
    using assms(3) by auto
  have "by_page rows (xp_page_number row) = Some row"
    unfolding by_page_def using assms(2,3)
    by (intro map_of_is_SomeI) (auto simp: comp_def distinct_map image_iff)
  with nth j show ?thesis
    by (metis nth_mem option.inject)
qed

text \<open>C27. Extraction and formatting normalise differently, and no document with such a difference is ever recorded:
  if the stored text of a page has a character the formatter drops (a TAB or a soft hyphen, which extraction
  keeps), then whatever the formatter returns for these pages is refused, on every attempt.\<close>

theorem dropped_characters_never_recorded:
  fixes h
  defines "rid \<equiv> ph_revision_id h"
  assumes run: "format_markdown_document sl loads client cfg
      (map (\<lambda>x. \<lparr>lp_page_number = xp_page_number x, lp_text = xp_layout_text x\<rparr>) (stored_extracts c rid)) callback s = (Inr d, s')"
    and cfg: "check_formatter_config cfg = Inr ()"
    and distinct_pages: "distinct (map xp_page_number (stored_extracts c rid))"
    and row: "row \<in> set (stored_extracts c rid)" "ch \<in> set (xp_layout_text row)" "is_disallowed_control ch"
  shows "(\<exists>e. formatted_slice_records sl d (stored_extracts c rid) = Inl e)
    \<and> (\<forall>cfg' now m c'. record_formatting sl h d cfg' now c \<noteq> Inr (m, c'))"
proof -
  let ?rows = "stored_extracts c rid"
  have "map fpg_source_text (fd_pages d) = map (\<lambda>x. normalize_layout_text sl (xp_layout_text x)) ?rows"
    using formatted_document_result [OF run cfg] by simp
  then have clean: "\<not> is_disallowed_control ch'" if "p \<in> set (fd_pages d)" "ch' \<in> set (fpg_source_text p)" for p ch'
    using that normalized_has_no_controls [of ch'] by (metis (mono_tags, lifting) ex_map_conv image_eqI list.set_map)
  have "formatted_slice_records sl d ?rows \<noteq> Inr records" for records
    using covered_row [OF _ distinct_pages row(1)] clean row(2,3) by metis
  then obtain e where e: "formatted_slice_records sl d ?rows = Inl e"
    by (cases "formatted_slice_records sl d ?rows") auto
  have "record_formatting sl h d cfg' now c \<noteq> Inr (m, c')" for cfg' now m c'
  proof
    assume "record_formatting sl h d cfg' now c = Inr (m, c')"
    from record_formatting_run [OF this] show False
      using e unfolding rid_def by (metis Inl_Inr_False)
  qed
  with e show ?thesis
    by blast
qed

end
