(* ===== verification/Preparation_Scenario.thy ===== *)
theory Preparation_Scenario
  imports Pages_Correct Profiles
begin

text \<open>
  A document of one page, prepared from its extraction to its sealed revision.  The states are the
  witnesses of the theorems about sealing and about the stages before it.
\<close>

section \<open>States\<close>

lemma prof_stdlib_fmt: "prof_stdlib = fmt_stdlib"
  by (simp add: prof_stdlib_def fmt_stdlib_def fmt_hash_def)

definition prep_document :: document where
  "prep_document = \<lparr>doc_id = 1, doc_collection_key = ''reports'', doc_original_filename = ''a.pdf'',
      doc_normalized_filename = ''a.pdf'', doc_content_type = ''application/pdf'',
      doc_size_bytes = 1, doc_sha256 = fmt_hash, doc_storage_key = Some ''k'', doc_state = PREFLIGHTING,
      doc_terminal_disposition = None, doc_scan_state = SCAN_CLEAN, doc_scan_engine = None, doc_scan_signature = None,
      doc_scanned_at = None, doc_created_by = [], doc_created_at = 1, doc_ready_at = None, doc_rejected_at = None,
      doc_cancelled_at = None, doc_deleted_at = None, doc_failure_code = None, doc_failure_message = None,
      doc_failure_retryable = False, doc_replaced_by = None\<rparr>"

definition prep_handle :: preparation_handle where
  "prep_handle = \<lparr>ph_revision_id = 2, ph_document_id = 1, ph_revision_number = 1, ph_collection_key = ''reports'',
     ph_identity = prof_identity\<rparr>"

definition prep_started :: catalog where
  "prep_started = (empty_catalog (\<lambda>n. n))\<lparr>documents := [prep_document],
     revisions := [preparing_revision 5 2 1 1 prof_identity]\<rparr>"

definition prep_extraction :: "string \<Rightarrow> extracted_document" where
  "prep_extraction s = \<lparr>xd_page_count = 1, xd_character_count = int (length s),
     xd_pages = [\<lparr>le_page_number = 1, le_layout_text = s, le_character_count = int (length s), le_text_sha256 = fmt_hash\<rparr>]\<rparr>"

definition prep_revision :: prepared_revision where
  "prep_revision = preparing_revision 5 2 1 1 prof_identity"

definition prep_extracted :: "string \<Rightarrow> catalog" where
  "prep_extracted s = prep_started\<lparr>extracted_pages := map (extracted_row 2) (xd_pages (prep_extraction s)),
     revisions := [extraction_recorded ''en'' (prep_extraction s) fmt_hash prep_revision]\<rparr>"

lemma prep_rows [simp]: "documents prep_started = [prep_document]" "revisions prep_started = [prep_revision]"
  "extracted_pages prep_started = []" "formatter_batches prep_started = []" "prepared_pages prep_started = []"
  "chunks prep_started = []" "chunk_vectors prep_started = []" "candidates prep_started = []" "evidence_rows prep_started = []"
  by (simp_all add: prep_started_def prep_revision_def empty_catalog_def)

lemma prep_ids [simp]: "ph_revision_id prep_handle = 2" "ph_document_id prep_handle = 1" "ph_collection_key prep_handle = ''reports''"
  "ph_identity prep_handle = prof_identity" "doc_id prep_document = 1" "doc_collection_key prep_document = ''reports''"
  "rev_id prep_revision = 2" "rev_document_id prep_revision = 1" "rev_status prep_revision = REV_PREPARING"
  by (simp_all add: prep_handle_def prep_document_def prep_revision_def preparing_revision_def)

lemma prep_matches: "revision_identity_matches prep_revision prep_handle"
  by (simp add: revision_identity_matches_def prep_handle_def prep_revision_def preparing_revision_def Let_def)

text \<open>The steps every stage shares when the catalog has the one revision.\<close>

lemma single_revision:
  assumes "revisions c = [r]" and "rev_id r = 2" and "rev_status r = REV_PREPARING"
  shows "load_revision 2 (Some REV_PREPARING) c = Inr r" "lift_lifecycle (prevent_sealed_child_insert c 2) = Inr ()"
    "lift_lifecycle (upd_revision 2 f c) = Inr (c\<lparr>revisions := [f r]\<rparr>)"
  using assms
  by (simp_all add: load_revision_def tget_def prevent_sealed_child_insert_def stored_revision_status_def upd_revision_def
      tupd_def lift_lifecycle_def)

lemma prep_extract: "record_extraction fmt_stdlib prep_handle (prep_extraction s) ''en'' prep_started
    = Inr (fmt_hash, prep_extracted s)"
proof -
  have "validate_extraction fmt_stdlib (prep_extraction s) = Inr ()"
      "extraction_manifest_sha256 fmt_stdlib (prep_extraction s) = fmt_hash"
    by (simp_all add: validate_extraction_def prep_extraction_def fmt_sha extraction_manifest_sha256_def
        extraction_manifest_of_def manifest_hash_def del: dumps.simps)
  moreover have "insert_extracted (map (extracted_row 2) (xd_pages (prep_extraction s))) prep_started
      = Inr (prep_started\<lparr>extracted_pages := map (extracted_row 2) (xd_pages (prep_extraction s))\<rparr>)"
    by (simp add: insert_extracted_def prep_extraction_def extracted_row_def extracted_check_def fmt_hash_def)
  ultimately show ?thesis
    using prep_matches
    by (simp add: record_extraction_def single_revision validate_revision_identity_def prep_extracted_def Let_def)
qed

lemma prep_recorded:
  "revisions (prep_extracted s) = [extraction_recorded ''en'' (prep_extraction s) fmt_hash prep_revision]"
  "rev_page_count (extraction_recorded ''en'' (prep_extraction s) fmt_hash prep_revision) = Some 1"
  "rev_id (extraction_recorded l d x r) = rev_id r" "rev_status (extraction_recorded l d x r) = rev_status r"
  "revision_identity_matches (extraction_recorded l d x r) h = revision_identity_matches r h"
  "prepared_pages (prep_extracted s) = []" "formatter_batches (prep_extracted s) = []"
  "stored_extracts (prep_extracted s) 2 = map (extracted_row 2) (xd_pages (prep_extraction s))"
  by (simp_all add: prep_extracted_def extraction_recorded_def prep_extraction_def revision_identity_matches_def
      stored_extracts_def extracted_row_def)

definition prep_record :: page_record where
  "prep_record = \<lparr>pr_page_number = 1, pr_slices = [\<lparr>sr_slice_index = 0, sr_source_start = 0, sr_source_end = 2,
       sr_markdown_start = 0, sr_markdown_end = 4, sr_source_text_sha256 = fmt_hash, sr_markdown_sha256 = fmt_hash,
       sr_source_projection_sha256 = fmt_hash, sr_markdown_projection_sha256 = fmt_hash\<rparr>],
     pr_markdown = ''# Hi'', pr_markdown_sha256 = fmt_hash, pr_source_projection_sha256 = fmt_hash,
     pr_markdown_projection_sha256 = fmt_hash\<rparr>"

lemma Inr_eq_projr: "(\<exists>y. x = Inr y) \<longleftrightarrow> \<not> isl x"
  by (cases x) auto

definition prep_batch :: formatter_batch where
  "prep_batch = batch_row fmt_stdlib fmt_config 2 6 (hd (fd_attempts fmt_document))
     [((1, 0), hd (pr_slices prep_record), Some fmt_hash)]"

definition prep_formatted :: catalog where
  "prep_formatted = (prep_extracted ''Hi'')\<lparr>formatter_batches := [prep_batch], prepared_pages := [page_row 2 prep_record],
     revisions := [formatting_recorded fmt_hash (extraction_recorded ''en'' (prep_extraction ''Hi'') fmt_hash prep_revision)]\<rparr>"

lemma fmt_projections [simp]: "source_hash_of fmt_stdlib s = fmt_hash" "markdown_hash_of fmt_stdlib s = fmt_hash"
  by (simp_all add: source_hash_of_def markdown_hash_of_def projection_hash_def fmt_sha del: dumps.simps)

lemma prep_records: "formatted_slice_records fmt_stdlib fmt_document (stored_extracts (prep_extracted ''Hi'') 2) = Inr [prep_record]"
proof -
  have "py_strip ''# Hi'' \<noteq> []"
    by code_simp
  then show ?thesis
    unfolding prep_recorded
    by (simp add: formatted_slice_records_def fmt_document_def prep_extraction_def extracted_row_def by_page_def
        page_record_of_def fmt_item_def fmt_sha py_slice_def prep_record_def Let_def)
qed

lemma prep_batches: "formatter_batch_records fmt_stdlib fmt_config 2 6 fmt_document (slices_by_key [prep_record]) = Inr [prep_batch]"
  by (simp add: formatter_batch_records_def fmt_document_def attempt_keys_def evidence_of_def fmt_item_def slices_by_key_def
      prep_record_def projection_for_def prep_batch_def del: dumps.simps)

lemma prep_format: "record_formatting fmt_stdlib prep_handle fmt_document fmt_config 6 (prep_extracted ''Hi'') = Inr (fmt_hash, prep_formatted)"
proof -
  have "check_formatter_identity prep_handle fmt_document fmt_config = Inr ()"
    by (simp add: check_formatter_identity_def prep_handle_def prof_identity_def fmt_document_def fmt_config_def)
  moreover have "\<exists>markdown. markdown_of_records [prep_record] = Inr markdown"
    unfolding Inr_eq_projr by code_simp
  then obtain markdown where "markdown_of_records [prep_record] = Inr markdown" ..
  moreover have "length (xd_pages (prep_extraction ''Hi'')) = 1"
    by (simp add: prep_extraction_def)
  moreover have "insert_formatted [prep_batch] [page_row 2 prep_record] (prep_extracted ''Hi'')
      = Inr ((prep_extracted ''Hi'')\<lparr>formatter_batches := [prep_batch], prepared_pages := [page_row 2 prep_record]\<rparr>)"
    by (simp add: insert_formatted_def prep_extracted_def batch_check_def page_check_def prep_batch_def batch_row_def
        fmt_document_def prep_record_def fmt_hash_def page_row_def Let_def del: dumps.simps)
  ultimately show ?thesis
    using prep_records prep_batches prep_matches
    by (auto simp: record_formatting_def single_revision prep_formatted_def Let_def fmt_sha
        prep_recorded validate_revision_identity_def del: dumps.simps)
qed

lemma prep_formatted_rows:
  "revisions prep_formatted = [formatting_recorded fmt_hash (extraction_recorded ''en'' (prep_extraction ''Hi'') fmt_hash prep_revision)]"
  "rev_id (formatting_recorded m r) = rev_id r" "rev_status (formatting_recorded m r) = rev_status r"
  "rev_formatter_complete (formatting_recorded m r)" "rev_markdown_sha256 (formatting_recorded m r) = Some m"
  "revision_identity_matches (formatting_recorded m r) h = revision_identity_matches r h"
  by (simp_all add: prep_formatted_def formatting_recorded_def revision_identity_matches_def)

text \<open>One chunk with its two vectors.\<close>

definition prep_chunk :: markdown_chunk where
  "prep_chunk = \<lparr>mc_chunk_id = 0, mc_chunk_index = 0, mc_page_start = 1, mc_page_end = 1, mc_heading_path = [''Hi''],
     mc_token_count = 1, mc_text_sha256 = fmt_hash, mc_markdown = ''# Hi''\<rparr>"

definition prep_vector :: prepared_vector where
  "prep_vector = \<lparr>pv_chunk = prep_chunk, pv_dense = 1 # replicate 767 0, pv_sparse = \<lparr>sv_indices = [7], sv_values = [1]\<rparr>,
     pv_dense_sha256 = fmt_hash, pv_sparse_sha256 = fmt_hash\<rparr>"

definition prep_bundle :: chunk_vector_bundle where
  "prep_bundle = \<lparr>cb_canonical_markdown_sha256 = fmt_hash, cb_vectors = [prep_vector], cb_vector_manifest_sha256 = fmt_hash\<rparr>"

definition prep_embedded :: catalog where
  "prep_embedded = prep_formatted\<lparr>chunks := [chunk_row 2 prep_vector], chunk_vectors := [vector_row 2 prep_vector],
     revisions := [vectors_recorded prep_bundle (formatting_recorded fmt_hash
       (extraction_recorded ''en'' (prep_extraction ''Hi'') fmt_hash prep_revision))]\<rparr>"

lemma finite_floats_nums: "finite_floats (map Num qs) description = Inr qs"
  by (induction qs) (simp_all add: finite_float_def)

lemma prep_bundled:
  "bundle_vectors fmt_stdlib (\<lambda>s. 1) prep_handle markdown [prep_chunk] [map Num (1 # replicate 767 0)]
     [\<lparr>ms_indices = [Index 7], ms_values = [Num 1]\<rparr>] = Inr prep_bundle"
proof -
  have "\<not> list_all py_isspace ''# Hi''" "HARD_MAX_TOKENS \<ge> 1"
    by code_simp+
  then have "correlate_vectors fmt_stdlib (\<lambda>s. 1) prep_handle 0 [prep_chunk] [map Num (1 # replicate 767 0)]
     [\<lparr>ms_indices = [Index 7], ms_values = [Num 1]\<rparr>] = Inr [prep_vector]"
    unfolding correlate_vectors.simps finite_floats_nums
    by (simp add: prep_chunk_def expected_chunk_id_def fmt_sha fmt_stdlib_def dense_vector_sha256_def DENSE_DIMENSION_def
        read_sparse_def finite_float_def sparse_vector_sha256_def manifest_hash_def prep_vector_def
        del: dumps.simps)
  then show ?thesis
    by (simp add: bundle_vectors_def prep_bundle_def fmt_sha vector_manifest_def manifest_hash_def del: dumps.simps
        correlate_vectors.simps)
qed

lemma prep_record_vectors: "record_chunk_vectors fmt_stdlib prep_handle prep_bundle prep_formatted = Inr (fmt_hash, prep_embedded)"
proof -
  have "insert_chunks [chunk_row 2 prep_vector] [vector_row 2 prep_vector] prep_formatted
      = Inr (prep_formatted\<lparr>chunks := [chunk_row 2 prep_vector], chunk_vectors := [vector_row 2 prep_vector]\<rparr>)"
    by (simp add: insert_chunks_def prep_formatted_def prep_extracted_def chunk_check_def chunk_row_def prep_vector_def
        prep_chunk_def fmt_hash_def Let_def HARD_MAX_TOKENS_def)
  moreover have "chunks prep_formatted = []"
    by (simp add: prep_formatted_def prep_extracted_def)
  ultimately show ?thesis
    using prep_matches
    by (simp add: record_chunk_vectors_def prep_bundle_def vector_manifest_def manifest_hash_def fmt_sha
        prep_formatted_rows prep_recorded single_revision validate_revision_identity_def prep_embedded_def
        del: dumps.simps)
qed

definition prep_complete :: preflight_completeness where
  "prep_complete = \<lparr>pc_candidate_discovery_complete = True, pc_advisory_complete = True, pc_clear_for_publication = True,
     pc_incomplete_reasons = []\<rparr>"

definition prep_parts :: manifest_parts where
  "prep_parts = \<lparr>mp_extraction_sha256 = fmt_hash, mp_markdown_sha256 = fmt_hash, mp_vector_manifest_sha256 = fmt_hash,
     mp_evidence_manifest_sha256 = fmt_hash, mp_reasons = []\<rparr>"

definition prep_final :: prepared_revision where
  "prep_final = vectors_recorded prep_bundle (formatting_recorded fmt_hash
     (extraction_recorded ''en'' (prep_extraction ''Hi'') fmt_hash prep_revision))"

lemmas prep_recorded_defs = vectors_recorded_def formatting_recorded_def extraction_recorded_def

lemma prep_final_simps [simp]: "rev_id prep_final = 2" "rev_document_id prep_final = 1" "rev_status prep_final = REV_PREPARING"
  "rev_page_count prep_final = Some 1" "rev_chunk_count prep_final = Some 1" "rev_expected_point_count prep_final = Some 1"
  "rev_extraction_sha256 prep_final = Some fmt_hash" "rev_markdown_sha256 prep_final = Some fmt_hash"
  "rev_vector_manifest_sha256 prep_final = Some fmt_hash" "rev_native_text_eligible prep_final"
  "rev_formatter_complete prep_final" "rev_vector_complete prep_final"
  "revision_identity_matches prep_final h = revision_identity_matches prep_revision h"
  by (simp_all add: prep_final_def prep_recorded_defs prep_bundle_def prep_extraction_def revision_identity_matches_def)

lemma prep_embedded_rows [simp]: "documents prep_embedded = [prep_document]" "revisions prep_embedded = [prep_final]"
  "stored_pages prep_embedded 2 = [page_row 2 prep_record]" "stored_batches prep_embedded 2 = [prep_batch]"
  "stored_extracts prep_embedded 2 = map (extracted_row 2) (xd_pages (prep_extraction ''Hi''))"
  "stored_chunks prep_embedded 2 = [chunk_row 2 prep_vector]" "chunk_vectors prep_embedded = [vector_row 2 prep_vector]"
  "sealed_candidates prep_embedded 2 = []" "stored_evidence prep_embedded 2 = []"
  by (simp_all add: prep_embedded_def prep_formatted_def prep_extracted_def prep_final_def stored_pages_def page_row_def
      stored_batches_def prep_batch_def batch_row_def stored_extracts_def prep_extraction_def extracted_row_def
      stored_chunks_def chunk_row_def prep_vector_def sealed_candidates_def stored_evidence_def Let_def del: dumps.simps)

lemma prep_pages_valid:
  "validate_persisted_pages fmt_stdlib prep_final (map (extracted_row 2) (xd_pages (prep_extraction ''Hi''))) [page_row 2 prep_record]
     = Inr (fmt_hash, fmt_hash)"
proof -
  obtain r where r: "get_revision prep_formatted 2 = Some r"
    and valid: "validate_persisted_pages fmt_stdlib r (stored_extracts prep_formatted (rev_id r)) (stored_pages prep_formatted (rev_id r))
      = Inr (fmt_hash, fmt_hash)"
    using recorded_pages_check [OF prep_extract prep_format] by (auto simp: fmt_document_def slices_filled_def fmt_item_def)
  have same: "rev_page_count prep_final = rev_page_count r" "rev_extraction_sha256 prep_final = rev_extraction_sha256 r"
      "rev_markdown_sha256 prep_final = rev_markdown_sha256 r" and "rev_id r = 2"
    using r by (auto simp: prep_formatted_rows tget_def prep_recorded_defs prep_extraction_def split: if_splits)
  moreover have "stored_extracts prep_formatted 2 = map (extracted_row 2) (xd_pages (prep_extraction ''Hi''))"
      "stored_pages prep_formatted 2 = [page_row 2 prep_record]"
    using prep_embedded_rows(3,5) by (simp_all add: prep_embedded_def stored_pages_def stored_extracts_def)
  moreover have "validate_persisted_pages fmt_stdlib prep_final xs ps = validate_persisted_pages fmt_stdlib r xs ps" for xs ps
    unfolding validate_persisted_pages_def same ..
  ultimately show ?thesis
    using valid by simp
qed

lemma prep_batches_valid: "validate_formatter_batches fmt_stdlib prep_final [prep_batch] [page_row 2 prep_record] = Inr ()"
proof -
  have hash: "is_sha256 fmt_hash"
    by code_simp
  have batch: "prep_batch = \<lparr>fb_revision_id = 2, fb_batch_index = 0, fb_attempt = 1, fb_status = FB_VALID,
      fb_page_slices = JArr [JObj [(''page_number'', JInt 1), (''slice_index'', JInt 0), (''source_text_sha256'', JStr fmt_hash),
        (''source_projection_sha256'', JStr fmt_hash), (''markdown_projection_sha256'', JStr fmt_hash)]],
      fb_source_manifest_sha256 = fmt_hash, fb_request_sha256 = fmt_hash, fb_response_sha256 = Some fmt_hash,
      fb_finish_reason = Some ''stop'', fb_validation_errors = [], fb_started_at = Some 6, fb_completed_at = Some 6\<rparr>"
    by (simp add: prep_batch_def batch_row_def fmt_document_def prep_record_def source_item_json_def manifest_hash_def fmt_sha
        string_json_def Let_def del: dumps.simps)
  from hash show ?thesis
    unfolding batch
    by (simp add: validate_formatter_batches_def expected_slices_def page_row_def prep_record_def slice_json_def
        check_batch_def check_attempt_def check_attempt_status_def BATCH_FIELDS_def member_key_def manifest_hash_def fmt_sha
        List.map_filter_simps Let_def del: dumps.simps)
qed

lemma prep_rows_valid: "\<exists>points. validate_chunk_rows fmt_stdlib prep_embedded prep_final prep_document [chunk_row 2 prep_vector]
    = Inr (points, fmt_hash)"
proof -
  have "\<not> list_all py_isspace ''# Hi''"
    by code_simp
  then have "validate_chunk_row fmt_stdlib prep_final prep_document 0 (chunk_row 2 prep_vector) (Some (vector_row 2 prep_vector))
      = Inr prep_vector"
    by (simp add: validate_chunk_row_def chunk_row_def vector_row_def prep_vector_def prep_chunk_def expected_chunk_id_def
        fmt_stdlib_def dense_vector_sha256_def sparse_vector_sha256_def manifest_hash_def DENSE_DIMENSION_def HARD_MAX_TOKENS_def
        del: dumps.simps)
  then show ?thesis
    by (simp add: validate_chunk_rows_def tget_def vector_manifest_def manifest_hash_def fmt_sha del: dumps.simps)
qed

lemma prep_sealable: "sealing_parts fmt_stdlib prep_embedded prep_final prep_document prep_complete = Inr prep_parts"
proof -
  have "evidence_manifest fmt_stdlib prep_final [] [] prep_complete = Inr (fmt_hash, [])"
    by (simp add: evidence_manifest_def check_completeness_def expected_clear_def completeness_reasons_def prep_complete_def
        manifest_hash_def fmt_sha del: dumps.simps)
  moreover obtain points where "validate_chunk_rows fmt_stdlib prep_embedded prep_final prep_document [chunk_row 2 prep_vector]
      = Inr (points, fmt_hash)"
    using prep_rows_valid ..
  ultimately show ?thesis
    using prep_pages_valid prep_batches_valid by (simp add: sealing_parts_def prep_parts_def Let_def)
qed

lemma prep_seal: "\<exists>s c. seal_prepared_revision fmt_stdlib prof_loads prof_pipeline prep_handle prep_complete 9 prep_embedded = Inr (s, c)"
proof -
  have "revision_check (sealed_revision prep_parts fmt_hash prep_complete 9 prep_final)"
    by (simp add: revision_check_def sealed_revision_def prep_parts_def prep_complete_def prep_final_def prep_recorded_defs
        prep_revision_def preparing_revision_def fmt_hash_def DENSE_DIMENSION_def prep_extraction_def)
  then show ?thesis
    using prep_sealable prof_valid prep_matches
    by (simp add: seal_prepared_revision_def prof_stdlib_fmt single_revision validate_revision_identity_def tget_def
        whole_manifest_def manifest_hash_def fmt_sha Let_def del: dumps.simps)
qed

section \<open>Witnesses\<close>

theorem sealed_revision_publishes_witness:
  "\<exists>s c r points. seal_prepared_revision fmt_stdlib prof_loads prof_pipeline prep_handle prep_complete 9 prep_embedded = Inr (s, c)
     \<and> get_revision c (sp_revision_id s) = Some r \<and> rev_status r = REV_SEALED
     \<and> reconstruct_chunk_points fmt_stdlib (rev_id r) True c = Inr points"
proof -
  obtain s c where run: "seal_prepared_revision fmt_stdlib prof_loads prof_pipeline prep_handle prep_complete 9 prep_embedded = Inr (s, c)"
    using prep_seal by blast
  obtain r points where "get_revision c (sp_revision_id s) = Some r" "rev_status r = REV_SEALED"
    "reconstruct_chunk_points fmt_stdlib (rev_id r) True c = Inr points"
    using sealed_revision_publishes [OF run] by (elim exE conjE) (rule that)
  with run show ?thesis
    by blast
qed

theorem vectors_round_trip_witness:
  "reconstruct_chunk_points fmt_stdlib 2 False prep_embedded
     = Inr (map (point_of prep_document (formatting_recorded fmt_hash
         (extraction_recorded ''en'' (prep_extraction ''Hi'') fmt_hash prep_revision))) [prep_vector])"
proof -
  have "get_document prep_formatted (ph_document_id prep_handle) = Some prep_document"
    by (simp add: prep_formatted_def prep_extracted_def tget_def)
  moreover have "get_revision prep_formatted (ph_revision_id prep_handle) = Some (formatting_recorded fmt_hash
       (extraction_recorded ''en'' (prep_extraction ''Hi'') fmt_hash prep_revision))"
    by (simp add: prep_formatted_rows prep_recorded tget_def)
  moreover have "rev_page_count (formatting_recorded fmt_hash
       (extraction_recorded ''en'' (prep_extraction ''Hi'') fmt_hash prep_revision)) = Some 1"
    by (simp add: prep_recorded_defs prep_extraction_def)
  ultimately show ?thesis
    using vectors_round_trip [OF prep_bundled prep_record_vectors, of prep_document _ 1]
    by (simp add: prep_chunk_def prep_bundle_def)
qed

theorem recorded_pages_validate_witness:
  "\<exists>c1 d c2 r. record_extraction fmt_stdlib prep_handle (prep_extraction ''Hi'') ''en'' prep_started = Inr (fmt_hash, c1)
     \<and> format_markdown_document fmt_stdlib fmt_loads fmt_client fmt_config fmt_pages None () = (Inr d, ())
     \<and> record_formatting fmt_stdlib prep_handle d fmt_config 6 c1 = Inr (fmt_hash, c2) \<and> get_revision c2 2 = Some r
     \<and> validate_persisted_pages fmt_stdlib r (stored_extracts c2 (rev_id r)) (stored_pages c2 (rev_id r)) = Inr (fmt_hash, fmt_hash)"
  using recorded_pages_validate [OF prep_extract fmt_run [OF fmt_sources, of "()"] fmt_config_ok prep_format]
    prep_extract [of "''Hi''"] fmt_run [OF fmt_sources, of "()"] prep_format by auto

text \<open>A page that ends in a TAB.\<close>

theorem dropped_characters_never_recorded_witness:
  "\<exists>d. format_markdown_document fmt_stdlib fmt_loads fmt_client fmt_config
       [\<lparr>lp_page_number = 1, lp_text = ''Hi'' @ [TAB]\<rparr>] None () = (Inr d, ())
     \<and> (\<forall>cfg now m c. record_formatting fmt_stdlib prep_handle d cfg now (prep_extracted (''Hi'' @ [TAB])) \<noteq> Inr (m, c))"
proof -
  let ?s = "''Hi'' @ [TAB]"
  have "normalize_pages fmt_stdlib [\<lparr>lp_page_number = 1, lp_text = ?s\<rparr>] = Inr [fmt_source]"
    by code_simp
  note run = fmt_run [OF this, of "()"]
  have "TAB \<in> set (xp_layout_text (extracted_row 2 (hd (xd_pages (prep_extraction ?s)))))" "is_disallowed_control TAB"
    by (simp add: prep_extraction_def extracted_row_def) code_simp
  with run dropped_characters_never_recorded [where h = prep_handle and c = "prep_extracted ?s" and sl = fmt_stdlib
      and row = "extracted_row 2 (hd (xd_pages (prep_extraction ?s)))" and ch = TAB and callback = None and s = "()" and s' = "()"
      and loads = fmt_loads and client = fmt_client and cfg = fmt_config and d = fmt_document]
  show ?thesis
    by (simp add: prep_recorded fmt_config_ok prep_extraction_def extracted_row_def)
qed

text \<open>A child that reports the page, with blank lines around its text.\<close>

definition prep_limits :: extraction_limits where
  "prep_limits = \<lparr>xl_max_pages = 5, xl_max_characters = 100, xl_cpu_seconds = 1, xl_memory_bytes = 1, xl_wall_clock_seconds = 1\<rparr>"

definition prep_payload :: json where
  "prep_payload = JObj [(''ok'', JBool True), (''page_count'', JInt 1),
     (''pages'', JArr [JObj [(''page_number'', JInt 1), (''layout_text'', JStr (LF # ''Hi  '' @ [LF]))]])]"

theorem extraction_is_valid_witness:
  "extract_pdf_layout fmt_stdlib (\<lambda>s. Some prep_payload) (\<lambda>args timeout. ChildExited 0 []) ''p'' prep_limits = Inr (prep_extraction ''Hi'')
     \<and> validate_extraction fmt_stdlib (prep_extraction ''Hi'') = Inr ()"
proof -
  have "parse_child_payload fmt_stdlib prep_limits prep_payload = Inr (prep_extraction ''Hi'')"
    by code_simp
  then have run: "extract_pdf_layout fmt_stdlib (\<lambda>s. Some prep_payload) (\<lambda>args timeout. ChildExited 0 []) ''p'' prep_limits
      = Inr (prep_extraction ''Hi'')"
    by (simp add: extract_pdf_layout_def prep_limits_def)
  from extraction_is_valid [OF run] run show ?thesis
    by simp
qed

end
