(* ===== verification/Screening.thy ===== *)
theory Screening
  imports Sealing Candidates Filenames
begin

text \<open>
  Candidate screening: the read side of \<^verbatim>\<open>pdf_bridge/services/vector_index.py\<close> (fixed collection schemas and
  filtered candidate queries) and the discovery of \<^verbatim>\<open>pdf_bridge/managers/worker.py\<close>, which merges the hits
  of active and screening points with what the catalog says about the documents behind them.
\<close>

section \<open>Collection schemas\<close>

text \<open>What Qdrant describes of a collection; \<open>None\<close> where a value has an unexpected type.\<close>

record dense_params =
  dp_size :: "int option"
  dp_distance :: "string option"

record sparse_params =
  sx_indexed :: bool
  sx_modifier :: "string option"

record collection_info =
  cinfo_aliases :: "string list option"
  cinfo_status :: "string option"
  cinfo_vectors :: "(string \<times> dense_params) list option"
  cinfo_sparse_vectors :: "(string \<times> sparse_params) list option"
  cinfo_payload_schema :: "(string \<times> string) list option"

definition REQUIRED_PAYLOAD_INDEXES :: "(string \<times> string) list" where
  "REQUIRED_PAYLOAD_INDEXES = [(''document_id'', ''keyword''), (''collection_key'', ''keyword''),
     (''prepared_revision_id'', ''keyword''), (''schema_version'', ''integer''), (''published'', ''bool''),
     (''visibility'', ''keyword'')]"

definition alias_issues :: "collection_info \<Rightarrow> string list" where
  "alias_issues info =
     (case cinfo_aliases info of
        None \<Rightarrow> [''collection aliases could not be attested'']
      | Some aliases \<Rightarrow> if aliases \<noteq> [] then [''fixed physical collections must not participate in aliases''] else [])"

definition dense_issues :: "collection_info \<Rightarrow> string list" where
  "dense_issues info =
     (case cinfo_vectors info of
        Some [(name, dense)] \<Rightarrow>
          if name \<noteq> ''dense'' then [''named dense vectors must contain only dense'']
          else (if dp_size dense \<noteq> Some (int DENSE_DIMENSION) then [''dense vector size must be 768''] else [])
            @ (if dp_distance dense \<noteq> Some ''Cosine'' then [''dense vector distance must be Cosine''] else [])
      | _ \<Rightarrow> [''named dense vectors must contain only dense''])"

definition sparse_issues :: "collection_info \<Rightarrow> string list" where
  "sparse_issues info =
     (case cinfo_sparse_vectors info of
        Some [(name, sparse)] \<Rightarrow>
          if name \<noteq> ''bm25'' then [''named sparse vectors must contain only bm25'']
          else (if \<not> sx_indexed sparse then [''bm25 sparse indexing must be enabled''] else [])
            @ (if sx_modifier sparse \<noteq> Some ''idf'' then [''bm25 sparse modifier must be IDF''] else [])
      | _ \<Rightarrow> [''named sparse vectors must contain only bm25''])"

definition payload_issues :: "collection_info \<Rightarrow> string list" where
  "payload_issues info =
     concat (map (\<lambda>(name, expected).
       if Option.bind (cinfo_payload_schema info) (\<lambda>schema. map_of schema name) \<noteq> Some expected
       then [''payload index '' @ name @ '' must use '' @ expected] else []) REQUIRED_PAYLOAD_INDEXES)"

definition schema_issues :: "collection_info \<Rightarrow> string list" where
  "schema_issues info = alias_issues info
     @ (if cinfo_status info \<noteq> Some ''green'' then [''status is not green''] else [])
     @ dense_issues info @ sparse_issues info @ payload_issues info"

section \<open>Queries\<close>

record query_filter =
  qf_collection_key :: string
  qf_published :: bool
  qf_visibility :: string
  qf_schema_version :: int
  qf_exclude_revision_id :: "uuid option"

datatype query_vector = Dense_Query "number list" | Sparse_Query model_sparse_vector

record query_point =
  qp_payload :: json
  qp_score :: number

datatype query_reply = QueryRaised | QueryPoints "query_point list"

record 'q index_reader =
  ir_describe :: "string \<Rightarrow> 'q \<Rightarrow> collection_info option"
  ir_query :: "string \<Rightarrow> query_vector \<Rightarrow> string \<Rightarrow> query_filter \<Rightarrow> int \<Rightarrow> 'q \<Rightarrow> query_reply"

definition validate_collection_schema :: "'q index_reader \<Rightarrow> string \<Rightarrow> 'q \<Rightarrow> vector_index_error + unit" where
  "validate_collection_schema ir name q =
     (case ir_describe ir name q of
        None \<Rightarrow> Inl Unavailable
      | Some info \<Rightarrow> if schema_issues info \<noteq> [] then Inl Schema else Inr ())"

fun validate_schemas :: "'q index_reader \<Rightarrow> string list \<Rightarrow> 'q \<Rightarrow> vector_index_error + unit" where
  "validate_schemas ir [] q = Inr ()"
| "validate_schemas ir (name # names) q =
     rbind (validate_collection_schema ir name q) (\<lambda>_. validate_schemas ir names q)"

definition validate_fixed_collections ::
  "'q index_reader \<Rightarrow> string list \<Rightarrow> string \<Rightarrow> 'q \<Rightarrow> vector_index_error + unit" where
  "validate_fixed_collections ir active_collections screening q =
     (let names = active_collections @ [screening] in
      if list_ex (\<lambda>name. py_strip name = []) names then Inl Schema
      else if \<not> distinct names then Inl Schema
      else validate_schemas ir names q)"

definition collection_filter :: "string \<Rightarrow> bool \<Rightarrow> string \<Rightarrow> uuid option \<Rightarrow> query_filter" where
  "collection_filter collection_key published visibility exclude_revision_id =
     \<lparr>qf_collection_key = collection_key, qf_published = published, qf_visibility = visibility,
      qf_schema_version = INDEX_SCHEMA_VERSION, qf_exclude_revision_id = exclude_revision_id\<rparr>"

record candidate_hit =
  ch_document_id :: uuid
  ch_revision_id :: uuid
  ch_chunk_id :: uuid
  ch_score :: rat
  ch_rank :: int
  ch_source :: string

definition payload_uuid :: "(string \<Rightarrow> uuid option) \<Rightarrow> json \<Rightarrow> string \<Rightarrow> uuid option" where
  "payload_uuid parse_uuid payload field =
     (case payload of JObj members \<Rightarrow> Option.bind (map_of members field) (uuid_text parse_uuid) | _ \<Rightarrow> None)"

fun read_hits ::
  "(string \<Rightarrow> uuid option) \<Rightarrow> string \<Rightarrow> int \<Rightarrow> query_point list \<Rightarrow> vector_index_error + candidate_hit list" where
  "read_hits parse_uuid source rank [] = Inr []"
| "read_hits parse_uuid source rank (p # ps) =
     (case (payload_uuid parse_uuid (qp_payload p) ''document_id'', payload_uuid parse_uuid (qp_payload p) ''prepared_revision_id'',
            payload_uuid parse_uuid (qp_payload p) ''chunk_id'') of
        (Some document_id, Some revision_id, Some chunk_id) \<Rightarrow>
          (case qp_score p of
             Num score \<Rightarrow> rbind (read_hits parse_uuid source (rank + 1) ps) (\<lambda>rest.
               Inr (\<lparr>ch_document_id = document_id, ch_revision_id = revision_id, ch_chunk_id = chunk_id, ch_score = score,
                     ch_rank = rank, ch_source = source\<rparr> # rest))
           | _ \<Rightarrow> Inl Consistency)
      | _ \<Rightarrow> Inl Consistency)"

definition query_candidates ::
  "'q index_reader \<Rightarrow> (string \<Rightarrow> uuid option) \<Rightarrow> string \<Rightarrow> query_vector \<Rightarrow> string \<Rightarrow> query_filter \<Rightarrow> string \<Rightarrow> int \<Rightarrow> 'q
     \<Rightarrow> vector_index_error + candidate_hit list" where
  "query_candidates ir parse_uuid collection vec using_vector flt source limit q =
     (if using_vector \<notin> {''dense'', ''bm25''} then Inl QueryArgument
      else if \<not> (1 \<le> limit \<and> limit \<le> 100) then Inl QueryArgument
      else case ir_query ir collection vec using_vector flt limit q of
        QueryRaised \<Rightarrow> Inl Unavailable
      | QueryPoints points \<Rightarrow> read_hits parse_uuid source 1 points)"

section \<open>Discovery\<close>

definition DENSE_TOP_K :: int where
  "DENSE_TOP_K = 30"

definition BM25_TOP_K :: int where
  "BM25_TOP_K = 30"

text \<open>\<^verbatim>\<open>dict.setdefault\<close> on insertion-ordered dictionaries.\<close>

definition setdefault :: "'k \<Rightarrow> 'v \<Rightarrow> ('k \<times> 'v) list \<Rightarrow> ('k \<times> 'v) list" where
  "setdefault k v d = (if k \<in> set (map fst d) then d else d @ [(k, v)])"

record hit_context =
  hc_revisions :: "(uuid \<times> uuid) list"
  hc_sources :: "(uuid \<times> string) list"

fun convert_hits ::
  "uuid \<Rightarrow> string \<Rightarrow> candidate_hit list \<Rightarrow> hit_context \<Rightarrow> worker_error + chunk_hit list \<times> hit_context" where
  "convert_hits own source [] hc = Inr ([], hc)"
| "convert_hits own source (hit # hits) hc =
     (if ch_document_id hit = own then convert_hits own source hits hc
      else
        let d = ch_document_id hit;
            hc1 = hc\<lparr>hc_revisions := setdefault d (ch_revision_id hit) (hc_revisions hc),
                     hc_sources := setdefault d source (hc_sources hc)\<rparr>
        in if map_of (hc_revisions hc1) d \<noteq> Some (ch_revision_id hit) \<or> map_of (hc_sources hc1) d \<noteq> Some source
           then Inl VectorIndexConsistencyError
           else rbind (convert_hits own source hits hc1) (\<lambda>(rest, hc2).
             Inr (\<lparr>hit_document_id = d, hit_source = source, hit_chunk_id = uuid_str (ch_chunk_id hit),
                   hit_score = Num (ch_score hit), hit_rank = ch_rank hit\<rparr> # rest, hc2)))"

record 'q screening_services =
  ss_reader :: "'q index_reader"
  ss_parse_uuid :: "string \<Rightarrow> uuid option"
  ss_embed_sparse_queries :: "string list \<Rightarrow> worker_error + model_sparse_vector list"
  ss_similarity :: similarity

text \<open>The four queries of one chunk, and their hits.\<close>

definition query_both ::
  "'q screening_services \<Rightarrow> preparation_handle \<Rightarrow> string \<Rightarrow> string \<Rightarrow> query_vector \<Rightarrow> string \<Rightarrow> int
     \<Rightarrow> ('q, candidate_hit list \<times> candidate_hit list) action" where
  "query_both sv h active screening vec using_vector limit =
     ibind (read_index (query_candidates (ss_reader sv) (ss_parse_uuid sv) active vec using_vector
       (collection_filter (ph_collection_key h) True ''active'' (Some (ph_revision_id h))) ''active'' limit)) (\<lambda>active_hits.
     ibind (read_index (query_candidates (ss_reader sv) (ss_parse_uuid sv) screening vec using_vector
       (collection_filter (ph_collection_key h) False ''screening'' (Some (ph_revision_id h))) ''screening'' limit)) (\<lambda>screening_hits.
       iret (active_hits, screening_hits)))"

definition merge_hits ::
  "uuid \<Rightarrow> candidate_hit list \<times> candidate_hit list \<Rightarrow> hit_context \<Rightarrow> worker_error + chunk_hit list \<times> hit_context" where
  "merge_hits own found hc =
     rbind (convert_hits own ''active'' (fst found) hc) (\<lambda>(active_hits, hc1).
     rbind (convert_hits own ''screening'' (snd found) hc1) (\<lambda>(screening_hits, hc2).
       Inr (active_hits @ screening_hits, hc2)))"

fun query_points_of ::
  "'q screening_services \<Rightarrow> preparation_handle \<Rightarrow> string \<Rightarrow> chunk_point list \<Rightarrow> model_sparse_vector list \<Rightarrow> hit_context
     \<Rightarrow> ('q, (chunk_hit list list \<times> chunk_hit list list) \<times> hit_context) action" where
  "query_points_of sv h screening [] [] hc = iret (([], []), hc)"
| "query_points_of sv h screening (p # ps) (s # ss) hc =
     ibind (query_both sv h (pt_active_collection p) screening (Dense_Query (pt_dense p)) ''dense'' DENSE_TOP_K) (\<lambda>dense_found.
     ibind (query_both sv h (pt_active_collection p) screening (Sparse_Query s) ''bm25'' BM25_TOP_K) (\<lambda>sparse_found.
     ibind (lift_result (merge_hits (ph_document_id h) dense_found hc)) (\<lambda>(dense_hits, hc1).
     ibind (lift_result (merge_hits (ph_document_id h) sparse_found hc1)) (\<lambda>(sparse_hits, hc2).
     ibind (query_points_of sv h screening ps ss hc2) (\<lambda>((dense, sparse), hc3).
       iret ((dense_hits # dense, sparse_hits # sparse), hc3))))))"
| "query_points_of sv h screening _ _ hc = iraise OtherError"

section \<open>Catalog context\<close>

definition SCREENING_STATES :: "document_state list" where
  "SCREENING_STATES = [PREFLIGHTING, REVIEW_REQUIRED, PUBLISHING, PUBLISH_FAILED]"

text \<open>The other documents of the collection that may be candidates, and their vector-complete revisions by
  document, the latest first.\<close>

definition catalog_documents :: "catalog \<Rightarrow> preparation_handle \<Rightarrow> document list" where
  "catalog_documents c h = filter (\<lambda>d. doc_collection_key d = ph_collection_key h \<and> doc_id d \<noteq> ph_document_id h
     \<and> doc_state d \<in> set (READY # SCREENING_STATES)) (documents c)"

definition complete_revisions :: "catalog \<Rightarrow> document list \<Rightarrow> prepared_revision list" where
  "complete_revisions c ds = sort_key rev_document_id (sort_key (\<lambda>r. - rev_number r)
     (filter (\<lambda>r. rev_document_id r \<in> set (map doc_id ds) \<and> rev_vector_complete r) (revisions c)))"

definition latest_complete :: "prepared_revision list \<Rightarrow> (uuid \<times> prepared_revision) list" where
  "latest_complete rs = fold (\<lambda>r. setdefault (rev_document_id r) r) rs []"

text \<open>A hit must be of a known document with a complete revision of its own, in a state that fits where it
  was found.\<close>

definition visible_hit ::
  "document list \<Rightarrow> prepared_revision list \<Rightarrow> (uuid \<times> uuid) list \<Rightarrow> uuid \<times> string \<Rightarrow> bool" where
  "visible_hit ds rs qdrant_revisions hit =
     (case (tget doc_id (fst hit) ds, Option.bind (map_of qdrant_revisions (fst hit)) (\<lambda>rid. tget rev_id rid (rev rs))) of
        (Some d, Some r) \<Rightarrow>
          rev_document_id r = fst hit \<and> (snd hit = ''active'' \<longrightarrow> doc_state d = READY)
          \<and> (snd hit = ''screening'' \<longrightarrow> doc_state d \<in> set SCREENING_STATES)
      | _ \<Rightarrow> False)"

record candidate_context =
  cc_filename_ids :: "uuid list"
  cc_identical_ids :: "uuid list"
  cc_sources :: "(uuid \<times> string) list"
  cc_revisions :: "(uuid \<times> uuid) list"

definition context_sources :: "document list \<Rightarrow> (uuid \<times> string) list \<Rightarrow> (uuid \<times> string) list" where
  "context_sources ds qdrant_sources =
     fold (\<lambda>(k, v) acc. if k \<in> set (map fst acc) then map (\<lambda>(x, y). (x, if x = k then v else y)) acc else acc @ [(k, v)])
       qdrant_sources (map (\<lambda>d. (doc_id d, if doc_state d = READY then ''active'' else ''screening'')) ds)"

definition catalog_candidate_context ::
  "stdlib \<Rightarrow> similarity \<Rightarrow> preparation_handle \<Rightarrow> string \<Rightarrow> hit_context \<Rightarrow> catalog \<Rightarrow> worker_error + candidate_context" where
  "catalog_candidate_context sl sim h markdown_sha256 hc c =
     (case get_document c (ph_document_id h) of
        None \<Rightarrow> Inl (worker_failure ''document_not_found'' ''The preflight document was not found.'' False)
      | Some incoming \<Rightarrow>
          let ds0 = catalog_documents c h;
              rs = complete_revisions c ds0;
              latest = latest_complete rs;
              ds = filter (\<lambda>d. doc_id d \<in> set (map fst latest)) ds0;
              identical = filter (\<lambda>r. rev_markdown_sha256 r = Some markdown_sha256) rs
          in if set (map fst (hc_sources hc)) \<noteq> set (map fst (hc_revisions hc)) then Inl VectorIndexConsistencyError
             else if list_ex (\<lambda>hit. \<not> visible_hit ds rs (hc_revisions hc) hit) (hc_sources hc)
             then Inl VectorIndexConsistencyError
             else Inr \<lparr>cc_filename_ids = map doc_id (filter (\<lambda>d. compare_filenames sim
                      (profile_filename sl (doc_original_filename incoming))
                      (profile_filename sl (doc_original_filename d)) \<noteq> None) ds),
                    cc_identical_ids = remdups (map rev_document_id identical),
                    cc_sources = context_sources ds (hc_sources hc),
                    cc_revisions = fold (\<lambda>(k, r). setdefault k (rev_id r)) latest
                      (fold (\<lambda>r. setdefault (rev_document_id r) (rev_id r)) identical (hc_revisions hc))\<rparr>)"

record candidate_discovery =
  cdy_candidate :: scored_candidate
  cdy_revision_id :: "uuid option"

definition evaluate_context ::
  "(chunk_hit list list \<times> chunk_hit list list) \<Rightarrow> candidate_context \<Rightarrow> worker_error + candidate_discovery list" where
  "evaluate_context found ctx =
     (case evaluate_candidates (fst found) (snd found) (cc_filename_ids ctx) (cc_identical_ids ctx)
         (map_of (cc_sources ctx)) (map fst (cc_sources ctx)) of
        Inl _ \<Rightarrow> Inl OtherError
      | Inr evaluated \<Rightarrow> Inr (map (\<lambda>x. \<lparr>cdy_candidate = x,
          cdy_revision_id = map_of (cc_revisions ctx) (sc_document_id x)\<rparr>) evaluated))"

definition discover_candidates ::
  "'q env \<Rightarrow> 'q screening_services option \<Rightarrow> preparation_handle \<Rightarrow> string \<Rightarrow> chunk_point list
     \<Rightarrow> ('q, candidate_discovery list) action" where
  "discover_candidates en services h markdown_sha256 points =
     ibind (required_qdrant en) (\<lambda>_.
       case services of
         None \<Rightarrow> iraise (worker_failure ''provider_not_configured'' ''Sparse query encoding is not configured.'' False)
       | Some sv \<Rightarrow>
           ibind (required_screening_collection en) (\<lambda>screening.
           ibind (lift_result (ss_embed_sparse_queries sv (map pt_markdown points))) (\<lambda>sparse_queries.
           ibind (query_points_of sv h screening points sparse_queries \<lparr>hc_revisions = [], hc_sources = []\<rparr>) (\<lambda>(found, hc).
           ibind (query (catalog_candidate_context (en_stdlib en) (ss_similarity sv) h markdown_sha256 hc)) (\<lambda>ctx.
             lift_result (evaluate_context found ctx))))))"

section \<open>Candidates as recorded\<close>

fun rule_value :: "candidate_rule \<Rightarrow> string" where
  "rule_value RULE_IDENTICAL_TEXT = ''identical-normalized-text''"
| "rule_value RULE_FILENAME_FAMILY = ''filename-family-match''"
| "rule_value RULE_COSINE_STRONG = ''cosine-strong-single-chunk''"
| "rule_value RULE_COSINE_MULTI = ''cosine-moderate-multiple-chunks''"
| "rule_value RULE_BM25_REPEATED = ''bm25-repeated-strong-placement''"

fun read_pairs :: "(string \<Rightarrow> uuid option) \<Rightarrow> (nat \<times> string) list \<Rightarrow> worker_error + (int \<times> uuid) list" where
  "read_pairs parse_uuid [] = Inr []"
| "read_pairs parse_uuid ((i, chunk_id) # rest) =
     (case parse_uuid chunk_id of
        None \<Rightarrow> Inl VectorIndexConsistencyError
      | Some k \<Rightarrow> rbind (read_pairs parse_uuid rest) (\<lambda>pairs. Inr ((int i, k) # pairs)))"

definition deterministic_evidence :: evidence_input where
  "deterministic_evidence = \<lparr>ei_kind = DETERMINISTIC, ei_model_id = None, ei_valid = True, ei_label = Some ''candidate'',
     ei_summary = Some ''Deterministic preflight rules selected this candidate.'', ei_citations = [],
     ei_failure_code = None\<rparr>"

fun deterministic_candidate_inputs ::
  "(string \<Rightarrow> uuid option) \<Rightarrow> candidate_discovery list \<Rightarrow> worker_error + candidate_input list" where
  "deterministic_candidate_inputs parse_uuid [] = Inr []"
| "deterministic_candidate_inputs parse_uuid (item # items) =
     (let x = cdy_candidate item in
      rbind (read_pairs parse_uuid (sc_matched_chunk_pairs x)) (\<lambda>pairs.
      rbind (deterministic_candidate_inputs parse_uuid items) (\<lambda>rest.
        Inr (\<lparr>ci_matched_document_id = sc_document_id x,
              ci_source = (if sc_source x = ''active'' then SRC_ACTIVE else SRC_SCREENING),
              ci_reasons = map rule_value (sc_reasons x), ci_max_cosine = Num (sc_max_cosine x),
              ci_bm25_score = Num (of_nat (sc_bm25_strong_placements x)), ci_fused_score = Num (sc_fused_score x),
              ci_matched_chunk_pairs = pairs, ci_evidence = [deterministic_evidence]\<rparr> # rest))))"

end
