(* ===== verification/Content_Preparation.thy ===== *)
theory Content_Preparation
  imports Sealing
begin

text \<open>
  The preparation of a document's content, from \<^verbatim>\<open>pdf_bridge/services/preparation.py\<close>: extraction,
  eligibility, formatting, chunking and embedding with one catalog transaction after each stage, progress
  reported before the slow ones, and every failure recorded on the revision.

  The child process that extracts text, the language detector, the model server and the local models are
  arguments.  The model server acts on the same outside state as the index.
\<close>

section \<open>Services\<close>

record 'q preparation_services =
  ps_loads :: "string \<Rightarrow> decoded"
  ps_run_child :: "string list \<Rightarrow> rat \<Rightarrow> child_result"
  ps_detect_language :: "string \<Rightarrow> string option option"
  ps_client :: "'q formatter_client"
  ps_count_tokens :: "string \<Rightarrow> int"
  ps_embed_dense :: "string list \<Rightarrow> worker_error + number list list"
  ps_embed_sparse_documents :: "string list \<Rightarrow> worker_error + model_sparse_vector list"

record 'q preparation_request =
  pq_document_id :: uuid
  pq_identity :: preparation_identity
  pq_profiles :: pipeline_profiles
  pq_source_path :: string
  pq_limits :: extraction_limits
  pq_formatter_config :: formatter_config
  pq_max_chunks :: int
  pq_progress :: "operation_phase \<Rightarrow> ('q, unit) action"

record content_preparation_result =
  cr_handle :: preparation_handle
  cr_extraction_sha256 :: string
  cr_markdown_sha256 :: string
  cr_vector_manifest_sha256 :: string
  cr_points :: "chunk_point list"

text \<open>What may end the stages early: \<open>ProgressFailed\<close> is \<^verbatim>\<open>_ProgressCallbackFailed\<close>, the others are the
  exceptions the stages raise.\<close>

datatype stage_exception =
  ProgressFailed worker_error
| StageFailed worker_error
| ExtractionFailed extraction_error
| FormattingFailed formatter_error

type_synonym ('q, 'a) stage = "('q world, stage_exception, 'a) io"

definition map_exception :: "('e \<Rightarrow> 'f) \<Rightarrow> ('s, 'e, 'a) io \<Rightarrow> ('s, 'f, 'a) io" where
  "map_exception f m s = (case m s of (r, t) \<Rightarrow> (map_error f r, t))"

definition checkpoint :: "(operation_phase \<Rightarrow> ('q, unit) action) \<Rightarrow> operation_phase \<Rightarrow> ('q, unit) stage" where
  "checkpoint progress phase = map_exception ProgressFailed (progress phase)"

definition as_stage :: "('q, 'a) action \<Rightarrow> ('q, 'a) stage" where
  "as_stage = map_exception StageFailed"

definition external_error :: "stage_exception \<Rightarrow> worker_error" where
  "external_error e =
     (case e of
        StageFailed (PreparationError code message) \<Rightarrow> PreparationError code message
      | StageFailed LocalModelError \<Rightarrow>
          preparation_error ''chunk_vector_failed'' ''canonical Markdown could not be chunked and embedded''
      | ExtractionFailed (ExtractionRejected reason) \<Rightarrow>
          preparation_error (''extraction_'' @ reason_value reason) ''source PDF did not satisfy the target extraction policy''
      | ExtractionFailed ExtractionInfrastructure \<Rightarrow>
          preparation_error ''extraction_unavailable'' ''required PDF extraction was unavailable''
      | FormattingFailed (MarkdownFormattingError message attempts) \<Rightarrow> preparation_error ''formatter_failed'' message
      | _ \<Rightarrow> preparation_error ''preparation_failed'' ''preparation could not be completed'')"

section \<open>Chunks and vectors\<close>

definition chunk_vector_failed :: worker_error where
  "chunk_vector_failed =
     preparation_error ''chunk_vector_failed'' ''canonical Markdown could not be chunked and embedded''"

definition chunked :: "chunking_error + 'a \<Rightarrow> stage_exception + 'a" where
  "chunked = map_error (\<lambda>_. StageFailed chunk_vector_failed)"

text \<open>\<open>LocalModelError\<close> also stands for a \<^verbatim>\<open>ValueError\<close> of a model.\<close>

definition embedded :: "worker_error + 'a \<Rightarrow> stage_exception + 'a" where
  "embedded = map_error (\<lambda>e. StageFailed (if e = LocalModelError then chunk_vector_failed else e))"

definition build_chunk_vector_bundle ::
  "stdlib \<Rightarrow> 'q preparation_services \<Rightarrow> (operation_phase \<Rightarrow> ('q, unit) action) \<Rightarrow> int \<Rightarrow> preparation_handle
     \<Rightarrow> markdown_page list \<Rightarrow> ('q, chunk_vector_bundle) stage" where
  "build_chunk_vector_bundle sl sv progress max_chunks h pages =
     ibind (lift_result (chunked (canonical_markdown pages))) (\<lambda>markdown.
     ibind (checkpoint progress CHUNKING_MARKDOWN) (\<lambda>_.
     ibind (lift_result (chunked (chunk_markdown sl pages (ph_document_id h) (ph_revision_id h) (ps_count_tokens sv)
       max_chunks))) (\<lambda>made.
     ibind (checkpoint progress EMBEDDING_DENSE) (\<lambda>_.
     ibind (lift_result (embedded (ps_embed_dense sv (map mc_markdown made)))) (\<lambda>dense.
     ibind (checkpoint progress EMBEDDING_SPARSE) (\<lambda>_.
     ibind (lift_result (embedded (ps_embed_sparse_documents sv (map mc_markdown made)))) (\<lambda>sparse.
       lift_result (map_error StageFailed (bundle_vectors sl (ps_count_tokens sv) h markdown made dense sparse)))))))))"

section \<open>Formatting\<close>

text \<open>The model server as a client in the world, and the progress of the formatter as phases.\<close>

definition world_call :: "('q \<Rightarrow> 'a \<times> 'q) \<Rightarrow> 'q world \<Rightarrow> 'a \<times> 'q world" where
  "world_call f w = (case f (w_index w) of (x, q) \<Rightarrow> (x, w\<lparr>w_index := q\<rparr>))"

definition world_client :: "'q formatter_client \<Rightarrow> 'q world formatter_client" where
  "world_client client =
     \<lparr>fc_get = (\<lambda>url headers timeout. world_call (fc_get client url headers timeout)),
      fc_post = (\<lambda>url body headers timeout. world_call (fc_post client url body headers timeout))\<rparr>"

fun formatter_phase :: "formatter_progress \<Rightarrow> operation_phase" where
  "formatter_phase FP_PACKING_FORMATTER_BATCHES = PACKING_FORMATTER_BATCHES"
| "formatter_phase FP_FORMATTING_MARKDOWN = FORMATTING_MARKDOWN"
| "formatter_phase FP_VALIDATING_MARKDOWN = VALIDATING_MARKDOWN"

fun formatter_exception :: "formatter_error \<Rightarrow> stage_exception" where
  "formatter_exception (CallbackError e) = ProgressFailed e"
| "formatter_exception e = FormattingFailed e"

definition layout_pages :: "extracted_document \<Rightarrow> layout_page list" where
  "layout_pages d = map (\<lambda>p. \<lparr>lp_page_number = le_page_number p, lp_text = le_layout_text p\<rparr>) (xd_pages d)"

definition format_stage ::
  "stdlib \<Rightarrow> 'q preparation_services \<Rightarrow> 'q preparation_request \<Rightarrow> extracted_document \<Rightarrow> ('q, formatted_document) stage" where
  "format_stage sl sv rq d =
     map_exception formatter_exception (format_markdown_document sl (ps_loads sv) (world_client (ps_client sv))
       (pq_formatter_config rq) (layout_pages d) (Some (\<lambda>p. pq_progress rq (formatter_phase p))))"

section \<open>The stages in order\<close>

definition content_stages ::
  "stdlib \<Rightarrow> 'q preparation_services \<Rightarrow> 'q preparation_request \<Rightarrow> preparation_handle
     \<Rightarrow> ('q, content_preparation_result) stage" where
  "content_stages sl sv rq h =
     ibind (lift_result (map_error ExtractionFailed (extract_pdf_layout sl (json_loads (ps_loads sv)) (ps_run_child sv)
       (pq_source_path rq) (pq_limits rq)))) (\<lambda>extracted.
     ibind (checkpoint (pq_progress rq) CHECKING_ELIGIBILITY) (\<lambda>_.
     ibind (lift_result (map_error ExtractionFailed (validate_native_english (ps_detect_language sv) extracted))) (\<lambda>_.
     ibind (as_stage (txn (\<lambda>_. record_extraction sl h extracted ''en''))) (\<lambda>extraction_hash.
     ibind (format_stage sl sv rq extracted) (\<lambda>formatted.
     ibind (as_stage (txn (record_formatting sl h formatted (pq_formatter_config rq)))) (\<lambda>markdown_hash.
     ibind (as_stage (query (load_prepared_markdown_pages h))) (\<lambda>pages.
     ibind (build_chunk_vector_bundle sl sv (pq_progress rq) (pq_max_chunks rq) h pages) (\<lambda>made.
     ibind (as_stage (txn (\<lambda>_. record_chunk_vectors sl h made))) (\<lambda>vector_hash.
     ibind (as_stage (query (reconstruct_chunk_points sl (ph_revision_id h) False))) (\<lambda>points.
       iret \<lparr>cr_handle = h, cr_extraction_sha256 = extraction_hash, cr_markdown_sha256 = markdown_hash,
             cr_vector_manifest_sha256 = vector_hash, cr_points = points\<rparr>))))))))))"

text \<open>The code and the message a failed revision keeps.\<close>

fun failure_of :: "worker_error \<Rightarrow> string \<times> string" where
  "failure_of (PreparationError code message) = (code, message)"
| "failure_of e = ([], [])"

definition record_preparation_failure :: "preparation_handle \<Rightarrow> worker_error \<Rightarrow> ('q, 'a) action" where
  "record_preparation_failure h e w =
     (case txn_unit (fail_preparation (ph_revision_id h) (fst (failure_of e)) (snd (failure_of e))) w of
        (Inl (PreparationError code message), w') \<Rightarrow>
          (Inl (preparation_error ''failure_persistence_failed''
             ''preparation failed and its durable failure checkpoint could not be recorded''), w')
      | (Inl e', w') \<Rightarrow> (Inl e', w')
      | (Inr _, w') \<Rightarrow> (Inl e, w'))"

definition prepare_revision_content ::
  "stdlib \<Rightarrow> 'q preparation_services \<Rightarrow> 'q preparation_request \<Rightarrow> ('q, content_preparation_result) action" where
  "prepare_revision_content sl sv rq =
     (if fcfg_model_id (pq_formatter_config rq) \<noteq> pid_formatter_model_id (pq_identity rq)
         \<or> fcfg_expected_tokenizer_class (pq_formatter_config rq) \<noteq> pid_formatter_tokenizer_class (pq_identity rq)
      then iraise (preparation_error ''formatter_identity_mismatch''
        ''formatter model or tokenizer did not match the revision identity'')
      else
      ibind (txn (begin_preparation sl (json_loads (ps_loads sv)) (pq_profiles rq) (pq_document_id rq) (pq_identity rq))) (\<lambda>h w.
        case content_stages sl sv rq h w of
          (Inr result, w1) \<Rightarrow> (Inr result, w1)
        | (Inl (ProgressFailed e), w1) \<Rightarrow> (Inl e, w1)
        | (Inl e, w1) \<Rightarrow> record_preparation_failure h (external_error e) w1))"

end
