(* ===== verification/Advisory.thy ===== *)
theory Advisory
  imports Screening Classification Content_Preparation
begin

text \<open>
  Protected artifacts and the advisory review of \<^verbatim>\<open>pdf_bridge/managers/worker.py\<close>: the capture of formatter
  exchanges, their storage as files with a catalog row each, the excerpts shown to the advisory models, and
  the evidence their answers become.  \<^verbatim>\<open>gzip\<close> and the text of an HTTP response are arguments.
\<close>

section \<open>Captured exchanges\<close>

record exchange =
  ex_request :: json
  ex_response :: json
  ex_failure :: "string option"

definition has_suffix :: "string \<Rightarrow> string \<Rightarrow> bool" where
  "has_suffix suffix s \<longleftrightarrow> length suffix \<le> length s \<and> drop (length s - length suffix) s = suffix"

text \<open>What the capturing client keeps of one chat request; \<open>raw_text\<close> is the text of the response, if any.\<close>

definition captured :: "(http_reply \<Rightarrow> string option) \<Rightarrow> json \<Rightarrow> http_reply \<Rightarrow> exchange list" where
  "captured raw_text request reply =
     (case reply of
        TransportFailure \<Rightarrow> [\<lparr>ex_request = request, ex_response = JNull, ex_failure = Some ''provider_request_failed''\<rparr>]
      | ClientRaised \<Rightarrow> [\<lparr>ex_request = request, ex_response = JNull, ex_failure = Some ''provider_request_failed''\<rparr>]
      | Reply None answer \<Rightarrow> []
      | Reply (Some status) answer \<Rightarrow>
          if status < 200 \<or> 300 \<le> status
          then [\<lparr>ex_request = request, ex_response = JObj [(''status_code'', JInt status), (''raw_text'', string_json (raw_text reply))],
                 ex_failure = Some ''provider_failure_status''\<rparr>]
          else (case answer of
              Decoded payload \<Rightarrow> [\<lparr>ex_request = request, ex_response = payload, ex_failure = None\<rparr>]
            | _ \<Rightarrow> [\<lparr>ex_request = request,
                ex_response = (case raw_text reply of None \<Rightarrow> JNull | Some s \<Rightarrow> JObj [(''raw_text'', JStr s)]),
                ex_failure = Some ''provider_response_invalid_json''\<rparr>]))"

definition capturing_client ::
  "(http_reply \<Rightarrow> string option) \<Rightarrow> 'q formatter_client \<Rightarrow> ('q \<times> exchange list) formatter_client" where
  "capturing_client raw_text client =
     \<lparr>fc_get = (\<lambda>url headers timeout (q, lg). case fc_get client url headers timeout q of (reply, q') \<Rightarrow> (reply, q', lg)),
      fc_post = (\<lambda>url body headers timeout (q, lg). case fc_post client url body headers timeout q of (reply, q') \<Rightarrow>
        (reply, q', if has_suffix ''/v1/chat/completions'' url then lg @ captured raw_text body reply else lg))\<rparr>"

text \<open>The world of a slot while it captures: the log rides with the outside state.\<close>

definition add_log :: "exchange list \<Rightarrow> 'q world \<Rightarrow> ('q \<times> exchange list) world" where
  "add_log lg w = \<lparr>w_catalog = w_catalog w, w_index = (w_index w, lg), w_files = w_files w, w_clock = w_clock w,
     w_ticks = w_ticks w\<rparr>"

definition drop_log :: "('q \<times> exchange list) world \<Rightarrow> 'q world" where
  "drop_log w = \<lparr>w_catalog = w_catalog w, w_index = fst (w_index w), w_files = w_files w, w_clock = w_clock w,
     w_ticks = w_ticks w\<rparr>"

definition with_log :: "('q, 'a) action \<Rightarrow> ('q \<times> exchange list, 'a) action" where
  "with_log m w = (case m (drop_log w) of (r, w') \<Rightarrow> (r, add_log (snd (w_index w)) w'))"

definition capture :: "('q \<times> exchange list, 'a) action \<Rightarrow> 'q world \<Rightarrow> (worker_error + 'a) \<times> exchange list \<times> 'q world" where
  "capture m w = (case m (add_log [] w) of (r, w') \<Rightarrow> (r, snd (w_index w'), drop_log w'))"

section \<open>Protected artifacts\<close>

definition MAX_PROTECTED_ARTIFACT_BYTES :: int where
  "MAX_PROTECTED_ARTIFACT_BYTES = 8 * 1024 * 1024"

definition artifact_size_exceeded :: "string \<Rightarrow> worker_error" where
  "artifact_size_exceeded message = worker_failure ''artifact_size_exceeded'' message False"

definition protected_artifact_bytes :: "(string \<Rightarrow> string) \<Rightarrow> json \<Rightarrow> worker_error + string" where
  "protected_artifact_bytes gzip payload =
     (let raw = dumps payload; compressed = gzip raw in
      if utf8_length raw > MAX_PROTECTED_ARTIFACT_BYTES
      then Inl (artifact_size_exceeded ''Protected diagnostic material exceeded its byte limit.'')
      else if compressed = [] \<or> int (length compressed) > MAX_PROTECTED_ARTIFACT_BYTES
      then Inl (artifact_size_exceeded ''Protected diagnostic material exceeded its stored byte limit.'')
      else Inr compressed)"

definition artifact_key :: "uuid \<Rightarrow> uuid \<Rightarrow> uuid \<Rightarrow> string" where
  "artifact_key document_id revision_id artifact_id =
     ''artifacts/'' @ uuid_str document_id @ ''/'' @ uuid_str revision_id @ ''/'' @ uuid_str artifact_id @ ''.json.gz''"

text \<open>\<^verbatim>\<open>os.link\<close> refuses an existing file.\<close>

definition write_protected_artifact ::
  "(string \<Rightarrow> string) \<Rightarrow> uuid \<Rightarrow> uuid \<Rightarrow> uuid \<Rightarrow> json \<Rightarrow> files \<Rightarrow> worker_error + (string \<times> string) \<times> files" where
  "write_protected_artifact gzip document_id revision_id artifact_id payload fs =
     rbind (protected_artifact_bytes gzip payload) (\<lambda>data.
       let key = artifact_key document_id revision_id artifact_id in
       case resolve_storage_key key of
         Inl _ \<Rightarrow> Inl StorageError
       | Inr p \<Rightarrow> if map_of fs p \<noteq> None then Inl OtherError else Inr ((key, data), (p, data) # fs))"

definition artifact_sequence :: "catalog \<Rightarrow> uuid \<Rightarrow> string \<Rightarrow> int" where
  "artifact_sequence c revision_id kind =
     fold (\<lambda>a m. max m (art_sequence a + 1))
       (filter (\<lambda>a. art_revision_id a = revision_id \<and> art_kind a = kind) (artifacts c)) 0"

definition artifact_binding :: "uuid \<Rightarrow> string \<Rightarrow> catalog \<Rightarrow> worker_error + uuid \<times> int" where
  "artifact_binding revision_id kind c =
     (if kind = [] \<or> 64 < length kind then Inl OtherError
      else case get_revision c revision_id of
        None \<Rightarrow> Inl (worker_failure ''revision_not_found'' ''Protected diagnostics lost their prepared revision binding.'' False)
      | Some r \<Rightarrow>
          if rev_status r = REV_SEALED
          then Inl (worker_failure ''revision_state_conflict'' ''Protected diagnostics cannot be added after sealing.'' False)
          else Inr (rev_document_id r, artifact_sequence c revision_id kind))"

definition artifact_check :: "revision_artifact \<Rightarrow> bool" where
  "artifact_check a \<longleftrightarrow> 0 \<le> art_sequence a \<and> length (art_sha256 a) = 64 \<and> 0 < art_size_bytes a"

definition add_artifact :: "uuid \<Rightarrow> revision_artifact \<Rightarrow> catalog \<Rightarrow> worker_error + catalog" where
  "add_artifact document_id a c =
     (case get_revision c (art_revision_id a) of
        None \<Rightarrow> Inl (worker_failure ''revision_state_conflict'' ''Protected diagnostics lost their mutable revision binding.'' False)
      | Some r \<Rightarrow>
          if rev_document_id r \<noteq> document_id \<or> rev_status r = REV_SEALED
          then Inl (worker_failure ''revision_state_conflict'' ''Protected diagnostics lost their mutable revision binding.'' False)
          else if list_ex (\<lambda>x. art_id x = art_id a \<or> art_storage_key x = art_storage_key a
                 \<or> (art_revision_id x = art_revision_id a \<and> art_kind x = art_kind a \<and> art_sequence x = art_sequence a)) (artifacts c)
               \<or> \<not> artifact_check a
          then Inl OtherError
          else Inr (c\<lparr>artifacts := tadd a (artifacts c)\<rparr>))"

definition artifact_payload :: "uuid \<Rightarrow> uuid \<Rightarrow> string \<Rightarrow> int \<Rightarrow> json \<Rightarrow> json" where
  "artifact_payload document_id revision_id kind sequence material =
     JObj [(''artifact_version'', JInt 1), (''document_id'', JStr (uuid_str document_id)),
       (''prepared_revision_id'', JStr (uuid_str revision_id)), (''kind'', JStr kind), (''sequence'', JInt sequence),
       (''material'', material)]"

text \<open>Writing the file and then the row; a row that fails takes the file with it.\<close>

definition write_artifact ::
  "(string \<Rightarrow> string) \<Rightarrow> uuid \<Rightarrow> uuid \<Rightarrow> uuid \<Rightarrow> json \<Rightarrow> ('q, string \<times> string) action" where
  "write_artifact gzip document_id revision_id artifact_id payload w =
     (case write_protected_artifact gzip document_id revision_id artifact_id payload (w_files w) of
        Inl e \<Rightarrow> (Inl e, w) | Inr (x, fs) \<Rightarrow> (Inr x, w\<lparr>w_files := fs\<rparr>))"

definition register_artifact :: "uuid \<Rightarrow> revision_artifact \<Rightarrow> ('q, unit) action" where
  "register_artifact document_id a w =
     (case txn_unit (\<lambda>_. add_artifact document_id a) w of
        (Inl e, w') \<Rightarrow>
          (case remove_storage_key (art_storage_key a) True (w_files w') of
             Inl _ \<Rightarrow> (Inl StorageError, w') | Inr fs \<Rightarrow> (Inl e, w'\<lparr>w_files := fs\<rparr>))
      | (Inr u, w') \<Rightarrow> (Inr u, w'))"

definition persist_revision_artifact ::
  "stdlib \<Rightarrow> (string \<Rightarrow> string) \<Rightarrow> uuid \<Rightarrow> string \<Rightarrow> json \<Rightarrow> ('q, unit) action" where
  "persist_revision_artifact sl gzip revision_id kind material =
     ibind (query (artifact_binding revision_id kind)) (\<lambda>(document_id, sequence).
     ibind (txn (\<lambda>_ c. Inr (uuid4 c))) (\<lambda>artifact_id.
     ibind (write_artifact gzip document_id revision_id artifact_id
       (artifact_payload document_id revision_id kind sequence material)) (\<lambda>(key, data).
       register_artifact document_id \<lparr>art_id = artifact_id, art_revision_id = revision_id, art_kind = kind,
         art_sequence = sequence, art_storage_key = key, art_sha256 = sl_sha256 sl data,
         art_size_bytes = int (length data)\<rparr>)))"

definition exchange_json :: "exchange \<Rightarrow> json" where
  "exchange_json x = JObj [(''request'', ex_request x), (''response'', ex_response x), (''failure'', string_json (ex_failure x))]"

fun persist_formatter_exchanges ::
  "stdlib \<Rightarrow> (string \<Rightarrow> string) \<Rightarrow> uuid \<Rightarrow> exchange list \<Rightarrow> ('q, unit) action" where
  "persist_formatter_exchanges sl gzip revision_id [] = iret ()"
| "persist_formatter_exchanges sl gzip revision_id (x # xs) =
     ibind (persist_revision_artifact sl gzip revision_id ''formatter_exchange'' (exchange_json x)) (\<lambda>_.
       persist_formatter_exchanges sl gzip revision_id xs)"

definition failed_exchange_revision :: "uuid \<Rightarrow> catalog \<Rightarrow> worker_error + uuid" where
  "failed_exchange_revision document_id c =
     (case latest_revision c document_id of
        Some r \<Rightarrow>
          if rev_status r = REV_SEALED
          then Inl (worker_failure ''artifact_revision_missing'' ''Formatter diagnostics had no mutable prepared revision.'' False)
          else Inr (rev_id r)
      | None \<Rightarrow> Inl (worker_failure ''artifact_revision_missing'' ''Formatter diagnostics had no mutable prepared revision.'' False))"

definition persist_failed_formatter_exchanges ::
  "stdlib \<Rightarrow> (string \<Rightarrow> string) \<Rightarrow> uuid \<Rightarrow> exchange list \<Rightarrow> ('q, unit) action" where
  "persist_failed_formatter_exchanges sl gzip document_id exchanges =
     (if exchanges = [] then iret ()
      else ibind (query (failed_exchange_revision document_id)) (\<lambda>revision_id.
        persist_formatter_exchanges sl gzip revision_id exchanges))"

section \<open>Advisory evidence\<close>

definition unavailable_advisory :: "evidence_kind \<Rightarrow> string \<Rightarrow> evidence_input" where
  "unavailable_advisory kind model_id = \<lparr>ei_kind = kind, ei_model_id = Some model_id, ei_valid = False, ei_label = None,
     ei_summary = Some ''The independent advisory check did not complete.'', ei_citations = [],
     ei_failure_code = Some ''advisory_unavailable''\<rparr>"

definition incomplete_evidence :: "string \<Rightarrow> string \<Rightarrow> evidence_input" where
  "incomplete_evidence summary code = \<lparr>ei_kind = INCOMPLETE, ei_model_id = None, ei_valid = False, ei_label = None,
     ei_summary = Some summary, ei_citations = [], ei_failure_code = Some code\<rparr>"

record citation_source =
  cs_document_id :: uuid
  cs_chunk_id :: uuid
  cs_page_start :: int
  cs_page_end :: int
  cs_text :: string

definition public_citation :: "citation_source \<Rightarrow> string \<Rightarrow> json" where
  "public_citation src excerpt = citation_json (cs_document_id src) (cs_chunk_id src) (cs_page_start src) (cs_page_end src) excerpt"

fun cite :: "(string \<times> citation_source) list \<Rightarrow> finding_evidence list \<Rightarrow> worker_error + json list" where
  "cite srcs [] = Inr []"
| "cite srcs (item # items) =
     (case map_of (rev srcs) (fe_chunk_reference item) of
        None \<Rightarrow> Inl (worker_failure ''advisory_citation_invalid''
          ''Validated advisory evidence lost its chunk correlation.'' False)
      | Some src \<Rightarrow> rbind (cite srcs items) (\<lambda>rest. Inr (public_citation src (fe_quote item) # rest)))"

definition finding_record ::
  "evidence_kind \<Rightarrow> finding_result \<Rightarrow> (string \<times> citation_source) list \<Rightarrow> worker_error + evidence_input" where
  "finding_record kind result srcs =
     (let identity = model_identity (Some (fr_model_id result)) (Some (fr_model_revision result)) in
      case (fr_valid result, fr_finding result) of
        (True, Some finding) \<Rightarrow>
          rbind (cite srcs (cf_evidence finding)) (\<lambda>citations.
          rbind identity (\<lambda>model_id.
            Inr \<lparr>ei_kind = kind, ei_model_id = Some model_id, ei_valid = True, ei_label = Some (cf_label finding),
                 ei_summary = Some (cf_summary finding), ei_citations = citations, ei_failure_code = None\<rparr>))
      | _ \<Rightarrow> rbind identity (\<lambda>model_id.
            Inr \<lparr>ei_kind = kind, ei_model_id = Some model_id, ei_valid = False, ei_label = None,
                 ei_summary = Some ''Advisory output did not pass strict validation.'', ei_citations = [],
                 ei_failure_code = Some ''advisory_invalid''\<rparr>))"

section \<open>Excerpts\<close>

definition candidate_revision :: "catalog \<Rightarrow> uuid \<Rightarrow> uuid option \<Rightarrow> uuid option" where
  "candidate_revision c document_id known =
     (case known of
        Some rid \<Rightarrow> Some rid
      | None \<Rightarrow>
          (case sort_key (\<lambda>r. - rev_number r)
              (filter (\<lambda>r. rev_document_id r = document_id \<and> rev_vector_complete r) (revisions c)) of
             [] \<Rightarrow> None | r # _ \<Rightarrow> Some (rev_id r)))"

definition excerpt_of :: "prepared_chunk \<Rightarrow> source_excerpt" where
  "excerpt_of k = \<lparr>se_reference = uuid_str (chk_id k),
     se_pages = int_str (chk_page_start k) @ ''-'' @ int_str (chk_page_end k), se_text = chk_markdown k\<rparr>"

definition citation_of :: "uuid \<Rightarrow> prepared_chunk \<Rightarrow> string \<times> citation_source" where
  "citation_of document_id k = (uuid_str (chk_id k),
     \<lparr>cs_document_id = document_id, cs_chunk_id = chk_id k, cs_page_start = chk_page_start k, cs_page_end = chk_page_end k,
      cs_text = chk_markdown k\<rparr>)"

fun checked_excerpts :: "prepared_chunk list \<Rightarrow> worker_error + source_excerpt list" where
  "checked_excerpts [] = Inr []"
| "checked_excerpts (k # ks) =
     (case check_excerpt (excerpt_of k) of
        Inl _ \<Rightarrow> Inl OtherError
      | Inr _ \<Rightarrow> rbind (checked_excerpts ks) (\<lambda>rest. Inr (excerpt_of k # rest)))"

definition candidate_content_missing :: "string \<Rightarrow> worker_error" where
  "candidate_content_missing message = worker_failure ''candidate_content_missing'' message False"

definition classification_excerpts ::
  "preparation_handle \<Rightarrow> uuid \<Rightarrow> uuid option \<Rightarrow> catalog
     \<Rightarrow> worker_error + source_excerpt list \<times> source_excerpt list \<times> (string \<times> citation_source) list" where
  "classification_excerpts h candidate_document_id known c =
     (case candidate_revision c candidate_document_id known of
        None \<Rightarrow> Inl (candidate_content_missing ''A deterministic candidate has no retained prepared content.'')
      | Some candidate_revision_id \<Rightarrow>
          let incoming = stored_chunks c (ph_revision_id h); candidate = stored_chunks c candidate_revision_id in
          if incoming = [] \<or> candidate = []
          then Inl (candidate_content_missing ''Advisory review requires retained chunks for both documents.'')
          else
          rbind (checked_excerpts incoming) (\<lambda>xs.
          rbind (checked_excerpts candidate) (\<lambda>ys.
            Inr (xs, ys, map (citation_of (ph_document_id h)) incoming @ map (citation_of candidate_document_id) candidate))))"

section \<open>Review\<close>

record 'q advisory_services =
  as_config :: llm_config
  as_loads :: "string \<Rightarrow> decoded"
  as_client :: "'q formatter_client"
  as_gzip :: "string \<Rightarrow> string"

fun role_value :: "classifier_role \<Rightarrow> string" where
  "role_value Classifier_Role = ''classifier''"
| "role_value Verifier_Role = ''verifier''"

fun role_kind :: "classifier_role \<Rightarrow> evidence_kind" where
  "role_kind Classifier_Role = CLASSIFIER"
| "role_kind Verifier_Role = VERIFIER"

definition advisory_result_json :: "uuid \<Rightarrow> finding_result \<Rightarrow> json" where
  "advisory_result_json candidate_id result =
     JObj [(''candidate_id'', JStr (uuid_str candidate_id)), (''role'', JStr (role_value (fr_role result))),
       (''model_id'', JStr (fr_model_id result)), (''model_revision'', JStr (fr_model_revision result)),
       (''prompt_revision'', JStr (fr_prompt_revision result)), (''system_prompt'', JStr (fr_system_prompt result)),
       (''prompt'', JStr (fr_prompt result)), (''input_tokens'', JInt (fr_input_tokens result)),
       (''attempts'', JInt (fr_attempts result)), (''raw_outputs'', JArr (map JStr (fr_raw_outputs result))),
       (''valid'', JBool (fr_valid result)), (''validation_error'', string_json (fr_error result))]"

definition persist_advisory_result ::
  "stdlib \<Rightarrow> (string \<Rightarrow> string) \<Rightarrow> uuid \<Rightarrow> uuid \<Rightarrow> finding_result \<Rightarrow> ('q, unit) action" where
  "persist_advisory_result sl gzip revision_id candidate_id result =
     persist_revision_artifact sl gzip revision_id ''advisory_exchange'' (advisory_result_json candidate_id result)"

text \<open>One role on one candidate: an unavailable model is evidence of its own, everything else raised escapes.\<close>

definition review_role ::
  "stdlib \<Rightarrow> 'q advisory_services \<Rightarrow> preparation_handle \<Rightarrow> uuid \<Rightarrow> source_excerpt list \<Rightarrow> source_excerpt list
     \<Rightarrow> (string \<times> citation_source) list \<Rightarrow> classifier_role \<Rightarrow> string \<Rightarrow> ('q, evidence_input) action" where
  "review_role sl sv h candidate_id incoming candidate srcs role model_id w =
     (case world_call (classify_candidate (as_loads sv) (as_client sv) (as_config sv) role incoming candidate) w of
        (Inl (ClassificationUnavailable e), w1) \<Rightarrow> (Inr (unavailable_advisory (role_kind role) model_id), w1)
      | (Inl ClassificationUncaught, w1) \<Rightarrow> (Inl OtherError, w1)
      | (Inr result, w1) \<Rightarrow>
          ibind (persist_advisory_result sl (as_gzip sv) (ph_revision_id h) candidate_id result) (\<lambda>_.
            lift_result (finding_record (role_kind role) result srcs)) w1)"

definition role_identities :: "llm_config \<Rightarrow> worker_error + string \<times> string" where
  "role_identities cfg =
     rbind (model_identity (Some (llm_classifier_model cfg)) (Some (llm_classifier_model_revision cfg))) (\<lambda>x.
     rbind (model_identity (Some (llm_verifier_model cfg)) (Some (llm_verifier_model_revision cfg))) (\<lambda>y. Inr (x, y)))"

definition over_budget_records :: "string \<times> string \<Rightarrow> evidence_input list" where
  "over_budget_records ids = [unavailable_advisory CLASSIFIER (fst ids), unavailable_advisory VERIFIER (snd ids),
     incomplete_evidence ''Candidate exceeded the bounded advisory review budget.'' ''advisory_candidate_budget'']"

definition review_candidate ::
  "stdlib \<Rightarrow> 'q advisory_services \<Rightarrow> preparation_handle \<Rightarrow> candidate_discovery \<Rightarrow> uuid \<Rightarrow> ('q, evidence_input list) action" where
  "review_candidate sl sv h item candidate_id =
     ibind (query (classification_excerpts h (sc_document_id (cdy_candidate item)) (cdy_revision_id item)))
       (\<lambda>(incoming, candidate, srcs).
     ibind (lift_result (role_identities (as_config sv))) (\<lambda>ids.
     ibind (review_role sl sv h candidate_id incoming candidate srcs Classifier_Role (fst ids)) (\<lambda>x.
     ibind (review_role sl sv h candidate_id incoming candidate srcs Verifier_Role (snd ids)) (\<lambda>y.
       iret ([x, y] @ (if ei_valid x \<and> ei_valid y then []
         else [incomplete_evidence ''One or more independent advisory checks were incomplete.'' ''advisory_incomplete'']))))))"

text \<open>The review of the candidates from position \<open>i\<close> on: their evidence, whether all of it is valid, and the
  reasons why not.\<close>

fun review_candidates ::
  "stdlib \<Rightarrow> 'q advisory_services \<Rightarrow> preparation_handle \<Rightarrow> nat \<Rightarrow> (candidate_discovery \<times> uuid) list
     \<Rightarrow> ('q, (uuid \<times> evidence_input list) list \<times> bool \<times> string list) action" where
  "review_candidates sl sv h i [] = iret ([], True, [])"
| "review_candidates sl sv h i ((item, candidate_id) # rest) =
     (if MAX_CLASSIFIED_CANDIDATES \<le> i
      then ibind (lift_result (role_identities (as_config sv))) (\<lambda>ids.
        ibind (review_candidates sl sv h (i + 1) rest) (\<lambda>(evidence, all_valid, reasons).
          iret ((candidate_id, over_budget_records ids) # evidence, False, ''advisory_candidate_budget'' # reasons)))
      else ibind (review_candidate sl sv h item candidate_id) (\<lambda>records.
        ibind (review_candidates sl sv h (i + 1) rest) (\<lambda>(evidence, all_valid, reasons).
          if list_all ei_valid records then iret ((candidate_id, records) # evidence, all_valid, reasons)
          else iret ((candidate_id, records) # evidence, False, ''advisory_incomplete'' # reasons))))"

definition classify_candidates ::
  "stdlib \<Rightarrow> 'q advisory_services option \<Rightarrow> preparation_handle \<Rightarrow> candidate_discovery list \<Rightarrow> uuid list
     \<Rightarrow> ('q, (uuid \<times> evidence_input list) list \<times> bool \<times> string list) action" where
  "classify_candidates sl services h discoveries candidate_ids =
     (if length discoveries \<noteq> length candidate_ids
      then iraise (worker_failure ''candidate_correlation_failed''
        ''Persisted candidate identities did not match discovery order.'' False)
      else if discoveries = [] then iret ([], True, [])
      else case services of
        None \<Rightarrow> iraise (worker_failure ''provider_not_configured'' ''Advisory classifier providers are not configured.'' False)
      | Some sv \<Rightarrow> review_candidates sl sv h 0 (zip discoveries candidate_ids))"

end
