(* ===== verification/Advisory_Correct.thy ===== *)
theory Advisory_Correct
  imports Advisory
begin

text \<open>
  What a validated advisory finding is worth: it stays within its bounds, every quote is literally in an
  excerpt that was offered, and it can be stored as evidence exactly if it has no blank text.
\<close>

section \<open>Findings\<close>

definition evidence_ok :: "source_excerpt list \<Rightarrow> finding_evidence \<Rightarrow> bool" where
  "evidence_ok offered item \<longleftrightarrow> (\<exists>e\<in>set offered. se_reference e = fe_chunk_reference item
     \<and> (\<exists>before after. take MAX_EXCERPT_CHARS (se_text e) = before @ fe_quote item @ after))"

lemma containsD: "contains s t \<Longrightarrow> \<exists>before after. t = before @ s @ after"
proof (induction s t rule: contains.induct)
  case (2 s c cs)
  show ?case
  proof (cases "starts_with s (c # cs)")
    case True
    then have "c # cs = [] @ s @ drop (length s) (c # cs)"
      using append_take_drop_id [of "length s" "c # cs"] by (simp add: starts_with_def)
    then show ?thesis
      by blast
  next
    case False
    with 2 obtain before after where "cs = before @ s @ after"
      by auto
    then have "c # cs = (c # before) @ s @ after"
      by simp
    then show ?thesis
      by blast
  qed
qed simp

lemma excerpt_for_Some: "excerpt_for offered reference = Some e \<Longrightarrow> e \<in> set offered \<and> se_reference e = reference"
  by (auto simp: excerpt_for_def dest!: map_of_SomeD)

lemma validate_finding_ok: "validate_finding offered items = None \<Longrightarrow> \<forall>item\<in>set items. evidence_ok offered item"
proof (induction items)
  case (Cons item items)
  then show ?case
    using containsD by (auto simp: evidence_ok_def split: option.split_asm if_split_asm dest!: excerpt_for_Some)
qed simp

definition finding_bounded :: "candidate_finding \<Rightarrow> bool" where
  "finding_bounded f \<longleftrightarrow> cf_label f \<in> set FINDING_LABELS \<and> cf_summary f \<noteq> [] \<and> length (cf_summary f) \<le> 800
     \<and> length (cf_evidence f) \<le> 8 \<and> (\<forall>x\<in>set (cf_evidence f). fe_quote x \<noteq> [] \<and> length (fe_quote x) \<le> 600)"

lemma bounded_string_Some: "bounded_string lo hi j = Some s \<longleftrightarrow> j = JStr s \<and> lo \<le> length s \<and> length s \<le> hi"
  by (cases j) auto

lemma parse_evidence_bounded:
  assumes "parse_evidence j = Some x"
  shows "fe_quote x \<noteq> [] \<and> length (fe_quote x) \<le> 600"
proof -
  obtain members where j: "j = JObj members"
    using assms by (cases j) (simp_all add: parse_evidence_def)
  let ?reference = "bounded_string 0 100 (obj_get members ''chunk_reference'')"
    and ?quote = "bounded_string (Suc 0) 600 (obj_get members ''quote'')"
  have "(case (?reference, ?quote) of (Some r, Some q) \<Rightarrow> Some \<lparr>fe_chunk_reference = r, fe_quote = q\<rparr> | _ \<Rightarrow> None) = Some x"
    using assms by (simp add: parse_evidence_def j split: if_split_asm)
  then obtain q where "?quote = Some q" "fe_quote x = q"
    by (cases ?reference; cases ?quote) auto
  then show ?thesis
    by (auto simp: bounded_string_Some)
qed

lemma parse_evidence_list_bounded:
  "parse_evidence_list js = Some xs \<Longrightarrow> length xs = length js \<and> (\<forall>x\<in>set xs. fe_quote x \<noteq> [] \<and> length (fe_quote x) \<le> 600)"
  by (induction js arbitrary: xs) (auto split: option.split_asm dest: parse_evidence_bounded)

lemma parse_finding_bounded:
  assumes "parse_finding j = Some f"
  shows "finding_bounded f"
proof -
  obtain members where j: "j = JObj members"
    using assms by (cases j) (simp_all add: parse_finding_def)
  obtain label where label: "obj_get members ''label'' = JStr label"
    using assms by (cases "obj_get members ''label''") (simp_all add: parse_finding_def j split: if_split_asm)
  obtain summary where summary: "bounded_string (Suc 0) 800 (obj_get members ''summary'') = Some summary"
    using assms by (cases "bounded_string (Suc 0) 800 (obj_get members ''summary'')") (simp_all add: parse_finding_def j label split: if_split_asm)
  have known: "label \<in> set FINDING_LABELS"
    using assms by (simp add: parse_finding_def j label summary split: if_split_asm)
  have run: "(case map_of members ''evidence'' of
        None \<Rightarrow> Some \<lparr>cf_label = label, cf_summary = summary, cf_evidence = []\<rparr>
      | Some (JArr items) \<Rightarrow> if 8 < length items then None
          else map_option (\<lambda>es. \<lparr>cf_label = label, cf_summary = summary, cf_evidence = es\<rparr>) (parse_evidence_list items)
      | _ \<Rightarrow> None) = Some f"
    using assms known by (simp add: parse_finding_def j label summary split: if_split_asm)
  show ?thesis
  proof (cases "map_of members ''evidence''")
    case None
    then show ?thesis
      using run known summary by (auto simp: finding_bounded_def bounded_string_Some split: if_split_asm)
  next
    case (Some evidence)
    then obtain items xs where "evidence = JArr items" "length items \<le> 8" "parse_evidence_list items = Some xs"
      "f = \<lparr>cf_label = label, cf_summary = summary, cf_evidence = xs\<rparr>"
      using run known by (cases evidence) (simp_all split: if_split_asm, auto)
    then show ?thesis
      using parse_evidence_list_bounded known summary by (auto simp: finding_bounded_def bounded_string_Some)
  qed
qed

lemma advisory_attempts_result:
  "advisory_attempts loads ask offered n k lg c = (Inr (Some (f, i, raw), lg'), c') \<Longrightarrow>
     finding_bounded f \<and> (\<forall>item\<in>set (cf_evidence f). evidence_ok offered item) \<and> k \<le> i \<and> i < k + int n
     \<and> int (length (al_raw_outputs lg')) \<le> int (length (al_raw_outputs lg)) + (i - k) + 1 \<and> raw \<in> set (al_raw_outputs lg')"
proof (induction n arbitrary: k lg c)
  case (Suc n)
  show ?case
  proof (cases "ask c")
    case (Pair r c1)
    then show ?thesis
      using Suc.prems
      by (cases r) (auto simp: Let_def bind_eq_Some_conv dest!: Suc.IH dest: parse_finding_bounded validate_finding_ok
          split: option.split_asm classification_error.split_asm if_split_asm)
  qed
qed simp

lemma advisory_attempts_outputs:
  "advisory_attempts loads ask offered n k lg c = (Inr (res, lg'), c') \<Longrightarrow>
     length (al_raw_outputs lg') \<le> length (al_raw_outputs lg) + n"
proof (induction n arbitrary: k lg c)
  case (Suc n)
  then show ?case
    by (cases "ask c"; cases "fst (ask c)")
      (auto simp: Let_def dest!: Suc.IH split: option.split_asm classification_error.split_asm if_split_asm)
qed simp

lemma check_offered_Inr: "check_offered incoming candidate = Inr offered \<Longrightarrow> offered = incoming @ candidate"
  by (auto simp: check_offered_def unavailable_def Let_def split: if_split_asm)

lemma grounded_finding:
  assumes "classify_candidate loads client cfg role incoming candidate c = (Inr result, c')" and "fr_valid result"
  shows "\<exists>f. fr_finding result = Some f \<and> finding_bounded f
    \<and> (\<forall>x\<in>set (cf_evidence f). evidence_ok (take MAX_EXCERPT_CHUNKS incoming @ take MAX_EXCERPT_CHUNKS candidate) x)
    \<and> 1 \<le> fr_attempts result \<and> fr_attempts result \<le> llm_max_attempts cfg
    \<and> int (length (fr_raw_outputs result)) \<le> fr_attempts result \<and> fr_input_tokens result \<le> llm_max_input_tokens cfg"
proof -
  obtain model_id model_revision prompt_revision system where settings:
      "role_settings cfg role = (model_id, model_revision, prompt_revision, system)"
    by (cases "role_settings cfg role")
  let ?offered = "take MAX_EXCERPT_CHUNKS incoming @ take MAX_EXCERPT_CHUNKS candidate"
  let ?prompt = "build_prompt (take MAX_EXCERPT_CHUNKS incoming) (take MAX_EXCERPT_CHUNKS candidate)"
  let ?attempts = "advisory_attempts loads (call_model client cfg model_id system ?prompt) ?offered
      (nat (llm_max_attempts cfg)) 1 \<lparr>al_raw_outputs = [], al_error = None, al_unavailable = False\<rparr>"
  from assms(1) obtain n s where "(if n > llm_max_input_tokens cfg
        then iraise (ClassificationUnavailable ''advisory input exceeded its token limit'')
        else ibind ?attempts (\<lambda>res. lift_result (finding_outcome cfg role ?prompt n res))) s = (Inr result, c')"
    unfolding classify_candidate_def settings Let_def prod.case
    by (auto simp: ibind_eq_Inr lift_result_def dest!: check_offered_Inr split del: if_split)
  then have tokens: "n \<le> llm_max_input_tokens cfg"
    and run: "ibind ?attempts (\<lambda>res. lift_result (finding_outcome cfg role ?prompt n res)) s = (Inr result, c')"
    by (auto simp: iraise_def split: if_split_asm)
  obtain res where att: "?attempts s = (Inr res, c')" and out: "finding_outcome cfg role ?prompt n res = Inr result"
    using run by (auto simp: ibind_eq_Inr lift_result_def)
  obtain f i raw lg where res: "res = (Some (f, i, raw), lg)"
    using out assms(2)
    by (cases res) (auto simp: finding_outcome_def settings Let_def unavailable_def split: option.split_asm if_splits)
  show ?thesis
    using advisory_attempts_result [OF att [unfolded res]] out tokens by (auto simp: res finding_outcome_def settings Let_def split: if_splits)
qed

text \<open>C30. A finding counts as valid only if it is grounded: its label is one of the known ones, its summary and
  evidence are within bounds, and each quote is literally part of the text shown of an excerpt that was offered
  under the cited reference.  The model was asked at most \<^verbatim>\<open>max_attempts\<close> times, with an input within the
  token limit.\<close>

theorem valid_finding_is_grounded:
  assumes "classify_candidate loads client cfg role incoming candidate c = (Inr result, c')" and "fr_valid result"
  shows "\<exists>f. fr_finding result = Some f \<and> finding_bounded f
    \<and> (\<forall>x\<in>set (cf_evidence f). evidence_ok (take MAX_EXCERPT_CHUNKS incoming @ take MAX_EXCERPT_CHUNKS candidate) x)
    \<and> 1 \<le> fr_attempts result \<and> fr_attempts result \<le> llm_max_attempts cfg
    \<and> int (length (fr_raw_outputs result)) \<le> fr_attempts result \<and> fr_input_tokens result \<le> llm_max_input_tokens cfg"
  by (rule grounded_finding [OF assms])

section \<open>Storing a finding\<close>

definition finding_visible :: "candidate_finding \<Rightarrow> bool" where
  "finding_visible f \<longleftrightarrow> py_strip (cf_summary f) \<noteq> [] \<and> (\<forall>x\<in>set (cf_evidence f). py_strip (fe_quote x) \<noteq> [])"

text \<open>A source whose citations name a stored chunk of one of the two documents.\<close>

definition source_ok :: "(string \<Rightarrow> uuid option) \<Rightarrow> catalog \<Rightarrow> uuid list \<Rightarrow> citation_source \<Rightarrow> bool" where
  "source_ok parse_uuid c allowed src \<longleftrightarrow> parse_uuid (uuid_str (cs_document_id src)) = Some (cs_document_id src)
     \<and> parse_uuid (uuid_str (cs_chunk_id src)) = Some (cs_chunk_id src) \<and> cs_document_id src \<in> set allowed \<and> 1 \<le> cs_page_start src \<and> cs_page_start src \<le> cs_page_end src
     \<and> retained_document c (cs_chunk_id src) = Some (cs_document_id src)"

lemma normalized_public_citation:
  assumes "source_ok parse_uuid c allowed src" and "length q \<le> 4000"
  shows "(\<exists>x. normalized_citation parse_uuid c allowed (public_citation src q) = Inr x) \<longleftrightarrow> py_strip q \<noteq> []"
  using assms by (auto simp: normalized_citation_def public_citation_def citation_json_def source_ok_def obj_get_def)

lemma citations_storable:
  assumes "\<forall>src\<in>snd ` set srcs. source_ok parse_uuid c allowed src"
  shows "cite srcs items = Inr js \<Longrightarrow> \<forall>item\<in>set items. length (fe_quote item) \<le> 4000 \<Longrightarrow> length js = length items
    \<and> ((\<exists>ys. normalized_citations parse_uuid c allowed js = Inr ys) \<longleftrightarrow> (\<forall>item\<in>set items. py_strip (fe_quote item) \<noteq> []))"
proof (induction items arbitrary: js)
  case (Cons item items)
  then obtain src rest where src: "map_of (rev srcs) (fe_chunk_reference item) = Some src" and rest: "cite srcs items = Inr rest"
    and js: "js = public_citation src (fe_quote item) # rest"
    by (auto simp: result_simps split: option.split_asm)
  have "source_ok parse_uuid c allowed src"
    using map_of_SomeD [OF src] assms(1) by force
  then have "(\<exists>x. normalized_citation parse_uuid c allowed (public_citation src (fe_quote item)) = Inr x) \<longleftrightarrow> py_strip (fe_quote item) \<noteq> []"
    using Cons.prems by (intro normalized_public_citation) auto
  then show ?case
    using Cons.IH [OF rest] Cons.prems(2) unfolding js by (auto simp: result_simps)
qed simp

lemma stored_source_ok:
  assumes "k \<in> set (stored_chunks c rid)" and "distinct (map chk_id (chunks c))" and "\<forall>k\<in>set (chunks c). chunk_check k"
    and "map_option rev_document_id (get_revision c rid) = Some did" and "did \<in> set allowed"
    and "\<forall>u\<in>set allowed \<union> chk_id ` set (chunks c). parse_uuid (uuid_str u) = Some u"
  shows "source_ok parse_uuid c allowed (snd (citation_of did k))"
proof -
  have k: "k \<in> set (chunks c)" "chk_revision_id k = rid"
    using assms(1) by (auto simp: stored_chunks_def)
  then have "tget chk_id (chk_id k) (chunks c) = Some k"
    using tget_mem [OF assms(2)] by blast
  then show ?thesis
    using k assms(3-6) by (auto simp: source_ok_def citation_of_def retained_document_def chunk_check_def)
qed

lemma excerpt_sources_ok:
  assumes "classification_excerpts h did known c = Inr (incoming, candidate, srcs)"
    and "distinct (map chk_id (chunks c))" and "\<forall>k\<in>set (chunks c). chunk_check k"
    and "map_option rev_document_id (get_revision c (ph_revision_id h)) = Some (ph_document_id h)"
    and "\<forall>rid. candidate_revision c did known = Some rid \<longrightarrow> map_option rev_document_id (get_revision c rid) = Some did"
    and "\<forall>u\<in>set [ph_document_id h, did] \<union> chk_id ` set (chunks c). parse_uuid (uuid_str u) = Some u"
  shows "\<forall>src\<in>snd ` set srcs. source_ok parse_uuid c [ph_document_id h, did] src"
proof -
  obtain rid where rid: "candidate_revision c did known = Some rid"
    and srcs: "srcs = map (citation_of (ph_document_id h)) (stored_chunks c (ph_revision_id h))
        @ map (citation_of did) (stored_chunks c rid)"
    using assms(1) by (auto simp: classification_excerpts_def Let_def result_simps split: option.split_asm if_split_asm)
  then show ?thesis
    using stored_source_ok [OF _ assms(2,3,4) _ assms(6)] stored_source_ok [OF _ assms(2,3) _ _ assms(6)] assms(5) by auto
qed

lemma identity_length:
  "model_identity (Some a) (Some b) = Inr m \<Longrightarrow> m \<noteq> [] \<and> (length m \<le> 255 \<longleftrightarrow> length a + length b < 255)"
  by (auto simp: model_identity_def split: if_splits)

text \<open>C31. When advisory evidence can be stored.  For the excerpts of two documents that have their chunks in the
  catalog, the evidence made from whatever a model answered is accepted by \<^verbatim>\<open>_evidence_row\<close> exactly if the model
  identity and revision together, with the separator, have at most 255 characters and no text is blank.  So two things
  that the settings and the validation of the answer accept are refused here and fail the whole preflight: an identity
  and a revision whose joint text is longer, and a finding whose summary or one of whose quotes is only white space.\<close>

theorem advisory_evidence_storable:
  assumes "classification_excerpts h did known c = Inr (incoming, candidate, srcs)"
    and "classify_candidate loads client cfg role incoming candidate s = (Inr result, s')"
    and "finding_record (role_kind role) result srcs = Inr e"
    and "\<forall>u\<in>set [ph_document_id h, did] \<union> chk_id ` set (chunks c). parse_uuid (uuid_str u) = Some u"
    and "distinct (map chk_id (chunks c))" and "\<forall>k\<in>set (chunks c). chunk_check k"
    and "map_option rev_document_id (get_revision c (ph_revision_id h)) = Some (ph_document_id h)"
    and "\<forall>rid. candidate_revision c did known = Some rid \<longrightarrow> map_option rev_document_id (get_revision c rid) = Some did"
  shows "(\<exists>row. evidence_row sl parse_uuid c rid candidate_id [ph_document_id h, did] e = Inr row)
    \<longleftrightarrow> length (fr_model_id result) + length (fr_model_revision result) < 255
      \<and> (\<forall>f. fr_valid result \<and> fr_finding result = Some f \<longrightarrow> finding_visible f)"
proof -
  have kinds: "role_kind role \<noteq> DETERMINISTIC" "role_kind role \<noteq> INCOMPLETE"
    by (cases role; simp)+
  have texts: "\<forall>l\<in>set FINDING_LABELS. length l \<le> 64" "is_token ''advisory_invalid''"
      "py_strip ''Advisory output did not pass strict validation.'' \<noteq> []"
    by code_simp+
  show ?thesis
  proof (cases "fr_valid result \<and> fr_finding result \<noteq> None")
    case True
    then obtain f where f: "fr_valid result" "fr_finding result = Some f"
      by auto
    then obtain js m where js: "cite srcs (cf_evidence f) = Inr js"
      and m: "model_identity (Some (fr_model_id result)) (Some (fr_model_revision result)) = Inr m"
      and e: "e = \<lparr>ei_kind = role_kind role, ei_model_id = Some m, ei_valid = True, ei_label = Some (cf_label f),
          ei_summary = Some (cf_summary f), ei_citations = js, ei_failure_code = None\<rparr>"
      using assms(3) by (auto simp: finding_record_def result_simps Let_def)
    have bounded: "finding_bounded f"
      using grounded_finding [OF assms(2) f(1)] f(2) by auto
    then have short_quotes: "\<forall>item\<in>set (cf_evidence f). length (fe_quote item) \<le> 4000"
      by (auto simp: finding_bounded_def)
    have "(\<exists>ys. normalized_citations parse_uuid c [ph_document_id h, did] js = Inr ys)
        \<longleftrightarrow> (\<forall>item\<in>set (cf_evidence f). py_strip (fe_quote item) \<noteq> [])"
        "length js = length (cf_evidence f)"
      using citations_storable [OF excerpt_sources_ok [OF assms(1,5-8,4)] js short_quotes] by blast+
    moreover from this have "length js \<le> 50" "length (cf_label f) \<le> 64" "length (cf_summary f) \<le> 2000"
      using bounded texts(1) by (auto simp: finding_bounded_def)
    moreover note identity_length [OF m]
    ultimately show ?thesis
      using f kinds by (auto simp: evidence_row_def e evidence_contradictory_def longer_def finding_visible_def result_simps)
  next
    case False
    then obtain m where "model_identity (Some (fr_model_id result)) (Some (fr_model_revision result)) = Inr m"
      and e: "e = \<lparr>ei_kind = role_kind role, ei_model_id = Some m, ei_valid = False, ei_label = None,
          ei_summary = Some ''Advisory output did not pass strict validation.'', ei_citations = [],
          ei_failure_code = Some ''advisory_invalid''\<rparr>"
      using assms(3) by (auto simp: finding_record_def result_simps Let_def split: bool.split_asm option.split_asm)
    then show ?thesis
      using False kinds texts identity_length [of "fr_model_id result" "fr_model_revision result" m]
      by (auto simp: evidence_row_def e evidence_contradictory_def longer_def)
  qed
qed

section \<open>An example\<close>

text \<open>Two documents with one chunk each, and a model that answers with a given summary and quotes the incoming chunk.\<close>

definition adv_chunk :: "uuid \<Rightarrow> uuid \<Rightarrow> prepared_chunk" where
  "adv_chunk k rid = \<lparr>chk_id = k, chk_revision_id = rid, chk_index = 0, chk_page_start = 1, chk_page_end = 2,
     chk_heading_path = [], chk_token_count = 1, chk_text_sha256 = replicate 64 (CHR ''a''), chk_markdown = ''same text''\<rparr>"

definition adv_identity :: preparation_identity where
  "adv_identity = \<lparr>pid_active_collection = ''k'', pid_content_profile_id = [], pid_index_profile_id = [],
     pid_preflight_policy_id = [], pid_formatter_model_id = ''m'', pid_formatter_tokenizer_class = ''T'',
     pid_dense_model_id = ''d'', pid_sparse_model_id = ''s''\<rparr>"

definition adv_catalog :: catalog where
  "adv_catalog = (empty_catalog (\<lambda>n. n))\<lparr>revisions := [preparing_revision 0 2 1 1 adv_identity, preparing_revision 0 4 3 1 adv_identity],
     chunks := [adv_chunk 5 2, adv_chunk 6 4]\<rparr>"

definition adv_handle :: preparation_handle where
  "adv_handle = \<lparr>ph_revision_id = 2, ph_document_id = 1, ph_revision_number = 1, ph_collection_key = ''reports'',
     ph_identity = adv_identity\<rparr>"

definition adv_uuid :: "string \<Rightarrow> uuid option" where
  "adv_uuid s = List.find (\<lambda>u. uuid_str u = s) [1, 3, 5, 6]"

lemma adv_uuid_str: "u \<in> {1, 3, 5, 6} \<Longrightarrow> adv_uuid (uuid_str u) = Some u"
proof -
  have "uuid_str a = uuid_str b \<longleftrightarrow> a = b" if "a \<in> {1, 3, 5, 6}" "b \<in> {1, 3, 5, 6}" for a b
    using that by (auto dest!: uuid_str_inj)
  then show "u \<in> {1, 3, 5, 6} \<Longrightarrow> adv_uuid (uuid_str u) = Some u"
    by (auto simp: adv_uuid_def)
qed

definition adv_config :: llm_config where
  "adv_config = \<lparr>llm_api_url = ''u'', llm_classifier_model = ''m'', llm_classifier_model_revision = ''r'',
     llm_classifier_prompt_revision = CLASSIFIER_PROMPT_REVISION, llm_verifier_model = ''v'', llm_verifier_model_revision = ''r'',
     llm_verifier_prompt_revision = VERIFIER_PROMPT_REVISION, llm_max_input_tokens = 10, llm_max_output_tokens = 10,
     llm_max_attempts = 1, llm_api_token = None, llm_timeout = 1\<rparr>"

definition adv_client :: "unit formatter_client" where
  "adv_client = \<lparr>fc_get = (\<lambda>url headers timeout c. (TransportFailure, c)),
     fc_post = (\<lambda>url body headers timeout c.
       (Reply (Some 200) (Decoded (if last url = CHR ''e'' then JObj [(''count'', JInt 3)]
          else JObj [(''choices'', JArr [JObj [(''finish_reason'', JStr ''stop''), (''message'', JObj [(''content'', JStr ''c'')])]]),
            (''usage'', JObj [(''prompt_tokens'', JInt 3), (''completion_tokens'', JInt 1)])])), c))\<rparr>"

definition adv_answer :: "string \<Rightarrow> string \<Rightarrow> decoded" where
  "adv_answer summary s = Decoded (JObj [(''label'', JStr (hd FINDING_LABELS)), (''summary'', JStr summary),
     (''evidence'', JArr [JObj [(''chunk_reference'', JStr (uuid_str 5)), (''quote'', JStr ''text'')]])])"

definition adv_excerpt :: "uuid \<Rightarrow> source_excerpt" where
  "adv_excerpt k = \<lparr>se_reference = uuid_str k, se_pages = ''1-2'', se_text = ''same text''\<rparr>"

definition adv_sources :: "(string \<times> citation_source) list" where
  "adv_sources = [citation_of 1 (adv_chunk 5 2), citation_of 3 (adv_chunk 6 4)]"

definition adv_finding :: "string \<Rightarrow> candidate_finding" where
  "adv_finding summary = \<lparr>cf_label = hd FINDING_LABELS, cf_summary = summary,
     cf_evidence = [\<lparr>fe_chunk_reference = uuid_str 5, fe_quote = ''text''\<rparr>]\<rparr>"

lemma adv_excerpts: "classification_excerpts adv_handle 3 (Some 4) adv_catalog = Inr ([adv_excerpt 5], [adv_excerpt 6], adv_sources)"
  by code_simp

lemma adv_run:
  assumes "summary \<in> {''Same.'', '' ''}"
  shows "\<exists>result. classify_candidate (adv_answer summary) adv_client adv_config Classifier_Role [adv_excerpt 5] [adv_excerpt 6] ()
      = (Inr result, ()) \<and> fr_valid result \<and> fr_finding result = Some (adv_finding summary)
      \<and> fr_model_id result = ''m'' \<and> fr_model_revision result = ''r''"
proof -
  let ?offered = "[adv_excerpt 5] @ [adv_excerpt 6]"
  have "\<forall>summary\<in>{''Same.'', '' ''}. parse_finding (the (decoded_value (adv_answer summary []))) = Some (adv_finding summary)"
    by code_simp
  then have "Option.bind (decoded_value (adv_answer summary s)) parse_finding = Some (adv_finding summary)"
      "adv_answer summary s \<noteq> DecoderRaised" for s
    using assms by (auto simp: adv_answer_def decoded_value_def)
  moreover have "validate_finding ?offered (cf_evidence (adv_finding [])) = None"
      "check_offered [adv_excerpt 5] [adv_excerpt 6] = Inr ?offered"
    by code_simp+
  moreover have "call_model adv_client adv_config ''m'' CLASSIFIER_SYSTEM prompt () = (Inr ''c'', ())" for prompt
    by (simp add: call_model_def ibind_def advisory_request_def adv_client_def adv_config_def advisory_reply_def lift_result_def
        advisory_envelope_def obj_get_def checked_content_def utf8_length_def)
  moreover have "input_token_count adv_client adv_config ''m'' CLASSIFIER_SYSTEM prompt () = (Inr 3, ())" for prompt
    by (simp add: input_token_count_def ibind_def advisory_request_def adv_client_def adv_config_def advisory_reply_def
        lift_result_def advisory_count_def obj_get_def tokenizer_url_def Let_def)
  moreover have "role_settings adv_config Classifier_Role = (''m'', ''r'', CLASSIFIER_PROMPT_REVISION, CLASSIFIER_SYSTEM)"
      "llm_max_attempts adv_config = 1" "llm_max_input_tokens adv_config = 10"
    by (simp_all add: role_settings_def adv_config_def)
  moreover have "cf_evidence (adv_finding summary) = cf_evidence (adv_finding [])"
    by (simp add: adv_finding_def)
  ultimately show ?thesis
    by (simp add: classify_candidate_def ibind_def lift_result_def finding_outcome_def MAX_EXCERPT_CHUNKS_def Let_def)
qed

theorem valid_finding_is_grounded_witness:
  "\<exists>result. classify_candidate (adv_answer ''Same.'') adv_client adv_config Classifier_Role [adv_excerpt 5] [adv_excerpt 6] ()
      = (Inr result, ()) \<and> fr_finding result = Some (adv_finding ''Same.'')
     \<and> (\<forall>x\<in>set (cf_evidence (adv_finding ''Same.'')). evidence_ok [adv_excerpt 5, adv_excerpt 6] x) \<and> fr_attempts result = 1"
proof -
  obtain result where run: "classify_candidate (adv_answer ''Same.'') adv_client adv_config Classifier_Role
      [adv_excerpt 5] [adv_excerpt 6] () = (Inr result, ())" "fr_valid result" "fr_finding result = Some (adv_finding ''Same.'')"
    using adv_run [of "''Same.''"] by auto
  from valid_finding_is_grounded [OF run(1,2)] run show ?thesis
    by (auto simp: MAX_EXCERPT_CHUNKS_def adv_config_def)
qed

theorem advisory_evidence_storable_witness:
  "\<exists>result e. classify_candidate (adv_answer '' '') adv_client adv_config Classifier_Role [adv_excerpt 5] [adv_excerpt 6] ()
      = (Inr result, ()) \<and> fr_valid result \<and> finding_record CLASSIFIER result adv_sources = Inr e
     \<and> (\<forall>sl row. evidence_row sl adv_uuid adv_catalog 2 7 [1, 3] e \<noteq> Inr row)"
proof -
  obtain result where run: "classify_candidate (adv_answer '' '') adv_client adv_config Classifier_Role
      [adv_excerpt 5] [adv_excerpt 6] () = (Inr result, ())" "fr_valid result" "fr_finding result = Some (adv_finding '' '')"
      "fr_model_id result = ''m''" "fr_model_revision result = ''r''"
    using adv_run [of "'' ''"] by auto
  have cited: "\<not> isl (cite adv_sources (cf_evidence (adv_finding '' '')))"
    by code_simp
  then obtain e where e: "finding_record (role_kind Classifier_Role) result adv_sources = Inr e"
    using run by (cases "cite adv_sources (cf_evidence (adv_finding '' ''))") (auto simp: finding_record_def model_identity_def)
  have "distinct (map chk_id (chunks adv_catalog))" "\<forall>k\<in>set (chunks adv_catalog). chunk_check k"
      "map_option rev_document_id (get_revision adv_catalog (ph_revision_id adv_handle)) = Some (ph_document_id adv_handle)"
      "map_option rev_document_id (get_revision adv_catalog 4) = Some 3"
    by (simp_all add: adv_catalog_def adv_chunk_def chunk_check_def tget_def adv_handle_def preparing_revision_def)
  moreover have "\<forall>u\<in>set [ph_document_id adv_handle, 3] \<union> chk_id ` set (chunks adv_catalog). adv_uuid (uuid_str u) = Some u"
    by (simp add: adv_catalog_def adv_chunk_def adv_handle_def adv_uuid_str)
  moreover have "py_isspace (CHR '' '')"
    by code_simp
  then have "\<not> finding_visible (adv_finding '' '')"
    by (simp add: finding_visible_def adv_finding_def)
  ultimately have "\<not> (\<exists>row. evidence_row sl adv_uuid adv_catalog 2 7 [ph_document_id adv_handle, 3] e = Inr row)" for sl
    using advisory_evidence_storable [OF adv_excerpts run(1) e, of adv_uuid sl 2 7] run(2-5)
    by (auto simp: candidate_revision_def)
  then show ?thesis
    using run e by (auto simp: adv_handle_def)
qed

end
