(* ===== verification/Preflight_Run.thy ===== *)
theory Preflight_Run
  imports Advisory
begin

text \<open>
  The whole preflight of \<^verbatim>\<open>pdf_bridge/managers/worker.py\<close>: the pipeline identity from the settings, content
  preparation with captured exchanges, screening points, discovery, recorded candidates, advisory review, the
  seal and the hand-over, with the failure handling around them.
\<close>

section \<open>The pipeline identity\<close>

definition LANGUAGE_PROFILE :: string where
  "LANGUAGE_PROFILE = ''lingua-language-detector/2.2.0:all-languages:v1:minimum-alphanumeric=''
     @ int_str (int MINIMUM_ALPHANUMERIC_CHARACTERS) @ '':sample-characters='' @ int_str (int LANGUAGE_SAMPLE_CHARACTERS)"

definition CHUNKER_PROFILE :: string where
  "CHUNKER_PROFILE = ''markdown-structure/v1:target=320:overlap=48:max=384''"

definition CANDIDATES_VERSION :: string where
  "CANDIDATES_VERSION = ''candidates/v1''"

definition FILENAME_ANALYSIS_VERSION :: string where
  "FILENAME_ANALYSIS_VERSION = ''filenames/v1''"

text \<open>The settings a revision is bound to.\<close>

record pipeline_settings =
  pst_extraction_mode :: string
  pst_max_pages :: int
  pst_max_extracted_characters :: int
  pst_parse_cpu_seconds :: int
  pst_parse_memory_bytes :: int
  pst_parse_wall_clock_seconds :: rat
  pst_max_chunks :: int
  pst_formatter_model_id :: "string option"
  pst_formatter_model_revision :: "string option"
  pst_formatter_tokenizer_class :: "string option"
  pst_formatter_prompt_revision :: string
  pst_formatter_schema_revision :: string
  pst_formatter_max_input_tokens :: int
  pst_formatter_max_output_tokens :: int
  pst_formatter_token_safety_reserve :: int
  pst_formatter_max_pages_per_request :: int
  pst_formatter_max_attempts :: int
  pst_dense_model_id :: "string option"
  pst_dense_model_revision :: "string option"
  pst_sparse_model_id :: "string option"
  pst_sparse_model_revision :: "string option"
  pst_sparse_idf :: bool
  pst_llm_classifier_model :: "string option"
  pst_llm_classifier_model_revision :: "string option"
  pst_llm_classifier_prompt_revision :: string
  pst_llm_verifier_model :: "string option"
  pst_llm_verifier_model_revision :: "string option"
  pst_llm_verifier_prompt_revision :: string
  pst_llm_max_input_tokens :: int
  pst_llm_max_output_tokens :: int
  pst_llm_max_attempts :: int

definition mstr_option :: "string option \<Rightarrow> material" where
  "mstr_option x = (case x of None \<Rightarrow> MNone | Some s \<Rightarrow> MStr s)"

definition named :: "(string \<times> material) list \<Rightarrow> material" where
  "named kvs = MMap (map (\<lambda>(k, v). (Some k, v)) kvs)"

definition content_inputs :: "pipeline_settings \<Rightarrow> string \<Rightarrow> string \<Rightarrow> material" where
  "content_inputs st formatter_model formatter_tokenizer_class = named
     [(''extraction_profile'', MStr EXTRACTION_PROFILE), (''language_profile'', MStr LANGUAGE_PROFILE),
      (''extraction_mode'', MStr (pst_extraction_mode st)), (''max_pages'', MInt (pst_max_pages st)),
      (''max_characters'', MInt (pst_max_extracted_characters st)),
      (''formatter_version'', MStr MARKDOWN_FORMATTER_VERSION), (''formatter_model'', MStr formatter_model),
      (''formatter_model_revision'', mstr_option (pst_formatter_model_revision st)),
      (''formatter_tokenizer_class'', MStr formatter_tokenizer_class),
      (''formatter_prompt_revision'', MStr (pst_formatter_prompt_revision st)),
      (''formatter_schema_revision'', MStr (pst_formatter_schema_revision st)),
      (''formatter_max_input_tokens'', MInt (pst_formatter_max_input_tokens st)),
      (''formatter_max_output_tokens'', MInt (pst_formatter_max_output_tokens st)),
      (''formatter_token_safety_reserve'', MInt (pst_formatter_token_safety_reserve st)),
      (''formatter_max_pages_per_request'', MInt (pst_formatter_max_pages_per_request st)),
      (''formatter_max_attempts'', MInt (pst_formatter_max_attempts st)),
      (''chunker_profile'', MStr CHUNKER_PROFILE), (''chunk_max_tokens'', MInt HARD_MAX_TOKENS)]"

definition index_inputs :: "pipeline_settings \<Rightarrow> material" where
  "index_inputs st = named
     [(''schema_version'', MInt INDEX_SCHEMA_VERSION), (''dense_model'', mstr_option (pst_dense_model_id st)),
      (''dense_revision'', mstr_option (pst_dense_model_revision st)), (''dense_dimension'', MInt (int DENSE_DIMENSION)),
      (''dense_normalized'', MBool True), (''sparse_model'', mstr_option (pst_sparse_model_id st)),
      (''sparse_revision'', mstr_option (pst_sparse_model_revision st)), (''sparse_idf'', MBool (pst_sparse_idf st)),
      (''sparse_document_encoding'', MBool True)]"

definition preflight_policy_inputs :: "pipeline_settings \<Rightarrow> material" where
  "preflight_policy_inputs st = named
     [(''candidate_version'', MStr CANDIDATES_VERSION), (''filename_version'', MStr FILENAME_ANALYSIS_VERSION),
      (''dense_top_k'', MInt DENSE_TOP_K), (''bm25_top_k'', MInt BM25_TOP_K),
      (''cosine_strong_threshold'', MFloat (Some COSINE_STRONG_THRESHOLD)),
      (''cosine_multi_threshold'', MFloat (Some COSINE_MULTI_THRESHOLD)),
      (''cosine_multi_min_chunks'', MInt (int COSINE_MULTI_MIN_CHUNKS)),
      (''bm25_strong_placement_rank'', MInt BM25_STRONG_PLACEMENT_RANK),
      (''bm25_strong_min_chunks'', MInt (int BM25_STRONG_MIN_CHUNKS)), (''rrf_k'', MInt RRF_K),
      (''max_classified_candidates'', MInt (int MAX_CLASSIFIED_CANDIDATES)),
      (''classification_version'', MStr CLASSIFICATION_VERSION),
      (''filename_token_set_similarity_threshold'', MFloat (Some TOKEN_SET_SIMILARITY_THRESHOLD)),
      (''filename_jaro_winkler_threshold'', MFloat (Some JARO_WINKLER_THRESHOLD)),
      (''filename_min_family_substantive_tokens'', MInt (int MIN_FAMILY_SUBSTANTIVE_TOKENS)),
      (''classifier_model'', mstr_option (pst_llm_classifier_model st)),
      (''classifier_model_revision'', mstr_option (pst_llm_classifier_model_revision st)),
      (''classifier_prompt_revision'', MStr (pst_llm_classifier_prompt_revision st)),
      (''verifier_model'', mstr_option (pst_llm_verifier_model st)),
      (''verifier_model_revision'', mstr_option (pst_llm_verifier_model_revision st)),
      (''verifier_prompt_revision'', MStr (pst_llm_verifier_prompt_revision st)),
      (''llm_max_input_tokens'', MInt (pst_llm_max_input_tokens st)),
      (''llm_max_output_tokens'', MInt (pst_llm_max_output_tokens st)),
      (''llm_max_attempts'', MInt (pst_llm_max_attempts st))]"

definition pipeline_identity ::
  "stdlib \<Rightarrow> pipeline_settings \<Rightarrow> collection_definition \<Rightarrow> worker_error + preparation_identity \<times> pipeline_profiles" where
  "pipeline_identity sl st collection =
     (case (pst_formatter_model_id st, pst_formatter_tokenizer_class st) of
        (Some formatter_model, Some formatter_tokenizer_class) \<Rightarrow>
          (case build_pipeline_profiles sl (content_inputs st formatter_model formatter_tokenizer_class) (index_inputs st)
               (preflight_policy_inputs st) (cd_qdrant_collection_name collection) of
             Inl _ \<Rightarrow> Inl OtherError
           | Inr profiles \<Rightarrow>
               rbind (model_identity (pst_dense_model_id st) (pst_dense_model_revision st)) (\<lambda>dense.
               rbind (model_identity (pst_sparse_model_id st) (pst_sparse_model_revision st)) (\<lambda>sparse.
                 Inr (\<lparr>pid_active_collection = cd_qdrant_collection_name collection,
                        pid_content_profile_id = pf_profile_id (pp_content profiles),
                        pid_index_profile_id = pf_profile_id (pp_index profiles),
                        pid_preflight_policy_id = pf_profile_id (pp_preflight_policy profiles),
                        pid_formatter_model_id = formatter_model,
                        pid_formatter_tokenizer_class = formatter_tokenizer_class,
                        pid_dense_model_id = dense, pid_sparse_model_id = sparse\<rparr>, profiles))))
      | _ \<Rightarrow> Inl (worker_failure ''provider_not_configured''
          ''The formatter model and tokenizer identities are not configured.'' False))"

section \<open>The run\<close>

text \<open>The providers of a worker, \<open>None\<close> where one is not configured.\<close>

record 'q preflight_services =
  pfs_settings :: pipeline_settings
  pfs_content :: "('q preparation_services \<times> formatter_config) option"
  pfs_screening :: "'q screening_services option"
  pfs_advisory :: "'q advisory_services option"
  pfs_raw_text :: "http_reply \<Rightarrow> string option"
  pfs_gzip :: "string \<Rightarrow> string"
  pfs_parse_uuid :: "string \<Rightarrow> uuid option"

definition required_preparation_providers ::
  "'q preflight_services \<Rightarrow> worker_error + 'q preparation_services \<times> formatter_config" where
  "required_preparation_providers sv =
     (case pfs_content sv of
        None \<Rightarrow> Inl (worker_failure ''provider_not_configured'' ''Preparation providers are not fully configured.'' False)
      | Some x \<Rightarrow> Inr x)"

definition captured_services ::
  "(http_reply \<Rightarrow> string option) \<Rightarrow> 'q preparation_services \<Rightarrow> ('q \<times> exchange list) preparation_services" where
  "captured_services raw_text sv =
     \<lparr>ps_loads = ps_loads sv, ps_run_child = ps_run_child sv, ps_detect_language = ps_detect_language sv,
      ps_client = capturing_client raw_text (ps_client sv), ps_count_tokens = ps_count_tokens sv,
      ps_embed_dense = ps_embed_dense sv, ps_embed_sparse_documents = ps_embed_sparse_documents sv\<rparr>"

definition path_string :: "path \<Rightarrow> string" where
  "path_string p = py_join ''/'' p"

definition content_request ::
  "'q env \<Rightarrow> pipeline_settings \<Rightarrow> uuid \<Rightarrow> document_work_snapshot \<Rightarrow> preparation_identity \<Rightarrow> pipeline_profiles
     \<Rightarrow> formatter_config \<Rightarrow> ('q \<times> exchange list) preparation_request" where
  "content_request en st oid snapshot ident profiles cfg =
     \<lparr>pq_document_id = dw_document_id snapshot, pq_identity = ident, pq_profiles = profiles,
      pq_source_path = path_string (dw_source_path snapshot),
      pq_limits = \<lparr>xl_max_pages = pst_max_pages st, xl_max_characters = pst_max_extracted_characters st,
        xl_cpu_seconds = pst_parse_cpu_seconds st, xl_memory_bytes = pst_parse_memory_bytes st,
        xl_wall_clock_seconds = pst_parse_wall_clock_seconds st\<rparr>,
      pq_formatter_config = cfg, pq_max_chunks = pst_max_chunks st,
      pq_progress = (\<lambda>phase. with_log (txn_unit (set_phase (en_worker_id en) oid phase)))\<rparr>"

text \<open>Everything after the revision is bound to the operation.\<close>

definition review_and_seal ::
  "'q env \<Rightarrow> 'q preflight_services \<Rightarrow> pipeline_profiles \<Rightarrow> (string \<Rightarrow> json option) \<Rightarrow> uuid \<Rightarrow> content_preparation_result
     \<Rightarrow> exchange list \<Rightarrow> ('q, unit) action" where
  "review_and_seal en sv profiles loads oid content exchanges =
     (let sl = en_stdlib en; h = cr_handle content; wid = en_worker_id en in
      ibind (persist_formatter_exchanges sl (pfs_gzip sv) (ph_revision_id h) exchanges) (\<lambda>_.
      ibind (write_screening_points en oid h (cr_points content)) (\<lambda>_.
      ibind (txn_unit (set_phase wid oid DISCOVERING_CANDIDATES)) (\<lambda>_.
      ibind (discover_candidates en (pfs_screening sv) h (cr_markdown_sha256 content) (cr_points content)) (\<lambda>discoveries.
      ibind (lift_result (deterministic_candidate_inputs (pfs_parse_uuid sv) discoveries)) (\<lambda>items.
      ibind (txn (\<lambda>_. record_preflight_candidates sl (pfs_parse_uuid sv) h items)) (\<lambda>candidate_ids.
      ibind (txn_unit (set_phase wid oid CLASSIFYING_CANDIDATES)) (\<lambda>_.
      ibind (classify_candidates sl (pfs_advisory sv) h discoveries candidate_ids) (\<lambda>(evidence, advisory_complete, reasons).
      ibind (txn_unit (\<lambda>_. append_advisory_evidence sl (pfs_parse_uuid sv) h evidence)) (\<lambda>_.
      ibind (txn_unit (set_phase wid oid SEALING_REVISION)) (\<lambda>_.
      ibind (txn (seal_prepared_revision sl loads profiles h
         \<lparr>pc_candidate_discovery_complete = True, pc_advisory_complete = advisory_complete,
          pc_clear_for_publication = (discoveries = [] \<and> advisory_complete),
          pc_incomplete_reasons = sort (remdups reasons)\<rparr>)) (\<lambda>sealed.
        txn_unit (finish_preflight wid oid sealed)))))))))))))"

text \<open>\<^verbatim>\<open>except Exception\<close>: the revision is marked failed unless it is already sealed, and the exception goes on.\<close>

definition failure_for :: "worker_error \<Rightarrow> string \<times> string" where
  "failure_for e =
     (case e of
        PreparationError code message \<Rightarrow> (code, message)
      | _ \<Rightarrow> failure_of (preparation_error (fst (safe_failure e)) (fst (snd (safe_failure e)))))"

definition fail_revision_on_error :: "uuid \<Rightarrow> ('q, unit) action \<Rightarrow> ('q, unit) action" where
  "fail_revision_on_error revision_id m w =
     (case m w of
        (Inr x, w1) \<Rightarrow> (Inr x, w1)
      | (Inl e, w1) \<Rightarrow>
          (case txn_unit (fail_preparation revision_id (fst (failure_for e)) (snd (failure_for e))) w1 of
             (Inl (PreparationError code message), w2) \<Rightarrow>
               (Inl (if code \<noteq> ''revision_state_conflict'' then PreparationError code message else e), w2)
           | (Inl e', w2) \<Rightarrow> (Inl e', w2)
           | (Inr _, w2) \<Rightarrow> (Inl e, w2)))"

text \<open>A preparation that failed: its exchanges are kept, and a terminal rejection ends the preflight.\<close>

definition preparation_failed ::
  "'q env \<Rightarrow> 'q preflight_services \<Rightarrow> uuid \<Rightarrow> uuid \<Rightarrow> collection_definition \<Rightarrow> exchange list \<Rightarrow> worker_error
     \<Rightarrow> ('q, unit) action" where
  "preparation_failed en sv oid did collection exchanges e =
     (case e of
        PreparationError code message \<Rightarrow>
          ibind (persist_failed_formatter_exchanges (en_stdlib en) (pfs_gzip sv) did exchanges) (\<lambda>_.
            if is_terminal_rejection code then accept_rejection en oid did code collection else iraise e)
      | _ \<Rightarrow> iraise e)"

definition run_preflight ::
  "'q env \<Rightarrow> 'q preflight_services \<Rightarrow> uuid \<Rightarrow> uuid \<Rightarrow> ('q, unit) action" where
  "run_preflight en sv oid did =
     (let sl = en_stdlib en; wid = en_worker_id en in
      ibind (preflight_source en oid did) (\<lambda>snapshot.
      ibind (lift_result (collection_definition_for (en_collections en) (dw_collection_key snapshot))) (\<lambda>collection.
      ibind (lift_result (pipeline_identity sl (pfs_settings sv) collection)) (\<lambda>(ident, profiles).
      ibind (lift_result (required_preparation_providers sv)) (\<lambda>(services, cfg).
      ibind (txn_unit (set_phase wid oid EXTRACTING)) (\<lambda>_ w.
        case capture (prepare_revision_content sl (captured_services (pfs_raw_text sv) services)
               (content_request en (pfs_settings sv) oid snapshot ident profiles cfg)) w of
          (Inl e, exchanges, w1) \<Rightarrow> preparation_failed en sv oid did collection exchanges e w1
        | (Inr content, exchanges, w1) \<Rightarrow>
            ibind (txn_unit (\<lambda>_. bind_revision wid oid (ph_revision_id (cr_handle content)))) (\<lambda>_.
              fail_revision_on_error (ph_revision_id (cr_handle content))
                (review_and_seal en sv profiles (json_loads (ps_loads services)) oid content exchanges)) w1))))))"

end
