(* ===== verification/Formatter_Frame.thy ===== *)
theory Formatter_Frame
  imports Formatter_Correct
begin

text \<open>
  What the formatter may do to the state its client and its progress callback act on: only what they do.
  A property of that state that every request and every report keeps is kept by the whole formatter,
  whether it returns or raises.
\<close>

definition at_client :: "('c \<Rightarrow> bool) \<Rightarrow> 'c formatter_state \<Rightarrow> bool" where
  "at_client P s \<longleftrightarrow> P (fst_client s)"

locale formatter_frame =
  fixes P :: "'c \<Rightarrow> bool" and client :: "'c formatter_client" and callback :: "'c progress_callback"
  assumes get_keeps: "P c \<Longrightarrow> P (snd (fc_get client url headers timeout c))"
    and post_keeps: "P c \<Longrightarrow> P (snd (fc_post client url body headers timeout c))"
    and callback_keeps: "callback = Some report \<Longrightarrow> keeps P (report progress)"
begin

lemma report_progress_keeps: "keeps (at_client P) (report_progress callback progress)"
proof (cases callback)
  case None
  then show ?thesis
    by (simp add: keeps_def report_progress_def)
next
  case (Some report)
  have "P (snd (report progress c))" if "P c" for c
    using that by (rule keepsD [OF callback_keeps [OF Some]])
  then show ?thesis
    unfolding keeps_def report_progress_def at_client_def Some
    by (auto split: prod.split sum.split) (metis snd_conv)+
qed

lemma request_json_keeps:
  assumes "keeps (at_client P) validation"
  shows "keeps (at_client P) (request_json client cfg path body validation)"
proof -
  have reply: "keeps (at_client P) (read_reply path validation reply)" for reply
    using assms unfolding read_reply_def by (auto split: http_reply.split option.split decoded.split)
  have "P (snd (send_request client cfg path body c))" if "P c" for c
    using get_keeps [OF that] post_keeps [OF that] by (simp add: send_request_def Let_def split: option.split)
  then show ?thesis
    using keepsD [OF reply]
    by (simp add: keeps_def request_json_def at_client_def case_prod_beta)
qed

lemma final_request_keeps: "keeps (at_client P) (final_request client cfg path body)"
  unfolding keeps_def
proof (intro allI impI)
  fix s assume "at_client P s"
  then have "at_client P (snd (request_json client cfg path body (iret ()) s))"
    by (rule keepsD [OF request_json_keeps [OF keeps_iret]])
  then show "at_client P (snd (final_request client cfg path body s))"
    by (auto simp: final_request_def split: prod.split sum.split formatter_error.split)
qed

lemma parse_tokenization_keeps: "keeps (at_client P) (parse_tokenization cfg payload)"
  by (auto simp: keeps_def parse_tokenization_def at_client_def split: json.split option.split prod.split)

lemmas token_keeps = keeps_ibind keeps_iret keeps_iraise keeps_if keeps_case_prod keeps_lift_result
  final_request_keeps parse_tokenization_keeps

lemma tokenizer_identity_keeps: "keeps (at_client P) (tokenizer_identity client cfg)"
  unfolding tokenizer_identity_def by (intro token_keeps)

lemma token_count_keeps: "keeps (at_client P) (token_count client cfg slices)"
  unfolding token_count_def by (intro token_keeps)

lemma raw_token_ids_keeps: "keeps (at_client P) (raw_token_ids client cfg source)"
  unfolding raw_token_ids_def by (intro token_keeps)

lemma window_keeps: "keeps (at_client P) (\<lambda>s. case fst_max_model_len s of None \<Rightarrow> (Inl e, s) | Some n \<Rightarrow> (Inr (f n), s))"
  by (auto simp: keeps_def split: option.split)

lemma fits_budget_keeps: "keeps (at_client P) (fits_budget client cfg slices)"
  unfolding fits_budget_def by (intro keeps_ibind token_count_keeps window_keeps)

lemma fitting_search_keeps:
  assumes "\<And>n. keeps Q (fits n)" and "Q s"
  shows "Q (snd (fitting_search fits low high best s))"
  using assms
proof (induction fits low high best s rule: fitting_search.induct)
  case (1 fits low high best s)
  have "Q (snd (fits ((low + high) div 2) s))"
    using "1.prems" by (rule keepsD)
  then show ?case
    using "1.IH" "1.prems"(1)
    by (subst fitting_search.simps) (auto simp: Let_def "1.prems"(2) split: prod.split sum.split)
qed

lemma boundary_loop_keeps: "keeps (at_client P) (boundary_loop sl client cfg page_number slice_index source ids n)"
  by (induction n) (auto intro!: keeps_ibind keeps_if raw_token_ids_keeps fits_budget_keeps)

lemma next_piece_keeps: "keeps (at_client P) (next_piece sl client cfg page_number slice_index remaining)"
proof -
  have "keeps (at_client P) (fitting_search (\<lambda>n. fits_budget client cfg (f n)) 1 m 0)" for f m
    using fitting_search_keeps [OF fits_budget_keeps] by (simp add: keeps_def)
  then show ?thesis
    unfolding next_piece_def largest_fitting_line_prefix_def largest_fitting_token_boundary_def
      largest_fitting_text_prefix_def Let_def
    by (intro keeps_ibind keeps_if keeps_iret keeps_iraise raw_token_ids_keeps boundary_loop_keeps)
qed

lemma slice_loop_keeps:
  assumes "at_client P s"
  shows "at_client P (snd (slice_loop sl client cfg page_number slices remaining s))"
  using assms
proof (induction "length remaining" arbitrary: slices remaining s rule: less_induct)
  case less
  let ?piece = "next_piece sl client cfg page_number (int (length slices)) remaining"
  have at: "at_client P (snd (?piece s))"
    using less.prems by (rule keepsD [OF next_piece_keeps])
  show ?case
  proof (cases "remaining = []")
    case False
    then have shorter: "length (drop (length piece) remaining) < length remaining" if "?piece s = (Inr piece, t)" for piece t
      using next_piece_prefix [OF that False] by auto
    show ?thesis
      using at less.hyps [OF shorter] False
      by (subst slice_loop.simps) (auto split: prod.split sum.split)
  qed (simp add: slice_loop.simps less.prems)
qed

lemma prepare_slices_keeps: "keeps (at_client P) (prepare_slices sl client cfg pages)"
proof -
  have "keeps (at_client P) (slice_loop sl client cfg n slices remaining)" for n slices remaining
    using slice_loop_keeps by (simp add: keeps_def)
  then have "keeps (at_client P) (slice_layout_page sl client cfg page)" for page
    unfolding slice_layout_page_def Let_def
    by (intro keeps_ibind keeps_if keeps_iret keeps_iraise fits_budget_keeps)
  then show ?thesis
    by (induction pages) (auto simp: Let_def intro!: keeps_ibind keeps_if fits_budget_keeps)
qed

lemma pack_loop_keeps: "keeps (at_client P) (pack_loop client cfg current slices)"
  by (induction slices arbitrary: current) (auto intro!: keeps_ibind keeps_if fits_budget_keeps)

lemma format_attempt_keeps: "keeps (at_client P) (format_attempt sl loads client cfg slices callback)"
  unfolding format_attempt_def completion_content_def
  by (intro token_keeps request_json_keeps report_progress_keeps)

lemma attempt_loop_keeps: "keeps (at_client P) (attempt_loop sl loads client cfg b slices callback attempts k n)"
proof (induction n arbitrary: attempts k)
  case (Suc n)
  show ?case
    unfolding keeps_def
  proof (intro allI impI)
    fix s assume "at_client P s"
    then have "at_client P (snd (format_attempt sl loads client cfg slices callback s))"
      by (rule keepsD [OF format_attempt_keeps])
    then show "at_client P (snd (attempt_loop sl loads client cfg b slices callback attempts k (Suc n) s))"
      using Suc by (auto simp: keeps_def split: prod.split sum.split formatter_error.split)
  qed
qed (auto simp: keeps_def Let_def split: list.split)

lemma format_batches_keeps: "keeps (at_client P) (format_batches sl loads client cfg callback b attempts batches)"
  by (induction batches arbitrary: b attempts)
    (auto simp: format_batch_def intro!: keeps_ibind keeps_case_prod attempt_loop_keeps)

lemma format_pages_keeps: "keeps (at_client P) (format_pages sl loads client cfg pages callback)"
  unfolding format_pages_def format_packed_def pack_batches_def
  by (intro token_keeps window_keeps report_progress_keeps tokenizer_identity_keeps fits_budget_keeps
      prepare_slices_keeps pack_loop_keeps format_batches_keeps)

lemma format_markdown_document_keeps: "keeps P (format_markdown_document sl loads client cfg pages callback)"
  unfolding keeps_def
proof (intro allI impI)
  fix c assume "P c"
  then have "at_client P \<lparr>fst_client = c, fst_max_model_len = None, fst_reported = []\<rparr>"
    by (simp add: at_client_def)
  from keepsD [OF format_pages_keeps this]
  show "P (snd (format_markdown_document sl loads client cfg pages callback c))"
    by (simp add: format_markdown_document_def at_client_def case_prod_beta)
qed

end

end
