(* ===== verification/Preflight_Workflow.thy ===== *)
theory Preflight_Workflow
  imports Preflight_Run Publication_Complete Formatter_Frame
begin

text \<open>
  The preflight as a whole keeps the lifecycle invariant, wherever it stops: every transaction of the
  preparation, the screening, the advisory review and the seal is steady, and the two endings hand the
  document over in one transaction.
\<close>

section \<open>Transactions of the preparation\<close>

lemma stage_lifecycle:
  assumes ok: "lifecycle_ok c" and same: "core c1 = core c" "operations c1 = operations c"
    and r: "load_revision rid (Some REV_PREPARING) c = Inr r"
    and upd: "upd_revision (rev_id r) g c1 = Inr c'"
    and g: "\<And>r. rev_id (g r) = rev_id r \<and> rev_document_id (g r) = rev_document_id r"
    and chk: "revision_check r \<Longrightarrow> revision_check (g r)"
  shows "lifecycle_ok c'" and "skeleton c' = skeleton c"
proof -
  note rD = load_revisionD [OF r]
  have rev1: "get_revision c1 k = get_revision c k" for k
    using same by (simp add: core_def)
  show "lifecycle_ok c'"
    by (rule upd_revision_lifecycle [OF upd lifecycle_cong [OF ok same]]) (use rD rev1 g chk in auto)
  show "skeleton c' = skeleton c"
    using upd same by (auto simp: upd_revision_def skeleton_def split: option.splits if_splits)
qed

lemma begin_preparation_skeleton:
  "begin_preparation sl loads profiles did i now c = Inr (h, c') \<Longrightarrow> skeleton c' = skeleton c"
  by (auto simp: begin_preparation_def create_revision_def uuid4_def Let_def rbind_eq_Inr skeleton_def
      split: option.splits if_splits)

interpretation begin_txn: steady_txn "begin_preparation sl loads profiles pdid i" "frozen S oid did"
  for sl loads profiles pdid i S oid did
proof unfold_locales
  show "lifecycle_ok c'" if "lifecycle_ok c" "begin_preparation sl loads profiles pdid i now c = Inr (h, c')" for c now h c'
    using that create_revision_lifecycle by (auto simp: begin_preparation_def rbind_eq_Inr)
qed (erule begin_preparation_skeleton, erule frozen_skeleton)

lemma insert_extracted_keeps:
  "insert_extracted rows c = Inr c' \<Longrightarrow> core c' = core c \<and> operations c' = operations c"
  by (auto simp: insert_extracted_def core_def split: if_splits)

lemma insert_formatted_keeps:
  "insert_formatted batches rows c = Inr c' \<Longrightarrow> core c' = core c \<and> operations c' = operations c"
  by (auto simp: insert_formatted_def core_def split: if_splits)

lemma record_extractionE:
  assumes "record_extraction sl h d language c = Inr (x, c')"
  obtains r c1 where "load_revision (ph_revision_id h) (Some REV_PREPARING) c = Inr r"
    and "core c1 = core c" and "operations c1 = operations c" and "0 < xd_page_count d"
    and "upd_revision (rev_id r) (extraction_recorded language d (extraction_manifest_sha256 sl d)) c1 = Inr c'"
  using assms
  by (auto simp: record_extraction_def validate_extraction_def rbind_eq_Inr if_Inl_eq_Inr lift_lifecycle_Inr Let_def
      dest!: insert_extracted_keeps split: if_splits)

interpretation extraction_txn: steady_txn "\<lambda>_. record_extraction sl h d language" "frozen S oid did"
  for sl h d language S oid did
proof unfold_locales
  fix c x c' assume "record_extraction sl h d language c = Inr (x, c')"
  then obtain r c1 where r: "load_revision (ph_revision_id h) (Some REV_PREPARING) c = Inr r"
    and same: "core c1 = core c" "operations c1 = operations c" and n: "0 < xd_page_count d"
    and upd: "upd_revision (rev_id r) (extraction_recorded language d (extraction_manifest_sha256 sl d)) c1 = Inr c'"
    by (rule record_extractionE)
  show "skeleton c' = skeleton c"
    using upd same by (auto simp: upd_revision_def skeleton_def split: option.splits if_splits)
  show "lifecycle_ok c'" if "lifecycle_ok c"
    by (rule stage_lifecycle [OF that same r upd])
      (use n load_revisionD(3) [OF r] in \<open>auto simp: extraction_recorded_def revision_check_def\<close>)
qed (erule frozen_skeleton)

lemma record_formattingE:
  assumes "record_formatting sl h d cfg now c = Inr (x, c')"
  obtains r c1 m where "load_revision (ph_revision_id h) (Some REV_PREPARING) c = Inr r"
    and "core c1 = core c" and "operations c1 = operations c"
    and "upd_revision (rev_id r) (formatting_recorded m) c1 = Inr c'"
  using assms
  by (auto simp: record_formatting_def rbind_eq_Inr if_Inl_eq_Inr lift_lifecycle_Inr Let_def
      dest!: insert_formatted_keeps split: if_splits)

interpretation formatting_txn: steady_txn "record_formatting sl h d cfg" "frozen S oid did"
  for sl h d cfg S oid did
proof unfold_locales
  fix now c x c' assume "record_formatting sl h d cfg now c = Inr (x, c')"
  then obtain r c1 m where r: "load_revision (ph_revision_id h) (Some REV_PREPARING) c = Inr r"
    and same: "core c1 = core c" "operations c1 = operations c"
    and upd: "upd_revision (rev_id r) (formatting_recorded m) c1 = Inr c'"
    by (rule record_formattingE)
  show "skeleton c' = skeleton c"
    using upd same by (auto simp: upd_revision_def skeleton_def split: option.splits if_splits)
  show "lifecycle_ok c'" if "lifecycle_ok c"
    by (rule stage_lifecycle [OF that same r upd])
      (use load_revisionD(3) [OF r] in \<open>auto simp: formatting_recorded_def revision_check_def\<close>)
qed (erule frozen_skeleton)

interpretation vectors_txn: steady_txn "\<lambda>_. record_chunk_vectors sl h b" "frozen S oid did"
  for sl h b S oid did
proof unfold_locales
  fix c x c' assume run: "record_chunk_vectors sl h b c = Inr (x, c')"
  show "lifecycle_ok c'" if "lifecycle_ok c"
    by (rule record_chunk_vectors_lifecycle [OF run that])
  show "skeleton c' = skeleton c"
    using run
  proof (rule record_chunk_vectorsE)
    fix r c1
    assume "insert_chunks (map (chunk_row (rev_id r)) (cb_vectors b)) (map (vector_row (rev_id r)) (cb_vectors b)) c = Inr c1"
      and "upd_revision (rev_id r) (vectors_recorded b) c1 = Inr c'"
    then show ?thesis
      by (auto simp: upd_revision_def skeleton_def dest!: insert_chunks_keeps(1) split: option.splits if_splits)
  qed
qed (erule frozen_skeleton)

text \<open>Rows of other tables leave the lifecycle alone.\<close>

lemma steady_rows:
  assumes "\<And>now c x c'. f now c = Inr (x, c') \<Longrightarrow> core c' = core c \<and> operations c' = operations c"
  shows "steady_txn f (frozen S oid did)"
proof unfold_locales
  fix now c x c' assume "f now c = Inr (x, c')"
  then have same: "core c' = core c" "operations c' = operations c"
    using assms by blast+
  show "skeleton c' = skeleton c"
    by (rule skeleton_cong [OF same(2)])
  show "lifecycle_ok c'" if "lifecycle_ok c"
    by (rule lifecycle_cong [OF that same])
qed (erule frozen_skeleton)

lemma insert_evidence_keeps:
  "insert_evidence failure es c = Inr c' \<Longrightarrow> core c' = core c \<and> operations c' = operations c"
  by (auto simp: insert_evidence_def core_def split: if_splits)

lemma insert_candidate_keeps:
  "insert_candidate x c = Inr c' \<Longrightarrow> core c' = core c \<and> operations c' = operations c"
  by (auto simp: insert_candidate_def core_def split: if_splits)

lemma add_candidates_keeps:
  "add_candidates sl parse_uuid h rid rank items c = Inr (ids, c') \<Longrightarrow> core c' = core c \<and> operations c' = operations c"
proof (induction items arbitrary: rank c ids)
  case (Cons item items)
  from Cons.prems obtain x e c2 c3 ids' where
    "insert_candidate x (snd (uuid4 c)) = Inr c2" "insert_evidence record_candidates_failed [e] c2 = Inr c3"
    "add_candidates sl parse_uuid h rid (rank + 1) items c3 = Inr (ids', c')"
    by (auto simp: rbind_eq_Inr case_prod_beta split: option.splits)
  then show ?case
    using Cons.IH insert_candidate_keeps insert_evidence_keeps by (metis uuid4_core)
qed simp

lemma add_advisory_keeps:
  "add_advisory sl parse_uuid h rid records xs c = Inr c' \<Longrightarrow> core c' = core c \<and> operations c' = operations c"
proof (induction xs arbitrary: c)
  case (Cons x xs)
  then show ?case
    by (auto simp: rbind_eq_Inr dest!: insert_evidence_keeps)
qed simp

interpretation candidates_txn: steady_txn "\<lambda>_. record_preflight_candidates sl parse_uuid h items" "frozen S oid did"
  for sl parse_uuid h items S oid did
  by (rule steady_rows)
    (auto simp: record_preflight_candidates_def rbind_eq_Inr if_Inl_eq_Inr Let_def dest!: add_candidates_keeps split: if_splits)

interpretation advisory_txn: steady_txn "unit_txn (\<lambda>_. append_advisory_evidence sl parse_uuid h evidence)" "frozen S oid did"
  for sl parse_uuid h evidence S oid did
  by (rule steady_rows)
    (auto simp: append_advisory_evidence_def rbind_eq_Inr if_Inl_eq_Inr Let_def dest!: add_advisory_keeps split: if_splits)

interpretation artifact_txn: steady_txn "unit_txn (\<lambda>_. add_artifact adid a)" "frozen S oid did" for adid a S oid did
  by (rule steady_rows) (auto simp: add_artifact_def core_def rbind_eq_Inr split: if_splits option.splits)

interpretation artifact_id_txn: steady_txn "\<lambda>_ c. Inr (uuid4 c)" "frozen S oid did" for S oid did
  by (rule steady_rows) (auto simp: uuid4_def core_def)

interpretation bind_txn: steady_txn "unit_txn (\<lambda>_. bind_revision wid boid rid)" "frozen S oid did"
  for wid boid rid S oid did
proof (rule steady_unit_txn [OF bind_revision_lifecycle _ frozen_skeleton])
  show "skeleton c' = skeleton c" if "bind_revision wid boid rid c = Inr c'" for c c'
    using that by (auto simp: bind_revision_def intro!: skeleton_upd_operation split: option.splits if_splits)
qed

interpretation failed_txn: steady_txn "unit_txn (fail_preparation rid code message)" "frozen S oid did"
  for rid code message S oid did
proof (rule steady_unit_txn [OF fail_preparation_lifecycle _ frozen_skeleton])
  show "skeleton c' = skeleton c" if "fail_preparation rid code message now c = Inr c'" for now c c'
    using that
    by (auto simp: fail_preparation_def rbind_eq_Inr if_Inl_eq_Inr lift_lifecycle_Inr upd_revision_def skeleton_def
        split: option.splits if_splits)
qed

interpretation seal_txn: steady_txn "seal_prepared_revision sl loads profiles h pc" "frozen S oid did"
  for sl loads profiles h pc S oid did
proof unfold_locales
  fix now c x c' assume "seal_prepared_revision sl loads profiles h pc now c = Inr (x, c')"
  then obtain r parts digest where r: "load_revision (ph_revision_id h) (Some REV_PREPARING) c = Inr r"
    and chk: "revision_check (sealed_revision parts digest pc now r)"
    and upd: "upd_revision (rev_id r) (sealed_revision parts digest pc now) c = Inr c'"
    by (auto simp: seal_prepared_revision_def rbind_eq_Inr if_Inl_eq_Inr lift_lifecycle_Inr Let_def
        split: option.splits if_splits)
  show "lifecycle_ok c'" if "lifecycle_ok c"
    by (rule stage_lifecycle [OF that refl refl r upd]) (use chk in \<open>auto simp: sealed_revision_def\<close>)
  show "skeleton c' = skeleton c"
    using upd by (auto simp: upd_revision_def skeleton_def split: option.splits if_splits)
qed (erule frozen_skeleton)

lemmas preparation_txns = begin_txn.keeps_steady extraction_txn.keeps_steady formatting_txn.keeps_steady
  vectors_txn.keeps_steady candidates_txn.keeps_steady artifact_id_txn.keeps_steady seal_txn.keeps_steady
  keeps_unit_txn [OF advisory_txn.steady_txn_axioms] keeps_unit_txn [OF artifact_txn.steady_txn_axioms]
  keeps_unit_txn [OF bind_txn.steady_txn_axioms] keeps_unit_txn [OF failed_txn.steady_txn_axioms]

section \<open>Content preparation\<close>

lemma keeps_map_exception [intro]: "keeps P m \<Longrightarrow> keeps P (map_exception f m)"
  by (simp add: keeps_def map_exception_def case_prod_beta)

lemma keeps_as_stage [intro]: "keeps P m \<Longrightarrow> keeps P (as_stage m)"
  unfolding as_stage_def by (rule keeps_map_exception)

lemma world_call_steady: "steady G w \<Longrightarrow> steady G (snd (world_call f w))"
  by (simp add: world_call_def steady_def case_prod_beta)

text \<open>Capturing the exchanges.\<close>

lemma steady_log [simp]: "steady G (add_log lg w) = steady G w" "steady G (drop_log v) = steady G v"
  by (simp_all add: add_log_def drop_log_def steady_def)

lemma with_log_steady: "keeps (steady G) m \<Longrightarrow> keeps (steady G) (with_log m)"
  by (simp add: keeps_def with_log_def case_prod_beta)

lemma capture_steady:
  assumes "keeps (steady G) m" and "steady G w"
  shows "steady G (snd (snd (capture m w)))"
  using keepsD [OF assms(1), of "add_log [] w"] assms(2) by (simp add: capture_def case_prod_beta)

text \<open>The formatter as the preflight calls it: the client acts on the outside state, and the callback is the
  transaction that sets the phase.\<close>

lemma phase_log_steady: "keeps (steady (frozen S oid did)) (with_log (txn_unit (set_phase wid poid phase)))"
  by (intro with_log_steady steady_txns)

interpretation preflight_formatter: formatter_frame "steady (frozen S oid did)" "world_client client"
  "Some (\<lambda>p. with_log (txn_unit (set_phase wid poid (formatter_phase p))))"
  for S oid did client wid poid
  by unfold_locales (auto simp: world_client_def intro: world_call_steady phase_log_steady)

lemma content_stages_steady:
  assumes progress: "pq_progress rq = (\<lambda>phase. with_log (txn_unit (set_phase wid poid phase)))"
  shows "keeps (steady (frozen S oid did)) (content_stages sl sv rq h)"
  unfolding content_stages_def checkpoint_def format_stage_def build_chunk_vector_bundle_def progress
  by (intro keeps_ibind keeps_lift_result keeps_iret keeps_as_stage keeps_map_exception preparation_txns
      keeps_steady_query preflight_formatter.format_markdown_document_keeps phase_log_steady)

lemma record_preparation_failure_steady:
  fixes w :: "'q world"
  assumes "steady (frozen S oid did) w"
  shows "steady (frozen S oid did) (snd (record_preparation_failure h e w :: (worker_error + 'a) \<times> 'q world))"
proof -
  have "steady (frozen S oid did) (snd (txn_unit (fail_preparation rid code message) w))" for rid code message
    using assms by (rule keepsD [OF preparation_txns(11)])
  then show ?thesis
    unfolding record_preparation_failure_def by (auto split: prod.split sum.split worker_error.split) (metis snd_conv)+
qed

lemma prepare_revision_content_steady:
  fixes rq :: "('q \<times> exchange list) preparation_request"
  assumes progress: "pq_progress rq = (\<lambda>phase. with_log (txn_unit (set_phase wid poid phase)))"
  shows "keeps (steady (frozen S oid did)) (prepare_revision_content sl sv rq)"
proof -
  have "keeps (steady (frozen S oid did)) (\<lambda>w. case content_stages sl sv rq h w of
          (Inr result, w1) \<Rightarrow> (Inr result, w1)
        | (Inl (ProgressFailed e), w1) \<Rightarrow> (Inl e, w1)
        | (Inl e, w1) \<Rightarrow> record_preparation_failure h (external_error e) w1)" for h
    unfolding keeps_def
  proof (intro allI impI)
    fix w :: "('q \<times> exchange list) world" assume "steady (frozen S oid did) w"
    then have "steady (frozen S oid did) (snd (content_stages sl sv rq h w))"
      by (rule keepsD [OF content_stages_steady [OF progress]])
    then show "steady (frozen S oid did) (snd (case content_stages sl sv rq h w of
          (Inr result, w1) \<Rightarrow> (Inr result, w1)
        | (Inl (ProgressFailed e), w1) \<Rightarrow> (Inl e, w1)
        | (Inl e, w1) \<Rightarrow> record_preparation_failure h (external_error e) w1))"
      by (auto split: prod.split sum.split stage_exception.split intro: record_preparation_failure_steady)
  qed
  then show ?thesis
    unfolding prepare_revision_content_def by (intro keeps_if keeps_iraise keeps_ibind preparation_txns)
qed

lemma content_request_progress:
  "pq_progress (content_request en st oid snapshot ident profiles cfg)
     = (\<lambda>phase. with_log (txn_unit (set_phase (en_worker_id en) oid phase)))"
  by (simp add: content_request_def)

section \<open>Artifacts and review\<close>

lemma write_artifact_steady: "keeps (steady G) (write_artifact gzip d r a payload)"
  by (simp add: keeps_def write_artifact_def steady_def split: sum.split prod.split)

lemma register_artifact_steady: "keeps (steady (frozen S oid did)) (register_artifact adid a)"
  unfolding keeps_def
proof (intro allI impI)
  fix w :: "'q world" assume "steady (frozen S oid did) w"
  then have "steady (frozen S oid did) (snd (txn_unit (\<lambda>_. add_artifact adid a) w))"
    by (rule keepsD [OF keeps_unit_txn [OF artifact_txn.steady_txn_axioms]])
  then show "steady (frozen S oid did) (snd (register_artifact adid a w))"
    by (auto simp: register_artifact_def steady_def split: prod.split sum.split)
qed

lemma persist_revision_artifact_steady:
  "keeps (steady (frozen S oid did)) (persist_revision_artifact sl gzip rid kind material)"
  unfolding persist_revision_artifact_def
  by (intro steady_intros preparation_txns write_artifact_steady register_artifact_steady)

lemma persist_formatter_exchanges_steady:
  "keeps (steady (frozen S oid did)) (persist_formatter_exchanges sl gzip rid exchanges)"
  by (induction exchanges) (auto intro: keeps_ibind persist_revision_artifact_steady)

lemma persist_failed_formatter_exchanges_steady:
  "keeps (steady (frozen S oid did)) (persist_failed_formatter_exchanges sl gzip adid exchanges)"
  unfolding persist_failed_formatter_exchanges_def by (intro steady_intros persist_formatter_exchanges_steady)

lemma review_role_steady:
  fixes sv :: "'q advisory_services"
  shows "keeps (steady (frozen S oid did)) (review_role sl sv h candidate_id incoming candidate srcs role model_id)"
  unfolding keeps_def
proof (intro allI impI)
  fix w :: "'q world" assume w: "steady (frozen S oid did) w"
  let ?reply = "world_call (classify_candidate (as_loads sv) (as_client sv) (as_config sv) role incoming candidate) w"
  let ?rest = "\<lambda>result. ibind (persist_advisory_result sl (as_gzip sv) (ph_revision_id h) candidate_id result) (\<lambda>_.
      lift_result (finding_record (role_kind role) result srcs))"
  have "steady (frozen S oid did) (snd ?reply)"
    using w by (rule world_call_steady)
  moreover have "keeps (steady (frozen S oid did) :: 'q world \<Rightarrow> bool) (?rest result)" for result
    unfolding persist_advisory_result_def by (intro keeps_ibind persist_revision_artifact_steady keeps_lift_result)
  ultimately show "steady (frozen S oid did) (snd (review_role sl sv h candidate_id incoming candidate srcs role model_id w))"
    unfolding review_role_def by (auto simp: keeps_def split: prod.split sum.split classification_error.split)
qed

lemma review_candidates_steady:
  "keeps (steady (frozen S oid did)) (review_candidates sl sv h i items)"
proof (induction items arbitrary: i)
  case (Cons item items)
  have "keeps (steady (frozen S oid did)) (review_candidate sl sv h x candidate_id)" for x candidate_id
    unfolding review_candidate_def by (intro steady_intros keeps_lift_result review_role_steady)
  then show ?case
    using Cons by (cases item) (auto intro!: steady_intros keeps_lift_result)
qed auto

lemma classify_candidates_steady:
  "keeps (steady (frozen S oid did)) (classify_candidates sl services h discoveries candidate_ids)"
  unfolding classify_candidates_def by (intro steady_intros review_candidates_steady)

lemma keeps_list [intro]:
  "keeps P m \<Longrightarrow> (\<And>x xs. keeps P (f x xs)) \<Longrightarrow> keeps P (case v of [] \<Rightarrow> m | x # xs \<Rightarrow> f x xs)"
  by (cases v) auto

lemma required_screening_steady: "keeps P (required_screening_collection en)"
  unfolding required_screening_collection_def by (intro keeps_option keeps_list keeps_iret keeps_iraise)

lemma query_points_of_steady: "keeps (steady G) (query_points_of sv h screening points sparse hc)"
  by (induction sv h screening points sparse hc rule: query_points_of.induct)
    (auto simp: query_both_def intro!: steady_intros keeps_lift_result)

lemma discover_candidates_steady: "keeps (steady G) (discover_candidates en services h digest points)"
  unfolding discover_candidates_def required_qdrant_def
  by (intro steady_intros keeps_lift_result query_points_of_steady required_screening_steady)

lemma write_screening_points_steady:
  "keeps (steady (frozen S oid' did)) (write_screening_points en oid h points)"
  unfolding write_screening_points_def required_qdrant_def
  by (intro steady_intros steady_txns required_screening_steady)

section \<open>Endings\<close>

text \<open>
  The endings queue new work, so what follows a successful ending is only known to keep the invariant; an
  ending that raises has changed nothing.
\<close>

definition safe :: "(catalog \<Rightarrow> bool) \<Rightarrow> ('q, 'a) action \<Rightarrow> bool" where
  "safe G m \<longleftrightarrow> (\<forall>w. steady G w \<longrightarrow>
     (case m w of (Inl e, w') \<Rightarrow> steady G w' | (Inr x, w') \<Rightarrow> lifecycle_ok (w_catalog w')))"

lemma safe_keeps [intro]: "keeps (steady G) m \<Longrightarrow> safe G m"
  unfolding safe_def keeps_def steady_def by (fastforce split: prod.split sum.split)

lemma safe_ibind [intro]:
  fixes m :: "('q, 'a) action"
  assumes m: "keeps (steady G) m" and f: "\<And>x. safe G (f x)"
  shows "safe G (ibind m f)"
  unfolding safe_def
proof (intro allI impI)
  fix w :: "'q world" assume "steady G w"
  then have "steady G (snd (m w))"
    by (rule keepsD [OF m])
  then show "case ibind m f w of (Inl e, w') \<Rightarrow> steady G w' | (Inr x, w') \<Rightarrow> lifecycle_ok (w_catalog w')"
    using f by (cases "m w") (auto simp: ibind_def safe_def split: sum.split)
qed

lemma safe_if: "safe G m \<Longrightarrow> safe G m' \<Longrightarrow> safe G (if b then m else m')"
  by simp

lemma safe_prod: "(\<And>x y. safe G (f x y)) \<Longrightarrow> safe G (case v of (x, y) \<Rightarrow> f x y)"
  by (cases v) auto

lemma safe_txn_unit:
  assumes "\<And>now c c'. lifecycle_ok c \<Longrightarrow> on_time now c \<Longrightarrow> G c \<Longrightarrow> f now c = Inr c' \<Longrightarrow> lifecycle_ok c'"
  shows "safe G (txn_unit f)"
  unfolding safe_def
proof (intro allI impI)
  fix w :: "'q world" assume w: "steady G w"
  show "case txn_unit f w of (Inl e, w') \<Rightarrow> steady G w' | (Inr x, w') \<Rightarrow> lifecycle_ok (w_catalog w')"
  proof (cases "f (w_clock w (w_ticks w)) (w_catalog w)")
    case (Inl e)
    then show ?thesis
      using w by (simp add: txn_unit_def txn_def Let_def steady_def)
  next
    case (Inr c')
    have "lifecycle_ok c'"
      by (rule assms [OF _ _ _ Inr]) (use w in \<open>auto simp: steady_def\<close>)
    then show ?thesis
      using Inr by (simp add: txn_unit_def txn_def Let_def)
  qed
qed

lemma finish_preflight_safe: "safe G (txn_unit (finish_preflight wid oid sealed))"
  by (rule safe_txn_unit) (blast intro: finish_preflight_lifecycle)

text \<open>In \<open>S\<close>, the operation is a preflight of the document.\<close>

definition preflights :: "(uuid \<times> uuid \<times> operation_type \<times> uuid option \<times> timestamp) list \<Rightarrow> uuid \<Rightarrow> uuid \<Rightarrow> bool" where
  "preflights S oid did \<longleftrightarrow>
     (case find (\<lambda>(i, _). i = oid) S of None \<Rightarrow> True | Some (i, d, t, rest) \<Rightarrow> d = did \<and> t = PREFLIGHT)"

lemma preflights_operation:
  assumes "preflights (skeleton c) oid did" and "get_operation c oid = Some w"
  shows "op_type w = PREFLIGHT \<and> op_document_id w = did"
  using assms get_skeleton [where c = c and oid = oid, symmetric] by (simp add: preflights_def)

lemma preflights_skeleton:
  assumes "\<And>w. get_operation c oid = Some w \<Longrightarrow> op_type w = PREFLIGHT \<and> op_document_id w = did"
  shows "preflights (skeleton c) oid did"
  using assms get_skeleton [where c = c and oid = oid, symmetric] by (auto simp: preflights_def split: option.split)

lemma accept_rejection_safe:
  assumes "preflights S oid did"
  shows "safe (frozen S oid did) (accept_rejection en oid did reason collection)"
  unfolding accept_rejection_def
proof (intro safe_ibind required_screening_steady safe_txn_unit)
  fix screening now c c'
  assume ok: "lifecycle_ok c" and time: "on_time now c" and "frozen S oid did c"
    and run: "accept_rejection_txn (en_worker_id en) oid did reason (cd_qdrant_collection_name collection) screening now c = Inr c'"
  then have "preflights (skeleton c) oid did"
    using assms by (simp add: frozen_def)
  then show "lifecycle_ok c'"
    by (intro accept_rejection_lifecycle [OF run ok time] preflights_operation)
qed

lemma review_and_seal_safe: "safe (frozen S oid did) (review_and_seal en sv profiles loads oid content exchanges)"
  unfolding review_and_seal_def Let_def
  by (intro safe_ibind safe_prod finish_preflight_safe persist_formatter_exchanges_steady write_screening_points_steady
      steady_txns preparation_txns discover_candidates_steady keeps_lift_result classify_candidates_steady)

lemma fail_revision_on_error_safe:
  fixes m :: "('q, unit) action"
  assumes "safe (frozen S oid did) m"
  shows "safe (frozen S oid did) (fail_revision_on_error rid m)"
  unfolding safe_def
proof (intro allI impI)
  fix w :: "'q world" assume w: "steady (frozen S oid did) w"
  show "case fail_revision_on_error rid m w of (Inl e, w') \<Rightarrow> steady (frozen S oid did) w'
      | (Inr x, w') \<Rightarrow> lifecycle_ok (w_catalog w')"
  proof (cases "fst (m w)")
    case (Inl e)
    have "steady (frozen S oid did) (snd (m w))"
      using assms w Inl by (cases "m w") (auto simp: safe_def)
    then have "steady (frozen S oid did)
        (snd (txn_unit (fail_preparation rid (fst (failure_for e)) (snd (failure_for e))) (snd (m w))))"
      by (rule keepsD [OF preparation_txns(11)])
    then show ?thesis
      using Inl by (cases "m w") (auto simp: fail_revision_on_error_def split: prod.split sum.split worker_error.split)
  next
    case (Inr x)
    then show ?thesis
      using assms w by (cases "m w") (auto simp: fail_revision_on_error_def safe_def split: prod.split)
  qed
qed

lemma preparation_failed_safe:
  assumes "preflights S oid did"
  shows "safe (frozen S oid did) (preparation_failed en sv oid did collection exchanges e)"
proof -
  have "safe (frozen S oid did) (ibind (persist_failed_formatter_exchanges (en_stdlib en) (pfs_gzip sv) did exchanges) (\<lambda>_.
      if is_terminal_rejection code then accept_rejection en oid did code collection else iraise e))" for code
    by (intro safe_ibind safe_if accept_rejection_safe assms persist_failed_formatter_exchanges_steady safe_keeps keeps_iraise)
  then show ?thesis
    unfolding preparation_failed_def by (cases e) (simp_all only: worker_error.case, auto)
qed

lemma run_preflight_safe:
  fixes sv :: "'q preflight_services"
  assumes "preflights S oid did"
  shows "safe (frozen S oid did) (run_preflight en sv oid did)"
proof -
  have source: "keeps (steady (frozen S oid did)) (preflight_source en oid did)"
    by (auto simp: keeps_def preflight_source_def split: sum.split)
  have run: "safe (frozen S oid did) (\<lambda>w.
        case capture (prepare_revision_content (en_stdlib en) services
               (content_request en (pfs_settings sv) oid snapshot ident profiles cfg)) w of
          (Inl e, exchanges, w1) \<Rightarrow> preparation_failed en sv oid did collection exchanges e w1
        | (Inr content, exchanges, w1) \<Rightarrow>
            ibind (txn_unit (\<lambda>_. bind_revision (en_worker_id en) oid (ph_revision_id (cr_handle content)))) (\<lambda>_.
              fail_revision_on_error (ph_revision_id (cr_handle content))
                (review_and_seal en sv profiles loads oid content exchanges)) w1)" (is "safe _ ?run")
    for services snapshot ident profiles cfg collection loads
    unfolding safe_def
  proof (intro allI impI)
    fix w :: "'q world" assume w: "steady (frozen S oid did) w"
    obtain res exchanges w1 where cap: "capture (prepare_revision_content (en_stdlib en) services
        (content_request en (pfs_settings sv) oid snapshot ident profiles cfg)) w = (res, exchanges, w1)"
      by (metis prod.exhaust)
    have w1: "steady (frozen S oid did) w1"
      using capture_steady [OF prepare_revision_content_steady [OF content_request_progress] w, of "en_stdlib en" services] cap
      by (metis snd_conv)
    have failed: "safe (frozen S oid did) (preparation_failed en sv oid did collection exchanges e)" for e
      by (rule preparation_failed_safe [OF assms])
    have bound: "safe (frozen S oid did) (ibind (txn_unit (\<lambda>_. bind_revision (en_worker_id en) oid rid)) (\<lambda>_.
        fail_revision_on_error rid (review_and_seal en sv profiles loads oid content exchanges)))" for rid content
      by (intro safe_ibind fail_revision_on_error_safe review_and_seal_safe preparation_txns)
    show "case ?run w of (Inl e, w') \<Rightarrow> steady (frozen S oid did) w' | (Inr x, w') \<Rightarrow> lifecycle_ok (w_catalog w')"
      using bound failed w1 by (cases res) (simp_all add: cap safe_def)
  qed
  show ?thesis
    unfolding run_preflight_def Let_def
    by (intro safe_ibind safe_prod keeps_lift_result source steady_txns run)
qed

section \<open>Execution of a claim\<close>

lemma run_operation_safe:
  assumes "cl_type claimed = PREFLIGHT \<Longrightarrow> preflights S (cl_operation_id claimed) (cl_document_id claimed)"
  shows "safe (frozen S (cl_operation_id claimed) (cl_document_id claimed)) (run_operation (run_preflight en sv) en claimed)"
  using assms
  by (cases "cl_type claimed")
    (auto simp: run_operation_def intro: run_preflight_safe safe_keeps run_publish_steady run_delete_steady)

lemma safe_lifecycle:
  assumes "safe G m" and "steady G w" and "m w = (result, w')"
  shows "lifecycle_ok (w_catalog w')"
  using assms by (cases result) (auto simp: safe_def steady_def)

lemma execution_safe:
  assumes ok: "lifecycle_ok (w_catalog w)" "\<And>n. on_time (w_clock w n) (w_catalog w)"
    and row: "\<And>x. get_operation (w_catalog w) (cl_operation_id claimed) = Some x
      \<Longrightarrow> op_document_id x = cl_document_id claimed \<and> op_type x = cl_type claimed"
    and run: "execute (run_preflight en sv) en claimed wk w = (outcome, wk', w')"
  shows "lifecycle_ok (w_catalog w') \<and> wk_busy wk' = wk_busy wk - set (cl_locked claimed)"
proof -
  let ?S = "skeleton (w_catalog w)"
  obtain result w1 where r: "run_operation (run_preflight en sv) en claimed w = (result, w1)"
    by fastforce
  have "steady (frozen ?S (cl_operation_id claimed) (cl_document_id claimed)) w"
    using ok row by (simp add: steady_def frozen_def works_on_def deletes_def)
  moreover have "preflights ?S (cl_operation_id claimed) (cl_document_id claimed)" if "cl_type claimed = PREFLIGHT"
    by (rule preflights_skeleton) (use row that in auto)
  ultimately have ok1: "lifecycle_ok (w_catalog w1)"
    by (intro safe_lifecycle [OF run_operation_safe _ r])
  have w': "w' = w1 \<or> (\<exists>e. txn_unit (fail_operation (en_worker_id en) (cl_operation_id claimed) e) w1 = (outcome, w'))"
    and wk': "wk' = release_claim claimed wk"
    using run r by (auto simp: execute_def Let_def split: sum.splits worker_error.splits prod.splits)
  have "lifecycle_ok (w_catalog w')"
    using w' ok1 fail_txn_ok [OF ok1] by (metis snd_conv)
  then show ?thesis
    using wk' by (auto simp: release_claim_def)
qed

end
