(* ===== verification/Document_Contract.thy ===== *)
theory Document_Contract
  imports Reachability
begin

text \<open>
  The lifecycle of a document as the service contract draws it (\<^verbatim>\<open>docs/service-contract.md\<close>), as a machine over
  the state of every document and the document that replaces it, and the proof that the catalog refines it:
  every committed transaction is a move of the machine or leaves all documents where they are.
\<close>

section \<open>The contract\<close>

text \<open>The arrows of the diagram.\<close>

definition contract_edge :: "document_state \<Rightarrow> document_state \<Rightarrow> bool" where
  "contract_edge a b \<longleftrightarrow> (a, b) \<in> set
     [(PREFLIGHTING, PREFLIGHT_FAILED), (PREFLIGHT_FAILED, PREFLIGHTING), (PREFLIGHTING, REVIEW_REQUIRED),
      (PREFLIGHTING, PUBLISHING), (REVIEW_REQUIRED, PUBLISHING), (PUBLISHING, READY), (PUBLISHING, PUBLISH_FAILED),
      (PUBLISH_FAILED, PUBLISHING), (PREFLIGHTING, DELETING), (REVIEW_REQUIRED, DELETING), (PREFLIGHT_FAILED, DELETING),
      (PUBLISH_FAILED, DELETING), (READY, DELETING), (DELETING, REJECTED), (DELETING, CANCELLED), (DELETING, DELETED),
      (DELETING, DELETE_FAILED), (DELETE_FAILED, DELETING)]"

text \<open>
  A document that is not being replaced moves along the arrows on its own.  A replacement takes a READY
  document down with the publication of its successor: the old document is purged while the new one is
  PUBLISHING, and both fail and are retried together.
\<close>

inductive contract :: "doc_view \<Rightarrow> doc_view \<Rightarrow> bool" where
  idle: "contract V V"
| accept: "V k = None \<Longrightarrow> contract V (V(k \<mapsto> (PREFLIGHTING, None)))"
| advance: "V k = Some (a, None) \<Longrightarrow> contract_edge a b \<Longrightarrow> contract V (V(k \<mapsto> (b, None)))"
| replace: "V k = Some (REVIEW_REQUIRED, None) \<Longrightarrow> V t = Some (READY, None)
     \<Longrightarrow> contract V (V(t \<mapsto> (DELETING, Some k), k \<mapsto> (PUBLISHING, None)))"
| replaced_purged: "V k = Some (PUBLISHING, None) \<Longrightarrow> V t = Some (DELETING, Some k) \<Longrightarrow> b \<in> {REJECTED, CANCELLED, DELETED}
     \<Longrightarrow> contract V (V(t \<mapsto> (b, Some k)))"
| replacement_failed: "V k = Some (PUBLISHING, None) \<Longrightarrow> V t = Some (DELETING, Some k)
     \<Longrightarrow> contract V (V(t \<mapsto> (DELETE_FAILED, Some k), k \<mapsto> (PUBLISH_FAILED, None)))"
| replacement_retried: "V k = Some (PUBLISH_FAILED, None) \<Longrightarrow> V t = Some (DELETE_FAILED, Some k)
     \<Longrightarrow> contract V (V(t \<mapsto> (DELETING, Some k), k \<mapsto> (PUBLISHING, None)))"

inductive contract_run :: "doc_view \<Rightarrow> bool" where
  start: "contract_run (\<lambda>_. None)"
| move: "contract_run V \<Longrightarrow> contract V V' \<Longrightarrow> contract_run V'"

section \<open>Open work and replaced documents\<close>

text \<open>While a replacement is queued or running, the document it replaces has not failed to be deleted.\<close>

definition pursued :: "doc_view \<Rightarrow> work_operation list \<Rightarrow> bool" where
  "pursued V ops \<longleftrightarrow> (\<forall>w\<in>set ops. \<forall>t rb. is_open w \<and> op_replacement_target w = Some t \<longrightarrow> V t \<noteq> Some (DELETE_FAILED, rb))"

text \<open>Every open replacement was open before.\<close>

definition older :: "work_operation list \<Rightarrow> work_operation list \<Rightarrow> bool" where
  "older ops ops' \<longleftrightarrow> (\<forall>w'\<in>set ops'. is_open w' \<and> op_replacement_target w' \<noteq> None
     \<longrightarrow> (\<exists>w\<in>set ops. is_open w \<and> op_replacement_target w = op_replacement_target w'))"

lemma older_refl [simp]: "older ops ops"
  by (auto simp: older_def)

lemma older_trans: "older ops ops1 \<Longrightarrow> older ops1 ops2 \<Longrightarrow> older ops ops2"
  unfolding older_def by metis

lemma older_map:
  assumes "\<And>w. w \<in> set ops \<Longrightarrow> op_replacement_target (g w) = op_replacement_target w \<and> (is_open (g w) \<longrightarrow> is_open w)"
  shows "older ops (map g ops)"
  using assms by (auto simp: older_def)

lemma older_tupd:
  assumes "\<And>w. op_replacement_target (f w) = op_replacement_target w \<and> (is_open (f w) \<longrightarrow> is_open w)"
  shows "older ops (tupd key k f ops)"
  unfolding tupd_map by (rule older_map) (simp add: assms)

lemma older_tadd: "op_replacement_target w = None \<Longrightarrow> older ops (tadd w ops)"
  by (auto simp: older_def)

lemma older_finish [simp]: "older ops (tupd key k (finish_operation phase now) ops)"
  by (rule older_tupd) (simp add: finish_operation_def set_operation_phase_def is_open_def)

lemma older_phase [simp]: "older ops (tupd key k (\<lambda>w. snd (set_operation_phase phase now w)) ops)"
  by (rule older_tupd) (simp add: set_operation_phase_def is_open_def)

lemma pursued_older:
  assumes "pursued V ops" and "older ops ops'"
    and "\<And>t rb. V' t = Some (DELETE_FAILED, rb) \<Longrightarrow> \<exists>rb. V t = Some (DELETE_FAILED, rb)"
  shows "pursued V' ops'"
  unfolding pursued_def
proof (intro ballI allI impI notI)
  fix w t rb
  assume w: "w \<in> set ops'" "is_open w \<and> op_replacement_target w = Some t" and "V' t = Some (DELETE_FAILED, rb)"
  then obtain rb' where "V t = Some (DELETE_FAILED, rb')"
    using assms(3) by blast
  moreover obtain x where "x \<in> set ops" "is_open x" "op_replacement_target x = Some t"
    using assms(2) w by (auto simp: older_def)
  ultimately show False
    using assms(1) by (auto simp: pursued_def)
qed

section \<open>Moves of the catalog\<close>

text \<open>The simulation: from a catalog in which replacements are pursued, a move of the contract.\<close>

definition evolves :: "catalog \<Rightarrow> catalog \<Rightarrow> bool" where
  "evolves c c' \<longleftrightarrow> (pursued (view c) (operations c)
     \<longrightarrow> contract (view c) (view c') \<and> pursued (view c') (operations c'))"

lemma evolves_quiet:
  assumes "view c' = view c" and "older (operations c) (operations c')"
  shows "evolves c c'"
  using assms pursued_older [of "view c" "operations c" "operations c'" "view c"]
  by (auto simp: evolves_def intro: contract.idle)

lemma evolves_cong:
  assumes "core c' = core c" and "older (operations c) (operations c')"
  shows "evolves c c'"
  using assms view_cong [of c' c] by (intro evolves_quiet) (simp_all add: core_def)

lemma evolves_advance:
  assumes "view c k = Some (a, None)" and "contract_edge a b" and "b \<noteq> DELETE_FAILED"
    and "view c' = (view c)(k \<mapsto> (b, None))" and "older (operations c) (operations c')"
  shows "evolves c c'"
proof -
  have "pursued (view c') (operations c')" if "pursued (view c) (operations c)"
    by (rule pursued_older [OF that assms(5)]) (use assms(3,4) in \<open>auto split: if_splits\<close>)
  then show ?thesis
    using contract.advance [of "view c", OF assms(1,2)] assms(4) by (simp add: evolves_def)
qed

lemma evolves_enter:
  assumes "view c k = None" and "view c' = (view c)(k \<mapsto> (PREFLIGHTING, None))"
    and "older (operations c) (operations c')"
  shows "evolves c c'"
proof -
  have "pursued (view c') (operations c')" if "pursued (view c) (operations c)"
    by (rule pursued_older [OF that assms(3)]) (use assms(2) in \<open>auto split: if_splits\<close>)
  then show ?thesis
    using contract.accept [of "view c", OF assms(1)] assms(2) by (simp add: evolves_def)
qed

section \<open>Transactions that move no document\<close>

lemma recover_leases_evolves: "recover_leases now c = (n, c') \<Longrightarrow> evolves c c'"
  by (rule evolves_cong)
    (auto simp: recover_leases_def core_def requeue_def lease_expired_def is_open_def intro!: older_map)

lemma renew_leases_evolves: "renew_leases st now wk c = (n, c') \<Longrightarrow> evolves c c'"
  by (rule evolves_cong) (auto simp: renew_leases_def core_def Let_def is_open_def intro!: older_map)

lemma claim_next_evolves:
  assumes run: "claim_next st rt now nt wk c = Inr (r, wk', c')" and ok: "lifecycle_ok c"
  shows "evolves c c'"
proof -
  have rec: "core (snd (recover_leases rt c)) = core c" "older (operations c) (operations (snd (recover_leases rt c)))"
    by (auto simp: recover_leases_def core_def requeue_def lease_expired_def is_open_def intro!: older_map)
  show ?thesis
  proof (cases r)
    case None
    then have "c' = snd (recover_leases rt c)"
      using run by (auto simp: claim_next_def Let_def split: option.splits if_splits)
    then show ?thesis
      using evolves_cong rec by simp
  next
    case (Some claimed)
    from run [unfolded Some] show ?thesis
    proof (rule claim_nextE)
      fix w d c1
      assume c1: "c1 = snd (recover_leases rt c)"
        and min: "min_by claim_key (filter (claimable c1 (wk_busy wk)) (operations c1)) = Some w"
        and c': "c' = upd_operation (op_id w) (start_running st now (wk_id wk)) c1"
      have "distinct (map op_id (operations c1))"
        using recover_leases_lifecycle [OF ok, of rt _ c1] c1 by (simp add: lifecycle_ok_def queue_ok_def prod_eq_iff)
      moreover have w: "w \<in> set (operations c1)" "is_open w"
        using min_by_mem [OF min] by (auto simp: claimable_def is_open_def)
      ultimately have row: "x = w" if "x \<in> set (operations c1)" "op_id x = op_id w" for x
        using that by (simp add: distinct_map inj_on_def)
      have "older (operations c1) (operations c')"
        unfolding c' operation_rows.rows_upd tupd_map
      proof (rule older_map)
        fix x assume "x \<in> set (operations c1)"
        then show "op_replacement_target (if op_id x = op_id w then start_running st now (wk_id wk) x else x) = op_replacement_target x
          \<and> (is_open (if op_id x = op_id w then start_running st now (wk_id wk) x else x) \<longrightarrow> is_open x)"
          using row w by (auto simp: start_running_def)
      qed
      then show ?thesis
        using rec c1 c' by (intro evolves_cong) (auto simp: core_def intro: older_trans)
    qed
  qed
qed

lemma phase_evolves: "set_phase wid oid ph now c = Inr c' \<Longrightarrow> evolves c c'"
  by (rule evolves_cong) (auto simp: set_phase_def core_def operation_rows.rows_upd split: option.splits if_splits)

lemma bind_revision_evolves: "bind_revision wid oid rid c = Inr c' \<Longrightarrow> evolves c c'"
  by (rule evolves_cong)
    (auto simp: bind_revision_def core_def operation_rows.rows_upd is_open_def intro!: older_tupd split: option.splits if_splits)

text \<open>Neither documents nor operations change.\<close>

lemma evolves_same: "documents c' = documents c \<Longrightarrow> operations c' = operations c \<Longrightarrow> evolves c c'"
  by (rule evolves_quiet, erule view_cong, simp)

lemma create_revision_evolves: "create_revision did ident now c = Inr (h, c') \<Longrightarrow> evolves c c'"
  by (rule evolves_same) (auto simp: create_revision_def uuid4_def Let_def split: option.splits if_splits)

lemma upd_revision_evolves: "upd_revision k f c = Inr c' \<Longrightarrow> evolves c c'"
  by (rule evolves_same) (auto simp: upd_revision_def split: option.splits if_splits)

lemma record_chunk_vectors_evolves:
  assumes "record_chunk_vectors sl h b c = Inr (m, c')"
  shows "evolves c c'"
  using assms
proof (rule record_chunk_vectorsE)
  fix r c1
  assume "insert_chunks (map (chunk_row (rev_id r)) (cb_vectors b)) (map (vector_row (rev_id r)) (cb_vectors b)) c = Inr c1"
    and "upd_revision (rev_id r) (vectors_recorded b) c1 = Inr c'"
  then show ?thesis
    by (intro evolves_same) (auto simp: upd_revision_def dest!: insert_chunks_keeps(1) split: option.splits if_splits)
qed

lemma fail_preparation_evolves: "fail_preparation rid code message now c = Inr c' \<Longrightarrow> evolves c c'"
  by (rule evolves_same)
    (auto simp: fail_preparation_def rbind_eq_Inr if_Inl_eq_Inr lift_lifecycle_Inr upd_revision_def
      split: option.splits if_splits)

lemma mark_upserted_evolves: "mark_upserted wid oid rid c = Inr c' \<Longrightarrow> evolves c c'"
  by (rule evolves_same)
    (auto simp: mark_upserted_def lift_lifecycle_Inr dest: upd_publication_keeps split: option.splits if_splits)

lemma count_deletion_attempt_evolves: "count_deletion_attempt did c = Inr c' \<Longrightarrow> evolves c c'"
  by (rule evolves_same) (auto simp: count_deletion_attempt_def split: option.splits)

lemma set_deletion_phase_evolves: "set_deletion_phase wid oid did dp now c = Inr c' \<Longrightarrow> evolves c c'"
  by (rule evolves_quiet)
    (auto simp: set_deletion_phase_def operation_rows.rows_upd intro!: view_cong split: option.splits if_splits)

lemma record_zero_verification_evolves: "record_zero_verification wid oid did flag now c = Inr c' \<Longrightarrow> evolves c c'"
  by (rule evolves_quiet)
    (auto simp: record_zero_verification_def operation_rows.rows_upd intro!: view_cong split: option.splits if_splits)

lemma commit_purge_evolves:
  assumes "commit_purge wid oid did key rs now c = Inr c'"
  shows "evolves c c'"
proof (rule evolves_quiet)
  let ?c1 = "if rs \<noteq> [] then delete_revision_content rs c else c"
  have c1: "documents ?c1 = documents c" "operations ?c1 = operations c"
    by (simp_all add: delete_revision_content_def)
  have c': "c' = upd_operation oid (\<lambda>w. snd (set_operation_phase COMMIT_TOMBSTONE now w))
      (upd_deletion did (\<lambda>p. p\<lparr>del_storage_purged_at := Some now, del_phase := DP_COMMIT_TOMBSTONE\<rparr>)
        (upd_document did (\<lambda>d. d\<lparr>doc_storage_key := None\<rparr>) ?c1))"
    using assms by (auto simp: commit_purge_def Let_def split: option.splits if_splits)
  show "view c' = view c"
    using c1 unfolding c'
    by (auto simp: view_def fun_eq_iff document_rows.get_upd map_option.compositionality comp_def)
  show "older (operations c) (operations c')"
    using c1 unfolding c' by (simp add: operation_rows.rows_upd)
qed

section \<open>Transactions that move documents\<close>

lemma enter_document_evolves:
  assumes run: "enter_document respond now idem actor who d c = Inr (x, c')"
    and st: "doc_state d = PREFLIGHTING" and rb: "doc_replaced_by d = None"
  shows "evolves c c'"
proof -
  obtain c1 op c2 where add: "add_document d c = Inr c1"
    and enq: "enqueue_operation now (doc_id d) PREFLIGHT NORMAL None None (Some (idem_id idem)) QUEUED c1 = Inr (op, c2)"
    and c': "core c' = core c2" "operations c' = operations c2"
    using run by (auto simp: enter_document_def rbind_eq_Inr core_def audit_def upd_idempotency_def)
  note eff = enqueue_operation_effect [OF enq]
  have c1: "documents c1 = tadd d (documents c)" "operations c1 = operations c"
    using add by (auto simp: add_document_def split: if_splits)
  have fresh: "doc_id d \<notin> doc_id ` set (documents c)"
    by (rule document_inserts.add_fresh [OF add])
  have same: "documents c' = tadd d (documents c)" "operations c' = tadd op (operations c)"
    using c' eff(1,2) c1 by (simp_all add: core_def)
  have none: "view c (doc_id d) = None"
    using fresh by (simp add: view_def tget_None_iff)
  have "view c' = (view c)(doc_id d \<mapsto> (PREFLIGHTING, None))"
    using none st rb by (auto simp: fun_eq_iff view_def same(1) tget_tadd split: option.splits)
  moreover have "older (operations c) (operations c')"
    unfolding same(2) by (rule older_tadd [OF eff(7)])
  ultimately show ?thesis
    by (rule evolves_enter [OF none])
qed

lemma evolves_after:
  assumes "evolves c1 c'" and "core c1 = core c" and "operations c1 = operations c"
  shows "evolves c c'"
  using assms view_cong [of c1 c] by (simp add: evolves_def core_def)

lemma evolves_before:
  assumes "evolves c c1" and "core c' = core c1" and "operations c' = operations c1"
  shows "evolves c c'"
  using assms view_cong [of c' c1] by (simp add: evolves_def core_def)

lemma register_admission_evolves:
  assumes run: "register_admission sl respond now prepared key actor who c fs = (Inr (x, c'), fs', staged)"
  shows "evolves c c'"
proof -
  obtain r c1 where res: "reserve_idempotency (sl_sha256 sl) now key ''upload_document'' who
      (admission_material prepared) c = Inr (r, c1)"
    using run by (auto simp: register_admission_def split: sum.splits)
  note keep = reserve_keeps [OF res]
  show ?thesis
  proof (cases r)
    case (IdempotencyReplay status body)
    then have "c' = c1"
      using run res by (simp add: register_admission_def)
    then show ?thesis
      using keep by (intro evolves_cong) auto
  next
    case (Reserved idem)
    then obtain k skey where ent: "enter_document respond now idem actor who
        (admitted_document now k prepared who skey) (snd (uuid4 c1)) = Inr (x, c')"
      using run res
      by (auto simp: register_admission_def Let_def uuid4_def split: if_splits sum.splits prod.splits)
    have "evolves (snd (uuid4 c1)) c'"
      by (rule enter_document_evolves [OF ent]) (simp_all add: admitted_document_def)
    then show ?thesis
      by (rule evolves_after) (simp_all add: keep)
  qed
qed

text \<open>A deletion starts, or is already under way.\<close>

lemma begin_deletion_evolves:
  assumes run: "begin_deletion now d disp active screening r p prio actor who idem c = Inr (op, c')"
    and row: "get_document c (doc_id d) = Some d" and rb: "doc_replaced_by d = None"
    and st: "contract_edge (doc_state d) DELETING"
  shows "evolves c c'"
proof (cases "deletion_of c (doc_id d)")
  case None
  note eff = begin_deletion_effect [OF run row None]
  show ?thesis
    by (rule evolves_advance [of c "doc_id d" "doc_state d" DELETING])
      (use eff rb st view_Some [OF row] in \<open>auto simp: older_tadd\<close>)
next
  case (Some q)
  then have "c' = c"
    using run by (auto simp: begin_deletion_def result_simps split: if_splits option.splits)
  then show ?thesis
    by (simp add: evolves_quiet)
qed

lemma rest_not_replaced:
  assumes "lifecycle_ok c" and "get_document c k = Some d"
    and "doc_state d \<notin> {DELETING, DELETE_FAILED, REJECTED, CANCELLED, DELETED}"
  shows "doc_replaced_by d = None"
  using not_replaced [OF lifecycle_okD(3) [OF assms(1)] view_Some [OF assms(2)]] assms(3) by simp

lemma request_deletion_evolves:
  assumes run: "request_deletion now did idem actor who active screening c = Inr (m, c')" and ok: "lifecycle_ok c"
  shows "evolves c c'"
proof -
  obtain d where row: "get_document c did = Some d"
    using run by (auto simp: request_deletion_def result_simps split: if_splits)
  then have id: "doc_id d = did"
    by (rule tget_Some_key)
  have "c' = c \<or> (doc_state d \<in> {READY, PREFLIGHT_FAILED, REVIEW_REQUIRED, PUBLISH_FAILED}
      \<and> (\<exists>target r p op. begin_deletion now d TD_DELETED target screening r p HIGH actor who
            (Some (idem_id idem)) c = Inr (op, c')))"
    using run row
    by (simp add: request_deletion_def result_simps split: if_splits option.splits) blast+
  then show ?thesis
  proof
    assume "c' = c" then show ?thesis by (simp add: evolves_quiet)
  next
    assume "doc_state d \<in> {READY, PREFLIGHT_FAILED, REVIEW_REQUIRED, PUBLISH_FAILED}
      \<and> (\<exists>target r p op. begin_deletion now d TD_DELETED target screening r p HIGH actor who
            (Some (idem_id idem)) c = Inr (op, c'))"
    then show ?thesis
      using begin_deletion_evolves [of now d] rest_not_replaced [OF ok row] row id
      by (auto simp: contract_edge_def)
  qed
qed


text \<open>The work of an open operation.\<close>

lemma open_work_view:
  assumes ok: "lifecycle_ok c" and w: "w \<in> set (operations c)" "is_open w"
  shows "view c (op_document_id w) = Some (working_state (op_type w), None)"
proof -
  note b = lifecycle_okD(3) [OF ok]
  obtain d where d: "get_document c (op_document_id w) = Some d" "doc_state d = working_state (op_type w)"
    "op_type w = DELETE \<longrightarrow> doc_replaced_by d = None"
    using open_work_state [OF b w] by blast
  then have "doc_replaced_by d = None"
    using not_replaced [OF b view_Some [OF d(1)]] by (cases "op_type w") auto
  then show ?thesis
    using view_Some [OF d(1)] d(2) by simp
qed

lemma record_decision_evolves:
  assumes run: "record_decision now did rid action target idem actor who screening c = Inr (m, c')"
    and ok: "lifecycle_ok c"
  shows "evolves c c'"
  using run
proof (rule record_decisionE)
  fix d r row c2 op c4
  assume row: "get_document c did = Some d" and id: "doc_id d = did"
    and rev: "require_current_review_revision c d rid = Inr r"
    and add: "add_decision row (c\<lparr>uuid_drawn := Suc (uuid_drawn c)\<rparr>) = Inr c2"
    and c': "core c' = core c4" "operations c' = operations c4"
    and act: "case action of
        CANCEL \<Rightarrow> begin_deletion now d TD_CANCELLED (rev_active_collection r) screening (Some rid) None
          HIGH actor who None c2 = Inr (op, c4)
      | REPLACE \<Rightarrow> \<exists>t tr tp. target = Some (doc_id t) \<and> validate_replacement_target c d (doc_id t) = Inr (t, tr, tp)
          \<and> begin_replacement now d r t tr tp screening actor who c2 = Inr (op, c4)
      | KEEP \<Rightarrow> \<exists>p c3. ensure_publication_record now did r c2 = Inr (p, c3)
          \<and> enqueue_operation now did PUBLISH PRIO_PUBLISH (Some rid) None None QUEUED
              (upd_document did (\<lambda>d. d\<lparr>doc_state := PUBLISHING\<rparr>) c3) = Inr (op, c4)"
  note revD = require_current_review_revisionD [OF rev]
  have same: "core c2 = core c" "operations c2 = operations c"
    using add by (auto simp: add_decision_def core_def split: if_splits)
  have rows: "documents c2 = documents c" "revisions c2 = revisions c"
    using same(1) by (simp_all add: core_def)
  have row2: "get_document c2 (doc_id d) = Some d" and r2: "get_revision c2 (rev_id r) = Some r"
    using row id revD(2,3) rows by simp_all
  have rb: "doc_replaced_by d = None"
    by (rule rest_not_replaced [OF ok row]) (simp add: revD(1))
  have vd: "view c2 did = Some (REVIEW_REQUIRED, None)"
    using view_Some [OF row2] rb id revD(1) by simp
  have "evolves c2 c4"
  proof (cases action)
    case CANCEL
    then have "begin_deletion now d TD_CANCELLED (rev_active_collection r) screening (Some rid) None
          HIGH actor who None c2 = Inr (op, c4)"
      using act by simp
    then show ?thesis
      by (rule begin_deletion_evolves [OF _ row2 rb]) (simp add: revD(1) contract_edge_def)
  next
    case REPLACE
    then obtain t tr tp where val: "validate_replacement_target c d (doc_id t) = Inr (t, tr, tp)"
      and run': "begin_replacement now d r t tr tp screening actor who c2 = Inr (op, c4)"
      using act by auto
    note vD = validate_replacement_targetD [OF val]
    have trow: "get_document c2 (doc_id t) = Some t"
      using vD(1) rows by simp
    have eff: "view c4 = ((view c2)(doc_id t \<mapsto> (DELETING, Some did))) (did \<mapsto> (PUBLISHING, None))"
      "operations c4 = tadd op (operations c2)" "op_replacement_target op = Some (doc_id t)"
      using begin_replacement_effect(1,6,9) [OF run' row2 trow _ r2] vD(3) id rb by simp_all
    have vt: "view c2 (doc_id t) = Some (READY, None)"
      using view_Some [OF trow] vD by simp
    show ?thesis
      unfolding evolves_def
    proof (intro impI conjI)
      assume p: "pursued (view c2) (operations c2)"
      show "contract (view c2) (view c4)"
        unfolding eff(1) by (rule contract.replace [OF vd vt])
      show "pursued (view c4) (operations c4)"
        using p eff(3) unfolding eff(1,2) pursued_def set_tadd by (auto split: if_splits)
    qed
  next
    case KEEP
    then obtain p c3 where ens: "ensure_publication_record now did r c2 = Inr (p, c3)"
      and enq: "enqueue_operation now did PUBLISH PRIO_PUBLISH (Some rid) None None QUEUED
              (upd_document did (\<lambda>d. d\<lparr>doc_state := PUBLISHING\<rparr>) c3) = Inr (op, c4)"
      using act by auto
    note en = ensure_publication_effect [OF ens] and eff = enqueue_operation_effect [OF enq]
    have docs: "documents c4 = documents (upd_document did (\<lambda>d. d\<lparr>doc_state := PUBLISHING\<rparr>) c2)"
      using eff(1) en(1) by (simp add: core_def upd_document_def)
    have "operations c4 = tadd op (operations c2)"
      using eff(2) en(5) by simp
    then have "older (operations c2) (operations c4)"
      using older_tadd [OF eff(7)] by simp
    moreover have "view c4 = (view c2)(did \<mapsto> (PUBLISHING, None))"
      using view_upd_document [OF _ _ docs] row2 id rb by simp
    ultimately show ?thesis
      by (intro evolves_advance [OF vd]) (simp_all add: contract_edge_def)
  qed
  then show ?thesis
    using evolves_after [OF evolves_before [OF _ c'] same] by blast
qed


lemma retry_publication_pursues:
  assumes "retry_publication c d r (Some t) = Inr c'"
  shows "view c' t \<noteq> Some (DELETE_FAILED, rb)"
proof -
  let ?f = "\<lambda>d. clear_failure (d\<lparr>doc_state := DELETING\<rparr>)"
  obtain c1 e where e: "get_document c1 t = Some e"
    and c': "c' = (if doc_state e = DELETE_FAILED
      then upd_deletion t (\<lambda>p. p\<lparr>del_failure_code := None\<rparr>) (upd_document t ?f c1) else c1)"
    using assms by (auto simp: retry_publication_def result_simps split: option.splits if_splits)
  show ?thesis
    unfolding c' using e by (auto simp: view_def document_rows.get_upd)
qed

lemma retry_checkpoint_view:
  assumes run: "retry_checkpoint c d ot failed = Inr (phase, c')" and pub: "publications_ok c"
  shows "view c' = view c \<and> (\<forall>t rb. op_replacement_target failed = Some t \<longrightarrow> view c t \<noteq> Some (DELETE_FAILED, rb))
    \<or> (\<exists>t rb. ot = PUBLISH \<and> op_replacement_target failed = Some t \<and> view c t = Some (DELETE_FAILED, rb)
        \<and> view c' = (view c)(t \<mapsto> (DELETING, rb)))"
proof (cases ot)
  case PREFLIGHT
  then show ?thesis
    using run by (simp add: retry_checkpoint_def split: if_splits)
next
  case DELETE
  then have "op_replacement_target failed = None" "documents c' = documents c"
    using run by (auto simp: retry_checkpoint_def split: option.splits if_splits)
  then show ?thesis
    using view_cong [of c' c] by simp
next
  case PUBLISH
  then have r: "retry_publication c d (op_revision_id failed) (op_replacement_target failed) = Inr c'"
    using run by (auto simp: retry_checkpoint_def result_simps)
  have "view c t \<noteq> Some (DELETE_FAILED, rb)"
    if "view c' = view c" "op_replacement_target failed = Some t" for t rb
    using retry_publication_pursues [OF r [unfolded that(2)], of rb] that(1) by simp
  then show ?thesis
    using retry_publication_effect(7) [OF r pub] PUBLISH by blast
qed

lemma request_retry_evolves:
  assumes run: "request_retry now did idem actor who c = Inr (m, c')" and ok: "lifecycle_ok c"
  shows "evolves c c'"
  using run
proof (rule request_retryE)
  fix requested ot next_state failed prio phase c1 op c2 and d :: document
  let ?f = "\<lambda>d. clear_failure (d\<lparr>doc_state := next_state\<rparr>)" and ?k = "doc_id d"
  assume req: "get_document c did = Some requested" and own: "retry_owner c requested = Inr d"
    and cls: "retry_class (doc_state d) = Some (ot, next_state)"
    and failed: "latest_operation c ?k (Some ot) = Some failed"
    and chk: "retry_checkpoint c d ot failed = Inr (phase, c1)"
    and enq: "enqueue_operation now ?k ot prio (op_revision_id failed) (op_replacement_target failed)
            (Some (idem_id idem)) phase (upd_document ?k ?f c1) = Inr (op, c2)"
    and c': "core c' = core c2" "operations c' = operations c2"
  have row: "get_document c ?k = Some d"
    by (rule retry_owner_row [OF own req])
  note b = lifecycle_okD(3) [OF ok]
  note f = latest_operation_mem [OF failed] and st = retry_owner_states [OF own b row cls]
    and eff = enqueue_operation_effect [OF enq]
  have row1: "get_document c1 ?k = Some d"
    using retry_checkpoint_ok(2) [OF chk lifecycle_okD(1) [OF ok]] enqueue_not_self [OF enq] row by auto
  have ops: "operations c2 = tadd op (operations c)"
    using eff(2) retry_checkpoint_ok(3) [OF chk lifecycle_okD(1) [OF ok]] by simp
  have docs: "documents c2 = documents (upd_document ?k ?f c1)"
    using eff(1) by (simp add: core_def)
  have v: "view c2 = (view c1)(?k \<mapsto> (next_state, None))"
    using view_upd_document [OF row1 _ docs] st(1) by simp
  have vd: "view c ?k = Some (doc_state d, None)"
    using view_Some [OF row] st(1) by simp
  have edge: "contract_edge (doc_state d) next_state" "next_state \<noteq> DELETE_FAILED"
    and failing: "ot = PUBLISH \<longrightarrow> doc_state d = PUBLISH_FAILED \<and> next_state = PUBLISHING"
    using cls by (auto simp: retry_class_def contract_edge_def split: if_splits)
  have "contract (view c) (view c2) \<and> pursued (view c2) (operations c2)"
    if p: "pursued (view c) (operations c)"
    using retry_checkpoint_view [OF chk lifecycle_okD(4) [OF ok]]
  proof (elim disjE exE conjE)
    assume "view c1 = view c"
      and t: "\<forall>t rb. op_replacement_target failed = Some t \<longrightarrow> view c t \<noteq> Some (DELETE_FAILED, rb)"
    then have v2: "view c2 = (view c)(?k \<mapsto> (next_state, None))"
      using v by simp
    moreover have "pursued (view c2) (operations c2)"
      using p t eff(7) edge(2) unfolding v2 ops pursued_def set_tadd by (auto split: if_splits)
    ultimately show ?thesis
      using contract.advance [of "view c", OF vd edge(1)] by simp
  next
    fix t rb
    assume ot: "ot = PUBLISH" and t: "op_replacement_target failed = Some t" "view c t = Some (DELETE_FAILED, rb)"
      and v1: "view c1 = (view c)(t \<mapsto> (DELETING, rb))"
    have rb: "rb = Some ?k"
      using bindings_D [OF b f(1)] f(2) t by (auto simp: op_bound_def)
    have v2: "view c2 = (view c)(t \<mapsto> (DELETING, Some ?k), ?k \<mapsto> (PUBLISHING, None))"
      using v v1 rb failing ot by simp
    moreover have "pursued (view c2) (operations c2)"
      using p t eff(7) unfolding v2 ops pursued_def set_tadd by (auto split: if_splits)
    ultimately show ?thesis
      using contract.replacement_retried [of "view c" ?k t] vd failing ot t rb by simp
  qed
  then have "evolves c c2"
    by (simp add: evolves_def)
  then show ?thesis
    using c' by (rule evolves_before)
qed

lemma accept_rejection_evolves:
  assumes run: "accept_rejection_txn wid oid did reason active screening now c = Inr c'"
    and ok: "lifecycle_ok c"
    and bound: "\<And>w. get_operation c oid = Some w \<Longrightarrow> op_type w = PREFLIGHT \<and> op_document_id w = did"
  shows "evolves c c'"
  using run
proof (rule accept_rejectionE)
  fix w :: work_operation and d q c1 c2
  assume own: "owned_operation c wid oid = Some w" and d: "get_document c did = Some d"
    and c1: "c1 = upd_operation oid (\<lambda>w. w\<lparr>op_revision_id := map_option rev_id (latest_revision c did)\<rparr>) c"
    and clean: "queue_rejection_cleanup now d reason
       (case latest_revision c did of Some r \<Rightarrow> rev_active_collection r | None \<Rightarrow> active) screening
       (map_option rev_id (latest_revision c did)) c1 = Inr (q, c2)"
    and c': "core c' = core c2" "operations c' = tupd op_id oid (finish_operation COMPLETE now) (operations c2)"
  note w = owned_operationD [OF own]
  have vd: "view c did = Some (PREFLIGHTING, None)"
    using open_work_view [OF ok w(5,6)] bound [OF w(1)] by simp
  have id: "doc_id d = did"
    by (rule tget_Some_key [OF d])
  have dd: "doc_state d = PREFLIGHTING" "doc_replaced_by d = None"
    using vd view_Some [OF d] by simp_all
  have none: "deletion_of c1 (doc_id d) = None"
    using not_deleting_no_checkpoint [OF lifecycle_okD(1) [OF ok] d] dd id c1 by simp
  have row1: "get_document c1 (doc_id d) = Some d"
    using d id c1 by simp
  from clean show ?thesis
  proof (rule queue_rejection_cleanupE)
    fix c3
    assume beg: "begin_deletion now d TD_REJECTED
        (case latest_revision c did of Some r \<Rightarrow> rev_active_collection r | None \<Rightarrow> active) screening
        (map_option rev_id (latest_revision c did)) None HIGH ''system'' ''pdf-bridge'' None c1 = Inr (q, c3)"
      and c2: "c2 = upd_document (doc_id d) (\<lambda>d. d\<lparr>doc_failure_code := Some reason\<rparr>) c3"
    note eff = begin_deletion_effect [OF beg row1 none]
    have v3: "view c3 = (view c)(did \<mapsto> (DELETING, None))"
      using eff(1) view_cong [of c1 c] c1 id dd by simp
    obtain e where e: "get_document c3 did = Some e" "doc_state e = DELETING" "doc_replaced_by e = None"
      using v3 by (auto simp: view_def fun_eq_iff split: if_splits)
    have "view c2 = view c3"
      using view_upd_document [OF e(1), of "\<lambda>d. d\<lparr>doc_failure_code := Some reason\<rparr>" c2] e c2 id v3
      by (simp add: fun_eq_iff)
    moreover have "documents c' = documents c2"
      using c'(1) by (simp add: core_def)
    ultimately have v: "view c' = (view c)(did \<mapsto> (DELETING, None))"
      using view_cong v3 by metis
    have "older (operations c) (operations c1)"
      unfolding c1 operation_rows.rows_upd by (rule older_tupd) (simp add: is_open_def)
    moreover have "operations c2 = tadd q (operations c1)"
      using eff(7) c2 by simp
    ultimately have "older (operations c) (operations c2)"
      using older_trans older_tadd [OF eff(10)] by metis
    then have "older (operations c) (operations c')"
      using older_trans older_finish c'(2) by metis
    then show ?thesis
      using evolves_advance [OF vd _ _ v] by (simp add: contract_edge_def)
  qed
qed


lemma finish_preflight_evolves:
  assumes run: "finish_preflight wid oid sealed now c = Inr c'" and ok: "lifecycle_ok c"
  shows "evolves c c'"
  using run
proof (rule finish_preflightE)
  fix w :: work_operation and r d c1
  let ?k = "op_document_id w"
  assume d: "get_document c ?k = Some d" and st: "doc_state d = PREFLIGHTING"
    and stage: "if sp_clear_for_publication sealed then \<exists>q. queue_clear_publication now d r c = Inr (q, c1)
      else c1 = upd_document ?k (\<lambda>d. d\<lparr>doc_state := REVIEW_REQUIRED\<rparr>) c"
    and core: "core c' = core (upd_document ?k clear_failure c1)"
    and ops: "operations c' = tupd op_id oid (finish_operation
      (if sp_clear_for_publication sealed then COMPLETE else AWAITING_DECISION) now) (operations c1)"
  have id: "doc_id d = ?k"
    by (rule tget_Some_key [OF d])
  have rb: "doc_replaced_by d = None"
    by (rule rest_not_replaced [OF ok d]) (simp add: st)
  have vd: "view c ?k = Some (PREFLIGHTING, None)"
    using view_Some [OF d] st rb by simp
  have docs: "documents c' = documents (upd_document ?k clear_failure c1)"
    using core by (simp add: core_def)
  show ?thesis
  proof (cases "sp_clear_for_publication sealed")
    case True
    then obtain q where q: "queue_clear_publication now d r c = Inr (q, c1)"
      using stage by auto
    from q st show ?thesis
    proof (rule queue_clear_publicationE)
      fix p c0
      let ?f = "\<lambda>d. clear_failure (d\<lparr>doc_state := PUBLISHING\<rparr>)"
      assume ens: "ensure_publication_record now (doc_id d) r c = Inr (p, c0)"
        and enq: "enqueue_operation now (doc_id d) PUBLISH PRIO_PUBLISH (Some (rev_id r)) None None QUEUED
          (upd_document (doc_id d) ?f c0) = Inr (q, c1)"
      note eff = enqueue_operation_effect [OF enq] and en = ensure_publication_effect [OF ens]
      have c1: "documents c1 = documents (upd_document ?k ?f c)" "operations c1 = tadd q (operations c)"
        using eff(1,2) en id by (simp_all add: core_def upd_document_def)
      have row1: "get_document c1 ?k = Some (?f d)"
        using d c1(1) by (simp add: document_rows.get_upd)
      have v: "view c' = (view c)(?k \<mapsto> (PUBLISHING, None))"
        using view_upd_document [OF row1 _ docs] view_upd_document [OF d _ c1(1)] rb by simp
      have "older (operations c) (operations c')"
        unfolding ops c1(2) by (rule older_trans [OF older_tadd [OF eff(7)] older_finish])
      then show ?thesis
        using evolves_advance [OF vd _ _ v] by (simp add: contract_edge_def)
    qed
  next
    case False
    let ?f = "\<lambda>d. d\<lparr>doc_state := REVIEW_REQUIRED\<rparr>"
    have c1: "c1 = upd_document ?k ?f c"
      using stage False by simp
    have row1: "get_document c1 ?k = Some (?f d)"
      using d c1 by (simp add: document_rows.get_upd)
    have v: "view c' = (view c)(?k \<mapsto> (REVIEW_REQUIRED, None))"
      using view_upd_document [OF row1 _ docs] view_upd_document [OF d, of ?f c1] c1 rb by simp
    have "older (operations c) (operations c')"
      unfolding ops by (simp add: c1)
    then show ?thesis
      using evolves_advance [OF vd _ _ v] by (simp add: contract_edge_def)
  qed
qed

lemma finish_publication_evolves:
  assumes run: "finish_publication wid oid did rid n now c = Inr c'" and ok: "lifecycle_ok c"
  shows "evolves c c'"
  using run
proof (rule finish_publicationE)
  fix d p c1
  assume row: "get_document c did = Some d" and st: "doc_state d = PUBLISHING"
    and upd: "upd_publication (pub_id p) (verified_publication n now) c = Inr c1"
    and core: "core c' = core (upd_document did (ready_document now) c1)"
    and ops: "operations c' = tupd op_id oid (finish_operation COMPLETE now) (operations c1)"
  note keep = upd_publication_keeps [OF upd]
  have rb: "doc_replaced_by d = None"
    by (rule rest_not_replaced [OF ok row]) (simp add: st)
  have docs: "documents c' = documents (upd_document did (ready_document now) c)"
    using core keep by (simp add: core_def upd_document_def)
  have v: "view c' = (view c)(did \<mapsto> (READY, None))"
    using view_upd_document [OF row _ docs] rb by simp
  have vd: "view c did = Some (PUBLISHING, None)"
    using view_Some [OF row] st rb by simp
  have "older (operations c) (operations c')"
    unfolding ops by (simp add: keep)
  then show ?thesis
    using evolves_advance [OF vd _ _ v] by (simp add: contract_edge_def)
qed

lemma replacement_publishes:
  assumes "lifecycle_ok c" and "w \<in> set (operations c)" and "op_replacement_target w = Some t"
  shows "op_type w = PUBLISH"
  using assms by (auto simp: lifecycle_ok_def queue_ok_def class_priority_def priority_for_operation_def
      split: if_splits operation_type.splits)

lemma commit_deletion_evolves:
  assumes run: "commit_deletion wid oid did now c = Inr c'" and ok: "lifecycle_ok c"
    and w': "\<And>w. get_operation c oid = Some w \<Longrightarrow> deletes w did"
  shows "evolves c c'"
  using run
proof (rule commit_deletionE)
  fix w t c1 and d :: document
  let ?reason = "if doc_terminal_disposition d = Some TD_REJECTED then doc_failure_code d else None"
  assume own: "owned_operation c wid oid = Some w" and row: "get_document c did = Some d"
    and tomb: "commit_tombstone now d ?reason ''system'' wid c = Inr (t, c1)"
    and core: "core c' = core c1"
    and ops: "operations c' = (if op_type w = DELETE \<and> op_document_id w = did
        then tupd op_id oid (finish_operation COMPLETE now) (operations c1) else operations c1)"
  note w = owned_operationD [OF own] and b = lifecycle_okD(3) [OF ok]
  have id: "doc_id d = did"
    by (rule tget_Some_key [OF row])
  have docs: "documents c' = documents c1"
    using core by (simp add: core_def)
  show ?thesis
  proof (cases "tombstone_of c did = None")
    case False
    then have "c1 = c"
      using commit_tombstone_again [OF tomb] id by simp
    then show ?thesis
      using ops core by (intro evolves_cong) auto
  next
    case True
    then have fresh: "tombstone_of c (doc_id d) = None" and row': "get_document c (doc_id d) = Some d"
      using id row by simp_all
    note eff = commit_tombstone_view [OF tomb fresh row' lifecycle_okD(5) [OF ok]]
    obtain s where s: "s \<in> {REJECTED, CANCELLED, DELETED}"
      and v: "view c' = (view c)(did \<mapsto> (s, doc_replaced_by d))"
      using eff(1) id view_cong [OF docs] by auto
    have old: "older (operations c) (operations c')"
      using ops eff(4) by simp
    have vd: "view c did = Some (doc_state d, doc_replaced_by d)"
      by (rule view_Some [OF row])
    have vw: "view c (op_document_id w) = Some (working_state (op_type w), None)"
      by (rule open_work_view [OF ok w(5,6)])
    consider "op_document_id w = did" | "op_replacement_target w = Some did"
      using w' [OF w(1)] by (auto simp: deletes_def)
    then show ?thesis
    proof cases
      case 1
      then have "doc_replaced_by d = None" "doc_state d = DELETING"
        using vw vd eff(6) by (cases "op_type w"; simp)+
      then show ?thesis
        using evolves_advance [OF _ _ _ _ old, of did DELETING s] v vd s by (auto simp: contract_edge_def)
    next
      case 2
      then have rb: "doc_replaced_by d = Some (op_document_id w)"
        using bindings_D [OF b w(5)] vd by (auto simp: op_bound_def)
      have k: "view c (op_document_id w) = Some (PUBLISHING, None)"
        using vw replacement_publishes [OF ok w(5) 2] by simp
      show ?thesis
        unfolding evolves_def
      proof (intro impI conjI)
        assume p: "pursued (view c) (operations c)"
        have "doc_state d = DELETING"
          using p 2 w(5,6) vd eff(6) by (auto simp: pursued_def)
        then show "contract (view c) (view c')"
          using contract.replaced_purged [of "view c" "op_document_id w" did s] k vd rb s v by simp
        show "pursued (view c') (operations c')"
          by (rule pursued_older [OF p old]) (use v s in \<open>auto split: if_splits\<close>)
      qed
    qed
  qed
qed


text \<open>A failed operation is closed, and it was the only open work on its document.\<close>

lemma failed_row_older: "older ops (tupd op_id oid (fail_operation_row code message retryable now) ops)"
  by (rule older_tupd) (simp add: fail_operation_row_def is_open_def)

lemma fail_publication_evolves:
  assumes ok: "lifecycle_ok c" and w: "w \<in> set (operations c)" "is_open w" "op_id w = oid" "op_type w = PUBLISH"
    and run: "fail_publication code message retryable w c1 = Inr c2"
    and c1: "c1 = upd_operation oid (fail_operation_row code message retryable now) c" and ok1: "lifecycle_ok c1"
    and v: "view c' = (view c2)(op_document_id w \<mapsto> (PUBLISH_FAILED, None))" and ops: "operations c' = operations c2"
  shows "evolves c c'"
proof -
  let ?k = "op_document_id w"
  note b = lifecycle_okD(3) [OF ok] and ids = lifecycle_okD(2) [OF ok]
  have vk: "view c ?k = Some (PUBLISHING, None)"
    using open_work_view [OF ok w(1,2)] w(4) by simp
  have v1: "view c1 = view c"
    using view_cong [of c1 c] c1 by simp
  note eff = fail_publication_effect [OF run lifecycle_okD(1) [OF ok1] lifecycle_okD(4) [OF ok1]]
  have ops': "operations c' = tupd op_id oid (fail_operation_row code message retryable now) (operations c)"
    using ops eff(5) c1 by (simp add: operation_rows.rows_upd)
  have old: "older (operations c) (operations c')"
    unfolding ops' by (rule failed_row_older)
  show ?thesis
    using eff(8)
  proof (elim disjE exE conjE)
    assume "view c2 = view c1"
    then show ?thesis
      using evolves_advance [OF vk, of PUBLISH_FAILED c'] v v1 old by (simp add: contract_edge_def)
  next
    fix t rb
    assume t: "op_replacement_target w = Some t" "view c1 t = Some (DELETING, rb)"
      "view c2 = (view c1)(t \<mapsto> (DELETE_FAILED, rb))"
    have rb: "rb = Some ?k"
      using bindings_D [OF b w(1)] t v1 by (auto simp: op_bound_def)
    have v': "view c' = (view c)(t \<mapsto> (DELETE_FAILED, Some ?k), ?k \<mapsto> (PUBLISH_FAILED, None))"
      using v t v1 rb by simp
    have vt: "view c t = Some (DELETING, Some ?k)"
      using t v1 rb by simp
    have closed: "op_replacement_target x \<noteq> Some t" if x: "x \<in> set (operations c')" "is_open x" for x
    proof
      assume xt: "op_replacement_target x = Some t"
      obtain y where y: "y \<in> set (operations c)"
        and xy: "x = (if op_id y = oid then fail_operation_row code message retryable now y else y)"
        using x(1) unfolding ops' tupd_map by auto
      then have y': "x = y" "op_id y \<noteq> oid"
        using x(2) by (auto simp: fail_operation_row_def is_open_def split: if_splits)
      have "op_document_id y = ?k"
        using bindings_D [OF b y] xt y' vt by (auto simp: op_bound_def)
      then show False
        using single_openD [OF b y w(1)] w(2,3) x(2) y' by simp
    qed
    show ?thesis
      unfolding evolves_def
    proof (intro impI conjI)
      assume p: "pursued (view c) (operations c)"
      show "contract (view c) (view c')"
        unfolding v' by (rule contract.replacement_failed [OF vk vt])
      show "pursued (view c') (operations c')"
        unfolding pursued_def
      proof (intro ballI allI impI notI)
        fix x j r
        assume x: "x \<in> set (operations c')" "is_open x \<and> op_replacement_target x = Some j"
          and j: "view c' j = Some (DELETE_FAILED, r)"
        then obtain y where "y \<in> set (operations c)" "is_open y" "op_replacement_target y = Some j"
          using old by (auto simp: older_def)
        then show False
          using p x j closed v' by (auto simp: pursued_def split: if_splits)
      qed
    qed
  qed
qed

lemma fail_operation_evolves:
  assumes run: "fail_operation wid oid exc now c = Inr c'" and ok: "lifecycle_ok c"
  shows "evolves c c'"
proof (cases "\<exists>w. get_operation c oid = Some w \<and> op_state w = OP_RUNNING")
  case False
  with fail_operation_idle [OF run] show ?thesis by (simp add: evolves_quiet)
next
  case True
  then obtain w where w: "get_operation c oid = Some w" "op_state w = OP_RUNNING" by blast
  from run w show ?thesis
  proof (rule fail_operationE)
    fix code message retryable d c1 c2
    let ?k = "op_document_id w"
    let ?F = "\<lambda>d. record_failure code message retryable
        (d\<lparr>doc_state := failed_state (op_type w) (doc_state d)\<rparr>)"
    assume d: "get_document c ?k = Some d"
      and c1: "c1 = upd_operation oid (fail_operation_row code message retryable now) c"
      and stage: "(case op_type w of
           PUBLISH \<Rightarrow> fail_publication code message retryable w c1
         | DELETE \<Rightarrow> Inr (upd_deletion ?k (\<lambda>p. p\<lparr>del_failure_code := Some code\<rparr>) c1)
         | PREFLIGHT \<Rightarrow> Inr c1) = Inr c2"
      and core: "core c' = core (upd_document ?k ?F c2)" and ops: "operations c' = operations c2"
    have mem: "w \<in> set (operations c)" and oid: "op_id w = oid" and opn: "is_open w"
      using tget_Some_mem [OF w(1)] tget_Some_key [OF w(1)] w(2) by (simp_all add: is_open_def)
    note b = lifecycle_okD(3) [OF ok]
    have vk: "view c ?k = Some (working_state (op_type w), None)"
      by (rule open_work_view [OF ok mem opn])
    have dd: "doc_state d = working_state (op_type w)" "doc_replaced_by d = None"
      using vk view_Some [OF d] by simp_all
    have docs: "documents c' = documents (upd_document ?k ?F c2)"
      using core by (simp add: core_def)
    have ok1: "lifecycle_ok c1"
    proof (rule tame_one [OF ok])
      show "core c1 = core c"
        and "operations c1 = tupd op_id oid (fail_operation_row code message retryable now) (operations c)"
        by (simp_all add: c1 core_def operation_rows.rows_upd)
      fix x assume "get_operation c oid = Some x"
      then show "tame (revs c) x (fail_operation_row code message retryable now x)"
        using w(1) fail_operation_row_tame(1) [OF tame_refl [OF ok mem]] by simp
    qed
    have moved: "view c' = (view c2)(?k \<mapsto> (failed_state (op_type w) (doc_state d), None))"
      if "get_document c2 ?k = Some d"
      using view_upd_document [OF that _ docs] dd(2) by simp
    have row1: "get_document c1 ?k = Some d" "view c1 = view c"
      using d view_cong [of c1 c] c1 by simp_all
    show ?thesis
    proof (cases "op_type w = PUBLISH")
      case True
      then have run': "fail_publication code message retryable w c1 = Inr c2"
        using stage by simp
      note eff = fail_publication_effect [OF run' lifecycle_okD(1) [OF ok1] lifecycle_okD(4) [OF ok1]]
      have "op_replacement_target w \<noteq> Some ?k"
        using bindings_D [OF b mem] vk by (auto simp: op_bound_def)
      then have "get_document c2 ?k = Some d"
        using eff(9) row1(1) by simp
      then have "view c' = (view c2)(?k \<mapsto> (PUBLISH_FAILED, None))"
        using moved True by (simp add: failed_state_def)
      then show ?thesis
        using fail_publication_evolves [OF ok mem opn oid True run' c1 ok1 _ ops] by blast
    next
      case False
      then have c2: "documents c2 = documents c" "operations c2 = operations c1"
        using stage c1 by (cases "op_type w"; auto)+
      have v: "view c' = (view c)(?k \<mapsto> (failed_state (op_type w) (doc_state d), None))"
        using moved c2(1) d view_cong [OF c2(1)] by simp
      have old: "older (operations c) (operations c')"
        using ops c2(2) c1 failed_row_older by (simp add: operation_rows.rows_upd)
      show ?thesis
      proof (cases "op_type w")
        case PREFLIGHT
        then show ?thesis
          using evolves_advance [OF vk, of PREFLIGHT_FAILED c'] old v dd by (simp add: contract_edge_def failed_state_def)
      next
        case DELETE
        then have v': "view c' = (view c)(?k \<mapsto> (DELETE_FAILED, None))" "view c ?k = Some (DELETING, None)"
          using v vk by (simp_all add: failed_state_def)
        have "pursued (view c') (operations c')" if p: "pursued (view c) (operations c)"
          unfolding pursued_def
        proof (intro ballI allI impI notI)
          fix x j r
          assume x: "x \<in> set (operations c')" "is_open x \<and> op_replacement_target x = Some j"
            and j: "view c' j = Some (DELETE_FAILED, r)"
          then obtain y where y: "y \<in> set (operations c)" "is_open y" "op_replacement_target y = Some j"
            using old by (auto simp: older_def)
          then have "j \<noteq> ?k"
            using bindings_D [OF b y(1)] v'(2) by (auto simp: op_bound_def)
          then show False
            using p y j v'(1) by (auto simp: pursued_def)
        qed
        then show ?thesis
          using contract.advance [of "view c" ?k DELETING DELETE_FAILED] v'
          by (simp add: evolves_def contract_edge_def)
      qed (use False in simp)
    qed
  qed
qed

section \<open>The catalog refines the contract\<close>

lemma step_evolves: "step c c' \<Longrightarrow> lifecycle_ok c \<Longrightarrow> evolves c c'"
proof (induction rule: step.induct)
  case (bookkeeping c' c) then show ?case by (simp add: evolves_cong)
next
  case (begin_index_work did rid tgt act coll n c i c')
  then show ?case using evolves_cong begin_outbox_keeps by simp
next
  case (complete_index_work i now c c') then show ?case using evolves_cong complete_outbox_keeps by simp
qed (blast intro: register_admission_evolves record_decision_evolves request_retry_evolves
    request_deletion_evolves recover_leases_evolves renew_leases_evolves claim_next_evolves
    phase_evolves bind_revision_evolves create_revision_evolves upd_revision_evolves record_chunk_vectors_evolves
    fail_preparation_evolves accept_rejection_evolves finish_preflight_evolves
    mark_upserted_evolves finish_publication_evolves count_deletion_attempt_evolves
    set_deletion_phase_evolves record_zero_verification_evolves commit_purge_evolves
    commit_deletion_evolves fail_operation_evolves)+

lemma reachable_contract: "reachable c \<Longrightarrow> pursued (view c) (operations c) \<and> contract_run (view c)"
proof (induction rule: reachable.induct)
  case (initial s)
  have "view (empty_catalog s) = (\<lambda>_. None)"
    by (simp add: view_def empty_catalog_def fun_eq_iff)
  then show ?case
    by (simp add: pursued_def empty_catalog_def contract_run.start)
next
  case (later c c')
  then show ?case
    using step_evolves [OF later(2) reachable_lifecycle [OF later(1)]]
    by (auto simp: evolves_def intro: contract_run.move)
qed

text \<open>A replaced document whose replacement is going away has no move left.\<close>

definition stranded :: "doc_view \<Rightarrow> uuid \<Rightarrow> uuid \<Rightarrow> bool" where
  "stranded V t k \<longleftrightarrow> V t = Some (DELETE_FAILED, Some k)
     \<and> (\<exists>s rb. V k = Some (s, rb) \<and> s \<in> {DELETING, DELETE_FAILED, REJECTED, CANCELLED, DELETED})"

lemma contract_stranded: "contract V V' \<Longrightarrow> stranded V t k \<Longrightarrow> stranded V' t k"
  by (induction rule: contract.induct) (auto simp: stranded_def contract_edge_def)

lemma steps_reachable: "step\<^sup>*\<^sup>* c c' \<Longrightarrow> reachable c \<Longrightarrow> reachable c'"
  by (induction rule: rtranclp_induct) (auto intro: reachable.later)

lemma steps_stranded:
  assumes "step\<^sup>*\<^sup>* c c'" and "reachable c" and "stranded (view c) t k"
  shows "stranded (view c') t k"
  using assms(1)
proof (induction rule: rtranclp_induct)
  case (step c1 c2)
  have "reachable c1"
    using steps_reachable [OF step(1) assms(2)] .
  then have "contract (view c1) (view c2)"
    using step_evolves [OF step(2)] reachable_lifecycle reachable_contract by (auto simp: evolves_def)
  then show ?case
    using contract_stranded step(3) by blast
qed (rule assms(3))


text \<open>C5. The catalog refines the documented lifecycle: from a reachable catalog, itself the end of a run of the
  contract, every committed transaction moves all documents along one move of the contract, or moves none.\<close>

theorem catalog_refines_contract:
  assumes "reachable c" and "step c c'"
  shows "contract_run (view c) \<and> contract (view c) (view c')"
proof -
  have "contract_run (view c)" "pursued (view c) (operations c)"
    using reachable_contract [OF assms(1)] by simp_all
  then show ?thesis
    using step_evolves [OF assms(2) reachable_lifecycle [OF assms(1)]] by (simp add: evolves_def)
qed

text \<open>C32. A replaced document that failed to be deleted and whose replacement is being deleted, or is gone, is
  stuck: no sequence of transactions, retries and deletions included, ever moves it or unlinks it again.\<close>

theorem replaced_document_stranded:
  assumes "reachable c" and "get_document c t = Some d" and "doc_state d = DELETE_FAILED"
    and "doc_replaced_by d = Some k" and "get_document c k = Some e"
    and "doc_state e \<in> {DELETING, DELETE_FAILED, REJECTED, CANCELLED, DELETED}" and "step\<^sup>*\<^sup>* c c'"
  shows "\<exists>d'. get_document c' t = Some d' \<and> doc_state d' = DELETE_FAILED \<and> doc_replaced_by d' = Some k"
proof -
  have "stranded (view c) t k"
    using view_Some [OF assms(2)] view_Some [OF assms(5)] assms(3,4,6) by (simp add: stranded_def)
  then have "stranded (view c') t k"
    using steps_stranded [OF assms(7,1)] by blast
  then show ?thesis
    by (auto simp: stranded_def view_def)
qed

end
