(* ===== verification/Replacement_Scenario.thy ===== *)
theory Replacement_Scenario
  imports Scenario Document_Contract
begin

text \<open>
  A second document arrives while the first is served, is reviewed and chosen to replace it, and then fails to
  be published and is deleted.  The states are results of the modelled transactions and are reachable.
\<close>

section \<open>States\<close>

text \<open>The second upload has other bytes and goes to review.\<close>

definition incoming_upload :: prepared_admission where
  "incoming_upload = demo_upload\<lparr>pa_staged := \<lparr>sf_size_bytes = 5, sf_sha256 = replicate 64 (CHR ''c''), sf_content = ''%PDF-''\<rparr>\<rparr>"

definition incoming_admission :: "(admission_error + registration \<times> catalog) \<times> files \<times> bool" where
  "incoming_admission = register_admission demo_stdlib demo_respond 50 incoming_upload ''key-0003'' ''user'' ''alice''
     demo_ready demo_files"

definition incoming_admitted :: catalog where
  "incoming_admitted = snd (projr (fst incoming_admission))"

definition incoming_claimed :: catalog where
  "incoming_claimed = snd (snd (projr (claim_next demo_settings 51 51 51 idle_worker incoming_admitted)))"

definition incoming_started :: catalog where
  "incoming_started = snd (projr (create_revision 7 demo_identity 52 incoming_claimed))"

definition incoming_bound :: catalog where
  "incoming_bound = projr (bind_revision ''w1'' 8 9 incoming_started)"

definition incoming_prepared :: catalog where
  "incoming_prepared = projr (upd_revision 9 (seal_demo False) incoming_bound)"

definition incoming_review :: catalog where
  "incoming_review = projr (finish_preflight ''w1'' 8 (demo_sealed False\<lparr>sp_revision_id := 9\<rparr>) 53 incoming_prepared)"

text \<open>The decision to replace, the failure of the publication, and the deletion of the incoming document.\<close>

definition incoming_decided :: catalog where
  "incoming_decided = snd (projr (record_decision 54 7 9 REPLACE (Some 1) demo_reservation ''user'' ''alice'' ''screening''
     incoming_review))"

definition incoming_publishing :: catalog where
  "incoming_publishing = snd (snd (projr (claim_next demo_settings 55 55 55 idle_worker incoming_decided)))"

definition incoming_failed :: catalog where
  "incoming_failed = projr (fail_operation ''w1'' 13 (worker_failure ''qdrant_unavailable'' ''Down.'' True) 56 incoming_publishing)"

definition incoming_deleted :: catalog where
  "incoming_deleted = snd (projr (request_deletion 57 7 demo_reservation ''user'' ''alice'' ''reports_v1'' ''screening''
     incoming_failed))"

definition incoming_deleting :: catalog where
  "incoming_deleting = snd (snd (projr (claim_next demo_settings 58 58 58 idle_worker incoming_deleted)))"

section \<open>Reachability\<close>

text \<open>A transaction that returns leads to a reachable catalog.\<close>

lemma returned:
  assumes "reachable c" and "\<not> isl r" and "\<And>x. r = Inr x \<Longrightarrow> step c (f x)"
  shows "reachable (f (projr r))"
  using assms Inr_projr by (blast intro: reachable.later)

lemma incoming_admitted_reachable: "reachable incoming_admitted"
proof -
  have "\<not> isl (fst incoming_admission)"
    by code_simp
  then show ?thesis
    unfolding incoming_admitted_def
  proof (rule returned [OF demo_ready_reachable])
    fix x assume "fst incoming_admission = Inr x"
    then have "register_admission demo_stdlib demo_respond 50 incoming_upload ''key-0003'' ''user'' ''alice'' demo_ready
        demo_files = (Inr (fst x, snd x), fst (snd incoming_admission), snd (snd incoming_admission))"
      by (simp add: incoming_admission_def prod_eq_iff)
    then show "step demo_ready (snd x)"
      by (rule step.admit)
  qed
qed

lemma incoming_claimed_reachable: "reachable incoming_claimed"
proof -
  have "\<not> isl (claim_next demo_settings 51 51 51 idle_worker incoming_admitted)"
    by code_simp
  then show ?thesis
    unfolding incoming_claimed_def
    by (rule returned [OF incoming_admitted_reachable, where f = "\<lambda>x. snd (snd x)"]) (metis prod.collapse step.claim)
qed

lemma incoming_started_reachable: "reachable incoming_started"
proof -
  have "\<not> isl (create_revision 7 demo_identity 52 incoming_claimed)"
    by code_simp
  then show ?thesis
    unfolding incoming_started_def
    by (rule returned [OF incoming_claimed_reachable]) (metis prod.collapse step.start_revision)
qed

lemma incoming_bound_reachable: "reachable incoming_bound"
proof -
  have "\<not> isl (bind_revision ''w1'' 8 9 incoming_started)"
    by code_simp
  then show ?thesis
    unfolding incoming_bound_def
    by (rule returned [OF incoming_started_reachable, where f = id, simplified]) (rule step.bind)
qed

lemma incoming_prepared_reachable: "reachable incoming_prepared"
proof -
  have run: "\<not> isl (upd_revision 9 (seal_demo False) incoming_bound)"
    by code_simp
  have "map_option rev_status (get_revision incoming_bound 9) = Some REV_PREPARING"
    by code_simp
  then have open_rev: "rev_status r \<noteq> REV_SEALED" if "get_revision incoming_bound 9 = Some r" for r
    using that by simp
  show ?thesis
    unfolding incoming_prepared_def
  proof (rule returned [OF incoming_bound_reachable run, where f = id, simplified])
    fix x assume "upd_revision 9 (seal_demo False) incoming_bound = Inr x"
    then show "step incoming_bound x"
      by (rule step.prepare) (auto simp: open_rev seal_demo_def revision_check_def)
  qed
qed

lemma incoming_review_reachable: "reachable incoming_review"
proof -
  have run: "\<not> isl (finish_preflight ''w1'' 8 (demo_sealed False\<lparr>sp_revision_id := 9\<rparr>) 53 incoming_prepared)"
    by code_simp
  have "on_time 53 incoming_prepared"
    by (rule demo_on_time) code_simp
  then show ?thesis
    unfolding incoming_review_def
    by (intro returned [OF incoming_prepared_reachable run, where f = id, simplified] step.preflighted)
qed

lemma incoming_decided_reachable: "reachable incoming_decided"
proof -
  have "\<not> isl (record_decision 54 7 9 REPLACE (Some 1) demo_reservation ''user'' ''alice'' ''screening'' incoming_review)"
    by code_simp
  then show ?thesis
    unfolding incoming_decided_def
    by (rule returned [OF incoming_review_reachable]) (metis prod.collapse step.decide)
qed

lemma incoming_publishing_reachable: "reachable incoming_publishing"
proof -
  have "\<not> isl (claim_next demo_settings 55 55 55 idle_worker incoming_decided)"
    by code_simp
  then show ?thesis
    unfolding incoming_publishing_def
    by (rule returned [OF incoming_decided_reachable, where f = "\<lambda>x. snd (snd x)"]) (metis prod.collapse step.claim)
qed

lemma incoming_failed_reachable: "reachable incoming_failed"
proof -
  have "\<not> isl (fail_operation ''w1'' 13 (worker_failure ''qdrant_unavailable'' ''Down.'' True) 56 incoming_publishing)"
    by code_simp
  then show ?thesis
    unfolding incoming_failed_def
    by (rule returned [OF incoming_publishing_reachable, where f = id, simplified]) (rule step.fail)
qed

lemma incoming_deleted_reachable: "reachable incoming_deleted"
proof -
  have "\<not> isl (request_deletion 57 7 demo_reservation ''user'' ''alice'' ''reports_v1'' ''screening'' incoming_failed)"
    by code_simp
  then show ?thesis
    unfolding incoming_deleted_def
    by (rule returned [OF incoming_failed_reachable]) (metis prod.collapse step.delete)
qed

lemma incoming_decided_step: "step incoming_review incoming_decided"
proof -
  have "\<not> isl (record_decision 54 7 9 REPLACE (Some 1) demo_reservation ''user'' ''alice'' ''screening'' incoming_review)"
    by code_simp
  from Inr_projr [OF this] show ?thesis
    unfolding incoming_decided_def by (metis prod.collapse step.decide)
qed

lemma incoming_deleting_step: "step incoming_deleted incoming_deleting"
proof -
  have "\<not> isl (claim_next demo_settings 58 58 58 idle_worker incoming_deleted)"
    by code_simp
  from Inr_projr [OF this] show ?thesis
    unfolding incoming_deleting_def by (metis prod.collapse step.claim)
qed

lemma incoming_documents:
  "map_option (\<lambda>d. (doc_state d, doc_replaced_by d)) (get_document incoming_deleted 1) = Some (DELETE_FAILED, Some 7)"
  "map_option doc_state (get_document incoming_deleted 7) = Some DELETING"
  by code_simp+


section \<open>Witnesses\<close>

theorem catalog_refines_contract_witness:
  "contract_run (view incoming_review) \<and> contract (view incoming_review) (view incoming_decided)"
  using catalog_refines_contract [OF incoming_review_reachable incoming_decided_step] .

theorem replaced_document_stranded_witness:
  "\<exists>d. get_document incoming_deleting 1 = Some d \<and> doc_state d = DELETE_FAILED \<and> doc_replaced_by d = Some 7"
proof -
  obtain d e where "get_document incoming_deleted 1 = Some d" "doc_state d = DELETE_FAILED" "doc_replaced_by d = Some 7"
    "get_document incoming_deleted 7 = Some e" "doc_state e = DELETING"
    using incoming_documents by auto
  then show ?thesis
    using replaced_document_stranded [OF incoming_deleted_reachable, of 1 d 7 e incoming_deleting] incoming_deleting_step
    by blast
qed

end
