(* ===== verification/Contracts.thy ===== *)
theory Contracts
  imports Evidence Catalog_Reads
begin

text \<open>
  The response models of the HTTP interface (\<^verbatim>\<open>contracts/schemas.py\<close>): one record per model and its
  field and model validators as a predicate.  Building a response whose fields break a validator raises, which
  is \<^term>\<open>ContractViolation\<close> here; the serializers raise \<^verbatim>\<open>SerializationError\<close> themselves.  Columns the catalog
  model leaves out (modification times, the creation times of decisions and evidence) are left out here too.
\<close>

datatype response_error = Unrepresentable | ContractViolation

definition contract_of :: "('a \<Rightarrow> bool) \<Rightarrow> 'a \<Rightarrow> response_error + 'a" where
  "contract_of valid x = (if valid x then Inr x else Inl ContractViolation)"

lemma contract_of_Inr [simp]: "contract_of valid x = Inr y \<longleftrightarrow> y = x \<and> valid x"
  by (auto simp: contract_of_def)

section \<open>Constrained strings\<close>

definition bounded_length :: "nat \<Rightarrow> nat \<Rightarrow> string \<Rightarrow> bool" where
  "bounded_length low high s \<longleftrightarrow> low \<le> length s \<and> length s \<le> high"

definition optional :: "('a \<Rightarrow> bool) \<Rightarrow> 'a option \<Rightarrow> bool" where
  "optional P x = (case x of None \<Rightarrow> True | Some v \<Rightarrow> P v)"

text \<open>\<^verbatim>\<open>^[a-z0-9][a-z0-9_-]{0,62}$\<close> and \<^verbatim>\<open>^[a-z0-9][a-z0-9._-]{0,99}$\<close>\<close>

definition collection_key_pattern :: "string \<Rightarrow> bool" where
  "collection_key_pattern s \<longleftrightarrow> s \<noteq> [] \<and> length s \<le> 63 \<and> token_char (hd s)
     \<and> list_all (\<lambda>c. token_char c \<or> c \<in> set ''_-'') (tl s)"

definition failure_code_pattern :: "string \<Rightarrow> bool" where
  "failure_code_pattern s \<longleftrightarrow> is_token s \<and> length s \<le> 100"

definition has_control :: "string \<Rightarrow> bool" where
  "has_control s \<longleftrightarrow> list_ex (\<lambda>c. char_code c < 32) s"

section \<open>Pages\<close>

text \<open>\<^verbatim>\<open>CursorPage\<close>: the shape every list answer has.\<close>

record 'a page_response =
  pr_items :: "'a list"
  pr_limit :: int
  pr_next_cursor :: "string option"
  pr_has_more :: bool

definition cursor_char :: "char \<Rightarrow> bool" where
  "cursor_char c = (let n = char_code c in (97 \<le> n \<and> n \<le> 122) \<or> (65 \<le> n \<and> n \<le> 90) \<or> (48 \<le> n \<and> n \<le> 57)
     \<or> c \<in> set ''._~-'')"

definition valid_page_response :: "'a page_response \<Rightarrow> bool" where
  "valid_page_response p \<longleftrightarrow> length (pr_items p) \<le> 100 \<and> 1 \<le> pr_limit p \<and> pr_limit p \<le> 100
     \<and> optional (\<lambda>s. bounded_length 1 2048 s \<and> list_all cursor_char s) (pr_next_cursor p)
     \<and> (pr_has_more p \<longleftrightarrow> pr_next_cursor p \<noteq> None) \<and> int (length (pr_items p)) \<le> pr_limit p"

section \<open>Failures, actions and operations\<close>

record sanitized_failure =
  fl_code :: string
  fl_message :: string
  fl_retryable :: bool
  fl_phase :: "operation_phase option"

definition valid_failure :: "sanitized_failure \<Rightarrow> bool" where
  "valid_failure f \<longleftrightarrow> failure_code_pattern (fl_code f) \<and> bounded_length 1 500 (fl_message f)"

datatype allowed_action = ACT_KEEP | ACT_REPLACE | ACT_CANCEL | ACT_RETRY | ACT_DELETE

datatype priority_name = PN_HIGH | PN_REPLACEMENT | PN_PUBLISH | PN_NORMAL

record operation_response =
  os_id :: uuid
  os_type :: operation_type
  os_state :: operation_state
  os_phase :: operation_phase
  os_priority :: priority_name
  os_attempt :: int
  os_retryable :: bool
  os_created_at :: timestamp
  os_completed_at :: "timestamp option"

definition valid_operation_summary :: "operation_response \<Rightarrow> bool" where
  "valid_operation_summary s \<longleftrightarrow> 1 \<le> os_attempt s"

record operation_detail_response =
  odt_summary :: operation_response
  odt_document_id :: uuid
  odt_revision_id :: "uuid option"
  odt_replacement_target :: "uuid option"
  odt_queue_position :: "nat option"
  odt_queue_age :: int
  odt_phase_age :: int
  odt_started_at :: "timestamp option"
  odt_failure :: "sanitized_failure option"

definition valid_operation_detail :: "operation_detail_response \<Rightarrow> bool" where
  "valid_operation_detail d \<longleftrightarrow> valid_operation_summary (odt_summary d)
     \<and> optional (\<lambda>n. 1 \<le> n) (odt_queue_position d) \<and> 0 \<le> odt_queue_age d \<and> 0 \<le> odt_phase_age d
     \<and> (os_state (odt_summary d) = OP_FAILED \<longrightarrow> odt_failure d \<noteq> None)"

text \<open>\<^verbatim>\<open>OperationMetricBucket\<close> and \<^verbatim>\<open>OperationMetricsResponse\<close>, over the aggregates of the catalog service.\<close>

definition valid_metric_bucket :: "metric_row \<times> int \<times> int \<Rightarrow> bool" where
  "valid_metric_bucket b \<longleftrightarrow> 1 \<le> mr_count (fst b) \<and> 0 \<le> fst (snd b) \<and> 0 \<le> snd (snd b)"

definition valid_metrics_response :: "operation_metrics \<Rightarrow> bool" where
  "valid_metrics_response m \<longleftrightarrow>
     (let count = (\<lambda>P. sum_list (map (mr_count \<circ> fst) (filter (\<lambda>b. P (mr_state (fst b))) (om_buckets m))))
      in length (om_buckets m) \<le> 100 \<and> list_all valid_metric_bucket (om_buckets m)
         \<and> optional (\<lambda>age. 0 \<le> age) (om_oldest_queued_age m)
         \<and> om_total m = count (\<lambda>_. True) \<and> om_queued m = count (\<lambda>s. s = OP_QUEUED)
         \<and> om_running m = count (\<lambda>s. s = OP_RUNNING) \<and> om_failed m = count (\<lambda>s. s = OP_FAILED)
         \<and> (om_queued m = 0 \<longleftrightarrow> om_oldest_queued_age m = None))"

section \<open>Documents\<close>

record source_response =
  sm_original_filename :: string
  sm_content_type :: string
  sm_size_bytes :: int
  sm_sha256 :: string
  sm_created_by :: string
  sm_created_at :: timestamp
  sm_scan_state :: scan_state
  sm_scan_engine :: "string option"
  sm_scanned_at :: "timestamp option"
  sm_available :: bool

definition valid_source_metadata :: "source_response \<Rightarrow> bool" where
  "valid_source_metadata s \<longleftrightarrow> bounded_length 1 255 (sm_original_filename s) \<and> sm_content_type s = ''application/pdf''
     \<and> 1 \<le> sm_size_bytes s \<and> is_sha256 (sm_sha256 s) \<and> bounded_length 1 255 (sm_created_by s)
     \<and> optional (bounded_length 0 100) (sm_scan_engine s)"

record document_response =
  dsm_id :: uuid
  dsm_collection_key :: string
  dsm_original_filename :: string
  dsm_content_type :: string
  dsm_size_bytes :: int
  dsm_sha256 :: string
  dsm_created_by :: string
  dsm_state :: document_state
  dsm_created_at :: timestamp
  dsm_ready_at :: "timestamp option"
  dsm_failure :: "sanitized_failure option"
  dsm_allowed_actions :: "allowed_action list"

definition valid_document_summary :: "document_response \<Rightarrow> bool" where
  "valid_document_summary d \<longleftrightarrow> collection_key_pattern (dsm_collection_key d)
     \<and> bounded_length 1 255 (dsm_original_filename d) \<and> dsm_content_type d = ''application/pdf''
     \<and> 1 \<le> dsm_size_bytes d \<and> is_sha256 (dsm_sha256 d) \<and> bounded_length 1 255 (dsm_created_by d)
     \<and> length (dsm_allowed_actions d) \<le> 5 \<and> distinct (dsm_allowed_actions d)"

record completeness_response =
  pcr_native_text_eligible :: bool
  pcr_formatter_complete :: bool
  pcr_vector_complete :: bool
  pcr_candidate_discovery_complete :: bool
  pcr_advisory_complete :: bool
  pcr_clear_for_publication :: bool
  pcr_incomplete_reasons :: "string list"

definition valid_completeness :: "completeness_response \<Rightarrow> bool" where
  "valid_completeness p \<longleftrightarrow> length (pcr_incomplete_reasons p) \<le> 50 \<and> list_all failure_code_pattern (pcr_incomplete_reasons p)"

record revision_response =
  rs_id :: uuid
  rs_number :: int
  rs_status :: revision_status
  rs_active_collection :: string
  rs_content_profile_id :: string
  rs_index_profile_id :: string
  rs_preflight_policy_id :: string
  rs_formatter_model_id :: string
  rs_dense_model_id :: string
  rs_dense_dimension :: int
  rs_sparse_model_id :: string
  rs_language_code :: "string option"
  rs_completeness :: completeness_response
  rs_page_count :: "int option"
  rs_chunk_count :: "int option"
  rs_expected_point_count :: "int option"
  rs_markdown_sha256 :: "string option"
  rs_manifest_sha256 :: "string option"
  rs_failure :: "sanitized_failure option"
  rs_created_at :: timestamp
  rs_sealed_at :: "timestamp option"

definition valid_revision_summary :: "revision_response \<Rightarrow> bool" where
  "valid_revision_summary r \<longleftrightarrow> 1 \<le> rs_number r \<and> bounded_length 1 255 (rs_active_collection r)
     \<and> is_profile_id (rs_content_profile_id r) \<and> is_profile_id (rs_index_profile_id r)
     \<and> is_profile_id (rs_preflight_policy_id r) \<and> bounded_length 1 255 (rs_formatter_model_id r)
     \<and> bounded_length 1 255 (rs_dense_model_id r) \<and> rs_dense_dimension r = 768
     \<and> bounded_length 1 255 (rs_sparse_model_id r) \<and> optional (bounded_length 2 16) (rs_language_code r)
     \<and> valid_completeness (rs_completeness r)
     \<and> optional (\<lambda>n. 0 \<le> n) (rs_page_count r) \<and> optional (\<lambda>n. 0 \<le> n) (rs_chunk_count r)
     \<and> optional (\<lambda>n. 0 \<le> n) (rs_expected_point_count r)
     \<and> optional is_sha256 (rs_markdown_sha256 r) \<and> optional is_sha256 (rs_manifest_sha256 r)
     \<and> (rs_status r = REV_SEALED \<longrightarrow>
          \<not> (rs_manifest_sha256 r = None \<or> rs_sealed_at r = None \<or> rs_page_count r = None
             \<or> rs_chunk_count r = None \<or> rs_expected_point_count r \<noteq> rs_chunk_count r))"

record publication_response =
  ps_id :: uuid
  ps_revision_id :: uuid
  ps_active_collection :: string
  ps_status :: publication_status
  ps_expected_points :: int
  ps_verified_points :: "int option"
  ps_payload_revision_verified :: bool
  ps_vector_schema_verified :: bool
  ps_screening_zero_verified :: bool
  ps_failure :: "sanitized_failure option"
  ps_created_at :: timestamp
  ps_verified_at :: "timestamp option"

definition valid_publication_summary :: "publication_response \<Rightarrow> bool" where
  "valid_publication_summary p \<longleftrightarrow> bounded_length 1 255 (ps_active_collection p) \<and> 0 \<le> ps_expected_points p
     \<and> optional (\<lambda>n. 0 \<le> n) (ps_verified_points p)
     \<and> (ps_status p = PUB_VERIFIED \<longrightarrow>
          \<not> (ps_verified_points p \<noteq> Some (ps_expected_points p) \<or> \<not> ps_payload_revision_verified p
             \<or> \<not> ps_vector_schema_verified p \<or> \<not> ps_screening_zero_verified p \<or> ps_verified_at p = None))"

record deletion_response =
  dls_disposition :: terminal_disposition
  dls_phase :: deletion_phase
  dls_active_collection :: string
  dls_screening_collection :: string
  dls_attempts :: int
  dls_active_zero_at :: "timestamp option"
  dls_screening_zero_at :: "timestamp option"
  dls_storage_purged_at :: "timestamp option"
  dls_tombstoned_at :: "timestamp option"
  dls_failure :: "sanitized_failure option"

definition valid_deletion_summary :: "deletion_response \<Rightarrow> bool" where
  "valid_deletion_summary d \<longleftrightarrow> bounded_length 1 255 (dls_active_collection d)
     \<and> bounded_length 1 255 (dls_screening_collection d) \<and> 0 \<le> dls_attempts d
     \<and> \<not> dls_active_collection d = dls_screening_collection d"

record decision_response =
  dcs_id :: uuid
  dcs_revision_id :: uuid
  dcs_manifest_sha256 :: string
  dcs_action :: decision_action
  dcs_target_document_id :: "uuid option"
  dcs_actor_type :: string
  dcs_actor_id :: string

definition valid_decision_summary :: "decision_response \<Rightarrow> bool" where
  "valid_decision_summary d \<longleftrightarrow> is_sha256 (dcs_manifest_sha256 d) \<and> bounded_length 1 50 (dcs_actor_type d)
     \<and> bounded_length 1 255 (dcs_actor_id d)"

record replacement_response =
  rps_decision_id :: uuid
  rps_old_document_id :: uuid
  rps_new_document_id :: uuid
  rps_old_document_state :: document_state
  rps_new_document_state :: document_state
  rps_operation_id :: "uuid option"
  rps_phase :: "operation_phase option"
  rps_completed_at :: "timestamp option"

record document_detail_response =
  dd_summary :: document_response
  dd_source :: source_response
  dd_terminal_disposition :: "terminal_disposition option"
  dd_current_operation :: "operation_response option"
  dd_prepared_revision :: "revision_response option"
  dd_publication :: "publication_response option"
  dd_deletion :: "deletion_response option"
  dd_replacement :: "replacement_response option"
  dd_decision :: "decision_response option"

section \<open>Collections, content and candidates\<close>

record collection_response =
  cs_key :: string
  cs_display_name :: string
  cs_description :: string
  cs_audience :: string
  cs_enabled :: bool
  cs_total :: nat
  cs_by_state :: "(document_state \<times> nat) list"

definition all_document_states :: "document_state list" where
  "all_document_states = [PREFLIGHTING, PREFLIGHT_FAILED, REVIEW_REQUIRED, PUBLISHING, PUBLISH_FAILED, READY,
     DELETING, DELETE_FAILED, REJECTED, CANCELLED, DELETED]"

definition valid_collection_summary :: "collection_response \<Rightarrow> bool" where
  "valid_collection_summary s \<longleftrightarrow> collection_key_pattern (cs_key s) \<and> bounded_length 1 255 (cs_display_name s)
     \<and> bounded_length 1 2000 (cs_description s) \<and> bounded_length 1 63 (cs_audience s)
     \<and> set (map fst (cs_by_state s)) = set all_document_states
     \<and> sum_list (map snd (cs_by_state s)) = cs_total s"

record markdown_page_response =
  mkp_page_number :: int
  mkp_markdown :: string
  mkp_markdown_sha256 :: string
  mkp_source_projection_sha256 :: string
  mkp_markdown_projection_sha256 :: string
  mkp_slice_count :: nat

definition valid_markdown_page :: "markdown_page_response \<Rightarrow> bool" where
  "valid_markdown_page p \<longleftrightarrow> 1 \<le> mkp_page_number p \<and> bounded_length 1 5000000 (mkp_markdown p)
     \<and> is_sha256 (mkp_markdown_sha256 p) \<and> is_sha256 (mkp_source_projection_sha256 p)
     \<and> is_sha256 (mkp_markdown_projection_sha256 p) \<and> 1 \<le> mkp_slice_count p"

record markdown_response =
  mkd_document_id :: uuid
  mkd_revision_id :: uuid
  mkd_markdown_sha256 :: string
  mkd_markdown :: string
  mkd_pages :: "markdown_page_response list"

definition valid_markdown_document :: "markdown_response \<Rightarrow> bool" where
  "valid_markdown_document d \<longleftrightarrow> is_sha256 (mkd_markdown_sha256 d) \<and> bounded_length 1 5000000 (mkd_markdown d)
     \<and> 1 \<le> length (mkd_pages d) \<and> length (mkd_pages d) \<le> 2000
     \<and> map mkp_page_number (mkd_pages d) = map int [1..<Suc (length (mkd_pages d))]"

record chunk_response =
  cr_id :: uuid
  cr_revision_id :: uuid
  cr_index :: int
  cr_page_start :: int
  cr_page_end :: int
  cr_heading_path :: "string list"
  cr_token_count :: int
  cr_text_sha256 :: string
  cr_markdown :: string

definition valid_chunk_response :: "chunk_response \<Rightarrow> bool" where
  "valid_chunk_response k \<longleftrightarrow> 0 \<le> cr_index k \<and> 1 \<le> cr_page_start k \<and> 1 \<le> cr_page_end k
     \<and> length (cr_heading_path k) \<le> 32
     \<and> \<not> list_ex (\<lambda>h. py_strip h = [] \<or> 500 < length h) (cr_heading_path k)
     \<and> 1 \<le> cr_token_count k \<and> cr_token_count k \<le> 384 \<and> is_sha256 (cr_text_sha256 k)
     \<and> bounded_length 1 100000 (cr_markdown k) \<and> \<not> cr_page_end k < cr_page_start k"

record tombstone_response =
  ts_id :: uuid
  ts_document_id :: uuid
  ts_collection_key :: string
  ts_disposition :: terminal_disposition
  ts_source_sha256 :: string
  ts_manifest_sha256 :: "string option"
  ts_reason_code :: "string option"
  ts_actor_type :: string
  ts_actor_id :: string
  ts_occurred_at :: timestamp

definition valid_tombstone_summary :: "tombstone_response \<Rightarrow> bool" where
  "valid_tombstone_summary t \<longleftrightarrow> collection_key_pattern (ts_collection_key t) \<and> is_sha256 (ts_source_sha256 t)
     \<and> optional is_sha256 (ts_manifest_sha256 t) \<and> optional failure_code_pattern (ts_reason_code t)
     \<and> bounded_length 1 50 (ts_actor_type t) \<and> bounded_length 1 255 (ts_actor_id t)"

section \<open>Requests\<close>

text \<open>\<^verbatim>\<open>DecisionRequest\<close>: a target goes with REPLACE and only with it.\<close>

definition valid_decision_request :: "decision_action \<Rightarrow> uuid option \<Rightarrow> bool" where
  "valid_decision_request action target \<longleftrightarrow>
     \<not> (action = REPLACE \<and> target = None) \<and> \<not> (action \<noteq> REPLACE \<and> target \<noteq> None)"

text \<open>\<^verbatim>\<open>NameCheckRequest\<close>: the bounds are checked on the text as sent, the rest on the stripped text.\<close>

definition name_check_filename :: "string \<Rightarrow> string option" where
  "name_check_filename value =
     (let filename = py_strip value
      in if \<not> bounded_length 1 255 value then None
         else if filename = [] \<or> \<not> ends_with ''.pdf'' (casefold filename) \<or> CHR ''/'' \<in> set filename
           \<or> CHR 0x5C \<in> set filename \<or> has_control filename
         then None else Some filename)"

section \<open>Retrieval\<close>

datatype search_mode = SM_KEYWORD | SM_SEMANTIC | SM_HYBRID

record search_request =
  sq_collection_key :: string
  sq_query :: string
  sq_mode :: search_mode
  sq_limit :: int

text \<open>\<^verbatim>\<open>query_is_bounded_text\<close>, the validator of requests and answers.\<close>

definition search_query :: "string \<Rightarrow> string option" where
  "search_query value =
     (let q = py_strip value
      in if \<not> bounded_length 1 1000 value then None else if q = [] \<or> has_control q then None else Some q)"

definition search_request_of :: "string \<Rightarrow> string \<Rightarrow> search_mode \<Rightarrow> int \<Rightarrow> search_request option" where
  "search_request_of key value mode limit =
     (if \<not> collection_key_pattern key \<or> limit < 1 \<or> 100 < limit then None
      else case search_query value of None \<Rightarrow> None
        | Some q \<Rightarrow> Some \<lparr>sq_collection_key = key, sq_query = q, sq_mode = mode, sq_limit = limit\<rparr>)"

text \<open>
  \<^verbatim>\<open>OperatorSearchHit\<close> and \<^verbatim>\<open>OperatorSearchResponse\<close>.  A score is \<open>None\<close> when it is not finite.
\<close>

record search_hit =
  sh_rank :: int
  sh_document_id :: uuid
  sh_revision_id :: uuid
  sh_collection_key :: string
  sh_original_filename :: string
  sh_chunk_id :: "uuid option"
  sh_page_start :: "int option"
  sh_page_end :: "int option"
  sh_heading_path :: "string list"
  sh_score :: "rat option"
  sh_excerpt :: string

definition valid_search_hit :: "search_hit \<Rightarrow> bool" where
  "valid_search_hit h \<longleftrightarrow> 1 \<le> sh_rank h \<and> sh_rank h \<le> 100 \<and> collection_key_pattern (sh_collection_key h)
     \<and> bounded_length 1 255 (sh_original_filename h)
     \<and> optional (\<lambda>n. 1 \<le> n) (sh_page_start h) \<and> optional (\<lambda>n. 1 \<le> n) (sh_page_end h)
     \<and> length (sh_heading_path h) \<le> 32 \<and> sh_score h \<noteq> None \<and> bounded_length 1 4000 (sh_excerpt h)
     \<and> (sh_page_start h = None \<longleftrightarrow> sh_page_end h = None)
     \<and> (case (sh_page_start h, sh_page_end h) of (Some a, Some b) \<Rightarrow> \<not> b < a | _ \<Rightarrow> True)"

record search_response =
  sx_collection_key :: string
  sx_query :: string
  sx_mode :: search_mode
  sx_results :: "search_hit list"

definition valid_search_response :: "search_response \<Rightarrow> bool" where
  "valid_search_response s \<longleftrightarrow> collection_key_pattern (sx_collection_key s) \<and> length (sx_results s) \<le> 100
     \<and> list_all valid_search_hit (sx_results s)
     \<and> \<not> list_ex (\<lambda>h. sh_collection_key h \<noteq> sx_collection_key s) (sx_results s)
     \<and> map sh_rank (sx_results s) = map int [1..<Suc (length (sx_results s))]
     \<and> distinct (map (\<lambda>h. (sh_document_id h, sh_chunk_id h)) (sx_results s))
     \<and> \<not> list_ex (\<lambda>h. sh_score h = None) (sx_results s)"

text \<open>The answer with its query normalised, when all validators accept it.\<close>

definition search_response_of :: "search_response \<Rightarrow> search_response option" where
  "search_response_of raw =
     (case search_query (sx_query raw) of
        None \<Rightarrow> None
      | Some q \<Rightarrow> if valid_search_response raw then Some (raw\<lparr>sx_query := q\<rparr>) else None)"

end
