(* ===== verification/Serializers.thy ===== *)
theory Serializers
  imports Contracts
begin

text \<open>
  The conversion of catalog rows to responses (\<^verbatim>\<open>presentation/api_serializers.py\<close>) and the composition of
  responses in \<^verbatim>\<open>managers/catalog.py\<close>.  Times are UTC numbers in the catalog model, so their normalisation is the
  identity.
\<close>

section \<open>Failures and actions\<close>

definition shown_failure ::
  "string option \<Rightarrow> string option \<Rightarrow> bool \<Rightarrow> operation_phase option \<Rightarrow> bool \<Rightarrow> string option
     \<Rightarrow> response_error + sanitized_failure option" where
  "shown_failure code message retryable phase required fallback =
     (case code of
        None \<Rightarrow> if required \<or> message \<noteq> None then Inl Unrepresentable else Inr None
      | Some c \<Rightarrow>
          (case (if message = None \<or> message = Some [] then fallback else message) of
             None \<Rightarrow> Inl Unrepresentable
           | Some m \<Rightarrow> rbind (contract_of valid_failure
                \<lparr>fl_code = c, fl_message = m, fl_retryable = retryable, fl_phase = phase\<rparr>) (\<lambda>f. Inr (Some f))))"

definition priority_name_of :: "int \<Rightarrow> response_error + priority_name" where
  "priority_name_of p =
     (case find (\<lambda>(k, _). k = p) [(priority_int HIGH, PN_HIGH), (priority_int REPLACEMENT, PN_REPLACEMENT),
        (priority_int PRIO_PUBLISH, PN_PUBLISH), (priority_int NORMAL, PN_NORMAL)] of
        None \<Rightarrow> Inl Unrepresentable
      | Some (_, n) \<Rightarrow> Inr n)"

definition allowed_actions :: "document \<Rightarrow> allowed_action list" where
  "allowed_actions d =
     (if doc_state d = REVIEW_REQUIRED then [ACT_KEEP, ACT_REPLACE, ACT_CANCEL, ACT_DELETE]
      else if doc_state d \<in> {PREFLIGHT_FAILED, PUBLISH_FAILED}
      then (if doc_failure_retryable d then [ACT_RETRY] else []) @ [ACT_DELETE]
      else if doc_state d = READY then [ACT_DELETE]
      else if doc_state d = DELETE_FAILED
      then (if doc_failure_retryable d then [ACT_RETRY] else []) @ [ACT_DELETE]
      else [])"

section \<open>Operations\<close>

definition operation_summary :: "work_operation \<Rightarrow> response_error + operation_response" where
  "operation_summary w =
     rbind (priority_name_of (op_priority w)) (\<lambda>priority.
     contract_of valid_operation_summary
       \<lparr>os_id = op_id w, os_type = op_type w, os_state = op_state w, os_phase = op_phase w, os_priority = priority,
        os_attempt = op_attempt w, os_retryable = op_retryable w, os_created_at = op_created_at w,
        os_completed_at = op_completed_at w\<rparr>)"

definition operation_detail :: "work_operation \<Rightarrow> nat option \<Rightarrow> timestamp \<Rightarrow> response_error + operation_detail_response" where
  "operation_detail w position now =
     rbind (shown_failure (op_failure_code w) (op_failure_message w) (op_retryable w) (Some (op_phase w))
              (op_state w = OP_FAILED) None) (\<lambda>failure.
     rbind (operation_summary w) (\<lambda>summary.
     contract_of valid_operation_detail
       \<lparr>odt_summary = summary, odt_document_id = op_document_id w, odt_revision_id = op_revision_id w,
        odt_replacement_target = op_replacement_target w, odt_queue_position = position,
        odt_queue_age = max (now - op_created_at w) 0, odt_phase_age = max (now - op_phase_started_at w) 0,
        odt_started_at = op_started_at w, odt_failure = failure\<rparr>))"

section \<open>Documents\<close>

definition document_summary :: "document \<Rightarrow> work_operation option \<Rightarrow> response_error + document_response" where
  "document_summary d operation =
     rbind (shown_failure (doc_failure_code d) (doc_failure_message d) (doc_failure_retryable d) (map_option op_phase operation)
              (doc_state d \<in> {PREFLIGHT_FAILED, PUBLISH_FAILED, DELETE_FAILED}) None) (\<lambda>failure.
     contract_of valid_document_summary
       \<lparr>dsm_id = doc_id d, dsm_collection_key = doc_collection_key d, dsm_original_filename = doc_original_filename d,
        dsm_content_type = doc_content_type d, dsm_size_bytes = doc_size_bytes d, dsm_sha256 = doc_sha256 d,
        dsm_created_by = doc_created_by d, dsm_state = doc_state d, dsm_created_at = doc_created_at d,
        dsm_ready_at = doc_ready_at d, dsm_failure = failure, dsm_allowed_actions = allowed_actions d\<rparr>)"

text \<open>\<^verbatim>\<open>upload_accepted_response\<close> and \<^verbatim>\<open>mutation_response\<close>: a document, its operation and the replay mark.\<close>

definition mutation_response ::
  "document \<Rightarrow> work_operation \<Rightarrow> bool \<Rightarrow> response_error + document_response \<times> operation_response \<times> bool" where
  "mutation_response d w replay =
     rbind (document_summary d (Some w)) (\<lambda>document.
     rbind (operation_summary w) (\<lambda>operation. Inr (document, operation, replay)))"

definition source_metadata :: "document \<Rightarrow> response_error + source_response" where
  "source_metadata d =
     (if doc_scan_state d \<noteq> SCAN_CLEAN then Inl Unrepresentable
      else if doc_scanned_at d = None \<or> doc_scan_engine d = None \<or> doc_scan_engine d = Some [] then Inl Unrepresentable
      else contract_of valid_source_metadata
       \<lparr>sm_original_filename = doc_original_filename d, sm_content_type = doc_content_type d,
        sm_size_bytes = doc_size_bytes d, sm_sha256 = doc_sha256 d, sm_created_by = doc_created_by d,
        sm_created_at = doc_created_at d, sm_scan_state = doc_scan_state d, sm_scan_engine = doc_scan_engine d,
        sm_scanned_at = doc_scanned_at d,
        sm_available = (doc_storage_key d \<noteq> None \<and> doc_state d \<in> {PREFLIGHTING, PREFLIGHT_FAILED, REVIEW_REQUIRED,
          PUBLISHING, PUBLISH_FAILED, READY})\<rparr>)"

definition completeness_of :: "prepared_revision \<Rightarrow> response_error + completeness_response" where
  "completeness_of r = contract_of valid_completeness
     \<lparr>pcr_native_text_eligible = rev_native_text_eligible r, pcr_formatter_complete = rev_formatter_complete r,
      pcr_vector_complete = rev_vector_complete r, pcr_candidate_discovery_complete = rev_candidate_discovery_complete r,
      pcr_advisory_complete = rev_advisory_complete r, pcr_clear_for_publication = rev_clear_for_publication r,
      pcr_incomplete_reasons = rev_incomplete_reasons r\<rparr>"

definition prepared_revision_summary ::
  "prepared_revision \<Rightarrow> document option \<Rightarrow> work_operation option \<Rightarrow> response_error + revision_response" where
  "prepared_revision_summary r document operation =
     rbind (shown_failure (rev_failure_code r) (rev_failure_message r)
              (case document of None \<Rightarrow> False | Some d \<Rightarrow> doc_failure_retryable d) (map_option op_phase operation)
              (rev_status r = REV_FAILED) None) (\<lambda>failure.
     rbind (completeness_of r) (\<lambda>completeness.
     contract_of valid_revision_summary
       \<lparr>rs_id = rev_id r, rs_number = rev_number r, rs_status = rev_status r, rs_active_collection = rev_active_collection r,
        rs_content_profile_id = rev_content_profile_id r, rs_index_profile_id = rev_index_profile_id r,
        rs_preflight_policy_id = rev_preflight_policy_id r, rs_formatter_model_id = rev_formatter_model_id r,
        rs_dense_model_id = rev_dense_model_id r, rs_dense_dimension = rev_dense_dimension r,
        rs_sparse_model_id = rev_sparse_model_id r, rs_language_code = rev_language_code r,
        rs_completeness = completeness, rs_page_count = rev_page_count r, rs_chunk_count = rev_chunk_count r,
        rs_expected_point_count = rev_expected_point_count r, rs_markdown_sha256 = rev_markdown_sha256 r,
        rs_manifest_sha256 = rev_manifest_sha256 r, rs_failure = failure, rs_created_at = rev_created_at r,
        rs_sealed_at = rev_sealed_at r\<rparr>))"

definition publication_summary :: "publication_record \<Rightarrow> document \<Rightarrow> response_error + publication_response" where
  "publication_summary p d =
     rbind (shown_failure (pub_failure_code p) None (doc_failure_retryable d) (Some VERIFY_ACTIVE_POINTS)
              (pub_status p = PUB_FAILED) (Some ''Publication did not reach verified completeness.'')) (\<lambda>failure.
     contract_of valid_publication_summary
       \<lparr>ps_id = pub_id p, ps_revision_id = pub_revision_id p, ps_active_collection = pub_active_collection p,
        ps_status = pub_status p, ps_expected_points = pub_expected_points p, ps_verified_points = pub_verified_points p,
        ps_payload_revision_verified = pub_payload_revision_verified p,
        ps_vector_schema_verified = pub_vector_schema_verified p,
        ps_screening_zero_verified = pub_screening_zero_verified p, ps_failure = failure,
        ps_created_at = pub_created_at p, ps_verified_at = pub_verified_at p\<rparr>)"

definition deletion_summary :: "deletion_progress \<Rightarrow> document \<Rightarrow> response_error + deletion_response" where
  "deletion_summary p d =
     (let code = (if del_failure_code p = None \<or> del_failure_code p = Some [] then doc_failure_code d else del_failure_code p)
      in rbind (shown_failure code (doc_failure_message d) (doc_failure_retryable d) (Some (operation_phase_of (del_phase p)))
              (doc_state d = DELETE_FAILED) (Some ''Verified document deletion did not complete.'')) (\<lambda>failure.
     contract_of valid_deletion_summary
       \<lparr>dls_disposition = del_disposition p, dls_phase = del_phase p, dls_active_collection = del_active_collection p,
        dls_screening_collection = del_screening_collection p, dls_attempts = del_attempts p,
        dls_active_zero_at = del_active_zero_at p, dls_screening_zero_at = del_screening_zero_at p,
        dls_storage_purged_at = del_storage_purged_at p, dls_tombstoned_at = del_tombstoned_at p,
        dls_failure = failure\<rparr>))"

definition decision_summary :: "decision \<Rightarrow> response_error + decision_response" where
  "decision_summary x =
     (if (dec_action x = REPLACE) \<noteq> (dec_target_document_id x \<noteq> None) then Inl Unrepresentable
      else contract_of valid_decision_summary
       \<lparr>dcs_id = dec_id x, dcs_revision_id = dec_revision_id x, dcs_manifest_sha256 = dec_manifest_sha256 x,
        dcs_action = dec_action x, dcs_target_document_id = dec_target_document_id x,
        dcs_actor_type = dec_actor_type x, dcs_actor_id = dec_actor_id x\<rparr>)"

definition replacement_summary ::
  "decision \<Rightarrow> document \<Rightarrow> document \<Rightarrow> work_operation option \<Rightarrow> response_error + replacement_response" where
  "replacement_summary x old new operation =
     (if dec_action x \<noteq> REPLACE \<or> dec_document_id x \<noteq> doc_id new \<or> dec_target_document_id x \<noteq> Some (doc_id old)
         \<or> doc_replaced_by old \<noteq> Some (doc_id new) \<or> doc_collection_key old \<noteq> doc_collection_key new
      then Inl Unrepresentable
      else if (case operation of None \<Rightarrow> False | Some w \<Rightarrow> op_replacement_target w \<noteq> Some (doc_id old))
      then Inl Unrepresentable
      else Inr \<lparr>rps_decision_id = dec_id x, rps_old_document_id = doc_id old, rps_new_document_id = doc_id new,
        rps_old_document_state = doc_state old, rps_new_document_state = doc_state new,
        rps_operation_id = map_option op_id operation, rps_phase = map_option op_phase operation,
        rps_completed_at = (if doc_state old = DELETED \<and> doc_state new = READY then doc_ready_at new else None)\<rparr>)"

text \<open>A response part that is absent when its row is.\<close>

fun opt_part :: "('a \<Rightarrow> response_error + 'b) \<Rightarrow> 'a option \<Rightarrow> response_error + 'b option" where
  "opt_part f None = Inr None"
| "opt_part f (Some x) = rbind (f x) (\<lambda>y. Inr (Some y))"

definition document_detail ::
  "document \<Rightarrow> work_operation option \<Rightarrow> prepared_revision option \<Rightarrow> decision option \<Rightarrow> publication_record option
     \<Rightarrow> deletion_progress option \<Rightarrow> replacement_response option \<Rightarrow> response_error + document_detail_response" where
  "document_detail d operation revision decision publication deletion replacement =
     (if decision \<noteq> None \<and> revision = None then Inl Unrepresentable
      else if publication \<noteq> None \<and> revision = None then Inl Unrepresentable
      else
      rbind (document_summary d operation) (\<lambda>summary.
      rbind (source_metadata d) (\<lambda>source.
      rbind (opt_part operation_summary operation) (\<lambda>current.
      rbind (opt_part (\<lambda>r. prepared_revision_summary r (Some d) operation) revision) (\<lambda>prepared.
      rbind (opt_part (\<lambda>p. publication_summary p d) publication) (\<lambda>published.
      rbind (opt_part (\<lambda>p. deletion_summary p d) deletion) (\<lambda>removal.
      rbind (opt_part decision_summary decision) (\<lambda>decided.
      Inr \<lparr>dd_summary = summary, dd_source = source, dd_terminal_disposition = doc_terminal_disposition d,
        dd_current_operation = current, dd_prepared_revision = prepared, dd_publication = published,
        dd_deletion = removal, dd_replacement = replacement, dd_decision = decided\<rparr>))))))))"

section \<open>Collections and content\<close>

definition collection_summary :: "collection_definition \<Rightarrow> (document_state \<Rightarrow> nat) \<Rightarrow> response_error + collection_response" where
  "collection_summary definition_of counts =
     (let by_state = map (\<lambda>s. (s, counts s)) all_document_states
      in contract_of valid_collection_summary
       \<lparr>cs_key = cd_key definition_of, cs_display_name = cd_display_name definition_of,
        cs_description = cd_description definition_of, cs_audience = cd_audience definition_of,
        cs_enabled = cd_enabled definition_of, cs_total = sum_list (map snd by_state), cs_by_state = by_state\<rparr>)"

text \<open>The number of formatter slices of a stored page.\<close>

definition slice_count :: "json \<Rightarrow> nat" where
  "slice_count j = (case j of JArr xs \<Rightarrow> length xs | _ \<Rightarrow> 0)"

definition markdown_page_of :: "stdlib \<Rightarrow> prepared_page \<Rightarrow> response_error + markdown_page_response" where
  "markdown_page_of sl p =
     (if sl_sha256 sl (pp_markdown p) \<noteq> pp_markdown_sha256 p then Inl Unrepresentable
      else if slice_count (pp_slices p) = 0 then Inl Unrepresentable
      else contract_of valid_markdown_page
       \<lparr>mkp_page_number = pp_page_number p, mkp_markdown = pp_markdown p, mkp_markdown_sha256 = pp_markdown_sha256 p,
        mkp_source_projection_sha256 = pp_source_projection_sha256 p,
        mkp_markdown_projection_sha256 = pp_markdown_projection_sha256 p, mkp_slice_count = slice_count (pp_slices p)\<rparr>)"

fun all_parts :: "('a \<Rightarrow> response_error + 'b) \<Rightarrow> 'a list \<Rightarrow> response_error + 'b list" where
  "all_parts f [] = Inr []"
| "all_parts f (x # xs) = rbind (f x) (\<lambda>y. rbind (all_parts f xs) (\<lambda>ys. Inr (y # ys)))"

definition markdown_document ::
  "stdlib \<Rightarrow> prepared_revision \<Rightarrow> prepared_page list \<Rightarrow> string \<Rightarrow> response_error + markdown_response" where
  "markdown_document sl r pages markdown =
     (case rev_markdown_sha256 r of
        None \<Rightarrow> Inl Unrepresentable
      | Some digest \<Rightarrow>
          if sl_sha256 sl markdown \<noteq> digest then Inl Unrepresentable
          else rbind (all_parts (markdown_page_of sl) (sort_key pp_page_number pages)) (\<lambda>ps.
            if rev_page_count r \<noteq> Some (int (length ps)) then Inl Unrepresentable
            else contract_of valid_markdown_document
              \<lparr>mkd_document_id = rev_document_id r, mkd_revision_id = rev_id r, mkd_markdown_sha256 = digest,
               mkd_markdown = markdown, mkd_pages = ps\<rparr>))"

definition chunk_part :: "stdlib \<Rightarrow> prepared_chunk \<Rightarrow> response_error + chunk_response" where
  "chunk_part sl k =
     (if sl_sha256 sl (chk_markdown k) \<noteq> chk_text_sha256 k then Inl Unrepresentable
      else contract_of valid_chunk_response
       \<lparr>cr_id = chk_id k, cr_revision_id = chk_revision_id k, cr_index = chk_index k, cr_page_start = chk_page_start k,
        cr_page_end = chk_page_end k, cr_heading_path = chk_heading_path k, cr_token_count = chk_token_count k,
        cr_text_sha256 = chk_text_sha256 k, cr_markdown = chk_markdown k\<rparr>)"

definition tombstone_summary :: "tombstone \<Rightarrow> response_error + tombstone_response" where
  "tombstone_summary t = contract_of valid_tombstone_summary
     \<lparr>ts_id = tomb_id t, ts_document_id = tomb_document_id t, ts_collection_key = tomb_collection_key t,
      ts_disposition = tomb_disposition t, ts_source_sha256 = tomb_source_sha256 t,
      ts_manifest_sha256 = tomb_manifest_sha256 t, ts_reason_code = tomb_reason_code t,
      ts_actor_type = tomb_actor_type t, ts_actor_id = tomb_actor_id t, ts_occurred_at = tomb_occurred_at t\<rparr>"

section \<open>Answers of the coordinators\<close>

text \<open>A request is refusal by a service, or its answer cannot be represented.\<close>

datatype view_error = Refused lifecycle_error | Unserializable response_error

definition refusal :: "lifecycle_error + 'a \<Rightarrow> view_error + 'a" where
  "refusal x = (case x of Inl e \<Rightarrow> Inl (Refused e) | Inr a \<Rightarrow> Inr a)"

definition represented :: "response_error + 'a \<Rightarrow> view_error + 'a" where
  "represented x = (case x of Inl e \<Rightarrow> Inl (Unserializable e) | Inr a \<Rightarrow> Inr a)"

text \<open>The list answers: the items of a page, then the checks of \<^verbatim>\<open>CursorPage\<close>.\<close>

definition page_view :: "('a \<Rightarrow> response_error + 'b) \<Rightarrow> int \<Rightarrow> 'a cursor_page \<Rightarrow> view_error + 'b page_response" where
  "page_view f limit page =
     rbind (represented (all_parts f (cp_items page))) (\<lambda>items.
     represented (contract_of valid_page_response
       \<lparr>pr_items = items, pr_limit = limit, pr_next_cursor = cp_next page, pr_has_more = (cp_next page \<noteq> None)\<rparr>))"

definition collections_view ::
  "cursor_lib \<Rightarrow> collection_definition list \<Rightarrow> catalog \<Rightarrow> string option \<Rightarrow> int
     \<Rightarrow> view_error + collection_response page_response" where
  "collections_view lib definitions c cursor limit =
     rbind (refusal (page_collections lib definitions limit c cursor)) (page_view (\<lambda>(d, n). collection_summary d n) limit)"

definition documents_view ::
  "cursor_lib \<Rightarrow> collection_definition list \<Rightarrow> catalog \<Rightarrow> string \<Rightarrow> document_state option \<Rightarrow> string option \<Rightarrow> int
     \<Rightarrow> view_error + document_response page_response" where
  "documents_view lib definitions c key state cursor limit =
     rbind (refusal (get_collection c definitions key)) (\<lambda>_.
     rbind (refusal (list_documents lib key state limit c cursor)) (page_view (\<lambda>d. document_summary d None) limit))"

definition history_view ::
  "cursor_lib \<Rightarrow> collection_definition list \<Rightarrow> catalog \<Rightarrow> string option \<Rightarrow> terminal_disposition option \<Rightarrow> string option \<Rightarrow> int
     \<Rightarrow> view_error + tombstone_response page_response" where
  "history_view lib definitions c key disposition cursor limit =
     rbind (case key of None \<Rightarrow> Inr () | Some k \<Rightarrow> rbind (refusal (configured_collection definitions k)) (\<lambda>_. Inr ())) (\<lambda>_.
     rbind (refusal (list_history lib (map cd_key (filter cd_enabled definitions)) key disposition limit c cursor))
       (page_view tombstone_summary limit))"

text \<open>The decision and the two documents of a replacement, from either of its documents, with its latest operation.\<close>

definition linked_replacement ::
  "catalog \<Rightarrow> decision \<Rightarrow> document \<Rightarrow> document \<Rightarrow> response_error + replacement_response option" where
  "linked_replacement c x old new =
     (case max_by (\<lambda>w. (op_created_at w, op_id w)) (filter (\<lambda>w. op_document_id w = doc_id new
             \<and> op_replacement_target w = Some (doc_id old)) (operations c)) of
        None \<Rightarrow> Inl Unrepresentable
      | Some w \<Rightarrow> rbind (replacement_summary x old new (Some w)) (\<lambda>s. Inr (Some s)))"

definition replacement_view :: "catalog \<Rightarrow> document \<Rightarrow> decision option \<Rightarrow> response_error + replacement_response option" where
  "replacement_view c d decided =
     (case (case decided of None \<Rightarrow> None | Some x \<Rightarrow> if dec_action x = REPLACE then Some x else None) of
        Some x \<Rightarrow>
          (case Option.bind (dec_target_document_id x) (get_document c) of
             None \<Rightarrow> Inl Unrepresentable
           | Some old \<Rightarrow> linked_replacement c x old d)
      | None \<Rightarrow>
          (case doc_replaced_by d of
             None \<Rightarrow> Inr None
           | Some k \<Rightarrow>
               (case get_document c k of
                  None \<Rightarrow> Inl Unrepresentable
                | Some new \<Rightarrow>
                    (case find (\<lambda>x. dec_document_id x = doc_id new \<and> dec_action x = REPLACE
                        \<and> dec_target_document_id x = Some (doc_id d)) (decisions c) of
                       None \<Rightarrow> Inl Unrepresentable
                     | Some x \<Rightarrow> linked_replacement c x d new))))"

definition document_view :: "catalog \<Rightarrow> uuid \<Rightarrow> view_error + document_detail_response" where
  "document_view c did =
     rbind (refusal (document_aggregate c did)) (\<lambda>g.
     rbind (represented (replacement_view c (ag_document g) (ag_decision g))) (\<lambda>replacement.
     represented (document_detail (ag_document g) (ag_operation g) (ag_revision g) (ag_decision g) (ag_publication g)
       (ag_deletion g) replacement)))"

definition source_view :: "catalog \<Rightarrow> uuid \<Rightarrow> view_error + source_response" where
  "source_view c did = rbind (refusal (document_aggregate c did)) (\<lambda>g. represented (source_metadata (ag_document g)))"

definition markdown_view :: "stdlib \<Rightarrow> catalog \<Rightarrow> uuid \<Rightarrow> view_error + markdown_response" where
  "markdown_view sl c did =
     rbind (refusal (markdown_record c did)) (\<lambda>(r, markdown). represented (markdown_document sl r
       (filter (\<lambda>p. pp_revision_id p = rev_id r) (prepared_pages c)) markdown))"

definition chunks_view ::
  "stdlib \<Rightarrow> cursor_lib \<Rightarrow> (json \<Rightarrow> int option) \<Rightarrow> catalog \<Rightarrow> uuid \<Rightarrow> string option \<Rightarrow> int
     \<Rightarrow> view_error + uuid \<times> chunk_response page_response" where
  "chunks_view sl lib int_of c did cursor limit =
     rbind (refusal (list_chunks lib int_of did limit c cursor)) (\<lambda>page.
     rbind (case cp_items page of
              [] \<Rightarrow> rbind (refusal (preflight_revision c did)) (\<lambda>r. Inr (rev_id r))
            | k # ks \<Rightarrow> if list_ex (\<lambda>x. chk_revision_id x \<noteq> chk_revision_id k) (k # ks)
                then Inl (Unserializable Unrepresentable) else Inr (chk_revision_id k)) (\<lambda>rid.
     rbind (page_view (chunk_part sl) limit page) (\<lambda>answer. Inr (rid, answer))))"

definition operation_view :: "catalog \<Rightarrow> uuid \<Rightarrow> timestamp \<Rightarrow> view_error + operation_detail_response" where
  "operation_view c oid now =
     rbind (refusal (catalog_get_operation c oid)) (\<lambda>w. represented (operation_detail w (queue_position c w) now))"

end
