(* ===== verification/Responses.thy ===== *)
theory Responses
  imports Serializers Scenario
begin

text \<open>
  What the answers of the interface show of the lifecycle: which actions are advertised, and documents whose
  rows no answer can represent.
\<close>

section \<open>Advertised actions\<close>

fun action_of :: "decision_action \<Rightarrow> allowed_action" where
  "action_of KEEP = ACT_KEEP"
| "action_of REPLACE = ACT_REPLACE"
| "action_of CANCEL = ACT_CANCEL"

lemma decision_advertised:
  assumes "record_decision now did rid action target idem actor who screening c = Inr (m, c')"
  shows "\<exists>d. get_document c did = Some d \<and> action_of action \<in> set (allowed_actions d)"
  using assms
proof (rule record_decisionE)
  fix d r
  assume "get_document c did = Some d" and "require_current_review_revision c d rid = Inr r"
  then show ?thesis
    using require_current_review_revisionD(1) by (cases action) (auto simp: allowed_actions_def)
qed

lemma retry_advertised:
  assumes "request_retry now did idem actor who c = Inr (m, c')"
  shows "\<exists>d. get_document c did = Some d \<and> ACT_RETRY \<in> set (allowed_actions d)"
  using assms
proof (rule request_retryE)
  fix requested ot next_state and d :: document
  assume "get_document c did = Some requested" and "doc_failure_retryable requested"
    and "retry_owner c requested = Inr d" and "retry_class (doc_state d) = Some (ot, next_state)"
  then show ?thesis
    by (auto simp: allowed_actions_def retry_owner_def retry_class_def result_simps split: option.splits if_splits)
qed

lemma deletion_advertised:
  assumes run: "request_deletion now did idem actor who active screening c = Inr (m, c')"
  shows "c' = c \<or> (\<exists>d. get_document c did = Some d \<and> ACT_DELETE \<in> set (allowed_actions d))"
  using assms
  by (auto simp: request_deletion_def result_simps allowed_actions_def split: if_splits option.splits)

section \<open>Documents that cannot be shown\<close>

definition unexplained :: "document \<Rightarrow> bool" where
  "unexplained d \<longleftrightarrow> doc_failure_code d \<noteq> None \<and> doc_failure_message d = None"

lemma unexplained_summary: "unexplained d \<Longrightarrow> document_summary d op = Inl Unrepresentable"
  by (auto simp: unexplained_def document_summary_def shown_failure_def)

lemma unexplained_view:
  assumes "get_document c did = Some d" and "unexplained d"
  shows "\<exists>e. document_view c did = Inl (Unserializable e)"
  using assms unexplained_summary [OF assms(2)]
  by (auto simp: document_view_def document_aggregate_def refusal_def represented_def Let_def document_detail_def
      split: sum.splits)

lemma all_parts_Inl: "x \<in> set xs \<Longrightarrow> f x = Inl e \<Longrightarrow> \<exists>e. all_parts f xs = Inl e"
proof (induction xs)
  case (Cons y ys)
  then show ?case
    by (cases "f y"; cases "all_parts f ys") auto
qed simp

lemma unexplained_listing:
  assumes "list_documents lib key state limit c cursor = Inr page" and "d \<in> set (cp_items page)" and "unexplained d"
  shows "\<exists>e. documents_view lib definitions c key state cursor limit = Inl e"
proof (cases "get_collection c definitions key")
  case (Inr x)
  obtain e where "all_parts (\<lambda>d. document_summary d None) (cp_items page) = Inl e"
    using all_parts_Inl [where f = "\<lambda>d. document_summary d None", OF assms(2) unexplained_summary [OF assms(3)]] by blast
  then show ?thesis
    using Inr assms(1) by (simp add: documents_view_def refusal_def page_view_def represented_def)
qed (simp add: documents_view_def refusal_def)

lemma begin_deletion_row:
  assumes run: "begin_deletion now d disp active screening r p prio actor who idem c = Inr (op, c')"
    and none: "deletion_of c (doc_id d) = None"
  shows "documents c' = documents (upd_document (doc_id d)
    (\<lambda>e. clear_failure (e\<lparr>doc_state := DELETING, doc_terminal_disposition := Some disp\<rparr>)) c)"
proof -
  obtain n c2 c3 where add: "add_deletion (new_deletion n (doc_id d) r p disp active screening)
        (c\<lparr>uuid_drawn := Suc (uuid_drawn c)\<rparr>) = Inr c2"
    and enq: "enqueue_operation now (doc_id d) DELETE prio r None idem QUEUED
        (upd_document (doc_id d) (\<lambda>e. clear_failure (e\<lparr>doc_state := DELETING, doc_terminal_disposition := Some disp\<rparr>)) c2)
        = Inr (op, c3)"
    and c': "core c' = core c3"
    using run none
    by (auto simp: begin_deletion_def result_simps uuid4_def Let_def split: if_splits)
  have "documents c2 = documents c"
    using add by (auto simp: add_deletion_def split: if_splits)
  then show ?thesis
    using c' enqueue_operation_effect(1) [OF enq] by (simp add: core_def upd_document_def)
qed

lemma rejection_unexplained:
  assumes run: "accept_rejection_txn wid oid did reason active screening now c = Inr c'"
    and ok: "lifecycle_ok c"
    and bound: "\<And>w. get_operation c oid = Some w \<Longrightarrow> op_type w = PREFLIGHT \<and> op_document_id w = did"
  shows "\<exists>d. get_document c' did = Some d \<and> doc_state d = DELETING \<and> doc_terminal_disposition d = Some TD_REJECTED
    \<and> doc_failure_code d = Some reason \<and> unexplained d"
  using run
proof (rule accept_rejectionE)
  fix w :: work_operation and d q c1 c2
  assume own: "owned_operation c wid oid = Some w" and d: "get_document c did = Some d"
    and c1: "c1 = upd_operation oid (\<lambda>w. w\<lparr>op_revision_id := map_option rev_id (latest_revision c did)\<rparr>) c"
    and clean: "queue_rejection_cleanup now d reason
       (case latest_revision c did of Some r \<Rightarrow> rev_active_collection r | None \<Rightarrow> active) screening
       (map_option rev_id (latest_revision c did)) c1 = Inr (q, c2)"
    and c': "core c' = core c2"
  note w = owned_operationD [OF own]
  have id: "doc_id d = did"
    by (rule tget_Some_key [OF d])
  obtain e where "get_document c did = Some e" "doc_state e = PREFLIGHTING"
    using open_work_state [OF lifecycle_okD(3) [OF ok] w(5,6)] bound [OF w(1)] by auto
  then have none: "deletion_of c1 (doc_id d) = None"
    using not_deleting_no_checkpoint [OF lifecycle_okD(1) [OF ok] d] d id c1 by simp
  from clean show ?thesis
  proof (rule queue_rejection_cleanupE)
    fix c3
    let ?f = "\<lambda>e. clear_failure (e\<lparr>doc_state := DELETING, doc_terminal_disposition := Some TD_REJECTED\<rparr>)"
    assume beg: "begin_deletion now d TD_REJECTED
        (case latest_revision c did of Some r \<Rightarrow> rev_active_collection r | None \<Rightarrow> active) screening
        (map_option rev_id (latest_revision c did)) None HIGH ''system'' ''pdf-bridge'' None c1 = Inr (q, c3)"
      and c2: "c2 = upd_document (doc_id d) (\<lambda>d. d\<lparr>doc_failure_code := Some reason\<rparr>) c3"
    have "documents c3 = documents (upd_document did ?f c)"
      using begin_deletion_row [OF beg none] id c1 by (simp add: upd_document_def upd_operation_def)
    then have "get_document c3 did = Some (?f d)"
      using d by (simp add: document_rows.get_upd)
    then have "get_document c2 did = Some ((?f d)\<lparr>doc_failure_code := Some reason\<rparr>)"
      using c2 id by (simp add: document_rows.get_upd)
    moreover have "documents c' = documents c2"
      using c' by (simp add: core_def)
    ultimately show ?thesis
      by (simp add: unexplained_def clear_failure_def)
  qed
qed

lemma tombstone_unexplained:
  assumes run: "commit_deletion wid oid did now c = Inr c'" and fresh: "tombstone_of c did = None"
    and d: "get_document c did = Some d" and disp: "doc_terminal_disposition d = Some TD_REJECTED"
    and code: "doc_failure_code d = Some reason"
  shows "\<exists>d'. get_document c' did = Some d' \<and> doc_state d' = REJECTED \<and> unexplained d'"
  using run
proof (rule commit_deletionE)
  fix w t c1 and e :: document
  assume e: "get_document c did = Some e"
    and tomb: "commit_tombstone now e (if doc_terminal_disposition e = Some TD_REJECTED then doc_failure_code e else None)
      ''system'' wid c = Inr (t, c1)"
    and core: "core c' = core c1"
  have e': "e = d" "doc_id d = did"
    using e d tget_Some_key [OF d] by simp_all
  have tomb': "commit_tombstone now d (Some reason) ''system'' wid c = Inr (t, c1)" and fresh': "tombstone_of c (doc_id d) = None"
    using tomb fresh e' disp code by simp_all
  show ?thesis
    using tomb' fresh'
  proof (rule commit_tombstoneE)
    fix p c2
    assume p: "doc_terminal_disposition d = Some (del_disposition p)"
      and add: "add_tombstone t (c\<lparr>uuid_drawn := Suc (uuid_drawn c)\<rparr>) = Inr c2"
      and c1: "core c1 = core (upd_deletion (doc_id d) (terminal_deletion now)
        (upd_document (doc_id d) (terminal_document now (del_disposition p) (Some reason)) c2))"
    have "documents c2 = documents c"
      using add by (auto simp: add_tombstone_def split: if_splits)
    then have "documents c' = documents (upd_document did (terminal_document now TD_REJECTED (Some reason)) c)"
      using core c1 p disp e'(2) by (simp add: core_def upd_document_def)
    then have "get_document c' did = Some (terminal_document now TD_REJECTED (Some reason) d)"
      using d by (simp add: document_rows.get_upd)
    then show ?thesis
      by (simp add: unexplained_def terminal_document_def Let_def)
  qed
qed

text \<open>Two requests that are advertised and always refused.\<close>

lemma failed_cleanup_refused:
  assumes "get_document c did = Some d" and "doc_state d = DELETE_FAILED" and "doc_terminal_disposition d \<noteq> Some TD_DELETED"
    and "reservation_usable idem who"
  shows "ACT_DELETE \<in> set (allowed_actions d)
    \<and> request_deletion now did idem actor who active screening c = Inl (conflict ''deletion_disposition_conflict'')"
  using assms by (simp add: allowed_actions_def request_deletion_def get_document_for_update_def)

lemma stranded_retry_refused:
  assumes "get_document c did = Some d" and "doc_state d = DELETE_FAILED" and "doc_failure_retryable d"
    and "doc_replaced_by d = Some k" and "get_document c k = Some e" and "doc_state e \<noteq> PUBLISH_FAILED"
  shows "ACT_RETRY \<in> set (allowed_actions d) \<and> (\<exists>f. request_retry now did idem actor who c = Inl f)"
proof
  show "ACT_RETRY \<in> set (allowed_actions d)"
    using assms by (simp add: allowed_actions_def)
  obtain f where "retry_owner c d = Inl f"
    using assms by (cases "latest_operation c (doc_id e) (Some PUBLISH)") (auto simp: retry_owner_def get_document_for_update_def)
  then show "\<exists>f. request_retry now did idem actor who c = Inl f"
    using assms by (simp add: request_retry_def get_document_for_update_def)
qed

section \<open>Properties\<close>

text \<open>C33. What the interface advertises.  A decision, a retry or a deletion that changes the catalog is always among
  the actions advertised for the document.  The converse fails: DELETE stays advertised on a document whose rejection
  or cancellation failed to be cleaned up, and RETRY on a replaced document whose replacement is not in PUBLISH_FAILED,
  and both requests are always refused.\<close>

theorem advertised_actions:
  "(\<forall>r. record_decision now did rid action target idem actor who screening c = Inr r
      \<longrightarrow> (\<exists>d. get_document c did = Some d \<and> action_of action \<in> set (allowed_actions d)))
   \<and> (\<forall>r. request_retry now did idem actor who c = Inr r
      \<longrightarrow> (\<exists>d. get_document c did = Some d \<and> ACT_RETRY \<in> set (allowed_actions d)))
   \<and> (\<forall>m c'. request_deletion now did idem actor who active screening c = Inr (m, c')
      \<longrightarrow> c' = c \<or> (\<exists>d. get_document c did = Some d \<and> ACT_DELETE \<in> set (allowed_actions d)))
   \<and> (\<forall>d. get_document c did = Some d \<longrightarrow> doc_state d = DELETE_FAILED \<longrightarrow> doc_terminal_disposition d \<noteq> Some TD_DELETED
      \<longrightarrow> reservation_usable idem who \<longrightarrow> ACT_DELETE \<in> set (allowed_actions d)
        \<and> request_deletion now did idem actor who active screening c = Inl (conflict ''deletion_disposition_conflict''))
   \<and> (\<forall>d k e. get_document c did = Some d \<longrightarrow> doc_state d = DELETE_FAILED \<longrightarrow> doc_failure_retryable d
      \<longrightarrow> doc_replaced_by d = Some k \<longrightarrow> get_document c k = Some e \<longrightarrow> doc_state e \<noteq> PUBLISH_FAILED
      \<longrightarrow> ACT_RETRY \<in> set (allowed_actions d) \<and> (\<exists>f. request_retry now did idem actor who c = Inl f))"
  (is "?decide \<and> ?retry \<and> ?delete \<and> ?cleanup \<and> ?stranded")
proof (intro conjI)
  show ?decide
  proof (intro allI impI)
    fix r assume "record_decision now did rid action target idem actor who screening c = Inr r"
    then show "\<exists>d. get_document c did = Some d \<and> action_of action \<in> set (allowed_actions d)"
      by (cases r) (simp add: decision_advertised)
  qed
  show ?retry
  proof (intro allI impI)
    fix r assume "request_retry now did idem actor who c = Inr r"
    then show "\<exists>d. get_document c did = Some d \<and> ACT_RETRY \<in> set (allowed_actions d)"
      by (cases r) (simp add: retry_advertised)
  qed
  show ?delete
    using deletion_advertised by blast
  show ?cleanup
    using failed_cleanup_refused by blast
  show ?stranded
    using stranded_retry_refused by blast
qed

text \<open>C34. A rejected document cannot be shown.  From the moment its rejection is accepted it carries a failure code
  without a message, so its own view and every listing it is on raise a serialization error, and so does its view
  after the tombstone is committed: the rejection reason it was to report is never readable.\<close>

theorem rejected_document_unreadable:
  assumes "reachable c" and "accept_rejection_txn wid oid did reason active screening now c = Inr c'"
    and "\<And>w. get_operation c oid = Some w \<Longrightarrow> op_type w = PREFLIGHT \<and> op_document_id w = did"
  shows "\<exists>d. get_document c' did = Some d \<and> doc_state d = DELETING \<and> (\<exists>e. document_view c' did = Inl (Unserializable e))
    \<and> (\<forall>lib definitions key state limit cursor page. list_documents lib key state limit c' cursor = Inr page
        \<longrightarrow> d \<in> set (cp_items page) \<longrightarrow> (\<exists>e. documents_view lib definitions c' key state cursor limit = Inl e))
    \<and> (\<forall>c1 d1 wid1 oid1 now1 c2. get_document c1 did = Some d1 \<longrightarrow> doc_terminal_disposition d1 = doc_terminal_disposition d
        \<longrightarrow> doc_failure_code d1 = doc_failure_code d \<longrightarrow> tombstone_of c1 did = None
        \<longrightarrow> commit_deletion wid1 oid1 did now1 c1 = Inr c2 \<longrightarrow> (\<exists>e. document_view c2 did = Inl (Unserializable e)))"
proof -
  obtain d where d: "get_document c' did = Some d" "doc_state d = DELETING" "doc_terminal_disposition d = Some TD_REJECTED"
    "doc_failure_code d = Some reason" "unexplained d"
    using rejection_unexplained [OF assms(2) reachable_lifecycle [OF assms(1)] assms(3)] by blast
  have "\<exists>e. document_view c2 did = Inl (Unserializable e)"
    if "get_document c1 did = Some d1" "doc_terminal_disposition d1 = doc_terminal_disposition d"
      "doc_failure_code d1 = doc_failure_code d" "tombstone_of c1 did = None"
      "commit_deletion wid1 oid1 did now1 c1 = Inr c2" for c1 d1 wid1 oid1 now1 c2
    using tombstone_unexplained [OF that(5,4,1)] that(2,3) d(3,4) unexplained_view by metis
  then show ?thesis
    using d unexplained_view [OF d(1,5)] unexplained_listing [where d = d, OF _ _ d(5)] by blast
qed

section \<open>Witnesses\<close>

theorem advertised_actions_witness:
  "(\<exists>d. get_document (demo_preflighted False) 1 = Some d \<and> ACT_KEEP \<in> set (allowed_actions d))
   \<and> (\<exists>d. get_document demo_failed 1 = Some d \<and> ACT_RETRY \<in> set (allowed_actions d))"
proof -
  have "\<not> isl (record_decision 50 1 3 KEEP None demo_reservation ''user'' ''alice'' ''screening'' (demo_preflighted False))"
    "\<not> isl (request_retry 50 1 demo_reservation ''user'' ''alice'' demo_failed)"
    by code_simp+
  note run = Inr_projr [OF this(1)] Inr_projr [OF this(2)]
  have "\<exists>d. get_document (demo_preflighted False) 1 = Some d \<and> action_of KEEP \<in> set (allowed_actions d)"
    using advertised_actions [THEN conjunct1, THEN spec, THEN mp, OF run(1)] .
  moreover have "\<exists>d. get_document demo_failed 1 = Some d \<and> ACT_RETRY \<in> set (allowed_actions d)"
    using advertised_actions [THEN conjunct2, THEN conjunct1, THEN spec, THEN mp, OF run(2)] .
  ultimately show ?thesis
    by simp
qed

theorem rejected_document_unreadable_witness:
  "\<exists>c' e. accept_rejection_txn ''w1'' 2 1 ''scanned_document'' ''reports_v1'' ''screening'' 23 demo_claimed = Inr c'
    \<and> document_view c' 1 = Inl (Unserializable e)"
proof -
  have "\<not> isl (accept_rejection_txn ''w1'' 2 1 ''scanned_document'' ''reports_v1'' ''screening'' 23 demo_claimed)"
    by code_simp
  note run = Inr_projr [OF this]
  have "map_option (\<lambda>w. (op_type w, op_document_id w)) (get_operation demo_claimed 2) = Some (PREFLIGHT, 1)"
    by code_simp
  then have "op_type w = PREFLIGHT \<and> op_document_id w = 1" if "get_operation demo_claimed 2 = Some w" for w
    using that by simp
  from rejected_document_unreadable [OF demo_claimed_reachable run this] show ?thesis
    using run by blast
qed

end
