(* ===== verification/Search.thy ===== *)
theory Search
  imports Contracts Scenario Formatter
begin

text \<open>
  The operator's search (\<^verbatim>\<open>services/search.py\<close>, \<^verbatim>\<open>managers/search.py\<close>): one bounded request to the separate retrieval
  service, and the correlation of its hits with the catalog.  The HTTP client and the reading of a body into typed
  fields (\<^verbatim>\<open>json.loads\<close> and the field types of pydantic) are parameters.
\<close>

section \<open>The retrieval service\<close>

definition MAX_SEARCH_RESPONSE_BYTES :: nat where
  "MAX_SEARCH_RESPONSE_BYTES = 2 * 1024 * 1024"

datatype service_error = ServiceError (sve_code: string) (sve_status: nat)

record search_settings =
  ss_collections :: "collection_definition list"
  ss_search_api_url :: "string option"
  ss_search_api_token :: "string option"

text \<open>
  What a streamed request ends in: no connection, or a status with the parts of the body, where a part is \<open>None\<close> if
  the connection broke.
\<close>

datatype stream_outcome = Unreachable | Streamed int "string option list"

record retrieval =
  rt_post :: "string \<Rightarrow> string \<Rightarrow> search_request \<Rightarrow> stream_outcome"
  rt_read :: "string \<Rightarrow> search_response option"

definition search_unavailable :: service_error where
  "search_unavailable = ServiceError ''search_unavailable'' 503"

definition search_invalid :: service_error where
  "search_invalid = ServiceError ''search_invalid_response'' 502"

text \<open>The loop over the parts of the body; it ends as soon as the limit is exceeded.\<close>

fun read_body :: "string \<Rightarrow> string option list \<Rightarrow> service_error + string" where
  "read_body body [] = Inr body"
| "read_body body (None # ps) = Inl search_unavailable"
| "read_body body (Some p # ps) =
     (if MAX_SEARCH_RESPONSE_BYTES < length (body @ p) then Inl search_invalid else read_body (body @ p) ps)"

definition search_retrieval ::
  "search_settings \<Rightarrow> search_request \<Rightarrow> retrieval \<Rightarrow> service_error + search_response" where
  "search_retrieval settings request client =
     (case find (\<lambda>d. cd_key d = sq_collection_key request \<and> cd_enabled d) (ss_collections settings) of
        None \<Rightarrow> Inl (ServiceError ''collection_not_found'' 404)
      | Some _ \<Rightarrow>
          (case (ss_search_api_url settings, ss_search_api_token settings) of
             (Some url, Some token) \<Rightarrow>
               (case rt_post client (rstrip_slash url @ ''/search'') token request of
                  Unreachable \<Rightarrow> Inl search_unavailable
                | Streamed status parts \<Rightarrow>
                    if \<not> (200 \<le> status \<and> status < 300) then Inl (ServiceError ''search_upstream_error'' 502)
                    else rbind (read_body [] parts) (\<lambda>body.
                      case Option.bind (rt_read client body) search_response_of of
                        None \<Rightarrow> Inl search_invalid
                      | Some result \<Rightarrow>
                          if sx_collection_key result \<noteq> sq_collection_key request \<or> sx_query result \<noteq> sq_query request
                             \<or> sx_mode result \<noteq> sq_mode request \<or> sq_limit request < int (length (sx_results result))
                          then Inl search_invalid
                          else Inr result))
           | _ \<Rightarrow> Inl (ServiceError ''search_not_configured'' 503)))"

section \<open>Correlation with the catalog\<close>

definition hit_matches :: "catalog \<Rightarrow> search_request \<Rightarrow> search_hit \<Rightarrow> bool" where
  "hit_matches c request h =
     (case (get_document c (sh_document_id h), get_revision c (sh_revision_id h)) of
        (Some d, Some r) \<Rightarrow>
          \<not> (doc_state d \<noteq> READY \<or> doc_collection_key d \<noteq> sq_collection_key request
             \<or> doc_original_filename d \<noteq> sh_original_filename h \<or> rev_document_id r \<noteq> doc_id d
             \<or> rev_status r \<noteq> REV_SEALED \<or> publication_of c (rev_id r) = None)
      | _ \<Rightarrow> False)"

definition search_documents ::
  "catalog \<Rightarrow> search_settings \<Rightarrow> search_request \<Rightarrow> retrieval \<Rightarrow> service_error + search_response" where
  "search_documents c settings request client =
     rbind (search_retrieval settings request client) (\<lambda>response.
       if sx_results response = [] then Inr response
       else if \<not> list_all (hit_matches c request) (sx_results response)
       then Inl (ServiceError ''search_catalog_mismatch'' 502)
       else Inr response)"

section \<open>Properties\<close>

lemma read_body_bounded: "read_body body parts = Inr s \<Longrightarrow> length body \<le> MAX_SEARCH_RESPONSE_BYTES \<Longrightarrow> length s \<le> MAX_SEARCH_RESPONSE_BYTES"
  by (induction body parts rule: read_body.induct) (auto split: if_splits)

lemma search_response_ofD:
  assumes "search_response_of raw = Some s"
  shows "valid_search_response s"
  using assms by (auto simp: search_response_of_def valid_search_response_def split: option.splits if_splits)

lemma search_retrieval_valid:
  assumes "search_retrieval settings request client = Inr s"
  shows "valid_search_response s \<and> sx_collection_key s = sq_collection_key request \<and> sx_query s = sq_query request
    \<and> sx_mode s = sq_mode request \<and> int (length (sx_results s)) \<le> sq_limit request
    \<and> (\<exists>d\<in>set (ss_collections settings). cd_key d = sq_collection_key request \<and> cd_enabled d)"
proof -
  obtain d where d: "find (\<lambda>d. cd_key d = sq_collection_key request \<and> cd_enabled d) (ss_collections settings) = Some d"
    using assms by (auto simp: search_retrieval_def split: option.splits)
  then have "d \<in> set (ss_collections settings) \<and> cd_key d = sq_collection_key request \<and> cd_enabled d"
    by (auto simp: find_Some_iff)
  moreover obtain body where "Option.bind (rt_read client body) search_response_of = Some s"
    and "sx_collection_key s = sq_collection_key request \<and> sx_query s = sq_query request
      \<and> sx_mode s = sq_mode request \<and> int (length (sx_results s)) \<le> sq_limit request"
    using assms d
    by (auto simp: search_retrieval_def rbind_eq_Inr split: option.splits stream_outcome.splits if_splits)
  ultimately show ?thesis
    using search_response_ofD by (auto simp: bind_eq_Some_conv)
qed

text \<open>C35. A search answers only with what the catalog serves.  Whatever the retrieval service sends, an answer that is
  passed on repeats the query, mode and enabled collection of the request, has at most the requested number of
  results, ranked from 1 without gaps and each document chunk once, and every result names a READY document of the
  collection under its own filename and a sealed revision of that document with a publication.\<close>

theorem search_hits_are_served:
  assumes "search_documents c settings request client = Inr answer"
  shows "sx_collection_key answer = sq_collection_key request \<and> sx_query answer = sq_query request
    \<and> sx_mode answer = sq_mode request \<and> int (length (sx_results answer)) \<le> sq_limit request
    \<and> (\<exists>def\<in>set (ss_collections settings). cd_key def = sq_collection_key request \<and> cd_enabled def)
    \<and> map sh_rank (sx_results answer) = map int [1..<Suc (length (sx_results answer))]
    \<and> distinct (map (\<lambda>h. (sh_document_id h, sh_chunk_id h)) (sx_results answer))
    \<and> (\<forall>h\<in>set (sx_results answer). sh_collection_key h = sq_collection_key request
        \<and> (\<exists>d r p. get_document c (sh_document_id h) = Some d \<and> doc_state d = READY
            \<and> doc_collection_key d = sq_collection_key request \<and> doc_original_filename d = sh_original_filename h
            \<and> get_revision c (sh_revision_id h) = Some r \<and> rev_document_id r = sh_document_id h
            \<and> rev_status r = REV_SEALED \<and> publication_of c (sh_revision_id h) = Some p))"
proof -
  have ret: "search_retrieval settings request client = Inr answer"
    and hits: "list_all (hit_matches c request) (sx_results answer)"
    using assms by (auto simp: search_documents_def rbind_eq_Inr split: if_splits)
  note valid = search_retrieval_valid [OF ret]
  have "\<exists>d r p. get_document c (sh_document_id h) = Some d \<and> doc_state d = READY
      \<and> doc_collection_key d = sq_collection_key request \<and> doc_original_filename d = sh_original_filename h
      \<and> get_revision c (sh_revision_id h) = Some r \<and> rev_document_id r = sh_document_id h
      \<and> rev_status r = REV_SEALED \<and> publication_of c (sh_revision_id h) = Some p"
    if h: "h \<in> set (sx_results answer)" for h
  proof -
    have "hit_matches c request h"
      using hits h by (simp add: list_all_iff)
    then show ?thesis
      by (auto simp: hit_matches_def split: option.splits dest: tget_Some_key)
  qed
  then show ?thesis
    using valid by (auto simp: valid_search_response_def list_ex_iff)
qed

section \<open>Witness\<close>

text \<open>A retrieval service that finds the ready document of the scenario.\<close>

definition found_hit :: search_hit where
  "found_hit = \<lparr>sh_rank = 1, sh_document_id = 1, sh_revision_id = 3, sh_collection_key = ''reports'',
     sh_original_filename = ''a.pdf'', sh_chunk_id = None, sh_page_start = Some 1, sh_page_end = Some 1,
     sh_heading_path = [], sh_score = Some 1, sh_excerpt = ''text''\<rparr>"

definition found_response :: search_response where
  "found_response = \<lparr>sx_collection_key = ''reports'', sx_query = ''text'', sx_mode = SM_HYBRID, sx_results = [found_hit]\<rparr>"

definition found_client :: retrieval where
  "found_client = \<lparr>rt_post = (\<lambda>url token request. Streamed 200 [Some ''{''  , Some ''}'']), rt_read = (\<lambda>_. Some found_response)\<rparr>"

definition found_request :: search_request where
  "found_request = \<lparr>sq_collection_key = ''reports'', sq_query = ''text'', sq_mode = SM_HYBRID, sq_limit = 5\<rparr>"

definition found_settings :: search_settings where
  "found_settings = \<lparr>ss_collections = [reports], ss_search_api_url = Some ''http://r/'', ss_search_api_token = Some ''t''\<rparr>"

lemma found_valid: "search_response_of found_response = Some found_response"
proof -
  have "search_query ''text'' = Some ''text''"
    by code_simp
  moreover have "valid_search_response found_response"
    by (simp add: valid_search_response_def found_response_def found_hit_def valid_search_hit_def optional_def
        bounded_length_def collection_key_pattern_def token_char_def char_code_def Let_def)
  ultimately show ?thesis
    by (simp add: search_response_of_def) (simp add: found_response_def)
qed

lemma found_retrieval: "search_retrieval found_settings found_request found_client = Inr found_response"
proof -
  have "read_body [] [Some ''{'', Some ''}''] = Inr ''{}''"
    by (simp add: MAX_SEARCH_RESPONSE_BYTES_def)
  then show ?thesis
    using found_valid
    by (simp add: search_retrieval_def found_settings_def found_request_def found_client_def reports_def)
      (simp add: found_response_def)
qed

theorem search_hits_are_served_witness:
  "search_documents demo_ready found_settings found_request found_client = Inr found_response
   \<and> (\<exists>d. get_document demo_ready 1 = Some d \<and> doc_state d = READY \<and> doc_original_filename d = ''a.pdf'')"
proof
  have "hit_matches demo_ready found_request found_hit"
    by code_simp
  then show found: "search_documents demo_ready found_settings found_request found_client = Inr found_response"
    using found_retrieval by (simp add: search_documents_def) (simp add: found_response_def)
  have "found_hit \<in> set (sx_results found_response)"
    by (simp add: found_response_def)
  with search_hits_are_served [OF found]
  have "\<exists>d. get_document demo_ready (sh_document_id found_hit) = Some d \<and> doc_state d = READY
      \<and> doc_original_filename d = sh_original_filename found_hit"
    by blast
  then show "\<exists>d. get_document demo_ready 1 = Some d \<and> doc_state d = READY \<and> doc_original_filename d = ''a.pdf''"
    by (simp add: found_hit_def)
qed

end
