(* ===== verification/Reingestion.thy ===== *)
theory Reingestion
  imports Admission Json Profiles Contracts
begin

text \<open>
  The resumable reingestion client (\<^verbatim>\<open>services/reingestion.py\<close>): validation of a manifest against the source files,
  the state file, the calls of the bridge's HTTP interface, and the loop that uploads with a bounded number of
  documents outstanding.  The filesystem, \<^verbatim>\<open>json.loads\<close>, the digests and the HTTP server are parameters.
\<close>

section \<open>Manifest\<close>

datatype reingestion_error = ReingestionError string | ReingestionValueError

definition MAX_MANIFEST_BYTES :: nat where
  "MAX_MANIFEST_BYTES = 5 * 1024 * 1024"

definition MAX_DOCUMENTS :: nat where
  "MAX_DOCUMENTS = 10000"

definition SETTLED_STATES :: "string list" where
  "SETTLED_STATES = [''READY'', ''REJECTED'', ''CANCELLED'', ''DELETED'']"

record manifest_document =
  md_path :: string
  md_filename :: string
  md_collection_key :: string
  md_sha256 :: string

definition relative_posix_path :: "string \<Rightarrow> bool" where
  "relative_posix_path value \<longleftrightarrow>
     \<not> (CHR 0x5C \<in> set value \<or> has_control value \<or> take 1 value = ''/'')
     \<and> posix_parts value \<noteq> [] \<and> list_all (\<lambda>p. p \<notin> {[], ''.'', ''..''}) (posix_parts value)"

text \<open>One entry: the field types, bounds and patterns, with the filename replaced by its validated form.\<close>

definition manifest_document_of :: "stdlib \<Rightarrow> json \<Rightarrow> manifest_document option" where
  "manifest_document_of sl j =
     (case j of
        JObj members \<Rightarrow>
          if set (map fst members) \<noteq> {''path'', ''filename'', ''collection_key'', ''sha256''} then None
          else (case (map_of members ''path'', map_of members ''filename'', map_of members ''collection_key'',
                      map_of members ''sha256'') of
             (Some (JStr p), Some (JStr f), Some (JStr k), Some (JStr h)) \<Rightarrow>
               if \<not> bounded_length 1 1024 p \<or> \<not> relative_posix_path p \<or> \<not> bounded_length 1 255 f
                  \<or> \<not> collection_key_pattern k \<or> \<not> is_sha256 h then None
               else (case validate_pdf_filename sl f of
                  Inl _ \<Rightarrow> None
                | Inr name \<Rightarrow> Some \<lparr>md_path = p, md_filename = name, md_collection_key = k, md_sha256 = h\<rparr>)
           | _ \<Rightarrow> None)
      | _ \<Rightarrow> None)"

fun all_some :: "('a \<Rightarrow> 'b option) \<Rightarrow> 'a list \<Rightarrow> 'b list option" where
  "all_some f [] = Some []"
| "all_some f (x # xs) = (case (f x, all_some f xs) of (Some y, Some ys) \<Rightarrow> Some (y # ys) | _ \<Rightarrow> None)"

definition reingestion_manifest_of :: "stdlib \<Rightarrow> json \<Rightarrow> manifest_document list option" where
  "reingestion_manifest_of sl j =
     (case j of
        JObj members \<Rightarrow>
          if set (map fst members) \<noteq> {''version'', ''documents''} \<or> map_of members ''version'' \<noteq> Some (JInt 4) then None
          else (case map_of members ''documents'' of
             Some (JArr items) \<Rightarrow>
               if items = [] \<or> MAX_DOCUMENTS < length items then None else all_some (manifest_document_of sl) items
           | _ \<Rightarrow> None)
      | _ \<Rightarrow> None)"

definition manifest_json :: "manifest_document list \<Rightarrow> json" where
  "manifest_json items = JObj [(''version'', JInt 4), (''documents'', JArr (map (\<lambda>m. JObj
     [(''path'', JStr (md_path m)), (''filename'', JStr (md_filename m)),
      (''collection_key'', JStr (md_collection_key m)), (''sha256'', JStr (md_sha256 m))]) items))]"

text \<open>
  The disk: strict and lax resolution of a path to its absolute form without symbolic links, the kind of what is
  there, and its bytes (\<open>None\<close> for an operating-system error).
\<close>

record disk =
  dk_resolve :: "path \<Rightarrow> path option"
  dk_resolve_lax :: "path \<Rightarrow> path"
  dk_is_file :: "path \<Rightarrow> bool"
  dk_is_dir :: "path \<Rightarrow> bool"
  dk_size :: "path \<Rightarrow> nat option"
  dk_read :: "path \<Rightarrow> string option"
  dk_json :: "string \<Rightarrow> json option"

definition is_beneath :: "path \<Rightarrow> path \<Rightarrow> bool" where
  "is_beneath p base \<longleftrightarrow> take (length base) p = base"

record validated_document =
  vd_index :: nat
  vd_path :: path
  vd_filename :: string
  vd_collection_key :: string
  vd_sha256 :: string
  vd_size_bytes :: nat

record validated_manifest =
  vm_manifest_sha256 :: string
  vm_documents :: "validated_document list"
  vm_total_bytes :: nat

text \<open>
  One entry of the loop.  The signature is looked for in the first five bytes only, where an upload is searched
  after leading white space.
\<close>

definition validate_entry ::
  "stdlib \<Rightarrow> disk \<Rightarrow> path \<Rightarrow> path set \<Rightarrow> (string \<times> string) set \<Rightarrow> nat \<Rightarrow> manifest_document
     \<Rightarrow> reingestion_error + validated_document" where
  "validate_entry sl dk source seen_paths seen_content index item =
     (case dk_resolve dk (source @ posix_parts (md_path item)) of
        None \<Rightarrow> Inl (ReingestionError ''Manifest entry source file is unavailable.'')
      | Some candidate \<Rightarrow>
          if \<not> dk_is_file dk candidate \<or> \<not> is_beneath candidate source
          then Inl (ReingestionError ''Manifest entry escapes the source root.'')
          else if candidate \<in> seen_paths \<or> (md_collection_key item, md_sha256 item) \<in> seen_content
          then Inl (ReingestionError ''The manifest contains a duplicate path or collection hash.'')
          else (case dk_read dk candidate of
             None \<Rightarrow> Inl (ReingestionError ''Manifest entry could not be read.'')
           | Some content \<Rightarrow>
               if \<not> has_pdf_signature (take 5 content) \<or> sl_sha256 sl content \<noteq> md_sha256 item
               then Inl (ReingestionError ''Manifest entry is not the declared PDF content.'')
               else Inr \<lparr>vd_index = index, vd_path = candidate, vd_filename = md_filename item,
                 vd_collection_key = md_collection_key item, vd_sha256 = sl_sha256 sl content,
                 vd_size_bytes = length content\<rparr>))"

fun validate_entries ::
  "stdlib \<Rightarrow> disk \<Rightarrow> path \<Rightarrow> path set \<Rightarrow> (string \<times> string) set \<Rightarrow> nat \<Rightarrow> manifest_document list
     \<Rightarrow> reingestion_error + validated_document list" where
  "validate_entries sl dk source seen_paths seen_content index [] = Inr []"
| "validate_entries sl dk source seen_paths seen_content index (item # items) =
     rbind (validate_entry sl dk source seen_paths seen_content index item) (\<lambda>v.
     rbind (validate_entries sl dk source (insert (vd_path v) seen_paths)
              (insert (md_collection_key item, md_sha256 item) seen_content) (Suc index) items) (\<lambda>vs.
     Inr (v # vs)))"

definition validate_manifest ::
  "stdlib \<Rightarrow> disk \<Rightarrow> path \<Rightarrow> path \<Rightarrow> path \<Rightarrow> reingestion_error + validated_manifest" where
  "validate_manifest sl dk manifest_path source_root bridge_storage_root =
     (case (dk_resolve dk manifest_path, dk_resolve dk source_root) of
        (Some manifest_file, Some source) \<Rightarrow>
          let bridge_storage = dk_resolve_lax dk bridge_storage_root in
          if \<not> dk_is_file dk manifest_file \<or> \<not> dk_is_dir dk source
          then Inl (ReingestionError ''The manifest must be a file and source root must be a directory.'')
          else if is_beneath source bridge_storage \<or> is_beneath bridge_storage source
          then Inl (ReingestionError ''The source root and Bridge storage root must not overlap.'')
          else (case dk_size dk manifest_file of
             None \<Rightarrow> Inl (ReingestionError ''The reingestion manifest is invalid.'')
           | Some n \<Rightarrow>
               if MAX_MANIFEST_BYTES < n then Inl (ReingestionError ''The reingestion manifest exceeds the safety limit.'')
               else (case Option.bind (Option.bind (dk_read dk manifest_file) (dk_json dk)) (reingestion_manifest_of sl) of
                  None \<Rightarrow> Inl (ReingestionError ''The reingestion manifest is invalid.'')
                | Some items \<Rightarrow>
                    rbind (validate_entries sl dk source {} {} 0 items) (\<lambda>validated.
                    Inr \<lparr>vm_manifest_sha256 = sl_sha256 sl (dumps (manifest_json items)), vm_documents = validated,
                      vm_total_bytes = sum_list (map vd_size_bytes validated)\<rparr>)))
      | _ \<Rightarrow> Inl (ReingestionError ''The manifest or source root is unavailable.''))"

section \<open>State file\<close>

record accepted_document =
  ad_document_id :: uuid
  ad_operation_id :: uuid
  ad_state :: string

record reingestion_state =
  rst_manifest_sha256 :: string
  rst_accepted :: "(string \<times> accepted_document) list"

text \<open>\<^verbatim>\<open>accepted[key] = value\<close> in a dict.\<close>

fun dict_put :: "'k \<Rightarrow> 'v \<Rightarrow> ('k \<times> 'v) list \<Rightarrow> ('k \<times> 'v) list" where
  "dict_put k v [] = [(k, v)]"
| "dict_put k v ((k', v') # kvs) = (if k' = k then (k, v) # kvs else (k', v') # dict_put k v kvs)"

text \<open>The file holds nothing, something that cannot be read as a state, or a state.\<close>

datatype state_file = NoFile | Unreadable | Saved reingestion_state

definition load_state :: "state_file \<Rightarrow> string \<Rightarrow> reingestion_error + reingestion_state" where
  "load_state file manifest_sha256 =
     (case file of
        NoFile \<Rightarrow> Inr \<lparr>rst_manifest_sha256 = manifest_sha256, rst_accepted = []\<rparr>
      | Unreadable \<Rightarrow> Inl (ReingestionError ''The reingestion state file is invalid.'')
      | Saved state \<Rightarrow> if rst_manifest_sha256 state \<noteq> manifest_sha256
          then Inl (ReingestionError ''The state file belongs to a different manifest.'') else Inr state)"

section \<open>The bridge's interface\<close>

text \<open>
  How a request can end: no answer, an error answer with its body as JSON (if it is JSON), a success that is not JSON, one that
  breaks the contract, and one that is read.
\<close>

datatype 'a reply = NoAnswer | ErrorAnswer "json option" | NotJson | BrokenContract | Answer 'a

record collection_page =
  cpg_items :: "(string \<times> bool) list"
  cpg_next_cursor :: "string option"
  cpg_csrf_token :: "string option"

record 'h bridge =
  br_health :: "'h \<Rightarrow> string reply \<times> 'h"
  br_collections :: "string option \<Rightarrow> 'h \<Rightarrow> collection_page reply \<times> 'h"
  br_upload :: "string \<Rightarrow> validated_document \<Rightarrow> string \<Rightarrow> 'h \<Rightarrow> accepted_document reply \<times> 'h"
  br_document :: "uuid \<Rightarrow> 'h \<Rightarrow> string reply \<times> 'h"
  br_reopens :: "validated_document \<Rightarrow> bool"
  br_save_ok :: "nat \<Rightarrow> bool"
  br_clock :: "nat \<Rightarrow> rat"
  br_str :: "json \<Rightarrow> string"

text \<open>The world of a run: the server, the state file, the counts of saves and clock readings, and the uploads made.\<close>

record 'h run =
  run_server :: 'h
  run_file :: state_file
  run_saves :: nat
  run_ticks :: nat
  run_uploads :: "validated_document list"

type_synonym ('h, 'a) rei = "('h run, reingestion_error, 'a) io"

text \<open>The code and message of an error answer; \<open>str_of\<close> is Python's \<^verbatim>\<open>str\<close> on what \<^verbatim>\<open>json.loads\<close> returns.\<close>

definition error_detail :: "(json \<Rightarrow> string) \<Rightarrow> json option \<Rightarrow> string \<times> string" where
  "error_detail str_of body =
     (case body of
        Some (JObj members) \<Rightarrow>
          (case map_of members ''error'' of
             Some (JObj fs) \<Rightarrow>
               (case (map_of fs ''code'', map_of fs ''message'') of
                  (Some code, Some message) \<Rightarrow> (str_of code, str_of message)
                | _ \<Rightarrow> (''invalid_error_response'', ''Bridge returned an invalid error response.''))
           | _ \<Rightarrow> (''invalid_error_response'', ''Bridge returned an invalid error response.''))
      | _ \<Rightarrow> (''invalid_error_response'', ''Bridge returned an invalid error response.''))"

definition from_reply :: "(json \<Rightarrow> string) \<Rightarrow> string \<Rightarrow> string \<Rightarrow> 'a reply \<Rightarrow> reingestion_error + 'a" where
  "from_reply str_of unreachable invalid r =
     (case r of
        NoAnswer \<Rightarrow> Inl (ReingestionError unreachable)
      | ErrorAnswer body \<Rightarrow>
          (let (code, message) = error_detail str_of body in Inl (ReingestionError (code @ '': '' @ message)))
      | NotJson \<Rightarrow> Inl ReingestionValueError
      | BrokenContract \<Rightarrow> Inl (ReingestionError invalid)
      | Answer a \<Rightarrow> Inr a)"

definition call_bridge ::
  "'h bridge \<Rightarrow> string \<Rightarrow> string \<Rightarrow> ('h \<Rightarrow> 'a reply \<times> 'h) \<Rightarrow> ('h, 'a) rei" where
  "call_bridge br unreachable invalid request w =
     (let (r, h) = request (run_server w) in (from_reply (br_str br) unreachable invalid r, w\<lparr>run_server := h\<rparr>))"

text \<open>
  The loop over the pages of collections, with the CSRF token of the first answer that has one.  The fuel bounds the
  number of pages; without it the loop ends when the server stops sending cursors.
\<close>

fun collect_keys ::
  "nat \<Rightarrow> 'h bridge \<Rightarrow> string option \<Rightarrow> string set \<Rightarrow> string option \<Rightarrow> ('h, (string set \<times> string option) option) rei" where
  "collect_keys 0 br cursor keys token = iret None"
| "collect_keys (Suc n) br cursor keys token =
     ibind (call_bridge br ''Bridge could not be reached.'' ''Bridge returned an invalid v2 response.''
              (br_collections br cursor)) (\<lambda>page.
       let token' = (case token of None \<Rightarrow> cpg_csrf_token page | Some t \<Rightarrow> Some t);
           keys' = keys \<union> set (map fst (filter snd (cpg_items page)))
       in case cpg_next_cursor page of
            None \<Rightarrow> iret (Some (keys', token'))
          | Some next_cursor \<Rightarrow> collect_keys n br (Some next_cursor) keys' token')"

definition bootstrap :: "nat \<Rightarrow> 'h bridge \<Rightarrow> ('h, (string set \<times> string) option) rei" where
  "bootstrap pages br =
     ibind (call_bridge br ''Bridge could not be reached.'' ''Bridge returned an invalid v2 response.'' (br_health br)) (\<lambda>status.
       if status \<noteq> ''OK'' then iraise (ReingestionError ''Bridge is not ready for reingestion.'')
       else ibind (collect_keys pages br None {} None) (\<lambda>collected.
         case collected of
           None \<Rightarrow> iret None
         | Some (keys, token) \<Rightarrow>
             (case token of
                Some (ch # rest) \<Rightarrow> iret (Some (keys, ch # rest))
              | _ \<Rightarrow> iraise (ReingestionError ''Bridge did not establish a CSRF session.''))))"

definition client_upload :: "'h bridge \<Rightarrow> string \<Rightarrow> validated_document \<Rightarrow> string \<Rightarrow> ('h, accepted_document) rei" where
  "client_upload br token item key w =
     (if \<not> br_reopens br item then (Inl (ReingestionError ''Source entry could not be reopened.''), w)
      else call_bridge br ''Bridge upload acceptance is unknown; rerun unchanged.''
        ''Bridge returned an invalid upload response.'' (br_upload br token item key)
        (w\<lparr>run_uploads := run_uploads w @ [item]\<rparr>))"

definition document_state_of :: "'h bridge \<Rightarrow> uuid \<Rightarrow> ('h, string) rei" where
  "document_state_of br did = call_bridge br ''Bridge document status could not be read.''
     ''Bridge returned an invalid document response.'' (br_document br did)"

definition save_state :: "'h bridge \<Rightarrow> reingestion_state \<Rightarrow> ('h, unit) rei" where
  "save_state br state w =
     (if br_save_ok br (run_saves w) then (Inr (), w\<lparr>run_file := Saved state, run_saves := Suc (run_saves w)\<rparr>)
      else (Inl (ReingestionError ''The reingestion state file could not be saved.''), w\<lparr>run_saves := Suc (run_saves w)\<rparr>))"

definition monotonic :: "'h bridge \<Rightarrow> ('h, rat) rei" where
  "monotonic br w = (Inr (br_clock br (run_ticks w)), w\<lparr>run_ticks := Suc (run_ticks w)\<rparr>)"

section \<open>Applying a manifest\<close>

definition settled :: "accepted_document \<Rightarrow> bool" where
  "settled a \<longleftrightarrow> ad_state a \<in> set SETTLED_STATES"

definition outstanding_count :: "(string \<times> accepted_document) list \<Rightarrow> nat" where
  "outstanding_count acc = length (filter (\<lambda>(_, a). \<not> settled a) acc)"

text \<open>The status of every document that is not settled, read again.\<close>

fun poll ::
  "'h bridge \<Rightarrow> (string \<times> accepted_document) list \<Rightarrow> ('h, (string \<times> accepted_document) list) rei" where
  "poll br [] = iret []"
| "poll br ((index, retained) # rest) =
     ibind (if settled retained then iret retained
            else ibind (document_state_of br (ad_document_id retained)) (\<lambda>state. iret (retained\<lparr>ad_state := state\<rparr>))) (\<lambda>a.
     ibind (poll br rest) (\<lambda>accs. iret ((index, a) # accs)))"

fun pad_left :: "nat \<Rightarrow> string \<Rightarrow> string" where
  "pad_left n s = replicate (n - length s) (CHR ''0'') @ s"

definition idempotency_key_for :: "string \<Rightarrow> nat \<Rightarrow> string" where
  "idempotency_key_for manifest_sha256 index =
     ''reingest-'' @ take 48 manifest_sha256 @ ''-'' @ pad_left 6 (nat_digits index)"

text \<open>The uploads of one round, while documents are pending and fewer than the limit are outstanding.\<close>

fun upload_pending ::
  "'h bridge \<Rightarrow> string \<Rightarrow> string \<Rightarrow> nat \<Rightarrow> validated_document list \<Rightarrow> nat \<Rightarrow> (string \<times> accepted_document) list
     \<Rightarrow> ('h, nat \<times> (string \<times> accepted_document) list) rei" where
  "upload_pending br token digest limit [] outstanding acc = iret (outstanding, acc)"
| "upload_pending br token digest limit (item # pending) outstanding acc =
     (if outstanding < limit then
        ibind (client_upload br token item (idempotency_key_for digest (vd_index item))) (\<lambda>a.
          let acc' = dict_put (nat_digits (vd_index item)) a acc in
          ibind (save_state br \<lparr>rst_manifest_sha256 = digest, rst_accepted = acc'\<rparr>) (\<lambda>_.
          upload_pending br token digest limit pending (Suc outstanding) acc'))
      else iret (outstanding, acc))"

definition reingest_round ::
  "'h bridge \<Rightarrow> string \<Rightarrow> validated_manifest \<Rightarrow> nat \<Rightarrow> (string \<times> accepted_document) list
     \<Rightarrow> ('h, nat \<times> (string \<times> accepted_document) list) rei" where
  "reingest_round br token manifest limit acc =
     ibind (poll br acc) (\<lambda>acc1.
     ibind (save_state br \<lparr>rst_manifest_sha256 = vm_manifest_sha256 manifest, rst_accepted = acc1\<rparr>) (\<lambda>_.
     upload_pending br token (vm_manifest_sha256 manifest) limit
       (filter (\<lambda>item. nat_digits (vd_index item) \<notin> fst ` set acc1) (vm_documents manifest))
       (outstanding_count acc1) acc1))"

text \<open>The loop of rounds; the fuel bounds their number.\<close>

fun reingest_rounds ::
  "nat \<Rightarrow> 'h bridge \<Rightarrow> string \<Rightarrow> validated_manifest \<Rightarrow> nat \<Rightarrow> rat \<Rightarrow> rat \<Rightarrow> (string \<times> accepted_document) list
     \<Rightarrow> ('h, reingestion_state option) rei" where
  "reingest_rounds 0 br token manifest limit wait deadline acc = iret None"
| "reingest_rounds (Suc n) br token manifest limit wait deadline acc =
     ibind (reingest_round br token manifest limit acc) (\<lambda>(outstanding, acc1).
       let state = \<lparr>rst_manifest_sha256 = vm_manifest_sha256 manifest, rst_accepted = acc1\<rparr> in
       if (length acc1 = length (vm_documents manifest) \<and> outstanding = 0) \<or> wait = 0 then iret (Some state)
       else ibind (monotonic br) (\<lambda>now.
         if deadline \<le> now then iret (Some state)
         else reingest_rounds n br token manifest limit wait deadline acc1))"

definition apply_manifest ::
  "nat \<Rightarrow> nat \<Rightarrow> 'h bridge \<Rightarrow> validated_manifest \<Rightarrow> int \<Rightarrow> rat \<Rightarrow> rat \<Rightarrow> ('h, reingestion_state option) rei" where
  "apply_manifest pages rounds br manifest max_outstanding wait poll_seconds =
     (if \<not> (1 \<le> max_outstanding \<and> max_outstanding \<le> 5) \<or> wait < 0 \<or> poll_seconds \<le> 0 then iraise ReingestionValueError
      else ibind (bootstrap pages br) (\<lambda>session.
        case session of
          None \<Rightarrow> iret None
        | Some (configured, token) \<Rightarrow>
            if \<not> set (map vd_collection_key (vm_documents manifest)) \<subseteq> configured
            then iraise (ReingestionError ''Manifest uses unavailable collections.'')
            else ibind (\<lambda>w. (load_state (run_file w) (vm_manifest_sha256 manifest), w)) (\<lambda>state.
              let accepted = rst_accepted state in
              if \<not> fst ` set accepted \<subseteq> set (map (\<lambda>item. nat_digits (vd_index item)) (vm_documents manifest))
                 \<or> card ((\<lambda>(_, a). ad_document_id a) ` set accepted) \<noteq> length accepted
              then iraise (ReingestionError ''The state file contains invalid or duplicate acceptances.'')
              else ibind (monotonic br) (\<lambda>start.
                reingest_rounds rounds br token manifest (nat max_outstanding) wait (start + wait) accepted))))"

section \<open>Correctness\<close>

text \<open>Indices are written injectively.\<close>

lemma digits_value: "foldl (\<lambda>a c. 10 * a + (char_code c - 48)) 0 (nat_digits n) = n"
proof (induction n rule: nat_digits.induct)
  case (1 n)
  have code: "char_code (char_of (48 + k)) = 48 + k" if "k < 10" for k
    using that by (simp add: char_code_def)
  show ?case
  proof (cases "n < 10")
    case True
    then show ?thesis
      by (simp add: nat_digits.simps code)
  next
    case False
    then show ?thesis
      using 1 code [of "n mod 10"] by (subst nat_digits.simps) simp
  qed
qed

lemma nat_digits_inj: "nat_digits m = nat_digits n \<longleftrightarrow> m = n"
  using digits_value by metis

text \<open>Entries by key, document and operation, and those of the state file.\<close>

definition entry_rows :: "(string \<times> accepted_document) list \<Rightarrow> (string \<times> uuid \<times> uuid) list" where
  "entry_rows acc = map (\<lambda>(k, a). (k, ad_document_id a, ad_operation_id a)) acc"

definition file_entries :: "state_file \<Rightarrow> (string \<times> accepted_document) list" where
  "file_entries file = (case file of Saved s \<Rightarrow> rst_accepted s | _ \<Rightarrow> [])"

lemma entry_rows_keys: "fst ` set (entry_rows acc) = fst ` set acc" "map fst (entry_rows acc) = map fst acc"
  by (force simp: entry_rows_def)+

lemma dict_put_new: "k \<notin> fst ` set acc \<Longrightarrow> dict_put k v acc = acc @ [(k, v)]"
  by (induction acc) auto

lemma outstanding_append: "outstanding_count (acc @ acc') = outstanding_count acc + outstanding_count acc'"
  by (simp add: outstanding_count_def)

lemma poll_result:
  "poll br acc w = (r, w') \<Longrightarrow> run_uploads w' = run_uploads w \<and> run_file w' = run_file w \<and> run_ticks w' = run_ticks w
    \<and> (\<forall>acc'. r = Inr acc' \<longrightarrow> entry_rows acc' = entry_rows acc \<and> outstanding_count acc' \<le> outstanding_count acc)"
proof (induction acc arbitrary: w r w')
  case Nil
  then show ?case by (auto simp: iret_def)
next
  case (Cons x rest)
  obtain k a where x: "x = (k, a)" by (cases x)
  show ?case
  proof (cases "settled a")
    case True
    then show ?thesis
      using Cons.prems Cons.IH [of w]
      by (auto simp: x ibind_def iret_def entry_rows_def outstanding_count_def split: prod.splits sum.splits)
  next
    case False
    then show ?thesis
      using Cons.prems Cons.IH
      by (auto simp: x ibind_def iret_def document_state_of_def call_bridge_def entry_rows_def outstanding_count_def
          le_SucI split: prod.splits sum.splits)
  qed
qed

text \<open>
  What uploading leaves: the uploads made are a prefix of the pending ones, and the state file has an entry for each
  of them, except possibly the last when the run stopped there.
\<close>

definition recorded :: "bool \<Rightarrow> (string \<times> uuid \<times> uuid) list \<Rightarrow> validated_document list \<Rightarrow> (string \<times> uuid \<times> uuid) list \<Rightarrow> bool" where
  "recorded ended rows us rows' \<longleftrightarrow> (\<exists>more. rows' = rows @ more
     \<and> (map fst more = map (\<lambda>u. nat_digits (vd_index u)) us
        \<or> (\<not> ended \<and> us \<noteq> [] \<and> map fst more = map (\<lambda>u. nat_digits (vd_index u)) (butlast us))))"

lemma recorded_Nil: "recorded ended rows [] rows"
  by (simp add: recorded_def)

lemma recorded_Cons:
  assumes "recorded ended (rows @ [(nat_digits (vd_index u), x)]) us rows'"
  shows "recorded ended rows (u # us) rows'"
proof -
  obtain more where "rows' = rows @ (nat_digits (vd_index u), x) # more"
    "map fst more = map (\<lambda>u. nat_digits (vd_index u)) us
        \<or> (\<not> ended \<and> us \<noteq> [] \<and> map fst more = map (\<lambda>u. nat_digits (vd_index u)) (butlast us))"
    using assms by (auto simp: recorded_def)
  then show ?thesis
    unfolding recorded_def by (intro exI [of _ "(nat_digits (vd_index u), x) # more"]) auto
qed

lemma recorded_append:
  assumes "recorded True rows us rows1" and "recorded ended rows1 vs rows'"
  shows "recorded ended rows (us @ vs) rows'"
proof -
  obtain m where m: "rows1 = rows @ m" "map fst m = map (\<lambda>u. nat_digits (vd_index u)) us"
    using assms(1) by (auto simp: recorded_def)
  obtain m' where "rows' = rows1 @ m'" "map fst m' = map (\<lambda>u. nat_digits (vd_index u)) vs
        \<or> (\<not> ended \<and> vs \<noteq> [] \<and> map fst m' = map (\<lambda>u. nat_digits (vd_index u)) (butlast vs))"
    using assms(2) by (auto simp: recorded_def)
  then show ?thesis
    using m unfolding recorded_def by (intro exI [of _ "m @ m'"]) (auto simp: butlast_append)
qed

lemma upload_pending_result:
  assumes "upload_pending br token digest limit pending outstanding acc w = (r, w')"
    and "distinct (map vd_index pending)" and "\<And>u. u \<in> set pending \<Longrightarrow> nat_digits (vd_index u) \<notin> fst ` set acc"
    and "run_file w = Saved \<lparr>rst_manifest_sha256 = digest, rst_accepted = acc\<rparr>" and "outstanding_count acc \<le> outstanding"
  shows "\<exists>us vs acc'. pending = us @ vs \<and> run_uploads w' = run_uploads w @ us \<and> run_ticks w' = run_ticks w
    \<and> run_file w' = Saved \<lparr>rst_manifest_sha256 = digest, rst_accepted = acc'\<rparr>
    \<and> recorded (\<not> isl r) (entry_rows acc) us (entry_rows acc')
    \<and> outstanding_count acc' \<le> max outstanding limit
    \<and> (\<forall>o' acc''. r = Inr (o', acc'') \<longrightarrow> acc'' = acc' \<and> outstanding_count acc' \<le> o')"
  using assms
proof (induction pending arbitrary: outstanding acc w)
  case Nil
  then show ?case
    by (auto simp: iret_def recorded_Nil)
next
  case (Cons u pending)
  let ?k = "nat_digits (vd_index u)"
  have stop: "\<exists>us vs acc'. u # pending = us @ vs \<and> run_uploads w' = run_uploads w @ us \<and> run_ticks w' = run_ticks w
    \<and> run_file w' = Saved \<lparr>rst_manifest_sha256 = digest, rst_accepted = acc'\<rparr>
    \<and> recorded (\<not> isl r) (entry_rows acc) us (entry_rows acc') \<and> outstanding_count acc' \<le> max outstanding limit
    \<and> (\<forall>o' acc''. r = Inr (o', acc'') \<longrightarrow> acc'' = acc' \<and> outstanding_count acc' \<le> o')"
    if "run_uploads w' = run_uploads w @ us" "us = [] \<or> us = [u] \<and> isl r" "run_ticks w' = run_ticks w"
      "run_file w' = run_file w" "\<forall>o' acc''. r = Inr (o', acc'') \<longrightarrow> acc'' = acc \<and> o' = outstanding" for us
    using that Cons.prems(4,5)
    by (intro exI [of _ us] exI [of _ "if us = [] then u # pending else pending"] exI [of _ acc])
      (auto simp: recorded_def)
  show ?case
  proof (cases "outstanding < limit")
    case False
    then show ?thesis
      using Cons.prems(1) by (intro stop [of "[]"]) (auto simp: iret_def)
  next
    case True
    note run = Cons.prems(1) [unfolded upload_pending.simps, simplified True if_True]
    obtain ru w1 where up: "client_upload br token u (idempotency_key_for digest (vd_index u)) w = (ru, w1)"
      by (cases "client_upload br token u (idempotency_key_for digest (vd_index u)) w")
    have w1: "run_file w1 = run_file w" "run_ticks w1 = run_ticks w"
      "run_uploads w1 = run_uploads w \<and> isl ru \<or> run_uploads w1 = run_uploads w @ [u]"
      using up by (auto simp: client_upload_def call_bridge_def split: if_splits prod.splits)
    show ?thesis
    proof (cases ru)
      case (Inl e)
      then have ended: "r = Inl e" "w' = w1"
        using run up by (auto simp: ibind_def)
      from w1(3) show ?thesis
      proof
        assume "run_uploads w1 = run_uploads w \<and> isl ru"
        then show ?thesis
          using w1 ended by (intro stop [of "[]"]) simp_all
      next
        assume "run_uploads w1 = run_uploads w @ [u]"
        then show ?thesis
          using w1 ended by (intro stop [of "[u]"]) simp_all
      qed
    next
      case (Inr a)
      let ?acc = "acc @ [(?k, a)]"
      have put: "dict_put ?k a acc = ?acc"
        by (rule dict_put_new) (use Cons.prems(3) [of u] in simp)
      obtain rs w2 where sv: "save_state br \<lparr>rst_manifest_sha256 = digest, rst_accepted = ?acc\<rparr> w1 = (rs, w2)"
        by (cases "save_state br \<lparr>rst_manifest_sha256 = digest, rst_accepted = ?acc\<rparr> w1")
      have w2: "run_uploads w2 = run_uploads w1" "run_ticks w2 = run_ticks w1"
        "(isl rs \<and> run_file w2 = run_file w1)
          \<or> (rs = Inr () \<and> run_file w2 = Saved \<lparr>rst_manifest_sha256 = digest, rst_accepted = ?acc\<rparr>)"
        using sv by (auto simp: save_state_def split: if_splits)
      show ?thesis
      proof (cases rs)
        case (Inl e)
        then have "r = Inl e" "w' = w2"
          using run up Inr put sv by (auto simp: ibind_def Let_def)
        then show ?thesis
          using w1 w2 Inr Inl by (intro stop [of "[u]"]) auto
      next
        case saved: (Inr x)
        have rest: "upload_pending br token digest limit pending (Suc outstanding) ?acc w2 = (r, w')"
          using run up Inr put sv saved by (simp add: ibind_def Let_def)
        have new: "nat_digits (vd_index v) \<notin> fst ` set ?acc" if v: "v \<in> set pending" for v
        proof -
          have "vd_index v \<noteq> vd_index u"
            using Cons.prems(2) imageI [OF v, of vd_index] by auto
          then show ?thesis
            using Cons.prems(3) [of v] v by (simp add: nat_digits_inj)
        qed
        have "outstanding_count ?acc \<le> Suc outstanding"
          using Cons.prems(5) by (simp add: outstanding_append) (simp add: outstanding_count_def)
        then obtain us vs acc' where ih: "pending = us @ vs" "run_uploads w' = run_uploads w2 @ us" "run_ticks w' = run_ticks w2"
          "run_file w' = Saved \<lparr>rst_manifest_sha256 = digest, rst_accepted = acc'\<rparr>"
          "recorded (\<not> isl r) (entry_rows ?acc) us (entry_rows acc')"
          "outstanding_count acc' \<le> max (Suc outstanding) limit"
          "\<forall>o' acc''. r = Inr (o', acc'') \<longrightarrow> acc'' = acc' \<and> outstanding_count acc' \<le> o'"
          using Cons.IH [OF rest _ new] Cons.prems(2) w2 saved by auto
        have "recorded (\<not> isl r) (entry_rows acc) (u # us) (entry_rows acc')"
          by (rule recorded_Cons) (use ih(5) in \<open>simp add: entry_rows_def\<close>)
        moreover have "run_uploads w' = run_uploads w @ u # us"
          using ih(2) w1 w2 Inr by auto
        ultimately show ?thesis
          using ih w1 w2 True by (intro exI [of _ "u # us"] exI [of _ vs] exI [of _ acc']) auto
      qed
    qed
  qed
qed

text \<open>The entries a state file holds for a run: those of the file that was loaded, or of the last save.\<close>

definition holds :: "string \<Rightarrow> (string \<times> accepted_document) list \<Rightarrow> state_file \<Rightarrow> bool" where
  "holds digest acc file \<longleftrightarrow> file = Saved \<lparr>rst_manifest_sha256 = digest, rst_accepted = acc\<rparr> \<or> file = NoFile \<and> acc = []"

lemma holds_entries: "holds digest acc file \<Longrightarrow> file_entries file = acc"
  by (auto simp: holds_def file_entries_def)

text \<open>What a number of rounds leaves behind, however they end.\<close>

definition rounds_leave ::
  "validated_manifest \<Rightarrow> nat \<Rightarrow> (string \<times> accepted_document) list \<Rightarrow> 'h run \<Rightarrow> bool \<Rightarrow> 'h run
     \<Rightarrow> (string \<times> accepted_document) list \<Rightarrow> bool" where
  "rounds_leave manifest limit acc w ended w' acc' \<longleftrightarrow>
     (\<exists>us. run_uploads w' = run_uploads w @ us \<and> distinct (map vd_index us) \<and> set us \<subseteq> set (vm_documents manifest)
        \<and> (\<forall>u\<in>set us. nat_digits (vd_index u) \<notin> fst ` set acc)
        \<and> recorded ended (entry_rows acc) us (entry_rows acc'))
     \<and> outstanding_count acc' \<le> max (outstanding_count acc) limit
     \<and> holds (vm_manifest_sha256 manifest) acc' (run_file w')"

lemma rounds_leave_refl:
  "holds (vm_manifest_sha256 manifest) acc (run_file w') \<Longrightarrow> run_uploads w' = run_uploads w
     \<Longrightarrow> rounds_leave manifest limit acc w ended w' acc"
  by (auto simp: rounds_leave_def recorded_Nil intro!: exI [of _ "[]"])

lemma reingest_round_result:
  assumes run: "reingest_round br token manifest limit acc w = (r, w')"
    and ids: "distinct (map vd_index (vm_documents manifest))"
    and stored: "holds (vm_manifest_sha256 manifest) acc (run_file w)"
  shows "\<exists>acc'. rounds_leave manifest limit acc w (\<not> isl r) w' acc' \<and> run_ticks w' = run_ticks w
    \<and> (\<forall>o' acc''. r = Inr (o', acc'') \<longrightarrow> acc'' = acc' \<and> outstanding_count acc' \<le> o'
        \<and> run_file w' = Saved \<lparr>rst_manifest_sha256 = vm_manifest_sha256 manifest, rst_accepted = acc'\<rparr>)"
proof -
  let ?digest = "vm_manifest_sha256 manifest"
  obtain rp w1 where poll: "poll br acc w = (rp, w1)"
    by (cases "poll br acc w")
  note p = poll_result [OF poll]
  show ?thesis
  proof (cases rp)
    case (Inl e)
    then have "r = Inl e" "w' = w1"
      using run poll by (auto simp: reingest_round_def ibind_def)
    then show ?thesis
      using p stored rounds_leave_refl [of manifest acc w' w limit] by auto
  next
    case (Inr acc1)
    have acc1: "entry_rows acc1 = entry_rows acc" "outstanding_count acc1 \<le> outstanding_count acc"
      using p Inr by auto
    then have keys: "fst ` set acc1 = fst ` set acc"
      by (metis entry_rows_keys(1))
    obtain rs w2 where sv: "save_state br \<lparr>rst_manifest_sha256 = ?digest, rst_accepted = acc1\<rparr> w1 = (rs, w2)"
      by (cases "save_state br \<lparr>rst_manifest_sha256 = ?digest, rst_accepted = acc1\<rparr> w1")
    show ?thesis
    proof (cases rs)
      case failed: (Inl e)
      then have "r = Inl e" "w' = w2" "run_uploads w2 = run_uploads w1" "run_file w2 = run_file w1"
        "run_ticks w2 = run_ticks w1"
        using run poll Inr sv by (auto simp: reingest_round_def ibind_def save_state_def split: if_splits)
      then show ?thesis
        using p stored rounds_leave_refl [of manifest acc w' w limit] by auto
    next
      case (Inr x)
      let ?pending = "filter (\<lambda>item. nat_digits (vd_index item) \<notin> fst ` set acc1) (vm_documents manifest)"
      have w2: "run_uploads w2 = run_uploads w" "run_ticks w2 = run_ticks w"
        "run_file w2 = Saved \<lparr>rst_manifest_sha256 = ?digest, rst_accepted = acc1\<rparr>"
        using sv Inr p by (auto simp: save_state_def split: if_splits)
      have up: "upload_pending br token ?digest limit ?pending (outstanding_count acc1) acc1 w2 = (r, w')"
        using run poll \<open>rp = Inr acc1\<close> sv Inr by (simp add: reingest_round_def ibind_def)
      have "distinct (map vd_index ?pending)"
        using ids by (simp add: distinct_map inj_on_def)
      from upload_pending_result [OF up this _ w2(3) order_refl]
      obtain us vs acc' where u: "?pending = us @ vs" "run_uploads w' = run_uploads w2 @ us" "run_ticks w' = run_ticks w2"
        "run_file w' = Saved \<lparr>rst_manifest_sha256 = ?digest, rst_accepted = acc'\<rparr>"
        "recorded (\<not> isl r) (entry_rows acc1) us (entry_rows acc')"
        "outstanding_count acc' \<le> max (outstanding_count acc1) limit"
        "\<forall>o' acc''. r = Inr (o', acc'') \<longrightarrow> acc'' = acc' \<and> outstanding_count acc' \<le> o'"
        by auto
      have us: "set us \<subseteq> set ?pending" "distinct (map vd_index us)"
        using \<open>distinct (map vd_index ?pending)\<close> unfolding u(1) by simp_all
      then have "rounds_leave manifest limit acc w (\<not> isl r) w' acc'"
        using u w2 acc1 keys by (auto simp: rounds_leave_def holds_def intro!: exI [of _ us])
      then show ?thesis
        using u w2 by auto
    qed
  qed
qed

lemma rounds_leave_trans:
  assumes "rounds_leave manifest limit acc w True w1 acc1" and "rounds_leave manifest limit acc1 w1 ended w' acc'"
  shows "rounds_leave manifest limit acc w ended w' acc'"
proof -
  obtain us where us: "run_uploads w1 = run_uploads w @ us" "distinct (map vd_index us)" "set us \<subseteq> set (vm_documents manifest)"
    "\<forall>u\<in>set us. nat_digits (vd_index u) \<notin> fst ` set acc" "recorded True (entry_rows acc) us (entry_rows acc1)"
    using assms(1) unfolding rounds_leave_def by blast
  obtain vs where vs: "run_uploads w' = run_uploads w1 @ vs" "distinct (map vd_index vs)" "set vs \<subseteq> set (vm_documents manifest)"
    "\<forall>u\<in>set vs. nat_digits (vd_index u) \<notin> fst ` set acc1" "recorded ended (entry_rows acc1) vs (entry_rows acc')"
    using assms(2) unfolding rounds_leave_def by blast
  have "map fst acc1 = map fst acc @ map (\<lambda>u. nat_digits (vd_index u)) us"
    using us(5) entry_rows_keys(2) [of acc1] entry_rows_keys(2) [of acc] by (auto simp: recorded_def)
  then have keys: "fst ` set acc1 = fst ` set acc \<union> (\<lambda>u. nat_digits (vd_index u)) ` set us"
    by (metis image_set set_append)
  have "vd_index v \<noteq> vd_index u" if "u \<in> set us" "v \<in> set vs" for u v
    using vs(4) that by (force simp: keys)
  then have "vd_index ` set us \<inter> vd_index ` set vs = {}"
    by fastforce
  then have "distinct (map vd_index (us @ vs))"
    using us(2) vs(2) by simp
  moreover have "\<forall>u\<in>set vs. nat_digits (vd_index u) \<notin> fst ` set acc"
    using vs(4) by (simp add: keys)
  ultimately have "\<exists>us. run_uploads w' = run_uploads w @ us \<and> distinct (map vd_index us) \<and> set us \<subseteq> set (vm_documents manifest)
      \<and> (\<forall>u\<in>set us. nat_digits (vd_index u) \<notin> fst ` set acc) \<and> recorded ended (entry_rows acc) us (entry_rows acc')"
    using us vs recorded_append [OF us(5) vs(5)] by (intro exI [of _ "us @ vs"]) auto
  then show ?thesis
    using assms unfolding rounds_leave_def by auto
qed

lemma rounds_leave_ended: "rounds_leave manifest limit acc w True w' acc' \<Longrightarrow> rounds_leave manifest limit acc w ended w' acc'"
  unfolding rounds_leave_def recorded_def by auto

lemma reingest_rounds_result:
  assumes "reingest_rounds n br token manifest limit wait deadline acc w = (r, w')"
    and "distinct (map vd_index (vm_documents manifest))" and "holds (vm_manifest_sha256 manifest) acc (run_file w)"
  shows "\<exists>acc'. rounds_leave manifest limit acc w (\<not> isl r) w' acc' \<and> (\<forall>st. r = Inr (Some st) \<longrightarrow> run_file w' = Saved st)"
  using assms
proof (induction n arbitrary: acc w)
  case 0
  then show ?case
    using rounds_leave_refl by (fastforce simp: iret_def)
next
  case (Suc n)
  obtain rr w1 where one: "reingest_round br token manifest limit acc w = (rr, w1)"
    by (cases "reingest_round br token manifest limit acc w")
  obtain acc1 where a: "rounds_leave manifest limit acc w (\<not> isl rr) w1 acc1"
    "\<forall>o' acc''. rr = Inr (o', acc'') \<longrightarrow> acc'' = acc1 \<and> outstanding_count acc1 \<le> o'
        \<and> run_file w1 = Saved \<lparr>rst_manifest_sha256 = vm_manifest_sha256 manifest, rst_accepted = acc1\<rparr>"
    using reingest_round_result [OF one Suc.prems(2,3)] by blast
  show ?case
  proof (cases rr)
    case (Inl e)
    then have "r = Inl e" "w' = w1"
      using Suc.prems(1) one by (auto simp: ibind_def)
    then show ?thesis
      using a Inl by auto
  next
    case (Inr x)
    obtain k acc'' where x: "x = (k, acc'')" by (cases x)
    then have same: "acc'' = acc1"
      and saved: "run_file w1 = Saved \<lparr>rst_manifest_sha256 = vm_manifest_sha256 manifest, rst_accepted = acc1\<rparr>"
      using a(2) Inr by auto
    have leave: "rounds_leave manifest limit acc w True w1 acc1"
      using a(1) Inr by simp
    let ?state = "\<lparr>rst_manifest_sha256 = vm_manifest_sha256 manifest, rst_accepted = acc1\<rparr>"
    let ?w2 = "w1\<lparr>run_ticks := Suc (run_ticks w1)\<rparr>"
    have leave2: "rounds_leave manifest limit acc w True ?w2 acc1"
      using leave by (simp add: rounds_leave_def)
    have "(r, w') = (Inr (Some ?state), w1) \<or> (r, w') = (Inr (Some ?state), ?w2)
        \<or> reingest_rounds n br token manifest limit wait deadline acc1 ?w2 = (r, w')"
      using Suc.prems(1) one Inr x same by (auto simp: ibind_def iret_def monotonic_def Let_def split: if_splits)
    then show ?thesis
    proof (elim disjE)
      assume next_round: "reingest_rounds n br token manifest limit wait deadline acc1 ?w2 = (r, w')"
      have "holds (vm_manifest_sha256 manifest) acc1 (run_file ?w2)"
        using saved by (simp add: holds_def)
      from Suc.IH [OF next_round Suc.prems(2) this] show ?thesis
        using rounds_leave_trans [OF leave2] by blast
    qed (use leave leave2 saved in auto)
  qed
qed

text \<open>The loop returns once the clock passes the deadline.\<close>

lemma reingest_rounds_return:
  assumes "deadline \<le> br_clock br (run_ticks w + k)" and "k < n"
    and "distinct (map vd_index (vm_documents manifest))" and "holds (vm_manifest_sha256 manifest) acc (run_file w)"
  shows "fst (reingest_rounds n br token manifest limit wait deadline acc w) \<noteq> Inr None"
  using assms
proof (induction n arbitrary: acc w k)
  case (Suc n)
  obtain rr w1 where one: "reingest_round br token manifest limit acc w = (rr, w1)"
    by (cases "reingest_round br token manifest limit acc w")
  obtain acc1 where a: "run_ticks w1 = run_ticks w"
    "\<forall>o' acc''. rr = Inr (o', acc'') \<longrightarrow> acc'' = acc1
        \<and> run_file w1 = Saved \<lparr>rst_manifest_sha256 = vm_manifest_sha256 manifest, rst_accepted = acc1\<rparr>"
    using reingest_round_result [OF one Suc.prems(3,4)] by blast
  show ?case
  proof (cases rr)
    case (Inl e)
    then show ?thesis using one by (simp add: ibind_def)
  next
    case (Inr x)
    obtain o' acc'' where x: "x = (o', acc'')" by (cases x)
    let ?w2 = "w1\<lparr>run_ticks := Suc (run_ticks w1)\<rparr>"
    have file2: "holds (vm_manifest_sha256 manifest) acc'' (run_file ?w2)"
      using a(2) Inr x by (simp add: holds_def)
    show ?thesis
    proof (cases k)
      case 0
      then show ?thesis
        using one Inr x Suc.prems(1) a(1) by (simp add: ibind_def iret_def monotonic_def Let_def)
    next
      case (Suc m)
      then have "fst (reingest_rounds n br token manifest limit wait deadline acc'' ?w2) \<noteq> Inr None"
        using Suc.IH [of ?w2 m acc''] Suc.prems a(1) file2 by simp
      then show ?thesis
        using one Inr x by (auto simp: ibind_def iret_def monotonic_def Let_def)
    qed
  qed
qed simp

text \<open>A validated manifest numbers its entries from 0.\<close>

lemma validate_entries_index:
  "validate_entries sl dk source paths content index items = Inr vs \<Longrightarrow> map vd_index vs = [index..<index + length items]"
proof (induction items arbitrary: paths content index vs)
  case (Cons item items)
  obtain v rest where v: "validate_entry sl dk source paths content index item = Inr v"
    and rest: "validate_entries sl dk source (insert (vd_path v) paths)
      (insert (md_collection_key item, md_sha256 item) content) (Suc index) items = Inr rest"
    and vs: "vs = v # rest"
    using Cons.prems by (auto simp: rbind_eq_Inr)
  have "vd_index v = index"
    using v by (auto simp: validate_entry_def split: option.splits if_splits)
  then show ?case
    using Cons.IH [OF rest] vs by (simp add: upt_conv_Cons del: upt_Suc)
qed simp

lemma validate_manifest_indices:
  assumes "validate_manifest sl dk m src store = Inr manifest"
  shows "distinct (map vd_index (vm_documents manifest))"
proof -
  obtain source items where "validate_entries sl dk source {} {} 0 items = Inr (vm_documents manifest)"
    using assms by (auto simp: validate_manifest_def Let_def rbind_eq_Inr split: option.splits if_splits)
  then show ?thesis
    by (simp add: validate_entries_index)
qed

text \<open>The steps before the first round.\<close>

lemma quiet_call:
  assumes "call_bridge br unreachable invalid request w = (r, w')"
  shows "run_uploads w' = run_uploads w \<and> run_file w' = run_file w \<and> run_ticks w' = run_ticks w"
  using assms by (auto simp: call_bridge_def split: prod.splits)

lemma quiet_collect:
  "collect_keys n br cursor keys token w = (r, w')
     \<Longrightarrow> run_uploads w' = run_uploads w \<and> run_file w' = run_file w \<and> run_ticks w' = run_ticks w"
proof (induction n br cursor keys token arbitrary: w rule: collect_keys.induct)
  case (2 n br cursor keys token)
  obtain rc w1 where one: "call_bridge br ''Bridge could not be reached.'' ''Bridge returned an invalid v2 response.''
      (br_collections br cursor) w = (rc, w1)"
    by (cases "call_bridge br ''Bridge could not be reached.'' ''Bridge returned an invalid v2 response.''
      (br_collections br cursor) w")
  show ?case
  proof (cases rc)
    case (Inr page)
    then show ?thesis
      using 2(2) one quiet_call [OF one] 2(1) by (cases "cpg_next_cursor page") (auto simp: ibind_def iret_def Let_def)
  qed (use 2(2) one quiet_call [OF one] in \<open>auto simp: ibind_def\<close>)
qed (auto simp: iret_def)

lemma quiet_bootstrap:
  assumes "bootstrap pages br w = (r, w')"
  shows "run_uploads w' = run_uploads w \<and> run_file w' = run_file w \<and> run_ticks w' = run_ticks w"
proof -
  obtain rc w1 where one: "call_bridge br ''Bridge could not be reached.'' ''Bridge returned an invalid v2 response.''
      (br_health br) w = (rc, w1)"
    by (cases "call_bridge br ''Bridge could not be reached.'' ''Bridge returned an invalid v2 response.'' (br_health br) w")
  obtain rk w2 where two: "collect_keys pages br None {} None w1 = (rk, w2)"
    by (cases "collect_keys pages br None {} None w1")
  have "w' = w1 \<or> w' = w2"
    using assms one two
    by (auto simp: bootstrap_def ibind_def iret_def iraise_def split: sum.splits if_splits option.splits list.splits)
  then show ?thesis
    using quiet_call [OF one] quiet_collect [OF two] by auto
qed

text \<open>Either nothing was uploaded or saved, or the rounds ran from the loaded entries.\<close>

lemma apply_manifest_cases:
  assumes run: "apply_manifest pages rounds br manifest limit wait poll_seconds w = (r, w')"
  obtains "run_uploads w' = run_uploads w" and "run_file w' = run_file w" and "\<And>st. r \<noteq> Inr (Some st)"
    and "r = Inr None \<Longrightarrow> fst (bootstrap pages br w) = Inr None"
  | token acc w1 where "run_uploads w1 = run_uploads w" and "run_file w1 = run_file w"
    and "run_ticks w1 = Suc (run_ticks w)" and "holds (vm_manifest_sha256 manifest) acc (run_file w)" and "1 \<le> limit" and "limit \<le> 5"
    and "reingest_rounds rounds br token manifest (nat limit) wait (br_clock br (run_ticks w) + wait) acc w1 = (r, w')"
proof -
  obtain rb w0 where boot: "bootstrap pages br w = (rb, w0)"
    by (cases "bootstrap pages br w")
  note quiet = quiet_bootstrap [OF boot]
  let ?bad = "\<not> (1 \<le> limit \<and> limit \<le> 5) \<or> wait < 0 \<or> poll_seconds \<le> 0"
  consider "?bad" | "\<not> ?bad" "\<And>x. rb \<noteq> Inr (Some x)" | keys token where "\<not> ?bad" "rb = Inr (Some (keys, token))"
  proof (cases "\<exists>x. rb = Inr (Some x)")
    case True
    then obtain keys token where "rb = Inr (Some (keys, token))" by auto
    then show ?thesis using that(1,3) by blast
  next
    case False
    then show ?thesis using that(1,2) by blast
  qed
  then show thesis
  proof cases
    case 1
    then show ?thesis
      using run by (intro that(1)) (auto simp: apply_manifest_def iraise_def)
  next
    case 2
    then show ?thesis
      using run boot quiet by (intro that(1)) (auto simp: apply_manifest_def ibind_def iret_def split: sum.splits option.splits)
  next
    case (3 keys token)
    let ?refuse = "\<lambda>state. \<not> fst ` set (rst_accepted state) \<subseteq> set (map (\<lambda>item. nat_digits (vd_index item)) (vm_documents manifest))
         \<or> card ((\<lambda>(_, a). ad_document_id a) ` set (rst_accepted state)) \<noteq> length (rst_accepted state)"
    have eq: "(r, w') = (if \<not> set (map vd_collection_key (vm_documents manifest)) \<subseteq> keys
        then (Inl (ReingestionError ''Manifest uses unavailable collections.''), w0)
        else case load_state (run_file w0) (vm_manifest_sha256 manifest) of Inl e \<Rightarrow> (Inl e, w0)
          | Inr state \<Rightarrow> if ?refuse state
              then (Inl (ReingestionError ''The state file contains invalid or duplicate acceptances.''), w0)
              else reingest_rounds rounds br token manifest (nat limit) wait (br_clock br (run_ticks w0) + wait)
                (rst_accepted state) (w0\<lparr>run_ticks := Suc (run_ticks w0)\<rparr>))"
      using run boot 3
      by (cases "load_state (run_file w0) (vm_manifest_sha256 manifest)")
        (auto simp: apply_manifest_def ibind_def iraise_def monotonic_def Let_def split: if_splits)
    show ?thesis
    proof (cases "set (map vd_collection_key (vm_documents manifest)) \<subseteq> keys")
      case True
      show ?thesis
      proof (cases "load_state (run_file w0) (vm_manifest_sha256 manifest)")
        case (Inl e)
        then show ?thesis
          using eq True quiet by (intro that(1)) auto
      next
        case (Inr state)
        have "holds (vm_manifest_sha256 manifest) (rst_accepted state) (run_file w)"
          using Inr quiet by (auto simp: load_state_def holds_def split: state_file.splits if_splits)
        then show ?thesis
          using eq True Inr quiet 3(1)
          by (cases "?refuse state") (auto intro: that(1) that(2) [of "w0\<lparr>run_ticks := Suc (run_ticks w0)\<rparr>"])
      qed
    qed (use eq quiet in \<open>auto intro: that(1)\<close>)
  qed
qed

section \<open>Properties\<close>

text \<open>C36. One run of an applied manifest uploads no entry twice and none that the state file already has: however the
  run ends, the documents uploaded are distinct entries of the manifest that the state file had no entry for; the state
  file keeps the entries it had and has one more for each upload, except possibly the last one when the run failed
  there, which a later run then sends again; the number of documents outstanding never exceeds five or what it was
  before; a returned state is the one saved; and the run returns once the clock passes the deadline, if the collection
  pages end.\<close>

theorem reingestion_is_resumable:
  assumes "validate_manifest sl dk manifest_path source_root storage_root = Inr manifest"
    and "apply_manifest pages rounds br manifest max_outstanding wait poll_seconds w = (r, w')"
  shows "(\<exists>us. run_uploads w' = run_uploads w @ us \<and> distinct (map vd_index us) \<and> set us \<subseteq> set (vm_documents manifest)
        \<and> (\<forall>u\<in>set us. nat_digits (vd_index u) \<notin> fst ` set (file_entries (run_file w)))
        \<and> recorded (\<not> isl r) (entry_rows (file_entries (run_file w))) us (entry_rows (file_entries (run_file w'))))
     \<and> outstanding_count (file_entries (run_file w')) \<le> max (outstanding_count (file_entries (run_file w))) 5
     \<and> (\<forall>st. r = Inr (Some st) \<longrightarrow> run_file w' = Saved st)
     \<and> ((\<exists>k<rounds. br_clock br (run_ticks w) + wait \<le> br_clock br (Suc (run_ticks w) + k)) \<longrightarrow> r = Inr None
          \<longrightarrow> fst (bootstrap pages br w) = Inr None)"
proof (rule apply_manifest_cases [OF assms(2)])
  assume "run_uploads w' = run_uploads w" "run_file w' = run_file w" "\<And>st. r \<noteq> Inr (Some st)"
    "r = Inr None \<Longrightarrow> fst (bootstrap pages br w) = Inr None"
  then show ?thesis
    by (auto simp: recorded_Nil intro!: exI [of _ "[]"])
next
  fix token acc w1
  assume w1: "run_uploads w1 = run_uploads w" "run_file w1 = run_file w" "run_ticks w1 = Suc (run_ticks w)"
    and stored: "holds (vm_manifest_sha256 manifest) acc (run_file w)" and limit: "1 \<le> max_outstanding" "max_outstanding \<le> 5"
    and rounds: "reingest_rounds rounds br token manifest (nat max_outstanding) wait (br_clock br (run_ticks w) + wait) acc w1 = (r, w')"
  note ids = validate_manifest_indices [OF assms(1)]
  have stored1: "holds (vm_manifest_sha256 manifest) acc (run_file w1)"
    using stored w1 by simp
  obtain acc' where leave: "rounds_leave manifest (nat max_outstanding) acc w1 (\<not> isl r) w' acc'"
    and saved: "\<forall>st. r = Inr (Some st) \<longrightarrow> run_file w' = Saved st"
    using reingest_rounds_result [OF rounds ids stored1] by blast
  have files: "file_entries (run_file w) = acc" "file_entries (run_file w') = acc'"
    using stored leave by (auto simp: rounds_leave_def holds_entries)
  have "r \<noteq> Inr None" if "k < rounds" "br_clock br (run_ticks w) + wait \<le> br_clock br (Suc (run_ticks w) + k)" for k
    using reingest_rounds_return [of _ br w1 k, OF _ that(1) ids stored1] that(2) w1(3) rounds by (metis fst_conv)
  moreover have "nat max_outstanding \<le> 5"
    using limit by simp
  then have "outstanding_count acc' \<le> max (outstanding_count acc) 5"
    using leave by (auto simp: rounds_leave_def)
  ultimately show ?thesis
    using leave saved w1(1) by (auto simp: rounds_leave_def files)
qed

text \<open>A manifest of one document, applied to a bridge that accepts it.\<close>

definition small_stdlib :: stdlib where
  "small_stdlib = \<lparr>sl_sha256 = (\<lambda>_. replicate 64 (CHR ''a'')), sl_uuid5 = (\<lambda>_ _. 77),
     sl_float_repr = (\<lambda>_. ''1.0''), sl_unit_norm = (\<lambda>_. True), sl_nfkc = (\<lambda>s. s)\<rparr>"

definition small_disk :: disk where
  "small_disk = \<lparr>dk_resolve = Some, dk_resolve_lax = (\<lambda>p. p), dk_is_file = (\<lambda>_. True), dk_is_dir = (\<lambda>_. True),
     dk_size = (\<lambda>_. Some 5), dk_read = (\<lambda>_. Some ''%PDF-''),
     dk_json = (\<lambda>_. Some (JObj [(''version'', JInt 4), (''documents'', JArr [JObj [(''path'', JStr ''a.pdf''),
       (''filename'', JStr ''a.pdf''), (''collection_key'', JStr ''reports''), (''sha256'', JStr (replicate 64 (CHR ''a'')))]])]))\<rparr>"

definition small_bridge :: "nat bridge" where
  "small_bridge = \<lparr>br_health = (\<lambda>h. (Answer ''OK'', h)),
     br_collections = (\<lambda>_ h. (Answer \<lparr>cpg_items = [(''reports'', True)], cpg_next_cursor = None, cpg_csrf_token = Some ''t''\<rparr>, h)),
     br_upload = (\<lambda>_ _ _ h. (Answer \<lparr>ad_document_id = 1, ad_operation_id = 2, ad_state = ''ACCEPTED''\<rparr>, Suc h)),
     br_document = (\<lambda>_ h. (Answer ''ACCEPTED'', h)), br_reopens = (\<lambda>_. True), br_save_ok = (\<lambda>_. True),
     br_clock = (\<lambda>_. 0), br_str = (\<lambda>_. ''error'')\<rparr>"

definition small_run :: "nat run" where
  "small_run = \<lparr>run_server = 0, run_file = NoFile, run_saves = 0, run_ticks = 0, run_uploads = []\<rparr>"

definition small_document :: validated_document where
  "small_document = \<lparr>vd_index = 0, vd_path = [''src'', ''a.pdf''], vd_filename = ''a.pdf'', vd_collection_key = ''reports'',
     vd_sha256 = replicate 64 (CHR ''a''), vd_size_bytes = 5\<rparr>"

definition small_manifest :: validated_manifest where
  "small_manifest = \<lparr>vm_manifest_sha256 = replicate 64 (CHR ''a''), vm_documents = [small_document], vm_total_bytes = 5\<rparr>"

lemma small_items:
  "reingestion_manifest_of small_stdlib (JObj [(''version'', JInt 4), (''documents'', JArr [JObj [(''path'', JStr ''a.pdf''),
       (''filename'', JStr ''a.pdf''), (''collection_key'', JStr ''reports''), (''sha256'', JStr (replicate 64 (CHR ''a'')))]])])
     = Some [\<lparr>md_path = ''a.pdf'', md_filename = ''a.pdf'', md_collection_key = ''reports'', md_sha256 = replicate 64 (CHR ''a'')\<rparr>]"
  by code_simp

lemma small_validated:
  "validate_manifest small_stdlib small_disk [''m''] [''src''] [''db''] = Inr small_manifest"
proof -
  have "validate_entry small_stdlib small_disk [''src''] {} {} 0
      \<lparr>md_path = ''a.pdf'', md_filename = ''a.pdf'', md_collection_key = ''reports'', md_sha256 = replicate 64 (CHR ''a'')\<rparr>
    = Inr small_document"
    by code_simp
  then show ?thesis
    using small_items
    by (simp add: validate_manifest_def small_disk_def is_beneath_def MAX_MANIFEST_BYTES_def rbind_def small_manifest_def
        small_document_def small_stdlib_def del: dumps.simps)
qed

lemma small_applied:
  "apply_manifest 1 1 small_bridge small_manifest 5 0 1 small_run
     = (Inr (Some \<lparr>rst_manifest_sha256 = replicate 64 (CHR ''a''),
          rst_accepted = [(''0'', \<lparr>ad_document_id = 1, ad_operation_id = 2, ad_state = ''ACCEPTED''\<rparr>)]\<rparr>),
        \<lparr>run_server = 1, run_file = Saved \<lparr>rst_manifest_sha256 = replicate 64 (CHR ''a''),
          rst_accepted = [(''0'', \<lparr>ad_document_id = 1, ad_operation_id = 2, ad_state = ''ACCEPTED''\<rparr>)]\<rparr>,
          run_saves = 2, run_ticks = 1, run_uploads = [small_document]\<rparr>)"
  by code_simp

lemma reingestion_is_resumable_witness:
  "\<exists>us. us = [small_document] \<and> distinct (map vd_index us)
     \<and> recorded True (entry_rows []) us (entry_rows [(''0'', \<lparr>ad_document_id = 1, ad_operation_id = 2, ad_state = ''ACCEPTED''\<rparr>)])"
  using reingestion_is_resumable [OF small_validated small_applied]
  by (simp add: small_run_def file_entries_def)

end
