(* ===== verification/Access_Token.thy ===== *)
theory Access_Token
  imports Evidence
begin

text \<open>
  The Qdrant access token of the settings (\<^verbatim>\<open>core/config.py\<close>): the base64url segments of a compact JWT and the
  least-privilege claims.  The parser \<^verbatim>\<open>json.loads\<close> is a parameter; it answers \<open>None\<close> for a syntax error, invalid
  UTF-8 or a non-finite constant, and gives the members of an object in order, repeated ones included.
\<close>

section \<open>Base64url\<close>

text \<open>\<^verbatim>\<open>base64.urlsafe_b64encode\<close> without its padding, and the decoding of the digits; characters are bytes.\<close>

definition b64_digit :: "nat \<Rightarrow> char" where
  "b64_digit n = (if n < 26 then char_of (65 + n) else if n < 52 then char_of (71 + n)
     else if n < 62 then char_of (n - 4) else if n = 62 then CHR ''-'' else CHR ''_'')"

definition b64_value :: "char \<Rightarrow> nat option" where
  "b64_value c =
     (let n = char_code c in
      if 65 \<le> n \<and> n \<le> 90 then Some (n - 65) else if 97 \<le> n \<and> n \<le> 122 then Some (n - 71)
      else if 48 \<le> n \<and> n \<le> 57 then Some (n + 4) else if n = 45 then Some 62 else if n = 95 then Some 63 else None)"

fun b64url_encode :: "string \<Rightarrow> string" where
  "b64url_encode [] = []"
| "b64url_encode [a] = [b64_digit (char_code a div 4), b64_digit (char_code a mod 4 * 16)]"
| "b64url_encode [a, b] =
     [b64_digit (char_code a div 4), b64_digit (char_code a mod 4 * 16 + char_code b div 16),
      b64_digit (char_code b mod 16 * 4)]"
| "b64url_encode (a # b # c # rest) =
     b64_digit (char_code a div 4) # b64_digit (char_code a mod 4 * 16 + char_code b div 16)
     # b64_digit (char_code b mod 16 * 4 + char_code c div 64) # b64_digit (char_code c mod 64) # b64url_encode rest"

text \<open>The decoder ignores what the last digit carries beyond whole bytes; a single last digit is an error.\<close>

fun b64_bytes :: "nat list \<Rightarrow> string option" where
  "b64_bytes [] = Some []"
| "b64_bytes [v] = None"
| "b64_bytes [v, w] = Some [char_of (v * 4 + w div 16)]"
| "b64_bytes [v, w, x] = Some [char_of (v * 4 + w div 16), char_of (w mod 16 * 16 + x div 4)]"
| "b64_bytes (v # w # x # y # rest) =
     map_option (\<lambda>s. char_of (v * 4 + w div 16) # char_of (w mod 16 * 16 + x div 4) # char_of (x mod 4 * 64 + y) # s)
       (b64_bytes rest)"

definition jwt_char :: "char \<Rightarrow> bool" where
  "jwt_char c \<longleftrightarrow> token_char c \<or> (65 \<le> char_code c \<and> char_code c \<le> 90) \<or> c \<in> set ''_-''"

definition decode_jwt_segment :: "string \<Rightarrow> nat \<Rightarrow> string option" where
  "decode_jwt_segment encoded maximum_bytes =
     (if encoded = [] \<or> \<not> list_all jwt_char encoded then None
      else case b64_bytes (map (\<lambda>c. the (b64_value c)) encoded) of
        None \<Rightarrow> None
      | Some decoded \<Rightarrow>
          if b64url_encode decoded \<noteq> encoded then None
          else if maximum_bytes < length decoded then None
          else Some decoded)"

lemma char_code_char_of: "n < 256 \<Longrightarrow> char_code (char_of n) = n"
  by (simp add: char_code_def)

lemma char_of_code [simp]: "char_of (char_code c) = c"
  by (simp add: char_code_def)

lemma char_code_less: "char_code c < 256"
  by (simp add: char_code_def)

lemma b64_digit_cases:
  assumes "n < 64"
  shows "b64_value (b64_digit n) = Some n \<and> jwt_char (b64_digit n)"
proof -
  consider "n < 26" | "26 \<le> n" "n < 52" | "52 \<le> n" "n < 62" | "n = 62" | "n = 63"
    using assms by linarith
  then show ?thesis
    by cases (simp_all add: b64_digit_def b64_value_def jwt_char_def token_char_def char_code_char_of Let_def,
        (presburger | simp add: char_code_def)+)
qed

lemma b64_value_digit: "n < 64 \<Longrightarrow> b64_value (b64_digit n) = Some n"
  by (simp add: b64_digit_cases)

lemma jwt_char_digit: "n < 64 \<Longrightarrow> jwt_char (b64_digit n)"
  by (simp add: b64_digit_cases)

lemma byte_parts [simp]:
  "char_code c div 4 < 64" "char_code c div 16 div 16 = 0" "char_code c div 16 mod 16 = char_code c div 16"
  "char_code c div 64 div 4 = 0" "char_code c div 64 mod 4 = char_code c div 64"
  "char_code a mod 4 * 16 + char_code c div 16 < 64" "char_code a mod 16 * 4 + char_code c div 64 < 64"
  "char_code a mod 4 * 16 < 64" "char_code a mod 16 * 4 < 64"
proof -
  have "char_code c div 16 < 16" "char_code c div 64 < 4" "char_code a mod 4 < 4" "char_code a mod 16 < 16"
    using char_code_less [of c] by (simp_all add: less_mult_imp_div_less)
  then show "char_code c div 4 < 64" "char_code c div 16 div 16 = 0" "char_code c div 16 mod 16 = char_code c div 16"
    "char_code c div 64 div 4 = 0" "char_code c div 64 mod 4 = char_code c div 64"
    "char_code a mod 4 * 16 + char_code c div 16 < 64" "char_code a mod 16 * 4 + char_code c div 64 < 64"
    "char_code a mod 4 * 16 < 64" "char_code a mod 16 * 4 < 64"
    using char_code_less [of c] by (simp_all add: less_mult_imp_div_less)
qed

lemma encode_alphabet: "list_all jwt_char (b64url_encode s)"
  by (induction s rule: b64url_encode.induct) (simp_all add: jwt_char_digit)

lemma decode_encode: "b64_bytes (map (\<lambda>c. the (b64_value c)) (b64url_encode s)) = Some s"
  by (induction s rule: b64url_encode.induct) (simp_all add: b64_value_digit)

text \<open>A segment is accepted exactly if it is the encoding of a text of at most the maximal length.\<close>

lemma decode_jwt_segment_iff:
  "decode_jwt_segment encoded n = Some s \<longleftrightarrow> encoded = b64url_encode s \<and> s \<noteq> [] \<and> length s \<le> n"
proof -
  have nonempty: "b64url_encode s = [] \<longleftrightarrow> s = []"
    by (induction s rule: b64url_encode.induct) simp_all
  show ?thesis
  proof
    assume "decode_jwt_segment encoded n = Some s"
    then show "encoded = b64url_encode s \<and> s \<noteq> [] \<and> length s \<le> n"
      using nonempty by (auto simp: decode_jwt_segment_def split: option.splits if_splits)
  next
    assume a: "encoded = b64url_encode s \<and> s \<noteq> [] \<and> length s \<le> n"
    then have "b64_bytes (map (\<lambda>c. the (b64_value c)) encoded) = Some s" "list_all jwt_char encoded" "encoded \<noteq> []"
      using decode_encode [of s] encode_alphabet [of s] nonempty by auto
    then show "decode_jwt_segment encoded n = Some s"
      using a by (simp add: decode_jwt_segment_def del: list.pred_inject)
  qed
qed

section \<open>Claims\<close>

text \<open>\<^verbatim>\<open>_unique_json_object\<close>, the hook of the parser, on every object of a value.\<close>

fun unique_members :: "json \<Rightarrow> bool" where
  "unique_members (JObj kvs) \<longleftrightarrow> distinct (map fst kvs) \<and> list_all (\<lambda>(k, v). unique_members v) kvs"
| "unique_members (JArr xs) \<longleftrightarrow> list_all unique_members xs"
| "unique_members j \<longleftrightarrow> True"

definition decode_jwt_json :: "(string \<Rightarrow> json option) \<Rightarrow> string \<Rightarrow> (string \<times> json) list option" where
  "decode_jwt_json loads encoded =
     (case Option.bind (decode_jwt_segment encoded 8192) loads of
        Some (JObj kvs) \<Rightarrow> if unique_members (JObj kvs) then Some kvs else None
      | _ \<Rightarrow> None)"

text \<open>\<^verbatim>\<open>QDRANT_COLLECTION_NAME\<close>: \<^verbatim>\<open>^[A-Za-z0-9][A-Za-z0-9._-]{0,254}$\<close>\<close>

definition name_char :: "char \<Rightarrow> bool" where
  "name_char c \<longleftrightarrow> token_char c \<or> (65 \<le> char_code c \<and> char_code c \<le> 90)"

definition qdrant_name_pattern :: "string \<Rightarrow> bool" where
  "qdrant_name_pattern s \<longleftrightarrow> s \<noteq> [] \<and> length s \<le> 255 \<and> name_char (hd s)
     \<and> list_all (\<lambda>c. name_char c \<or> c \<in> set ''._-'') (tl s)"

text \<open>The loop over the access rules: each grants \<^verbatim>\<open>rw\<close> on one more collection.\<close>

fun granted_collections :: "string set \<Rightarrow> json list \<Rightarrow> string set option" where
  "granted_collections granted [] = Some granted"
| "granted_collections granted (r # rs) =
     (case r of
        JObj kvs \<Rightarrow>
          if set (map fst kvs) \<noteq> {''collection'', ''access''} then None
          else (case map_of kvs ''collection'' of
             Some (JStr collection) \<Rightarrow>
               if \<not> qdrant_name_pattern collection \<or> map_of kvs ''access'' \<noteq> Some (JStr ''rw'') \<or> collection \<in> granted
               then None else granted_collections (insert collection granted) rs
           | _ \<Rightarrow> None)
      | _ \<Rightarrow> None)"

fun split_dots :: "string \<Rightarrow> string list" where
  "split_dots [] = [[]]"
| "split_dots (c # cs) = (if c = CHR ''.'' then [] # split_dots cs
     else case split_dots cs of [] \<Rightarrow> [[c]] | s # ss \<Rightarrow> (c # s) # ss)"

definition claims_ok :: "int \<Rightarrow> string set \<Rightarrow> (string \<times> json) list \<Rightarrow> (string \<times> json) list \<Rightarrow> string \<Rightarrow> bool" where
  "claims_ok now allowed_collections header payload signature =
     (if set header \<noteq> {(''alg'', JStr ''HS256''), (''typ'', JStr ''JWT'')} then False
      else if length signature \<noteq> 32 then False
      else if set (map fst payload) \<noteq> {''access'', ''exp''} then False
      else (case (map_of payload ''exp'', map_of payload ''access'') of
         (Some (JInt expiration), Some (JArr access)) \<Rightarrow>
           if 2 ^ 63 - 1 < expiration \<or> expiration \<le> now + 30 then False
           else granted_collections {} access = Some allowed_collections
       | _ \<Rightarrow> False))"

lemma checked_claims:
  "(if \<not> P then False else if \<not> Q then False else if \<not> R then False
    else case (x, y) of (Some (JInt e), Some (JArr a)) \<Rightarrow> if S e then False else T a | _ \<Rightarrow> False)
   \<Longrightarrow> P \<and> Q \<and> R \<and> (\<exists>e a. x = Some (JInt e) \<and> y = Some (JArr a) \<and> \<not> S e \<and> T a)"
  by (cases x; cases y; cases "the x"; cases "the y"; simp split: if_split_asm)

lemma claims_okD:
  "claims_ok now allowed_collections header payload signature \<Longrightarrow>
     set header = {(''alg'', JStr ''HS256''), (''typ'', JStr ''JWT'')} \<and> length signature = 32
     \<and> set (map fst payload) = {''access'', ''exp''}
     \<and> (\<exists>e a. map_of payload ''exp'' = Some (JInt e) \<and> map_of payload ''access'' = Some (JArr a)
        \<and> \<not> (2 ^ 63 - 1 < e \<or> e \<le> now + 30) \<and> granted_collections {} a = Some allowed_collections)"
  unfolding claims_ok_def by (rule checked_claims)

definition validate_qdrant_access_token :: "(string \<Rightarrow> json option) \<Rightarrow> int \<Rightarrow> string \<Rightarrow> string set \<Rightarrow> bool" where
  "validate_qdrant_access_token loads now token allowed_collections =
     (if 16384 < length token then False
      else case split_dots token of
        [h, p, s] \<Rightarrow>
          (case (decode_jwt_json loads h, decode_jwt_json loads p, decode_jwt_segment s 64) of
             (Some header, Some payload, Some signature) \<Rightarrow>
               claims_ok now allowed_collections header payload signature
           | _ \<Rightarrow> False)
      | _ \<Rightarrow> False)"

text \<open>The grants of accepted rules are those of the list, each once.\<close>

definition grant :: "string \<Rightarrow> json \<Rightarrow> bool" where
  "grant name j \<longleftrightarrow> (\<exists>kvs. j = JObj kvs \<and> set (map fst kvs) = {''collection'', ''access''}
     \<and> map_of kvs ''collection'' = Some (JStr name) \<and> map_of kvs ''access'' = Some (JStr ''rw''))"

lemma granted_collections_grants:
  "granted_collections before rules = Some granted \<Longrightarrow>
     \<exists>names. list_all2 grant names rules \<and> distinct names \<and> set names \<inter> before = {} \<and> granted = before \<union> set names
       \<and> list_all qdrant_name_pattern names"
proof (induction rules arbitrary: before)
  case (Cons r rs)
  from Cons.prems obtain kvs name where r: "r = JObj kvs" "set (map fst kvs) = {''collection'', ''access''}"
    "map_of kvs ''collection'' = Some (JStr name)" "map_of kvs ''access'' = Some (JStr ''rw'')"
    "qdrant_name_pattern name" "name \<notin> before" "granted_collections (insert name before) rs = Some granted"
    by (auto split: json.splits option.splits if_splits)
  from Cons.IH [OF r(7)] obtain names where
    "list_all2 grant names rs" "distinct names" "set names \<inter> insert name before = {}"
    "granted = insert name before \<union> set names" "list_all qdrant_name_pattern names"
    by auto
  moreover have "grant name r"
    unfolding grant_def using r(1-4) by blast
  ultimately show ?case
    using r(5,6) by (intro exI [of _ "name # names"]) auto
qed auto

lemma split_dots_join:
  "split_dots t \<noteq> [] \<and> py_join ''.'' (split_dots t) = t"
proof (induction t)
  case (Cons c t)
  then obtain s ss where "split_dots t = s # ss"
    by (cases "split_dots t") auto
  then show ?case
    using Cons by (cases ss) auto
qed simp

text \<open>C40. An accepted Qdrant token carries the least privilege.  It is three segments, each the one canonical base64url
  encoding of its bytes; the header is exactly HS256 and the signature has 32 bytes; the payload has an expiry beyond
  the clock skew and an access list whose rules grant read and write to the allowed collections, each exactly once,
  and to nothing else.\<close>

theorem accepted_token_is_least_privilege:
  assumes "validate_qdrant_access_token loads now token allowed_collections"
  shows "\<exists>header payload signature hs ps expiration rules names.
    token = b64url_encode header @ ''.'' @ b64url_encode payload @ ''.'' @ b64url_encode signature \<and> length signature = 32
    \<and> loads header = Some (JObj hs) \<and> set hs = {(''alg'', JStr ''HS256''), (''typ'', JStr ''JWT'')}
    \<and> loads payload = Some (JObj ps) \<and> set (map fst ps) = {''access'', ''exp''} \<and> distinct (map fst ps)
    \<and> map_of ps ''exp'' = Some (JInt expiration) \<and> now + 30 < expiration \<and> expiration < 2 ^ 63
    \<and> map_of ps ''access'' = Some (JArr rules) \<and> list_all2 grant names rules \<and> distinct names
    \<and> set names = allowed_collections"
proof -
  obtain h p s hs ps signature expiration rules where dots: "split_dots token = [h, p, s]"
    and hs: "decode_jwt_json loads h = Some hs" "set hs = {(''alg'', JStr ''HS256''), (''typ'', JStr ''JWT'')}"
    and ps: "decode_jwt_json loads p = Some ps" "set (map fst ps) = {''access'', ''exp''}"
      "map_of ps ''exp'' = Some (JInt expiration)" "map_of ps ''access'' = Some (JArr rules)"
    and sig: "decode_jwt_segment s 64 = Some signature" "length signature = 32"
    and exp: "\<not> (2 ^ 63 - 1 < expiration \<or> expiration \<le> now + 30)"
    and granted: "granted_collections {} rules = Some allowed_collections"
  proof -
    have checked: "case split_dots token of [h, p, s] \<Rightarrow>
          (case (decode_jwt_json loads h, decode_jwt_json loads p, decode_jwt_segment s 64) of
             (Some header, Some payload, Some signature) \<Rightarrow> claims_ok now allowed_collections header payload signature
           | _ \<Rightarrow> False)
      | _ \<Rightarrow> False"
      using assms unfolding validate_qdrant_access_token_def by (simp only: split: if_split_asm)
    then obtain h p s where hps: "split_dots token = [h, p, s]"
      by (simp split: list.split_asm)
    note checked = checked [unfolded hps list.case]
    then obtain hs ps signature where d: "decode_jwt_json loads h = Some hs" "decode_jwt_json loads p = Some ps"
      "decode_jwt_segment s 64 = Some signature"
      by (simp split: option.split_asm)
    have "claims_ok now allowed_collections hs ps signature"
      using checked by (simp only: d prod.case option.case)
    from claims_okD [OF this] show thesis
      by (elim conjE exE) (rule that [OF hps d(1) _ d(2) _ _ _ d(3)], assumption+)
  qed
  have json: "\<exists>raw. encoded = b64url_encode raw \<and> loads raw = Some (JObj kvs) \<and> distinct (map fst kvs)"
    if "decode_jwt_json loads encoded = Some kvs" for encoded kvs
    using that by (auto simp: decode_jwt_json_def bind_eq_Some_conv decode_jwt_segment_iff split: option.splits json.splits if_splits)
  obtain header where header: "h = b64url_encode header" "loads header = Some (JObj hs)"
    using json [OF hs(1)] by blast
  obtain payload where payload: "p = b64url_encode payload" "loads payload = Some (JObj ps)" "distinct (map fst ps)"
    using json [OF ps(1)] by blast
  have "token = h @ ''.'' @ p @ ''.'' @ s"
    using split_dots_join [of token] dots by simp
  moreover have "s = b64url_encode signature"
    using sig(1) by (simp add: decode_jwt_segment_iff)
  moreover obtain names where "list_all2 grant names rules" "distinct names" "set names = allowed_collections"
    using granted_collections_grants [OF granted] by auto
  moreover have "expiration < 2 ^ 63"
    using exp by linarith
  moreover have "now + 30 < expiration"
    using exp by linarith
  ultimately show ?thesis
    using header payload hs(2) ps(2-4) sig(2) by blast
qed

end
