(* ===== verification/Local_Models.thy ===== *)
theory Local_Models
  imports Formatter
begin

text \<open>
  Loading the local embedding models (\<^verbatim>\<open>services/local_embeddings.py\<close>): the checks on the configuration, the
  attestation of the sparse model's assets against their manifest, and the two loads.  The filesystem and the model
  libraries are parameters.  A refusal is the message of the \<^verbatim>\<open>LocalModelError\<close>; the model runs themselves are the
  parameters of the preparation.
\<close>

section \<open>Configuration and files\<close>

definition DENSE_MODEL_NAME :: string where
  "DENSE_MODEL_NAME = ''sentence-transformers/all-mpnet-base-v2''"

definition SPARSE_MODEL_NAME :: string where
  "SPARSE_MODEL_NAME = ''Qdrant/bm25''"

definition SPARSE_MANIFEST :: string where
  "SPARSE_MANIFEST = ''manifest.json''"

record model_config =
  mcf_dense_model_id :: string
  mcf_dense_model_revision :: string
  mcf_sparse_model_id :: string
  mcf_sparse_model_revision :: string
  mcf_cache_dir :: string
  mcf_local_files_only :: bool
  mcf_device :: string
  mcf_dense_batch_size :: int

text \<open>\<open>la_manifest\<close> reads and decodes the manifest, where an \<^verbatim>\<open>OSError\<close> or invalid UTF-8 is \<^const>\<open>DecoderRejected\<close>;
  \<open>la_walk\<close> is \<^verbatim>\<open>rglob("*")\<close> with, for each relative path, whether it is a plain file; \<open>None\<close> is an \<^verbatim>\<open>OSError\<close>.
  The loads answer with the message of what they raise.\<close>

record model_assets =
  la_absolute :: "string \<Rightarrow> bool"
  la_is_dir :: "string \<Rightarrow> bool"
  la_plain_file :: "string \<Rightarrow> bool option"
  la_size :: "string \<Rightarrow> int option"
  la_manifest :: "string \<Rightarrow> decoded"
  la_walk :: "string \<Rightarrow> (string \<times> bool) list option"
  la_read :: "string \<Rightarrow> string option"
  la_load_dense :: "model_config \<Rightarrow> string + unit"
  la_load_sparse :: "model_config \<Rightarrow> string \<Rightarrow> string + unit"

definition join_posix :: "string \<Rightarrow> string \<Rightarrow> string" where
  "join_posix base name = (if base = ''/'' then base @ name else base @ ''/'' @ name)"

definition is_hexadecimal :: "string \<Rightarrow> bool" where
  "is_hexadecimal s \<longleftrightarrow> list_all (\<lambda>c. (48 \<le> char_code c \<and> char_code c \<le> 57) \<or> (65 \<le> char_code c \<and> char_code c \<le> 70)
     \<or> (97 \<le> char_code c \<and> char_code c \<le> 102)) s"

definition pinned_revision :: "string \<Rightarrow> bool" where
  "pinned_revision s \<longleftrightarrow> 40 \<le> length s \<and> length s \<le> 64 \<and> is_hexadecimal s"

section \<open>The manifest of the sparse model\<close>

text \<open>\<^verbatim>\<open>json.dumps\<close> with \<^verbatim>\<open>ensure_ascii=True\<close>: characters outside ASCII occur in strings only.\<close>

definition ascii_dumps :: "json \<Rightarrow> string" where
  "ascii_dumps j = concat (map (\<lambda>c. let n = char_code c in
     if n < 127 then [c] else char_of (92::nat) # ''u00'' @ [hex_digit (n div 16), hex_digit (n mod 16)]) (dumps j))"

fun finite_json :: "json \<Rightarrow> bool" where
  "finite_json (JFloat s) \<longleftrightarrow> s \<notin> {''nan'', ''inf'', ''-inf''}"
| "finite_json (JArr xs) \<longleftrightarrow> list_all finite_json xs"
| "finite_json (JObj kvs) \<longleftrightarrow> list_all (\<lambda>(k, v). finite_json v) kvs"
| "finite_json j \<longleftrightarrow> True"

text \<open>\<^verbatim>\<open>version != 1\<close>, where Python's \<open>True\<close> and \<open>1.0\<close> are equal to 1.\<close>

definition manifest_files :: "string \<Rightarrow> json \<Rightarrow> (string \<times> json) list option" where
  "manifest_files model j =
     (case j of
        JObj kvs \<Rightarrow>
          if set (map fst kvs) \<noteq> {''version'', ''model'', ''files''}
             \<or> obj_get kvs ''version'' \<notin> {JInt 1, JBool True, JFloat ''1.0''} \<or> obj_get kvs ''model'' \<noteq> JStr model then None
          else (case obj_get kvs ''files'' of
             JObj files \<Rightarrow> if files = [] \<or> 1000 < length files then None else Some files
           | _ \<Rightarrow> None)
      | _ \<Rightarrow> None)"

definition asset_name_ok :: "string \<Rightarrow> bool" where
  "asset_name_ok name \<longleftrightarrow> name \<noteq> [] \<and> char_of (92::nat) \<notin> set name \<and> take 1 name \<noteq> ''/''
     \<and> list_all (\<lambda>part. part \<notin> {[], ''.'', ''..''}) (split_on (CHR ''/'') name)"

fun declared_assets :: "(string \<times> json) list \<Rightarrow> (string \<times> string) list option" where
  "declared_assets [] = Some []"
| "declared_assets ((name, j) # rest) =
     (case j of
        JStr digest \<Rightarrow>
          if \<not> asset_name_ok name \<or> length digest \<noteq> 64 \<or> \<not> is_hexadecimal digest then None
          else map_option (\<lambda>xs. (name, casefold digest) # xs) (declared_assets rest)
      | _ \<Rightarrow> None)"

fun actual_assets :: "(string \<times> bool) list \<Rightarrow> string list option" where
  "actual_assets [] = Some []"
| "actual_assets ((relative, plain) # rest) =
     (if relative = SPARSE_MANIFEST then actual_assets rest
      else if \<not> plain then None
      else map_option (\<lambda>xs. relative # xs) (actual_assets rest))"

fun check_hashes :: "stdlib \<Rightarrow> model_assets \<Rightarrow> string \<Rightarrow> (string \<times> string) list \<Rightarrow> string list \<Rightarrow> string + unit" where
  "check_hashes sl la base declared [] = Inr ()"
| "check_hashes sl la base declared (relative # rest) =
     (case la_read la (join_posix base relative) of
        None \<Rightarrow> Inl ''the pinned FastEmbed BM25 asset could not be read''
      | Some content \<Rightarrow>
          if Some (sl_sha256 sl content) \<noteq> map_of declared relative
          then Inl ''the pinned FastEmbed BM25 asset hash does not match''
          else check_hashes sl la base declared rest)"

definition check_stopwords :: "model_assets \<Rightarrow> string \<Rightarrow> string list \<Rightarrow> string + unit" where
  "check_stopwords la base actual =
     (if ''english.txt'' \<notin> set actual then Inl ''the pinned FastEmbed BM25 revision is missing English stopword assets''
      else case la_size la (join_posix base ''english.txt'') of
        None \<Rightarrow> Inl ''the pinned FastEmbed BM25 assets could not be inspected''
      | Some n \<Rightarrow>
          if 0 < n then Inr () else Inl ''the pinned FastEmbed BM25 revision is missing English stopword assets'')"

definition check_inventory ::
  "stdlib \<Rightarrow> model_assets \<Rightarrow> string \<Rightarrow> (string \<times> string) list \<Rightarrow> string + unit" where
  "check_inventory sl la base declared =
     (case la_walk la base of
        None \<Rightarrow> Inl ''the pinned FastEmbed BM25 assets could not be inspected''
      | Some entries \<Rightarrow>
          (case actual_assets entries of
             None \<Rightarrow> Inl ''the pinned FastEmbed BM25 directory contains an unsafe asset''
           | Some actual \<Rightarrow>
               if set actual \<noteq> fst ` set declared
               then Inl ''the pinned FastEmbed BM25 asset inventory does not match''
               else rbind (check_hashes sl la base declared actual) (\<lambda>_. check_stopwords la base actual)))"

definition read_manifest :: "model_assets \<Rightarrow> string \<Rightarrow> string + json" where
  "read_manifest la manifest_path =
     (case la_plain_file la manifest_path of
        None \<Rightarrow> Inl ''the pinned FastEmbed BM25 manifest is unreadable''
      | Some plain \<Rightarrow>
          if \<not> plain then Inl ''the pinned FastEmbed BM25 manifest is unavailable''
          else case la_size la manifest_path of
            None \<Rightarrow> Inl ''the pinned FastEmbed BM25 manifest is unreadable''
          | Some n \<Rightarrow>
              if \<not> (0 < n \<and> n \<le> 1024 * 1024) then Inl ''the pinned FastEmbed BM25 manifest size is invalid''
              else (case la_manifest la manifest_path of
                 Decoded j \<Rightarrow> Inr j
               | DecoderRejected \<Rightarrow> Inl ''the pinned FastEmbed BM25 manifest is unreadable''
               | DecoderRaised \<Rightarrow> Inl ''RecursionError''))"

definition verify_sparse_assets :: "stdlib \<Rightarrow> model_assets \<Rightarrow> model_config \<Rightarrow> string \<Rightarrow> string + unit" where
  "verify_sparse_assets sl la cfg base =
     rbind (read_manifest la (join_posix base SPARSE_MANIFEST)) (\<lambda>manifest.
       case manifest_files (mcf_sparse_model_id cfg) manifest of
         None \<Rightarrow> Inl ''the pinned FastEmbed BM25 manifest schema is invalid''
       | Some entries \<Rightarrow>
           if \<not> finite_json manifest then Inl ''ValueError''
           else if sl_sha256 sl (ascii_dumps manifest) \<noteq> casefold (mcf_sparse_model_revision cfg)
           then Inl ''the pinned FastEmbed BM25 manifest identity does not match''
           else (case declared_assets entries of
              None \<Rightarrow> Inl ''the pinned FastEmbed BM25 manifest entry is invalid''
            | Some declared \<Rightarrow> check_inventory sl la base declared))"

section \<open>Loading\<close>

definition load_sparse :: "stdlib \<Rightarrow> model_assets \<Rightarrow> model_config \<Rightarrow> string + unit" where
  "load_sparse sl la cfg =
     (let base = join_posix (join_posix (mcf_cache_dir cfg) ''fastembed'') (mcf_sparse_model_revision cfg)
      in if \<not> la_is_dir la base then Inl ''the pinned FastEmbed BM25 revision directory is unavailable locally''
         else rbind (verify_sparse_assets sl la cfg base) (\<lambda>_. la_load_sparse la cfg base))"

text \<open>\<^verbatim>\<open>LocalEmbeddingModels.__init__\<close>\<close>

definition local_embedding_models :: "stdlib \<Rightarrow> model_assets \<Rightarrow> model_config \<Rightarrow> string + unit" where
  "local_embedding_models sl la cfg =
     (if mcf_dense_model_id cfg \<noteq> DENSE_MODEL_NAME then Inl (''dense model must be '' @ DENSE_MODEL_NAME)
      else if mcf_sparse_model_id cfg \<noteq> SPARSE_MODEL_NAME then Inl (''sparse model must be '' @ SPARSE_MODEL_NAME)
      else if \<not> pinned_revision (mcf_dense_model_revision cfg) \<or> \<not> pinned_revision (mcf_sparse_model_revision cfg)
      then Inl ''local model revisions must be 40-64 character hashes''
      else if \<not> mcf_local_files_only cfg then Inl ''local model network fallback is forbidden''
      else if mcf_dense_batch_size cfg \<le> 0 then Inl ''dense batch size must be positive''
      else if \<not> la_absolute la (mcf_cache_dir cfg) then Inl ''model cache directory must be absolute''
      else rbind (la_load_dense la cfg) (\<lambda>_. load_sparse sl la cfg))"

section \<open>What an accepted inventory is\<close>

lemma actual_assetsD: "actual_assets entries = Some actual \<Longrightarrow>
    set actual = {name. (name, True) \<in> set entries \<and> name \<noteq> SPARSE_MANIFEST}
    \<and> (\<forall>name. (name, False) \<in> set entries \<longrightarrow> name = SPARSE_MANIFEST)"
proof (induction entries arbitrary: actual rule: actual_assets.induct)
  case 1
  then show ?case
    by simp
next
  case (2 relative plain rest)
  show ?case
  proof (cases "relative = SPARSE_MANIFEST")
    case True
    then have "actual_assets rest = Some actual"
      using 2(3) by simp
    then show ?thesis
      using 2(1) True by auto
  next
    case False
    then obtain others where "plain" and r: "actual_assets rest = Some others" "actual = relative # others"
      using 2(3) by (auto split: if_splits)
    show ?thesis
      using 2(2) [OF False _ r(1)] \<open>plain\<close> r(2) False by auto
  qed
qed

lemma check_hashesD: "check_hashes sl la base declared actual = Inr () \<Longrightarrow> name \<in> set actual \<Longrightarrow>
    \<exists>content. la_read la (join_posix base name) = Some content \<and> map_of declared name = Some (sl_sha256 sl content)"
  by (induction sl la base declared actual rule: check_hashes.induct) (auto split: option.splits if_splits)

text \<open>Verified assets are exactly the declared ones, each with the declared digest, and the manifest that declares them
  hashes to the pinned revision.\<close>

lemma verified_assets:
  assumes "verify_sparse_assets sl la cfg base = Inr ()"
  shows "\<exists>manifest entries declared listing. la_manifest la (join_posix base SPARSE_MANIFEST) = Decoded manifest
    \<and> manifest_files (mcf_sparse_model_id cfg) manifest = Some entries \<and> declared_assets entries = Some declared
    \<and> sl_sha256 sl (ascii_dumps manifest) = casefold (mcf_sparse_model_revision cfg)
    \<and> la_walk la base = Some listing
    \<and> {name. (name, True) \<in> set listing \<and> name \<noteq> SPARSE_MANIFEST} = fst ` set declared
    \<and> (\<forall>name\<in>fst ` set declared. \<exists>content. la_read la (join_posix base name) = Some content
         \<and> map_of declared name = Some (sl_sha256 sl content))"
proof -
  obtain manifest entries declared where m: "read_manifest la (join_posix base SPARSE_MANIFEST) = Inr manifest"
    and e: "manifest_files (mcf_sparse_model_id cfg) manifest = Some entries" and d: "declared_assets entries = Some declared"
    and h: "sl_sha256 sl (ascii_dumps manifest) = casefold (mcf_sparse_model_revision cfg)"
    and i: "check_inventory sl la base declared = Inr ()"
    using assms unfolding verify_sparse_assets_def rbind_eq_Inr by (auto split: option.splits if_splits)
  have "la_manifest la (join_posix base SPARSE_MANIFEST) = Decoded manifest"
    using m by (auto simp: read_manifest_def split: option.splits if_splits decoded.splits)
  moreover obtain listing actual where l: "la_walk la base = Some listing" and a: "actual_assets listing = Some actual"
    and s: "set actual = fst ` set declared" and c: "check_hashes sl la base declared actual = Inr ()"
    using i unfolding check_inventory_def rbind_eq_Inr by (auto simp: rbind_eq_Inr split: option.splits if_splits)
  moreover have "{name. (name, True) \<in> set listing \<and> name \<noteq> SPARSE_MANIFEST} = fst ` set declared"
    using actual_assetsD [OF a] s by simp
  moreover have "\<forall>name\<in>fst ` set declared. \<exists>content. la_read la (join_posix base name) = Some content
      \<and> map_of declared name = Some (sl_sha256 sl content)"
    using check_hashesD [OF c] s by blast
  ultimately show ?thesis
    using e d h l by blast
qed

text \<open>A directory below the revision is itself listed and is no plain file, so no asset in one can be attested,
  although the manifest may name it.\<close>

lemma nested_asset_refused:
  assumes "la_walk la base = Some listing" and "(name, False) \<in> set listing" and "name \<noteq> SPARSE_MANIFEST"
  shows "verify_sparse_assets sl la cfg base \<noteq> Inr ()"
proof
  assume v: "verify_sparse_assets sl la cfg base = Inr ()"
  then obtain declared where "check_inventory sl la base declared = Inr ()"
    unfolding verify_sparse_assets_def rbind_eq_Inr by (auto split: option.splits if_splits)
  then obtain actual where "actual_assets listing = Some actual"
    using assms(1) by (auto simp: check_inventory_def split: option.splits)
  then show False
    using actual_assetsD assms(2,3) by blast
qed

end
