(* ===== verification/Configuration.thy ===== *)
theory Configuration
  imports Access_Token Contracts Classification Local_Models
begin

text \<open>
  The settings of a deployment (\<^verbatim>\<open>core/config.py\<close>): field normalisation and the validation of all cross-field
  constraints, and the provider configurations built from them (\<^verbatim>\<open>providers_from_settings\<close> of
  \<^verbatim>\<open>managers/worker.py\<close>).  A refused setting is its message.  The settings with a single legal value are constants of
  the program and have no field.  The filesystem, \<^verbatim>\<open>urlsplit\<close>, SQLAlchemy's \<^verbatim>\<open>make_url\<close>, \<^verbatim>\<open>ip_network\<close>,
  \<^verbatim>\<open>json.loads\<close> and the clock are parameters.
\<close>

section \<open>Fields\<close>

datatype app_env = ENV_DEVELOPMENT | ENV_TEST | ENV_ENTERPRISE

datatype auth_mode = ANONYMOUS_POC | TRUSTED_HEADER

record deployment_settings =
  ds_app_env :: app_env
  ds_auth_mode :: auth_mode
  ds_storage_root :: string
  ds_database_url :: string
  ds_collections :: "collection_definition list"
  ds_session_secret :: string
  ds_allowed_hosts :: "string list"
  ds_trusted_proxy_cidrs :: "string list"
  ds_trusted_identity_header :: string

record limit_settings =
  lim_max_upload_bytes :: int
  lim_upload_chunk_bytes :: int
  lim_clamd_host :: string
  lim_clamd_port :: int
  lim_clamd_timeout :: rat
  lim_clamd_stream_max_bytes :: int
  lim_parse_wall_clock :: rat
  lim_parse_cpu_seconds :: int
  lim_parse_memory_bytes :: int
  lim_max_pages :: int
  lim_max_extracted_characters :: int
  lim_max_chunks :: int

record formatter_settings =
  fos_api_url :: "string option"
  fos_api_token :: "string option"
  fos_model_id :: "string option"
  fos_model_revision :: "string option"
  fos_tokenizer_class :: "string option"
  fos_prompt_revision :: "string option"
  fos_schema_revision :: "string option"
  fos_timeout :: rat
  fos_max_input_tokens :: int
  fos_max_output_tokens :: int
  fos_token_safety_reserve :: int
  fos_max_pages_per_request :: int
  fos_max_attempts :: int

record advisory_settings =
  ads_api_url :: "string option"
  ads_api_token :: "string option"
  ads_classifier_model :: "string option"
  ads_classifier_model_revision :: "string option"
  ads_classifier_prompt_revision :: "string option"
  ads_verifier_model :: "string option"
  ads_verifier_model_revision :: "string option"
  ads_verifier_prompt_revision :: "string option"
  ads_timeout :: rat
  ads_max_input_tokens :: int
  ads_max_output_tokens :: int
  ads_max_attempts :: int

record model_settings =
  mos_dense_model_revision :: "string option"
  mos_model_cache_dir :: "string option"
  mos_model_local_files_only :: bool
  mos_dense_device :: string
  mos_dense_batch_size :: int
  mos_sparse_model_revision :: "string option"

record qdrant_settings =
  qds_url :: "string option"
  qds_api_key :: "string option"
  qds_timeout :: rat
  qds_screening_collection_name :: "string option"

record timing_settings =
  tis_poll_seconds :: rat
  tis_lease_seconds :: int
  tis_heartbeat_seconds :: int
  tis_max_operation_seconds :: int

record retrieval_settings =
  res_url :: "string option"
  res_token :: "string option"
  res_timeout :: rat

record app_settings =
  set_deployment :: deployment_settings
  set_limits :: limit_settings
  set_formatter :: formatter_settings
  set_advisory :: advisory_settings
  set_models :: model_settings
  set_qdrant :: qdrant_settings
  set_worker :: timing_settings
  set_search :: retrieval_settings

text \<open>The parts of a URL the code reads; a part that is absent and one that is empty are both
  falsy.  Reading the port raises when it is \<open>None\<close>.\<close>

record url_parts =
  up_scheme :: string
  up_netloc :: string
  up_hostname :: "string option"
  up_username :: "string option"
  up_password :: "string option"
  up_port :: "int option option"
  up_path :: string
  up_query :: string
  up_fragment :: string

record config_env =
  ce_urlsplit :: "string \<Rightarrow> url_parts option"
  ce_absolute :: "string \<Rightarrow> bool"
  ce_resolve :: "string \<Rightarrow> string"
  ce_is_dir :: "string \<Rightarrow> bool"
  ce_app_root :: string
  ce_make_url :: "string \<Rightarrow> (string \<times> string option) option"
  ce_is_network :: "string \<Rightarrow> bool"
  ce_loads :: "string \<Rightarrow> json option"
  ce_now :: int

definition falsy :: "string option \<Rightarrow> bool" where
  "falsy x \<longleftrightarrow> x = None \<or> x = Some []"

definition relative_to :: "string \<Rightarrow> string \<Rightarrow> bool" where
  "relative_to p parent \<longleftrightarrow> take (length (posix_parts parent)) (posix_parts p) = posix_parts parent"

definition normalized_optional :: "string option \<Rightarrow> string option" where
  "normalized_optional x = (case x of None \<Rightarrow> None | Some v \<Rightarrow> if py_strip v = [] then None else Some (py_strip v))"

definition require :: "bool \<Rightarrow> string \<Rightarrow> string + unit" where
  "require ok message = (if ok then Inr () else Inl message)"

lemma require_Inr [simp]: "require ok message = Inr u \<longleftrightarrow> ok"
  by (simp add: require_def)

lemma require_Inl [simp]: "require ok message = Inl e \<longleftrightarrow> \<not> ok \<and> e = message"
  by (auto simp: require_def)

definition validate_http_url :: "config_env \<Rightarrow> string \<Rightarrow> string option" where
  "validate_http_url ce v =
     (case ce_urlsplit ce v of
        None \<Rightarrow> None
      | Some u \<Rightarrow>
          if up_scheme u \<notin> {''http'', ''https''} \<or> falsy (up_hostname u) \<or> \<not> falsy (up_username u)
             \<or> \<not> falsy (up_password u) \<or> up_query u \<noteq> [] \<or> up_fragment u \<noteq> []
          then None else Some (rstrip_slash v))"

definition secret_value :: "string \<Rightarrow> string + string" where
  "secret_value secret =
     (if secret = [] \<or> secret \<noteq> py_strip secret then Inl ''must not be blank or padded with whitespace''
      else if list_ex (\<lambda>c. py_isspace c \<or> char_code c < 32) secret
      then Inl ''must not contain whitespace or control characters''
      else if contains ''change_me'' (casefold secret) \<or> contains ''placeholder'' (casefold secret)
      then Inl ''must not contain a placeholder credential''
      else Inr secret)"

text \<open>\<^verbatim>\<open>CollectionDefinition\<close>: lengths are checked on the text as given, the rest on the stripped text.\<close>

definition display_text :: "nat \<Rightarrow> string \<Rightarrow> string option" where
  "display_text n v =
     (if n < length v \<or> py_strip v = [] \<or> has_control (py_strip v) then None else Some (py_strip v))"

definition collection_definition_of :: "collection_definition \<Rightarrow> collection_definition option" where
  "collection_definition_of d =
     (if 63 < length (cd_key d) \<or> \<not> collection_key_pattern (cd_key d) \<or> \<not> qdrant_name_pattern (cd_qdrant_collection_name d)
      then None
      else case (display_text 255 (cd_display_name d), display_text 2000 (cd_description d), display_text 63 (cd_audience d)) of
        (Some name, Some description, Some audience) \<Rightarrow>
          Some (d\<lparr>cd_display_name := name, cd_description := description, cd_audience := audience\<rparr>)
      | _ \<Rightarrow> None)"

definition FLOATING_REVISIONS :: "string set" where
  "FLOATING_REVISIONS = {''dev'', ''head'', ''latest'', ''main'', ''master'', ''stable'', ''trunk''}"

text \<open>\<^verbatim>\<open>validate_immutable_identity\<close>; \<^const>\<open>tokenizer_identity_ok\<close> is the pattern \<^verbatim>\<open>IDENTITY\<close>.\<close>

definition immutable_identity :: "string option \<Rightarrow> bool" where
  "immutable_identity x = (case x of None \<Rightarrow> True
     | Some v \<Rightarrow> tokenizer_identity_ok v \<and> casefold v \<notin> FLOATING_REVISIONS)"

definition header_name_pattern :: "string \<Rightarrow> bool" where
  "header_name_pattern s \<longleftrightarrow> s \<noteq> [] \<and> list_all (\<lambda>c. name_char c \<or> c \<in> set ''!#$%&*+-.^_`|~'' \<or> char_code c = 39) s"

text \<open>The field validators, which also normalise.\<close>

definition fields_of_formatter :: "formatter_settings \<Rightarrow> formatter_settings option" where
  "fields_of_formatter f =
     (let f = f\<lparr>fos_api_url := normalized_optional (fos_api_url f), fos_api_token := normalized_optional (fos_api_token f),
        fos_model_id := normalized_optional (fos_model_id f), fos_model_revision := normalized_optional (fos_model_revision f),
        fos_tokenizer_class := normalized_optional (fos_tokenizer_class f),
        fos_prompt_revision := normalized_optional (fos_prompt_revision f),
        fos_schema_revision := normalized_optional (fos_schema_revision f)\<rparr>
      in if list_all immutable_identity [fos_model_id f, fos_model_revision f, fos_tokenizer_class f, fos_prompt_revision f,
           fos_schema_revision f] then Some f else None)"

definition fields_of_advisory :: "advisory_settings \<Rightarrow> advisory_settings option" where
  "fields_of_advisory a =
     (let a = a\<lparr>ads_api_url := normalized_optional (ads_api_url a), ads_api_token := normalized_optional (ads_api_token a),
        ads_classifier_model := normalized_optional (ads_classifier_model a),
        ads_classifier_model_revision := normalized_optional (ads_classifier_model_revision a),
        ads_classifier_prompt_revision := normalized_optional (ads_classifier_prompt_revision a),
        ads_verifier_model := normalized_optional (ads_verifier_model a),
        ads_verifier_model_revision := normalized_optional (ads_verifier_model_revision a),
        ads_verifier_prompt_revision := normalized_optional (ads_verifier_prompt_revision a)\<rparr>
      in if list_all immutable_identity [ads_classifier_model a, ads_classifier_model_revision a,
           ads_classifier_prompt_revision a, ads_verifier_model a, ads_verifier_model_revision a,
           ads_verifier_prompt_revision a] then Some a else None)"

definition fields_of_models :: "model_settings \<Rightarrow> model_settings option" where
  "fields_of_models m =
     (let dense = normalized_optional (mos_dense_model_revision m);
          sparse = normalized_optional (mos_sparse_model_revision m)
      in if (case dense of None \<Rightarrow> True | Some v \<Rightarrow> bounded_length 40 64 v \<and> is_hexadecimal v) \<and> immutable_identity sparse
           \<and> (case sparse of None \<Rightarrow> True | Some v \<Rightarrow> length v = 64 \<and> is_hexadecimal v)
           \<and> length (mos_dense_device m) \<le> 64
         then Some (m\<lparr>mos_dense_model_revision := map_option casefold dense,
           mos_sparse_model_revision := map_option casefold sparse\<rparr>) else None)"

definition fields_of_qdrant :: "qdrant_settings \<Rightarrow> qdrant_settings option" where
  "fields_of_qdrant q =
     (let q = q\<lparr>qds_url := normalized_optional (qds_url q), qds_api_key := normalized_optional (qds_api_key q),
        qds_screening_collection_name := normalized_optional (qds_screening_collection_name q)\<rparr>
      in if (case qds_screening_collection_name q of None \<Rightarrow> True | Some v \<Rightarrow> qdrant_name_pattern v) then Some q else None)"

definition settings_fields :: "app_settings \<Rightarrow> app_settings option" where
  "settings_fields s =
     (let d = set_deployment s; r = set_search s
      in case (those (map collection_definition_of (ds_collections d)), fields_of_formatter (set_formatter s),
            fields_of_advisory (set_advisory s), fields_of_models (set_models s), fields_of_qdrant (set_qdrant s)) of
        (Some cs, Some f, Some a, Some m, Some q) \<Rightarrow>
          if length cs < 1 \<or> 50 < length cs then None
          else Some (s\<lparr>set_deployment := d\<lparr>ds_collections := cs\<rparr>, set_formatter := f, set_advisory := a, set_models := m,
            set_qdrant := q, set_search := r\<lparr>res_url := normalized_optional (res_url r),
            res_token := normalized_optional (res_token r)\<rparr>\<rparr>)
      | _ \<Rightarrow> None)"

section \<open>Cross-field validation\<close>

definition validate_collections :: "app_settings \<Rightarrow> string + unit" where
  "validate_collections s =
     (let cs = ds_collections (set_deployment s);
          physical_names = map (\<lambda>d. casefold (cd_qdrant_collection_name d)) cs;
          screening = qds_screening_collection_name (set_qdrant s)
      in rbind (require (distinct (map cd_key cs)) ''collection keys must be unique'') (\<lambda>_.
         rbind (require (distinct physical_names) ''qdrant_collection_name values must be unique'') (\<lambda>_.
         rbind (require (list_ex cd_enabled cs) ''at least one configured collection must be enabled'') (\<lambda>_.
         require (falsy screening \<or> casefold (the screening) \<notin> set physical_names)
           ''the screening collection must be distinct from every active collection''))))"

definition starts_onedrive :: "string \<Rightarrow> bool" where
  "starts_onedrive part \<longleftrightarrow> take 8 (casefold part) = ''onedrive''"

text \<open>The storage root resolved, with the database URL it implies.\<close>

definition validate_storage_and_database :: "config_env \<Rightarrow> app_settings \<Rightarrow> string + app_settings" where
  "validate_storage_and_database ce s =
     (let d = set_deployment s;
          base = ce_resolve ce (ds_storage_root d);
          url = (if ds_database_url d = [] then ''sqlite+pysqlite:///'' @ join_posix base ''catalog.sqlite3'' else ds_database_url d);
          s' = s\<lparr>set_deployment := d\<lparr>ds_storage_root := base, ds_database_url := url\<rparr>\<rparr>
      in if \<not> ce_absolute ce (ds_storage_root d) then Inl ''storage_root must be an absolute path''
         else if relative_to base (ce_app_root ce) then Inl ''storage_root must be outside the application source tree''
         else if list_ex starts_onedrive (posix_parts base)
         then Inl ''storage_root must not be inside a OneDrive-synchronized path''
         else case ce_make_url ce url of
           None \<Rightarrow> Inl ''database_url is not a valid SQLAlchemy URL''
         | Some (backend, database) \<Rightarrow>
             if backend \<noteq> ''sqlite'' then Inl ''the target service supports only a SQLite catalog''
             else if database \<in> {None, Some [], Some '':memory:''}
             then (if ds_app_env d \<noteq> ENV_TEST then Inl ''in-memory SQLite is supported only during tests'' else Inr s')
             else if \<not> ce_absolute ce (the database) then Inl ''SQLite database_url must use an absolute file path''
             else if \<not> relative_to (ce_resolve ce (the database)) base
             then Inl ''the SQLite database file must be beneath storage_root''
             else Inr s')"

definition DEVELOPMENT_SESSION_SECRET :: string where
  "DEVELOPMENT_SESSION_SECRET = ''development-only-change-me''"

definition validate_security :: "config_env \<Rightarrow> app_settings \<Rightarrow> string + app_settings" where
  "validate_security ce s =
     (let d = set_deployment s;
          hosts = (if ds_allowed_hosts d = [] \<and> ds_app_env d = ENV_DEVELOPMENT then [''localhost'', ''127.0.0.1'']
                   else ds_allowed_hosts d)
      in rbind (secret_value (ds_session_secret d)) (\<lambda>session_secret.
         rbind (require (32 \<le> length session_secret) ''session_secret must be at least 32 characters'') (\<lambda>_.
         rbind (require (ds_app_env d = ENV_TEST \<or> session_secret \<noteq> DEVELOPMENT_SESSION_SECRET)
                  ''set a unique session_secret before starting PDF Bridge'') (\<lambda>_.
         rbind (require (hosts \<noteq> [] \<and> list_all (\<lambda>h. py_strip h \<noteq> [] \<and> h = py_strip h) hosts)
                  ''allowed_hosts must contain at least one non-blank host'') (\<lambda>_.
         rbind (require (ds_app_env d = ENV_DEVELOPMENT \<or> ''*'' \<notin> set hosts)
                  ''non-development deployments must not allow every Host header'') (\<lambda>_.
         rbind (require (header_name_pattern (ds_trusted_identity_header d))
                  ''trusted_identity_header must be a valid HTTP header name'') (\<lambda>_.
         rbind (require (list_all (ce_is_network ce) (ds_trusted_proxy_cidrs d))
                  ''trusted_proxy_cidrs contains an invalid network'') (\<lambda>_.
         rbind (require (ds_auth_mode d \<noteq> TRUSTED_HEADER \<or> ds_trusted_proxy_cidrs d \<noteq> [])
                  ''trusted-header authentication requires trusted_proxy_cidrs'') (\<lambda>_.
         rbind (require (ds_app_env d \<noteq> ENV_ENTERPRISE \<or> ds_auth_mode d = TRUSTED_HEADER)
                  ''enterprise deployments must use trusted-header authentication'') (\<lambda>_.
         Inr (s\<lparr>set_deployment := d\<lparr>ds_allowed_hosts := hosts\<rparr>\<rparr>)))))))))))"

definition validate_limits :: "app_settings \<Rightarrow> string + unit" where
  "validate_limits s =
     (let l = set_limits s; f = set_formatter s; a = set_advisory s; m = set_models s; w = set_worker s
      in rbind (require (py_strip (lim_clamd_host l) \<noteq> []) ''clamd_host cannot be blank'') (\<lambda>_.
         rbind (require (1 \<le> lim_clamd_port l \<and> lim_clamd_port l \<le> 65535) ''clamd_port must be a valid TCP port'') (\<lambda>_.
         rbind (require (0 < lim_max_upload_bytes l \<and> 0 < lim_upload_chunk_bytes l) ''upload byte limits must be positive'') (\<lambda>_.
         rbind (require (0 < lim_clamd_stream_max_bytes l) ''clamd_stream_max_bytes must be positive'') (\<lambda>_.
         rbind (require (lim_max_upload_bytes l \<le> lim_clamd_stream_max_bytes l)
                  ''max_upload_bytes must not exceed clamd_stream_max_bytes'') (\<lambda>_.
         rbind (require (list_all (\<lambda>t. 0 < t) [lim_clamd_timeout l, lim_parse_wall_clock l, rat_of_int (lim_parse_cpu_seconds l),
                  fos_timeout f, ads_timeout a, qds_timeout (set_qdrant s), res_timeout (set_search s), tis_poll_seconds w])
                  ''service timeouts must be positive'') (\<lambda>_.
         rbind (require (64 * 1024 * 1024 \<le> lim_parse_memory_bytes l) ''parse_memory_bytes must allow at least 64 MiB'') (\<lambda>_.
         rbind (require (0 < lim_max_pages l \<and> 0 < lim_max_extracted_characters l \<and> 0 < lim_max_chunks l)
                  ''extraction and chunk safety caps must be positive'') (\<lambda>_.
         rbind (require (list_all (\<lambda>n. 0 < n) [fos_max_input_tokens f, fos_max_output_tokens f, fos_token_safety_reserve f,
                  fos_max_pages_per_request f, fos_max_attempts f, ads_max_input_tokens a, ads_max_output_tokens a,
                  ads_max_attempts a]) ''formatter and advisory request limits must be positive'') (\<lambda>_.
         rbind (require (fos_max_pages_per_request f \<le> lim_max_pages l)
                  ''formatter_max_pages_per_request cannot exceed max_pages'') (\<lambda>_.
         rbind (require (fos_max_attempts f \<le> 5 \<and> 1 \<le> fos_max_attempts f \<and> 1 \<le> ads_max_attempts a \<and> ads_max_attempts a \<le> 5)
                  ''model attempt limits must be between 1 and 5'') (\<lambda>_.
         rbind (require (1 \<le> mos_dense_batch_size m \<and> mos_dense_batch_size m \<le> 128)
                  ''dense_batch_size must be between 1 and 128'') (\<lambda>_.
         rbind (require (mos_model_local_files_only m) ''local model network fallback is forbidden'') (\<lambda>_.
         rbind (require (tokenizer_identity_ok (mos_dense_device m) \<and> casefold (mos_dense_device m) \<noteq> ''auto'')
                  ''dense_device must name one explicit local device'') (\<lambda>_.
         rbind (require (10 \<le> tis_lease_seconds w \<and> tis_lease_seconds w \<le> 3600)
                  ''worker_lease_seconds must be between 10 and 3600'') (\<lambda>_.
         rbind (require (1 \<le> tis_heartbeat_seconds w \<and> tis_heartbeat_seconds w < tis_lease_seconds w)
                  ''worker_heartbeat_seconds must be shorter than the lease'') (\<lambda>_.
         require (tis_lease_seconds w < tis_max_operation_seconds w)
           ''worker_max_operation_seconds must exceed worker_lease_seconds'')))))))))))))))))"

text \<open>The provider groups are given completely or, in tests only, not at all.\<close>

definition complete_group :: "app_env \<Rightarrow> string \<Rightarrow> string option list \<Rightarrow> string + unit" where
  "complete_group env label members =
     rbind (require (list_all (\<lambda>f. f \<noteq> None) members \<or> list_all (\<lambda>f. f = None) members) (label @ '' configuration is incomplete'')) (\<lambda>_.
     require (env = ENV_TEST \<or> list_all (\<lambda>f. f \<noteq> None) members) (label @ '' configuration is required outside test mode''))"

definition provider_url :: "config_env \<Rightarrow> app_env \<Rightarrow> string option \<Rightarrow> string + string option" where
  "provider_url ce env x =
     (case x of
        None \<Rightarrow> Inr None
      | Some v \<Rightarrow>
          (case validate_http_url ce v of
             None \<Rightarrow> Inl ''must be an absolute HTTP(S) URL without secrets''
           | Some normalized \<Rightarrow>
               if env = ENV_ENTERPRISE \<and> map_option up_scheme (ce_urlsplit ce normalized) \<noteq> Some ''https''
               then Inl ''enterprise URL must use HTTPS'' else Inr (Some normalized)))"

definition url_path_is_v1 :: "config_env \<Rightarrow> string \<Rightarrow> bool option" where
  "url_path_is_v1 ce url = map_option (\<lambda>u. ends_with ''/v1'' (rstrip_slash (up_path u))) (ce_urlsplit ce url)"

fun all_secrets :: "string option list \<Rightarrow> string + string list" where
  "all_secrets [] = Inr []"
| "all_secrets (None # xs) = all_secrets xs"
| "all_secrets (Some v # xs) = rbind (secret_value v) (\<lambda>secret. rbind (all_secrets xs) (\<lambda>ss. Inr (secret # ss)))"

definition validate_provider_groups :: "config_env \<Rightarrow> app_settings \<Rightarrow> string + app_settings" where
  "validate_provider_groups ce s =
     (let d = set_deployment s; env = ds_app_env d; f = set_formatter s; a = set_advisory s; m = set_models s;
          q = set_qdrant s; r = set_search s
      in rbind (complete_group env ''formatter'' [fos_api_url f, fos_api_token f, fos_model_id f, fos_model_revision f,
           fos_tokenizer_class f, fos_prompt_revision f, fos_schema_revision f]) (\<lambda>_.
         rbind (complete_group env ''advisory'' [ads_api_url a, ads_api_token a, ads_classifier_model a,
           ads_classifier_model_revision a, ads_classifier_prompt_revision a, ads_verifier_model a,
           ads_verifier_model_revision a, ads_verifier_prompt_revision a]) (\<lambda>_.
         rbind (complete_group env ''local model'' [mos_dense_model_revision m, mos_sparse_model_revision m, mos_model_cache_dir m]) (\<lambda>_.
         rbind (complete_group env ''Qdrant'' [qds_url q, qds_api_key q, qds_screening_collection_name q]) (\<lambda>_.
         rbind (provider_url ce env (fos_api_url f)) (\<lambda>formatter_url.
         rbind (provider_url ce env (ads_api_url a)) (\<lambda>advisory_url.
         rbind (provider_url ce env (qds_url q)) (\<lambda>qdrant_url.
         rbind (provider_url ce env (res_url r)) (\<lambda>search_url.
         rbind (require (formatter_url = None \<or> url_path_is_v1 ce (the formatter_url) = Some False)
                  ''formatter_api_url must be the vLLM server root, without a trailing /v1'') (\<lambda>_.
         rbind (require (advisory_url = None \<or> url_path_is_v1 ce (the advisory_url) = Some True)
                  ''llm_api_url must be the OpenAI-compatible /v1 API root'') (\<lambda>_.
         rbind (all_secrets [Some (ds_session_secret d), fos_api_token f, ads_api_token a, qds_api_key q, res_token r]) (\<lambda>secrets.
         rbind (require (distinct secrets) ''session and provider credentials must all be distinct'') (\<lambda>_.
         rbind (require (env = ENV_TEST \<or> qds_api_key q = None \<or> (qds_screening_collection_name q \<noteq> None
                  \<and> validate_qdrant_access_token (ce_loads ce) (ce_now ce) (the (qds_api_key q))
                     (insert (the (qds_screening_collection_name q))
                       (cd_qdrant_collection_name ` set (filter cd_enabled (ds_collections d))))))
                  ''qdrant_api_key is not a least-privilege token'') (\<lambda>_.
         rbind (require (search_url \<noteq> None \<or> res_token r = None) ''search_api_token cannot be set without search_api_url'') (\<lambda>_.
         rbind (require (search_url = None \<or> res_token r \<noteq> None)
                  ''search_api_token is required when search_api_url is configured'') (\<lambda>_.
         rbind (require (mos_model_cache_dir m = None \<or> ce_absolute ce (the (mos_model_cache_dir m)))
                  ''model_cache_dir must be an absolute path'') (\<lambda>_.
         rbind (require (mos_model_cache_dir m = None \<or> ce_is_dir ce (ce_resolve ce (the (mos_model_cache_dir m))))
                  ''model_cache_dir must be an existing directory'') (\<lambda>_.
         Inr (s\<lparr>set_formatter := f\<lparr>fos_api_url := formatter_url\<rparr>, set_advisory := a\<lparr>ads_api_url := advisory_url\<rparr>,
           set_qdrant := q\<lparr>qds_url := qdrant_url\<rparr>, set_search := r\<lparr>res_url := search_url\<rparr>,
           set_models := m\<lparr>mos_model_cache_dir := map_option (ce_resolve ce) (mos_model_cache_dir m)\<rparr>\<rparr>)))))))))))))))))))"

text \<open>\<^verbatim>\<open>validate_and_prepare\<close> on the fields; the directories it creates last are not part of the result.\<close>

definition validate_settings :: "config_env \<Rightarrow> app_settings \<Rightarrow> string + app_settings" where
  "validate_settings ce raw =
     (case settings_fields raw of
        None \<Rightarrow> Inl ''a field is invalid''
      | Some s \<Rightarrow>
          rbind (validate_collections s) (\<lambda>_.
          rbind (validate_storage_and_database ce s) (\<lambda>s1.
          rbind (validate_security ce s1) (\<lambda>s2.
          rbind (validate_limits s2) (\<lambda>_.
          validate_provider_groups ce s2)))))"

section \<open>Providers\<close>

text \<open>The constructors of \<^verbatim>\<open>QdrantClient\<close> and of the language detector are parameters, with the message of what
  they raise, and so are the model libraries and their assets.\<close>

record provider_libs =
  pl_qdrant :: "string \<Rightarrow> string option \<Rightarrow> rat \<Rightarrow> string + unit"
  pl_assets :: model_assets
  pl_detector :: "string + unit"

record provider_configs =
  prc_qdrant :: "(string \<times> string option \<times> rat) option"
  prc_models :: "model_config option"
  prc_formatter :: "formatter_config option"
  prc_advisory :: "llm_config option"

definition or_empty :: "string option \<Rightarrow> string" where
  "or_empty x = (case x of None \<Rightarrow> [] | Some v \<Rightarrow> v)"

definition formatter_config_of :: "formatter_settings \<Rightarrow> string + formatter_config option" where
  "formatter_config_of f =
     (case (fos_api_url f, fos_model_id f) of
        (Some url, Some model) \<Rightarrow>
          (let cfg = \<lparr>fcfg_api_url = url, fcfg_model_id = model, fcfg_expected_tokenizer_class = or_empty (fos_tokenizer_class f),
             fcfg_prompt_revision = or_empty (fos_prompt_revision f), fcfg_schema_revision = or_empty (fos_schema_revision f),
             fcfg_api_token = fos_api_token f, fcfg_timeout_seconds = fos_timeout f,
             fcfg_max_input_tokens = fos_max_input_tokens f, fcfg_max_output_tokens = fos_max_output_tokens f,
             fcfg_token_safety_reserve = fos_token_safety_reserve f,
             fcfg_max_pages_per_request = fos_max_pages_per_request f, fcfg_max_attempts = fos_max_attempts f\<rparr>
           in rbind (check_formatter_config cfg) (\<lambda>_. Inr (Some cfg)))
      | _ \<Rightarrow> Inr None)"

definition llm_config_of :: "advisory_settings \<Rightarrow> string + llm_config option" where
  "llm_config_of a =
     (case (ads_api_url a, ads_classifier_model a, ads_verifier_model a) of
        (Some url, Some classifier, Some verifier) \<Rightarrow>
          (let cfg = \<lparr>llm_api_url = url, llm_classifier_model = classifier,
             llm_classifier_model_revision = or_empty (ads_classifier_model_revision a),
             llm_classifier_prompt_revision = or_empty (ads_classifier_prompt_revision a), llm_verifier_model = verifier,
             llm_verifier_model_revision = or_empty (ads_verifier_model_revision a),
             llm_verifier_prompt_revision = or_empty (ads_verifier_prompt_revision a),
             llm_max_input_tokens = ads_max_input_tokens a, llm_max_output_tokens = ads_max_output_tokens a,
             llm_max_attempts = ads_max_attempts a, llm_api_token = ads_api_token a, llm_timeout = ads_timeout a\<rparr>
           in rbind (check_llm_config cfg) (\<lambda>_. Inr (Some cfg)))
      | _ \<Rightarrow> Inr None)"

definition local_model_config :: "model_settings \<Rightarrow> model_config option" where
  "local_model_config m =
     (case (mos_dense_model_revision m, mos_sparse_model_revision m, mos_model_cache_dir m) of
        (Some dense, Some sparse, Some cache) \<Rightarrow> Some \<lparr>mcf_dense_model_id = DENSE_MODEL_NAME,
          mcf_dense_model_revision = dense, mcf_sparse_model_id = SPARSE_MODEL_NAME, mcf_sparse_model_revision = sparse,
          mcf_cache_dir = cache, mcf_local_files_only = mos_model_local_files_only m, mcf_device = mos_dense_device m,
          mcf_dense_batch_size = mos_dense_batch_size m\<rparr>
      | _ \<Rightarrow> None)"

definition providers_from_settings :: "stdlib \<Rightarrow> provider_libs \<Rightarrow> app_settings \<Rightarrow> string + provider_configs" where
  "providers_from_settings sl pl s =
     (let q = set_qdrant s; models = local_model_config (set_models s)
      in rbind (case qds_url q of None \<Rightarrow> Inr () | Some url \<Rightarrow> pl_qdrant pl url (qds_api_key q) (qds_timeout q)) (\<lambda>_.
         rbind (case models of None \<Rightarrow> Inr ()
           | Some cfg \<Rightarrow> rbind (local_embedding_models sl (pl_assets pl) cfg) (\<lambda>_. pl_detector pl)) (\<lambda>_.
         rbind (formatter_config_of (set_formatter s)) (\<lambda>formatter.
         rbind (llm_config_of (set_advisory s)) (\<lambda>advisory.
         Inr \<lparr>prc_qdrant = map_option (\<lambda>url. (url, qds_api_key q, qds_timeout q)) (qds_url q), prc_models = models,
           prc_formatter = formatter, prc_advisory = advisory\<rparr>)))))"

section \<open>Properties\<close>

lemma validate_settingsE:
  assumes "validate_settings ce raw = Inr s"
  obtains f s1 s2 where "settings_fields raw = Some f" and "validate_collections f = Inr ()"
    and "validate_storage_and_database ce f = Inr s1" and "validate_security ce s1 = Inr s2"
    and "validate_limits s2 = Inr ()" and "validate_provider_groups ce s2 = Inr s"
  using assms by (auto simp: validate_settings_def rbind_eq_Inr split: option.splits)

lemma storage_keeps:
  assumes "validate_storage_and_database ce f = Inr s1"
  shows "\<exists>base url. s1 = f\<lparr>set_deployment := (set_deployment f)\<lparr>ds_storage_root := base, ds_database_url := url\<rparr>\<rparr>
    \<and> \<not> relative_to base (ce_app_root ce)"
proof -
  let ?base = "ce_resolve ce (ds_storage_root (set_deployment f))"
  let ?url = "if ds_database_url (set_deployment f) = [] then ''sqlite+pysqlite:///'' @ join_posix ?base ''catalog.sqlite3''
    else ds_database_url (set_deployment f)"
  have "s1 = f\<lparr>set_deployment := (set_deployment f)\<lparr>ds_storage_root := ?base, ds_database_url := ?url\<rparr>\<rparr>
      \<and> \<not> relative_to ?base (ce_app_root ce)"
    using assms unfolding validate_storage_and_database_def Let_def
    by (auto split: option.splits prod.splits if_splits)
  then show ?thesis
    by blast
qed

lemma security_sets_hosts:
  assumes "validate_security ce s1 = Inr s2"
  shows "\<exists>hosts. s2 = s1\<lparr>set_deployment := (set_deployment s1)\<lparr>ds_allowed_hosts := hosts\<rparr>\<rparr> \<and> hosts \<noteq> []
    \<and> (ds_app_env (set_deployment s1) \<noteq> ENV_DEVELOPMENT \<longrightarrow> ''*'' \<notin> set hosts)
    \<and> (ds_auth_mode (set_deployment s1) = TRUSTED_HEADER \<longrightarrow> ds_trusted_proxy_cidrs (set_deployment s1) \<noteq> [])
    \<and> (ds_app_env (set_deployment s1) = ENV_ENTERPRISE \<longrightarrow> ds_auth_mode (set_deployment s1) = TRUSTED_HEADER)
    \<and> 32 \<le> length (ds_session_secret (set_deployment s1))"
proof (rule exI)
  let ?hosts = "if ds_allowed_hosts (set_deployment s1) = [] \<and> ds_app_env (set_deployment s1) = ENV_DEVELOPMENT
    then [''localhost'', ''127.0.0.1''] else ds_allowed_hosts (set_deployment s1)"
  show "s2 = s1\<lparr>set_deployment := (set_deployment s1)\<lparr>ds_allowed_hosts := ?hosts\<rparr>\<rparr> \<and> ?hosts \<noteq> []
    \<and> (ds_app_env (set_deployment s1) \<noteq> ENV_DEVELOPMENT \<longrightarrow> ''*'' \<notin> set ?hosts)
    \<and> (ds_auth_mode (set_deployment s1) = TRUSTED_HEADER \<longrightarrow> ds_trusted_proxy_cidrs (set_deployment s1) \<noteq> [])
    \<and> (ds_app_env (set_deployment s1) = ENV_ENTERPRISE \<longrightarrow> ds_auth_mode (set_deployment s1) = TRUSTED_HEADER)
    \<and> 32 \<le> length (ds_session_secret (set_deployment s1))"
    using assms unfolding validate_security_def Let_def
    by (auto simp: rbind_eq_Inr secret_value_def simp del: if_image_distrib split del: if_split split: if_split_asm)
qed

definition present :: "string option list \<Rightarrow> string list" where
  "present xs = map the (filter (\<lambda>x. x \<noteq> None) xs)"

lemma all_secrets_present: "all_secrets xs = Inr ss \<Longrightarrow> ss = present xs"
  by (induction xs arbitrary: ss rule: all_secrets.induct)
    (auto simp: present_def rbind_eq_Inr secret_value_def split: if_splits)

lemma provider_url_https:
  assumes "provider_url ce ENV_ENTERPRISE x = Inr (Some v)"
  shows "\<exists>u. ce_urlsplit ce v = Some u \<and> up_scheme u = ''https''"
  using assms by (auto simp: provider_url_def split: option.splits if_splits)

text \<open>Both kinds of update leave the parts that the other checks are about.\<close>

lemma settings_parts:
  assumes "validate_settings ce raw = Inr s"
  shows "\<exists>f. validate_collections f = Inr () \<and> validate_limits f = Inr () \<and> validate_provider_groups ce f = Inr s
    \<and> ds_allowed_hosts (set_deployment f) \<noteq> []
    \<and> (ds_app_env (set_deployment f) \<noteq> ENV_DEVELOPMENT \<longrightarrow> ''*'' \<notin> set (ds_allowed_hosts (set_deployment f)))
    \<and> (ds_auth_mode (set_deployment f) = TRUSTED_HEADER \<longrightarrow> ds_trusted_proxy_cidrs (set_deployment f) \<noteq> [])
    \<and> (ds_app_env (set_deployment f) = ENV_ENTERPRISE \<longrightarrow> ds_auth_mode (set_deployment f) = TRUSTED_HEADER)
    \<and> 32 \<le> length (ds_session_secret (set_deployment f))
    \<and> \<not> relative_to (ds_storage_root (set_deployment f)) (ce_app_root ce)
    \<and> (\<exists>g. settings_fields raw = Some g \<and> set_formatter f = set_formatter g \<and> set_advisory f = set_advisory g
        \<and> set_models f = set_models g)"
  using assms
proof (rule validate_settingsE)
  fix f s1 s2
  assume g: "settings_fields raw = Some f" and f: "validate_collections f = Inr ()" and s1: "validate_storage_and_database ce f = Inr s1"
    and s2: "validate_security ce s1 = Inr s2" and lim: "validate_limits s2 = Inr ()" and prov: "validate_provider_groups ce s2 = Inr s"
  have "validate_collections s2 = Inr ()"
    using f storage_keeps [OF s1] security_sets_hosts [OF s2] by (auto simp: validate_collections_def Let_def)
  then show ?thesis
    using g lim prov storage_keeps [OF s1] security_sets_hosts [OF s2] by (intro exI [of _ s2]) auto
qed

lemma provider_groups_urls:
  assumes "validate_provider_groups ce f = Inr s"
  shows "\<exists>u1 u2 u3 u4. s = f\<lparr>set_formatter := (set_formatter f)\<lparr>fos_api_url := u1\<rparr>,
        set_advisory := (set_advisory f)\<lparr>ads_api_url := u2\<rparr>, set_qdrant := (set_qdrant f)\<lparr>qds_url := u3\<rparr>,
        set_search := (set_search f)\<lparr>res_url := u4\<rparr>,
        set_models := (set_models f)\<lparr>mos_model_cache_dir := map_option (ce_resolve ce) (mos_model_cache_dir (set_models f))\<rparr>\<rparr>
    \<and> provider_url ce (ds_app_env (set_deployment f)) (fos_api_url (set_formatter f)) = Inr u1
    \<and> provider_url ce (ds_app_env (set_deployment f)) (ads_api_url (set_advisory f)) = Inr u2
    \<and> provider_url ce (ds_app_env (set_deployment f)) (qds_url (set_qdrant f)) = Inr u3
    \<and> provider_url ce (ds_app_env (set_deployment f)) (res_url (set_search f)) = Inr u4"
  using assms unfolding validate_provider_groups_def Let_def rbind_eq_Inr
  by (elim exE conjE, intro exI conjI) (assumption | erule Inr_inject [THEN sym])+

lemma provider_groups_secrets:
  assumes "validate_provider_groups ce f = Inr s"
  shows "distinct (present [Some (ds_session_secret (set_deployment f)), fos_api_token (set_formatter f),
        ads_api_token (set_advisory f), qds_api_key (set_qdrant f), res_token (set_search f)])"
  using assms unfolding validate_provider_groups_def Let_def rbind_eq_Inr require_Inr
  by (elim exE conjE) (drule all_secrets_present, simp only:)

lemma provider_groups_complete:
  assumes "validate_provider_groups ce f = Inr s" and "ds_app_env (set_deployment f) \<noteq> ENV_TEST"
  shows "list_all (\<lambda>x. x \<noteq> None) [fos_api_url (set_formatter f), fos_api_token (set_formatter f), fos_model_id (set_formatter f),
          fos_model_revision (set_formatter f), fos_tokenizer_class (set_formatter f), fos_prompt_revision (set_formatter f),
          fos_schema_revision (set_formatter f)]"
    and "list_all (\<lambda>x. x \<noteq> None) [ads_api_url (set_advisory f), ads_api_token (set_advisory f), ads_classifier_model (set_advisory f),
          ads_classifier_model_revision (set_advisory f), ads_classifier_prompt_revision (set_advisory f),
          ads_verifier_model (set_advisory f), ads_verifier_model_revision (set_advisory f),
          ads_verifier_prompt_revision (set_advisory f)]"
    and "list_all (\<lambda>x. x \<noteq> None) [qds_url (set_qdrant f), qds_api_key (set_qdrant f), qds_screening_collection_name (set_qdrant f)]"
    and "list_all (\<lambda>x. x \<noteq> None) [mos_dense_model_revision (set_models f), mos_sparse_model_revision (set_models f),
          mos_model_cache_dir (set_models f)]"
    and "validate_qdrant_access_token (ce_loads ce) (ce_now ce) (the (qds_api_key (set_qdrant f)))
              (insert (the (qds_screening_collection_name (set_qdrant f)))
                (cd_qdrant_collection_name ` set (filter cd_enabled (ds_collections (set_deployment f)))))"
  using assms unfolding validate_provider_groups_def Let_def rbind_eq_Inr require_Inr complete_group_def
  by (elim exE conjE; simp only: simp_thms; auto)+

lemma accepted_security:
  assumes "validate_settings ce raw = Inr s"
  shows "ds_app_env (set_deployment s) \<noteq> ENV_DEVELOPMENT \<longrightarrow> ''*'' \<notin> set (ds_allowed_hosts (set_deployment s))"
    and "ds_app_env (set_deployment s) = ENV_ENTERPRISE \<longrightarrow> ds_auth_mode (set_deployment s) = TRUSTED_HEADER"
proof -
  obtain f where prov: "validate_provider_groups ce f = Inr s"
    and sec: "ds_app_env (set_deployment f) \<noteq> ENV_DEVELOPMENT \<longrightarrow> ''*'' \<notin> set (ds_allowed_hosts (set_deployment f))"
      "ds_app_env (set_deployment f) = ENV_ENTERPRISE \<longrightarrow> ds_auth_mode (set_deployment f) = TRUSTED_HEADER"
    using settings_parts [OF assms] by blast
  have "set_deployment s = set_deployment f"
    using provider_groups_urls [OF prov] by fastforce
  then show "ds_app_env (set_deployment s) \<noteq> ENV_DEVELOPMENT \<longrightarrow> ''*'' \<notin> set (ds_allowed_hosts (set_deployment s))"
    and "ds_app_env (set_deployment s) = ENV_ENTERPRISE \<longrightarrow> ds_auth_mode (set_deployment s) = TRUSTED_HEADER"
    using sec by simp_all
qed

text \<open>C38. Accepted settings fit together.  Collection keys and, up to case, physical names are unique, one collection is
  enabled and the screening collection is none of them; an upload never exceeds what the scanner takes; the heartbeat is
  shorter than the lease and the lease shorter than the longest operation; the storage root is outside the source
  tree; all credentials are pairwise distinct and the session secret has 32 characters.  Outside tests the providers
  are complete and the Qdrant token grants exactly the enabled collections and the screening collection; outside
  development no host wildcard is allowed; an enterprise deployment takes identities only from listed proxies and
  speaks HTTPS to every provider.\<close>

theorem accepted_settings_are_sound:
  assumes "validate_settings ce raw = Inr s"
  shows "distinct (map cd_key (ds_collections (set_deployment s)))
    \<and> distinct (map (\<lambda>d. casefold (cd_qdrant_collection_name d)) (ds_collections (set_deployment s)))
    \<and> (\<exists>d\<in>set (ds_collections (set_deployment s)). cd_enabled d)
    \<and> (\<forall>name. qds_screening_collection_name (set_qdrant s) = Some name \<longrightarrow> name \<noteq> [] \<longrightarrow>
        (\<forall>d\<in>set (ds_collections (set_deployment s)). casefold (cd_qdrant_collection_name d) \<noteq> casefold name))
    \<and> 0 < lim_max_upload_bytes (set_limits s) \<and> lim_max_upload_bytes (set_limits s) \<le> lim_clamd_stream_max_bytes (set_limits s)
    \<and> 1 \<le> tis_heartbeat_seconds (set_worker s) \<and> tis_heartbeat_seconds (set_worker s) < tis_lease_seconds (set_worker s)
    \<and> tis_lease_seconds (set_worker s) < tis_max_operation_seconds (set_worker s)
    \<and> \<not> relative_to (ds_storage_root (set_deployment s)) (ce_app_root ce)
    \<and> 32 \<le> length (ds_session_secret (set_deployment s))
    \<and> distinct (present [Some (ds_session_secret (set_deployment s)), fos_api_token (set_formatter s),
        ads_api_token (set_advisory s), qds_api_key (set_qdrant s), res_token (set_search s)])
    \<and> (ds_app_env (set_deployment s) \<noteq> ENV_TEST \<longrightarrow>
        (\<exists>token name. qds_api_key (set_qdrant s) = Some token \<and> qds_screening_collection_name (set_qdrant s) = Some name
          \<and> validate_qdrant_access_token (ce_loads ce) (ce_now ce) token
              (insert name (cd_qdrant_collection_name ` set (filter cd_enabled (ds_collections (set_deployment s)))))))
    \<and> (ds_app_env (set_deployment s) \<noteq> ENV_DEVELOPMENT \<longrightarrow> ''*'' \<notin> set (ds_allowed_hosts (set_deployment s)))
    \<and> (ds_app_env (set_deployment s) = ENV_ENTERPRISE \<longrightarrow>
        ds_auth_mode (set_deployment s) = TRUSTED_HEADER \<and> ds_trusted_proxy_cidrs (set_deployment s) \<noteq> []
        \<and> (\<forall>url\<in>set (present [fos_api_url (set_formatter s), ads_api_url (set_advisory s), qds_url (set_qdrant s),
              res_url (set_search s)]). \<exists>u. ce_urlsplit ce url = Some u \<and> up_scheme u = ''https''))"
proof -
  obtain f where coll: "validate_collections f = Inr ()" and lim: "validate_limits f = Inr ()"
    and prov: "validate_provider_groups ce f = Inr s"
    and sec: "ds_app_env (set_deployment f) \<noteq> ENV_DEVELOPMENT \<longrightarrow> ''*'' \<notin> set (ds_allowed_hosts (set_deployment f))"
      "ds_auth_mode (set_deployment f) = TRUSTED_HEADER \<longrightarrow> ds_trusted_proxy_cidrs (set_deployment f) \<noteq> []"
      "ds_app_env (set_deployment f) = ENV_ENTERPRISE \<longrightarrow> ds_auth_mode (set_deployment f) = TRUSTED_HEADER"
      "32 \<le> length (ds_session_secret (set_deployment f))" "\<not> relative_to (ds_storage_root (set_deployment f)) (ce_app_root ce)"
    using settings_parts [OF assms] by blast
  obtain u1 u2 u3 u4 where s: "s = f\<lparr>set_formatter := (set_formatter f)\<lparr>fos_api_url := u1\<rparr>,
        set_advisory := (set_advisory f)\<lparr>ads_api_url := u2\<rparr>, set_qdrant := (set_qdrant f)\<lparr>qds_url := u3\<rparr>,
        set_search := (set_search f)\<lparr>res_url := u4\<rparr>,
        set_models := (set_models f)\<lparr>mos_model_cache_dir := map_option (ce_resolve ce) (mos_model_cache_dir (set_models f))\<rparr>\<rparr>"
    and urls: "provider_url ce (ds_app_env (set_deployment f)) (fos_api_url (set_formatter f)) = Inr u1"
      "provider_url ce (ds_app_env (set_deployment f)) (ads_api_url (set_advisory f)) = Inr u2"
      "provider_url ce (ds_app_env (set_deployment f)) (qds_url (set_qdrant f)) = Inr u3"
      "provider_url ce (ds_app_env (set_deployment f)) (res_url (set_search f)) = Inr u4"
    using provider_groups_urls [OF prov] by blast
  have https: "\<exists>u. ce_urlsplit ce url = Some u \<and> up_scheme u = ''https''"
    if "ds_app_env (set_deployment f) = ENV_ENTERPRISE" "url \<in> set (present [u1, u2, u3, u4])" for url
    using that urls provider_url_https by (auto simp: present_def split: if_splits)
  have token: "\<exists>token name. qds_api_key (set_qdrant f) = Some token \<and> qds_screening_collection_name (set_qdrant f) = Some name
      \<and> validate_qdrant_access_token (ce_loads ce) (ce_now ce) token
          (insert name (cd_qdrant_collection_name ` set (filter cd_enabled (ds_collections (set_deployment f)))))"
    if "ds_app_env (set_deployment f) \<noteq> ENV_TEST"
    using provider_groups_complete(3,5) [OF prov that]
    by (cases "qds_api_key (set_qdrant f)"; cases "qds_screening_collection_name (set_qdrant f)") auto
  have collections: "distinct (map cd_key (ds_collections (set_deployment f)))"
    "distinct (map (\<lambda>d. casefold (cd_qdrant_collection_name d)) (ds_collections (set_deployment f)))"
    "\<exists>d\<in>set (ds_collections (set_deployment f)). cd_enabled d"
    "\<forall>name. qds_screening_collection_name (set_qdrant f) = Some name \<longrightarrow> name \<noteq> [] \<longrightarrow>
        (\<forall>d\<in>set (ds_collections (set_deployment f)). casefold (cd_qdrant_collection_name d) \<noteq> casefold name)"
    using coll unfolding validate_collections_def Let_def rbind_eq_Inr require_Inr
    by (auto simp: falsy_def list_ex_iff) (metis (mono_tags, lifting) image_eqI)
  have limits: "0 < lim_max_upload_bytes (set_limits f)"
    "lim_max_upload_bytes (set_limits f) \<le> lim_clamd_stream_max_bytes (set_limits f)"
    "1 \<le> tis_heartbeat_seconds (set_worker f)" "tis_heartbeat_seconds (set_worker f) < tis_lease_seconds (set_worker f)"
    "tis_lease_seconds (set_worker f) < tis_max_operation_seconds (set_worker f)"
    using lim unfolding validate_limits_def Let_def rbind_eq_Inr require_Inr
    by blast+
  show ?thesis
    using collections limits sec token https provider_groups_secrets [OF prov] by (simp add: s)
qed

lemma identity_not_blank:
  assumes "tokenizer_identity_ok v"
  shows "py_strip v \<noteq> []"
proof -
  have "v \<noteq> [] \<and> \<not> py_isspace (hd v)"
    using assms by (auto simp: tokenizer_identity_ok_def identity_start_def is_ascii_letter_def py_isspace_def Let_def)
  then have "hd v \<in> set (py_strip v)"
    by (cases v) (auto simp: py_strip_def dropWhile_append)
  then show ?thesis
    by (metis empty_iff empty_set)
qed

lemma accepted_fields:
  assumes "settings_fields raw = Some g"
  shows "list_all immutable_identity [fos_model_id (set_formatter g), fos_model_revision (set_formatter g),
      fos_tokenizer_class (set_formatter g), fos_prompt_revision (set_formatter g), fos_schema_revision (set_formatter g)]"
    and "list_all immutable_identity [ads_classifier_model (set_advisory g), ads_classifier_model_revision (set_advisory g),
      ads_classifier_prompt_revision (set_advisory g), ads_verifier_model (set_advisory g),
      ads_verifier_model_revision (set_advisory g), ads_verifier_prompt_revision (set_advisory g)]"
proof -
  obtain fo ad where "fields_of_formatter fo = Some (set_formatter g)" "fields_of_advisory ad = Some (set_advisory g)"
    using assms by (auto simp: settings_fields_def Let_def split: option.splits if_splits)
  then show "list_all immutable_identity [fos_model_id (set_formatter g), fos_model_revision (set_formatter g),
      fos_tokenizer_class (set_formatter g), fos_prompt_revision (set_formatter g), fos_schema_revision (set_formatter g)]"
    and "list_all immutable_identity [ads_classifier_model (set_advisory g), ads_classifier_model_revision (set_advisory g),
      ads_classifier_prompt_revision (set_advisory g), ads_verifier_model (set_advisory g),
      ads_verifier_model_revision (set_advisory g), ads_verifier_prompt_revision (set_advisory g)]"
    unfolding fields_of_formatter_def fields_of_advisory_def Let_def by (metis option.distinct(1) option.inject)+
qed

lemma formatter_config_revisions:
  assumes "fos_api_url f = Some url" and "fos_model_id f = Some model" and "fos_tokenizer_class f = Some tokenizer"
    and "fos_prompt_revision f = Some prompt" and "fos_schema_revision f = Some schema"
    and "py_strip url \<noteq> []" and "tokenizer_identity_ok model" and "tokenizer_identity_ok tokenizer" and "0 < fos_timeout f"
    and "0 < fos_max_input_tokens f" and "0 < fos_max_output_tokens f" and "0 < fos_token_safety_reserve f"
    and "0 < fos_max_pages_per_request f" and "0 < fos_max_attempts f"
  shows "if prompt = FORMATTER_PROMPT_REVISION \<and> schema = FORMATTER_SCHEMA_REVISION
    then \<exists>cfg. formatter_config_of f = Inr (Some cfg)
    else \<exists>e. formatter_config_of f = Inl e \<and> e \<in> {''formatter prompt revision does not match this implementation'',
      ''formatter schema revision does not match this implementation''}"
  using assms identity_not_blank [OF assms(7)]
  by (cases "prompt = FORMATTER_PROMPT_REVISION"; cases "schema = FORMATTER_SCHEMA_REVISION")
    (simp_all add: formatter_config_of_def check_formatter_config_def or_empty_def Let_def)

lemma llm_config_revisions:
  assumes "ads_api_url a = Some url" and "ads_classifier_model a = Some classifier"
    and "ads_classifier_model_revision a = Some classifier_revision" and "ads_classifier_prompt_revision a = Some classifier_prompt"
    and "ads_verifier_model a = Some verifier" and "ads_verifier_model_revision a = Some verifier_revision"
    and "ads_verifier_prompt_revision a = Some verifier_prompt"
    and "py_strip url \<noteq> []" and "tokenizer_identity_ok classifier" and "tokenizer_identity_ok classifier_revision"
    and "tokenizer_identity_ok verifier" and "tokenizer_identity_ok verifier_revision" and "0 < ads_timeout a"
    and "0 < ads_max_input_tokens a" and "0 < ads_max_output_tokens a" and "1 \<le> ads_max_attempts a" and "ads_max_attempts a \<le> 5"
  shows "if classifier_prompt = CLASSIFIER_PROMPT_REVISION \<and> verifier_prompt = VERIFIER_PROMPT_REVISION
    then \<exists>cfg. llm_config_of a = Inr (Some cfg)
    else \<exists>e. llm_config_of a = Inl e \<and> e \<in> {''classifier prompt revision does not match this implementation'',
      ''verifier prompt revision does not match this implementation''}"
proof -
  have "py_strip classifier \<noteq> []" "py_strip classifier_revision \<noteq> []" "py_strip verifier \<noteq> []" "py_strip verifier_revision \<noteq> []"
    using assms(9-12) identity_not_blank by blast+
  then show ?thesis
    using assms(1-8,13-17)
    by (cases "classifier_prompt = CLASSIFIER_PROMPT_REVISION"; cases "verifier_prompt = VERIFIER_PROMPT_REVISION")
      (simp_all add: llm_config_of_def check_llm_config_def or_empty_def Let_def)
qed

text \<open>A URL with a scheme has a character that is neither a slash nor white space.\<close>

definition url_reader_ok :: "config_env \<Rightarrow> bool" where
  "url_reader_ok ce \<longleftrightarrow> (\<forall>v u. ce_urlsplit ce v = Some u \<longrightarrow> up_scheme u \<noteq> []
     \<longrightarrow> (\<exists>c\<in>set v. c \<noteq> CHR ''/'' \<and> \<not> py_isspace c))"

lemma url_not_blank:
  assumes "url_reader_ok ce" and "provider_url ce env (Some v) = Inr (Some url)"
  shows "py_strip url \<noteq> []"
proof -
  obtain u where u: "ce_urlsplit ce v = Some u" "up_scheme u \<in> {''http'', ''https''}" "url = rstrip_slash v"
    using assms(2) by (auto simp: provider_url_def validate_http_url_def split: option.splits if_splits)
  have "up_scheme u \<noteq> []"
    using u(2) by auto
  then obtain c where c: "c \<in> set v" "c \<noteq> CHR ''/''" "\<not> py_isspace c"
    using assms(1) u(1) unfolding url_reader_ok_def by blast
  then obtain before after where "v = before @ c # after"
    by (meson split_list)
  then have "c \<in> set url"
    using u(3) c(2) by (auto simp: rstrip_slash_def dropWhile_append)
  then show ?thesis
    using c(3) by (auto simp: visible_def filter_empty_conv)
qed

text \<open>The revisions that the settings accept are those that the embedding models accept.\<close>

lemma casefold_hex:
  assumes "is_hexadecimal v"
  shows "length (casefold v) = length v" "is_hexadecimal (casefold v)"
  using assms by (induction v)
    (auto simp: is_hexadecimal_def casefold_def py_lower_def char_code_char_of Let_def)

lemma accepted_revisions:
  assumes "settings_fields raw = Some g"
  shows "mos_dense_model_revision (set_models g) = Some v \<Longrightarrow> pinned_revision v"
    and "mos_sparse_model_revision (set_models g) = Some v \<Longrightarrow> pinned_revision v"
proof -
  obtain m where m: "fields_of_models m = Some (set_models g)"
    using assms by (auto simp: settings_fields_def Let_def split: option.splits if_splits)
  let ?dense = "normalized_optional (mos_dense_model_revision m)" and ?sparse = "normalized_optional (mos_sparse_model_revision m)"
  have g: "set_models g = m\<lparr>mos_dense_model_revision := map_option casefold ?dense,
      mos_sparse_model_revision := map_option casefold ?sparse\<rparr>"
    and ok: "case ?dense of None \<Rightarrow> True | Some w \<Rightarrow> bounded_length 40 64 w \<and> is_hexadecimal w"
      "case ?sparse of None \<Rightarrow> True | Some w \<Rightarrow> length w = 64 \<and> is_hexadecimal w"
    using m by (simp_all add: fields_of_models_def Let_def split: if_splits)
  show "mos_dense_model_revision (set_models g) = Some v \<Longrightarrow> pinned_revision v"
    using ok(1) by (auto simp: g pinned_revision_def bounded_length_def casefold_hex)
  show "mos_sparse_model_revision (set_models g) = Some v \<Longrightarrow> pinned_revision v"
    using ok(2) by (auto simp: g pinned_revision_def casefold_hex)
qed

lemma provider_groups_cache:
  assumes "validate_provider_groups ce f = Inr s"
  shows "mos_model_cache_dir (set_models f) = None \<or> ce_absolute ce (the (mos_model_cache_dir (set_models f)))"
  using assms unfolding validate_provider_groups_def Let_def rbind_eq_Inr require_Inr by (elim exE conjE)

lemma configured_models_load:
  assumes "mcf_dense_model_id cfg = DENSE_MODEL_NAME" and "mcf_sparse_model_id cfg = SPARSE_MODEL_NAME"
    and "pinned_revision (mcf_dense_model_revision cfg)" and "pinned_revision (mcf_sparse_model_revision cfg)"
    and "mcf_local_files_only cfg" and "0 < mcf_dense_batch_size cfg" and "la_absolute la (mcf_cache_dir cfg)"
  shows "local_embedding_models sl la cfg = rbind (la_load_dense la cfg) (\<lambda>_. load_sparse sl la cfg)"
  using assms by (simp add: local_embedding_models_def)

text \<open>C39. The providers of accepted settings.  Outside tests, accepted settings name everything a provider needs, and
  no check that the program makes of a provider's configuration fails but that of the prompt and schema revisions.  What
  the constructor of the Qdrant client, the loads of the two models, the attestation of the sparse model's assets or the
  language detector refuse is passed on.  When they refuse nothing, building the providers succeeds with all of them
  exactly if the configured prompt and schema revisions are those of the program; otherwise it stops with the message
  of the revision that differs.  Of the filesystem it is assumed that resolving an absolute path gives an absolute one.\<close>

theorem accepted_settings_build_providers:
  assumes "validate_settings ce raw = Inr s" and "ds_app_env (set_deployment s) \<noteq> ENV_TEST" and "url_reader_ok ce"
    and "\<forall>p. ce_absolute ce p \<longrightarrow> la_absolute (pl_assets pl) (ce_resolve ce p)"
  shows "\<exists>url cfg. qds_url (set_qdrant s) = Some url \<and> local_model_config (set_models s) = Some cfg
    \<and> (case rbind (pl_qdrant pl url (qds_api_key (set_qdrant s)) (qds_timeout (set_qdrant s))) (\<lambda>_.
          rbind (la_load_dense (pl_assets pl) cfg) (\<lambda>_. rbind (load_sparse sl (pl_assets pl) cfg) (\<lambda>_. pl_detector pl))) of
        Inl e \<Rightarrow> providers_from_settings sl pl s = Inl e
      | Inr _ \<Rightarrow>
          if fos_prompt_revision (set_formatter s) = Some FORMATTER_PROMPT_REVISION
            \<and> fos_schema_revision (set_formatter s) = Some FORMATTER_SCHEMA_REVISION
            \<and> ads_classifier_prompt_revision (set_advisory s) = Some CLASSIFIER_PROMPT_REVISION
            \<and> ads_verifier_prompt_revision (set_advisory s) = Some VERIFIER_PROMPT_REVISION
          then \<exists>p. providers_from_settings sl pl s = Inr p \<and> prc_qdrant p \<noteq> None \<and> prc_models p = Some cfg
            \<and> prc_formatter p \<noteq> None \<and> prc_advisory p \<noteq> None
          else \<exists>e. providers_from_settings sl pl s = Inl e \<and> e \<in> {''formatter prompt revision does not match this implementation'',
            ''formatter schema revision does not match this implementation'', ''classifier prompt revision does not match this implementation'',
            ''verifier prompt revision does not match this implementation''})"
proof -
  obtain f g where lim: "validate_limits f = Inr ()" and prov: "validate_provider_groups ce f = Inr s"
    and g: "settings_fields raw = Some g" "set_formatter f = set_formatter g" "set_advisory f = set_advisory g"
      "set_models f = set_models g"
    using settings_parts [OF assms(1)] by blast
  obtain u1 u2 u3 u4 where s: "s = f\<lparr>set_formatter := (set_formatter f)\<lparr>fos_api_url := u1\<rparr>,
        set_advisory := (set_advisory f)\<lparr>ads_api_url := u2\<rparr>, set_qdrant := (set_qdrant f)\<lparr>qds_url := u3\<rparr>,
        set_search := (set_search f)\<lparr>res_url := u4\<rparr>,
        set_models := (set_models f)\<lparr>mos_model_cache_dir := map_option (ce_resolve ce) (mos_model_cache_dir (set_models f))\<rparr>\<rparr>"
    and urls: "provider_url ce (ds_app_env (set_deployment f)) (fos_api_url (set_formatter f)) = Inr u1"
      "provider_url ce (ds_app_env (set_deployment f)) (ads_api_url (set_advisory f)) = Inr u2"
      "provider_url ce (ds_app_env (set_deployment f)) (qds_url (set_qdrant f)) = Inr u3"
    using provider_groups_urls [OF prov] by blast
  let ?fo = "set_formatter s" and ?ad = "set_advisory s"
  have env: "ds_app_env (set_deployment f) \<noteq> ENV_TEST"
    using assms(2) s by simp
  note complete = provider_groups_complete [OF prov env]
  have some_url: "\<exists>v. u = Some v \<and> py_strip v \<noteq> []"
    if "x \<noteq> None" "provider_url ce (ds_app_env (set_deployment f)) x = Inr u" for x u
    using that url_not_blank [OF assms(3)]
    by (cases x; cases u) (auto simp: provider_url_def split: option.splits if_splits)
  obtain furl aurl qurl where u: "u1 = Some furl" "py_strip furl \<noteq> []" "u2 = Some aurl" "py_strip aurl \<noteq> []" "u3 = Some qurl"
    using some_url [OF _ urls(1)] some_url [OF _ urls(2)] some_url [OF _ urls(3)] complete by auto
  obtain model tokenizer prompt schema where fo: "fos_model_id ?fo = Some model" "fos_tokenizer_class ?fo = Some tokenizer"
    "fos_prompt_revision ?fo = Some prompt" "fos_schema_revision ?fo = Some schema"
    using complete(1) by (auto simp: s)
  obtain classifier classifier_revision classifier_prompt verifier verifier_revision verifier_prompt where ad:
    "ads_classifier_model ?ad = Some classifier" "ads_classifier_model_revision ?ad = Some classifier_revision"
    "ads_classifier_prompt_revision ?ad = Some classifier_prompt" "ads_verifier_model ?ad = Some verifier"
    "ads_verifier_model_revision ?ad = Some verifier_revision" "ads_verifier_prompt_revision ?ad = Some verifier_prompt"
    using complete(2) by (auto simp: s)
  have ids: "tokenizer_identity_ok model" "tokenizer_identity_ok tokenizer"
    using accepted_fields(1) [OF g(1)] fo by (simp_all add: s g(2) [symmetric] immutable_identity_def)
  have ads: "tokenizer_identity_ok classifier" "tokenizer_identity_ok classifier_revision" "tokenizer_identity_ok verifier"
    "tokenizer_identity_ok verifier_revision"
    using accepted_fields(2) [OF g(1)] ad by (simp_all add: s g(3) [symmetric] immutable_identity_def)
  have limits: "0 < fos_timeout ?fo" "0 < fos_max_input_tokens ?fo" "0 < fos_max_output_tokens ?fo"
    "0 < fos_token_safety_reserve ?fo" "0 < fos_max_pages_per_request ?fo" "0 < fos_max_attempts ?fo" "0 < ads_timeout ?ad"
    "0 < ads_max_input_tokens ?ad" "0 < ads_max_output_tokens ?ad" "1 \<le> ads_max_attempts ?ad" "ads_max_attempts ?ad \<le> 5"
    using lim unfolding validate_limits_def Let_def rbind_eq_Inr require_Inr by (auto simp: s)
  have "fos_api_url ?fo = Some furl" "ads_api_url ?ad = Some aurl"
    using u by (simp_all add: s)
  note formatter = formatter_config_revisions [OF this(1) fo u(2) ids limits(1-6)]
  note advisory = llm_config_revisions [OF \<open>ads_api_url ?ad = Some aurl\<close> ad u(4) ads limits(7-11)]
  obtain dense sparse cache where mo: "mos_dense_model_revision (set_models f) = Some dense"
    "mos_sparse_model_revision (set_models f) = Some sparse" "mos_model_cache_dir (set_models f) = Some cache"
    using complete(4) by auto
  define cfg where "cfg = \<lparr>mcf_dense_model_id = DENSE_MODEL_NAME, mcf_dense_model_revision = dense,
    mcf_sparse_model_id = SPARSE_MODEL_NAME, mcf_sparse_model_revision = sparse, mcf_cache_dir = ce_resolve ce cache,
    mcf_local_files_only = mos_model_local_files_only (set_models f), mcf_device = mos_dense_device (set_models f),
    mcf_dense_batch_size = mos_dense_batch_size (set_models f)\<rparr>"
  have models: "local_model_config (set_models s) = Some cfg"
    by (simp add: local_model_config_def s mo cfg_def)
  have "pinned_revision dense" "pinned_revision sparse"
    using accepted_revisions [OF g(1)] mo by (simp_all add: g(4) [symmetric])
  moreover have "mos_model_local_files_only (set_models f)" "1 \<le> mos_dense_batch_size (set_models f)"
    using lim unfolding validate_limits_def Let_def rbind_eq_Inr require_Inr by blast+
  moreover have "la_absolute (pl_assets pl) (ce_resolve ce cache)"
    using assms(4) provider_groups_cache [OF prov] mo(3) by simp
  ultimately have loaded: "local_embedding_models sl (pl_assets pl) cfg
      = rbind (la_load_dense (pl_assets pl) cfg) (\<lambda>_. load_sparse sl (pl_assets pl) cfg)"
    by (intro configured_models_load) (simp_all add: cfg_def)
  have url: "qds_url (set_qdrant s) = Some qurl"
    using u by (simp add: s)
  show ?thesis
  proof (cases "rbind (pl_qdrant pl qurl (qds_api_key (set_qdrant s)) (qds_timeout (set_qdrant s))) (\<lambda>_.
        rbind (la_load_dense (pl_assets pl) cfg) (\<lambda>_. rbind (load_sparse sl (pl_assets pl) cfg) (\<lambda>_. pl_detector pl)))")
    case (Inl e)
    then have "providers_from_settings sl pl s = Inl e"
      by (auto simp: providers_from_settings_def Let_def url models loaded rbind_eq_Inl)
    with Inl url models show ?thesis
      by (intro exI [of _ qurl] exI [of _ cfg]) simp
  next
    case (Inr x)
    then have "providers_from_settings sl pl s = rbind (formatter_config_of ?fo) (\<lambda>formatter. rbind (llm_config_of ?ad) (\<lambda>advisory.
        Inr \<lparr>prc_qdrant = Some (qurl, qds_api_key (set_qdrant s), qds_timeout (set_qdrant s)), prc_models = Some cfg,
          prc_formatter = formatter, prc_advisory = advisory\<rparr>))"
      by (auto simp: providers_from_settings_def Let_def url models loaded rbind_eq_Inr)
    with Inr url models formatter advisory fo ad show ?thesis
      by (intro exI [of _ qurl] exI [of _ cfg]) (auto split: if_splits)
  qed
qed

section \<open>Witnesses\<close>

text \<open>An enterprise deployment with one collection.\<close>

definition plant_token :: string where
  "plant_token = b64url_encode ''h'' @ ''.'' @ b64url_encode ''p'' @ ''.'' @ b64url_encode (replicate 32 (CHR ''s''))"

definition plant_access :: "string \<Rightarrow> json" where
  "plant_access name = JObj [(''collection'', JStr name), (''access'', JStr ''rw'')]"

definition plant_env :: config_env where
  "plant_env = \<lparr>ce_urlsplit = (\<lambda>v. if take 8 v = ''https://'' then Some \<lparr>up_scheme = ''https'', up_netloc = ''x'', up_hostname = Some ''x'',
       up_username = None, up_password = None, up_port = Some None, up_path = (if v = ''https://llm/v1'' then ''/v1'' else ''/''), up_query = [],
       up_fragment = []\<rparr> else None),
     ce_absolute = (\<lambda>_. True), ce_resolve = (\<lambda>p. p), ce_is_dir = (\<lambda>_. True), ce_app_root = ''/app'',
     ce_make_url = (\<lambda>_. Some (''sqlite'', Some ''/data/catalog.sqlite3'')), ce_is_network = (\<lambda>_. True),
     ce_loads = (\<lambda>t. if t = ''h'' then Some (JObj [(''alg'', JStr ''HS256''), (''typ'', JStr ''JWT'')])
       else Some (JObj [(''exp'', JInt 1000), (''access'', JArr [plant_access ''reports_v1'', plant_access ''screening''])])),
     ce_now = 0\<rparr>"

definition plant_collection :: collection_definition where
  "plant_collection = \<lparr>cd_key = ''reports'', cd_display_name = ''Reports'', cd_description = ''Reports'',
     cd_audience = ''staff'', cd_qdrant_collection_name = ''reports_v1'', cd_enabled = True\<rparr>"

definition plant_formatter :: formatter_settings where
  "plant_formatter = \<lparr>fos_api_url = Some ''https://fmt'', fos_api_token = Some ''token-f'', fos_model_id = Some ''m'',
     fos_model_revision = Some ''r1'', fos_tokenizer_class = Some ''tok'', fos_prompt_revision = Some FORMATTER_PROMPT_REVISION,
     fos_schema_revision = Some FORMATTER_SCHEMA_REVISION, fos_timeout = 1, fos_max_input_tokens = 10,
     fos_max_output_tokens = 10, fos_token_safety_reserve = 1, fos_max_pages_per_request = 1, fos_max_attempts = 2\<rparr>"

definition plant_advisory :: advisory_settings where
  "plant_advisory = \<lparr>ads_api_url = Some ''https://llm/v1'', ads_api_token = Some ''token-a'', ads_classifier_model = Some ''c'',
     ads_classifier_model_revision = Some ''r1'', ads_classifier_prompt_revision = Some CLASSIFIER_PROMPT_REVISION,
     ads_verifier_model = Some ''v'', ads_verifier_model_revision = Some ''r1'',
     ads_verifier_prompt_revision = Some VERIFIER_PROMPT_REVISION, ads_timeout = 1, ads_max_input_tokens = 10,
     ads_max_output_tokens = 10, ads_max_attempts = 2\<rparr>"

definition plant_models :: model_settings where
  "plant_models = \<lparr>mos_dense_model_revision = Some (replicate 40 (CHR ''a'')), mos_model_cache_dir = Some ''/models'',
     mos_model_local_files_only = True, mos_dense_device = ''cpu'', mos_dense_batch_size = 16,
     mos_sparse_model_revision = Some (replicate 64 (CHR ''a''))\<rparr>"

definition plant_qdrant :: qdrant_settings where
  "plant_qdrant = \<lparr>qds_url = Some ''https://qdrant'', qds_api_key = Some plant_token, qds_timeout = 1,
     qds_screening_collection_name = Some ''screening''\<rparr>"

definition plant_deployment :: deployment_settings where
  "plant_deployment = \<lparr>ds_app_env = ENV_ENTERPRISE, ds_auth_mode = TRUSTED_HEADER, ds_storage_root = ''/data'',
     ds_database_url = ''sqlite:////data/catalog.sqlite3'', ds_collections = [plant_collection],
     ds_session_secret = replicate 32 (CHR ''k''), ds_allowed_hosts = [''bridge''], ds_trusted_proxy_cidrs = [''10.0.0.0/8''],
     ds_trusted_identity_header = ''X-User''\<rparr>"

definition plant_settings :: app_settings where
  "plant_settings = \<lparr>set_deployment = plant_deployment,
     set_limits = \<lparr>lim_max_upload_bytes = 100, lim_upload_chunk_bytes = 10, lim_clamd_host = ''clamav'', lim_clamd_port = 3310,
       lim_clamd_timeout = 1, lim_clamd_stream_max_bytes = 100, lim_parse_wall_clock = 1, lim_parse_cpu_seconds = 1,
       lim_parse_memory_bytes = 67108864, lim_max_pages = 10, lim_max_extracted_characters = 10, lim_max_chunks = 10\<rparr>,
     set_formatter = plant_formatter, set_advisory = plant_advisory, set_models = plant_models, set_qdrant = plant_qdrant,
     set_worker = \<lparr>tis_poll_seconds = 1, tis_lease_seconds = 300, tis_heartbeat_seconds = 30, tis_max_operation_seconds = 3600\<rparr>,
     set_search = \<lparr>res_url = None, res_token = None, res_timeout = 1\<rparr>\<rparr>"

lemma plant_names: "cd_enabled plant_collection" "cd_qdrant_collection_name plant_collection = ''reports_v1''"
  by (simp_all add: plant_collection_def)

lemma plant_paths:
  "ce_now plant_env = 0" "ce_absolute plant_env p" "ce_is_dir plant_env p" "ce_resolve plant_env = (\<lambda>p. p)"
  by (simp_all add: plant_env_def)

lemma plant_token_accepted:
  "validate_qdrant_access_token (ce_loads plant_env) 0 plant_token {''screening'', ''reports_v1''}"
  by code_simp

lemma plant_texts:
  "list_all (\<lambda>v. normalized_optional (Some v) = Some v) [''https://fmt'', ''token-f'', ''m'', ''r1'', ''tok'',
     FORMATTER_PROMPT_REVISION, FORMATTER_SCHEMA_REVISION, ''https://llm/v1'', ''token-a'', ''c'', CLASSIFIER_PROMPT_REVISION,
     ''v'', VERIFIER_PROMPT_REVISION, ''https://qdrant'', plant_token, ''screening'', replicate 40 (CHR ''a''),
     replicate 64 (CHR ''a'')]"
  "list_all (\<lambda>v. immutable_identity (Some v)) [''m'', ''r1'', ''tok'', FORMATTER_PROMPT_REVISION, FORMATTER_SCHEMA_REVISION,
     ''c'', CLASSIFIER_PROMPT_REVISION, ''v'', VERIFIER_PROMPT_REVISION, replicate 64 (CHR ''a'')]"
  "qdrant_name_pattern ''screening''" "is_hexadecimal (replicate 40 (CHR ''a''))" "is_hexadecimal (replicate 64 (CHR ''a''))"
  "casefold (replicate 40 (CHR ''a'')) = replicate 40 (CHR ''a'')" "casefold (replicate 64 (CHR ''a'')) = replicate 64 (CHR ''a'')"
  by code_simp+

lemma plant_fields:
  "collection_definition_of plant_collection = Some plant_collection"
  "fields_of_formatter plant_formatter = Some plant_formatter" "fields_of_advisory plant_advisory = Some plant_advisory"
  "fields_of_models plant_models = Some plant_models" "fields_of_qdrant plant_qdrant = Some plant_qdrant"
proof -
  show "collection_definition_of plant_collection = Some plant_collection"
    by code_simp
  show "fields_of_formatter plant_formatter = Some plant_formatter" "fields_of_advisory plant_advisory = Some plant_advisory"
    "fields_of_models plant_models = Some plant_models" "fields_of_qdrant plant_qdrant = Some plant_qdrant"
    using plant_texts
    by (simp_all add: fields_of_formatter_def fields_of_advisory_def fields_of_models_def fields_of_qdrant_def Let_def
        plant_formatter_def plant_advisory_def plant_models_def plant_qdrant_def bounded_length_def)
qed

lemma plant_secrets:
  "all_secrets [Some (replicate 32 (CHR ''k'')), Some ''token-f'', Some ''token-a'', Some plant_token, None]
     = Inr [replicate 32 (CHR ''k''), ''token-f'', ''token-a'', plant_token]"
  "distinct [replicate 32 (CHR ''k''), ''token-f'', ''token-a'', plant_token]"
  by code_simp+

lemma plant_urls:
  "provider_url plant_env ENV_ENTERPRISE (Some ''https://fmt'') = Inr (Some ''https://fmt'')"
  "provider_url plant_env ENV_ENTERPRISE (Some ''https://llm/v1'') = Inr (Some ''https://llm/v1'')"
  "provider_url plant_env ENV_ENTERPRISE (Some ''https://qdrant'') = Inr (Some ''https://qdrant'')"
  "provider_url plant_env ENV_ENTERPRISE None = Inr None"
  "url_path_is_v1 plant_env ''https://fmt'' = Some False" "url_path_is_v1 plant_env ''https://llm/v1'' = Some True"
  by code_simp+

lemma plant_deployed:
  "validate_collections plant_settings = Inr ()" "validate_storage_and_database plant_env plant_settings = Inr plant_settings"
proof -
  show "validate_collections plant_settings = Inr ()"
    by (simp add: validate_collections_def Let_def plant_settings_def plant_deployment_def plant_qdrant_def plant_collection_def
        require_def falsy_def) code_simp
  show "validate_storage_and_database plant_env plant_settings = Inr plant_settings"
    by (simp add: validate_storage_and_database_def Let_def plant_settings_def plant_deployment_def plant_env_def) code_simp
qed

lemma plant_secure: "validate_security plant_env plant_settings = Inr plant_settings"
proof -
  have "secret_value (replicate 32 (CHR ''k'')) = Inr (replicate 32 (CHR ''k''))" "header_name_pattern ''X-User''"
    "replicate 32 (CHR ''k'') \<noteq> DEVELOPMENT_SESSION_SECRET" "list_all (\<lambda>h. py_strip h \<noteq> [] \<and> h = py_strip h) [''bridge'']"
    by code_simp+
  then show ?thesis
    by (simp add: validate_security_def Let_def plant_settings_def plant_deployment_def require_def plant_env_def)
qed

lemma plant_limited: "validate_limits plant_settings = Inr ()"
proof -
  have "py_strip ''clamav'' \<noteq> []" "tokenizer_identity_ok ''cpu''" "casefold ''cpu'' \<noteq> ''auto''"
    by code_simp+
  then show ?thesis
    by (simp add: validate_limits_def Let_def plant_settings_def plant_formatter_def plant_advisory_def plant_models_def
        plant_qdrant_def require_def)
qed

lemma plant_accepted: "validate_settings plant_env plant_settings = Inr plant_settings"
proof -
  have f: "settings_fields plant_settings = Some plant_settings"
    using plant_fields
    by (simp add: settings_fields_def Let_def plant_settings_def plant_deployment_def normalized_optional_def)
  have "validate_provider_groups plant_env plant_settings = Inr plant_settings"
    using plant_urls plant_secrets plant_token_accepted
    by (simp add: validate_provider_groups_def Let_def plant_settings_def plant_deployment_def plant_formatter_def
        plant_advisory_def plant_models_def plant_qdrant_def complete_group_def require_def plant_paths
        plant_names del: set_filter)
  then show ?thesis
    using f plant_deployed plant_secure plant_limited by (simp add: validate_settings_def)
qed

theorem accepted_settings_are_sound_witness:
  "validate_settings plant_env plant_settings = Inr plant_settings \<and> ds_trusted_proxy_cidrs plant_deployment \<noteq> []"
  using plant_accepted accepted_settings_are_sound [OF plant_accepted]
  by (simp add: plant_settings_def) (simp add: plant_deployment_def)

text \<open>The assets of the plant: the manifest and the stopwords it declares.\<close>

definition plant_assets :: model_assets where
  "plant_assets = \<lparr>la_absolute = (\<lambda>_. True), la_is_dir = (\<lambda>_. True), la_plain_file = (\<lambda>_. Some True),
     la_size = (\<lambda>_. Some 10),
     la_manifest = (\<lambda>_. Decoded (JObj [(''version'', JInt 1), (''model'', JStr SPARSE_MODEL_NAME),
       (''files'', JObj [(''english.txt'', JStr (replicate 64 (CHR ''a'')))])])),
     la_walk = (\<lambda>_. Some [(SPARSE_MANIFEST, True), (''english.txt'', True)]), la_read = (\<lambda>_. Some ''the''),
     la_load_dense = (\<lambda>_. Inr ()), la_load_sparse = (\<lambda>_ _. Inr ())\<rparr>"

definition plant_libs :: provider_libs where
  "plant_libs = \<lparr>pl_qdrant = (\<lambda>_ _ _. Inr ()), pl_assets = plant_assets, pl_detector = Inr ()\<rparr>"

lemma plant_loads: "la_load_dense plant_assets cfg = Inr ()"
  by (simp add: plant_assets_def)

lemma plant_sparse_loads: "load_sparse prof_stdlib plant_assets (the (local_model_config plant_models)) = Inr ()"
  by code_simp

theorem accepted_settings_build_providers_witness:
  "\<exists>p. providers_from_settings prof_stdlib plant_libs plant_settings = Inr p \<and> prc_models p \<noteq> None \<and> prc_formatter p \<noteq> None
     \<and> prc_advisory p \<noteq> None"
proof -
  have reader: "url_reader_ok plant_env"
    unfolding url_reader_ok_def
  proof (intro allI impI)
    fix v u assume "ce_urlsplit plant_env v = Some u"
    then have "take 8 v = ''https://''"
      by (simp add: plant_env_def split: if_splits)
    then have "CHR ''h'' \<in> set v"
      using in_set_takeD [of "CHR ''h''" 8 v] by simp
    then show "\<exists>c\<in>set v. c \<noteq> CHR ''/'' \<and> \<not> py_isspace c"
      by (intro bexI [of _ "CHR ''h''"]) (simp_all add: py_isspace_def char_code_def Let_def)
  qed
  have env: "ds_app_env (set_deployment plant_settings) \<noteq> ENV_TEST"
    by (simp add: plant_settings_def plant_deployment_def)
  have absolute: "\<forall>p. ce_absolute plant_env p \<longrightarrow> la_absolute (pl_assets plant_libs) (ce_resolve plant_env p)"
    by (simp add: plant_libs_def plant_assets_def)
  note built = accepted_settings_build_providers [OF plant_accepted env reader absolute, of prof_stdlib]
  have "load_sparse prof_stdlib plant_assets cfg = Inr ()" if "local_model_config (set_models plant_settings) = Some cfg" for cfg
    using plant_sparse_loads that by (simp add: plant_settings_def)
  then show ?thesis
    using built by (elim exE conjE) (auto simp: plant_libs_def plant_loads plant_settings_def plant_formatter_def plant_advisory_def)
qed

theorem accepted_token_is_least_privilege_witness:
  "\<exists>rules names. list_all2 grant names rules \<and> distinct names \<and> set names = {''screening'', ''reports_v1''}"
  using accepted_token_is_least_privilege [OF plant_token_accepted]
  by (elim exE conjE, intro exI conjI) assumption+

end
