(* ===== verification/Boundary.thy ===== *)
theory Boundary
  imports Configuration Requests Serializers Screening Search
begin

text \<open>
  The boundary every request crosses: the Host check and request identifiers (\<^verbatim>\<open>http/middleware.py\<close>), origin, CSRF,
  identity and idempotency key (\<^verbatim>\<open>http/security.py\<close>), the error envelope (\<^verbatim>\<open>http/problems.py\<close>), and the mutation
  handlers that compose them with the managers (\<^verbatim>\<open>controllers/api.py\<close>).  A header is a lower-case name with a value whose
  characters are the bytes that were sent.  The framework's routing and parsing of bodies, the encrypted session cookie,
  \<^verbatim>\<open>urlsplit\<close>, \<^verbatim>\<open>ipaddress\<close>, \<^verbatim>\<open>uuid\<close> and \<^verbatim>\<open>secrets\<close> are parameters.
\<close>

section \<open>Requests\<close>

record http_request =
  rq_headers :: "(string \<times> string) list"
  rq_client_host :: "string option"
  rq_session :: "(string \<times> string) list"
  rq_state_request_id :: "string option"
  rq_path :: string

text \<open>\<open>bl_split_host\<close> is \<^verbatim>\<open>urlsplit(f"//{value}", allow_fragments=False)\<close>; \<open>bl_uuid\<close> is \<^verbatim>\<open>str(UUID(value))\<close>.\<close>

record boundary_lib =
  bl_split_host :: "string \<Rightarrow> url_parts option"
  bl_urlsplit :: "string \<Rightarrow> url_parts option"
  bl_is_address :: "string \<Rightarrow> bool"
  bl_in_network :: "string \<Rightarrow> string \<Rightarrow> bool"
  bl_uuid :: "string \<Rightarrow> string option"
  bl_fresh_uuid :: string
  bl_fresh_session_id :: string
  bl_fresh_csrf_token :: string

definition header_values :: "string \<Rightarrow> http_request \<Rightarrow> string list" where
  "header_values name rq = map snd (filter (\<lambda>(n, _). n = name) (rq_headers rq))"

definition header_or_empty :: "string \<Rightarrow> http_request \<Rightarrow> string" where
  "header_or_empty name rq = (case header_values name rq of [] \<Rightarrow> [] | v # _ \<Rightarrow> v)"

text \<open>A deliberate problem with its envelope, or an exception that only the handler of unexpected errors sees.\<close>

datatype boundary_error = Problem nat string string bool "string option" | Uncaught

section \<open>Host header and request identifier\<close>

definition ensure_request_id :: "boundary_lib \<Rightarrow> http_request \<Rightarrow> string" where
  "ensure_request_id lib rq =
     (case rq_state_request_id rq of
        Some current \<Rightarrow>
          if bl_uuid lib current = Some current then current
          else (let candidate = header_or_empty ''x-request-id'' rq
                in if bl_uuid lib candidate = Some candidate then candidate else bl_fresh_uuid lib)
      | None \<Rightarrow>
          (let candidate = header_or_empty ''x-request-id'' rq
           in if bl_uuid lib candidate = Some candidate then candidate else bl_fresh_uuid lib))"

definition put_header :: "string \<Rightarrow> string \<Rightarrow> (string \<times> string) list \<Rightarrow> (string \<times> string) list" where
  "put_header name v hs = filter (\<lambda>(n, _). n \<noteq> name) hs @ [(name, v)]"

definition default_header :: "string \<Rightarrow> string \<Rightarrow> (string \<times> string) list \<Rightarrow> (string \<times> string) list" where
  "default_header name v hs = (if name \<in> fst ` set hs then hs else hs @ [(name, v)])"

definition single_quoted :: "string \<Rightarrow> string" where
  "single_quoted s = CHR 0x27 # s @ [CHR 0x27]"

definition CONTENT_SECURITY_POLICY :: string where
  "CONTENT_SECURITY_POLICY = ''default-src '' @ single_quoted ''self'' @ ''; base-uri '' @ single_quoted ''none'' @ ''; object-src ''
     @ single_quoted ''none'' @ ''; frame-ancestors '' @ single_quoted ''self'' @ ''; form-action '' @ single_quoted ''self'' @ ''; script-src ''
     @ single_quoted ''self'' @ ''; style-src '' @ single_quoted ''self'' @ ''; img-src '' @ single_quoted ''self'' @ '' data:; connect-src ''
     @ single_quoted ''self''"

text \<open>\<^verbatim>\<open>send_with_headers\<close> on the headers a response starts with.\<close>

definition response_headers :: "string \<Rightarrow> string \<Rightarrow> (string \<times> string) list \<Rightarrow> (string \<times> string) list" where
  "response_headers request_id path hs =
     (let hs1 = put_header ''cross-origin-resource-policy'' ''same-origin''
           (put_header ''x-frame-options'' ''SAMEORIGIN''
           (put_header ''permissions-policy'' ''camera=(), microphone=(), geolocation=()''
           (put_header ''referrer-policy'' ''same-origin''
           (put_header ''x-content-type-options'' ''nosniff''
           (put_header ''x-request-id'' request_id hs)))));
          hs2 = (if take 8 path = ''/static/'' then hs1 else default_header ''cache-control'' ''no-store'' hs1)
      in default_header ''content-security-policy'' CONTENT_SECURITY_POLICY hs2)"

text \<open>\<^verbatim>\<open>DNS_LABEL_PATTERN\<close>: \<^verbatim>\<open>^[A-Za-z0-9](?:[A-Za-z0-9-]{0,61}[A-Za-z0-9])?$\<close>\<close>

definition dns_label :: "string \<Rightarrow> bool" where
  "dns_label s \<longleftrightarrow> s \<noteq> [] \<and> length s \<le> 63 \<and> name_char (hd s) \<and> name_char (last s)
     \<and> list_all (\<lambda>c. name_char c \<or> c = CHR ''-'') s"

definition is_ascii :: "string \<Rightarrow> bool" where
  "is_ascii s \<longleftrightarrow> list_all (\<lambda>c. char_code c < 128) s"

definition valid_hostname :: "boundary_lib \<Rightarrow> string \<Rightarrow> bool" where
  "valid_hostname lib v \<longleftrightarrow> \<not> (v = [] \<or> 253 < length v \<or> \<not> is_ascii v \<or> CHR ''%'' \<in> set v)
     \<and> (bl_is_address lib v \<or> list_all dns_label (split_dots v))"

definition hostname_from_header :: "boundary_lib \<Rightarrow> string \<Rightarrow> string option" where
  "hostname_from_header lib v =
     (if v = [] \<or> last v = CHR '':'' \<or> list_ex py_isspace v then None
      else case bl_split_host lib v of
        None \<Rightarrow> None
      | Some u \<Rightarrow>
          (case (up_port u, up_hostname u) of
             (Some port, Some hostname) \<Rightarrow>
               if hostname = [] \<or> \<not> valid_hostname lib hostname \<or> up_username u \<noteq> None \<or> up_password u \<noteq> None
                  \<or> up_path u \<noteq> [] \<or> up_query u \<noteq> [] \<or> up_fragment u \<noteq> [] then None
               else if (case port of None \<Rightarrow> False | Some p \<Rightarrow> \<not> (0 < p \<and> p \<le> 65535)) then None
               else Some (casefold hostname)
           | _ \<Rightarrow> None))"

record host_rules =
  hr_any :: bool
  hr_exact :: "string set"
  hr_suffixes :: "string list"

fun host_rules_from :: "boundary_lib \<Rightarrow> string list \<Rightarrow> host_rules \<Rightarrow> string + host_rules" where
  "host_rules_from lib [] rules = Inr rules"
| "host_rules_from lib (allowed # rest) rules =
     (let normalized = casefold allowed in
      if normalized = ''*'' then host_rules_from lib rest rules
      else if take 2 normalized = ''*.'' \<and> length (filter (\<lambda>c. c = CHR ''*'') normalized) = 1
      then (if \<not> valid_hostname lib (drop 2 normalized) then Inl ''invalid wildcard host suffix''
            else host_rules_from lib rest (rules\<lparr>hr_suffixes := hr_suffixes rules @ [drop 2 normalized]\<rparr>))
      else if CHR ''*'' \<in> set normalized then Inl ''host wildcards must use the *.example.com form''
      else let bare = (if take 1 normalized = ''['' \<and> ends_with '']'' normalized then butlast (drop 1 normalized) else normalized)
           in if \<not> valid_hostname lib bare then Inl ''invalid allowed host''
              else host_rules_from lib rest (rules\<lparr>hr_exact := insert bare (hr_exact rules)\<rparr>))"

definition trusted_hosts :: "boundary_lib \<Rightarrow> string list \<Rightarrow> string + host_rules" where
  "trusted_hosts lib allowed_hosts =
     (if allowed_hosts = [] then Inl ''allowed_hosts must not be empty''
      else host_rules_from lib allowed_hosts \<lparr>hr_any = ''*'' \<in> set allowed_hosts, hr_exact = {}, hr_suffixes = []\<rparr>)"

definition host_allowed :: "host_rules \<Rightarrow> string \<Rightarrow> bool" where
  "host_allowed rules hostname \<longleftrightarrow> hr_any rules \<or> hostname \<in> hr_exact rules
     \<or> list_ex (\<lambda>suffix. ends_with (CHR ''.'' # suffix) hostname) (hr_suffixes rules)"

definition check_host :: "boundary_lib \<Rightarrow> host_rules \<Rightarrow> http_request \<Rightarrow> boundary_error + unit" where
  "check_host lib rules rq =
     (case header_values ''host'' rq of
        [v] \<Rightarrow>
          (case hostname_from_header lib v of
             Some hostname \<Rightarrow>
               if host_allowed rules hostname then Inr ()
               else Inl (Problem 400 ''invalid_host_header'' ''The request Host header is not allowed.'' False None)
           | None \<Rightarrow> Inl (Problem 400 ''invalid_host_header'' ''The request Host header is not allowed.'' False None))
      | _ \<Rightarrow> Inl (Problem 400 ''invalid_host_header'' ''The request Host header is not allowed.'' False None))"

section \<open>Identity, CSRF and idempotency keys\<close>

record actor =
  ac_identifier :: string
  ac_kind :: string

definition with_default :: "string \<Rightarrow> string \<Rightarrow> (string \<times> string) list \<Rightarrow> (string \<times> string) list" where
  "with_default key v session = (if key \<in> fst ` set session then session else session @ [(key, v)])"

definition ensure_browser_session :: "boundary_lib \<Rightarrow> http_request \<Rightarrow> http_request" where
  "ensure_browser_session lib rq = rq\<lparr>rq_session := with_default ''csrf_token'' (bl_fresh_csrf_token lib)
     (with_default ''session_id'' (bl_fresh_session_id lib) (rq_session rq))\<rparr>"

definition session_value :: "string \<Rightarrow> http_request \<Rightarrow> string" where
  "session_value key rq = the (map_of (rq_session rq) key)"

definition csrf_token :: "boundary_lib \<Rightarrow> http_request \<Rightarrow> string" where
  "csrf_token lib rq = session_value ''csrf_token'' (ensure_browser_session lib rq)"

definition proxy_is_trusted :: "boundary_lib \<Rightarrow> string option \<Rightarrow> string list \<Rightarrow> bool" where
  "proxy_is_trusted lib host cidrs =
     (case host of
        None \<Rightarrow> False
      | Some h \<Rightarrow> h \<noteq> [] \<and> bl_is_address lib h \<and> list_ex (bl_in_network lib h) cidrs)"

definition get_actor :: "boundary_lib \<Rightarrow> deployment_settings \<Rightarrow> http_request \<Rightarrow> boundary_error + actor" where
  "get_actor lib d rq =
     (let rq' = ensure_browser_session lib rq in
      if ds_auth_mode d = ANONYMOUS_POC
      then Inr \<lparr>ac_identifier = ''anonymous:'' @ take 10 (session_value ''session_id'' rq'), ac_kind = ''anonymous''\<rparr>
      else if \<not> proxy_is_trusted lib (rq_client_host rq) (ds_trusted_proxy_cidrs d)
      then Inl (Problem 401 ''untrusted-identity-source''
        ''The identity header did not come from a configured trusted proxy.'' False None)
      else let identifier = py_strip (header_or_empty (casefold (ds_trusted_identity_header d)) rq) in
        if identifier = [] \<or> 200 < length identifier \<or> has_control identifier
        then Inl (Problem 401 ''identity-required'' ''The trusted proxy did not provide a valid user identity.'' False None)
        else Inr \<lparr>ac_identifier = identifier, ac_kind = ''trusted-header''\<rparr>)"

definition same_origin :: "boundary_lib \<Rightarrow> http_request \<Rightarrow> boundary_error + bool" where
  "same_origin lib rq =
     (let origin = header_or_empty ''origin'' rq in
      if origin = [] then Inr True
      else case bl_urlsplit lib origin of
        None \<Rightarrow> Inl Uncaught
      | Some u \<Rightarrow> Inr (up_scheme u \<in> {''http'', ''https''} \<and> casefold (up_netloc u) = casefold (header_or_empty ''host'' rq)))"

text \<open>\<^verbatim>\<open>hmac.compare_digest\<close> raises on texts outside ASCII.\<close>

definition compare_digest :: "string \<Rightarrow> string \<Rightarrow> boundary_error + bool" where
  "compare_digest a b = (if \<not> is_ascii a \<or> \<not> is_ascii b then Inl Uncaught else Inr (a = b))"

definition require_csrf :: "boundary_lib \<Rightarrow> deployment_settings \<Rightarrow> http_request \<Rightarrow> boundary_error + actor" where
  "require_csrf lib d rq =
     rbind (same_origin lib rq) (\<lambda>same.
       if \<not> same then Inl (Problem 403 ''cross-origin-request''
         ''Mutating browser requests must originate from PDF Bridge.'' False None)
       else let supplied = header_or_empty ''x-csrf-token'' rq in
         if supplied = [] then Inl (Problem 403 ''csrf-check-failed'' ''Refresh the page and retry the action.'' False None)
         else rbind (compare_digest supplied (csrf_token lib rq)) (\<lambda>equal.
           if \<not> equal then Inl (Problem 403 ''csrf-check-failed'' ''Refresh the page and retry the action.'' False None)
           else get_actor lib d (ensure_browser_session lib rq)))"

definition require_idempotency_key :: "http_request \<Rightarrow> boundary_error + string" where
  "require_idempotency_key rq =
     (let v = header_or_empty ''idempotency-key'' rq in
      if \<not> (8 \<le> length v \<and> length v \<le> 128) \<or> list_ex (\<lambda>c. char_code c < 33 \<or> 126 < char_code c) v
      then Inl (Problem 400 ''invalid_idempotency_key'' ''Idempotency-Key must contain 8 to 128 visible ASCII characters.'' False None)
      else Inr v)"

section \<open>The error envelope\<close>

record error_envelope =
  ee_status :: nat
  ee_code :: string
  ee_message :: string
  ee_request_id :: string
  ee_retryable :: bool
  ee_existing_document_id :: "string option"

text \<open>\<^verbatim>\<open>ErrorDetail\<close>: identifiers are canonical UUIDs.\<close>

definition valid_envelope :: "boundary_lib \<Rightarrow> error_envelope \<Rightarrow> bool" where
  "valid_envelope lib e \<longleftrightarrow> failure_code_pattern (ee_code e) \<and> bounded_length 1 500 (ee_message e)
     \<and> bl_uuid lib (ee_request_id e) = Some (ee_request_id e)
     \<and> optional (\<lambda>v. bl_uuid lib v = Some v) (ee_existing_document_id e)"

text \<open>\<^verbatim>\<open>ProblemError\<close>: a code, message or document that breaks the contract is a \<^verbatim>\<open>ValueError\<close>, which nothing
  expects.\<close>

definition problem_error ::
  "boundary_lib \<Rightarrow> nat \<Rightarrow> string \<Rightarrow> string \<Rightarrow> bool \<Rightarrow> string option \<Rightarrow> boundary_error" where
  "problem_error lib status code detail retryable existing =
     (let message = py_join '' '' (py_split detail) in
      if \<not> failure_code_pattern code \<or> message = [] \<or> 500 < length message then Uncaught
      else case existing of
        None \<Rightarrow> Problem status code message retryable None
      | Some v \<Rightarrow>
          (case bl_uuid lib v of None \<Rightarrow> Uncaught | Some u \<Rightarrow> Problem status code message retryable (Some u)))"

text \<open>\<^verbatim>\<open>handle_problem\<close> and \<^verbatim>\<open>handle_unexpected\<close>\<close>

definition envelope_of :: "boundary_lib \<Rightarrow> http_request \<Rightarrow> boundary_error \<Rightarrow> error_envelope" where
  "envelope_of lib rq e =
     (case e of
        Problem status code message retryable existing \<Rightarrow>
          \<lparr>ee_status = status, ee_code = code, ee_message = message, ee_request_id = ensure_request_id lib rq,
           ee_retryable = retryable, ee_existing_document_id = existing\<rparr>
      | Uncaught \<Rightarrow>
          \<lparr>ee_status = 500, ee_code = ''internal_error'', ee_message = ''The service could not complete the request.'',
           ee_request_id = ensure_request_id lib rq, ee_retryable = False, ee_existing_document_id = None\<rparr>)"

text \<open>\<^verbatim>\<open>_problem\<close> on what the managers raise.  The message of a lifecycle error and the \<open>existing_document_id\<close> it
  carries are an argument, as \<^typ>\<open>lifecycle_error\<close> keeps neither.\<close>

type_synonym error_details = "lifecycle_error \<Rightarrow> string \<times> string option"

definition problem_of :: "boundary_lib \<Rightarrow> error_details \<Rightarrow> admission_error \<Rightarrow> boundary_error" where
  "problem_of lib details e =
     (case e of
        AdmissionFailure (LifecycleError code status retryable) \<Rightarrow>
          (let (message, existing) = details (LifecycleError code status retryable)
           in problem_error lib status code message retryable (if code = ''exact_duplicate'' then existing else None))
      | UploadFailure (FileTooLargeError _) \<Rightarrow>
          problem_error lib 413 ''upload_too_large'' ''The PDF exceeds the configured upload size limit.'' False None
      | UploadFailure InvalidPdfError \<Rightarrow> problem_error lib 422 ''invalid_pdf'' ''The uploaded file is not a valid PDF.'' False None
      | InvalidFilenameError \<Rightarrow>
          problem_error lib 422 ''invalid_filename'' ''The filename is not a valid PDF display name.'' False None
      | ScannerFailure \<Rightarrow>
          problem_error lib 503 ''scanner_unavailable'' ''Malware screening could not be completed.'' True None
      | UploadFailure StorageFailed \<Rightarrow>
          problem_error lib 500 ''storage_failure'' ''Canonical storage could not complete the request.'' False None
      | UploadFailure UnsafePathError \<Rightarrow>
          problem_error lib 500 ''storage_failure'' ''Canonical storage could not complete the request.'' False None
      | SerializationError \<Rightarrow>
          problem_error lib 500 ''catalog_serialization_failed'' ''Catalog data could not be represented safely.'' False None
      | _ \<Rightarrow> Uncaught)"

text \<open>\<^verbatim>\<open>handle_validation\<close>: what the framework refuses before a handler runs.\<close>

definition validation_problem :: "http_request \<Rightarrow> boundary_error" where
  "validation_problem rq =
     (if casefold (takeWhile (\<lambda>c. c \<noteq> CHR '';'') (header_or_empty ''content-type'' rq)) = ''application/json''
      then Problem 422 ''request_validation_failed'' ''The JSON request body does not match the API contract.'' False None
      else Problem 400 ''invalid_request'' ''The request parameters or multipart body are invalid.'' False None)"

definition not_found_problem :: boundary_error where
  "not_found_problem = Problem 404 ''route_not_found'' ''The requested API route was not found.'' False None"

definition method_problem :: boundary_error where
  "method_problem = Problem 405 ''method_not_allowed'' ''The requested method is not allowed for this API route.'' False None"

section \<open>Handlers\<close>

definition mutation_guard ::
  "boundary_lib \<Rightarrow> host_rules \<Rightarrow> deployment_settings \<Rightarrow> http_request \<Rightarrow> boundary_error + actor \<times> string" where
  "mutation_guard lib rules d rq =
     rbind (check_host lib rules rq) (\<lambda>_.
     rbind (require_csrf lib d rq) (\<lambda>a.
     rbind (require_idempotency_key rq) (\<lambda>key. Inr (a, key))))"

text \<open>
  A mutation: the dependencies of the route, the manager with the actor and the key, and the envelope of what it raises.
  The state is what the manager may change; a refused request leaves it.  The framework does not fix an order between the
  two dependencies; the model resolves the actor first.  It has validated path, query and body before the handler runs.
\<close>

definition mutation_endpoint ::
  "boundary_lib \<Rightarrow> host_rules \<Rightarrow> deployment_settings \<Rightarrow> error_details
     \<Rightarrow> (string \<Rightarrow> string \<Rightarrow> string \<Rightarrow> (admission_error + 'r) \<times> 's) \<Rightarrow> http_request \<Rightarrow> 's \<Rightarrow> (error_envelope + 'r) \<times> 's" where
  "mutation_endpoint lib rules d details manager rq st =
     (case mutation_guard lib rules d rq of
        Inl e \<Rightarrow> (Inl (envelope_of lib rq e), st)
      | Inr (a, key) \<Rightarrow>
          (case manager key (ac_kind a) (ac_identifier a) of
             (Inl e, st1) \<Rightarrow> (Inl (envelope_of lib rq (problem_of lib details e)), st1)
           | (Inr r, st1) \<Rightarrow> (Inr r, st1)))"

text \<open>A transaction that raises is rolled back.\<close>

definition rolled_back :: "catalog \<Rightarrow> 'e + 'r \<times> catalog \<Rightarrow> ('e + 'r) \<times> catalog" where
  "rolled_back c result = (case result of Inl e \<Rightarrow> (Inl e, c) | Inr (r, c1) \<Rightarrow> (Inr r, c1))"

definition decide_endpoint ::
  "boundary_lib \<Rightarrow> host_rules \<Rightarrow> app_settings \<Rightarrow> error_details \<Rightarrow> (string \<Rightarrow> string) \<Rightarrow> (string \<Rightarrow> bool)
     \<Rightarrow> (document \<Rightarrow> work_operation \<Rightarrow> response_body) \<Rightarrow> bool \<Rightarrow> timestamp \<Rightarrow> uuid \<Rightarrow> uuid \<Rightarrow> decision_action \<Rightarrow> uuid option
     \<Rightarrow> http_request \<Rightarrow> catalog \<Rightarrow> (error_envelope + mutation_reply) \<times> catalog" where
  "decide_endpoint lib rules s details sha256 valid_body respond running now did rid action target rq c =
     mutation_endpoint lib rules (set_deployment s) details (\<lambda>key kind who. rolled_back c
       (decide_document sha256 valid_body respond running (qds_screening_collection_name (set_qdrant s)) now did rid action
         target key kind who c)) rq c"

definition retry_endpoint ::
  "boundary_lib \<Rightarrow> host_rules \<Rightarrow> app_settings \<Rightarrow> error_details \<Rightarrow> (string \<Rightarrow> string) \<Rightarrow> (string \<Rightarrow> bool)
     \<Rightarrow> (document \<Rightarrow> work_operation \<Rightarrow> response_body) \<Rightarrow> bool \<Rightarrow> timestamp \<Rightarrow> uuid
     \<Rightarrow> http_request \<Rightarrow> catalog \<Rightarrow> (error_envelope + mutation_reply) \<times> catalog" where
  "retry_endpoint lib rules s details sha256 valid_body respond running now did rq c =
     mutation_endpoint lib rules (set_deployment s) details (\<lambda>key kind who. rolled_back c
       (retry_document sha256 valid_body respond running now did key kind who c)) rq c"

definition delete_endpoint ::
  "boundary_lib \<Rightarrow> host_rules \<Rightarrow> app_settings \<Rightarrow> error_details \<Rightarrow> (string \<Rightarrow> string) \<Rightarrow> (string \<Rightarrow> bool)
     \<Rightarrow> (document \<Rightarrow> work_operation \<Rightarrow> response_body) \<Rightarrow> bool \<Rightarrow> timestamp \<Rightarrow> uuid
     \<Rightarrow> http_request \<Rightarrow> catalog \<Rightarrow> (error_envelope + mutation_reply) \<times> catalog" where
  "delete_endpoint lib rules s details sha256 valid_body respond running now did rq c =
     mutation_endpoint lib rules (set_deployment s) details (\<lambda>key kind who. rolled_back c
       (delete_document sha256 valid_body respond running (ds_collections (set_deployment s))
         (qds_screening_collection_name (set_qdrant s)) now did key kind who c)) rq c"

text \<open>An upload also changes the files below the storage root, which no rollback restores.\<close>

definition upload_endpoint ::
  "boundary_lib \<Rightarrow> host_rules \<Rightarrow> app_settings \<Rightarrow> error_details \<Rightarrow> stdlib \<Rightarrow> (string \<Rightarrow> bool)
     \<Rightarrow> (document \<Rightarrow> work_operation \<Rightarrow> response_body) \<Rightarrow> bool \<Rightarrow> (string \<Rightarrow> scan_result option) \<Rightarrow> timestamp
     \<Rightarrow> string option list \<Rightarrow> string \<Rightarrow> string option \<Rightarrow> string \<Rightarrow> http_request \<Rightarrow> catalog \<times> files
     \<Rightarrow> (error_envelope + mutation_reply) \<times> catalog \<times> files" where
  "upload_endpoint lib rules s details sl valid_body respond running scanner now upload filename content_type collection_key
       rq st =
     mutation_endpoint lib rules (set_deployment s) details (\<lambda>key kind who.
       let (result, fs1) = upload_document sl valid_body respond running (ds_collections (set_deployment s)) scanner
             (lim_max_upload_bytes (set_limits s)) (lim_upload_chunk_bytes (set_limits s)) now upload filename content_type
             collection_key key kind who (fst st) (snd st);
           (reply, c1) = rolled_back (fst st) result
       in (reply, (c1, fs1))) rq st"

text \<open>The two POST routes that change nothing need the CSRF token and no key.\<close>

definition csrf_endpoint ::
  "boundary_lib \<Rightarrow> host_rules \<Rightarrow> deployment_settings \<Rightarrow> (unit \<Rightarrow> boundary_error + 'r) \<Rightarrow> http_request \<Rightarrow> error_envelope + 'r" where
  "csrf_endpoint lib rules d answer rq =
     (case rbind (check_host lib rules rq) (\<lambda>_. rbind (require_csrf lib d rq) (\<lambda>_. answer ())) of
        Inl e \<Rightarrow> Inl (envelope_of lib rq e)
      | Inr r \<Rightarrow> Inr r)"

definition name_check_endpoint ::
  "boundary_lib \<Rightarrow> host_rules \<Rightarrow> app_settings \<Rightarrow> error_details \<Rightarrow> stdlib \<Rightarrow> similarity \<Rightarrow> string \<Rightarrow> string
     \<Rightarrow> http_request \<Rightarrow> catalog \<Rightarrow> error_envelope + string \<times> name_check_match list" where
  "name_check_endpoint lib rules s details sl sim collection_key filename rq c =
     csrf_endpoint lib rules (set_deployment s) (\<lambda>_.
       case name_check sl sim (ds_collections (set_deployment s)) collection_key filename c of
         Inl e \<Rightarrow> Inl (problem_of lib details e)
       | Inr r \<Rightarrow> Inr r) rq"

text \<open>The texts of search failures are an argument as well.\<close>

definition service_problem :: "boundary_lib \<Rightarrow> (service_error \<Rightarrow> string) \<Rightarrow> service_error \<Rightarrow> boundary_error" where
  "service_problem lib text_of e = problem_error lib (sve_status e) (sve_code e) (text_of e) (sve_status e = 503) None"

definition search_endpoint ::
  "boundary_lib \<Rightarrow> host_rules \<Rightarrow> app_settings \<Rightarrow> (service_error \<Rightarrow> string) \<Rightarrow> search_request \<Rightarrow> retrieval
     \<Rightarrow> http_request \<Rightarrow> catalog \<Rightarrow> error_envelope + search_response" where
  "search_endpoint lib rules s text_of request client rq c =
     csrf_endpoint lib rules (set_deployment s) (\<lambda>_.
       case search_documents c \<lparr>ss_collections = ds_collections (set_deployment s),
           ss_search_api_url = res_url (set_search s), ss_search_api_token = res_token (set_search s)\<rparr> request client of
         Inl e \<Rightarrow> Inl (service_problem lib text_of e)
       | Inr r \<Rightarrow> Inr r) rq"

text \<open>A read: an actor, then a document whose collection is configured and enabled, then its answer.\<close>

definition require_visible_document ::
  "collection_definition list \<Rightarrow> catalog \<Rightarrow> uuid \<Rightarrow> lifecycle_error + unit" where
  "require_visible_document definitions c did =
     (case get_document c did of
        None \<Rightarrow> Inl (LifecycleError ''document_not_found'' 404 False)
      | Some d \<Rightarrow>
          (case configured_collection definitions (doc_collection_key d) of
             Inl _ \<Rightarrow> Inl (LifecycleError ''document_not_found'' 404 False)
           | Inr _ \<Rightarrow> Inr ()))"

definition require_visible_operation ::
  "collection_definition list \<Rightarrow> catalog \<Rightarrow> uuid \<Rightarrow> lifecycle_error + unit" where
  "require_visible_operation definitions c oid =
     (case get_operation c oid of
        None \<Rightarrow> Inr ()
      | Some w \<Rightarrow> require_visible_document definitions c (op_document_id w))"

definition view_problem :: "boundary_lib \<Rightarrow> error_details \<Rightarrow> view_error \<Rightarrow> boundary_error" where
  "view_problem lib details e =
     (case e of
        Refused f \<Rightarrow> problem_of lib details (AdmissionFailure f)
      | Unserializable Unrepresentable \<Rightarrow> problem_of lib details SerializationError
      | Unserializable ContractViolation \<Rightarrow> Uncaught)"

text \<open>An answer comes with the CSRF token of the session.\<close>

definition read_endpoint ::
  "boundary_lib \<Rightarrow> host_rules \<Rightarrow> deployment_settings \<Rightarrow> error_details \<Rightarrow> (unit \<Rightarrow> view_error + 'r)
     \<Rightarrow> http_request \<Rightarrow> error_envelope + 'r \<times> string" where
  "read_endpoint lib rules d details view_of rq =
     (case rbind (check_host lib rules rq) (\<lambda>_. get_actor lib d rq) of
        Inl e \<Rightarrow> Inl (envelope_of lib rq e)
      | Inr _ \<Rightarrow>
          (case view_of () of
             Inl e \<Rightarrow> Inl (envelope_of lib rq (view_problem lib details e))
           | Inr r \<Rightarrow> Inr (r, csrf_token lib rq)))"

definition get_document_endpoint ::
  "boundary_lib \<Rightarrow> host_rules \<Rightarrow> deployment_settings \<Rightarrow> error_details \<Rightarrow> uuid \<Rightarrow> http_request \<Rightarrow> catalog
     \<Rightarrow> error_envelope + document_detail_response \<times> string" where
  "get_document_endpoint lib rules d details did rq c =
     read_endpoint lib rules d details (\<lambda>_. rbind (refusal (require_visible_document (ds_collections d) c did)) (\<lambda>_.
       document_view c did)) rq"

definition get_markdown_endpoint ::
  "boundary_lib \<Rightarrow> host_rules \<Rightarrow> deployment_settings \<Rightarrow> error_details \<Rightarrow> stdlib \<Rightarrow> uuid \<Rightarrow> http_request
     \<Rightarrow> catalog \<Rightarrow> error_envelope + markdown_response \<times> string" where
  "get_markdown_endpoint lib rules d details sl did rq c =
     read_endpoint lib rules d details (\<lambda>_. rbind (refusal (require_visible_document (ds_collections d) c did)) (\<lambda>_.
       markdown_view sl c did)) rq"

definition get_operation_endpoint ::
  "boundary_lib \<Rightarrow> host_rules \<Rightarrow> deployment_settings \<Rightarrow> error_details \<Rightarrow> uuid \<Rightarrow> timestamp \<Rightarrow> http_request
     \<Rightarrow> catalog \<Rightarrow> error_envelope + operation_detail_response \<times> string" where
  "get_operation_endpoint lib rules d details oid now rq c =
     read_endpoint lib rules d details (\<lambda>_. rbind (refusal (require_visible_operation (ds_collections d) c oid)) (\<lambda>_.
       operation_view c oid now)) rq"

definition get_source_endpoint ::
  "boundary_lib \<Rightarrow> host_rules \<Rightarrow> deployment_settings \<Rightarrow> error_details \<Rightarrow> uuid \<Rightarrow> http_request \<Rightarrow> catalog \<Rightarrow> files
     \<Rightarrow> error_envelope + (path \<times> string) \<times> string" where
  "get_source_endpoint lib rules d details did rq c fs =
     read_endpoint lib rules d details (\<lambda>_. rbind (refusal (require_visible_document (ds_collections d) c did)) (\<lambda>_.
       refusal (source_content did c fs))) rq"

definition list_chunks_endpoint ::
  "boundary_lib \<Rightarrow> host_rules \<Rightarrow> deployment_settings \<Rightarrow> error_details \<Rightarrow> stdlib \<Rightarrow> cursor_lib
     \<Rightarrow> (json \<Rightarrow> int option) \<Rightarrow> uuid \<Rightarrow> string option \<Rightarrow> int \<Rightarrow> http_request \<Rightarrow> catalog
     \<Rightarrow> error_envelope + (uuid \<times> chunk_response page_response) \<times> string" where
  "list_chunks_endpoint lib rules d details sl cl int_of did cursor limit rq c =
     read_endpoint lib rules d details (\<lambda>_. rbind (refusal (require_visible_document (ds_collections d) c did)) (\<lambda>_.
       chunks_view sl cl int_of c did cursor limit)) rq"

definition list_collections_endpoint ::
  "boundary_lib \<Rightarrow> host_rules \<Rightarrow> deployment_settings \<Rightarrow> error_details \<Rightarrow> cursor_lib \<Rightarrow> string option \<Rightarrow> int
     \<Rightarrow> http_request \<Rightarrow> catalog \<Rightarrow> error_envelope + collection_response page_response \<times> string" where
  "list_collections_endpoint lib rules d details cl cursor limit rq c =
     read_endpoint lib rules d details (\<lambda>_. collections_view cl (ds_collections d) c cursor limit) rq"

definition list_documents_endpoint ::
  "boundary_lib \<Rightarrow> host_rules \<Rightarrow> deployment_settings \<Rightarrow> error_details \<Rightarrow> cursor_lib \<Rightarrow> string
     \<Rightarrow> document_state option \<Rightarrow> string option \<Rightarrow> int \<Rightarrow> http_request \<Rightarrow> catalog
     \<Rightarrow> error_envelope + document_response page_response \<times> string" where
  "list_documents_endpoint lib rules d details cl key state cursor limit rq c =
     read_endpoint lib rules d details (\<lambda>_. documents_view cl (ds_collections d) c key state cursor limit) rq"

definition list_history_endpoint ::
  "boundary_lib \<Rightarrow> host_rules \<Rightarrow> deployment_settings \<Rightarrow> error_details \<Rightarrow> cursor_lib \<Rightarrow> string option
     \<Rightarrow> terminal_disposition option \<Rightarrow> string option \<Rightarrow> int \<Rightarrow> http_request \<Rightarrow> catalog
     \<Rightarrow> error_envelope + tombstone_response page_response \<times> string" where
  "list_history_endpoint lib rules d details cl key disposition cursor limit rq c =
     read_endpoint lib rules d details (\<lambda>_. history_view cl (ds_collections d) c key disposition cursor limit) rq"

text \<open>The answer about one collection says whether its fixed target has the schema.\<close>

record physical_target =
  pt_qdrant_collection_name :: string
  pt_schema_compatible :: bool
  pt_failure :: "sanitized_failure option"

definition qdrant_unavailable :: sanitized_failure where
  "qdrant_unavailable = \<lparr>fl_code = ''qdrant_unavailable'', fl_message = ''The fixed Qdrant target is unavailable.'',
     fl_retryable = True, fl_phase = None\<rparr>"

definition qdrant_incompatible :: sanitized_failure where
  "qdrant_incompatible = \<lparr>fl_code = ''qdrant_schema_incompatible'',
     fl_message = ''The fixed Qdrant target has an incompatible schema.'', fl_retryable = False, fl_phase = None\<rparr>"

definition collection_target ::
  "collection_definition list \<Rightarrow> 'q index_reader option \<Rightarrow> 'q \<Rightarrow> string \<Rightarrow> lifecycle_error + physical_target" where
  "collection_target definitions client q key =
     rbind (configured_collection definitions key) (\<lambda>d.
       let name = cd_qdrant_collection_name d in
       case client of
         None \<Rightarrow> Inr \<lparr>pt_qdrant_collection_name = name, pt_schema_compatible = False, pt_failure = Some qdrant_unavailable\<rparr>
       | Some ir \<Rightarrow>
           (case validate_collection_schema ir name q of
              Inr _ \<Rightarrow> Inr \<lparr>pt_qdrant_collection_name = name, pt_schema_compatible = True, pt_failure = None\<rparr>
            | Inl Schema \<Rightarrow>
                Inr \<lparr>pt_qdrant_collection_name = name, pt_schema_compatible = False, pt_failure = Some qdrant_incompatible\<rparr>
            | Inl _ \<Rightarrow>
                Inr \<lparr>pt_qdrant_collection_name = name, pt_schema_compatible = False, pt_failure = Some qdrant_unavailable\<rparr>))"

definition collection_view ::
  "catalog \<Rightarrow> collection_definition list \<Rightarrow> string \<Rightarrow> physical_target \<Rightarrow> view_error + collection_response \<times> physical_target" where
  "collection_view c definitions key target =
     rbind (refusal (get_collection c definitions key)) (\<lambda>(d, counts).
       if pt_qdrant_collection_name target \<noteq> cd_qdrant_collection_name d then Inl (Unserializable Unrepresentable)
       else rbind (represented (collection_summary d counts)) (\<lambda>summary. Inr (summary, target)))"

definition get_collection_endpoint ::
  "boundary_lib \<Rightarrow> host_rules \<Rightarrow> deployment_settings \<Rightarrow> error_details \<Rightarrow> 'q index_reader option \<Rightarrow> 'q \<Rightarrow> string
     \<Rightarrow> http_request \<Rightarrow> catalog \<Rightarrow> error_envelope + (collection_response \<times> physical_target) \<times> string" where
  "get_collection_endpoint lib rules d details client q key rq c =
     read_endpoint lib rules d details (\<lambda>_. rbind (refusal (collection_target (ds_collections d) client q key)) (\<lambda>target.
       collection_view c (ds_collections d) key target)) rq"

definition get_metrics_endpoint ::
  "boundary_lib \<Rightarrow> host_rules \<Rightarrow> deployment_settings \<Rightarrow> error_details \<Rightarrow> timestamp \<Rightarrow> http_request \<Rightarrow> catalog
     \<Rightarrow> error_envelope + operation_metrics \<times> string" where
  "get_metrics_endpoint lib rules d details now rq c =
     read_endpoint lib rules d details (\<lambda>_. represented (contract_of valid_metrics_response
       (operation_metrics c (ds_collections d) now))) rq"

text \<open>\<^verbatim>\<open>create_api_routers\<close>: the size limit of the upload route.\<close>

definition upload_body_limit :: "int \<Rightarrow> string + int" where
  "upload_body_limit n = (if n \<le> 0 then Inl ''upload_request_max_body_size must be positive'' else Inr n)"

section \<open>Properties\<close>

lemma known_codes:
  "list_all failure_code_pattern [''invalid_host_header'', ''untrusted-identity-source'', ''identity-required'',
     ''cross-origin-request'', ''csrf-check-failed'', ''invalid_idempotency_key'', ''internal_error'',
     ''request_validation_failed'', ''invalid_request'']"
  by code_simp

text \<open>Parsing a canonical UUID gives it back, and a fresh one is canonical.\<close>

definition uuid_reader_ok :: "boundary_lib \<Rightarrow> bool" where
  "uuid_reader_ok lib \<longleftrightarrow> (\<forall>v u. bl_uuid lib v = Some u \<longrightarrow> bl_uuid lib u = Some u)
     \<and> bl_uuid lib (bl_fresh_uuid lib) = Some (bl_fresh_uuid lib)"

lemma request_id_canonical: "uuid_reader_ok lib \<Longrightarrow> bl_uuid lib (ensure_request_id lib rq) = Some (ensure_request_id lib rq)"
  by (auto simp: uuid_reader_ok_def ensure_request_id_def Let_def split: option.split)

lemma problem_valid:
  "uuid_reader_ok lib \<Longrightarrow> failure_code_pattern code \<Longrightarrow> 1 \<le> length message \<Longrightarrow> length message \<le> 500
     \<Longrightarrow> optional (\<lambda>v. bl_uuid lib v = Some v) existing
     \<Longrightarrow> valid_envelope lib (envelope_of lib rq (Problem status code message retryable existing))"
  by (simp add: envelope_of_def valid_envelope_def bounded_length_def request_id_canonical)

lemma uncaught_valid: "uuid_reader_ok lib \<Longrightarrow> valid_envelope lib (envelope_of lib rq Uncaught)"
  using known_codes by (simp add: envelope_of_def valid_envelope_def bounded_length_def optional_def request_id_canonical)

lemma problem_error_valid:
  assumes "uuid_reader_ok lib"
  shows "valid_envelope lib (envelope_of lib rq (problem_error lib status code detail retryable existing))"
proof (cases "\<not> failure_code_pattern code \<or> py_join '' '' (py_split detail) = [] \<or> 500 < length (py_join '' '' (py_split detail))
    \<or> (\<exists>v. existing = Some v \<and> bl_uuid lib v = None)")
  case True
  then have "problem_error lib status code detail retryable existing = Uncaught"
    by (auto simp: problem_error_def Let_def)
  then show ?thesis
    by (simp add: uncaught_valid assms)
next
  case False
  let ?message = "py_join '' '' (py_split detail)"
  obtain existing' where e: "problem_error lib status code detail retryable existing = Problem status code ?message retryable existing'"
    and c: "optional (\<lambda>v. bl_uuid lib v = Some v) existing'"
  proof (cases existing)
    case None
    then show ?thesis
      using that [of None] False by (simp add: problem_error_def Let_def optional_def)
  next
    case (Some v)
    then obtain u where u: "bl_uuid lib v = Some u"
      using False by auto
    then have "bl_uuid lib u = Some u"
      using assms by (auto simp: uuid_reader_ok_def)
    then show ?thesis
      using that [of "Some u"] False Some u by (simp add: problem_error_def Let_def optional_def)
  qed
  have "1 \<le> length ?message"
    using False by (cases ?message) auto
  then show ?thesis
    unfolding e using False c by (intro problem_valid assms) auto
qed

lemma problem_of_valid: "uuid_reader_ok lib \<Longrightarrow> valid_envelope lib (envelope_of lib rq (problem_of lib details e))"
  unfolding problem_of_def
  by (simp add: problem_error_valid uncaught_valid split: admission_error.split lifecycle_error.split storage_error.split
      prod.split)

lemma check_host_valid: "uuid_reader_ok lib \<Longrightarrow> check_host lib rules rq = Inl e \<Longrightarrow> valid_envelope lib (envelope_of lib rq e)"
  using known_codes
  by (auto simp: check_host_def simp: optional_def intro!: problem_valid split: list.splits option.splits if_splits)

lemma get_actor_valid: "uuid_reader_ok lib \<Longrightarrow> get_actor lib d rq' = Inl e \<Longrightarrow> valid_envelope lib (envelope_of lib rq e)"
  using known_codes
  by (auto simp: get_actor_def Let_def simp: optional_def intro!: problem_valid split: if_splits)

lemma same_origin_valid: "uuid_reader_ok lib \<Longrightarrow> same_origin lib rq' = Inl e \<Longrightarrow> valid_envelope lib (envelope_of lib rq e)"
  by (auto simp: same_origin_def Let_def uncaught_valid split: option.splits if_splits)

lemma compare_digest_valid: "uuid_reader_ok lib \<Longrightarrow> compare_digest a b = Inl e \<Longrightarrow> valid_envelope lib (envelope_of lib rq e)"
  by (auto simp: compare_digest_def uncaught_valid split: if_splits)

lemma key_valid: "uuid_reader_ok lib \<Longrightarrow> require_idempotency_key rq' = Inl e \<Longrightarrow> valid_envelope lib (envelope_of lib rq e)"
  using known_codes
  by (auto simp: require_idempotency_key_def Let_def simp: optional_def intro!: problem_valid split: if_splits)

lemma csrf_problems_valid:
  "uuid_reader_ok lib \<Longrightarrow> valid_envelope lib (envelope_of lib rq (Problem 403 ''cross-origin-request''
     ''Mutating browser requests must originate from PDF Bridge.'' False None))"
  "uuid_reader_ok lib \<Longrightarrow> valid_envelope lib (envelope_of lib rq (Problem 403 ''csrf-check-failed'' ''Refresh the page and retry the action.'' False None))"
  using known_codes by (simp_all add: problem_valid optional_def)

lemma require_csrf_valid:
  assumes "uuid_reader_ok lib" and "require_csrf lib d rq' = Inl e"
  shows "valid_envelope lib (envelope_of lib rq e)"
  using assms unfolding require_csrf_def Let_def rbind_eq_Inl
  by (elim disjE exE conjE)
    (simp_all add: same_origin_valid csrf_problems_valid rbind_eq_Inl split: if_splits,
      (auto simp: csrf_problems_valid intro: compare_digest_valid get_actor_valid)+)

lemma guard_valid:
  assumes "uuid_reader_ok lib" and "mutation_guard lib rules d rq = Inl e"
  shows "valid_envelope lib (envelope_of lib rq e)"
  using assms unfolding mutation_guard_def rbind_eq_Inl
  by (elim disjE exE conjE) (simp_all add: check_host_valid require_csrf_valid key_valid)

text \<open>What a mutation may rely on: host, origin, token, key and identity of the request.\<close>

definition names_host :: "string \<Rightarrow> string \<Rightarrow> bool" where
  "names_host allowed hostname \<longleftrightarrow>
     (let normalized = casefold allowed
      in (take 2 normalized = ''*.'' \<and> ends_with (CHR ''.'' # drop 2 normalized) hostname)
         \<or> hostname = normalized \<or> (normalized = CHR ''['' # hostname @ '']''))"

definition same_authority :: "boundary_lib \<Rightarrow> http_request \<Rightarrow> bool" where
  "same_authority lib rq \<longleftrightarrow> header_or_empty ''origin'' rq = []
     \<or> (\<exists>u. bl_urlsplit lib (header_or_empty ''origin'' rq) = Some u \<and> up_scheme u \<in> {''http'', ''https''}
          \<and> casefold (up_netloc u) = casefold (header_or_empty ''host'' rq))"

definition from_trusted_proxy :: "boundary_lib \<Rightarrow> deployment_settings \<Rightarrow> http_request \<Rightarrow> bool" where
  "from_trusted_proxy lib d rq \<longleftrightarrow>
     (\<exists>h. rq_client_host rq = Some h \<and> bl_is_address lib h \<and> (\<exists>cidr\<in>set (ds_trusted_proxy_cidrs d). bl_in_network lib h cidr))"

definition authorized ::
  "boundary_lib \<Rightarrow> deployment_settings \<Rightarrow> http_request \<Rightarrow> string \<Rightarrow> string \<Rightarrow> string \<Rightarrow> bool" where
  "authorized lib d rq key kind who \<longleftrightarrow>
     header_or_empty ''x-csrf-token'' rq = csrf_token lib rq \<and> csrf_token lib rq \<noteq> [] \<and> same_authority lib rq
     \<and> key = header_or_empty ''idempotency-key'' rq \<and> bounded_length 8 128 key
     \<and> list_all (\<lambda>c. 33 \<le> char_code c \<and> char_code c \<le> 126) key \<and> bounded_length 1 200 who
     \<and> (ds_auth_mode d = TRUSTED_HEADER \<longrightarrow> from_trusted_proxy lib d rq \<and> kind = ''trusted-header''
          \<and> who = py_strip (header_or_empty (casefold (ds_trusted_identity_header d)) rq) \<and> \<not> has_control who)"

lemma bracketed_form: "take 1 n = ''['' \<and> ends_with '']'' n \<Longrightarrow> n = CHR ''['' # butlast (drop 1 n) @ '']''"
proof (cases n)
  case (Cons c cs)
  assume a: "take 1 n = ''['' \<and> ends_with '']'' n"
  then have c: "c = CHR ''[''" and e: "drop (length cs) (c # cs) = '']''"
    using Cons by (auto simp: ends_with_def)
  show ?thesis
  proof (cases cs rule: rev_cases)
    case Nil
    then show ?thesis
      using c e by simp
  next
    case (snoc ds x)
    then have "drop (length cs) (c # cs) = [x]"
      by simp
    then show ?thesis
      using Cons c e snoc by simp
  qed
qed simp

lemma host_rules_fromD:
  assumes "host_rules_from lib hosts rules = Inr rules'"
  shows "hr_any rules' = hr_any rules
    \<and> (\<forall>h\<in>hr_exact rules'. h \<in> hr_exact rules \<or> (\<exists>a\<in>set hosts. names_host a h))
    \<and> (\<forall>x\<in>set (hr_suffixes rules'). x \<in> set (hr_suffixes rules)
         \<or> (\<exists>a\<in>set hosts. take 2 (casefold a) = ''*.'' \<and> x = drop 2 (casefold a)))"
  using assms
proof (induction lib hosts rules rule: host_rules_from.induct)
  case (1 lib rules)
  then show ?case
    by simp
next
  case (2 lib allowed rest rules)
  let ?n = "casefold allowed"
  let ?bare = "if take 1 ?n = ''['' \<and> ends_with '']'' ?n then butlast (drop 1 ?n) else ?n"
  consider (any) "?n = ''*''" | (suffix) "?n \<noteq> ''*''" "take 2 ?n = ''*.'' \<and> length (filter (\<lambda>c. c = CHR ''*'') ?n) = 1"
    | (exact) "?n \<noteq> ''*''" "\<not> (take 2 ?n = ''*.'' \<and> length (filter (\<lambda>c. c = CHR ''*'') ?n) = 1)"
    by blast
  then show ?case
  proof cases
    case any
    then show ?thesis
      using 2 by auto
  next
    case suffix
    then have "host_rules_from lib rest (rules\<lparr>hr_suffixes := hr_suffixes rules @ [drop 2 ?n]\<rparr>) = Inr rules'"
      and "valid_hostname lib (drop 2 ?n)"
      using "2.prems" by (auto simp: Let_def split: if_splits)
    note "2.IH"(2) [OF refl suffix(1) suffix(2) _ this(1)]
    then show ?thesis
      using suffix \<open>valid_hostname lib (drop 2 ?n)\<close> by auto
  next
    case exact
    then have r: "host_rules_from lib rest (rules\<lparr>hr_exact := insert ?bare (hr_exact rules)\<rparr>) = Inr rules'"
      and v: "valid_hostname lib ?bare" and n: "CHR ''*'' \<notin> set ?n"
      using "2.prems" unfolding host_rules_from.simps Let_def by (auto split: if_splits)
    have "names_host allowed ?bare"
    proof (cases "take 1 ?n = ''['' \<and> ends_with '']'' ?n")
      case True
      then show ?thesis
        using bracketed_form [of ?n] by (simp add: names_host_def Let_def)
    next
      case False
      then show ?thesis
        by (simp only: if_False names_host_def Let_def simp_thms)
    qed
    moreover note "2.IH"(3) [OF refl exact(1) exact(2) n refl _ r]
    ultimately show ?thesis
      using v by auto
  qed
qed

lemma host_allowedD:
  assumes "trusted_hosts lib hosts = Inr rules" and "host_allowed rules h" and "''*'' \<notin> set hosts"
  shows "\<exists>a\<in>set hosts. names_host a h"
proof -
  have rules: "host_rules_from lib hosts \<lparr>hr_any = ''*'' \<in> set hosts, hr_exact = {}, hr_suffixes = []\<rparr> = Inr rules"
    using assms(1) by (simp add: trusted_hosts_def split: if_splits)
  note r = host_rules_fromD [OF rules]
  from assms(2,3) r consider "h \<in> hr_exact rules" | x where "x \<in> set (hr_suffixes rules)" "ends_with (CHR ''.'' # x) h"
    by (auto simp: host_allowed_def list_ex_iff)
  then show ?thesis
  proof cases
    case 1
    then show ?thesis
      using r by auto
  next
    case 2
    then obtain a where "a \<in> set hosts" "take 2 (casefold a) = ''*.''" "x = drop 2 (casefold a)"
      using r by auto
    then show ?thesis
      using 2(2) by (auto simp: names_host_def Let_def)
  qed
qed

lemma get_actorD:
  assumes "get_actor lib d rq = Inr a"
  shows "bounded_length 1 200 (ac_identifier a)
    \<and> (ds_auth_mode d = TRUSTED_HEADER \<longrightarrow> from_trusted_proxy lib d rq \<and> ac_kind a = ''trusted-header''
        \<and> ac_identifier a = py_strip (header_or_empty (casefold (ds_trusted_identity_header d)) rq)
        \<and> \<not> has_control (ac_identifier a))"
proof (cases "ds_auth_mode d")
  case ANONYMOUS_POC
  then show ?thesis
    using assms by (auto simp: get_actor_def Let_def bounded_length_def)
next
  case TRUSTED_HEADER
  let ?v = "py_strip (header_or_empty (casefold (ds_trusted_identity_header d)) rq)"
  have p: "proxy_is_trusted lib (rq_client_host rq) (ds_trusted_proxy_cidrs d)"
    and v: "?v \<noteq> []" "\<not> 200 < length ?v" "\<not> has_control ?v" "a = \<lparr>ac_identifier = ?v, ac_kind = ''trusted-header''\<rparr>"
    using assms TRUSTED_HEADER unfolding get_actor_def Let_def by (auto split: if_splits)
  have "1 \<le> length ?v"
    using v(1) by (cases ?v) auto
  moreover have "from_trusted_proxy lib d rq"
    using p by (auto simp: proxy_is_trusted_def from_trusted_proxy_def list_ex_iff split: option.splits)
  ultimately show ?thesis
    using v(2-4) TRUSTED_HEADER by (simp add: bounded_length_def)
qed

lemma session_keeps:
  "header_or_empty n (ensure_browser_session lib rq) = header_or_empty n rq"
  "from_trusted_proxy lib' d (ensure_browser_session lib rq) = from_trusted_proxy lib' d rq"
  by (simp_all add: ensure_browser_session_def from_trusted_proxy_def header_or_empty_def header_values_def)

lemma get_actor_session: "get_actor lib d (ensure_browser_session lib rq) = Inr a \<Longrightarrow>
  bounded_length 1 200 (ac_identifier a)
    \<and> (ds_auth_mode d = TRUSTED_HEADER \<longrightarrow> from_trusted_proxy lib d rq \<and> ac_kind a = ''trusted-header''
        \<and> ac_identifier a = py_strip (header_or_empty (casefold (ds_trusted_identity_header d)) rq)
        \<and> \<not> has_control (ac_identifier a))"
  using get_actorD [of lib d "ensure_browser_session lib rq" a] unfolding session_keeps .

lemma require_csrfD:
  assumes "require_csrf lib d rq = Inr a"
  shows "same_authority lib rq" and "header_or_empty ''x-csrf-token'' rq = csrf_token lib rq" and "csrf_token lib rq \<noteq> []"
    and "get_actor lib d (ensure_browser_session lib rq) = Inr a"
proof -
  let ?t = "header_or_empty ''x-csrf-token'' rq"
  have so: "same_origin lib rq = Inr True"
    using assms by (auto simp: require_csrf_def rbind_eq_Inr split: if_splits)
  have t: "?t \<noteq> []" "compare_digest ?t (csrf_token lib rq) = Inr True"
    and a: "get_actor lib d (ensure_browser_session lib rq) = Inr a"
    using assms unfolding require_csrf_def Let_def rbind_eq_Inr
    by (auto simp: rbind_eq_Inr split: if_splits)
  show "same_authority lib rq"
    using so by (auto simp: same_origin_def same_authority_def Let_def split: option.splits if_splits)
  show "?t = csrf_token lib rq"
    using t(2) by (simp add: compare_digest_def split: if_splits)
  then show "csrf_token lib rq \<noteq> []"
    using t(1) by simp
  show "get_actor lib d (ensure_browser_session lib rq) = Inr a"
    by (rule a)
qed

lemma require_idempotency_keyD:
  assumes "require_idempotency_key rq = Inr key"
  shows "key = header_or_empty ''idempotency-key'' rq \<and> bounded_length 8 128 key
    \<and> list_all (\<lambda>c. 33 \<le> char_code c \<and> char_code c \<le> 126) key"
  using assms
  by (auto simp: require_idempotency_key_def Let_def bounded_length_def list_all_iff list_ex_iff not_less split: if_splits)

lemma guardD:
  assumes "mutation_guard lib rules d rq = Inr (a, key)"
  shows "authorized lib d rq key (ac_kind a) (ac_identifier a)"
    and "\<exists>v h. header_values ''host'' rq = [v] \<and> hostname_from_header lib v = Some h \<and> host_allowed rules h"
proof -
  have csrf: "require_csrf lib d rq = Inr a" and k: "require_idempotency_key rq = Inr key" and h: "check_host lib rules rq = Inr ()"
    using assms unfolding mutation_guard_def by (auto simp: rbind_eq_Inr)
  show "authorized lib d rq key (ac_kind a) (ac_identifier a)"
    unfolding authorized_def
    using require_csrfD [OF csrf] get_actor_session [OF require_csrfD(4) [OF csrf]] require_idempotency_keyD [OF k] by blast
  show "\<exists>v h. header_values ''host'' rq = [v] \<and> hostname_from_header lib v = Some h \<and> host_allowed rules h"
    using h by (auto simp: check_host_def split: list.splits option.splits if_splits)
qed

text \<open>C37. A change is authorized.  With accepted settings and the Host rules built from them, the decision, retry, deletion
  and upload handlers reach their manager only for an authorized request, and a request that does not leaves the state as
  it is.  An authorized request carries exactly one Host header, the CSRF token of its session, no foreign origin, an
  idempotency key of 8 to 128 visible ASCII characters and a bounded identity.  Its host is a configured one unless all
  hosts are allowed, which only development settings may say; in enterprise deployments the peer is a configured proxy
  and the identity is the one it supplies.  Every refusal and every failure of the manager is an envelope that satisfies
  the contract, whichever duplicate it names.\<close>

theorem mutation_is_authorized:
  assumes "validate_settings ce raw = Inr s" and "uuid_reader_ok lib"
    and "trusted_hosts lib (ds_allowed_hosts (set_deployment s)) = Inr rules"
    and "mutation_endpoint lib rules (set_deployment s) details manager rq st = (outcome, st')"
  shows "(case outcome of Inl e \<Rightarrow> valid_envelope lib e | Inr r \<Rightarrow> True)
    \<and> ((isl outcome \<and> st' = st)
      \<or> (\<exists>key kind who v hostname result. manager key kind who = (result, st')
           \<and> (case outcome of Inl e \<Rightarrow> isl result | Inr r \<Rightarrow> result = Inr r)
           \<and> authorized lib (set_deployment s) rq key kind who
           \<and> header_values ''host'' rq = [v] \<and> hostname_from_header lib v = Some hostname
           \<and> (''*'' \<notin> set (ds_allowed_hosts (set_deployment s))
               \<longrightarrow> (\<exists>allowed\<in>set (ds_allowed_hosts (set_deployment s)). names_host allowed hostname))
           \<and> (ds_app_env (set_deployment s) \<noteq> ENV_DEVELOPMENT \<longrightarrow> ''*'' \<notin> set (ds_allowed_hosts (set_deployment s)))
           \<and> (ds_app_env (set_deployment s) = ENV_ENTERPRISE
               \<longrightarrow> kind = ''trusted-header'' \<and> from_trusted_proxy lib (set_deployment s) rq)))"
proof (cases "mutation_guard lib rules (set_deployment s) rq")
  case (Inl e)
  then show ?thesis
    using assms(4) guard_valid [OF assms(2) Inl] by (auto simp: mutation_endpoint_def)
next
  case (Inr p)
  then obtain a key where g: "mutation_guard lib rules (set_deployment s) rq = Inr (a, key)"
    by (cases p) auto
  obtain result st1 where m: "manager key (ac_kind a) (ac_identifier a) = (result, st1)"
    by fastforce
  have st1: "st' = st1" and out: "case outcome of Inl e \<Rightarrow> isl result \<and> valid_envelope lib e | Inr r \<Rightarrow> result = Inr r"
    using assms(4) g m problem_of_valid [OF assms(2)]
    by (auto simp: mutation_endpoint_def split: sum.splits)
  obtain v h where h: "header_values ''host'' rq = [v]" "hostname_from_header lib v = Some h" "host_allowed rules h"
    using guardD(2) [OF g] by blast
  have secure: "ds_app_env (set_deployment s) \<noteq> ENV_DEVELOPMENT \<longrightarrow> ''*'' \<notin> set (ds_allowed_hosts (set_deployment s))"
    "ds_app_env (set_deployment s) = ENV_ENTERPRISE \<longrightarrow> ds_auth_mode (set_deployment s) = TRUSTED_HEADER"
    using accepted_security [OF assms(1)] by blast+
  have named: "''*'' \<notin> set (ds_allowed_hosts (set_deployment s))
      \<longrightarrow> (\<exists>allowed\<in>set (ds_allowed_hosts (set_deployment s)). names_host allowed h)"
    using host_allowedD [OF assms(3) h(3)] by blast
  have proxied: "ds_app_env (set_deployment s) = ENV_ENTERPRISE
      \<longrightarrow> ac_kind a = ''trusted-header'' \<and> from_trusted_proxy lib (set_deployment s) rq"
    using guardD(1) [OF g] secure(2) by (simp add: authorized_def)
  have "case outcome of Inl e \<Rightarrow> valid_envelope lib e | Inr r \<Rightarrow> True" "case outcome of Inl e \<Rightarrow> isl result | Inr r \<Rightarrow> result = Inr r"
    using out by (simp_all split: sum.splits)
  then show ?thesis
    using m guardD(1) [OF g] h(1,2) named secure(1) proxied unfolding st1
    by (intro conjI disjI2 exI [of _ key] exI [of _ "ac_kind a"] exI [of _ "ac_identifier a"] exI [of _ v] exI [of _ h]
        exI [of _ result])
qed

section \<open>Witnesses\<close>

text \<open>A request through the proxy of the enterprise deployment.\<close>

definition plant_boundary :: boundary_lib where
  "plant_boundary = \<lparr>bl_split_host = (\<lambda>v. Some \<lparr>up_scheme = [], up_netloc = v, up_hostname = Some v, up_username = None,
       up_password = None, up_port = Some None, up_path = [], up_query = [], up_fragment = []\<rparr>),
     bl_urlsplit = (\<lambda>_. None), bl_is_address = (\<lambda>h. h = ''10.0.0.7''), bl_in_network = (\<lambda>_ cidr. cidr = ''10.0.0.0/8''),
     bl_uuid = (\<lambda>v. if v = ''id'' then Some v else None), bl_fresh_uuid = ''id'', bl_fresh_session_id = ''session'', bl_fresh_csrf_token = ''fresh''\<rparr>"

definition plant_request :: http_request where
  "plant_request = \<lparr>rq_headers = [(''host'', ''bridge''), (''x-csrf-token'', ''token''), (''idempotency-key'', ''key-00001''),
       (''x-user'', ''ada'')], rq_client_host = Some ''10.0.0.7'', rq_session = [(''session_id'', ''s''), (''csrf_token'', ''token'')],
     rq_state_request_id = None, rq_path = ''/api/v2''\<rparr>"

definition plant_rules :: host_rules where
  "plant_rules = \<lparr>hr_any = False, hr_exact = {''bridge''}, hr_suffixes = []\<rparr>"

lemma plant_rules_built: "trusted_hosts plant_boundary [''bridge''] = Inr plant_rules"
  by code_simp

lemma plant_guard:
  "mutation_guard plant_boundary plant_rules plant_deployment plant_request
     = Inr (\<lparr>ac_identifier = ''ada'', ac_kind = ''trusted-header''\<rparr>, ''key-00001'')"
  by code_simp

theorem mutation_is_authorized_witness:
  "mutation_endpoint plant_boundary plant_rules plant_deployment (\<lambda>_. (''failed'', None))
     (\<lambda>key kind who. (Inr (key, kind, who), True)) plant_request False = (Inr (''key-00001'', ''trusted-header'', ''ada''), True)
   \<and> from_trusted_proxy plant_boundary plant_deployment plant_request"
proof -
  have e: "mutation_endpoint plant_boundary plant_rules (set_deployment plant_settings) (\<lambda>_. (''failed'', None))
      (\<lambda>key kind who. (Inr (key, kind, who), True)) plant_request False = (Inr (''key-00001'', ''trusted-header'', ''ada''), True)"
    using plant_guard by (simp add: mutation_endpoint_def plant_settings_def)
  have hosts: "trusted_hosts plant_boundary (ds_allowed_hosts (set_deployment plant_settings)) = Inr plant_rules"
    using plant_rules_built by (simp add: plant_settings_def plant_deployment_def)
  have "uuid_reader_ok plant_boundary"
    by (simp add: uuid_reader_ok_def plant_boundary_def)
  note authorization = mutation_is_authorized [OF plant_accepted this hosts e]
  have "set_deployment plant_settings = plant_deployment" "ds_app_env plant_deployment = ENV_ENTERPRISE"
    by (simp_all add: plant_settings_def plant_deployment_def)
  then show ?thesis
    using authorization e by auto
qed

end
