(* ===== verification/Spec2Isabelle.thy ===== *)
theory Spec2Isabelle
  imports Scenario Requests Leases Chunking_Correct Candidates_Correct Filenames Pagination Preparation_Scenario
    Advisory_Correct Preflight_Workflow Replacement_Scenario Responses Search Reingestion Boundary
begin

text \<open>
  \<^bold>\<open>PDF Bridge.\<close>  The bridge admits PDF documents, prepares them (extraction, Markdown formatting,
  chunking, embedding), screens them against what is already published, asks a language model for an
  advisory opinion on the matches, and publishes, holds for review, replaces or deletes them.  A SQLite
  catalog is the durable state, Qdrant holds the vectors in an active and a screening collection, and the
  files live below a storage root.  Requests and worker threads meet only in catalog transactions.

  \<^bold>\<open>Parts and theories.\<close>  Paths are below \<^verbatim>\<open>src/pdf_bridge\<close>.

  \<^item> \<open>Prelude\<close>, \<open>Json\<close>, \<open>Text\<close>: the error monad (a raise is \<open>Inl\<close>), the state monad with errors in which the
    workflows run, list-backed tables, JSON values with the canonical \<^verbatim>\<open>json.dumps\<close>, and Python's string
    operations.
  \<^item> \<open>Catalog\<close> (\<^verbatim>\<open>persistence/models.py\<close>): enumerations, a record per table, CHECK and unique constraints, the
    immutability listeners.  The locales \<open>updatable_table\<close> and \<open>inserting_table\<close> state the table laws and are
    interpreted on every table.
  \<^item> \<open>Intake\<close> (\<^verbatim>\<open>services/intake.py\<close>): idempotency, queueing, decisions, retries, deletion requests, tombstones;
    \<open>Admission\<close> (\<^verbatim>\<open>services/document.py\<close>, \<^verbatim>\<open>managers/document.py\<close>): uploads with the scan gate and its
    compensation, and the idempotent mutations, whose common contract is the locale \<open>reserved_mutation\<close> of
    \<open>Requests\<close>.
  \<^item> \<open>Worker\<close>, \<open>World\<close>, \<open>Deletion\<close>, \<open>Publication\<close>, \<open>Preflight\<close>, \<open>Advisory\<close>, \<open>Preflight_Run\<close>
    (\<^verbatim>\<open>managers/worker.py\<close>): leases and claims, then the three workflows of a claimed operation over the catalog,
    the index, the files and the clock, and the handling of their failures.
  \<^item> \<open>Storage\<close> (\<^verbatim>\<open>services/storage.py\<close>) and \<open>Vector_Index\<close>, \<open>Screening\<close> (\<^verbatim>\<open>services/vector_index.py\<close>): files, points,
    payloads, exact verification, candidate queries.
  \<^item> \<open>Text_Extraction\<close> (\<^verbatim>\<open>services/extraction.py\<close>), \<open>Markdown_Text\<close> and \<open>Formatter\<close>
    (\<^verbatim>\<open>services/markdown_formatter.py\<close>), \<open>Chunking\<close> (\<^verbatim>\<open>services/markdown_chunking.py\<close>), \<open>Candidates\<close>
    (\<^verbatim>\<open>services/candidates.py\<close>), \<open>Filenames\<close> (\<^verbatim>\<open>services/filenames.py\<close>), \<open>Classification\<close>
    (\<^verbatim>\<open>services/classification.py\<close>): the content services.
  \<^item> \<open>Preparation\<close>, \<open>Stages\<close>, \<open>Profiles\<close>, \<open>Evidence\<close>, \<open>Sealing\<close>, \<open>Content_Preparation\<close>
    (\<^verbatim>\<open>services/preparation.py\<close>, \<^verbatim>\<open>services/profiles.py\<close>): the stages a revision goes through and its seal.
  \<^item> \<open>Catalog_Reads\<close> (\<^verbatim>\<open>services/catalog.py\<close>, \<^verbatim>\<open>managers/catalog.py\<close>): cursors, listings, queue positions, metrics.
  \<^item> \<open>Contracts\<close> (\<^verbatim>\<open>contracts/schemas.py\<close>), \<open>Serializers\<close> (\<^verbatim>\<open>presentation/api_serializers.py\<close>): the response models
    with their validators, and the answers made from catalog rows.
  \<^item> \<open>Search\<close> (\<^verbatim>\<open>services/search.py\<close>, \<^verbatim>\<open>managers/search.py\<close>) and \<open>Reingestion\<close> (\<^verbatim>\<open>services/reingestion.py\<close>): the
    call of the retrieval service and the client that uploads a manifest of documents.
  \<^item> \<open>Access_Token\<close>, \<open>Configuration\<close> (\<^verbatim>\<open>core/config.py\<close>, \<^verbatim>\<open>providers_from_settings\<close>): the settings with every check of
    them, the claims of the Qdrant token, and the providers built from settings; \<open>Local_Models\<close>
    (\<^verbatim>\<open>services/local_embeddings.py\<close>): the checks made when the embedding models are loaded, with the attestation of
    the sparse model's assets.
  \<^item> \<open>Boundary\<close> (\<^verbatim>\<open>http/*.py\<close>, \<^verbatim>\<open>controllers/api.py\<close>): Host, origin, CSRF, identity and idempotency checks, the error
    envelope, and the handlers that compose them with the managers above.

  \<^bold>\<open>How state and operations are represented.\<close>  A SQLAlchemy row is a record, a table the list of its rows, a
  session the catalog that is passed along; a transaction is a function to an error or the new catalog, so a
  raise rolls back by construction.  A workflow is a function of the world (catalog, index, files, clock) that
  keeps the world it reached when it raises, because what was committed before stays.  Python's \<open>int\<close> is
  \<open>int\<close> or \<open>nat\<close>, a UUID its 128-bit number, a time a number of microseconds, a float an exact rational that is
  rounded to a double where the code computes.  Loops are structural or well-founded recursion: the
  searches and slice loops terminate by measures proved with their definitions.  Fuel bounds only the two loops of the
  reingestion client that another machine or the clock ends: the pages it is sent and the rounds before its deadline;
  running out is the value \<open>None\<close>, and the rounds are shown to return when the clock passes the deadline in time.

  \<^bold>\<open>Parameters.\<close>  Code that is not in the repository is an argument: the Qdrant client, the HTTP client of the
  formatter, the classifier and the retrieval service with the replies it gives, the tokenizer, the embedding models with
  their libraries and assets on disk, the child process that reads a PDF, the language detector, the string similarity
  measures, SHA-256 and \<^verbatim>\<open>uuid5\<close>, the parser \<^verbatim>\<open>json.loads\<close>, Unicode normalisation and the supply of fresh UUIDs; for
  settings and requests also \<^verbatim>\<open>urlsplit\<close>, \<^verbatim>\<open>make_url\<close>, \<^verbatim>\<open>ipaddress\<close>, the filesystem, the session cookie and the routing
  and body parsing of the framework.  Where the formatter, the classifier and the loading of models catch only some of
  the exceptions that such code raises, the others are an answer of their own (\<open>DecoderRaised\<close>, \<open>ClientRaised\<close>).  What a
  theorem needs of these parameters is a hypothesis of the theorem; the scenarios instantiate each with a concrete
  function.

  \<^bold>\<open>What is shown.\<close>

  \<^item> Lifecycle (\<open>Lifecycle\<close>, \<open>Bindings\<close>, \<open>Invariants\<close>, \<open>Worker_Safety\<close>, \<open>Preflight_Safety\<close>, \<open>Reachability\<close>):
    \<open>lifecycle_ok\<close> is kept by every transaction, hence holds in every interleaving; a READY document is
    verified, a terminal one purged, and open work owns its document.
  \<^item> Workflows (\<open>Workflow_Safety\<close>, \<open>Deletion_Complete\<close>, \<open>Publication_Complete\<close>, \<open>Leases\<close>): wherever a workflow
    stops, the catalog is well formed and the failure recorded; a deletion that returns has removed points and
    files; a worker that lost its lease cannot move its operation on; claims follow the queue order and make progress.
  \<^item> Requests: repeated requests replay, a decision binds the sealed manifest.
  \<^item> Content (\<open>Chunking_Correct\<close>, \<open>Candidates_Correct\<close>, \<open>Formatter_Correct\<close>, \<open>Pages_Correct\<close>,
    \<open>Sealing_Correct\<close>, \<open>Advisory_Correct\<close>, \<open>Profiles\<close>, \<open>Filenames\<close>, \<open>Pagination\<close>): no text is lost and every
    limit holds; what a stage records passes the checks of the next; identifiers bind the pipeline; quotes in
    findings are literal; listings are complete.
  \<^item> Contract (\<open>Document_Contract\<close>): the documented lifecycle as an abstract machine of documents and bound
    replacements, and the proof that every transaction is a move of it; what the contract misses is proved too.
  \<^item> Answers (\<open>Responses\<close>, \<open>Search\<close>, \<open>Reingestion\<close>): advertised actions, documents that no answer can represent,
    search results that the catalog serves, uploads that a run makes once.
  \<^item> Deployment (\<open>Access_Token\<close>, \<open>Configuration\<close>, \<open>Boundary\<close>): what accepted settings and an accepted token guarantee,
    when they build the providers, and that no manager of a mutation is reached without authorization.
  \<^item> \<open>Preflight_Workflow\<close> composes the preflight with its failures, \<open>Formatter_Frame\<close> collects what formatting leaves alone.
  \<^item> \<open>Scenario\<close>, \<open>Preparation_Scenario\<close> and \<open>Replacement_Scenario\<close> run documents through their lives; the
    witnesses come from them.

  \<^bold>\<open>Not modelled.\<close>  The command line, logging, health probes, engine set-up, the assembly of the application with its
  OpenAPI description, and the Streamlit console configure, translate or print what the modelled parts return; the
  migrations repeat the schema of the models; of the embedding service, the runs of the models; the sources of settings
  (environment, dotenv files) and the directories made at start are input and output; worker slot threads, heartbeats
  and shutdown are scheduling around the modelled claims.  Answers for candidates, evidence, audit events and health are
  plain copies.  Message texts of lifecycle errors and the document that an exact duplicate names are dropped where the
  code compares only codes, statuses and retry flags; the handlers take them as an argument.
\<close>

section \<open>What holds in every reachable catalog\<close>

text \<open>C1. In every reachable catalog, whatever the interleaving of requests and workers, a READY
  document has a sealed revision with a manifest and a publication record of that revision that is
  verified: all expected points counted, payload and vector schema verified, screening copies
  verified gone, in the revision's own collection.\<close>

theorem ready_is_verified:
  assumes "reachable c" and "get_document c did = Some d" and "doc_state d = READY"
  shows "\<exists>p r. get_revision c (rev_id r) = Some r \<and> publication_of c (rev_id r) = Some p
    \<and> rev_document_id r = did \<and> rev_status r = REV_SEALED \<and> rev_manifest_sha256 r \<noteq> None
    \<and> pub_document_id p = did \<and> pub_status p = PUB_VERIFIED
    \<and> pub_active_collection p = rev_active_collection r
    \<and> rev_chunk_count r = Some (pub_expected_points p)
    \<and> pub_verified_points p = Some (pub_expected_points p)
    \<and> pub_payload_revision_verified p \<and> pub_vector_schema_verified p \<and> pub_screening_zero_verified p"
proof -
  have ok: "catalog_ok c" "publications_ok c"
    using reachable_lifecycle [OF assms(1)] by (simp_all add: lifecycle_ok_def)
  have did: "doc_id d = did"
    by (rule tget_Some_key [OF assms(2)])
  obtain p r where v: "verified_for c d p r"
    using catalog_ok_document [OF ok(1) assms(2)] assms(3) by (auto simp: document_ok_def ready_bound_def)
  have "get_revision c (rev_id r) = Some r"
    by (rule tget_mem) (use v ok in \<open>auto simp: verified_for_def catalog_ok_def\<close>)
  moreover have "publication_of c (pub_revision_id p) = Some p"
    by (rule tget_mem) (use v ok in \<open>auto simp: verified_for_def publications_ok_def\<close>)
  moreover have "publication_check p" "revision_check r"
    using v ok(1) by (auto simp: verified_for_def catalog_ok_def)
  ultimately show ?thesis
    using v did by (intro exI [of _ p] exI [of _ r]) (auto simp: verified_for_def publication_check_def revision_check_def)
qed

theorem ready_is_verified_witness:
  "\<exists>c d. reachable c \<and> get_document c 1 = Some d \<and> doc_state d = READY
    \<and> (\<exists>p. publication_of c 3 = Some p \<and> pub_verified_points p = Some 1)"
proof -
  have "map_option doc_state (get_document demo_ready 1) = Some READY" "map rev_id (revisions demo_ready) = [3]"
    by code_simp+
  moreover from this obtain d where d: "get_document demo_ready 1 = Some d" "doc_state d = READY"
    by auto
  moreover have "map_option pub_expected_points (publication_of demo_ready 3) = Some 1"
    by code_simp
  ultimately show ?thesis
    using ready_is_verified [OF demo_ready_reachable d] demo_ready_reachable tget_Some_mem
    by fastforce
qed

text \<open>C2. In every reachable catalog a terminal document (REJECTED, CANCELLED or DELETED) has no storage
  key, a tombstone of its disposition and a checkpoint with both exact zero proofs, the storage
  purge and the tombstone recorded.\<close>

theorem terminal_is_purged:
  assumes "reachable c" and "get_document c did = Some d" and "doc_state d \<in> set TERMINAL_DOCUMENT_STATES"
  shows "doc_storage_key d = None
    \<and> (\<exists>p t. deletion_of c did = Some p \<and> tombstone_of c did = Some t
        \<and> del_active_zero_at p \<noteq> None \<and> del_screening_zero_at p \<noteq> None
        \<and> del_storage_purged_at p \<noteq> None \<and> del_tombstoned_at p \<noteq> None
        \<and> tomb_disposition t = del_disposition p \<and> doc_state d = state_of_disposition (tomb_disposition t))"
proof -
  have "document_ok c d"
    by (rule catalog_ok_document [OF lifecycle_okD(1) [OF reachable_lifecycle [OF assms(1)]] assms(2)])
  moreover have "doc_id d = did"
    by (rule tget_Some_key [OF assms(2)])
  ultimately show ?thesis
    using assms(3)
    by (auto simp: document_ok_def document_check_def deletion_bound_def deletion_row_ok_def checkpoints_ordered_def
        terminal_disposition_matches_state_def TERMINAL_DOCUMENT_STATES_def split: option.splits)
qed

theorem terminal_is_purged_witness:
  "\<exists>c d t. reachable c \<and> get_document c 1 = Some d \<and> doc_state d = DELETED
    \<and> doc_storage_key d = None \<and> tombstone_of c 1 = Some t"
proof -
  have "map_option doc_state (get_document demo_deleted 1) = Some DELETED"
    by code_simp
  then obtain d where d: "get_document demo_deleted 1 = Some d" "doc_state d = DELETED"
    by auto
  then have "doc_state d \<in> set TERMINAL_DOCUMENT_STATES"
    by (simp add: TERMINAL_DOCUMENT_STATES_def)
  from terminal_is_purged [OF demo_deleted_reachable d(1) this] show ?thesis
    using demo_deleted_reachable d by blast
qed

text \<open>C3. In every reachable catalog an open operation (queued or running) owns its document: the
  document is in the working state of the operation's type, no second operation is open on it, and
  the document it replaces points back to it, is blocked for content and has no open operation of
  its own.\<close>

theorem work_owns_its_document:
  assumes "reachable c" and "w \<in> set (operations c)" and "is_open w"
  shows "(\<exists>d. get_document c (op_document_id w) = Some d \<and> doc_state d = working_state (op_type w))
    \<and> (\<forall>x\<in>set (operations c). is_open x \<and> op_document_id x = op_document_id w \<longrightarrow> x = w)
    \<and> (\<forall>t. op_replacement_target w = Some t \<longrightarrow>
        (\<exists>d. get_document c t = Some d \<and> doc_replaced_by d = Some (op_document_id w)
           \<and> doc_state d \<in> {DELETING, DELETE_FAILED, REJECTED, CANCELLED, DELETED})
        \<and> (\<forall>x\<in>set (operations c). op_document_id x = t \<longrightarrow> \<not> is_open x))"
proof -
  have ok: "queue_ok c" and b: "bindings (view c) (revs c) (operations c)"
    using reachable_lifecycle [OF assms(1)] by (simp_all add: lifecycle_ok_def)
  have single: "x = w" if "x \<in> set (operations c)" "is_open x" "op_document_id x = op_document_id w" for x
    using single_openD [OF b assms(2) that(1) assms(3) that(2)] that ok assms(2)
    by (auto simp: queue_ok_def distinct_map inj_on_def)
  have target: "\<exists>d. get_document c t = Some d \<and> doc_replaced_by d = Some (op_document_id w)
      \<and> doc_state d \<in> {DELETING, DELETE_FAILED, REJECTED, CANCELLED, DELETED}"
    if "op_replacement_target w = Some t" for t
  proof -
    have "replaced_with (view c t) (op_document_id w)" "replaced_blocked (view c)"
      using bindings_D [OF b assms(2)] that b by (simp_all add: op_bound_def bindings_def)
    then show ?thesis
      by (cases "get_document c t") (auto simp: replaced_with_def view_def replaced_blocked_def)
  qed
  show ?thesis
    using open_work_state [OF b assms(2,3)] single target replaced_has_no_work [OF b] by blast
qed

theorem work_owns_its_document_witness:
  "\<exists>c w. reachable c \<and> w \<in> set (operations c) \<and> is_open w
    \<and> (\<exists>d. get_document c (op_document_id w) = Some d \<and> doc_state d = PREFLIGHTING)"
proof -
  have "list_all (\<lambda>w. is_open w \<and> op_type w = PREFLIGHT) (operations demo_claimed)" "operations demo_claimed \<noteq> []"
    by code_simp+
  then obtain w where w: "w \<in> set (operations demo_claimed)" "is_open w" "op_type w = PREFLIGHT"
    by (cases "operations demo_claimed") auto
  then show ?thesis
    using work_owns_its_document [OF demo_claimed_reachable w(1,2)] demo_claimed_reachable by auto
qed

section \<open>Workflows\<close>

text \<open>A deletion workflow that returns has finished: the invariant holds, the document is in the
  terminal state of its disposition with its tombstone, its storage key is cleared and every
  checkpoint is recorded.\<close>

theorem deletion_run_completes:
  assumes "run_delete en oid did w = (Inr (), w')" and "lifecycle_ok (w_catalog w)"
    and "\<And>n. on_time (w_clock w n) (w_catalog w)"
  shows "lifecycle_ok (w_catalog w')
    \<and> (\<exists>d p t. get_document (w_catalog w') did = Some d \<and> deletion_of (w_catalog w') did = Some p
        \<and> tombstone_of (w_catalog w') did = Some t \<and> doc_storage_key d = None
        \<and> doc_state d = state_of_disposition (del_disposition p) \<and> tomb_disposition t = del_disposition p
        \<and> del_active_zero_at p \<noteq> None \<and> del_screening_zero_at p \<noteq> None \<and> del_storage_purged_at p \<noteq> None)"
proof -
  note r = run_deleteD [OF assms(1)]
  obtain d p where ok: "lifecycle_ok (w_catalog w')" and d: "get_document (w_catalog w') did = Some d"
    and p: "deletion_of (w_catalog w') did = Some p" "del_tombstoned_at p \<noteq> None"
    using deletion_complete [OF r(1) assms(2,3) r(2)] by blast
  have "document_ok (w_catalog w') d" "doc_id d = did"
    using catalog_ok_document [OF lifecycle_okD(1) [OF ok] d] tget_Some_key [OF d] by simp_all
  then show ?thesis
    using ok d p
    by (auto simp: document_ok_def document_check_def deletion_bound_def deletion_row_ok_def checkpoints_ordered_def
        terminal_disposition_matches_state_def TERMINAL_DOCUMENT_STATES_def split: option.splits)
qed

theorem deletion_run_completes_witness:
  "\<exists>w' d. run_delete demo_env 7 1 demo_deletion_world = (Inr (), w')
    \<and> get_document (w_catalog w') 1 = Some d \<and> doc_storage_key d = None"
  using demo_deletion_run deletion_run_completes [OF _ demo_deletion_ok] by blast

text \<open>C6. After a first deletion run that returns, both Qdrant collections report zero points of the
  document, its source object and every private artifact of its revisions are gone, and so is its
  artifact directory.  The client is any client whose deletions in one collection leave other
  collections alone.\<close>

theorem deletion_run_leaves_nothing:
  assumes run: "run_delete en oid did w = (Inr (), w')"
    and fresh: "deletion_of (w_catalog w) did = Some p" "del_active_zero_at p = None"
      "del_screening_zero_at p = None" "del_storage_purged_at p = None"
    and client: "en_qdrant en = Some client" "isolated_deletes client" and ok: "lifecycle_ok (w_catalog w)"
  shows "count_document_points client (del_active_collection p) did (w_index w') = Inr 0
    \<and> count_document_points client (del_screening_collection p) did (w_index w') = Inr 0
    \<and> (\<exists>d key q. get_document (w_catalog w) did = Some d \<and> doc_storage_key d = Some key
        \<and> resolve_storage_key key = Inr q \<and> map_of (w_files w') q = None)
    \<and> (\<forall>a\<in>set (artifacts (w_catalog w)). art_revision_id a \<in> set (revision_ids_of (w_catalog w) did)
        \<longrightarrow> (\<exists>q. resolve_storage_key (art_storage_key a) = Inr q \<and> map_of (w_files w') q = None))
    \<and> (\<exists>q. resolve_storage_key (''artifacts/'' @ uuid_str did) = Inr q
         \<and> map_of (w_files w') q = None \<and> \<not> dir_exists q (w_files w'))"
proof -
  have "did \<in> doc_id ` set (documents (w_catalog w))"
    using ok tget_Some_mem [OF fresh(1)] tget_Some_key [OF fresh(1)] by (auto simp: lifecycle_ok_def rows_owned_def)
  then obtain d where d: "d \<in> set (documents (w_catalog w))" "doc_id d = did"
    by auto
  then have "document_ok (w_catalog w) d"
    using lifecycle_okD(1) [OF ok] by (simp add: catalog_ok_def)
  then have "del_active_collection p \<noteq> del_screening_collection p"
    using fresh(1) d by (simp add: document_ok_def deletion_bound_def deletion_row_ok_def deletion_check_def)
  from deletion_leaves_nothing [OF run_deleteD(1) [OF run] fresh client this]
  show ?thesis
    by (auto simp: verify_document_zero_def rbind_eq_Inr split: if_splits)
qed

theorem deletion_run_leaves_nothing_witness:
  "\<exists>w'. run_delete demo_env 7 1 demo_deletion_world = (Inr (), w')
    \<and> count_document_points memory_index ''reports_v1'' 1 (w_index w') = Inr 0 \<and> map_of (w_files w')
      [''objects'', ''00'', ''00000000-0000-0000-0000-000000000001.pdf''] = None"
proof -
  obtain w' where run: "run_delete demo_env 7 1 demo_deletion_world = (Inr (), w')"
    using demo_deletion_run by blast
  have row: "map_option (\<lambda>p. (del_active_collection p, del_active_zero_at p, del_screening_zero_at p, del_storage_purged_at p))
      (deletion_of demo_deleting 1) = Some (''reports_v1'', None, None, None)"
    "map_option doc_storage_key (get_document demo_deleting 1)
      = Some (Some ''objects/00/00000000-0000-0000-0000-000000000001.pdf'')"
    "resolve_storage_key ''objects/00/00000000-0000-0000-0000-000000000001.pdf''
      = Inr [''objects'', ''00'', ''00000000-0000-0000-0000-000000000001.pdf'']"
    by code_simp+
  then obtain p where p: "deletion_of (w_catalog demo_deletion_world) 1 = Some p" "del_active_zero_at p = None"
    "del_screening_zero_at p = None" "del_storage_purged_at p = None" "del_active_collection p = ''reports_v1''"
    by (auto simp: demo_deletion_world_def)
  have "en_qdrant demo_env = Some memory_index"
    by (simp add: demo_env_def)
  from deletion_run_leaves_nothing [OF run p(1-4) this memory_index_isolated demo_deletion_ok(1)] row p(5) run
  show ?thesis
    by (auto simp: demo_deletion_world_def)
qed

text \<open>C4. Every committed transaction of a request or of a worker keeps the lifecycle invariant.\<close>

theorem step_keeps_lifecycle:
  assumes "step c c'" and "lifecycle_ok c"
  shows "lifecycle_ok c'"
  using assms by (rule step_lifecycle)

theorem step_keeps_lifecycle_witness: "lifecycle_ok demo_claimed"
proof -
  have "\<not> isl (claim_next demo_settings 20 20 20 idle_worker demo_admitted)"
    by code_simp
  from Inr_projr [OF this] have "step demo_admitted demo_claimed"
    unfolding demo_claimed_def by (metis prod.collapse step.claim)
  then show ?thesis
    by (rule step_keeps_lifecycle) (rule reachable_lifecycle [OF demo_admitted_reachable])
qed

text \<open>C7. Executing any claimed operation, a preflight, a publication or a deletion, keeps the lifecycle
  invariant and releases the claimed documents, also when the workflow raises at any point, whatever the index,
  the model servers and the files answer.\<close>

theorem execution_keeps_lifecycle:
  assumes "execute (run_preflight en sv) en claimed wk w = (outcome, wk', w')"
    and "lifecycle_ok (w_catalog w)" and "\<And>n. on_time (w_clock w n) (w_catalog w)"
    and "\<And>x. get_operation (w_catalog w) (cl_operation_id claimed) = Some x
      \<Longrightarrow> op_document_id x = cl_document_id claimed \<and> op_type x = cl_type claimed"
  shows "lifecycle_ok (w_catalog w') \<and> wk_busy wk' = wk_busy wk - set (cl_locked claimed)"
  by (rule execution_safe [OF assms(2-4,1)])

theorem execution_keeps_lifecycle_witness:
  "\<forall>sv. \<exists>outcome wk' w'. execute (run_preflight demo_env sv) demo_env demo_preflight_claim
      (idle_worker\<lparr>wk_busy := {1, 9}\<rparr>) demo_preflight_world = (outcome, wk', w')
    \<and> lifecycle_ok (w_catalog w') \<and> wk_busy wk' = {9}"
proof
  fix sv :: "memory_point list preflight_services"
  obtain outcome wk' w' where run: "execute (run_preflight demo_env sv) demo_env demo_preflight_claim
      (idle_worker\<lparr>wk_busy := {1, 9}\<rparr>) demo_preflight_world = (outcome, wk', w')"
    by (metis prod.exhaust)
  have "map_option (\<lambda>x. (op_document_id x, op_type x)) (get_operation demo_claimed 2) = Some (1, PREFLIGHT)"
    by code_simp
  then have "op_document_id x = cl_document_id demo_preflight_claim \<and> op_type x = cl_type demo_preflight_claim"
    if "get_operation (w_catalog demo_preflight_world) (cl_operation_id demo_preflight_claim) = Some x" for x
    using that by (simp add: demo_preflight_claim_def demo_preflight_world_def)
  from execution_keeps_lifecycle [OF run demo_preflight_ok this] run
  show "\<exists>outcome wk' w'. execute (run_preflight demo_env sv) demo_env demo_preflight_claim
      (idle_worker\<lparr>wk_busy := {1, 9}\<rparr>) demo_preflight_world = (outcome, wk', w')
    \<and> lifecycle_ok (w_catalog w') \<and> wk_busy wk' = {9}"
    by (auto simp: demo_preflight_claim_def idle_worker_def)
qed

section \<open>The queue\<close>

text \<open>C8. Lease fencing: once the lease of a running operation has expired and was recovered, no worker moves the
  operation on until it is claimed again.  The ten steps that re-read their operation (setting a phase, binding a
  revision, accepting a rejection, ending the preflight, marking points upserted, finishing the publication, the phase,
  the zero proofs, the purge and the commit of a deletion) raise, whoever the worker is, and so leave the catalog as it
  is; recording a failure does nothing.  The code has no such check on the entries of the outbox, the count of deletion
  attempts and the rows of a preparation: these still commit, but outbox entries and attempts touch neither the
  operation nor a document.\<close>

theorem recovered_lease_fences:
  assumes "get_operation c oid = Some w" and "lease_expired now w"
  defines "c' \<equiv> snd (recover_leases now c)"
  shows "(\<exists>e. set_phase wid oid phase t c' = Inl e)
    \<and> (\<exists>e. bind_revision wid oid rid c' = Inl e)
    \<and> (\<exists>e. accept_rejection_txn wid oid did reason active screening t c' = Inl e)
    \<and> (\<exists>e. finish_preflight wid oid sealed t c' = Inl e)
    \<and> (\<exists>e. mark_upserted wid oid rid c' = Inl e)
    \<and> (\<exists>e. finish_publication wid oid did rid n t c' = Inl e)
    \<and> (\<exists>e. set_deletion_phase wid oid did dphase t c' = Inl e)
    \<and> (\<exists>e. record_zero_verification wid oid did flag t c' = Inl e)
    \<and> (\<exists>e. commit_purge wid oid did key rs t c' = Inl e)
    \<and> (\<exists>e. commit_deletion wid oid did t c' = Inl e)
    \<and> fail_operation wid oid exc t c' = Inr c'
    \<and> (\<forall>i c1. begin_outbox did rid target action collection n c' = Inr (i, c1)
        \<longrightarrow> operations c1 = operations c' \<and> documents c1 = documents c')
    \<and> (\<forall>i c1. complete_outbox i t c' = Inr c1 \<longrightarrow> operations c1 = operations c' \<and> documents c1 = documents c')
    \<and> (\<forall>c1. count_deletion_attempt did c' = Inr c1 \<longrightarrow> operations c1 = operations c' \<and> documents c1 = documents c')"
proof -
  have lost: "owned_operation c' wid oid = None"
    unfolding c'_def by (rule recovered_not_owned [OF assms(1,2)])
  show ?thesis
    by (intro conjI phase_lease.refused [OF lost] bind_lease.refused [OF lost] reject_lease.refused [OF lost]
        preflight_lease.refused [OF lost] upsert_lease.refused [OF lost] publish_lease.refused [OF lost]
        deletion_phase_lease.refused [OF lost] zero_lease.refused [OF lost] purge_lease.refused [OF lost]
        commit_lease.refused [OF lost] recovered_not_failed [OF assms(1,2), folded c'_def] allI impI)
      (auto dest: unfenced_steps simp: count_deletion_attempt_def upd_deletion_def split: option.splits)
qed

text \<open>C9. A claim takes, among the queued operations whose documents are free, the one that is
  least in priority, then creation time, then identifier; it starts it under this worker's lease
  and reserves its document and replacement target, none of which was busy before.\<close>

theorem claim_next_least:
  assumes run: "claim_next st rt now nt wk c = Inr (Some claimed, wk', c')"
  shows "\<exists>w. claimable (snd (recover_leases rt c)) (wk_busy wk) w
      \<and> w \<in> set (operations (snd (recover_leases rt c)))
      \<and> cl_operation_id claimed = op_id w \<and> cl_document_id claimed = op_document_id w
      \<and> (\<forall>x\<in>set (operations (snd (recover_leases rt c))).
            claimable (snd (recover_leases rt c)) (wk_busy wk) x \<longrightarrow> claim_key w \<le> claim_key x)
      \<and> operations c' = tupd op_id (op_id w) (start_running st now (wk_id wk))
            (operations (snd (recover_leases rt c)))
      \<and> set (cl_locked claimed) = {op_document_id w} \<union> set_option (op_replacement_target w)
      \<and> set (cl_locked claimed) \<inter> wk_busy wk = {}
      \<and> wk_busy wk' = wk_busy wk \<union> set (cl_locked claimed)"
proof -
  let ?c = "snd (recover_leases rt c)"
  obtain w d where min: "min_by claim_key (filter (claimable ?c (wk_busy wk)) (operations ?c)) = Some w"
    and "get_document ?c (op_document_id w) = Some d"
    and cl: "claimed = \<lparr>cl_operation_id = op_id w, cl_document_id = op_document_id w,
        cl_collection_key = doc_collection_key d, cl_type = op_type w, cl_locked = locked_document_ids w\<rparr>"
    and wk': "wk' = wk\<lparr>wk_busy := wk_busy wk \<union> set (locked_document_ids w),
        wk_claim_times := (wk_claim_times wk)(op_id w \<mapsto> nt)\<rparr>"
    and c': "c' = upd_operation (op_id w) (start_running st now (wk_id wk)) ?c"
    using run by (auto simp: claim_next_def Let_def split: option.splits if_splits)
  have w: "w \<in> set (operations ?c)" "claimable ?c (wk_busy wk) w"
    using min_by_mem [OF min] by simp_all
  moreover have "\<forall>x\<in>set (operations ?c). claimable ?c (wk_busy wk) x \<longrightarrow> claim_key w \<le> claim_key x"
    using min_by_least [OF min] by simp
  ultimately show ?thesis
    using claimable_not_busy [OF w(2)] cl wk' c' locked_documents [of w]
    by (auto simp: operation_rows.rows_upd)
qed

text \<open>C10. A claim returns an operation whenever a queued operation exists
  whose document is known and whose documents are free.\<close>

theorem claim_next_progress:
  assumes "w \<in> set (operations c)" and "op_state w = OP_QUEUED"
    and "get_document c (op_document_id w) \<noteq> None"
    and "set (locked_document_ids w) \<inter> wk_busy wk = {}"
  shows "\<exists>claimed wk' c'. claim_next st rt now nt wk c = Inr (Some claimed, wk', c')"
proof -
  let ?c = "snd (recover_leases rt c)"
  have "\<not> lease_expired rt w"
    using assms(2) by (simp add: lease_expired_def)
  then have mem: "w \<in> set (operations ?c)"
    using assms(1) by (auto simp: recover_leases_def image_iff)
  moreover have "claimable ?c (wk_busy wk) w"
    using assms(2-4) by (auto simp: claimable_def locked_documents recover_leases_def split: option.splits)
  ultimately have "filter (claimable ?c (wk_busy wk)) (operations ?c) \<noteq> []"
    by (auto simp: filter_empty_conv)
  then obtain x where min: "min_by claim_key (filter (claimable ?c (wk_busy wk)) (operations ?c)) = Some x"
    by fastforce
  then have x: "claimable ?c (wk_busy wk) x"
    using min_by_mem by fastforce
  then obtain d where "get_document ?c (op_document_id x) = Some d"
    by (auto simp: claimable_def)
  then show ?thesis
    using min claimable_not_busy [OF x] by (simp add: claim_next_def Let_def)
qed

theorem claim_next_least_witness:
  "\<exists>claimed wk' c'. claim_next demo_settings 20 20 20 idle_worker demo_admitted = Inr (Some claimed, wk', c')
    \<and> cl_operation_id claimed = 2 \<and> wk_busy wk' = {1}"
proof -
  have "(case demo_claim_result of Inr (Some x, _, _) \<Rightarrow> (cl_operation_id x, cl_locked x) = (2, [1]) | _ \<Rightarrow> False)"
    by code_simp
  then obtain x wk' c' where run: "claim_next demo_settings 20 20 20 idle_worker demo_admitted = Inr (Some x, wk', c')"
    and "cl_operation_id x = 2" "cl_locked x = [1]"
    by (auto simp: demo_claim_result_def split: sum.splits option.splits)
  then show ?thesis
    using claim_next_least [OF run] by (auto simp: idle_worker_def)
qed

theorem claim_next_progress_witness:
  "\<exists>claimed wk' c'. claim_next demo_settings 20 20 20 idle_worker demo_admitted = Inr (Some claimed, wk', c')"
proof -
  have "list_all (\<lambda>w. op_state w = OP_QUEUED \<and> get_document demo_admitted (op_document_id w) \<noteq> None)
      (operations demo_admitted)" "operations demo_admitted \<noteq> []"
    by code_simp+
  then obtain w where "w \<in> set (operations demo_admitted)" "op_state w = OP_QUEUED"
    "get_document demo_admitted (op_document_id w) \<noteq> None"
    by (cases "operations demo_admitted") auto
  from claim_next_progress [OF this, of idle_worker] show ?thesis
    by (simp add: idle_worker_def)
qed

theorem recovered_lease_fences_witness:
  "\<exists>e. finish_publication ''w1'' 5 1 3 1 200 (snd (recover_leases 150 demo_upserted)) = Inl e"
proof -
  have "map_option (lease_expired 150) (get_operation demo_upserted 5) = Some True"
    by code_simp
  then obtain w where "get_operation demo_upserted 5 = Some w" "lease_expired 150 w"
    by auto
  from recovered_lease_fences [OF this, of "''w1''"] show ?thesis
    by blast
qed

text \<open>The position shown for a queued operation is its rank in the order in which claims are made:
  one plus the number of queued operations with a smaller claim key.  Positions are distinct, so the
  operation at position one is the one a claim takes unless its documents are busy.\<close>

theorem queue_position_rank:
  assumes "distinct (map op_id (operations c))" and "w \<in> set (operations c)" and "op_state w = OP_QUEUED"
  shows "queue_position c w = Some (1 + card {x \<in> set (operations c). op_state x = OP_QUEUED \<and> claim_key x < claim_key w})
    \<and> (\<forall>v\<in>set (operations c). op_state v = OP_QUEUED \<and> queue_position c v = queue_position c w \<longrightarrow> v = w)"
proof -
  have dist: "distinct (operations c)"
    using assms(1) by (simp add: distinct_map)
  have pos: "queue_position c v = Some (1 + card {x \<in> set (operations c). op_state x = OP_QUEUED \<and> claim_key x < claim_key v})"
    if "op_state v = OP_QUEUED" for v
  proof -
    have "{x \<in> set (operations c). op_state x = OP_QUEUED \<and> claim_key x < claim_key v}
        = set (filter (\<lambda>x. op_state x = op_state v \<and> (op_priority x < op_priority v
           \<or> (op_priority x = op_priority v \<and> (op_created_at x < op_created_at v
                 \<or> (op_created_at x = op_created_at v \<and> op_id x < op_id v))))) (operations c))"
      using that by (auto simp: claim_key_def less_prod_def' split: if_splits)
    then show ?thesis
      using dist that by (simp add: queue_position_def distinct_card del: set_filter)
  qed
  have "v = w" if v: "v \<in> set (operations c)" "op_state v = OP_QUEUED" "queue_position c v = queue_position c w" for v
  proof (rule ccontr)
    assume "v \<noteq> w"
    then have "op_id v \<noteq> op_id w"
      using assms(1,2) v(1) by (metis distinct_map inj_onD)
    then have "claim_key v \<noteq> claim_key w"
      by (simp add: claim_key_def)
    let ?S = "\<lambda>v. {x \<in> set (operations c). op_state x = OP_QUEUED \<and> claim_key x < claim_key v}"
    have strict: "card (?S a) < card (?S b)" if "a \<in> set (operations c)" "op_state a = OP_QUEUED" "claim_key a < claim_key b" for a b
      by (rule psubset_card_mono) (use that in auto)
    have "card (?S v) = card (?S w)"
      using v(3) pos [OF v(2)] pos [OF assms(3)] by simp
    then show False
      using strict [of v w] strict [of w v] v(1,2) assms(2,3) \<open>claim_key v \<noteq> claim_key w\<close>
      by (metis less_irrefl_nat linorder_neqE)
  qed
  then show ?thesis
    using pos [OF assms(3)] by blast
qed

theorem queue_position_rank_witness:
  "\<exists>w\<in>set (operations demo_admitted). queue_position demo_admitted w
     = Some (1 + card {x \<in> set (operations demo_admitted). op_state x = OP_QUEUED \<and> claim_key x < claim_key w})"
proof -
  have "map op_id (operations demo_admitted) = [2]" "list_all (\<lambda>w. op_state w = OP_QUEUED) (operations demo_admitted)"
    by code_simp+
  moreover from this obtain w where "operations demo_admitted = [w]" "op_state w = OP_QUEUED"
    by (cases "operations demo_admitted") auto
  ultimately show ?thesis
    using queue_position_rank [of demo_admitted w] by simp
qed

section \<open>Requests\<close>

text \<open>C11. An accepted deletion request can be repeated under its key without effect: the same request
  returns the recorded body and leaves the catalog alone, and a different request under the key is
  refused as a conflict.\<close>

theorem delete_request_idempotent:
  assumes first: "delete_document sha256 valid respond running definitions screening now did key aty aid c
      = Inr (Accepted body, c')" and "valid body"
  shows "delete_document sha256 valid respond' True definitions' screening' now' did key aty' aid c'
      = Inr (Replayed body, c')
    \<and> (canonical_request_sha256 sha256 ''delete_document'' (document_material did')
        \<noteq> canonical_request_sha256 sha256 ''delete_document'' (document_material did)
      \<longrightarrow> delete_document sha256 valid respond' True definitions' screening' now' did' key aty' aid c'
        = Inl (AdmissionFailure (conflict ''idempotency_conflict'')))"
proof
  note acc = delete_requests.accepted_answered [OF first [unfolded delete_document_def]]
  have running: running
    using acc by simp
  show "delete_document sha256 valid respond' True definitions' screening' now' did key aty' aid c' = Inr (Replayed body, c')"
    unfolding delete_document_def
    using delete_requests.replays [OF first [unfolded delete_document_def] _ assms(2)] running by simp
  show "canonical_request_sha256 sha256 ''delete_document'' (document_material did')
        \<noteq> canonical_request_sha256 sha256 ''delete_document'' (document_material did)
      \<longrightarrow> delete_document sha256 valid respond' True definitions' screening' now' did' key aty' aid c'
        = Inl (AdmissionFailure (conflict ''idempotency_conflict''))"
  proof
    assume other: "canonical_request_sha256 sha256 ''delete_document'' (document_material did')
        \<noteq> canonical_request_sha256 sha256 ''delete_document'' (document_material did)"
    have "reserve_idempotency sha256 now' key ''delete_document'' aid (document_material did') c'
        = Inl (conflict ''idempotency_conflict'')"
      using answered_conflict [of sha256 key "''delete_document''" aid "document_material did" body c'
          "''delete_document''" aid "document_material did'" now'] acc other by blast
    then show "delete_document sha256 valid respond' True definitions' screening' now' did' key aty' aid c'
        = Inl (AdmissionFailure (conflict ''idempotency_conflict''))"
      by (simp add: delete_document_def run_mutation_def reserve_once_more_eq admission_of_def require_worker_def)
  qed
qed

theorem delete_request_idempotent_witness:
  "\<exists>c'. delete_document (\<lambda>s. s) (\<lambda>_. True) demo_respond True [reports] (Some ''screening'') 50 1 ''key-0002'' ''user''
      ''alice'' demo_ready = Inr (Accepted ''{}'', c')
    \<and> delete_document (\<lambda>s. s) (\<lambda>_. True) demo_respond True [reports] (Some ''screening'') 51 1 ''key-0002'' ''user''
      ''alice'' c' = Inr (Replayed ''{}'', c')"
proof -
  have "(case delete_document (\<lambda>s. s) (\<lambda>_. True) demo_respond True [reports] (Some ''screening'') 50 1 ''key-0002'' ''user''
      ''alice'' demo_ready of Inr (Accepted b, _) \<Rightarrow> b = ''{}'' | _ \<Rightarrow> False)"
    by code_simp
  then obtain c' where "delete_document (\<lambda>s. s) (\<lambda>_. True) demo_respond True [reports] (Some ''screening'') 50 1 ''key-0002''
      ''user'' ''alice'' demo_ready = Inr (Accepted ''{}'', c')"
    by (auto split: sum.splits mutation_reply.splits)
  with delete_request_idempotent [OF this] show ?thesis
    by blast
qed

text \<open>C12. A recorded decision is about the latest sealed revision of a document under review, carries
  the revision's manifest digest, the action and the target, and is the only one: no later decision
  on that revision is accepted.\<close>

theorem decision_binds_manifest:
  assumes "record_decision now did rid action target idem aty aid screening c = Inr (m, c')"
  shows "(\<exists>d r dec. get_document c did = Some d \<and> doc_state d = REVIEW_REQUIRED
      \<and> get_revision c rid = Some r \<and> rev_document_id r = did \<and> rev_status r = REV_SEALED
      \<and> map_option rev_id (latest_sealed_revision c did) = Some rid
      \<and> decision_of c rid = None \<and> decision_of c' rid = Some dec \<and> dec_document_id dec = did
      \<and> Some (dec_manifest_sha256 dec) = rev_manifest_sha256 r
      \<and> dec_action dec = action \<and> dec_target_document_id dec = target)
    \<and> (\<forall>now' did' action' target' idem' aty' aid' screening'.
        \<exists>e. record_decision now' did' rid action' target' idem' aty' aid' screening' c' = Inl e)"
  using record_decision_row [OF assms] decided_once [where c = c' and rid = rid] by auto

theorem decision_binds_manifest_witness:
  "\<exists>m c' dec. record_decision 50 1 3 KEEP None demo_reservation ''user'' ''alice'' ''screening'' (demo_preflighted False)
      = Inr (m, c') \<and> decision_of c' 3 = Some dec \<and> dec_action dec = KEEP
    \<and> (\<exists>e. record_decision 51 1 3 CANCEL None demo_reservation ''user'' ''alice'' ''screening'' c' = Inl e)"
proof -
  have "\<not> isl (record_decision 50 1 3 KEEP None demo_reservation ''user'' ''alice'' ''screening'' (demo_preflighted False))"
    by code_simp
  then obtain m c' where run: "record_decision 50 1 3 KEEP None demo_reservation ''user'' ''alice'' ''screening''
      (demo_preflighted False) = Inr (m, c')"
    by (metis Inr_projr prod.collapse)
  with decision_binds_manifest [OF run] show ?thesis
    by blast
qed

end
